(* ===== verification/Base_Prelude.thy ===== *)
theory Base_Prelude
  imports Main "HOL-Library.AList" "HOL-Library.Sublist" "HOL-Library.Product_Lexorder"
begin

text \<open>
  The prelude of the development: what the components share of the Python language.

  \<^item> errors as values: an operation that may raise returns \<open>err + 'a\<close>;
  \<^item> instants: a \<open>datetime\<close> in UTC is the number of microseconds since the epoch, so that
    \<open>timedelta(seconds=n)\<close> is \<open>seconds n\<close> and \<open>int(t.timestamp())\<close> is
    \<open>timestamp t\<close>;
  \<^item> text: \<open>str.strip\<close>, \<open>str.lower\<close>, \<open>needle in text\<close> on ASCII text;
  \<^item> tables: a database table is the list of its rows in insertion order; a \<open>SELECT\<close> is a
    \<open>filter\<close> followed by a \<open>sort_key\<close>, an \<open>UPDATE\<close> a \<open>map\<close>;
  \<^item> the loop that appends a key unless it is already there, which several normalisers of the
    code share (\<open>dedup_onto\<close>).

  The collections \<open>enf_defs\<close> and \<open>grid_intros\<close> are filled by the later theories.
\<close>

named_theorems enf_defs "definitions of the straight-line operations, unfolded by their proofs"
named_theorems grid_intros "closure rules of the values with a fixed number of decimal places"

subsection \<open>Errors as values\<close>

datatype err =
    HTTPException nat string
  | IntegrityError
  | KeyError string
  | ValueError string
  | TypeError string
  | AttributeError string
  | RuntimeError string
  | OSError string
  | TimeoutError
  | SQLAlchemyError string
  | HTTPError string
  | OtherError string

type_synonym 'a res = "err + 'a"

definition bind_res :: "'a res \<Rightarrow> ('a \<Rightarrow> 'b res) \<Rightarrow> 'b res" where
  "bind_res r f = (case r of Inl e \<Rightarrow> Inl e | Inr x \<Rightarrow> f x)"

lemma bind_res_simps [simp]:
  "bind_res (Inl e) f = Inl e"
  "bind_res (Inr x) f = f x"
  by (simp_all add: bind_res_def)

lemma bind_res_eq_Inr [simp]:
  "bind_res r f = Inr y \<longleftrightarrow> (\<exists>x. r = Inr x \<and> f x = Inr y)"
  by (cases r) auto

lemma bind_res_eq_Inl:
  "bind_res r f = Inl e \<longleftrightarrow> r = Inl e \<or> (\<exists>x. r = Inr x \<and> f x = Inl e)"
  by (cases r) auto

subsection \<open>Identifiers and instants\<close>

type_synonym uuid = nat
type_synonym instant = int

definition seconds :: "int \<Rightarrow> int" where
  "seconds n = n * 1000000"

definition timestamp :: "instant \<Rightarrow> int" where
  "timestamp t = t div 1000000"

definition fromtimestamp :: "int \<Rightarrow> instant" where
  "fromtimestamp n = n * 1000000"

lemma seconds_mono [simp]: "seconds a \<le> seconds b \<longleftrightarrow> a \<le> b"
  by (simp add: seconds_def)

lemma seconds_pos [simp]: "0 < seconds n \<longleftrightarrow> 0 < n"
  by (simp add: seconds_def)

lemma fromtimestamp_timestamp_le: "fromtimestamp (timestamp t) \<le> t"
  by (simp add: fromtimestamp_def timestamp_def)

text \<open>The clamp \<open>max(lo, min(int(value), hi))\<close> that guards every configured number.\<close>

definition clamp :: "int \<Rightarrow> int \<Rightarrow> int \<Rightarrow> int" where
  "clamp lo hi v = max lo (min v hi)"

lemma clamp_bounds: "lo \<le> hi \<Longrightarrow> lo \<le> clamp lo hi v \<and> clamp lo hi v \<le> hi"
  by (auto simp: clamp_def)

lemma clamp_id [simp]: "lo \<le> v \<Longrightarrow> v \<le> hi \<Longrightarrow> clamp lo hi v = v"
  by (simp add: clamp_def)

subsection \<open>Text\<close>

definition py_space :: "char \<Rightarrow> bool" where
  "py_space c = (let n = (of_char c :: nat) in (9 \<le> n \<and> n \<le> 13) \<or> (28 \<le> n \<and> n \<le> 32))"

definition lower_char :: "char \<Rightarrow> char" where
  "lower_char c = (let n = (of_char c :: nat) in if 65 \<le> n \<and> n \<le> 90 then char_of (n + 32) else c)"

definition lower :: "string \<Rightarrow> string" where
  "lower s = map lower_char s"

definition strip :: "string \<Rightarrow> string" where
  "strip s = rev (dropWhile py_space (rev (dropWhile py_space s)))"

fun contains :: "string \<Rightarrow> string \<Rightarrow> bool" where
  "contains needle [] = (needle = [])"
| "contains needle (c # cs) = (prefix needle (c # cs) \<or> contains needle cs)"

lemma contains_iff_sublist: "contains needle s \<longleftrightarrow> sublist needle s"
  by (induction s) (auto simp: sublist_Cons_right)

lemma lower_char_idem [simp]: "lower_char (lower_char c) = lower_char c"
  by (auto simp: lower_char_def Let_def)

lemma lower_idem [simp]: "lower (lower s) = lower s"
  by (simp add: lower_def)

lemma lower_Nil [simp]: "lower [] = []" "lower s = [] \<longleftrightarrow> s = []" "[] = lower s \<longleftrightarrow> s = []"
  by (auto simp: lower_def)

lemma py_space_lower [simp]: "py_space (lower_char c) = py_space c"
  by (auto simp: lower_char_def py_space_def Let_def)

lemma dropWhile_map_lower:
  "dropWhile py_space (map lower_char s) = map lower_char (dropWhile py_space s)"
  by (induction s) auto

lemma strip_lower: "strip (lower s) = lower (strip s)"
  by (simp add: strip_def lower_def dropWhile_map_lower rev_map)

lemma dropWhile_rev_idem:
  assumes "dropWhile p s = s"
  shows "dropWhile p (rev (dropWhile p (rev s))) = rev (dropWhile p (rev s))"
proof (cases "rev (dropWhile p (rev s))")
  case Nil
  then show ?thesis by (simp only: dropWhile.simps)
next
  case (Cons c cs)
  have "suffix (dropWhile p (rev s)) (rev s)" by (rule suffix_dropWhile)
  then have "prefix (c # cs) s" using Cons by (metis suffix_to_prefix rev_rev_ident)
  then obtain t where "s = c # t" by (auto simp: prefix_def)
  with assms have "\<not> p c" by (auto split: if_splits dest: arg_cong [where f = length])
      (metis impossible_Cons length_dropWhile_le)
  with Cons show ?thesis by simp
qed

lemma strip_idem [simp]: "strip (strip s) = strip s"
  by (simp add: strip_def dropWhile_rev_idem)

lemma strip_lower_strip [simp]: "strip (lower (strip s)) = lower (strip s)"
  by (simp add: strip_lower)

lemma strip_Nil [simp]: "strip [] = []"
  by (simp add: strip_def)

subsection \<open>Order-preserving removal of duplicates\<close>

text \<open>
  \<^verbatim>\<open>
  out = []
  for raw in values:
      key = f(raw)
      if not keep(key): continue
      if key not in out: out.append(key)
  \<close>
\<close>

fun dedup_onto :: "('b \<Rightarrow> bool) \<Rightarrow> ('a \<Rightarrow> 'b) \<Rightarrow> 'b list \<Rightarrow> 'a list \<Rightarrow> 'b list" where
  "dedup_onto keep f out [] = out"
| "dedup_onto keep f out (x # xs) =
     (if \<not> keep (f x) then dedup_onto keep f out xs
      else if f x \<in> set out then dedup_onto keep f out xs
      else dedup_onto keep f (out @ [f x]) xs)"

lemma distinct_dedup_onto: "distinct out \<Longrightarrow> distinct (dedup_onto keep f out xs)"
  by (induction keep f out xs rule: dedup_onto.induct) auto

lemma set_dedup_onto: "set (dedup_onto keep f out xs) = set out \<union> {y \<in> f ` set xs. keep y}"
  by (induction keep f out xs rule: dedup_onto.induct) auto

lemma dedup_onto_fixpoint:
  assumes "\<forall>y \<in> set xs. keep (f y) \<and> f y = y"
    and "distinct (out @ xs)"
  shows "dedup_onto keep f out xs = out @ xs"
  using assms
proof (induction xs arbitrary: out)
  case Nil
  then show ?case by simp
next
  case (Cons x xs)
  then have "keep x" "f x = x" by auto
  moreover have "dedup_onto keep f (out @ [x]) xs = (out @ [x]) @ xs"
    using Cons.prems by (intro Cons.IH) auto
  ultimately show ?case using Cons.prems by simp
qed

subsection \<open>Tables\<close>

text \<open>
  \<open>scalar_one_or_none\<close> of a query over a unique key: the first row, if there is one.
\<close>

definition first_row :: "('a \<Rightarrow> bool) \<Rightarrow> 'a list \<Rightarrow> 'a option" where
  "first_row p rows = find p rows"

lemma first_row_None: "first_row p rows = None \<longleftrightarrow> (\<forall>r \<in> set rows. \<not> p r)"
  by (auto simp: first_row_def find_None_iff)

lemma first_row_SomeD: "first_row p rows = Some r \<Longrightarrow> r \<in> set rows \<and> p r"
  by (auto simp: first_row_def find_Some_iff in_set_conv_nth)

lemma first_row_append_Some:
  "first_row p rows = Some r \<Longrightarrow> first_row p (rows @ more) = Some r"
  by (induction rows) (auto simp: first_row_def split: if_splits)

lemma first_row_append_None:
  "first_row p rows = None \<Longrightarrow> first_row p (rows @ more) = first_row p more"
  by (induction rows) (auto simp: first_row_def split: if_splits)

text \<open>\<open>UPDATE ... WHERE\<close>, with the number of rows it matched.\<close>

definition update_where :: "('a \<Rightarrow> bool) \<Rightarrow> ('a \<Rightarrow> 'a) \<Rightarrow> 'a list \<Rightarrow> 'a list" where
  "update_where p f rows = map (\<lambda>r. if p r then f r else r) rows"

definition count_where :: "('a \<Rightarrow> bool) \<Rightarrow> 'a list \<Rightarrow> nat" where
  "count_where p rows = length (filter p rows)"

lemma length_update_where [simp]: "length (update_where p f rows) = length rows"
  by (simp add: update_where_def)

lemma update_where_none: "(\<And>r. r \<in> set rows \<Longrightarrow> \<not> p r) \<Longrightarrow> update_where p f rows = rows"
  by (simp add: update_where_def map_idI)

lemma map_update_where:
  "(\<And>r. g (f r) = g r) \<Longrightarrow> map g (update_where p f rows) = map g rows"
  by (simp add: update_where_def)

lemma set_update_where: "set (update_where p f rows) = (\<lambda>r. if p r then f r else r) ` set rows"
  by (simp add: update_where_def)

lemma in_update_whereE:
  assumes "r \<in> set (update_where p f rows)"
  obtains r0 where "r0 \<in> set rows" "r = (if p r0 then f r0 else r0)"
  using assms by (auto simp: set_update_where)

lemma first_row_update_where_key:
  assumes "\<And>r. k (f r) = k r"
  shows "first_row (\<lambda>r. k r = i) (update_where p f rows) =
    map_option (\<lambda>r. if p r then f r else r) (first_row (\<lambda>r. k r = i) rows)"
  using assms by (induction rows) (auto simp: first_row_def update_where_def)

lemma first_row_overwrite:
  assumes "first_row (\<lambda>r. k r = k x) rows = Some r0"
  shows "first_row (\<lambda>r. k r = k x) (update_where (\<lambda>r. k r = k x) (\<lambda>_. x) rows) = Some x"
  using assms by (induction rows) (auto simp: first_row_def update_where_def split: if_splits)

lemma count_where_unique:
  assumes "distinct (map k rows)"
  shows "count_where (\<lambda>r. k r = i \<and> p r) rows \<le> 1"
  using assms unfolding count_where_def
  by (induction rows) (auto simp: filter_empty_conv, metis image_eqI length_0_conv le_zero_eq filter_False)

lemma first_row_unique:
  assumes "distinct (map k rows)" "r \<in> set rows"
  shows "first_row (\<lambda>x. k x = k r) rows = Some r"
  using assms by (induction rows) (auto simp: first_row_def image_iff)

lemma first_row_the:
  assumes "r \<in> set rows" "p r" "\<And>x. x \<in> set rows \<Longrightarrow> p x \<Longrightarrow> x = r"
  shows "first_row p rows = Some r"
proof (cases "first_row p rows")
  case None
  with assms(1,2) show ?thesis by (auto simp: first_row_None)
next
  case (Some h)
  from assms(3) [of h] first_row_SomeD [OF Some] Some show ?thesis by simp
qed

lemma sum_list_update_where:
  fixes g :: "'a \<Rightarrow> 'b::ab_group_add"
  assumes "distinct (map k rows)" "r \<in> set rows"
  shows "sum_list (map g (update_where (\<lambda>x. k x = k r) f rows)) =
    sum_list (map g rows) - g r + g (f r)"
  using assms
proof (induction rows)
  case Nil
  then show ?case by simp
next
  case (Cons x xs)
  show ?case
  proof (cases "x = r")
    case True
    with Cons.prems have "\<And>y. y \<in> set xs \<Longrightarrow> k y \<noteq> k r" by (auto simp: image_iff)
    then have "update_where (\<lambda>y. k y = k r) f xs = xs" by (rule update_where_none)
    with True show ?thesis by (simp add: update_where_def)
  next
    case False
    with Cons.prems have "r \<in> set xs" "k x \<noteq> k r" by (auto simp: image_iff)
    with Cons show ?thesis by (simp add: update_where_def algebra_simps)
  qed
qed

lemma filter_update_where:
  assumes "\<And>r. r \<in> set rows \<Longrightarrow> p r \<Longrightarrow> \<not> q r \<and> \<not> q (f r)"
  shows "filter q (update_where p f rows) = filter q rows"
  using assms by (induction rows) (auto simp: update_where_def)

lemma map_update_where_on:
  assumes "\<And>r. r \<in> set rows \<Longrightarrow> p r \<Longrightarrow> g (f r) = g r"
  shows "map g (update_where p f rows) = map g rows"
  using assms by (auto simp: update_where_def)

lemma in_update_where_other:
  assumes "r \<in> set rows" "\<not> p r"
  shows "r \<in> set (update_where p f rows)"
  using assms by (force simp: set_update_where)

end
