(* ===== verification/Base_Decimal.thy ===== *)
theory Base_Decimal
  imports Base_Prelude Complex_Main
begin

text \<open>
  Money. A finite \<open>decimal.Decimal\<close> is the rational number it denotes. Every amount of the
  enforcement tables is a \<open>Numeric(14, 4)\<close> or \<open>Numeric(14, 6)\<close> column, so the sums,
  differences and products the code forms stay far below the 28 significant digits of the
  decimal context and are exact; \<open>NaN\<close> and infinities are not amounts of any column.

  \<open>quantize n x\<close> is \<open>x.quantize(Decimal(10) ** -n)\<close> with the context's default
  rounding ROUND_HALF_EVEN: \<open>quantize 4\<close> stands for the source's
  \<open>_quantize(x, "0.0001")\<close>, \<open>quantize 6\<close> for \<open>"0.000001"\<close>,
  \<open>quantize 2\<close> for \<open>"0.01"\<close>. \<open>on_grid n x\<close> says that \<open>x\<close> has at
  most \<open>n\<close> decimal places: the values \<open>quantize n\<close> leaves alone.
\<close>

definition round_half_even :: "rat \<Rightarrow> int" where
  "round_half_even x =
     (let f = \<lfloor>x\<rfloor>; d = x - of_int f in
      if d < 1 / 2 then f
      else if 1 / 2 < d then f + 1
      else if even f then f else f + 1)"

definition quantize :: "nat \<Rightarrow> rat \<Rightarrow> rat" where
  "quantize n x = of_int (round_half_even (x * 10 ^ n)) / 10 ^ n"

definition on_grid :: "nat \<Rightarrow> rat \<Rightarrow> bool" where
  "on_grid n x \<longleftrightarrow> x * 10 ^ n \<in> \<int>"

abbreviation on_grid4 :: "rat \<Rightarrow> bool" where
  "on_grid4 \<equiv> on_grid 4"

lemma round_half_even_of_int [simp]: "round_half_even (of_int k) = k"
  by (simp add: round_half_even_def)

lemma round_half_even_bounds:
  "x - 1 / 2 \<le> of_int (round_half_even x)" "of_int (round_half_even x) \<le> x + 1 / 2"
proof -
  have "of_int \<lfloor>x\<rfloor> \<le> x" "x < of_int \<lfloor>x\<rfloor> + 1" by linarith+
  then show "x - 1 / 2 \<le> of_int (round_half_even x)" "of_int (round_half_even x) \<le> x + 1 / 2"
    by (simp_all add: round_half_even_def Let_def) linarith+
qed

lemma round_half_even_mono: "x \<le> y \<Longrightarrow> round_half_even x \<le> round_half_even y"
proof -
  assume le: "x \<le> y"
  then have fl: "\<lfloor>x\<rfloor> \<le> \<lfloor>y\<rfloor>" by (rule floor_mono)
  show ?thesis
  proof (cases "\<lfloor>x\<rfloor> = \<lfloor>y\<rfloor>")
    case True
    with le show ?thesis by (auto simp: round_half_even_def Let_def)
  next
    case False
    with fl have "\<lfloor>x\<rfloor> + 1 \<le> \<lfloor>y\<rfloor>" by simp
    then show ?thesis by (auto simp: round_half_even_def Let_def)
  qed
qed

lemma on_grid_quantize [simp, grid_intros]: "on_grid n (quantize n x)"
  by (simp add: on_grid_def quantize_def)

lemma quantize_grid [simp]: "on_grid n x \<Longrightarrow> quantize n x = x"
  by (auto simp: on_grid_def quantize_def field_simps elim!: Ints_cases)

lemma quantize_idem: "quantize n (quantize n x) = quantize n x"
  by simp

lemma quantize_mono: "x \<le> y \<Longrightarrow> quantize n x \<le> quantize n y"
  by (simp add: quantize_def divide_right_mono round_half_even_mono)

lemma on_grid_0 [simp, grid_intros]: "on_grid n 0"
  by (simp add: on_grid_def)

lemma on_grid_numeral [simp, grid_intros]: "on_grid n (numeral k)" "on_grid n 1"
  by (simp_all add: on_grid_def)

lemma on_grid_of_int [simp, grid_intros]: "on_grid n (of_int k)"
  by (simp add: on_grid_def)

lemma on_grid_add [simp, grid_intros]: "on_grid n x \<Longrightarrow> on_grid n y \<Longrightarrow> on_grid n (x + y)"
  by (simp add: on_grid_def distrib_right)

lemma on_grid_diff [simp, grid_intros]: "on_grid n x \<Longrightarrow> on_grid n y \<Longrightarrow> on_grid n (x - y)"
  by (simp add: on_grid_def left_diff_distrib)

lemma on_grid_min [simp, grid_intros]: "on_grid n x \<Longrightarrow> on_grid n y \<Longrightarrow> on_grid n (min x y)"
  by (simp add: min_def)

lemma on_grid_max [simp, grid_intros]: "on_grid n x \<Longrightarrow> on_grid n y \<Longrightarrow> on_grid n (max x y)"
  by (simp add: max_def)

lemma on_grid_sum_list [grid_intros]:
  "(\<And>x. x \<in> set xs \<Longrightarrow> on_grid n x) \<Longrightarrow> on_grid n (sum_list xs)"
  by (induction xs) auto

lemma quantize_0 [simp]: "quantize n 0 = 0"
  by simp

lemma quantize_nonneg [simp]: "0 \<le> x \<Longrightarrow> 0 \<le> quantize n x"
  using quantize_mono [of 0 x n] by simp

lemma quantize_error: "\<bar>quantize n x - x\<bar> \<le> 1 / (2 * 10 ^ n)"
proof -
  have "\<bar>of_int (round_half_even (x * 10 ^ n)) - x * 10 ^ n\<bar> \<le> 1 / 2"
    using round_half_even_bounds [of "x * 10 ^ n"] by linarith
  moreover have "quantize n x - x = (of_int (round_half_even (x * 10 ^ n)) - x * 10 ^ n) / 10 ^ n"
    by (simp add: quantize_def field_simps)
  ultimately have "\<bar>quantize n x - x\<bar> \<le> (1 / 2) / 10 ^ n"
    by (simp only: abs_divide) (simp add: divide_right_mono del: divide_divide_eq_left)
  then show ?thesis by (simp add: field_simps)
qed

text \<open>
  \<open>Decimal.quantize\<close> raises \<open>InvalidOperation\<close> when the result would need more than 28
  digits. No amount that fits a \<open>Numeric(14, 4)\<close> column gets near that.
\<close>

lemma quantize_fits_context:
  assumes "\<bar>x\<bar> < 10 ^ 10"
  shows "\<bar>quantize 4 x\<bar> * 10 ^ 4 < 10 ^ 28"
proof -
  have "\<bar>quantize 4 x - x\<bar> \<le> 1 / (2 * 10 ^ 4)" by (rule quantize_error)
  also have "(1 / (2 * 10 ^ 4) :: rat) < 1" by simp
  finally have "\<bar>quantize 4 x\<bar> < 10 ^ 10 + 1" using assms by linarith
  then have "\<bar>quantize 4 x\<bar> * 10 ^ 4 < (10 ^ 10 + 1) * 10 ^ 4" by simp
  then show ?thesis by simp
qed

end
