(* ===== verification/Base_Calendar.thy ===== *)
theory Base_Calendar
  imports Base_Prelude
begin

text \<open>
  The proleptic Gregorian calendar of Python's \<open>datetime\<close>, as far as the code uses it:
  the date of an instant, the ordinal of a date, the length of a month
  (\<open>calendar.monthrange\<close>) and \<open>isoformat\<close>. Ordinal 1 is the first of January of year 1;
  the epoch 1970-01-01 has ordinal 719163.
\<close>

record date =
  d_year :: int
  d_month :: int
  d_day :: int

definition is_leap :: "int \<Rightarrow> bool" where
  "is_leap y \<longleftrightarrow> y mod 4 = 0 \<and> (y mod 100 \<noteq> 0 \<or> y mod 400 = 0)"

definition leap_day :: "int \<Rightarrow> int" where
  "leap_day y = (if is_leap y then 1 else 0)"

definition days_before_year :: "int \<Rightarrow> int" where
  "days_before_year y =
     (y - 1) * 365 + (y - 1) div 4 - (y - 1) div 100 + (y - 1) div 400"

definition days_before_month :: "int \<Rightarrow> int \<Rightarrow> int" where
  "days_before_month y m =
     (if m \<le> 1 then 0 else if m = 2 then 31 else
      leap_day y +
      (if m = 3 then 59 else if m = 4 then 90 else if m = 5 then 120 else if m = 6 then 151
       else if m = 7 then 181 else if m = 8 then 212 else if m = 9 then 243
       else if m = 10 then 273 else if m = 11 then 304 else if m = 12 then 334 else 365))"

definition month_length :: "int \<Rightarrow> int \<Rightarrow> int" where
  "month_length y m = days_before_month y (m + 1) - days_before_month y m"

definition toordinal :: "date \<Rightarrow> int" where
  "toordinal d = days_before_year (d_year d) + days_before_month (d_year d) (d_month d) + d_day d"

definition year_of_ordinal :: "int \<Rightarrow> int" where
  "year_of_ordinal n =
     (let y = n * 400 div 146097 + 1 in
      if n \<le> days_before_year y then y - 1
      else if days_before_year (y + 1) < n then y + 1 else y)"

definition month_of_yearday :: "int \<Rightarrow> int \<Rightarrow> int" where
  "month_of_yearday y k =
     (if k \<le> days_before_month y 2 then 1 else if k \<le> days_before_month y 3 then 2
      else if k \<le> days_before_month y 4 then 3 else if k \<le> days_before_month y 5 then 4
      else if k \<le> days_before_month y 6 then 5 else if k \<le> days_before_month y 7 then 6
      else if k \<le> days_before_month y 8 then 7 else if k \<le> days_before_month y 9 then 8
      else if k \<le> days_before_month y 10 then 9 else if k \<le> days_before_month y 11 then 10
      else if k \<le> days_before_month y 12 then 11 else 12)"

definition fromordinal :: "int \<Rightarrow> date" where
  "fromordinal n =
     (let y = year_of_ordinal n; k = n - days_before_year y; m = month_of_yearday y k
      in \<lparr>d_year = y, d_month = m, d_day = k - days_before_month y m\<rparr>)"

definition microseconds_per_day :: int where
  "microseconds_per_day = 86400000000"

definition ordinal_of_instant :: "instant \<Rightarrow> int" where
  "ordinal_of_instant t = t div microseconds_per_day + 719163"

definition instant_of_ordinal :: "int \<Rightarrow> instant" where
  "instant_of_ordinal n = (n - 719163) * microseconds_per_day"

definition date_of_instant :: "instant \<Rightarrow> date" where
  "date_of_instant t = fromordinal (ordinal_of_instant t)"

subsection \<open>The date of an instant is the right one\<close>

lemma div_lower_upper:
  fixes c d :: int
  assumes "0 < c"
  shows "c * (d div c) \<le> d" "d < c * (d div c) + c"
  using assms mult_div_mod_eq [of c d] pos_mod_sign [of c d] pos_mod_bound [of c d] by linarith+

lemma div_pred:
  fixes c y :: int
  assumes "0 < c"
  shows "y div c = (y - 1) div c + (if y mod c = 0 then 1 else 0)"
proof -
  have y: "y = c * (y div c) + y mod c" by simp
  show ?thesis
  proof (cases "y mod c = 0")
    case True
    have "(y - 1) div c = y div c - 1"
      by (rule int_div_pos_eq [where r = "c - 1"]) (use assms y True in \<open>auto simp: algebra_simps\<close>)
    with True show ?thesis by simp
  next
    case False
    with assms have "1 \<le> y mod c" "y mod c - 1 < c"
      using pos_mod_sign [of c y] pos_mod_bound [of c y] by linarith+
    then have "(y - 1) div c = y div c"
      by (intro int_div_pos_eq [where r = "y mod c - 1"]) (auto simp: algebra_simps)
    with False show ?thesis by simp
  qed
qed

lemma mod_400_100:
  fixes y :: int
  assumes "y mod 400 = 0"
  shows "y mod 100 = 0"
proof -
  have "(100 :: int) dvd 400" by simp
  with assms show ?thesis by (metis mod_0_imp_dvd dvd_imp_mod_0 dvd_trans)
qed

lemma mod_100_4:
  fixes y :: int
  assumes "y mod 100 = 0"
  shows "y mod 4 = 0"
proof -
  have "(4 :: int) dvd 100" by simp
  with assms show ?thesis by (metis mod_0_imp_dvd dvd_imp_mod_0 dvd_trans)
qed

lemma leap_count_step:
  fixes z a b c a' b' c' :: int
  assumes "a' = a + (if p then 1 else 0)" "b' = b + (if q then 1 else 0)"
    "c' = c + (if r then 1 else 0)" "r \<Longrightarrow> q" "q \<Longrightarrow> p"
  shows "z * 365 + a' - b' + c' =
    (z - 1) * 365 + a - b + c + 365 + (if p \<and> (\<not> q \<or> r) then 1 else 0)"
  using assms by (cases p; cases q; cases r) simp_all

lemma days_before_year_Suc: "days_before_year (y + 1) = days_before_year y + 365 + leap_day y"
proof -
  have "y * 365 + y div 4 - y div 100 + y div 400 =
      (y - 1) * 365 + (y - 1) div 4 - (y - 1) div 100 + (y - 1) div 400 + 365 +
      (if y mod 4 = 0 \<and> (\<not> y mod 100 = 0 \<or> y mod 400 = 0) then 1 else 0)"
    by (rule leap_count_step [OF div_pred div_pred div_pred])
      (simp_all only: zero_less_numeral mod_400_100 mod_100_4)
  then show ?thesis
    by (simp only: days_before_year_def leap_day_def is_leap_def add_diff_cancel_right')
qed

lemma leap_count_linear:
  fixes d a b c :: int
  assumes "4 * a \<le> d" "d < 4 * a + 4" "100 * b \<le> d" "d < 100 * b + 100"
    "400 * c \<le> d" "d < 400 * c + 400"
  shows "146097 * d - 800 < 400 * (d * 365 + a - b + c)"
    "400 * (d * 365 + a - b + c) < 146097 * d + 400"
  using assms by simp_all

lemma days_before_year_linear:
  "146097 * (y - 1) - 800 < 400 * days_before_year y"
  "400 * days_before_year y < 146097 * (y - 1) + 400"
  unfolding days_before_year_def
  by (rule leap_count_linear; rule div_lower_upper; simp only: zero_less_numeral)+

lemma year_of_ordinal_bounds:
  "days_before_year (year_of_ordinal n) < n" "n \<le> days_before_year (year_of_ordinal n + 1)"
proof -
  define k where "k = n * 400 div 146097"
  have "146097 * k \<le> n * 400" "n * 400 < 146097 * k + 146097"
    unfolding k_def by (rule div_lower_upper; simp only: zero_less_numeral)+
  moreover define y where "y = k + 1"
  ultimately have q: "146097 * (y - 1) \<le> 400 * n" "400 * n < 146097 * y" by simp_all
  have lo: "days_before_year (y - 1) < n"
    using q days_before_year_linear(2) [of "y - 1"] by (simp add: algebra_simps)
  have hi: "n \<le> days_before_year (y + 2)"
    using q days_before_year_linear(1) [of "y + 2"] by (simp add: algebra_simps)
  have "year_of_ordinal n =
      (if n \<le> days_before_year y then y - 1 else if days_before_year (y + 1) < n then y + 1 else y)"
    by (simp only: year_of_ordinal_def Let_def y_def k_def)
  with lo hi show "days_before_year (year_of_ordinal n) < n"
    "n \<le> days_before_year (year_of_ordinal n + 1)"
    by (simp_all add: add.assoc)
qed

lemma days_before_month_numeral:
  "days_before_month y 1 = 0" "days_before_month y 2 = 31"
  "days_before_month y 3 = leap_day y + 59" "days_before_month y 4 = leap_day y + 90"
  "days_before_month y 5 = leap_day y + 120" "days_before_month y 6 = leap_day y + 151"
  "days_before_month y 7 = leap_day y + 181" "days_before_month y 8 = leap_day y + 212"
  "days_before_month y 9 = leap_day y + 243" "days_before_month y 10 = leap_day y + 273"
  "days_before_month y 11 = leap_day y + 304" "days_before_month y 12 = leap_day y + 334"
  "days_before_month y 13 = leap_day y + 365"
  by (simp_all add: days_before_month_def)

lemma month_of_yearday_bounds:
  assumes "1 \<le> k" "k \<le> 365 + leap_day y"
  shows "1 \<le> month_of_yearday y k" "month_of_yearday y k \<le> 12"
    "days_before_month y (month_of_yearday y k) < k"
    "k \<le> days_before_month y (month_of_yearday y k + 1)"
  using assms
  by (simp_all add: month_of_yearday_def days_before_month_numeral)

lemma fromordinal_month_bounds:
  fixes n
  defines "d \<equiv> fromordinal n"
  shows "toordinal d = n" "1 \<le> d_month d" "d_month d \<le> 12" "1 \<le> d_day d"
    "d_day d \<le> month_length (d_year d) (d_month d)"
proof -
  define y where "y = year_of_ordinal n"
  define k where "k = n - days_before_year y"
  have "1 \<le> k" "k \<le> 365 + leap_day y"
    using year_of_ordinal_bounds [of n] by (auto simp: k_def y_def days_before_year_Suc)
  note m = month_of_yearday_bounds [OF this]
  have "d_year d = y" "d_month d = month_of_yearday y k"
    "d_day d = k - days_before_month y (month_of_yearday y k)"
    by (simp_all add: d_def fromordinal_def Let_def y_def [symmetric] k_def [symmetric])
  with m show "toordinal d = n" "1 \<le> d_month d" "d_month d \<le> 12" "1 \<le> d_day d"
    "d_day d \<le> month_length (d_year d) (d_month d)"
    by (simp_all add: toordinal_def month_length_def k_def)
qed

lemma instant_day_bounds:
  "instant_of_ordinal (ordinal_of_instant t) \<le> t"
  "t < instant_of_ordinal (ordinal_of_instant t + 1)"
proof -
  define k where "k = t div microseconds_per_day"
  have "microseconds_per_day * k \<le> t" "t < microseconds_per_day * k + microseconds_per_day"
    unfolding k_def by (rule div_lower_upper; simp add: microseconds_per_day_def)+
  then show "instant_of_ordinal (ordinal_of_instant t) \<le> t"
    "t < instant_of_ordinal (ordinal_of_instant t + 1)"
    by (simp_all add: instant_of_ordinal_def ordinal_of_instant_def k_def [symmetric] algebra_simps)
qed

lemma instant_of_ordinal_mono [simp]:
  "instant_of_ordinal m \<le> instant_of_ordinal n \<longleftrightarrow> m \<le> n"
  by (simp add: instant_of_ordinal_def microseconds_per_day_def)

subsection \<open>Text of numbers and dates\<close>

fun nat_text :: "nat \<Rightarrow> string" where
  "nat_text n = (if n < 10 then [char_of (48 + n)]
                 else nat_text (n div 10) @ [char_of (48 + n mod 10)])"

declare nat_text.simps [simp del]

definition int_text :: "int \<Rightarrow> string" where
  "int_text n = (if n < 0 then ''-'' @ nat_text (nat (- n)) else nat_text (nat n))"

definition pad_text :: "nat \<Rightarrow> nat \<Rightarrow> string" where
  "pad_text w n = (let s = nat_text n in replicate (w - length s) (CHR ''0'') @ s)"

definition date_isoformat :: "date \<Rightarrow> string" where
  "date_isoformat d =
     pad_text 4 (nat (d_year d)) @ ''-'' @ pad_text 2 (nat (d_month d)) @ ''-'' @
     pad_text 2 (nat (d_day d))"

definition isoformat :: "instant \<Rightarrow> string" where
  "isoformat t =
     (let us = t mod microseconds_per_day; s = us div 1000000; f = us mod 1000000 in
      date_isoformat (date_of_instant t) @ ''T'' @
      pad_text 2 (nat (s div 3600)) @ '':'' @ pad_text 2 (nat (s div 60 mod 60)) @ '':'' @
      pad_text 2 (nat (s mod 60)) @
      (if f = 0 then '''' else ''.'' @ pad_text 6 (nat f)) @ ''+00:00'')"

end
