(* ===== verification/Base_Json.thy ===== *)
theory Base_Json
  imports Base_Decimal Base_Calendar
begin

text \<open>
  Dynamically typed values: the \<open>Any\<close> of the JSON columns, request metadata and token claims.

  \<open>JDec n r\<close> is the text \<open>str(d)\<close> of a decimal \<open>d\<close> with \<open>n\<close> places and value
  \<open>r\<close> (a JSON number with a fraction is represented the same way), \<open>JTime t\<close> the text
  \<open>t.isoformat()\<close>. A dictionary is an association list in insertion order; assignment to a key
  is \<open>AList.update\<close>, which keeps the position of an existing key as Python does.
\<close>

datatype json =
    JNull
  | JBool bool
  | JInt int
  | JStr string
  | JDec nat rat
  | JTime instant
  | JList "json list"
  | JObj "(string \<times> json) list"

type_synonym dict = "(string \<times> json) list"

definition dict_get :: "dict \<Rightarrow> string \<Rightarrow> json" where
  "dict_get d k = (case map_of d k of None \<Rightarrow> JNull | Some v \<Rightarrow> v)"

definition dict_get_default :: "dict \<Rightarrow> string \<Rightarrow> json \<Rightarrow> json" where
  "dict_get_default d k v0 = (case map_of d k of None \<Rightarrow> v0 | Some v \<Rightarrow> v)"

definition dict_has :: "dict \<Rightarrow> string \<Rightarrow> bool" where
  "dict_has d k \<longleftrightarrow> k \<in> set (map fst d)"

text \<open>\<open>{**base, k1: v1, ...}\<close>\<close>

definition dict_merge :: "dict \<Rightarrow> dict \<Rightarrow> dict" where
  "dict_merge base new = fold (\<lambda>(k, v) d. AList.update k v d) new base"

fun py_truthy :: "json \<Rightarrow> bool" where
  "py_truthy JNull = False"
| "py_truthy (JBool b) = b"
| "py_truthy (JInt n) = (n \<noteq> 0)"
| "py_truthy (JStr s) = (s \<noteq> [])"
| "py_truthy (JDec n r) = True"
| "py_truthy (JTime t) = True"
| "py_truthy (JList xs) = (xs \<noteq> [])"
| "py_truthy (JObj d) = (d \<noteq> [])"

subsection \<open>str and repr\<close>

definition fixed_text :: "nat \<Rightarrow> rat \<Rightarrow> string" where
  "fixed_text n r =
     (let k = round_half_even (r * 10 ^ n); a = nat \<bar>k\<bar> in
      (if k < 0 then ''-'' else '''') @ nat_text (a div 10 ^ n) @
      (if n = 0 then '''' else ''.'' @ pad_text n (a mod 10 ^ n)))"

definition hex_digit :: "nat \<Rightarrow> char" where
  "hex_digit n = (if n < 10 then char_of (48 + n) else char_of (87 + n))"

definition repr_char :: "char \<Rightarrow> char \<Rightarrow> string" where
  "repr_char quote c =
     (let n = (of_char c :: nat) in
      if c = quote \<or> n = 92 then [CHR 0x5C, c]
      else if n = 9 then [CHR 0x5C, CHR ''t'']
      else if n = 10 then [CHR 0x5C, CHR ''n'']
      else if n = 13 then [CHR 0x5C, CHR ''r'']
      else if n < 32 \<or> n = 127 then [CHR 0x5C, CHR ''x'', hex_digit (n div 16), hex_digit (n mod 16)]
      else [c])"

definition repr_str :: "string \<Rightarrow> string" where
  "repr_str s =
     (let quote = (if CHR 0x27 \<in> set s \<and> CHR 0x22 \<notin> set s then CHR 0x22 else CHR 0x27) in
      [quote] @ concat (map (repr_char quote) s) @ [quote])"

fun join_text :: "string \<Rightarrow> string list \<Rightarrow> string" where
  "join_text sep [] = ''''"
| "join_text sep [s] = s"
| "join_text sep (s # ss) = s @ sep @ join_text sep ss"

fun py_repr :: "json \<Rightarrow> string" where
  "py_repr JNull = ''None''"
| "py_repr (JBool b) = (if b then ''True'' else ''False'')"
| "py_repr (JInt n) = int_text n"
| "py_repr (JStr s) = repr_str s"
| "py_repr (JDec n r) = repr_str (fixed_text n r)"
| "py_repr (JTime t) = repr_str (isoformat t)"
| "py_repr (JList xs) = ''['' @ join_text '', '' (map py_repr xs) @ '']''"
| "py_repr (JObj d) =
     ''{'' @ join_text '', '' (map (\<lambda>kv. repr_str (fst kv) @ '': '' @ py_repr (snd kv)) d) @ ''}''"

definition py_str :: "json \<Rightarrow> string" where
  "py_str v = (case v of JStr s \<Rightarrow> s | JDec n r \<Rightarrow> fixed_text n r | JTime t \<Rightarrow> isoformat t
    | _ \<Rightarrow> py_repr v)"

text \<open>\<open>str(value or "").strip()\<close>, the idiom the normalisers start with.\<close>

definition text_or_empty :: "json \<Rightarrow> string" where
  "text_or_empty v = (if py_truthy v then strip (py_str v) else '''')"

lemma text_or_empty_simps [simp]:
  "text_or_empty JNull = ''''" "text_or_empty (JStr s) = strip s"
  by (simp_all add: text_or_empty_def py_str_def)

lemma strip_text_or_empty [simp]: "strip (text_or_empty v) = text_or_empty v"
  by (simp add: text_or_empty_def)

text \<open>\<open>str(exception)\<close>\<close>

fun err_message :: "err \<Rightarrow> string" where
  "err_message (HTTPException code detail) = nat_text code @ '': '' @ detail"
| "err_message IntegrityError = ''IntegrityError''"
| "err_message (KeyError k) = repr_str k"
| "err_message TimeoutError = ''''"
| "err_message (ValueError s) = s"
| "err_message (TypeError s) = s"
| "err_message (AttributeError s) = s"
| "err_message (RuntimeError s) = s"
| "err_message (OSError s) = s"
| "err_message (SQLAlchemyError s) = s"
| "err_message (HTTPError s) = s"
| "err_message (OtherError s) = s"

subsection \<open>Decimal from text\<close>

definition is_digit :: "char \<Rightarrow> bool" where
  "is_digit c = (let n = (of_char c :: nat) in 48 \<le> n \<and> n \<le> 57)"

fun digits_value :: "nat \<Rightarrow> string \<Rightarrow> nat" where
  "digits_value acc [] = acc"
| "digits_value acc (c # cs) = digits_value (acc * 10 + (of_char c - 48)) cs"

text \<open>
  \<open>Decimal(text)\<close> for a finite number: sign, digits with an optional point, optional exponent.
  Other text raises \<open>InvalidOperation\<close>, here \<open>None\<close>.
\<close>

definition parse_exponent :: "string \<Rightarrow> int option" where
  "parse_exponent s =
     (let neg = (s \<noteq> [] \<and> hd s = CHR ''-'');
          ds = (if s \<noteq> [] \<and> (hd s = CHR ''-'' \<or> hd s = CHR ''+'') then tl s else s) in
      if ds = [] \<or> \<not> list_all is_digit ds then None
      else Some (if neg then - int (digits_value 0 ds) else int (digits_value 0 ds)))"

definition parse_unsigned :: "string \<Rightarrow> rat option" where
  "parse_unsigned s =
     (let ip = takeWhile is_digit s; r1 = dropWhile is_digit s;
          has_point = (r1 \<noteq> [] \<and> hd r1 = CHR ''.'');
          r2 = (if has_point then tl r1 else r1);
          fp = (if has_point then takeWhile is_digit r2 else []);
          r3 = (if has_point then dropWhile is_digit r2 else r2);
          mant = of_nat (digits_value 0 (ip @ fp)) / 10 ^ length fp in
      if ip = [] \<and> fp = [] then None
      else if r3 = [] then Some mant
      else if lower [hd r3] = ''e'' then
        (case parse_exponent (tl r3) of None \<Rightarrow> None
         | Some e \<Rightarrow> Some (if 0 \<le> e then mant * 10 ^ nat e else mant / 10 ^ nat (- e)))
      else None)"

definition parse_decimal :: "string \<Rightarrow> rat option" where
  "parse_decimal raw =
     (let s = strip raw in
      if s \<noteq> [] \<and> hd s = CHR ''-'' then map_option uminus (parse_unsigned (tl s))
      else if s \<noteq> [] \<and> hd s = CHR ''+'' then parse_unsigned (tl s)
      else parse_unsigned s)"

text \<open>\<open>_to_decimal(value, default)\<close>; the default of the source is \<open>Decimal("0")\<close>.\<close>

definition to_decimal_default :: "rat \<Rightarrow> json \<Rightarrow> rat" where
  "to_decimal_default dflt v =
     (case v of
        JNull \<Rightarrow> dflt
      | JInt n \<Rightarrow> of_int n
      | JDec n r \<Rightarrow> r
      | JStr s \<Rightarrow> (case parse_decimal s of None \<Rightarrow> dflt | Some r \<Rightarrow> r)
      | _ \<Rightarrow> dflt)"

definition to_decimal :: "json \<Rightarrow> rat" where
  "to_decimal v = to_decimal_default 0 v"

lemma to_decimal_JDec [simp]: "to_decimal (JDec n r) = r"
  by (simp add: to_decimal_def to_decimal_default_def)

lemma to_decimal_JInt [simp]: "to_decimal (JInt n) = of_int n"
  by (simp add: to_decimal_def to_decimal_default_def)

lemma to_decimal_JNull [simp]: "to_decimal JNull = 0"
  by (simp add: to_decimal_def to_decimal_default_def)

subsection \<open>Dictionaries\<close>

lemma dict_get_update [simp]:
  "dict_get (AList.update k v d) k' = (if k' = k then v else dict_get d k')"
  by (simp add: dict_get_def update_conv')

lemma dict_merge_simps [simp]:
  "dict_merge d [] = d"
  "dict_merge d ((k, v) # kvs) = dict_merge (AList.update k v d) kvs"
  by (simp_all add: dict_merge_def)

lemma dict_get_Cons [simp]:
  "dict_get ((k', v) # d) k = (if k = k' then v else dict_get d k)"
  by (simp add: dict_get_def)

lemma dict_get_Nil [simp]: "dict_get [] k = JNull"
  by (simp add: dict_get_def)

definition as_dict :: "json \<Rightarrow> dict" where
  "as_dict v = (case v of JObj d \<Rightarrow> d | _ \<Rightarrow> [])"

lemma as_dict_simps [simp]: "as_dict (JObj d) = d" "as_dict JNull = []"
  by (simp_all add: as_dict_def)

end
