(* ===== verification/Enf_Models.thy ===== *)
theory Enf_Models
  imports Base_Json
begin

text \<open>
  The data model of the enforcement control plane (src/app/models/enforcement_common.py,
  enforcement_policy_models.py, enforcement_decision_models.py, enforcement_approval_models.py)
  and the value objects of src/app/modules/enforcement/domain/service_models.py.

  An enum is a datatype with the source's members, a table row is a record (fields carry the
  initials of their class), a table is the list of its rows, and \<open>enf_db\<close> is the database an
  operation runs against. \<open>uuid4()\<close> is the counter \<open>db_next_id\<close>.
\<close>

subsection \<open>Enumerations\<close>

datatype enforcement_source = TERRAFORM | K8S_ADMISSION | CLOUD_EVENT

datatype enforcement_mode = SHADOW | SOFT | HARD

datatype decision_type = ALLOW | DENY | REQUIRE_APPROVAL | ALLOW_WITH_CREDITS

datatype credit_pool_type = RESERVED | EMERGENCY

datatype approval_status = PENDING | APPROVED | DENIED | EXPIRED | CANCELLED

datatype action_status = QUEUED | RUNNING | SUCCEEDED | FAILED | ACTION_CANCELLED

fun source_value :: "enforcement_source \<Rightarrow> string" where
  "source_value TERRAFORM = ''terraform''"
| "source_value K8S_ADMISSION = ''k8s_admission''"
| "source_value CLOUD_EVENT = ''cloud_event''"

fun mode_value :: "enforcement_mode \<Rightarrow> string" where
  "mode_value SHADOW = ''shadow''"
| "mode_value SOFT = ''soft''"
| "mode_value HARD = ''hard''"

fun pool_value :: "credit_pool_type \<Rightarrow> string" where
  "pool_value RESERVED = ''reserved''"
| "pool_value EMERGENCY = ''emergency''"

fun approval_status_value :: "approval_status \<Rightarrow> string" where
  "approval_status_value PENDING = ''pending''"
| "approval_status_value APPROVED = ''approved''"
| "approval_status_value DENIED = ''denied''"
| "approval_status_value EXPIRED = ''expired''"
| "approval_status_value CANCELLED = ''cancelled''"

text \<open>\<open>EnforcementSource(text)\<close>: the member with that value.\<close>

definition source_of_value :: "string \<Rightarrow> enforcement_source option" where
  "source_of_value s = find (\<lambda>x. source_value x = s) [TERRAFORM, K8S_ADMISSION, CLOUD_EVENT]"

lemma source_of_value_roundtrip [simp]: "source_of_value (source_value s) = Some s"
  by (cases s) (simp_all add: source_of_value_def)

text \<open>
  Modes are ordered by how strictly they enforce, decisions by how much they withhold. The orders
  are used to state that a stricter mode never decides more leniently.
\<close>

fun mode_rank :: "enforcement_mode \<Rightarrow> nat" where
  "mode_rank SHADOW = 0" | "mode_rank SOFT = 1" | "mode_rank HARD = 2"

lemma mode_rank_inj: "mode_rank a = mode_rank b \<Longrightarrow> a = b"
  by (cases a; cases b) auto

instantiation enforcement_mode :: linorder
begin

definition less_eq_enforcement_mode :: "enforcement_mode \<Rightarrow> enforcement_mode \<Rightarrow> bool" where
  "less_eq_enforcement_mode a b \<longleftrightarrow> mode_rank a \<le> mode_rank b"

definition less_enforcement_mode :: "enforcement_mode \<Rightarrow> enforcement_mode \<Rightarrow> bool" where
  "less_enforcement_mode a b \<longleftrightarrow> mode_rank a < mode_rank b"

instance
  by standard (auto simp: less_eq_enforcement_mode_def less_enforcement_mode_def dest: mode_rank_inj)

end

fun decision_severity :: "decision_type \<Rightarrow> nat" where
  "decision_severity ALLOW = 0"
| "decision_severity ALLOW_WITH_CREDITS = 0"
| "decision_severity REQUIRE_APPROVAL = 1"
| "decision_severity DENY = 2"

subsection \<open>Rows\<close>

record enforcement_policy =
  ep_id :: uuid
  ep_tenant_id :: uuid
  ep_terraform_mode :: enforcement_mode
  ep_terraform_mode_prod :: enforcement_mode
  ep_terraform_mode_nonprod :: enforcement_mode
  ep_k8s_admission_mode :: enforcement_mode
  ep_k8s_admission_mode_prod :: enforcement_mode
  ep_k8s_admission_mode_nonprod :: enforcement_mode
  ep_require_approval_for_prod :: bool
  ep_require_approval_for_nonprod :: bool
  ep_enforce_prod_separation :: bool
  ep_enforce_nonprod_separation :: bool
  ep_approval_routing_rules :: json
  ep_policy_document_schema_version :: string
  ep_policy_document_sha256 :: string
  ep_policy_document :: json
  ep_plan_monthly_ceiling_usd :: "rat option"
  ep_enterprise_monthly_ceiling_usd :: "rat option"
  ep_auto_approve_below_monthly_usd :: rat
  ep_hard_deny_above_monthly_usd :: rat
  ep_default_ttl_seconds :: int
  ep_policy_version :: int

record budget_allocation =
  ba_id :: uuid
  ba_tenant_id :: uuid
  ba_scope_key :: string
  ba_monthly_limit_usd :: rat
  ba_active :: bool
  ba_created_by_user_id :: "uuid option"

record credit_grant =
  cg_id :: uuid
  cg_tenant_id :: uuid
  cg_pool_type :: credit_pool_type
  cg_scope_key :: string
  cg_total_amount_usd :: rat
  cg_remaining_amount_usd :: rat
  cg_expires_at :: "instant option"
  cg_reason :: "string option"
  cg_active :: bool
  cg_created_by_user_id :: "uuid option"
  cg_created_at :: instant

record credit_allocation =
  ca_id :: uuid
  ca_tenant_id :: uuid
  ca_decision_id :: uuid
  ca_credit_grant_id :: uuid
  ca_credit_pool_type :: credit_pool_type
  ca_reserved_amount_usd :: rat
  ca_consumed_amount_usd :: rat
  ca_released_amount_usd :: rat
  ca_active :: bool
  ca_created_at :: instant
  ca_settled_at :: "instant option"

record enforcement_decision =
  ed_id :: uuid
  ed_tenant_id :: uuid
  ed_source :: enforcement_source
  ed_environment :: string
  ed_project_id :: string
  ed_action :: string
  ed_resource_reference :: string
  ed_decision :: decision_type
  ed_reason_codes :: "string list"
  ed_policy_version :: int
  ed_policy_document_schema_version :: string
  ed_policy_document_sha256 :: string
  ed_request_fingerprint :: string
  ed_idempotency_key :: string
  ed_request_payload :: dict
  ed_response_payload :: dict
  ed_estimated_monthly_delta_usd :: rat
  ed_estimated_hourly_delta_usd :: rat
  ed_burn_rate_daily_usd :: "rat option"
  ed_forecast_eom_usd :: "rat option"
  ed_risk_class :: "string option"
  ed_risk_score :: "int option"
  ed_anomaly_signal :: "bool option"
  ed_allocation_available_usd :: "rat option"
  ed_credits_available_usd :: "rat option"
  ed_reserved_allocation_usd :: rat
  ed_reserved_credit_usd :: rat
  ed_reservation_active :: bool
  ed_approval_required :: bool
  ed_approval_token_issued :: bool
  ed_token_expires_at :: "instant option"
  ed_created_by_user_id :: "uuid option"
  ed_created_at :: instant

record decision_ledger =
  dl_id :: uuid
  dl_tenant_id :: uuid
  dl_decision_id :: uuid
  dl_source :: enforcement_source
  dl_environment :: string
  dl_project_id :: string
  dl_action :: string
  dl_resource_reference :: string
  dl_decision :: decision_type
  dl_reason_codes :: "string list"
  dl_policy_version :: int
  dl_policy_document_schema_version :: string
  dl_policy_document_sha256 :: string
  dl_request_fingerprint :: string
  dl_idempotency_key :: string
  dl_estimated_monthly_delta_usd :: rat
  dl_estimated_hourly_delta_usd :: rat
  dl_burn_rate_daily_usd :: "rat option"
  dl_forecast_eom_usd :: "rat option"
  dl_risk_class :: "string option"
  dl_risk_score :: "int option"
  dl_anomaly_signal :: "bool option"
  dl_reserved_total_usd :: rat
  dl_approval_required :: bool
  dl_approval_request_id :: "uuid option"
  dl_approval_status :: "approval_status option"
  dl_request_payload_sha256 :: string
  dl_response_payload_sha256 :: string
  dl_created_by_user_id :: "uuid option"
  dl_decision_created_at :: instant
  dl_recorded_at :: instant

record approval_request =
  ar_id :: uuid
  ar_tenant_id :: uuid
  ar_decision_id :: uuid
  ar_status :: approval_status
  ar_requested_by_user_id :: "uuid option"
  ar_reviewed_by_user_id :: "uuid option"
  ar_review_notes :: "string option"
  ar_routing_rule_id :: "string option"
  ar_routing_trace :: dict
  ar_approval_token_hash :: "string option"
  ar_approval_token_expires_at :: "instant option"
  ar_approval_token_consumed_at :: "instant option"
  ar_expires_at :: instant
  ar_approved_at :: "instant option"
  ar_denied_at :: "instant option"
  ar_created_at :: instant
  ar_updated_at :: instant

record action_execution =
  ax_id :: uuid
  ax_tenant_id :: uuid
  ax_decision_id :: uuid
  ax_approval_request_id :: "uuid option"
  ax_action_type :: string
  ax_target_reference :: string
  ax_idempotency_key :: string
  ax_request_payload :: dict
  ax_request_payload_sha256 :: string
  ax_status :: action_status
  ax_attempt_count :: int
  ax_max_attempts :: int
  ax_retry_backoff_seconds :: int
  ax_lease_ttl_seconds :: int
  ax_next_retry_at :: instant
  ax_locked_by_worker_id :: "uuid option"
  ax_lease_expires_at :: "instant option"
  ax_last_error_code :: "string option"
  ax_last_error_message :: "string option"
  ax_result_payload :: "dict option"
  ax_result_payload_sha256 :: "string option"
  ax_created_by_user_id :: "uuid option"
  ax_started_at :: "instant option"
  ax_completed_at :: "instant option"
  ax_created_at :: instant

record enf_db =
  db_policies :: "enforcement_policy list"
  db_budgets :: "budget_allocation list"
  db_grants :: "credit_grant list"
  db_allocations :: "credit_allocation list"
  db_decisions :: "enforcement_decision list"
  db_ledger :: "decision_ledger list"
  db_approvals :: "approval_request list"
  db_actions :: "action_execution list"
  db_next_id :: uuid

definition empty_db :: enf_db where
  "empty_db = \<lparr>db_policies = [], db_budgets = [], db_grants = [], db_allocations = [],
     db_decisions = [], db_ledger = [], db_approvals = [], db_actions = [], db_next_id = 1\<rparr>"

text \<open>
  An operation returns its result, or the exception it raises, and the database it leaves behind.
  A request whose exception is raised before a commit leaves the database as it was: the session
  is closed and its transaction rolled back.
\<close>

type_synonym 'a outcome = "'a res \<times> enf_db"

subsection \<open>Value objects\<close>

record gate_input =
  gi_project_id :: string
  gi_environment :: string
  gi_action :: string
  gi_resource_reference :: string
  gi_estimated_monthly_delta_usd :: rat
  gi_estimated_hourly_delta_usd :: rat
  gi_metadata :: dict
  gi_idempotency_key :: "string option"
  gi_dry_run :: bool

record current_user =
  cu_id :: uuid
  cu_tenant_id :: "uuid option"
  cu_role :: string

record gate_evaluation_result =
  gr_decision :: enforcement_decision
  gr_approval :: "approval_request option"
  gr_approval_token :: "string option"
  gr_ttl_seconds :: int

record approval_token_context =
  tc_approval_id :: uuid
  tc_decision_id :: uuid
  tc_tenant_id :: uuid
  tc_project_id :: string
  tc_source :: enforcement_source
  tc_environment :: string
  tc_request_fingerprint :: string
  tc_resource_reference :: string
  tc_max_monthly_delta_usd :: rat
  tc_max_hourly_delta_usd :: rat
  tc_expires_at :: instant

record reservation_reconciliation_result =
  rr_decision :: enforcement_decision
  rr_released_reserved_usd :: rat
  rr_actual_monthly_delta_usd :: rat
  rr_drift_usd :: rat
  rr_status :: string
  rr_reconciled_at :: instant

record overdue_reconciliation_result =
  ov_released_count :: nat
  ov_total_released_usd :: rat
  ov_decision_ids :: "uuid list"
  ov_older_than_seconds :: int

end
