(* ===== verification/Enf_Utils.thy ===== *)
theory Enf_Utils
  imports Enf_Models "HOL-Library.List_Lexorder" "HOL-Library.Char_ord"
begin

text \<open>
  src/app/modules/enforcement/domain/service_utils.py: the normalisers, canonical JSON, request
  fingerprint, month bounds and CSV sanitising that every enforcement component uses.

  \<open>hashlib.sha256(...).hexdigest()\<close> is the argument \<open>sha\<close> of the functions that hash.
\<close>

definition policy_document_schema_version_default :: string where
  "policy_document_schema_version_default = ''valdrics.enforcement.policy.v1''"

definition policy_document_sha256_empty :: string where
  "policy_document_sha256_empty = replicate 64 (CHR ''0'')"

definition supported_reviewer_roles :: "string list" where
  "supported_reviewer_roles = [''owner'', ''admin'', ''member'']"

definition default_allowed_reviewer_roles :: "string list" where
  "default_allowed_reviewer_roles = [''owner'', ''admin'']"

definition permission_approve_nonprod :: string where
  "permission_approve_nonprod = ''remediation.approve.nonprod''"

definition permission_approve_prod :: string where
  "permission_approve_prod = ''remediation.approve.prod''"

subsection \<open>Environments, roles and string lists\<close>

definition normalize_environment :: "string \<Rightarrow> string" where
  "normalize_environment value =
     (let env = lower (strip value) in
      if env \<in> {''prod'', ''production'', ''live''} then ''prod''
      else if env \<in> {''nonprod'', ''non-prod'', ''dev'', ''test'', ''stage'', ''staging''}
      then ''nonprod''
      else if env = '''' then ''nonprod'' else env)"

definition is_production_environment :: "string \<Rightarrow> bool" where
  "is_production_environment value \<longleftrightarrow> normalize_environment value = ''prod''"

definition normalize_role_value :: "json \<Rightarrow> string" where
  "normalize_role_value value = lower (text_or_empty value)"

text \<open>Iterating a JSON value: lists, the characters of a string, the keys of an object.\<close>

definition py_iter :: "json \<Rightarrow> json list res" where
  "py_iter v = (case v of
      JList xs \<Rightarrow> Inr xs
    | JStr s \<Rightarrow> Inr (map (\<lambda>c. JStr [c]) s)
    | JDec n r \<Rightarrow> Inr (map (\<lambda>c. JStr [c]) (fixed_text n r))
    | JTime t \<Rightarrow> Inr (map (\<lambda>c. JStr [c]) (isoformat t))
    | JObj d \<Rightarrow> Inr (map (\<lambda>kv. JStr (fst kv)) d)
    | _ \<Rightarrow> Inl (TypeError ''object is not iterable''))"

definition normalize_string_values :: "(string \<Rightarrow> string) \<Rightarrow> json list \<Rightarrow> string list" where
  "normalize_string_values normalizer values =
     dedup_onto (\<lambda>_. True) normalizer [] (filter (\<lambda>v. v \<noteq> '''') (map text_or_empty values))"

definition normalize_string_list :: "(string \<Rightarrow> string) \<Rightarrow> json \<Rightarrow> string list res" where
  "normalize_string_list normalizer v =
     (if v = JNull then Inr []
      else bind_res (py_iter v) (\<lambda>values. Inr (normalize_string_values normalizer values)))"

definition normalize_role_values :: "json list \<Rightarrow> string list" where
  "normalize_role_values values =
     (let roles = dedup_onto (\<lambda>r. r \<in> set supported_reviewer_roles) normalize_role_value [] values in
      if roles = [] then default_allowed_reviewer_roles else roles)"

definition normalize_allowed_reviewer_roles :: "json \<Rightarrow> string list res" where
  "normalize_allowed_reviewer_roles v =
     (if v = JNull then Inr default_allowed_reviewer_roles
      else bind_res (py_iter v) (\<lambda>values. Inr (normalize_role_values values)))"

definition default_required_permission_for_environment :: "string \<Rightarrow> string" where
  "default_required_permission_for_environment environment =
     (if is_production_environment environment then permission_approve_prod
      else permission_approve_nonprod)"

subsection \<open>Canonical JSON and fingerprints\<close>

definition hex4 :: "nat \<Rightarrow> string" where
  "hex4 n = [hex_digit (n div 4096), hex_digit (n div 256 mod 16), hex_digit (n div 16 mod 16),
             hex_digit (n mod 16)]"

definition json_char :: "char \<Rightarrow> string" where
  "json_char c =
     (let n = (of_char c :: nat) in
      if n = 34 \<or> n = 92 then [CHR 0x5C, c]
      else if n = 8 then [CHR 0x5C, CHR ''b''] else if n = 9 then [CHR 0x5C, CHR ''t'']
      else if n = 10 then [CHR 0x5C, CHR ''n''] else if n = 12 then [CHR 0x5C, CHR ''f'']
      else if n = 13 then [CHR 0x5C, CHR ''r'']
      else if n < 32 \<or> 126 < n then [CHR 0x5C, CHR ''u''] @ hex4 n
      else [c])"

definition json_text :: "string \<Rightarrow> string" where
  "json_text s = [CHR 0x22] @ concat (map json_char s) @ [CHR 0x22]"

text \<open>\<open>json.dumps(value, sort_keys=True, separators=(",", ":"))\<close>\<close>

fun json_dumps :: "json \<Rightarrow> string" where
  "json_dumps JNull = ''null''"
| "json_dumps (JBool b) = (if b then ''true'' else ''false'')"
| "json_dumps (JInt n) = int_text n"
| "json_dumps (JStr s) = json_text s"
| "json_dumps (JDec n r) = json_text (fixed_text n r)"
| "json_dumps (JTime t) = json_text (isoformat t)"
| "json_dumps (JList xs) = ''['' @ join_text '','' (map json_dumps xs) @ '']''"
| "json_dumps (JObj d) =
     ''{'' @ join_text '','' (map (\<lambda>kv. json_text (fst kv) @ '':'' @ snd kv)
       (sort_key fst (map (\<lambda>kv. (fst kv, json_dumps (snd kv))) d))) @ ''}''"

definition payload_sha256 :: "(string \<Rightarrow> string) \<Rightarrow> dict \<Rightarrow> string" where
  "payload_sha256 sha payload = sha (json_dumps (JObj payload))"

definition canonical_json :: "dict \<Rightarrow> string" where
  "canonical_json payload = json_dumps (JObj payload)"

definition fingerprint_payload :: "enforcement_source \<Rightarrow> gate_input \<Rightarrow> dict" where
  "fingerprint_payload source gi =
     [(''source'', JStr (source_value source)),
      (''project_id'', JStr (gi_project_id gi)),
      (''environment'', JStr (normalize_environment (gi_environment gi))),
      (''action'', JStr (gi_action gi)),
      (''resource_reference'', JStr (gi_resource_reference gi)),
      (''estimated_monthly_delta_usd'', JDec 4 (quantize 4 (gi_estimated_monthly_delta_usd gi))),
      (''estimated_hourly_delta_usd'', JDec 6 (quantize 6 (gi_estimated_hourly_delta_usd gi))),
      (''metadata'', JObj (gi_metadata gi))]"

definition stable_fingerprint :: "(string \<Rightarrow> string) \<Rightarrow> enforcement_source \<Rightarrow> gate_input \<Rightarrow> string" where
  "stable_fingerprint sha source gi = sha (json_dumps (JObj (fingerprint_payload source gi)))"

subsection \<open>CSV cells\<close>

definition newline_to_space :: "char \<Rightarrow> char" where
  "newline_to_space c = (if c = CHR 0x0D \<or> c = CHR 0x0A then CHR '' '' else c)"

definition sanitize_csv_text :: "string \<Rightarrow> string" where
  "sanitize_csv_text s =
     (let normalized = map newline_to_space s in
      if normalized \<noteq> [] \<and> hd normalized \<in> {CHR ''='', CHR ''+'', CHR ''-'', CHR ''@''}
      then CHR 0x27 # normalized else normalized)"

definition sanitize_csv_cell :: "json \<Rightarrow> string" where
  "sanitize_csv_cell value = (if value = JNull then '''' else sanitize_csv_text (py_str value))"

subsection \<open>Months, reason codes, policy document references\<close>

definition month_bounds :: "instant \<Rightarrow> instant \<times> instant" where
  "month_bounds now =
     (let d = date_of_instant now; start = instant_of_ordinal (toordinal (d\<lparr>d_day := 1\<rparr>));
          after = (if d_month d = 12 then \<lparr>d_year = d_year d + 1, d_month = 1, d_day = 1\<rparr>
                   else \<lparr>d_year = d_year d, d_month = d_month d + 1, d_day = 1\<rparr>)
      in (start, instant_of_ordinal (toordinal after)))"

definition unique_reason_codes :: "string list \<Rightarrow> string list" where
  "unique_reason_codes values =
     dedup_onto (\<lambda>k. k \<noteq> '''') (\<lambda>v. lower (strip v)) [] values"

definition normalize_policy_document_schema_version :: "string \<Rightarrow> string" where
  "normalize_policy_document_schema_version value =
     (let normalized = strip value in
      if normalized = '''' then policy_document_schema_version_default else take 64 normalized)"

definition is_hex_char :: "char \<Rightarrow> bool" where
  "is_hex_char c \<longleftrightarrow> c \<in> set ''0123456789abcdef''"

definition normalize_policy_document_sha256 :: "string \<Rightarrow> string" where
  "normalize_policy_document_sha256 value =
     (let normalized = lower (strip value) in
      if length normalized \<noteq> 64 then policy_document_sha256_empty
      else if \<not> list_all is_hex_char normalized then policy_document_sha256_empty
      else normalized)"

definition gate_lock_timeout_seconds :: "json \<Rightarrow> rat" where
  "gate_lock_timeout_seconds raw =
     (let gate_timeout = max (5 / 100) (min (to_decimal_default 2 raw) 30) in
      max (5 / 100) (min (gate_timeout * (8 / 10)) 5))"

definition scope_of :: "string \<Rightarrow> string" where
  "scope_of scope_key =
     (let s = lower (strip (if scope_key = '''' then ''default'' else scope_key)) in
      if s = '''' then ''default'' else s)"

subsection \<open>What the normalisers guarantee\<close>

lemma normalize_environment_idem [simp]:
  "normalize_environment (normalize_environment e) = normalize_environment e"
proof -
  have lit: "lower (strip ''prod'') = ''prod''" "lower (strip ''nonprod'') = ''nonprod''"
    by code_simp+
  then show ?thesis
    by (auto simp: normalize_environment_def Let_def strip_lower)
qed

lemma is_production_environment_normalized [simp]:
  "is_production_environment (normalize_environment e) = is_production_environment e"
  by (simp add: is_production_environment_def)

lemma unique_reason_codes_distinct: "distinct (unique_reason_codes rs)"
  by (simp add: unique_reason_codes_def distinct_dedup_onto)

lemma set_unique_reason_codes:
  "set (unique_reason_codes rs) = {k \<in> (\<lambda>v. lower (strip v)) ` set rs. k \<noteq> ''''}"
  by (simp add: unique_reason_codes_def set_dedup_onto)

lemma unique_reason_codes_idem: "unique_reason_codes (unique_reason_codes rs) = unique_reason_codes rs"
proof -
  have "\<forall>y \<in> set (unique_reason_codes rs). y \<noteq> '''' \<and> lower (strip y) = y"
    by (auto simp: set_unique_reason_codes strip_lower)
  then have "dedup_onto (\<lambda>k. k \<noteq> '''') (\<lambda>v. lower (strip v)) [] (unique_reason_codes rs)
      = [] @ unique_reason_codes rs"
    by (intro dedup_onto_fixpoint) (auto simp: unique_reason_codes_distinct)
  then show ?thesis by (subst (1) unique_reason_codes_def) simp
qed

lemma normalize_role_values_supported: "set (normalize_role_values vs) \<subseteq> set supported_reviewer_roles"
  by (auto simp: normalize_role_values_def Let_def set_dedup_onto
      default_allowed_reviewer_roles_def supported_reviewer_roles_def)

lemma normalize_role_values_nonempty: "normalize_role_values vs \<noteq> []"
  by (simp add: normalize_role_values_def Let_def default_allowed_reviewer_roles_def)

lemma normalize_policy_document_sha256_shape:
  "length (normalize_policy_document_sha256 v) = 64"
  "list_all is_hex_char (normalize_policy_document_sha256 v)"
  by (auto simp: normalize_policy_document_sha256_def Let_def policy_document_sha256_empty_def
      is_hex_char_def list_all_iff)

lemma gate_lock_timeout_bounds:
  "5 / 100 \<le> gate_lock_timeout_seconds raw" "gate_lock_timeout_seconds raw \<le> 5"
  by (simp_all add: gate_lock_timeout_seconds_def Let_def)

lemma scope_of_idem [simp]: "scope_of (scope_of s) = scope_of s"
proof -
  have "lower (strip ''default'') = ''default''" by code_simp
  then show ?thesis by (auto simp: scope_of_def Let_def strip_lower)
qed

lemma month_bounds_contain:
  assumes "month_bounds now = (month_start, month_end)"
  shows "month_start \<le> now \<and> now < month_end"
proof -
  define n where "n = ordinal_of_instant now"
  define d where "d = fromordinal n"
  have d: "toordinal d = n" "1 \<le> d_month d" "d_month d \<le> 12" "1 \<le> d_day d"
    "d_day d \<le> month_length (d_year d) (d_month d)"
    using fromordinal_month_bounds [of n] by (simp_all add: d_def)
  have first: "toordinal (d\<lparr>d_day := 1\<rparr>) \<le> n"
    using d by (simp add: toordinal_def)
  have "days_before_year (d_year d + 1) = days_before_year (d_year d) + days_before_month (d_year d) 13"
    by (simp add: days_before_year_Suc days_before_month_numeral)
  then have after: "n + 1 \<le> toordinal (if d_month d = 12
      then \<lparr>d_year = d_year d + 1, d_month = 1, d_day = 1\<rparr>
      else \<lparr>d_year = d_year d, d_month = d_month d + 1, d_day = 1\<rparr>)"
    using d by (auto simp: toordinal_def month_length_def days_before_month_numeral)
  have "month_start \<le> instant_of_ordinal n" "instant_of_ordinal (n + 1) \<le> month_end"
    using assms first after
    by (auto simp: month_bounds_def Let_def date_of_instant_def n_def [symmetric] d_def [symmetric])
  with instant_day_bounds [of now] show ?thesis by (simp add: n_def)
qed

end
