(* ===== verification/Enf_Permissions.thy ===== *)
theory Enf_Permissions
  imports Enf_Utils
begin

text \<open>
  src/app/shared/core/approval_permissions.py: which users may approve what.

  The identity tables it reads are the record \<open>identity_db\<close>. Reading them may raise, and so may
  iterating a malformed mapping: the loaders return \<open>res\<close>, and \<open>user_has_approval_permission\<close>
  turns a raised error into a refusal, as the source does.
\<close>

record scim_group =
  sg_id :: uuid
  sg_tenant_id :: uuid
  sg_display_name_norm :: "string option"

record scim_group_member =
  sm_tenant_id :: uuid
  sm_group_id :: uuid
  sm_user_id :: uuid

record identity_settings =
  is_tenant_id :: uuid
  is_scim_enabled :: bool
  is_scim_group_mappings :: json

record identity_db =
  idb_settings :: "identity_settings list"
  idb_groups :: "scim_group list"
  idb_members :: "scim_group_member list"

definition supported_approval_permissions :: "string list" where
  "supported_approval_permissions = [permission_approve_nonprod, permission_approve_prod]"

definition normalize_approval_permission :: "json \<Rightarrow> string option" where
  "normalize_approval_permission value =
     (let normalized = lower (text_or_empty value) in
      if normalized \<in> set supported_approval_permissions then Some normalized else None)"

definition normalize_approval_permissions :: "json \<Rightarrow> string list res" where
  "normalize_approval_permissions values =
     (if values = JNull then Inr []
      else bind_res (py_iter values) (\<lambda>vs.
        Inr (dedup_onto (\<lambda>_. True) id [] (List.map_filter normalize_approval_permission vs))))"

definition role_default_approval_permissions :: "string \<Rightarrow> string list" where
  "role_default_approval_permissions role =
     (let role_value = lower (strip role) in
      if role_value = ''owner'' then supported_approval_permissions
      else if role_value = ''admin'' then [permission_approve_nonprod]
      else [])"

definition load_scim_group_mappings :: "identity_db \<Rightarrow> uuid \<Rightarrow> dict list" where
  "load_scim_group_mappings idb tenant_id =
     (case first_row (\<lambda>r. is_tenant_id r = tenant_id) (idb_settings idb) of
        None \<Rightarrow> []
      | Some row \<Rightarrow>
          if \<not> is_scim_enabled row then []
          else (case is_scim_group_mappings row of
              JList items \<Rightarrow> List.map_filter (\<lambda>item. case item of JObj d \<Rightarrow> Some d | _ \<Rightarrow> None) items
            | _ \<Rightarrow> []))"

definition load_user_group_names :: "identity_db \<Rightarrow> uuid \<Rightarrow> uuid \<Rightarrow> string list" where
  "load_user_group_names idb tenant_id user_id =
     concat (map (\<lambda>m. concat (map (\<lambda>g.
         if sm_group_id m = sg_id g \<and> sm_tenant_id m = tenant_id \<and> sg_tenant_id g = tenant_id
            \<and> sm_user_id m = user_id
         then (case sg_display_name_norm g of None \<Rightarrow> [] | Some n \<Rightarrow>
                 if n = '''' then [] else [lower (strip n)])
         else []) (idb_groups idb))) (idb_members idb))"

fun collect_mapping_permissions :: "string list \<Rightarrow> dict list \<Rightarrow> string list \<Rightarrow> string list res" where
  "collect_mapping_permissions group_names [] permissions = Inr permissions"
| "collect_mapping_permissions group_names (m # ms) permissions =
     (let group = lower (strip (py_str (dict_get_default m ''group'' (JStr '''')))) in
      if group = '''' \<or> group \<notin> set group_names
      then collect_mapping_permissions group_names ms permissions
      else bind_res (normalize_approval_permissions (dict_get m ''permissions'')) (\<lambda>ps.
        collect_mapping_permissions group_names ms (permissions @ ps)))"

definition load_scim_approval_permissions :: "identity_db \<Rightarrow> uuid \<Rightarrow> uuid \<Rightarrow> string list res" where
  "load_scim_approval_permissions idb tenant_id user_id =
     (let mappings = load_scim_group_mappings idb tenant_id in
      if mappings = [] then Inr []
      else
        let group_names = load_user_group_names idb tenant_id user_id in
        if group_names = [] then Inr []
        else collect_mapping_permissions group_names mappings [])"

text \<open>
  \<open>identity\<close> is the identity store as the session sees it: \<open>Inl e\<close> when a query raises.
\<close>

definition user_has_approval_permission :: "identity_db res \<Rightarrow> current_user \<Rightarrow> string \<Rightarrow> bool" where
  "user_has_approval_permission identity user required_permission =
     (case normalize_approval_permission (JStr required_permission) of
        None \<Rightarrow> False
      | Some required \<Rightarrow>
          if required \<in> set (role_default_approval_permissions (cu_role user)) then True
          else (case cu_tenant_id user of
              None \<Rightarrow> False
            | Some tenant_id \<Rightarrow>
                (case bind_res identity (\<lambda>idb. load_scim_approval_permissions idb tenant_id (cu_id user)) of
                   Inl e \<Rightarrow> False
                 | Inr scim_permissions \<Rightarrow> required \<in> set scim_permissions)))"

subsection \<open>Facts\<close>

lemma normalize_approval_permission_supported:
  "normalize_approval_permission v = Some p \<Longrightarrow> p \<in> set supported_approval_permissions"
  by (auto simp: normalize_approval_permission_def Let_def split: if_splits)

lemma lower_strip_supported:
  "p \<in> set supported_approval_permissions \<Longrightarrow> lower (strip p) = p"
proof -
  have "lower (strip ''remediation.approve.nonprod'') = ''remediation.approve.nonprod''"
    "lower (strip ''remediation.approve.prod'') = ''remediation.approve.prod''"
    by code_simp+
  then show "p \<in> set supported_approval_permissions \<Longrightarrow> lower (strip p) = p"
    by (auto simp: supported_approval_permissions_def permission_approve_nonprod_def
        permission_approve_prod_def)
qed

lemma normalize_approval_permission_fixpoint [simp]:
  "p \<in> set supported_approval_permissions \<Longrightarrow> normalize_approval_permission (JStr p) = Some p"
  by (simp add: normalize_approval_permission_def lower_strip_supported)

lemma normalize_approval_permission_JNull [simp]: "normalize_approval_permission JNull = None"
  by (simp add: normalize_approval_permission_def supported_approval_permissions_def
      permission_approve_nonprod_def permission_approve_prod_def)

text \<open>A permission granted through a group mapping.\<close>

definition scim_grants :: "identity_db \<Rightarrow> uuid \<Rightarrow> uuid \<Rightarrow> string \<Rightarrow> bool" where
  "scim_grants idb tenant_id user_id permission \<longleftrightarrow>
     (\<exists>m \<in> set (load_scim_group_mappings idb tenant_id).
        lower (strip (py_str (dict_get_default m ''group'' (JStr '''')))) \<in>
          set (load_user_group_names idb tenant_id user_id)
        \<and> (\<exists>ps. normalize_approval_permissions (dict_get m ''permissions'') = Inr ps \<and> permission \<in> set ps))"

lemma collect_mapping_permissions_sound:
  assumes "collect_mapping_permissions names ms acc = Inr ps" "p \<in> set ps" "p \<notin> set acc"
  shows "\<exists>m \<in> set ms. lower (strip (py_str (dict_get_default m ''group'' (JStr '''')))) \<in> set names
    \<and> (\<exists>qs. normalize_approval_permissions (dict_get m ''permissions'') = Inr qs \<and> p \<in> set qs)"
  using assms
proof (induction names ms acc arbitrary: ps rule: collect_mapping_permissions.induct)
  case (2 names m ms acc)
  show ?case
  proof (cases "let group = lower (strip (py_str (dict_get_default m ''group'' (JStr ''''))))
      in group = '''' \<or> group \<notin> set names")
    case True
    with 2(1) [OF refl] 2(3-5) show ?thesis by (auto simp: Let_def)
  next
    case False
    with 2(3) obtain qs where qs: "normalize_approval_permissions (dict_get m ''permissions'') = Inr qs"
      "collect_mapping_permissions names ms (acc @ qs) = Inr ps"
      by (auto simp: Let_def)
    show ?thesis
    proof (cases "p \<in> set qs")
      case True
      with False qs(1) show ?thesis by (auto simp: Let_def)
    next
      case nin: False
      with 2(2) [OF refl _ qs(2)] False qs 2(4,5) show ?thesis by (auto simp: Let_def)
    qed
  qed
qed simp

text \<open>
  Approval authority is least-privilege and fails closed: a user holds a permission only if it
  is one of the two known permissions and comes from the role (owners hold both, administrators the
  non-production one, nobody else any) or from a group mapping of the user's own tenant; when the
  identity store cannot be read, only the role counts, and an unknown permission is held by nobody.
\<close>

theorem approval_permission_grounded:
  "user_has_approval_permission identity user required \<Longrightarrow>
     \<exists>p \<in> set supported_approval_permissions. p = lower (strip required)
       \<and> (lower (strip (cu_role user)) = ''owner''
          \<or> (lower (strip (cu_role user)) = ''admin'' \<and> p = permission_approve_nonprod)
          \<or> (\<exists>idb tenant_id. identity = Inr idb \<and> cu_tenant_id user = Some tenant_id
              \<and> scim_grants idb tenant_id (cu_id user) p))"
proof -
  assume has: "user_has_approval_permission identity user required"
  then obtain p where p: "normalize_approval_permission (JStr required) = Some p"
    by (auto simp: user_has_approval_permission_def split: option.splits)
  then have sup: "p \<in> set supported_approval_permissions" "p = lower (strip required)"
    by (auto simp: normalize_approval_permission_def Let_def split: if_splits)
  show ?thesis
  proof (cases "p \<in> set (role_default_approval_permissions (cu_role user))")
    case True
    with sup show ?thesis
      by (auto simp: role_default_approval_permissions_def Let_def split: if_splits)
  next
    case False
    with has p obtain tenant_id idb ps where 1: "cu_tenant_id user = Some tenant_id" "identity = Inr idb"
      "load_scim_approval_permissions idb tenant_id (cu_id user) = Inr ps" "p \<in> set ps"
      by (auto simp: user_has_approval_permission_def split: option.splits sum.splits)
    then have "scim_grants idb tenant_id (cu_id user) p"
      unfolding scim_grants_def
      using collect_mapping_permissions_sound [of "load_user_group_names idb tenant_id (cu_id user)"
          "load_scim_group_mappings idb tenant_id" "[]" ps p]
      by (auto simp: load_scim_approval_permissions_def Let_def split: if_splits)
    with 1 sup show ?thesis by blast
  qed
qed

definition sample_identity :: identity_db where
  "sample_identity = \<lparr>idb_settings = [\<lparr>is_tenant_id = 7, is_scim_enabled = True,
       is_scim_group_mappings = JList [JObj [(''group'', JStr ''FinOps''),
         (''permissions'', JList [JStr ''Remediation.Approve.Prod''])]]\<rparr>],
     idb_groups = [\<lparr>sg_id = 1, sg_tenant_id = 7, sg_display_name_norm = Some ''finops''\<rparr>],
     idb_members = [\<lparr>sm_tenant_id = 7, sm_group_id = 1, sm_user_id = 3\<rparr>]\<rparr>"

lemma approval_permission_grounded_witness:
  "user_has_approval_permission (Inr sample_identity)
     \<lparr>cu_id = 3, cu_tenant_id = Some 7, cu_role = ''member''\<rparr> ''remediation.approve.prod''
   \<and> scim_grants sample_identity 7 3 ''remediation.approve.prod''"
proof -
  let ?u = "\<lparr>cu_id = 3, cu_tenant_id = Some 7, cu_role = ''member''\<rparr> :: current_user"
  have has: "user_has_approval_permission (Inr sample_identity) ?u ''remediation.approve.prod''"
    by code_simp
  have role: "lower (strip ''member'') = ''member''" "lower (strip ''remediation.approve.prod'') = ''remediation.approve.prod''"
    by code_simp+
  from approval_permission_grounded [OF has] role has show ?thesis by auto
qed

end
