(* ===== verification/Base_Draw.thy ===== *)
theory Base_Draw
  imports Base_Decimal
begin

text \<open>
  The interface of a funding pool. The budget waterfall and the loop that reserves credit from
  grants both take from a pool what they can and pass on what is still wanted. \<open>draw\<close> states what
  one such step promises on money (non-negative values with four decimal places); \<open>draw_all\<close> runs
  it over a list of pools in order. The facts about whole runs are proved once here and used by
  the components through their interpretations.
\<close>

definition money :: "rat \<Rightarrow> bool" where
  "money x \<longleftrightarrow> 0 \<le> x \<and> on_grid 4 x"

lemma money_0 [simp]: "money 0"
  by (simp add: money_def)

lemma money_numeral [simp]: "money (numeral k)" "money 1"
  by (simp_all add: money_def)

lemma money_add [simp]: "money x \<Longrightarrow> money y \<Longrightarrow> money (x + y)"
  by (simp add: money_def)

lemma money_min [simp]: "money x \<Longrightarrow> money y \<Longrightarrow> money (min x y)"
  by (simp add: money_def)

lemma money_diff: "money x \<Longrightarrow> money y \<Longrightarrow> y \<le> x \<Longrightarrow> money (x - y)"
  by (simp add: money_def)

lemma money_nonneg [dest]: "money x \<Longrightarrow> 0 \<le> x"
  by (simp add: money_def)

lemma money_grid: "money x \<Longrightarrow> on_grid 4 x"
  by (simp add: money_def)

lemma money_quantize [simp]: "0 \<le> x \<Longrightarrow> money (quantize 4 x)"
  by (simp add: money_def)

lemma money_max_0: "on_grid 4 x \<Longrightarrow> money (max 0 x)"
  by (simp add: money_def)

lemma money_sum_list: "(\<And>x. x \<in> set xs \<Longrightarrow> money x) \<Longrightarrow> money (sum_list xs)"
  by (induction xs) auto

fun draw_all :: "(rat \<Rightarrow> rat \<Rightarrow> rat \<times> rat) \<Rightarrow> rat list \<Rightarrow> rat \<Rightarrow> rat list \<times> rat" where
  "draw_all d [] w = ([], w)"
| "draw_all d (a # as) w =
     (let (t, w') = d a w; (ts, w'') = draw_all d as w' in (t # ts, w''))"

locale draw =
  fixes draw1 :: "rat \<Rightarrow> rat \<Rightarrow> rat \<times> rat"
  assumes taken_money: "money a \<Longrightarrow> money w \<Longrightarrow> money (fst (draw1 a w))"
    and left_money: "money a \<Longrightarrow> money w \<Longrightarrow> money (snd (draw1 a w))"
    and taken_le: "money a \<Longrightarrow> money w \<Longrightarrow> fst (draw1 a w) \<le> a"
    and conserves: "money a \<Longrightarrow> money w \<Longrightarrow> fst (draw1 a w) + snd (draw1 a w) = w"
    and greedy: "money a \<Longrightarrow> money w \<Longrightarrow> 0 < snd (draw1 a w) \<Longrightarrow> fst (draw1 a w) = a"
begin

lemma taken_eq_min:
  assumes "money a" "money w"
  shows "fst (draw1 a w) = min w a"
proof (cases "0 < snd (draw1 a w)")
  case True
  with assms have "fst (draw1 a w) = a" by (rule greedy)
  moreover from True conserves [OF assms] this have "a \<le> w" by linarith
  ultimately show ?thesis by simp
next
  case False
  with money_nonneg [OF left_money [OF assms]] have "snd (draw1 a w) = 0" by linarith
  with conserves [OF assms] taken_le [OF assms] show ?thesis by simp
qed

lemma left_eq:
  assumes "money a" "money w"
  shows "snd (draw1 a w) = w - min w a"
  using conserves [OF assms] taken_eq_min [OF assms] by (simp add: algebra_simps)

lemma draw_all_left:
  assumes "list_all money as" "money w"
  shows "snd (draw_all draw1 as w) = max 0 (w - sum_list as)"
  using assms
proof (induction as arbitrary: w)
  case Nil
  then show ?case by (simp add: money_def)
next
  case (Cons a as)
  then have s: "0 \<le> sum_list as" by (intro sum_list_nonneg) (auto simp: list_all_iff)
  have "snd (draw_all draw1 (a # as) w) = max 0 (snd (draw1 a w) - sum_list as)"
    using Cons.prems Cons.IH [of "snd (draw1 a w)"] left_money [of a w]
    by (simp add: Let_def case_prod_beta)
  also have "\<dots> = max 0 (w - min w a - sum_list as)"
    using Cons.prems left_eq [of a w] by simp
  also have "\<dots> = max 0 (w - sum_list (a # as))"
    using s Cons.prems by (simp add: max_def min_def)
  finally show ?case .
qed

lemma draw_all_conserves:
  assumes "list_all money as" "money w"
  shows "sum_list (fst (draw_all draw1 as w)) + snd (draw_all draw1 as w) = w"
  using assms
proof (induction as arbitrary: w)
  case (Cons a as)
  then show ?case
    using Cons.IH [of "snd (draw1 a w)"] left_money [of a w] conserves [of a w]
    by (simp add: Let_def case_prod_beta add.assoc)
qed simp

lemma draw_all_taken:
  assumes "list_all money as" "money w"
  shows "sum_list (fst (draw_all draw1 as w)) = min w (sum_list as)"
  using draw_all_conserves [OF assms] unfolding draw_all_left [OF assms]
  by linarith

lemma draw_all_pointwise:
  assumes "list_all money as" "money w"
  shows "list_all2 (\<lambda>t a. money t \<and> t \<le> a) (fst (draw_all draw1 as w)) as"
  using assms
proof (induction as arbitrary: w)
  case (Cons a as)
  then show ?case
    using Cons.IH [of "snd (draw1 a w)"] left_money [of a w] taken_money [of a w] taken_le [of a w]
    by (simp add: Let_def case_prod_beta)
qed simp

lemma draw_all_zero:
  assumes "list_all money as"
  shows "fst (draw_all draw1 as 0) = replicate (length as) 0"
  using assms
proof (induction as)
  case (Cons a as)
  then have "draw1 a 0 = (0, 0)"
    using taken_eq_min [of a 0] left_eq [of a 0] by (auto simp: prod_eq_iff min_def)
  with Cons show ?case by (simp add: Let_def case_prod_beta)
qed simp

lemma draw_all_priority:
  assumes "list_all money as" "money w" "i < j" "j < length as"
    "0 < fst (draw_all draw1 as w) ! j"
  shows "fst (draw_all draw1 as w) ! i = as ! i"
  using assms
proof (induction as arbitrary: w i j)
  case (Cons a as)
  note m = left_money [of a w]
  from Cons.prems obtain j' where j: "j = Suc j'" "j' < length as" by (cases j) auto
  let ?w = "snd (draw1 a w)"
  have pos: "0 < fst (draw_all draw1 as ?w) ! j'"
    using Cons.prems j by (simp add: Let_def case_prod_beta)
  show ?case
  proof (cases i)
    case 0
    have "?w \<noteq> 0"
    proof
      assume "?w = 0"
      with pos j Cons.prems(1) draw_all_zero [of as] show False by simp
    qed
    moreover have "0 \<le> ?w" using Cons.prems m by (simp add: money_nonneg)
    ultimately have "0 < ?w" by simp
    with Cons.prems 0 show ?thesis by (simp add: Let_def case_prod_beta greedy)
  next
    case (Suc i')
    with Cons.IH [of ?w i' j'] Cons.prems pos j m show ?thesis by (simp add: Let_def case_prod_beta)
  qed
qed simp

end

end
