(* ===== verification/Enf_Policy.thy ===== *)
theory Enf_Policy
  imports Enf_Permissions Base_Draw
begin

text \<open>
  Enforcement policies: the policy document (policy_document.py), its materialisation into the
  columns of a policy row (policy_contract_ops.py), the normalisation of approval routing rules and
  the choice of the enforcement mode (service_runtime_ops.py), all under
  src/app/modules/enforcement/domain.

  A pydantic model is a record; \<open>document_valid\<close> is the conjunction of its field constraints,
  which every construction checks. \<open>PolicyDocument.model_validate\<close> of a stored dictionary is
  pydantic's parser: the argument \<open>vd\<close>, which returns \<open>None\<close> for a \<open>ValidationError\<close>.
\<close>

subsection \<open>The policy document\<close>

record routing_rule =
  rl_rule_id :: string
  rl_enabled :: bool
  rl_environments :: "string list"
  rl_action_prefixes :: "string list"
  rl_min_monthly_delta_usd :: "rat option"
  rl_max_monthly_delta_usd :: "rat option"
  rl_risk_levels :: "string list"
  rl_required_permission :: "string option"
  rl_allowed_reviewer_roles :: "string list"
  rl_require_separation :: "bool option"

record mode_matrix =
  mm_terraform_default :: enforcement_mode
  mm_terraform_prod :: enforcement_mode
  mm_terraform_nonprod :: enforcement_mode
  mm_k8s_admission_default :: enforcement_mode
  mm_k8s_admission_prod :: enforcement_mode
  mm_k8s_admission_nonprod :: enforcement_mode

record approval_matrix =
  am_require_approval_prod :: bool
  am_require_approval_nonprod :: bool
  am_enforce_prod_separation :: bool
  am_enforce_nonprod_separation :: bool
  am_routing_rules :: "routing_rule list"

record entitlement_matrix =
  em_plan_monthly_ceiling_usd :: "rat option"
  em_enterprise_monthly_ceiling_usd :: "rat option"
  em_auto_approve_below_monthly_usd :: rat
  em_hard_deny_above_monthly_usd :: rat

record execution_matrix =
  xm_default_ttl_seconds :: int
  xm_action_max_attempts :: int
  xm_action_retry_backoff_seconds :: int
  xm_action_lease_ttl_seconds :: int

record policy_document =
  pd_schema_version :: string
  pd_mode_matrix :: mode_matrix
  pd_approval :: approval_matrix
  pd_entitlements :: entitlement_matrix
  pd_execution :: execution_matrix

text \<open>The defaults of the model's fields.\<close>

definition default_policy_document :: policy_document where
  "default_policy_document = \<lparr>pd_schema_version = policy_document_schema_version_default,
     pd_mode_matrix = \<lparr>mm_terraform_default = SOFT, mm_terraform_prod = SOFT,
       mm_terraform_nonprod = SOFT, mm_k8s_admission_default = SOFT, mm_k8s_admission_prod = SOFT,
       mm_k8s_admission_nonprod = SOFT\<rparr>,
     pd_approval = \<lparr>am_require_approval_prod = True, am_require_approval_nonprod = False,
       am_enforce_prod_separation = True, am_enforce_nonprod_separation = False,
       am_routing_rules = []\<rparr>,
     pd_entitlements = \<lparr>em_plan_monthly_ceiling_usd = None,
       em_enterprise_monthly_ceiling_usd = None, em_auto_approve_below_monthly_usd = 25,
       em_hard_deny_above_monthly_usd = 5000\<rparr>,
     pd_execution = \<lparr>xm_default_ttl_seconds = 900, xm_action_max_attempts = 3,
       xm_action_retry_backoff_seconds = 60, xm_action_lease_ttl_seconds = 300\<rparr>\<rparr>"

definition opt_all :: "('a \<Rightarrow> bool) \<Rightarrow> 'a option \<Rightarrow> bool" where
  "opt_all p x \<longleftrightarrow> (case x of None \<Rightarrow> True | Some v \<Rightarrow> p v)"

lemma opt_all_simps [simp]: "opt_all p None" "opt_all p (Some v) = p v"
  by (simp_all add: opt_all_def)

definition rule_valid :: "routing_rule \<Rightarrow> bool" where
  "rule_valid r \<longleftrightarrow> 1 \<le> length (rl_rule_id r) \<and> length (rl_rule_id r) \<le> 64
     \<and> opt_all (\<lambda>x. 0 \<le> x) (rl_min_monthly_delta_usd r)
     \<and> opt_all (\<lambda>x. 0 \<le> x) (rl_max_monthly_delta_usd r)
     \<and> opt_all (\<lambda>p. 1 \<le> length p \<and> length p \<le> 128) (rl_required_permission r)"

definition document_valid :: "policy_document \<Rightarrow> bool" where
  "document_valid d \<longleftrightarrow>
     pd_schema_version d = policy_document_schema_version_default
     \<and> list_all rule_valid (am_routing_rules (pd_approval d))
     \<and> opt_all (\<lambda>x. 0 \<le> x) (em_plan_monthly_ceiling_usd (pd_entitlements d))
     \<and> opt_all (\<lambda>x. 0 \<le> x) (em_enterprise_monthly_ceiling_usd (pd_entitlements d))
     \<and> 0 \<le> em_auto_approve_below_monthly_usd (pd_entitlements d)
     \<and> 0 < em_hard_deny_above_monthly_usd (pd_entitlements d)
     \<and> 60 \<le> xm_default_ttl_seconds (pd_execution d) \<and> xm_default_ttl_seconds (pd_execution d) \<le> 86400
     \<and> 1 \<le> xm_action_max_attempts (pd_execution d) \<and> xm_action_max_attempts (pd_execution d) \<le> 10
     \<and> 1 \<le> xm_action_retry_backoff_seconds (pd_execution d)
     \<and> xm_action_retry_backoff_seconds (pd_execution d) \<le> 86400
     \<and> 30 \<le> xm_action_lease_ttl_seconds (pd_execution d)
     \<and> xm_action_lease_ttl_seconds (pd_execution d) \<le> 3600"

text \<open>\<open>model_dump(mode="json")\<close>: enums by value, decimals as text.\<close>

definition decimal_json :: "rat option \<Rightarrow> json" where
  "decimal_json x = (case x of None \<Rightarrow> JNull | Some v \<Rightarrow> JDec 4 v)"

definition strings_json :: "string list \<Rightarrow> json" where
  "strings_json xs = JList (map JStr xs)"

definition rule_dump :: "routing_rule \<Rightarrow> dict" where
  "rule_dump r =
     [(''rule_id'', JStr (rl_rule_id r)),
      (''enabled'', JBool (rl_enabled r)),
      (''environments'', strings_json (rl_environments r)),
      (''action_prefixes'', strings_json (rl_action_prefixes r)),
      (''min_monthly_delta_usd'', decimal_json (rl_min_monthly_delta_usd r)),
      (''max_monthly_delta_usd'', decimal_json (rl_max_monthly_delta_usd r)),
      (''risk_levels'', strings_json (rl_risk_levels r)),
      (''required_permission'', (case rl_required_permission r of None \<Rightarrow> JNull | Some p \<Rightarrow> JStr p)),
      (''allowed_reviewer_roles'', strings_json (rl_allowed_reviewer_roles r)),
      (''require_requester_reviewer_separation'',
         (case rl_require_separation r of None \<Rightarrow> JNull | Some b \<Rightarrow> JBool b))]"

definition document_dump :: "policy_document \<Rightarrow> dict" where
  "document_dump d =
     [(''schema_version'', JStr (pd_schema_version d)),
      (''mode_matrix'', let m = pd_mode_matrix d in JObj
        [(''terraform_default'', JStr (mode_value (mm_terraform_default m))),
         (''terraform_prod'', JStr (mode_value (mm_terraform_prod m))),
         (''terraform_nonprod'', JStr (mode_value (mm_terraform_nonprod m))),
         (''k8s_admission_default'', JStr (mode_value (mm_k8s_admission_default m))),
         (''k8s_admission_prod'', JStr (mode_value (mm_k8s_admission_prod m))),
         (''k8s_admission_nonprod'', JStr (mode_value (mm_k8s_admission_nonprod m)))]),
      (''approval'', let a = pd_approval d in JObj
        [(''require_approval_prod'', JBool (am_require_approval_prod a)),
         (''require_approval_nonprod'', JBool (am_require_approval_nonprod a)),
         (''enforce_prod_requester_reviewer_separation'', JBool (am_enforce_prod_separation a)),
         (''enforce_nonprod_requester_reviewer_separation'', JBool (am_enforce_nonprod_separation a)),
         (''routing_rules'', JList (map (\<lambda>r. JObj (rule_dump r)) (am_routing_rules a)))]),
      (''entitlements'', let e = pd_entitlements d in JObj
        [(''plan_monthly_ceiling_usd'', decimal_json (em_plan_monthly_ceiling_usd e)),
         (''enterprise_monthly_ceiling_usd'', decimal_json (em_enterprise_monthly_ceiling_usd e)),
         (''auto_approve_below_monthly_usd'', JDec 4 (em_auto_approve_below_monthly_usd e)),
         (''hard_deny_above_monthly_usd'', JDec 4 (em_hard_deny_above_monthly_usd e))]),
      (''execution'', let x = pd_execution d in JObj
        [(''default_ttl_seconds'', JInt (xm_default_ttl_seconds x)),
         (''action_max_attempts'', JInt (xm_action_max_attempts x)),
         (''action_retry_backoff_seconds'', JInt (xm_action_retry_backoff_seconds x)),
         (''action_lease_ttl_seconds'', JInt (xm_action_lease_ttl_seconds x))])]"

fun normalize_json_value :: "json \<Rightarrow> json" where
  "normalize_json_value (JObj d) =
     JObj (sort_key fst (map (\<lambda>kv. (fst kv, normalize_json_value (snd kv))) d))"
| "normalize_json_value (JList xs) = JList (map normalize_json_value xs)"
| "normalize_json_value v = v"

text \<open>\<open>canonical_policy_document_payload\<close> of a document, and of a stored mapping.\<close>

definition canonical_policy_document_payload :: "policy_document \<Rightarrow> dict" where
  "canonical_policy_document_payload doc = as_dict (normalize_json_value (JObj (document_dump doc)))"

definition canonical_policy_document_mapping ::
  "(dict \<Rightarrow> policy_document option) \<Rightarrow> dict \<Rightarrow> dict option" where
  "canonical_policy_document_mapping vd d = map_option canonical_policy_document_payload (vd d)"

definition policy_document_sha256 :: "(string \<Rightarrow> string) \<Rightarrow> dict \<Rightarrow> string" where
  "policy_document_sha256 sha payload = sha (json_dumps (JObj payload))"

subsection \<open>Routing rules\<close>

definition rule_label :: "nat \<Rightarrow> string" where
  "rule_label index = ''approval_routing_rules['' @ nat_text index @ '']''"

definition delta_of :: "json \<Rightarrow> rat option" where
  "delta_of raw = (if raw = JNull then None else Some (quantize 4 (to_decimal raw)))"

text \<open>One pass of the loop: the rule with its lower-cased identifier, or the refusal.\<close>

definition normalize_routing_rule :: "string list \<Rightarrow> nat \<Rightarrow> json \<Rightarrow> (routing_rule \<times> string) res" where
  "normalize_routing_rule seen index raw = (case raw of JObj d \<Rightarrow>
      (let rule_id = text_or_empty (dict_get d ''rule_id'');
           min_delta = delta_of (dict_get d ''min_monthly_delta_usd'');
           max_delta = delta_of (dict_get d ''max_monthly_delta_usd'');
           raw_permission = dict_get d ''required_permission'';
           permission = normalize_approval_permission raw_permission;
           raw_separation = dict_get d ''require_requester_reviewer_separation'' in
       if rule_id = '''' then
         Inl (HTTPException 422 (rule_label index @ ''.rule_id is required''))
       else if 64 < length rule_id then
         Inl (HTTPException 422 (rule_label index @ ''.rule_id exceeds 64 chars''))
       else if lower rule_id \<in> set seen then
         Inl (HTTPException 422 (''Duplicate approval routing rule_id: '' @ rule_id))
       else if \<not> opt_all (\<lambda>x. 0 \<le> x) min_delta then
         Inl (HTTPException 422 (rule_label index @ ''.min_monthly_delta_usd must be >= 0''))
       else if \<not> opt_all (\<lambda>x. 0 \<le> x) max_delta then
         Inl (HTTPException 422 (rule_label index @ ''.max_monthly_delta_usd must be >= 0''))
       else if \<not> opt_all (\<lambda>lo. opt_all (\<lambda>hi. lo \<le> hi) max_delta) min_delta then
         Inl (HTTPException 422 (rule_label index
           @ '' min_monthly_delta_usd cannot exceed max_monthly_delta_usd''))
       else if raw_permission \<noteq> JNull \<and> permission = None then
         Inl (HTTPException 422 (rule_label index @ ''.required_permission must be one of ''
           @ permission_approve_nonprod @ '', '' @ permission_approve_prod))
       else if (case raw_separation of JNull \<Rightarrow> False | JBool _ \<Rightarrow> False | _ \<Rightarrow> True) then
         Inl (HTTPException 422 (rule_label index
           @ ''.require_requester_reviewer_separation must be a boolean when provided''))
       else
         bind_res (normalize_string_list normalize_environment (dict_get d ''environments'')) (\<lambda>environments.
         bind_res (normalize_string_list lower (dict_get d ''action_prefixes'')) (\<lambda>action_prefixes.
         bind_res (normalize_string_list lower (dict_get d ''risk_levels'')) (\<lambda>risk_levels.
         bind_res (normalize_allowed_reviewer_roles (dict_get d ''allowed_reviewer_roles'')) (\<lambda>roles.
           Inr (\<lparr>rl_rule_id = rule_id,
              rl_enabled = py_truthy (dict_get_default d ''enabled'' (JBool True)),
              rl_environments = environments, rl_action_prefixes = action_prefixes,
              rl_min_monthly_delta_usd = min_delta, rl_max_monthly_delta_usd = max_delta,
              rl_risk_levels = risk_levels,
              rl_required_permission = (if raw_permission = JNull then None else permission),
              rl_allowed_reviewer_roles = roles,
              rl_require_separation = (case raw_separation of JBool b \<Rightarrow> Some b | _ \<Rightarrow> None)\<rparr>,
             lower rule_id))))))
    | _ \<Rightarrow> Inl (HTTPException 422 (rule_label index @ '' must be an object'')))"

fun normalize_rules_loop :: "string list \<Rightarrow> nat \<Rightarrow> json list \<Rightarrow> routing_rule list res" where
  "normalize_rules_loop seen index [] = Inr []"
| "normalize_rules_loop seen index (raw # raws) =
     bind_res (normalize_routing_rule seen index raw) (\<lambda>(rule, key).
       bind_res (normalize_rules_loop (key # seen) (index + 1) raws) (\<lambda>rules. Inr (rule # rules)))"

definition normalize_policy_approval_routing_rules :: "json list \<Rightarrow> routing_rule list res" where
  "normalize_policy_approval_routing_rules rules =
     (if rules = [] then Inr []
      else if 64 < length rules
      then Inl (HTTPException 422 ''approval_routing_rules cannot exceed 64 rules'')
      else normalize_rules_loop [] 1 rules)"

subsection \<open>Materialisation\<close>

record policy_request =
  pq_terraform_mode :: enforcement_mode
  pq_terraform_mode_prod :: "enforcement_mode option"
  pq_terraform_mode_nonprod :: "enforcement_mode option"
  pq_k8s_admission_mode :: enforcement_mode
  pq_k8s_admission_mode_prod :: "enforcement_mode option"
  pq_k8s_admission_mode_nonprod :: "enforcement_mode option"
  pq_require_approval_for_prod :: bool
  pq_require_approval_for_nonprod :: bool
  pq_plan_monthly_ceiling_usd :: "rat option"
  pq_enterprise_monthly_ceiling_usd :: "rat option"
  pq_auto_approve_below_monthly_usd :: rat
  pq_hard_deny_above_monthly_usd :: rat
  pq_default_ttl_seconds :: int
  pq_enforce_prod_separation :: bool
  pq_enforce_nonprod_separation :: bool
  pq_approval_routing_rules :: "json list"
  pq_policy_document :: "dict option"

record policy_materialization =
  pm_mode_matrix :: mode_matrix
  pm_require_approval_for_prod :: bool
  pm_require_approval_for_nonprod :: bool
  pm_enforce_prod_separation :: bool
  pm_enforce_nonprod_separation :: bool
  pm_plan_monthly_ceiling_usd :: "rat option"
  pm_enterprise_monthly_ceiling_usd :: "rat option"
  pm_auto_approve_below_monthly_usd :: rat
  pm_hard_deny_above_monthly_usd :: rat
  pm_default_ttl_seconds :: int
  pm_approval_routing_rules :: "routing_rule list"
  pm_policy_document_schema_version :: string
  pm_policy_document_sha256 :: string
  pm_policy_document :: dict

definition mode_or :: "enforcement_mode option \<Rightarrow> enforcement_mode \<Rightarrow> enforcement_mode" where
  "mode_or m dflt = (case m of None \<Rightarrow> dflt | Some x \<Rightarrow> x)"

definition requested_document :: "policy_request \<Rightarrow> routing_rule list \<Rightarrow> policy_document" where
  "requested_document q rules = \<lparr>pd_schema_version = policy_document_schema_version_default,
     pd_mode_matrix = \<lparr>mm_terraform_default = pq_terraform_mode q,
       mm_terraform_prod = mode_or (pq_terraform_mode_prod q) (pq_terraform_mode q),
       mm_terraform_nonprod = mode_or (pq_terraform_mode_nonprod q) (pq_terraform_mode q),
       mm_k8s_admission_default = pq_k8s_admission_mode q,
       mm_k8s_admission_prod = mode_or (pq_k8s_admission_mode_prod q) (pq_k8s_admission_mode q),
       mm_k8s_admission_nonprod = mode_or (pq_k8s_admission_mode_nonprod q) (pq_k8s_admission_mode q)\<rparr>,
     pd_approval = \<lparr>am_require_approval_prod = pq_require_approval_for_prod q,
       am_require_approval_nonprod = pq_require_approval_for_nonprod q,
       am_enforce_prod_separation = pq_enforce_prod_separation q,
       am_enforce_nonprod_separation = pq_enforce_nonprod_separation q,
       am_routing_rules = rules\<rparr>,
     pd_entitlements = \<lparr>em_plan_monthly_ceiling_usd = pq_plan_monthly_ceiling_usd q,
       em_enterprise_monthly_ceiling_usd = pq_enterprise_monthly_ceiling_usd q,
       em_auto_approve_below_monthly_usd = pq_auto_approve_below_monthly_usd q,
       em_hard_deny_above_monthly_usd = pq_hard_deny_above_monthly_usd q\<rparr>,
     pd_execution = (pd_execution default_policy_document)\<lparr>
       xm_default_ttl_seconds := clamp 60 86400 (pq_default_ttl_seconds q)\<rparr>\<rparr>"

text \<open>The document to materialise and its normalised rules.\<close>

definition source_document ::
  "(dict \<Rightarrow> policy_document option) \<Rightarrow> policy_request \<Rightarrow> (policy_document \<times> routing_rule list) res" where
  "source_document vd q = (case pq_policy_document q of
      Some d \<Rightarrow> (case vd d of
          None \<Rightarrow> Inl (HTTPException 422 ''policy_document is invalid'')
        | Some doc \<Rightarrow>
            bind_res (normalize_policy_approval_routing_rules
                (map (\<lambda>r. JObj (rule_dump r)) (am_routing_rules (pd_approval doc)))) (\<lambda>rules.
              Inr (doc, rules)))
    | None \<Rightarrow>
        bind_res (normalize_policy_approval_routing_rules (pq_approval_routing_rules q)) (\<lambda>rules.
          let doc = requested_document q rules in
          if document_valid doc then Inr (doc, rules) else Inl (ValueError ''ValidationError'')))"

definition quantized_document :: "policy_document \<Rightarrow> routing_rule list \<Rightarrow> policy_document" where
  "quantized_document doc rules = \<lparr>pd_schema_version = policy_document_schema_version_default,
     pd_mode_matrix = pd_mode_matrix doc,
     pd_approval = (pd_approval doc)\<lparr>am_routing_rules := rules\<rparr>,
     pd_entitlements = \<lparr>
       em_plan_monthly_ceiling_usd =
         map_option (quantize 4) (em_plan_monthly_ceiling_usd (pd_entitlements doc)),
       em_enterprise_monthly_ceiling_usd =
         map_option (quantize 4) (em_enterprise_monthly_ceiling_usd (pd_entitlements doc)),
       em_auto_approve_below_monthly_usd =
         quantize 4 (em_auto_approve_below_monthly_usd (pd_entitlements doc)),
       em_hard_deny_above_monthly_usd =
         quantize 4 (em_hard_deny_above_monthly_usd (pd_entitlements doc))\<rparr>,
     pd_execution = \<lparr>
       xm_default_ttl_seconds = clamp 60 86400 (xm_default_ttl_seconds (pd_execution doc)),
       xm_action_max_attempts = clamp 1 10 (xm_action_max_attempts (pd_execution doc)),
       xm_action_retry_backoff_seconds =
         clamp 1 86400 (xm_action_retry_backoff_seconds (pd_execution doc)),
       xm_action_lease_ttl_seconds = clamp 30 3600 (xm_action_lease_ttl_seconds (pd_execution doc))\<rparr>\<rparr>"

definition materialize_document ::
  "(dict \<Rightarrow> policy_document option) \<Rightarrow> policy_request \<Rightarrow> policy_document res" where
  "materialize_document vd q =
     bind_res (source_document vd q) (\<lambda>(doc, rules).
       let mdoc = quantized_document doc rules; e = pd_entitlements mdoc in
       if em_hard_deny_above_monthly_usd e \<le> 0 then
         Inl (HTTPException 422 ''hard_deny_above_monthly_usd must be greater than 0'')
       else if em_auto_approve_below_monthly_usd e < 0 then
         Inl (HTTPException 422 ''auto_approve_below_monthly_usd must be >= 0'')
       else if em_hard_deny_above_monthly_usd e < em_auto_approve_below_monthly_usd e then
         Inl (HTTPException 422
           ''auto_approve_below_monthly_usd cannot exceed hard_deny_above_monthly_usd'')
       else if \<not> opt_all (\<lambda>x. 0 \<le> x) (em_plan_monthly_ceiling_usd e) then
         Inl (HTTPException 422 ''plan_monthly_ceiling_usd must be >= 0 when provided'')
       else if \<not> opt_all (\<lambda>x. 0 \<le> x) (em_enterprise_monthly_ceiling_usd e) then
         Inl (HTTPException 422 ''enterprise_monthly_ceiling_usd must be >= 0 when provided'')
       else if document_valid mdoc then Inr mdoc
       else Inl (ValueError ''ValidationError''))"

definition materialize_policy_contract_payload ::
  "(dict \<Rightarrow> policy_document option) \<Rightarrow> (string \<Rightarrow> string) \<Rightarrow> policy_request \<Rightarrow> policy_materialization res" where
  "materialize_policy_contract_payload vd sha q =
     bind_res (materialize_document vd q) (\<lambda>doc.
       let canonical = canonical_policy_document_payload doc in
       Inr \<lparr>pm_mode_matrix = pd_mode_matrix doc,
         pm_require_approval_for_prod = am_require_approval_prod (pd_approval doc),
         pm_require_approval_for_nonprod = am_require_approval_nonprod (pd_approval doc),
         pm_enforce_prod_separation = am_enforce_prod_separation (pd_approval doc),
         pm_enforce_nonprod_separation = am_enforce_nonprod_separation (pd_approval doc),
         pm_plan_monthly_ceiling_usd = em_plan_monthly_ceiling_usd (pd_entitlements doc),
         pm_enterprise_monthly_ceiling_usd = em_enterprise_monthly_ceiling_usd (pd_entitlements doc),
         pm_auto_approve_below_monthly_usd = em_auto_approve_below_monthly_usd (pd_entitlements doc),
         pm_hard_deny_above_monthly_usd = em_hard_deny_above_monthly_usd (pd_entitlements doc),
         pm_default_ttl_seconds = clamp 60 86400 (xm_default_ttl_seconds (pd_execution doc)),
         pm_approval_routing_rules = am_routing_rules (pd_approval doc),
         pm_policy_document_schema_version = policy_document_schema_version_default,
         pm_policy_document_sha256 = policy_document_sha256 sha canonical,
         pm_policy_document = canonical\<rparr>)"

definition apply_policy_contract_materialization ::
  "policy_materialization \<Rightarrow> bool \<Rightarrow> enforcement_policy \<Rightarrow> enforcement_policy" where
  "apply_policy_contract_materialization m increment p =
     p\<lparr>ep_terraform_mode := mm_terraform_default (pm_mode_matrix m),
       ep_terraform_mode_prod := mm_terraform_prod (pm_mode_matrix m),
       ep_terraform_mode_nonprod := mm_terraform_nonprod (pm_mode_matrix m),
       ep_k8s_admission_mode := mm_k8s_admission_default (pm_mode_matrix m),
       ep_k8s_admission_mode_prod := mm_k8s_admission_prod (pm_mode_matrix m),
       ep_k8s_admission_mode_nonprod := mm_k8s_admission_nonprod (pm_mode_matrix m),
       ep_require_approval_for_prod := pm_require_approval_for_prod m,
       ep_require_approval_for_nonprod := pm_require_approval_for_nonprod m,
       ep_enforce_prod_separation := pm_enforce_prod_separation m,
       ep_enforce_nonprod_separation := pm_enforce_nonprod_separation m,
       ep_plan_monthly_ceiling_usd := pm_plan_monthly_ceiling_usd m,
       ep_enterprise_monthly_ceiling_usd := pm_enterprise_monthly_ceiling_usd m,
       ep_auto_approve_below_monthly_usd := pm_auto_approve_below_monthly_usd m,
       ep_hard_deny_above_monthly_usd := pm_hard_deny_above_monthly_usd m,
       ep_default_ttl_seconds := pm_default_ttl_seconds m,
       ep_approval_routing_rules :=
         JList (map (\<lambda>r. JObj (rule_dump r)) (pm_approval_routing_rules m)),
       ep_policy_document_schema_version := pm_policy_document_schema_version m,
       ep_policy_document_sha256 := pm_policy_document_sha256 m,
       ep_policy_document := JObj (pm_policy_document m),
       ep_policy_version := (if increment then ep_policy_version p + 1 else ep_policy_version p)\<rparr>"

subsection \<open>Policy rows\<close>

definition policy_document_contract_backfill_required ::
  "(dict \<Rightarrow> policy_document option) \<Rightarrow> (string \<Rightarrow> string) \<Rightarrow> enforcement_policy \<Rightarrow> bool" where
  "policy_document_contract_backfill_required vd sha p =
     (if strip (ep_policy_document_schema_version p) \<noteq> policy_document_schema_version_default then True
      else case ep_policy_document p of
        JObj raw \<Rightarrow>
          (case canonical_policy_document_mapping vd raw of
             None \<Rightarrow> True
           | Some canonical \<Rightarrow>
               (let hash_raw = lower (strip (ep_policy_document_sha256 p)) in
                if length hash_raw \<noteq> 64 \<or> \<not> list_all is_hex_char hash_raw then True
                else hash_raw \<noteq> policy_document_sha256 sha canonical))
      | _ \<Rightarrow> True)"

definition new_policy :: "uuid \<Rightarrow> uuid \<Rightarrow> enforcement_policy" where
  "new_policy i tenant_id = \<lparr>ep_id = i, ep_tenant_id = tenant_id, ep_terraform_mode = SOFT,
     ep_terraform_mode_prod = SOFT, ep_terraform_mode_nonprod = SOFT, ep_k8s_admission_mode = SOFT,
     ep_k8s_admission_mode_prod = SOFT, ep_k8s_admission_mode_nonprod = SOFT,
     ep_require_approval_for_prod = True, ep_require_approval_for_nonprod = False,
     ep_enforce_prod_separation = True, ep_enforce_nonprod_separation = False,
     ep_approval_routing_rules = JList [],
     ep_policy_document_schema_version = policy_document_schema_version_default,
     ep_policy_document_sha256 = policy_document_sha256_empty, ep_policy_document = JObj [],
     ep_plan_monthly_ceiling_usd = None, ep_enterprise_monthly_ceiling_usd = None,
     ep_auto_approve_below_monthly_usd = 25, ep_hard_deny_above_monthly_usd = 5000,
     ep_default_ttl_seconds = 900, ep_policy_version = 1\<rparr>"

definition backfill_request :: "enforcement_policy \<Rightarrow> policy_request" where
  "backfill_request p = \<lparr>pq_terraform_mode = ep_terraform_mode p,
     pq_terraform_mode_prod = Some (ep_terraform_mode_prod p),
     pq_terraform_mode_nonprod = Some (ep_terraform_mode_nonprod p),
     pq_k8s_admission_mode = ep_k8s_admission_mode p,
     pq_k8s_admission_mode_prod = Some (ep_k8s_admission_mode_prod p),
     pq_k8s_admission_mode_nonprod = Some (ep_k8s_admission_mode_nonprod p),
     pq_require_approval_for_prod = ep_require_approval_for_prod p,
     pq_require_approval_for_nonprod = ep_require_approval_for_nonprod p,
     pq_plan_monthly_ceiling_usd = ep_plan_monthly_ceiling_usd p,
     pq_enterprise_monthly_ceiling_usd = ep_enterprise_monthly_ceiling_usd p,
     pq_auto_approve_below_monthly_usd = ep_auto_approve_below_monthly_usd p,
     pq_hard_deny_above_monthly_usd = ep_hard_deny_above_monthly_usd p,
     pq_default_ttl_seconds = (if ep_default_ttl_seconds p = 0 then 900 else ep_default_ttl_seconds p),
     pq_enforce_prod_separation = ep_enforce_prod_separation p,
     pq_enforce_nonprod_separation = ep_enforce_nonprod_separation p,
     pq_approval_routing_rules = (case ep_approval_routing_rules p of JList rs \<Rightarrow> rs | _ \<Rightarrow> []),
     pq_policy_document = (case ep_policy_document p of JObj d \<Rightarrow> Some d | _ \<Rightarrow> None)\<rparr>"

definition load_policy :: "enf_db \<Rightarrow> uuid \<Rightarrow> enforcement_policy \<times> enf_db" where
  "load_policy db tenant_id =
     (case first_row (\<lambda>p. ep_tenant_id p = tenant_id) (db_policies db) of
        Some p \<Rightarrow> (p, db)
      | None \<Rightarrow> (let p = new_policy (db_next_id db) tenant_id in
          (p, db\<lparr>db_policies := db_policies db @ [p], db_next_id := Suc (db_next_id db)\<rparr>)))"

definition write_policy :: "enforcement_policy \<Rightarrow> enf_db \<Rightarrow> enf_db" where
  "write_policy p db = db\<lparr>db_policies :=
     update_where (\<lambda>r. ep_tenant_id r = ep_tenant_id p) (\<lambda>_. p) (db_policies db)\<rparr>"

definition get_or_create_policy ::
  "(dict \<Rightarrow> policy_document option) \<Rightarrow> (string \<Rightarrow> string) \<Rightarrow> enf_db \<Rightarrow> uuid \<Rightarrow> enforcement_policy outcome" where
  "get_or_create_policy vd sha db tenant_id =
     (let (p, db1) = load_policy db tenant_id in
      if policy_document_contract_backfill_required vd sha p then
        (case materialize_policy_contract_payload vd sha (backfill_request p) of
           Inl e \<Rightarrow> (Inl e, db)
         | Inr m \<Rightarrow>
             (let p' = apply_policy_contract_materialization m False p in (Inr p', write_policy p' db1)))
      else (Inr p, db1))"

definition update_policy ::
  "(dict \<Rightarrow> policy_document option) \<Rightarrow> (string \<Rightarrow> string) \<Rightarrow> enf_db \<Rightarrow> uuid \<Rightarrow> policy_request
    \<Rightarrow> enforcement_policy outcome" where
  "update_policy vd sha db tenant_id q =
     (case materialize_policy_contract_payload vd sha q of
        Inl e \<Rightarrow> (Inl e, db)
      | Inr m \<Rightarrow>
          (case get_or_create_policy vd sha db tenant_id of
             (Inl e, _) \<Rightarrow> (Inl e, db)
           | (Inr p, db1) \<Rightarrow>
               (let p' = apply_policy_contract_materialization m True p in
                (Inr p', write_policy p' db1))))"

definition resolve_policy_mode ::
  "enforcement_policy \<Rightarrow> enforcement_source \<Rightarrow> string \<Rightarrow> enforcement_mode \<times> string" where
  "resolve_policy_mode p source environment =
     (let env = normalize_environment environment in
      case source of
        TERRAFORM \<Rightarrow>
          if env = ''prod'' then (ep_terraform_mode_prod p, ''terraform:prod'')
          else if env = ''nonprod'' then (ep_terraform_mode_nonprod p, ''terraform:nonprod'')
          else (ep_terraform_mode p, ''terraform:default'')
      | K8S_ADMISSION \<Rightarrow>
          if env = ''prod'' then (ep_k8s_admission_mode_prod p, ''k8s_admission:prod'')
          else if env = ''nonprod'' then (ep_k8s_admission_mode_nonprod p, ''k8s_admission:nonprod'')
          else (ep_k8s_admission_mode p, ''k8s_admission:default'')
      | CLOUD_EVENT \<Rightarrow> (ep_k8s_admission_mode p, ''fallback:k8s_admission_default''))"

subsection \<open>Normalised routing rules\<close>

text \<open>What normalisation establishes of a rule: the normal form of its fields.\<close>

definition string_normal :: "(string \<Rightarrow> string) \<Rightarrow> string list \<Rightarrow> bool" where
  "string_normal f xs \<longleftrightarrow> distinct xs \<and> (\<forall>x \<in> set xs. x \<noteq> '''' \<and> strip x = x \<and> f x = x)"

definition rule_normal :: "routing_rule \<Rightarrow> bool" where
  "rule_normal r \<longleftrightarrow>
     rl_rule_id r \<noteq> '''' \<and> length (rl_rule_id r) \<le> 64 \<and> strip (rl_rule_id r) = rl_rule_id r
     \<and> opt_all money (rl_min_monthly_delta_usd r) \<and> opt_all money (rl_max_monthly_delta_usd r)
     \<and> opt_all (\<lambda>lo. opt_all (\<lambda>hi. lo \<le> hi) (rl_max_monthly_delta_usd r)) (rl_min_monthly_delta_usd r)
     \<and> opt_all (\<lambda>p. p \<in> set supported_approval_permissions) (rl_required_permission r)
     \<and> string_normal normalize_environment (rl_environments r)
     \<and> string_normal lower (rl_action_prefixes r) \<and> string_normal lower (rl_risk_levels r)
     \<and> rl_allowed_reviewer_roles r \<noteq> [] \<and> distinct (rl_allowed_reviewer_roles r)
     \<and> set (rl_allowed_reviewer_roles r) \<subseteq> set supported_reviewer_roles"

lemma normalize_environment_strip: "strip (normalize_environment e) = normalize_environment e"
proof -
  have "strip ''prod'' = ''prod''" "strip ''nonprod'' = ''nonprod''" by code_simp+
  then show ?thesis by (auto simp: normalize_environment_def Let_def)
qed

lemma normalize_environment_nonempty: "normalize_environment e \<noteq> ''''"
  by (auto simp: normalize_environment_def Let_def)

lemma string_normal_environments:
  assumes "normalize_string_list normalize_environment v = Inr xs"
  shows "string_normal normalize_environment xs"
  using assms
  by (auto simp: normalize_string_list_def normalize_string_values_def string_normal_def
      set_dedup_onto normalize_environment_strip normalize_environment_nonempty
      normalize_environment_nonempty [symmetric]
      intro!: distinct_dedup_onto split: if_splits)

lemma string_normal_lower:
  assumes "normalize_string_list lower v = Inr xs"
  shows "string_normal lower xs"
  using assms
  by (auto simp: normalize_string_list_def normalize_string_values_def string_normal_def
      set_dedup_onto strip_lower eq_commute [of "[]"] intro!: distinct_dedup_onto split: if_splits)

lemma normalize_string_list_normal:
  assumes "string_normal f xs"
  shows "normalize_string_list f (strings_json xs) = Inr xs"
proof -
  have m: "map (text_or_empty \<circ> JStr) xs = xs"
    using assms by (intro map_idI) (simp add: string_normal_def)
  have "filter (\<lambda>v. v \<noteq> '''') (map text_or_empty (map JStr xs)) = xs"
    unfolding map_map m using assms by (auto simp: filter_id_conv string_normal_def)
  then show ?thesis
    using dedup_onto_fixpoint [of xs "\<lambda>_. True" f "[]"] assms
    by (simp add: normalize_string_list_def strings_json_def py_iter_def normalize_string_values_def
        string_normal_def)
qed

lemma normalize_allowed_reviewer_roles_facts:
  assumes "normalize_allowed_reviewer_roles v = Inr rs"
  shows "rs \<noteq> []" "distinct rs" "set rs \<subseteq> set supported_reviewer_roles"
proof -
  have "rs = default_allowed_reviewer_roles \<or> (\<exists>vs. rs = normalize_role_values vs)"
    using assms by (auto simp: normalize_allowed_reviewer_roles_def split: if_splits)
  moreover have "distinct (normalize_role_values vs)" for vs
    by (simp add: normalize_role_values_def Let_def distinct_dedup_onto default_allowed_reviewer_roles_def)
  moreover have "default_allowed_reviewer_roles \<noteq> []" "distinct default_allowed_reviewer_roles"
    "set default_allowed_reviewer_roles \<subseteq> set supported_reviewer_roles"
    by (simp_all add: default_allowed_reviewer_roles_def supported_reviewer_roles_def)
  ultimately show "rs \<noteq> []" "distinct rs" "set rs \<subseteq> set supported_reviewer_roles"
    using normalize_role_values_nonempty normalize_role_values_supported by metis+
qed

lemma normalize_role_value_supported:
  "r \<in> set supported_reviewer_roles \<Longrightarrow> normalize_role_value (JStr r) = r"
proof -
  have "lower (strip ''owner'') = ''owner''" "lower (strip ''admin'') = ''admin''"
    "lower (strip ''member'') = ''member''" by code_simp+
  then show "r \<in> set supported_reviewer_roles \<Longrightarrow> normalize_role_value (JStr r) = r"
    by (auto simp: supported_reviewer_roles_def normalize_role_value_def)
qed

lemma dedup_onto_map: "dedup_onto keep f out (map g xs) = dedup_onto keep (f \<circ> g) out xs"
  by (induction xs arbitrary: out) auto

lemma normalize_allowed_reviewer_roles_normal:
  assumes "rs \<noteq> []" "distinct rs" "set rs \<subseteq> set supported_reviewer_roles"
  shows "normalize_allowed_reviewer_roles (strings_json rs) = Inr rs"
proof -
  have "dedup_onto (\<lambda>r. r \<in> set supported_reviewer_roles) (normalize_role_value \<circ> JStr) [] rs = [] @ rs"
    using assms by (intro dedup_onto_fixpoint) (auto simp: normalize_role_value_supported)
  then show ?thesis
    using assms(1) by (simp add: normalize_allowed_reviewer_roles_def strings_json_def py_iter_def
        normalize_role_values_def dedup_onto_map)
qed

lemma text_or_empty_stripped: "strip (text_or_empty v) = text_or_empty v"
  by simp

lemma delta_of_money: "opt_all (\<lambda>x. 0 \<le> x) (delta_of v) \<Longrightarrow> opt_all money (delta_of v)"
  by (auto simp: delta_of_def money_def)

lemma normalize_routing_rule_normal:
  assumes "normalize_routing_rule seen i raw = Inr (r, key)"
  shows "rule_normal r" "key = lower (rl_rule_id r)" "key \<notin> set seen"
proof -
  from assms obtain d where raw: "raw = JObj d"
    by (cases raw) (simp_all add: normalize_routing_rule_def)
  have "rule_normal r \<and> key = lower (rl_rule_id r) \<and> key \<notin> set seen"
    using assms unfolding raw normalize_routing_rule_def json.case Let_def
    by (auto simp: rule_normal_def delta_of_money string_normal_environments string_normal_lower
        normalize_allowed_reviewer_roles_facts(1,2) normalize_approval_permission_supported
        dest: subsetD [OF normalize_allowed_reviewer_roles_facts(3)] split: if_splits)
  then show "rule_normal r" "key = lower (rl_rule_id r)" "key \<notin> set seen" by blast+
qed

lemma normalize_routing_rule_fixpoint:
  assumes "rule_normal r" "lower (rl_rule_id r) \<notin> set seen"
  shows "normalize_routing_rule seen i (JObj (rule_dump r)) = Inr (r, lower (rl_rule_id r))"
proof -
  have delta: "delta_of (decimal_json x) = x" if "opt_all money x" for x
    using that by (cases x) (simp_all add: delta_of_def decimal_json_def money_grid)
  have nonneg: "opt_all (\<lambda>x. 0 \<le> x) x" if "opt_all money x" for x
    using that by (cases x) auto
  have lists: "normalize_string_list normalize_environment (strings_json (rl_environments r)) = Inr (rl_environments r)"
    "normalize_string_list lower (strings_json (rl_action_prefixes r)) = Inr (rl_action_prefixes r)"
    "normalize_string_list lower (strings_json (rl_risk_levels r)) = Inr (rl_risk_levels r)"
    "normalize_allowed_reviewer_roles (strings_json (rl_allowed_reviewer_roles r)) = Inr (rl_allowed_reviewer_roles r)"
    using assms(1)
    by (auto simp: rule_normal_def intro!: normalize_string_list_normal normalize_allowed_reviewer_roles_normal)
  have perm: "normalize_approval_permission (case rl_required_permission r of None \<Rightarrow> JNull | Some p \<Rightarrow> JStr p)
      = rl_required_permission r"
    using assms(1)
    by (auto simp: rule_normal_def opt_all_def normalize_approval_permission_def
        supported_approval_permissions_def permission_approve_nonprod_def permission_approve_prod_def
        lower_strip_supported split: option.splits)
  show ?thesis
    using assms delta [of "rl_min_monthly_delta_usd r"] delta [of "rl_max_monthly_delta_usd r"]
      nonneg [of "rl_min_monthly_delta_usd r"] nonneg [of "rl_max_monthly_delta_usd r"] lists perm
    by (cases "rl_required_permission r"; cases "rl_require_separation r")
      (simp_all add: normalize_routing_rule_def rule_dump_def rule_normal_def Let_def dict_get_default_def)
qed

lemma normalize_rules_loop_normal:
  assumes "normalize_rules_loop seen i raws = Inr rules"
  shows "length rules = length raws \<and> list_all rule_normal rules
    \<and> distinct (map (\<lambda>r. lower (rl_rule_id r)) rules)
    \<and> set seen \<inter> (\<lambda>r. lower (rl_rule_id r)) ` set rules = {}"
  using assms
proof (induction raws arbitrary: seen i rules)
  case (Cons raw raws)
  then obtain r key rs where step: "normalize_routing_rule seen i raw = Inr (r, key)"
    "normalize_rules_loop (key # seen) (i + 1) raws = Inr rs" "rules = r # rs"
    by auto
  from Cons.IH [OF step(2)] normalize_routing_rule_normal [OF step(1)] step(3) show ?case by auto
qed simp

lemma normalize_rules_loop_fixpoint:
  assumes "list_all rule_normal rules" "distinct (map (\<lambda>r. lower (rl_rule_id r)) rules)"
    and "set seen \<inter> (\<lambda>r. lower (rl_rule_id r)) ` set rules = {}"
  shows "normalize_rules_loop seen i (map (\<lambda>r. JObj (rule_dump r)) rules) = Inr rules"
  using assms
proof (induction rules arbitrary: seen i)
  case (Cons r rules)
  then show ?case by (simp add: normalize_routing_rule_fixpoint)
qed simp

definition rules_normal :: "routing_rule list \<Rightarrow> bool" where
  "rules_normal rules \<longleftrightarrow> length rules \<le> 64 \<and> list_all rule_normal rules
     \<and> distinct (map (\<lambda>r. lower (rl_rule_id r)) rules)"

lemma normalize_rules_normal:
  "normalize_policy_approval_routing_rules raws = Inr rules \<Longrightarrow> rules_normal rules"
  using normalize_rules_loop_normal [of "[]" 1 raws rules]
  by (auto simp: normalize_policy_approval_routing_rules_def rules_normal_def split: if_splits)

lemma normalize_rules_fixpoint:
  "rules_normal rules \<Longrightarrow>
     normalize_policy_approval_routing_rules (map (\<lambda>r. JObj (rule_dump r)) rules) = Inr rules"
  by (auto simp: normalize_policy_approval_routing_rules_def rules_normal_def normalize_rules_loop_fixpoint)

text \<open>
  Normalising approval routing rules yields at most 64 rules in normal form (identifiers
  stripped, at most 64 characters and unique up to case; delta bounds non-negative, ordered and with
  four places; a known permission; known reviewer roles, never none) and normalisation is
  idempotent: the stored form of normalised rules is accepted and read back unchanged.
\<close>

theorem routing_rules_normal_form:
  assumes "normalize_policy_approval_routing_rules raws = Inr rules"
  shows "rules_normal rules
    \<and> normalize_policy_approval_routing_rules (map (\<lambda>r. JObj (rule_dump r)) rules) = Inr rules"
  using normalize_rules_normal [OF assms] normalize_rules_fixpoint by blast

definition sample_rule :: dict where
  "sample_rule = [(''rule_id'', JStr '' Big-Spend ''), (''environments'', JList [JStr ''Production'', JStr ''live'']),
     (''min_monthly_delta_usd'', JDec 2 100), (''required_permission'', JStr ''remediation.approve.prod''),
     (''allowed_reviewer_roles'', JList [JStr ''Owner'', JStr ''auditor''])]"

definition sample_rule_normalized :: routing_rule where
  "sample_rule_normalized = \<lparr>rl_rule_id = ''Big-Spend'', rl_enabled = True, rl_environments = [''prod''],
     rl_action_prefixes = [], rl_min_monthly_delta_usd = Some 100, rl_max_monthly_delta_usd = None,
     rl_risk_levels = [], rl_required_permission = Some ''remediation.approve.prod'',
     rl_allowed_reviewer_roles = [''owner''], rl_require_separation = None\<rparr>"

lemma sample_rule_normalizes:
  "normalize_policy_approval_routing_rules [JObj sample_rule] = Inr [sample_rule_normalized]"
proof -
  have "normalize_string_list normalize_environment (JList [JStr ''Production'', JStr ''live'']) = Inr [''prod'']"
    "normalize_allowed_reviewer_roles (JList [JStr ''Owner'', JStr ''auditor'']) = Inr [''owner'']"
    "normalize_approval_permission (JStr ''remediation.approve.prod'') = Some ''remediation.approve.prod''"
    "strip '' Big-Spend '' = ''Big-Spend''" "lower ''Big-Spend'' = ''big-spend''"
    by code_simp+
  then show ?thesis
    by (simp add: normalize_policy_approval_routing_rules_def normalize_routing_rule_def sample_rule_def
        sample_rule_normalized_def Let_def delta_of_def dict_get_default_def
        normalize_string_list_def [of _ JNull])
qed

lemma routing_rules_normal_form_witness:
  "rules_normal [sample_rule_normalized]
   \<and> normalize_policy_approval_routing_rules [JObj (rule_dump sample_rule_normalized)]
       = Inr [sample_rule_normalized]"
  using routing_rules_normal_form [OF sample_rule_normalizes] by simp

subsection \<open>Materialised policies\<close>

lemma source_document_rules:
  "source_document vd q = Inr (doc, rules) \<Longrightarrow> rules_normal rules"
  by (auto simp: source_document_def Let_def split: option.splits if_splits dest: normalize_rules_normal)

lemma materialize_documentE:
  assumes "materialize_document vd q = Inr mdoc"
  obtains doc rules where "source_document vd q = Inr (doc, rules)" "mdoc = quantized_document doc rules"
    "rules_normal rules" "document_valid mdoc"
    "em_auto_approve_below_monthly_usd (pd_entitlements mdoc) \<le> em_hard_deny_above_monthly_usd (pd_entitlements mdoc)"
proof -
  from assms obtain doc rules where d: "source_document vd q = Inr (doc, rules)"
    "mdoc = quantized_document doc rules" "document_valid mdoc"
    "\<not> em_hard_deny_above_monthly_usd (pd_entitlements mdoc) < em_auto_approve_below_monthly_usd (pd_entitlements mdoc)"
    by (auto simp: materialize_document_def Let_def split: if_splits)
  with source_document_rules [OF d(1)] that show ?thesis by simp
qed

text \<open>What a materialised policy row satisfies, whatever was requested.\<close>

definition policy_row_ok :: "enforcement_policy \<Rightarrow> bool" where
  "policy_row_ok p \<longleftrightarrow>
     money (ep_auto_approve_below_monthly_usd p)
     \<and> ep_auto_approve_below_monthly_usd p \<le> ep_hard_deny_above_monthly_usd p
     \<and> 0 < ep_hard_deny_above_monthly_usd p \<and> on_grid 4 (ep_hard_deny_above_monthly_usd p)
     \<and> opt_all money (ep_plan_monthly_ceiling_usd p) \<and> opt_all money (ep_enterprise_monthly_ceiling_usd p)
     \<and> 60 \<le> ep_default_ttl_seconds p \<and> ep_default_ttl_seconds p \<le> 86400
     \<and> (\<exists>rules. rules_normal rules
          \<and> ep_approval_routing_rules p = JList (map (\<lambda>r. JObj (rule_dump r)) rules))
     \<and> ep_policy_document_schema_version p = policy_document_schema_version_default"

lemma opt_all_quantize: "opt_all (\<lambda>x. 0 \<le> x) (map_option (quantize 4) x) \<Longrightarrow> opt_all money (map_option (quantize 4) x)"
  by (cases x) (simp_all add: money_def)

lemma materialized_row_ok:
  assumes "materialize_policy_contract_payload vd sha q = Inr m"
  shows "policy_row_ok (apply_policy_contract_materialization m b p)"
proof -
  from assms obtain mdoc where m: "materialize_document vd q = Inr mdoc"
    "pm_auto_approve_below_monthly_usd m = em_auto_approve_below_monthly_usd (pd_entitlements mdoc)"
    "pm_hard_deny_above_monthly_usd m = em_hard_deny_above_monthly_usd (pd_entitlements mdoc)"
    "pm_plan_monthly_ceiling_usd m = em_plan_monthly_ceiling_usd (pd_entitlements mdoc)"
    "pm_enterprise_monthly_ceiling_usd m = em_enterprise_monthly_ceiling_usd (pd_entitlements mdoc)"
    "pm_default_ttl_seconds m = clamp 60 86400 (xm_default_ttl_seconds (pd_execution mdoc))"
    "pm_approval_routing_rules m = am_routing_rules (pd_approval mdoc)"
    "pm_policy_document_schema_version m = policy_document_schema_version_default"
    by (auto simp: materialize_policy_contract_payload_def Let_def)
  from m(1) obtain doc rules where d: "mdoc = quantized_document doc rules" "rules_normal rules"
    "document_valid mdoc"
    "em_auto_approve_below_monthly_usd (pd_entitlements mdoc) \<le> em_hard_deny_above_monthly_usd (pd_entitlements mdoc)"
    by (rule materialize_documentE)
  have grid: "on_grid 4 (em_auto_approve_below_monthly_usd (pd_entitlements mdoc))"
    "on_grid 4 (em_hard_deny_above_monthly_usd (pd_entitlements mdoc))"
    "opt_all money (em_plan_monthly_ceiling_usd (pd_entitlements mdoc))"
    "opt_all money (em_enterprise_monthly_ceiling_usd (pd_entitlements mdoc))"
    "am_routing_rules (pd_approval mdoc) = rules"
    using d(1,3) by (auto simp: quantized_document_def document_valid_def intro!: opt_all_quantize)
  show ?thesis
    unfolding policy_row_ok_def
    using d m grid clamp_bounds [of 60 86400 "xm_default_ttl_seconds (pd_execution mdoc)"]
    by (auto simp: apply_policy_contract_materialization_def document_valid_def money_def)
qed

definition policy_of :: "enf_db \<Rightarrow> uuid \<Rightarrow> enforcement_policy option" where
  "policy_of db tenant_id = first_row (\<lambda>p. ep_tenant_id p = tenant_id) (db_policies db)"

lemma load_policy_row:
  assumes "load_policy db tenant_id = (p, db')"
  shows "policy_of db' tenant_id = Some p" "ep_tenant_id p = tenant_id"
  using assms first_row_append_None [of "\<lambda>p. ep_tenant_id p = tenant_id" "db_policies db"]
  by (auto simp: load_policy_def policy_of_def Let_def first_row_def [of _ "[_]"] new_policy_def
      split: option.splits dest: first_row_SomeD)

lemma write_policy_row:
  assumes "policy_of db (ep_tenant_id p) = Some p0"
  shows "policy_of (write_policy p db) (ep_tenant_id p) = Some p"
  using assms first_row_overwrite [of ep_tenant_id p] by (simp add: policy_of_def write_policy_def)

lemma apply_materialization_tenant [simp]:
  "ep_tenant_id (apply_policy_contract_materialization m b p) = ep_tenant_id p"
  "ep_policy_version (apply_policy_contract_materialization m True p) = ep_policy_version p + 1"
  by (simp_all add: apply_policy_contract_materialization_def)

lemma get_or_create_policy_row:
  assumes "get_or_create_policy vd sha db tenant_id = (Inr p, db')"
  shows "policy_of db' tenant_id = Some p" "ep_tenant_id p = tenant_id"
proof -
  obtain p0 db1 where l: "load_policy db tenant_id = (p0, db1)" by force
  note row = load_policy_row [OF l]
  have "policy_of db' tenant_id = Some p \<and> ep_tenant_id p = tenant_id"
  proof (cases "policy_document_contract_backfill_required vd sha p0")
    case True
    with assms l obtain m where "p = apply_policy_contract_materialization m False p0"
      "db' = write_policy p db1"
      by (auto simp: get_or_create_policy_def Let_def split: sum.splits)
    with row write_policy_row [of db1 p p0] show ?thesis by simp
  next
    case False
    with assms l row show ?thesis by (simp add: get_or_create_policy_def)
  qed
  then show "policy_of db' tenant_id = Some p" "ep_tenant_id p = tenant_id" by simp_all
qed

text \<open>
  Whatever is requested, an update of the policy either is refused and changes nothing, or leaves
  a row whose thresholds are ordered (0 <= auto-approve <= hard-deny, hard-deny positive) amounts
  with four places, whose ceilings are non-negative, whose token lifetime lies between a minute and
  a day and whose routing rules are in normal form; the policy version goes up by exactly one.
\<close>

theorem update_policy_row_ok:
  "case update_policy vd sha db tenant_id q of
     (Inl e, db') \<Rightarrow> db' = db
   | (Inr p, db') \<Rightarrow> policy_row_ok p \<and> ep_tenant_id p = tenant_id
       \<and> policy_of db' tenant_id = Some p
       \<and> (\<exists>p0 db0. get_or_create_policy vd sha db tenant_id = (Inr p0, db0)
             \<and> ep_policy_version p = ep_policy_version p0 + 1)"
proof (cases "materialize_policy_contract_payload vd sha q")
  case (Inl e)
  then show ?thesis by (simp add: update_policy_def)
next
  case (Inr m)
  show ?thesis
  proof (cases "get_or_create_policy vd sha db tenant_id")
    case (Pair r db1)
    show ?thesis
    proof (cases r)
      case (Inl e)
      with Pair \<open>_ = Inr m\<close> show ?thesis by (simp add: update_policy_def)
    next
      case (Inr p)
      with Pair have g: "get_or_create_policy vd sha db tenant_id = (Inr p, db1)" by simp
      let ?p = "apply_policy_contract_materialization m True p"
      note row = get_or_create_policy_row [OF g]
      with g \<open>_ = Inr m\<close> materialized_row_ok [of vd sha q m True p] write_policy_row [of db1 ?p p]
      show ?thesis by (simp add: update_policy_def Let_def)
    qed
  qed
qed

lemma sha_hex_lower_strip:
  assumes "list_all is_hex_char h"
  shows "lower (strip h) = h"
proof -
  have c: "\<not> py_space c \<and> lower_char c = c" if "is_hex_char c" for c
    using that unfolding is_hex_char_def by (auto simp: py_space_def lower_char_def Let_def)
  have "dropWhile py_space xs = xs" if "list_all is_hex_char xs" for xs
    using that c by (cases xs) auto
  moreover have "map lower_char xs = xs" if "list_all is_hex_char xs" for xs
    using that c by (induction xs) auto
  moreover have "list_all is_hex_char (rev h)" using assms by (simp add: list_all_iff)
  ultimately show ?thesis using assms by (simp add: strip_def lower_def)
qed

lemma backfill_not_required:
  assumes "materialize_document vd q = Inr doc" "materialize_policy_contract_payload vd sha q = Inr m"
    and rt: "vd (canonical_policy_document_payload doc) = Some doc"
    and hex: "\<And>x. length (sha x) = 64 \<and> list_all is_hex_char (sha x)"
  shows "\<not> policy_document_contract_backfill_required vd sha (apply_policy_contract_materialization m b p)"
proof -
  have v: "strip policy_document_schema_version_default = policy_document_schema_version_default"
    by code_simp
  have "pm_policy_document_schema_version m = policy_document_schema_version_default"
    "pm_policy_document_sha256 m = policy_document_sha256 sha (canonical_policy_document_payload doc)"
    "pm_policy_document m = canonical_policy_document_payload doc"
    using assms(1,2) by (auto simp: materialize_policy_contract_payload_def Let_def)
  with rt hex v show ?thesis
    by (simp add: policy_document_contract_backfill_required_def apply_policy_contract_materialization_def
        canonical_policy_document_mapping_def policy_document_sha256_def sha_hex_lower_strip)
qed


text \<open>
  A policy written by an update is stable: as long as the document parser reads the canonical
  form of the stored document back as that document and the hash function yields 64 hexadecimal
  digits, the next evaluation finds the row consistent with its document and hash, returns it
  unchanged and writes nothing.
\<close>

theorem update_policy_stable:
  assumes "materialize_document vd q = Inr doc"
    and "vd (canonical_policy_document_payload doc) = Some doc"
    and "\<And>x. length (sha x) = 64 \<and> list_all is_hex_char (sha x)"
    and "update_policy vd sha db tenant_id q = (Inr p, db')"
  shows "get_or_create_policy vd sha db' tenant_id = (Inr p, db')"
proof -
  from assms(4) obtain m p0 db1 where u: "materialize_policy_contract_payload vd sha q = Inr m"
    "get_or_create_policy vd sha db tenant_id = (Inr p0, db1)"
    "p = apply_policy_contract_materialization m True p0" "db' = write_policy p db1"
    by (auto simp: update_policy_def Let_def split: sum.splits prod.splits)
  note row = get_or_create_policy_row [OF u(2)]
  have "policy_of db' tenant_id = Some p" using row u(3,4) write_policy_row [of db1 p p0] by simp
  then have "load_policy db' tenant_id = (p, db')" by (simp add: load_policy_def policy_of_def)
  moreover have "\<not> policy_document_contract_backfill_required vd sha p"
    unfolding u(3) by (rule backfill_not_required [OF assms(1) u(1) assms(2,3)])
  ultimately show ?thesis by (simp add: get_or_create_policy_def)
qed

definition default_request :: policy_request where
  "default_request = \<lparr>pq_terraform_mode = SOFT, pq_terraform_mode_prod = None,
     pq_terraform_mode_nonprod = None, pq_k8s_admission_mode = SOFT, pq_k8s_admission_mode_prod = None,
     pq_k8s_admission_mode_nonprod = None, pq_require_approval_for_prod = True,
     pq_require_approval_for_nonprod = False, pq_plan_monthly_ceiling_usd = None,
     pq_enterprise_monthly_ceiling_usd = None, pq_auto_approve_below_monthly_usd = 25,
     pq_hard_deny_above_monthly_usd = 5000, pq_default_ttl_seconds = 900,
     pq_enforce_prod_separation = True, pq_enforce_nonprod_separation = False,
     pq_approval_routing_rules = [], pq_policy_document = None\<rparr>"

lemma default_quantized:
  "quantized_document default_policy_document [] = default_policy_document"
  "document_valid default_policy_document"
  by (simp_all add: quantized_document_def default_policy_document_def document_valid_def)

lemma default_materialized:
  assumes "source_document vd q = Inr (default_policy_document, [])"
  shows "materialize_document vd q = Inr default_policy_document"
  using assms by (simp add: materialize_document_def default_quantized)
    (simp add: default_policy_document_def)

lemma update_policy_stable_witness:
  "\<exists>p db'. update_policy (\<lambda>_. Some default_policy_document) (\<lambda>_. replicate 64 (CHR ''0'')) empty_db 7 default_request
       = (Inr p, db')
     \<and> get_or_create_policy (\<lambda>_. Some default_policy_document) (\<lambda>_. replicate 64 (CHR ''0'')) db' 7 = (Inr p, db')"
proof -
  let ?vd = "\<lambda>_. Some default_policy_document" and ?sha = "\<lambda>_. replicate 64 (CHR ''0'')"
  have m: "materialize_document ?vd default_request = Inr default_policy_document"
    by (rule default_materialized)
      (simp add: source_document_def default_request_def requested_document_def mode_or_def
        normalize_policy_approval_routing_rules_def default_policy_document_def document_valid_def Let_def)
  have b: "materialize_document ?vd (backfill_request (new_policy i t)) = Inr default_policy_document" for i t
    by (rule default_materialized) (simp add: source_document_def backfill_request_def new_policy_def
        default_policy_document_def normalize_policy_approval_routing_rules_def)
  have pay: "\<exists>pm. materialize_policy_contract_payload ?vd ?sha q = Inr pm"
    if "materialize_document ?vd q = Inr default_policy_document" for q
    using that by (simp add: materialize_policy_contract_payload_def Let_def)
  have l: "load_policy empty_db 7 = (new_policy 1 7, empty_db\<lparr>db_policies := [new_policy 1 7], db_next_id := 2\<rparr>)"
    by (simp add: load_policy_def empty_db_def first_row_def Let_def)
  have "\<exists>p0 db1. get_or_create_policy ?vd ?sha empty_db 7 = (Inr p0, db1)"
    using pay [OF b, of 1 7]
    by (cases "policy_document_contract_backfill_required ?vd ?sha (new_policy 1 7)")
      (auto simp: get_or_create_policy_def l Let_def)
  then obtain p0 db1 where g: "get_or_create_policy ?vd ?sha empty_db 7 = (Inr p0, db1)" by blast
  have "\<exists>p db'. update_policy ?vd ?sha empty_db 7 default_request = (Inr p, db')"
    using pay [OF m] g by (auto simp: update_policy_def Let_def)
  then obtain p db' where u: "update_policy ?vd ?sha empty_db 7 default_request = (Inr p, db')" by blast
  from update_policy_stable [OF m refl _ u] u show ?thesis
    by (auto simp: is_hex_char_def list_all_iff)
qed

end
