(* ===== verification/Enf_Context.thy ===== *)
theory Enf_Context
  imports Enf_Policy
begin

text \<open>
  src/app/modules/enforcement/domain/computed_context_ops.py: the monthly ceilings of a policy, the
  daily cost totals, the cost context of a decision (spend, burn rate, forecast, anomaly) and the
  risk assessment; and \<open>DecisionComputedContext\<close> of service_models.py.

  A calendar date is its ordinal, so that a difference of dates is a number of days. The cost table
  is read through a session that may raise: \<open>Inl e\<close>.
\<close>

subsection \<open>Ceilings\<close>

text \<open>\<open>limit\<close> is \<open>get_tier_limit\<close> at the tenant's pricing tier.\<close>

definition resolve_ceiling :: "rat option \<Rightarrow> json \<Rightarrow> rat option" where
  "resolve_ceiling configured raw =
     (case configured of
        Some c \<Rightarrow> (let normalized = quantize 4 c in if 0 < normalized then Some normalized else None)
      | None \<Rightarrow>
          if raw = JNull then None
          else (let ceiling = quantize 4 (to_decimal raw) in
                if ceiling \<le> 0 then None else Some ceiling))"

definition resolve_plan_monthly_ceiling_usd :: "enforcement_policy \<Rightarrow> (string \<Rightarrow> json) \<Rightarrow> rat option" where
  "resolve_plan_monthly_ceiling_usd p limit =
     resolve_ceiling (ep_plan_monthly_ceiling_usd p) (limit ''enforcement_plan_monthly_ceiling_usd'')"

definition resolve_enterprise_monthly_ceiling_usd ::
  "enforcement_policy \<Rightarrow> (string \<Rightarrow> json) \<Rightarrow> rat option" where
  "resolve_enterprise_monthly_ceiling_usd p limit =
     resolve_ceiling (ep_enterprise_monthly_ceiling_usd p)
       (limit ''enforcement_enterprise_monthly_ceiling_usd'')"

subsection \<open>Daily costs\<close>

record cost_record =
  cr_tenant_id :: uuid
  cr_recorded_at :: int
  cr_cost_usd :: rat
  cr_cost_status :: string

definition month_total_days :: "int \<Rightarrow> int" where
  "month_total_days day = (let d = fromordinal day in month_length (d_year d) (d_month d))"

definition load_daily_cost_totals ::
  "cost_record list \<Rightarrow> uuid \<Rightarrow> int \<Rightarrow> int \<Rightarrow> bool \<Rightarrow> (int \<times> rat) list" where
  "load_daily_cost_totals costs tenant_id start_date end_date final_only =
     (let rows = filter (\<lambda>c. cr_tenant_id c = tenant_id \<and> start_date \<le> cr_recorded_at c
            \<and> cr_recorded_at c \<le> end_date \<and> (final_only \<longrightarrow> cr_cost_status c = ''FINAL'')) costs
      in map (\<lambda>day. (day, quantize 4 (sum_list (map cr_cost_usd
             (filter (\<lambda>c. cr_recorded_at c = day) rows)))))
           (remdups (map cr_recorded_at rows)))"

subsection \<open>Risk\<close>

definition destructive_markers :: "string list" where
  "destructive_markers = [''destroy'', ''delete'', ''terminate'', ''remove'', ''revoke'', ''detach'',
     ''scale_down'', ''downscale'']"

definition high_criticality_values :: "string list" where
  "high_criticality_values = [''critical'', ''high'', ''tier0'', ''tier1'', ''p0'', ''sev0'']"

definition medium_criticality_values :: "string list" where
  "medium_criticality_values = [''medium'', ''tier2'', ''p1'', ''sev1'']"

definition high_impact_markers :: "string list" where
  "high_impact_markers = [''gpu'', ''db'', ''database'', ''cluster'', ''k8s'', ''kubernetes'',
     ''warehouse'', ''redshift'', ''bigquery'', ''rds'', ''postgres'', ''mysql'', ''elasticsearch'']"

definition py_or :: "json \<Rightarrow> json \<Rightarrow> json" where
  "py_or a b = (if py_truthy a then a else b)"

definition mentions :: "string list \<Rightarrow> string \<Rightarrow> bool" where
  "mentions markers s \<longleftrightarrow> list_ex (\<lambda>m. contains m s) markers"

text \<open>Each \<open>if\<close> of the source adds to the score and appends a factor: a list of weighted factors.\<close>

definition risk_factors_of :: "gate_input \<Rightarrow> bool \<Rightarrow> bool \<Rightarrow> (string \<times> int) list" where
  "risk_factors_of gi is_production anomaly_signal =
     (let metadata = gi_metadata gi;
          action = lower (strip (gi_action gi));
          resource_reference = lower (strip (gi_resource_reference gi));
          resource_type = lower (text_or_empty (dict_get metadata ''resource_type''));
          resource_class = lower (strip (py_str (py_or (dict_get metadata ''resource_class'') (JStr resource_type))));
          criticality = lower (strip (py_str (py_or (dict_get metadata ''criticality'')
            (py_or (dict_get metadata ''business_criticality'')
              (py_or (dict_get metadata ''service_criticality'') (JStr ''''))))));
          monthly_delta = quantize 4 (gi_estimated_monthly_delta_usd gi);
          impact_text = join_text '' '' [resource_class, resource_type, resource_reference] in
      (if is_production then [(''production_environment'', 3)] else [])
      @ (if mentions destructive_markers action then [(''destructive_action'', 2)] else [])
      @ (if criticality \<in> set high_criticality_values then [(''criticality_high'', 2)]
         else if criticality \<in> set medium_criticality_values then [(''criticality_medium'', 1)] else [])
      @ (if mentions high_impact_markers impact_text then [(''high_impact_resource_class'', 1)] else [])
      @ (if 5000 \<le> monthly_delta then [(''large_monthly_delta'', 2)]
         else if 1000 \<le> monthly_delta then [(''moderate_monthly_delta'', 1)] else [])
      @ (if anomaly_signal then [(''anomaly_spike_signal'', 1)] else []))"

definition derive_risk_assessment :: "gate_input \<Rightarrow> bool \<Rightarrow> bool \<Rightarrow> string \<times> int \<times> string list" where
  "derive_risk_assessment gi is_production anomaly_signal =
     (let factors = risk_factors_of gi is_production anomaly_signal;
          score = sum_list (map snd factors);
          risk_class = (if 6 \<le> score then ''high'' else if 3 \<le> score then ''medium'' else ''low'')
      in (risk_class, score, map fst factors))"

subsection \<open>The computed context\<close>

record computed_context =
  dc_context_version :: string
  dc_generated_at :: instant
  dc_policy_version :: int
  dc_month_start :: int
  dc_month_end :: int
  dc_month_elapsed_days :: int
  dc_month_total_days :: int
  dc_observed_cost_days :: nat
  dc_latest_cost_date :: "int option"
  dc_mtd_spend_usd :: rat
  dc_burn_rate_daily_usd :: rat
  dc_forecast_eom_usd :: rat
  dc_anomaly_signal :: bool
  dc_anomaly_kind :: "string option"
  dc_anomaly_delta_usd :: rat
  dc_anomaly_percent :: "rat option"
  dc_data_source_mode :: string
  dc_risk_class :: string
  dc_risk_score :: int
  dc_risk_factors :: "string list"

definition totals_get :: "(int \<times> rat) list \<Rightarrow> int \<Rightarrow> rat" where
  "totals_get totals day = (case map_of totals day of None \<Rightarrow> 0 | Some v \<Rightarrow> v)"

text \<open>The guarded load: final costs, else all costs, else none; an error leaves no totals.\<close>

definition load_totals :: "cost_record list res \<Rightarrow> uuid \<Rightarrow> int \<Rightarrow> (int \<times> rat) list \<times> string" where
  "load_totals costs tenant_id today =
     (case costs of
        Inl e \<Rightarrow> ([], ''unavailable'')
      | Inr rows \<Rightarrow>
          (let final = load_daily_cost_totals rows tenant_id (today - 35) today True in
           if final \<noteq> [] then (final, ''final'')
           else let anyway = load_daily_cost_totals rows tenant_id (today - 35) today False in
             (anyway, if anyway \<noteq> [] then ''all_status'' else ''none'')))"

definition build_decision_computed_context ::
  "cost_record list res \<Rightarrow> uuid \<Rightarrow> int \<Rightarrow> gate_input \<Rightarrow> instant \<Rightarrow> bool \<Rightarrow> computed_context" where
  "build_decision_computed_context costs tenant_id policy_version gi now is_production =
     (let today = ordinal_of_instant now;
          month_start = toordinal ((fromordinal today)\<lparr>d_day := 1\<rparr>);
          month_total = month_total_days today;
          month_end = month_start + month_total - 1;
          elapsed = max 1 (today - month_start + 1);
          (totals, source_mode) = load_totals costs tenant_id today;
          some = (totals \<noteq> []);
          in_month = (\<lambda>day. month_start \<le> day \<and> day \<le> today);
          mtd = (if some then quantize 4 (sum_list (map snd (filter (\<lambda>(day, _). in_month day) totals))) else 0);
          observed = (if some then length (filter (\<lambda>(day, amount). in_month day \<and> 0 < amount) totals) else 0);
          burn = (if some then quantize 4 (mtd / of_int elapsed) else 0);
          forecast = (if some then quantize 4 (burn * of_int month_total) else 0);
          today_total = quantize 4 (totals_get totals today);
          baseline_total = quantize 4 (sum_list (map (\<lambda>k. totals_get totals (today - k)) [1..7]));
          baseline_avg = quantize 4 (baseline_total / 7);
          delta = (if some then quantize 4 (today_total - baseline_avg) else 0);
          percent = (if some \<and> 0 < baseline_avg then Some (quantize 2 (delta / baseline_avg * 100)) else None);
          kind = (if \<not> some then None
                  else if baseline_avg \<le> 0 \<and> 100 \<le> today_total then Some ''new_spend''
                  else if 100 \<le> delta \<and> (case percent of None \<Rightarrow> False | Some p \<Rightarrow> 30 \<le> p) then Some ''spike''
                  else None);
          (risk_class, risk_score, risk_factors) = derive_risk_assessment gi is_production (kind \<noteq> None)
      in \<lparr>dc_context_version = ''enforcement_computed_context_v1'', dc_generated_at = now,
          dc_policy_version = policy_version, dc_month_start = month_start, dc_month_end = month_end,
          dc_month_elapsed_days = elapsed, dc_month_total_days = month_total,
          dc_observed_cost_days = observed,
          dc_latest_cost_date = (if some then Some (Max (set (map fst totals))) else None),
          dc_mtd_spend_usd = mtd, dc_burn_rate_daily_usd = burn, dc_forecast_eom_usd = forecast,
          dc_anomaly_signal = (kind \<noteq> None), dc_anomaly_kind = kind, dc_anomaly_delta_usd = delta,
          dc_anomaly_percent = percent, dc_data_source_mode = source_mode,
          dc_risk_class = risk_class, dc_risk_score = risk_score, dc_risk_factors = risk_factors\<rparr>)"

definition ordinal_iso :: "int \<Rightarrow> string" where
  "ordinal_iso day = date_isoformat (fromordinal day)"

definition text_json :: "string option \<Rightarrow> json" where
  "text_json x = (case x of None \<Rightarrow> JNull | Some s \<Rightarrow> JStr s)"

definition context_payload :: "computed_context \<Rightarrow> dict" where
  "context_payload c =
     [(''context_version'', JStr (dc_context_version c)),
      (''generated_at'', JTime (dc_generated_at c)),
      (''policy_version'', JInt (dc_policy_version c)),
      (''month_start'', JStr (ordinal_iso (dc_month_start c))),
      (''month_end'', JStr (ordinal_iso (dc_month_end c))),
      (''month_elapsed_days'', JInt (dc_month_elapsed_days c)),
      (''month_total_days'', JInt (dc_month_total_days c)),
      (''observed_cost_days'', JInt (int (dc_observed_cost_days c))),
      (''latest_cost_date'', text_json (map_option ordinal_iso (dc_latest_cost_date c))),
      (''mtd_spend_usd'', JDec 4 (dc_mtd_spend_usd c)),
      (''burn_rate_daily_usd'', JDec 4 (dc_burn_rate_daily_usd c)),
      (''forecast_eom_usd'', JDec 4 (dc_forecast_eom_usd c)),
      (''anomaly_signal'', JBool (dc_anomaly_signal c)),
      (''anomaly_kind'', text_json (dc_anomaly_kind c)),
      (''anomaly_delta_usd'', JDec 4 (dc_anomaly_delta_usd c)),
      (''anomaly_percent'', (case dc_anomaly_percent c of None \<Rightarrow> JNull | Some p \<Rightarrow> JDec 2 p)),
      (''data_source_mode'', JStr (dc_data_source_mode c)),
      (''risk_class'', JStr (dc_risk_class c)),
      (''risk_score'', JInt (dc_risk_score c)),
      (''risk_factors'', strings_json (dc_risk_factors c))]"

subsection \<open>Facts\<close>

lemma resolve_ceiling_positive: "resolve_ceiling c raw = Some x \<Longrightarrow> money x \<and> 0 < x"
  by (auto simp: resolve_ceiling_def Let_def money_def split: option.splits if_splits)

text \<open>The weight the assessment attaches to each factor it can report.\<close>

definition factor_weight :: "string \<Rightarrow> int" where
  "factor_weight f =
     (if f = ''production_environment'' then 3
      else if f \<in> {''destructive_action'', ''criticality_high'', ''large_monthly_delta''} then 2 else 1)"

text \<open>A guarded factor: what one \<open>if\<close> contributes.\<close>

definition weighted :: "int \<Rightarrow> (string \<times> int) list \<Rightarrow> bool" where
  "weighted bound fs \<longleftrightarrow> map snd fs = map factor_weight (map fst fs)
     \<and> 0 \<le> sum_list (map snd fs) \<and> sum_list (map snd fs) \<le> bound"

lemma weighted_append: "weighted b fs \<Longrightarrow> weighted c gs \<Longrightarrow> weighted (b + c) (fs @ gs)"
  by (auto simp: weighted_def)

lemma weighted_if: "weighted b fs \<Longrightarrow> weighted b gs \<Longrightarrow> weighted b (if p then fs else gs)"
  by simp

lemma weighted_simps:
  "0 \<le> b \<Longrightarrow> weighted b []"
  "weighted b [(f, w)] \<longleftrightarrow> w = factor_weight f \<and> 0 \<le> w \<and> w \<le> b"
  by (auto simp: weighted_def)

lemma risk_factors_weighted: "weighted (3 + (2 + (2 + (1 + (2 + 1))))) (risk_factors_of gi p a)"
  unfolding risk_factors_of_def Let_def
  by (intro weighted_append weighted_if) (simp_all add: weighted_simps factor_weight_def)

definition all_factors :: "string list" where
  "all_factors = [''production_environment'', ''destructive_action'', ''criticality_high'',
     ''criticality_medium'', ''high_impact_resource_class'', ''large_monthly_delta'',
     ''moderate_monthly_delta'', ''anomaly_spike_signal'']"

lemma risk_factors_subseq: "subseq (map fst (risk_factors_of gi p a)) all_factors"
proof -
  have "all_factors = [''production_environment''] @ [''destructive_action''] @
      [''criticality_high'', ''criticality_medium''] @ [''high_impact_resource_class''] @
      [''large_monthly_delta'', ''moderate_monthly_delta''] @ [''anomaly_spike_signal'']"
    by (simp add: all_factors_def)
  then show ?thesis
    unfolding risk_factors_of_def Let_def map_append
    by (elim ssubst) (intro list_emb_append_mono, simp_all)
qed

lemma subseq_distinct: "subseq xs ys \<Longrightarrow> distinct ys \<Longrightarrow> distinct xs"
  by (induction rule: list_emb.induct) (auto dest: list_emb_set)

lemma risk_factors_facts:
  "map snd (risk_factors_of gi p a) = map factor_weight (map fst (risk_factors_of gi p a))"
  "0 \<le> sum_list (map snd (risk_factors_of gi p a))" "sum_list (map snd (risk_factors_of gi p a)) \<le> 11"
  "distinct (map fst (risk_factors_of gi p a))"
  using risk_factors_weighted [of gi p a] subseq_distinct [OF risk_factors_subseq [of gi p a]]
  by (simp_all add: weighted_def all_factors_def)

text \<open>
  The risk score is explained by its factors: it is the sum of the weights of the reported
  factors, which are distinct, lies between 0 and 11, and determines the class (high from 6, medium
  from 3). Being in production adds exactly 3 and the factor saying so, and nothing else changes.
\<close>

theorem risk_assessment_explained:
  "\<exists>risk_class score factors. derive_risk_assessment gi p a = (risk_class, score, factors)
     \<and> score = sum_list (map factor_weight factors) \<and> distinct factors
     \<and> 0 \<le> score \<and> score \<le> 11
     \<and> (risk_class = ''high'' \<longleftrightarrow> 6 \<le> score) \<and> (risk_class = ''low'' \<longleftrightarrow> score < 3)
     \<and> derive_risk_assessment gi True a =
         (let s = fst (snd (derive_risk_assessment gi False a)) + 3 in
          (if 6 \<le> s then ''high'' else ''medium'', s,
           ''production_environment'' # snd (snd (derive_risk_assessment gi False a))))"
proof -
  have "risk_factors_of gi True a = (''production_environment'', 3) # risk_factors_of gi False a"
    by (simp add: risk_factors_of_def Let_def)
  moreover note risk_factors_facts(2) [of gi False a]
  ultimately show ?thesis
    using risk_factors_facts(2-4) [of gi p a] arg_cong [OF risk_factors_facts(1) [of gi p a], of sum_list]
    by (auto simp: derive_risk_assessment_def Let_def)
qed

lemma month_length_bounds:
  assumes "1 \<le> m" "m \<le> 12"
  shows "28 \<le> month_length y m" "month_length y m \<le> 31"
proof -
  have "m \<in> {1, 2, 3, 4, 5, 6, 7, 8, 9, 10, 11, 12}" using assms by simp presburger
  then show "28 \<le> month_length y m" "month_length y m \<le> 31"
    by (auto simp: month_length_def days_before_month_numeral leap_day_def)
qed

text \<open>
  The cost window of a decision is the calendar month of the evaluation: it starts on or before
  today and ends on or after it, the elapsed days count from 1 to today and never exceed the days of
  the month, of which there are 28 to 31. The cost data is reported as unavailable exactly when
  reading it failed, and then nothing is claimed about spend, forecast or anomalies.
\<close>

theorem computed_context_window:
  "let c = build_decision_computed_context costs tenant_id v gi now is_prod; today = ordinal_of_instant now in
   dc_month_start c \<le> today \<and> today \<le> dc_month_end c
   \<and> dc_month_elapsed_days c = today - dc_month_start c + 1
   \<and> 1 \<le> dc_month_elapsed_days c \<and> dc_month_elapsed_days c \<le> dc_month_total_days c
   \<and> 28 \<le> dc_month_total_days c \<and> dc_month_total_days c \<le> 31
   \<and> (dc_data_source_mode c = ''unavailable'' \<longleftrightarrow> (\<exists>e. costs = Inl e))
   \<and> (dc_data_source_mode c \<in> {''unavailable'', ''none''} \<longleftrightarrow> dc_latest_cost_date c = None)
   \<and> (if dc_latest_cost_date c = None
      then dc_mtd_spend_usd c = 0 \<and> dc_forecast_eom_usd c = 0 \<and> dc_anomaly_signal c = False
      else dc_mtd_spend_usd c = quantize 4 (dc_mtd_spend_usd c))"
proof -
  define d where "d = fromordinal (ordinal_of_instant now)"
  have b: "toordinal d = ordinal_of_instant now" "1 \<le> d_month d" "d_month d \<le> 12" "1 \<le> d_day d"
    "d_day d \<le> month_length (d_year d) (d_month d)"
    using fromordinal_month_bounds [of "ordinal_of_instant now"] by (simp_all add: d_def)
  have s: "toordinal (d\<lparr>d_day := 1\<rparr>) = ordinal_of_instant now - d_day d + 1"
    using b(1) by (simp add: toordinal_def)
  obtain totals md where l: "load_totals costs tenant_id (ordinal_of_instant now) = (totals, md)" by force
  have md: "md = ''unavailable'' \<longleftrightarrow> (\<exists>e. costs = Inl e)" "md \<in> {''unavailable'', ''none''} \<longleftrightarrow> totals = []"
    using l by (auto simp: load_totals_def Let_def split: sum.splits if_splits)
  show ?thesis
    using b s md month_length_bounds [OF b(2,3), of "d_year d"]
    by (simp add: build_decision_computed_context_def Let_def l month_total_days_def d_def [symmetric]
        case_prod_beta del: One_nat_def)
qed

end
