(* ===== verification/Enf_Credit.thy ===== *)
theory Enf_Credit
  imports Enf_Utils Base_Draw "HOL-Library.Multiset"
begin

text \<open>
  src/app/modules/enforcement/domain/credit_ops.py and budget_credit_ops.py: budgets, credit
  grants, and the reservation of credit for a decision (the settlement is in Enf_Settlement).

  A reservation walks the eligible grants in the query's order, takes from each what it can and
  inserts an allocation row per grant; the loop threads the database row by row as the ORM objects
  are mutated. An HTTP error before the commit leaves no trace: the operation
  returns the error and the caller keeps the old database.
\<close>

definition uuid_text :: "uuid \<Rightarrow> string" where
  "uuid_text i = nat_text i"

subsection \<open>Budgets and grants\<close>

definition list_budgets :: "enf_db \<Rightarrow> uuid \<Rightarrow> budget_allocation list" where
  "list_budgets db tenant_id =
     sort_key ba_scope_key (filter (\<lambda>b. ba_tenant_id b = tenant_id) (db_budgets db))"

definition upsert_budget ::
  "enf_db \<Rightarrow> uuid \<Rightarrow> uuid \<Rightarrow> string \<Rightarrow> rat \<Rightarrow> bool \<Rightarrow> budget_allocation outcome" where
  "upsert_budget db tenant_id actor_id scope_key monthly_limit_usd active =
     (let normalized_scope = scope_of scope_key;
          mine = (\<lambda>b. ba_tenant_id b = tenant_id \<and> ba_scope_key b = normalized_scope) in
      if monthly_limit_usd < 0 then (Inl (HTTPException 422 ''monthly_limit_usd must be >= 0''), db)
      else case first_row mine (db_budgets db) of
        None \<Rightarrow>
          (let budget = \<lparr>ba_id = db_next_id db, ba_tenant_id = tenant_id,
                 ba_scope_key = normalized_scope,
                 ba_monthly_limit_usd = quantize 4 monthly_limit_usd, ba_active = active,
                 ba_created_by_user_id = Some actor_id\<rparr>
           in (Inr budget, db\<lparr>db_budgets := db_budgets db @ [budget],
                 db_next_id := Suc (db_next_id db)\<rparr>))
      | Some b \<Rightarrow>
          (let budget = b\<lparr>ba_monthly_limit_usd := quantize 4 monthly_limit_usd,
                 ba_active := active\<rparr>
           in (Inr budget,
               db\<lparr>db_budgets := update_where (\<lambda>r. ba_id r = ba_id b) (\<lambda>_. budget) (db_budgets db)\<rparr>)))"

definition list_credits :: "enf_db \<Rightarrow> uuid \<Rightarrow> credit_grant list" where
  "list_credits db tenant_id =
     sort_key (\<lambda>g. - cg_created_at g) (filter (\<lambda>g. cg_tenant_id g = tenant_id) (db_grants db))"

definition create_credit_grant ::
  "enf_db \<Rightarrow> uuid \<Rightarrow> uuid \<Rightarrow> credit_pool_type \<Rightarrow> string \<Rightarrow> rat \<Rightarrow> instant option \<Rightarrow> string option
    \<Rightarrow> instant \<Rightarrow> credit_grant outcome" where
  "create_credit_grant db tenant_id actor_id pool_type scope_key total_amount_usd expires_at reason now =
     (let amount = quantize 4 total_amount_usd in
      if amount \<le> 0 then (Inl (HTTPException 422 ''total_amount_usd must be > 0''), db)
      else if (case expires_at of None \<Rightarrow> False | Some t \<Rightarrow> t \<le> now)
      then (Inl (HTTPException 422 ''expires_at must be in the future''), db)
      else
        let credit = \<lparr>cg_id = db_next_id db, cg_tenant_id = tenant_id, cg_pool_type = pool_type,
              cg_scope_key = scope_of scope_key, cg_total_amount_usd = amount,
              cg_remaining_amount_usd = amount, cg_expires_at = expires_at,
              cg_reason = (case reason of None \<Rightarrow> None
                | Some r \<Rightarrow> if r = '''' then None else Some (strip r)),
              cg_active = True, cg_created_by_user_id = Some actor_id, cg_created_at = now\<rparr>
        in (Inr credit, db\<lparr>db_grants := db_grants db @ [credit],
              db_next_id := Suc (db_next_id db)\<rparr>))"

subsection \<open>Headrooms\<close>

definition grant_live :: "instant \<Rightarrow> credit_grant \<Rightarrow> bool" where
  "grant_live now g \<longleftrightarrow> (case cg_expires_at g of None \<Rightarrow> True | Some t \<Rightarrow> now < t)"

definition grant_eligible :: "uuid \<Rightarrow> credit_pool_type \<Rightarrow> string \<Rightarrow> instant \<Rightarrow> credit_grant \<Rightarrow> bool" where
  "grant_eligible tenant_id pool_type scope now g \<longleftrightarrow>
     cg_tenant_id g = tenant_id \<and> cg_active g \<and> cg_pool_type g = pool_type \<and> grant_live now g
     \<and> (pool_type = RESERVED \<longrightarrow> cg_scope_key g = scope \<or> cg_scope_key g = ''default'')"

definition eligible_remaining :: "enf_db \<Rightarrow> uuid \<Rightarrow> credit_pool_type \<Rightarrow> string \<Rightarrow> instant \<Rightarrow> rat" where
  "eligible_remaining db tenant_id pool_type scope now =
     sum_list (map cg_remaining_amount_usd
       (filter (grant_eligible tenant_id pool_type scope now) (db_grants db)))"

definition active_decision_credit :: "enf_db \<Rightarrow> uuid \<Rightarrow> rat" where
  "active_decision_credit db tenant_id =
     sum_list (map ed_reserved_credit_usd
       (filter (\<lambda>d. ed_tenant_id d = tenant_id \<and> ed_reservation_active d) (db_decisions db)))"

definition active_mapped_credit :: "enf_db \<Rightarrow> uuid \<Rightarrow> rat" where
  "active_mapped_credit db tenant_id =
     sum_list (map ca_reserved_amount_usd
       (filter (\<lambda>a. ca_tenant_id a = tenant_id \<and> ca_active a) (db_allocations db)))"

definition get_credit_headrooms :: "enf_db \<Rightarrow> uuid \<Rightarrow> string \<Rightarrow> instant \<Rightarrow> rat \<times> rat" where
  "get_credit_headrooms db tenant_id scope_key now =
     (let normalized_scope = scope_of scope_key;
          reserved_remaining = eligible_remaining db tenant_id RESERVED normalized_scope now;
          emergency_remaining = eligible_remaining db tenant_id EMERGENCY normalized_scope now;
          uncovered = max 0 (active_decision_credit db tenant_id - active_mapped_credit db tenant_id);
          reserved0 = max 0 reserved_remaining;
          emergency0 = max 0 emergency_remaining;
          (reserved1, emergency1) =
            (if 0 < uncovered then
               let reduction = min uncovered reserved0;
                   remaining_uncovered = quantize 4 (uncovered - reduction)
               in (quantize 4 (max 0 (reserved0 - reduction)),
                   if 0 < remaining_uncovered
                   then quantize 4 (max 0 (emergency0 - remaining_uncovered)) else emergency0)
             else (reserved0, emergency0))
      in (quantize 4 reserved1, quantize 4 emergency1))"

subsection \<open>Reservation\<close>

definition scope_priority :: "string \<Rightarrow> credit_grant \<Rightarrow> int" where
  "scope_priority scope g =
     (if cg_scope_key g = scope then 0 else if cg_scope_key g = ''default'' then 1 else 2)"

definition expiry_key :: "credit_grant \<Rightarrow> int \<times> int \<times> int \<times> nat" where
  "expiry_key g = (case cg_expires_at g of
      None \<Rightarrow> (1, 0, cg_created_at g, cg_id g) | Some t \<Rightarrow> (0, t, cg_created_at g, cg_id g))"

definition grant_order :: "credit_pool_type \<Rightarrow> string \<Rightarrow> credit_grant \<Rightarrow> int \<times> int \<times> int \<times> int \<times> nat" where
  "grant_order pool_type scope g =
     (if pool_type = RESERVED then scope_priority scope g else 0, expiry_key g)"

definition eligible_grants ::
  "enf_db \<Rightarrow> uuid \<Rightarrow> credit_pool_type \<Rightarrow> string \<Rightarrow> instant \<Rightarrow> credit_grant list" where
  "eligible_grants db tenant_id pool_type scope now =
     sort_key (grant_order pool_type scope)
       (filter (grant_eligible tenant_id pool_type scope now) (db_grants db))"

text \<open>One turn of the loop body: the amount taken from a grant and what is still missing.\<close>

definition take_from_grant :: "rat \<Rightarrow> rat \<Rightarrow> rat \<times> rat" where
  "take_from_grant available remaining =
     (if remaining \<le> 0 then (0, remaining)
      else let grant_remaining = quantize 4 available in
        if grant_remaining \<le> 0 then (0, remaining)
        else let reserve_amount = quantize 4 (min remaining grant_remaining) in
          if reserve_amount \<le> 0 then (0, remaining)
          else (reserve_amount, quantize 4 (remaining - reserve_amount)))"

definition debit_grant :: "rat \<Rightarrow> credit_grant \<Rightarrow> credit_grant" where
  "debit_grant amount g =
     (let left = quantize 4 (quantize 4 (cg_remaining_amount_usd g) - amount) in
      g\<lparr>cg_remaining_amount_usd := left, cg_active := (if left \<le> 0 then False else cg_active g)\<rparr>)"

definition new_allocation ::
  "enf_db \<Rightarrow> uuid \<Rightarrow> uuid \<Rightarrow> credit_pool_type \<Rightarrow> instant \<Rightarrow> rat \<Rightarrow> credit_grant \<Rightarrow> credit_allocation" where
  "new_allocation db tenant_id decision_id pool_type now amount g =
     \<lparr>ca_id = db_next_id db, ca_tenant_id = tenant_id, ca_decision_id = decision_id,
      ca_credit_grant_id = cg_id g, ca_credit_pool_type = pool_type,
      ca_reserved_amount_usd = amount, ca_consumed_amount_usd = 0, ca_released_amount_usd = 0,
      ca_active = True, ca_created_at = now, ca_settled_at = None\<rparr>"

definition reserve_from_grant ::
  "uuid \<Rightarrow> uuid \<Rightarrow> credit_pool_type \<Rightarrow> instant \<Rightarrow> rat \<Rightarrow> credit_grant \<Rightarrow> enf_db \<Rightarrow> enf_db" where
  "reserve_from_grant tenant_id decision_id pool_type now amount g db =
     db\<lparr>db_grants := update_where (\<lambda>r. cg_id r = cg_id g) (debit_grant amount) (db_grants db),
        db_allocations := db_allocations db @
          [new_allocation db tenant_id decision_id pool_type now amount g],
        db_next_id := Suc (db_next_id db)\<rparr>"

definition allocation_payload :: "credit_pool_type \<Rightarrow> rat \<Rightarrow> credit_grant \<Rightarrow> dict" where
  "allocation_payload pool_type amount g =
     [(''credit_grant_id'', JStr (uuid_text (cg_id g))),
      (''credit_pool_type'', JStr (pool_value pool_type)),
      (''scope_key'', JStr (cg_scope_key g)),
      (''reserved_amount_usd'', JDec 4 amount)]"

fun reserve_loop ::
  "uuid \<Rightarrow> uuid \<Rightarrow> credit_pool_type \<Rightarrow> instant \<Rightarrow> credit_grant list \<Rightarrow> rat \<Rightarrow> enf_db
    \<Rightarrow> dict list \<times> rat \<times> enf_db" where
  "reserve_loop tenant_id decision_id pool_type now [] remaining db = ([], remaining, db)"
| "reserve_loop tenant_id decision_id pool_type now (g # gs) remaining db =
     (if remaining \<le> 0 then ([], remaining, db)
      else
        let (amount, left) = take_from_grant (cg_remaining_amount_usd g) remaining in
        if amount \<le> 0 then reserve_loop tenant_id decision_id pool_type now gs remaining db
        else
          let (allocations, rest, db') = reserve_loop tenant_id decision_id pool_type now gs left
                (reserve_from_grant tenant_id decision_id pool_type now amount g db)
          in (allocation_payload pool_type amount g # allocations, rest, db'))"

definition insufficient_headroom :: "credit_pool_type \<Rightarrow> rat \<Rightarrow> err" where
  "insufficient_headroom pool_type remaining =
     HTTPException 409 (''Insufficient credit grant headroom during reservation allocation (pool=''
       @ pool_value pool_type @ '', missing='' @ fixed_text 4 remaining @ '')'')"

definition reserve_credit_from_grants ::
  "enf_db \<Rightarrow> uuid \<Rightarrow> uuid \<Rightarrow> string \<Rightarrow> credit_pool_type \<Rightarrow> rat \<Rightarrow> instant
    \<Rightarrow> (dict list \<times> enf_db) res" where
  "reserve_credit_from_grants db tenant_id decision_id scope_key pool_type reserve_target_usd now =
     (let target = quantize 4 reserve_target_usd in
      if target \<le> 0 then Inr ([], db)
      else
        let (allocations, remaining, db') = reserve_loop tenant_id decision_id pool_type now
              (eligible_grants db tenant_id pool_type scope_key now) target db
        in if 0 < remaining then Inl (insufficient_headroom pool_type remaining)
           else Inr (allocations, db'))"

definition reserve_credit_for_decision ::
  "enf_db \<Rightarrow> uuid \<Rightarrow> uuid \<Rightarrow> string \<Rightarrow> rat \<Rightarrow> rat \<Rightarrow> instant \<Rightarrow> (dict list \<times> enf_db) res" where
  "reserve_credit_for_decision db tenant_id decision_id scope_key reserve_reserved_credit_usd
     reserve_emergency_credit_usd now =
     (let reserved_target = quantize 4 reserve_reserved_credit_usd;
          emergency_target = quantize 4 reserve_emergency_credit_usd;
          scope = scope_of scope_key in
      bind_res
        (if 0 < reserved_target
         then reserve_credit_from_grants db tenant_id decision_id scope RESERVED reserved_target now
         else Inr ([], db))
        (\<lambda>(allocations1, db1).
          bind_res
            (if 0 < emergency_target
             then reserve_credit_from_grants db1 tenant_id decision_id scope EMERGENCY
               emergency_target now
             else Inr ([], db1))
            (\<lambda>(allocations2, db2). Inr (allocations1 @ allocations2, db2))))"

subsection \<open>The books of a grant\<close>

text \<open>
  What an allocation still holds of its grant: reserved but not released. A grant's books are its
  identity, its total and its remaining amount together with what its allocations hold; the
  well-formedness invariant says that the two add up to the grant's total.
\<close>

definition held :: "credit_allocation \<Rightarrow> rat" where
  "held a = ca_reserved_amount_usd a - ca_released_amount_usd a"

definition outstanding :: "credit_allocation list \<Rightarrow> uuid \<Rightarrow> rat" where
  "outstanding as gid = sum_list (map (\<lambda>a. if ca_credit_grant_id a = gid then held a else 0) as)"

definition grant_books :: "credit_allocation list \<Rightarrow> credit_grant \<Rightarrow> uuid \<times> uuid \<times> credit_pool_type \<times> string \<times> rat \<times> rat" where
  "grant_books as g = (cg_id g, cg_tenant_id g, cg_pool_type g, cg_scope_key g,
     cg_total_amount_usd g, cg_remaining_amount_usd g + outstanding as (cg_id g))"

definition grant_ok :: "credit_grant \<Rightarrow> bool" where
  "grant_ok g \<longleftrightarrow> money (cg_total_amount_usd g) \<and> money (cg_remaining_amount_usd g)"

definition allocation_ok :: "credit_allocation \<Rightarrow> bool" where
  "allocation_ok a \<longleftrightarrow> money (ca_reserved_amount_usd a) \<and> 0 < ca_reserved_amount_usd a
     \<and> money (ca_consumed_amount_usd a) \<and> money (ca_released_amount_usd a)
     \<and> ca_consumed_amount_usd a + ca_released_amount_usd a \<le> ca_reserved_amount_usd a
     \<and> (ca_active a \<longrightarrow> ca_consumed_amount_usd a = 0 \<and> ca_released_amount_usd a = 0)"

definition grant_keys :: "credit_grant list \<Rightarrow> (uuid \<times> uuid) set" where
  "grant_keys gs = (\<lambda>g. (cg_id g, cg_tenant_id g)) ` set gs"

definition credit_wf :: "enf_db \<Rightarrow> bool" where
  "credit_wf db \<longleftrightarrow>
     distinct (map cg_id (db_grants db)) \<and> distinct (map ca_id (db_allocations db))
     \<and> (\<forall>g \<in> set (db_grants db). grant_ok g \<and> cg_id g < db_next_id db
          \<and> cg_remaining_amount_usd g + outstanding (db_allocations db) (cg_id g) = cg_total_amount_usd g)
     \<and> (\<forall>a \<in> set (db_allocations db). allocation_ok a \<and> ca_id a < db_next_id db
          \<and> (ca_credit_grant_id a, ca_tenant_id a) \<in> grant_keys (db_grants db))"

lemma outstanding_simps [simp]:
  "outstanding [] gid = 0"
  "outstanding (a # as) gid = (if ca_credit_grant_id a = gid then held a else 0) + outstanding as gid"
  "outstanding (as @ bs) gid = outstanding as gid + outstanding bs gid"
  by (simp_all add: outstanding_def)

lemma held_nonneg: "allocation_ok a \<Longrightarrow> 0 \<le> held a"
  by (auto simp: allocation_ok_def held_def dest: money_nonneg)

lemma outstanding_nonneg:
  "(\<And>a. a \<in> set as \<Longrightarrow> allocation_ok a) \<Longrightarrow> 0 \<le> outstanding as gid"
  unfolding outstanding_def by (intro sum_list_nonneg) (auto simp: held_nonneg)

lemma outstanding_fresh:
  "(\<And>a. a \<in> set as \<Longrightarrow> ca_credit_grant_id a \<noteq> gid) \<Longrightarrow> outstanding as gid = 0"
  by (induction as) auto

lemma credit_wfD:
  assumes "credit_wf db"
  shows "distinct (map cg_id (db_grants db))" "distinct (map ca_id (db_allocations db))"
    "g \<in> set (db_grants db) \<Longrightarrow> grant_ok g"
    "g \<in> set (db_grants db) \<Longrightarrow>
       cg_remaining_amount_usd g + outstanding (db_allocations db) (cg_id g) = cg_total_amount_usd g"
    "a \<in> set (db_allocations db) \<Longrightarrow> allocation_ok a"
  using assms by (auto simp: credit_wf_def)

lemma credit_wf_remaining:
  assumes "credit_wf db" "g \<in> set (db_grants db)"
  shows "0 \<le> cg_remaining_amount_usd g" "cg_remaining_amount_usd g \<le> cg_total_amount_usd g"
  using credit_wfD [OF assms(1)] assms(2) outstanding_nonneg [of "db_allocations db" "cg_id g"]
  by (fastforce simp: grant_ok_def dest: money_nonneg)+

lemma create_credit_grant_wf:
  assumes "credit_wf db"
  shows "credit_wf (snd (create_credit_grant db tenant_id actor_id pool scope amount expires reason now))"
proof -
  have "outstanding (db_allocations db) (db_next_id db) = 0"
    using assms by (intro outstanding_fresh) (fastforce simp: credit_wf_def grant_keys_def)
  with assms show ?thesis
    by (auto simp: grant_keys_def create_credit_grant_def credit_wf_def Let_def grant_ok_def money_def less_Suc_eq)
qed

interpretation grant_pool: draw take_from_grant
proof
  fix a w :: rat
  assume m: "money a" "money w"
  then show "money (fst (take_from_grant a w))" "money (snd (take_from_grant a w))"
    "fst (take_from_grant a w) \<le> a" "fst (take_from_grant a w) + snd (take_from_grant a w) = w"
    by (auto simp: take_from_grant_def Let_def money_def)
  assume "0 < snd (take_from_grant a w)"
  with m show "fst (take_from_grant a w) = a"
    by (auto simp: take_from_grant_def Let_def money_def min_def split: if_splits)
qed


subsection \<open>What a reservation does\<close>

text \<open>The new rows of a run that takes \<open>ts\<close> from the grants \<open>gs\<close>: one per grant that gave something.\<close>

definition charged :: "credit_grant list \<Rightarrow> rat list \<Rightarrow> (uuid \<times> rat) list" where
  "charged gs ts = filter (\<lambda>(_, t). 0 < t) (zip (map cg_id gs) ts)"

lemma charged_simps [simp]:
  "charged [] ts = []"
  "charged (g # gs) (t # ts) = (if 0 < t then (cg_id g, t) # charged gs ts else charged gs ts)"
  by (simp_all add: charged_def)

lemma sum_charged:
  assumes "length ts = length gs" "list_all (\<lambda>t. 0 \<le> t) ts"
  shows "sum_list (map snd (charged gs ts)) = sum_list ts"
  using assms by (induction gs ts rule: list_induct2') auto

lemma grant_books_reserve:
  assumes wf: "credit_wf db" and g: "g \<in> set (db_grants db)"
    and t: "money t" "0 < t" "t \<le> cg_remaining_amount_usd g"
    and tenant: "cg_tenant_id g = tenant_id"
    and db'_def: "db' = reserve_from_grant tenant_id decision_id pool now t g db"
  shows "map (grant_books (db_allocations db')) (db_grants db') =
      map (grant_books (db_allocations db)) (db_grants db)"
    and "credit_wf db'"
proof -
  have gok: "\<And>r. r \<in> set (db_grants db) \<Longrightarrow> grant_ok r"
    and same: "\<And>r. r \<in> set (db_grants db) \<Longrightarrow> cg_id r = cg_id g \<Longrightarrow> r = g"
    using wf g by (auto simp: credit_wf_def distinct_map inj_on_def)
  then have eq: "\<And>r. r \<in> set (db_grants db) \<Longrightarrow>
      grant_books (db_allocations db') (if cg_id r = cg_id g then debit_grant t r else r)
        = grant_books (db_allocations db) r"
    using gok [OF g] t unfolding db'_def
    by (auto simp: grant_books_def reserve_from_grant_def new_allocation_def debit_grant_def
        held_def grant_ok_def money_def Let_def)
  then show books: "map (grant_books (db_allocations db')) (db_grants db') =
      map (grant_books (db_allocations db)) (db_grants db)"
    by (simp add: db'_def reserve_from_grant_def update_where_def)
  have ids: "map cg_id (db_grants db') = map cg_id (db_grants db)"
    by (simp add: db'_def reserve_from_grant_def map_update_where debit_grant_def Let_def)
  have "map (\<lambda>g. (cg_id g, cg_tenant_id g)) (db_grants db') = map (\<lambda>g. (cg_id g, cg_tenant_id g)) (db_grants db)"
    by (simp add: db'_def reserve_from_grant_def map_update_where debit_grant_def Let_def)
  then have keys: "grant_keys (db_grants db') = grant_keys (db_grants db)"
    by (metis grant_keys_def set_map)
  have rows: "grant_ok r' \<and> cg_id r' < db_next_id db' \<and>
      cg_remaining_amount_usd r' + outstanding (db_allocations db') (cg_id r') = cg_total_amount_usd r'"
    if "r' \<in> set (db_grants db')" for r'
  proof -
    from that obtain r where r: "r \<in> set (db_grants db)"
      "r' = (if cg_id r = cg_id g then debit_grant t r else r)"
      unfolding db'_def reserve_from_grant_def by (auto elim: in_update_whereE)
    with eq [of r] have "grant_books (db_allocations db') r' = grant_books (db_allocations db) r"
      by simp
    moreover have "grant_ok r'"
      using r gok [of r] same [of r] t
      by (auto simp: debit_grant_def grant_ok_def money_def Let_def)
    ultimately show ?thesis
      using r wf by (auto simp: grant_books_def credit_wf_def db'_def reserve_from_grant_def less_Suc_eq)
  qed
  have "allocation_ok (new_allocation db tenant_id decision_id pool now t g)"
    using t by (simp add: allocation_ok_def new_allocation_def)
  with wf g ids rows keys tenant show "credit_wf db'"
    by (auto simp: credit_wf_def grant_keys_def db'_def reserve_from_grant_def new_allocation_def less_Suc_eq)
qed


text \<open>
  The specification of a reservation: the allocation rows it appends carry exactly the given
  charges and are open, no grant's books change, nothing else in the database changes.
\<close>

type_synonym charge = "credit_pool_type \<times> uuid \<times> rat"

definition charge_of :: "credit_allocation \<Rightarrow> charge" where
  "charge_of a = (ca_credit_pool_type a, ca_credit_grant_id a, ca_reserved_amount_usd a)"

definition open_row :: "uuid \<Rightarrow> uuid \<Rightarrow> instant \<Rightarrow> credit_allocation \<Rightarrow> bool" where
  "open_row tenant_id decision_id now a \<longleftrightarrow> ca_tenant_id a = tenant_id \<and> ca_decision_id a = decision_id
     \<and> ca_active a \<and> ca_consumed_amount_usd a = 0 \<and> ca_released_amount_usd a = 0
     \<and> ca_created_at a = now"

definition reserves_credit :: "uuid \<Rightarrow> uuid \<Rightarrow> instant \<Rightarrow> charge list \<Rightarrow> enf_db \<Rightarrow> enf_db \<Rightarrow> bool" where
  "reserves_credit tenant_id decision_id now charges db db' \<longleftrightarrow>
     (\<exists>new. db_allocations db' = db_allocations db @ new \<and> map charge_of new = charges
        \<and> list_all (open_row tenant_id decision_id now) new)
     \<and> map (grant_books (db_allocations db')) (db_grants db') =
         map (grant_books (db_allocations db)) (db_grants db)
     \<and> db' = db\<lparr>db_grants := db_grants db', db_allocations := db_allocations db',
           db_next_id := db_next_id db'\<rparr>
     \<and> db_next_id db \<le> db_next_id db'"

lemma reserves_credit_refl: "reserves_credit tenant_id decision_id now [] db db"
  by (simp add: reserves_credit_def)

lemma reserves_credit_trans:
  assumes "reserves_credit tenant_id decision_id now cs db db1"
    and "reserves_credit tenant_id decision_id now cs' db1 db2"
  shows "reserves_credit tenant_id decision_id now (cs @ cs') db db2"
proof -
  from assms have "db1 = db\<lparr>db_grants := db_grants db1, db_allocations := db_allocations db1,
      db_next_id := db_next_id db1\<rparr>" "db2 = db1\<lparr>db_grants := db_grants db2,
      db_allocations := db_allocations db2, db_next_id := db_next_id db2\<rparr>"
    by (simp_all add: reserves_credit_def)
  then have "db2 = db\<lparr>db_grants := db_grants db2, db_allocations := db_allocations db2,
      db_next_id := db_next_id db2\<rparr>"
    by (cases db; cases db1; cases db2) simp
  moreover from assms obtain new new' where
    "db_allocations db1 = db_allocations db @ new" "map charge_of new = cs"
    "list_all (open_row tenant_id decision_id now) new"
    "db_allocations db2 = db_allocations db1 @ new'" "map charge_of new' = cs'"
    "list_all (open_row tenant_id decision_id now) new'"
    by (auto simp: reserves_credit_def)
  then have "db_allocations db2 = db_allocations db @ (new @ new')"
    "map charge_of (new @ new') = cs @ cs'"
    "list_all (open_row tenant_id decision_id now) (new @ new')" by simp_all
  moreover have "db_next_id db \<le> db_next_id db2"
    using assms by (auto simp: reserves_credit_def)
  ultimately show ?thesis
    using assms unfolding reserves_credit_def by metis
qed

lemma reserve_from_grant_reserves:
  assumes "credit_wf db" "g \<in> set (db_grants db)"
    and "money t" "0 < t" "t \<le> cg_remaining_amount_usd g" "cg_tenant_id g = tenant_id"
  shows "reserves_credit tenant_id decision_id now [(pool, cg_id g, t)] db
    (reserve_from_grant tenant_id decision_id pool now t g db)"
  using grant_books_reserve(1) [OF assms refl]
  by (simp add: reserves_credit_def open_row_def charge_of_def reserve_from_grant_def new_allocation_def)

lemma reserve_loop_reserves:
  assumes "credit_wf db" "set gs \<subseteq> set (db_grants db)" "distinct (map cg_id gs)" "money w"
    and "\<And>g. g \<in> set gs \<Longrightarrow> cg_tenant_id g = tenant_id"
    and "reserve_loop tenant_id decision_id pool now gs w db = (payload, rest, db')"
  shows "credit_wf db'" (is ?wf)
    and "rest = snd (draw_all take_from_grant (map cg_remaining_amount_usd gs) w)" (is ?rest)
    and "reserves_credit tenant_id decision_id now (map (Pair pool)
      (charged gs (fst (draw_all take_from_grant (map cg_remaining_amount_usd gs) w)))) db db'" (is ?spec)
proof -
  have "?wf \<and> ?rest \<and> ?spec"
    using assms
  proof (induction gs arbitrary: w db payload)
    case Nil
    then show ?case by (auto simp: reserves_credit_refl)
  next
    case (Cons g gs)
    let ?a = "cg_remaining_amount_usd g" and ?d = "draw_all take_from_grant (map cg_remaining_amount_usd gs)"
    obtain t v where tv: "take_from_grant ?a w = (t, v)" by force
    have mg: "money ?a" and ms: "list_all money (map cg_remaining_amount_usd gs)"
      using Cons.prems by (auto simp: credit_wf_def grant_ok_def list_all_iff)
    note law = grant_pool.taken_money [OF mg Cons.prems(4)] grant_pool.left_money [OF mg Cons.prems(4)]
      grant_pool.taken_le [OF mg Cons.prems(4)] grant_pool.conserves [OF mg Cons.prems(4)]
    have tv': "money t" "money v" "t \<le> ?a" "t + v = w" using law tv by simp_all
    consider "w \<le> 0" | "0 < w" "t \<le> 0" | "0 < w" "0 < t" by linarith
    then show ?case
    proof cases
      case 1
      with Cons.prems(4) have "w = 0" by (auto dest: money_nonneg)
      moreover from this tv have "t = 0" "v = 0" by (simp_all add: take_from_grant_def)
      moreover have "length (charged gs (replicate (length gs) 0)) = 0"
        by (simp add: charged_def zip_replicate2 filter_empty_conv)
      moreover have "snd (?d 0) = 0" using grant_pool.draw_all_conserves [OF ms money_0]
          grant_pool.draw_all_zero [OF ms] by (simp add: sum_list_replicate)
      ultimately show ?thesis
        using Cons.prems grant_pool.draw_all_zero [OF ms] tv
        by (auto simp: reserves_credit_refl Let_def case_prod_beta)
    next
      case 2
      then have "t = 0" "v = w" using tv' by (auto dest: money_nonneg)
      with 2 Cons.prems tv Cons.IH [of db w payload] show ?thesis
        by (auto simp: Let_def case_prod_beta)
    next
      case 3
      let ?db = "reserve_from_grant tenant_id decision_id pool now t g db"
      have g: "g \<in> set (db_grants db)" "cg_tenant_id g = tenant_id" using Cons.prems(2,5) by simp_all
      note step = grant_books_reserve(2) [OF Cons.prems(1) g(1) tv'(1) 3(2) tv'(3) g(2) refl]
        reserve_from_grant_reserves [OF Cons.prems(1) g(1) tv'(1) 3(2) tv'(3) g(2)]
      have sub: "set gs \<subseteq> set (db_grants ?db)"
        using Cons.prems by (auto simp: reserve_from_grant_def image_iff intro!: in_update_where_other)
      obtain payload1 where loop: "reserve_loop tenant_id decision_id pool now gs v ?db
          = (payload1, rest, db')"
        using Cons.prems(6) 3 tv by (auto simp: Let_def split: prod.splits)
      from Cons.IH [OF step(1) sub _ tv'(2) _ loop] Cons.prems(3,5)
      have "credit_wf db'" "rest = snd (?d v)"
        "reserves_credit tenant_id decision_id now (map (Pair pool) (charged gs (fst (?d v)))) ?db db'"
        by simp_all
      with reserves_credit_trans [OF step(2) this(3)] 3 tv show ?thesis
        by (auto simp: Let_def case_prod_beta)
    qed
  qed
  then show ?wf ?rest ?spec by simp_all
qed


lemma reserve_loop_other_pool:
  assumes "\<And>r. r \<in> set (db_grants db) \<Longrightarrow> cg_id r \<in> cg_id ` set gs \<Longrightarrow> cg_pool_type r = pool"
    and "pool' \<noteq> pool"
    and "reserve_loop tenant_id decision_id pool now gs w db = (payload, rest, db')"
  shows "filter (grant_eligible tenant pool' scope at_time) (db_grants db') =
    filter (grant_eligible tenant pool' scope at_time) (db_grants db)"
  using assms
proof (induction gs arbitrary: w db payload)
  case (Cons g gs)
  obtain t v where tv: "take_from_grant (cg_remaining_amount_usd g) w = (t, v)" by force
  let ?db = "reserve_from_grant tenant_id decision_id pool now t g db"
  have hyp: "\<And>r. r \<in> set (db_grants db) \<Longrightarrow> cg_id r \<in> cg_id ` set gs \<Longrightarrow> cg_pool_type r = pool"
    using Cons.prems(1) by auto
  have hyp': "\<And>r. r \<in> set (db_grants ?db) \<Longrightarrow> cg_id r \<in> cg_id ` set gs \<Longrightarrow> cg_pool_type r = pool"
    using hyp by (auto simp: reserve_from_grant_def debit_grant_def Let_def elim!: in_update_whereE
        split: if_splits)
  have same: "filter (grant_eligible tenant pool' scope at_time) (db_grants ?db) =
      filter (grant_eligible tenant pool' scope at_time) (db_grants db)"
    using Cons.prems(1,2) unfolding reserve_from_grant_def
    by (simp, intro filter_update_where) (auto simp: grant_eligible_def debit_grant_def Let_def)
  show ?case
  proof (cases "w \<le> 0 \<or> t \<le> 0")
    case True
    with Cons.prems(2,3) Cons.IH [OF hyp] tv show ?thesis by (auto split: if_splits)
  next
    case False
    then obtain payload1 where
      "reserve_loop tenant_id decision_id pool now gs v ?db = (payload1, rest, db')"
      using Cons.prems(3) tv by (auto simp: Let_def split: prod.splits)
    with Cons.IH [OF hyp' Cons.prems(2)] same show ?thesis by simp
  qed
qed simp

lemma sum_list_sort_key:
  fixes f :: "'a \<Rightarrow> 'b::comm_monoid_add"
  shows "sum_list (map f (sort_key k xs)) = sum_list (map f xs)"
  by (metis mset_map mset_sort sum_mset_sum_list)

text \<open>What a reservation of \<open>target\<close> out of one pool is charged to.\<close>

definition pool_charges ::
  "enf_db \<Rightarrow> uuid \<Rightarrow> credit_pool_type \<Rightarrow> string \<Rightarrow> instant \<Rightarrow> rat \<Rightarrow> charge list" where
  "pool_charges db tenant_id pool scope now target =
     (let gs = eligible_grants db tenant_id pool scope now in
      map (Pair pool) (charged gs
        (fst (draw_all take_from_grant (map cg_remaining_amount_usd gs) target))))"

definition charge_total :: "charge list \<Rightarrow> rat" where
  "charge_total cs = sum_list (map (\<lambda>(_, _, t). t) cs)"

lemma charge_total_simps [simp]:
  "charge_total [] = 0" "charge_total (cs @ cs') = charge_total cs + charge_total cs'"
  "charge_total (map (Pair p) xs) = sum_list (map snd xs)"
  by (simp_all add: charge_total_def o_def case_prod_beta)

lemma eligible_grants_facts:
  assumes "credit_wf db"
  shows "set (eligible_grants db tenant_id pool scope now) \<subseteq> set (db_grants db)"
    "distinct (map cg_id (eligible_grants db tenant_id pool scope now))"
    "list_all money (map cg_remaining_amount_usd (eligible_grants db tenant_id pool scope now))"
    "sum_list (map cg_remaining_amount_usd (eligible_grants db tenant_id pool scope now))
       = eligible_remaining db tenant_id pool scope now"
    "g \<in> set (eligible_grants db tenant_id pool scope now) \<Longrightarrow> cg_tenant_id g = tenant_id"
  using assms
  by (auto simp: eligible_grants_def eligible_remaining_def credit_wf_def grant_ok_def list_all_iff grant_eligible_def
      sum_list_sort_key distinct_map inj_on_def)

lemma pool_charges_total:
  assumes "credit_wf db" "money target" "target \<le> eligible_remaining db tenant_id pool scope now"
  shows "charge_total (pool_charges db tenant_id pool scope now target) = target"
proof -
  let ?gs = "eligible_grants db tenant_id pool scope now"
  note gs = eligible_grants_facts [OF assms(1), where tenant_id = tenant_id and pool = pool and scope = scope and now = now]
  let ?ts = "fst (draw_all take_from_grant (map cg_remaining_amount_usd ?gs) target)"
  note pointwise = grant_pool.draw_all_pointwise [OF gs(3) assms(2)]
  have "length ?ts = length ?gs" using list_all2_lengthD [OF pointwise] by simp
  moreover have "list_all (\<lambda>t. 0 \<le> t) ?ts"
    using pointwise by (auto simp: list_all2_conv_all_nth list_all_length dest: money_nonneg)
  ultimately show ?thesis
    using grant_pool.draw_all_taken [OF gs(3) assms(2)] gs(4) assms(3)
    by (simp add: pool_charges_def Let_def sum_charged)
qed

lemma reserve_credit_from_grants_ok:
  assumes "credit_wf db" "money target" "target \<le> eligible_remaining db tenant_id pool scope now"
  obtains payload db' where
    "reserve_credit_from_grants db tenant_id decision_id scope pool target now = Inr (payload, db')"
    "credit_wf db'"
    "reserves_credit tenant_id decision_id now (pool_charges db tenant_id pool scope now target) db db'"
    "\<And>pool' tenant sc at_time. pool' \<noteq> pool \<Longrightarrow>
       eligible_grants db' tenant pool' sc at_time = eligible_grants db tenant pool' sc at_time
       \<and> eligible_remaining db' tenant pool' sc at_time = eligible_remaining db tenant pool' sc at_time"
proof (cases "target \<le> 0")
  case True
  with assms(2) have "target = 0" by (auto dest: money_nonneg)
  moreover have "pool_charges db tenant_id pool scope now 0 = []"
    using grant_pool.draw_all_zero [OF eligible_grants_facts(3) [OF assms(1)]]
    by (simp add: pool_charges_def Let_def charged_def zip_replicate2 filter_empty_conv)
  ultimately show ?thesis
    using assms(1) by (intro that [of "[]" db]) (auto simp: reserve_credit_from_grants_def reserves_credit_refl)
next
  case False
  let ?gs = "eligible_grants db tenant_id pool scope now"
  obtain payload rest db' where loop:
    "reserve_loop tenant_id decision_id pool now ?gs target db = (payload, rest, db')"
    by (metis prod_cases3)
  note gs = eligible_grants_facts [OF assms(1), where tenant_id = tenant_id and pool = pool and scope = scope and now = now]
  note run = reserve_loop_reserves [OF assms(1) gs(1,2) assms(2) gs(5) loop]
  have "rest = 0"
    using run(2) grant_pool.draw_all_left [OF gs(3) assms(2)] gs(4) assms(3) by simp
  have pools: "cg_pool_type r = pool" if "r \<in> set (db_grants db)" "cg_id r \<in> cg_id ` set ?gs" for r
    using that assms(1) gs(1)
    by (auto simp: credit_wf_def distinct_map inj_on_def eligible_grants_def grant_eligible_def)
  show ?thesis
  proof (rule that)
    show "reserve_credit_from_grants db tenant_id decision_id scope pool target now = Inr (payload, db')"
      using False loop \<open>rest = 0\<close> assms(2) by (simp add: reserve_credit_from_grants_def money_grid)
    show "credit_wf db'" by (rule run(1))
    show "reserves_credit tenant_id decision_id now (pool_charges db tenant_id pool scope now target) db db'"
      using run(3) by (simp add: pool_charges_def Let_def)
    show "eligible_grants db' tenant pool' sc at_time = eligible_grants db tenant pool' sc at_time
       \<and> eligible_remaining db' tenant pool' sc at_time = eligible_remaining db tenant pool' sc at_time"
      if "pool' \<noteq> pool" for pool' tenant sc at_time
      using reserve_loop_other_pool [OF pools that loop]
      by (simp add: eligible_grants_def eligible_remaining_def)
  qed
qed

lemma reserve_credit_from_grants_short:
  assumes "credit_wf db" "money target" "eligible_remaining db tenant_id pool scope now < target"
  shows "reserve_credit_from_grants db tenant_id decision_id scope pool target now =
    Inl (insufficient_headroom pool (target - eligible_remaining db tenant_id pool scope now))"
proof -
  let ?gs = "eligible_grants db tenant_id pool scope now"
  obtain payload rest db' where loop:
    "reserve_loop tenant_id decision_id pool now ?gs target db = (payload, rest, db')"
    by (metis prod_cases3)
  note gs = eligible_grants_facts [OF assms(1), where tenant_id = tenant_id and pool = pool and scope = scope and now = now]
  have "rest = target - eligible_remaining db tenant_id pool scope now"
    using reserve_loop_reserves(2) [OF assms(1) gs(1,2) assms(2) gs(5) loop]
      grant_pool.draw_all_left [OF gs(3) assms(2)] gs(4) assms(3) by simp
  moreover have "0 \<le> eligible_remaining db tenant_id pool scope now"
    using gs(3,4) by (metis list_all_iff money_nonneg sum_list_nonneg)
  ultimately show ?thesis
    using loop assms(2,3) by (simp add: reserve_credit_from_grants_def money_grid)
qed


definition decision_charges ::
  "enf_db \<Rightarrow> uuid \<Rightarrow> string \<Rightarrow> instant \<Rightarrow> rat \<Rightarrow> rat \<Rightarrow> charge list" where
  "decision_charges db tenant_id scope_key now reserved emergency =
     pool_charges db tenant_id RESERVED (scope_of scope_key) now reserved
     @ pool_charges db tenant_id EMERGENCY (scope_of scope_key) now emergency"

lemma reserve_credit_for_decision_ok:
  assumes wf: "credit_wf db" and m: "money x" "money y"
    and x: "x \<le> eligible_remaining db tenant_id RESERVED (scope_of scope_key) now"
    and y: "y \<le> eligible_remaining db tenant_id EMERGENCY (scope_of scope_key) now"
  obtains payload db' where
    "reserve_credit_for_decision db tenant_id decision_id scope_key x y now = Inr (payload, db')"
    "credit_wf db'"
    "reserves_credit tenant_id decision_id now (decision_charges db tenant_id scope_key now x y) db db'"
proof -
  let ?s = "scope_of scope_key"
  obtain p1 db1 where 1: "reserve_credit_from_grants db tenant_id decision_id ?s RESERVED x now = Inr (p1, db1)"
    "credit_wf db1" "reserves_credit tenant_id decision_id now (pool_charges db tenant_id RESERVED ?s now x) db db1"
    "eligible_grants db1 tenant_id EMERGENCY ?s now = eligible_grants db tenant_id EMERGENCY ?s now"
    "eligible_remaining db1 tenant_id EMERGENCY ?s now = eligible_remaining db tenant_id EMERGENCY ?s now"
    using reserve_credit_from_grants_ok [OF wf m(1) x] by (metis credit_pool_type.distinct(1))
  obtain p2 db2 where 2: "reserve_credit_from_grants db1 tenant_id decision_id ?s EMERGENCY y now = Inr (p2, db2)"
    "credit_wf db2" "reserves_credit tenant_id decision_id now (pool_charges db1 tenant_id EMERGENCY ?s now y) db1 db2"
    using reserve_credit_from_grants_ok [OF 1(2) m(2)] y 1(5) by metis
  have skip: "reserve_credit_from_grants d tenant_id decision_id ?s pool z now = Inr ([], d)"
    if "\<not> 0 < z" "money z" for d pool z
    using that by (simp add: reserve_credit_from_grants_def money_grid)
  have "reserve_credit_for_decision db tenant_id decision_id scope_key x y now = Inr (p1 @ p2, db2)"
    using 1(1) 2(1) m skip [of x db RESERVED] skip [of y db1 EMERGENCY]
    by (auto simp: reserve_credit_for_decision_def Let_def money_grid)
  moreover have "pool_charges db1 tenant_id EMERGENCY ?s now y = pool_charges db tenant_id EMERGENCY ?s now y"
    using 1(4) by (simp add: pool_charges_def)
  ultimately show ?thesis
    using that 2(2) reserves_credit_trans [OF 1(3) 2(3)] by (simp add: decision_charges_def)
qed

lemma eligible_remaining_money:
  assumes "credit_wf db"
  shows "money (eligible_remaining db tenant_id pool scope now)"
proof -
  note gs = eligible_grants_facts(3,4) [OF assms, where tenant_id = tenant_id and pool = pool and scope = scope and now = now]
  then have "money (sum_list (map cg_remaining_amount_usd (eligible_grants db tenant_id pool scope now)))"
    by (intro money_sum_list) (auto simp: list_all_iff)
  with gs show ?thesis by simp
qed

text \<open>The headrooms the gate plans with are really there: each is covered by its pool's grants.\<close>

lemma credit_headrooms_covered:
  assumes wf: "credit_wf db" and h: "get_credit_headrooms db tenant_id scope_key now = (r, e)"
  shows "money r" "r \<le> eligible_remaining db tenant_id RESERVED (scope_of scope_key) now"
    "money e" "e \<le> eligible_remaining db tenant_id EMERGENCY (scope_of scope_key) now"
proof -
  let ?R = "eligible_remaining db tenant_id RESERVED (scope_of scope_key) now"
  let ?E = "eligible_remaining db tenant_id EMERGENCY (scope_of scope_key) now"
  note m = eligible_remaining_money [OF wf]
  have nn: "0 \<le> ?R" "0 \<le> ?E" by (rule money_nonneg [OF m])+
  have q: "quantize 4 (max 0 (x - y)) \<le> x" "money (quantize 4 (max 0 (x - y)))" if "0 \<le> y" "money x" for x y
    using quantize_mono [of "max 0 (x - y)" x 4] that by (auto simp: money_grid dest: money_nonneg)
  define u where "u = max 0 (active_decision_credit db tenant_id - active_mapped_credit db tenant_id)"
  have "0 \<le> u" by (simp add: u_def)
  then have red: "0 \<le> min u ?R" "0 \<le> quantize 4 (u - min u ?R)" using nn by simp_all
  have "money r \<and> r \<le> ?R \<and> money e \<and> e \<le> ?E"
    using h q [OF red(1) m, of tenant_id RESERVED "scope_of scope_key" now]
      q [OF red(2) m, of tenant_id EMERGENCY "scope_of scope_key" now]
      m [of tenant_id RESERVED "scope_of scope_key" now] m [of tenant_id EMERGENCY "scope_of scope_key" now] nn
    unfolding get_credit_headrooms_def Let_def u_def [symmetric]
    by (auto simp: money_grid split: if_splits)
  then show "money r" "r \<le> ?R" "money e" "e \<le> ?E" by blast+
qed

lemma reserve_credit_spec:
  assumes "credit_wf db" "money x" "money y"
  shows "case reserve_credit_for_decision db tenant_id decision_id scope_key x y now of
      Inr (payload, db') \<Rightarrow>
        x \<le> eligible_remaining db tenant_id RESERVED (scope_of scope_key) now
        \<and> y \<le> eligible_remaining db tenant_id EMERGENCY (scope_of scope_key) now
        \<and> credit_wf db'
        \<and> reserves_credit tenant_id decision_id now (decision_charges db tenant_id scope_key now x y) db db'
        \<and> charge_total (decision_charges db tenant_id scope_key now x y) = x + y
    | Inl e \<Rightarrow> (\<exists>detail. e = HTTPException 409 detail)
        \<and> (eligible_remaining db tenant_id RESERVED (scope_of scope_key) now < x
           \<or> eligible_remaining db tenant_id EMERGENCY (scope_of scope_key) now < y)"
proof -
  let ?s = "scope_of scope_key"
  have nonneg: "0 \<le> eligible_remaining db tenant_id pool ?s now" for pool
    using eligible_grants_facts(3,4) [OF assms(1), of tenant_id pool ?s now]
    by (metis list_all_iff money_nonneg sum_list_nonneg)
  consider (ok) "x \<le> eligible_remaining db tenant_id RESERVED ?s now"
      "y \<le> eligible_remaining db tenant_id EMERGENCY ?s now"
    | (short1) "eligible_remaining db tenant_id RESERVED ?s now < x"
    | (short2) "x \<le> eligible_remaining db tenant_id RESERVED ?s now"
      "eligible_remaining db tenant_id EMERGENCY ?s now < y" by linarith
  then show ?thesis
  proof cases
    case ok
    then have "charge_total (decision_charges db tenant_id scope_key now x y) = x + y"
      using assms by (simp add: decision_charges_def pool_charges_total)
    with ok show ?thesis
      by (auto intro: reserve_credit_for_decision_ok [OF assms ok, of decision_id])
  next
    case short1
    with nonneg [of RESERVED] have "0 < x" by linarith
    with short1 assms show ?thesis
      by (simp add: reserve_credit_for_decision_def reserve_credit_from_grants_short Let_def
          money_grid insufficient_headroom_def)
  next
    case short2
    with nonneg [of EMERGENCY] have "0 < y" by linarith
    obtain p1 db1 where first: "(if 0 < x
        then reserve_credit_from_grants db tenant_id decision_id ?s RESERVED x now
        else Inr ([], db)) = Inr (p1, db1)"
      "credit_wf db1" "eligible_remaining db1 tenant_id EMERGENCY ?s now
        = eligible_remaining db tenant_id EMERGENCY ?s now"
      using reserve_credit_from_grants_ok [OF assms(1,2) short2(1), of decision_id] assms(1)
      by (metis credit_pool_type.distinct(1))
    with short2 \<open>0 < y\<close> assms show ?thesis
      by (simp add: reserve_credit_for_decision_def reserve_credit_from_grants_short Let_def
          money_grid insufficient_headroom_def)
  qed
qed


text \<open>
  Reserving credit for a decision succeeds exactly when each pool's eligible grants (active, not
  expired, and for reserved credit of the request's scope or the default one) hold the wanted amount.
  Then the rows it appends for the decision are open and carry exactly the wanted amounts, every
  grant's remaining amount drops by exactly what its new rows hold, and nothing else changes; the
  database keeps its invariant (every grant's total is its remaining amount plus what its
  allocations hold). Otherwise the request fails with 409.
\<close>

theorem reserve_credit_exact:
  assumes "credit_wf db" "money x" "money y"
  shows "case reserve_credit_for_decision db tenant_id decision_id scope_key x y now of
      Inr (payload, db') \<Rightarrow>
        x \<le> eligible_remaining db tenant_id RESERVED (scope_of scope_key) now
        \<and> y \<le> eligible_remaining db tenant_id EMERGENCY (scope_of scope_key) now
        \<and> credit_wf db'
        \<and> reserves_credit tenant_id decision_id now (decision_charges db tenant_id scope_key now x y) db db'
        \<and> charge_total (decision_charges db tenant_id scope_key now x y) = x + y
    | Inl e \<Rightarrow> (\<exists>detail. e = HTTPException 409 detail)
        \<and> (eligible_remaining db tenant_id RESERVED (scope_of scope_key) now < x
           \<or> eligible_remaining db tenant_id EMERGENCY (scope_of scope_key) now < y)"
  using assms by (rule reserve_credit_spec)

text \<open>A small tenant for the concrete instances: one reserved and one emergency grant.\<close>

definition sample_grant :: "uuid \<Rightarrow> credit_pool_type \<Rightarrow> rat \<Rightarrow> credit_grant" where
  "sample_grant i pool amount = \<lparr>cg_id = i, cg_tenant_id = 7, cg_pool_type = pool,
     cg_scope_key = ''default'', cg_total_amount_usd = amount, cg_remaining_amount_usd = amount,
     cg_expires_at = None, cg_reason = None, cg_active = True, cg_created_by_user_id = None,
     cg_created_at = 0\<rparr>"

definition sample_credit_db :: enf_db where
  "sample_credit_db = empty_db\<lparr>db_grants := [sample_grant 1 RESERVED 30, sample_grant 2 EMERGENCY 50],
     db_next_id := 3\<rparr>"

lemma scope_of_default [simp]: "scope_of ''default'' = ''default''"
  by code_simp

lemma sample_credit_db_wf: "credit_wf sample_credit_db"
  by (simp add: credit_wf_def sample_credit_db_def sample_grant_def empty_db_def grant_ok_def)

lemma sample_eligible:
  "eligible_remaining sample_credit_db 7 RESERVED ''default'' 100 = 30"
  "eligible_remaining sample_credit_db 7 EMERGENCY ''default'' 100 = 50"
  by (simp_all add: eligible_remaining_def sample_credit_db_def sample_grant_def empty_db_def
      grant_eligible_def grant_live_def)

lemma reserve_credit_exact_witness:
  "\<exists>payload db'. reserve_credit_for_decision sample_credit_db 7 9 ''default'' 20 50 100 = Inr (payload, db')
     \<and> credit_wf db'"
  using reserve_credit_exact [OF sample_credit_db_wf, where x = 20 and y = 50
      and tenant_id = 7 and decision_id = 9 and scope_key = "''default''" and now = 100] sample_eligible
  by (auto split: sum.splits)

end
