(* ===== verification/Enf_Settlement.thy ===== *)
theory Enf_Settlement
  imports Enf_Credit
begin

text \<open>
  \<open>settle_credit_reservations_for_decision\<close> of src/app/modules/enforcement/domain/credit_ops.py: the
  decision's open allocations are walked in order, what was used is consumed and the rest returned
  to the grants. The theorems say that settlement never loses or creates credit and that it always
  succeeds on the allocations a reservation made.
\<close>

subsection \<open>Settlement\<close>

record settle_state =
  ss_grants :: "credit_grant list"
  ss_remaining_consume :: rat
  ss_remaining_release :: rat

definition credit_release :: "instant \<Rightarrow> rat \<Rightarrow> credit_grant \<Rightarrow> credit_grant" where
  "credit_release now release_amount g =
     (let total = quantize 4 (cg_total_amount_usd g);
          raised = quantize 4 (cg_remaining_amount_usd g + release_amount);
          remaining = (if 0 < release_amount
            then (if total < raised then total else raised) else cg_remaining_amount_usd g) in
      g\<lparr>cg_remaining_amount_usd := remaining,
        cg_active := (0 < remaining \<and> grant_live now g)\<rparr>)"

definition settle_allocation :: "instant \<Rightarrow> rat \<Rightarrow> rat \<Rightarrow> credit_allocation \<Rightarrow> credit_allocation" where
  "settle_allocation now consume_amount release_amount a =
     a\<lparr>ca_consumed_amount_usd := quantize 4 (ca_consumed_amount_usd a + consume_amount),
       ca_released_amount_usd := quantize 4 (ca_released_amount_usd a + release_amount),
       ca_active := False, ca_settled_at := Some now\<rparr>"

definition settlement_payload :: "credit_allocation \<Rightarrow> credit_grant \<Rightarrow> rat \<Rightarrow> rat \<Rightarrow> rat \<Rightarrow> dict" where
  "settlement_payload a g reserved_amount consume_amount release_amount =
     [(''credit_grant_id'', JStr (uuid_text (cg_id g))),
      (''credit_pool_type'', JStr (pool_value (ca_credit_pool_type a))),
      (''scope_key'', JStr (cg_scope_key g)),
      (''reserved_amount_usd'', JDec 4 reserved_amount),
      (''consumed_amount_usd'', JDec 4 consume_amount),
      (''released_amount_usd'', JDec 4 release_amount),
      (''grant_remaining_amount_usd_after'', JDec 4 (quantize 4 (cg_remaining_amount_usd g)))]"

text \<open>What one allocation consumes and releases of the totals still to be settled.\<close>

definition settle_amounts :: "credit_allocation \<Rightarrow> rat \<Rightarrow> rat \<Rightarrow> rat \<times> rat" where
  "settle_amounts a remaining_consume remaining_release =
     (let reserved_amount = quantize 4 (ca_reserved_amount_usd a);
          consume_amount = quantize 4 (min reserved_amount remaining_consume);
          unused = quantize 4 (reserved_amount - consume_amount)
      in (consume_amount, if remaining_release < unused then remaining_release else unused))"

definition settle_one ::
  "uuid \<Rightarrow> uuid list \<Rightarrow> instant \<Rightarrow> settle_state \<Rightarrow> credit_allocation
    \<Rightarrow> (settle_state \<times> credit_allocation \<times> dict) res" where
  "settle_one tenant_id grant_ids now st a =
     (case first_row (\<lambda>g. cg_tenant_id g = tenant_id \<and> cg_id g \<in> set grant_ids
             \<and> cg_id g = ca_credit_grant_id a) (ss_grants st) of
        None \<Rightarrow> Inl (HTTPException 409 (''Missing credit grant row for reservation allocation ''
          @ uuid_text (ca_id a)))
      | Some g \<Rightarrow>
          (let (consume_amount, release_amount) =
                 settle_amounts a (ss_remaining_consume st) (ss_remaining_release st);
               g' = credit_release now release_amount g
           in Inr (st\<lparr>ss_grants := update_where (\<lambda>r. cg_id r = cg_id g)
                        (\<lambda>_. g') (ss_grants st),
                     ss_remaining_consume := quantize 4 (ss_remaining_consume st - consume_amount),
                     ss_remaining_release := quantize 4 (ss_remaining_release st - release_amount)\<rparr>,
                   settle_allocation now consume_amount release_amount a,
                   settlement_payload a g' (quantize 4 (ca_reserved_amount_usd a))
                     consume_amount release_amount)))"

fun settle_loop ::
  "uuid \<Rightarrow> uuid list \<Rightarrow> instant \<Rightarrow> credit_allocation list \<Rightarrow> settle_state
    \<Rightarrow> (settle_state \<times> credit_allocation list \<times> dict list) res" where
  "settle_loop tenant_id grant_ids now [] st = Inr (st, [], [])"
| "settle_loop tenant_id grant_ids now (a # as) st =
     bind_res (settle_one tenant_id grant_ids now st a) (\<lambda>(st1, a', diag).
       bind_res (settle_loop tenant_id grant_ids now as st1) (\<lambda>(st2, as', diags).
         Inr (st2, a' # as', diag # diags)))"

definition open_allocations :: "enf_db \<Rightarrow> uuid \<Rightarrow> uuid \<Rightarrow> credit_allocation list" where
  "open_allocations db tenant_id decision_id =
     sort_key ca_created_at (filter (\<lambda>a. ca_tenant_id a = tenant_id \<and>
       ca_decision_id a = decision_id \<and> ca_active a) (db_allocations db))"

definition write_allocations :: "credit_allocation list \<Rightarrow> credit_allocation list \<Rightarrow> credit_allocation list" where
  "write_allocations settled rows =
     map (\<lambda>r. case first_row (\<lambda>a. ca_id a = ca_id r) settled of None \<Rightarrow> r | Some a \<Rightarrow> a) rows"

definition settlement_drift :: "rat \<Rightarrow> rat \<Rightarrow> err" where
  "settlement_drift remaining_consume remaining_release =
     HTTPException 409 (''Credit reservation settlement drift detected (remaining_consume=''
       @ fixed_text 4 remaining_consume @ '', remaining_release=''
       @ fixed_text 4 remaining_release @ '')'')"

definition settle_credit_reservations_for_decision ::
  "enf_db \<Rightarrow> uuid \<Rightarrow> enforcement_decision \<Rightarrow> rat \<Rightarrow> instant \<Rightarrow> (dict list \<times> enf_db) res" where
  "settle_credit_reservations_for_decision db tenant_id d consumed_credit_usd now =
     (let reserved_credit = quantize 4 (ed_reserved_credit_usd d) in
      if reserved_credit \<le> 0 then Inr ([], db)
      else
        let bounded_consumed = quantize 4 (min (max 0 consumed_credit_usd) reserved_credit);
            remaining_release = quantize 4 (reserved_credit - bounded_consumed);
            allocations = open_allocations db tenant_id (ed_id d);
            grant_ids = sort (remdups (map ca_credit_grant_id allocations)) in
        if allocations = [] then
          Inl (HTTPException 409 ''Missing credit reservation allocation rows for decision settlement'')
        else
          bind_res (settle_loop tenant_id grant_ids now allocations
              \<lparr>ss_grants = db_grants db, ss_remaining_consume = bounded_consumed,
               ss_remaining_release = remaining_release\<rparr>)
            (\<lambda>(st, settled, diagnostics).
              if 0 < ss_remaining_consume st \<or> 0 < ss_remaining_release st
              then Inl (settlement_drift (ss_remaining_consume st) (ss_remaining_release st))
              else Inr (diagnostics, db\<lparr>db_grants := ss_grants st,
                     db_allocations := write_allocations settled (db_allocations db)\<rparr>)))"



subsection \<open>One allocation\<close>

lemma settle_amounts_eq:
  assumes "allocation_ok a" "money c" "money r"
  shows "settle_amounts a c r =
    (min (ca_reserved_amount_usd a) c,
     min r (ca_reserved_amount_usd a - min (ca_reserved_amount_usd a) c))"
  using assms by (auto simp: settle_amounts_def allocation_ok_def money_def Let_def min_def)

definition closes :: "instant \<Rightarrow> credit_allocation \<Rightarrow> credit_allocation \<Rightarrow> bool" where
  "closes now a a' \<longleftrightarrow> a' = a\<lparr>ca_consumed_amount_usd := ca_consumed_amount_usd a',
     ca_released_amount_usd := ca_released_amount_usd a', ca_active := False, ca_settled_at := Some now\<rparr>
     \<and> allocation_ok a'"

lemma closesD:
  assumes "closes now a a'"
  shows "ca_id a' = ca_id a" "ca_credit_grant_id a' = ca_credit_grant_id a"
    "ca_tenant_id a' = ca_tenant_id a" "ca_decision_id a' = ca_decision_id a"
    "ca_reserved_amount_usd a' = ca_reserved_amount_usd a" "\<not> ca_active a'"
    "ca_settled_at a' = Some now" "allocation_ok a'"
proof -
  obtain x y where "a' = a\<lparr>ca_consumed_amount_usd := x, ca_released_amount_usd := y,
      ca_active := False, ca_settled_at := Some now\<rparr>" "allocation_ok a'"
    using assms unfolding closes_def by blast
  then show "ca_id a' = ca_id a" "ca_credit_grant_id a' = ca_credit_grant_id a"
    "ca_tenant_id a' = ca_tenant_id a" "ca_decision_id a' = ca_decision_id a"
    "ca_reserved_amount_usd a' = ca_reserved_amount_usd a" "\<not> ca_active a'"
    "ca_settled_at a' = Some now" "allocation_ok a'" by simp_all
qed

lemma settle_allocation_closes:
  assumes "allocation_ok a" "ca_active a" "money c" "money r" "c + r \<le> ca_reserved_amount_usd a"
  shows "closes now a (settle_allocation now c r a)"
    and "ca_consumed_amount_usd (settle_allocation now c r a) = c"
    and "ca_released_amount_usd (settle_allocation now c r a) = r"
  using assms by (simp_all add: closes_def settle_allocation_def allocation_ok_def money_grid)

lemma credit_release_eq:
  assumes "grant_ok g" "money r" "cg_remaining_amount_usd g + r \<le> cg_total_amount_usd g"
  shows "cg_remaining_amount_usd (credit_release now r g) = cg_remaining_amount_usd g + r"
    and "grant_ok (credit_release now r g)"
  using assms by (auto simp: credit_release_def grant_ok_def money_def Let_def)

lemma credit_release_keeps [simp]:
  "cg_id (credit_release now r g) = cg_id g" "cg_tenant_id (credit_release now r g) = cg_tenant_id g"
  "cg_pool_type (credit_release now r g) = cg_pool_type g"
  "cg_scope_key (credit_release now r g) = cg_scope_key g"
  "cg_total_amount_usd (credit_release now r g) = cg_total_amount_usd g"
  "cg_expires_at (credit_release now r g) = cg_expires_at g"
  by (simp_all add: credit_release_def Let_def)

subsection \<open>The loop\<close>

text \<open>What the loop needs of its state: rows that can take back all the pending allocations hold.\<close>

definition settleable :: "uuid \<Rightarrow> uuid list \<Rightarrow> credit_allocation list \<Rightarrow> settle_state \<Rightarrow> bool" where
  "settleable tenant_id grant_ids as st \<longleftrightarrow>
     distinct (map cg_id (ss_grants st))
     \<and> (\<forall>g \<in> set (ss_grants st). grant_ok g
          \<and> cg_remaining_amount_usd g + outstanding as (cg_id g) \<le> cg_total_amount_usd g)
     \<and> (\<forall>a \<in> set as. allocation_ok a \<and> ca_active a \<and> ca_credit_grant_id a \<in> set grant_ids
          \<and> (ca_credit_grant_id a, tenant_id) \<in> grant_keys (ss_grants st))
     \<and> money (ss_remaining_consume st) \<and> money (ss_remaining_release st)"

lemma settle_one_ok:
  assumes ok: "settleable tenant_id grant_ids (a # as) st"
  defines "c \<equiv> min (ca_reserved_amount_usd a) (ss_remaining_consume st)"
    and "r \<equiv> min (ss_remaining_release st) (ca_reserved_amount_usd a
      - min (ca_reserved_amount_usd a) (ss_remaining_consume st))"
  obtains st' a' diag where "settle_one tenant_id grant_ids now st a = Inr (st', a', diag)"
    "settleable tenant_id grant_ids as st'" "closes now a a'"
    "ca_consumed_amount_usd a' = c" "ca_released_amount_usd a' = r"
    "ss_remaining_consume st' = ss_remaining_consume st - c"
    "ss_remaining_release st' = ss_remaining_release st - r"
    "map (grant_books (a' # bs)) (ss_grants st') = map (grant_books (a # bs)) (ss_grants st)"
proof -
  have a: "allocation_ok a" "ca_active a" and m: "money (ss_remaining_consume st)" "money (ss_remaining_release st)"
    and dist: "distinct (map cg_id (ss_grants st))"
    using ok by (auto simp: settleable_def)
  have cr: "money c" "money r" "c + r \<le> ca_reserved_amount_usd a" "c \<le> ss_remaining_consume st"
    "r \<le> ss_remaining_release st"
    using a m by (auto simp: c_def r_def allocation_ok_def money_def min_def)
  obtain g where g: "g \<in> set (ss_grants st)" "cg_id g = ca_credit_grant_id a" "cg_tenant_id g = tenant_id"
    "ca_credit_grant_id a \<in> set grant_ids"
    using ok by (auto simp: settleable_def grant_keys_def)
  have uniq: "\<And>x. x \<in> set (ss_grants st) \<Longrightarrow> cg_id x = cg_id g \<Longrightarrow> x = g"
    using dist g(1) by (auto simp: distinct_map inj_on_def)
  have row: "first_row (\<lambda>g. cg_tenant_id g = tenant_id \<and> cg_id g \<in> set grant_ids
      \<and> cg_id g = ca_credit_grant_id a) (ss_grants st) = Some g"
    using g by (intro first_row_the uniq) auto
  have held_a: "held a = ca_reserved_amount_usd a" using a by (simp add: held_def allocation_ok_def)
  have os: "0 \<le> outstanding as (cg_id g)" using ok by (intro outstanding_nonneg) (auto simp: settleable_def)
  have room: "cg_remaining_amount_usd g + (ca_reserved_amount_usd a + outstanding as (cg_id g)) \<le> cg_total_amount_usd g"
    "grant_ok g"
    using ok g held_a by (auto simp: settleable_def)
  have rel: "cg_remaining_amount_usd g + r \<le> cg_total_amount_usd g"
    using room cr os money_nonneg [OF cr(1)] by linarith
  note release = credit_release_eq [OF room(2) cr(2) rel, of now]
  let ?st = "st\<lparr>ss_grants := update_where (\<lambda>x. cg_id x = cg_id g)
      (\<lambda>_. credit_release now r g) (ss_grants st),
      ss_remaining_consume := ss_remaining_consume st - c,
      ss_remaining_release := ss_remaining_release st - r\<rparr>"
  have ids: "map (\<lambda>g. (cg_id g, cg_tenant_id g)) (ss_grants ?st) = map (\<lambda>g. (cg_id g, cg_tenant_id g)) (ss_grants st)"
    by (simp, intro map_update_where_on) (auto dest: uniq)
  have "map fst (map (\<lambda>g. (cg_id g, cg_tenant_id g)) (ss_grants ?st)) =
      map fst (map (\<lambda>g. (cg_id g, cg_tenant_id g)) (ss_grants st))"
    "set (map (\<lambda>g. (cg_id g, cg_tenant_id g)) (ss_grants ?st)) =
      set (map (\<lambda>g. (cg_id g, cg_tenant_id g)) (ss_grants st))"
    by (simp_all only: ids)
  then have ids': "map cg_id (ss_grants ?st) = map cg_id (ss_grants st)"
    "grant_keys (ss_grants ?st) = grant_keys (ss_grants st)"
    by (simp_all add: grant_keys_def o_def)
  have run: "settle_one tenant_id grant_ids now st a = Inr (?st, settle_allocation now c r a,
      settlement_payload a (credit_release now r g) (quantize 4 (ca_reserved_amount_usd a)) c r)"
    using row m cr settle_amounts_eq [OF a(1) m, folded c_def r_def]
    by (simp add: settle_one_def money_grid Let_def)
  have "settleable tenant_id grant_ids as ?st"
    unfolding settleable_def
  proof (intro conjI ballI)
    show "grant_ok x" if "x \<in> set (ss_grants ?st)" for x
      using that release(2) ok by (auto simp: settleable_def elim!: in_update_whereE split: if_splits)
    show "cg_remaining_amount_usd x + outstanding as (cg_id x) \<le> cg_total_amount_usd x"
      if "x \<in> set (ss_grants ?st)" for x
    proof -
      from that obtain y where y: "y \<in> set (ss_grants st)"
        "x = (if cg_id y = cg_id g then credit_release now r g else y)"
        by (auto elim: in_update_whereE)
      then have "cg_remaining_amount_usd y + outstanding (a # as) (cg_id y) \<le> cg_total_amount_usd y"
        using ok by (auto simp: settleable_def)
      then show ?thesis
        using y room(1) cr(3) money_nonneg [OF cr(1)] release(1) g(2) by (auto split: if_splits)
    qed
  qed (use ok ids' dist cr m in \<open>auto simp: settleable_def intro: money_diff\<close>)
  moreover have "map (grant_books (settle_allocation now c r a # bs)) (ss_grants ?st) =
      map (grant_books (a # bs)) (ss_grants st)"
    using g(2) release(1) settle_allocation_closes(3) [OF a cr(1-3), of now] a
    by (auto dest!: uniq simp: update_where_def grant_books_def held_def settle_allocation_def
        allocation_ok_def)
  ultimately show ?thesis
    using that [OF run] settle_allocation_closes [OF a cr(1-3), of now] by simp
qed


definition reserved_total :: "credit_allocation list \<Rightarrow> rat" where
  "reserved_total as = sum_list (map ca_reserved_amount_usd as)"

lemma reserved_total_simps [simp]:
  "reserved_total [] = 0" "reserved_total (a # as) = ca_reserved_amount_usd a + reserved_total as"
  by (simp_all add: reserved_total_def)

lemma reserved_nonneg: "allocation_ok a \<Longrightarrow> 0 \<le> ca_reserved_amount_usd a"
  by (simp add: allocation_ok_def)

lemma reserved_total_nonneg:
  "(\<And>a. a \<in> set as \<Longrightarrow> allocation_ok a) \<Longrightarrow> 0 \<le> reserved_total as"
  by (induction as) (auto simp: reserved_nonneg)

lemma settle_loop_ok:
  assumes "settleable tenant_id grant_ids as st"
  shows "\<exists>st' as' diags. settle_loop tenant_id grant_ids now as st = Inr (st', as', diags)
    \<and> list_all2 (closes now) as as'
    \<and> settleable tenant_id grant_ids [] st'
    \<and> map (grant_books (as' @ bs)) (ss_grants st') = map (grant_books (as @ bs)) (ss_grants st)
    \<and> ss_remaining_consume st' = max 0 (ss_remaining_consume st - reserved_total as)
    \<and> ss_remaining_release st' =
        max 0 (ss_remaining_release st - max 0 (reserved_total as - ss_remaining_consume st))
    \<and> sum_list (map ca_consumed_amount_usd as') = ss_remaining_consume st - ss_remaining_consume st'
    \<and> sum_list (map ca_released_amount_usd as') = ss_remaining_release st - ss_remaining_release st'"
  using assms
proof (induction as arbitrary: st bs)
  case Nil
  then show ?case by (auto simp: settleable_def max_def dest: money_nonneg)
next
  case (Cons a as)
  let ?c = "ss_remaining_consume st" and ?r = "ss_remaining_release st" and ?R = "ca_reserved_amount_usd a"
  obtain st1 a' diag where one: "settle_one tenant_id grant_ids now st a = Inr (st1, a', diag)"
    "settleable tenant_id grant_ids as st1" "closes now a a'"
    "ca_consumed_amount_usd a' = min ?R ?c" "ca_released_amount_usd a' = min ?r (?R - min ?R ?c)"
    "ss_remaining_consume st1 = ?c - min ?R ?c" "ss_remaining_release st1 = ?r - min ?r (?R - min ?R ?c)"
    "map (grant_books (a' # as @ bs)) (ss_grants st1) = map (grant_books (a # as @ bs)) (ss_grants st)"
    by (rule settle_one_ok [OF Cons.prems, of now "as @ bs"]) blast
  from Cons.IH [OF one(2), of "a' # bs"] obtain st2 as' diags where rest:
    "settle_loop tenant_id grant_ids now as st1 = Inr (st2, as', diags)"
    "list_all2 (closes now) as as'" "settleable tenant_id grant_ids [] st2"
    "map (grant_books (as' @ a' # bs)) (ss_grants st2) = map (grant_books (as @ a' # bs)) (ss_grants st1)"
    "ss_remaining_consume st2 = max 0 (ss_remaining_consume st1 - reserved_total as)"
    "ss_remaining_release st2 =
      max 0 (ss_remaining_release st1 - max 0 (reserved_total as - ss_remaining_consume st1))"
    "sum_list (map ca_consumed_amount_usd as') = ss_remaining_consume st1 - ss_remaining_consume st2"
    "sum_list (map ca_released_amount_usd as') = ss_remaining_release st1 - ss_remaining_release st2"
    by blast
  have swap: "grant_books (xs @ x # ys) = grant_books (x # xs @ ys)" for xs x ys
    by (rule ext) (simp add: grant_books_def)
  have nn: "0 \<le> ?R" "0 \<le> ?c" "0 \<le> ?r" "0 \<le> reserved_total as"
    using Cons.prems
    by (auto simp: settleable_def reserved_nonneg money_nonneg intro!: reserved_total_nonneg)
  have "ss_remaining_consume st2 = max 0 (?c - (?R + reserved_total as))"
    unfolding rest(5) one(6) using nn by linarith
  moreover have "ss_remaining_release st2 = max 0 (?r - max 0 (?R + reserved_total as - ?c))"
    unfolding rest(6) one(6,7) using nn by linarith
  moreover have "settle_loop tenant_id grant_ids now (a # as) st = Inr (st2, a' # as', diag # diags)"
    using one(1) rest(1) by simp
  moreover have "map (grant_books ((a' # as') @ bs)) (ss_grants st2) =
      map (grant_books ((a # as) @ bs)) (ss_grants st)"
    using rest(4) one(8) by (simp add: swap)
  ultimately show ?case
    using one rest(2,3,7,8) by (auto simp: algebra_simps)
qed

subsection \<open>Writing the rows back\<close>

lemma write_allocations_Cons:
  assumes "distinct (map ca_id (a # as))"
  shows "write_allocations (a # as) rows =
    update_where (\<lambda>r. ca_id r = ca_id a) (\<lambda>_. a) (write_allocations as rows)"
proof -
  have other: "first_row (\<lambda>x. ca_id x = ca_id a) as = None"
    using assms by (auto simp: first_row_None image_iff)
  have kept: "ca_id (case first_row (\<lambda>x. ca_id x = ca_id r) as of None \<Rightarrow> r | Some x \<Rightarrow> x) = ca_id r" for r
    by (auto dest: first_row_SomeD split: option.splits)
  show ?thesis
    unfolding write_allocations_def update_where_def map_map
  proof (intro map_cong refl)
    fix r
    show "(case first_row (\<lambda>x. ca_id x = ca_id r) (a # as) of None \<Rightarrow> r | Some x \<Rightarrow> x) =
      ((\<lambda>r. if ca_id r = ca_id a then a else r) \<circ>
        (\<lambda>r. case first_row (\<lambda>x. ca_id x = ca_id r) as of None \<Rightarrow> r | Some x \<Rightarrow> x)) r"
      using kept [of r] by (auto simp: first_row_def)
  qed
qed

lemma map_id_write_allocations: "map ca_id (write_allocations as rows) = map ca_id rows"
  by (auto simp: write_allocations_def dest: first_row_SomeD split: option.splits)

lemma in_write_allocationsE:
  assumes "r \<in> set (write_allocations as rows)"
  obtains "r \<in> set as" | "r \<in> set rows" "ca_id r \<notin> ca_id ` set as"
  using assms
  by (force simp: write_allocations_def first_row_None dest: first_row_SomeD split: option.splits)

lemma sum_list_write_allocations:
  fixes f :: "credit_allocation \<Rightarrow> rat"
  assumes "list_all2 (\<lambda>a a'. ca_id a' = ca_id a) as as'" "distinct (map ca_id as)"
    and "set as \<subseteq> set rows" "distinct (map ca_id rows)"
  shows "sum_list (map f (write_allocations as' rows)) =
    sum_list (map f rows) - sum_list (map f as) + sum_list (map f as')"
  using assms
proof (induction as as' rule: list_all2_induct)
  case Nil
  then show ?case by (simp add: write_allocations_def first_row_def)
next
  case (Cons a as a' as')
  have ids: "map ca_id as' = map ca_id as"
    using Cons(2) by (induction rule: list_all2_induct) auto
  then have dist: "distinct (map ca_id (a' # as'))" using Cons.prems(1) Cons(1) by simp
  have "ca_id a \<notin> ca_id ` set as'" using dist Cons(1) by simp
  then have "first_row (\<lambda>x. ca_id x = ca_id a) as' = None"
    by (auto simp: first_row_None image_iff)
  then have "a \<in> set (write_allocations as' rows)"
    using Cons.prems(2) by (force simp: write_allocations_def)
  moreover have "distinct (map ca_id (write_allocations as' rows))"
    using Cons.prems(3) by (simp add: map_id_write_allocations)
  ultimately show ?case
    using sum_list_update_where [of ca_id "write_allocations as' rows" a f "\<lambda>_. a'"] Cons dist
    by (simp add: write_allocations_Cons)
qed


subsection \<open>Settlement of a decision\<close>

text \<open>A decision is covered when its open allocations hold exactly its reserved credit.\<close>

definition covered :: "enf_db \<Rightarrow> uuid \<Rightarrow> enforcement_decision \<Rightarrow> bool" where
  "covered db tenant_id d \<longleftrightarrow> money (ed_reserved_credit_usd d)
     \<and> reserved_total (open_allocations db tenant_id (ed_id d)) = ed_reserved_credit_usd d"

definition fully_settled :: "instant \<Rightarrow> credit_allocation \<Rightarrow> bool" where
  "fully_settled now a \<longleftrightarrow> \<not> ca_active a \<and> ca_settled_at a = Some now
     \<and> ca_consumed_amount_usd a + ca_released_amount_usd a = ca_reserved_amount_usd a"

lemma open_allocations_facts:
  assumes "credit_wf db"
  shows "set (open_allocations db tenant_id did) \<subseteq> set (db_allocations db)"
    "distinct (map ca_id (open_allocations db tenant_id did))"
    "a \<in> set (open_allocations db tenant_id did) \<longleftrightarrow>
       a \<in> set (db_allocations db) \<and> ca_tenant_id a = tenant_id \<and> ca_decision_id a = did \<and> ca_active a"
  using assms by (auto simp: open_allocations_def credit_wf_def distinct_map inj_on_def)

lemma sum_list_filter_split:
  fixes f :: "'a \<Rightarrow> rat"
  shows "sum_list (map f xs) = sum_list (map f (filter p xs)) + sum_list (map f (filter (\<lambda>x. \<not> p x) xs))"
  by (induction xs) auto

lemma outstanding_split:
  assumes "credit_wf db"
  shows "outstanding (db_allocations db) gid =
    outstanding (open_allocations db tenant_id did) gid
    + outstanding (filter (\<lambda>a. \<not> (ca_tenant_id a = tenant_id \<and> ca_decision_id a = did \<and> ca_active a))
        (db_allocations db)) gid"
  unfolding outstanding_def open_allocations_def sum_list_sort_key
  by (rule sum_list_filter_split)

lemma outstanding_write_allocations:
  assumes "credit_wf db" "list_all2 (closes now) (open_allocations db tenant_id did) as'"
  shows "outstanding (write_allocations as' (db_allocations db)) gid =
    outstanding (as' @ filter (\<lambda>a. \<not> (ca_tenant_id a = tenant_id \<and> ca_decision_id a = did \<and> ca_active a))
        (db_allocations db)) gid"
proof -
  have "list_all2 (\<lambda>a a'. ca_id a' = ca_id a) (open_allocations db tenant_id did) as'"
    using assms(2) by (rule list_all2_mono) (rule closesD(1))
  from sum_list_write_allocations [OF this open_allocations_facts(2,1) [OF assms(1)]
      credit_wfD(2) [OF assms(1)]]
  show ?thesis
    using outstanding_split [OF assms(1), of gid tenant_id did] by (simp add: outstanding_def)
qed

lemma sum_list_all_eq:
  fixes f g :: "'a \<Rightarrow> rat"
  assumes "\<And>x. x \<in> set xs \<Longrightarrow> f x \<le> g x" "sum_list (map f xs) = sum_list (map g xs)" "x \<in> set xs"
  shows "f x = g x"
  using assms
proof (induction xs)
  case (Cons y ys)
  have "sum_list (map f ys) \<le> sum_list (map g ys)" using Cons.prems(1) by (intro sum_list_mono) simp
  with Cons.prems have "f y = g y" "sum_list (map f ys) = sum_list (map g ys)" by fastforce+
  with Cons show ?case by auto
qed simp


text \<open>
  The specification of a settlement: the decision's open rows, and only they, are closed with what
  they reserved split into consumed and released; the amounts add up to the given consumption and
  the rest; no grant's books change, nor anything else.
\<close>

definition settles_credit ::
  "uuid \<Rightarrow> enforcement_decision \<Rightarrow> rat \<Rightarrow> instant \<Rightarrow> enf_db \<Rightarrow> enf_db \<Rightarrow> bool" where
  "settles_credit tenant_id d consumed now db db' \<longleftrightarrow>
     (\<exists>settled. list_all2 (closes now) (open_allocations db tenant_id (ed_id d)) settled
        \<and> list_all (fully_settled now) settled
        \<and> sum_list (map ca_consumed_amount_usd settled) = consumed
        \<and> sum_list (map ca_released_amount_usd settled) = ed_reserved_credit_usd d - consumed
        \<and> db_allocations db' = write_allocations settled (db_allocations db))
     \<and> map (grant_books (db_allocations db')) (db_grants db') =
         map (grant_books (db_allocations db)) (db_grants db)
     \<and> db' = db\<lparr>db_grants := db_grants db', db_allocations := db_allocations db'\<rparr>"

lemma settleable_open:
  assumes wf: "credit_wf db" and m: "money c" "money r"
  shows "settleable tenant_id (sort (remdups (map ca_credit_grant_id (open_allocations db tenant_id did))))
    (open_allocations db tenant_id did)
    \<lparr>ss_grants = db_grants db, ss_remaining_consume = c, ss_remaining_release = r\<rparr>"
proof -
  have "cg_remaining_amount_usd g + outstanding (open_allocations db tenant_id did) (cg_id g)
      \<le> cg_total_amount_usd g" if "g \<in> set (db_grants db)" for g
  proof -
    have "0 \<le> outstanding (filter (\<lambda>a. \<not> (ca_tenant_id a = tenant_id \<and> ca_decision_id a = did
        \<and> ca_active a)) (db_allocations db)) (cg_id g)"
      using wf by (intro outstanding_nonneg) (auto simp: credit_wf_def)
    with credit_wfD(4) [OF wf that] outstanding_split [OF wf, of "cg_id g" tenant_id did]
    show ?thesis by linarith
  qed
  with assms show ?thesis
    by (auto simp: settleable_def credit_wf_def open_allocations_facts(3) [OF wf])
qed

lemma settled_wf:
  assumes wf: "credit_wf db" and closes: "list_all2 (closes now) (open_allocations db tenant_id did) as'"
    and st: "settleable tenant_id gids [] st"
    and books: "map (grant_books (write_allocations as' (db_allocations db))) (ss_grants st) =
      map (grant_books (db_allocations db)) (db_grants db)"
  shows "credit_wf (db\<lparr>db_grants := ss_grants st, db_allocations := write_allocations as' (db_allocations db)\<rparr>)"
proof -
  let ?rows = "write_allocations as' (db_allocations db)"
  have paired: "\<exists>g0 \<in> set (db_grants db). grant_books ?rows g = grant_books (db_allocations db) g0"
    if "g \<in> set (ss_grants st)" for g
    using that arg_cong [OF books, of set] by (metis (no_types, lifting) imageE image_eqI set_map)
  have "(\<lambda>(i, t, _). (i, t)) ` set (map (grant_books ?rows) (ss_grants st)) =
      (\<lambda>(i, t, _). (i, t)) ` set (map (grant_books (db_allocations db)) (db_grants db))"
    by (simp only: books)
  then have keys: "grant_keys (ss_grants st) = grant_keys (db_grants db)"
    by (simp add: image_image grant_books_def grant_keys_def)
  have grants: "grant_ok g \<and> cg_id g < db_next_id db
      \<and> cg_remaining_amount_usd g + outstanding ?rows (cg_id g) = cg_total_amount_usd g"
    if "g \<in> set (ss_grants st)" for g
    using paired [OF that] that st wf by (auto simp: grant_books_def settleable_def credit_wf_def)
  have rows: "allocation_ok a \<and> ca_id a < db_next_id db
      \<and> (ca_credit_grant_id a, ca_tenant_id a) \<in> grant_keys (db_grants db)" if "a \<in> set ?rows" for a
    using that
  proof (rule in_write_allocationsE)
    assume "a \<in> set as'"
    then obtain a0 where "a0 \<in> set (db_allocations db)" "closes now a0 a"
      using closes open_allocations_facts(1) [OF wf] by (metis in_set_conv_nth list_all2_conv_all_nth subsetD)
    then show ?thesis using wf by (auto simp: credit_wf_def closesD)
  qed (use wf in \<open>auto simp: credit_wf_def\<close>)
  show ?thesis
    using wf st grants rows keys by (simp add: credit_wf_def settleable_def map_id_write_allocations)
qed

lemma settle_credit_ok:
  assumes wf: "credit_wf db" and cov: "covered db tenant_id d" and pos: "0 < ed_reserved_credit_usd d"
    and consumed_def: "consumed = quantize 4 (min (max 0 c) (ed_reserved_credit_usd d))"
  obtains diags db' where
    "settle_credit_reservations_for_decision db tenant_id d c now = Inr (diags, db')"
    "credit_wf db'" "settles_credit tenant_id d consumed now db db'"
proof -
  let ?R = "ed_reserved_credit_usd d" and ?as = "open_allocations db tenant_id (ed_id d)"
  let ?gids = "sort (remdups (map ca_credit_grant_id ?as))"
  let ?st = "\<lparr>ss_grants = db_grants db, ss_remaining_consume = consumed, ss_remaining_release = ?R - consumed\<rparr>"
  have R: "money ?R" "reserved_total ?as = ?R" using cov by (simp_all add: covered_def)
  have "min (max 0 c) ?R \<le> ?R" by simp
  then have cons: "money consumed" "consumed \<le> ?R"
    using quantize_mono [of "min (max 0 c) ?R" ?R 4] R pos
    by (auto simp: consumed_def money_grid)
  then have m: "money (?R - consumed)" using R by (simp add: money_diff)
  let ?other = "filter (\<lambda>a. \<not> (ca_tenant_id a = tenant_id \<and> ca_decision_id a = ed_id d \<and> ca_active a))
    (db_allocations db)"
  from settle_loop_ok [OF settleable_open [OF wf cons(1) m, of tenant_id "ed_id d"], of now ?other]
  obtain st as' diags where run: "settle_loop tenant_id ?gids now ?as ?st = Inr (st, as', diags)"
    "list_all2 (closes now) ?as as'" "settleable tenant_id ?gids [] st"
    "map (grant_books (as' @ ?other)) (ss_grants st) = map (grant_books (?as @ ?other)) (db_grants db)"
    and sums: "ss_remaining_consume st = max 0 (consumed - ?R)"
    "ss_remaining_release st = max 0 ((?R - consumed) - max 0 (?R - consumed))"
    "sum_list (map ca_consumed_amount_usd as') = consumed - ss_remaining_consume st"
    "sum_list (map ca_released_amount_usd as') = (?R - consumed) - ss_remaining_release st"
    unfolding R(2) by (elim exE conjE) simp
  have zero: "ss_remaining_consume st = 0" "ss_remaining_release st = 0"
    using sums(1,2) cons(2) by simp_all
  let ?rows = "write_allocations as' (db_allocations db)"
  have books: "map (grant_books ?rows) (ss_grants st) = map (grant_books (db_allocations db)) (db_grants db)"
  proof -
    have "grant_books ?rows = grant_books (as' @ ?other)"
      by (rule ext) (simp only: grant_books_def outstanding_write_allocations [OF wf run(2)])
    moreover have "grant_books (db_allocations db) = grant_books (?as @ ?other)"
      by (rule ext) (simp only: grant_books_def outstanding_split [OF wf, of _ tenant_id "ed_id d"]
          outstanding_simps(3))
    ultimately show ?thesis using run(4) by simp
  qed
  have "ca_consumed_amount_usd a + ca_released_amount_usd a = ca_reserved_amount_usd a" if "a \<in> set as'" for a
    using that
  proof (rule sum_list_all_eq [rotated 2])
    show "ca_consumed_amount_usd a + ca_released_amount_usd a \<le> ca_reserved_amount_usd a" if "a \<in> set as'" for a
      using that run(2) by (metis allocation_ok_def closesD(8) in_set_conv_nth list_all2_conv_all_nth)
    have "reserved_total as' = reserved_total ?as"
      using run(2) by (induction rule: list_all2_induct) (auto simp: closesD(5))
    then show "(\<Sum>a\<leftarrow>as'. ca_consumed_amount_usd a + ca_released_amount_usd a) = sum_list (map ca_reserved_amount_usd as')"
      using R sums(3,4) zero by (simp add: sum_list_addf reserved_total_def)
  qed
  then have "list_all (fully_settled now) as'"
    using run(2) by (auto simp: list_all_iff fully_settled_def)
      (metis closesD(6,7) in_set_conv_nth list_all2_conv_all_nth)+
  then have spec: "settles_credit tenant_id d consumed now db (db\<lparr>db_grants := ss_grants st, db_allocations := ?rows\<rparr>)"
    unfolding settles_credit_def using run(2) sums(3,4) zero books by auto
  have "?as \<noteq> []" using R pos by auto
  then have "settle_credit_reservations_for_decision db tenant_id d c now =
      Inr (diags, db\<lparr>db_grants := ss_grants st, db_allocations := ?rows\<rparr>)"
    using pos R(1) m run(1) zero by (simp add: settle_credit_reservations_for_decision_def money_grid
        Let_def flip: consumed_def)
  then show ?thesis
    using that spec settled_wf [OF wf run(2,3) books] by blast
qed


text \<open>The allocations a reservation makes cover the decision they were made for.\<close>

lemma sort_key_const: "(\<And>x. x \<in> set xs \<Longrightarrow> k x = c) \<Longrightarrow> sort_key k xs = xs"
  by (rule sort_key_id_if_sorted) (auto simp: sorted_iff_nth_mono)

lemma open_after_reserve:
  assumes "reserves_credit tenant_id did now charges db db'"
    and "\<And>a. a \<in> set (db_allocations db) \<Longrightarrow> ca_decision_id a \<noteq> did"
  obtains new where "db_allocations db' = db_allocations db @ new" "open_allocations db' tenant_id did = new"
    "map charge_of new = charges"
    "filter (\<lambda>a. \<not> (ca_tenant_id a = tenant_id \<and> ca_decision_id a = did \<and> ca_active a))
       (db_allocations db') = db_allocations db"
proof -
  from assms(1) obtain new where new: "db_allocations db' = db_allocations db @ new"
    "map charge_of new = charges" "list_all (open_row tenant_id did now) new"
    by (auto simp: reserves_credit_def)
  have old: "filter (\<lambda>a. ca_tenant_id a = tenant_id \<and> ca_decision_id a = did \<and> ca_active a) (db_allocations db) = []"
    "filter (\<lambda>a. \<not> (ca_tenant_id a = tenant_id \<and> ca_decision_id a = did \<and> ca_active a)) (db_allocations db)
      = db_allocations db"
    using assms(2) by (auto simp: filter_empty_conv filter_id_conv)
  have rows: "filter (\<lambda>a. ca_tenant_id a = tenant_id \<and> ca_decision_id a = did \<and> ca_active a) new = new"
    "filter (\<lambda>a. \<not> (ca_tenant_id a = tenant_id \<and> ca_decision_id a = did \<and> ca_active a)) new = []"
    using new(3) by (auto simp: list_all_iff open_row_def filter_empty_conv filter_id_conv)
  have "sort_key ca_created_at new = new"
    using new(3) by (intro sort_key_const [where c = now]) (auto simp: list_all_iff open_row_def)
  with new rows old that show ?thesis by (simp add: open_allocations_def)
qed

lemma reserve_covers:
  assumes "reserves_credit tenant_id (ed_id d) now charges db db'"
    and "\<And>a. a \<in> set (db_allocations db) \<Longrightarrow> ca_decision_id a \<noteq> ed_id d"
    and "ed_reserved_credit_usd d = charge_total charges" "money (charge_total charges)"
  shows "covered db' tenant_id d"
proof -
  obtain new where "open_allocations db' tenant_id (ed_id d) = new" "map charge_of new = charges"
    using open_after_reserve [OF assms(1,2)] by metis
  then show ?thesis
    using assms(3,4) by (auto simp: covered_def reserved_total_def charge_total_def charge_of_def o_def)
qed

lemma sum_list_zero:
  fixes f :: "'a \<Rightarrow> rat"
  assumes "\<And>x. x \<in> set xs \<Longrightarrow> 0 \<le> f x" "sum_list (map f xs) = 0" "x \<in> set xs"
  shows "f x = 0"
  using sum_list_all_eq [of xs "\<lambda>_. 0" f x] assms by (simp add: map_replicate_const sum_list_replicate)

definition sample_decision :: "uuid \<Rightarrow> rat \<Rightarrow> rat \<Rightarrow> enforcement_decision" where
  "sample_decision i allocation credit = \<lparr>ed_id = i, ed_tenant_id = 7, ed_source = TERRAFORM,
     ed_environment = ''prod'', ed_project_id = ''default'', ed_action = ''terraform.apply'',
     ed_resource_reference = ''aws_instance.web'', ed_decision = ALLOW_WITH_CREDITS, ed_reason_codes = [],
     ed_policy_version = 1, ed_policy_document_schema_version = ''v1'', ed_policy_document_sha256 = '''',
     ed_request_fingerprint = ''f'', ed_idempotency_key = ''k'', ed_request_payload = [],
     ed_response_payload = [], ed_estimated_monthly_delta_usd = allocation + credit,
     ed_estimated_hourly_delta_usd = 0, ed_burn_rate_daily_usd = None, ed_forecast_eom_usd = None,
     ed_risk_class = None, ed_risk_score = None, ed_anomaly_signal = None,
     ed_allocation_available_usd = None, ed_credits_available_usd = None,
     ed_reserved_allocation_usd = allocation, ed_reserved_credit_usd = credit,
     ed_reservation_active = True, ed_approval_required = False, ed_approval_token_issued = False,
     ed_token_expires_at = None, ed_created_by_user_id = None, ed_created_at = 100\<rparr>"

lemma sample_reserved:
  obtains payload db1 where
    "reserve_credit_for_decision sample_credit_db 7 9 ''default'' 20 50 100 = Inr (payload, db1)"
    "credit_wf db1" "covered db1 7 (sample_decision 9 0 70)"
proof -
  obtain payload db1 where r:
    "reserve_credit_for_decision sample_credit_db 7 9 ''default'' 20 50 100 = Inr (payload, db1)"
    "credit_wf db1" "reserves_credit 7 9 100 (decision_charges sample_credit_db 7 ''default'' 100 20 50)
      sample_credit_db db1"
    "charge_total (decision_charges sample_credit_db 7 ''default'' 100 20 50) = 70"
    using reserve_credit_spec [OF sample_credit_db_wf, where x = 20 and y = 50 and tenant_id = 7
        and decision_id = 9 and scope_key = "''default''" and now = 100] sample_eligible
    by (auto split: sum.splits)
  have d: "ed_id (sample_decision 9 0 70) = 9" "ed_reserved_credit_usd (sample_decision 9 0 70) = 70"
    and rows: "db_allocations sample_credit_db = []"
    by (simp_all add: sample_decision_def sample_credit_db_def empty_db_def)
  have "covered db1 7 (sample_decision 9 0 70)"
    by (rule reserve_covers [where db = sample_credit_db and now = 100
          and charges = "decision_charges sample_credit_db 7 ''default'' 100 20 50"])
      (simp_all add: rows d r(3,4))
  with r that show ?thesis by blast
qed

text \<open>
  Settling a decision whose open allocations hold its reserved credit always succeeds. It closes
  those allocations and no others; each is split completely into a consumed and a released part; the
  consumed parts add up to the requested consumption, cut to the range from zero to the reserved
  credit; no credit is lost or created (every grant's remaining amount plus what its allocations
  hold is unchanged) and the database keeps its invariant.
\<close>

theorem settle_credit_exact:
  assumes "credit_wf db" "covered db tenant_id d" "0 < ed_reserved_credit_usd d"
  shows "\<exists>diags db'. settle_credit_reservations_for_decision db tenant_id d c now = Inr (diags, db')
    \<and> credit_wf db'
    \<and> settles_credit tenant_id d (quantize 4 (min (max 0 c) (ed_reserved_credit_usd d))) now db db'"
  using settle_credit_ok [OF assms refl, of c now] by metis

lemma settle_credit_exact_witness:
  "\<exists>db1 diags db2. settle_credit_reservations_for_decision db1 7 (sample_decision 9 0 70) 25 200 = Inr (diags, db2)
     \<and> credit_wf db2 \<and> settles_credit 7 (sample_decision 9 0 70) 25 200 db1 db2"
proof -
  obtain payload db1 where db1: "credit_wf db1" "covered db1 7 (sample_decision 9 0 70)"
    using sample_reserved by metis
  have "0 < ed_reserved_credit_usd (sample_decision 9 0 70)"
    "quantize 4 (min (max 0 25) (ed_reserved_credit_usd (sample_decision 9 0 70))) = 25"
    by (simp_all add: sample_decision_def)
  with settle_credit_exact [OF db1, of 25 200] show ?thesis by metis
qed

text \<open>
  Reserving credit for a new decision and releasing all of it again is the identity on the
  credit pools: every grant gets back exactly the remaining amount it had before.
\<close>

theorem reserve_release_roundtrip:
  assumes wf: "credit_wf db" and m: "money x" "money y" "0 < x + y"
    and fresh: "\<forall>a \<in> set (db_allocations db). ca_decision_id a \<noteq> ed_id d"
    and d: "ed_reserved_credit_usd d = x + y"
    and run: "reserve_credit_for_decision db tenant_id (ed_id d) scope_key x y now = Inr (payload, db1)"
  shows "\<exists>diags db2. settle_credit_reservations_for_decision db1 tenant_id d 0 later = Inr (diags, db2)
    \<and> credit_wf db2
    \<and> map (\<lambda>g. (cg_id g, cg_remaining_amount_usd g)) (db_grants db2) =
        map (\<lambda>g. (cg_id g, cg_remaining_amount_usd g)) (db_grants db)"
proof -
  let ?cs = "decision_charges db tenant_id scope_key now x y"
  from reserve_credit_spec [OF wf m(1,2), where tenant_id = tenant_id and decision_id = "ed_id d"
      and scope_key = scope_key and now = now] run
  have r: "credit_wf db1" "reserves_credit tenant_id (ed_id d) now ?cs db db1" "charge_total ?cs = x + y"
    by simp_all
  obtain new where new: "db_allocations db1 = db_allocations db @ new"
    "open_allocations db1 tenant_id (ed_id d) = new"
    "filter (\<lambda>a. \<not> (ca_tenant_id a = tenant_id \<and> ca_decision_id a = ed_id d \<and> ca_active a))
       (db_allocations db1) = db_allocations db"
    by (rule open_after_reserve [OF r(2)]) (use fresh in \<open>blast+\<close>)
  have "covered db1 tenant_id d"
    using reserve_covers [OF r(2)] fresh d r(3) m by simp
  moreover have "0 < ed_reserved_credit_usd d" "0 = quantize 4 (min (max 0 0) (ed_reserved_credit_usd d))"
    using d m(3) by simp_all
  ultimately obtain diags db2 where s: "settle_credit_reservations_for_decision db1 tenant_id d 0 later = Inr (diags, db2)"
    "credit_wf db2" "settles_credit tenant_id d 0 later db1 db2"
    by (rule settle_credit_ok [OF r(1), of tenant_id d 0 0 later])
  from s(3) obtain settled where st: "list_all2 (closes later) new settled" "list_all (fully_settled later) settled"
    "sum_list (map ca_consumed_amount_usd settled) = 0" "db_allocations db2 = write_allocations settled (db_allocations db1)"
    by (auto simp: settles_credit_def new(2))
  have "ca_consumed_amount_usd a = 0" if "a \<in> set settled" for a
  proof (rule sum_list_zero [OF _ st(3) that])
    show "0 \<le> ca_consumed_amount_usd a" if "a \<in> set settled" for a
      using that st(1)
      by (metis allocation_ok_def closesD(8) in_set_conv_nth list_all2_conv_all_nth money_nonneg)
  qed
  then have "held a = 0" if "a \<in> set settled" for a
    using that st(2) by (auto simp: list_all_iff fully_settled_def held_def)
  then have "outstanding settled gid = 0" for gid
    by (induction settled) auto
  then have "outstanding (db_allocations db2) gid = outstanding (db_allocations db) gid" for gid
    using outstanding_write_allocations [OF r(1), of later tenant_id "ed_id d" settled gid] st(1,4)
    unfolding new(2,3) by simp
  then have same: "grant_books (db_allocations db2) = grant_books (db_allocations db)"
    by (intro ext) (simp add: grant_books_def)
  have books: "map (grant_books (db_allocations db)) (db_grants db2) = map (grant_books (db_allocations db)) (db_grants db)"
    using r(2) s(3) by (simp add: reserves_credit_def settles_credit_def same)
  have "map (\<lambda>(i, _, _, _, _, b). (i, b - outstanding (db_allocations db) i))
      (map (grant_books (db_allocations db)) (db_grants db2)) =
    map (\<lambda>(i, _, _, _, _, b). (i, b - outstanding (db_allocations db) i))
      (map (grant_books (db_allocations db)) (db_grants db))"
    by (simp only: books)
  then have "map (\<lambda>g. (cg_id g, cg_remaining_amount_usd g)) (db_grants db2) =
      map (\<lambda>g. (cg_id g, cg_remaining_amount_usd g)) (db_grants db)"
    by (simp add: grant_books_def o_def)
  with s(1,2) show ?thesis by blast
qed


lemma reserve_release_roundtrip_witness:
  "\<exists>payload db1 diags db2.
     reserve_credit_for_decision sample_credit_db 7 9 ''default'' 20 50 100 = Inr (payload, db1)
     \<and> settle_credit_reservations_for_decision db1 7 (sample_decision 9 0 70) 0 200 = Inr (diags, db2)
     \<and> map (\<lambda>g. (cg_id g, cg_remaining_amount_usd g)) (db_grants db2) = [(1, 30), (2, 50)]"
proof -
  obtain payload db1 where
    run: "reserve_credit_for_decision sample_credit_db 7 9 ''default'' 20 50 100 = Inr (payload, db1)"
    using sample_reserved by metis
  have d: "ed_id (sample_decision 9 0 70) = 9" "ed_reserved_credit_usd (sample_decision 9 0 70) = 20 + 50"
    by (simp_all add: sample_decision_def)
  have "map (\<lambda>g. (cg_id g, cg_remaining_amount_usd g)) (db_grants sample_credit_db) = [(1, 30), (2, 50)]"
    by (simp add: sample_credit_db_def sample_grant_def)
  with run reserve_release_roundtrip [OF sample_credit_db_wf, of 20 50 "sample_decision 9 0 70" 7
      "''default''" 100 payload db1 200] d
  show ?thesis by (auto simp: sample_credit_db_def empty_db_def)
qed

end
