(* ===== verification/Enf_Routing.thy ===== *)
theory Enf_Routing
  imports Enf_Context Enf_Settlement
begin

text \<open>
  src/app/modules/enforcement/domain/approval_routing_ops.py: who may review an approval request.

  The routing trace is the JSON dictionary the source stores on the request. It is computed from the
  first matching routing rule of the policy, or from the policy's defaults, and it is what
  \<open>enforce_reviewer_authority\<close> checks a reviewer against.
\<close>

subsection \<open>The routing trace\<close>

definition default_approval_routing_trace :: "enforcement_policy \<Rightarrow> enforcement_decision \<Rightarrow> dict" where
  "default_approval_routing_trace p d =
     (let environment = normalize_environment (ed_environment d) in
      [(''rule_id'', JStr (''default-'' @ environment)),
       (''matched_rule'', JStr ''default''),
       (''required_permission'', JStr (default_required_permission_for_environment environment)),
       (''allowed_reviewer_roles'', strings_json default_allowed_reviewer_roles),
       (''require_requester_reviewer_separation'',
          JBool (if is_production_environment environment then ep_enforce_prod_separation p
                 else ep_enforce_nonprod_separation p)),
       (''routing_conditions'', JObj [(''environment'', JStr environment)])])"

definition extract_decision_risk_level :: "enforcement_decision \<Rightarrow> string option" where
  "extract_decision_risk_level d =
     (case dict_get (ed_request_payload d) ''metadata'' of
        JObj metadata \<Rightarrow>
          find (\<lambda>v. v \<noteq> '''')
            (map (\<lambda>key. lower (text_or_empty (dict_get metadata key))) [''risk_level'', ''risk'', ''criticality''])
      | _ \<Rightarrow> None)"

text \<open>What a rule is matched against.\<close>

record routing_subject =
  rs_environment :: string
  rs_action :: string
  rs_monthly_delta :: rat
  rs_risk_level :: "string option"

definition subject_of :: "enforcement_decision \<Rightarrow> routing_subject" where
  "subject_of d = \<lparr>rs_environment = normalize_environment (ed_environment d),
     rs_action = lower (strip (ed_action d)),
     rs_monthly_delta = quantize 4 (ed_estimated_monthly_delta_usd d),
     rs_risk_level = extract_decision_risk_level d\<rparr>"

definition within_delta :: "rat \<Rightarrow> json \<Rightarrow> json \<Rightarrow> bool" where
  "within_delta delta lo hi \<longleftrightarrow>
     (lo \<noteq> JNull \<longrightarrow> quantize 4 (to_decimal lo) \<le> delta) \<and> (hi \<noteq> JNull \<longrightarrow> delta \<le> quantize 4 (to_decimal hi))"

definition risk_listed :: "string option \<Rightarrow> string list \<Rightarrow> bool" where
  "risk_listed risk levels \<longleftrightarrow> levels = [] \<or> (case risk of None \<Rightarrow> False | Some r \<Rightarrow> r \<in> set levels)"

definition delta_json :: "json \<Rightarrow> json" where
  "delta_json raw = (if raw = JNull then JNull else JDec 4 (quantize 4 (to_decimal raw)))"

definition rule_trace_payload ::
  "dict \<Rightarrow> routing_subject \<Rightarrow> nat \<Rightarrow> dict \<Rightarrow> string list \<Rightarrow> string list \<Rightarrow> string list \<Rightarrow> dict" where
  "rule_trace_payload default_trace s index d action_prefixes risk_levels roles =
     (let permission = (case normalize_approval_permission (dict_get d ''required_permission'') of
            None \<Rightarrow> dict_get default_trace ''required_permission'' | Some p \<Rightarrow> JStr p);
          separation = (case dict_get d ''require_requester_reviewer_separation'' of
            JBool b \<Rightarrow> JBool b | _ \<Rightarrow> dict_get default_trace ''require_requester_reviewer_separation'');
          raw_id = text_or_empty (dict_get d ''rule_id'');
          rule_id = (if raw_id = '''' then ''rule-'' @ nat_text index else raw_id) in
      [(''rule_id'', JStr (take 64 rule_id)),
       (''matched_rule'', JStr ''policy_rule''),
       (''required_permission'', permission),
       (''allowed_reviewer_roles'', strings_json roles),
       (''require_requester_reviewer_separation'', separation),
       (''routing_conditions'', JObj
         [(''environment'', JStr (rs_environment s)),
          (''action_prefixes'', strings_json action_prefixes),
          (''min_monthly_delta_usd'', delta_json (dict_get d ''min_monthly_delta_usd'')),
          (''max_monthly_delta_usd'', delta_json (dict_get d ''max_monthly_delta_usd'')),
          (''risk_levels'', strings_json risk_levels),
          (''risk_level'', text_json (rs_risk_level s))])])"

text \<open>One pass of the loop: the trace of a rule that matches, \<open>None\<close> for \<open>continue\<close>.\<close>

definition match_rule :: "dict \<Rightarrow> routing_subject \<Rightarrow> nat \<Rightarrow> json \<Rightarrow> dict option res" where
  "match_rule default_trace s index raw = (case raw of
      JObj d \<Rightarrow>
        if \<not> py_truthy (dict_get_default d ''enabled'' (JBool True)) then Inr None
        else
          bind_res (normalize_string_list normalize_environment (dict_get d ''environments'')) (\<lambda>environments.
          if environments \<noteq> [] \<and> rs_environment s \<notin> set environments then Inr None
          else
          bind_res (normalize_string_list lower (dict_get d ''action_prefixes'')) (\<lambda>action_prefixes.
          if action_prefixes \<noteq> [] \<and> \<not> list_ex (\<lambda>p. prefix p (rs_action s)) action_prefixes then Inr None
          else if \<not> within_delta (rs_monthly_delta s) (dict_get d ''min_monthly_delta_usd'')
                     (dict_get d ''max_monthly_delta_usd'') then Inr None
          else
          bind_res (normalize_string_list lower (dict_get d ''risk_levels'')) (\<lambda>risk_levels.
          if \<not> risk_listed (rs_risk_level s) risk_levels then Inr None
          else
          bind_res (normalize_allowed_reviewer_roles (dict_get d ''allowed_reviewer_roles'')) (\<lambda>roles.
            Inr (Some (rule_trace_payload default_trace s index d action_prefixes risk_levels roles))))))
    | _ \<Rightarrow> Inr None)"

fun match_rules :: "dict \<Rightarrow> routing_subject \<Rightarrow> nat \<Rightarrow> json list \<Rightarrow> dict res" where
  "match_rules default_trace s index [] = Inr default_trace"
| "match_rules default_trace s index (raw # raws) =
     bind_res (match_rule default_trace s index raw) (\<lambda>m. case m of
         Some trace \<Rightarrow> Inr trace
       | None \<Rightarrow> match_rules default_trace s (index + 1) raws)"

definition resolve_approval_routing_trace :: "enforcement_policy \<Rightarrow> enforcement_decision \<Rightarrow> dict res" where
  "resolve_approval_routing_trace p d =
     match_rules (default_approval_routing_trace p d) (subject_of d) 1
       (case ep_approval_routing_rules p of JList rules \<Rightarrow> rules | _ \<Rightarrow> [])"

definition list_or_null :: "json \<Rightarrow> json" where
  "list_or_null v = (case v of JList xs \<Rightarrow> v | _ \<Rightarrow> JNull)"

definition routing_trace_or_default ::
  "enforcement_policy \<Rightarrow> enforcement_decision \<Rightarrow> approval_request \<Rightarrow> dict res" where
  "routing_trace_or_default p d a =
     (let trace = ar_routing_trace a in
      bind_res (normalize_allowed_reviewer_roles (list_or_null (dict_get trace ''allowed_reviewer_roles'')))
        (\<lambda>roles.
          case (normalize_approval_permission (dict_get trace ''required_permission''),
                dict_get trace ''require_requester_reviewer_separation'') of
            (Some permission, JBool separation) \<Rightarrow>
              if text_or_empty (dict_get trace ''rule_id'') = '''' then resolve_approval_routing_trace p d
              else Inr (dict_merge trace
                [(''required_permission'', JStr permission),
                 (''allowed_reviewer_roles'', strings_json roles),
                 (''rule_id'', JStr (take 64 (strip (py_str (dict_get trace ''rule_id''))))),
                 (''require_requester_reviewer_separation'', JBool separation)])
          | _ \<Rightarrow> resolve_approval_routing_trace p d))"

subsection \<open>Reviewer authority\<close>

definition quoted :: "string \<Rightarrow> string" where
  "quoted s = [CHR 0x27] @ s @ [CHR 0x27]"

definition enforce_reviewer_authority ::
  "identity_db res \<Rightarrow> enforcement_policy \<Rightarrow> approval_request \<Rightarrow> enforcement_decision \<Rightarrow> current_user \<Rightarrow> bool
    \<Rightarrow> (dict \<times> approval_request) res" where
  "enforce_reviewer_authority identity p a d reviewer enforce_requester_separation =
     bind_res (routing_trace_or_default p d a) (\<lambda>trace.
       let a' = (if trace = ar_routing_trace a then a
                 else a\<lparr>ar_routing_rule_id := (let rid = text_or_empty (dict_get trace ''rule_id'') in
                          if rid = '''' then None else Some rid), ar_routing_trace := trace\<rparr>);
           reviewer_role = normalize_role_value (JStr (cu_role reviewer)) in
       bind_res (normalize_allowed_reviewer_roles (list_or_null (dict_get trace ''allowed_reviewer_roles'')))
         (\<lambda>allowed.
           if reviewer_role \<notin> set allowed then
             Inl (HTTPException 403 (''Reviewer role '' @ quoted reviewer_role
               @ '' is not allowed for routing rule '' @ quoted (py_str (dict_get trace ''rule_id''))))
           else (case normalize_approval_permission (dict_get trace ''required_permission'') of
               None \<Rightarrow> Inl (HTTPException 409 ''Approval routing trace is missing required_permission'')
             | Some permission \<Rightarrow>
                 if \<not> user_has_approval_permission identity reviewer permission then
                   Inl (HTTPException 403 (''Insufficient approval permission: '' @ permission))
                 else if enforce_requester_separation
                     \<and> py_truthy (dict_get trace ''require_requester_reviewer_separation'')
                     \<and> ar_requested_by_user_id a = Some (cu_id reviewer) then
                   Inl (HTTPException 403
                     ''Requester/reviewer separation is enforced for this approval route'')
                 else Inr (trace, a'))))"

subsection \<open>Routing of a materialised policy\<close>

text \<open>
  The specification: of the normalised rules, the first enabled one whose conditions hold routes the
  request; when there is none, the defaults do.
\<close>

definition rule_applies :: "routing_subject \<Rightarrow> routing_rule \<Rightarrow> bool" where
  "rule_applies s r \<longleftrightarrow> rl_enabled r
     \<and> (rl_environments r = [] \<or> rs_environment s \<in> set (rl_environments r))
     \<and> (rl_action_prefixes r = [] \<or> (\<exists>p \<in> set (rl_action_prefixes r). prefix p (rs_action s)))
     \<and> opt_all (\<lambda>lo. lo \<le> rs_monthly_delta s) (rl_min_monthly_delta_usd r)
     \<and> opt_all (\<lambda>hi. rs_monthly_delta s \<le> hi) (rl_max_monthly_delta_usd r)
     \<and> risk_listed (rs_risk_level s) (rl_risk_levels r)"

definition rule_trace :: "dict \<Rightarrow> routing_subject \<Rightarrow> routing_rule \<Rightarrow> dict" where
  "rule_trace default_trace s r =
     [(''rule_id'', JStr (rl_rule_id r)),
      (''matched_rule'', JStr ''policy_rule''),
      (''required_permission'', (case rl_required_permission r of
          None \<Rightarrow> dict_get default_trace ''required_permission'' | Some p \<Rightarrow> JStr p)),
      (''allowed_reviewer_roles'', strings_json (rl_allowed_reviewer_roles r)),
      (''require_requester_reviewer_separation'', (case rl_require_separation r of
          None \<Rightarrow> dict_get default_trace ''require_requester_reviewer_separation'' | Some b \<Rightarrow> JBool b)),
      (''routing_conditions'', JObj
         [(''environment'', JStr (rs_environment s)),
          (''action_prefixes'', strings_json (rl_action_prefixes r)),
          (''min_monthly_delta_usd'', decimal_json (rl_min_monthly_delta_usd r)),
          (''max_monthly_delta_usd'', decimal_json (rl_max_monthly_delta_usd r)),
          (''risk_levels'', strings_json (rl_risk_levels r)),
          (''risk_level'', text_json (rs_risk_level s))])]"

lemma rule_dump_get:
  "dict_get (rule_dump r) ''rule_id'' = JStr (rl_rule_id r)"
  "dict_get_default (rule_dump r) ''enabled'' v = JBool (rl_enabled r)"
  "dict_get (rule_dump r) ''environments'' = strings_json (rl_environments r)"
  "dict_get (rule_dump r) ''action_prefixes'' = strings_json (rl_action_prefixes r)"
  "dict_get (rule_dump r) ''min_monthly_delta_usd'' = decimal_json (rl_min_monthly_delta_usd r)"
  "dict_get (rule_dump r) ''max_monthly_delta_usd'' = decimal_json (rl_max_monthly_delta_usd r)"
  "dict_get (rule_dump r) ''risk_levels'' = strings_json (rl_risk_levels r)"
  "dict_get (rule_dump r) ''required_permission'' = text_json (rl_required_permission r)"
  "dict_get (rule_dump r) ''allowed_reviewer_roles'' = strings_json (rl_allowed_reviewer_roles r)"
  "dict_get (rule_dump r) ''require_requester_reviewer_separation'' =
     (case rl_require_separation r of None \<Rightarrow> JNull | Some b \<Rightarrow> JBool b)"
  by (simp_all add: rule_dump_def dict_get_default_def text_json_def)

lemma match_rule_normal:
  assumes "rule_normal r"
  shows "match_rule t s i (JObj (rule_dump r)) =
    Inr (if rule_applies s r then Some (rule_trace t s r) else None)"
proof -
  have lists: "normalize_string_list normalize_environment (strings_json (rl_environments r)) = Inr (rl_environments r)"
    "normalize_string_list lower (strings_json (rl_action_prefixes r)) = Inr (rl_action_prefixes r)"
    "normalize_string_list lower (strings_json (rl_risk_levels r)) = Inr (rl_risk_levels r)"
    "normalize_allowed_reviewer_roles (strings_json (rl_allowed_reviewer_roles r)) = Inr (rl_allowed_reviewer_roles r)"
    using assms
    by (auto simp: rule_normal_def intro!: normalize_string_list_normal normalize_allowed_reviewer_roles_normal)
  have delta: "within_delta x (decimal_json (rl_min_monthly_delta_usd r)) (decimal_json (rl_max_monthly_delta_usd r)) \<longleftrightarrow>
      opt_all (\<lambda>lo. lo \<le> x) (rl_min_monthly_delta_usd r) \<and> opt_all (\<lambda>hi. x \<le> hi) (rl_max_monthly_delta_usd r)" for x
    using assms by (cases "rl_min_monthly_delta_usd r"; cases "rl_max_monthly_delta_usd r")
      (simp_all add: within_delta_def decimal_json_def rule_normal_def money_grid)
  have dj: "delta_json (decimal_json x) = decimal_json x" if "opt_all money x" for x
    using that by (cases x) (simp_all add: delta_json_def decimal_json_def money_grid)
  have perm: "normalize_approval_permission (text_json (rl_required_permission r)) = rl_required_permission r"
    using assms by (cases "rl_required_permission r") (simp_all add: rule_normal_def text_json_def)
  have "rule_trace_payload t s i (rule_dump r) (rl_action_prefixes r) (rl_risk_levels r) (rl_allowed_reviewer_roles r)
      = rule_trace t s r"
    using assms
    by (simp add: rule_trace_payload_def rule_trace_def rule_dump_get perm dj rule_normal_def Let_def
        split: option.splits)
  then show ?thesis
    by (auto simp: match_rule_def rule_dump_get lists delta rule_applies_def list_ex_iff)
qed

lemma match_rules_first:
  assumes "list_all rule_normal rules"
  shows "match_rules t s i (map (\<lambda>r. JObj (rule_dump r)) rules) =
    Inr (case find (rule_applies s) rules of None \<Rightarrow> t | Some r \<Rightarrow> rule_trace t s r)"
  using assms by (induction rules arbitrary: i) (simp_all add: match_rule_normal)

text \<open>
  On a policy row as materialisation leaves it, approval routing is a first match over the
  normalised rules: the first enabled rule whose environment, action-prefix, amount and risk
  conditions all hold decides who may review, a condition left empty holding for every request, and
  the policy's defaults decide when no rule applies. Routing such a policy never raises.
\<close>

theorem routing_first_match:
  assumes "rules_normal rules"
    and "ep_approval_routing_rules p = JList (map (\<lambda>r. JObj (rule_dump r)) rules)"
  shows "resolve_approval_routing_trace p d =
    Inr (case find (rule_applies (subject_of d)) rules of
           None \<Rightarrow> default_approval_routing_trace p d
         | Some r \<Rightarrow> rule_trace (default_approval_routing_trace p d) (subject_of d) r)"
  using assms by (simp add: resolve_approval_routing_trace_def match_rules_first rules_normal_def)


definition sample_policy :: enforcement_policy where
  "sample_policy = (new_policy 1 7)\<lparr>ep_approval_routing_rules := JList [JObj (rule_dump sample_rule_normalized)]\<rparr>"

lemma sample_rules_normal: "rules_normal [sample_rule_normalized]"
  using normalize_rules_normal [OF sample_rule_normalizes] .

lemma routing_first_match_witness:
  "resolve_approval_routing_trace sample_policy (sample_decision 9 150 0) =
     Inr (rule_trace (default_approval_routing_trace sample_policy (sample_decision 9 150 0))
       (subject_of (sample_decision 9 150 0)) sample_rule_normalized)"
proof -
  have "rule_applies (subject_of (sample_decision 9 150 0)) sample_rule_normalized"
    using normalize_environment_idem [of "''prod''"]
    by (simp add: rule_applies_def subject_of_def sample_decision_def sample_rule_normalized_def risk_listed_def)
      code_simp
  then show ?thesis
    using routing_first_match [OF sample_rules_normal, of sample_policy "sample_decision 9 150 0"]
    by (simp add: sample_policy_def)
qed

text \<open>
  A reviewer who passes the authority check holds an allowed role and the required permission of the
  routing trace that is recorded on the request, and is not the requester whenever the check runs
  with requester separation and the trace demands it.
\<close>

lemma reviewer_authority_facts:
  assumes "enforce_reviewer_authority identity p a d reviewer separation = Inr (trace, a')"
  shows "ar_routing_trace a' = trace
    \<and> (\<exists>roles. normalize_allowed_reviewer_roles (list_or_null (dict_get trace ''allowed_reviewer_roles'')) = Inr roles
         \<and> normalize_role_value (JStr (cu_role reviewer)) \<in> set roles)
    \<and> (\<exists>permission. normalize_approval_permission (dict_get trace ''required_permission'') = Some permission
         \<and> user_has_approval_permission identity reviewer permission)
    \<and> \<not> (separation \<and> py_truthy (dict_get trace ''require_requester_reviewer_separation'')
          \<and> ar_requested_by_user_id a' = Some (cu_id reviewer))
    \<and> a' = a\<lparr>ar_routing_rule_id := ar_routing_rule_id a', ar_routing_trace := trace\<rparr>"
  using assms
  by (auto simp: enforce_reviewer_authority_def Let_def split: if_splits option.splits)

definition sample_approval :: "uuid \<Rightarrow> uuid \<Rightarrow> uuid \<Rightarrow> approval_request" where
  "sample_approval i decision_id requester = \<lparr>ar_id = i, ar_tenant_id = 7, ar_decision_id = decision_id,
     ar_status = PENDING, ar_requested_by_user_id = Some requester, ar_reviewed_by_user_id = None,
     ar_review_notes = None, ar_routing_rule_id = None, ar_routing_trace = [],
     ar_approval_token_hash = None, ar_approval_token_expires_at = None,
     ar_approval_token_consumed_at = None, ar_expires_at = 900000000, ar_approved_at = None,
     ar_denied_at = None, ar_created_at = 100, ar_updated_at = 100\<rparr>"

end
