(* ===== verification/Enf_Ledger.thy ===== *)
theory Enf_Ledger
  imports Enf_Routing
begin

text \<open>
  The queries of src/app/modules/enforcement/domain/runtime_query_ops.py, the decision ledger of
  service_runtime_ledger_ops.py and the listings of service_runtime_ops.py.
\<close>

subsection \<open>Queries\<close>

definition get_decision_by_idempotency ::
  "enf_db \<Rightarrow> uuid \<Rightarrow> enforcement_source \<Rightarrow> string \<Rightarrow> enforcement_decision option" where
  "get_decision_by_idempotency db tenant_id source key =
     first_row (\<lambda>d. ed_tenant_id d = tenant_id \<and> ed_source d = source \<and> ed_idempotency_key d = key)
       (db_decisions db)"

definition get_approval_by_decision :: "enf_db \<Rightarrow> uuid \<Rightarrow> approval_request option" where
  "get_approval_by_decision db decision_id =
     first_row (\<lambda>a. ar_decision_id a = decision_id) (db_approvals db)"

definition active_in_month :: "uuid \<Rightarrow> instant \<Rightarrow> instant \<Rightarrow> enforcement_decision \<Rightarrow> bool" where
  "active_in_month tenant_id month_start month_end d \<longleftrightarrow>
     ed_tenant_id d = tenant_id \<and> ed_reservation_active d
     \<and> month_start \<le> ed_created_at d \<and> ed_created_at d < month_end"

definition get_reserved_totals :: "enf_db \<Rightarrow> uuid \<Rightarrow> instant \<Rightarrow> instant \<Rightarrow> rat \<times> rat" where
  "get_reserved_totals db tenant_id month_start month_end =
     (let rows = filter (active_in_month tenant_id month_start month_end) (db_decisions db) in
      (sum_list (map ed_reserved_allocation_usd rows), sum_list (map ed_reserved_credit_usd rows)))"

definition get_effective_budget :: "enf_db \<Rightarrow> uuid \<Rightarrow> string \<Rightarrow> budget_allocation option" where
  "get_effective_budget db tenant_id scope_key =
     (let row = (\<lambda>scope. first_row (\<lambda>b. ba_tenant_id b = tenant_id \<and> ba_scope_key b = scope \<and> ba_active b)
            (db_budgets db)) in
      case row (scope_of scope_key) of Some b \<Rightarrow> Some b | None \<Rightarrow> row ''default'')"

definition load_approval_with_decision ::
  "enf_db \<Rightarrow> uuid \<Rightarrow> uuid \<Rightarrow> (approval_request \<times> enforcement_decision) res" where
  "load_approval_with_decision db tenant_id approval_id =
     (case first_row (\<lambda>a. ar_id a = approval_id \<and> ar_tenant_id a = tenant_id) (db_approvals db) of
        None \<Rightarrow> Inl (HTTPException 404 ''Approval request not found'')
      | Some a \<Rightarrow>
          (case first_row (\<lambda>d. ed_id d = ar_decision_id a \<and> ed_tenant_id d = tenant_id) (db_decisions db) of
             None \<Rightarrow> Inl (HTTPException 404 ''Approval decision not found'')
           | Some d \<Rightarrow> Inr (a, d)))"

definition assert_pending :: "approval_request \<Rightarrow> unit res" where
  "assert_pending a =
     (if ar_status a \<noteq> PENDING
      then Inl (HTTPException 409 (''Approval request is already '' @ approval_status_value (ar_status a)))
      else Inr ())"

subsection \<open>Listings\<close>

definition list_active_reservations :: "enf_db \<Rightarrow> uuid \<Rightarrow> int \<Rightarrow> enforcement_decision list" where
  "list_active_reservations db tenant_id limit =
     take (nat (clamp 1 1000 limit)) (sort_key ed_created_at
       (filter (\<lambda>d. ed_tenant_id d = tenant_id \<and> ed_reservation_active d) (db_decisions db)))"

definition list_decision_ledger ::
  "enf_db \<Rightarrow> uuid \<Rightarrow> int \<Rightarrow> instant option \<Rightarrow> instant option \<Rightarrow> decision_ledger list" where
  "list_decision_ledger db tenant_id limit start_at end_at =
     take (nat (clamp 1 1000 limit)) (rev (sort_key (\<lambda>l. (dl_recorded_at l, dl_id l))
       (filter (\<lambda>l. dl_tenant_id l = tenant_id
          \<and> opt_all (\<lambda>t. t \<le> dl_recorded_at l) start_at \<and> opt_all (\<lambda>t. dl_recorded_at l \<le> t) end_at)
        (db_ledger db))))"

subsection \<open>The ledger\<close>

definition ledger_entry ::
  "(string \<Rightarrow> string) \<Rightarrow> uuid \<Rightarrow> instant \<Rightarrow> enforcement_decision \<Rightarrow> approval_request option \<Rightarrow> decision_ledger" where
  "ledger_entry sha i now d approval =
     \<lparr>dl_id = i, dl_tenant_id = ed_tenant_id d, dl_decision_id = ed_id d, dl_source = ed_source d,
      dl_environment = ed_environment d, dl_project_id = ed_project_id d, dl_action = ed_action d,
      dl_resource_reference = ed_resource_reference d, dl_decision = ed_decision d,
      dl_reason_codes = ed_reason_codes d, dl_policy_version = ed_policy_version d,
      dl_policy_document_schema_version =
        normalize_policy_document_schema_version (ed_policy_document_schema_version d),
      dl_policy_document_sha256 = normalize_policy_document_sha256 (ed_policy_document_sha256 d),
      dl_request_fingerprint = ed_request_fingerprint d, dl_idempotency_key = ed_idempotency_key d,
      dl_estimated_monthly_delta_usd = quantize 4 (ed_estimated_monthly_delta_usd d),
      dl_estimated_hourly_delta_usd = quantize 6 (ed_estimated_hourly_delta_usd d),
      dl_burn_rate_daily_usd = map_option (quantize 4) (ed_burn_rate_daily_usd d),
      dl_forecast_eom_usd = map_option (quantize 4) (ed_forecast_eom_usd d),
      dl_risk_class = map_option (\<lambda>c. lower (strip c)) (ed_risk_class d),
      dl_risk_score = ed_risk_score d, dl_anomaly_signal = ed_anomaly_signal d,
      dl_reserved_total_usd = quantize 4 (ed_reserved_allocation_usd d + ed_reserved_credit_usd d),
      dl_approval_required = ed_approval_required d,
      dl_approval_request_id = map_option ar_id approval,
      dl_approval_status = map_option ar_status approval,
      dl_request_payload_sha256 = payload_sha256 sha (ed_request_payload d),
      dl_response_payload_sha256 = payload_sha256 sha (ed_response_payload d),
      dl_created_by_user_id = ed_created_by_user_id d, dl_decision_created_at = ed_created_at d,
      dl_recorded_at = now\<rparr>"

definition append_decision_ledger_entry ::
  "(string \<Rightarrow> string) \<Rightarrow> instant \<Rightarrow> enforcement_decision \<Rightarrow> approval_request option \<Rightarrow> enf_db \<Rightarrow> enf_db" where
  "append_decision_ledger_entry sha now d approval db =
     db\<lparr>db_ledger := db_ledger db @ [ledger_entry sha (db_next_id db) now d approval],
        db_next_id := Suc (db_next_id db)\<rparr>"

subsection \<open>Rows written back\<close>

definition write_decision :: "enforcement_decision \<Rightarrow> enf_db \<Rightarrow> enf_db" where
  "write_decision d db = db\<lparr>db_decisions := update_where (\<lambda>r. ed_id r = ed_id d) (\<lambda>_. d) (db_decisions db)\<rparr>"

definition write_approval :: "approval_request \<Rightarrow> enf_db \<Rightarrow> enf_db" where
  "write_approval a db = db\<lparr>db_approvals := update_where (\<lambda>r. ar_id r = ar_id a) (\<lambda>_. a) (db_approvals db)\<rparr>"

lemma write_decision_simps [simp]:
  "db_grants (write_decision d db) = db_grants db" "db_allocations (write_decision d db) = db_allocations db"
  "db_approvals (write_decision d db) = db_approvals db" "db_next_id (write_decision d db) = db_next_id db"
  "db_policies (write_decision d db) = db_policies db" "db_ledger (write_decision d db) = db_ledger db"
  "db_actions (write_decision d db) = db_actions db" "db_budgets (write_decision d db) = db_budgets db"
  "map ed_id (db_decisions (write_decision d db)) = map ed_id (db_decisions db)"
  by (auto simp: write_decision_def update_where_def)

lemma write_approval_simps [simp]:
  "db_grants (write_approval a db) = db_grants db" "db_allocations (write_approval a db) = db_allocations db"
  "db_decisions (write_approval a db) = db_decisions db" "db_next_id (write_approval a db) = db_next_id db"
  "db_policies (write_approval a db) = db_policies db" "db_ledger (write_approval a db) = db_ledger db"
  "db_actions (write_approval a db) = db_actions db" "db_budgets (write_approval a db) = db_budgets db"
  "map ar_id (db_approvals (write_approval a db)) = map ar_id (db_approvals db)"
  by (auto simp: write_approval_def update_where_def)

lemma append_ledger_simps [simp]:
  "db_grants (append_decision_ledger_entry sha now d a db) = db_grants db"
  "db_allocations (append_decision_ledger_entry sha now d a db) = db_allocations db"
  "db_decisions (append_decision_ledger_entry sha now d a db) = db_decisions db"
  "db_approvals (append_decision_ledger_entry sha now d a db) = db_approvals db"
  "db_policies (append_decision_ledger_entry sha now d a db) = db_policies db"
  "db_actions (append_decision_ledger_entry sha now d a db) = db_actions db"
  "db_budgets (append_decision_ledger_entry sha now d a db) = db_budgets db"
  "db_next_id (append_decision_ledger_entry sha now d a db) = Suc (db_next_id db)"
  "db_ledger (append_decision_ledger_entry sha now d a db) =
     db_ledger db @ [ledger_entry sha (db_next_id db) now d a]"
  by (simp_all add: append_decision_ledger_entry_def)

end
