(* ===== verification/Enf_Waterfall.thy ===== *)
theory Enf_Waterfall
  imports Enf_Utils Base_Draw
begin

text \<open>
  src/app/modules/enforcement/domain/waterfall_ops.py with the bindings of
  service_private_credit_token_ops.py: the entitlement waterfall, which funds a requested monthly
  delta from the project allocation, then reserved credits, then emergency credits, under a plan
  limit and an enterprise ceiling.

  The stages are functions of their own, composed as the source composes them.
  \<open>waterfall_outcome\<close> is the specification: which limit is violated and how much each pool
  gives, in closed form. The stages are interpreted as the funding pools of \<open>Base_Draw\<close>.
\<close>

subsection \<open>Definitions\<close>

definition mode_violation_decision :: "enforcement_mode \<Rightarrow> decision_type" where
  "mode_violation_decision mode =
     (if mode = SHADOW then ALLOW else if mode = SOFT then REQUIRE_APPROVAL else DENY)"

definition mode_violation_reason_suffix :: "enforcement_mode \<Rightarrow> string \<Rightarrow> string" where
  "mode_violation_reason_suffix mode subject =
     (if mode = SHADOW then ''shadow_mode_'' @ subject @ ''_override''
      else if mode = SOFT then ''soft_mode_'' @ subject @ ''_escalation''
      else ''hard_mode_'' @ subject @ ''_closed'')"

record stage_row =
  sr_stage :: string
  sr_status :: string
  sr_available_usd :: "rat option"
  sr_consumed_usd :: rat
  sr_remaining_after_stage_usd :: rat

definition stage_row_of :: "string \<Rightarrow> string \<Rightarrow> rat option \<Rightarrow> rat \<Rightarrow> rat \<Rightarrow> stage_row" where
  "stage_row_of stage status available consumed remaining_after =
     \<lparr>sr_stage = stage, sr_status = status,
      sr_available_usd = map_option (quantize 4) available,
      sr_consumed_usd = quantize 4 consumed,
      sr_remaining_after_stage_usd = quantize 4 remaining_after\<rparr>"

record entitlement_result =
  er_decision :: decision_type
  er_reserve_allocation_usd :: rat
  er_reserve_reserved_credit_usd :: rat
  er_reserve_emergency_credit_usd :: rat
  er_reason_code :: "string option"
  er_stage_details :: "stage_row list"

definition er_reserve_credit_usd :: "entitlement_result \<Rightarrow> rat" where
  "er_reserve_credit_usd r =
     quantize 4 (er_reserve_reserved_credit_usd r + er_reserve_emergency_credit_usd r)"

text \<open>\<open>max(Decimal("0.0000"), quantize(headroom))\<close>\<close>

definition normalized_headroom :: "rat \<Rightarrow> rat" where
  "normalized_headroom h = max 0 (quantize 4 h)"

text \<open>The plan limit: \<open>None\<close> for a failed check, which ends the evaluation.\<close>

definition plan_limit_stage :: "rat \<Rightarrow> rat option \<Rightarrow> bool \<times> stage_row" where
  "plan_limit_stage requested plan_headroom =
     (case plan_headroom of
        None \<Rightarrow> (True, stage_row_of ''plan_limit'' ''skipped'' None requested requested)
      | Some h \<Rightarrow>
          (let normalized_plan = normalized_headroom h in
           if normalized_plan < requested
           then (False, stage_row_of ''plan_limit'' ''fail'' (Some normalized_plan) 0 requested)
           else (True, stage_row_of ''plan_limit'' ''pass'' (Some normalized_plan) requested requested)))"

definition take_from_pool :: "rat \<Rightarrow> rat \<Rightarrow> rat \<times> rat" where
  "take_from_pool available remaining =
     (let taken = quantize 4 (min remaining available) in
      (taken, quantize 4 (remaining - taken)))"

definition allocation_stage :: "rat \<Rightarrow> rat option \<Rightarrow> rat \<times> rat \<times> stage_row" where
  "allocation_stage remaining allocation_headroom =
     (case allocation_headroom of
        None \<Rightarrow> (0, 0, stage_row_of ''project_allocation'' ''skipped'' None (quantize 4 remaining) 0)
      | Some h \<Rightarrow>
          (let available = normalized_headroom h;
               (taken, left) = take_from_pool available remaining in
           (taken, left,
            stage_row_of ''project_allocation'' (if left = 0 then ''pass'' else ''partial'')
              (Some available) taken left)))"

definition credit_stage :: "string \<Rightarrow> rat \<Rightarrow> rat \<Rightarrow> rat \<times> rat \<times> stage_row" where
  "credit_stage stage remaining headroom =
     (let available = normalized_headroom headroom;
          (taken, left) = take_from_pool available remaining in
      (taken, left,
       stage_row_of stage
         (if 0 < available then (if left = 0 then ''pass'' else ''partial'') else ''skipped'')
         (Some available) taken left))"

definition enterprise_stage :: "rat \<Rightarrow> rat option \<Rightarrow> rat \<Rightarrow> bool \<times> stage_row" where
  "enterprise_stage requested normalized_enterprise remaining =
     (let consumable = (case normalized_enterprise of None \<Rightarrow> requested | Some e \<Rightarrow> min requested e);
          failed = (case normalized_enterprise of None \<Rightarrow> False | Some e \<Rightarrow> e < requested) in
      (failed,
       stage_row_of ''enterprise_ceiling''
         (if failed \<and> remaining = 0 then ''fail''
          else if normalized_enterprise \<noteq> None then ''pass'' else ''skipped'')
         normalized_enterprise consumable (quantize 4 (requested - consumable))))"

definition evaluate_entitlement_waterfall ::
  "enforcement_mode \<Rightarrow> rat \<Rightarrow> rat option \<Rightarrow> rat option \<Rightarrow> rat \<Rightarrow> rat \<Rightarrow> rat option
    \<Rightarrow> entitlement_result" where
  "evaluate_entitlement_waterfall mode monthly_delta plan_headroom allocation_headroom
     reserved_credit_headroom emergency_credit_headroom enterprise_headroom =
     (let requested = quantize 4 monthly_delta;
          (plan_ok, plan_row) = plan_limit_stage requested plan_headroom in
      if \<not> plan_ok then
        \<lparr>er_decision = mode_violation_decision mode,
         er_reserve_allocation_usd = 0, er_reserve_reserved_credit_usd = 0,
         er_reserve_emergency_credit_usd = 0,
         er_reason_code = Some ''plan_limit_exceeded'', er_stage_details = [plan_row]\<rparr>
      else
        let normalized_enterprise = map_option normalized_headroom enterprise_headroom;
            funding_target = (case normalized_enterprise of None \<Rightarrow> requested
                              | Some e \<Rightarrow> min requested e);
            (reserved_alloc, rem1, alloc_row) = allocation_stage funding_target allocation_headroom;
            (reserved_credit, rem2, reserved_row) =
              credit_stage ''reserved_credits'' rem1 reserved_credit_headroom;
            (emergency_credit, remaining, emergency_row) =
              credit_stage ''org_emergency_credits'' rem2 emergency_credit_headroom;
            (enterprise_failed, enterprise_row) =
              enterprise_stage requested normalized_enterprise remaining;
            stage_details = [plan_row, alloc_row, reserved_row, emergency_row, enterprise_row];
            violation = (\<lambda>reason.
              \<lparr>er_decision = mode_violation_decision mode,
               er_reserve_allocation_usd = (if mode = SOFT then reserved_alloc else 0),
               er_reserve_reserved_credit_usd = (if mode = SOFT then reserved_credit else 0),
               er_reserve_emergency_credit_usd = (if mode = SOFT then emergency_credit else 0),
               er_reason_code = Some reason, er_stage_details = stage_details\<rparr>)
        in if 0 < remaining then violation ''budget_exceeded''
           else if enterprise_failed then violation ''enterprise_ceiling_exceeded''
           else \<lparr>er_decision =
                   (if reserved_credit + emergency_credit = 0 then ALLOW else ALLOW_WITH_CREDITS),
                 er_reserve_allocation_usd = reserved_alloc,
                 er_reserve_reserved_credit_usd = reserved_credit,
                 er_reserve_emergency_credit_usd = emergency_credit,
                 er_reason_code = None, er_stage_details = stage_details\<rparr>)"

definition evaluate_budget_waterfall ::
  "enforcement_mode \<Rightarrow> rat \<Rightarrow> rat option \<Rightarrow> rat \<Rightarrow> string list
    \<Rightarrow> decision_type \<times> rat \<times> rat \<times> string list" where
  "evaluate_budget_waterfall mode monthly_delta allocation_headroom credits_headroom reasons =
     (let result = evaluate_entitlement_waterfall mode monthly_delta None allocation_headroom
            credits_headroom 0 None;
          reasons1 = (if er_reason_code result = Some ''budget_exceeded'' then
              reasons @ [''budget_exceeded''] @
              (if mode = SHADOW then [''shadow_mode_budget_override'']
               else if mode = SOFT then [''soft_mode_budget_escalation''] else [])
            else reasons);
          reasons2 = (if 0 < er_reserve_reserved_credit_usd result + er_reserve_emergency_credit_usd result
            then reasons1 @ [''credit_waterfall_used''] else reasons1)
      in (er_decision result, er_reserve_allocation_usd result,
          er_reserve_reserved_credit_usd result, reasons2))"

subsection \<open>Specification\<close>

text \<open>
  What the waterfall is for: the amount each pool contributes to a target is what the pools before
  it leave, up to what the pool holds.
\<close>

record funding =
  fd_allocation :: rat
  fd_reserved :: rat
  fd_emergency :: rat
  fd_unfunded :: rat

definition fund :: "rat \<Rightarrow> rat option \<Rightarrow> rat \<Rightarrow> rat \<Rightarrow> funding" where
  "fund target allocation reserved emergency =
     (case allocation of
        None \<Rightarrow> \<lparr>fd_allocation = 0, fd_reserved = 0, fd_emergency = 0, fd_unfunded = 0\<rparr>
      | Some a \<Rightarrow>
         \<lparr>fd_allocation = min target a,
          fd_reserved = min (max 0 (target - a)) reserved,
          fd_emergency = min (max 0 (target - a - reserved)) emergency,
          fd_unfunded = max 0 (target - a - reserved - emergency)\<rparr>)"

definition exceeds :: "rat \<Rightarrow> rat option \<Rightarrow> bool" where
  "exceeds requested headroom \<longleftrightarrow> (case headroom of None \<Rightarrow> False
     | Some h \<Rightarrow> normalized_headroom h < requested)"

definition waterfall_outcome ::
  "enforcement_mode \<Rightarrow> rat \<Rightarrow> rat option \<Rightarrow> rat option \<Rightarrow> rat \<Rightarrow> rat \<Rightarrow> rat option
    \<Rightarrow> decision_type \<times> funding \<times> string option" where
  "waterfall_outcome mode requested plan alloc reserved emergency enterprise =
     (let none = \<lparr>fd_allocation = 0, fd_reserved = 0, fd_emergency = 0, fd_unfunded = 0\<rparr>;
          target = (case enterprise of None \<Rightarrow> requested
                    | Some e \<Rightarrow> min requested (normalized_headroom e));
          f = fund target (map_option normalized_headroom alloc)
                (normalized_headroom reserved) (normalized_headroom emergency);
          kept = (if mode = SOFT then f\<lparr>fd_unfunded := 0\<rparr> else none) in
      if exceeds requested plan then
        (mode_violation_decision mode, none, Some ''plan_limit_exceeded'')
      else if 0 < fd_unfunded f then (mode_violation_decision mode, kept, Some ''budget_exceeded'')
      else if exceeds requested enterprise then
        (mode_violation_decision mode, kept, Some ''enterprise_ceiling_exceeded'')
      else (if fd_reserved f = 0 \<and> fd_emergency f = 0 then ALLOW else ALLOW_WITH_CREDITS,
            f, None))"

subsection \<open>The stages are funding pools\<close>

lemma money_normalized_headroom [simp]: "money (normalized_headroom h)"
  by (simp add: normalized_headroom_def money_max_0)

lemma take_from_pool_money:
  assumes "money a" "money w"
  shows "take_from_pool a w = (min w a, w - min w a)"
  using assms by (simp add: take_from_pool_def Let_def money_grid)

interpretation pool: draw take_from_pool
proof unfold_locales
  fix a w assume m: "money a" "money w"
  show "money (fst (take_from_pool a w))" "fst (take_from_pool a w) \<le> a"
    "fst (take_from_pool a w) + snd (take_from_pool a w) = w"
    using m by (simp_all add: take_from_pool_money)
  show "money (snd (take_from_pool a w))"
    using m by (simp add: take_from_pool_money money_diff)
  show "0 < snd (take_from_pool a w) \<Longrightarrow> fst (take_from_pool a w) = a"
    using m by (simp add: take_from_pool_money min_def split: if_splits)
qed

lemma allocation_stage_Some:
  assumes "money w"
  shows "fst (allocation_stage w (Some h)) = min w (normalized_headroom h)"
    "fst (snd (allocation_stage w (Some h))) = w - min w (normalized_headroom h)"
  using assms by (simp_all add: allocation_stage_def Let_def take_from_pool_money)

lemma credit_stage_eq:
  assumes "money w"
  shows "fst (credit_stage s w h) = min w (normalized_headroom h)"
    "fst (snd (credit_stage s w h)) = w - min w (normalized_headroom h)"
  using assms by (simp_all add: credit_stage_def Let_def take_from_pool_money)

subsection \<open>The waterfall meets its specification\<close>

definition funding_target :: "rat \<Rightarrow> rat option \<Rightarrow> rat" where
  "funding_target requested enterprise =
     (case enterprise of None \<Rightarrow> requested | Some e \<Rightarrow> min requested (normalized_headroom e))"

lemma money_funding_target [simp]: "money r \<Longrightarrow> money (funding_target r enterprise)"
  by (simp add: funding_target_def split: option.splits)

lemma funding_target_le: "funding_target r enterprise \<le> r"
  by (simp add: funding_target_def split: option.splits)

text \<open>The three pools in a row take what \<open>fund\<close> says.\<close>

definition run_pools ::
  "rat \<Rightarrow> rat option \<Rightarrow> rat \<Rightarrow> rat \<Rightarrow> funding \<times> stage_row list" where
  "run_pools target alloc reserved emergency =
     (let (a, rem1, arow) = allocation_stage target alloc;
          (r, rem2, rrow) = credit_stage ''reserved_credits'' rem1 reserved;
          (e, rem3, erow) = credit_stage ''org_emergency_credits'' rem2 emergency
      in (\<lparr>fd_allocation = a, fd_reserved = r, fd_emergency = e, fd_unfunded = rem3\<rparr>,
          [arow, rrow, erow]))"

lemma run_pools_fund:
  assumes "money target"
  shows "fst (run_pools target alloc reserved emergency) =
    fund target (map_option normalized_headroom alloc)
      (normalized_headroom reserved) (normalized_headroom emergency)"
proof (cases alloc)
  case None
  have "min 0 (normalized_headroom h) = 0" for h
    using money_nonneg [OF money_normalized_headroom [of h]] by simp
  then show ?thesis
    using None by (simp add: run_pools_def fund_def allocation_stage_def Let_def case_prod_beta
        credit_stage_eq)
next
  case (Some h)
  let ?a = "normalized_headroom h" and ?r = "normalized_headroom reserved"
    and ?e = "normalized_headroom emergency"
  have nn: "0 \<le> ?a" "0 \<le> ?r" "0 \<le> ?e" "0 \<le> target"
    using assms by (auto intro: money_nonneg)
  have m1: "money (target - min target ?a)"
    using assms by (simp add: money_diff)
  then have m2: "money (target - min target ?a - min (target - min target ?a) ?r)"
    by (simp add: money_diff)
  show ?thesis
    using nn Some assms
    by (simp add: run_pools_def fund_def Let_def case_prod_beta allocation_stage_Some
        credit_stage_eq m1 m2) (auto simp: min_def max_def)
qed

lemma evaluate_entitlement_waterfall_unfold:
  "evaluate_entitlement_waterfall mode m plan alloc reserved emergency enterprise =
    (let requested = quantize 4 m; target = funding_target requested enterprise;
         (f, rows) = run_pools target alloc reserved emergency;
         plan_row = snd (plan_limit_stage requested plan);
         (failed, erow) = enterprise_stage requested (map_option normalized_headroom enterprise)
           (fd_unfunded f);
         details = plan_row # rows @ [erow];
         violation = (\<lambda>reason. \<lparr>er_decision = mode_violation_decision mode,
           er_reserve_allocation_usd = (if mode = SOFT then fd_allocation f else 0),
           er_reserve_reserved_credit_usd = (if mode = SOFT then fd_reserved f else 0),
           er_reserve_emergency_credit_usd = (if mode = SOFT then fd_emergency f else 0),
           er_reason_code = Some reason, er_stage_details = details\<rparr>) in
     if exceeds requested plan then
       \<lparr>er_decision = mode_violation_decision mode,
        er_reserve_allocation_usd = 0, er_reserve_reserved_credit_usd = 0,
        er_reserve_emergency_credit_usd = 0,
        er_reason_code = Some ''plan_limit_exceeded'', er_stage_details = [plan_row]\<rparr>
     else if 0 < fd_unfunded f then violation ''budget_exceeded''
     else if exceeds requested enterprise then violation ''enterprise_ceiling_exceeded''
     else \<lparr>er_decision = (if fd_reserved f + fd_emergency f = 0 then ALLOW else ALLOW_WITH_CREDITS),
           er_reserve_allocation_usd = fd_allocation f,
           er_reserve_reserved_credit_usd = fd_reserved f,
           er_reserve_emergency_credit_usd = fd_emergency f,
           er_reason_code = None, er_stage_details = details\<rparr>)"
proof -
  have plan: "fst (plan_limit_stage r plan) \<longleftrightarrow> \<not> exceeds r plan" for r
    by (simp add: plan_limit_stage_def exceeds_def Let_def split: option.splits)
  have ent: "fst (enterprise_stage r (map_option normalized_headroom enterprise) w)
      \<longleftrightarrow> exceeds r enterprise" for r w
    by (simp add: enterprise_stage_def exceeds_def Let_def split: option.splits)
  have target: "(case map_option normalized_headroom enterprise of None \<Rightarrow> r | Some e \<Rightarrow> min r e)
      = funding_target r enterprise" for r
    by (simp add: funding_target_def split: option.splits)
  show ?thesis
    unfolding evaluate_entitlement_waterfall_def run_pools_def Let_def case_prod_beta target plan ent
    by simp
qed

text \<open>What the waterfall reserves is a funding of the target, kept whole or dropped whole.\<close>

definition reserves :: "entitlement_result \<Rightarrow> rat \<times> rat \<times> rat" where
  "reserves r = (er_reserve_allocation_usd r, er_reserve_reserved_credit_usd r,
     er_reserve_emergency_credit_usd r)"

abbreviation pools_of :: "rat \<Rightarrow> rat option \<Rightarrow> rat \<Rightarrow> rat \<Rightarrow> rat option \<Rightarrow> funding" where
  "pools_of m alloc reserved emergency enterprise \<equiv>
     fund (funding_target (quantize 4 m) enterprise) (map_option normalized_headroom alloc)
       (normalized_headroom reserved) (normalized_headroom emergency)"

lemma reserves_cases:
  fixes mode m plan alloc reserved emergency enterprise
  defines "r \<equiv> evaluate_entitlement_waterfall mode m plan alloc reserved emergency enterprise"
    and "f \<equiv> pools_of m alloc reserved emergency enterprise"
  assumes "0 \<le> m"
  obtains (nothing) "reserves r = (0, 0, 0)" "er_reason_code r \<noteq> None"
    | (funded) "reserves r = (fd_allocation f, fd_reserved f, fd_emergency f)"
      "\<not> exceeds (quantize 4 m) plan"
      "er_reason_code r = None \<Longrightarrow> fd_unfunded f \<le> 0 \<and> \<not> exceeds (quantize 4 m) enterprise"
proof -
  have f: "f = fst (run_pools (funding_target (quantize 4 m) enterprise) alloc reserved emergency)"
    using assms(3) by (simp add: f_def run_pools_fund)
  note r = r_def [unfolded evaluate_entitlement_waterfall_unfold Let_def case_prod_beta,
      folded f]
  show thesis
  proof (cases "exceeds (quantize 4 m) plan")
    case True
    show thesis by (rule nothing) (use True in \<open>simp_all add: r reserves_def\<close>)
  next
    case plan: False
    show thesis
    proof (cases "er_reason_code r = None \<or> mode = SOFT")
      case True
      show thesis
        by (rule funded) (use True plan in \<open>auto simp: r reserves_def split: if_splits\<close>)
    next
      case False
      show thesis
        by (rule nothing) (use False plan in \<open>auto simp: r reserves_def split: if_splits\<close>)
    qed
  qed
qed

lemma pools_of_money:
  assumes "0 \<le> m"
  shows "money (fd_allocation (pools_of m alloc reserved emergency enterprise))"
    "money (fd_reserved (pools_of m alloc reserved emergency enterprise))"
    "money (fd_emergency (pools_of m alloc reserved emergency enterprise))"
proof -
  have t: "money (funding_target (quantize 4 m) enterprise)" using assms by simp
  show "money (fd_allocation (pools_of m alloc reserved emergency enterprise))"
    "money (fd_reserved (pools_of m alloc reserved emergency enterprise))"
    "money (fd_emergency (pools_of m alloc reserved emergency enterprise))"
    using t money_grid [OF t] money_grid [OF money_normalized_headroom]
    by (cases alloc; simp add: fund_def money_max_0)+
qed

lemma normalized_headroom_nonneg [simp]: "0 \<le> normalized_headroom h"
  by (simp add: normalized_headroom_def)

lemma fund_sum:
  assumes "0 \<le> t" "0 \<le> a" "0 \<le> r" "0 \<le> e"
  shows "fd_allocation (fund t (Some a) r e) + fd_reserved (fund t (Some a) r e)
    + fd_emergency (fund t (Some a) r e) + fd_unfunded (fund t (Some a) r e) = t"
  using assms by (auto simp: fund_def min_def max_def)

lemma fund_draw_all:
  assumes "money t" "money a" "money r" "money e"
  shows "fst (draw_all take_from_pool [a, r, e] t) =
    [fd_allocation (fund t (Some a) r e), fd_reserved (fund t (Some a) r e),
     fd_emergency (fund t (Some a) r e)]"
  using assms assms [THEN money_nonneg]
  by (simp add: Let_def case_prod_beta take_from_pool_money money_diff fund_def)
    (auto simp: min_def max_def)

lemma pools_of_sum:
  assumes "0 \<le> m"
  shows "fd_allocation (pools_of m alloc reserved emergency enterprise)
      + fd_reserved (pools_of m alloc reserved emergency enterprise)
      + fd_emergency (pools_of m alloc reserved emergency enterprise)
      + fd_unfunded (pools_of m alloc reserved emergency enterprise)
    = (if alloc = None then 0 else funding_target (quantize 4 m) enterprise)"
    "0 \<le> fd_unfunded (pools_of m alloc reserved emergency enterprise)"
proof -
  have "0 \<le> funding_target (quantize 4 m) enterprise"
    using assms by (simp add: money_nonneg)
  then show "fd_allocation (pools_of m alloc reserved emergency enterprise)
      + fd_reserved (pools_of m alloc reserved emergency enterprise)
      + fd_emergency (pools_of m alloc reserved emergency enterprise)
      + fd_unfunded (pools_of m alloc reserved emergency enterprise)
    = (if alloc = None then 0 else funding_target (quantize 4 m) enterprise)"
    by (cases alloc) (simp_all add: fund_sum, simp add: fund_def)
  show "0 \<le> fd_unfunded (pools_of m alloc reserved emergency enterprise)"
    by (cases alloc) (simp_all add: fund_def)
qed

lemma waterfall_money:
  assumes "0 \<le> m"
    "reserves (evaluate_entitlement_waterfall mode m plan alloc reserved emergency enterprise)
      = (a, r, e)"
  shows "money a \<and> money r \<and> money e"
proof (cases rule: reserves_cases [OF assms(1), of mode plan alloc reserved emergency enterprise,
      case_names nothing funded])
  case nothing
  with assms show ?thesis by simp
next
  case funded
  with assms(2) have "a = fd_allocation (pools_of m alloc reserved emergency enterprise)"
    "r = fd_reserved (pools_of m alloc reserved emergency enterprise)"
    "e = fd_emergency (pools_of m alloc reserved emergency enterprise)" by simp_all
  with pools_of_money [OF assms(1)] show ?thesis by simp
qed

subsection \<open>Properties\<close>

text \<open>
  C14. The staged evaluation computes the specification: for every non-negative delta, the decision,
  the three reserved amounts and the reason code are those of \<open>waterfall_outcome\<close>, in every mode
  and for every combination of configured limits.
\<close>

theorem waterfall_refines_spec:
  assumes "0 \<le> m"
  shows "let r = evaluate_entitlement_waterfall mode m plan alloc reserved emergency enterprise;
             (decision, f, reason) = waterfall_outcome mode (quantize 4 m) plan alloc reserved
               emergency enterprise
         in er_decision r = decision \<and> er_reserve_allocation_usd r = fd_allocation f
          \<and> er_reserve_reserved_credit_usd r = fd_reserved f
          \<and> er_reserve_emergency_credit_usd r = fd_emergency f \<and> er_reason_code r = reason"
proof -
  let ?f = "pools_of m alloc reserved emergency enterprise"
  have f: "fst (run_pools (funding_target (quantize 4 m) enterprise) alloc reserved emergency) = ?f"
    using assms by (simp add: run_pools_fund)
  have sum0: "fd_reserved ?f + fd_emergency ?f = 0 \<longleftrightarrow> fd_reserved ?f = 0 \<and> fd_emergency ?f = 0"
    using pools_of_money(2,3) [OF assms, where alloc = alloc and reserved = reserved
        and emergency = emergency and enterprise = enterprise]
    by (simp add: money_def add_nonneg_eq_0_iff)
  show ?thesis
    unfolding evaluate_entitlement_waterfall_unfold waterfall_outcome_def Let_def case_prod_beta
      funding_target_def [symmetric] f
    by (simp add: sum0)
qed

lemma waterfall_refines_spec_witness:
  "er_reason_code (evaluate_entitlement_waterfall SOFT 150 None (Some 100) 20 10 None)
    = Some ''budget_exceeded''"
  using waterfall_refines_spec [of 150 SOFT None "Some 100" 20 10 None]
  by (simp add: waterfall_outcome_def fund_def exceeds_def normalized_headroom_def Let_def)

lemma waterfall_bounds:
  assumes "0 \<le> m"
    "reserves (evaluate_entitlement_waterfall mode m plan alloc reserved emergency enterprise)
      = (a, r, e)"
  shows "money a \<and> money r \<and> money e \<and> a + r + e \<le> quantize 4 m
    \<and> r \<le> normalized_headroom reserved \<and> e \<le> normalized_headroom emergency
    \<and> (\<forall>h. alloc = Some h \<longrightarrow> a \<le> normalized_headroom h)
    \<and> (\<forall>h. plan = Some h \<longrightarrow> a + r + e \<le> normalized_headroom h)
    \<and> (\<forall>h. enterprise = Some h \<longrightarrow> a + r + e \<le> normalized_headroom h)"
proof -
  have q: "0 \<le> quantize 4 m" using assms(1) by simp
  have t: "0 \<le> funding_target (quantize 4 m) enterprise"
    using assms(1) by (simp add: money_nonneg)
  let ?f = "pools_of m alloc reserved emergency enterprise"
  have sum: "fd_allocation ?f + fd_reserved ?f + fd_emergency ?f
      \<le> funding_target (quantize 4 m) enterprise"
    using pools_of_sum [OF assms(1), where alloc = alloc and reserved = reserved
        and emergency = emergency and enterprise = enterprise] t
    by (simp split: if_splits)
  show ?thesis
  proof (cases rule: reserves_cases [OF assms(1), of mode plan alloc reserved emergency enterprise,
        case_names nothing funded])
    case nothing
    with assms(2) q show ?thesis by simp
  next
    case funded
    with assms(2) have eq: "a = fd_allocation ?f" "r = fd_reserved ?f" "e = fd_emergency ?f"
      by simp_all
    have "fd_reserved ?f \<le> normalized_headroom reserved"
      "fd_emergency ?f \<le> normalized_headroom emergency"
      "\<And>h. alloc = Some h \<Longrightarrow> fd_allocation ?f \<le> normalized_headroom h"
      by (auto simp: fund_def split: option.splits)
    moreover have "funding_target (quantize 4 m) enterprise \<le> quantize 4 m"
      by (rule funding_target_le)
    moreover have "\<And>h. plan = Some h \<Longrightarrow> quantize 4 m \<le> normalized_headroom h"
      using funded(2) by (simp add: exceeds_def)
    moreover have "\<And>h. enterprise = Some h \<Longrightarrow>
        funding_target (quantize 4 m) enterprise \<le> normalized_headroom h"
      by (simp add: funding_target_def)
    ultimately show ?thesis
      using waterfall_money [OF assms] sum unfolding eq by (blast intro: order_trans)
  qed
qed

text \<open>
  Nothing is over-committed: whatever the mode, each reserved amount is money, stays within the
  headroom of its own pool, and together they stay within the request, the plan headroom and the
  enterprise headroom.
\<close>

theorem waterfall_within_headrooms:
  assumes "0 \<le> m"
    "reserves (evaluate_entitlement_waterfall mode m plan alloc reserved emergency enterprise)
      = (a, r, e)"
  shows "money a \<and> money r \<and> money e \<and> a + r + e \<le> quantize 4 m
    \<and> r \<le> normalized_headroom reserved \<and> e \<le> normalized_headroom emergency
    \<and> (\<forall>h. alloc = Some h \<longrightarrow> a \<le> normalized_headroom h)
    \<and> (\<forall>h. plan = Some h \<longrightarrow> a + r + e \<le> normalized_headroom h)
    \<and> (\<forall>h. enterprise = Some h \<longrightarrow> a + r + e \<le> normalized_headroom h)"
  using assms by (rule waterfall_bounds)

lemma waterfall_within_headrooms_witness:
  "let r = evaluate_entitlement_waterfall SOFT 150 (Some 200) (Some 100) 20 10 (Some 120) in
   er_reserve_allocation_usd r + er_reserve_reserved_credit_usd r
     + er_reserve_emergency_credit_usd r \<le> 120"
proof -
  let ?r = "evaluate_entitlement_waterfall SOFT 150 (Some 200) (Some 100) 20 10 (Some 120)"
  have "normalized_headroom 120 = 120" by (simp add: normalized_headroom_def)
  then show ?thesis
    using waterfall_within_headrooms [of 150 SOFT "Some 200" "Some 100" 20 10 "Some 120",
        OF _ reserves_def [of ?r]]
    by (simp add: Let_def)
qed

text \<open>
  A request that passes with a configured budget is funded exactly: the allocation, reserved
  credit and emergency credit reserved for it add up to the requested amount.
\<close>

theorem waterfall_funds_exactly:
  assumes "0 \<le> m"
    "er_reason_code (evaluate_entitlement_waterfall mode m plan (Some h) reserved emergency enterprise)
      = None"
    "reserves (evaluate_entitlement_waterfall mode m plan (Some h) reserved emergency enterprise)
      = (a, r, e)"
  shows "a + r + e = quantize 4 m"
proof (cases rule: reserves_cases [OF assms(1), of mode plan "Some h" reserved emergency enterprise,
      case_names nothing funded])
  case nothing
  with assms show ?thesis by simp
next
  case funded
  from funded(3) assms(2) have unf: "fd_unfunded (pools_of m (Some h) reserved emergency enterprise) \<le> 0"
    and ent: "\<not> exceeds (quantize 4 m) enterprise" by auto
  have "funding_target (quantize 4 m) enterprise = quantize 4 m"
    using ent by (simp add: funding_target_def exceeds_def split: option.splits)
  with unf pools_of_sum [OF assms(1), where alloc = "Some h" and reserved = reserved
      and emergency = emergency and enterprise = enterprise] funded(1) assms(3)
  show ?thesis by simp
qed

lemma waterfall_funds_exactly_witness:
  "let r = evaluate_entitlement_waterfall HARD 150 None (Some 100) 60 10 None in
   er_reason_code r = None \<and>
   er_reserve_allocation_usd r + er_reserve_reserved_credit_usd r
     + er_reserve_emergency_credit_usd r = 150"
proof -
  let ?r = "evaluate_entitlement_waterfall HARD 150 None (Some 100) 60 10 None"
  have c: "er_reason_code ?r = None"
    by (simp add: evaluate_entitlement_waterfall_unfold Let_def case_prod_beta run_pools_fund
        fund_def exceeds_def normalized_headroom_def funding_target_def)
  show ?thesis
    using waterfall_funds_exactly [of 150 HARD None 100 60 10 None, OF _ c reserves_def [of ?r]] c
    by (simp add: Let_def)
qed

text \<open>
  Pools are used in order: reserved credit is touched only when the project allocation is used
  up, and emergency credit only when the reserved credit is used up as well.
\<close>

theorem waterfall_priority:
  assumes "0 \<le> m"
    "reserves (evaluate_entitlement_waterfall mode m plan (Some h) reserved emergency enterprise)
      = (a, r, e)"
  shows "(0 < r \<longrightarrow> a = normalized_headroom h)
    \<and> (0 < e \<longrightarrow> r = normalized_headroom reserved \<and> a = normalized_headroom h)"
proof (cases rule: reserves_cases [OF assms(1), of mode plan "Some h" reserved emergency enterprise,
      case_names nothing funded])
  case nothing
  with assms show ?thesis by simp
next
  case funded
  let ?as = "[normalized_headroom h, normalized_headroom reserved, normalized_headroom emergency]"
  let ?t = "funding_target (quantize 4 m) enterprise"
  have ok: "list_all money ?as" "money ?t" using assms(1) by simp_all
  have "fst (draw_all take_from_pool ?as ?t) = [a, r, e]"
    using funded(1) assms(2) ok(2) by (subst fund_draw_all) simp_all
  with pool.draw_all_priority [OF ok, of 0 1] pool.draw_all_priority [OF ok, of 0 2]
    pool.draw_all_priority [OF ok, of 1 2]
  show ?thesis by simp
qed

lemma waterfall_priority_witness:
  "let r = evaluate_entitlement_waterfall HARD 150 None (Some 100) 45 10 None in
   0 < er_reserve_emergency_credit_usd r \<and> er_reserve_reserved_credit_usd r = 45
   \<and> er_reserve_allocation_usd r = 100"
proof -
  let ?r = "evaluate_entitlement_waterfall HARD 150 None (Some 100) 45 10 None"
  have e: "0 < er_reserve_emergency_credit_usd ?r"
    by (simp add: evaluate_entitlement_waterfall_unfold Let_def case_prod_beta run_pools_fund
        fund_def exceeds_def normalized_headroom_def funding_target_def)
  have n: "normalized_headroom 100 = 100" "normalized_headroom 45 = 45"
    by (simp_all add: normalized_headroom_def)
  show ?thesis
    using waterfall_priority [of 150 HARD None 100 45 10 None, OF _ reserves_def [of ?r]] e n
    by (simp add: Let_def)
qed

text \<open>
  The violated limit does not depend on the mode, and a stricter mode never answers more
  leniently: shadow lets a violating request through, soft asks for approval, hard denies it.
\<close>

theorem waterfall_mode_monotone:
  assumes "mode \<le> mode'"
  shows "er_reason_code (evaluate_entitlement_waterfall mode m plan alloc reserved emergency enterprise)
      = er_reason_code (evaluate_entitlement_waterfall mode' m plan alloc reserved emergency enterprise)
    \<and> decision_severity (er_decision
        (evaluate_entitlement_waterfall mode m plan alloc reserved emergency enterprise))
      \<le> decision_severity (er_decision
        (evaluate_entitlement_waterfall mode' m plan alloc reserved emergency enterprise))"
proof -
  have sev: "decision_severity (mode_violation_decision mode)
      \<le> decision_severity (mode_violation_decision mode')"
    using assms by (cases mode; cases mode')
      (simp_all add: mode_violation_decision_def less_eq_enforcement_mode_def)
  show ?thesis
    unfolding evaluate_entitlement_waterfall_unfold Let_def case_prod_beta
    using sev by simp
qed

lemma waterfall_mode_monotone_witness:
  "decision_severity (er_decision (evaluate_entitlement_waterfall SHADOW 5 (Some 1) None 0 0 None))
    \<le> decision_severity (er_decision (evaluate_entitlement_waterfall HARD 5 (Some 1) None 0 0 None))"
  using waterfall_mode_monotone [of SHADOW HARD 5 "Some 1" None 0 0 None]
  by (simp add: less_eq_enforcement_mode_def)

end
