(* ===== verification/Enf_Gate.thy ===== *)
theory Enf_Gate
  imports Enf_Ledger Enf_Waterfall
begin

text \<open>
  The gate: gate_evaluation_ops.py with gate_evaluation_context_ops.py,
  gate_evaluation_payload_ops.py, gate_evaluation_persistence_ops.py and
  service_runtime_gate_lock_ops.py, all under src/app/modules/enforcement/domain.

  \<open>gate_env\<close> is what an evaluation reads from outside the enforcement tables: the clock (one
  reading per evaluation), the tenant's pricing tier with its limits, the cost table and how the
  wait for the row lock ended. The evaluation is split where it waits for that lock: \<open>gate_open\<close>
  is what runs before, \<open>gate_decide\<close> what runs after, possibly on a database other
  evaluations have changed in between.
\<close>

datatype lock_wait = LockAcquired | LockTimeout | LockError err

record gate_env =
  ge_now :: instant
  ge_tier :: string
  ge_tier_limit :: "string \<Rightarrow> json"
  ge_costs :: "cost_record list res"
  ge_lock :: lock_wait

subsection \<open>Context and idempotency\<close>

definition resolve_idempotency_key :: "string \<Rightarrow> string option \<Rightarrow> string" where
  "resolve_idempotency_key fingerprint key =
     (let raw = strip (case key of None \<Rightarrow> fingerprint | Some k \<Rightarrow> if k = '''' then fingerprint else k) in
      if raw = '''' then fingerprint else take 128 raw)"

record gate_context =
  gc_policy :: enforcement_policy
  gc_environment :: string
  gc_mode :: enforcement_mode
  gc_mode_scope :: string
  gc_ttl_seconds :: int
  gc_fingerprint :: string
  gc_idempotency_key :: string

definition build_gate_evaluation_context ::
  "(string \<Rightarrow> string) \<Rightarrow> enforcement_policy \<Rightarrow> enforcement_source \<Rightarrow> gate_input \<Rightarrow> gate_context" where
  "build_gate_evaluation_context sha p source gi =
     (let env = normalize_environment (gi_environment gi);
          (mode, mode_scope) = resolve_policy_mode p source env;
          fingerprint = stable_fingerprint sha source gi in
      \<lparr>gc_policy = p, gc_environment = env, gc_mode = mode, gc_mode_scope = mode_scope,
       gc_ttl_seconds = clamp 60 86400 (ep_default_ttl_seconds p), gc_fingerprint = fingerprint,
       gc_idempotency_key = resolve_idempotency_key fingerprint (gi_idempotency_key gi)\<rparr>)"

definition get_existing_gate_result ::
  "enf_db \<Rightarrow> uuid \<Rightarrow> enforcement_source \<Rightarrow> string \<Rightarrow> int \<Rightarrow> gate_evaluation_result option" where
  "get_existing_gate_result db tenant_id source key ttl_seconds =
     map_option (\<lambda>d. \<lparr>gr_decision = d, gr_approval = get_approval_by_decision db (ed_id d),
         gr_approval_token = None, gr_ttl_seconds = ttl_seconds\<rparr>)
       (get_decision_by_idempotency db tenant_id source key)"

text \<open>
  The row lock: an update of the policy row to its own version, awaited with a timeout.
\<close>

definition acquire_gate_evaluation_lock :: "enf_db \<Rightarrow> enforcement_policy \<Rightarrow> lock_wait \<Rightarrow> unit res" where
  "acquire_gate_evaluation_lock db p w = (case w of
      LockTimeout \<Rightarrow> Inl (HTTPException 503 ''gate_lock_timeout'')
    | LockError e \<Rightarrow> Inl e
    | LockAcquired \<Rightarrow>
        if count_where (\<lambda>r. ep_id r = ep_id p \<and> ep_tenant_id r = ep_tenant_id p) (db_policies db) = 0
        then Inl (HTTPException 409 ''gate_lock_contended'') else Inr ())"

subsection \<open>Headrooms\<close>

record gate_figures =
  gf_plan_ceiling :: "rat option"
  gf_plan_headroom :: "rat option"
  gf_enterprise_ceiling :: "rat option"
  gf_enterprise_headroom :: "rat option"
  gf_allocation_headroom :: "rat option"
  gf_reserved_credit_headroom :: rat
  gf_emergency_credit_headroom :: rat
  gf_credits_available :: rat

definition gate_figures_of ::
  "gate_env \<Rightarrow> enf_db \<Rightarrow> enforcement_policy \<Rightarrow> uuid \<Rightarrow> string \<Rightarrow> gate_figures" where
  "gate_figures_of env db p tenant_id project_id =
     (let now = ge_now env;
          (month_start, month_end) = month_bounds now;
          (reserved_alloc_total, reserved_credit_total) =
            get_reserved_totals db tenant_id month_start month_end;
          reserved_total_monthly = quantize 4 (reserved_alloc_total + reserved_credit_total);
          plan_ceiling = resolve_plan_monthly_ceiling_usd p (ge_tier_limit env);
          enterprise_ceiling = resolve_enterprise_monthly_ceiling_usd p (ge_tier_limit env);
          headroom = map_option (\<lambda>ceiling. quantize 4 (max 0 (ceiling - reserved_total_monthly)));
          (reserved_credit, emergency_credit) = get_credit_headrooms db tenant_id project_id now in
      \<lparr>gf_plan_ceiling = plan_ceiling, gf_plan_headroom = headroom plan_ceiling,
       gf_enterprise_ceiling = enterprise_ceiling, gf_enterprise_headroom = headroom enterprise_ceiling,
       gf_allocation_headroom = map_option (\<lambda>b. max 0 (ba_monthly_limit_usd b - reserved_alloc_total))
         (get_effective_budget db tenant_id project_id),
       gf_reserved_credit_headroom = reserved_credit, gf_emergency_credit_headroom = emergency_credit,
       gf_credits_available = quantize 4 (reserved_credit + emergency_credit)\<rparr>)"

subsection \<open>The verdict\<close>

record gate_verdict =
  gv_decision :: decision_type
  gv_reasons :: "string list"
  gv_allocation :: rat
  gv_reserved_credit :: rat
  gv_emergency_credit :: rat
  gv_credit :: rat
  gv_active :: bool
  gv_entitlement :: "entitlement_result option"

definition no_reservation :: "decision_type \<Rightarrow> string list \<Rightarrow> gate_verdict" where
  "no_reservation decision reasons = \<lparr>gv_decision = decision, gv_reasons = reasons, gv_allocation = 0,
     gv_reserved_credit = 0, gv_emergency_credit = 0, gv_credit = 0, gv_active = False,
     gv_entitlement = None\<rparr>"

definition violation_subject :: "string \<Rightarrow> string option" where
  "violation_subject code = map_of [(''budget_exceeded'', ''budget''), (''plan_limit_exceeded'', ''plan_limit''),
     (''enterprise_ceiling_exceeded'', ''enterprise_ceiling'')] code"

definition entitlement_verdict ::
  "enforcement_mode \<Rightarrow> rat \<Rightarrow> gate_figures \<Rightarrow> string list \<Rightarrow> gate_verdict" where
  "entitlement_verdict mode monthly_delta f reasons =
     (let r = evaluate_entitlement_waterfall mode monthly_delta (gf_plan_headroom f)
            (gf_allocation_headroom f) (gf_reserved_credit_headroom f)
            (gf_emergency_credit_headroom f) (gf_enterprise_headroom f);
          violation = (case er_reason_code r of
              None \<Rightarrow> []
            | Some code \<Rightarrow> code # (case violation_subject code of
                  Some subject \<Rightarrow> if mode \<in> {SHADOW, SOFT} then [mode_violation_reason_suffix mode subject] else []
                | None \<Rightarrow> []));
          credit = (if 0 < er_reserve_credit_usd r
            then ''credit_waterfall_used''
              # (if 0 < er_reserve_reserved_credit_usd r then [''reserved_credit_waterfall_used''] else [])
              @ (if 0 < er_reserve_emergency_credit_usd r then [''emergency_credit_waterfall_used''] else [])
            else []) in
      \<lparr>gv_decision = er_decision r, gv_reasons = reasons @ violation @ credit,
       gv_allocation = er_reserve_allocation_usd r, gv_reserved_credit = er_reserve_reserved_credit_usd r,
       gv_emergency_credit = er_reserve_emergency_credit_usd r, gv_credit = er_reserve_credit_usd r,
       gv_active = False, gv_entitlement = Some r\<rparr>)"

definition policy_verdict ::
  "enforcement_policy \<Rightarrow> enforcement_mode \<Rightarrow> rat \<Rightarrow> gate_figures \<Rightarrow> computed_context \<Rightarrow> gate_verdict" where
  "policy_verdict p mode monthly_delta f c =
     (let reasons = (if gf_allocation_headroom f = None then [''no_budget_configured''] else []) in
      if dc_data_source_mode c = ''unavailable'' \<and> 0 < monthly_delta then
        no_reservation (mode_violation_decision mode)
          (reasons @ [''computed_context_unavailable'', mode_violation_reason_suffix mode ''cost_context''])
      else if ep_hard_deny_above_monthly_usd p < monthly_delta then
        no_reservation (mode_violation_decision mode)
          (reasons @ [''hard_deny_threshold_exceeded'']
            @ (if mode = SOFT then [''soft_mode_escalation''] else [])
            @ (if mode = SHADOW then [''shadow_mode_override''] else []))
      else entitlement_verdict mode monthly_delta f reasons)"

definition approval_verdict :: "enforcement_mode \<Rightarrow> bool \<Rightarrow> gate_verdict \<Rightarrow> gate_verdict" where
  "approval_verdict mode approval_required v =
     (if gv_decision v \<in> {ALLOW, ALLOW_WITH_CREDITS} \<and> approval_required then
        (if mode = SHADOW then v\<lparr>gv_reasons := gv_reasons v @ [''shadow_mode_approval_override'']\<rparr>
         else v\<lparr>gv_decision := REQUIRE_APPROVAL, gv_reasons := gv_reasons v @ [''approval_required'']\<rparr>)
      else v)"

definition reservation_verdict :: "enforcement_mode \<Rightarrow> bool \<Rightarrow> gate_verdict \<Rightarrow> gate_verdict" where
  "reservation_verdict mode dry_run v =
     (if dry_run then v\<lparr>gv_reasons := gv_reasons v @ [''dry_run''], gv_allocation := 0,
        gv_reserved_credit := 0, gv_emergency_credit := 0, gv_credit := 0, gv_active := False\<rparr>
      else if gv_decision v \<noteq> DENY \<and> mode \<noteq> SHADOW
      then v\<lparr>gv_active := (0 < gv_allocation v + gv_credit v)\<rparr> else v)"

definition gate_verdict_of ::
  "enforcement_policy \<Rightarrow> enforcement_mode \<Rightarrow> gate_input \<Rightarrow> bool \<Rightarrow> gate_figures \<Rightarrow> computed_context \<Rightarrow> gate_verdict" where
  "gate_verdict_of p mode gi is_prod f c =
     (let monthly_delta = quantize 4 (gi_estimated_monthly_delta_usd gi);
          approval_required =
            ((if is_prod then ep_require_approval_for_prod p else ep_require_approval_for_nonprod p)
             \<and> \<not> monthly_delta \<le> ep_auto_approve_below_monthly_usd p) in
      reservation_verdict mode (gi_dry_run gi)
        (approval_verdict mode approval_required (policy_verdict p mode monthly_delta f c)))"

subsection \<open>Payloads\<close>

definition build_metadata_payload :: "dict \<Rightarrow> string \<Rightarrow> int \<Rightarrow> dict" where
  "build_metadata_payload original risk_class risk_score =
     dict_merge (if dict_has original ''risk_level'' then original
         else AList.update ''risk_level'' (JStr risk_class) original)
       [(''computed_risk_class'', JStr risk_class), (''computed_risk_score'', JInt risk_score)]"

definition build_gate_request_payload :: "gate_input \<Rightarrow> string \<Rightarrow> rat \<Rightarrow> rat \<Rightarrow> dict \<Rightarrow> dict" where
  "build_gate_request_payload gi normalized_env monthly_delta hourly_delta metadata =
     [(''project_id'', JStr (gi_project_id gi)), (''environment'', JStr normalized_env),
      (''action'', JStr (gi_action gi)), (''resource_reference'', JStr (gi_resource_reference gi)),
      (''estimated_monthly_delta_usd'', JDec 4 monthly_delta),
      (''estimated_hourly_delta_usd'', JDec 6 hourly_delta), (''metadata'', JObj metadata),
      (''dry_run'', JBool (gi_dry_run gi))]"

definition stage_row_payload :: "stage_row \<Rightarrow> json" where
  "stage_row_payload r = JObj
     [(''stage'', JStr (sr_stage r)), (''status'', JStr (sr_status r)),
      (''available_usd'', (case sr_available_usd r of None \<Rightarrow> JStr ''unbounded'' | Some x \<Rightarrow> JDec 4 x)),
      (''consumed_usd'', JDec 4 (sr_consumed_usd r)),
      (''remaining_after_stage_usd'', JDec 4 (sr_remaining_after_stage_usd r))]"

definition build_gate_response_payload ::
  "gate_context \<Rightarrow> bool \<Rightarrow> gate_figures \<Rightarrow> string \<Rightarrow> gate_verdict \<Rightarrow> computed_context \<Rightarrow> dict" where
  "build_gate_response_payload gc is_prod f tier v c =
     [(''mode'', JStr (mode_value (gc_mode gc))), (''mode_scope'', JStr (gc_mode_scope gc)),
      (''is_production'', JBool is_prod),
      (''allocation_headroom_usd'', decimal_json (gf_allocation_headroom f)),
      (''credits_headroom_usd'', JDec 4 (gf_credits_available f)),
      (''reserved_credits_headroom_usd'', JDec 4 (gf_reserved_credit_headroom f)),
      (''emergency_credits_headroom_usd'', JDec 4 (gf_emergency_credit_headroom f)),
      (''plan_monthly_ceiling_usd'', decimal_json (map_option (quantize 4) (gf_plan_ceiling f))),
      (''plan_headroom_usd'', decimal_json (map_option (quantize 4) (gf_plan_headroom f))),
      (''enterprise_monthly_ceiling_usd'', decimal_json (map_option (quantize 4) (gf_enterprise_ceiling f))),
      (''enterprise_headroom_usd'', decimal_json (map_option (quantize 4) (gf_enterprise_headroom f))),
      (''tenant_tier'', JStr tier),
      (''entitlement_reason_code'', (case gv_entitlement v of None \<Rightarrow> JNull | Some r \<Rightarrow> text_json (er_reason_code r))),
      (''entitlement_waterfall'', (case gv_entitlement v of None \<Rightarrow> JNull
         | Some r \<Rightarrow> JList (map stage_row_payload (er_stage_details r)))),
      (''reserved_credit_split_usd'', JObj [(''reserved'', JDec 4 (gv_reserved_credit v)),
         (''emergency'', JDec 4 (gv_emergency_credit v))]),
      (''computed_context'', JObj (context_payload c))]"

definition build_fail_safe_response_payload ::
  "gate_context \<Rightarrow> bool \<Rightarrow> string \<Rightarrow> json \<Rightarrow> computed_context \<Rightarrow> dict" where
  "build_fail_safe_response_payload gc is_prod normalized_reason details c =
     [(''mode'', JStr (mode_value (gc_mode gc))), (''mode_scope'', JStr (gc_mode_scope gc)),
      (''is_production'', JBool is_prod), (''fail_safe_trigger'', JStr normalized_reason),
      (''fail_safe_details'', details), (''computed_context'', JObj (context_payload c))]"

subsection \<open>Persisting\<close>

definition decision_row_of ::
  "uuid \<Rightarrow> uuid \<Rightarrow> enforcement_source \<Rightarrow> gate_input \<Rightarrow> gate_context \<Rightarrow> computed_context \<Rightarrow> gate_verdict
    \<Rightarrow> dict \<Rightarrow> rat option \<Rightarrow> rat option \<Rightarrow> instant \<Rightarrow> uuid \<Rightarrow> enforcement_decision" where
  "decision_row_of tenant_id actor_id source gi gc c v response allocation_available credits_available now i =
     (let p = gc_policy gc; monthly_delta = quantize 4 (gi_estimated_monthly_delta_usd gi);
          hourly_delta = quantize 6 (gi_estimated_hourly_delta_usd gi) in
      \<lparr>ed_id = i, ed_tenant_id = tenant_id, ed_source = source, ed_environment = gc_environment gc,
       ed_project_id = gi_project_id gi, ed_action = gi_action gi,
       ed_resource_reference = gi_resource_reference gi, ed_decision = gv_decision v,
       ed_reason_codes = unique_reason_codes (gv_reasons v), ed_policy_version = ep_policy_version p,
       ed_policy_document_schema_version =
         normalize_policy_document_schema_version (ep_policy_document_schema_version p),
       ed_policy_document_sha256 = normalize_policy_document_sha256 (ep_policy_document_sha256 p),
       ed_request_fingerprint = gc_fingerprint gc, ed_idempotency_key = gc_idempotency_key gc,
       ed_request_payload = build_gate_request_payload gi (gc_environment gc) monthly_delta hourly_delta
         (build_metadata_payload (gi_metadata gi) (dc_risk_class c) (dc_risk_score c)),
       ed_response_payload = response, ed_estimated_monthly_delta_usd = monthly_delta,
       ed_estimated_hourly_delta_usd = hourly_delta,
       ed_burn_rate_daily_usd = Some (dc_burn_rate_daily_usd c),
       ed_forecast_eom_usd = Some (dc_forecast_eom_usd c), ed_risk_class = Some (dc_risk_class c),
       ed_risk_score = Some (dc_risk_score c), ed_anomaly_signal = Some (dc_anomaly_signal c),
       ed_allocation_available_usd = allocation_available, ed_credits_available_usd = credits_available,
       ed_reserved_allocation_usd = gv_allocation v, ed_reserved_credit_usd = gv_credit v,
       ed_reservation_active = gv_active v, ed_approval_required = (gv_decision v = REQUIRE_APPROVAL),
       ed_approval_token_issued = False, ed_token_expires_at = None,
       ed_created_by_user_id = Some actor_id, ed_created_at = now\<rparr>)"

definition new_gate_approval ::
  "uuid \<Rightarrow> uuid \<Rightarrow> uuid \<Rightarrow> uuid \<Rightarrow> dict \<Rightarrow> instant \<Rightarrow> int \<Rightarrow> approval_request" where
  "new_gate_approval i tenant_id decision_id actor_id trace now ttl_seconds =
     \<lparr>ar_id = i, ar_tenant_id = tenant_id, ar_decision_id = decision_id, ar_status = PENDING,
      ar_requested_by_user_id = Some actor_id, ar_reviewed_by_user_id = None, ar_review_notes = None,
      ar_routing_rule_id = (let rid = text_or_empty (dict_get trace ''rule_id'') in
        if rid = '''' then None else Some rid),
      ar_routing_trace = trace, ar_approval_token_hash = None, ar_approval_token_expires_at = None,
      ar_approval_token_consumed_at = None, ar_expires_at = now + seconds ttl_seconds,
      ar_approved_at = None, ar_denied_at = None, ar_created_at = now, ar_updated_at = now\<rparr>"

definition credit_reservation_callback ::
  "uuid \<Rightarrow> enforcement_decision \<Rightarrow> string \<Rightarrow> rat \<Rightarrow> rat \<Rightarrow> instant \<Rightarrow> enf_db \<Rightarrow> (dict list \<times> enf_db) res" where
  "credit_reservation_callback tenant_id d scope_key reserved emergency now db =
     (if \<not> ed_reservation_active d then Inr ([], db)
      else if ed_reserved_credit_usd d \<le> 0 then Inr ([], db)
      else reserve_credit_for_decision db tenant_id (ed_id d) scope_key reserved emergency now)"

definition with_allocations :: "dict list \<Rightarrow> enforcement_decision \<Rightarrow> enforcement_decision" where
  "with_allocations payload d =
     (if payload = [] then d else d\<lparr>ed_response_payload := dict_merge (ed_response_payload d)
        [(''credit_reservation_allocations'', JList (map JObj payload))]\<rparr>)"

definition wants_approval :: "enforcement_decision \<Rightarrow> bool \<Rightarrow> gate_context \<Rightarrow> bool" where
  "wants_approval d dry_run gc \<longleftrightarrow> ed_decision d = REQUIRE_APPROVAL \<and> \<not> dry_run \<and> gc_mode gc \<noteq> SHADOW"

text \<open>
  \<open>base\<close> is the committed database, \<open>db\<close> the session's view of it with what the transaction
  has flushed so far. Every error leaves the committed database. This is the second half of the
  transaction: the approval request and the ledger entry.
\<close>

definition record_decision ::
  "(string \<Rightarrow> string) \<Rightarrow> enf_db \<Rightarrow> enf_db \<Rightarrow> enforcement_decision \<Rightarrow> bool \<Rightarrow> gate_context \<Rightarrow> uuid \<Rightarrow> instant
    \<Rightarrow> gate_evaluation_result outcome" where
  "record_decision sha base db d dry_run gc actor_id now =
     (let ttl = gc_ttl_seconds gc in
      if wants_approval d dry_run gc then
        (case resolve_approval_routing_trace (gc_policy gc) d of
           Inl e \<Rightarrow> (Inl e, base)
         | Inr trace \<Rightarrow>
             (let a = new_gate_approval (db_next_id db) (ed_tenant_id d) (ed_id d) actor_id trace now ttl in
              (Inr \<lparr>gr_decision = d, gr_approval = Some a, gr_approval_token = None, gr_ttl_seconds = ttl\<rparr>,
               append_decision_ledger_entry sha now d (Some a)
                 (db\<lparr>db_approvals := db_approvals db @ [a], db_next_id := Suc (db_next_id db)\<rparr>))))
      else
        (Inr \<lparr>gr_decision = d, gr_approval = None, gr_approval_token = None, gr_ttl_seconds = ttl\<rparr>,
         append_decision_ledger_entry sha now d None db))"

text \<open>
  The insert of the decision row hits the unique constraint on (tenant, source, idempotency key)
  when such a row exists: the transaction is rolled back and the existing decision returned.
\<close>

definition insert_decision :: "enforcement_decision \<Rightarrow> enf_db \<Rightarrow> enf_db" where
  "insert_decision d db = db\<lparr>db_decisions := db_decisions db @ [d], db_next_id := Suc (db_next_id db)\<rparr>"

definition run_reserve ::
  "(enf_db \<Rightarrow> (dict list \<times> enf_db) res) option \<Rightarrow> enf_db \<Rightarrow> (dict list \<times> enf_db) res" where
  "run_reserve reserve db = (case reserve of None \<Rightarrow> Inr ([], db) | Some f \<Rightarrow> f db)"

definition persist_decision_with_optional_approval ::
  "(string \<Rightarrow> string) \<Rightarrow> enf_db \<Rightarrow> enf_db \<Rightarrow> enforcement_decision \<Rightarrow> bool \<Rightarrow> gate_context \<Rightarrow> uuid \<Rightarrow> instant
    \<Rightarrow> (enf_db \<Rightarrow> (dict list \<times> enf_db) res) option \<Rightarrow> gate_evaluation_result outcome" where
  "persist_decision_with_optional_approval sha base db d dry_run gc actor_id now reserve =
     (let lookup = (\<lambda>x. get_existing_gate_result x (ed_tenant_id d) (ed_source d) (ed_idempotency_key d)
            (gc_ttl_seconds gc)) in
      case lookup db of
        Some _ \<Rightarrow> (case lookup base of Some r \<Rightarrow> (Inr r, base) | None \<Rightarrow> (Inl IntegrityError, base))
      | None \<Rightarrow>
          (case run_reserve reserve (insert_decision d db) of
             Inl e \<Rightarrow> (Inl e, base)
           | Inr (payload, db2) \<Rightarrow>
               record_decision sha base (write_decision (with_allocations payload d) db2)
                 (with_allocations payload d) dry_run gc actor_id now))"

subsection \<open>The evaluation\<close>

definition gate_open ::
  "(dict \<Rightarrow> policy_document option) \<Rightarrow> (string \<Rightarrow> string) \<Rightarrow> enf_db \<Rightarrow> uuid \<Rightarrow> enforcement_source \<Rightarrow> gate_input
    \<Rightarrow> (gate_context \<times> gate_evaluation_result option \<times> enf_db) res" where
  "gate_open vd sha db tenant_id source gi =
     (case get_or_create_policy vd sha db tenant_id of
        (Inl e, _) \<Rightarrow> Inl e
      | (Inr p, db1) \<Rightarrow>
          (let gc = build_gate_evaluation_context sha p source gi in
           Inr (gc, get_existing_gate_result db tenant_id source (gc_idempotency_key gc) (gc_ttl_seconds gc), db1)))"

definition gate_decide ::
  "(string \<Rightarrow> string) \<Rightarrow> gate_env \<Rightarrow> enf_db \<Rightarrow> enf_db \<Rightarrow> gate_context \<Rightarrow> uuid \<Rightarrow> uuid \<Rightarrow> enforcement_source
    \<Rightarrow> gate_input \<Rightarrow> gate_evaluation_result outcome" where
  "gate_decide sha env base db gc tenant_id actor_id source gi =
     (case get_existing_gate_result db tenant_id source (gc_idempotency_key gc) (gc_ttl_seconds gc) of
        Some r \<Rightarrow> (Inr r, base)
      | None \<Rightarrow>
          (let p = gc_policy gc; now = ge_now env;
               f = gate_figures_of env db p tenant_id (gi_project_id gi);
               is_prod = is_production_environment (gc_environment gc);
               c = build_decision_computed_context (ge_costs env) tenant_id (ep_policy_version p) gi now is_prod;
               v = gate_verdict_of p (gc_mode gc) gi is_prod f c;
               d = decision_row_of tenant_id actor_id source gi gc c v
                     (build_gate_response_payload gc is_prod f (ge_tier env) v c)
                     (gf_allocation_headroom f) (Some (gf_credits_available f)) now (db_next_id db) in
           persist_decision_with_optional_approval sha base db d (gi_dry_run gi) gc actor_id now
             (Some (credit_reservation_callback tenant_id d (gi_project_id gi)
                (gv_reserved_credit v) (gv_emergency_credit v) now))))"

definition evaluate_gate ::
  "(dict \<Rightarrow> policy_document option) \<Rightarrow> (string \<Rightarrow> string) \<Rightarrow> gate_env \<Rightarrow> enf_db \<Rightarrow> uuid \<Rightarrow> uuid
    \<Rightarrow> enforcement_source \<Rightarrow> gate_input \<Rightarrow> gate_evaluation_result outcome" where
  "evaluate_gate vd sha env db tenant_id actor_id source gi =
     (case gate_open vd sha db tenant_id source gi of
        Inl e \<Rightarrow> (Inl e, db)
      | Inr (gc, Some r, _) \<Rightarrow> (Inr r, db)
      | Inr (gc, None, db1) \<Rightarrow>
          (case acquire_gate_evaluation_lock db1 (gc_policy gc) (ge_lock env) of
             Inl e \<Rightarrow> (Inl e, db)
           | Inr _ \<Rightarrow> gate_decide sha env db db1 gc tenant_id actor_id source gi))"

subsection \<open>The fail-safe gate\<close>

definition sanitize_failure_metadata :: "dict \<Rightarrow> json" where
  "sanitize_failure_metadata metadata =
     (let kept = filter (\<lambda>(k, _). strip k \<noteq> '''') metadata in if kept = [] then JNull else JObj kept)"

definition build_fail_safe_reasons :: "enforcement_mode \<Rightarrow> string \<Rightarrow> bool \<Rightarrow> string \<times> string list" where
  "build_fail_safe_reasons mode failure_reason_code dry_run =
     (let given = lower (strip failure_reason_code);
          normalized = (if given = '''' then ''gate_evaluation_error'' else given);
          mode_reason = (case mode of SHADOW \<Rightarrow> ''shadow_mode_fail_open''
            | SOFT \<Rightarrow> ''soft_mode_fail_safe_escalation'' | HARD \<Rightarrow> ''hard_mode_fail_closed'')
      in (normalized, [normalized, mode_reason] @ (if dry_run then [''dry_run''] else [])))"

definition resolve_fail_safe_gate ::
  "(dict \<Rightarrow> policy_document option) \<Rightarrow> (string \<Rightarrow> string) \<Rightarrow> gate_env \<Rightarrow> enf_db \<Rightarrow> uuid \<Rightarrow> uuid
    \<Rightarrow> enforcement_source \<Rightarrow> gate_input \<Rightarrow> string \<Rightarrow> dict \<Rightarrow> gate_evaluation_result outcome" where
  "resolve_fail_safe_gate vd sha env db tenant_id actor_id source gi failure_reason_code failure_metadata =
     (case gate_open vd sha db tenant_id source gi of
        Inl e \<Rightarrow> (Inl e, db)
      | Inr (gc, Some r, _) \<Rightarrow> (Inr r, db)
      | Inr (gc, None, db1) \<Rightarrow>
          (let (normalized_reason, reasons) =
                 build_fail_safe_reasons (gc_mode gc) failure_reason_code (gi_dry_run gi);
               is_prod = is_production_environment (gc_environment gc);
               c = build_decision_computed_context (ge_costs env) tenant_id
                     (ep_policy_version (gc_policy gc)) gi (ge_now env) is_prod;
               v = no_reservation (mode_violation_decision (gc_mode gc)) reasons;
               d = decision_row_of tenant_id actor_id source gi gc c v
                     (build_fail_safe_response_payload gc is_prod normalized_reason
                        (sanitize_failure_metadata failure_metadata) c)
                     None None (ge_now env) (db_next_id db1) in
           persist_decision_with_optional_approval sha db db1 d (gi_dry_run gi) gc actor_id (ge_now env) None))"

end
