(* ===== verification/Enf_Gate_Facts.thy ===== *)
theory Enf_Gate_Facts
  imports Enf_Gate
begin

text \<open>
  What a gate evaluation guarantees: the bounds of its verdict, the shape of what it persists, and
  the theorems about idempotency, ceilings, dry runs and the fail-safe gate.
\<close>

subsection \<open>The verdict\<close>

definition verdict_within :: "gate_figures \<Rightarrow> gate_verdict \<Rightarrow> bool" where
  "verdict_within f v \<longleftrightarrow>
     money (gv_allocation v) \<and> money (gv_reserved_credit v) \<and> money (gv_emergency_credit v)
     \<and> gv_credit v = gv_reserved_credit v + gv_emergency_credit v
     \<and> gv_reserved_credit v \<le> normalized_headroom (gf_reserved_credit_headroom f)
     \<and> gv_emergency_credit v \<le> normalized_headroom (gf_emergency_credit_headroom f)
     \<and> opt_all (\<lambda>h. gv_allocation v \<le> normalized_headroom h) (gf_allocation_headroom f)
     \<and> opt_all (\<lambda>h. gv_allocation v + gv_credit v \<le> normalized_headroom h) (gf_plan_headroom f)
     \<and> opt_all (\<lambda>h. gv_allocation v + gv_credit v \<le> normalized_headroom h) (gf_enterprise_headroom f)"

lemma verdict_within_zero:
  "gv_allocation v = 0 \<Longrightarrow> gv_reserved_credit v = 0 \<Longrightarrow> gv_emergency_credit v = 0 \<Longrightarrow> gv_credit v = 0
    \<Longrightarrow> verdict_within f v"
  by (simp add: verdict_within_def opt_all_def split: option.splits)

lemma verdict_within_cong:
  "verdict_within f v \<Longrightarrow> gv_allocation v' = gv_allocation v \<Longrightarrow> gv_reserved_credit v' = gv_reserved_credit v
    \<Longrightarrow> gv_emergency_credit v' = gv_emergency_credit v \<Longrightarrow> gv_credit v' = gv_credit v \<Longrightarrow> verdict_within f v'"
  by (cases v; cases v') (simp add: verdict_within_def)

lemma entitlement_verdict_within:
  assumes "0 \<le> m"
  shows "verdict_within f (entitlement_verdict mode m f reasons)"
proof -
  let ?r = "evaluate_entitlement_waterfall mode m (gf_plan_headroom f) (gf_allocation_headroom f)
      (gf_reserved_credit_headroom f) (gf_emergency_credit_headroom f) (gf_enterprise_headroom f)"
  from waterfall_bounds [OF assms reserves_def [of ?r]]
  show ?thesis
    by (auto simp: verdict_within_def entitlement_verdict_def Let_def er_reserve_credit_usd_def opt_all_def
        money_grid add.assoc split: option.splits)
qed

lemma policy_verdict_within: "0 \<le> m \<Longrightarrow> verdict_within f (policy_verdict p mode m f c)"
  by (auto simp: policy_verdict_def Let_def entitlement_verdict_within no_reservation_def
      intro!: verdict_within_zero)

lemma gate_verdict_within:
  assumes "0 \<le> gi_estimated_monthly_delta_usd gi"
  shows "verdict_within f (gate_verdict_of p mode gi is_prod f c)"
proof -
  let ?v = "policy_verdict p mode (quantize 4 (gi_estimated_monthly_delta_usd gi)) f c"
  have 1: "verdict_within f ?v" using assms by (simp add: policy_verdict_within)
  have 2: "verdict_within f (approval_verdict mode b ?v)" for b
    by (rule verdict_within_cong [OF 1]) (auto simp: approval_verdict_def)
  have 3: "verdict_within f (reservation_verdict mode dry (approval_verdict mode b ?v))" for b dry
  proof (cases dry)
    case True
    then show ?thesis by (auto simp: reservation_verdict_def intro!: verdict_within_zero)
  next
    case False
    show ?thesis
      by (rule verdict_within_cong [OF 2 [of b]]) (use False in \<open>auto simp: reservation_verdict_def\<close>)
  qed
  then show ?thesis by (simp add: gate_verdict_of_def Let_def)
qed

lemma entitlement_inactive: "\<not> gv_active (policy_verdict p mode m f c)"
  by (simp add: policy_verdict_def no_reservation_def entitlement_verdict_def Let_def)

lemma gate_verdict_active:
  fixes v
  assumes v: "v = gate_verdict_of p mode gi is_prod f c"
  shows "gv_active v \<longleftrightarrow> \<not> gi_dry_run gi \<and> gv_decision v \<noteq> DENY \<and> mode \<noteq> SHADOW
    \<and> 0 < gv_allocation v + gv_credit v"
  using entitlement_inactive [of p mode "quantize 4 (gi_estimated_monthly_delta_usd gi)" f c]
  unfolding v by (auto simp: gate_verdict_of_def reservation_verdict_def approval_verdict_def Let_def)

subsection \<open>What is persisted\<close>

definition gate_key :: "enforcement_decision \<Rightarrow> uuid \<times> enforcement_source \<times> string" where
  "gate_key d = (ed_tenant_id d, ed_source d, ed_idempotency_key d)"

text \<open>A committed evaluation: what the new database holds beyond the reservation \<open>db2\<close>.\<close>

definition commits ::
  "(string \<Rightarrow> string) \<Rightarrow> enf_db \<Rightarrow> enforcement_decision \<Rightarrow> bool \<Rightarrow> gate_context \<Rightarrow> uuid \<Rightarrow> instant
    \<Rightarrow> gate_evaluation_result \<Rightarrow> enf_db \<Rightarrow> bool" where
  "commits sha db2 d dry_run gc actor_id now r db' \<longleftrightarrow>
     (\<exists>response. gr_decision r = d\<lparr>ed_response_payload := response\<rparr>)
     \<and> gr_ttl_seconds r = gc_ttl_seconds gc \<and> gr_approval_token r = None
     \<and> db_decisions db' = update_where (\<lambda>x. ed_id x = ed_id d) (\<lambda>_. gr_decision r) (db_decisions db2)
     \<and> db_grants db' = db_grants db2 \<and> db_allocations db' = db_allocations db2
     \<and> db_policies db' = db_policies db2 \<and> db_actions db' = db_actions db2 \<and> db_budgets db' = db_budgets db2
     \<and> db_next_id db2 \<le> db_next_id db'
     \<and> (\<exists>i. db_ledger db' = db_ledger db2 @ [ledger_entry sha i now (gr_decision r) (gr_approval r)])
     \<and> (if wants_approval d dry_run gc
        then \<exists>trace. resolve_approval_routing_trace (gc_policy gc) (gr_decision r) = Inr trace
          \<and> gr_approval r = Some (new_gate_approval (db_next_id db2) (ed_tenant_id d) (ed_id d) actor_id
               trace now (gc_ttl_seconds gc))
          \<and> db_approvals db' = db_approvals db2 @ [the (gr_approval r)]
          \<and> Suc (db_next_id db2) \<le> db_next_id db'
        else gr_approval r = None \<and> db_approvals db' = db_approvals db2)"

lemma with_allocations_response: "\<exists>response. with_allocations payload d = d\<lparr>ed_response_payload := response\<rparr>"
  unfolding with_allocations_def by (auto intro: exI [of _ "ed_response_payload d"])

lemma with_allocations_keeps [simp]:
  "ed_id (with_allocations payload d) = ed_id d" "ed_tenant_id (with_allocations payload d) = ed_tenant_id d"
  "wants_approval (with_allocations payload d) dry_run gc = wants_approval d dry_run gc"
  by (simp_all add: with_allocations_def wants_approval_def)

lemma record_decision_commits:
  assumes "record_decision sha base (write_decision d2 db2) d2 dry_run gc actor_id now = (Inr r, db')"
    and d2: "d2 = with_allocations payload d"
  shows "commits sha db2 d dry_run gc actor_id now r db'"
proof (cases "wants_approval d dry_run gc")
  case True
  with assms obtain trace where "resolve_approval_routing_trace (gc_policy gc) d2 = Inr trace"
    by (auto simp: record_decision_def Let_def split: sum.splits)
  with True assms with_allocations_response [of payload d] show ?thesis
    by (auto simp: commits_def record_decision_def Let_def write_decision_def)
next
  case False
  with assms with_allocations_response [of payload d] show ?thesis
    by (auto simp: commits_def record_decision_def Let_def write_decision_def)
qed

lemma record_decision_base:
  "record_decision sha base db d dry_run gc actor_id now = (Inl e, db') \<Longrightarrow> db' = base"
  by (auto simp: record_decision_def Let_def split: if_splits sum.splits)

abbreviation existing :: "enf_db \<Rightarrow> enforcement_decision \<Rightarrow> int \<Rightarrow> gate_evaluation_result option" where
  "existing db d ttl \<equiv> get_existing_gate_result db (ed_tenant_id d) (ed_source d) (ed_idempotency_key d) ttl"

lemma persist_cases:
  assumes "persist_decision_with_optional_approval sha base db d dry_run gc actor_id now reserve = (out, db')"
  obtains (existing) r where "existing db d (gc_ttl_seconds gc) \<noteq> None"
      "existing base d (gc_ttl_seconds gc) = Some r" "out = Inr r" "db' = base"
    | (failed) e where "out = Inl e" "db' = base"
    | (new) r payload db2 where "existing db d (gc_ttl_seconds gc) = None"
      "run_reserve reserve (insert_decision d db) = Inr (payload, db2)"
      "out = Inr r" "commits sha db2 d dry_run gc actor_id now r db'"
proof (cases "existing db d (gc_ttl_seconds gc)")
  case (Some r0)
  with assms existing failed show ?thesis
    by (auto simp: persist_decision_with_optional_approval_def Let_def split: option.splits)
next
  case None
  show ?thesis
  proof (cases "run_reserve reserve (insert_decision d db)")
    case (Inl e)
    with None assms failed show ?thesis by (auto simp: persist_decision_with_optional_approval_def Let_def)
  next
    case (Inr pd)
    obtain payload db2 where pd: "pd = (payload, db2)" by force
    have run: "record_decision sha base (write_decision (with_allocations payload d) db2)
        (with_allocations payload d) dry_run gc actor_id now = (out, db')"
      using assms None Inr pd by (simp add: persist_decision_with_optional_approval_def Let_def)
    show ?thesis
    proof (cases out)
      case (Inl e)
      with run record_decision_base failed show ?thesis by blast
    next
      case out: (Inr r)
      with run record_decision_commits [OF _ refl] None Inr pd new show ?thesis by blast
    qed
  qed
qed


subsection \<open>The invariant of the enforcement tables\<close>

text \<open>
  Keys are unique, amounts are money, every active decision's reserved credit is covered by its open
  allocations, and only active decisions have open allocations.
\<close>

definition decision_ok :: "enf_db \<Rightarrow> enforcement_decision \<Rightarrow> bool" where
  "decision_ok db d \<longleftrightarrow> ed_id d < db_next_id db
     \<and> money (ed_reserved_allocation_usd d) \<and> money (ed_reserved_credit_usd d)
     \<and> (ed_reservation_active d \<longrightarrow> covered db (ed_tenant_id d) d)"

definition owner_key :: "enforcement_decision \<Rightarrow> uuid \<times> uuid" where
  "owner_key d = (ed_id d, ed_tenant_id d)"

definition allocation_owned :: "enf_db \<Rightarrow> credit_allocation \<Rightarrow> bool" where
  "allocation_owned db a \<longleftrightarrow> (\<exists>d \<in> set (db_decisions db).
     owner_key d = (ca_decision_id a, ca_tenant_id a) \<and> (ca_active a \<longrightarrow> ed_reservation_active d))"

definition approval_owned :: "enf_db \<Rightarrow> approval_request \<Rightarrow> bool" where
  "approval_owned db a \<longleftrightarrow> ar_id a < db_next_id db
     \<and> (ar_decision_id a, ar_tenant_id a) \<in> owner_key ` set (db_decisions db)"

definition enf_inv :: "enf_db \<Rightarrow> bool" where
  "enf_inv db \<longleftrightarrow> credit_wf db
     \<and> distinct (map ed_id (db_decisions db)) \<and> distinct (map gate_key (db_decisions db))
     \<and> distinct (map ar_id (db_approvals db)) \<and> distinct (map ar_decision_id (db_approvals db))
     \<and> (\<forall>d \<in> set (db_decisions db). decision_ok db d)
     \<and> (\<forall>a \<in> set (db_allocations db). allocation_owned db a)
     \<and> (\<forall>a \<in> set (db_approvals db). approval_owned db a)"

lemma enf_invD:
  assumes "enf_inv db"
  shows "credit_wf db" "distinct (map ed_id (db_decisions db))" "distinct (map gate_key (db_decisions db))"
    "distinct (map ar_id (db_approvals db))" "distinct (map ar_decision_id (db_approvals db))"
    "d \<in> set (db_decisions db) \<Longrightarrow> decision_ok db d"
    "a \<in> set (db_allocations db) \<Longrightarrow> allocation_owned db a"
    "x \<in> set (db_approvals db) \<Longrightarrow> approval_owned db x"
  using assms by (simp_all add: enf_inv_def)

lemma credit_wf_cong:
  assumes "credit_wf db" "db_grants db' = db_grants db" "db_allocations db' = db_allocations db"
    "db_next_id db \<le> db_next_id db'"
  shows "credit_wf db'"
  using assms by (fastforce simp: credit_wf_def)

lemma covered_cong: "db_allocations db' = db_allocations db \<Longrightarrow> covered db' t d = covered db t d"
  by (simp add: covered_def open_allocations_def)

lemma covered_decision_cong:
  "ed_id d' = ed_id d \<Longrightarrow> ed_reserved_credit_usd d' = ed_reserved_credit_usd d \<Longrightarrow> covered db t d' = covered db t d"
  by (simp add: covered_def)

text \<open>Changes that leave the tables of the invariant alone, up to fresh identifiers.\<close>

lemma enf_inv_frame:
  assumes "enf_inv db" "db_grants db' = db_grants db" "db_allocations db' = db_allocations db"
    "db_decisions db' = db_decisions db" "db_approvals db' = db_approvals db" "db_next_id db \<le> db_next_id db'"
  shows "enf_inv db'"
proof -
  have "decision_ok db' d" if "decision_ok db d" for d
    using that assms(3,6) covered_cong [OF assms(3)] by (auto simp: decision_ok_def)
  moreover have "allocation_owned db' a = allocation_owned db a" for a
    using assms(4) by (simp add: allocation_owned_def)
  moreover have "approval_owned db' a" if "approval_owned db a" for a
    using that assms(4,6) by (auto simp: approval_owned_def)
  ultimately show ?thesis
    using assms credit_wf_cong [OF _ assms(2,3,6)] by (simp add: enf_inv_def)
qed

lemma empty_db_inv: "enf_inv empty_db"
  by (simp add: enf_inv_def empty_db_def credit_wf_def)

lemma get_or_create_policy_frame:
  assumes "get_or_create_policy vd sha db t = (Inr p, db1)"
  shows "db_grants db1 = db_grants db" "db_allocations db1 = db_allocations db"
    "db_decisions db1 = db_decisions db" "db_approvals db1 = db_approvals db"
    "db_next_id db \<le> db_next_id db1" "db_ledger db1 = db_ledger db" "db_budgets db1 = db_budgets db"
    "db_actions db1 = db_actions db"
proof -
  obtain p0 db0 where l: "load_policy db t = (p0, db0)" by force
  have f: "db_grants db0 = db_grants db \<and> db_allocations db0 = db_allocations db
      \<and> db_decisions db0 = db_decisions db \<and> db_approvals db0 = db_approvals db
      \<and> db_next_id db \<le> db_next_id db0 \<and> db_ledger db0 = db_ledger db \<and> db_budgets db0 = db_budgets db
      \<and> db_actions db0 = db_actions db"
    using l by (auto simp: load_policy_def Let_def split: option.splits)
  have "db1 = db0 \<or> (\<exists>p'. db1 = write_policy p' db0)"
    using assms l by (auto simp: get_or_create_policy_def Let_def split: if_splits sum.splits)
  with f show "db_grants db1 = db_grants db" "db_allocations db1 = db_allocations db"
    "db_decisions db1 = db_decisions db" "db_approvals db1 = db_approvals db"
    "db_next_id db \<le> db_next_id db1" "db_ledger db1 = db_ledger db" "db_budgets db1 = db_budgets db"
    "db_actions db1 = db_actions db"
    by (auto simp: write_policy_def)
qed


lemma existing_None_key:
  assumes "existing db d ttl = None"
  shows "gate_key d \<notin> gate_key ` set (db_decisions db)"
  using assms
  by (auto simp: get_existing_gate_result_def get_decision_by_idempotency_def first_row_None gate_key_def)

lemma commits_decisions:
  assumes "commits sha db2 d dry_run gc actor_id now r db'" "db_decisions db2 = db_decisions db @ [d]"
    and "enf_inv db" "ed_id d = db_next_id db"
  shows "db_decisions db' = db_decisions db @ [gr_decision r]"
proof -
  have "update_where (\<lambda>x. ed_id x = ed_id d) (\<lambda>_. gr_decision r) (db_decisions db) = db_decisions db"
    using enf_invD(6) [OF assms(3)] assms(4) by (intro update_where_none) (fastforce simp: decision_ok_def)
  with assms(1,2) show ?thesis by (simp add: commits_def update_where_def)
qed

lemma open_allocations_append_other:
  assumes "db_allocations db' = db_allocations db @ new" "list_all (open_row t did now) new" "did' \<noteq> did"
  shows "open_allocations db' t' did' = open_allocations db t' did'"
proof -
  have "filter (\<lambda>a. ca_tenant_id a = t' \<and> ca_decision_id a = did' \<and> ca_active a) new = []"
    using assms(2,3) by (auto simp: list_all_iff open_row_def filter_empty_conv)
  with assms(1) show ?thesis by (simp add: open_allocations_def)
qed

text \<open>What the reservation of a new decision must deliver for the commit to keep the invariant.\<close>

definition reserved_for :: "enforcement_decision \<Rightarrow> instant \<Rightarrow> enf_db \<Rightarrow> enf_db \<Rightarrow> bool" where
  "reserved_for d now db1 db2 \<longleftrightarrow> credit_wf db2 \<and>
     (\<exists>charges. reserves_credit (ed_tenant_id d) (ed_id d) now charges db1 db2
        \<and> (if ed_reservation_active d then charge_total charges = ed_reserved_credit_usd d
           else charges = [] \<and> db2 = db1))"

lemma reserved_forE:
  assumes "reserved_for d now (insert_decision d db) db2" "enf_inv db" "ed_id d = db_next_id db"
  obtains new where "db_allocations db2 = db_allocations db @ new"
    "list_all (open_row (ed_tenant_id d) (ed_id d) now) new" "ed_reservation_active d \<or> new = []"
    "db_decisions db2 = db_decisions db @ [d]" "db_approvals db2 = db_approvals db"
    "db_ledger db2 = db_ledger db" "db_next_id db < db_next_id db2" "credit_wf db2"
    "ed_reservation_active d \<Longrightarrow> money (ed_reserved_credit_usd d) \<Longrightarrow> covered db2 (ed_tenant_id d) d"
proof -
  from assms(1) obtain charges where r: "reserves_credit (ed_tenant_id d) (ed_id d) now charges (insert_decision d db) db2"
    "if ed_reservation_active d then charge_total charges = ed_reserved_credit_usd d else charges = []" "credit_wf db2"
    by (auto simp: reserved_for_def)
  from r(1) obtain new where new: "db_allocations db2 = db_allocations db @ new" "map charge_of new = charges"
    "list_all (open_row (ed_tenant_id d) (ed_id d) now) new"
    by (auto simp: reserves_credit_def insert_decision_def)
  have frame: "db2 = (insert_decision d db)\<lparr>db_grants := db_grants db2, db_allocations := db_allocations db2,
      db_next_id := db_next_id db2\<rparr>"
    using r(1) by (simp add: reserves_credit_def)
  have fresh: "ca_decision_id a \<noteq> ed_id d" if "a \<in> set (db_allocations (insert_decision d db))" for a
    using that enf_invD(6,7) [OF assms(2)] assms(3)
    by (fastforce simp: insert_decision_def allocation_owned_def owner_key_def decision_ok_def)
  have later: "db_next_id db < db_next_id db2"
    using r(1) by (simp add: reserves_credit_def insert_decision_def)
  have "covered db2 (ed_tenant_id d) d" if "ed_reservation_active d" "money (ed_reserved_credit_usd d)"
    using reserve_covers [OF r(1)] fresh r(2) that by auto
  moreover have "db_decisions db2 = db_decisions (insert_decision d db)" "db_approvals db2 = db_approvals (insert_decision d db)"
    "db_ledger db2 = db_ledger (insert_decision d db)"
    by (subst frame, simp)+
  ultimately show ?thesis
    using that new r(2,3) later by (auto simp: insert_decision_def split: if_splits)
qed


lemma commit_inv:
  assumes inv: "enf_inv db" and fresh: "existing db d ttl = None" "ed_id d = db_next_id db"
    and m: "money (ed_reserved_allocation_usd d)" "money (ed_reserved_credit_usd d)"
    and res: "reserved_for d now (insert_decision d db) db2"
    and com: "commits sha db2 d dry_run gc actor_id now r db'"
  shows "enf_inv db'"
proof -
  obtain new where new: "db_allocations db2 = db_allocations db @ new"
    "list_all (open_row (ed_tenant_id d) (ed_id d) now) new" "ed_reservation_active d \<or> new = []"
    "db_decisions db2 = db_decisions db @ [d]" "db_approvals db2 = db_approvals db"
    "db_next_id db < db_next_id db2" "credit_wf db2"
    "ed_reservation_active d \<Longrightarrow> money (ed_reserved_credit_usd d) \<Longrightarrow> covered db2 (ed_tenant_id d) d"
    by (rule reserved_forE [OF res inv fresh(2)]) blast
  let ?d = "gr_decision r"
  obtain response where d: "?d = d\<lparr>ed_response_payload := response\<rparr>"
    and c: "db_grants db' = db_grants db2" "db_allocations db' = db_allocations db2" "db_next_id db2 \<le> db_next_id db'"
    using com by (auto simp: commits_def)
  have dec: "db_decisions db' = db_decisions db @ [?d]" by (rule commits_decisions [OF com new(4) inv fresh(2)])
  have old_ids: "ed_id x < db_next_id db" if "x \<in> set (db_decisions db)" for x
    using enf_invD(6) [OF inv that] by (simp add: decision_ok_def)
  have wf: "credit_wf db'" by (rule credit_wf_cong [OF new(7) c])
  have decisions: "decision_ok db' x" if "x \<in> set (db_decisions db')" for x
  proof (cases "x = ?d")
    case True
    have "covered db' (ed_tenant_id d) ?d = covered db2 (ed_tenant_id d) d"
      using c(2) by (simp add: covered_def open_allocations_def d)
    with True show ?thesis using m fresh(2) new(6,8) c(3) by (simp add: decision_ok_def d)
  next
    case False
    with that dec have x: "x \<in> set (db_decisions db)" by simp
    then have "ed_id x \<noteq> ed_id d" using old_ids [of x] fresh(2) by simp
    then have "open_allocations db' t (ed_id x) = open_allocations db t (ed_id x)" for t
      using open_allocations_append_other [OF _ new(2)] new(1) c(2) by simp
    then show ?thesis using enf_invD(6) [OF inv x] new(6) c(3) by (auto simp: decision_ok_def covered_def)
  qed
  have allocations: "allocation_owned db' a" if "a \<in> set (db_allocations db')" for a
  proof (cases "a \<in> set (db_allocations db)")
    case True
    then show ?thesis using enf_invD(7) [OF inv True] dec by (auto simp: allocation_owned_def)
  next
    case False
    with that new(1) c(2) have "a \<in> set new" by simp
    then show ?thesis using new(2,3) dec
      by (auto simp: allocation_owned_def list_all_iff open_row_def owner_key_def d)
  qed
  have "distinct (map ar_id (db_approvals db')) \<and> distinct (map ar_decision_id (db_approvals db'))
      \<and> (\<forall>a \<in> set (db_approvals db'). approval_owned db' a)"
  proof -
    have old: "approval_owned db' a \<and> ar_id a < db_next_id db2 \<and> ar_decision_id a \<noteq> ed_id d"
      if "a \<in> set (db_approvals db)" for a
      using enf_invD(8) [OF inv that] dec new(6) c(3) old_ids fresh(2)
      by (fastforce simp: approval_owned_def owner_key_def)
    show ?thesis
    proof (cases "wants_approval d dry_run gc")
      case True
      then obtain a where "db_approvals db' = db_approvals db @ [a]" "ar_id a = db_next_id db2"
        "ar_decision_id a = ed_id d" "ar_tenant_id a = ed_tenant_id d" "db_next_id db2 < db_next_id db'"
        using com new(5) by (auto simp: commits_def new_gate_approval_def)
      moreover from this(1-4) dec have "(ar_decision_id a, ar_tenant_id a) \<in> owner_key ` set (db_decisions db')"
        by (auto simp: owner_key_def d image_iff)
      ultimately show ?thesis using old enf_invD(4,5) [OF inv] by (fastforce simp: approval_owned_def)
    next
      case False
      then have "db_approvals db' = db_approvals db" using com new(5) by (simp add: commits_def)
      with old enf_invD(4,5) [OF inv] show ?thesis by simp
    qed
  qed
  moreover have "gate_key ?d = gate_key d" by (simp add: gate_key_def d)
  moreover have "ed_id ?d \<notin> ed_id ` set (db_decisions db)" using old_ids fresh(2) by (fastforce simp: d)
  ultimately show ?thesis
    using wf decisions allocations existing_None_key [OF fresh(1)] enf_invD(2,3) [OF inv] dec
    by (simp add: enf_inv_def)
qed


subsection \<open>Deciding\<close>

lemma callback_reserves:
  assumes inv: "enf_inv db" and within: "verdict_within (gate_figures_of env db p tenant_id project) v"
    and d: "ed_tenant_id d = tenant_id" "ed_reserved_credit_usd d = gv_credit v" "ed_reservation_active d = gv_active v"
    and now: "ge_now env = now"
  shows "\<exists>payload db2. credit_reservation_callback tenant_id d project (gv_reserved_credit v) (gv_emergency_credit v)
      now (insert_decision d db) = Inr (payload, db2) \<and> reserved_for d now (insert_decision d db) db2"
proof -
  let ?db1 = "insert_decision d db"
  have wf1: "credit_wf ?db1"
    by (rule credit_wf_cong [OF enf_invD(1) [OF inv]]) (simp_all add: insert_decision_def)
  have m: "money (gv_reserved_credit v)" "money (gv_emergency_credit v)"
    "gv_credit v = gv_reserved_credit v + gv_emergency_credit v"
    using within by (simp_all add: verdict_within_def)
  obtain h h' where h: "get_credit_headrooms db tenant_id project now = (h, h')" by force
  note cov = credit_headrooms_covered [OF enf_invD(1) [OF inv] h]
  have "gf_reserved_credit_headroom (gate_figures_of env db p tenant_id project) = h"
    "gf_emergency_credit_headroom (gate_figures_of env db p tenant_id project) = h'"
    using h now by (simp_all add: gate_figures_of_def Let_def case_prod_beta)
  moreover have "normalized_headroom h = h" "normalized_headroom h' = h'"
    using cov by (auto simp: normalized_headroom_def money_grid dest: money_nonneg)
  ultimately have le: "gv_reserved_credit v \<le> eligible_remaining ?db1 tenant_id RESERVED (scope_of project) now"
    "gv_emergency_credit v \<le> eligible_remaining ?db1 tenant_id EMERGENCY (scope_of project) now"
    using within cov by (auto simp: verdict_within_def eligible_remaining_def insert_decision_def)
  have idle: "reserved_for d now ?db1 ?db1" if "\<not> (gv_active v \<and> 0 < gv_credit v)"
    unfolding reserved_for_def
    using that wf1 d m(3) money_nonneg [OF m(1)] money_nonneg [OF m(2)]
    by (auto intro!: exI [of _ "[]"] reserves_credit_refl)
  show ?thesis
  proof (cases "gv_active v \<and> 0 < gv_credit v")
    case True
    obtain payload db2 where run: "reserve_credit_for_decision ?db1 tenant_id (ed_id d) project
        (gv_reserved_credit v) (gv_emergency_credit v) now = Inr (payload, db2)" "credit_wf db2"
      "reserves_credit tenant_id (ed_id d) now (decision_charges ?db1 tenant_id project now
        (gv_reserved_credit v) (gv_emergency_credit v)) ?db1 db2"
      by (rule reserve_credit_for_decision_ok [OF wf1 m(1,2) le]) blast
    moreover have "charge_total (decision_charges ?db1 tenant_id project now
        (gv_reserved_credit v) (gv_emergency_credit v)) = gv_credit v"
      using pool_charges_total [OF wf1 m(1) le(1)] pool_charges_total [OF wf1 m(2) le(2)] m(3)
      by (simp add: decision_charges_def)
    ultimately have "reserved_for d now ?db1 db2"
      using True d by (auto simp: reserved_for_def)
    with run True d show ?thesis by (simp add: credit_reservation_callback_def)
  next
    case False
    with idle d show ?thesis by (auto simp: credit_reservation_callback_def)
  qed
qed

text \<open>The verdict and the row of an evaluation that decides on \<open>db\<close>.\<close>

definition gate_verdict_on ::
  "gate_env \<Rightarrow> enf_db \<Rightarrow> gate_context \<Rightarrow> uuid \<Rightarrow> gate_input \<Rightarrow> gate_verdict" where
  "gate_verdict_on env db gc tenant_id gi =
     (let p = gc_policy gc; is_prod = is_production_environment (gc_environment gc) in
      gate_verdict_of p (gc_mode gc) gi is_prod (gate_figures_of env db p tenant_id (gi_project_id gi))
        (build_decision_computed_context (ge_costs env) tenant_id (ep_policy_version p) gi (ge_now env) is_prod))"

definition row_for ::
  "enforcement_decision \<Rightarrow> enf_db \<Rightarrow> gate_env \<Rightarrow> gate_context \<Rightarrow> uuid \<Rightarrow> enforcement_source \<Rightarrow> gate_verdict \<Rightarrow> bool" where
  "row_for d db env gc tenant_id source v \<longleftrightarrow>
     ed_id d = db_next_id db \<and> ed_tenant_id d = tenant_id \<and> ed_source d = source
     \<and> ed_idempotency_key d = gc_idempotency_key gc \<and> ed_created_at d = ge_now env
     \<and> ed_decision d = gv_decision v \<and> ed_reserved_allocation_usd d = gv_allocation v
     \<and> ed_reserved_credit_usd d = gv_credit v \<and> ed_reservation_active d = gv_active v"

lemma decision_row_of_row:
  "row_for (decision_row_of tenant_id actor_id source gi gc c v response x y (ge_now env) (db_next_id db))
     db env gc tenant_id source v"
  by (simp add: row_for_def decision_row_of_def Let_def)

lemma gate_decide_cases:
  assumes "gate_decide sha env base db gc tenant_id actor_id source gi = (out, db')"
    and inv: "enf_inv db" and delta: "0 \<le> gi_estimated_monthly_delta_usd gi"
  obtains (existing) r where
      "get_existing_gate_result db tenant_id source (gc_idempotency_key gc) (gc_ttl_seconds gc) = Some r"
      "out = Inr r" "db' = base"
    | (failed) d e where "resolve_approval_routing_trace (gc_policy gc) d = Inl e" "out = Inl e" "db' = base"
    | (new) d db2 r where
      "get_existing_gate_result db tenant_id source (gc_idempotency_key gc) (gc_ttl_seconds gc) = None"
      "row_for d db env gc tenant_id source (gate_verdict_on env db gc tenant_id gi)"
      "reserved_for d (ge_now env) (insert_decision d db) db2" "out = Inr r"
      "commits sha db2 d (gi_dry_run gi) gc actor_id (ge_now env) r db'"
proof (cases "get_existing_gate_result db tenant_id source (gc_idempotency_key gc) (gc_ttl_seconds gc)")
  case (Some r)
  with assms(1) existing show ?thesis by (auto simp: gate_decide_def)
next
  case None
  let ?f = "gate_figures_of env db (gc_policy gc) tenant_id (gi_project_id gi)"
  let ?v = "gate_verdict_on env db gc tenant_id gi"
  define d where "d = (let p = gc_policy gc; is_prod = is_production_environment (gc_environment gc);
      c = build_decision_computed_context (ge_costs env) tenant_id (ep_policy_version p) gi (ge_now env) is_prod in
    decision_row_of tenant_id actor_id source gi gc c ?v
      (build_gate_response_payload gc is_prod ?f (ge_tier env) ?v c)
      (gf_allocation_headroom ?f) (Some (gf_credits_available ?f)) (ge_now env) (db_next_id db))"
  have row: "row_for d db env gc tenant_id source ?v"
    unfolding d_def Let_def by (rule decision_row_of_row)
  have run: "persist_decision_with_optional_approval sha base db d (gi_dry_run gi) gc actor_id (ge_now env)
      (Some (credit_reservation_callback tenant_id d (gi_project_id gi) (gv_reserved_credit ?v)
         (gv_emergency_credit ?v) (ge_now env))) = (out, db')"
    using assms(1) None unfolding gate_decide_def d_def gate_verdict_on_def by (simp add: Let_def)
  have fresh: "existing db d (gc_ttl_seconds gc) = None" using None row by (simp add: row_for_def)
  have "verdict_within ?f ?v" unfolding gate_verdict_on_def Let_def by (rule gate_verdict_within [OF delta])
  from callback_reserves [OF inv this, of d "ge_now env"] row
  obtain payload db2 where res: "run_reserve (Some (credit_reservation_callback tenant_id d (gi_project_id gi)
      (gv_reserved_credit ?v) (gv_emergency_credit ?v) (ge_now env))) (insert_decision d db) = Inr (payload, db2)"
    "reserved_for d (ge_now env) (insert_decision d db) db2"
    by (auto simp: row_for_def run_reserve_def)
  have rec: "record_decision sha base (write_decision (with_allocations payload d) db2) (with_allocations payload d)
      (gi_dry_run gi) gc actor_id (ge_now env) = (out, db')"
    using run fresh res(1) by (simp add: persist_decision_with_optional_approval_def Let_def)
  show ?thesis
  proof (cases out)
    case (Inl e)
    with rec have "resolve_approval_routing_trace (gc_policy gc) (with_allocations payload d) = Inl e" "db' = base"
      by (auto simp: record_decision_def Let_def split: if_splits sum.splits)
    with Inl failed show ?thesis by blast
  next
    case (Inr r)
    with rec record_decision_commits [OF _ refl] None row res(2) new show ?thesis by blast
  qed
qed

lemma row_for_money:
  assumes "row_for d db env gc tenant_id source (gate_verdict_on env db gc tenant_id gi)"
    "0 \<le> gi_estimated_monthly_delta_usd gi"
  shows "money (ed_reserved_allocation_usd d)" "money (ed_reserved_credit_usd d)"
  using gate_verdict_within [OF assms(2)] assms(1)
  by (auto simp: row_for_def gate_verdict_on_def Let_def verdict_within_def)


lemma gate_decide_inv:
  assumes "enf_inv db" "enf_inv base" "0 \<le> gi_estimated_monthly_delta_usd gi"
  shows "enf_inv (snd (gate_decide sha env base db gc tenant_id actor_id source gi))"
proof -
  obtain out db' where run: "gate_decide sha env base db gc tenant_id actor_id source gi = (out, db')" by force
  from run assms(1,3) show ?thesis
  proof (cases rule: gate_decide_cases)
    case (new d db2 r)
    have "existing db d (gc_ttl_seconds gc) = None" "ed_id d = db_next_id db"
      using new(1,2) by (simp_all add: row_for_def)
    from commit_inv [OF assms(1) this row_for_money [OF new(2) assms(3)] new(3,5)] run show ?thesis by simp
  qed (use run assms(2) in simp_all)
qed

lemma gate_open_facts:
  assumes "gate_open vd sha db tenant_id source gi = Inr (gc, old, db1)"
  shows "get_or_create_policy vd sha db tenant_id = (Inr (gc_policy gc), db1)"
    "gc = build_gate_evaluation_context sha (gc_policy gc) source gi"
    "old = get_existing_gate_result db tenant_id source (gc_idempotency_key gc) (gc_ttl_seconds gc)"
proof -
  from assms obtain p where g: "get_or_create_policy vd sha db tenant_id = (Inr p, db1)"
    "gc = build_gate_evaluation_context sha p source gi"
    "old = get_existing_gate_result db tenant_id source (gc_idempotency_key gc) (gc_ttl_seconds gc)"
    by (auto simp: gate_open_def Let_def split: sum.splits prod.splits)
  moreover have "gc_policy gc = p"
    unfolding g(2) by (simp add: build_gate_evaluation_context_def Let_def split: prod.splits)
  ultimately show "get_or_create_policy vd sha db tenant_id = (Inr (gc_policy gc), db1)"
    "gc = build_gate_evaluation_context sha (gc_policy gc) source gi"
    "old = get_existing_gate_result db tenant_id source (gc_idempotency_key gc) (gc_ttl_seconds gc)"
    by simp_all
qed

lemma gate_open_inv:
  assumes "gate_open vd sha db tenant_id source gi = Inr (gc, old, db1)" "enf_inv db"
  shows "enf_inv db1"
  using enf_inv_frame [OF assms(2)] get_or_create_policy_frame [OF gate_open_facts(1) [OF assms(1)]] by blast

lemma evaluate_gate_inv:
  assumes "enf_inv db" "0 \<le> gi_estimated_monthly_delta_usd gi"
  shows "enf_inv (snd (evaluate_gate vd sha env db tenant_id actor_id source gi))"
  using assms gate_decide_inv [OF _ assms]
  by (auto simp: evaluate_gate_def dest: gate_open_inv split: sum.splits prod.splits option.splits)

lemma no_reservation_reserved:
  assumes "enf_inv db" "\<not> ed_reservation_active d"
  shows "reserved_for d now (insert_decision d db) (insert_decision d db)"
proof -
  have "credit_wf (insert_decision d db)"
    by (rule credit_wf_cong [OF enf_invD(1) [OF assms(1)]]) (simp_all add: insert_decision_def)
  with assms(2) show ?thesis by (auto simp: reserved_for_def intro: reserves_credit_refl)
qed

text \<open>The row the fail-safe gate writes and its commit.\<close>

lemma fail_safe_cases:
  assumes "resolve_fail_safe_gate vd sha env db tenant_id actor_id source gi code metadata = (out, db')"
  obtains (existing) gc db1 r where "gate_open vd sha db tenant_id source gi = Inr (gc, Some r, db1)"
      "out = Inr r" "db' = db"
    | (failed) e where "out = Inl e" "db' = db"
    | (new) gc db1 d r where "gate_open vd sha db tenant_id source gi = Inr (gc, None, db1)"
      "row_for d db1 env gc tenant_id source (no_reservation (mode_violation_decision (gc_mode gc))
         (snd (build_fail_safe_reasons (gc_mode gc) code (gi_dry_run gi))))"
      "existing db1 d (gc_ttl_seconds gc) = None" "out = Inr r"
      "commits sha (insert_decision d db1) d (gi_dry_run gi) gc actor_id (ge_now env) r db'"
proof (cases "gate_open vd sha db tenant_id source gi")
  case (Inl e)
  with assms failed show ?thesis by (auto simp: resolve_fail_safe_gate_def)
next
  case (Inr x)
  then obtain gc old db1 where o: "gate_open vd sha db tenant_id source gi = Inr (gc, old, db1)"
    by (cases x) auto
  show ?thesis
  proof (cases old)
    case (Some r)
    have "(out, db') = (Inr r, db)" using assms unfolding resolve_fail_safe_gate_def o Some by simp
    with o Some existing show ?thesis by blast
  next
    case None
    obtain nr rs where br: "build_fail_safe_reasons (gc_mode gc) code (gi_dry_run gi) = (nr, rs)" by force
    let ?v = "no_reservation (mode_violation_decision (gc_mode gc)) rs"
    define d where "d = (let is_prod = is_production_environment (gc_environment gc);
        c = build_decision_computed_context (ge_costs env) tenant_id
              (ep_policy_version (gc_policy gc)) gi (ge_now env) is_prod in
      decision_row_of tenant_id actor_id source gi gc c ?v
        (build_fail_safe_response_payload gc is_prod nr (sanitize_failure_metadata metadata) c) None None (ge_now env) (db_next_id db1))"
    have row: "row_for d db1 env gc tenant_id source ?v"
      unfolding d_def Let_def by (rule decision_row_of_row)
    have run: "persist_decision_with_optional_approval sha db db1 d (gi_dry_run gi) gc actor_id (ge_now env) None = (out, db')"
      using assms unfolding resolve_fail_safe_gate_def o None d_def by (simp add: br Let_def)
    have dec: "db_decisions db1 = db_decisions db"
      using get_or_create_policy_frame(3) [OF gate_open_facts(1) [OF o]] .
    have fresh: "existing db1 d (gc_ttl_seconds gc) = None"
      using gate_open_facts(3) [OF o] None row dec
      by (simp add: row_for_def get_existing_gate_result_def get_decision_by_idempotency_def)
    note on_failure = failed and on_commit = new
    from run show ?thesis
    proof (cases rule: persist_cases)
      case (existing r)
      with fresh show ?thesis by simp
    next
      case (failed e)
      with on_failure show ?thesis by blast
    next
      case (new r payload db2)
      then have "db2 = insert_decision d db1" by (simp add: run_reserve_def)
      with o None row fresh new on_commit br show ?thesis by simp
    qed
  qed
qed

end
