(* ===== verification/Base_IsoTime.thy ===== *)
theory Base_IsoTime
  imports Base_Json
begin

text \<open>
  \<open>datetime.fromisoformat\<close> on the extended format: a date, and optionally a separator, a time with
  an optional fraction and an optional offset. This is the format \<open>isoformat\<close> writes; the round
  trip at the end is what lets a stored \<open>JTime t\<close> be read back as \<open>t\<close>.
\<close>

definition take_digits :: "nat \<Rightarrow> string \<Rightarrow> (nat \<times> string) option" where
  "take_digits n s = (if n \<le> length s \<and> list_all is_digit (take n s)
     then Some (digits_value 0 (take n s), drop n s) else None)"

definition take_char :: "char \<Rightarrow> string \<Rightarrow> string option" where
  "take_char c s = (if s \<noteq> [] \<and> hd s = c then Some (tl s) else None)"

definition iso_date :: "string \<Rightarrow> (date \<times> string) option" where
  "iso_date s0 =
     Option.bind (take_digits 4 s0) (\<lambda>(y, s1). Option.bind (take_char CHR ''-'' s1) (\<lambda>s2.
     Option.bind (take_digits 2 s2) (\<lambda>(m, s3). Option.bind (take_char CHR ''-'' s3) (\<lambda>s4.
     Option.bind (take_digits 2 s4) (\<lambda>(d, s5).
       if 1 \<le> y \<and> 1 \<le> m \<and> m \<le> 12 \<and> 1 \<le> d \<and> int d \<le> month_length (int y) (int m)
       then Some (\<lparr>d_year = int y, d_month = int m, d_day = int d\<rparr>, s5) else None)))))"

text \<open>A fraction keeps its first six digits, as microseconds.\<close>

definition iso_fraction :: "string \<Rightarrow> (nat \<times> string) option" where
  "iso_fraction s =
     (case s of
        c # rest \<Rightarrow>
          if c = CHR ''.'' \<or> c = CHR '','' then
            (let ds = takeWhile is_digit rest in
             if ds = [] then None
             else Some (digits_value 0 (take 6 (ds @ replicate 6 (CHR ''0''))), dropWhile is_digit rest))
          else Some (0, s)
      | [] \<Rightarrow> Some (0, s))"

definition iso_seconds :: "string \<Rightarrow> (nat \<times> nat \<times> string) option" where
  "iso_seconds s = (case take_char CHR '':'' s of
     None \<Rightarrow> Some (0, 0, s)
   | Some s1 \<Rightarrow> Option.bind (take_digits 2 s1) (\<lambda>(sec, s2).
       Option.bind (iso_fraction s2) (\<lambda>(f, s3). if sec < 60 then Some (sec, f, s3) else None)))"

definition iso_minutes :: "string \<Rightarrow> (nat \<times> nat \<times> nat \<times> string) option" where
  "iso_minutes s = (case take_char CHR '':'' s of
     None \<Rightarrow> Some (0, 0, 0, s)
   | Some s1 \<Rightarrow> Option.bind (take_digits 2 s1) (\<lambda>(m, s2).
       Option.bind (iso_seconds s2) (\<lambda>(sec, f, s3). if m < 60 then Some (m, sec, f, s3) else None)))"

text \<open>The time of day in microseconds.\<close>

definition iso_time :: "string \<Rightarrow> (int \<times> string) option" where
  "iso_time s =
     Option.bind (take_digits 2 s) (\<lambda>(h, s1). Option.bind (iso_minutes s1) (\<lambda>(m, sec, f, s2).
       if h < 24 then Some (int ((h * 60 + m) * 60 + sec) * 1000000 + int f, s2) else None))"

text \<open>No offset is read as UTC, which is what the callers make of a naive time.\<close>

definition iso_offset :: "string \<Rightarrow> int option" where
  "iso_offset s =
     (case s of
        [] \<Rightarrow> Some 0
      | c # rest \<Rightarrow>
          if c = CHR ''Z'' \<and> rest = [] then Some 0
          else if c = CHR ''+'' \<or> c = CHR ''-'' then
            Option.bind (iso_time rest) (\<lambda>(us, s1).
              if s1 = [] then Some (if c = CHR ''-'' then - us else us) else None)
          else None)"

definition fromisoformat :: "string \<Rightarrow> instant option" where
  "fromisoformat s =
     Option.bind (iso_date s) (\<lambda>(d, s1).
       case s1 of
         [] \<Rightarrow> Some (instant_of_ordinal (toordinal d))
       | sep # s2 \<Rightarrow> Option.bind (iso_time s2) (\<lambda>(us, s3). Option.bind (iso_offset s3) (\<lambda>off.
           Some (instant_of_ordinal (toordinal d) + us - off))))"

subsection \<open>Digits\<close>

lemma digits_value_append: "digits_value acc (s @ t) = digits_value (digits_value acc s) t"
  by (induction acc s rule: digits_value.induct) simp_all

lemma digit_char:
  assumes "(k :: nat) < 10"
  shows "is_digit (char_of (48 + k))" "(of_char (char_of (48 + k)) :: nat) = 48 + k"
  using assms by (simp_all add: is_digit_def)

lemma nat_text_digits: "list_all is_digit (nat_text n) \<and> nat_text n \<noteq> [] \<and> digits_value 0 (nat_text n) = n"
proof (induction n rule: nat_text.induct)
  case (1 n)
  show ?case
  proof (cases "n < 10")
    case True
    with digit_char [OF this] show ?thesis by (simp add: nat_text.simps [of n])
  next
    case False
    with 1 digit_char [of "n mod 10"] show ?thesis by (simp add: nat_text.simps [of n] digits_value_append)
  qed
qed

lemma nat_text_length: "n < 10 ^ w \<Longrightarrow> 0 < w \<Longrightarrow> length (nat_text n) \<le> w"
proof (induction n arbitrary: w rule: nat_text.induct)
  case (1 n)
  show ?case
  proof (cases "n < 10")
    case True
    with 1(3) show ?thesis by (simp add: nat_text.simps [of n])
  next
    case False
    then obtain v where v: "w = Suc v" "0 < v" using 1(2,3) by (cases w; cases "w - 1") auto
    with 1(2) have "n div 10 < 10 ^ v" by (simp add: less_mult_imp_div_less mult.commute)
    with 1(1) [OF False _ v(2)] v(1) False show ?thesis by (simp add: nat_text.simps [of n])
  qed
qed

lemma digits_value_zeros: "digits_value 0 (replicate k CHR ''0'' @ s) = digits_value 0 s"
  by (induction k) (simp_all)

lemma pad_text_digits:
  assumes "n < 10 ^ w" "0 < w"
  shows "length (pad_text w n) = w" "list_all is_digit (pad_text w n)" "digits_value 0 (pad_text w n) = n"
proof -
  have "is_digit CHR ''0''" by (simp add: is_digit_def)
  then show "length (pad_text w n) = w" "list_all is_digit (pad_text w n)" "digits_value 0 (pad_text w n) = n"
    using nat_text_length [OF assms] nat_text_digits [of n]
    by (auto simp: pad_text_def Let_def digits_value_zeros list_all_iff)
qed

lemma take_digits_pad [simp]:
  "n < 10 ^ w \<Longrightarrow> 0 < w \<Longrightarrow> take_digits w (pad_text w n @ rest) = Some (n, rest)"
  by (simp add: take_digits_def pad_text_digits)

lemma take_char_Cons [simp]: "take_char c (c # s) = Some s" "c \<noteq> c' \<Longrightarrow> take_char c (c' # s) = None"
  by (simp_all add: take_char_def)

subsection \<open>Round trip\<close>

lemma month_length_le: "1 \<le> m \<Longrightarrow> m \<le> 12 \<Longrightarrow> month_length y m \<le> 31"
  by (auto simp: month_length_def days_before_month_def leap_day_def)

lemma iso_date_isoformat:
  assumes "1 \<le> d_year d" "d_year d \<le> 9999" "1 \<le> d_month d" "d_month d \<le> 12" "1 \<le> d_day d"
    "d_day d \<le> month_length (d_year d) (d_month d)"
  shows "iso_date (date_isoformat d @ rest) = Some (d, rest)"
proof -
  have "d_day d \<le> 31" using assms(6) month_length_le [OF assms(3,4), of "d_year d"] by simp
  then have "nat (d_year d) < 10 ^ 4" "nat (d_month d) < 10 ^ 2" "nat (d_day d) < 10 ^ 2" using assms by simp_all
  moreover have "1 \<le> nat (d_year d)" "1 \<le> nat (d_month d)" "nat (d_month d) \<le> 12" "1 \<le> nat (d_day d)"
    using assms by linarith+
  ultimately show ?thesis using assms by (simp add: iso_date_def date_isoformat_def)
qed

lemma iso_fraction_text:
  assumes "f < 10 ^ 6"
  shows "iso_fraction ((if f = 0 then '''' else ''.'' @ pad_text 6 f) @ ''+00:00'') = Some (f, ''+00:00'')"
proof (cases "f = 0")
  case False
  note p = pad_text_digits [OF assms]
  have plus: "\<not> is_digit CHR ''+''" by (simp add: is_digit_def)
  have "takeWhile is_digit (pad_text 6 f @ ''+00:00'') = pad_text 6 f"
    "dropWhile is_digit (pad_text 6 f @ ''+00:00'') = ''+00:00''"
    using p(2) plus by (simp_all add: list_all_iff takeWhile_append2 dropWhile_append2)
  moreover have "pad_text 6 f \<noteq> []" using p(1) by force
  ultimately show ?thesis using False p by (simp add: iso_fraction_def Let_def)
qed (simp add: iso_fraction_def)

lemma iso_time_text:
  assumes "h < 24" "m < 60" "sec < 60" "f < 10 ^ 6"
  shows "iso_time (pad_text 2 h @ '':'' @ pad_text 2 m @ '':'' @ pad_text 2 sec
      @ (if f = 0 then '''' else ''.'' @ pad_text 6 f) @ ''+00:00'')
    = Some (int ((h * 60 + m) * 60 + sec) * 1000000 + int f, ''+00:00'')"
proof -
  have "iso_seconds (CHR '':'' # pad_text 2 sec @ (if f = 0 then '''' else ''.'' @ pad_text 6 f) @ ''+00:00'')
      = Some (sec, f, ''+00:00'')"
    using assms iso_fraction_text [OF assms(4)] by (simp add: iso_seconds_def)
  then have "iso_minutes (CHR '':'' # pad_text 2 m @ CHR '':'' # pad_text 2 sec
      @ (if f = 0 then '''' else ''.'' @ pad_text 6 f) @ ''+00:00'') = Some (m, sec, f, ''+00:00'')"
    using assms by (simp add: iso_minutes_def)
  then show ?thesis using assms by (simp add: iso_time_def)
qed

lemma iso_offset_utc: "iso_offset ''+00:00'' = Some 0"
  by code_simp

lemma time_of_day_parts:
  fixes us :: int
  assumes "0 \<le> us" "us < microseconds_per_day"
  defines "s \<equiv> us div 1000000"
  shows "nat (s div 3600) < 24" "nat (s div 60 mod 60) < 60" "nat (s mod 60) < 60" "nat (us mod 1000000) < 10 ^ 6"
    "int ((nat (s div 3600) * 60 + nat (s div 60 mod 60)) * 60 + nat (s mod 60)) * 1000000 + int (nat (us mod 1000000)) = us"
proof -
  have s: "0 \<le> s" "s < 86400" using assms by (simp_all add: s_def microseconds_per_day_def)
  have "s div 60 div 60 = s div 3600" by (simp add: zdiv_zmult2_eq [symmetric])
  then have "s = (s div 3600 * 60 + s div 60 mod 60) * 60 + s mod 60"
    using mult_div_mod_eq [of 60 s] mult_div_mod_eq [of 60 "s div 60"] by (simp add: algebra_simps)
  moreover have "us = s * 1000000 + us mod 1000000" by (simp add: s_def)
  ultimately show "int ((nat (s div 3600) * 60 + nat (s div 60 mod 60)) * 60 + nat (s mod 60)) * 1000000
      + int (nat (us mod 1000000)) = us"
    using s(1) by (simp add: nat_add_distrib pos_imp_zdiv_nonneg_iff)
  show "nat (s div 3600) < 24" using s by (simp add: nat_less_iff)
  show "nat (s div 60 mod 60) < 60" "nat (s mod 60) < 60" "nat (us mod 1000000) < 10 ^ 6"
    by (simp_all add: nat_less_iff)
qed

lemma iso_roundtrip_year:
  assumes "1 \<le> d_year (date_of_instant t)" "d_year (date_of_instant t) \<le> 9999"
  shows "fromisoformat (isoformat t) = Some t"
proof -
  let ?us = "t mod microseconds_per_day"
  let ?s = "?us div 1000000"
  let ?clock = "pad_text 2 (nat (?s div 3600)) @ '':'' @ pad_text 2 (nat (?s div 60 mod 60)) @ '':'' @
      pad_text 2 (nat (?s mod 60)) @ (if nat (?us mod 1000000) = 0 then '''' else ''.'' @ pad_text 6 (nat (?us mod 1000000)))
      @ ''+00:00''"
  have us: "0 \<le> ?us" "?us < microseconds_per_day" by (simp_all add: microseconds_per_day_def)
  note parts = time_of_day_parts [OF us]
  have f0: "nat (?us mod 1000000) = 0 \<longleftrightarrow> ?us mod 1000000 = 0"
    using pos_mod_sign [of 1000000 ?us] by linarith
  have iso: "isoformat t = date_isoformat (date_of_instant t) @ CHR ''T'' # ?clock"
    unfolding isoformat_def Let_def f0 by simp
  have time: "iso_time ?clock = Some (?us, ''+00:00'')"
    using iso_time_text [OF parts(1-4)] unfolding parts(5) .
  have "instant_of_ordinal (toordinal (date_of_instant t)) + ?us = t"
    using fromordinal_month_bounds(1) [of "ordinal_of_instant t"]
    by (simp add: date_of_instant_def instant_of_ordinal_def ordinal_of_instant_def)
  with iso_date_isoformat [OF assms] fromordinal_month_bounds(2-5) [of "ordinal_of_instant t"] time iso_offset_utc
  show ?thesis unfolding iso fromisoformat_def by (simp add: date_of_instant_def)
qed

end
