(* ===== verification/Enf_Token.thy ===== *)
theory Enf_Token
  imports Enf_Gate_Facts Base_IsoTime
begin

text \<open>
  Approval tokens: src/app/modules/enforcement/domain/approval_token_ops.py.

  PyJWT is the parameter \<open>jwt_module\<close>: its \<open>encode\<close> and its \<open>decode\<close>, which reads the clock and
  either returns the claims, raises \<open>ExpiredSignatureError\<close> or raises another
  \<open>InvalidTokenError\<close>. What the theorems rely on is \<open>jwt_faithful\<close>: a token decodes to the claims
  it was encoded from, under the secret it was signed with, while its time claims hold and its
  issuer, audience and required claims match.
\<close>

datatype jwt_result = Decoded dict | ExpiredSignatureError | InvalidTokenError

record jwt_module =
  jw_encode :: "dict \<Rightarrow> string \<Rightarrow> string option \<Rightarrow> string"
  jw_decode :: "instant \<Rightarrow> string \<Rightarrow> string \<Rightarrow> string \<Rightarrow> string \<Rightarrow> string list \<Rightarrow> jwt_result"

record token_settings =
  ts_supabase_jwt_secret :: string
  ts_fallback_secrets :: "string list"
  ts_api_url :: string
  ts_jwt_signing_kid :: string

definition rstrip_slash :: "string \<Rightarrow> string" where
  "rstrip_slash s = rev (dropWhile (\<lambda>c. c = CHR ''/'') (rev s))"

definition required_claims :: "string list" where
  "required_claims = [''exp'', ''iat'', ''nbf'', ''tenant_id'', ''project_id'', ''decision_id'',
     ''approval_id'', ''source'', ''environment'', ''request_fingerprint'', ''max_monthly_delta_usd'',
     ''max_hourly_delta_usd'', ''resource_reference'', ''token_type'']"

definition key_missing :: err where
  "key_missing = HTTPException 503 ''Approval token signing key is not configured''"

definition invalid_token :: err where
  "invalid_token = HTTPException 401 ''Invalid approval token''"

subsection \<open>Decoding\<close>

definition candidate_secrets :: "token_settings \<Rightarrow> string list" where
  "candidate_secrets st =
     dedup_onto (\<lambda>s. s \<noteq> '''') strip []
       (ts_supabase_jwt_secret st # filter (\<lambda>s. 32 \<le> length (strip s)) (ts_fallback_secrets st))"

fun try_secrets :: "(string \<Rightarrow> jwt_result) \<Rightarrow> bool \<Rightarrow> string list \<Rightarrow> dict res" where
  "try_secrets dec expired [] =
     (if expired then Inl (HTTPException 409 ''Approval token has expired'') else Inl invalid_token)"
| "try_secrets dec expired (secret # secrets) = (case dec secret of
      Decoded payload \<Rightarrow>
        if strip (py_str (dict_get_default payload ''token_type'' (JStr ''''))) \<noteq> ''enforcement_approval''
        then try_secrets dec expired secrets else Inr payload
    | ExpiredSignatureError \<Rightarrow> try_secrets dec True secrets
    | InvalidTokenError \<Rightarrow> try_secrets dec expired secrets)"

definition decode_approval_token :: "jwt_module \<Rightarrow> token_settings \<Rightarrow> instant \<Rightarrow> string \<Rightarrow> dict res" where
  "decode_approval_token jwt st now token =
     (if length (strip (ts_supabase_jwt_secret st)) < 32 then Inl key_missing
      else try_secrets (\<lambda>secret. jw_decode jwt now token secret ''enforcement_gate''
             (rstrip_slash (ts_api_url st)) required_claims)
           False (candidate_secrets st))"

subsection \<open>The context of a token\<close>

text \<open>\<open>UUID(text)\<close>, the inverse of \<open>str(uuid)\<close>.\<close>

definition parse_uuid :: "string \<Rightarrow> uuid option" where
  "parse_uuid s = (if s \<noteq> [] \<and> list_all is_digit s then Some (digits_value 0 s) else None)"

definition uuid_claim :: "dict \<Rightarrow> string \<Rightarrow> uuid res" where
  "uuid_claim payload key =
     (case parse_uuid (py_str (dict_get payload key)) of None \<Rightarrow> Inl invalid_token | Some i \<Rightarrow> Inr i)"

text \<open>
  \<open>int(exp)\<close> of an integer, a float or a text, and \<open>datetime.fromtimestamp\<close>, which raises
  \<open>ValueError\<close> outside the years 1 to 9999 and \<open>OverflowError\<close>, which is not caught, outside the
  platform's time type.
\<close>

definition claim_int :: "json \<Rightarrow> int option" where
  "claim_int v = (case v of
      JInt n \<Rightarrow> Some n
    | JBool b \<Rightarrow> Some (if b then 1 else 0)
    | JDec n r \<Rightarrow> Some (if r < 0 then - \<lfloor>- r\<rfloor> else \<lfloor>r\<rfloor>)
    | JStr s \<Rightarrow> parse_exponent (strip s)
    | _ \<Rightarrow> None)"

definition claim_expiry :: "json \<Rightarrow> instant res" where
  "claim_expiry v = (case claim_int v of
      None \<Rightarrow> Inl invalid_token
    | Some n \<Rightarrow>
        if n < - (2 ^ 63) \<or> 2 ^ 63 \<le> n then Inl (ValueError ''OverflowError'')
        else if n < -62135596800 \<or> 253402300799 < n then Inl invalid_token
        else Inr (fromtimestamp n))"

definition text_claim :: "dict \<Rightarrow> string \<Rightarrow> string" where
  "text_claim payload key = strip (py_str (dict_get_default payload key (JStr '''')))"

definition extract_token_context :: "dict \<Rightarrow> approval_token_context res" where
  "extract_token_context payload =
     (case source_of_value (lower (text_claim payload ''source'')) of
        None \<Rightarrow> Inl invalid_token
      | Some source \<Rightarrow>
          (let max_monthly_delta = quantize 4 (to_decimal (dict_get payload ''max_monthly_delta_usd''));
               max_hourly_delta = quantize 6 (to_decimal (dict_get payload ''max_hourly_delta_usd'')) in
           bind_res (claim_expiry (dict_get payload ''exp'')) (\<lambda>expires_at.
             let fingerprint = text_claim payload ''request_fingerprint'';
                 resource_reference = text_claim payload ''resource_reference'';
                 project_id = text_claim payload ''project_id'' in
             if length fingerprint \<noteq> 64 then Inl invalid_token
             else if resource_reference = '''' then Inl invalid_token
             else if project_id = '''' then Inl invalid_token
             else bind_res (uuid_claim payload ''approval_id'') (\<lambda>approval_id.
               bind_res (uuid_claim payload ''decision_id'') (\<lambda>decision_id.
                 bind_res (uuid_claim payload ''tenant_id'') (\<lambda>tenant_id.
                   Inr \<lparr>tc_approval_id = approval_id, tc_decision_id = decision_id,
                     tc_tenant_id = tenant_id, tc_project_id = project_id, tc_source = source,
                     tc_environment = text_claim payload ''environment'',
                     tc_request_fingerprint = fingerprint, tc_resource_reference = resource_reference,
                     tc_max_monthly_delta_usd = max_monthly_delta,
                     tc_max_hourly_delta_usd = max_hourly_delta, tc_expires_at = expires_at\<rparr>))))))"

subsection \<open>Building\<close>

definition token_payload ::
  "token_settings \<Rightarrow> instant \<Rightarrow> enforcement_decision \<Rightarrow> approval_request \<Rightarrow> instant \<Rightarrow> dict" where
  "token_payload st now d a expires_at =
     [(''iss'', JStr (rstrip_slash (ts_api_url st))), (''aud'', JStr ''enforcement_gate''),
      (''sub'', JStr (''enforcement_approval:'' @ uuid_text (ar_id a))),
      (''iat'', JInt (timestamp now)), (''nbf'', JInt (timestamp now)),
      (''exp'', JInt (timestamp expires_at)),
      (''tenant_id'', JStr (uuid_text (ed_tenant_id d))), (''project_id'', JStr (ed_project_id d)),
      (''decision_id'', JStr (uuid_text (ed_id d))), (''approval_id'', JStr (uuid_text (ar_id a))),
      (''source'', JStr (source_value (ed_source d))), (''environment'', JStr (ed_environment d)),
      (''request_fingerprint'', JStr (ed_request_fingerprint d)),
      (''max_monthly_delta_usd'', JDec 4 (ed_estimated_monthly_delta_usd d)),
      (''max_hourly_delta_usd'', JDec 6 (ed_estimated_hourly_delta_usd d)),
      (''resource_reference'', JStr (ed_resource_reference d)),
      (''token_type'', JStr ''enforcement_approval'')]"

definition signing_kid :: "token_settings \<Rightarrow> string option" where
  "signing_kid st = (let kid = strip (ts_jwt_signing_kid st) in if kid = '''' then None else Some kid)"

definition build_approval_token ::
  "jwt_module \<Rightarrow> token_settings \<Rightarrow> instant \<Rightarrow> enforcement_decision \<Rightarrow> approval_request \<Rightarrow> instant \<Rightarrow> string res" where
  "build_approval_token jwt st now d a expires_at =
     (let secret = strip (ts_supabase_jwt_secret st) in
      if length secret < 32 then Inl key_missing
      else Inr (jw_encode jwt (token_payload st now d a expires_at) secret (signing_kid st)))"

subsection \<open>Text of identifiers\<close>

lemma parse_uuid_text [simp]: "parse_uuid (uuid_text i) = Some i"
  using nat_text_digits [of i] by (simp add: parse_uuid_def uuid_text_def)

subsection \<open>Soundness of decoding\<close>

lemma try_secrets_sound:
  assumes "try_secrets dec expired secrets = Inr payload"
  shows "\<exists>secret \<in> set secrets. dec secret = Decoded payload
    \<and> strip (py_str (dict_get_default payload ''token_type'' (JStr ''''))) = ''enforcement_approval''"
  using assms
  by (induction dec expired secrets rule: try_secrets.induct) (auto split: jwt_result.splits if_splits)

lemma set_candidate_secrets:
  "set (candidate_secrets st) = {s \<in> strip ` ({ts_supabase_jwt_secret st} \<union> {s \<in> set (ts_fallback_secrets st). 32 \<le> length (strip s)}). s \<noteq> ''''}"
  unfolding candidate_secrets_def set_dedup_onto by auto

lemma candidate_secrets_long:
  "32 \<le> length (strip (ts_supabase_jwt_secret st)) \<Longrightarrow> secret \<in> set (candidate_secrets st) \<Longrightarrow> 32 \<le> length secret"
  by (auto simp: set_candidate_secrets)

lemma dedup_onto_prefix: "\<exists>ys. dedup_onto keep f out xs = out @ ys"
  by (induction keep f out xs rule: dedup_onto.induct) auto

lemma candidate_secrets_hd:
  assumes "32 \<le> length (strip (ts_supabase_jwt_secret st))"
  shows "\<exists>rest. candidate_secrets st = strip (ts_supabase_jwt_secret st) # rest"
  using assms dedup_onto_prefix [of "\<lambda>s. s \<noteq> ''''" strip "[strip (ts_supabase_jwt_secret st)]"]
  by (auto simp: candidate_secrets_def)

text \<open>
  A token is accepted only under a configured secret of at least 32 characters, for the
  enforcement gate's audience and issuer with all required claims, and only when it is an
  enforcement approval token; with no primary secret every token is refused.
\<close>

theorem decode_token_sound:
  assumes "decode_approval_token jwt st now token = Inr payload"
  shows "\<exists>secret. 32 \<le> length secret
      \<and> secret \<in> strip ` set (ts_supabase_jwt_secret st # ts_fallback_secrets st)
      \<and> jw_decode jwt now token secret ''enforcement_gate'' (rstrip_slash (ts_api_url st)) required_claims = Decoded payload
      \<and> text_claim payload ''token_type'' = ''enforcement_approval''"
proof -
  from assms have long: "32 \<le> length (strip (ts_supabase_jwt_secret st))"
    by (auto simp: decode_approval_token_def split: if_splits)
  from assms long obtain secret where s: "secret \<in> set (candidate_secrets st)"
    "jw_decode jwt now token secret ''enforcement_gate'' (rstrip_slash (ts_api_url st)) required_claims = Decoded payload"
    "text_claim payload ''token_type'' = ''enforcement_approval''"
    by (auto simp: decode_approval_token_def text_claim_def dest!: try_secrets_sound)
  from s(1) have "secret \<in> strip ` set (ts_supabase_jwt_secret st # ts_fallback_secrets st)"
    by (auto simp: set_candidate_secrets)
  with s candidate_secrets_long [OF long s(1)] show ?thesis by blast
qed

subsection \<open>Round trip\<close>

text \<open>PyJWT on these claims: they come back while they are valid, under the secret that signed them.\<close>

definition claims_valid :: "dict \<Rightarrow> instant \<Rightarrow> string \<Rightarrow> string \<Rightarrow> string list \<Rightarrow> bool" where
  "claims_valid payload now audience issuer required \<longleftrightarrow>
     dict_get payload ''aud'' = JStr audience \<and> dict_get payload ''iss'' = JStr issuer
     \<and> list_all (dict_has payload) required
     \<and> (\<exists>e n i. dict_get payload ''exp'' = JInt e \<and> dict_get payload ''nbf'' = JInt n \<and> dict_get payload ''iat'' = JInt i
          \<and> now < fromtimestamp e \<and> fromtimestamp n \<le> now \<and> fromtimestamp i \<le> now)"

definition jwt_faithful :: "jwt_module \<Rightarrow> dict \<Rightarrow> string \<Rightarrow> bool" where
  "jwt_faithful jwt payload secret \<longleftrightarrow> (\<forall>kid now audience issuer required.
     claims_valid payload now audience issuer required
     \<longrightarrow> jw_decode jwt now (jw_encode jwt payload secret kid) secret audience issuer required = Decoded payload)"

text \<open>The decision's texts are as the gate stores them and as its columns hold them.\<close>

definition token_bindable :: "enforcement_decision \<Rightarrow> bool" where
  "token_bindable d \<longleftrightarrow> strip (ed_project_id d) = ed_project_id d \<and> ed_project_id d \<noteq> ''''
     \<and> strip (ed_resource_reference d) = ed_resource_reference d \<and> ed_resource_reference d \<noteq> ''''
     \<and> strip (ed_request_fingerprint d) = ed_request_fingerprint d \<and> length (ed_request_fingerprint d) = 64
     \<and> strip (ed_environment d) = ed_environment d
     \<and> on_grid 4 (ed_estimated_monthly_delta_usd d) \<and> on_grid 6 (ed_estimated_hourly_delta_usd d)"

definition context_of :: "enforcement_decision \<Rightarrow> approval_request \<Rightarrow> instant \<Rightarrow> approval_token_context" where
  "context_of d a expires_at = \<lparr>tc_approval_id = ar_id a, tc_decision_id = ed_id d,
     tc_tenant_id = ed_tenant_id d, tc_project_id = ed_project_id d, tc_source = ed_source d,
     tc_environment = ed_environment d, tc_request_fingerprint = ed_request_fingerprint d,
     tc_resource_reference = ed_resource_reference d,
     tc_max_monthly_delta_usd = ed_estimated_monthly_delta_usd d,
     tc_max_hourly_delta_usd = ed_estimated_hourly_delta_usd d,
     tc_expires_at = fromtimestamp (timestamp expires_at)\<rparr>"

lemma source_value_text: "lower (strip (source_value s)) = source_value s"
  by (cases s) (simp_all, code_simp+)

lemma extract_token_payload:
  assumes d: "token_bindable d" and e: "-62135596800 \<le> timestamp expires_at" "timestamp expires_at \<le> 253402300799"
  shows "extract_token_context (token_payload st now d a expires_at) = Inr (context_of d a expires_at)"
proof -
  let ?p = "token_payload st now d a expires_at"
  have get: "dict_get_default ?p k v = dict_get ?p k" if "dict_has ?p k" for k v
    using that map_of_eq_None_iff [of ?p k]
    by (cases "map_of ?p k") (auto simp: dict_get_default_def dict_get_def dict_has_def)
  have has: "dict_has ?p ''source''" "dict_has ?p ''request_fingerprint''" "dict_has ?p ''resource_reference''"
    "dict_has ?p ''project_id''" "dict_has ?p ''environment''"
    by (simp_all add: dict_has_def token_payload_def)
  have texts: "text_claim ?p ''source'' = strip (source_value (ed_source d))"
    "text_claim ?p ''request_fingerprint'' = ed_request_fingerprint d"
    "text_claim ?p ''resource_reference'' = ed_resource_reference d"
    "text_claim ?p ''project_id'' = ed_project_id d" "text_claim ?p ''environment'' = ed_environment d"
    using d get [OF has(1)] get [OF has(2)] get [OF has(3)] get [OF has(4)] get [OF has(5)]
    by (simp_all add: text_claim_def token_bindable_def) (simp_all add: token_payload_def py_str_def)
  have amounts: "to_decimal (dict_get ?p ''max_monthly_delta_usd'') = ed_estimated_monthly_delta_usd d"
    "to_decimal (dict_get ?p ''max_hourly_delta_usd'') = ed_estimated_hourly_delta_usd d"
    by (simp_all add: token_payload_def)
  have ids: "uuid_claim ?p ''approval_id'' = Inr (ar_id a)" "uuid_claim ?p ''decision_id'' = Inr (ed_id d)"
    "uuid_claim ?p ''tenant_id'' = Inr (ed_tenant_id d)"
    by (simp_all add: uuid_claim_def token_payload_def py_str_def)
  have exp: "claim_expiry (dict_get ?p ''exp'') = Inr (fromtimestamp (timestamp expires_at))"
    using e by (simp add: token_payload_def claim_expiry_def claim_int_def)
  show ?thesis
    using d unfolding extract_token_context_def texts amounts ids exp source_value_text
    by (simp add: token_bindable_def context_of_def)
qed

lemma token_payload_valid:
  assumes "fromtimestamp (timestamp now) \<le> t" "t < fromtimestamp (timestamp expires_at)"
  shows "claims_valid (token_payload st now d a expires_at) t ''enforcement_gate'' (rstrip_slash (ts_api_url st)) required_claims"
  unfolding claims_valid_def
  using assms by (simp add: token_payload_def required_claims_def dict_has_def)

lemma token_roundtrip_spec:
  assumes secret: "32 \<le> length (strip (ts_supabase_jwt_secret st))"
    and jwt: "jwt_faithful jwt (token_payload st now d a expires_at) (strip (ts_supabase_jwt_secret st))"
    and d: "token_bindable d" and e: "-62135596800 \<le> timestamp expires_at" "timestamp expires_at \<le> 253402300799"
    and t: "now \<le> t" "t < fromtimestamp (timestamp expires_at)"
  shows "\<exists>token. build_approval_token jwt st now d a expires_at = Inr token
    \<and> bind_res (decode_approval_token jwt st t token) extract_token_context = Inr (context_of d a expires_at)"
proof -
  let ?p = "token_payload st now d a expires_at" and ?s = "strip (ts_supabase_jwt_secret st)"
  obtain rest where c: "candidate_secrets st = ?s # rest" using candidate_secrets_hd [OF secret] by blast
  have "fromtimestamp (timestamp now) \<le> t" using fromtimestamp_timestamp_le [of now] t(1) by simp
  from jwt token_payload_valid [OF this t(2)]
  have dec: "jw_decode jwt t (jw_encode jwt ?p ?s kid) ?s ''enforcement_gate'' (rstrip_slash (ts_api_url st)) required_claims
      = Decoded ?p" for kid
    unfolding jwt_faithful_def by blast
  have "strip (py_str (dict_get_default ?p ''token_type'' (JStr ''''))) = ''enforcement_approval''"
    by (simp add: token_payload_def dict_get_default_def py_str_def) code_simp
  then have "decode_approval_token jwt st t (jw_encode jwt ?p ?s kid) = Inr ?p" for kid
    using secret by (simp add: decode_approval_token_def c dec)
  with extract_token_payload [OF d e] secret show ?thesis by (simp add: build_approval_token_def Let_def)
qed

text \<open>
  Issuing and reading back: a token built for a decision and its approval request decodes, at any
  time from its issue until it expires, to exactly the tenant, decision, request, source, project,
  environment, fingerprint, resource and amounts it was issued for.
\<close>

theorem token_roundtrip:
  assumes "32 \<le> length (strip (ts_supabase_jwt_secret st))"
    and "jwt_faithful jwt (token_payload st now d a expires_at) (strip (ts_supabase_jwt_secret st))"
    and "token_bindable d" and "-62135596800 \<le> timestamp expires_at" "timestamp expires_at \<le> 253402300799"
    and "now \<le> t" "t < fromtimestamp (timestamp expires_at)"
  shows "\<exists>token. build_approval_token jwt st now d a expires_at = Inr token
    \<and> bind_res (decode_approval_token jwt st t token) extract_token_context = Inr (context_of d a expires_at)"
  using assms by (rule token_roundtrip_spec)

definition sample_settings :: token_settings where
  "sample_settings = \<lparr>ts_supabase_jwt_secret = replicate 32 CHR ''s'', ts_fallback_secrets = [],
     ts_api_url = ''https://api/'', ts_jwt_signing_kid = ''''\<rparr>"

definition sample_jwt :: "dict \<Rightarrow> jwt_module" where
  "sample_jwt payload = \<lparr>jw_encode = (\<lambda>p secret kid. secret @ ''.signed''),
     jw_decode = (\<lambda>now token secret audience issuer required.
       if token = secret @ ''.signed'' then Decoded payload else InvalidTokenError)\<rparr>"

definition sample_token_decision :: enforcement_decision where
  "sample_token_decision = (sample_decision 9 150 0)\<lparr>ed_request_fingerprint := replicate 64 CHR ''a''\<rparr>"

lemma sample_jwt_faithful: "jwt_faithful (sample_jwt payload) payload secret"
  by (simp add: jwt_faithful_def sample_jwt_def)

lemma sample_secret_long: "32 \<le> length (strip (ts_supabase_jwt_secret sample_settings))"
  by code_simp

lemma sample_token_bindable: "token_bindable sample_token_decision"
  unfolding token_bindable_def
  by (intro conjI, code_simp, code_simp, code_simp, code_simp, code_simp, code_simp, code_simp)
    (simp_all add: sample_token_decision_def sample_decision_def)

lemma token_roundtrip_witness:
  "\<exists>token. build_approval_token (sample_jwt (token_payload sample_settings 0 sample_token_decision (sample_approval 20 9 3) 900000000))
       sample_settings 0 sample_token_decision (sample_approval 20 9 3) 900000000 = Inr token
    \<and> bind_res (decode_approval_token (sample_jwt (token_payload sample_settings 0 sample_token_decision (sample_approval 20 9 3) 900000000))
         sample_settings 5 token) extract_token_context = Inr (context_of sample_token_decision (sample_approval 20 9 3) 900000000)"
  by (rule token_roundtrip [OF sample_secret_long sample_jwt_faithful sample_token_bindable])
    (simp_all add: timestamp_def fromtimestamp_def)

lemma decode_token_sound_witness:
  "\<exists>secret. 32 \<le> length secret \<and> secret \<in> strip ` set [replicate 32 CHR ''s'']"
proof -
  let ?p = "token_payload sample_settings 0 sample_token_decision (sample_approval 20 9 3) 900000000"
  have "decode_approval_token (sample_jwt ?p) sample_settings 5 (replicate 32 CHR ''s'' @ ''.signed'') = Inr ?p"
    by code_simp
  from decode_token_sound [OF this] show ?thesis by (auto simp: sample_settings_def)
qed

end
