(* ===== verification/Enf_Canonical.thy ===== *)
theory Enf_Canonical
  imports Enf_Utils Base_IsoTime
begin

text \<open>
  What the canonical JSON text of src/app/modules/enforcement/domain/service_utils.py says about its
  value. Request fingerprints, payload hashes, policy hashes and manifest signatures are all computed
  from \<open>json_dumps\<close>; they identify the hashed value only if no two values share a text. \<open>canon_of\<close> is
  the value a text stands for (decimals and times are strings, keys are sorted), and the text
  determines it, also inside a longer text.
\<close>

datatype canon =
    CNull
  | CBool bool
  | CInt int
  | CStr string
  | CList "canon list"
  | CObj "(string \<times> canon) list"

fun canon_of :: "json \<Rightarrow> canon" where
  "canon_of JNull = CNull"
| "canon_of (JBool b) = CBool b"
| "canon_of (JInt n) = CInt n"
| "canon_of (JStr s) = CStr s"
| "canon_of (JDec n r) = CStr (fixed_text n r)"
| "canon_of (JTime t) = CStr (isoformat t)"
| "canon_of (JList xs) = CList (map canon_of xs)"
| "canon_of (JObj d) = CObj (sort_key fst (map (\<lambda>kv. (fst kv, canon_of (snd kv))) d))"

fun canon_text :: "canon \<Rightarrow> string" where
  "canon_text CNull = ''null''"
| "canon_text (CBool b) = (if b then ''true'' else ''false'')"
| "canon_text (CInt n) = int_text n"
| "canon_text (CStr s) = json_text s"
| "canon_text (CList xs) = ''['' @ join_text '','' (map canon_text xs) @ '']''"
| "canon_text (CObj d) =
     ''{'' @ join_text '','' (map (\<lambda>kv. json_text (fst kv) @ '':'' @ canon_text (snd kv)) d) @ ''}''"

subsection \<open>The text is the text of the canonical value\<close>

lemma insort_key_map: "insort_key f (g x) (map g xs) = map g (insort_key (f \<circ> g) x xs)"
  by (induction xs) auto

lemma sort_key_map: "sort_key f (map g xs) = map g (sort_key (f \<circ> g) xs)"
  by (induction xs) (simp_all add: insort_key_map comp_def)

lemma sort_values:
  "sort_key fst (map (\<lambda>kv. (fst kv, f (snd kv))) d) = map (\<lambda>kv. (fst kv, f (snd kv))) (sort_key fst d)"
  by (simp add: sort_key_map comp_def)

lemma json_dumps_canon: "json_dumps v = canon_text (canon_of v)"
proof (induction v rule: canon_of.induct)
  case (7 xs)
  then have "map json_dumps xs = map canon_text (map canon_of xs)" by simp
  then show ?case by (simp only: json_dumps.simps canon_of.simps canon_text.simps)
next
  case (8 d)
  have "(\<lambda>kv. json_text (fst kv) @ '':'' @ json_dumps (snd kv)) kv
      = (\<lambda>kv. json_text (fst kv) @ '':'' @ canon_text (canon_of (snd kv))) kv" if "kv \<in> set (sort_key fst d)" for kv
    using that 8 [of kv] by (simp del: sort_key_simps)
  then have "map (\<lambda>kv. json_text (fst kv) @ '':'' @ json_dumps (snd kv)) (sort_key fst d)
      = map (\<lambda>kv. json_text (fst kv) @ '':'' @ canon_text (canon_of (snd kv))) (sort_key fst d)"
    by (intro map_cong) auto
  then show ?case by (simp only: json_dumps.simps canon_of.simps canon_text.simps sort_values map_map comp_def fst_conv snd_conv)
qed simp_all

subsection \<open>Literals\<close>

lemma hex_digit_inject: "a < 16 \<Longrightarrow> b < 16 \<Longrightarrow> hex_digit a = hex_digit b \<Longrightarrow> a = b"
  by (auto simp: hex_digit_def split: if_splits dest!: arg_cong [where f = "of_char :: char \<Rightarrow> nat"])

lemma hex4_inject: "m < 256 \<Longrightarrow> n < 256 \<Longrightarrow> hex4 m = hex4 n \<Longrightarrow> m = n"
proof -
  assume mn: "m < 256" "n < 256" and eq: "hex4 m = hex4 n"
  then have "m div 16 mod 16 = n div 16 mod 16" "m mod 16 = n mod 16"
    by (auto simp: hex4_def intro!: hex_digit_inject)
  moreover have "m div 16 mod 16 = m div 16" "n div 16 mod 16 = n div 16" using mn by auto
  ultimately show "m = n" by (metis div_mult_mod_eq)
qed

lemma of_char_eq: "(of_char c :: nat) = n \<Longrightarrow> c = char_of n"
  by (metis char_of_char)

definition escaped :: "char \<Rightarrow> string" where
  "escaped c =
     (let n = (of_char c :: nat) in
      if n = 34 \<or> n = 92 then [c]
      else if n = 8 then ''b'' else if n = 9 then ''t'' else if n = 10 then ''n'' else if n = 12 then ''f''
      else if n = 13 then ''r'' else ''u'' @ hex4 n)"

definition plain :: "char \<Rightarrow> bool" where
  "plain c \<longleftrightarrow> (let n = (of_char c :: nat) in 32 \<le> n \<and> n \<le> 126 \<and> n \<noteq> 34 \<and> n \<noteq> 92)"

lemma json_char_alt: "json_char c = (if plain c then [c] else CHR 0x5C # escaped c)"
  by (auto simp: json_char_def escaped_def plain_def Let_def)

lemma escaped_inject: "escaped c @ x = escaped d @ y \<Longrightarrow> c = d \<and> x = y"
proof -
  assume eq: "escaped c @ x = escaped d @ y"
  have u: "hex4 (of_char c) @ x = hex4 (of_char d) @ y \<Longrightarrow> c = d \<and> x = y"
    using hex4_inject [of "of_char c" "of_char d"] by (auto simp: hex4_def)
  have letters: "(of_char CHR ''b'' :: nat) = 98" "(of_char CHR ''t'' :: nat) = 116" "(of_char CHR ''n'' :: nat) = 110"
    "(of_char CHR ''f'' :: nat) = 102" "(of_char CHR ''r'' :: nat) = 114" "(of_char CHR ''u'' :: nat) = 117" by simp_all
  from eq show ?thesis
    using u letters
    by (auto simp: escaped_def Let_def split: if_splits dest: of_char_eq)
qed

lemma json_char_inject: "json_char c @ x = json_char d @ y \<Longrightarrow> c = d \<and> x = y"
  using escaped_inject [of c x d y] by (auto simp: json_char_alt plain_def Let_def split: if_splits)

lemma json_char_head: "json_char c = a # as \<Longrightarrow> a \<noteq> CHR 0x22"
  by (auto simp: json_char_alt plain_def Let_def split: if_splits)

lemma json_char_cons: "\<exists>a as. json_char c = a # as \<and> a \<noteq> CHR 0x22"
  using json_char_head [of c] by (cases "json_char c") (auto simp: json_char_alt split: if_splits)

lemma json_text_inject: "json_text s @ x = json_text t @ y \<Longrightarrow> s = t \<and> x = y"
proof -
  have "concat (map json_char s) @ CHR 0x22 # x = concat (map json_char t) @ CHR 0x22 # y \<Longrightarrow> s = t \<and> x = y"
  proof (induction s arbitrary: t)
    case Nil
    show ?case
    proof (cases t)
      case (Cons d t')
      with Nil json_char_cons [of d] show ?thesis by auto
    qed (use Nil in simp)
  next
    case (Cons c s)
    show ?case
    proof (cases t)
      case Nil
      then show ?thesis using Cons.prems json_char_cons [of c] by fastforce
    next
      case (Cons d t')
      with Cons.prems json_char_inject [of c _ d] Cons.IH [of t'] show ?thesis by auto
    qed
  qed
  then show "json_text s @ x = json_text t @ y \<Longrightarrow> s = t \<and> x = y" by (simp add: json_text_def)
qed

text \<open>What may follow a value inside a text: nothing, a comma or a closing bracket.\<close>

definition stops :: "string \<Rightarrow> bool" where
  "stops s \<longleftrightarrow> s = [] \<or> hd s \<in> {CHR '','', CHR '']'', CHR ''}''}"

lemma nat_text_inject:
  assumes "nat_text m @ x = nat_text n @ y" "stops x" "stops y"
  shows "m = n \<and> x = y"
proof -
  have tw: "takeWhile is_digit (nat_text k @ z) = nat_text k" if "stops z" for k z
    using that nat_text_digits [of k] by (cases z) (auto simp: stops_def is_digit_def takeWhile_append list_all_iff)
  have "nat_text m = nat_text n" using assms tw by metis
  moreover from this have "m = n" using nat_text_digits by metis
  ultimately show ?thesis using assms(1) by simp
qed

lemma nat_text_not_minus: "nat_text k @ u \<noteq> CHR ''-'' # v"
  using nat_text_digits [of k] by (cases "nat_text k") (auto simp: is_digit_def)

lemma int_text_inject:
  assumes "int_text m @ x = int_text n @ y" "stops x" "stops y"
  shows "m = n \<and> x = y"
proof (cases "m < 0")
  case True
  with assms(1) have "n < 0" using nat_text_not_minus [of "nat n" y] by (auto simp: int_text_def split: if_splits dest: sym)
  with True assms have "nat_text (nat (- m)) @ x = nat_text (nat (- n)) @ y" by (simp add: int_text_def)
  with nat_text_inject assms(2,3) have "nat (- m) = nat (- n) \<and> x = y" by blast
  with True \<open>n < 0\<close> show ?thesis by linarith
next
  case False
  with assms(1) have "\<not> n < 0" using nat_text_not_minus [of "nat m" x] by (auto simp: int_text_def split: if_splits)
  with False assms have "nat_text (nat m) @ x = nat_text (nat n) @ y" by (simp add: int_text_def)
  with nat_text_inject assms(2,3) have "nat m = nat n \<and> x = y" by blast
  with False \<open>\<not> n < 0\<close> show ?thesis by linarith
qed

subsection \<open>The text determines the canonical value\<close>

text \<open>
  \<open>reads enc x\<close>: whatever other value is printed in the place of \<open>x\<close>, equal texts mean equal values
  and equal continuations.
\<close>

definition reads :: "('a \<Rightarrow> string) \<Rightarrow> 'a \<Rightarrow> bool" where
  "reads enc x \<longleftrightarrow> (\<forall>y r s. enc x @ r = enc y @ s \<longrightarrow> stops r \<longrightarrow> stops s \<longrightarrow> x = y \<and> r = s)"

definition opens :: "('a \<Rightarrow> string) \<Rightarrow> bool" where
  "opens enc \<longleftrightarrow> (\<forall>x. enc x \<noteq> [] \<and> \<not> stops (enc x))"

lemma stops_simps [simp]: "stops []" "stops (c # s) \<longleftrightarrow> c \<in> {CHR '','', CHR '']'', CHR ''}''}"
  by (simp_all add: stops_def)

lemma join_text_cons: "join_text '','' (map enc (x # xs)) @ c # r
    = enc x @ (if xs = [] then c # r else CHR '','' # join_text '','' (map enc xs) @ c # r)"
  by (cases xs) simp_all

lemma opens_append: "opens enc \<Longrightarrow> \<not> stops (enc x @ r)"
  unfolding opens_def stops_def by (metis append_is_Nil_conv hd_append2)

lemma join_text_inject:
  assumes "\<forall>x \<in> set xs. reads enc x" "opens enc" "c = CHR '']'' \<or> c = CHR ''}''"
    and "join_text '','' (map enc xs) @ c # r = join_text '','' (map enc ys) @ c # s"
  shows "xs = ys \<and> r = s"
  using assms(1,4)
proof (induction xs arbitrary: ys)
  case Nil
  show ?case
  proof (cases ys)
    case (Cons y ys')
    have "stops (c # r)" using assms(3) by auto
    then have False using Nil(2) opens_append [OF assms(2), of y] unfolding Cons join_text_cons by (metis append_Nil join_text.simps(1) list.simps(8))
    then show ?thesis ..
  qed (use Nil in simp)
next
  case (Cons x xs)
  let ?rest = "\<lambda>zs t. if zs = [] then c # t else CHR '','' # join_text '','' (map enc zs) @ c # t"
  show ?case
  proof (cases ys)
    case Nil
    have "stops (c # s)" using assms(3) by auto
    then have False using Cons.prems(2) opens_append [OF assms(2), of x] unfolding Nil join_text_cons by (metis append_Nil join_text.simps(1) list.simps(8))
    then show ?thesis ..
  next
    case ys: (Cons y ys')
    have "enc x @ ?rest xs r = enc y @ ?rest ys' s" using Cons.prems(2) unfolding ys join_text_cons .
    moreover have "stops (?rest xs r)" "stops (?rest ys' s)" using assms(3) by auto
    moreover have "reads enc x" using Cons.prems(1) by simp
    ultimately have eq: "x = y" "?rest xs r = ?rest ys' s" unfolding reads_def by blast+
    have "c \<noteq> CHR '',''" using assms(3) by auto
    with eq(2) have "join_text '','' (map enc xs) @ c # r = join_text '','' (map enc ys') @ c # s"
      by (auto split: if_splits)
    with Cons.IH [of ys'] Cons.prems(1) eq(1) ys show ?thesis by simp
  qed
qed

lemma nat_text_open: "nat_text n \<noteq> [] \<and> \<not> stops (nat_text n)"
  using nat_text_digits [of n] by (cases "nat_text n") (auto simp: is_digit_def)

lemma canon_text_opens: "opens canon_text"
proof -
  have "canon_text v \<noteq> [] \<and> \<not> stops (canon_text v)" for v
    using nat_text_open by (cases v) (auto simp: int_text_def json_text_def)
  then show ?thesis by (simp add: opens_def)
qed

definition member_text :: "string \<times> canon \<Rightarrow> string" where
  "member_text kv = json_text (fst kv) @ '':'' @ canon_text (snd kv)"

lemma member_text_opens: "opens member_text"
  by (simp add: opens_def member_text_def json_text_def)

lemma member_text_reads: "reads canon_text v \<Longrightarrow> reads member_text (k, v)"
proof -
  assume v: "reads canon_text v"
  have "(k, v) = kw \<and> r = s" if "member_text (k, v) @ r = member_text kw @ s" "stops r" "stops s" for kw r s
  proof -
    from that(1) have "k = fst kw \<and> CHR '':'' # canon_text v @ r = CHR '':'' # canon_text (snd kw) @ s"
      using json_text_inject [of k "CHR '':'' # canon_text v @ r" "fst kw" "CHR '':'' # canon_text (snd kw) @ s"]
      by (simp add: member_text_def)
    with v that(2,3) show ?thesis by (auto simp: reads_def prod_eq_iff)
  qed
  then show ?thesis by (simp add: reads_def)
qed

text \<open>The first character of a text tells the constructor.\<close>

fun canon_kind :: "canon \<Rightarrow> nat" where
  "canon_kind CNull = 0" | "canon_kind (CBool b) = 1" | "canon_kind (CInt n) = 2"
| "canon_kind (CStr s) = 3" | "canon_kind (CList xs) = 4" | "canon_kind (CObj d) = 5"

definition kind_of_char :: "char \<Rightarrow> nat" where
  "kind_of_char c = (if c = CHR ''n'' then 0 else if c = CHR ''t'' \<or> c = CHR ''f'' then 1
     else if c = CHR 0x22 then 3 else if c = CHR ''['' then 4 else if c = CHR ''{'' then 5 else 2)"

lemma canon_text_kind: "kind_of_char (hd (canon_text v @ r)) = canon_kind v"
proof -
  have "is_digit c \<Longrightarrow> kind_of_char c = 2" for c by (auto simp: is_digit_def kind_of_char_def)
  then have "kind_of_char (hd (nat_text n @ r)) = 2" for n
    using nat_text_digits [of n] by (cases "nat_text n") auto
  moreover have "kind_of_char CHR ''-'' = 2" by (simp add: kind_of_char_def)
  ultimately have "kind_of_char (hd (int_text n @ r)) = 2" for n by (simp add: int_text_def)
  then show ?thesis by (cases v) (simp_all add: json_text_def, simp_all add: kind_of_char_def)
qed

lemma canon_readsI:
  assumes "\<And>w r s. canon_text v @ r = canon_text w @ s \<Longrightarrow> canon_kind w = canon_kind v \<Longrightarrow> stops r \<Longrightarrow> stops s
    \<Longrightarrow> v = w \<and> r = s"
  shows "reads canon_text v"
  unfolding reads_def using assms by (metis canon_text_kind)

theorem canon_text_reads: "reads canon_text v"
proof (induction v)
  case CNull
  show ?case
  proof (rule canon_readsI)
    fix w r s assume "canon_text CNull @ r = canon_text w @ s" "canon_kind w = canon_kind CNull"
    then show "CNull = w \<and> r = s" by (cases w) simp_all
  qed
next
  case (CBool b)
  show ?case
  proof (rule canon_readsI)
    fix w r s assume "canon_text (CBool b) @ r = canon_text w @ s" "canon_kind w = canon_kind (CBool b)"
    then show "CBool b = w \<and> r = s" by (cases w) (simp_all split: if_splits)
  qed
next
  case (CInt n)
  show ?case
  proof (rule canon_readsI)
    fix w r s assume a: "canon_text (CInt n) @ r = canon_text w @ s" "canon_kind w = canon_kind (CInt n)" "stops r" "stops s"
    then obtain m where "w = CInt m" by (cases w) simp_all
    with a int_text_inject [of n r m s] show "CInt n = w \<and> r = s" by simp
  qed
next
  case (CStr t)
  show ?case
  proof (rule canon_readsI)
    fix w r s assume a: "canon_text (CStr t) @ r = canon_text w @ s" "canon_kind w = canon_kind (CStr t)"
    then obtain u where "w = CStr u" by (cases w) simp_all
    with a json_text_inject [of t r u s] show "CStr t = w \<and> r = s" by simp
  qed
next
  case (CList xs)
  show ?case
  proof (rule canon_readsI)
    fix w r s assume a: "canon_text (CList xs) @ r = canon_text w @ s" "canon_kind w = canon_kind (CList xs)"
    then obtain ys where "w = CList ys" by (cases w) simp_all
    with a join_text_inject [OF _ canon_text_opens, of xs "CHR '']''" r ys s] CList
    show "CList xs = w \<and> r = s" by simp
  qed
next
  case (CObj d)
  have members: "\<forall>kv \<in> set d. reads member_text kv" using CObj member_text_reads by (metis prod.collapse snds.intros)
  have printed: "canon_text (CObj e) @ t = CHR ''{'' # join_text '','' (map member_text e) @ CHR ''}'' # t" for e t
    by (simp add: member_text_def [abs_def])
  show ?case
  proof (rule canon_readsI)
    fix w r s assume a: "canon_text (CObj d) @ r = canon_text w @ s" "canon_kind w = canon_kind (CObj d)"
    then obtain e where w: "w = CObj e" by (cases w) simp_all
    show "CObj d = w \<and> r = s"
      using join_text_inject [OF members member_text_opens, of "CHR ''}''" r e s] a(1) unfolding w printed by simp
  qed
qed

lemma json_dumps_inject:
  assumes "json_dumps v = json_dumps w"
  shows "canon_of v = canon_of w"
proof -
  have "canon_text (canon_of v) @ [] = canon_text (canon_of w) @ []" using assms by (simp add: json_dumps_canon)
  with canon_text_reads [of "canon_of v"] show ?thesis unfolding reads_def by (metis stops_simps(1))
qed

subsection \<open>Members of equal objects\<close>

lemma map_of_sort_key: "distinct (map fst d) \<Longrightarrow> map_of (sort_key fst d) = map_of d"
  by (rule map_of_inject_set [THEN iffD2]) (simp_all add: distinct_map)

lemma canon_member:
  assumes "canon_of (JObj d) = canon_of (JObj e)" "distinct (map fst d)" "distinct (map fst e)"
  shows "canon_of (dict_get d k) = canon_of (dict_get e k)"
proof -
  let ?c = "map (\<lambda>kv. (fst kv, canon_of (snd kv)))"
  have lookup: "map_of (sort_key fst (?c b)) k = map_option canon_of (map_of b k)" if "distinct (map fst b)" for b
    using map_of_sort_key [of "?c b"] that map_of_map [of canon_of b] by (simp add: comp_def case_prod_unfold)
  have "map_option canon_of (map_of d k) = map_option canon_of (map_of e k)"
    using assms(1) lookup [OF assms(2)] lookup [OF assms(3)] by simp
  then show ?thesis by (auto simp: dict_get_def split: option.splits)
qed

subsection \<open>Decimal texts\<close>

lemma digits_value_acc: "digits_value acc s = acc * 10 ^ length s + digits_value 0 s"
proof (induction s arbitrary: acc)
  case (Cons c s)
  have "digits_value acc (c # s) = (acc * 10 + (of_char c - 48)) * 10 ^ length s + digits_value 0 s"
    using Cons [of "acc * 10 + (of_char c - 48)"] by simp
  moreover have "digits_value 0 (c # s) = (of_char c - 48) * 10 ^ length s + digits_value 0 s"
    using Cons [of "of_char c - 48"] by simp
  ultimately show ?case by (simp add: algebra_simps)
qed simp

lemma takeWhile_digits:
  assumes "list_all is_digit s" "x = [] \<or> \<not> is_digit (hd x)"
  shows "takeWhile is_digit (s @ x) = s" "dropWhile is_digit (s @ x) = x"
  using assms by (cases x; simp add: list_all_iff takeWhile_append dropWhile_append)+

lemma all_digits: "list_all is_digit s \<Longrightarrow> takeWhile is_digit s = s" "list_all is_digit s \<Longrightarrow> dropWhile is_digit s = []"
  by (simp_all add: list_all_iff takeWhile_eq_all_conv)

lemma parse_unsigned_point:
  assumes "list_all is_digit s" "s \<noteq> []" "list_all is_digit t"
  shows "parse_unsigned (s @ CHR ''.'' # t) = Some (of_nat (digits_value 0 (s @ t)) / 10 ^ length t)"
proof -
  have "\<not> is_digit CHR ''.''" by (simp add: is_digit_def)
  then show ?thesis
    using assms takeWhile_digits [of s "CHR ''.'' # t"]
    by (simp add: all_digits parse_unsigned_def Let_def)
qed

lemma parse_unsigned_whole:
  assumes "list_all is_digit s" "s \<noteq> []"
  shows "parse_unsigned s = Some (of_nat (digits_value 0 s))"
  using assms by (simp add: all_digits parse_unsigned_def Let_def)

definition unsigned_text :: "nat \<Rightarrow> nat \<Rightarrow> string" where
  "unsigned_text n a = nat_text (a div 10 ^ n) @ (if n = 0 then '''' else ''.'' @ pad_text n (a mod 10 ^ n))"

lemma parse_unsigned_text: "parse_unsigned (unsigned_text n a) = Some (of_nat a / 10 ^ n)"
proof (cases "n = 0")
  case True
  then show ?thesis using nat_text_digits [of a] by (simp add: unsigned_text_def parse_unsigned_whole)
next
  case False
  then have pad: "length (pad_text n (a mod 10 ^ n)) = n" "list_all is_digit (pad_text n (a mod 10 ^ n))"
    "digits_value 0 (pad_text n (a mod 10 ^ n)) = a mod 10 ^ n"
    by (simp_all add: pad_text_digits)
  have "digits_value 0 (nat_text (a div 10 ^ n) @ pad_text n (a mod 10 ^ n)) = a"
    using digits_value_acc [of "a div 10 ^ n" "pad_text n (a mod 10 ^ n)"] nat_text_digits [of "a div 10 ^ n"]
    by (simp add: digits_value_append pad div_mult_mod_eq)
  then show ?thesis
    using False nat_text_digits [of "a div 10 ^ n"] pad
      parse_unsigned_point [of "nat_text (a div 10 ^ n)" "pad_text n (a mod 10 ^ n)"]
    by (simp add: unsigned_text_def)
qed

lemma unsigned_text_chars: "c \<in> set (unsigned_text n a) \<Longrightarrow> is_digit c \<or> c = CHR ''.''"
  using nat_text_digits [of "a div 10 ^ n"] pad_text_digits(2) [of "a mod 10 ^ n" n]
  by (auto simp: unsigned_text_def list_all_iff split: if_splits)

lemma strip_no_space:
  assumes "\<forall>c \<in> set s. \<not> py_space c"
  shows "strip s = s"
proof -
  have none: "dropWhile py_space t = t" if "\<forall>c \<in> set t. \<not> py_space c" for t
    using that by (cases t) auto
  from assms none [of s] none [of "rev s"] show ?thesis by (simp only: strip_def set_rev rev_rev_ident)
qed

lemma unsigned_text_open: "unsigned_text n a \<noteq> []" "hd (unsigned_text n a) \<noteq> CHR ''-''" "hd (unsigned_text n a) \<noteq> CHR ''+''"
proof -
  show "unsigned_text n a \<noteq> []" using nat_text_digits by (simp add: unsigned_text_def)
  then have "hd (unsigned_text n a) \<in> set (unsigned_text n a)" by simp
  then have "is_digit (hd (unsigned_text n a)) \<or> hd (unsigned_text n a) = CHR ''.''" by (rule unsigned_text_chars)
  then show "hd (unsigned_text n a) \<noteq> CHR ''-''" "hd (unsigned_text n a) \<noteq> CHR ''+''" by (auto simp: is_digit_def)
qed

lemma fixed_text_parse: "parse_decimal (fixed_text n r) = Some (quantize n r)"
proof -
  define k where "k = round_half_even (r * 10 ^ n)"
  have shape: "fixed_text n r = (if k < 0 then ''-'' else '''') @ unsigned_text n (nat \<bar>k\<bar>)"
    by (simp add: fixed_text_def unsigned_text_def k_def Let_def)
  have "\<not> py_space c" if "c \<in> set (fixed_text n r)" for c
    using that unsigned_text_chars [of c n "nat \<bar>k\<bar>"]
    by (auto simp: shape is_digit_def py_space_def Let_def split: if_splits)
  then have "strip (fixed_text n r) = fixed_text n r" by (simp add: strip_no_space)
  then show ?thesis
    using unsigned_text_open [of n "nat \<bar>k\<bar>"] parse_unsigned_text [of n "nat \<bar>k\<bar>"]
    by (cases "k < 0") (simp_all add: parse_decimal_def shape quantize_def k_def [symmetric] Let_def)
qed

lemma fixed_text_inject: "fixed_text n r = fixed_text n q \<Longrightarrow> quantize n r = quantize n q"
  by (metis fixed_text_parse option.inject)

subsection \<open>Request fingerprints\<close>

text \<open>
  A request fingerprint identifies the request: two evaluations with the same fingerprint are for
  the same source, project, environment, action, resource, amounts at their precision and metadata
  (as JSON), unless the two hashed texts are a collision of SHA-256.
\<close>

theorem fingerprint_identifies_request:
  assumes "stable_fingerprint sha source gi = stable_fingerprint sha source' gi'"
    and "let x = json_dumps (JObj (fingerprint_payload source gi)); y = json_dumps (JObj (fingerprint_payload source' gi'))
         in sha x = sha y \<longrightarrow> x = y"
  shows "source = source' \<and> gi_project_id gi = gi_project_id gi'
    \<and> normalize_environment (gi_environment gi) = normalize_environment (gi_environment gi')
    \<and> gi_action gi = gi_action gi' \<and> gi_resource_reference gi = gi_resource_reference gi'
    \<and> quantize 4 (gi_estimated_monthly_delta_usd gi) = quantize 4 (gi_estimated_monthly_delta_usd gi')
    \<and> quantize 6 (gi_estimated_hourly_delta_usd gi) = quantize 6 (gi_estimated_hourly_delta_usd gi')
    \<and> canon_of (JObj (gi_metadata gi)) = canon_of (JObj (gi_metadata gi'))"
proof -
  let ?p = "fingerprint_payload source gi" and ?q = "fingerprint_payload source' gi'"
  have "canon_of (JObj ?p) = canon_of (JObj ?q)"
    using assms by (intro json_dumps_inject) (simp add: stable_fingerprint_def Let_def)
  moreover have "distinct (map fst (fingerprint_payload a b))" for a b by (simp add: fingerprint_payload_def)
  ultimately have member: "canon_of (dict_get ?p k) = canon_of (dict_get ?q k)" for k by (intro canon_member)
  have "source_value source = source_value source'" using member [of "''source''"] by (simp add: fingerprint_payload_def)
  then have "source = source'" by (metis source_of_value_roundtrip option.inject)
  moreover have "quantize 4 (gi_estimated_monthly_delta_usd gi) = quantize 4 (gi_estimated_monthly_delta_usd gi')"
    using member [of "''estimated_monthly_delta_usd''"]
      fixed_text_inject [of 4 "quantize 4 (gi_estimated_monthly_delta_usd gi)" "quantize 4 (gi_estimated_monthly_delta_usd gi')"]
    by (simp add: fingerprint_payload_def)
  moreover have "quantize 6 (gi_estimated_hourly_delta_usd gi) = quantize 6 (gi_estimated_hourly_delta_usd gi')"
    using member [of "''estimated_hourly_delta_usd''"]
      fixed_text_inject [of 6 "quantize 6 (gi_estimated_hourly_delta_usd gi)" "quantize 6 (gi_estimated_hourly_delta_usd gi')"]
    by (simp add: fingerprint_payload_def)
  ultimately show ?thesis
    using member [of "''project_id''"] member [of "''environment''"] member [of "''action''"]
      member [of "''resource_reference''"] member [of "''metadata''"]
    by (simp add: fingerprint_payload_def del: canon_of.simps(8))
qed

definition sample_gate_input :: "string \<Rightarrow> rat \<Rightarrow> gate_input" where
  "sample_gate_input environment delta =
     \<lparr>gi_project_id = ''shop'', gi_environment = environment, gi_action = ''apply'', gi_resource_reference = ''vm-1'',
      gi_estimated_monthly_delta_usd = delta, gi_estimated_hourly_delta_usd = 0, gi_metadata = [], gi_idempotency_key = None,
      gi_dry_run = False\<rparr>"

text \<open>Spellings of one environment and amounts beyond the fourth place share a fingerprint.\<close>

lemma fingerprint_identifies_request_witness:
  "stable_fingerprint id TERRAFORM (sample_gate_input ''Live'' 5) = stable_fingerprint id TERRAFORM (sample_gate_input ''prod'' 5)
   \<and> normalize_environment ''Live'' = normalize_environment ''prod''"
proof -
  have env: "normalize_environment ''Live'' = ''prod''" "normalize_environment ''prod'' = ''prod''" by code_simp+
  then have same: "stable_fingerprint id TERRAFORM (sample_gate_input ''Live'' 5)
      = stable_fingerprint id TERRAFORM (sample_gate_input ''prod'' 5)"
    by (simp add: stable_fingerprint_def fingerprint_payload_def sample_gate_input_def)
  have "normalize_environment (gi_environment (sample_gate_input ''Live'' 5))
      = normalize_environment (gi_environment (sample_gate_input ''prod'' 5))"
    using fingerprint_identifies_request [OF same] by (simp add: Let_def)
  with same show ?thesis by (simp add: sample_gate_input_def)
qed

end
