(* ===== verification/Base_Csv.thy ===== *)
theory Base_Csv
  imports Base_Json
begin

text \<open>
  Python's \<open>csv.writer\<close> with its default dialect, and a reader for what it writes. A cell is quoted
  when it holds a comma, a quote or a line break, and quotes inside it are doubled; a row ends in
  CR LF. The reader is the state machine of \<open>csv.reader\<close>; reading a written text gives the rows back,
  so no cell can add a column or a row.
\<close>

subsection \<open>Writing\<close>

definition csv_special :: "char \<Rightarrow> bool" where
  "csv_special c \<longleftrightarrow> c \<in> {CHR '','', CHR 0x22, CHR 0x0D, CHR 0x0A}"

definition csv_quoted :: "string \<Rightarrow> string" where
  "csv_quoted s = concat (map (\<lambda>c. if c = CHR 0x22 then [c, c] else [c]) s)"

definition csv_field :: "string \<Rightarrow> string" where
  "csv_field s = (if list_ex csv_special s then CHR 0x22 # csv_quoted s @ [CHR 0x22] else s)"

definition csv_row :: "string list \<Rightarrow> string" where
  "csv_row cells = (if cells = [[]] then [CHR 0x22, CHR 0x22] else join_text '','' (map csv_field cells))
     @ [CHR 0x0D, CHR 0x0A]"

definition csv_text :: "string list list \<Rightarrow> string" where
  "csv_text rows = concat (map csv_row rows)"

subsection \<open>Reading\<close>

datatype csv_mode = StartRecord | StartField | InField | InQuotedField | QuoteInQuotedField | EatNewline

record csv_state =
  cs_mode :: csv_mode
  cs_field :: string
  cs_row :: "string list"
  cs_rows :: "string list list"

definition csv_add :: "char \<Rightarrow> csv_mode \<Rightarrow> csv_state \<Rightarrow> csv_state" where
  "csv_add c m st = st\<lparr>cs_field := cs_field st @ [c], cs_mode := m\<rparr>"

definition csv_save :: "csv_state \<Rightarrow> csv_state" where
  "csv_save st = st\<lparr>cs_row := cs_row st @ [cs_field st], cs_field := [], cs_mode := StartField\<rparr>"

definition csv_end_row :: "char \<Rightarrow> csv_state \<Rightarrow> csv_state" where
  "csv_end_row c st = st\<lparr>cs_rows := cs_rows st @ [cs_row st], cs_row := [],
     cs_mode := (if c = CHR 0x0D then EatNewline else StartRecord)\<rparr>"

definition newline :: "char \<Rightarrow> bool" where
  "newline c \<longleftrightarrow> c = CHR 0x0D \<or> c = CHR 0x0A"

definition csv_start_field :: "csv_state \<Rightarrow> char \<Rightarrow> csv_state" where
  "csv_start_field st c =
     (if newline c then csv_end_row c (csv_save st)
      else if c = CHR 0x22 then st\<lparr>cs_mode := InQuotedField\<rparr>
      else if c = CHR '','' then csv_save st
      else csv_add c InField st)"

definition csv_start_record :: "csv_state \<Rightarrow> char \<Rightarrow> csv_state" where
  "csv_start_record st c = (if newline c then csv_end_row c st else csv_start_field st c)"

definition csv_in_field :: "csv_state \<Rightarrow> char \<Rightarrow> csv_state" where
  "csv_in_field st c =
     (if newline c then csv_end_row c (csv_save st)
      else if c = CHR '','' then csv_save st
      else csv_add c InField st)"

definition csv_step :: "csv_state \<Rightarrow> char \<Rightarrow> csv_state" where
  "csv_step st c =
     (case cs_mode st of
        StartRecord \<Rightarrow> csv_start_record st c
      | StartField \<Rightarrow> csv_start_field st c
      | InField \<Rightarrow> csv_in_field st c
      | InQuotedField \<Rightarrow> (if c = CHR 0x22 then st\<lparr>cs_mode := QuoteInQuotedField\<rparr> else csv_add c InQuotedField st)
      | QuoteInQuotedField \<Rightarrow> (if c = CHR 0x22 then csv_add c InQuotedField st else csv_in_field st c)
      | EatNewline \<Rightarrow> (if c = CHR 0x0A then st\<lparr>cs_mode := StartRecord\<rparr> else csv_start_record st c))"

definition csv_read :: "string \<Rightarrow> string list list" where
  "csv_read s =
     (let st = foldl csv_step \<lparr>cs_mode = StartRecord, cs_field = [], cs_row = [], cs_rows = []\<rparr> s in
      if cs_mode st = StartRecord \<or> cs_mode st = EatNewline then cs_rows st
      else cs_rows (csv_end_row CHR 0x0A (csv_save st)))"

subsection \<open>Reading what was written\<close>

abbreviation csv_at :: "csv_mode \<Rightarrow> string \<Rightarrow> string list \<Rightarrow> string list list \<Rightarrow> csv_state" where
  "csv_at m f r rs \<equiv> \<lparr>cs_mode = m, cs_field = f, cs_row = r, cs_rows = rs\<rparr>"

lemma csv_steps:
  "csv_step (csv_at StartRecord f r rs) c =
     (if newline c then csv_at (if c = CHR 0x0D then EatNewline else StartRecord) f [] (rs @ [r])
      else csv_step (csv_at StartField f r rs) c)"
  "csv_step (csv_at StartField f r rs) c =
     (if newline c then csv_at (if c = CHR 0x0D then EatNewline else StartRecord) [] [] (rs @ [r @ [f]])
      else if c = CHR 0x22 then csv_at InQuotedField f r rs
      else if c = CHR '','' then csv_at StartField [] (r @ [f]) rs
      else csv_at InField (f @ [c]) r rs)"
  "csv_step (csv_at InField f r rs) c =
     (if newline c then csv_at (if c = CHR 0x0D then EatNewline else StartRecord) [] [] (rs @ [r @ [f]])
      else if c = CHR '','' then csv_at StartField [] (r @ [f]) rs
      else csv_at InField (f @ [c]) r rs)"
  "csv_step (csv_at InQuotedField f r rs) c =
     (if c = CHR 0x22 then csv_at QuoteInQuotedField f r rs else csv_at InQuotedField (f @ [c]) r rs)"
  "csv_step (csv_at QuoteInQuotedField f r rs) c =
     (if c = CHR 0x22 then csv_at InQuotedField (f @ [c]) r rs else csv_step (csv_at InField f r rs) c)"
  "csv_step (csv_at EatNewline f r rs) c =
     (if c = CHR 0x0A then csv_at StartRecord f r rs else csv_step (csv_at StartRecord f r rs) c)"
  by (simp_all add: csv_step_def csv_start_record_def csv_start_field_def csv_in_field_def csv_add_def csv_save_def
      csv_end_row_def newline_def)

lemma newline_simps [simp]: "newline CHR 0x0D" "newline CHR 0x0A" "\<not> newline CHR '',''" "\<not> newline CHR 0x22"
  "\<not> csv_special c \<Longrightarrow> \<not> newline c"
  by (auto simp: newline_def csv_special_def)

lemma read_plain:
  "\<not> list_ex csv_special s \<Longrightarrow> foldl csv_step (csv_at InField f r rs) s = csv_at InField (f @ s) r rs"
  by (induction s arbitrary: f) (simp_all add: csv_steps csv_special_def)

lemma read_quoted:
  "foldl csv_step (csv_at InQuotedField f r rs) (csv_quoted s) = csv_at InQuotedField (f @ s) r rs"
  by (induction s arbitrary: f) (simp_all add: csv_steps csv_quoted_def)

text \<open>A written cell is read as itself and leaves the reader where a comma or a line break ends the cell.\<close>

lemma read_field:
  assumes "m = StartField \<or> m = StartRecord \<and> s \<noteq> []"
  shows "\<exists>m'. m' \<in> {m, InField, QuoteInQuotedField} \<and> (s \<noteq> [] \<longrightarrow> m' \<noteq> m)
    \<and> foldl csv_step (csv_at m [] r rs) (csv_field s) = csv_at m' s r rs"
proof (cases "list_ex csv_special s")
  case True
  then have "foldl csv_step (csv_at m [] r rs) (csv_field s) = csv_at QuoteInQuotedField s r rs"
    using assms read_quoted [of "[]" r rs s] by (auto simp: csv_field_def csv_steps)
  moreover have "m \<noteq> QuoteInQuotedField" using assms by auto
  ultimately show ?thesis by blast
next
  case plain: False
  show ?thesis
  proof (cases s)
    case Nil
    then show ?thesis by (simp add: csv_field_def)
  next
    case (Cons c t)
    then have "foldl csv_step (csv_at m [] r rs) (csv_field s) = csv_at InField s r rs"
      using assms plain read_plain [of t "[c]" r rs] by (auto simp: csv_field_def csv_steps csv_special_def)
    moreover have "m \<noteq> InField" using assms by auto
    ultimately show ?thesis by blast
  qed
qed

lemma read_cells:
  assumes "cells \<noteq> []"
  shows "foldl csv_step (csv_at StartField [] r rs) (join_text '','' (map csv_field cells) @ [CHR 0x0D, CHR 0x0A])
    = csv_at StartRecord [] [] (rs @ [r @ cells])"
  using assms
proof (induction cells arbitrary: r)
  case (Cons s cells)
  from read_field [of StartField s r rs] obtain m' where m': "m' \<in> {StartField, InField, QuoteInQuotedField}"
    "foldl csv_step (csv_at StartField [] r rs) (csv_field s) = csv_at m' s r rs" by auto
  show ?case
  proof (cases cells)
    case Nil
    with m' show ?thesis by (auto simp: csv_steps)
  next
    case (Cons s' cells')
    have "foldl csv_step (csv_at m' s r rs) [CHR '',''] = csv_at StartField [] (r @ [s]) rs"
      using m'(1) by (auto simp: csv_steps)
    with m'(2) Cons.IH [of "r @ [s]"] Cons show ?thesis by simp
  qed
qed simp

lemma read_row:
  assumes "cells \<noteq> []"
  shows "foldl csv_step (csv_at StartRecord [] [] rs) (csv_row cells) = csv_at StartRecord [] [] (rs @ [cells])"
proof (cases "cells = [[]]")
  case True
  then show ?thesis by (simp add: csv_row_def csv_steps)
next
  case False
  have "\<exists>c t. join_text '','' (map csv_field cells) = c # t \<and> \<not> newline c"
  proof (cases cells)
    case (Cons s cells')
    show ?thesis
    proof (cases "csv_field s")
      case Nil
      then have "s = []" by (auto simp: csv_field_def split: if_splits)
      with False Cons Nil show ?thesis by (cases cells') (auto simp: newline_def)
    next
      case first: (Cons c t)
      then have "\<not> newline c" by (auto simp: csv_field_def newline_def csv_special_def split: if_splits)
      with first Cons show ?thesis by (cases cells') auto
    qed
  qed (use assms in simp)
  then have "foldl csv_step (csv_at StartRecord [] [] rs) (csv_row cells)
      = foldl csv_step (csv_at StartField [] [] rs) (join_text '','' (map csv_field cells) @ [CHR 0x0D, CHR 0x0A])"
    using False by (auto simp: csv_row_def csv_steps)
  with read_cells [OF assms, of "[]" rs] show ?thesis by simp
qed

lemma csv_roundtrip:
  assumes "\<forall>row \<in> set rows. row \<noteq> []"
  shows "csv_read (csv_text rows) = rows"
proof -
  have "foldl csv_step (csv_at StartRecord [] [] rs) (csv_text rows) = csv_at StartRecord [] [] (rs @ rows)" for rs
    using assms by (induction rows arbitrary: rs) (simp_all add: csv_text_def read_row)
  then show ?thesis by (simp add: csv_read_def)
qed

end
