(* ===== verification/Enf_Export.thy ===== *)
theory Enf_Export
  imports Enf_Token Enf_Canonical Base_Csv
begin

text \<open>
  The export of decisions and approvals: src/app/modules/enforcement/domain/export_bundle_ops.py,
  export_bundle_csv.py, the value objects of service_models.py and the wrappers of
  service_runtime_ops.py. A bundle holds the decisions of a window and their approvals as CSV texts
  with their hashes, the lineage of the policies and contexts they were decided under, and a flag
  that compares counted with exported rows; a manifest signs what the bundle says.

  The bundle runs four queries. Other transactions may commit between them, so each query reads its
  own database. \<open>hmac\<close> is \<open>hmac.new(key, message, sha256).hexdigest()\<close>.
\<close>

fun decision_value :: "decision_type \<Rightarrow> string" where
  "decision_value ALLOW = ''ALLOW''"
| "decision_value DENY = ''DENY''"
| "decision_value REQUIRE_APPROVAL = ''REQUIRE_APPROVAL''"
| "decision_value ALLOW_WITH_CREDITS = ''ALLOW_WITH_CREDITS''"

definition iso_or_empty :: "instant option \<Rightarrow> string" where
  "iso_or_empty value = (case value of None \<Rightarrow> '''' | Some t \<Rightarrow> isoformat t)"

subsection \<open>The computed context of a stored decision\<close>

record context_snapshot =
  cs_context_version :: string
  cs_generated_at :: string
  cs_month_start :: string
  cs_month_end :: string
  cs_month_elapsed_days :: int
  cs_month_total_days :: int
  cs_observed_cost_days :: int
  cs_latest_cost_date :: string
  cs_data_source_mode :: string

text \<open>
  \<open>int(raw)\<close> as in the token claims; what does not convert counts as zero. The program stores
  integers under the keys this is used for.
\<close>

definition ctx_int :: "dict \<Rightarrow> string \<Rightarrow> int" where
  "ctx_int context key = (case claim_int (dict_get context key) of None \<Rightarrow> 0 | Some n \<Rightarrow> n)"

definition ctx_str :: "dict \<Rightarrow> string \<Rightarrow> string" where
  "ctx_str context key = text_or_empty (dict_get context key)"

definition computed_context_snapshot :: "dict \<Rightarrow> context_snapshot" where
  "computed_context_snapshot response_payload =
     (let context = as_dict (dict_get response_payload ''computed_context'') in
      \<lparr>cs_context_version = ctx_str context ''context_version'',
       cs_generated_at = ctx_str context ''generated_at'',
       cs_month_start = ctx_str context ''month_start'',
       cs_month_end = ctx_str context ''month_end'',
       cs_month_elapsed_days = ctx_int context ''month_elapsed_days'',
       cs_month_total_days = ctx_int context ''month_total_days'',
       cs_observed_cost_days = ctx_int context ''observed_cost_days'',
       cs_latest_cost_date = ctx_str context ''latest_cost_date'',
       cs_data_source_mode = ctx_str context ''data_source_mode''\<rparr>)"

subsection \<open>CSV\<close>

definition decisions_headers :: "string list" where
  "decisions_headers =
     [''decision_id'', ''source'', ''environment'', ''project_id'', ''action'', ''resource_reference'', ''decision'',
      ''reason_codes'', ''policy_version'', ''policy_document_schema_version'', ''policy_document_sha256'',
      ''computed_context_version'', ''computed_context_generated_at'', ''computed_context_month_start'',
      ''computed_context_month_end'', ''computed_context_month_elapsed_days'', ''computed_context_month_total_days'',
      ''computed_context_observed_cost_days'', ''computed_context_latest_cost_date'', ''computed_context_data_source_mode'',
      ''request_fingerprint'', ''idempotency_key'', ''estimated_monthly_delta_usd'', ''estimated_hourly_delta_usd'',
      ''allocation_available_usd'', ''credits_available_usd'', ''reserved_allocation_usd'', ''reserved_credit_usd'',
      ''reservation_active'', ''approval_required'', ''approval_token_issued'', ''token_expires_at'',
      ''created_by_user_id'', ''created_at'', ''request_payload'', ''response_payload'']"

text \<open>A \<open>Numeric(14, n)\<close> column comes back as a decimal with \<open>n\<close> places.\<close>

definition amount_or_empty :: "rat option \<Rightarrow> json" where
  "amount_or_empty v = (case v of None \<Rightarrow> JStr '''' | Some r \<Rightarrow> JDec 4 r)"

definition uuid_or_empty :: "uuid option \<Rightarrow> json" where
  "uuid_or_empty v = (case v of None \<Rightarrow> JStr '''' | Some i \<Rightarrow> JStr (uuid_text i))"

definition text_or_blank :: "string option \<Rightarrow> json" where
  "text_or_blank v = (case v of None \<Rightarrow> JStr '''' | Some s \<Rightarrow> JStr s)"

definition decision_cells :: "enforcement_decision \<Rightarrow> string list" where
  "decision_cells d =
     (let snapshot = computed_context_snapshot (ed_response_payload d) in
      map sanitize_csv_cell
        [JStr (uuid_text (ed_id d)), JStr (source_value (ed_source d)), JStr (ed_environment d), JStr (ed_project_id d),
         JStr (ed_action d), JStr (ed_resource_reference d), JStr (decision_value (ed_decision d)),
         JStr (json_dumps (JList (map JStr (ed_reason_codes d)))), JInt (ed_policy_version d),
         JStr (normalize_policy_document_schema_version (ed_policy_document_schema_version d)),
         JStr (normalize_policy_document_sha256 (ed_policy_document_sha256 d)),
         JStr (cs_context_version snapshot), JStr (cs_generated_at snapshot), JStr (cs_month_start snapshot),
         JStr (cs_month_end snapshot), JInt (cs_month_elapsed_days snapshot), JInt (cs_month_total_days snapshot),
         JInt (cs_observed_cost_days snapshot), JStr (cs_latest_cost_date snapshot), JStr (cs_data_source_mode snapshot),
         JStr (ed_request_fingerprint d), JStr (ed_idempotency_key d),
         JDec 4 (ed_estimated_monthly_delta_usd d), JDec 6 (ed_estimated_hourly_delta_usd d),
         amount_or_empty (ed_allocation_available_usd d), amount_or_empty (ed_credits_available_usd d),
         JDec 4 (ed_reserved_allocation_usd d), JDec 4 (ed_reserved_credit_usd d),
         JBool (ed_reservation_active d), JBool (ed_approval_required d), JBool (ed_approval_token_issued d),
         JStr (iso_or_empty (ed_token_expires_at d)), uuid_or_empty (ed_created_by_user_id d),
         JStr (iso_or_empty (Some (ed_created_at d))),
         JStr (json_dumps (JObj (ed_request_payload d))), JStr (json_dumps (JObj (ed_response_payload d)))])"

definition render_decisions_csv :: "enforcement_decision list \<Rightarrow> string" where
  "render_decisions_csv decisions = csv_text (decisions_headers # map decision_cells decisions)"

definition approvals_headers :: "string list" where
  "approvals_headers =
     [''approval_id'', ''decision_id'', ''status'', ''requested_by_user_id'', ''reviewed_by_user_id'', ''review_notes'',
      ''routing_rule_id'', ''routing_required_permission'', ''routing_allowed_reviewer_roles'',
      ''routing_require_requester_reviewer_separation'', ''approval_token_expires_at'', ''approval_token_consumed_at'',
      ''expires_at'', ''approved_at'', ''denied_at'', ''created_at'', ''updated_at'']"

definition approval_cells :: "approval_request \<Rightarrow> string list" where
  "approval_cells a =
     (let trace = ar_routing_trace a;
          roles = (case dict_get trace ''allowed_reviewer_roles'' of JList xs \<Rightarrow> xs | _ \<Rightarrow> []);
          permission = dict_get trace ''required_permission'' in
      map sanitize_csv_cell
        [JStr (uuid_text (ar_id a)), JStr (uuid_text (ar_decision_id a)), JStr (approval_status_value (ar_status a)),
         uuid_or_empty (ar_requested_by_user_id a), uuid_or_empty (ar_reviewed_by_user_id a),
         text_or_blank (ar_review_notes a), text_or_blank (ar_routing_rule_id a),
         (if py_truthy permission then permission else JStr ''''), JStr (join_text '','' (map py_str roles)),
         JBool (py_truthy (dict_get trace ''require_requester_reviewer_separation'')),
         JStr (iso_or_empty (ar_approval_token_expires_at a)), JStr (iso_or_empty (ar_approval_token_consumed_at a)),
         JStr (iso_or_empty (Some (ar_expires_at a))), JStr (iso_or_empty (ar_approved_at a)),
         JStr (iso_or_empty (ar_denied_at a)), JStr (iso_or_empty (Some (ar_created_at a))),
         JStr (iso_or_empty (Some (ar_updated_at a)))])"

definition render_approvals_csv :: "approval_request list \<Rightarrow> string" where
  "render_approvals_csv approvals = csv_text (approvals_headers # map approval_cells approvals)"

subsection \<open>Lineage\<close>

text \<open>The dictionary of counts, updated key by key, and its rows in the order of the keys.\<close>

definition count_key :: "'k \<Rightarrow> ('k \<times> nat) list \<Rightarrow> ('k \<times> nat) list" where
  "count_key key counts = AList.update key ((case map_of counts key of None \<Rightarrow> 0 | Some n \<Rightarrow> n) + 1) counts"

definition lineage_counts :: "'k list \<Rightarrow> ('k \<times> nat) list" where
  "lineage_counts keys = fold count_key keys []"

definition lineage_rows :: "'k::linorder list \<Rightarrow> ('k \<times> nat) list" where
  "lineage_rows keys =
     (let counts = lineage_counts keys in
      map (\<lambda>key. (key, case map_of counts key of None \<Rightarrow> 0 | Some n \<Rightarrow> n)) (sort (map fst counts)))"

definition policy_key :: "enforcement_decision \<Rightarrow> string \<times> string" where
  "policy_key d = (normalize_policy_document_schema_version (ed_policy_document_schema_version d),
     normalize_policy_document_sha256 (ed_policy_document_sha256 d))"

definition policy_row :: "(string \<times> string) \<times> nat \<Rightarrow> dict" where
  "policy_row = (\<lambda>((schema_version, policy_hash), n).
     [(''policy_document_schema_version'', JStr schema_version), (''policy_document_sha256'', JStr policy_hash),
      (''decision_count'', JInt (int n))])"

definition policy_lineage :: "enforcement_decision list \<Rightarrow> dict list" where
  "policy_lineage decisions = map policy_row (lineage_rows (map policy_key decisions))"

type_synonym context_key = "string \<times> string \<times> string \<times> string \<times> int \<times> int \<times> int \<times> string \<times> string"

definition context_key_of :: "enforcement_decision \<Rightarrow> context_key" where
  "context_key_of d =
     (let s = computed_context_snapshot (ed_response_payload d) in
      (cs_context_version s, cs_generated_at s, cs_month_start s, cs_month_end s, cs_month_elapsed_days s,
       cs_month_total_days s, cs_observed_cost_days s, cs_latest_cost_date s, cs_data_source_mode s))"

definition context_row :: "context_key \<times> nat \<Rightarrow> dict" where
  "context_row = (\<lambda>((context_version, generated_at, month_start, month_end, elapsed, total, observed, latest, mode), n).
     [(''context_version'', JStr context_version), (''generated_at'', JStr generated_at),
      (''month_start'', JStr month_start), (''month_end'', JStr month_end),
      (''month_elapsed_days'', JInt elapsed), (''month_total_days'', JInt total),
      (''observed_cost_days'', JInt observed), (''latest_cost_date'', JStr latest),
      (''data_source_mode'', JStr mode), (''decision_count'', JInt (int n))])"

definition computed_context_lineage :: "enforcement_decision list \<Rightarrow> dict list" where
  "computed_context_lineage decisions = map context_row (lineage_rows (map context_key_of decisions))"

definition lineage_json :: "dict list \<Rightarrow> json" where
  "lineage_json rows = JList (map JObj rows)"

subsection \<open>The bundle\<close>

record export_bundle =
  eb_generated_at :: instant
  eb_window_start :: instant
  eb_window_end :: instant
  eb_decision_count_db :: nat
  eb_decision_count_exported :: nat
  eb_approval_count_db :: nat
  eb_approval_count_exported :: nat
  eb_decisions_sha256 :: string
  eb_approvals_sha256 :: string
  eb_policy_lineage_sha256 :: string
  eb_policy_lineage :: "dict list"
  eb_computed_context_lineage_sha256 :: string
  eb_computed_context_lineage :: "dict list"
  eb_decisions_csv :: string
  eb_approvals_csv :: string
  eb_parity_ok :: bool

definition in_window :: "uuid \<Rightarrow> instant \<Rightarrow> instant \<Rightarrow> enforcement_decision \<Rightarrow> bool" where
  "in_window tenant_id start finish d \<longleftrightarrow>
     ed_tenant_id d = tenant_id \<and> start \<le> ed_created_at d \<and> ed_created_at d \<le> finish"

definition exported_decisions :: "enf_db \<Rightarrow> uuid \<Rightarrow> instant \<Rightarrow> instant \<Rightarrow> enforcement_decision list" where
  "exported_decisions db tenant_id start finish =
     sort_key (\<lambda>d. (ed_created_at d, ed_id d)) (filter (in_window tenant_id start finish) (db_decisions db))"

definition counted_approvals :: "enf_db \<Rightarrow> uuid \<Rightarrow> instant \<Rightarrow> instant \<Rightarrow> nat" where
  "counted_approvals db tenant_id start finish =
     length (concat (map (\<lambda>a. filter (\<lambda>d. ed_id d = ar_decision_id a \<and> in_window tenant_id start finish d) (db_decisions db))
       (filter (\<lambda>a. ar_tenant_id a = tenant_id) (db_approvals db))))"

definition exported_approvals :: "enf_db \<Rightarrow> uuid \<Rightarrow> enforcement_decision list \<Rightarrow> approval_request list" where
  "exported_approvals db tenant_id decisions =
     (if decisions = [] then []
      else sort_key (\<lambda>a. (ar_created_at a, ar_id a))
        (filter (\<lambda>a. ar_tenant_id a = tenant_id \<and> ar_decision_id a \<in> set (map ed_id decisions)) (db_approvals db)))"

definition build_export_bundle ::
  "(string \<Rightarrow> string) \<Rightarrow> enf_db \<Rightarrow> enf_db \<Rightarrow> enf_db \<Rightarrow> enf_db \<Rightarrow> uuid \<Rightarrow> instant \<Rightarrow> instant \<Rightarrow> int \<Rightarrow> instant
    \<Rightarrow> export_bundle res" where
  "build_export_bundle sha db1 db2 db3 db4 tenant_id window_start window_end max_rows now =
     (let decision_count_db = count_where (in_window tenant_id window_start window_end) (db_decisions db1);
          decisions = exported_decisions db2 tenant_id window_start window_end;
          approval_count_db = counted_approvals db3 tenant_id window_start window_end;
          approvals = exported_approvals db4 tenant_id decisions;
          policies = policy_lineage decisions;
          contexts = computed_context_lineage decisions;
          decisions_csv = render_decisions_csv decisions;
          approvals_csv = render_approvals_csv approvals in
      if max_rows < 1 then Inl (HTTPException 422 ''max_rows must be >= 1'')
      else if 50000 < max_rows then Inl (HTTPException 422 ''max_rows must be <= 50000'')
      else if window_end \<le> window_start then Inl (HTTPException 422 ''window_start must be before window_end'')
      else if max_rows < int decision_count_db then
        Inl (HTTPException 422 (''Export window exceeds max_rows ('' @ int_text max_rows
          @ ''). Narrow the date range or increase max_rows.''))
      else Inr
        \<lparr>eb_generated_at = now, eb_window_start = window_start, eb_window_end = window_end,
         eb_decision_count_db = decision_count_db, eb_decision_count_exported = length decisions,
         eb_approval_count_db = approval_count_db, eb_approval_count_exported = length approvals,
         eb_decisions_sha256 = sha decisions_csv, eb_approvals_sha256 = sha approvals_csv,
         eb_policy_lineage_sha256 = sha (json_dumps (lineage_json policies)), eb_policy_lineage = policies,
         eb_computed_context_lineage_sha256 = sha (json_dumps (lineage_json contexts)),
         eb_computed_context_lineage = contexts,
         eb_decisions_csv = decisions_csv, eb_approvals_csv = approvals_csv,
         eb_parity_ok = (decision_count_db = length decisions \<and> approval_count_db = length approvals)\<rparr>)"

subsection \<open>The signed manifest\<close>

record export_settings =
  es_export_signing_secret :: string
  es_supabase_jwt_secret :: string
  es_export_signing_kid :: string
  es_jwt_signing_kid :: string

definition resolve_manifest_signing_secret :: "string \<Rightarrow> string \<Rightarrow> string res" where
  "resolve_manifest_signing_secret configured_secret fallback_secret =
     (let configured = strip configured_secret; fallback = strip fallback_secret in
      if 32 \<le> length configured then Inr configured
      else if 32 \<le> length fallback then Inr fallback
      else Inl (HTTPException 503 ''Export manifest signing key is not configured''))"

definition resolve_manifest_signing_key_id :: "string \<Rightarrow> string \<Rightarrow> string" where
  "resolve_manifest_signing_key_id explicit_key_id jwt_signing_key_id =
     (let explicit = strip explicit_key_id; jwt_kid = strip jwt_signing_key_id in
      if explicit \<noteq> '''' then take 64 explicit
      else if jwt_kid \<noteq> '''' then take 64 jwt_kid
      else ''enforcement-export-hmac-v1'')"

record export_manifest =
  em_schema_version :: string
  em_generated_at :: instant
  em_tenant_id :: uuid
  em_window_start :: instant
  em_window_end :: instant
  em_decision_count_db :: nat
  em_decision_count_exported :: nat
  em_approval_count_db :: nat
  em_approval_count_exported :: nat
  em_decisions_sha256 :: string
  em_approvals_sha256 :: string
  em_policy_lineage_sha256 :: string
  em_policy_lineage :: "dict list"
  em_computed_context_lineage_sha256 :: string
  em_computed_context_lineage :: "dict list"
  em_parity_ok :: bool
  em_content_sha256 :: string
  em_signature_algorithm :: string
  em_signature_key_id :: string
  em_signature :: string
  em_canonical_content_json :: string

definition manifest_schema_version :: string where
  "manifest_schema_version = ''valdrics.enforcement.export_manifest.v1''"

definition manifest_content :: "uuid \<Rightarrow> export_bundle \<Rightarrow> dict" where
  "manifest_content tenant_id b =
     [(''schema_version'', JStr manifest_schema_version), (''tenant_id'', JStr (uuid_text tenant_id)),
      (''window_start'', JTime (eb_window_start b)), (''window_end'', JTime (eb_window_end b)),
      (''decision_count_db'', JInt (int (eb_decision_count_db b))),
      (''decision_count_exported'', JInt (int (eb_decision_count_exported b))),
      (''approval_count_db'', JInt (int (eb_approval_count_db b))),
      (''approval_count_exported'', JInt (int (eb_approval_count_exported b))),
      (''decisions_sha256'', JStr (eb_decisions_sha256 b)), (''approvals_sha256'', JStr (eb_approvals_sha256 b)),
      (''policy_lineage_sha256'', JStr (eb_policy_lineage_sha256 b)),
      (''policy_lineage'', lineage_json (eb_policy_lineage b)),
      (''computed_context_lineage_sha256'', JStr (eb_computed_context_lineage_sha256 b)),
      (''computed_context_lineage'', lineage_json (eb_computed_context_lineage b)),
      (''parity_ok'', JBool (eb_parity_ok b))]"

definition build_signed_export_manifest ::
  "(string \<Rightarrow> string) \<Rightarrow> (string \<Rightarrow> string \<Rightarrow> string) \<Rightarrow> export_settings \<Rightarrow> uuid \<Rightarrow> export_bundle \<Rightarrow> export_manifest res" where
  "build_signed_export_manifest sha hmac st tenant_id b =
     (let canonical = canonical_json (manifest_content tenant_id b) in
      bind_res (resolve_manifest_signing_secret (es_export_signing_secret st) (es_supabase_jwt_secret st)) (\<lambda>secret.
        Inr \<lparr>em_schema_version = manifest_schema_version, em_generated_at = eb_generated_at b, em_tenant_id = tenant_id,
             em_window_start = eb_window_start b, em_window_end = eb_window_end b,
             em_decision_count_db = eb_decision_count_db b, em_decision_count_exported = eb_decision_count_exported b,
             em_approval_count_db = eb_approval_count_db b, em_approval_count_exported = eb_approval_count_exported b,
             em_decisions_sha256 = eb_decisions_sha256 b, em_approvals_sha256 = eb_approvals_sha256 b,
             em_policy_lineage_sha256 = eb_policy_lineage_sha256 b, em_policy_lineage = eb_policy_lineage b,
             em_computed_context_lineage_sha256 = eb_computed_context_lineage_sha256 b,
             em_computed_context_lineage = eb_computed_context_lineage b, em_parity_ok = eb_parity_ok b,
             em_content_sha256 = sha canonical, em_signature_algorithm = ''hmac-sha256'',
             em_signature_key_id = resolve_manifest_signing_key_id (es_export_signing_kid st) (es_jwt_signing_kid st),
             em_signature = hmac secret canonical, em_canonical_content_json = canonical\<rparr>))"

definition manifest_payload :: "export_manifest \<Rightarrow> dict" where
  "manifest_payload m =
     [(''schema_version'', JStr (em_schema_version m)), (''generated_at'', JTime (em_generated_at m)),
      (''tenant_id'', JStr (uuid_text (em_tenant_id m))),
      (''window_start'', JTime (em_window_start m)), (''window_end'', JTime (em_window_end m)),
      (''decision_count_db'', JInt (int (em_decision_count_db m))),
      (''decision_count_exported'', JInt (int (em_decision_count_exported m))),
      (''approval_count_db'', JInt (int (em_approval_count_db m))),
      (''approval_count_exported'', JInt (int (em_approval_count_exported m))),
      (''decisions_sha256'', JStr (em_decisions_sha256 m)), (''approvals_sha256'', JStr (em_approvals_sha256 m)),
      (''policy_lineage_sha256'', JStr (em_policy_lineage_sha256 m)),
      (''policy_lineage'', lineage_json (em_policy_lineage m)),
      (''computed_context_lineage_sha256'', JStr (em_computed_context_lineage_sha256 m)),
      (''computed_context_lineage'', lineage_json (em_computed_context_lineage m)),
      (''parity_ok'', JBool (em_parity_ok m)),
      (''manifest_content_sha256'', JStr (em_content_sha256 m)),
      (''manifest_signature_algorithm'', JStr (em_signature_algorithm m)),
      (''manifest_signature_key_id'', JStr (em_signature_key_id m)),
      (''manifest_signature'', JStr (em_signature m))]"

end
