(* ===== verification/Enf_Release.thy ===== *)
theory Enf_Release
  imports Enf_Gate_Facts
begin

text \<open>
  Releasing a decision's reservation. Approvals that are denied or expire, reconciliation and the
  overdue sweep all settle the decision's credit and then write the decision back with nothing
  reserved. The lemmas here say when that succeeds and that it keeps the invariant of the
  enforcement tables.
\<close>

definition clear_reservation :: "enforcement_decision \<Rightarrow> enforcement_decision" where
  "clear_reservation d = d\<lparr>ed_reservation_active := False, ed_reserved_allocation_usd := 0,
     ed_reserved_credit_usd := 0\<rparr>"

text \<open>What no operation changes of a decision: its keys, its outcome and what was asked for.\<close>

definition decision_keeps :: "enforcement_decision \<Rightarrow> enforcement_decision \<Rightarrow> bool" where
  "decision_keeps d d' \<longleftrightarrow> owner_key d' = owner_key d \<and> gate_key d' = gate_key d \<and> ed_decision d' = ed_decision d
     \<and> ed_approval_required d' = ed_approval_required d \<and> ed_request_fingerprint d' = ed_request_fingerprint d
     \<and> ed_estimated_monthly_delta_usd d' = ed_estimated_monthly_delta_usd d \<and> ed_created_at d' = ed_created_at d
     \<and> (ed_reservation_active d' \<longrightarrow> ed_reservation_active d)"

definition settlement_json :: "dict list \<Rightarrow> json" where
  "settlement_json settlement = JList (map JObj settlement)"

subsection \<open>The open allocations of a decision\<close>

lemma open_allocations_Nil:
  "open_allocations db t did = [] \<longleftrightarrow>
     (\<forall>a \<in> set (db_allocations db). \<not> (ca_tenant_id a = t \<and> ca_decision_id a = did \<and> ca_active a))"
  by (auto simp: open_allocations_def simp flip: set_empty)

lemma owner_unique:
  assumes "enf_inv db" "d \<in> set (db_decisions db)" "x \<in> set (db_decisions db)" "ed_id x = ed_id d"
  shows "x = d"
  using assms enf_invD(2) [OF assms(1)] by (auto simp: distinct_map inj_on_def)

lemma open_of_inactive:
  assumes inv: "enf_inv db" and d: "d \<in> set (db_decisions db)" "\<not> ed_reservation_active d"
  shows "open_allocations db (ed_tenant_id d) (ed_id d) = []"
proof -
  have "\<not> (ca_tenant_id a = ed_tenant_id d \<and> ca_decision_id a = ed_id d \<and> ca_active a)"
    if "a \<in> set (db_allocations db)" for a
    using enf_invD(7) [OF inv that] d(2)
    by (auto simp: allocation_owned_def owner_key_def dest: owner_unique [OF inv d(1)])
  then show ?thesis by (simp add: open_allocations_Nil)
qed

lemma open_of_zero:
  assumes inv: "enf_inv db" and d: "d \<in> set (db_decisions db)" "ed_reserved_credit_usd d = 0"
  shows "open_allocations db (ed_tenant_id d) (ed_id d) = []"
proof (cases "ed_reservation_active d")
  case True
  let ?as = "open_allocations db (ed_tenant_id d) (ed_id d)"
  have ok: "allocation_ok a" if "a \<in> set ?as" for a
    using that open_allocations_facts(1) [OF enf_invD(1) [OF inv]] enf_invD(1) [OF inv]
    by (fastforce simp: credit_wf_def)
  have "reserved_total ?as = 0"
    using enf_invD(6) [OF inv d(1)] True d(2) by (simp add: decision_ok_def covered_def)
  then have "ca_reserved_amount_usd a = 0" if "a \<in> set ?as" for a
    using sum_list_zero [of ?as ca_reserved_amount_usd a] ok that by (auto simp: reserved_total_def allocation_ok_def)
  with ok show ?thesis by (cases ?as) (auto simp: allocation_ok_def)
qed (rule open_of_inactive [OF inv d(1)])

subsection \<open>Settling\<close>

lemma settle_cases:
  assumes inv: "enf_inv db" and d: "d \<in> set (db_decisions db)" "ed_tenant_id d = tenant_id"
    and run: "settle_credit_reservations_for_decision db tenant_id d c now = Inr (diags, db1)"
  obtains (none) "db1 = db" "ed_reserved_credit_usd d = 0" "open_allocations db tenant_id (ed_id d) = []"
    | (settled) "ed_reservation_active d" "0 < ed_reserved_credit_usd d" "credit_wf db1"
      "settles_credit tenant_id d (quantize 4 (min (max 0 c) (ed_reserved_credit_usd d))) now db db1"
proof (cases "0 < ed_reserved_credit_usd d")
  case False
  have m: "money (ed_reserved_credit_usd d)" using enf_invD(6) [OF inv d(1)] by (simp add: decision_ok_def)
  with False have "ed_reserved_credit_usd d = 0" by (auto dest: money_nonneg)
  with none run open_of_zero [OF inv d(1)] d(2) show ?thesis
    by (simp add: settle_credit_reservations_for_decision_def)
next
  case True
  have m: "money (ed_reserved_credit_usd d)" using enf_invD(6) [OF inv d(1)] by (simp add: decision_ok_def)
  show ?thesis
  proof (cases "ed_reservation_active d")
    case False
    from run True open_of_inactive [OF inv d(1) False] d(2) m show ?thesis
      by (simp add: settle_credit_reservations_for_decision_def Let_def money_grid)
  next
    case active: True
    then have cov: "covered db tenant_id d" using enf_invD(6) [OF inv d(1)] d(2) by (simp add: decision_ok_def)
    from settle_credit_ok [OF enf_invD(1) [OF inv] cov True refl, of c now] run settled active True show ?thesis
      by (metis Inr_inject prod.inject)
  qed
qed

lemma settle_succeeds:
  assumes inv: "enf_inv db" and d: "d \<in> set (db_decisions db)" "ed_tenant_id d = tenant_id"
    and "ed_reservation_active d \<or> ed_reserved_credit_usd d = 0"
  shows "\<exists>diags db1. settle_credit_reservations_for_decision db tenant_id d c now = Inr (diags, db1)"
proof (cases "0 < ed_reserved_credit_usd d")
  case True
  with assms(4) have "covered db tenant_id d" using enf_invD(6) [OF inv d(1)] d(2) by (auto simp: decision_ok_def)
  from settle_credit_ok [OF enf_invD(1) [OF inv] this True refl, of c now] show ?thesis by metis
next
  case False
  then show ?thesis using enf_invD(6) [OF inv d(1)]
    by (auto simp: settle_credit_reservations_for_decision_def decision_ok_def money_grid not_less)
qed

lemma settle_frame:
  assumes "settle_credit_reservations_for_decision db tenant_id d c now = Inr (diags, db1)"
  shows "db_decisions db1 = db_decisions db" "db_approvals db1 = db_approvals db" "db_next_id db1 = db_next_id db"
    "db_ledger db1 = db_ledger db" "db_policies db1 = db_policies db" "db_actions db1 = db_actions db"
    "db_budgets db1 = db_budgets db"
proof -
  have "\<exists>gs as. db1 = db\<lparr>db_grants := gs, db_allocations := as\<rparr>"
  proof (cases "quantize 4 (ed_reserved_credit_usd d) \<le> 0")
    case True
    with assms have "db1 = db\<lparr>db_grants := db_grants db, db_allocations := db_allocations db\<rparr>"
      by (simp add: settle_credit_reservations_for_decision_def)
    then show ?thesis by blast
  next
    case False
    let ?R = "quantize 4 (ed_reserved_credit_usd d)" and ?as = "open_allocations db tenant_id (ed_id d)"
    let ?c = "quantize 4 (min (max 0 c) ?R)"
    let ?L = "settle_loop tenant_id (sort (remdups (map ca_credit_grant_id ?as))) now ?as
        \<lparr>ss_grants = db_grants db, ss_remaining_consume = ?c, ss_remaining_release = quantize 4 (?R - ?c)\<rparr>"
    have run: "(if ?as = [] then Inl (HTTPException 409 ''Missing credit reservation allocation rows for decision settlement'')
        else bind_res ?L (\<lambda>(st, settled, diagnostics).
          if 0 < ss_remaining_consume st \<or> 0 < ss_remaining_release st
          then Inl (settlement_drift (ss_remaining_consume st) (ss_remaining_release st))
          else Inr (diagnostics, db\<lparr>db_grants := ss_grants st,
                 db_allocations := write_allocations settled (db_allocations db)\<rparr>))) = Inr (diags, db1)"
      using assms unfolding settle_credit_reservations_for_decision_def Let_def if_not_P [OF False] .
    then obtain st settled diagnostics where l: "?L = Inr (st, settled, diagnostics)"
      by (cases ?L) (auto split: if_splits)
    from run have "db1 = db\<lparr>db_grants := ss_grants st,
        db_allocations := write_allocations settled (db_allocations db)\<rparr>"
      unfolding l by (simp split: if_splits)
    then show ?thesis by blast
  qed
  then show "db_decisions db1 = db_decisions db" "db_approvals db1 = db_approvals db" "db_next_id db1 = db_next_id db"
    "db_ledger db1 = db_ledger db" "db_policies db1 = db_policies db" "db_actions db1 = db_actions db"
    "db_budgets db1 = db_budgets db"
    by auto
qed

text \<open>Settlement touches only the open allocations of its decision, and closes them all.\<close>

lemma filter_map_same:
  assumes "\<And>r. r \<in> set rows \<Longrightarrow> h r = r \<or> (\<not> p r \<and> \<not> p (h r))"
  shows "filter p (map h rows) = filter p rows"
  using assms
proof (induction rows)
  case (Cons r rows)
  then have "filter p (map h rows) = filter p rows" by simp
  moreover have "h r = r \<or> (\<not> p r \<and> \<not> p (h r))" using Cons.prems by simp
  ultimately show ?case by (elim disjE) simp_all
qed simp

lemma settles_rows:
  assumes wf: "credit_wf db" and s: "list_all2 (closes now) (open_allocations db tenant_id did) settled"
  shows "\<And>a. a \<in> set settled \<Longrightarrow> \<not> ca_active a \<and> ca_tenant_id a = tenant_id \<and> ca_decision_id a = did"
    and "\<And>r. r \<in> set (db_allocations db) \<Longrightarrow> ca_id r \<in> ca_id ` set settled
      \<longleftrightarrow> ca_tenant_id r = tenant_id \<and> ca_decision_id r = did \<and> ca_active r"
proof -
  have to: "\<exists>a \<in> set (open_allocations db tenant_id did). closes now a x" if "x \<in> set settled" for x
    using s that by (metis in_set_conv_nth list_all2_conv_all_nth)
  have fro: "\<exists>x \<in> set settled. closes now a x" if "a \<in> set (open_allocations db tenant_id did)" for a
    using s that by (metis in_set_conv_nth list_all2_conv_all_nth)
  note facts = open_allocations_facts(3) [OF wf, of _ tenant_id did]
  show "\<not> ca_active a \<and> ca_tenant_id a = tenant_id \<and> ca_decision_id a = did" if "a \<in> set settled" for a
    using to [OF that] facts closesD by metis
  show "ca_id r \<in> ca_id ` set settled \<longleftrightarrow> ca_tenant_id r = tenant_id \<and> ca_decision_id r = did \<and> ca_active r"
    if r: "r \<in> set (db_allocations db)" for r
  proof
    assume "ca_id r \<in> ca_id ` set settled"
    then obtain o' where "o' \<in> set (open_allocations db tenant_id did)" "ca_id o' = ca_id r"
      using to closesD(1) by (metis imageE)
    moreover from this r have "o' = r" using wf facts by (auto simp: credit_wf_def distinct_map inj_on_def)
    ultimately show "ca_tenant_id r = tenant_id \<and> ca_decision_id r = did \<and> ca_active r" using facts by blast
  next
    assume "ca_tenant_id r = tenant_id \<and> ca_decision_id r = did \<and> ca_active r"
    then show "ca_id r \<in> ca_id ` set settled" using fro [of r] r facts closesD(1) by (metis image_eqI)
  qed
qed

lemma settles_open:
  assumes wf: "credit_wf db" and s: "settles_credit tenant_id d consumed now db db1"
  shows "did \<noteq> ed_id d \<Longrightarrow> open_allocations db1 t did = open_allocations db t did"
    and "open_allocations db1 tenant_id (ed_id d) = []"
    and "a \<in> set (db_allocations db1) \<Longrightarrow> \<exists>r \<in> set (db_allocations db). ca_decision_id r = ca_decision_id a
       \<and> ca_tenant_id r = ca_tenant_id a \<and> (ca_active a \<longrightarrow> ca_active r)"
proof -
  from s obtain settled where s: "list_all2 (closes now) (open_allocations db tenant_id (ed_id d)) settled"
    "db_allocations db1 = write_allocations settled (db_allocations db)" by (auto simp: settles_credit_def)
  note rows = settles_rows [OF wf s(1)]
  let ?h = "\<lambda>r. case first_row (\<lambda>a. ca_id a = ca_id r) settled of None \<Rightarrow> r | Some a \<Rightarrow> a"
  have h: "(?h r = r \<and> ca_id r \<notin> ca_id ` set settled) \<or> (?h r \<in> set settled \<and> ca_id r \<in> ca_id ` set settled)" for r
  proof (cases "first_row (\<lambda>a. ca_id a = ca_id r) settled")
    case None
    then have "ca_id r \<notin> ca_id ` set settled" by (force simp: first_row_None)
    with None show ?thesis by simp
  next
    case (Some a)
    with first_row_SomeD [OF Some] show ?thesis by (simp add: image_iff) metis
  qed
  show "open_allocations db1 t did = open_allocations db t did" if "did \<noteq> ed_id d"
    unfolding open_allocations_def s(2) write_allocations_def
    by (rule arg_cong [where f = "sort_key ca_created_at"], rule filter_map_same) (use h rows that in metis)
  have "\<not> (ca_tenant_id a = tenant_id \<and> ca_decision_id a = ed_id d \<and> ca_active a)"
    if "a \<in> set (db_allocations db1)" for a
    using that h rows unfolding s(2) write_allocations_def set_map by (metis (no_types, lifting) imageE)
  then show "open_allocations db1 tenant_id (ed_id d) = []" by (simp add: open_allocations_def filter_empty_conv)
  show "\<exists>r \<in> set (db_allocations db). ca_decision_id r = ca_decision_id a
       \<and> ca_tenant_id r = ca_tenant_id a \<and> (ca_active a \<longrightarrow> ca_active r)" if "a \<in> set (db_allocations db1)"
  proof -
    from that obtain r where r: "r \<in> set (db_allocations db)" "a = ?h r"
      unfolding s(2) write_allocations_def by auto
    with h [of r] rows show ?thesis by metis
  qed
qed

subsection \<open>Credit that comes back\<close>

text \<open>The credit a tenant has left, over all its grants.\<close>

definition tenant_credit :: "enf_db \<Rightarrow> uuid \<Rightarrow> rat" where
  "tenant_credit db tenant_id =
     sum_list (map cg_remaining_amount_usd (filter (\<lambda>g. cg_tenant_id g = tenant_id) (db_grants db)))"

lemma sum_outstanding:
  assumes "distinct ids" "\<And>a. a \<in> set as \<Longrightarrow> ca_credit_grant_id a \<in> set ids"
  shows "sum_list (map (outstanding as) ids) = sum_list (map held as)"
  using assms(2)
proof (induction as)
  case Nil
  then show ?case by (simp add: sum_list_0)
next
  case (Cons a as)
  have "sum_list (map (\<lambda>i. if ca_credit_grant_id a = i then held a else 0) ids) = held a"
    using assms(1) Cons.prems [of a] by (simp add: sum_list_distinct_conv_sum_set sum.delta')
  with Cons show ?case by (simp add: sum_list_addf)
qed

lemma books_total:
  assumes "map (grant_books as') gs' = map (grant_books as) gs"
  shows "map cg_id (filter (\<lambda>g. cg_tenant_id g = t) gs') = map cg_id (filter (\<lambda>g. cg_tenant_id g = t) gs)"
    and "(\<Sum>g\<leftarrow>filter (\<lambda>g. cg_tenant_id g = t) gs'. cg_remaining_amount_usd g + outstanding as' (cg_id g))
       = (\<Sum>g\<leftarrow>filter (\<lambda>g. cg_tenant_id g = t) gs. cg_remaining_amount_usd g + outstanding as (cg_id g))"
proof -
  have "map cg_id (filter (\<lambda>g. cg_tenant_id g = t) gs') = map cg_id (filter (\<lambda>g. cg_tenant_id g = t) gs)
    \<and> (\<Sum>g\<leftarrow>filter (\<lambda>g. cg_tenant_id g = t) gs'. cg_remaining_amount_usd g + outstanding as' (cg_id g))
       = (\<Sum>g\<leftarrow>filter (\<lambda>g. cg_tenant_id g = t) gs. cg_remaining_amount_usd g + outstanding as (cg_id g))"
    using assms
  proof (induction gs' arbitrary: gs)
    case (Cons g' gs')
    then obtain g gs0 where "gs = g # gs0" by (cases gs) auto
    with Cons show ?case by (auto simp: grant_books_def)
  qed simp
  then show "map cg_id (filter (\<lambda>g. cg_tenant_id g = t) gs') = map cg_id (filter (\<lambda>g. cg_tenant_id g = t) gs)"
    and "(\<Sum>g\<leftarrow>filter (\<lambda>g. cg_tenant_id g = t) gs'. cg_remaining_amount_usd g + outstanding as' (cg_id g))
       = (\<Sum>g\<leftarrow>filter (\<lambda>g. cg_tenant_id g = t) gs. cg_remaining_amount_usd g + outstanding as (cg_id g))"
    by simp_all
qed

lemma settles_returns:
  assumes wf: "credit_wf db" and s: "settles_credit tenant_id d consumed now db db1"
  shows "tenant_credit db1 tenant_id = tenant_credit db tenant_id + (ed_reserved_credit_usd d - consumed)"
proof -
  let ?as = "open_allocations db tenant_id (ed_id d)"
  let ?other = "filter (\<lambda>a. \<not> (ca_tenant_id a = tenant_id \<and> ca_decision_id a = ed_id d \<and> ca_active a)) (db_allocations db)"
  let ?T = "\<lambda>gs. filter (\<lambda>g. cg_tenant_id g = tenant_id) gs"
  let ?ids = "map cg_id (?T (db_grants db))"
  from s obtain settled where st: "list_all2 (closes now) ?as settled"
    "sum_list (map ca_released_amount_usd settled) = ed_reserved_credit_usd d - consumed"
    "db_allocations db1 = write_allocations settled (db_allocations db)"
    and books: "map (grant_books (db_allocations db1)) (db_grants db1) = map (grant_books (db_allocations db)) (db_grants db)"
    by (auto simp: settles_credit_def)
  note total = books_total [OF books, of tenant_id]
  have out1: "outstanding (db_allocations db1) gid = outstanding settled gid + outstanding ?other gid" for gid
    using outstanding_write_allocations [OF wf st(1)] by (simp add: st(3))
  have out0: "outstanding (db_allocations db) gid = outstanding ?as gid + outstanding ?other gid" for gid
    by (rule outstanding_split [OF wf])
  have dist: "distinct ?ids" using wf by (simp add: credit_wf_def distinct_map_filter)
  have in_ids: "ca_credit_grant_id a \<in> set ?ids" if "a \<in> set ?as" for a
    using that open_allocations_facts(3) [OF wf] wf by (fastforce simp: credit_wf_def grant_keys_def)
  have in_ids': "ca_credit_grant_id a \<in> set ?ids" if "a \<in> set settled" for a
    using that st(1) in_ids closesD(2) by (metis in_set_conv_nth list_all2_conv_all_nth)
  have held: "sum_list (map held ?as) = sum_list (map held settled) + sum_list (map ca_released_amount_usd settled)"
  proof -
    have "ca_released_amount_usd a = 0" if "a \<in> set ?as" for a
      using that open_allocations_facts(3) [OF wf] wf by (fastforce simp: credit_wf_def allocation_ok_def)
    then have "held a = held b + ca_released_amount_usd b" if "closes now a b" "a \<in> set ?as" for a b
      using that closesD(5) [OF that(1)] by (simp add: held_def)
    with st(1) show ?thesis by (induction rule: list_all2_induct) auto
  qed
  have "tenant_credit db1 tenant_id + sum_list (map (outstanding (db_allocations db1)) ?ids)
      = tenant_credit db tenant_id + sum_list (map (outstanding (db_allocations db)) ?ids)"
    using total unfolding tenant_credit_def by (simp add: sum_list_addf flip: map_map [unfolded o_def])
  moreover have "sum_list (map (outstanding (db_allocations db1)) ?ids)
      = sum_list (map held settled) + sum_list (map (outstanding ?other) ?ids)"
    unfolding out1 sum_list_addf by (simp only: sum_outstanding [OF dist in_ids'])
  moreover have "sum_list (map (outstanding (db_allocations db)) ?ids)
      = sum_list (map held ?as) + sum_list (map (outstanding ?other) ?ids)"
    unfolding out0 sum_list_addf by (simp only: sum_outstanding [OF dist in_ids])
  ultimately show ?thesis using held st(2) by linarith
qed

subsection \<open>Writing the released decision back\<close>

text \<open>
  A decision row may be written back over the tables of a settlement when it keeps its keys and
  either nothing of its own is open and it is inactive, or its reservation is as it was.
\<close>

lemma write_decision_inv:
  assumes inv: "enf_inv db" and d: "d \<in> set (db_decisions db)" and wf: "credit_wf db1"
    and frame: "db_decisions db1 = db_decisions db" "db_approvals db1 = db_approvals db" "db_next_id db \<le> db_next_id db1"
    and keys: "owner_key d' = owner_key d" "gate_key d' = gate_key d"
    and open_other: "\<And>t did. did \<noteq> ed_id d \<Longrightarrow> open_allocations db1 t did = open_allocations db t did"
    and own: "\<And>a. a \<in> set (db_allocations db1) \<Longrightarrow> ca_active a \<Longrightarrow> ca_decision_id a = ed_id d
        \<Longrightarrow> ca_tenant_id a = ed_tenant_id d \<Longrightarrow> ed_reservation_active d'"
    and rows: "\<And>a. a \<in> set (db_allocations db1) \<Longrightarrow> \<exists>r \<in> set (db_allocations db). ca_decision_id r = ca_decision_id a
       \<and> ca_tenant_id r = ca_tenant_id a \<and> (ca_active a \<longrightarrow> ca_active r)"
    and d': "money (ed_reserved_allocation_usd d')" "money (ed_reserved_credit_usd d')"
      "ed_reservation_active d' \<Longrightarrow> covered db1 (ed_tenant_id d') d'"
  shows "enf_inv (write_decision d' db1)"
proof -
  let ?db = "write_decision d' db1"
  have id: "ed_id d' = ed_id d" "ed_tenant_id d' = ed_tenant_id d" using keys(1) by (simp_all add: owner_key_def)
  have upd: "db_decisions ?db = update_where (\<lambda>r. ed_id r = ed_id d) (\<lambda>_. d') (db_decisions db)"
    by (simp add: write_decision_def frame id)
  have only: "x = d" if "x \<in> set (db_decisions db)" "ed_id x = ed_id d" for x
    using owner_unique [OF inv d that] .
  have maps: "map f (db_decisions ?db) = map f (db_decisions db)" if "f d' = f d" for f :: "enforcement_decision \<Rightarrow> 'b"
    unfolding upd by (rule map_update_where_on) (use only that in auto)
  have mem: "x \<in> set (db_decisions ?db) \<longleftrightarrow> x = d' \<or> (x \<in> set (db_decisions db) \<and> ed_id x \<noteq> ed_id d)" for x
    using d by (auto simp: upd set_update_where)
  have decisions: "decision_ok ?db x" if "x \<in> set (db_decisions ?db)" for x
  proof (cases "x = d'")
    case True
    have "ed_id d < db_next_id db" using enf_invD(6) [OF inv d] by (simp add: decision_ok_def)
    with True d' id frame(3) show ?thesis by (simp add: decision_ok_def covered_def open_allocations_def)
  next
    case False
    with that mem have x: "x \<in> set (db_decisions db)" "ed_id x \<noteq> ed_id d" by simp_all
    with enf_invD(6) [OF inv x(1)] open_other [OF x(2)] frame(3) show ?thesis
      by (simp add: decision_ok_def covered_def open_allocations_def [of ?db] open_allocations_def [of db1, symmetric])
  qed
  have allocations: "allocation_owned ?db a" if "a \<in> set (db_allocations ?db)" for a
  proof -
    from that have a: "a \<in> set (db_allocations db1)" by simp
    from rows [OF a] obtain r where r: "r \<in> set (db_allocations db)" "ca_decision_id r = ca_decision_id a"
      "ca_tenant_id r = ca_tenant_id a" "ca_active a \<longrightarrow> ca_active r" by blast
    from enf_invD(7) [OF inv r(1)] obtain x where x: "x \<in> set (db_decisions db)"
      "owner_key x = (ca_decision_id a, ca_tenant_id a)" "ca_active a \<longrightarrow> ed_reservation_active x"
      using r by (auto simp: allocation_owned_def)
    show ?thesis
    proof (cases "ed_id x = ed_id d")
      case True
      with only x(1) have "x = d" by blast
      with x own [OF a] keys(1) mem show ?thesis by (auto simp: allocation_owned_def owner_key_def)
    next
      case False
      with x mem show ?thesis by (auto simp: allocation_owned_def)
    qed
  qed
  have "owner_key ` set (db_decisions ?db) = owner_key ` set (db_decisions db)"
    using arg_cong [OF maps [OF keys(1)], of set] by (simp only: set_map)
  then have "approval_owned ?db a" if "a \<in> set (db_approvals db)" for a
    using enf_invD(8) [OF inv that] frame(3) by (simp add: approval_owned_def)
  with decisions allocations credit_wf_cong [OF wf, of ?db] inv maps [OF id(1)] maps [OF keys(2)] frame(2)
  show ?thesis by (simp add: enf_inv_def)
qed

lemma release_inv:
  assumes inv: "enf_inv db" and d: "d \<in> set (db_decisions db)" "ed_tenant_id d = tenant_id"
    and run: "settle_credit_reservations_for_decision db tenant_id d c now = Inr (diags, db1)"
    and d': "owner_key d' = owner_key d" "gate_key d' = gate_key d" "\<not> ed_reservation_active d'"
      "ed_reserved_allocation_usd d' = 0" "ed_reserved_credit_usd d' = 0"
  shows "enf_inv (write_decision d' db1)"
  using inv d run
proof (cases rule: settle_cases)
  case none
  show ?thesis
    by (rule write_decision_inv [OF inv d(1) _ _ _ _ d'(1,2)])
      (use none enf_invD(1) [OF inv] d' d(2) in \<open>auto simp: open_allocations_Nil\<close>)
next
  case settled
  note open_facts = settles_open [OF enf_invD(1) [OF inv] settled(4)]
  show ?thesis
    by (rule write_decision_inv [OF inv d(1) settled(3) _ _ _ d'(1,2) open_facts(1) _ open_facts(3)])
      (use settle_frame [OF run] open_facts(2) d' d(2) in \<open>auto simp: open_allocations_Nil\<close>)
qed

lemma rewrite_decision_inv:
  assumes inv: "enf_inv db" and d: "d \<in> set (db_decisions db)"
    and keys: "owner_key d' = owner_key d" "gate_key d' = gate_key d"
    and same: "ed_reservation_active d' = ed_reservation_active d"
      "ed_reserved_allocation_usd d' = ed_reserved_allocation_usd d" "ed_reserved_credit_usd d' = ed_reserved_credit_usd d"
  shows "enf_inv (write_decision d' db)"
proof (rule write_decision_inv [OF inv d enf_invD(1) [OF inv] refl refl _ keys])
  have id: "ed_id d' = ed_id d" "ed_tenant_id d' = ed_tenant_id d" using keys(1) by (simp_all add: owner_key_def)
  note ok = enf_invD(6) [OF inv d]
  show "money (ed_reserved_allocation_usd d')" "money (ed_reserved_credit_usd d')"
    using ok same by (simp_all add: decision_ok_def)
  show "covered db (ed_tenant_id d') d'" if "ed_reservation_active d'"
    using ok that same id by (simp add: decision_ok_def covered_def)
  show "ed_reservation_active d'" if "a \<in> set (db_allocations db)" "ca_active a" "ca_decision_id a = ed_id d"
      "ca_tenant_id a = ed_tenant_id d" for a
    using enf_invD(7) [OF inv that(1)] that same owner_unique [OF inv d]
    by (auto simp: allocation_owned_def owner_key_def)
qed auto

subsection \<open>Approval rows and the ledger\<close>

lemma update_approvals_inv:
  assumes inv: "enf_inv db"
    and keep: "\<And>r. r \<in> set (db_approvals db) \<Longrightarrow> p r \<Longrightarrow> ar_id (f r) = ar_id r \<and> ar_decision_id (f r) = ar_decision_id r
       \<and> ar_tenant_id (f r) = ar_tenant_id r"
  shows "enf_inv (db\<lparr>db_approvals := update_where p f (db_approvals db)\<rparr>)"
proof -
  let ?db = "db\<lparr>db_approvals := update_where p f (db_approvals db)\<rparr>"
  have maps: "map ar_id (db_approvals ?db) = map ar_id (db_approvals db)"
    "map ar_decision_id (db_approvals ?db) = map ar_decision_id (db_approvals db)"
    using keep by (auto intro!: map_update_where_on)
  have "approval_owned ?db a" if "a \<in> set (db_approvals ?db)" for a
  proof -
    from that obtain r where "r \<in> set (db_approvals db)" "ar_id a = ar_id r" "ar_decision_id a = ar_decision_id r"
      "ar_tenant_id a = ar_tenant_id r"
      using keep by (auto elim!: in_update_whereE split: if_splits)
    with enf_invD(8) [OF inv] show ?thesis by (auto simp: approval_owned_def)
  qed
  moreover have "decision_ok ?db = decision_ok db" "allocation_owned ?db = allocation_owned db" "credit_wf ?db = credit_wf db"
    by (auto simp: fun_eq_iff decision_ok_def covered_def open_allocations_def allocation_owned_def credit_wf_def)
  ultimately show ?thesis using inv maps by (simp add: enf_inv_def)
qed

lemma write_approval_inv:
  assumes inv: "enf_inv db" and a: "a \<in> set (db_approvals db)"
    and a': "ar_id a' = ar_id a" "ar_decision_id a' = ar_decision_id a" "ar_tenant_id a' = ar_tenant_id a"
  shows "enf_inv (write_approval a' db)"
  unfolding write_approval_def
proof (rule update_approvals_inv [OF inv])
  fix r assume "r \<in> set (db_approvals db)" "ar_id r = ar_id a'"
  with a a'(1) enf_invD(4) [OF inv] have "r = a" by (auto simp: distinct_map inj_on_def)
  with a' show "ar_id a' = ar_id r \<and> ar_decision_id a' = ar_decision_id r \<and> ar_tenant_id a' = ar_tenant_id r" by simp
qed

lemma append_ledger_inv: "enf_inv db \<Longrightarrow> enf_inv (append_decision_ledger_entry sha now d a db)"
  by (rule enf_inv_frame) auto

lemma policy_inv:
  "enf_inv db \<Longrightarrow> get_or_create_policy vd sha db t = (Inr p, db1) \<Longrightarrow> enf_inv db1"
  by (rule enf_inv_frame [of db]) (simp_all add: get_or_create_policy_frame)

end
