(* ===== verification/Enf_Approval.thy ===== *)
theory Enf_Approval
  imports Enf_Release Enf_Token
begin

text \<open>
  Approval requests: src/app/modules/enforcement/domain/approval_flow_ops.py. A request is created
  pending, is approved or denied by a reviewer or expires, and an approval issues a token that can
  be consumed once. Denial and expiry release the decision's reservation.

  \<open>identity\<close> is the SCIM data the permission check reads; \<open>now\<close> is the clock of the operation.
\<close>

definition given_notes :: "string option \<Rightarrow> string option" where
  "given_notes notes = (case notes of None \<Rightarrow> None | Some n \<Rightarrow> if n = '''' then None else Some (strip n))"

definition find_decision :: "enf_db \<Rightarrow> uuid \<Rightarrow> uuid \<Rightarrow> enforcement_decision option" where
  "find_decision db tenant_id decision_id =
     first_row (\<lambda>d. ed_id d = decision_id \<and> ed_tenant_id d = tenant_id) (db_decisions db)"

subsection \<open>Creating and listing requests\<close>

definition create_or_get_approval_request ::
  "(dict \<Rightarrow> policy_document option) \<Rightarrow> (string \<Rightarrow> string) \<Rightarrow> enf_db \<Rightarrow> uuid \<Rightarrow> uuid \<Rightarrow> uuid \<Rightarrow> string option
    \<Rightarrow> instant \<Rightarrow> approval_request outcome" where
  "create_or_get_approval_request vd sha db tenant_id actor_id decision_id notes now =
     (case find_decision db tenant_id decision_id of
        None \<Rightarrow> (Inl (HTTPException 404 ''Decision not found''), db)
      | Some d \<Rightarrow>
          if ed_decision d \<noteq> REQUIRE_APPROVAL then
            (Inl (HTTPException 409 ''Approval request can only be created for REQUIRE_APPROVAL decisions''), db)
          else (case get_approval_by_decision db decision_id of
              Some a \<Rightarrow> (Inr a, db)
            | None \<Rightarrow>
                (case get_or_create_policy vd sha db tenant_id of
                   (Inl e, _) \<Rightarrow> (Inl e, db)
                 | (Inr p, db1) \<Rightarrow>
                     (case resolve_approval_routing_trace p d of
                        Inl e \<Rightarrow> (Inl e, db)
                      | Inr trace \<Rightarrow>
                          (let a = (new_gate_approval (db_next_id db1) tenant_id decision_id actor_id trace now
                                 (clamp 60 86400 (ep_default_ttl_seconds p)))\<lparr>ar_review_notes := given_notes notes\<rparr> in
                           (Inr a, append_decision_ledger_entry sha now d (Some a)
                              (db1\<lparr>db_approvals := db_approvals db1 @ [a], db_next_id := Suc (db_next_id db1)\<rparr>)))))))"

definition pending_pairs ::
  "enf_db \<Rightarrow> uuid \<Rightarrow> instant \<Rightarrow> int \<Rightarrow> (approval_request \<times> enforcement_decision) list" where
  "pending_pairs db tenant_id now limit =
     take (nat (clamp 1 200 limit))
       (concat (map (\<lambda>a. map (\<lambda>d. (a, d)) (filter (\<lambda>d. ed_id d = ar_decision_id a) (db_decisions db)))
         (sort_key ar_created_at (filter (\<lambda>a. ar_tenant_id a = tenant_id \<and> ar_status a = PENDING
            \<and> now \<le> ar_expires_at a) (db_approvals db)))))"

fun reviewable_pairs ::
  "identity_db res \<Rightarrow> enforcement_policy \<Rightarrow> current_user \<Rightarrow> (approval_request \<times> enforcement_decision) list
    \<Rightarrow> (approval_request \<times> enforcement_decision) list res" where
  "reviewable_pairs identity p reviewer [] = Inr []"
| "reviewable_pairs identity p reviewer ((a, d) # pairs) =
     (case enforce_reviewer_authority identity p a d reviewer False of
        Inl (HTTPException _ _) \<Rightarrow> reviewable_pairs identity p reviewer pairs
      | Inl e \<Rightarrow> Inl e
      | Inr (_, a') \<Rightarrow> bind_res (reviewable_pairs identity p reviewer pairs) (\<lambda>rest. Inr ((a', d) # rest)))"

definition list_pending_approvals ::
  "identity_db res \<Rightarrow> (dict \<Rightarrow> policy_document option) \<Rightarrow> (string \<Rightarrow> string) \<Rightarrow> enf_db \<Rightarrow> uuid
    \<Rightarrow> current_user option \<Rightarrow> int \<Rightarrow> instant \<Rightarrow> (approval_request \<times> enforcement_decision) list res" where
  "list_pending_approvals identity vd sha db tenant_id reviewer limit now =
     (let pending = pending_pairs db tenant_id now limit in
      case reviewer of
        None \<Rightarrow> Inr pending
      | Some r \<Rightarrow> (case get_or_create_policy vd sha db tenant_id of
            (Inl e, _) \<Rightarrow> Inl e | (Inr p, _) \<Rightarrow> reviewable_pairs identity p r pending))"

subsection \<open>Reviewing\<close>

text \<open>The decision released: its credit settled with nothing consumed, nothing left reserved.\<close>

definition release_decision ::
  "enf_db \<Rightarrow> uuid \<Rightarrow> enforcement_decision \<Rightarrow> instant \<Rightarrow> (dict list \<Rightarrow> dict) \<Rightarrow> (enforcement_decision \<times> enf_db) res" where
  "release_decision db tenant_id d now extra =
     bind_res (settle_credit_reservations_for_decision db tenant_id d 0 now) (\<lambda>(settlement, db1).
       let d' = (clear_reservation d)\<lparr>ed_response_payload := dict_merge (ed_response_payload d) (extra settlement)\<rparr>
       in Inr (d', write_decision d' db1))"

definition expire_request ::
  "(string \<Rightarrow> string) \<Rightarrow> enf_db \<Rightarrow> uuid \<Rightarrow> approval_request \<Rightarrow> enforcement_decision \<Rightarrow> instant \<Rightarrow> 'a outcome" where
  "expire_request sha db tenant_id a d now =
     (let a' = a\<lparr>ar_status := EXPIRED, ar_updated_at := now\<rparr> in
      case release_decision db tenant_id d now (\<lambda>settlement.
             [(''approval_expired_at'', JTime now), (''credit_settlement'', settlement_json settlement)]) of
        Inl e \<Rightarrow> (Inl e, db)
      | Inr (d', db1) \<Rightarrow>
          (Inl (HTTPException 409 ''Approval request has expired''),
           append_decision_ledger_entry sha now d' (Some a') (write_approval a' db1)))"

definition approved_request ::
  "(string \<Rightarrow> string) \<Rightarrow> approval_request \<Rightarrow> current_user \<Rightarrow> string option \<Rightarrow> instant \<Rightarrow> string \<Rightarrow> instant \<Rightarrow> approval_request" where
  "approved_request sha a reviewer notes now token token_expires_at =
     a\<lparr>ar_status := APPROVED, ar_reviewed_by_user_id := Some (cu_id reviewer),
       ar_review_notes := given_notes notes, ar_approved_at := Some now, ar_updated_at := now,
       ar_approval_token_hash := Some (sha token), ar_approval_token_expires_at := Some token_expires_at\<rparr>"

definition review_payload :: "approval_request \<Rightarrow> dict \<Rightarrow> string \<Rightarrow> string \<Rightarrow> current_user \<Rightarrow> instant \<Rightarrow> dict" where
  "review_payload a trace who_key when_key reviewer now =
     [(''approval_id'', JStr (uuid_text (ar_id a))),
      (''approval_routing_rule_id'', (let rid = dict_get trace ''rule_id'' in if py_truthy rid then JStr (py_str rid) else JStr '''')),
      (''approval_routing_trace'', JObj trace), (who_key, JStr (uuid_text (cu_id reviewer))), (when_key, JTime now)]"

definition approve_request ::
  "identity_db res \<Rightarrow> (dict \<Rightarrow> policy_document option) \<Rightarrow> (string \<Rightarrow> string) \<Rightarrow> jwt_module \<Rightarrow> token_settings
    \<Rightarrow> enf_db \<Rightarrow> uuid \<Rightarrow> uuid \<Rightarrow> current_user \<Rightarrow> string option \<Rightarrow> instant
    \<Rightarrow> (approval_request \<times> enforcement_decision \<times> string \<times> instant) outcome" where
  "approve_request identity vd sha jwt st db tenant_id approval_id reviewer notes now =
     (case load_approval_with_decision db tenant_id approval_id of
        Inl e \<Rightarrow> (Inl e, db)
      | Inr (a, d) \<Rightarrow>
          (case assert_pending a of
             Inl e \<Rightarrow> (Inl e, db)
           | Inr _ \<Rightarrow>
               if ar_expires_at a \<le> now then expire_request sha db tenant_id a d now
               else (case get_or_create_policy vd sha db tenant_id of
                   (Inl e, _) \<Rightarrow> (Inl e, db)
                 | (Inr p, db1) \<Rightarrow>
                     (case enforce_reviewer_authority identity p a d reviewer True of
                        Inl e \<Rightarrow> (Inl e, db)
                      | Inr (trace, a1) \<Rightarrow>
                          (let token_expires_at = now + seconds (clamp 60 86400 (ep_default_ttl_seconds p)) in
                           case build_approval_token jwt st now d a1 token_expires_at of
                             Inl e \<Rightarrow> (Inl e, db)
                           | Inr token \<Rightarrow>
                               (let a' = approved_request sha a1 reviewer notes now token token_expires_at;
                                    d' = d\<lparr>ed_approval_token_issued := True, ed_token_expires_at := Some token_expires_at,
                                       ed_response_payload := dict_merge (ed_response_payload d)
                                         (review_payload a' trace ''approved_by_user_id'' ''approved_at'' reviewer now)\<rparr> in
                                (Inr (a', d', token, token_expires_at),
                                 append_decision_ledger_entry sha now d' (Some a')
                                   (write_approval a' (write_decision d' db1)))))))))"

definition deny_request ::
  "identity_db res \<Rightarrow> (dict \<Rightarrow> policy_document option) \<Rightarrow> (string \<Rightarrow> string) \<Rightarrow> enf_db \<Rightarrow> uuid \<Rightarrow> uuid
    \<Rightarrow> current_user \<Rightarrow> string option \<Rightarrow> instant \<Rightarrow> (approval_request \<times> enforcement_decision) outcome" where
  "deny_request identity vd sha db tenant_id approval_id reviewer notes now =
     (case load_approval_with_decision db tenant_id approval_id of
        Inl e \<Rightarrow> (Inl e, db)
      | Inr (a, d) \<Rightarrow>
          (case assert_pending a of
             Inl e \<Rightarrow> (Inl e, db)
           | Inr _ \<Rightarrow>
               (case get_or_create_policy vd sha db tenant_id of
                  (Inl e, _) \<Rightarrow> (Inl e, db)
                | (Inr p, db1) \<Rightarrow>
                    (case enforce_reviewer_authority identity p a d reviewer True of
                       Inl e \<Rightarrow> (Inl e, db)
                     | Inr (trace, a1) \<Rightarrow>
                         (let a' = a1\<lparr>ar_status := DENIED, ar_reviewed_by_user_id := Some (cu_id reviewer),
                                ar_review_notes := given_notes notes, ar_denied_at := Some now, ar_updated_at := now\<rparr> in
                          case release_decision db1 tenant_id d now (\<lambda>settlement.
                                 review_payload a' trace ''denied_by_user_id'' ''denied_at'' reviewer now
                                 @ [(''credit_settlement'', settlement_json settlement)]) of
                            Inl e \<Rightarrow> (Inl e, db)
                          | Inr (d', db2) \<Rightarrow>
                              (Inr (a', d'),
                               append_decision_ledger_entry sha now d' (Some a') (write_approval a' db2)))))))"

subsection \<open>Consuming a token\<close>

record expected_binding =
  eb_source :: "enforcement_source option"
  eb_project_id :: "string option"
  eb_environment :: "string option"
  eb_request_fingerprint :: "string option"
  eb_resource_reference :: "string option"

definition reject :: "string \<Rightarrow> 'a res" where
  "reject detail = Inl (HTTPException 409 detail)"

text \<open>The checks between the token and the decision it is bound to, in the source's order.\<close>

definition check_binding :: "approval_token_context \<Rightarrow> enforcement_decision \<Rightarrow> unit res" where
  "check_binding tc d =
     (if tc_source tc \<noteq> ed_source d then reject ''Approval token source mismatch''
      else if tc_project_id tc \<noteq> ed_project_id d then reject ''Approval token project binding mismatch''
      else if normalize_environment (tc_environment tc) \<noteq> normalize_environment (ed_environment d)
        then reject ''Approval token environment mismatch''
      else if tc_request_fingerprint tc \<noteq> ed_request_fingerprint d then reject ''Approval token fingerprint mismatch''
      else if tc_resource_reference tc \<noteq> ed_resource_reference d
        then reject ''Approval token resource binding mismatch''
      else if quantize 4 (tc_max_monthly_delta_usd tc) \<noteq> quantize 4 (ed_estimated_monthly_delta_usd d)
        then reject ''Approval token cost binding mismatch''
      else if quantize 6 (tc_max_hourly_delta_usd tc) \<noteq> quantize 6 (ed_estimated_hourly_delta_usd d)
        then reject ''Approval token cost binding mismatch''
      else Inr ())"

definition check_expected :: "expected_binding \<Rightarrow> enforcement_decision \<Rightarrow> unit res" where
  "check_expected e d =
     (if \<not> opt_all (\<lambda>s. s = ed_source d) (eb_source e) then reject ''Expected source mismatch''
      else if \<not> opt_all (\<lambda>p. strip p = strip (ed_project_id d)) (eb_project_id e)
        then reject ''Expected project mismatch''
      else if \<not> opt_all (\<lambda>v. normalize_environment v = normalize_environment (ed_environment d)) (eb_environment e)
        then reject ''Expected environment mismatch''
      else if \<not> opt_all (\<lambda>f. strip f = ed_request_fingerprint d) (eb_request_fingerprint e)
        then reject ''Expected request fingerprint mismatch''
      else if \<not> opt_all (\<lambda>r. strip r = ed_resource_reference d) (eb_resource_reference e)
        then reject ''Expected resource reference mismatch''
      else Inr ())"

definition effective_expiry :: "approval_request \<Rightarrow> enforcement_decision \<Rightarrow> approval_token_context \<Rightarrow> instant" where
  "effective_expiry a d tc = (case ar_approval_token_expires_at a of Some t \<Rightarrow> t
    | None \<Rightarrow> (case ed_token_expires_at d of Some t \<Rightarrow> t | None \<Rightarrow> tc_expires_at tc))"

text \<open>Everything before the update: what the token is for, and that it may be used.\<close>

definition check_token ::
  "(string \<Rightarrow> string) \<Rightarrow> jwt_module \<Rightarrow> token_settings \<Rightarrow> enf_db \<Rightarrow> uuid \<Rightarrow> string \<Rightarrow> expected_binding \<Rightarrow> instant
    \<Rightarrow> (approval_request \<times> enforcement_decision) res" where
  "check_token sha jwt st db tenant_id token expected now =
     (let normalized_token = strip token in
      if normalized_token = '''' then Inl (HTTPException 422 ''approval_token is required'')
      else bind_res (decode_approval_token jwt st now normalized_token) (\<lambda>payload.
        bind_res (extract_token_context payload) (\<lambda>tc.
          if tc_tenant_id tc \<noteq> tenant_id then Inl (HTTPException 403 ''Approval token tenant mismatch'')
          else bind_res (load_approval_with_decision db tenant_id (tc_approval_id tc)) (\<lambda>(a, d).
            if ed_id d \<noteq> tc_decision_id tc then reject ''Approval token decision binding mismatch''
            else if ar_status a \<noteq> APPROVED then
              reject (''Approval token is not active ('' @ approval_status_value (ar_status a) @ '')'')
            else if ar_approval_token_hash a \<noteq> Some (sha normalized_token) \<or> sha normalized_token = ''''
              then reject ''Approval token mismatch''
            else if effective_expiry a d tc \<le> now then reject ''Approval token has expired''
            else bind_res (check_binding tc d) (\<lambda>_. bind_res (check_expected expected d) (\<lambda>_. Inr (a, d)))))))"

text \<open>
  The compare-and-set on the request's row, which runs on the database as it is by then, and the
  note on the decision.
\<close>

definition unconsumed :: "uuid \<Rightarrow> uuid \<Rightarrow> approval_request \<Rightarrow> bool" where
  "unconsumed approval_id tenant_id r \<longleftrightarrow>
     ar_id r = approval_id \<and> ar_tenant_id r = tenant_id \<and> ar_approval_token_consumed_at r = None"

definition mark_consumed ::
  "enf_db \<Rightarrow> uuid \<Rightarrow> approval_request \<Rightarrow> enforcement_decision \<Rightarrow> uuid option \<Rightarrow> instant
    \<Rightarrow> (approval_request \<times> enforcement_decision) outcome" where
  "mark_consumed db tenant_id a d actor_id now =
     (if count_where (unconsumed (ar_id a) tenant_id) (db_approvals db) \<noteq> 1
      then (reject ''Approval token replay detected'', db)
      else
        (let consume = (\<lambda>r. r\<lparr>ar_approval_token_consumed_at := Some now, ar_updated_at := now\<rparr>);
             d' = d\<lparr>ed_response_payload := dict_merge (ed_response_payload d)
               [(''approval_token_consumed_at'', JTime now),
                (''approval_token_consumed_by_user_id'',
                   (case actor_id of None \<Rightarrow> JNull | Some u \<Rightarrow> JStr (uuid_text u)))]\<rparr> in
         (Inr (consume a, d'),
          write_decision d' (db\<lparr>db_approvals :=
            update_where (unconsumed (ar_id a) tenant_id) consume (db_approvals db)\<rparr>))))"

definition consume_approval_token ::
  "(string \<Rightarrow> string) \<Rightarrow> jwt_module \<Rightarrow> token_settings \<Rightarrow> enf_db \<Rightarrow> uuid \<Rightarrow> string \<Rightarrow> uuid option
    \<Rightarrow> expected_binding \<Rightarrow> instant \<Rightarrow> (approval_request \<times> enforcement_decision) outcome" where
  "consume_approval_token sha jwt st db tenant_id token actor_id expected now =
     (case check_token sha jwt st db tenant_id token expected now of
        Inl e \<Rightarrow> (Inl e, db)
      | Inr (a, d) \<Rightarrow> mark_consumed db tenant_id a d actor_id now)"

end
