(* ===== verification/Enf_Approval_Facts.thy ===== *)
theory Enf_Approval_Facts
  imports Enf_Approval
begin

text \<open>
  The case analyses of the approval operations and the lemmas behind their theorems.
\<close>

lemma load_facts:
  assumes "load_approval_with_decision db tenant_id approval_id = Inr (a, d)"
  shows "a \<in> set (db_approvals db)" "ar_id a = approval_id" "ar_tenant_id a = tenant_id"
    "d \<in> set (db_decisions db)" "ed_id d = ar_decision_id a" "ed_tenant_id d = tenant_id"
  using assms
  by (auto simp: load_approval_with_decision_def split: option.splits dest: first_row_SomeD)

lemma load_of_rows:
  assumes inv: "enf_inv db" and a: "a \<in> set (db_approvals db)" "ar_tenant_id a = tenant_id"
    and d: "d \<in> set (db_decisions db)" "ed_id d = ar_decision_id a" "ed_tenant_id d = tenant_id"
  shows "load_approval_with_decision db tenant_id (ar_id a) = Inr (a, d)"
proof -
  have "first_row (\<lambda>x. ar_id x = ar_id a \<and> ar_tenant_id x = tenant_id) (db_approvals db) = Some a"
    using a enf_invD(4) [OF inv] by (intro first_row_the) (auto simp: distinct_map inj_on_def)
  moreover have "first_row (\<lambda>x. ed_id x = ar_decision_id a \<and> ed_tenant_id x = tenant_id) (db_decisions db) = Some d"
    using d enf_invD(2) [OF inv] by (intro first_row_the) (auto simp: distinct_map inj_on_def)
  ultimately show ?thesis by (simp add: load_approval_with_decision_def)
qed

lemma assert_pending_Inr: "assert_pending a = Inr u \<longleftrightarrow> ar_status a = PENDING"
  by (simp add: assert_pending_def)

lemma written_approval:
  "a \<in> set (db_approvals db) \<Longrightarrow> ar_id a' = ar_id a \<Longrightarrow> a' \<in> set (db_approvals (write_approval a' db))"
  by (auto simp: write_approval_def set_update_where)

lemma written_decision:
  "d \<in> set (db_decisions db) \<Longrightarrow> ed_id d' = ed_id d \<Longrightarrow> d' \<in> set (db_decisions (write_decision d' db))"
  by (auto simp: write_decision_def set_update_where)

lemma clear_reservation_simps [simp]:
  "owner_key (clear_reservation d) = owner_key d" "gate_key (clear_reservation d) = gate_key d"
  "\<not> ed_reservation_active (clear_reservation d)" "ed_reserved_allocation_usd (clear_reservation d) = 0"
  "ed_reserved_credit_usd (clear_reservation d) = 0" "ed_id (clear_reservation d) = ed_id d"
  "ed_tenant_id (clear_reservation d) = ed_tenant_id d"
  by (simp_all add: clear_reservation_def owner_key_def gate_key_def)

lemma with_payload_simps [simp]:
  "owner_key (d\<lparr>ed_response_payload := x\<rparr>) = owner_key d" "gate_key (d\<lparr>ed_response_payload := x\<rparr>) = gate_key d"
  by (simp_all add: owner_key_def gate_key_def)

subsection \<open>Releasing\<close>

lemma release_decision_facts:
  assumes inv: "enf_inv db" and d: "d \<in> set (db_decisions db)" "ed_tenant_id d = tenant_id"
    and run: "release_decision db tenant_id d now extra = Inr (d', db')"
  shows "enf_inv db'" "\<exists>payload. d' = (clear_reservation d)\<lparr>ed_response_payload := payload\<rparr>"
    "d' \<in> set (db_decisions db')" "db_approvals db' = db_approvals db"
    "db_ledger db' = db_ledger db" "db_next_id db' = db_next_id db" "open_allocations db' tenant_id (ed_id d) = []"
    "tenant_credit db' tenant_id = tenant_credit db tenant_id + ed_reserved_credit_usd d"
proof -
  from run obtain settlement db1 where s: "settle_credit_reservations_for_decision db tenant_id d 0 now = Inr (settlement, db1)"
    "d' = (clear_reservation d)\<lparr>ed_response_payload := dict_merge (ed_response_payload d) (extra settlement)\<rparr>"
    "db' = write_decision d' db1"
    by (auto simp: release_decision_def Let_def)
  note frame = settle_frame [OF s(1)]
  show "enf_inv db'" unfolding s(3) by (rule release_inv [OF inv d s(1)]) (simp_all add: s(2))
  show "\<exists>payload. d' = (clear_reservation d)\<lparr>ed_response_payload := payload\<rparr>" using s(2) by blast
  show "d' \<in> set (db_decisions db')" unfolding s(3) using d frame(1) by (auto simp: s(2) intro!: written_decision)
  show "db_approvals db' = db_approvals db" "db_ledger db' = db_ledger db" "db_next_id db' = db_next_id db"
    using frame by (simp_all add: s(3))
  have "open_allocations db1 tenant_id (ed_id d) = []
    \<and> tenant_credit db1 tenant_id = tenant_credit db tenant_id + ed_reserved_credit_usd d"
    using inv d s(1)
  proof (cases rule: settle_cases)
    case settled
    have "0 \<le> ed_reserved_credit_usd d" using settled(2) by simp
    then have zero: "quantize 4 (min (max 0 0) (ed_reserved_credit_usd d)) = 0" by (simp add: min_def)
    show ?thesis
      using settles_open(2) [OF enf_invD(1) [OF inv] settled(4)] settles_returns [OF enf_invD(1) [OF inv] settled(4)] zero
      by simp
  qed simp
  then show "open_allocations db' tenant_id (ed_id d) = []"
    "tenant_credit db' tenant_id = tenant_credit db tenant_id + ed_reserved_credit_usd d"
    by (simp_all add: s(3) open_allocations_def tenant_credit_def)
qed

lemma release_succeeds:
  assumes "enf_inv db" "d \<in> set (db_decisions db)" "ed_tenant_id d = tenant_id"
    and "ed_reservation_active d \<or> ed_reserved_credit_usd d = 0"
  shows "\<exists>d' db'. release_decision db tenant_id d now extra = Inr (d', db')"
  using settle_succeeds [OF assms, of 0 now] by (auto simp: release_decision_def Let_def)

subsection \<open>Case analyses\<close>

lemma approve_cases:
  assumes "approve_request identity vd sha jwt st db tenant_id approval_id reviewer notes now = (out, db')"
  obtains (refused) e where "out = Inl e" "db' = db"
    | (expired) a d d' db1 extra where "load_approval_with_decision db tenant_id approval_id = Inr (a, d)"
      "ar_status a = PENDING" "ar_expires_at a \<le> now" "release_decision db tenant_id d now extra = Inr (d', db1)"
      "out = Inl (HTTPException 409 ''Approval request has expired'')"
      "db' = append_decision_ledger_entry sha now d' (Some (a\<lparr>ar_status := EXPIRED, ar_updated_at := now\<rparr>))
         (write_approval (a\<lparr>ar_status := EXPIRED, ar_updated_at := now\<rparr>) db1)"
    | (approved) a d p db1 trace a1 token until payload where "load_approval_with_decision db tenant_id approval_id = Inr (a, d)"
      "ar_status a = PENDING" "now < ar_expires_at a" "get_or_create_policy vd sha db tenant_id = (Inr p, db1)"
      "enforce_reviewer_authority identity p a d reviewer True = Inr (trace, a1)"
      "until = now + seconds (clamp 60 86400 (ep_default_ttl_seconds p))"
      "build_approval_token jwt st now d a1 until = Inr token"
      "out = Inr (approved_request sha a1 reviewer notes now token until,
         d\<lparr>ed_approval_token_issued := True, ed_token_expires_at := Some until, ed_response_payload := payload\<rparr>, token, until)"
      "db' = append_decision_ledger_entry sha now
         (d\<lparr>ed_approval_token_issued := True, ed_token_expires_at := Some until, ed_response_payload := payload\<rparr>)
         (Some (approved_request sha a1 reviewer notes now token until))
         (write_approval (approved_request sha a1 reviewer notes now token until)
           (write_decision (d\<lparr>ed_approval_token_issued := True, ed_token_expires_at := Some until,
              ed_response_payload := payload\<rparr>) db1))"
proof (cases "load_approval_with_decision db tenant_id approval_id")
  case (Inl e)
  with assms refused show ?thesis by (auto simp: approve_request_def)
next
  case load: (Inr ad)
  obtain a d where ad: "ad = (a, d)" by force
  show ?thesis
  proof (cases "ar_status a = PENDING")
    case False
    with assms load ad refused show ?thesis by (auto simp: approve_request_def assert_pending_def)
  next
    case pending: True
    then have ok: "assert_pending a = Inr ()" by (simp add: assert_pending_def)
    show ?thesis
    proof (cases "ar_expires_at a \<le> now")
      case True
      with assms load ad ok have "expire_request sha db tenant_id a d now = (out, db')" by (simp add: approve_request_def)
      with load ad pending True expired refused show ?thesis
        unfolding expire_request_def Let_def by (fastforce split: sum.splits prod.splits)
    next
      case fresh: False
      note run = assms [unfolded approve_request_def load ad sum.case prod.case ok if_not_P [OF fresh]]
      obtain pr db1 where g: "get_or_create_policy vd sha db tenant_id = (pr, db1)" by force
      show ?thesis
      proof (cases pr)
        case (Inl e)
        with run g refused show ?thesis by auto
      next
        case (Inr p)
        show ?thesis
        proof (cases "enforce_reviewer_authority identity p a d reviewer True")
          case auth: (Inl e)
          with run g Inr refused show ?thesis by auto
        next
          case auth: (Inr ta)
          obtain trace a1 where ta: "ta = (trace, a1)" by force
          let ?until = "now + seconds (clamp 60 86400 (ep_default_ttl_seconds p))"
          show ?thesis
          proof (cases "build_approval_token jwt st now d a1 ?until")
            case tok: (Inl e)
            with run g Inr auth ta refused show ?thesis by (auto simp: Let_def)
          next
            case tok: (Inr token)
            have "now < ar_expires_at a" using fresh by simp
            from load ad pending this g Inr auth ta tok run show ?thesis
              by (intro approved [of a d p db1 trace a1 ?until token "dict_merge (ed_response_payload d) (review_payload
                (approved_request sha a1 reviewer notes now token ?until) trace ''approved_by_user_id'' ''approved_at'' reviewer now)"])
                (simp_all add: Let_def)
          qed
        qed
      qed
    qed
  qed
qed

definition denied_request :: "approval_request \<Rightarrow> current_user \<Rightarrow> string option \<Rightarrow> instant \<Rightarrow> approval_request" where
  "denied_request a reviewer notes now = a\<lparr>ar_status := DENIED, ar_reviewed_by_user_id := Some (cu_id reviewer),
     ar_review_notes := given_notes notes, ar_denied_at := Some now, ar_updated_at := now\<rparr>"

lemma deny_cases:
  assumes "deny_request identity vd sha db tenant_id approval_id reviewer notes now = (out, db')"
  obtains (refused) e where "out = Inl e" "db' = db"
    | (denied) a d p db1 trace a1 d' db2 extra where "load_approval_with_decision db tenant_id approval_id = Inr (a, d)"
      "ar_status a = PENDING" "get_or_create_policy vd sha db tenant_id = (Inr p, db1)"
      "enforce_reviewer_authority identity p a d reviewer True = Inr (trace, a1)"
      "release_decision db1 tenant_id d now extra = Inr (d', db2)"
      "out = Inr (denied_request a1 reviewer notes now, d')"
      "db' = append_decision_ledger_entry sha now d' (Some (denied_request a1 reviewer notes now))
         (write_approval (denied_request a1 reviewer notes now) db2)"
proof (cases "load_approval_with_decision db tenant_id approval_id")
  case (Inl e)
  with assms refused [of e] show ?thesis by (simp add: deny_request_def)
next
  case load: (Inr ad)
  obtain a d where ad: "ad = (a, d)" by force
  show ?thesis
  proof (cases "ar_status a = PENDING")
    case False
    with assms load ad refused show ?thesis by (auto simp: deny_request_def assert_pending_def)
  next
    case pending: True
    then have ok: "assert_pending a = Inr ()" by (simp add: assert_pending_def)
    note run = assms [unfolded deny_request_def load ad sum.case prod.case ok]
    obtain pr db1 where g: "get_or_create_policy vd sha db tenant_id = (pr, db1)" by force
    show ?thesis
    proof (cases pr)
      case (Inl e)
      with run g refused show ?thesis by auto
    next
      case (Inr p)
      show ?thesis
      proof (cases "enforce_reviewer_authority identity p a d reviewer True")
        case auth: (Inl e)
        with run g Inr refused show ?thesis by auto
      next
        case auth: (Inr ta)
        obtain trace a1 where ta: "ta = (trace, a1)" by force
        let ?a = "denied_request a1 reviewer notes now"
        let ?extra = "\<lambda>settlement. review_payload ?a trace ''denied_by_user_id'' ''denied_at'' reviewer now
          @ [(''credit_settlement'', settlement_json settlement)]"
        show ?thesis
        proof (cases "release_decision db1 tenant_id d now ?extra")
          case rel: (Inl e)
          with run g Inr auth ta refused show ?thesis by (auto simp: Let_def denied_request_def)
        next
          case rel: (Inr dd)
          obtain d' db2 where dd: "dd = (d', db2)" by force
          from load ad pending g Inr auth ta rel dd run show ?thesis
            by (intro denied [of a d p db1 trace a1 ?extra d' db2]) (auto simp: Let_def denied_request_def)
        qed
      qed
    qed
  qed
qed

lemma create_cases:
  assumes "create_or_get_approval_request vd sha db tenant_id actor_id decision_id notes now = (out, db')"
  obtains (refused) e where "out = Inl e" "db' = db"
    | (existing) a d where "d \<in> set (db_decisions db)" "owner_key d = (decision_id, tenant_id)"
      "ed_decision d = REQUIRE_APPROVAL" "get_approval_by_decision db decision_id = Some a" "out = Inr a" "db' = db"
    | (created) d p db1 trace a where "d \<in> set (db_decisions db)" "owner_key d = (decision_id, tenant_id)"
      "ed_decision d = REQUIRE_APPROVAL" "get_approval_by_decision db decision_id = None"
      "get_or_create_policy vd sha db tenant_id = (Inr p, db1)" "resolve_approval_routing_trace p d = Inr trace"
      "a = (new_gate_approval (db_next_id db1) tenant_id decision_id actor_id trace now
          (clamp 60 86400 (ep_default_ttl_seconds p)))\<lparr>ar_review_notes := given_notes notes\<rparr>"
      "out = Inr a" "db' = append_decision_ledger_entry sha now d (Some a)
         (db1\<lparr>db_approvals := db_approvals db1 @ [a], db_next_id := Suc (db_next_id db1)\<rparr>)"
proof (cases "find_decision db tenant_id decision_id")
  case None
  with assms refused show ?thesis by (auto simp: create_or_get_approval_request_def)
next
  case (Some d)
  then have d: "d \<in> set (db_decisions db)" "owner_key d = (decision_id, tenant_id)"
    by (auto simp: find_decision_def owner_key_def dest: first_row_SomeD)
  note run = assms [unfolded create_or_get_approval_request_def Some option.case]
  show ?thesis
  proof (cases "ed_decision d = REQUIRE_APPROVAL")
    case False
    with run refused show ?thesis by auto
  next
    case req: True
    show ?thesis
    proof (cases "get_approval_by_decision db decision_id")
      case (Some a)
      with run req have "out = Inr a" "db' = db" by simp_all
      with Some show ?thesis by (intro existing [OF d req])
    next
      case new: None
      obtain pr db1 where g: "get_or_create_policy vd sha db tenant_id = (pr, db1)" by force
      show ?thesis
      proof (cases pr)
        case (Inl e)
        with run req new g refused [of e] show ?thesis by simp
      next
        case (Inr p)
        show ?thesis
        proof (cases "resolve_approval_routing_trace p d")
          case route: (Inl e)
          with run req new g Inr refused [of e] show ?thesis by simp
        next
          case route: (Inr trace)
          from g Inr route run req new show ?thesis
            by (intro created [OF d req new _ route refl]) (auto simp: Let_def)
        qed
      qed
    qed
  qed
qed

lemma consume_cases:
  assumes "consume_approval_token sha jwt st db tenant_id token actor_id expected now = (out, db')"
  obtains (refused) e where "out = Inl e" "db' = db"
    | (consumed) a d payload where "check_token sha jwt st db tenant_id token expected now = Inr (a, d)"
      "count_where (unconsumed (ar_id a) tenant_id) (db_approvals db) = 1"
      "out = Inr (a\<lparr>ar_approval_token_consumed_at := Some now, ar_updated_at := now\<rparr>, d\<lparr>ed_response_payload := payload\<rparr>)"
      "db' = write_decision (d\<lparr>ed_response_payload := payload\<rparr>) (db\<lparr>db_approvals :=
          update_where (unconsumed (ar_id a) tenant_id)
            (\<lambda>r. r\<lparr>ar_approval_token_consumed_at := Some now, ar_updated_at := now\<rparr>) (db_approvals db)\<rparr>)"
proof (cases "check_token sha jwt st db tenant_id token expected now")
  case (Inl e)
  with assms refused [of e] show ?thesis by (simp add: consume_approval_token_def)
next
  case (Inr ad)
  obtain a d where ad: "ad = (a, d)" by force
  note run = assms [unfolded consume_approval_token_def Inr ad sum.case prod.case]
  show ?thesis
  proof (cases "count_where (unconsumed (ar_id a) tenant_id) (db_approvals db) = 1")
    case False
    with run refused show ?thesis by (auto simp: mark_consumed_def reject_def)
  next
    case True
    let ?payload = "dict_merge (ed_response_payload d)
      [(''approval_token_consumed_at'', JTime now), (''approval_token_consumed_by_user_id'',
          (case actor_id of None \<Rightarrow> JNull | Some u \<Rightarrow> JStr (uuid_text u)))]"
    from run True show ?thesis
      by (intro consumed [OF Inr [unfolded ad] True, of ?payload]) (auto simp: mark_consumed_def Let_def)
  qed
qed

subsection \<open>The invariant\<close>

lemma authority_keeps:
  assumes "enforce_reviewer_authority identity p a d reviewer separation = Inr (trace, a1)"
  obtains rule where "a1 = a\<lparr>ar_routing_rule_id := rule, ar_routing_trace := trace\<rparr>"
  using reviewer_authority_facts [OF assms] by blast

lemma released_write_inv:
  assumes inv: "enf_inv db" and load: "load_approval_with_decision db tenant_id approval_id = Inr (a, d)"
    and rel: "release_decision db tenant_id d now extra = Inr (d', db1)"
    and a': "ar_id a' = ar_id a" "ar_decision_id a' = ar_decision_id a" "ar_tenant_id a' = ar_tenant_id a"
  shows "enf_inv (append_decision_ledger_entry sha now d' (Some a') (write_approval a' db1))"
proof -
  note l = load_facts [OF load]
  note r = release_decision_facts [OF inv l(4,6) rel]
  show ?thesis
    by (rule append_ledger_inv, rule write_approval_inv [OF r(1), of a]) (use l(1) r(4) a' in simp_all)
qed

lemma policy_load:
  assumes "get_or_create_policy vd sha db t = (Inr p, db1)"
  shows "load_approval_with_decision db1 tenant_id approval_id = load_approval_with_decision db tenant_id approval_id"
  using get_or_create_policy_frame [OF assms]
  by (simp add: load_approval_with_decision_def cong: option.case_cong)

lemma approve_inv:
  assumes "enf_inv db"
    and "approve_request identity vd sha jwt st db tenant_id approval_id reviewer notes now = (out, db')"
  shows "enf_inv db'"
  using assms(2)
proof (cases rule: approve_cases)
  case (expired a d d' db1 extra)
  show ?thesis unfolding expired(6) by (rule released_write_inv [OF assms(1) expired(1,4)]) simp_all
next
  case (approved a d p db1 trace a1 token until payload)
  note l = load_facts [OF approved(1)] and frame = get_or_create_policy_frame [OF approved(4)]
  from approved(5) obtain rule where a1: "a1 = a\<lparr>ar_routing_rule_id := rule, ar_routing_trace := trace\<rparr>"
    by (rule authority_keeps)
  have d: "d \<in> set (db_decisions db1)" using l(4) frame(3) by simp
  have "enf_inv (write_decision (d\<lparr>ed_approval_token_issued := True, ed_token_expires_at := Some until,
      ed_response_payload := payload\<rparr>) db1)"
    by (rule rewrite_decision_inv [OF policy_inv [OF assms(1) approved(4)] d])
      (simp_all add: owner_key_def gate_key_def)
  then show ?thesis unfolding approved(9)
    by (rule append_ledger_inv [OF write_approval_inv, of _ a]) (use l(1) frame(4) a1 in \<open>simp_all add: approved_request_def\<close>)
qed (use assms(1) in simp)

lemma deny_inv:
  assumes "enf_inv db"
    and "deny_request identity vd sha db tenant_id approval_id reviewer notes now = (out, db')"
  shows "enf_inv db'"
  using assms(2)
proof (cases rule: deny_cases)
  case (denied a d p db1 trace a1 d' db2 extra)
  from denied(4) obtain rule where "a1 = a\<lparr>ar_routing_rule_id := rule, ar_routing_trace := trace\<rparr>"
    by (rule authority_keeps)
  then show ?thesis unfolding denied(7)
    by (intro released_write_inv [OF policy_inv [OF assms(1) denied(3)] _ denied(5), of approval_id a])
      (simp_all add: denied_request_def policy_load [OF denied(3)] denied(1))
qed (use assms(1) in simp)

lemma new_approval_inv:
  assumes inv: "enf_inv db" and d: "d \<in> set (db_decisions db)" "owner_key d = (ar_decision_id a, ar_tenant_id a)"
    and new: "get_approval_by_decision db (ar_decision_id a) = None" and i: "ar_id a = db_next_id db"
  shows "enf_inv (db\<lparr>db_approvals := db_approvals db @ [a], db_next_id := Suc (db_next_id db)\<rparr>)"
proof -
  let ?db = "db\<lparr>db_approvals := db_approvals db @ [a], db_next_id := Suc (db_next_id db)\<rparr>"
  have fresh: "ar_id r < db_next_id db" if "r \<in> set (db_approvals db)" for r
    using enf_invD(8) [OF inv that] by (simp add: approval_owned_def)
  have "ar_decision_id r \<noteq> ar_decision_id a" if "r \<in> set (db_approvals db)" for r
    using new that by (auto simp: get_approval_by_decision_def first_row_None)
  then have "distinct (map ar_id (db_approvals ?db))" "distinct (map ar_decision_id (db_approvals ?db))"
    using enf_invD(4,5) [OF inv] fresh i by fastforce+
  moreover have "approval_owned ?db r" if "r \<in> set (db_approvals ?db)" for r
    using that enf_invD(8) [OF inv] d i by (force simp: approval_owned_def)
  moreover have "decision_ok ?db r" if "decision_ok db r" for r
    using that by (auto simp: decision_ok_def covered_def open_allocations_def)
  moreover have "allocation_owned ?db = allocation_owned db" by (auto simp: fun_eq_iff allocation_owned_def)
  ultimately show ?thesis using inv credit_wf_cong [of db ?db] by (simp add: enf_inv_def)
qed

lemma create_inv:
  assumes "enf_inv db"
    and "create_or_get_approval_request vd sha db tenant_id actor_id decision_id notes now = (out, db')"
  shows "enf_inv db'"
  using assms(2)
proof (cases rule: create_cases)
  case (created d p db1 trace a)
  note frame = get_or_create_policy_frame [OF created(5)]
  show ?thesis unfolding created(9)
    by (intro append_ledger_inv new_approval_inv [OF policy_inv [OF assms(1) created(5)], of d])
      (use created(1,2,4) frame in \<open>simp_all add: created(7) new_gate_approval_def get_approval_by_decision_def\<close>)
qed (use assms(1) in simp_all)

lemma check_token_facts:
  assumes "check_token sha jwt st db tenant_id token expected now = Inr (a, d)"
  obtains tc where "bind_res (decode_approval_token jwt st now (strip token)) extract_token_context = Inr tc"
    "tc_tenant_id tc = tenant_id" "load_approval_with_decision db tenant_id (tc_approval_id tc) = Inr (a, d)"
    "ed_id d = tc_decision_id tc" "ar_status a = APPROVED" "ar_approval_token_hash a = Some (sha (strip token))"
    "now < effective_expiry a d tc" "check_binding tc d = Inr ()" "check_expected expected d = Inr ()"
proof -
  from assms obtain payload tc where p: "decode_approval_token jwt st now (strip token) = Inr payload"
    "extract_token_context payload = Inr tc"
    by (auto simp: check_token_def Let_def split: if_splits)
  from assms have tenant: "tc_tenant_id tc = tenant_id" by (simp add: check_token_def Let_def p split: if_splits)
  from assms tenant have load: "load_approval_with_decision db tenant_id (tc_approval_id tc) = Inr (a, d)"
    by (auto simp: check_token_def Let_def p reject_def split: if_splits)
  with assms tenant show ?thesis
    by (intro that [of tc]) (simp_all add: check_token_def Let_def p reject_def not_le split: if_splits)
qed

lemma check_token_rows:
  assumes "check_token sha jwt st db tenant_id token expected now = Inr (a, d)"
  shows "a \<in> set (db_approvals db)" "ar_tenant_id a = tenant_id" "ar_status a = APPROVED"
    "d \<in> set (db_decisions db)" "ed_id d = ar_decision_id a" "ed_tenant_id d = tenant_id"
  using assms by (auto elim!: check_token_facts dest: load_facts)

lemma consume_inv:
  assumes "enf_inv db"
    and "consume_approval_token sha jwt st db tenant_id token actor_id expected now = (out, db')"
  shows "enf_inv db'"
  using assms(2)
proof (cases rule: consume_cases)
  case (consumed a d payload)
  note l = check_token_rows [OF consumed(1)]
  show ?thesis unfolding consumed(4)
    by (rule rewrite_decision_inv [OF update_approvals_inv [OF assms(1)]])
      (use l(4) in \<open>simp_all add: owner_key_def gate_key_def\<close>)
qed (use assms(1) in simp)

end
