(* ===== verification/Enf_Gate_Correct.thy ===== *)
theory Enf_Gate_Correct
  imports Enf_Gate_Facts
begin

text \<open>
  The lemmas behind the gate's theorems: the case analysis of an evaluation, what a committed
  evaluation leaves behind, the limits it stays within, when it succeeds, that it decides once per
  idempotency key, what it reserves and records, and the fail-safe gate.
\<close>

lemma evaluate_gate_cases:
  assumes "evaluate_gate vd sha env db tenant_id actor_id source gi = (out, db')"
    and inv: "enf_inv db" and delta: "0 \<le> gi_estimated_monthly_delta_usd gi"
  obtains (refused) e where "out = Inl e" "db' = db"
    | (existing) gc db1 r where "gate_open vd sha db tenant_id source gi = Inr (gc, Some r, db1)"
      "out = Inr r" "db' = db"
    | (new) gc db1 d db2 r where "gate_open vd sha db tenant_id source gi = Inr (gc, None, db1)" "enf_inv db1"
      "row_for d db1 env gc tenant_id source (gate_verdict_on env db1 gc tenant_id gi)"
      "reserved_for d (ge_now env) (insert_decision d db1) db2" "out = Inr r"
      "commits sha db2 d (gi_dry_run gi) gc actor_id (ge_now env) r db'"
proof (cases "gate_open vd sha db tenant_id source gi")
  case (Inl e)
  with assms(1) refused show ?thesis by (auto simp: evaluate_gate_def)
next
  case (Inr x)
  then obtain gc old db1 where o: "gate_open vd sha db tenant_id source gi = Inr (gc, old, db1)"
    by (cases x) auto
  show ?thesis
  proof (cases old)
    case (Some r)
    have "(out, db') = (Inr r, db)" using assms(1) unfolding evaluate_gate_def o Some by simp
    with o Some existing show ?thesis by blast
  next
    case None
    show ?thesis
    proof (cases "acquire_gate_evaluation_lock db1 (gc_policy gc) (ge_lock env)")
      case lock: (Inl e)
      have "(out, db') = (Inl e, db)" using assms(1) lock unfolding evaluate_gate_def o None by simp
      with refused show ?thesis by blast
    next
      case lock: (Inr u)
      have run: "gate_decide sha env db db1 gc tenant_id actor_id source gi = (out, db')"
        using assms(1) lock unfolding evaluate_gate_def o None by simp
      have inv1: "enf_inv db1" by (rule gate_open_inv [OF o inv])
      note on_refusal = refused and on_commit = new
      from run inv1 delta show ?thesis
      proof (cases rule: gate_decide_cases)
        case (existing r)
        have "db_decisions db1 = db_decisions db" "db_approvals db1 = db_approvals db"
          using get_or_create_policy_frame [OF gate_open_facts(1) [OF o]] by simp_all
        with existing(1) gate_open_facts(3) [OF o] None show ?thesis
          by (simp add: get_existing_gate_result_def get_decision_by_idempotency_def get_approval_by_decision_def)
      next
        case (failed d e)
        with on_refusal show ?thesis by blast
      next
        case (new d db2 r)
        with o None inv1 on_commit show ?thesis by blast
      qed
    qed
  qed
qed

text \<open>What a committed evaluation leaves behind, in terms of the database it started from.\<close>

lemma new_decision_facts:
  assumes o: "gate_open vd sha db tenant_id source gi = Inr (gc, None, db1)" and inv1: "enf_inv db1"
    and row: "row_for d db1 env gc tenant_id source v"
    and res: "reserved_for d (ge_now env) (insert_decision d db1) db2"
    and com: "commits sha db2 d dry gc actor_id (ge_now env) r db'"
  shows "db_decisions db' = db_decisions db @ [gr_decision r]"
    and "row_for (gr_decision r) db1 env gc tenant_id source v"
    and "\<exists>i. db_ledger db' = db_ledger db @ [ledger_entry sha i (ge_now env) (gr_decision r) (gr_approval r)]"
    and "\<exists>new. db_allocations db' = db_allocations db @ new \<and> (ed_reservation_active d \<or> new = [])"
    and "gr_approval r = None \<longleftrightarrow> \<not> wants_approval d dry gc"
    and "db_approvals db' = db_approvals db @ (case gr_approval r of None \<Rightarrow> [] | Some a \<Rightarrow> [a])"
proof -
  have i: "ed_id d = db_next_id db1" using row by (simp add: row_for_def)
  note frame = get_or_create_policy_frame [OF gate_open_facts(1) [OF o]]
  obtain new where new: "db_allocations db2 = db_allocations db1 @ new" "ed_reservation_active d \<or> new = []"
    "db_decisions db2 = db_decisions db1 @ [d]" "db_ledger db2 = db_ledger db1" "db_approvals db2 = db_approvals db1"
    by (rule reserved_forE [OF res inv1 i]) blast
  show "db_decisions db' = db_decisions db @ [gr_decision r]"
    using commits_decisions [OF com new(3) inv1 i] frame by simp
  show "row_for (gr_decision r) db1 env gc tenant_id source v"
    using row com by (auto simp: row_for_def commits_def)
  show "\<exists>i. db_ledger db' = db_ledger db @ [ledger_entry sha i (ge_now env) (gr_decision r) (gr_approval r)]"
    using com new(4) frame by (auto simp: commits_def)
  show "\<exists>new. db_allocations db' = db_allocations db @ new \<and> (ed_reservation_active d \<or> new = [])"
    using com new(1,2) frame by (auto simp: commits_def)
  show "gr_approval r = None \<longleftrightarrow> \<not> wants_approval d dry gc"
    using com by (auto simp: commits_def split: if_splits)
  show "db_approvals db' = db_approvals db @ (case gr_approval r of None \<Rightarrow> [] | Some a \<Rightarrow> [a])"
    using com new(5) frame by (auto simp: commits_def split: if_splits)
qed

subsection \<open>Limits\<close>

definition budgets_ok :: "enf_db \<Rightarrow> bool" where
  "budgets_ok db \<longleftrightarrow> (\<forall>b \<in> set (db_budgets db). money (ba_monthly_limit_usd b))"

lemma reserved_totals_money:
  assumes "enf_inv db" "get_reserved_totals db tenant_id ms me = (A, C)"
  shows "money A" "money C"
proof -
  have "money (ed_reserved_allocation_usd d) \<and> money (ed_reserved_credit_usd d)" if "d \<in> set (db_decisions db)" for d
    using enf_invD(6) [OF assms(1) that] by (simp add: decision_ok_def)
  then show "money A" "money C"
    using assms(2) by (auto simp: get_reserved_totals_def Let_def intro!: money_sum_list)
qed

lemma reserved_totals_append:
  assumes "db_decisions db' = db_decisions db @ [d]" "ed_tenant_id d = tenant_id" "ed_reservation_active d"
    "ms \<le> ed_created_at d" "ed_created_at d < me" "get_reserved_totals db tenant_id ms me = (A, C)"
  shows "get_reserved_totals db' tenant_id ms me = (A + ed_reserved_allocation_usd d, C + ed_reserved_credit_usd d)"
  using assms by (auto simp: get_reserved_totals_def Let_def active_in_month_def)

text \<open>Spending within the headroom a limit leaves keeps within the limit.\<close>

lemma within_limit:
  assumes "on_grid 4 limit" "on_grid 4 used" "0 < amount" "amount \<le> normalized_headroom (quantize 4 (max 0 (limit - used)))"
  shows "used + amount \<le> limit"
proof -
  have "on_grid 4 (max 0 (limit - used))" using assms(1,2) by simp
  then have "amount \<le> max 0 (limit - used)" using assms(4) by (simp add: normalized_headroom_def)
  with assms(3) show ?thesis by (simp add: max_def split: if_splits)
qed

lemma effective_budget_ok:
  "budgets_ok db \<Longrightarrow> get_effective_budget db tenant_id scope = Some b \<Longrightarrow> money (ba_monthly_limit_usd b)"
  by (auto simp: get_effective_budget_def budgets_ok_def Let_def dest!: first_row_SomeD split: option.splits)

lemma gate_new_within:
  assumes inv1: "enf_inv db1" and b: "budgets_ok db1"
    and row: "row_for d db1 env gc tenant_id source (gate_verdict_on env db1 gc tenant_id gi)"
    and delta: "0 \<le> gi_estimated_monthly_delta_usd gi" and active: "ed_reservation_active d"
    and mb: "month_bounds (ge_now env) = (ms, me)" and t: "get_reserved_totals db1 tenant_id ms me = (A, C)"
  shows "opt_all (\<lambda>limit. A + C + (ed_reserved_allocation_usd d + ed_reserved_credit_usd d) \<le> limit)
      (resolve_plan_monthly_ceiling_usd (gc_policy gc) (ge_tier_limit env))"
    and "opt_all (\<lambda>limit. A + C + (ed_reserved_allocation_usd d + ed_reserved_credit_usd d) \<le> limit)
      (resolve_enterprise_monthly_ceiling_usd (gc_policy gc) (ge_tier_limit env))"
    and "opt_all (\<lambda>b. ed_reserved_allocation_usd d = 0 \<or> A + ed_reserved_allocation_usd d \<le> ba_monthly_limit_usd b)
      (get_effective_budget db1 tenant_id (gi_project_id gi))"
proof -
  let ?f = "gate_figures_of env db1 (gc_policy gc) tenant_id (gi_project_id gi)"
  let ?v = "gate_verdict_on env db1 gc tenant_id gi"
  have w: "verdict_within ?f ?v" unfolding gate_verdict_on_def Let_def by (rule gate_verdict_within [OF delta])
  have eq: "ed_reserved_allocation_usd d = gv_allocation ?v" "ed_reserved_credit_usd d = gv_credit ?v"
    using row by (simp_all add: row_for_def)
  have pos: "0 < gv_allocation ?v + gv_credit ?v"
    using active row gate_verdict_active [of ?v "gc_policy gc" "gc_mode gc" gi "is_production_environment (gc_environment gc)"]
    by (auto simp: row_for_def gate_verdict_on_def Let_def)
  note m = reserved_totals_money [OF inv1 t]
  have g: "on_grid 4 (A + C)" "on_grid 4 A" using m by (simp_all add: money_grid)
  have f: "gf_plan_headroom ?f = map_option (\<lambda>c. quantize 4 (max 0 (c - (A + C))))
      (resolve_plan_monthly_ceiling_usd (gc_policy gc) (ge_tier_limit env))"
    "gf_enterprise_headroom ?f = map_option (\<lambda>c. quantize 4 (max 0 (c - (A + C))))
      (resolve_enterprise_monthly_ceiling_usd (gc_policy gc) (ge_tier_limit env))"
    "gf_allocation_headroom ?f = map_option (\<lambda>b. max 0 (ba_monthly_limit_usd b - A))
      (get_effective_budget db1 tenant_id (gi_project_id gi))"
    using mb t g by (simp_all add: gate_figures_of_def Let_def case_prod_beta)
  have ceil: "on_grid 4 c" if "resolve_ceiling x raw = Some c" for x raw c
    using resolve_ceiling_positive [OF that] by (simp add: money_grid)
  have total: "opt_all (\<lambda>limit. A + C + (gv_allocation ?v + gv_credit ?v) \<le> limit) c"
    if "opt_all (on_grid 4) c"
      "opt_all (\<lambda>h. gv_allocation ?v + gv_credit ?v \<le> normalized_headroom h)
        (map_option (\<lambda>c. quantize 4 (max 0 (c - (A + C)))) c)" for c
    using that within_limit [OF _ g(1) pos] by (cases c) auto
  show "opt_all (\<lambda>limit. A + C + (ed_reserved_allocation_usd d + ed_reserved_credit_usd d) \<le> limit)
      (resolve_plan_monthly_ceiling_usd (gc_policy gc) (ge_tier_limit env))"
    unfolding eq by (rule total)
      (use w f(1) in \<open>auto simp: verdict_within_def opt_all_def resolve_plan_monthly_ceiling_usd_def dest: ceil split: option.splits\<close>)
  show "opt_all (\<lambda>limit. A + C + (ed_reserved_allocation_usd d + ed_reserved_credit_usd d) \<le> limit)
      (resolve_enterprise_monthly_ceiling_usd (gc_policy gc) (ge_tier_limit env))"
    unfolding eq by (rule total)
      (use w f(2) in \<open>auto simp: verdict_within_def opt_all_def resolve_enterprise_monthly_ceiling_usd_def dest: ceil split: option.splits\<close>)
  show "opt_all (\<lambda>b. ed_reserved_allocation_usd d = 0 \<or> A + ed_reserved_allocation_usd d \<le> ba_monthly_limit_usd b)
      (get_effective_budget db1 tenant_id (gi_project_id gi))"
  proof (cases "get_effective_budget db1 tenant_id (gi_project_id gi)")
    case (Some x)
    have lim: "on_grid 4 (ba_monthly_limit_usd x)" using effective_budget_ok [OF b Some] by (simp add: money_grid)
    have "gv_allocation ?v \<le> normalized_headroom (quantize 4 (max 0 (ba_monthly_limit_usd x - A)))"
      using w f(3) Some lim g(2) by (simp add: verdict_within_def)
    moreover have "0 \<le> gv_allocation ?v" using w by (auto simp: verdict_within_def dest: money_nonneg)
    ultimately show ?thesis using within_limit [OF lim g(2), of "gv_allocation ?v"] eq Some by force
  qed simp
qed

lemma existing_not_new:
  assumes "gate_open vd sha db tenant_id source gi = Inr (gc, Some r, db1)"
  shows "gr_decision r \<in> set (db_decisions db)"
  using gate_open_facts(3) [OF assms]
  by (auto simp: get_existing_gate_result_def get_decision_by_idempotency_def dest!: sym [of "Some _"] first_row_SomeD)

lemma gate_limits:
  assumes inv: "enf_inv db" and budgets: "budgets_ok db" and delta: "0 \<le> gi_estimated_monthly_delta_usd gi"
    and run: "evaluate_gate vd sha env db tenant_id actor_id source gi = (Inr r, db')"
    and fresh: "gr_decision r \<notin> set (db_decisions db)" and active: "ed_reservation_active (gr_decision r)"
    and p: "get_or_create_policy vd sha db tenant_id = (Inr p, db1)"
    and m: "month_bounds (ge_now env) = (month_start, month_end)"
    and t: "get_reserved_totals db' tenant_id month_start month_end = (allocation, credit)"
  shows "opt_all (\<lambda>limit. allocation + credit \<le> limit) (resolve_plan_monthly_ceiling_usd p (ge_tier_limit env))
    \<and> opt_all (\<lambda>limit. allocation + credit \<le> limit) (resolve_enterprise_monthly_ceiling_usd p (ge_tier_limit env))
    \<and> opt_all (\<lambda>b. ed_reserved_allocation_usd (gr_decision r) = 0 \<or> allocation \<le> ba_monthly_limit_usd b)
        (get_effective_budget db tenant_id (gi_project_id gi))"
  using run inv delta
proof (cases rule: evaluate_gate_cases)
  case (existing gc db2 r')
  with existing_not_new [OF existing(1)] fresh show ?thesis by simp
next
  case (new gc db2 d db3 r')
  have r: "r' = r" and pol: "gc_policy gc = p" "db2 = db1"
    using new(5) gate_open_facts(1) [OF new(1)] p by simp_all
  note facts = new_decision_facts [OF new(1-4,6)] and frame = get_or_create_policy_frame [OF p]
  let ?d = "gr_decision r"
  obtain A C where t1: "get_reserved_totals db1 tenant_id month_start month_end = (A, C)" by force
  have dec: "db_decisions db' = db_decisions db1 @ [?d]" using facts(1) frame r by simp
  have row: "row_for ?d db1 env gc tenant_id source (gate_verdict_on env db1 gc tenant_id gi)"
    using facts(2) r pol by simp
  have "get_reserved_totals db' tenant_id month_start month_end =
      (A + ed_reserved_allocation_usd ?d, C + ed_reserved_credit_usd ?d)"
    by (rule reserved_totals_append [OF dec _ active _ _ t1])
      (use row month_bounds_contain [OF m] in \<open>auto simp: row_for_def\<close>)
  then have sums: "allocation = A + ed_reserved_allocation_usd ?d" "credit = C + ed_reserved_credit_usd ?d"
    using t by simp_all
  have b1: "budgets_ok db1" "get_effective_budget db1 = get_effective_budget db"
    using budgets frame(7) by (simp_all add: budgets_ok_def get_effective_budget_def fun_eq_iff)
  from gate_new_within [OF new(2) [unfolded pol] b1(1) row delta active m t1] show ?thesis
    unfolding pol b1(2) sums by (simp add: algebra_simps)
qed simp

subsection \<open>Succeeding\<close>

lemma row_ok_routes: "policy_row_ok p \<Longrightarrow> \<exists>trace. resolve_approval_routing_trace p d = Inr trace"
  by (auto simp: policy_row_ok_def resolve_approval_routing_trace_def match_rules_first rules_normal_def)

lemma gate_open_of_policy:
  assumes "get_or_create_policy vd sha db tenant_id = (Inr p, db1)"
    and "gc = build_gate_evaluation_context sha p source gi"
  shows "gate_open vd sha db tenant_id source gi = Inr (gc,
      get_existing_gate_result db tenant_id source (gc_idempotency_key gc) (gc_ttl_seconds gc), db1)"
    and "gc_policy gc = p"
  using assms by (simp_all add: gate_open_def build_gate_evaluation_context_def Let_def split: prod.splits)

lemma lock_free:
  assumes "get_or_create_policy vd sha db tenant_id = (Inr p, db1)"
  shows "acquire_gate_evaluation_lock db1 p LockAcquired = Inr ()"
proof -
  have "p \<in> set (db_policies db1)"
    using get_or_create_policy_row(1) [OF assms] by (auto simp: policy_of_def dest: first_row_SomeD)
  then have "count_where (\<lambda>r. ep_id r = ep_id p \<and> ep_tenant_id r = ep_tenant_id p) (db_policies db1) \<noteq> 0"
    by (auto simp: count_where_def filter_empty_conv)
  then show ?thesis by (simp add: acquire_gate_evaluation_lock_def)
qed

lemma gate_succeeds:
  assumes inv: "enf_inv db" and delta: "0 \<le> gi_estimated_monthly_delta_usd gi"
    and p: "get_or_create_policy vd sha db tenant_id = (Inr p, db1)" "policy_row_ok p"
    and lock: "ge_lock env = LockAcquired"
  shows "\<exists>r db'. evaluate_gate vd sha env db tenant_id actor_id source gi = (Inr r, db')"
proof -
  define gc where "gc = build_gate_evaluation_context sha p source gi"
  note o = gate_open_of_policy [OF p(1) gc_def]
  show ?thesis
  proof (cases "get_existing_gate_result db tenant_id source (gc_idempotency_key gc) (gc_ttl_seconds gc)")
    case (Some r)
    with o show ?thesis by (simp add: evaluate_gate_def)
  next
    case None
    obtain out db' where run: "gate_decide sha env db db1 gc tenant_id actor_id source gi = (out, db')" by force
    have eval: "evaluate_gate vd sha env db tenant_id actor_id source gi = (out, db')"
      using o None lock lock_free [OF p(1)] run by (simp add: evaluate_gate_def)
    have "enf_inv db1" using gate_open_inv o(1) inv by blast
    from run this delta show ?thesis
    proof (cases rule: gate_decide_cases)
      case (failed d e)
      with row_ok_routes [OF p(2), of d] o(2) show ?thesis by simp
    qed (use eval in simp_all)
  qed
qed

subsection \<open>Deciding once\<close>

lemma approval_of_new:
  assumes "enf_inv db" "db_next_id db \<le> did"
  shows "first_row (\<lambda>a. ar_decision_id a = did) (db_approvals db) = None"
proof -
  have "ar_decision_id a < db_next_id db" if "a \<in> set (db_approvals db)" for a
    using enf_invD(6,8) [OF assms(1)] that by (fastforce simp: approval_owned_def owner_key_def decision_ok_def)
  with assms(2) show ?thesis by (fastforce simp: first_row_None)
qed

lemma gate_result_found:
  assumes inv: "enf_inv db" and delta: "0 \<le> gi_estimated_monthly_delta_usd gi"
    and run: "evaluate_gate vd sha env db tenant_id actor_id source gi = (Inr r, db')"
  shows "get_existing_gate_result db' tenant_id source
      (resolve_idempotency_key (stable_fingerprint sha source gi) (gi_idempotency_key gi)) ttl = Some (r\<lparr>gr_ttl_seconds := ttl\<rparr>)"
    and "ed_idempotency_key (gr_decision r) = resolve_idempotency_key (stable_fingerprint sha source gi) (gi_idempotency_key gi)"
proof -
  have key: "gc_idempotency_key gc = resolve_idempotency_key (stable_fingerprint sha source gi) (gi_idempotency_key gi)"
    if "gate_open vd sha db tenant_id source gi = Inr (gc, old, db1)" for gc old db1
    by (subst gate_open_facts(2) [OF that])
      (simp add: build_gate_evaluation_context_def Let_def split: prod.splits)
  from run inv delta
  have "get_existing_gate_result db' tenant_id source
      (resolve_idempotency_key (stable_fingerprint sha source gi) (gi_idempotency_key gi)) ttl = Some (r\<lparr>gr_ttl_seconds := ttl\<rparr>)
    \<and> ed_idempotency_key (gr_decision r) = resolve_idempotency_key (stable_fingerprint sha source gi) (gi_idempotency_key gi)"
  proof (cases rule: evaluate_gate_cases)
    case (existing gc db1 r')
    then obtain d where d: "get_decision_by_idempotency db tenant_id source (gc_idempotency_key gc) = Some d"
      "r = \<lparr>gr_decision = d, gr_approval = get_approval_by_decision db (ed_id d), gr_approval_token = None,
         gr_ttl_seconds = gc_ttl_seconds gc\<rparr>"
      using gate_open_facts(3) [OF existing(1)] by (auto simp: get_existing_gate_result_def dest!: sym [of "Some _"])
    from d(1) have "ed_idempotency_key d = gc_idempotency_key gc"
      by (auto simp: get_decision_by_idempotency_def dest: first_row_SomeD)
    with d existing(3) key [OF existing(1)] show ?thesis by (simp add: get_existing_gate_result_def)
  next
    case (new gc db1 d db2 r')
    let ?d = "gr_decision r"
    note facts = new_decision_facts [OF new(1-4,6)]
    have r: "r' = r" using new(5) by simp
    have row: "ed_tenant_id ?d = tenant_id" "ed_source ?d = source" "ed_idempotency_key ?d = gc_idempotency_key gc"
      "ed_id ?d = db_next_id db1" using facts(2) r by (simp_all add: row_for_def)
    have none: "get_decision_by_idempotency db tenant_id source (gc_idempotency_key gc) = None"
      using gate_open_facts(3) [OF new(1)] by (simp add: get_existing_gate_result_def)
    have d: "get_decision_by_idempotency db' tenant_id source (gc_idempotency_key gc) = Some ?d"
      using first_row_append_None [OF none [unfolded get_decision_by_idempotency_def]] facts(1) r row
      by (simp add: get_decision_by_idempotency_def first_row_def [of _ "[_]"])
    have id: "db_next_id db \<le> ed_id ?d"
      using get_or_create_policy_frame(5) [OF gate_open_facts(1) [OF new(1)]] row by simp
    have ids: "ed_id ?d = ed_id d" using row(4) new(3) by (simp add: row_for_def)
    have a: "ar_decision_id a = ed_id ?d" if "gr_approval r = Some a" for a
      using new(6) that unfolding ids r commits_def by (auto simp: new_gate_approval_def split: if_splits)
    have "get_approval_by_decision db' (ed_id ?d) = gr_approval r"
      using approval_of_new [OF inv id] first_row_append_None [OF approval_of_new [OF inv id]] facts(6) r a
      by (cases "gr_approval r") (simp_all add: get_approval_by_decision_def first_row_def [of _ "[_]"] first_row_def [of _ "[]"])
    moreover have "gr_approval_token r = None" using new(6) r by (simp add: commits_def)
    ultimately show ?thesis using d key [OF new(1)] row
      by (simp add: get_existing_gate_result_def)
  qed simp
  then show "get_existing_gate_result db' tenant_id source
      (resolve_idempotency_key (stable_fingerprint sha source gi) (gi_idempotency_key gi)) ttl = Some (r\<lparr>gr_ttl_seconds := ttl\<rparr>)"
    and "ed_idempotency_key (gr_decision r) = resolve_idempotency_key (stable_fingerprint sha source gi) (gi_idempotency_key gi)"
    by simp_all
qed

lemma gate_repeats:
  assumes "enf_inv db" "0 \<le> gi_estimated_monthly_delta_usd gi"
    and "evaluate_gate vd sha env db tenant_id actor_id source gi = (Inr r, db')"
    and "get_or_create_policy vd sha db' tenant_id = (Inr p, db2)"
  shows "evaluate_gate vd sha env' db' tenant_id actor_id' source gi
      = (Inr (r\<lparr>gr_ttl_seconds := clamp 60 86400 (ep_default_ttl_seconds p)\<rparr>), db')"
  using gate_result_found(1) [OF assms(1-3)] gate_open_of_policy(1) [OF assms(4) refl, of source gi]
  by (simp add: evaluate_gate_def build_gate_evaluation_context_def Let_def split: prod.splits)

lemma gate_race_loses:
  assumes "enf_inv db" "0 \<le> gi_estimated_monthly_delta_usd gi"
    and "evaluate_gate vd sha env db tenant_id actor_id source gi = (Inr r, db')"
    and "gc_idempotency_key gc = ed_idempotency_key (gr_decision r)"
    and "db_decisions view = db_decisions db'" "db_approvals view = db_approvals db'"
  shows "gate_decide sha env' db' view gc tenant_id actor_id' source gi'
      = (Inr (r\<lparr>gr_ttl_seconds := gc_ttl_seconds gc\<rparr>), db')"
proof -
  have "get_existing_gate_result view tenant_id source (gc_idempotency_key gc) (gc_ttl_seconds gc)
      = Some (r\<lparr>gr_ttl_seconds := gc_ttl_seconds gc\<rparr>)"
    using gate_result_found(1) [OF assms(1-3), of "gc_ttl_seconds gc"] gate_result_found(2) [OF assms(1-3)] assms(4-6)
    by (simp add: get_existing_gate_result_def get_decision_by_idempotency_def get_approval_by_decision_def)
  then show ?thesis by (simp add: gate_decide_def)
qed

lemma reserved_for_policies:
  assumes "reserved_for d now (insert_decision d db) db2"
  shows "db_policies db2 = db_policies db"
proof -
  from assms have "db2 = (insert_decision d db)\<lparr>db_grants := db_grants db2, db_allocations := db_allocations db2,
      db_next_id := db_next_id db2\<rparr>"
    by (auto simp: reserved_for_def reserves_credit_def)
  then show ?thesis by (metis enf_db.select_convs(1) enf_db.surjective enf_db.update_convs(3,4,5,9) insert_decision_def)
qed

lemma gate_policies:
  assumes "enf_inv db" "0 \<le> gi_estimated_monthly_delta_usd gi"
    and run: "evaluate_gate vd sha env db tenant_id actor_id source gi = (Inr r, db')"
    and fresh: "gr_decision r \<notin> set (db_decisions db)"
    and p: "get_or_create_policy vd sha db tenant_id = (Inr p, db1)"
  shows "db_policies db' = db_policies db1"
  using run assms(1,2)
proof (cases rule: evaluate_gate_cases)
  case (existing gc db2 r')
  with existing_not_new [OF existing(1)] fresh show ?thesis by simp
next
  case (new gc db2 d db3 r')
  with gate_open_facts(1) [OF new(1)] p reserved_for_policies [OF new(4)] show ?thesis by (simp add: commits_def)
qed simp

subsection \<open>What is reserved and recorded\<close>

lemma reserved_for_inactive:
  assumes "reserved_for d now (insert_decision d db) db2" "\<not> ed_reservation_active d"
  shows "db_grants db2 = db_grants db"
  using assms by (auto simp: reserved_for_def insert_decision_def)

text \<open>The mode an evaluation runs in.\<close>

definition gate_mode :: "enforcement_policy \<Rightarrow> enforcement_source \<Rightarrow> gate_input \<Rightarrow> enforcement_mode" where
  "gate_mode p source gi = fst (resolve_policy_mode p source (normalize_environment (gi_environment gi)))"

lemma gate_mode_of_context:
  "gate_open vd sha db tenant_id source gi = Inr (gc, old, db1) \<Longrightarrow> gc_mode gc = gate_mode (gc_policy gc) source gi"
  by (subst (1) gate_open_facts(2), assumption)
    (simp add: build_gate_evaluation_context_def gate_mode_def Let_def split: prod.splits)

lemma gate_reserves_when_enforced:
  assumes inv: "enf_inv db" and delta: "0 \<le> gi_estimated_monthly_delta_usd gi"
    and run: "evaluate_gate vd sha env db tenant_id actor_id source gi = (Inr r, db')"
    and fresh: "gr_decision r \<notin> set (db_decisions db)"
    and p: "get_or_create_policy vd sha db tenant_id = (Inr p, db1)"
  shows "(ed_reservation_active (gr_decision r) \<longleftrightarrow> \<not> gi_dry_run gi \<and> ed_decision (gr_decision r) \<noteq> DENY
       \<and> gate_mode p source gi \<noteq> SHADOW \<and> 0 < ed_reserved_allocation_usd (gr_decision r) + ed_reserved_credit_usd (gr_decision r))
    \<and> (ed_reservation_active (gr_decision r) \<or> db_grants db' = db_grants db \<and> db_allocations db' = db_allocations db)
    \<and> (gr_approval r \<noteq> None \<longleftrightarrow> ed_decision (gr_decision r) = REQUIRE_APPROVAL \<and> \<not> gi_dry_run gi \<and> gate_mode p source gi \<noteq> SHADOW)
    \<and> db_approvals db' = db_approvals db @ (case gr_approval r of None \<Rightarrow> [] | Some a \<Rightarrow> [a])"
  using run inv delta
proof (cases rule: evaluate_gate_cases)
  case (existing gc db2 r')
  with existing_not_new [OF existing(1)] fresh show ?thesis by simp
next
  case (new gc db2 d db3 r')
  have r: "r' = r" and pol: "gc_policy gc = p" "db2 = db1" "gc_mode gc = gate_mode p source gi"
    using new(5) gate_open_facts(1) [OF new(1)] p gate_mode_of_context [OF new(1)] by simp_all
  note facts = new_decision_facts [OF new(1-4,6)] and frame = get_or_create_policy_frame [OF p]
  let ?d = "gr_decision r" and ?v = "gate_verdict_on env db1 gc tenant_id gi"
  have row: "row_for ?d db1 env gc tenant_id source ?v" "row_for d db1 env gc tenant_id source ?v"
    using facts(2) new(3) r pol by simp_all
  then have eq: "ed_reservation_active ?d = ed_reservation_active d" "ed_decision d = ed_decision ?d"
    by (simp_all add: row_for_def)
  have "ed_reservation_active ?d \<longleftrightarrow> \<not> gi_dry_run gi \<and> ed_decision ?d \<noteq> DENY
      \<and> gate_mode p source gi \<noteq> SHADOW \<and> 0 < ed_reserved_allocation_usd ?d + ed_reserved_credit_usd ?d"
    using row(1) gate_verdict_active [OF refl] pol(3)
    unfolding row_for_def gate_verdict_on_def Let_def by simp
  moreover have "ed_reservation_active ?d \<or> db_grants db' = db_grants db \<and> db_allocations db' = db_allocations db"
    using facts(4) new(6) reserved_for_inactive [OF new(4)] frame pol eq(1) by (auto simp: commits_def)
  moreover have "gr_approval r \<noteq> None \<longleftrightarrow> ed_decision ?d = REQUIRE_APPROVAL \<and> \<not> gi_dry_run gi \<and> gate_mode p source gi \<noteq> SHADOW"
    using facts(5) r pol eq(2) by (simp add: wants_approval_def)
  ultimately show ?thesis using facts(6) r by blast
qed simp

lemma gate_appends:
  assumes inv: "enf_inv db" and delta: "0 \<le> gi_estimated_monthly_delta_usd gi"
    and run: "evaluate_gate vd sha env db tenant_id actor_id source gi = (out, db')"
  shows "db' = db \<or> (\<exists>r i. out = Inr r \<and> db_decisions db' = db_decisions db @ [gr_decision r]
     \<and> db_ledger db' = db_ledger db @ [ledger_entry sha i (ge_now env) (gr_decision r) (gr_approval r)])"
  using run inv delta
proof (cases rule: evaluate_gate_cases)
  case (new gc db2 d db3 r)
  from new_decision_facts(1,3) [OF new(1-4,6)] new(5) show ?thesis by blast
qed simp_all

lemma fail_safe_by_mode:
  assumes inv: "enf_inv db"
    and run: "resolve_fail_safe_gate vd sha env db tenant_id actor_id source gi code metadata = (Inr r, db')"
    and fresh: "gr_decision r \<notin> set (db_decisions db)"
    and p: "get_or_create_policy vd sha db tenant_id = (Inr p, db1)"
  shows "ed_decision (gr_decision r) = mode_violation_decision (gate_mode p source gi)
    \<and> \<not> ed_reservation_active (gr_decision r) \<and> ed_reserved_allocation_usd (gr_decision r) = 0
    \<and> ed_reserved_credit_usd (gr_decision r) = 0
    \<and> db_grants db' = db_grants db \<and> db_allocations db' = db_allocations db
    \<and> (gr_approval r \<noteq> None \<longleftrightarrow> gate_mode p source gi = SOFT \<and> \<not> gi_dry_run gi) \<and> enf_inv db'"
  using run
proof (cases rule: fail_safe_cases)
  case (existing gc db2 r')
  with existing_not_new [OF existing(1)] fresh show ?thesis by simp
next
  case (new gc db2 d r')
  have r: "r' = r" and pol: "gc_policy gc = p" "db2 = db1" "gc_mode gc = gate_mode p source gi"
    using new(4) gate_open_facts(1) [OF new(1)] p gate_mode_of_context [OF new(1)] by simp_all
  have inv1: "enf_inv db1" using gate_open_inv [OF new(1) inv] pol by simp
  have row: "ed_decision d = mode_violation_decision (gate_mode p source gi)" "\<not> ed_reservation_active d"
    "ed_reserved_allocation_usd d = 0" "ed_reserved_credit_usd d = 0" "ed_id d = db_next_id db1"
    using new(2) pol by (simp_all add: row_for_def no_reservation_def)
  obtain response where d: "gr_decision r = d\<lparr>ed_response_payload := response\<rparr>"
    using new(5) r by (auto simp: commits_def)
  have "enf_inv db'"
    by (rule commit_inv [OF inv1 new(3) [unfolded pol(2)] row(5) _ _ no_reservation_reserved [OF inv1 row(2)] new(5) [unfolded pol(2)]])
      (use row in simp_all)
  moreover have "gr_approval r \<noteq> None \<longleftrightarrow> gate_mode p source gi = SOFT \<and> \<not> gi_dry_run gi"
    using new(5) r pol(3) row(1)
    by (cases "gate_mode p source gi") (auto simp: commits_def wants_approval_def mode_violation_decision_def)
  ultimately show ?thesis
    using row d new(5) get_or_create_policy_frame [OF p] pol(2) by (simp add: commits_def insert_decision_def)
qed simp

lemma fail_safe_succeeds:
  assumes p: "get_or_create_policy vd sha db tenant_id = (Inr p, db1)" "policy_row_ok p"
  shows "\<exists>r db'. resolve_fail_safe_gate vd sha env db tenant_id actor_id source gi code metadata = (Inr r, db')"
proof -
  define gc where "gc = build_gate_evaluation_context sha p source gi"
  note o = gate_open_of_policy [OF p(1) gc_def]
  obtain out db' where run: "resolve_fail_safe_gate vd sha env db tenant_id actor_id source gi code metadata = (out, db')"
    by force
  show ?thesis
  proof (cases "get_existing_gate_result db tenant_id source (gc_idempotency_key gc) (gc_ttl_seconds gc)")
    case (Some r)
    with o show ?thesis by (simp add: resolve_fail_safe_gate_def)
  next
    case None
    have "get_existing_gate_result db1 tenant_id source (gc_idempotency_key gc) (gc_ttl_seconds gc) = None"
      using None get_or_create_policy_frame [OF p(1)]
      by (simp add: get_existing_gate_result_def get_decision_by_idempotency_def)
    then have "\<exists>r db'. persist_decision_with_optional_approval sha db db1 d dry gc actor_id now None = (Inr r, db')"
      if "ed_tenant_id d = tenant_id" "ed_source d = source" "ed_idempotency_key d = gc_idempotency_key gc" for d dry now
      using that row_ok_routes [OF p(2)] o(2)
      by (auto simp: persist_decision_with_optional_approval_def run_reserve_def record_decision_def Let_def
          split: sum.splits) (metis Inl_Inr_False)
    then show ?thesis using o None
      by (simp add: resolve_fail_safe_gate_def Let_def split_beta decision_row_of_def)
  qed
qed

end
