(* ===== verification/Enf_Gate_Theorems.thy ===== *)
theory Enf_Gate_Theorems
  imports Enf_Gate_Correct
begin

text \<open>
  The theorems about the gate and their witnesses. The sample evaluation of the witnesses asks for
  20 USD a month where the project's budget has 12 left: 8 come from a reserved credit grant.
\<close>

definition sample_env :: gate_env where
  "sample_env = \<lparr>ge_now = 1750000000000000, ge_tier = ''pro'', ge_tier_limit = (\<lambda>_. JInt 100),
     ge_costs = Inr [], ge_lock = LockAcquired\<rparr>"

definition sample_gate :: "string \<Rightarrow> gate_input" where
  "sample_gate key = \<lparr>gi_project_id = ''web'', gi_environment = ''dev'',
     gi_action = ''terraform.apply'', gi_resource_reference = ''aws_instance.web'',
     gi_estimated_monthly_delta_usd = 20, gi_estimated_hourly_delta_usd = 0, gi_metadata = [],
     gi_idempotency_key = Some key, gi_dry_run = False\<rparr>"

definition sample_sha :: "string \<Rightarrow> string" where
  "sample_sha text = replicate 64 CHR ''0''"

definition sample_validate :: "dict \<Rightarrow> policy_document option" where
  "sample_validate d = Some default_policy_document"

definition sample_budget :: budget_allocation where
  "sample_budget = \<lparr>ba_id = 2, ba_tenant_id = 7, ba_scope_key = ''default'', ba_monthly_limit_usd = 12,
     ba_active = True, ba_created_by_user_id = None\<rparr>"

definition sample_gate_db :: enf_db where
  "sample_gate_db = empty_db\<lparr>db_budgets := [sample_budget], db_grants := [sample_grant 1 RESERVED 30], db_next_id := 3\<rparr>"

definition sample_opened_db :: enf_db where
  "sample_opened_db = sample_gate_db\<lparr>db_policies := [new_policy 3 7], db_next_id := 4\<rparr>"

abbreviation sample_run :: "enf_db \<Rightarrow> gate_input \<Rightarrow> gate_evaluation_result outcome" where
  "sample_run db gi \<equiv> evaluate_gate sample_validate sample_sha sample_env db 7 1 TERRAFORM gi"

lemma sample_gate_db_ok: "enf_inv sample_gate_db" "budgets_ok sample_gate_db"
  subgoal by (simp add: enf_inv_def sample_gate_db_def empty_db_def credit_wf_def sample_grant_def grant_ok_def
      grant_books_def outstanding_def grant_keys_def money_def)
  subgoal by (simp add: budgets_ok_def sample_gate_db_def sample_budget_def money_def)
  done

lemma sample_sha_hash [simp]:
  "stable_fingerprint sample_sha source gi = replicate 64 CHR ''0''"
  "policy_document_sha256 sample_sha doc = replicate 64 CHR ''0''"
  unfolding stable_fingerprint_def policy_document_sha256_def sample_sha_def by (rule refl)+

lemma sample_no_backfill: "\<not> policy_document_contract_backfill_required sample_validate sample_sha (new_policy i t)"
proof -
  have "strip policy_document_schema_version_default = policy_document_schema_version_default"
    "lower (strip policy_document_sha256_empty) = replicate 64 CHR ''0''"
    "length (replicate 64 CHR ''0'') = 64" "list_all is_hex_char (replicate 64 CHR ''0'')"
    by code_simp+
  then show ?thesis
    by (simp add: policy_document_contract_backfill_required_def new_policy_def
        canonical_policy_document_mapping_def sample_validate_def)
qed

lemma sample_policy_loads:
  "get_or_create_policy sample_validate sample_sha sample_gate_db 7 = (Inr (new_policy 3 7), sample_opened_db)"
  by (simp add: get_or_create_policy_def load_policy_def sample_no_backfill sample_gate_db_def sample_opened_db_def
      empty_db_def first_row_def Let_def)

lemma sample_policy_ok: "policy_row_ok (new_policy i t)"
  by (auto simp: policy_row_ok_def new_policy_def money_def rules_normal_def intro!: exI [of _ "[]"])

lemma sample_policy_fields:
  "ep_hard_deny_above_monthly_usd (new_policy i t) = 5000" "\<not> ep_require_approval_for_nonprod (new_policy i t)"
  by (simp_all add: new_policy_def)

definition sample_verdict :: gate_verdict where
  "sample_verdict = gate_verdict_of (new_policy 3 7) SOFT (sample_gate ''k1'') False
     (gate_figures_of sample_env sample_opened_db (new_policy 3 7) 7 ''web'')
     (build_decision_computed_context (Inr []) 7 1 (sample_gate ''k1'') (ge_now sample_env) False)"

lemma sample_figures:
  "gate_figures_of sample_env sample_opened_db (new_policy 3 7) 7 ''web'' =
     \<lparr>gf_plan_ceiling = Some 100, gf_plan_headroom = Some 100, gf_enterprise_ceiling = Some 100,
      gf_enterprise_headroom = Some 100, gf_allocation_headroom = Some 12, gf_reserved_credit_headroom = 30,
      gf_emergency_credit_headroom = 0, gf_credits_available = 30\<rparr>"
  by code_simp

lemma sample_context_source:
  "dc_data_source_mode (build_decision_computed_context (Inr []) 7 1 (sample_gate ''k1'') (ge_now sample_env) False) = ''none''"
  by code_simp

lemma sample_entitlement:
  "er_decision (evaluate_entitlement_waterfall SOFT 20 (Some 100) (Some 12) 30 0 (Some 100)) = ALLOW_WITH_CREDITS"
  "er_reserve_allocation_usd (evaluate_entitlement_waterfall SOFT 20 (Some 100) (Some 12) 30 0 (Some 100)) = 12"
  "er_reserve_credit_usd (evaluate_entitlement_waterfall SOFT 20 (Some 100) (Some 12) 30 0 (Some 100)) = 8"
  by (simp_all add: evaluate_entitlement_waterfall_unfold Let_def case_prod_beta run_pools_fund
      fund_def exceeds_def normalized_headroom_def funding_target_def er_reserve_credit_usd_def)

lemma sample_verdict_figures:
  "gv_active sample_verdict \<and> gv_allocation sample_verdict = 12 \<and> gv_credit sample_verdict = 8
    \<and> gv_decision sample_verdict = ALLOW_WITH_CREDITS"
proof -
  let ?c = "build_decision_computed_context (Inr []) 7 1 (sample_gate ''k1'') (ge_now sample_env) False"
  let ?f = "gate_figures_of sample_env sample_opened_db (new_policy 3 7) 7 ''web''"
  have 1: "policy_verdict (new_policy 3 7) SOFT 20 ?f ?c = entitlement_verdict SOFT 20 ?f []"
    using sample_context_source by (simp add: policy_verdict_def sample_figures sample_policy_fields)
  have 2: "gv_allocation (entitlement_verdict SOFT 20 ?f []) = 12" "gv_credit (entitlement_verdict SOFT 20 ?f []) = 8"
    "gv_decision (entitlement_verdict SOFT 20 ?f []) = ALLOW_WITH_CREDITS"
    using sample_entitlement by (simp_all add: entitlement_verdict_def sample_figures Let_def)
  have 3: "quantize 4 (gi_estimated_monthly_delta_usd (sample_gate ''k1'')) = 20" "\<not> gi_dry_run (sample_gate ''k1'')"
    by (simp_all add: sample_gate_def)
  show ?thesis
    unfolding sample_verdict_def gate_verdict_of_def 3 Let_def 1
    using 2 3 by (simp add: approval_verdict_def reservation_verdict_def sample_policy_fields)
qed

lemma sample_gate_result:
  obtains r db' where "sample_run sample_gate_db (sample_gate ''k1'') = (Inr r, db')"
    "gr_decision r \<notin> set (db_decisions sample_gate_db)" "ed_reservation_active (gr_decision r)"
    "ed_reserved_allocation_usd (gr_decision r) = 12" "ed_reserved_credit_usd (gr_decision r) = 8"
    "ed_decision (gr_decision r) = ALLOW_WITH_CREDITS"
proof -
  have delta: "0 \<le> gi_estimated_monthly_delta_usd (sample_gate ''k1'')" by (simp add: sample_gate_def)
  obtain r db' where run: "sample_run sample_gate_db (sample_gate ''k1'') = (Inr r, db')"
    using gate_succeeds [OF sample_gate_db_ok(1) delta sample_policy_loads sample_policy_ok, of sample_env 1 TERRAFORM]
    by (auto simp: sample_env_def)
  have empty: "db_decisions sample_gate_db = []" by (simp add: sample_gate_db_def empty_db_def)
  from run sample_gate_db_ok(1) delta
  have "row_for (gr_decision r) sample_opened_db sample_env
      (build_gate_evaluation_context sample_sha (new_policy 3 7) TERRAFORM (sample_gate ''k1'')) 7 TERRAFORM sample_verdict"
  proof (cases rule: evaluate_gate_cases)
    case (existing gc db1 r')
    with existing_not_new [OF existing(1)] empty show ?thesis by simp
  next
    case (new gc db1 d db2 r')
    have gc: "gc_policy gc = new_policy 3 7" "db1 = sample_opened_db"
      using gate_open_facts(1) [OF new(1)] sample_policy_loads by simp_all
    have ctx: "gc = build_gate_evaluation_context sample_sha (new_policy 3 7) TERRAFORM (sample_gate ''k1'')"
      using gate_open_facts(2) [OF new(1)] gc(1) by simp
    have samples: "gi_environment (sample_gate ''k1'') = ''dev''" "gi_project_id (sample_gate ''k1'') = ''web''"
      "ge_costs sample_env = Inr []" "ep_policy_version (new_policy 3 7) = 1"
      by (simp_all add: sample_gate_def sample_env_def new_policy_def)
    have env: "normalize_environment ''dev'' = ''nonprod''" "\<not> is_production_environment ''nonprod''"
      "resolve_policy_mode (new_policy 3 7) TERRAFORM ''nonprod'' = (SOFT, ''terraform:nonprod'')"
      by code_simp+
    have "gate_verdict_on sample_env sample_opened_db gc 7 (sample_gate ''k1'') = sample_verdict"
      unfolding gate_verdict_on_def sample_verdict_def ctx
      by (simp add: build_gate_evaluation_context_def env Let_def samples)
    with new_decision_facts(2) [OF new(1-4,6)] new(5) gc ctx show ?thesis by simp
  qed simp
  with sample_verdict_figures that run empty show ?thesis by (simp add: row_for_def)
qed

lemma sample_delta: "0 \<le> gi_estimated_monthly_delta_usd (sample_gate k)"
  by (simp add: sample_gate_def)

subsection \<open>Invariant and limits\<close>



text \<open>
  C40. The gate always decides: on well-formed tables, with a policy that loads and a lock that is
  granted, an evaluation returns a decision; in particular the reservation of the credits the
  waterfall planned never fails for want of credit, and routing the approval request never raises.
\<close>

theorem gate_total:
  assumes "enf_inv db" "0 \<le> gi_estimated_monthly_delta_usd gi"
    and "get_or_create_policy vd sha db tenant_id = (Inr p, db1)" "policy_row_ok p"
    and "ge_lock env = LockAcquired"
  shows "\<exists>r db'. evaluate_gate vd sha env db tenant_id actor_id source gi = (Inr r, db')"
  using assms by (rule gate_succeeds)

lemma gate_total_witness: "\<exists>r db'. sample_run sample_gate_db (sample_gate ''k2'') = (Inr r, db')"
  by (rule gate_total [OF sample_gate_db_ok(1) sample_delta sample_policy_loads sample_policy_ok])
    (simp add: sample_env_def)

subsection \<open>One decision per key\<close>

text \<open>
  C7. The gate is idempotent: evaluating the same request again, by whomever and whenever and with
  whatever costs, limits and lock, returns the decision and the approval request of the first
  evaluation and changes nothing.
\<close>

theorem gate_idempotent:
  assumes "enf_inv db" "0 \<le> gi_estimated_monthly_delta_usd gi"
    and "evaluate_gate vd sha env db tenant_id actor_id source gi = (Inr r, db')"
    and "get_or_create_policy vd sha db' tenant_id = (Inr p, db2)"
  shows "evaluate_gate vd sha env' db' tenant_id actor_id' source gi
      = (Inr (r\<lparr>gr_ttl_seconds := clamp 60 86400 (ep_default_ttl_seconds p)\<rparr>), db')"
  using assms by (rule gate_repeats)

lemma gate_idempotent_witness:
  "\<exists>r db'. sample_run sample_gate_db (sample_gate ''k1'') = (Inr r, db')
     \<and> (\<exists>r2. sample_run db' (sample_gate ''k1'') = (Inr r2, db') \<and> gr_decision r2 = gr_decision r)"
proof -
  obtain r db' where r: "sample_run sample_gate_db (sample_gate ''k1'') = (Inr r, db')"
    "gr_decision r \<notin> set (db_decisions sample_gate_db)"
    by (rule sample_gate_result) blast
  have "db_policies db' = [new_policy 3 7]"
    using gate_policies [OF sample_gate_db_ok(1) sample_delta r sample_policy_loads] by (simp add: sample_opened_db_def)
  then have "get_or_create_policy sample_validate sample_sha db' 7 = (Inr (new_policy 3 7), db')"
    using sample_no_backfill
    by (simp add: get_or_create_policy_def load_policy_def first_row_def new_policy_def)
  from gate_idempotent [OF sample_gate_db_ok(1) sample_delta r(1) this, of sample_env 1] r show ?thesis by auto
qed

text \<open>
  Two racing evaluations with the same idempotency key make one decision: an evaluation that
  found no decision before it waited for the row lock, and then runs on the tables another
  evaluation has committed, returns that evaluation's decision and writes nothing.
\<close>

theorem gate_race_single_decision:
  assumes "enf_inv db" "0 \<le> gi_estimated_monthly_delta_usd gi"
    and "evaluate_gate vd sha env db tenant_id actor_id source gi = (Inr r, db')"
    and "gc_idempotency_key gc = ed_idempotency_key (gr_decision r)"
    and "db_decisions view = db_decisions db'" "db_approvals view = db_approvals db'"
  shows "gate_decide sha env' db' view gc tenant_id actor_id' source gi'
      = (Inr (r\<lparr>gr_ttl_seconds := gc_ttl_seconds gc\<rparr>), db')"
  using assms by (rule gate_race_loses)

lemma gate_race_single_decision_witness:
  "\<exists>r db'. sample_run sample_gate_db (sample_gate ''k1'') = (Inr r, db')
     \<and> (\<exists>r2. gate_decide sample_sha sample_env db' db'
          (build_gate_evaluation_context sample_sha (new_policy 3 7) TERRAFORM (sample_gate ''k1'')) 7 2 TERRAFORM
          (sample_gate ''k1'') = (Inr r2, db') \<and> gr_decision r2 = gr_decision r)"
proof -
  let ?gc = "build_gate_evaluation_context sample_sha (new_policy 3 7) TERRAFORM (sample_gate ''k1'')"
  obtain r db' where r: "sample_run sample_gate_db (sample_gate ''k1'') = (Inr r, db')"
    by (rule sample_gate_result) blast
  have "gc_idempotency_key ?gc = ed_idempotency_key (gr_decision r)"
    using gate_result_found(2) [OF sample_gate_db_ok(1) sample_delta r]
    by (simp add: build_gate_evaluation_context_def Let_def split: prod.splits)
  from gate_race_single_decision [OF sample_gate_db_ok(1) sample_delta r this refl refl] r show ?thesis by auto
qed

subsection \<open>What is reserved and recorded\<close>

text \<open>
  A new decision holds a reservation exactly when the evaluation is not a dry run, does not deny,
  does not run in shadow mode and reserves a positive amount; otherwise no grant and no allocation
  changes. A pending approval request is written exactly when the decision requires approval
  outside dry runs and shadow mode, and no other request is touched.
\<close>

theorem gate_reserves_only_when_enforced:
  assumes "enf_inv db" "0 \<le> gi_estimated_monthly_delta_usd gi"
    and "evaluate_gate vd sha env db tenant_id actor_id source gi = (Inr r, db')"
    and "gr_decision r \<notin> set (db_decisions db)"
    and "get_or_create_policy vd sha db tenant_id = (Inr p, db1)"
  shows "(ed_reservation_active (gr_decision r) \<longleftrightarrow> \<not> gi_dry_run gi \<and> ed_decision (gr_decision r) \<noteq> DENY
       \<and> gate_mode p source gi \<noteq> SHADOW \<and> 0 < ed_reserved_allocation_usd (gr_decision r) + ed_reserved_credit_usd (gr_decision r))
    \<and> (ed_reservation_active (gr_decision r) \<or> db_grants db' = db_grants db \<and> db_allocations db' = db_allocations db)
    \<and> (gr_approval r \<noteq> None \<longleftrightarrow> ed_decision (gr_decision r) = REQUIRE_APPROVAL \<and> \<not> gi_dry_run gi \<and> gate_mode p source gi \<noteq> SHADOW)
    \<and> db_approvals db' = db_approvals db @ (case gr_approval r of None \<Rightarrow> [] | Some a \<Rightarrow> [a])"
  using assms by (rule gate_reserves_when_enforced)

lemma gate_reserves_only_when_enforced_witness:
  "\<exists>r db'. sample_run sample_gate_db (sample_gate ''k1'') = (Inr r, db') \<and> ed_reservation_active (gr_decision r)
     \<and> gr_approval r = None"
proof -
  obtain r db' where r: "sample_run sample_gate_db (sample_gate ''k1'') = (Inr r, db')"
    "gr_decision r \<notin> set (db_decisions sample_gate_db)" "ed_decision (gr_decision r) = ALLOW_WITH_CREDITS"
    "ed_reservation_active (gr_decision r)"
    by (rule sample_gate_result) blast
  from gate_reserves_only_when_enforced [OF sample_gate_db_ok(1) sample_delta r(1,2) sample_policy_loads] r
  show ?thesis by auto
qed

text \<open>
  An evaluation either leaves the database as it was, or appends exactly one decision and one
  ledger entry that records it (amounts, reason codes, policy version, payload hashes, approval
  state); decisions and ledger entries written before are never changed.
\<close>

theorem gate_appends_ledger:
  assumes "enf_inv db" "0 \<le> gi_estimated_monthly_delta_usd gi"
    and "evaluate_gate vd sha env db tenant_id actor_id source gi = (out, db')"
  shows "db' = db \<or> (\<exists>r i. out = Inr r \<and> db_decisions db' = db_decisions db @ [gr_decision r]
     \<and> db_ledger db' = db_ledger db @ [ledger_entry sha i (ge_now env) (gr_decision r) (gr_approval r)])"
  using assms by (rule gate_appends)

lemma gate_appends_ledger_witness:
  "\<exists>r db'. sample_run sample_gate_db (sample_gate ''k1'') = (Inr r, db') \<and> db_decisions db' = [gr_decision r]
     \<and> (\<exists>i. db_ledger db' = [ledger_entry sample_sha i (ge_now sample_env) (gr_decision r) (gr_approval r)])"
proof -
  obtain r db' where r: "sample_run sample_gate_db (sample_gate ''k1'') = (Inr r, db')"
    "gr_decision r \<notin> set (db_decisions sample_gate_db)"
    by (rule sample_gate_result) blast
  have "db' \<noteq> sample_gate_db"
  proof
    assume "db' = sample_gate_db"
    with gate_policies [OF sample_gate_db_ok(1) sample_delta r sample_policy_loads] show False
      by (simp add: sample_gate_db_def sample_opened_db_def empty_db_def)
  qed
  with gate_appends_ledger [OF sample_gate_db_ok(1) sample_delta r(1)] r(1) show ?thesis
    by (auto simp: sample_gate_db_def empty_db_def)
qed

text \<open>
  When the evaluation itself cannot complete, the fail-safe gate decides by the mode alone: deny
  in hard mode, require approval in soft mode with a pending request unless it is a dry run, allow
  in shadow mode. It reserves nothing, touches no grant and no allocation, and keeps the invariant.
\<close>

theorem fail_safe_gate_by_mode:
  assumes "enf_inv db"
    and "resolve_fail_safe_gate vd sha env db tenant_id actor_id source gi code metadata = (Inr r, db')"
    and "gr_decision r \<notin> set (db_decisions db)"
    and "get_or_create_policy vd sha db tenant_id = (Inr p, db1)"
  shows "ed_decision (gr_decision r) = mode_violation_decision (gate_mode p source gi)
    \<and> \<not> ed_reservation_active (gr_decision r) \<and> ed_reserved_allocation_usd (gr_decision r) = 0
    \<and> ed_reserved_credit_usd (gr_decision r) = 0
    \<and> db_grants db' = db_grants db \<and> db_allocations db' = db_allocations db
    \<and> (gr_approval r \<noteq> None \<longleftrightarrow> gate_mode p source gi = SOFT \<and> \<not> gi_dry_run gi) \<and> enf_inv db'"
  using assms by (rule fail_safe_by_mode)

lemma fail_safe_gate_by_mode_witness:
  "\<exists>r db'. resolve_fail_safe_gate sample_validate sample_sha sample_env sample_gate_db 7 1 TERRAFORM (sample_gate ''k1'')
       ''gate_timeout'' [] = (Inr r, db')
     \<and> ed_decision (gr_decision r) = REQUIRE_APPROVAL \<and> \<not> ed_reservation_active (gr_decision r) \<and> gr_approval r \<noteq> None"
proof -
  obtain r db' where r: "resolve_fail_safe_gate sample_validate sample_sha sample_env sample_gate_db 7 1 TERRAFORM
      (sample_gate ''k1'') ''gate_timeout'' [] = (Inr r, db')"
    using fail_safe_succeeds [OF sample_policy_loads sample_policy_ok] by blast
  have m: "gate_mode (new_policy 3 7) TERRAFORM (sample_gate ''k1'') = SOFT" "\<not> gi_dry_run (sample_gate ''k1'')"
    by code_simp+
  have "gr_decision r \<notin> set (db_decisions sample_gate_db)" by (simp add: sample_gate_db_def empty_db_def)
  from fail_safe_gate_by_mode [OF sample_gate_db_ok(1) r this sample_policy_loads] m r show ?thesis
    by (auto simp: mode_violation_decision_def)
qed

end
