(* ===== verification/Enf_Approval_Samples.thy ===== *)
theory Enf_Approval_Samples
  imports Enf_Approval_Facts Enf_Gate_Theorems
begin

text \<open>
  The request the witnesses about approvals share: a decision of 8 USD funded by a credit grant
  waits for approval, an owner approves it and its token is consumed; or it is denied, or expires.
\<close>

definition sample_review_decision :: enforcement_decision where
  "sample_review_decision = (sample_decision 9 0 8)\<lparr>ed_decision := REQUIRE_APPROVAL,
     ed_request_fingerprint := replicate 64 CHR ''a'', ed_approval_required := True\<rparr>"

definition sample_allocation :: credit_allocation where
  "sample_allocation = \<lparr>ca_id = 10, ca_tenant_id = 7, ca_decision_id = 9, ca_credit_grant_id = 1,
     ca_credit_pool_type = RESERVED, ca_reserved_amount_usd = 8, ca_consumed_amount_usd = 0,
     ca_released_amount_usd = 0, ca_active = True, ca_created_at = 100, ca_settled_at = None\<rparr>"

definition sample_review_db :: enf_db where
  "sample_review_db = empty_db\<lparr>db_policies := [new_policy 3 7],
     db_grants := [(sample_grant 1 RESERVED 30)\<lparr>cg_remaining_amount_usd := 22\<rparr>],
     db_allocations := [sample_allocation], db_decisions := [sample_review_decision],
     db_approvals := [sample_approval 20 9 3], db_next_id := 21\<rparr>"

definition sample_owner :: current_user where
  "sample_owner = \<lparr>cu_id = 4, cu_tenant_id = Some 7, cu_role = ''owner''\<rparr>"

definition sample_until :: instant where
  "sample_until = 200 + seconds 900"

definition sample_claims :: dict where
  "sample_claims = token_payload sample_settings 200 sample_review_decision (sample_approval 20 9 3) sample_until"

definition sample_token :: string where
  "sample_token = replicate 32 CHR ''s'' @ ''.signed''"

lemma sample_review_inv: "enf_inv sample_review_db"
  by (simp add: enf_inv_def sample_review_db_def sample_review_decision_def sample_allocation_def sample_decision_def
      sample_approval_def empty_db_def credit_wf_def sample_grant_def grant_ok_def grant_books_def grant_keys_def money_def
      allocation_ok_def held_def decision_ok_def covered_def open_allocations_def reserved_total_def
      allocation_owned_def approval_owned_def owner_key_def)

lemma sample_review_load:
  "load_approval_with_decision sample_review_db 7 20 = Inr (sample_approval 20 9 3, sample_review_decision)"
  by (simp add: load_approval_with_decision_def sample_review_db_def empty_db_def first_row_def sample_approval_def
      sample_review_decision_def sample_decision_def)

lemma sample_review_policy:
  "get_or_create_policy sample_validate sample_sha sample_review_db 7 = (Inr (new_policy 3 7), sample_review_db)"
proof -
  have "ep_tenant_id (new_policy 3 7) = 7" by (simp add: new_policy_def)
  then show ?thesis
    by (simp add: get_or_create_policy_def load_policy_def sample_no_backfill sample_review_db_def
        empty_db_def first_row_def Let_def)
qed

lemma sample_review_fields:
  "ar_status (sample_approval 20 9 3) = PENDING" "ar_expires_at (sample_approval 20 9 3) = 900000000"
  "ep_default_ttl_seconds (new_policy 3 7) = 900" "ed_reservation_active sample_review_decision"
  "ed_reserved_credit_usd sample_review_decision = 8" "ed_tenant_id sample_review_decision = 7"
  by (simp_all add: sample_approval_def new_policy_def sample_review_decision_def sample_decision_def)

lemma sample_owner_reviews:
  obtains trace a1 where "enforce_reviewer_authority (Inr sample_identity) (new_policy 3 7) (sample_approval 20 9 3)
      sample_review_decision sample_owner True = Inr (trace, a1)"
proof -
  let ?run = "enforce_reviewer_authority (Inr sample_identity) (new_policy 3 7) (sample_approval 20 9 3)
      sample_review_decision sample_owner True"
  have "\<not> isl ?run" by code_simp
  then show ?thesis using that by (cases ?run) auto
qed

abbreviation sample_approve :: "instant \<Rightarrow> (approval_request \<times> enforcement_decision \<times> string \<times> instant) outcome" where
  "sample_approve now \<equiv> approve_request (Inr sample_identity) sample_validate sample_sha (sample_jwt sample_claims)
     sample_settings sample_review_db 7 20 sample_owner None now"

lemma sample_build_token:
  "build_approval_token (sample_jwt sample_claims) sample_settings now d a until = Inr sample_token"
proof -
  have "strip (replicate 32 CHR ''s'') = replicate 32 CHR ''s''" by code_simp
  then show ?thesis
    by (simp add: build_approval_token_def Let_def sample_settings_def sample_jwt_def sample_token_def)
qed

lemma sample_approved:
  obtains a' d' db' where "sample_approve 200 = (Inr (a', d', sample_token, sample_until), db')"
    "ar_approval_token_consumed_at a' = None" "token_bindable d'"
    "token_payload sample_settings 200 d' a' sample_until = sample_claims"
proof -
  obtain trace a1 where auth: "enforce_reviewer_authority (Inr sample_identity) (new_policy 3 7) (sample_approval 20 9 3)
      sample_review_decision sample_owner True = Inr (trace, a1)" by (rule sample_owner_reviews)
  from auth obtain rule where a1: "a1 = (sample_approval 20 9 3)\<lparr>ar_routing_rule_id := rule, ar_routing_trace := trace\<rparr>"
    by (rule authority_keeps)
  let ?a = "approved_request sample_sha a1 sample_owner None 200 sample_token sample_until"
  let ?d = "sample_review_decision\<lparr>ed_approval_token_issued := True, ed_token_expires_at := Some sample_until,
      ed_response_payload := dict_merge (ed_response_payload sample_review_decision)
        (review_payload ?a trace ''approved_by_user_id'' ''approved_at'' sample_owner 200)\<rparr>"
  have ok: "assert_pending (sample_approval 20 9 3) = Inr ()" by (simp add: assert_pending_def sample_review_fields)
  have until: "200 + seconds (clamp 60 86400 (ep_default_ttl_seconds (new_policy 3 7))) = sample_until"
    by (simp add: sample_review_fields sample_until_def)
  have "sample_approve 200 = (Inr (?a, ?d, sample_token, sample_until),
      append_decision_ledger_entry sample_sha 200 ?d (Some ?a) (write_approval ?a (write_decision ?d sample_review_db)))"
    unfolding approve_request_def sample_review_load sample_review_policy sum.case prod.case auth Let_def
      sample_build_token until ok
    by (simp only: sample_review_fields if_False) simp
  moreover have "ar_approval_token_consumed_at ?a = None" by (simp add: approved_request_def a1 sample_approval_def)
  moreover have "token_bindable ?d"
    using sample_token_bindable
    by (simp add: token_bindable_def sample_review_decision_def sample_token_decision_def sample_decision_def)
  moreover have "token_payload sample_settings 200 ?d ?a sample_until = sample_claims"
    by (simp add: sample_claims_def token_payload_def approved_request_def a1)
  ultimately show ?thesis by (rule that)
qed

lemma sample_token_text: "strip sample_token = sample_token" "sample_token \<noteq> ''''"
  by code_simp+

lemma sample_token_hash: "sample_sha sample_token \<noteq> ''''"
  by (simp add: sample_sha_def)

lemma sample_until_bounds:
  "-62135596800 \<le> timestamp sample_until" "timestamp sample_until \<le> 253402300799"
  "300 < fromtimestamp (timestamp sample_until)"
  by code_simp+

lemma sample_denied:
  obtains a' d' db' where "deny_request (Inr sample_identity) sample_validate sample_sha sample_review_db 7 20 sample_owner None 200
      = (Inr (a', d'), db')"
proof -
  obtain trace a1 where auth: "enforce_reviewer_authority (Inr sample_identity) (new_policy 3 7) (sample_approval 20 9 3)
      sample_review_decision sample_owner True = Inr (trace, a1)" by (rule sample_owner_reviews)
  have ok: "assert_pending (sample_approval 20 9 3) = Inr ()" by (simp add: assert_pending_def sample_review_fields)
  have d: "sample_review_decision \<in> set (db_decisions sample_review_db)" by (simp add: sample_review_db_def)
  have "\<exists>d' db1. release_decision sample_review_db 7 sample_review_decision 200 extra = Inr (d', db1)" for extra
    by (rule release_succeeds [OF sample_review_inv d]) (simp_all add: sample_review_fields)
  then show ?thesis
    using that unfolding deny_request_def sample_review_load sample_review_policy sum.case prod.case auth ok Let_def
    by (metis (no_types, lifting) sum.case(2) prod.case)
qed

end
