(* ===== verification/Enf_Approval_Theorems.thy ===== *)
theory Enf_Approval_Theorems
  imports Enf_Approval_Samples
begin

text \<open>
  The theorems about approval requests and their tokens: what a successful approval guarantees, that
  denial and expiry give the reservation back, and what consuming a token is bound to.
\<close>

text \<open>The reviewer passed the checks of the routing trace the request carries.\<close>

definition reviewed_by :: "identity_db res \<Rightarrow> current_user \<Rightarrow> approval_request \<Rightarrow> bool" where
  "reviewed_by identity reviewer a \<longleftrightarrow> ar_reviewed_by_user_id a = Some (cu_id reviewer)
     \<and> (\<exists>roles. normalize_allowed_reviewer_roles (list_or_null (dict_get (ar_routing_trace a) ''allowed_reviewer_roles'')) = Inr roles
         \<and> normalize_role_value (JStr (cu_role reviewer)) \<in> set roles)
     \<and> (\<exists>permission. normalize_approval_permission (dict_get (ar_routing_trace a) ''required_permission'') = Some permission
         \<and> user_has_approval_permission identity reviewer permission)
     \<and> \<not> (py_truthy (dict_get (ar_routing_trace a) ''require_requester_reviewer_separation'')
          \<and> ar_requested_by_user_id a = Some (cu_id reviewer))"

definition same_reservation :: "enforcement_decision \<Rightarrow> enforcement_decision \<Rightarrow> bool" where
  "same_reservation d d' \<longleftrightarrow> owner_key d' = owner_key d
     \<and> ed_reservation_active d' = ed_reservation_active d
     \<and> ed_reserved_allocation_usd d' = ed_reserved_allocation_usd d
     \<and> ed_reserved_credit_usd d' = ed_reserved_credit_usd d"

definition released :: "enf_db \<Rightarrow> enforcement_decision \<Rightarrow> enf_db \<Rightarrow> enforcement_decision \<Rightarrow> bool" where
  "released db d db' d' \<longleftrightarrow> owner_key d' = owner_key d \<and> d' \<in> set (db_decisions db')
     \<and> \<not> ed_reservation_active d' \<and> ed_reserved_allocation_usd d' = 0 \<and> ed_reserved_credit_usd d' = 0
     \<and> open_allocations db' (ed_tenant_id d) (ed_id d) = []
     \<and> tenant_credit db' (ed_tenant_id d) = tenant_credit db (ed_tenant_id d) + ed_reserved_credit_usd d"

lemma released_by_write:
  assumes inv: "enf_inv db" and d: "d \<in> set (db_decisions db)" "ed_tenant_id d = tenant_id"
    and rel: "release_decision db tenant_id d now extra = Inr (d', db1)"
  shows "released db d (append_decision_ledger_entry sha now d' x (write_approval a' db1)) d'"
  using release_decision_facts [OF inv d rel] d(2)
  by (auto simp: released_def open_allocations_def tenant_credit_def)

text \<open>
  C6. An approval is sound: the request was pending and unexpired, the reviewer held an allowed role
  and the permission the recorded route demands and was not the requester where separation applies;
  the stored request is approved and carries the hash of exactly the token returned, whose lifetime
  lies between one minute and one day. The reservation, the grants and the allocations are untouched
  and the invariant is kept.
\<close>

theorem approve_sound:
  assumes "enf_inv db"
    and "approve_request identity vd sha jwt st db tenant_id approval_id reviewer notes now
      = (Inr (a', d', token, until), db')"
  shows "(\<exists>a d. load_approval_with_decision db tenant_id approval_id = Inr (a, d) \<and> ar_status a = PENDING
          \<and> now < ar_expires_at a \<and> ar_id a' = ar_id a \<and> same_reservation d d')
    \<and> reviewed_by identity reviewer a' \<and> a' \<in> set (db_approvals db') \<and> d' \<in> set (db_decisions db')
    \<and> ar_status a' = APPROVED \<and> ar_approval_token_hash a' = Some (sha token)
    \<and> ar_approval_token_expires_at a' = Some until \<and> now + seconds 60 \<le> until \<and> until \<le> now + seconds 86400
    \<and> db_grants db' = db_grants db \<and> db_allocations db' = db_allocations db \<and> enf_inv db'"
  using assms(2)
proof (cases rule: approve_cases)
  case (approved a d p db1 trace a1 token' until' payload)
  note l = load_facts [OF approved(1)] and frame = get_or_create_policy_frame [OF approved(4)]
    and auth = reviewer_authority_facts [OF approved(5)]
  from approved(5) obtain rule where a1: "a1 = a\<lparr>ar_routing_rule_id := rule, ar_routing_trace := trace\<rparr>"
    by (rule authority_keeps)
  from approved(8) have out: "a' = approved_request sha a1 reviewer notes now token until" "token' = token" "until' = until"
    "d' = d\<lparr>ed_approval_token_issued := True, ed_token_expires_at := Some until, ed_response_payload := payload\<rparr>"
    by auto
  have db': "db' = append_decision_ledger_entry sha now d' (Some a') (write_approval a' (write_decision d' db1))"
    using approved(9) out by simp
  have "same_reservation d d'" by (simp add: out(4) same_reservation_def owner_key_def)
  moreover have "reviewed_by identity reviewer a'"
    using auth by (simp add: reviewed_by_def out(1) approved_request_def)
  moreover have "a' \<in> set (db_approvals db')" "d' \<in> set (db_decisions db')"
    using l(1,4) frame(3,4) unfolding db'
    by (auto simp: out a1 approved_request_def intro!: written_approval [of a] written_decision [of d])
  moreover have "now + seconds 60 \<le> until" "until \<le> now + seconds 86400"
    using approved(6) out(3) clamp_bounds [of 60 86400 "ep_default_ttl_seconds p"] by (simp_all add: seconds_mono)
  moreover have "ar_id a' = ar_id a" "ar_status a' = APPROVED" "ar_approval_token_hash a' = Some (sha token)"
    "ar_approval_token_expires_at a' = Some until"
    by (simp_all add: out(1) a1 approved_request_def)
  moreover have "db_grants db' = db_grants db" "db_allocations db' = db_allocations db"
    using frame(1,2) by (simp_all add: db')
  ultimately show ?thesis using approved(1-3) approve_inv [OF assms] by blast
qed auto

text \<open>
  C11. A denial is final and gives everything back: the request was pending, the reviewer was entitled
  to review it, the stored request is denied, and the decision has no active reservation, no open
  allocation and nothing reserved, the tenant's remaining credit growing by exactly what the decision
  had reserved.
\<close>

theorem deny_releases:
  assumes "enf_inv db"
    and "deny_request identity vd sha db tenant_id approval_id reviewer notes now = (Inr (a', d'), db')"
  shows "(\<exists>a d. load_approval_with_decision db tenant_id approval_id = Inr (a, d) \<and> ar_status a = PENDING
          \<and> ar_id a' = ar_id a \<and> released db d db' d')
    \<and> reviewed_by identity reviewer a' \<and> a' \<in> set (db_approvals db') \<and> ar_status a' = DENIED
    \<and> ar_denied_at a' = Some now \<and> enf_inv db'"
  using assms(2)
proof (cases rule: deny_cases)
  case (denied a d p db1 trace a1 d2 db2 extra)
  note l = load_facts [OF denied(1)] and frame = get_or_create_policy_frame [OF denied(3)]
    and auth = reviewer_authority_facts [OF denied(4)]
  from denied(4) obtain rule where a1: "a1 = a\<lparr>ar_routing_rule_id := rule, ar_routing_trace := trace\<rparr>"
    by (rule authority_keeps)
  from denied(6) have out: "a' = denied_request a1 reviewer notes now" "d2 = d'" by auto
  have d: "d \<in> set (db_decisions db1)" using l(4) frame(3) by simp
  note inv1 = policy_inv [OF assms(1) denied(3)]
  have "released db1 d db' d'"
    using released_by_write [OF inv1 d l(6) denied(5)] denied(7) by (simp add: out)
  then have "released db d db' d'" using frame(1) by (simp add: released_def tenant_credit_def)
  moreover have "reviewed_by identity reviewer a'"
    using auth by (simp add: reviewed_by_def out(1) denied_request_def)
  moreover have "a' \<in> set (db_approvals db')"
    using l(1) frame(4) release_decision_facts(4) [OF inv1 d l(6) denied(5)] unfolding denied(7)
    by (auto simp: out a1 denied_request_def intro!: written_approval [of a])
  moreover have "ar_id a' = ar_id a" "ar_status a' = DENIED" "ar_denied_at a' = Some now"
    by (simp_all add: out(1) a1 denied_request_def)
  ultimately show ?thesis using denied(1,2) deny_inv [OF assms] by blast
qed auto

text \<open>
  Approving a pending request after its deadline is refused with a conflict, whoever reviews it,
  and expires the request: it is stored as expired and its decision's reservation is given back in
  full.
\<close>

theorem approve_expired_releases:
  assumes "enf_inv db" and "load_approval_with_decision db tenant_id approval_id = Inr (a, d)"
    and "ar_status a = PENDING" and "ar_expires_at a \<le> now"
    and "ed_reservation_active d \<or> ed_reserved_credit_usd d = 0"
  shows "\<exists>d' db'. approve_request identity vd sha jwt st db tenant_id approval_id reviewer notes now
      = (Inl (HTTPException 409 ''Approval request has expired''), db')
    \<and> released db d db' d' \<and> a\<lparr>ar_status := EXPIRED, ar_updated_at := now\<rparr> \<in> set (db_approvals db') \<and> enf_inv db'"
proof -
  note l = load_facts [OF assms(2)]
  let ?extra = "\<lambda>settlement. [(''approval_expired_at'', JTime now), (''credit_settlement'', settlement_json settlement)]"
  let ?a = "a\<lparr>ar_status := EXPIRED, ar_updated_at := now\<rparr>"
  obtain d' db1 where rel: "release_decision db tenant_id d now ?extra = Inr (d', db1)"
    using release_succeeds [OF assms(1) l(4,6) assms(5)] by blast
  let ?db = "append_decision_ledger_entry sha now d' (Some ?a) (write_approval ?a db1)"
  have "approve_request identity vd sha jwt st db tenant_id approval_id reviewer notes now
      = (Inl (HTTPException 409 ''Approval request has expired''), ?db)"
    using assms(2-4) rel by (simp add: approve_request_def assert_pending_def expire_request_def Let_def)
  moreover have "?a \<in> set (db_approvals ?db)"
    using l(1) release_decision_facts(4) [OF assms(1) l(4,6) rel] by (auto intro!: written_approval [of a])
  moreover have "enf_inv ?db" by (rule released_write_inv [OF assms(1,2) rel]) simp_all
  ultimately show ?thesis using released_by_write [OF assms(1) l(4,6) rel] by blast
qed

subsection \<open>Tokens\<close>

text \<open>What a token context and the caller's expectations must agree on with the decision.\<close>

definition bound_to :: "approval_token_context \<Rightarrow> enforcement_decision \<Rightarrow> bool" where
  "bound_to tc d \<longleftrightarrow> tc_tenant_id tc = ed_tenant_id d \<and> tc_decision_id tc = ed_id d
     \<and> tc_source tc = ed_source d \<and> tc_project_id tc = ed_project_id d
     \<and> normalize_environment (tc_environment tc) = normalize_environment (ed_environment d)
     \<and> tc_request_fingerprint tc = ed_request_fingerprint d \<and> tc_resource_reference tc = ed_resource_reference d
     \<and> quantize 4 (tc_max_monthly_delta_usd tc) = quantize 4 (ed_estimated_monthly_delta_usd d)
     \<and> quantize 6 (tc_max_hourly_delta_usd tc) = quantize 6 (ed_estimated_hourly_delta_usd d)"

definition expected_of :: "expected_binding \<Rightarrow> enforcement_decision \<Rightarrow> bool" where
  "expected_of e d \<longleftrightarrow> opt_all (\<lambda>s. s = ed_source d) (eb_source e)
     \<and> opt_all (\<lambda>p. strip p = strip (ed_project_id d)) (eb_project_id e)
     \<and> opt_all (\<lambda>v. normalize_environment v = normalize_environment (ed_environment d)) (eb_environment e)
     \<and> opt_all (\<lambda>f. strip f = ed_request_fingerprint d) (eb_request_fingerprint e)
     \<and> opt_all (\<lambda>r. strip r = ed_resource_reference d) (eb_resource_reference e)"

lemma check_binding_Inr:
  "check_binding tc d = Inr () \<and> tc_tenant_id tc = ed_tenant_id d \<and> ed_id d = tc_decision_id tc \<longleftrightarrow> bound_to tc d"
  by (auto simp: check_binding_def reject_def bound_to_def)

lemma check_expected_Inr: "check_expected e d = Inr () \<longleftrightarrow> expected_of e d"
  by (auto simp: check_expected_def reject_def expected_of_def)

lemma consumed_once:
  assumes "consume_approval_token sha jwt st db tenant_id token actor_id expected now = (Inr (a', d'), db')" "enf_inv db"
  obtains a d tc where "check_token sha jwt st db tenant_id token expected now = Inr (a, d)"
    "a' = a\<lparr>ar_approval_token_consumed_at := Some now, ar_updated_at := now\<rparr>" "ar_approval_token_consumed_at a = None"
    "bind_res (decode_approval_token jwt st now (strip token)) extract_token_context = Inr tc"
    "tc_approval_id tc = ar_id a" "bound_to tc d" "expected_of expected d" "now < effective_expiry a d tc"
    "ar_approval_token_hash a = Some (sha (strip token))"
    "a' \<in> set (db_approvals db')" "d' \<in> set (db_decisions db')" "same_reservation d d'"
    "db_grants db' = db_grants db" "db_allocations db' = db_allocations db"
  using assms(1)
proof (cases rule: consume_cases)
  case (consumed a d payload)
  from consumed(1) obtain tc where tc: "bind_res (decode_approval_token jwt st now (strip token)) extract_token_context = Inr tc"
    "tc_tenant_id tc = tenant_id" "load_approval_with_decision db tenant_id (tc_approval_id tc) = Inr (a, d)"
    "ed_id d = tc_decision_id tc" "ar_approval_token_hash a = Some (sha (strip token))" "now < effective_expiry a d tc"
    "check_binding tc d = Inr ()" "check_expected expected d = Inr ()"
    by (elim check_token_facts)
  note l = load_facts [OF tc(3)]
  have out: "a' = a\<lparr>ar_approval_token_consumed_at := Some now, ar_updated_at := now\<rparr>"
    "d' = d\<lparr>ed_response_payload := payload\<rparr>"
    using consumed(3) by simp_all
  have "filter (unconsumed (ar_id a) tenant_id) (db_approvals db) \<noteq> []"
    using consumed(2) by (auto simp: count_where_def)
  then obtain r where r: "r \<in> set (db_approvals db)" "unconsumed (ar_id a) tenant_id r"
    by (auto simp: filter_empty_conv)
  with l(1) enf_invD(4) [OF assms(2)] have "r = a" by (auto simp: unconsumed_def distinct_map inj_on_def)
  with r have un: "unconsumed (ar_id a) tenant_id a" by simp
  have "a' \<in> set (db_approvals db')" "d' \<in> set (db_decisions db')"
    using l(1,4) un unfolding consumed(4) out
    by (auto simp: set_update_where image_iff intro!: written_decision [of d])
  moreover have "same_reservation d d'" by (simp add: out same_reservation_def)
  ultimately show ?thesis
    using that [OF consumed(1) out(1) _ tc(1) l(2) [symmetric] _ _ tc(6,5)] un tc(2,4,7,8) l(6) consumed(4)
    by (simp add: unconsumed_def check_binding_Inr [symmetric] check_expected_Inr)
qed simp

text \<open>
  C5. A token is consumed only for what it was issued for: it decodes to a context of the tenant's own
  approved request, whose stored hash is the token's and which was not consumed before and has not
  expired; source, project, environment, fingerprint, resource and amounts agree with the decision,
  and so does everything the caller expects. The stored request is marked consumed; reservation,
  grants and allocations are untouched.
\<close>

theorem consume_bound:
  assumes "enf_inv db"
    and "consume_approval_token sha jwt st db tenant_id token actor_id expected now = (Inr (a', d'), db')"
  shows "(\<exists>a d tc. bind_res (decode_approval_token jwt st now (strip token)) extract_token_context = Inr tc
       \<and> load_approval_with_decision db tenant_id (tc_approval_id tc) = Inr (a, d)
       \<and> ar_status a = APPROVED \<and> ar_approval_token_hash a = Some (sha (strip token))
       \<and> ar_approval_token_consumed_at a = None \<and> now < effective_expiry a d tc
       \<and> bound_to tc d \<and> expected_of expected d \<and> same_reservation d d'
       \<and> a' = a\<lparr>ar_approval_token_consumed_at := Some now, ar_updated_at := now\<rparr>)
    \<and> a' \<in> set (db_approvals db') \<and> d' \<in> set (db_decisions db')
    \<and> db_grants db' = db_grants db \<and> db_allocations db' = db_allocations db \<and> enf_inv db'"
proof -
  from assms(2,1) obtain a d tc where c: "check_token sha jwt st db tenant_id token expected now = Inr (a, d)"
    "a' = a\<lparr>ar_approval_token_consumed_at := Some now, ar_updated_at := now\<rparr>" "ar_approval_token_consumed_at a = None"
    "bind_res (decode_approval_token jwt st now (strip token)) extract_token_context = Inr tc"
    "tc_approval_id tc = ar_id a" "bound_to tc d" "expected_of expected d" "now < effective_expiry a d tc"
    "ar_approval_token_hash a = Some (sha (strip token))"
    "a' \<in> set (db_approvals db')" "d' \<in> set (db_decisions db')" "same_reservation d d'"
    "db_grants db' = db_grants db" "db_allocations db' = db_allocations db"
    by (rule consumed_once)
  note rows = check_token_rows [OF c(1)]
  have "load_approval_with_decision db tenant_id (tc_approval_id tc) = Inr (a, d)"
    unfolding c(5) by (rule load_of_rows [OF assms(1)]) (use rows in auto)
  with c rows(3) consume_inv [OF assms] show ?thesis by blast
qed

lemma unconsumed_one:
  assumes "a \<in> set (db_approvals db)" "unconsumed (ar_id a) tenant_id a" "distinct (map ar_id (db_approvals db))"
  shows "count_where (unconsumed (ar_id a) tenant_id) (db_approvals db) = 1"
proof -
  have "count_where (unconsumed (ar_id a) tenant_id) (db_approvals db) \<le> 1"
    unfolding unconsumed_def by (rule count_where_unique [OF assms(3)])
  moreover have "count_where (unconsumed (ar_id a) tenant_id) (db_approvals db) \<noteq> 0"
    using assms(1,2) by (auto simp: count_where_def filter_empty_conv)
  ultimately show ?thesis by simp
qed

text \<open>The token of an approval, on the tables the approval left behind.\<close>

definition no_expectations :: expected_binding where
  "no_expectations = \<lparr>eb_source = None, eb_project_id = None, eb_environment = None,
     eb_request_fingerprint = None, eb_resource_reference = None\<rparr>"

lemma context_of_bound: "bound_to (context_of d a until) d"
  by (simp add: bound_to_def context_of_def)

lemma check_token_ok:
  assumes "strip token = token" "token \<noteq> ''''" "sha token \<noteq> ''''"
    and "bind_res (decode_approval_token jwt st t token) extract_token_context = Inr tc"
    and "load_approval_with_decision db tenant_id (tc_approval_id tc) = Inr (a, d)"
    and "ar_status a = APPROVED" "ar_approval_token_hash a = Some (sha token)" "t < effective_expiry a d tc"
    and "bound_to tc d" "expected_of expected d"
  shows "check_token sha jwt st db tenant_id token expected t = Inr (a, d)"
proof -
  have "tc_tenant_id tc = tenant_id" using assms(9) load_facts(6) [OF assms(5)] by (simp add: bound_to_def)
  moreover have "check_binding tc d = Inr ()" "ed_id d = tc_decision_id tc" "check_expected expected d = Inr ()"
    using assms(9,10) check_binding_Inr [of tc d] check_expected_Inr by simp_all
  moreover from assms(4) obtain payload where "decode_approval_token jwt st t token = Inr payload"
    "extract_token_context payload = Inr tc" by auto
  ultimately show ?thesis using assms(1-3,5-8) by (simp add: check_token_def Let_def)
qed

lemma approved_token_consumed:
  assumes "enf_inv db"
    and "approve_request identity vd sha jwt st db tenant_id approval_id reviewer notes now
      = (Inr (a', d', token, until), db')"
    and "ar_approval_token_consumed_at a' = None" and "token_bindable d'"
    and "32 \<le> length (strip (ts_supabase_jwt_secret st))"
    and "jwt_faithful jwt (token_payload st now d' a' until) (strip (ts_supabase_jwt_secret st))"
    and "strip token = token" "token \<noteq> ''''" "sha token \<noteq> ''''"
    and "-62135596800 \<le> timestamp until" "timestamp until \<le> 253402300799"
    and "now \<le> t" "t < fromtimestamp (timestamp until)"
  shows "\<exists>a2 d2 db2. consume_approval_token sha jwt st db' tenant_id token actor_id no_expectations t = (Inr (a2, d2), db2)
    \<and> ar_id a2 = approval_id \<and> ar_approval_token_consumed_at a2 = Some t \<and> a2 \<in> set (db_approvals db2)"
  using assms(2)
proof (cases rule: approve_cases)
  case (approved a d p db1 trace a1 token' until' payload)
  note l = load_facts [OF approved(1)] and inv' = approve_inv [OF assms(1,2)]
    and frame = get_or_create_policy_frame [OF approved(4)]
  from approved(5) obtain rule where a1: "a1 = a\<lparr>ar_routing_rule_id := rule, ar_routing_trace := trace\<rparr>"
    by (rule authority_keeps)
  from approved(8) have out: "a' = approved_request sha a1 reviewer notes now token until" "token' = token" "until' = until"
    "d' = d\<lparr>ed_approval_token_issued := True, ed_token_expires_at := Some until, ed_response_payload := payload\<rparr>"
    by auto
  have db': "db' = append_decision_ledger_entry sha now d' (Some a') (write_approval a' (write_decision d' db1))"
    using approved(9) out by simp
  have same: "token_payload st now d' a' until = token_payload st now d a1 until"
    "context_of d a1 until = context_of d' a' until"
    by (simp_all add: token_payload_def context_of_def out a1 approved_request_def)
  have d: "token_bindable d" using assms(4) by (simp add: token_bindable_def out)
  from token_roundtrip_spec [OF assms(5) assms(6) [unfolded same(1)] d assms(10-13)] approved(7) out(2,3)
  have tok: "bind_res (decode_approval_token jwt st t token) extract_token_context = Inr (context_of d' a' until)"
    unfolding same(2) by (metis Inr_inject)
  have rows: "a' \<in> set (db_approvals db')" "d' \<in> set (db_decisions db')"
    using l(1,4) frame(3,4) unfolding db'
    by (auto simp: out a1 approved_request_def intro!: written_approval [of a] written_decision [of d])
  have ids: "ar_id a' = approval_id" "ar_tenant_id a' = tenant_id" "ed_id d' = ar_decision_id a'" "ed_tenant_id d' = tenant_id"
    using l by (simp_all add: out a1 approved_request_def)
  have load: "load_approval_with_decision db' tenant_id (tc_approval_id (context_of d' a' until)) = Inr (a', d')"
    using load_of_rows [OF inv' rows(1) ids(2) rows(2) ids(3,4)] by (simp add: context_of_def)
  have stored: "ar_status a' = APPROVED" "ar_approval_token_hash a' = Some (sha token)"
    "effective_expiry a' d' (context_of d' a' until) = until"
    by (simp_all add: out(1) approved_request_def effective_expiry_def)
  have "t < until" using assms(13) fromtimestamp_timestamp_le [of until] by simp
  then have "check_token sha jwt st db' tenant_id token no_expectations t = Inr (a', d')"
    using assms(7-9) stored
    by (intro check_token_ok [OF _ _ _ tok load] context_of_bound) (simp_all add: expected_of_def no_expectations_def)
  moreover have "count_where (unconsumed (ar_id a') tenant_id) (db_approvals db') = 1"
    using rows(1) ids(2) assms(3) enf_invD(4) [OF inv'] by (intro unconsumed_one) (simp_all add: unconsumed_def)
  ultimately obtain d2 db2 where run: "consume_approval_token sha jwt st db' tenant_id token actor_id no_expectations t
      = (Inr (a'\<lparr>ar_approval_token_consumed_at := Some t, ar_updated_at := t\<rparr>, d2), db2)"
    by (simp add: consume_approval_token_def mark_consumed_def Let_def)
  from run inv' have "a'\<lparr>ar_approval_token_consumed_at := Some t, ar_updated_at := t\<rparr> \<in> set (db_approvals db2)"
    by (rule consumed_once)
  with run ids(1) show ?thesis by (intro exI conjI) simp_all
qed simp_all

text \<open>
  An approval is usable: on the tables an approval leaves behind, its token is accepted at any time
  from its issue until its expiry in whole seconds, and the request is marked consumed, provided the
  token library is faithful on the token's claims and the decision's texts are stored stripped as the
  gate stores them. Nothing else is needed: every check of the consumption passes.
\<close>

theorem approve_then_consume:
  assumes "enf_inv db"
    and "approve_request identity vd sha jwt st db tenant_id approval_id reviewer notes now
      = (Inr (a', d', token, until), db')"
    and "ar_approval_token_consumed_at a' = None" and "token_bindable d'"
    and "32 \<le> length (strip (ts_supabase_jwt_secret st))"
    and "jwt_faithful jwt (token_payload st now d' a' until) (strip (ts_supabase_jwt_secret st))"
    and "strip token = token" "token \<noteq> ''''" "sha token \<noteq> ''''"
    and "-62135596800 \<le> timestamp until" "timestamp until \<le> 253402300799"
    and "now \<le> t" "t < fromtimestamp (timestamp until)"
  shows "\<exists>a2 d2 db2. consume_approval_token sha jwt st db' tenant_id token actor_id no_expectations t = (Inr (a2, d2), db2)
    \<and> ar_id a2 = approval_id \<and> ar_approval_token_consumed_at a2 = Some t \<and> a2 \<in> set (db_approvals db2)"
  using assms by (rule approved_token_consumed)

subsection \<open>Witnesses\<close>

lemma approve_sound_witness:
  "\<exists>a' d' db'. sample_approve 200 = (Inr (a', d', sample_token, sample_until), db')
    \<and> ar_status a' = APPROVED \<and> reviewed_by (Inr sample_identity) sample_owner a'"
proof -
  obtain a' d' db' where run: "sample_approve 200 = (Inr (a', d', sample_token, sample_until), db')"
    by (rule sample_approved)
  from approve_sound [OF sample_review_inv run] run show ?thesis by blast
qed

lemma deny_releases_witness:
  "\<exists>a' d' db'. deny_request (Inr sample_identity) sample_validate sample_sha sample_review_db 7 20 sample_owner None 200
      = (Inr (a', d'), db') \<and> ar_status a' = DENIED \<and> tenant_credit db' 7 = tenant_credit sample_review_db 7 + 8"
proof -
  obtain a' d' db' where run: "deny_request (Inr sample_identity) sample_validate sample_sha sample_review_db 7 20 sample_owner None 200
      = (Inr (a', d'), db')" by (rule sample_denied)
  from deny_releases [OF sample_review_inv run] run sample_review_load sample_review_fields show ?thesis
    by (auto simp: released_def)
qed

lemma approve_expired_releases_witness:
  "\<exists>d' db'. sample_approve 900000000 = (Inl (HTTPException 409 ''Approval request has expired''), db')
     \<and> released sample_review_db sample_review_decision db' d'"
  using approve_expired_releases [OF sample_review_inv sample_review_load, of 900000000 "Inr sample_identity" sample_validate
      sample_sha "sample_jwt sample_claims" sample_settings sample_owner None] sample_review_fields
  by auto

lemma sample_consumed:
  obtains a' d' db' a2 d2 db2 where "sample_approve 200 = (Inr (a', d', sample_token, sample_until), db')" "enf_inv db'"
    "consume_approval_token sample_sha (sample_jwt sample_claims) sample_settings db' 7 sample_token None no_expectations 300
      = (Inr (a2, d2), db2)"
proof -
  obtain a' d' db' where run: "sample_approve 200 = (Inr (a', d', sample_token, sample_until), db')"
    "ar_approval_token_consumed_at a' = None" "token_bindable d'"
    "token_payload sample_settings 200 d' a' sample_until = sample_claims" by (rule sample_approved)
  have jwt: "jwt_faithful (sample_jwt sample_claims) (token_payload sample_settings 200 d' a' sample_until)
      (strip (ts_supabase_jwt_secret sample_settings))"
    unfolding run(4) by (rule sample_jwt_faithful)
  from approved_token_consumed [OF sample_review_inv run(1-3) sample_secret_long jwt sample_token_text sample_token_hash
      sample_until_bounds(1,2) _ sample_until_bounds(3)] that [OF run(1) approve_inv [OF sample_review_inv run(1)]]
  show ?thesis by auto
qed

lemma consume_bound_witness:
  "\<exists>db' a2 d2 db2. consume_approval_token sample_sha (sample_jwt sample_claims) sample_settings db' 7 sample_token None
      no_expectations 300 = (Inr (a2, d2), db2) \<and> enf_inv db2 \<and> a2 \<in> set (db_approvals db2)"
proof -
  obtain a' d' db' a2 d2 db2 where run: "enf_inv db'"
    "consume_approval_token sample_sha (sample_jwt sample_claims) sample_settings db' 7 sample_token None no_expectations 300
      = (Inr (a2, d2), db2)" by (rule sample_consumed)
  from consume_bound [OF run] run(2) show ?thesis by blast
qed

lemma approve_then_consume_witness:
  "\<exists>a' d' db' a2 d2 db2. sample_approve 200 = (Inr (a', d', sample_token, sample_until), db')
     \<and> consume_approval_token sample_sha (sample_jwt sample_claims) sample_settings db' 7 sample_token None no_expectations 300
      = (Inr (a2, d2), db2) \<and> ar_approval_token_consumed_at a2 = Some 300"
proof -
  obtain a' d' db' where run: "sample_approve 200 = (Inr (a', d', sample_token, sample_until), db')"
    "ar_approval_token_consumed_at a' = None" "token_bindable d'"
    "token_payload sample_settings 200 d' a' sample_until = sample_claims" by (rule sample_approved)
  have jwt: "jwt_faithful (sample_jwt sample_claims) (token_payload sample_settings 200 d' a' sample_until)
      (strip (ts_supabase_jwt_secret sample_settings))"
    unfolding run(4) by (rule sample_jwt_faithful)
  from approve_then_consume [OF sample_review_inv run(1-3) sample_secret_long jwt sample_token_text sample_token_hash
      sample_until_bounds(1,2) _ sample_until_bounds(3), of None] run(1)
  show ?thesis by auto
qed

end
