(* ===== verification/Enf_Reconcile.thy ===== *)
theory Enf_Reconcile
  imports Enf_Release Enf_Approval Base_IsoTime
begin

text \<open>
  Reconciliation of reservations: src/app/modules/enforcement/domain/reconciliation_flow_ops.py,
  reconciliation_ops.py and the wrappers of service_runtime_ops.py. An active reservation is settled
  once against the actual monthly cost, repeated requests with the same idempotency key replay the
  stored result, and reservations that nobody reconciled in time are released.
\<close>

definition normalized_text :: "string option \<Rightarrow> string option" where
  "normalized_text v = (case v of None \<Rightarrow> None
     | Some s \<Rightarrow> (let t = strip s in if s = '''' \<or> t = '''' then None else Some t))"

definition optional_text :: "json \<Rightarrow> string option" where
  "optional_text v = (if v = JNull then None
     else (let t = strip (py_str v) in if t = '''' then None else Some t))"

definition parse_iso_text :: "string \<Rightarrow> instant option" where
  "parse_iso_text value =
     (let normalized = strip value in
      if normalized = '''' then None
      else fromisoformat (if last normalized = CHR ''Z'' then butlast normalized @ ''+00:00'' else normalized))"

definition parse_iso_datetime :: "json \<Rightarrow> instant option" where
  "parse_iso_datetime v = (case v of
      JStr s \<Rightarrow> parse_iso_text s
    | JDec n r \<Rightarrow> parse_iso_text (fixed_text n r)
    | JTime t \<Rightarrow> parse_iso_text (isoformat t)
    | _ \<Rightarrow> None)"

subsection \<open>Replay of a stored reconciliation\<close>

definition replay_mismatch :: "string \<Rightarrow> 'a res" where
  "replay_mismatch field = reject (''Reservation reconciliation idempotency key replay payload mismatch ('' @ field @ '')'')"

definition build_reservation_reconciliation_replay ::
  "enforcement_decision \<Rightarrow> rat \<Rightarrow> string option \<Rightarrow> string option \<Rightarrow> instant
    \<Rightarrow> reservation_reconciliation_result option res" where
  "build_reservation_reconciliation_replay d actual notes idempotency_key now =
     (let normalized_key = (case idempotency_key of None \<Rightarrow> '''' | Some k \<Rightarrow> strip k) in
      if normalized_key = '''' then Inr None
      else (case dict_get (ed_response_payload d) ''reservation_reconciliation'' of
          JObj r \<Rightarrow>
            (let stored_key = text_or_empty (dict_get r ''idempotency_key'');
                 expected_actual = quantize 4 (to_decimal (dict_get r ''actual_monthly_delta_usd''));
                 status = lower (text_or_empty (dict_get r ''status'')) in
             if stored_key = '''' \<or> stored_key \<noteq> normalized_key then Inr None
             else if expected_actual \<noteq> actual then replay_mismatch ''actual_monthly_delta_usd''
             else if notes \<noteq> None \<and> notes \<noteq> optional_text (dict_get r ''notes'') then replay_mismatch ''notes''
             else if status \<notin> {''matched'', ''overage'', ''savings''} then
               reject ''Stored reservation reconciliation payload is invalid for idempotent replay (status)''
             else Inr (Some
               \<lparr>rr_decision = d,
                rr_released_reserved_usd = quantize 4 (to_decimal (dict_get r ''expected_reserved_usd'')),
                rr_actual_monthly_delta_usd = expected_actual,
                rr_drift_usd = quantize 4 (to_decimal (dict_get r ''drift_usd'')),
                rr_status = status,
                rr_reconciled_at = (case parse_iso_datetime (dict_get r ''reconciled_at'') of None \<Rightarrow> now | Some t \<Rightarrow> t)\<rparr>))
        | _ \<Rightarrow> Inr None))"

definition replay_or_conflict ::
  "enforcement_decision \<Rightarrow> rat \<Rightarrow> string option \<Rightarrow> string option \<Rightarrow> instant \<Rightarrow> reservation_reconciliation_result res" where
  "replay_or_conflict d actual notes key now =
     bind_res (build_reservation_reconciliation_replay d actual notes key now) (\<lambda>replay.
       case replay of Some r \<Rightarrow> Inr r | None \<Rightarrow> reject ''Reservation is not active'')"

subsection \<open>Reconciling one reservation\<close>

definition claimable :: "uuid \<Rightarrow> uuid \<Rightarrow> enforcement_decision \<Rightarrow> bool" where
  "claimable decision_id tenant_id r \<longleftrightarrow> ed_id r = decision_id \<and> ed_tenant_id r = tenant_id \<and> ed_reservation_active r"

text \<open>The conditional update that claims a reservation, with the number of rows it hit.\<close>

definition claim_reservation :: "enf_db \<Rightarrow> uuid \<Rightarrow> uuid \<Rightarrow> nat \<times> enf_db" where
  "claim_reservation db tenant_id decision_id =
     (count_where (claimable decision_id tenant_id) (db_decisions db),
      db\<lparr>db_decisions := update_where (claimable decision_id tenant_id)
        (\<lambda>r. r\<lparr>ed_reservation_active := False\<rparr>) (db_decisions db)\<rparr>)"

definition drift_status :: "rat \<Rightarrow> string" where
  "drift_status drift = (if drift = 0 then ''matched'' else if 0 < drift then ''overage'' else ''savings'')"

definition consumed_credit :: "enforcement_decision \<Rightarrow> rat \<Rightarrow> rat" where
  "consumed_credit d actual =
     quantize 4 (min (quantize 4 (ed_reserved_credit_usd d)) (max 0 (actual - quantize 4 (ed_reserved_allocation_usd d))))"

definition released_total :: "enforcement_decision \<Rightarrow> rat" where
  "released_total d = quantize 4 (quantize 4 (ed_reserved_allocation_usd d) + quantize 4 (ed_reserved_credit_usd d))"

definition reconciliation_json ::
  "enforcement_decision \<Rightarrow> uuid \<Rightarrow> rat \<Rightarrow> string option \<Rightarrow> string option \<Rightarrow> dict list \<Rightarrow> instant \<Rightarrow> json" where
  "reconciliation_json d actor_id actual notes key settlement now =
     (let drift = quantize 4 (actual - released_total d); consumed = consumed_credit d actual in
      JObj [(''reconciled_at'', JTime now), (''reconciled_by_user_id'', JStr (uuid_text actor_id)),
        (''expected_reserved_usd'', JDec 4 (released_total d)), (''actual_monthly_delta_usd'', JDec 4 actual),
        (''drift_usd'', JDec 4 drift), (''status'', JStr (drift_status drift)),
        (''notes'', text_json notes), (''idempotency_key'', text_json key),
        (''credit_reserved_usd'', JDec 4 (quantize 4 (ed_reserved_credit_usd d))),
        (''credit_consumed_usd'', JDec 4 consumed),
        (''credit_released_usd'', JDec 4 (quantize 4 (quantize 4 (ed_reserved_credit_usd d) - consumed))),
        (''credit_settlement'', settlement_json settlement)])"

definition reconciled_decision ::
  "enforcement_decision \<Rightarrow> uuid \<Rightarrow> rat \<Rightarrow> string option \<Rightarrow> string option \<Rightarrow> dict list \<Rightarrow> instant \<Rightarrow> enforcement_decision" where
  "reconciled_decision d actor_id actual notes key settlement now =
     (clear_reservation d)\<lparr>
       ed_reason_codes := unique_reason_codes (ed_reason_codes d @ [''reservation_reconciled'']
         @ (if quantize 4 (actual - released_total d) \<noteq> 0 then [''reservation_reconciliation_drift''] else [])),
       ed_response_payload := dict_merge (ed_response_payload d)
         [(''reservation_reconciliation'', reconciliation_json d actor_id actual notes key settlement now)]\<rparr>"

definition reconcile_claimed ::
  "(string \<Rightarrow> string) \<Rightarrow> enf_db \<Rightarrow> uuid \<Rightarrow> enforcement_decision \<Rightarrow> uuid \<Rightarrow> rat \<Rightarrow> string option \<Rightarrow> string option
    \<Rightarrow> instant \<Rightarrow> reservation_reconciliation_result outcome" where
  "reconcile_claimed sha db tenant_id d actor_id actual notes key now =
     (let (claimed_rows, db1) = claim_reservation db tenant_id (ed_id d) in
      if claimed_rows \<noteq> 1 then
        (case find_decision db tenant_id (ed_id d) of
           None \<Rightarrow> (Inl (HTTPException 404 ''Decision not found''), db)
         | Some refreshed \<Rightarrow> (replay_or_conflict refreshed actual notes key now, db))
      else (case settle_credit_reservations_for_decision db1 tenant_id d (consumed_credit d actual) now of
          Inl e \<Rightarrow> (Inl e, db)
        | Inr (settlement, db2) \<Rightarrow>
            (let d' = reconciled_decision d actor_id actual notes key settlement now;
                 drift = quantize 4 (actual - released_total d) in
             (Inr \<lparr>rr_decision = d', rr_released_reserved_usd = released_total d, rr_actual_monthly_delta_usd = actual,
                rr_drift_usd = drift, rr_status = drift_status drift, rr_reconciled_at = now\<rparr>,
              append_decision_ledger_entry sha now d' (get_approval_by_decision db2 (ed_id d))
                (write_decision d' db2)))))"

definition reconcile_reservation ::
  "(string \<Rightarrow> string) \<Rightarrow> enf_db \<Rightarrow> uuid \<Rightarrow> uuid \<Rightarrow> uuid \<Rightarrow> rat \<Rightarrow> string option \<Rightarrow> string option \<Rightarrow> instant
    \<Rightarrow> reservation_reconciliation_result outcome" where
  "reconcile_reservation sha db tenant_id decision_id actor_id actual_monthly_delta_usd notes idempotency_key now =
     (case find_decision db tenant_id decision_id of
        None \<Rightarrow> (Inl (HTTPException 404 ''Decision not found''), db)
      | Some d \<Rightarrow>
          (let actual = quantize 4 actual_monthly_delta_usd in
           if actual < 0 then (Inl (HTTPException 422 ''actual_monthly_delta_usd must be >= 0''), db)
           else if \<not> ed_reservation_active d then
             (replay_or_conflict d actual (normalized_text notes) (normalized_text idempotency_key) now, db)
           else reconcile_claimed sha db tenant_id d actor_id actual (normalized_text notes)
             (normalized_text idempotency_key) now))"

subsection \<open>Releasing overdue reservations\<close>

text \<open>\<open>locked\<close> holds of the rows another transaction has locked, which the query skips.\<close>

definition overdue_decisions :: "enf_db \<Rightarrow> (uuid \<Rightarrow> bool) \<Rightarrow> uuid \<Rightarrow> instant \<Rightarrow> int \<Rightarrow> enforcement_decision list" where
  "overdue_decisions db locked tenant_id cutoff limit =
     take (nat limit) (sort_key ed_created_at (filter (\<lambda>d. ed_tenant_id d = tenant_id \<and> ed_reservation_active d
        \<and> ed_created_at d < cutoff \<and> \<not> locked (ed_id d)) (db_decisions db)))"

definition approval_of_decision :: "approval_request list \<Rightarrow> uuid \<Rightarrow> approval_request option" where
  "approval_of_decision approvals decision_id = first_row (\<lambda>a. ar_decision_id a = decision_id) (rev approvals)"

record overdue_state =
  os_db :: enf_db
  os_total_released :: rat
  os_decision_ids :: "uuid list"

definition auto_released_decision ::
  "enforcement_decision \<Rightarrow> uuid \<Rightarrow> int \<Rightarrow> dict list \<Rightarrow> instant \<Rightarrow> enforcement_decision" where
  "auto_released_decision d actor_id bounded_age settlement now =
     (clear_reservation d)\<lparr>
       ed_reason_codes := unique_reason_codes (ed_reason_codes d @ [''reservation_auto_released_sla'']),
       ed_response_payload := dict_merge (ed_response_payload d)
         [(''auto_reconciliation'', JObj [(''released_at'', JTime now), (''released_by_user_id'', JStr (uuid_text actor_id)),
            (''released_reserved_usd'', JDec 4 (quantize 4 (ed_reserved_allocation_usd d + ed_reserved_credit_usd d))),
            (''older_than_seconds'', JInt bounded_age), (''reason'', JStr ''reservation_reconciliation_sla_expired''),
            (''credit_settlement'', settlement_json settlement)])]\<rparr>"

fun release_overdue ::
  "(string \<Rightarrow> string) \<Rightarrow> uuid \<Rightarrow> uuid \<Rightarrow> int \<Rightarrow> approval_request list \<Rightarrow> instant \<Rightarrow> enforcement_decision list
    \<Rightarrow> overdue_state \<Rightarrow> overdue_state res" where
  "release_overdue sha tenant_id actor_id bounded_age approvals now [] st = Inr st"
| "release_overdue sha tenant_id actor_id bounded_age approvals now (d # ds) st =
     (let (rows, db1) = claim_reservation (os_db st) tenant_id (ed_id d) in
      if rows \<noteq> 1 then release_overdue sha tenant_id actor_id bounded_age approvals now ds st
      else bind_res (settle_credit_reservations_for_decision db1 tenant_id d 0 now) (\<lambda>(settlement, db2).
        let d' = auto_released_decision d actor_id bounded_age settlement now;
            released = quantize 4 (ed_reserved_allocation_usd d + ed_reserved_credit_usd d) in
        release_overdue sha tenant_id actor_id bounded_age approvals now ds
          \<lparr>os_db = append_decision_ledger_entry sha now d' (approval_of_decision approvals (ed_id d)) (write_decision d' db2),
           os_total_released = quantize 4 (os_total_released st + released),
           os_decision_ids = os_decision_ids st @ [ed_id d]\<rparr>))"

definition reconcile_overdue_reservations ::
  "(string \<Rightarrow> string) \<Rightarrow> enf_db \<Rightarrow> (uuid \<Rightarrow> bool) \<Rightarrow> uuid \<Rightarrow> uuid \<Rightarrow> int \<Rightarrow> int \<Rightarrow> instant
    \<Rightarrow> overdue_reconciliation_result outcome" where
  "reconcile_overdue_reservations sha db locked tenant_id actor_id older_than_seconds limit now =
     (let bounded_age = clamp 60 604800 older_than_seconds;
          decisions = overdue_decisions db locked tenant_id (now - seconds bounded_age) (clamp 1 1000 limit);
          approvals = filter (\<lambda>a. ar_decision_id a \<in> set (map ed_id decisions)) (db_approvals db);
          nothing = \<lparr>ov_released_count = 0, ov_total_released_usd = 0, ov_decision_ids = [], ov_older_than_seconds = bounded_age\<rparr> in
      if decisions = [] then (Inr nothing, db)
      else (case release_overdue sha tenant_id actor_id bounded_age approvals now decisions
               \<lparr>os_db = db, os_total_released = 0, os_decision_ids = []\<rparr> of
          Inl e \<Rightarrow> (Inl e, db)
        | Inr st \<Rightarrow>
            if os_decision_ids st = [] then (Inr nothing, db)
            else (Inr \<lparr>ov_released_count = length (os_decision_ids st), ov_total_released_usd = os_total_released st,
                    ov_decision_ids = os_decision_ids st, ov_older_than_seconds = bounded_age\<rparr>, os_db st)))"

subsection \<open>Reconciliation exceptions\<close>

record reconciliation_exception =
  rx_decision :: enforcement_decision
  rx_expected_reserved_usd :: rat
  rx_actual_monthly_delta_usd :: rat
  rx_drift_usd :: rat
  rx_status :: string
  rx_reconciled_at :: "instant option"
  rx_notes :: "string option"
  rx_credit_settlement :: "(string \<times> string) list list"

definition credit_settlement_rows :: "json \<Rightarrow> (string \<times> string) list list" where
  "credit_settlement_rows raw =
     (case raw of
        JList items \<Rightarrow> concat (map (\<lambda>item. case item of
            JObj row \<Rightarrow> [map (\<lambda>(k, v). (k, py_str v)) (filter (\<lambda>(k, v). strip k \<noteq> '''') row)]
          | _ \<Rightarrow> []) items)
      | _ \<Rightarrow> [])"

definition reconciliation_exception_of :: "enforcement_decision \<Rightarrow> reconciliation_exception option" where
  "reconciliation_exception_of d =
     (case dict_get (ed_response_payload d) ''reservation_reconciliation'' of
        JObj r \<Rightarrow>
          (let drift = quantize 4 (to_decimal (dict_get r ''drift_usd''));
               status = lower (text_or_empty (dict_get r ''status'')) in
           if drift = 0 then None
           else Some
             \<lparr>rx_decision = d,
              rx_expected_reserved_usd = quantize 4 (to_decimal (dict_get r ''expected_reserved_usd'')),
              rx_actual_monthly_delta_usd = quantize 4 (to_decimal (dict_get r ''actual_monthly_delta_usd'')),
              rx_drift_usd = drift,
              rx_status = (if status \<in> {''overage'', ''savings''} then status else if 0 < drift then ''overage'' else ''savings''),
              rx_reconciled_at = parse_iso_datetime (dict_get r ''reconciled_at''),
              rx_notes = optional_text (dict_get r ''notes''),
              rx_credit_settlement = credit_settlement_rows (dict_get r ''credit_settlement'')\<rparr>)
      | _ \<Rightarrow> None)"

fun build_reconciliation_exceptions ::
  "nat \<Rightarrow> enforcement_decision list \<Rightarrow> reconciliation_exception list \<Rightarrow> reconciliation_exception list" where
  "build_reconciliation_exceptions bounded_limit [] exceptions = exceptions"
| "build_reconciliation_exceptions bounded_limit (d # ds) exceptions =
     (case reconciliation_exception_of d of
        None \<Rightarrow> build_reconciliation_exceptions bounded_limit ds exceptions
      | Some x \<Rightarrow>
          (let exceptions' = exceptions @ [x] in
           if bounded_limit \<le> length exceptions' then exceptions'
           else build_reconciliation_exceptions bounded_limit ds exceptions'))"

definition list_reconciliation_exceptions :: "enf_db \<Rightarrow> uuid \<Rightarrow> int \<Rightarrow> reconciliation_exception list" where
  "list_reconciliation_exceptions db tenant_id limit =
     (let bounded_limit = clamp 1 1000 limit; scan_limit = clamp 100 5000 (bounded_limit * 10) in
      build_reconciliation_exceptions (nat bounded_limit)
        (take (nat scan_limit) (rev (sort_key ed_created_at
          (filter (\<lambda>d. ed_tenant_id d = tenant_id \<and> \<not> ed_reservation_active d) (db_decisions db))))) [])"

end
