(* ===== verification/Enf_Reconcile_Facts.thy ===== *)
theory Enf_Reconcile_Facts
  imports Enf_Reconcile Enf_Approval_Facts
begin

text \<open>
  Lemmas behind the theorems on reconciliation: claiming a reservation and settling it, what the
  written-back decision means for the tables, and the loop over overdue reservations.
\<close>

subsection \<open>Claiming\<close>

lemma settle_decisions:
  "settle_credit_reservations_for_decision (db\<lparr>db_decisions := ds\<rparr>) t d c now =
     map_sum id (\<lambda>(s, db1). (s, db1\<lparr>db_decisions := ds\<rparr>)) (settle_credit_reservations_for_decision db t d c now)"
proof -
  have "open_allocations (db\<lparr>db_decisions := ds\<rparr>) t i = open_allocations db t i" for i
    by (simp add: open_allocations_def)
  then show ?thesis
    unfolding settle_credit_reservations_for_decision_def Let_def
    by (auto simp: bind_res_def split: sum.splits prod.splits)
qed

lemma claim_active:
  assumes inv: "enf_inv db" and d: "d \<in> set (db_decisions db)" "ed_tenant_id d = tenant_id" "ed_reservation_active d"
  shows "fst (claim_reservation db tenant_id (ed_id d)) = 1"
proof -
  have "count_where (claimable (ed_id d) tenant_id) (db_decisions db) \<le> 1"
    unfolding claimable_def by (rule count_where_unique [OF enf_invD(2) [OF inv]])
  moreover have "count_where (claimable (ed_id d) tenant_id) (db_decisions db) \<noteq> 0"
    using d by (auto simp: count_where_def claimable_def filter_empty_conv)
  ultimately show ?thesis by (simp add: claim_reservation_def)
qed

lemma claim_inactive:
  assumes inv: "enf_inv db" and d: "d \<in> set (db_decisions db)" "\<not> ed_reservation_active d"
  shows "fst (claim_reservation db tenant_id (ed_id d)) = 0"
  using owner_unique [OF inv d(1)] d(2)
  by (auto simp: claim_reservation_def claimable_def count_where_def filter_empty_conv)

lemma write_over_claim:
  assumes "ed_id d' = decision_id" "db_decisions db1 = db_decisions db"
  shows "write_decision d' (db1\<lparr>db_decisions := db_decisions (snd (claim_reservation db tenant_id decision_id))\<rparr>)
    = write_decision d' db1"
proof -
  have "update_where (\<lambda>r. ed_id r = decision_id) (\<lambda>_. d')
      (update_where (claimable decision_id tenant_id) (\<lambda>r. r\<lparr>ed_reservation_active := False\<rparr>) ds)
      = update_where (\<lambda>r. ed_id r = decision_id) (\<lambda>_. d') ds" for ds
    by (auto simp: update_where_def claimable_def)
  with assms show ?thesis by (simp add: write_decision_def claim_reservation_def)
qed

lemma claimed_settle:
  assumes inv: "enf_inv db" and d: "d \<in> set (db_decisions db)" "ed_tenant_id d = tenant_id" "ed_reservation_active d"
  obtains settlement db1 db2 where "settle_credit_reservations_for_decision db tenant_id d c now = Inr (settlement, db1)"
    "settle_credit_reservations_for_decision (snd (claim_reservation db tenant_id (ed_id d))) tenant_id d c now = Inr (settlement, db2)"
    "db_approvals db2 = db_approvals db1" "\<And>d'. ed_id d' = ed_id d \<Longrightarrow> write_decision d' db2 = write_decision d' db1"
proof -
  obtain settlement db1 where s: "settle_credit_reservations_for_decision db tenant_id d c now = Inr (settlement, db1)"
    using settle_succeeds [OF inv d(1,2)] d(3) by blast
  let ?ds = "db_decisions (snd (claim_reservation db tenant_id (ed_id d)))"
  have "snd (claim_reservation db tenant_id (ed_id d)) = db\<lparr>db_decisions := ?ds\<rparr>" by (simp add: claim_reservation_def)
  then have "settle_credit_reservations_for_decision (snd (claim_reservation db tenant_id (ed_id d))) tenant_id d c now
      = Inr (settlement, db1\<lparr>db_decisions := ?ds\<rparr>)"
    using s settle_decisions [of ?ds db tenant_id d c now] by simp
  from that [OF s this] write_over_claim settle_frame(1) [OF s] show ?thesis by simp
qed

subsection \<open>Writing a settled decision\<close>

text \<open>A decision row with its reservation gone.\<close>

definition cleared :: "enforcement_decision \<Rightarrow> enforcement_decision \<Rightarrow> bool" where
  "cleared d d' \<longleftrightarrow> decision_keeps d d' \<and> \<not> ed_reservation_active d'
     \<and> ed_reserved_allocation_usd d' = 0 \<and> ed_reserved_credit_usd d' = 0"

lemma cleared_id: "cleared d d' \<Longrightarrow> ed_id d' = ed_id d" "cleared d d' \<Longrightarrow> ed_tenant_id d' = ed_tenant_id d"
  by (simp_all add: cleared_def decision_keeps_def owner_key_def)

lemma reconciled_cleared: "cleared d (reconciled_decision d actor actual notes key settlement now)"
  "cleared d (auto_released_decision d actor age settlement now)"
  by (simp_all add: cleared_def decision_keeps_def reconciled_decision_def auto_released_decision_def owner_key_def
      gate_key_def clear_reservation_def)

lemma settled_write:
  assumes inv: "enf_inv db" and d: "d \<in> set (db_decisions db)" "ed_tenant_id d = tenant_id"
    and s: "settle_credit_reservations_for_decision db tenant_id d c now = Inr (settlement, db1)"
    and d': "cleared d d'"
  shows "enf_inv (write_decision d' db1)" "d' \<in> set (db_decisions (write_decision d' db1))"
    "open_allocations (write_decision d' db1) tenant_id (ed_id d) = []"
    "tenant_credit (write_decision d' db1) tenant_id =
       tenant_credit db tenant_id + (ed_reserved_credit_usd d - quantize 4 (min (max 0 c) (ed_reserved_credit_usd d)))"
    "\<And>x. ed_id x \<noteq> ed_id d \<Longrightarrow> x \<in> set (db_decisions (write_decision d' db1)) \<longleftrightarrow> x \<in> set (db_decisions db)"
proof -
  note frame = settle_frame [OF s]
  show "enf_inv (write_decision d' db1)"
    using release_inv [OF inv d s] d' by (simp add: cleared_def decision_keeps_def)
  show "d' \<in> set (db_decisions (write_decision d' db1))"
    using d(1) frame(1) cleared_id(1) [OF d'] by (auto intro!: written_decision)
  have "open_allocations db1 tenant_id (ed_id d) = [] \<and> tenant_credit db1 tenant_id =
      tenant_credit db tenant_id + (ed_reserved_credit_usd d - quantize 4 (min (max 0 c) (ed_reserved_credit_usd d)))"
    using inv d s
  proof (cases rule: settle_cases)
    case none
    then show ?thesis by (simp add: min_def)
  next
    case settled
    with settles_open(2) [OF enf_invD(1) [OF inv] settled(4)] settles_returns [OF enf_invD(1) [OF inv] settled(4)]
    show ?thesis by simp
  qed
  then show "open_allocations (write_decision d' db1) tenant_id (ed_id d) = []"
    "tenant_credit (write_decision d' db1) tenant_id =
       tenant_credit db tenant_id + (ed_reserved_credit_usd d - quantize 4 (min (max 0 c) (ed_reserved_credit_usd d)))"
    by (simp_all add: open_allocations_def tenant_credit_def)
  show "x \<in> set (db_decisions (write_decision d' db1)) \<longleftrightarrow> x \<in> set (db_decisions db)" if "ed_id x \<noteq> ed_id d" for x
    using that cleared_id(1) [OF d'] frame(1) by (auto simp: write_decision_def set_update_where image_iff)
qed

subsection \<open>One reservation\<close>

lemma find_decision_row:
  assumes "enf_inv db" "d \<in> set (db_decisions db)" "ed_tenant_id d = tenant_id"
  shows "find_decision db tenant_id (ed_id d) = Some d"
  unfolding find_decision_def
  using assms owner_unique [OF assms(1,2)] by (intro first_row_the) auto

lemma find_decision_SomeD:
  "find_decision db tenant_id decision_id = Some d \<Longrightarrow>
     d \<in> set (db_decisions db) \<and> ed_id d = decision_id \<and> ed_tenant_id d = tenant_id"
  unfolding find_decision_def by (auto dest: first_row_SomeD)

lemma reconcile_active:
  assumes inv: "enf_inv db" and d: "find_decision db tenant_id decision_id = Some d" "ed_reservation_active d"
    and actual: "0 \<le> quantize 4 x"
  obtains settlement db1 d' where
    "settle_credit_reservations_for_decision db tenant_id d (consumed_credit d (quantize 4 x)) now = Inr (settlement, db1)"
    "d' = reconciled_decision d actor_id (quantize 4 x) (normalized_text notes) (normalized_text key) settlement now"
    "reconcile_reservation sha db tenant_id decision_id actor_id x notes key now =
       (Inr \<lparr>rr_decision = d', rr_released_reserved_usd = released_total d, rr_actual_monthly_delta_usd = quantize 4 x,
          rr_drift_usd = quantize 4 (quantize 4 x - released_total d),
          rr_status = drift_status (quantize 4 (quantize 4 x - released_total d)), rr_reconciled_at = now\<rparr>,
        append_decision_ledger_entry sha now d' (get_approval_by_decision db (ed_id d)) (write_decision d' db1))"
proof -
  note row = find_decision_SomeD [OF d(1)]
  obtain settlement db1 db2 where
    s: "settle_credit_reservations_for_decision db tenant_id d (consumed_credit d (quantize 4 x)) now = Inr (settlement, db1)"
    "settle_credit_reservations_for_decision (snd (claim_reservation db tenant_id (ed_id d))) tenant_id d
       (consumed_credit d (quantize 4 x)) now = Inr (settlement, db2)"
    "db_approvals db2 = db_approvals db1" "\<And>d'. ed_id d' = ed_id d \<Longrightarrow> write_decision d' db2 = write_decision d' db1"
    by (rule claimed_settle [OF inv _ _ d(2), of tenant_id "consumed_credit d (quantize 4 x)" now]) (use row in simp_all)
  obtain claimed where c: "claim_reservation db tenant_id (ed_id d) = (1, claimed)"
    using claim_active [OF inv _ _ d(2)] row by (metis prod.collapse)
  let ?d = "reconciled_decision d actor_id (quantize 4 x) (normalized_text notes) (normalized_text key) settlement now"
  have w: "write_decision ?d db2 = write_decision ?d db1" by (rule s(4)) (rule cleared_id(1) [OF reconciled_cleared(1)])
  have "get_approval_by_decision db2 (ed_id d) = get_approval_by_decision db (ed_id d)"
    using s(3) settle_frame(2) [OF s(1)] by (simp add: get_approval_by_decision_def)
  with s(2) c w d actual row show ?thesis
    by (intro that [OF s(1) refl]) (simp add: reconcile_reservation_def reconcile_claimed_def Let_def not_less [symmetric])
qed

subsection \<open>Replay\<close>

lemma strip_ends:
  assumes "s \<noteq> []" "\<not> py_space (hd s)" "\<not> py_space (last s)"
  shows "strip s = s"
proof -
  have "dropWhile py_space s = s" using assms(1,2) by (cases s) auto
  moreover have "dropWhile py_space (rev s) = rev s" using assms(1,3) by (cases "rev s") (auto simp: last_rev hd_rev simp flip: hd_rev)
  ultimately show ?thesis by (simp add: strip_def)
qed

lemma parse_iso_isoformat:
  assumes "1 \<le> d_year (date_of_instant t)" "d_year (date_of_instant t) \<le> 9999"
  shows "parse_iso_datetime (JTime t) = Some t"
proof -
  let ?y = "pad_text 4 (nat (d_year (date_of_instant t)))"
  have y: "nat (d_year (date_of_instant t)) < 10 ^ 4" using assms by simp
  note p = pad_text_digits [OF y]
  obtain front where front: "isoformat t = ?y @ front @ ''+00:00''"
    by (auto simp: isoformat_def date_isoformat_def Let_def)
  have "?y \<noteq> []" using p(1) by force
  then have "isoformat t \<noteq> []" "hd (isoformat t) = hd ?y" "last (isoformat t) = CHR ''0''" "is_digit (hd ?y)"
    using p(2) by (auto simp: front list_all_iff)
  moreover have "\<not> py_space c" if "is_digit c" for c using that by (auto simp: is_digit_def py_space_def Let_def)
  moreover have "is_digit CHR ''0''" by (simp add: is_digit_def)
  ultimately have "strip (isoformat t) = isoformat t" "isoformat t \<noteq> []" "last (isoformat t) \<noteq> CHR ''Z''"
    by (auto intro!: strip_ends)
  then show ?thesis
    using iso_roundtrip_year [OF assms] by (simp add: parse_iso_datetime_def parse_iso_text_def Let_def)
qed

lemma normalized_textD: "normalized_text v = Some t \<Longrightarrow> strip t = t \<and> t \<noteq> ''''"
  by (auto simp: normalized_text_def Let_def split: option.splits if_splits)

lemma optional_text_json: "optional_text (text_json (normalized_text v)) = normalized_text v"
  using normalized_textD [of v]
  by (cases "normalized_text v") (auto simp: optional_text_def text_json_def py_str_def Let_def)

lemma drift_status_text: "lower (strip (drift_status x)) = drift_status x" "drift_status x \<in> {''matched'', ''overage'', ''savings''}"
proof -
  have "lower (strip ''matched'') = ''matched''" "lower (strip ''overage'') = ''overage''" "lower (strip ''savings'') = ''savings''"
    by code_simp+
  then show "lower (strip (drift_status x)) = drift_status x" "drift_status x \<in> {''matched'', ''overage'', ''savings''}"
    by (simp_all add: drift_status_def)
qed

lemma replay_of_reconciled:
  assumes "normalized_text key = Some k" "on_grid 4 actual"
    and "1 \<le> d_year (date_of_instant t)" "d_year (date_of_instant t) \<le> 9999"
    and d': "d' = reconciled_decision d actor_id actual (normalized_text notes) (normalized_text key) settlement t"
  shows "replay_or_conflict d' actual (normalized_text notes) (normalized_text key) now =
    Inr \<lparr>rr_decision = d', rr_released_reserved_usd = released_total d, rr_actual_monthly_delta_usd = actual,
      rr_drift_usd = quantize 4 (actual - released_total d), rr_status = drift_status (quantize 4 (actual - released_total d)),
      rr_reconciled_at = t\<rparr>"
proof -
  let ?r = "reconciliation_json d actor_id actual (normalized_text notes) (normalized_text key) settlement t"
  have payload: "dict_get (ed_response_payload d') ''reservation_reconciliation'' = ?r"
    by (simp add: d' reconciled_decision_def)
  have grid: "on_grid 4 (released_total d)" by (simp add: released_total_def)
  note k = normalized_textD [OF assms(1)]
  show ?thesis
    using k grid assms(2) drift_status_text optional_text_json [of "notes"]
    by (simp add: replay_or_conflict_def build_reservation_reconciliation_replay_def payload assms(1)
        reconciliation_json_def Let_def text_json_def [of "Some _"] parse_iso_isoformat [OF assms(3,4)])
qed

subsection \<open>The loop over overdue reservations\<close>

definition reserved_sum :: "enforcement_decision list \<Rightarrow> rat" where
  "reserved_sum ds = (\<Sum>d\<leftarrow>ds. ed_reserved_allocation_usd d + ed_reserved_credit_usd d)"

text \<open>What releasing the decisions \<open>ds\<close> does to the tables of a tenant.\<close>

definition releases_all :: "uuid \<Rightarrow> enforcement_decision list \<Rightarrow> enf_db \<Rightarrow> enf_db \<Rightarrow> bool" where
  "releases_all tenant_id ds db db' \<longleftrightarrow>
     (\<forall>d \<in> set ds. \<exists>d' \<in> set (db_decisions db'). cleared d d')
     \<and> (\<forall>x. ed_id x \<notin> ed_id ` set ds \<longrightarrow> (x \<in> set (db_decisions db') \<longleftrightarrow> x \<in> set (db_decisions db)))
     \<and> tenant_credit db' tenant_id = tenant_credit db tenant_id + (\<Sum>d\<leftarrow>ds. ed_reserved_credit_usd d)
     \<and> db_approvals db' = db_approvals db \<and> db_actions db' = db_actions db \<and> db_budgets db' = db_budgets db
     \<and> db_next_id db \<le> db_next_id db'
     \<and> (\<exists>entries. db_ledger db' = db_ledger db @ entries \<and> map dl_decision_id entries = map ed_id ds)"

definition releasable :: "uuid \<Rightarrow> enforcement_decision list \<Rightarrow> enf_db \<Rightarrow> bool" where
  "releasable tenant_id ds db \<longleftrightarrow> distinct (map ed_id ds)
     \<and> (\<forall>d \<in> set ds. d \<in> set (db_decisions db) \<and> ed_tenant_id d = tenant_id \<and> ed_reservation_active d)"

lemma release_one:
  assumes inv: "enf_inv (os_db st)" and ok: "releasable tenant_id (d # ds) (os_db st)"
  obtains st1 where
    "release_overdue sha tenant_id actor_id age approvals now (d # ds) st =
       release_overdue sha tenant_id actor_id age approvals now ds st1"
    "enf_inv (os_db st1)" "releasable tenant_id ds (os_db st1)" "releases_all tenant_id [d] (os_db st) (os_db st1)"
    "os_decision_ids st1 = os_decision_ids st @ [ed_id d]"
    "os_total_released st1 = quantize 4 (os_total_released st + (ed_reserved_allocation_usd d + ed_reserved_credit_usd d))"
proof -
  let ?db = "os_db st"
  have d: "d \<in> set (db_decisions ?db)" "ed_tenant_id d = tenant_id" "ed_reservation_active d"
    using ok by (simp_all add: releasable_def)
  obtain settlement db1 db2 where s: "settle_credit_reservations_for_decision ?db tenant_id d 0 now = Inr (settlement, db1)"
    "settle_credit_reservations_for_decision (snd (claim_reservation ?db tenant_id (ed_id d))) tenant_id d 0 now = Inr (settlement, db2)"
    "db_approvals db2 = db_approvals db1" "\<And>d'. ed_id d' = ed_id d \<Longrightarrow> write_decision d' db2 = write_decision d' db1"
    by (rule claimed_settle [OF inv d, of 0 now]) simp
  obtain claimed where c: "claim_reservation ?db tenant_id (ed_id d) = (1, claimed)"
    using claim_active [OF inv d] by (metis prod.collapse)
  let ?d = "auto_released_decision d actor_id age settlement now"
  note w = settled_write [OF inv d(1,2) s(1) reconciled_cleared(2) [of d actor_id age settlement now]]
  have m: "money (ed_reserved_allocation_usd d)" "money (ed_reserved_credit_usd d)"
    using enf_invD(6) [OF inv d(1)] by (simp_all add: decision_ok_def)
  let ?db' = "append_decision_ledger_entry sha now ?d (approval_of_decision approvals (ed_id d)) (write_decision ?d db1)"
  let ?st = "\<lparr>os_db = ?db', os_total_released = quantize 4 (os_total_released st
      + (ed_reserved_allocation_usd d + ed_reserved_credit_usd d)), os_decision_ids = os_decision_ids st @ [ed_id d]\<rparr>"
  have id: "ed_id ?d = ed_id d" by (rule cleared_id(1) [OF reconciled_cleared(2)])
  have grid: "quantize 4 (ed_reserved_allocation_usd d + ed_reserved_credit_usd d) = ed_reserved_allocation_usd d + ed_reserved_credit_usd d"
    using m by (simp add: money_grid)
  have "release_overdue sha tenant_id actor_id age approvals now (d # ds) st =
      release_overdue sha tenant_id actor_id age approvals now ds ?st"
    using s(2) c s(4) [OF id] grid by (simp add: Let_def)
  moreover have "enf_inv ?db'" using w(1) by (rule append_ledger_inv)
  moreover have "releasable tenant_id ds ?db'"
    using ok w(5) by (auto simp: releasable_def image_iff)
  moreover have "releases_all tenant_id [d] ?db ?db'"
    unfolding releases_all_def
  proof (intro conjI)
    show "\<forall>x \<in> set [d]. \<exists>d' \<in> set (db_decisions ?db'). cleared x d'" 
      using bexI [where P = "cleared d", OF reconciled_cleared(2) w(2)] by simp
    show "\<forall>x. ed_id x \<notin> ed_id ` set [d] \<longrightarrow> x \<in> set (db_decisions ?db') \<longleftrightarrow> x \<in> set (db_decisions ?db)"
      using w(5) by simp
    show "tenant_credit ?db' tenant_id = tenant_credit ?db tenant_id + (\<Sum>d\<leftarrow>[d]. ed_reserved_credit_usd d)"
      using w(4) m(2) by (simp add: tenant_credit_def min_def money_nonneg)
    show "db_approvals ?db' = db_approvals ?db" "db_actions ?db' = db_actions ?db" "db_budgets ?db' = db_budgets ?db"
      "db_next_id ?db \<le> db_next_id ?db'"
      using settle_frame [OF s(1)] by simp_all
    show "\<exists>entries. db_ledger ?db' = db_ledger ?db @ entries \<and> map dl_decision_id entries = map ed_id [d]"
      using settle_frame(4) [OF s(1)] id by (auto simp: ledger_entry_def)
  qed
  ultimately show ?thesis by (intro that [of ?st]) simp_all
qed

lemma releases_all_Cons:
  assumes "releases_all t [d] db db1" "releases_all t ds db1 db2" "distinct (map ed_id (d # ds))"
  shows "releases_all t (d # ds) db db2"
proof -
  from assms(1) obtain d' where d': "d' \<in> set (db_decisions db1)" "cleared d d'" by (auto simp: releases_all_def)
  have "d' \<in> set (db_decisions db2)"
    using assms(2,3) d' cleared_id(1) [OF d'(2)] by (simp add: releases_all_def)
  with assms d'(2) show ?thesis by (auto simp: releases_all_def)
qed

lemma release_overdue_ok:
  assumes "enf_inv (os_db st)" "releasable tenant_id ds (os_db st)" "on_grid 4 (os_total_released st)"
  shows "\<exists>st'. release_overdue sha tenant_id actor_id age approvals now ds st = Inr st' \<and> enf_inv (os_db st')
    \<and> releases_all tenant_id ds (os_db st) (os_db st')
    \<and> os_decision_ids st' = os_decision_ids st @ map ed_id ds
    \<and> os_total_released st' = os_total_released st + reserved_sum ds"
  using assms
proof (induction ds arbitrary: st)
  case Nil
  then show ?case by (simp add: releases_all_def reserved_sum_def)
next
  case (Cons d ds)
  from Cons.prems(1,2) obtain st1 where st1:
    "release_overdue sha tenant_id actor_id age approvals now (d # ds) st =
       release_overdue sha tenant_id actor_id age approvals now ds st1"
    "enf_inv (os_db st1)" "releasable tenant_id ds (os_db st1)" "releases_all tenant_id [d] (os_db st) (os_db st1)"
    "os_decision_ids st1 = os_decision_ids st @ [ed_id d]"
    "os_total_released st1 = quantize 4 (os_total_released st + (ed_reserved_allocation_usd d + ed_reserved_credit_usd d))"
    by (rule release_one)
  have d: "d \<in> set (db_decisions (os_db st))" "distinct (map ed_id (d # ds))" using Cons.prems(2) by (simp_all add: releasable_def)
  have "money (ed_reserved_allocation_usd d)" "money (ed_reserved_credit_usd d)"
    using enf_invD(6) [OF Cons.prems(1) d(1)] by (simp_all add: decision_ok_def)
  then have total: "os_total_released st1 = os_total_released st + (ed_reserved_allocation_usd d + ed_reserved_credit_usd d)"
    "on_grid 4 (os_total_released st1)"
    using st1(6) Cons.prems(3) by (simp_all add: money_grid)
  from Cons.IH [OF st1(2,3) total(2)] obtain st' where st':
    "release_overdue sha tenant_id actor_id age approvals now ds st1 = Inr st'" "enf_inv (os_db st')"
    "releases_all tenant_id ds (os_db st1) (os_db st')" "os_decision_ids st' = os_decision_ids st1 @ map ed_id ds"
    "os_total_released st' = os_total_released st1 + reserved_sum ds" by blast
  with st1(1,5) total(1) releases_all_Cons [OF st1(4) st'(3) d(2)] show ?case
    by (intro exI [of _ st']) (simp add: reserved_sum_def)
qed

lemma overdue_releasable:
  assumes "enf_inv db"
  shows "releasable tenant_id (overdue_decisions db locked tenant_id cutoff limit) db"
proof -
  let ?p = "\<lambda>d. ed_tenant_id d = tenant_id \<and> ed_reservation_active d \<and> ed_created_at d < cutoff \<and> \<not> locked (ed_id d)"
  let ?ds = "sort_key ed_created_at (filter ?p (db_decisions db))"
  have "distinct (map ed_id (filter ?p (db_decisions db)))" using enf_invD(2) [OF assms] by (rule distinct_map_filter)
  then have "distinct (map ed_id ?ds)" by (simp add: distinct_map)
  then have "distinct (map ed_id (take (nat limit) ?ds))" unfolding take_map [symmetric] by (rule distinct_take)
  moreover have "set (take (nat limit) ?ds) \<subseteq> set (filter ?p (db_decisions db))" using set_take_subset [of "nat limit" ?ds] by simp
  ultimately show ?thesis unfolding releasable_def overdue_decisions_def by auto
qed

end
