(* ===== verification/Enf_Reconcile_Theorems.thy ===== *)
theory Enf_Reconcile_Theorems
  imports Enf_Reconcile_Facts Enf_Approval_Samples
begin

text \<open>
  The theorems about reconciliation, with their witnesses on the sample reservation of 8 USD credit.
\<close>

text \<open>
  C8. Reconciling an active reservation with a non-negative actual cost always succeeds and settles it
  exactly: the drift is the actual cost minus everything reserved, the status says which way it went,
  credit is consumed only for the part of the actual cost that exceeds the reserved allocation and
  never more than was reserved, and every unused credit returns to the tenant's grants. The decision
  is left with nothing reserved, one ledger entry records it and the invariant is kept.
\<close>

theorem reconcile_exact:
  assumes "enf_inv db" and "find_decision db tenant_id decision_id = Some d" and "ed_reservation_active d"
    and "0 \<le> quantize 4 x"
  shows "\<exists>r db'. reconcile_reservation sha db tenant_id decision_id actor_id x notes key now = (Inr r, db')
    \<and> rr_drift_usd r = quantize 4 x - (ed_reserved_allocation_usd d + ed_reserved_credit_usd d)
    \<and> rr_status r = (if rr_drift_usd r = 0 then ''matched'' else if 0 < rr_drift_usd r then ''overage'' else ''savings'')
    \<and> rr_released_reserved_usd r = ed_reserved_allocation_usd d + ed_reserved_credit_usd d
    \<and> tenant_credit db' tenant_id = tenant_credit db tenant_id + ed_reserved_credit_usd d
         - min (ed_reserved_credit_usd d) (max 0 (quantize 4 x - ed_reserved_allocation_usd d))
    \<and> rr_decision r \<in> set (db_decisions db') \<and> cleared d (rr_decision r)
    \<and> open_allocations db' tenant_id decision_id = []
    \<and> (\<exists>entry. db_ledger db' = db_ledger db @ [entry] \<and> dl_decision_id entry = decision_id) \<and> enf_inv db'"
proof -
  note row = find_decision_SomeD [OF assms(2)]
  obtain settlement db1 d' where s:
    "settle_credit_reservations_for_decision db tenant_id d (consumed_credit d (quantize 4 x)) now = Inr (settlement, db1)"
    "d' = reconciled_decision d actor_id (quantize 4 x) (normalized_text notes) (normalized_text key) settlement now"
    and run: "reconcile_reservation sha db tenant_id decision_id actor_id x notes key now =
       (Inr \<lparr>rr_decision = d', rr_released_reserved_usd = released_total d, rr_actual_monthly_delta_usd = quantize 4 x,
          rr_drift_usd = quantize 4 (quantize 4 x - released_total d),
          rr_status = drift_status (quantize 4 (quantize 4 x - released_total d)), rr_reconciled_at = now\<rparr>,
        append_decision_ledger_entry sha now d' (get_approval_by_decision db (ed_id d)) (write_decision d' db1))"
    by (rule reconcile_active [OF assms])
  let ?db = "append_decision_ledger_entry sha now d' (get_approval_by_decision db (ed_id d)) (write_decision d' db1)"
  let ?r = "\<lparr>rr_decision = d', rr_released_reserved_usd = released_total d, rr_actual_monthly_delta_usd = quantize 4 x,
      rr_drift_usd = quantize 4 (quantize 4 x - released_total d),
      rr_status = drift_status (quantize 4 (quantize 4 x - released_total d)), rr_reconciled_at = now\<rparr>"
  have c: "cleared d d'" unfolding s(2) by (rule reconciled_cleared)
  have rows: "d \<in> set (db_decisions db)" "ed_tenant_id d = tenant_id" using row by simp_all
  note w = settled_write [OF assms(1) rows s(1) c]
  have m: "money (ed_reserved_allocation_usd d)" "money (ed_reserved_credit_usd d)"
    using enf_invD(6) [OF assms(1) rows(1)] by (simp_all add: decision_ok_def)
  note g = money_grid [OF m(1)] money_grid [OF m(2)] money_nonneg [OF m(2)]
  have total: "released_total d = ed_reserved_allocation_usd d + ed_reserved_credit_usd d" using g by (simp add: released_total_def)
  have used: "quantize 4 (min (max 0 (consumed_credit d (quantize 4 x))) (ed_reserved_credit_usd d))
      = min (ed_reserved_credit_usd d) (max 0 (quantize 4 x - ed_reserved_allocation_usd d))"
    using g by (simp add: consumed_credit_def max_def min_def)
  have "tenant_credit ?db tenant_id = tenant_credit db tenant_id + ed_reserved_credit_usd d
         - min (ed_reserved_credit_usd d) (max 0 (quantize 4 x - ed_reserved_allocation_usd d))"
    using w(4) used by (simp add: tenant_credit_def)
  moreover have "quantize 4 (quantize 4 x - released_total d) = quantize 4 x - (ed_reserved_allocation_usd d + ed_reserved_credit_usd d)"
    using g total by simp
  moreover have "open_allocations ?db tenant_id decision_id = []" using w(3) row by (simp add: open_allocations_def)
  moreover have "db_ledger ?db = db_ledger db @ [ledger_entry sha (db_next_id (write_decision d' db1)) now d' (get_approval_by_decision db (ed_id d))]"
    using settle_frame(4) [OF s(1)] by simp
  moreover have "dl_decision_id (ledger_entry sha i now d' a) = decision_id" for i a
    using cleared_id(1) [OF c] row by (simp add: ledger_entry_def)
  ultimately show ?thesis
    using w(1,2) c total append_ledger_inv [OF w(1), of sha now d' "get_approval_by_decision db (ed_id d)"] run
    by (intro exI [of _ ?r] exI [of _ ?db]) (simp add: drift_status_def)
qed

lemma reconcile_again:
  assumes "enf_inv db" and "find_decision db tenant_id decision_id = Some d" and "ed_reservation_active d"
    and "0 \<le> quantize 4 x"
    and "reconcile_reservation sha db tenant_id decision_id actor_id x notes key now = (Inr r, db')"
    and "normalized_text key = Some k"
    and "1 \<le> d_year (date_of_instant now)" "d_year (date_of_instant now) \<le> 9999"
  shows "reconcile_reservation sha db' tenant_id decision_id actor2 x notes key later = (Inr r, db')"
    and "reconcile_claimed sha db' tenant_id d actor2 (quantize 4 x) (normalized_text notes) (normalized_text key) later = (Inr r, db')"
    and "normalized_text key2 \<noteq> Some k \<Longrightarrow>
      reconcile_reservation sha db' tenant_id decision_id actor2 x notes2 key2 later
        = (Inl (HTTPException 409 ''Reservation is not active''), db')"
proof -
  note row = find_decision_SomeD [OF assms(2)]
  obtain settlement db1 d' where s:
    "settle_credit_reservations_for_decision db tenant_id d (consumed_credit d (quantize 4 x)) now = Inr (settlement, db1)"
    "d' = reconciled_decision d actor_id (quantize 4 x) (normalized_text notes) (normalized_text key) settlement now"
    and run: "reconcile_reservation sha db tenant_id decision_id actor_id x notes key now =
       (Inr \<lparr>rr_decision = d', rr_released_reserved_usd = released_total d, rr_actual_monthly_delta_usd = quantize 4 x,
          rr_drift_usd = quantize 4 (quantize 4 x - released_total d),
          rr_status = drift_status (quantize 4 (quantize 4 x - released_total d)), rr_reconciled_at = now\<rparr>,
        append_decision_ledger_entry sha now d' (get_approval_by_decision db (ed_id d)) (write_decision d' db1))"
    by (rule reconcile_active [OF assms(1-4)])
  have rows: "d \<in> set (db_decisions db)" "ed_tenant_id d = tenant_id" "ed_id d = decision_id" using row by simp_all
  have c: "cleared d d'" unfolding s(2) by (rule reconciled_cleared)
  note w = settled_write [OF assms(1) rows(1,2) s(1) c]
  have db': "db' = append_decision_ledger_entry sha now d' (get_approval_by_decision db (ed_id d)) (write_decision d' db1)"
    and r: "r = \<lparr>rr_decision = d', rr_released_reserved_usd = released_total d, rr_actual_monthly_delta_usd = quantize 4 x,
          rr_drift_usd = quantize 4 (quantize 4 x - released_total d),
          rr_status = drift_status (quantize 4 (quantize 4 x - released_total d)), rr_reconciled_at = now\<rparr>"
    using assms(5) run by simp_all
  have inv': "enf_inv db'" and d': "d' \<in> set (db_decisions db')" "\<not> ed_reservation_active d'" "ed_tenant_id d' = tenant_id" "ed_id d' = decision_id"
    using w(1,2) c cleared_id [OF c] rows append_ledger_inv by (simp_all add: db' cleared_def)
  have found: "find_decision db' tenant_id decision_id = Some d'"
    using find_decision_row [OF inv' d'(1,3)] d'(4) by simp
  have replay: "replay_or_conflict d' (quantize 4 x) (normalized_text notes) (normalized_text key) later = Inr r"
    unfolding r by (rule replay_of_reconciled [OF assms(6) on_grid_quantize assms(7,8) s(2)])
  show "reconcile_reservation sha db' tenant_id decision_id actor2 x notes key later = (Inr r, db')"
    using found replay d'(2) assms(4) by (simp add: reconcile_reservation_def Let_def not_less)
  have claim: "fst (claim_reservation db' tenant_id decision_id) = 0" using claim_inactive [OF inv' d'(1,2)] d'(4) by simp
  then show "reconcile_claimed sha db' tenant_id d actor2 (quantize 4 x) (normalized_text notes) (normalized_text key) later = (Inr r, db')"
    using found replay rows(3) by (simp add: reconcile_claimed_def case_prod_beta)
  assume other: "normalized_text key2 \<noteq> Some k"
  have "replay_or_conflict d' (quantize 4 x) (normalized_text notes2) (normalized_text key2) later = reject ''Reservation is not active''"
    using other normalized_textD [OF assms(6)] normalized_textD [of key2]
    by (cases "normalized_text key2")
      (auto simp: replay_or_conflict_def build_reservation_reconciliation_replay_def s(2) reconciled_decision_def
        reconciliation_json_def Let_def assms(6) text_json_def)
  then show "reconcile_reservation sha db' tenant_id decision_id actor2 x notes2 key2 later
        = (Inl (HTTPException 409 ''Reservation is not active''), db')"
    using found d'(2) assms(4) by (simp add: reconcile_reservation_def Let_def not_less reject_def)
qed


lemma overdue_sweep:
  assumes "enf_inv db"
  shows "\<exists>r db'. reconcile_overdue_reservations sha db locked tenant_id actor_id age limit now = (Inr r, db')
    \<and> ov_decision_ids r = map ed_id (overdue_decisions db locked tenant_id (now - seconds (clamp 60 604800 age)) (clamp 1 1000 limit))
    \<and> ov_total_released_usd r = reserved_sum (overdue_decisions db locked tenant_id (now - seconds (clamp 60 604800 age)) (clamp 1 1000 limit))
    \<and> ov_released_count r = length (ov_decision_ids r)
    \<and> releases_all tenant_id (overdue_decisions db locked tenant_id (now - seconds (clamp 60 604800 age)) (clamp 1 1000 limit)) db db'
    \<and> (\<forall>i \<in> set (ov_decision_ids r). open_allocations db' tenant_id i = []) \<and> enf_inv db'"
proof -
  let ?ds = "overdue_decisions db locked tenant_id (now - seconds (clamp 60 604800 age)) (clamp 1 1000 limit)"
  let ?approvals = "filter (\<lambda>a. ar_decision_id a \<in> set (map ed_id ?ds)) (db_approvals db)"
  let ?st = "\<lparr>os_db = db, os_total_released = 0, os_decision_ids = []\<rparr>"
  obtain st where st: "release_overdue sha tenant_id actor_id (clamp 60 604800 age) ?approvals now ?ds ?st = Inr st"
    "enf_inv (os_db st)" "releases_all tenant_id ?ds db (os_db st)" "os_decision_ids st = map ed_id ?ds"
    "os_total_released st = reserved_sum ?ds"
    using release_overdue_ok [of ?st tenant_id ?ds sha actor_id "clamp 60 604800 age" ?approvals now]
      overdue_releasable [OF assms] assms by auto
  have closed: "open_allocations (os_db st) tenant_id i = []" if i: "i \<in> set (map ed_id ?ds)" for i
  proof -
    from i obtain d where d: "d \<in> set ?ds" "i = ed_id d" by auto
    with st(3) obtain d' where d': "d' \<in> set (db_decisions (os_db st))" "cleared d d'" by (auto simp: releases_all_def)
    have "ed_tenant_id d = tenant_id" using overdue_releasable [OF assms] d(1) by (simp add: releasable_def)
    with open_of_inactive [OF st(2) d'(1)] d' cleared_id [OF d'(2)] d(2) show ?thesis by (simp add: cleared_def)
  qed
  show ?thesis
  proof (cases "?ds = []")
    case True
    then show ?thesis using assms
      by (simp add: reconcile_overdue_reservations_def Let_def releases_all_def reserved_sum_def)
  next
    case False
    then have "map ed_id ?ds \<noteq> []" by simp
    with False st closed show ?thesis
      by (simp add: reconcile_overdue_reservations_def Let_def)
  qed
qed

text \<open>
  The overdue sweep always succeeds and releases exactly the oldest overdue, unlocked, active
  reservations of the tenant, up to the limit: each is left with nothing reserved, all of its credit
  is back in the grants and one ledger entry records it; no other decision changes. It reports their
  identifiers and the exact sum of what was released, and keeps the invariant.
\<close>

theorem overdue_sweep_exact:
  assumes "enf_inv db"
  shows "\<exists>r db'. reconcile_overdue_reservations sha db locked tenant_id actor_id age limit now = (Inr r, db')
    \<and> ov_decision_ids r = map ed_id (overdue_decisions db locked tenant_id (now - seconds (clamp 60 604800 age)) (clamp 1 1000 limit))
    \<and> ov_total_released_usd r = reserved_sum (overdue_decisions db locked tenant_id (now - seconds (clamp 60 604800 age)) (clamp 1 1000 limit))
    \<and> ov_released_count r = length (ov_decision_ids r)
    \<and> releases_all tenant_id (overdue_decisions db locked tenant_id (now - seconds (clamp 60 604800 age)) (clamp 1 1000 limit)) db db'
    \<and> (\<forall>i \<in> set (ov_decision_ids r). open_allocations db' tenant_id i = []) \<and> enf_inv db'"
  using assms by (rule overdue_sweep)

subsection \<open>Witnesses\<close>

lemma sample_review_found: "find_decision sample_review_db 7 9 = Some sample_review_decision"
  by (simp add: find_decision_def sample_review_db_def empty_db_def first_row_def sample_review_decision_def sample_decision_def)

lemma reconcile_exact_witness:
  "\<exists>r db'. reconcile_reservation sample_sha sample_review_db 7 9 4 5 None (Some ''rec-1'') 200 = (Inr r, db')
     \<and> rr_drift_usd r = -3 \<and> rr_status r = ''savings'' \<and> tenant_credit db' 7 = tenant_credit sample_review_db 7 + 3"
proof -
  have x: "0 \<le> quantize 4 5" "quantize 4 5 = 5" by simp_all
  have d: "ed_reserved_allocation_usd sample_review_decision = 0"
    by (simp add: sample_review_decision_def sample_decision_def)
  from reconcile_exact [OF sample_review_inv sample_review_found sample_review_fields(4) x(1),
      of sample_sha 4 None "Some ''rec-1''" 200]
  show ?thesis unfolding x(2) d sample_review_fields(5) by (auto simp: min_def max_def)
qed


lemma overdue_sweep_exact_witness:
  "\<exists>r db'. reconcile_overdue_reservations sample_sha sample_review_db (\<lambda>_. False) 7 1 3600 100 7200000000 = (Inr r, db')
     \<and> ov_decision_ids r = [9] \<and> ov_total_released_usd r = 8 \<and> open_allocations db' 7 9 = []"
proof -
  have ds: "overdue_decisions sample_review_db (\<lambda>_. False) 7 (7200000000 - seconds (clamp 60 604800 3600)) (clamp 1 1000 100)
      = [sample_review_decision]"
    by (simp add: overdue_decisions_def sample_review_db_def sample_review_decision_def sample_decision_def seconds_def)
  have d: "ed_reserved_allocation_usd sample_review_decision = 0" "ed_id sample_review_decision = 9"
    by (simp_all add: sample_review_decision_def sample_decision_def)
  from overdue_sweep_exact [OF sample_review_inv, of sample_sha "\<lambda>_. False" 7 1 3600 100 7200000000]
  show ?thesis unfolding ds by (auto simp: reserved_sum_def d sample_review_fields)
qed

end
