(* ===== verification/Enf_Actions.thy ===== *)
theory Enf_Actions
  imports Enf_Gate_Facts
begin

text \<open>
  Action executions: src/app/modules/enforcement/domain/actions.py (EnforcementActionOrchestrator)
  and actions_terminal_ops.py. A decision's action is queued, leased to a worker for a bounded time,
  and completed, failed, put back for a retry or cancelled.
\<close>

subsection \<open>Helpers\<close>

definition default_action_max_attempts :: int where
  "default_action_max_attempts = 3"

definition default_action_retry_backoff_seconds :: int where
  "default_action_retry_backoff_seconds = 60"

definition default_action_lease_ttl_seconds :: int where
  "default_action_lease_ttl_seconds = 300"

definition normalize_action_type :: "string \<Rightarrow> string" where
  "normalize_action_type value = lower (strip value)"

definition normalize_target_reference :: "string \<Rightarrow> string" where
  "normalize_target_reference value = strip value"

definition normalized_idempotency_key :: "string option \<Rightarrow> string option" where
  "normalized_idempotency_key value =
     (let key = (case value of None \<Rightarrow> '''' | Some k \<Rightarrow> strip k) in
      if key = '''' then None else Some (take 128 key))"

definition json_sha256 :: "(string \<Rightarrow> string) \<Rightarrow> dict \<Rightarrow> string" where
  "json_sha256 sha payload = sha (json_dumps (JObj payload))"

definition resolve_policy_execution_controls ::
  "(dict \<Rightarrow> policy_document option) \<Rightarrow> enf_db \<Rightarrow> uuid \<Rightarrow> int \<times> int \<times> int" where
  "resolve_policy_execution_controls vd db tenant_id =
     (let defaults = (default_action_max_attempts, default_action_retry_backoff_seconds, default_action_lease_ttl_seconds) in
      case first_row (\<lambda>p. ep_tenant_id p = tenant_id) (db_policies db) of
        None \<Rightarrow> defaults
      | Some p \<Rightarrow>
          (case vd (as_dict (ep_policy_document p)) of
             None \<Rightarrow> defaults
           | Some document \<Rightarrow>
               (clamp 1 10 (xm_action_max_attempts (pd_execution document)),
                clamp 1 86400 (xm_action_retry_backoff_seconds (pd_execution document)),
                clamp 30 3600 (xm_action_lease_ttl_seconds (pd_execution document)))))"

definition resolve_decision_and_approval ::
  "enf_db \<Rightarrow> uuid \<Rightarrow> uuid \<Rightarrow> (enforcement_decision \<times> approval_request option) res" where
  "resolve_decision_and_approval db tenant_id decision_id =
     (case first_row (\<lambda>d. ed_tenant_id d = tenant_id \<and> ed_id d = decision_id) (db_decisions db) of
        None \<Rightarrow> Inl (HTTPException 404 ''Decision not found'')
      | Some d \<Rightarrow> Inr (d, first_row (\<lambda>a. ar_tenant_id a = tenant_id \<and> ar_decision_id a = ed_id d) (db_approvals db)))"

definition assert_action_request_allowed ::
  "enforcement_decision \<Rightarrow> approval_request option \<Rightarrow> uuid option res" where
  "assert_action_request_allowed d approval =
     (if ed_decision d = DENY then Inl (HTTPException 409 ''Cannot enqueue action for denied decision'')
      else (let approved = (case approval of Some a \<Rightarrow> if ar_status a = APPROVED then Some (ar_id a) else None | None \<Rightarrow> None) in
        if ed_approval_required d \<and> approved = None then
          Inl (HTTPException 409 ''Cannot enqueue action before approval is approved for approval-required decision'')
        else Inr approved))"

subsection \<open>Creating\<close>

definition action_key :: "action_execution \<Rightarrow> uuid \<times> uuid \<times> string \<times> string" where
  "action_key a = (ax_tenant_id a, ax_decision_id a, ax_action_type a, ax_idempotency_key a)"

definition find_action :: "enf_db \<Rightarrow> uuid \<times> uuid \<times> string \<times> string \<Rightarrow> action_execution option" where
  "find_action db key = first_row (\<lambda>a. action_key a = key) (db_actions db)"

record action_request =
  aq_action_type :: string
  aq_target_reference :: string
  aq_request_payload :: dict
  aq_idempotency_key :: "string option"
  aq_max_attempts :: "int option"
  aq_retry_backoff_seconds :: "int option"
  aq_lease_ttl_seconds :: "int option"

definition or_policy :: "int option \<Rightarrow> int \<Rightarrow> int" where
  "or_policy v policy_value = (case v of Some n \<Rightarrow> n | None \<Rightarrow> policy_value)"

definition request_key :: "(string \<Rightarrow> string) \<Rightarrow> uuid \<Rightarrow> action_request \<Rightarrow> string" where
  "request_key sha decision_id q =
     (case normalized_idempotency_key (aq_idempotency_key q) of
        Some k \<Rightarrow> k
      | None \<Rightarrow> take 40 (sha (uuid_text decision_id @ '':'' @ normalize_action_type (aq_action_type q) @ '':''
          @ normalize_target_reference (aq_target_reference q) @ '':'' @ json_sha256 sha (aq_request_payload q))))"

definition new_action ::
  "(string \<Rightarrow> string) \<Rightarrow> uuid \<Rightarrow> uuid \<Rightarrow> uuid \<Rightarrow> uuid \<Rightarrow> uuid option \<Rightarrow> action_request \<Rightarrow> int \<times> int \<times> int \<Rightarrow> instant
    \<Rightarrow> action_execution" where
  "new_action sha i tenant_id decision_id actor_id approval_id q controls now =
     (case controls of (max_attempts, backoff, ttl) \<Rightarrow>
     \<lparr>ax_id = i, ax_tenant_id = tenant_id, ax_decision_id = decision_id, ax_approval_request_id = approval_id,
      ax_action_type = normalize_action_type (aq_action_type q),
      ax_target_reference = normalize_target_reference (aq_target_reference q),
      ax_idempotency_key = request_key sha decision_id q, ax_request_payload = aq_request_payload q,
      ax_request_payload_sha256 = json_sha256 sha (aq_request_payload q), ax_status = QUEUED, ax_attempt_count = 0,
      ax_max_attempts = max_attempts, ax_retry_backoff_seconds = backoff, ax_lease_ttl_seconds = ttl,
      ax_next_retry_at = now, ax_locked_by_worker_id = None, ax_lease_expires_at = None, ax_last_error_code = None,
      ax_last_error_message = None, ax_result_payload = None, ax_result_payload_sha256 = None,
      ax_created_by_user_id = Some actor_id, ax_started_at = None, ax_completed_at = None, ax_created_at = now\<rparr>)"

definition check_action_texts :: "action_request \<Rightarrow> unit res" where
  "check_action_texts q =
     (let t = normalize_action_type (aq_action_type q); r = normalize_target_reference (aq_target_reference q) in
      if t = '''' then Inl (HTTPException 422 ''action_type is required'')
      else if 64 < length t then Inl (HTTPException 422 ''action_type must be <= 64 characters'')
      else if r = '''' then Inl (HTTPException 422 ''target_reference is required'')
      else if 512 < length r then Inl (HTTPException 422 ''target_reference must be <= 512 characters'')
      else Inr ())"

definition effective_controls ::
  "(dict \<Rightarrow> policy_document option) \<Rightarrow> enf_db \<Rightarrow> uuid \<Rightarrow> action_request \<Rightarrow> (int \<times> int \<times> int) res" where
  "effective_controls vd db tenant_id q =
     (case resolve_policy_execution_controls vd db tenant_id of (policy_max, policy_backoff, policy_ttl) \<Rightarrow>
       (let m = or_policy (aq_max_attempts q) policy_max; b = or_policy (aq_retry_backoff_seconds q) policy_backoff;
            l = or_policy (aq_lease_ttl_seconds q) policy_ttl in
        if m < 1 \<or> 10 < m then Inl (HTTPException 422 ''max_attempts must be between 1 and 10'')
        else if b < 1 \<or> 86400 < b then Inl (HTTPException 422 ''retry_backoff_seconds must be between 1 and 86400'')
        else if l < 30 \<or> 3600 < l then Inl (HTTPException 422 ''lease_ttl_seconds must be between 30 and 3600'')
        else Inr (m, b, l)))"

text \<open>
  The commit of the new row. The unique constraint on (tenant, decision, action type, key) refuses it
  when a concurrent request committed the same key first; that row is then returned.
\<close>

definition commit_action :: "enf_db \<Rightarrow> action_execution \<Rightarrow> action_execution \<times> enf_db" where
  "commit_action db action =
     (case find_action db (action_key action) of
        Some deduped \<Rightarrow> (deduped, db)
      | None \<Rightarrow> (action, db\<lparr>db_actions := db_actions db @ [action], db_next_id := Suc (db_next_id db)\<rparr>))"

definition create_action_request ::
  "(dict \<Rightarrow> policy_document option) \<Rightarrow> (string \<Rightarrow> string) \<Rightarrow> enf_db \<Rightarrow> uuid \<Rightarrow> uuid \<Rightarrow> uuid \<Rightarrow> action_request \<Rightarrow> instant
    \<Rightarrow> action_execution outcome" where
  "create_action_request vd sha db tenant_id actor_id decision_id q now =
     (case bind_res (check_action_texts q) (\<lambda>_. bind_res (resolve_decision_and_approval db tenant_id decision_id) (\<lambda>(d, approval).
        bind_res (assert_action_request_allowed d approval) (\<lambda>approval_id.
          bind_res (effective_controls vd db tenant_id q) (\<lambda>controls. Inr (d, approval_id, controls))))) of
        Inl e \<Rightarrow> (Inl e, db)
      | Inr (d, approval_id, controls) \<Rightarrow>
          (let action = new_action sha (db_next_id db) tenant_id (ed_id d) actor_id approval_id q controls now in
           case find_action db (action_key action) of
             Some row \<Rightarrow> (Inr row, db)
           | None \<Rightarrow> map_prod Inr id (commit_action db action)))"

subsection \<open>Reading\<close>

definition get_action :: "enf_db \<Rightarrow> uuid \<Rightarrow> uuid \<Rightarrow> action_execution res" where
  "get_action db tenant_id action_id =
     (case first_row (\<lambda>a. ax_tenant_id a = tenant_id \<and> ax_id a = action_id) (db_actions db) of
        None \<Rightarrow> Inl (HTTPException 404 ''Action execution not found'') | Some a \<Rightarrow> Inr a)"

definition list_actions :: "enf_db \<Rightarrow> uuid \<Rightarrow> action_status option \<Rightarrow> uuid option \<Rightarrow> int \<Rightarrow> action_execution list" where
  "list_actions db tenant_id status decision_id limit =
     take (nat (clamp 1 500 limit)) (rev (sort_key ax_created_at (filter (\<lambda>a. ax_tenant_id a = tenant_id
       \<and> opt_all (\<lambda>s. ax_status a = s) status \<and> opt_all (\<lambda>i. ax_decision_id a = i) decision_id) (db_actions db))))"

subsection \<open>Leasing\<close>

definition lease_free :: "instant \<Rightarrow> action_execution \<Rightarrow> bool" where
  "lease_free as_of a \<longleftrightarrow> opt_all (\<lambda>t. t \<le> as_of) (ax_lease_expires_at a)"

definition leasable :: "uuid \<Rightarrow> string option \<Rightarrow> instant \<Rightarrow> action_execution \<Rightarrow> bool" where
  "leasable tenant_id action_type as_of a \<longleftrightarrow> ax_tenant_id a = tenant_id \<and> ax_status a = QUEUED
     \<and> ax_next_retry_at a \<le> as_of \<and> ax_attempt_count a < ax_max_attempts a \<and> lease_free as_of a
     \<and> opt_all (\<lambda>t. ax_action_type a = normalize_action_type t) action_type"

definition lease_candidate :: "enf_db \<Rightarrow> uuid \<Rightarrow> string option \<Rightarrow> instant \<Rightarrow> action_execution option" where
  "lease_candidate db tenant_id action_type as_of =
     first_row (\<lambda>_. True) (sort_key (\<lambda>a. (ax_next_retry_at a, ax_created_at a))
       (filter (leasable tenant_id action_type as_of) (db_actions db)))"

definition claims_candidate :: "uuid \<Rightarrow> action_execution \<Rightarrow> instant \<Rightarrow> action_execution \<Rightarrow> bool" where
  "claims_candidate tenant_id candidate as_of a \<longleftrightarrow> ax_id a = ax_id candidate \<and> ax_tenant_id a = tenant_id
     \<and> ax_status a = QUEUED \<and> ax_attempt_count a = ax_attempt_count candidate \<and> lease_free as_of a"

definition leased_by :: "action_execution \<Rightarrow> uuid \<Rightarrow> instant \<Rightarrow> action_execution \<Rightarrow> action_execution" where
  "leased_by candidate worker_id as_of a =
     a\<lparr>ax_status := RUNNING, ax_attempt_count := ax_attempt_count candidate + 1,
       ax_locked_by_worker_id := Some worker_id,
       ax_lease_expires_at := Some (as_of + seconds (ax_lease_ttl_seconds candidate)),
       ax_started_at := Some (case ax_started_at candidate of Some t \<Rightarrow> t | None \<Rightarrow> as_of)\<rparr>"

text \<open>
  The loop of at most five attempts. \<open>others n\<close> is what other transactions commit between the
  selection of the candidate and the conditional update of attempt \<open>n\<close>.
\<close>

fun lease_loop ::
  "nat \<Rightarrow> (nat \<Rightarrow> enf_db \<Rightarrow> enf_db) \<Rightarrow> enf_db \<Rightarrow> uuid \<Rightarrow> uuid \<Rightarrow> string option \<Rightarrow> instant
    \<Rightarrow> action_execution option outcome" where
  "lease_loop 0 others db tenant_id worker_id action_type as_of = (Inr None, db)"
| "lease_loop (Suc n) others db tenant_id worker_id action_type as_of =
     (case lease_candidate db tenant_id action_type as_of of
        None \<Rightarrow> (Inr None, db)
      | Some candidate \<Rightarrow>
          (let db1 = others n db in
           if count_where (claims_candidate tenant_id candidate as_of) (db_actions db1) \<le> 0
           then lease_loop n others db1 tenant_id worker_id action_type as_of
           else (let db2 = db1\<lparr>db_actions := update_where (claims_candidate tenant_id candidate as_of)
                   (leased_by candidate worker_id as_of) (db_actions db1)\<rparr> in
             (bind_res (get_action db2 tenant_id (ax_id candidate)) (\<lambda>a. Inr (Some a)), db2))))"

definition lease_next_action ::
  "(nat \<Rightarrow> enf_db \<Rightarrow> enf_db) \<Rightarrow> enf_db \<Rightarrow> uuid \<Rightarrow> uuid \<Rightarrow> string option \<Rightarrow> instant \<Rightarrow> action_execution option outcome" where
  "lease_next_action others db tenant_id worker_id action_type as_of =
     lease_loop 5 others db tenant_id worker_id action_type as_of"

subsection \<open>Finishing\<close>

definition write_action :: "action_execution \<Rightarrow> enf_db \<Rightarrow> enf_db" where
  "write_action a db = db\<lparr>db_actions := update_where (\<lambda>r. ax_id r = ax_id a) (\<lambda>_. a) (db_actions db)\<rparr>"

definition check_running :: "action_execution \<Rightarrow> uuid \<Rightarrow> string \<Rightarrow> unit res" where
  "check_running a worker_id verb =
     (if ax_status a \<noteq> RUNNING then Inl (HTTPException 409 (''Only running actions can be '' @ verb))
      else if ax_locked_by_worker_id a \<noteq> None \<and> ax_locked_by_worker_id a \<noteq> Some worker_id
      then Inl (HTTPException 409 ''Action lease is owned by another worker'')
      else Inr ())"

definition completed_action :: "(string \<Rightarrow> string) \<Rightarrow> action_execution \<Rightarrow> dict \<Rightarrow> instant \<Rightarrow> action_execution" where
  "completed_action sha a result_payload now =
     a\<lparr>ax_status := SUCCEEDED, ax_result_payload := Some result_payload,
       ax_result_payload_sha256 := Some (json_sha256 sha result_payload), ax_last_error_code := None,
       ax_last_error_message := None, ax_locked_by_worker_id := None, ax_lease_expires_at := None,
       ax_completed_at := Some now, ax_next_retry_at := now\<rparr>"

definition complete_action ::
  "(string \<Rightarrow> string) \<Rightarrow> enf_db \<Rightarrow> uuid \<Rightarrow> uuid \<Rightarrow> uuid \<Rightarrow> dict \<Rightarrow> instant \<Rightarrow> action_execution outcome" where
  "complete_action sha db tenant_id action_id worker_id result_payload now =
     (case bind_res (get_action db tenant_id action_id) (\<lambda>a. bind_res (check_running a worker_id ''completed'') (\<lambda>_. Inr a)) of
        Inl e \<Rightarrow> (Inl e, db)
      | Inr a \<Rightarrow> (let a' = completed_action sha a result_payload now in (Inr a', write_action a' db)))"

definition check_error_texts :: "string \<Rightarrow> string \<Rightarrow> unit res" where
  "check_error_texts code message =
     (if code = '''' then Inl (HTTPException 422 ''error_code is required'')
      else if 64 < length code then Inl (HTTPException 422 ''error_code must be <= 64 characters'')
      else if message = '''' then Inl (HTTPException 422 ''error_message is required'')
      else if 1000 < length message then Inl (HTTPException 422 ''error_message must be <= 1000 characters'')
      else Inr ())"

definition failed_action ::
  "(string \<Rightarrow> string) \<Rightarrow> action_execution \<Rightarrow> string \<Rightarrow> string \<Rightarrow> bool \<Rightarrow> dict \<Rightarrow> instant \<Rightarrow> action_execution" where
  "failed_action sha a code message retryable result_payload now =
     (let payload = (if result_payload \<noteq> [] then result_payload else
            [(''error_code'', JStr code), (''error_message'', JStr message), (''retryable'', JBool retryable)]);
          b = a\<lparr>ax_last_error_code := Some code, ax_last_error_message := Some message, ax_result_payload := Some payload,
            ax_result_payload_sha256 := Some (json_sha256 sha payload), ax_locked_by_worker_id := None,
            ax_lease_expires_at := None\<rparr> in
      if retryable \<and> ax_attempt_count a < ax_max_attempts a
      then b\<lparr>ax_status := QUEUED, ax_next_retry_at := now + seconds (ax_retry_backoff_seconds a), ax_completed_at := None\<rparr>
      else b\<lparr>ax_status := FAILED, ax_next_retry_at := now, ax_completed_at := Some now\<rparr>)"

definition fail_action ::
  "(string \<Rightarrow> string) \<Rightarrow> enf_db \<Rightarrow> uuid \<Rightarrow> uuid \<Rightarrow> uuid \<Rightarrow> string \<Rightarrow> string \<Rightarrow> bool \<Rightarrow> dict \<Rightarrow> instant
    \<Rightarrow> action_execution outcome" where
  "fail_action sha db tenant_id action_id worker_id error_code error_message retryable result_payload now =
     (let code = lower (strip error_code); message = strip error_message in
      case bind_res (get_action db tenant_id action_id) (\<lambda>a. bind_res (check_running a worker_id ''failed'') (\<lambda>_.
             bind_res (check_error_texts code message) (\<lambda>_. Inr a))) of
        Inl e \<Rightarrow> (Inl e, db)
      | Inr a \<Rightarrow> (let a' = failed_action sha a code message retryable result_payload now in (Inr a', write_action a' db)))"

definition terminal_statuses :: "action_status set" where
  "terminal_statuses = {SUCCEEDED, FAILED, ACTION_CANCELLED}"

definition cancelled_action ::
  "(string \<Rightarrow> string) \<Rightarrow> action_execution \<Rightarrow> uuid \<Rightarrow> string option \<Rightarrow> instant \<Rightarrow> action_execution" where
  "cancelled_action sha a actor_id reason now =
     (let b = a\<lparr>ax_status := ACTION_CANCELLED, ax_locked_by_worker_id := None, ax_lease_expires_at := None,
            ax_completed_at := Some now, ax_next_retry_at := now\<rparr> in
      case reason of
        None \<Rightarrow> b
      | Some r \<Rightarrow>
          (let message = (let m = take 1000 (strip r) in if m = '''' then ''cancelled'' else m);
               payload = [(''cancelled_by'', JStr (uuid_text actor_id)), (''reason'', JStr message)] in
           b\<lparr>ax_last_error_code := Some ''cancelled'', ax_last_error_message := Some message,
             ax_result_payload := Some payload, ax_result_payload_sha256 := Some (json_sha256 sha payload)\<rparr>))"

definition cancel_action ::
  "(string \<Rightarrow> string) \<Rightarrow> enf_db \<Rightarrow> uuid \<Rightarrow> uuid \<Rightarrow> uuid \<Rightarrow> string option \<Rightarrow> instant \<Rightarrow> action_execution outcome" where
  "cancel_action sha db tenant_id action_id actor_id reason now =
     (case get_action db tenant_id action_id of
        Inl e \<Rightarrow> (Inl e, db)
      | Inr a \<Rightarrow>
          if ax_status a \<in> terminal_statuses then (Inl (HTTPException 409 ''Terminal action cannot be cancelled''), db)
          else (let a' = cancelled_action sha a actor_id reason now in (Inr a', write_action a' db)))"

end
