(* ===== verification/Base_Machine.thy ===== *)
theory Base_Machine
  imports Main
begin

text \<open>
  Step relations with an invariant: what single steps preserve holds along every run. A machine may
  also move along a preorder, which then relates the ends of every run, or go down in rank, which
  then bounds the length of every run.
\<close>

locale machine =
  fixes step :: "'s \<Rightarrow> 's \<Rightarrow> bool" and inv :: "'s \<Rightarrow> bool"
  assumes step_inv: "inv s \<Longrightarrow> step s t \<Longrightarrow> inv t"
begin

lemma run_inv: "step\<^sup>*\<^sup>* s t \<Longrightarrow> inv s \<Longrightarrow> inv t"
  by (induction rule: rtranclp_induct) (auto intro: step_inv)

lemma steps_inv: "(step ^^ n) s t \<Longrightarrow> inv s \<Longrightarrow> inv t"
  using run_inv relpowp_imp_rtranclp by metis

end

locale monotone_machine = machine step inv
  for step :: "'s \<Rightarrow> 's \<Rightarrow> bool" and inv :: "'s \<Rightarrow> bool" +
  fixes below :: "'s \<Rightarrow> 's \<Rightarrow> bool"
  assumes below_refl: "below s s"
    and below_trans: "below s t \<Longrightarrow> below t u \<Longrightarrow> below s u"
    and step_below: "inv s \<Longrightarrow> step s t \<Longrightarrow> below s t"
begin

lemma run_below: "step\<^sup>*\<^sup>* s t \<Longrightarrow> inv s \<Longrightarrow> below s t"
proof (induction rule: rtranclp_induct)
  case base
  show ?case by (rule below_refl)
next
  case (step t u)
  with run_inv [OF step.hyps(1)] show ?case by (auto intro: below_trans step_below)
qed

end

locale ranked_machine = machine step inv
  for step :: "'s \<Rightarrow> 's \<Rightarrow> bool" and inv :: "'s \<Rightarrow> bool" +
  fixes rank :: "'s \<Rightarrow> nat"
  assumes step_rank: "inv s \<Longrightarrow> step s t \<Longrightarrow> rank t < rank s"
begin

lemma steps_rank: "(step ^^ n) s t \<Longrightarrow> inv s \<Longrightarrow> n + rank t \<le> rank s"
proof (induction n arbitrary: t)
  case (Suc n)
  then obtain u where "(step ^^ n) s u" "step u t" by auto
  with Suc.IH [of u] step_rank [of u t] steps_inv [of n s u] Suc.prems(2) show ?case by simp
qed simp

end

end
