(* ===== verification/Enf_Action_Machine.thy ===== *)
theory Enf_Action_Machine
  imports Enf_Actions Base_Machine
begin

text \<open>
  The state machine of an action execution, as an inductive step relation on rows, its invariant and
  its termination; and the lemmas that the operations of the orchestrator take exactly such steps.
\<close>

subsection \<open>Steps of one action\<close>

definition same_action :: "action_execution \<Rightarrow> action_execution \<Rightarrow> bool" where
  "same_action a b \<longleftrightarrow> ax_id b = ax_id a \<and> action_key b = action_key a
     \<and> ax_approval_request_id b = ax_approval_request_id a \<and> ax_target_reference b = ax_target_reference a
     \<and> ax_request_payload b = ax_request_payload a \<and> ax_request_payload_sha256 b = ax_request_payload_sha256 a
     \<and> ax_max_attempts b = ax_max_attempts a \<and> ax_retry_backoff_seconds b = ax_retry_backoff_seconds a
     \<and> ax_lease_ttl_seconds b = ax_lease_ttl_seconds a"

definition unlocked :: "action_execution \<Rightarrow> bool" where
  "unlocked a \<longleftrightarrow> ax_locked_by_worker_id a = None \<and> ax_lease_expires_at a = None"

inductive action_step :: "action_execution \<Rightarrow> action_execution \<Rightarrow> bool" where
  lease: "ax_status a = QUEUED \<Longrightarrow> ax_attempt_count a < ax_max_attempts a \<Longrightarrow> same_action a b \<Longrightarrow> ax_status b = RUNNING
    \<Longrightarrow> ax_attempt_count b = ax_attempt_count a + 1 \<Longrightarrow> ax_locked_by_worker_id b = Some worker
    \<Longrightarrow> ax_lease_expires_at b = Some expiry \<Longrightarrow> action_step a b"
| complete: "ax_status a = RUNNING \<Longrightarrow> same_action a b \<Longrightarrow> ax_status b = SUCCEEDED
    \<Longrightarrow> ax_attempt_count b = ax_attempt_count a \<Longrightarrow> unlocked b \<Longrightarrow> action_step a b"
| retry: "ax_status a = RUNNING \<Longrightarrow> ax_attempt_count a < ax_max_attempts a \<Longrightarrow> same_action a b \<Longrightarrow> ax_status b = QUEUED
    \<Longrightarrow> ax_attempt_count b = ax_attempt_count a \<Longrightarrow> unlocked b \<Longrightarrow> action_step a b"
| fail: "ax_status a = RUNNING \<Longrightarrow> same_action a b \<Longrightarrow> ax_status b = FAILED
    \<Longrightarrow> ax_attempt_count b = ax_attempt_count a \<Longrightarrow> unlocked b \<Longrightarrow> action_step a b"
| cancel: "ax_status a \<notin> terminal_statuses \<Longrightarrow> same_action a b \<Longrightarrow> ax_status b = ACTION_CANCELLED
    \<Longrightarrow> ax_attempt_count b = ax_attempt_count a \<Longrightarrow> unlocked b \<Longrightarrow> action_step a b"

inductive_cases action_stepE: "action_step a b"

definition action_ok :: "action_execution \<Rightarrow> bool" where
  "action_ok a \<longleftrightarrow> 0 \<le> ax_attempt_count a \<and> ax_attempt_count a \<le> ax_max_attempts a \<and> ax_max_attempts a \<le> 10
     \<and> 1 \<le> ax_retry_backoff_seconds a \<and> ax_retry_backoff_seconds a \<le> 86400
     \<and> 30 \<le> ax_lease_ttl_seconds a \<and> ax_lease_ttl_seconds a \<le> 3600
     \<and> (ax_status a = QUEUED \<longrightarrow> ax_attempt_count a < ax_max_attempts a)
     \<and> (if ax_status a = RUNNING then 1 \<le> ax_attempt_count a \<and> ax_locked_by_worker_id a \<noteq> None \<and> ax_lease_expires_at a \<noteq> None
        else unlocked a)"

lemma same_action_simps: "same_action a b \<Longrightarrow> ax_id b = ax_id a" "same_action a b \<Longrightarrow> action_key b = action_key a"
  "same_action a b \<Longrightarrow> ax_max_attempts b = ax_max_attempts a" "same_action a b \<Longrightarrow> ax_lease_ttl_seconds b = ax_lease_ttl_seconds a"
  "same_action a b \<Longrightarrow> ax_retry_backoff_seconds b = ax_retry_backoff_seconds a" "same_action a b \<Longrightarrow> ax_tenant_id b = ax_tenant_id a"
  "same_action a b \<Longrightarrow> ax_decision_id b = ax_decision_id a"
  by (simp_all add: same_action_def action_key_def)

lemma same_action_refl: "same_action a a"
  by (simp add: same_action_def)

lemma same_action_trans: "same_action a b \<Longrightarrow> same_action b c \<Longrightarrow> same_action a c"
  by (simp add: same_action_def)

lemma action_step_same: "action_step a b \<Longrightarrow> same_action a b"
  by (auto elim: action_step.cases)

lemma action_step_ok: "action_step a b \<Longrightarrow> action_ok a \<Longrightarrow> action_ok b"
  by (induction rule: action_step.induct) (auto simp: action_ok_def same_action_simps)

lemma terminal_final: "ax_status a \<in> terminal_statuses \<Longrightarrow> \<not> action_step a b"
  by (auto simp: terminal_statuses_def elim: action_step.cases)

subsection \<open>Termination\<close>

definition action_rank :: "action_execution \<Rightarrow> nat" where
  "action_rank a = (let left = nat (ax_max_attempts a - ax_attempt_count a) in
     case ax_status a of QUEUED \<Rightarrow> 2 * left + 1 | RUNNING \<Rightarrow> 2 * left + 2 | _ \<Rightarrow> 0)"

lemma action_step_rank: "action_step a b \<Longrightarrow> action_rank b < action_rank a"
  by (induction rule: action_step.induct)
    (auto simp: action_rank_def same_action_simps terminal_statuses_def Let_def split: action_status.splits)

interpretation life: ranked_machine action_step action_ok action_rank
  by unfold_locales (auto intro: action_step_ok action_step_rank)

subsection \<open>Steps of the table\<close>

definition fresh_action :: "action_execution \<Rightarrow> bool" where
  "fresh_action a \<longleftrightarrow> action_ok a \<and> ax_status a = QUEUED \<and> ax_attempt_count a = 0"

inductive actions_step :: "enf_db \<Rightarrow> enf_db \<Rightarrow> bool" where
  update: "db_actions db = xs @ a # ys \<Longrightarrow> action_step a b \<Longrightarrow> actions_step db (db\<lparr>db_actions := xs @ b # ys\<rparr>)"
| create: "fresh_action a \<Longrightarrow> ax_id a = db_next_id db \<Longrightarrow> action_key a \<notin> action_key ` set (db_actions db)
    \<Longrightarrow> actions_step db (db\<lparr>db_actions := db_actions db @ [a], db_next_id := Suc (db_next_id db)\<rparr>)"

abbreviation actions_steps :: "enf_db \<Rightarrow> enf_db \<Rightarrow> bool" where
  "actions_steps \<equiv> actions_step\<^sup>*\<^sup>*"

definition act_inv :: "enf_db \<Rightarrow> bool" where
  "act_inv db \<longleftrightarrow> distinct (map ax_id (db_actions db)) \<and> distinct (map action_key (db_actions db))
     \<and> (\<forall>a \<in> set (db_actions db). action_ok a \<and> ax_id a < db_next_id db)"

lemma act_inv_step: "actions_step db db' \<Longrightarrow> act_inv db \<Longrightarrow> act_inv db'"
proof (induction rule: actions_step.induct)
  case (update db xs a ys b)
  note s = action_step_same [OF update(2)]
  from update(1,3) have "action_ok a" by (simp add: act_inv_def)
  with action_step_ok [OF update(2)] update(1,3) same_action_simps(1,2) [OF s] show ?case
    by (auto simp: act_inv_def)
next
  case (create a db)
  then have "ax_id a \<notin> ax_id ` set (db_actions db)" by (fastforce simp: act_inv_def)
  with create show ?case by (fastforce simp: act_inv_def fresh_action_def)
qed

interpretation table: machine actions_step act_inv
  by unfold_locales (rule act_inv_step)

text \<open>The tables around the actions are not touched; rows keep their identity.\<close>

lemma actions_steps_frame:
  assumes "actions_steps db db'"
  shows "db_decisions db' = db_decisions db" "db_approvals db' = db_approvals db" "db_grants db' = db_grants db"
    "db_allocations db' = db_allocations db" "db_ledger db' = db_ledger db" "db_policies db' = db_policies db"
    "db_budgets db' = db_budgets db" "db_next_id db \<le> db_next_id db'"
proof -
  have "db_decisions db' = db_decisions db \<and> db_approvals db' = db_approvals db \<and> db_grants db' = db_grants db
    \<and> db_allocations db' = db_allocations db \<and> db_ledger db' = db_ledger db \<and> db_policies db' = db_policies db
    \<and> db_budgets db' = db_budgets db \<and> db_next_id db \<le> db_next_id db'"
    using assms by (induction rule: rtranclp_induct) (auto elim!: actions_step.cases)
  then show "db_decisions db' = db_decisions db" "db_approvals db' = db_approvals db" "db_grants db' = db_grants db"
    "db_allocations db' = db_allocations db" "db_ledger db' = db_ledger db" "db_policies db' = db_policies db"
    "db_budgets db' = db_budgets db" "db_next_id db \<le> db_next_id db'" by simp_all
qed

lemma actions_step_row:
  assumes "actions_step db db'" "a \<in> set (db_actions db)"
  shows "\<exists>b \<in> set (db_actions db'). b = a \<or> action_step a b"
  using assms by (cases rule: actions_step.cases) auto

lemma actions_steps_row:
  assumes "actions_steps db db'" "a \<in> set (db_actions db)"
  shows "\<exists>b \<in> set (db_actions db'). action_step\<^sup>*\<^sup>* a b"
  using assms
proof (induction rule: rtranclp_induct)
  case (step db1 db2)
  then obtain b where "b \<in> set (db_actions db1)" "action_step\<^sup>*\<^sup>* a b" by blast
  with actions_step_row [OF step.hyps(2)] show ?case by (metis rtranclp.rtrancl_into_rtrancl)
qed blast

lemma action_steps_same: "action_step\<^sup>*\<^sup>* a b \<Longrightarrow> same_action a b"
  by (induction rule: rtranclp_induct) (auto intro: same_action_refl same_action_trans action_step_same)

subsection \<open>The operations take such steps\<close>

lemma update_where_split:
  assumes "distinct (map k rows)" "r \<in> set rows" "p r" "\<And>x. x \<in> set rows \<Longrightarrow> p x \<Longrightarrow> k x = k r"
  obtains xs ys where "rows = xs @ r # ys" "update_where p f rows = xs @ f r # ys"
proof -
  from assms(2) obtain xs ys where rows: "rows = xs @ r # ys" by (auto simp: in_set_conv_decomp)
  have "k r \<notin> k ` (set xs \<union> set ys)" using assms(1) by (auto simp: rows)
  then have "k x \<noteq> k r" if "x \<in> set xs \<union> set ys" for x
    using that by (metis image_eqI)
  then have "\<not> p x" if "x \<in> set xs \<union> set ys" for x
    using that assms(4) [of x] by (auto simp: rows)
  then have "update_where p f xs = xs" "update_where p f ys = ys" by (auto intro!: update_where_none)
  with rows assms(3) show ?thesis by (intro that [OF rows]) (simp add: update_where_def)
qed

lemma get_actionD:
  "get_action db tenant_id action_id = Inr a \<Longrightarrow> a \<in> set (db_actions db) \<and> ax_id a = action_id \<and> ax_tenant_id a = tenant_id"
  by (auto simp: get_action_def split: option.splits dest: first_row_SomeD)

lemma get_action_row:
  assumes "act_inv db" "a \<in> set (db_actions db)" "ax_tenant_id a = tenant_id"
  shows "get_action db tenant_id (ax_id a) = Inr a"
proof -
  have "first_row (\<lambda>x. ax_tenant_id x = tenant_id \<and> ax_id x = ax_id a) (db_actions db) = Some a"
    using assms by (intro first_row_the) (auto simp: act_inv_def distinct_map inj_on_def)
  then show ?thesis by (simp add: get_action_def)
qed

lemma write_action_step:
  assumes "act_inv db" "a \<in> set (db_actions db)" "action_step a b"
  shows "actions_step db (write_action b db)"
proof -
  have "ax_id b = ax_id a" by (rule same_action_simps(1) [OF action_step_same [OF assms(3)]])
  moreover obtain xs ys where "db_actions db = xs @ a # ys"
    "update_where (\<lambda>r. ax_id r = ax_id a) (\<lambda>_. b) (db_actions db) = xs @ b # ys"
    by (rule update_where_split [of ax_id "db_actions db" a "\<lambda>r. ax_id r = ax_id a" "\<lambda>_. b"])
      (use assms(1,2) in \<open>auto simp: act_inv_def\<close>)
  ultimately show ?thesis using actions_step.update [OF _ assms(3)] by (simp add: write_action_def)
qed

lemma check_running_Inr:
  "check_running a w verb = Inr u \<longleftrightarrow> ax_status a = RUNNING \<and> (ax_locked_by_worker_id a = None \<or> ax_locked_by_worker_id a = Some w)"
  by (auto simp: check_running_def)

lemma complete_step:
  assumes "act_inv db" "complete_action sha db tenant_id action_id worker_id payload now = (out, db')"
  shows "db' = db \<or> actions_step db db'"
  using assms
  by (auto simp: complete_action_def check_running_Inr completed_action_def same_action_def action_key_def unlocked_def Let_def
      split: sum.splits dest!: get_actionD intro!: write_action_step action_step.complete)

lemma fail_step:
  assumes "act_inv db" "fail_action sha db tenant_id action_id worker_id code message retryable payload now = (out, db')"
  shows "db' = db \<or> actions_step db db'"
proof (cases out)
  case (Inl e)
  with assms(2) show ?thesis by (auto simp: fail_action_def Let_def split: sum.splits)
next
  case (Inr b)
  with assms(2) obtain a where a: "a \<in> set (db_actions db)" "ax_status a = RUNNING"
    "b = failed_action sha a (lower (strip code)) (strip message) retryable payload now" "db' = write_action b db"
    by (auto simp: fail_action_def Let_def check_running_Inr split: sum.splits dest!: get_actionD)
  have "action_step a b"
  proof (cases "retryable \<and> ax_attempt_count a < ax_max_attempts a")
    case True
    with a(2) show ?thesis
      by (intro action_step.retry) (auto simp: a(3) failed_action_def same_action_def action_key_def unlocked_def Let_def)
  next
    case False
    with a(2) show ?thesis
      by (intro action_step.fail) (auto simp: a(3) failed_action_def same_action_def action_key_def unlocked_def Let_def)
  qed
  with write_action_step [OF assms(1) a(1)] a(4) show ?thesis by simp
qed

lemma cancel_step:
  assumes "act_inv db" "cancel_action sha db tenant_id action_id actor_id reason now = (out, db')"
  shows "db' = db \<or> actions_step db db'"
  using assms
  by (auto simp: cancel_action_def cancelled_action_def same_action_def action_key_def unlocked_def Let_def
      split: sum.splits if_splits option.splits dest!: get_actionD intro!: write_action_step action_step.cancel)

subsection \<open>Creating\<close>

lemma effective_controls_bounds:
  assumes "effective_controls vd db tenant_id q = Inr (m, b, l)"
  shows "1 \<le> m" "m \<le> 10" "1 \<le> b" "b \<le> 86400" "30 \<le> l" "l \<le> 3600"
  using assms by (auto simp: effective_controls_def Let_def split: prod.splits if_splits)

lemma new_action_fresh:
  assumes "effective_controls vd db tenant_id q = Inr controls"
  shows "fresh_action (new_action sha i t d u x q controls now)"
proof (cases controls)
  case (fields m b l)
  with effective_controls_bounds [of vd db tenant_id q m b l] assms show ?thesis
    by (simp add: fresh_action_def action_ok_def unlocked_def new_action_def)
qed

lemma find_action_None: "find_action db key = None \<longleftrightarrow> key \<notin> action_key ` set (db_actions db)"
  by (auto simp: find_action_def first_row_None)

lemma create_action_cases:
  assumes "create_action_request vd sha db tenant_id actor_id decision_id q now = (out, db')"
  obtains (refused) e where "out = Inl e" "db' = db"
    | (allowed) d approval approval_id controls action where
      "check_action_texts q = Inr ()" "resolve_decision_and_approval db tenant_id decision_id = Inr (d, approval)"
      "assert_action_request_allowed d approval = Inr approval_id" "effective_controls vd db tenant_id q = Inr controls"
      "action = new_action sha (db_next_id db) tenant_id (ed_id d) actor_id approval_id q controls now"
      "(out, db') = map_prod Inr id (commit_action db action)"
proof (cases "bind_res (check_action_texts q) (\<lambda>_. bind_res (resolve_decision_and_approval db tenant_id decision_id) (\<lambda>(d, approval).
        bind_res (assert_action_request_allowed d approval) (\<lambda>approval_id.
          bind_res (effective_controls vd db tenant_id q) (\<lambda>controls. Inr (d, approval_id, controls)))))")
  case (Inl e)
  with assms refused [of e] show ?thesis by (simp add: create_action_request_def)
next
  case (Inr x)
  then obtain d approval approval_id controls where x: "check_action_texts q = Inr ()"
    "resolve_decision_and_approval db tenant_id decision_id = Inr (d, approval)"
    "assert_action_request_allowed d approval = Inr approval_id" "effective_controls vd db tenant_id q = Inr controls"
    "x = (d, approval_id, controls)" by auto
  let ?a = "new_action sha (db_next_id db) tenant_id (ed_id d) actor_id approval_id q controls now"
  have "(out, db') = map_prod Inr id (commit_action db ?a)"
    using assms Inr x(5) by (cases "find_action db (action_key ?a)") (simp_all add: create_action_request_def Let_def commit_action_def)
  with allowed [OF x(1-4) refl] show ?thesis by simp
qed

lemma commit_action_step:
  assumes "fresh_action a" "ax_id a = db_next_id db"
  shows "snd (commit_action db a) = db \<or> actions_step db (snd (commit_action db a))"
  using assms actions_step.create [OF assms]
  by (auto simp: commit_action_def find_action_None split: option.splits)

lemma create_action_step:
  assumes "create_action_request vd sha db tenant_id actor_id decision_id q now = (out, db')"
  shows "db' = db \<or> actions_step db db'"
  using assms
proof (cases rule: create_action_cases)
  case (allowed d approval approval_id controls action)
  have "ax_id action = db_next_id db" by (simp add: allowed(5) new_action_def split: prod.split)
  with commit_action_step [OF new_action_fresh [OF allowed(4)], of sha "db_next_id db" tenant_id "ed_id d" actor_id approval_id now db]
    allowed(5,6) show ?thesis by (auto simp: map_prod_def split: prod.splits)
qed simp

subsection \<open>Leasing\<close>

lemma lease_candidateD:
  assumes "lease_candidate db tenant_id action_type as_of = Some c"
  shows "c \<in> set (db_actions db)" "leasable tenant_id action_type as_of c"
  using assms by (auto simp: lease_candidate_def dest!: first_row_SomeD)

lemma leased_step:
  fixes w :: uuid
  assumes inv: "act_inv db1" and c: "count_where (claims_candidate tenant_id c as_of) (db_actions db1) > 0"
  defines "db2 \<equiv> db1\<lparr>db_actions := update_where (claims_candidate tenant_id c as_of) (leased_by c w as_of) (db_actions db1)\<rparr>"
  obtains r where "r \<in> set (db_actions db1)" "claims_candidate tenant_id c as_of r" "actions_step db1 db2"
    "leased_by c w as_of r \<in> set (db_actions db2)" "action_step r (leased_by c w as_of r)"
proof -
  from c obtain r where r: "r \<in> set (db_actions db1)" "claims_candidate tenant_id c as_of r"
    by (auto simp: count_where_def filter_empty_conv)
  have "action_ok r" using inv r(1) by (simp add: act_inv_def)
  with r(2) have step: "action_step r (leased_by c w as_of r)"
    by (intro action_step.lease) (auto simp: claims_candidate_def leased_by_def same_action_def action_key_def action_ok_def)
  obtain xs ys where split: "db_actions db1 = xs @ r # ys" "db_actions db2 = xs @ leased_by c w as_of r # ys"
    by (rule update_where_split [of ax_id "db_actions db1" r "claims_candidate tenant_id c as_of" "leased_by c w as_of"])
      (use inv r in \<open>auto simp: act_inv_def claims_candidate_def db2_def\<close>)
  have "db2 = db1\<lparr>db_actions := xs @ leased_by c w as_of r # ys\<rparr>" using split(2) by (simp add: db2_def)
  with actions_step.update [OF split(1) step] split(2) that [OF r _ _ step] show ?thesis by simp
qed

definition others_ok :: "(nat \<Rightarrow> enf_db \<Rightarrow> enf_db) \<Rightarrow> bool" where
  "others_ok others \<longleftrightarrow> (\<forall>n db. actions_steps db (others n db))"

text \<open>What a lease hands out.\<close>

definition leased_to :: "uuid \<Rightarrow> uuid \<Rightarrow> instant \<Rightarrow> action_execution \<Rightarrow> bool" where
  "leased_to tenant_id w as_of a \<longleftrightarrow> ax_tenant_id a = tenant_id \<and> ax_status a = RUNNING \<and> ax_locked_by_worker_id a = Some w
     \<and> ax_lease_expires_at a = Some (as_of + seconds (ax_lease_ttl_seconds a)) \<and> 1 \<le> ax_attempt_count a"

lemma lease_loop_facts:
  assumes "others_ok others" "act_inv db" "lease_loop n others db tenant_id w action_type as_of = (out, db')"
  shows "actions_steps db db' \<and> (out = Inr None \<or> (\<exists>a. out = Inr (Some a) \<and> a \<in> set (db_actions db')
    \<and> leased_to tenant_id w as_of a \<and> opt_all (\<lambda>t. ax_action_type a = normalize_action_type t) action_type))"
  using assms(2,3)
proof (induction n arbitrary: db)
  case (Suc n)
  show ?case
  proof (cases "lease_candidate db tenant_id action_type as_of")
    case None
    with Suc.prems(2) show ?thesis by auto
  next
    case (Some c)
    let ?db1 = "others n db"
    have steps1: "actions_steps db ?db1" using assms(1) by (simp add: others_ok_def)
    have inv1: "act_inv ?db1" by (rule table.run_inv [OF steps1 Suc.prems(1)])
    note run = Suc.prems(2) [unfolded lease_loop.simps Some option.case Let_def]
    show ?thesis
    proof (cases "count_where (claims_candidate tenant_id c as_of) (db_actions ?db1) > 0")
      case False
      with run have "lease_loop n others ?db1 tenant_id w action_type as_of = (out, db')" by simp
      from Suc.IH [OF inv1 this] steps1 show ?thesis by (auto intro: rtranclp_trans)
    next
      case True
      let ?db2 = "?db1\<lparr>db_actions := update_where (claims_candidate tenant_id c as_of) (leased_by c w as_of) (db_actions ?db1)\<rparr>"
      obtain r where r: "r \<in> set (db_actions ?db1)" "claims_candidate tenant_id c as_of r" "actions_step ?db1 ?db2"
        "leased_by c w as_of r \<in> set (db_actions ?db2)" "action_step r (leased_by c w as_of r)"
        using leased_step [OF inv1 True] by metis
      note inv2 = act_inv_step [OF r(3) inv1]
      have ids: "ax_id (leased_by c w as_of r) = ax_id c" "ax_tenant_id (leased_by c w as_of r) = tenant_id"
        using r(2) by (simp_all add: leased_by_def claims_candidate_def)
      have "get_action ?db2 tenant_id (ax_id c) = Inr (leased_by c w as_of r)"
        using get_action_row [OF inv2 r(4) ids(2)] ids(1) by simp
      with run True have out: "out = Inr (Some (leased_by c w as_of r))" "db' = ?db2" by simp_all
      from actions_steps_row [OF steps1 lease_candidateD(1) [OF Some]] obtain c1
        where c1: "c1 \<in> set (db_actions ?db1)" "same_action c c1" using action_steps_same by blast
      have "c1 = r"
        using inv1 c1 r(1,2) same_action_simps(1) [OF c1(2)]
        by (auto simp: act_inv_def claims_candidate_def distinct_map inj_on_def)
      with c1(2) have "ax_lease_ttl_seconds r = ax_lease_ttl_seconds c" "ax_action_type r = ax_action_type c"
        by (simp_all add: same_action_def action_key_def)
      moreover have "0 \<le> ax_attempt_count r" using inv1 r(1) by (simp add: act_inv_def action_ok_def)
      ultimately have "leased_to tenant_id w as_of (leased_by c w as_of r)"
        "opt_all (\<lambda>t. ax_action_type (leased_by c w as_of r) = normalize_action_type t) action_type"
        using r(2) lease_candidateD(2) [OF Some] by (simp_all add: leased_to_def leased_by_def claims_candidate_def leasable_def)
      with out r(3,4) steps1 show ?thesis by (auto intro: rtranclp.rtrancl_into_rtrancl)
    qed
  qed
qed simp

text \<open>Without interference the first attempt succeeds whenever there is a candidate.\<close>

lemma lease_finds:
  assumes inv: "act_inv db" and a: "a \<in> set (db_actions db)" "leasable tenant_id action_type as_of a"
  shows "\<exists>b db'. lease_next_action (\<lambda>_ db. db) db tenant_id w action_type as_of = (Inr (Some b), db')"
proof -
  have "lease_candidate db tenant_id action_type as_of \<noteq> None"
    using a by (auto simp: lease_candidate_def first_row_None)
  then obtain c where c: "lease_candidate db tenant_id action_type as_of = Some c" by blast
  note cD = lease_candidateD [OF c]
  have "count_where (claims_candidate tenant_id c as_of) (db_actions db) > 0"
    using cD by (auto simp: count_where_def claims_candidate_def leasable_def filter_empty_conv)
  moreover from this obtain r where r: "r \<in> set (db_actions db)" "claims_candidate tenant_id c as_of r"
    "actions_step db (db\<lparr>db_actions := update_where (claims_candidate tenant_id c as_of) (leased_by c w as_of) (db_actions db)\<rparr>)"
    "leased_by c w as_of r \<in> set (db_actions (db\<lparr>db_actions := update_where (claims_candidate tenant_id c as_of) (leased_by c w as_of) (db_actions db)\<rparr>))"
    using leased_step [OF inv] by metis
  have ids: "ax_id (leased_by c w as_of r) = ax_id c" "ax_tenant_id (leased_by c w as_of r) = tenant_id"
    using r(2) by (simp_all add: leased_by_def claims_candidate_def)
  ultimately show ?thesis
    using c get_action_row [OF act_inv_step [OF r(3) inv] r(4) ids(2)] ids(1)
    by (simp add: lease_next_action_def numeral_eq_Suc Let_def)
qed

end
