(* ===== verification/Enf_Action_Theorems.thy ===== *)
theory Enf_Action_Theorems
  imports Enf_Action_Machine Enf_Gate_Theorems
begin

text \<open>
  The theorems about action executions: the operations of the orchestrator refine the state machine,
  executions are bounded, leases are exclusive and actions are created once and only when allowed.
\<close>


text \<open>
  The life of an action is finite: an action of a well-formed table takes at most two transitions
  per attempt it is allowed, plus one, before it ends; with at most ten attempts that is 21. At every
  point its attempts stay within the maximum.
\<close>

theorem action_life_bounded:
  assumes "act_inv db" and "a \<in> set (db_actions db)" and "(action_step ^^ n) a b"
  shows "n \<le> 21 \<and> int n \<le> 2 * ax_max_attempts a + 1 \<and> 0 \<le> ax_attempt_count b
    \<and> ax_attempt_count b \<le> ax_max_attempts a \<and> ax_max_attempts a \<le> 10"
proof -
  have ok: "action_ok a" using assms(1,2) by (simp add: act_inv_def)
  have "action_ok b" by (rule life.steps_inv [OF assms(3) ok])
  moreover have "same_action a b" using assms(3) by (blast intro: action_steps_same relpowp_imp_rtranclp)
  moreover have "int (action_rank a) \<le> 2 * ax_max_attempts a + 1"
    using ok by (auto simp: action_rank_def action_ok_def Let_def split: action_status.splits)
  ultimately show ?thesis
    using ok life.steps_rank [OF assms(3) ok] same_action_simps(3) [of a b] by (auto simp: action_ok_def)
qed

text \<open>
  C10. Leases are exclusive: the action a worker leases is running under that worker's name until the
  lease time the action was created with, whatever other workers committed meanwhile. No other worker
  can complete or fail it, no claim made from an earlier reading of the queue can take it, and no
  later lease hands it out, not even after its lease time has passed.
\<close>

theorem lease_exclusive:
  assumes "act_inv db" and "others_ok others"
    and "lease_next_action others db tenant_id worker_id action_type now = (Inr (Some a), db')"
  shows "a \<in> set (db_actions db') \<and> leased_to tenant_id worker_id now a
    \<and> (\<forall>other. other \<noteq> worker_id \<longrightarrow>
         complete_action sha db' tenant_id (ax_id a) other payload later
           = (Inl (HTTPException 409 ''Action lease is owned by another worker''), db')
         \<and> fail_action sha db' tenant_id (ax_id a) other code message retryable payload later
           = (Inl (HTTPException 409 ''Action lease is owned by another worker''), db'))
    \<and> (\<forall>candidate. ax_id candidate = ax_id a \<longrightarrow>
         count_where (claims_candidate tenant_id candidate later) (db_actions db') = 0)
    \<and> (\<forall>b. fst (lease_next_action (\<lambda>_ d. d) db' tenant_id other_worker other_type later) = Inr (Some b)
         \<longrightarrow> ax_id b \<noteq> ax_id a)"
proof -
  have run: "lease_loop 5 others db tenant_id worker_id action_type now = (Inr (Some a), db')"
    using assms(3) by (simp add: lease_next_action_def)
  from lease_loop_facts [OF assms(2,1) run]
  have a: "a \<in> set (db_actions db')" "leased_to tenant_id worker_id now a" and steps: "actions_steps db db'" by auto
  have inv': "act_inv db'" by (rule table.run_inv [OF steps assms(1)])
  have st: "ax_status a = RUNNING" "ax_tenant_id a = tenant_id" "ax_locked_by_worker_id a = Some worker_id"
    using a(2) by (simp_all add: leased_to_def)
  have got: "get_action db' tenant_id (ax_id a) = Inr a" by (rule get_action_row [OF inv' a(1) st(2)])
  have busy: "check_running a other verb = Inl (HTTPException 409 ''Action lease is owned by another worker'')"
    if "other \<noteq> worker_id" for other verb
    using that st by (simp add: check_running_def)
  have only: "x = a" if "x \<in> set (db_actions db')" "ax_id x = ax_id a" for x
    using that a(1) inv' by (auto simp: act_inv_def distinct_map inj_on_def)
  have "count_where (claims_candidate tenant_id c later) (db_actions db') = 0" if "ax_id c = ax_id a" for c
    using that st(1) by (auto simp: count_where_def claims_candidate_def filter_empty_conv dest: only)
  moreover have "ax_id b \<noteq> ax_id a"
    if b: "fst (lease_next_action (\<lambda>_ d. d) db' tenant_id other_worker other_type later) = Inr (Some b)" for b
  proof (cases "lease_candidate db' tenant_id other_type later")
    case None
    with b show ?thesis by (simp add: lease_next_action_def numeral_eq_Suc)
  next
    case (Some c)
    note cD = lease_candidateD [OF Some]
    have "count_where (claims_candidate tenant_id c later) (db_actions db') > 0"
      using cD by (auto simp: count_where_def claims_candidate_def leasable_def filter_empty_conv)
    with b Some have "\<exists>db2. get_action db2 tenant_id (ax_id c) = Inr b"
      by (auto simp: lease_next_action_def numeral_eq_Suc Let_def)
    then have "ax_id b = ax_id c" by (auto dest: get_actionD)
    moreover have "c \<noteq> a" using cD(2) st(1) by (auto simp: leasable_def)
    ultimately show ?thesis using only [OF cD(1)] by auto
  qed
  ultimately show ?thesis using a got busy by (simp add: complete_action_def fail_action_def Let_def)
qed

lemma allowed_gate:
  assumes "resolve_decision_and_approval db tenant_id decision_id = Inr (d, approval)"
    and "assert_action_request_allowed d approval = Inr approval_id"
  shows "d \<in> set (db_decisions db)" "owner_key d = (decision_id, tenant_id)" "ed_decision d \<noteq> DENY"
    "ed_approval_required d \<longrightarrow>
       (\<exists>r \<in> set (db_approvals db). ar_decision_id r = decision_id \<and> ar_tenant_id r = tenant_id \<and> ar_status r = APPROVED)"
proof -
  show d: "d \<in> set (db_decisions db)" "owner_key d = (decision_id, tenant_id)"
    using assms(1) by (auto simp: resolve_decision_and_approval_def owner_key_def split: option.splits dest: first_row_SomeD)
  show "ed_decision d \<noteq> DENY" "ed_approval_required d \<longrightarrow>
       (\<exists>r \<in> set (db_approvals db). ar_decision_id r = decision_id \<and> ar_tenant_id r = tenant_id \<and> ar_status r = APPROVED)"
    using assms d(2)
    by (auto simp: assert_action_request_allowed_def resolve_decision_and_approval_def owner_key_def Let_def
        split: if_splits option.splits dest!: first_row_SomeD)
qed

text \<open>
  C13. An action is created once and only for a decision that allows it: the decision was not a denial
  and, where approval was required, its request is approved. Repeating the request returns the same
  row and changes nothing, and so does a concurrent duplicate that finds the row only when it commits.
\<close>

theorem create_action_gated:
  assumes "create_action_request vd sha db tenant_id actor_id decision_id q now = (Inr a, db')"
  shows "(\<exists>d \<in> set (db_decisions db). owner_key d = (decision_id, tenant_id) \<and> ed_decision d \<noteq> DENY
       \<and> (ed_approval_required d \<longrightarrow>
            (\<exists>r \<in> set (db_approvals db). ar_decision_id r = decision_id \<and> ar_tenant_id r = tenant_id \<and> ar_status r = APPROVED)))
    \<and> a \<in> set (db_actions db') \<and> ax_idempotency_key a = request_key sha decision_id q
    \<and> create_action_request vd sha db' tenant_id actor2 decision_id q later = (Inr a, db')
    \<and> (\<forall>rival. action_key rival = action_key a \<longrightarrow> commit_action db' rival = (a, db'))"
  using assms
proof (cases rule: create_action_cases)
  case (allowed d approval approval_id controls action)
  note gate = allowed_gate [OF allowed(2,3)]
  note d = gate(1,2)
  have key: "action_key (new_action sha i tenant_id (ed_id d) u x q c t)
      = (tenant_id, decision_id, normalize_action_type (aq_action_type q), request_key sha decision_id q)" for i u x c t
    using d(2) by (simp add: new_action_def action_key_def owner_key_def split: prod.split)
  have stored: "find_action db' (action_key action) = Some a" "a \<in> set (db_actions db')" "action_key a = action_key action"
    using allowed(6)
    by (cases "find_action db (action_key action)";
        auto simp: commit_action_def find_action_def first_row_append_None first_row_def [of _ "[_]"] dest: first_row_SomeD)+
  have frame: "db_decisions db' = db_decisions db" "db_approvals db' = db_approvals db" "db_policies db' = db_policies db"
    using allowed(6) by (auto simp: commit_action_def split: option.splits)
  have same: "resolve_decision_and_approval db' tenant_id decision_id = Inr (d, approval)"
    "effective_controls vd db' tenant_id q = Inr controls"
    using allowed(2,4) frame
    by (simp_all add: resolve_decision_and_approval_def effective_controls_def resolve_policy_execution_controls_def cong: option.case_cong)
  have k: "action_key action = action_key (new_action sha i tenant_id (ed_id d) u x q c t)" for i u x c t
    unfolding allowed(5) key by (rule refl)
  have "create_action_request vd sha db' tenant_id actor2 decision_id q later = (Inr a, db')"
    unfolding create_action_request_def
    using allowed(1,3) same stored(1) k [of "db_next_id db'" actor2 approval_id controls later] by (simp add: Let_def)
  moreover have "ax_idempotency_key a = request_key sha decision_id q"
    using stored(3) unfolding allowed(5) key by (simp add: action_key_def)
  moreover have "commit_action db' rival = (a, db')" if "action_key rival = action_key a" for rival
    using that stored(1,3) by (simp add: commit_action_def)
  ultimately show ?thesis using gate stored(2) by blast
qed simp

subsection \<open>Witnesses\<close>

definition sample_request :: action_request where
  "sample_request = \<lparr>aq_action_type = ''Terraform.Apply'', aq_target_reference = ''aws_instance.web'', aq_request_payload = [],
     aq_idempotency_key = Some ''k-1'', aq_max_attempts = Some 2, aq_retry_backoff_seconds = None, aq_lease_ttl_seconds = None\<rparr>"

definition sample_action_db :: enf_db where
  "sample_action_db = empty_db\<lparr>db_decisions := [sample_decision 9 0 0], db_next_id := 10\<rparr>"

definition sample_action :: action_execution where
  "sample_action = new_action sample_sha 10 7 9 4 None sample_request (2, 60, 300) 200"

lemma sample_action_created:
  "create_action_request sample_validate sample_sha sample_action_db 7 4 9 sample_request 200
     = (Inr sample_action, sample_action_db\<lparr>db_actions := [sample_action], db_next_id := 11\<rparr>)"
proof -
  have "check_action_texts sample_request = Inr ()" by code_simp
  moreover have "resolve_decision_and_approval sample_action_db 7 9 = Inr (sample_decision 9 0 0, None)"
    by (simp add: resolve_decision_and_approval_def sample_action_db_def empty_db_def first_row_def sample_decision_def)
  moreover have "assert_action_request_allowed (sample_decision 9 0 0) None = Inr None"
    by (simp add: assert_action_request_allowed_def sample_decision_def)
  moreover have "effective_controls sample_validate sample_action_db 7 sample_request = Inr (2, 60, 300)"
    by (simp add: effective_controls_def resolve_policy_execution_controls_def sample_action_db_def empty_db_def first_row_def
        or_policy_def sample_request_def default_action_max_attempts_def default_action_retry_backoff_seconds_def
        default_action_lease_ttl_seconds_def)
  ultimately show ?thesis
    by (simp add: create_action_request_def Let_def commit_action_def find_action_def first_row_def sample_action_def
        sample_action_db_def empty_db_def sample_decision_def)
qed

lemma sample_action_fresh: "fresh_action sample_action"
  by (simp add: sample_action_def new_action_def fresh_action_def action_ok_def unlocked_def)

definition sample_queue_db :: enf_db where
  "sample_queue_db = sample_action_db\<lparr>db_actions := [sample_action], db_next_id := 11\<rparr>"

lemma sample_queue_inv: "act_inv sample_queue_db"
  using sample_action_fresh by (simp add: sample_queue_db_def act_inv_def fresh_action_def) (simp add: sample_action_def new_action_def)

lemma no_others_ok: "others_ok (\<lambda>_ db. db)"
  by (simp add: others_ok_def)

lemma sample_leased:
  obtains a db' where "lease_next_action (\<lambda>_ db. db) sample_queue_db 7 5 None 300 = (Inr (Some a), db')"
proof -
  have "leasable 7 None 300 sample_action" "sample_action \<in> set (db_actions sample_queue_db)"
    by (simp_all add: leasable_def lease_free_def sample_action_def new_action_def sample_queue_db_def)
  then show ?thesis using lease_finds [OF sample_queue_inv] that by blast
qed


lemma action_life_bounded_witness:
  "\<exists>b. (action_step ^^ 1) sample_action b \<and> ax_attempt_count b \<le> 2"
proof -
  let ?b = "cancelled_action sample_sha sample_action 4 None 300"
  have "action_step sample_action ?b"
    by (rule action_step.cancel) (simp_all add: sample_action_def new_action_def cancelled_action_def terminal_statuses_def
        same_action_def action_key_def unlocked_def Let_def)
  then have one: "(action_step ^^ 1) sample_action ?b" by (simp only: relpowp_1)
  have "sample_action \<in> set (db_actions sample_queue_db)" "ax_max_attempts sample_action = 2"
    by (simp_all add: sample_queue_db_def sample_action_def new_action_def)
  with action_life_bounded [OF sample_queue_inv _ one] one show ?thesis by auto
qed

lemma lease_exclusive_witness:
  "\<exists>a db'. lease_next_action (\<lambda>_ db. db) sample_queue_db 7 5 None 300 = (Inr (Some a), db')
     \<and> complete_action sample_sha db' 7 (ax_id a) 6 [] 400
         = (Inl (HTTPException 409 ''Action lease is owned by another worker''), db')"
proof -
  obtain a db' where run: "lease_next_action (\<lambda>_ db. db) sample_queue_db 7 5 None 300 = (Inr (Some a), db')"
    by (rule sample_leased)
  have "(6 :: uuid) \<noteq> 5" by simp
  with lease_exclusive [OF sample_queue_inv no_others_ok run, of sample_sha "[]" 400 "[]" "[]" True 6 None] run
  show ?thesis by blast
qed

lemma create_action_gated_witness:
  "create_action_request sample_validate sample_sha sample_queue_db 7 5 9 sample_request 900 = (Inr sample_action, sample_queue_db)"
  using create_action_gated [OF sample_action_created, of 5 900] by (simp add: sample_queue_db_def)

end
