(* ===== verification/Enf_System.thy ===== *)
theory Enf_System
  imports Enf_Approval_Theorems Enf_Reconcile_Theorems Enf_Action_Theorems
begin

text \<open>
  The control plane as one transition system. A step is one committed or refused operation of the
  service or the orchestrator on the tables of all tenants; the invariant combines those of the
  components, and the history relation says what no operation ever takes back.
\<close>

subsection \<open>History\<close>

definition approval_moves :: "approval_request \<Rightarrow> approval_request \<Rightarrow> bool" where
  "approval_moves a b \<longleftrightarrow> ar_id b = ar_id a \<and> ar_tenant_id b = ar_tenant_id a \<and> ar_decision_id b = ar_decision_id a
     \<and> ar_requested_by_user_id b = ar_requested_by_user_id a
     \<and> (ar_status a \<noteq> PENDING \<longrightarrow> ar_status b = ar_status a \<and> ar_approval_token_hash b = ar_approval_token_hash a
          \<and> ar_reviewed_by_user_id b = ar_reviewed_by_user_id a)
     \<and> (ar_approval_token_consumed_at a \<noteq> None \<longrightarrow> ar_approval_token_consumed_at b = ar_approval_token_consumed_at a)"

definition rows_kept :: "('r \<Rightarrow> 'r \<Rightarrow> bool) \<Rightarrow> 'r list \<Rightarrow> 'r list \<Rightarrow> bool" where
  "rows_kept R xs ys \<longleftrightarrow> (\<forall>x \<in> set xs. \<exists>y \<in> set ys. R x y)"

definition history :: "enf_db \<Rightarrow> enf_db \<Rightarrow> bool" where
  "history db db' \<longleftrightarrow> rows_kept decision_keeps (db_decisions db) (db_decisions db')
     \<and> rows_kept approval_moves (db_approvals db) (db_approvals db')
     \<and> rows_kept action_step\<^sup>*\<^sup>* (db_actions db) (db_actions db')
     \<and> (\<exists>entries. db_ledger db' = db_ledger db @ entries)"

lemma decision_keeps_refl: "decision_keeps d d"
  by (simp add: decision_keeps_def)

lemma decision_keeps_trans: "decision_keeps a b \<Longrightarrow> decision_keeps b c \<Longrightarrow> decision_keeps a c"
  by (simp add: decision_keeps_def)

lemma approval_moves_refl: "approval_moves a a"
  by (simp add: approval_moves_def)

lemma approval_moves_trans: "approval_moves a b \<Longrightarrow> approval_moves b c \<Longrightarrow> approval_moves a c"
  by (auto simp: approval_moves_def)

lemma rows_kept_refl: "(\<And>x. R x x) \<Longrightarrow> rows_kept R xs xs"
  by (auto simp: rows_kept_def)

lemma rows_kept_append: "(\<And>x. R x x) \<Longrightarrow> rows_kept R xs (xs @ ys)"
  by (auto simp: rows_kept_def)

lemma rows_kept_trans:
  assumes "rows_kept R xs ys" "rows_kept R ys zs" "\<And>a b c. R a b \<Longrightarrow> R b c \<Longrightarrow> R a c"
  shows "rows_kept R xs zs"
  using assms unfolding rows_kept_def by metis

lemma rows_kept_update:
  assumes "\<And>r. r \<in> set rows \<Longrightarrow> p r \<Longrightarrow> R r (f r)" "\<And>r. R r r"
  shows "rows_kept R rows (update_where p f rows)"
  unfolding rows_kept_def set_update_where
proof
  fix x assume "x \<in> set rows"
  then show "\<exists>y \<in> (\<lambda>r. if p r then f r else r) ` set rows. R x y"
    using assms by (intro bexI [of _ "if p x then f x else x"]) auto
qed

lemma history_refl: "history db db"
  by (simp add: history_def rows_kept_refl decision_keeps_refl approval_moves_refl)

lemma history_trans: "history db db1 \<Longrightarrow> history db1 db2 \<Longrightarrow> history db db2"
  unfolding history_def
  by (auto intro: rows_kept_trans [OF _ _ decision_keeps_trans] rows_kept_trans [OF _ _ approval_moves_trans]
      rows_kept_trans [of "action_step\<^sup>*\<^sup>*", OF _ _ rtranclp_trans])

lemma write_decision_kept:
  assumes inv: "enf_inv db" and d: "d \<in> set (db_decisions db)" "decision_keeps d d'"
    and "db_decisions db1 = db_decisions db"
  shows "rows_kept decision_keeps (db_decisions db) (db_decisions (write_decision d' db1))"
proof -
  have "ed_id d' = ed_id d" using d(2) by (simp add: decision_keeps_def owner_key_def)
  then show ?thesis unfolding write_decision_def
    using assms(4) d(2) owner_unique [OF inv d(1)] by (auto intro!: rows_kept_update decision_keeps_refl)
qed

lemma write_approval_kept:
  assumes inv: "enf_inv db" and a: "a \<in> set (db_approvals db)" "approval_moves a a'"
    and "db_approvals db1 = db_approvals db"
  shows "rows_kept approval_moves (db_approvals db) (db_approvals (write_approval a' db1))"
proof -
  have id: "ar_id a' = ar_id a" using a(2) by (simp add: approval_moves_def)
  have "r = a" if "r \<in> set (db_approvals db)" "ar_id r = ar_id a" for r
    using that a(1) enf_invD(4) [OF inv] by (auto simp: distinct_map inj_on_def)
  then show ?thesis unfolding write_approval_def
    using assms(4) a(2) id by (auto intro!: rows_kept_update approval_moves_refl)
qed

subsection \<open>The invariant\<close>

definition approval_ok :: "approval_request \<Rightarrow> bool" where
  "approval_ok a \<longleftrightarrow> (ar_approval_token_consumed_at a \<noteq> None \<longrightarrow> ar_status a = APPROVED)
     \<and> (ar_approval_token_hash a \<noteq> None \<longrightarrow> ar_status a = APPROVED)"

definition action_gated :: "enf_db \<Rightarrow> action_execution \<Rightarrow> bool" where
  "action_gated db x \<longleftrightarrow> (\<exists>d \<in> set (db_decisions db). owner_key d = (ax_decision_id x, ax_tenant_id x)
     \<and> ed_decision d \<noteq> DENY
     \<and> (ed_approval_required d \<longrightarrow> (\<exists>a \<in> set (db_approvals db). ar_decision_id a = ax_decision_id x
          \<and> ar_tenant_id a = ax_tenant_id x \<and> ar_status a = APPROVED)))"

definition sys_inv :: "enf_db \<Rightarrow> bool" where
  "sys_inv db \<longleftrightarrow> enf_inv db \<and> act_inv db \<and> budgets_ok db \<and> (\<forall>a \<in> set (db_approvals db). approval_ok a)
     \<and> (\<forall>x \<in> set (db_actions db). action_gated db x)"

lemma sys_invD:
  assumes "sys_inv db"
  shows "enf_inv db" "act_inv db" "budgets_ok db" "a \<in> set (db_approvals db) \<Longrightarrow> approval_ok a"
    "x \<in> set (db_actions db) \<Longrightarrow> action_gated db x"
  using assms by (simp_all add: sys_inv_def)

lemma action_gated_history:
  assumes "history db db'" "action_gated db x"
  shows "action_gated db' x"
proof -
  from assms(2) obtain d where d: "d \<in> set (db_decisions db)" "owner_key d = (ax_decision_id x, ax_tenant_id x)"
    "ed_decision d \<noteq> DENY" "ed_approval_required d \<longrightarrow> (\<exists>a \<in> set (db_approvals db). ar_decision_id a = ax_decision_id x
          \<and> ar_tenant_id a = ax_tenant_id x \<and> ar_status a = APPROVED)"
    by (auto simp: action_gated_def)
  from assms(1) d(1) obtain e where e: "e \<in> set (db_decisions db')" "decision_keeps d e"
    by (auto simp: history_def rows_kept_def)
  have "\<exists>b \<in> set (db_approvals db'). ar_decision_id b = ax_decision_id x \<and> ar_tenant_id b = ax_tenant_id x \<and> ar_status b = APPROVED"
    if a: "a \<in> set (db_approvals db)" "ar_decision_id a = ax_decision_id x" "ar_tenant_id a = ax_tenant_id x" "ar_status a = APPROVED" for a
  proof -
    from assms(1) a(1) obtain b where "b \<in> set (db_approvals db')" "approval_moves a b"
      by (auto simp: history_def rows_kept_def)
    with a show ?thesis by (intro bexI [of _ b]) (auto simp: approval_moves_def)
  qed
  with d e show ?thesis unfolding action_gated_def decision_keeps_def by (intro bexI [of _ e]) auto
qed

lemma act_inv_frame: "act_inv db \<Longrightarrow> db_actions db' = db_actions db \<Longrightarrow> db_next_id db \<le> db_next_id db' \<Longrightarrow> act_inv db'"
  by (auto simp: act_inv_def)

text \<open>What an operation that leaves the actions alone has to establish.\<close>

lemma sys_step:
  assumes "sys_inv db" "enf_inv db'" "budgets_ok db'" "db_actions db' = db_actions db" "db_next_id db \<le> db_next_id db'"
    and "rows_kept decision_keeps (db_decisions db) (db_decisions db')"
    and "rows_kept approval_moves (db_approvals db) (db_approvals db')"
    and "\<exists>entries. db_ledger db' = db_ledger db @ entries"
    and "\<And>a. a \<in> set (db_approvals db') \<Longrightarrow> approval_ok a"
  shows "sys_inv db' \<and> history db db'"
proof -
  have h: "history db db'" using assms(4,6-8) by (simp add: history_def rows_kept_refl)
  with assms act_inv_frame [OF sys_invD(2) [OF assms(1)] assms(4,5)] action_gated_history [OF h]
  show ?thesis by (simp add: sys_inv_def)
qed

lemma sys_same: "sys_inv db \<Longrightarrow> sys_inv db \<and> history db db"
  by (simp add: history_refl)

lemma budgets_frame: "budgets_ok db \<Longrightarrow> db_budgets db' = db_budgets db \<Longrightarrow> budgets_ok db'"
  by (simp add: budgets_ok_def)

lemma decisions_append: "rows_kept decision_keeps ds (ds @ new)"
  by (rule rows_kept_append) (rule decision_keeps_refl)

lemma approvals_append: "rows_kept approval_moves as (as @ new)"
  by (rule rows_kept_append) (rule approval_moves_refl)

lemma decisions_same: "rows_kept decision_keeps ds ds"
  by (rule rows_kept_refl) (rule decision_keeps_refl)

lemma approvals_same: "rows_kept approval_moves as as"
  by (rule rows_kept_refl) (rule approval_moves_refl)

subsection \<open>Gate\<close>

lemma committed_frame:
  assumes o: "gate_open vd sha db tenant_id source gi = Inr (gc, None, db1)"
    and res: "reserved_for d now (insert_decision d db1) db2"
    and com: "commits sha db2 d dry gc actor_id now r db'"
  shows "db_actions db' = db_actions db" "db_budgets db' = db_budgets db" "db_next_id db \<le> db_next_id db'"
    "\<And>a. gr_approval r = Some a \<Longrightarrow> approval_ok a"
proof -
  note frame = get_or_create_policy_frame [OF gate_open_facts(1) [OF o]]
  from res obtain charges where "reserves_credit (ed_tenant_id d) (ed_id d) now charges (insert_decision d db1) db2"
    by (auto simp: reserved_for_def)
  then have eq: "db2 = (insert_decision d db1)\<lparr>db_grants := db_grants db2, db_allocations := db_allocations db2,
      db_next_id := db_next_id db2\<rparr>" and next_id: "db_next_id (insert_decision d db1) \<le> db_next_id db2"
    by (simp_all add: reserves_credit_def)
  have "db_actions db2 = db_actions db1" "db_budgets db2 = db_budgets db1"
    by (subst eq, simp add: insert_decision_def)+
  with com frame next_id show "db_actions db' = db_actions db" "db_budgets db' = db_budgets db" "db_next_id db \<le> db_next_id db'"
    by (simp_all add: commits_def insert_decision_def)
  show "approval_ok a" if "gr_approval r = Some a" for a
    using com that by (auto simp: commits_def approval_ok_def new_gate_approval_def split: if_splits)
qed

lemma committed_sys:
  assumes sys: "sys_inv db" and inv1: "enf_inv db1" and inv': "enf_inv db'"
    and o: "gate_open vd sha db tenant_id source gi = Inr (gc, None, db1)"
    and row: "row_for d db1 env gc tenant_id source v"
    and res: "reserved_for d (ge_now env) (insert_decision d db1) db2"
    and com: "commits sha db2 d dry gc actor_id (ge_now env) r db'"
  shows "sys_inv db' \<and> history db db'"
proof -
  note facts = new_decision_facts [OF o inv1 row res com] and frame = committed_frame [OF o res com]
  show ?thesis
    by (rule sys_step [OF sys inv' budgets_frame [OF sys_invD(3) [OF sys] frame(2)] frame(1,3)])
      (use facts(1,3,6) frame(4) sys_invD(4) [OF sys] in
        \<open>auto simp: decisions_append approvals_append approvals_same split: option.splits\<close>)
qed

lemma gate_sys:
  assumes sys: "sys_inv db" and delta: "0 \<le> gi_estimated_monthly_delta_usd gi"
    and run: "evaluate_gate vd sha env db tenant_id actor_id source gi = (out, db')"
  shows "sys_inv db' \<and> history db db'"
  using run sys_invD(1) [OF sys] delta
proof (cases rule: evaluate_gate_cases)
  case (new gc db1 d db2 r)
  have "enf_inv db'" using evaluate_gate_inv [OF sys_invD(1) [OF sys] delta, of vd sha env tenant_id actor_id source] run by simp
  from committed_sys [OF sys new(2) this new(1,3,4,6)] show ?thesis .
qed (use sys_same [OF sys] in simp_all)

lemma fail_safe_sys:
  assumes sys: "sys_inv db"
    and run: "resolve_fail_safe_gate vd sha env db tenant_id actor_id source gi code metadata = (out, db')"
  shows "sys_inv db' \<and> history db db'"
  using run
proof (cases rule: fail_safe_cases)
  case (new gc db1 d r)
  have inv1: "enf_inv db1" by (rule gate_open_inv [OF new(1) sys_invD(1) [OF sys]])
  have row: "ed_id d = db_next_id db1" "ed_reserved_allocation_usd d = 0" "ed_reserved_credit_usd d = 0" "\<not> ed_reservation_active d"
    using new(2) by (simp_all add: row_for_def no_reservation_def)
  note res = no_reservation_reserved [OF inv1 row(4), of "ge_now env"]
  have "enf_inv db'" by (rule commit_inv [OF inv1 new(3) row(1) _ _ res new(5)]) (simp_all add: row money_def)
  from committed_sys [OF sys inv1 this new(1,2) res new(5)] show ?thesis .
qed (use sys_same [OF sys] in simp_all)

subsection \<open>Approvals\<close>

lemma new_row_moves:
  assumes "ar_status a = PENDING" "approval_ok a" "ar_id b = ar_id a" "ar_tenant_id b = ar_tenant_id a"
    "ar_decision_id b = ar_decision_id a" "ar_requested_by_user_id b = ar_requested_by_user_id a"
  shows "approval_moves a b"
  using assms by (auto simp: approval_moves_def approval_ok_def)

lemma in_write_approval:
  "x \<in> set (db_approvals (write_approval a' db)) \<Longrightarrow> x = a' \<or> x \<in> set (db_approvals db)"
  by (auto simp: write_approval_def elim!: in_update_whereE split: if_splits)

lemma create_sys:
  assumes sys: "sys_inv db"
    and run: "create_or_get_approval_request vd sha db tenant_id actor_id decision_id notes now = (out, db')"
  shows "sys_inv db' \<and> history db db'"
  using run
proof (cases rule: create_cases)
  case (created d p db1 trace a)
  note frame = get_or_create_policy_frame [OF created(5)]
  have ok: "approval_ok a" by (simp add: created(7) approval_ok_def new_gate_approval_def)
  show ?thesis
    by (rule sys_step [OF sys create_inv [OF sys_invD(1) [OF sys] run] budgets_frame [OF sys_invD(3) [OF sys]]])
      (use frame ok sys_invD(4) [OF sys] in \<open>auto simp: created(9) decisions_same approvals_append\<close>)
qed (use sys_same [OF sys] in simp_all)

lemma release_frame:
  assumes inv: "enf_inv db" and d: "d \<in> set (db_decisions db)"
    and run: "release_decision db tenant_id d now extra = Inr (d', db')"
  shows "rows_kept decision_keeps (db_decisions db) (db_decisions db')" "db_approvals db' = db_approvals db"
    "db_actions db' = db_actions db" "db_budgets db' = db_budgets db" "db_ledger db' = db_ledger db" "db_next_id db' = db_next_id db"
proof -
  from run obtain settlement db1 where s: "settle_credit_reservations_for_decision db tenant_id d 0 now = Inr (settlement, db1)"
    "d' = (clear_reservation d)\<lparr>ed_response_payload := dict_merge (ed_response_payload d) (extra settlement)\<rparr>"
    "db' = write_decision d' db1"
    by (auto simp: release_decision_def Let_def)
  note frame = settle_frame [OF s(1)]
  have "decision_keeps d d'" by (simp add: s(2) decision_keeps_def clear_reservation_def owner_key_def gate_key_def)
  then show "rows_kept decision_keeps (db_decisions db) (db_decisions db')"
    unfolding s(3) by (rule write_decision_kept [OF inv d _ frame(1)])
  show "db_approvals db' = db_approvals db" "db_actions db' = db_actions db" "db_budgets db' = db_budgets db"
    "db_ledger db' = db_ledger db" "db_next_id db' = db_next_id db"
    using frame by (simp_all add: s(3))
qed

lemma reviewed_sys:
  assumes sys: "sys_inv db" and a: "a \<in> set (db_approvals db)" "ar_status a = PENDING"
    and a': "approval_ok a'" "ar_id a' = ar_id a" "ar_tenant_id a' = ar_tenant_id a" "ar_decision_id a' = ar_decision_id a"
      "ar_requested_by_user_id a' = ar_requested_by_user_id a"
    and frame: "rows_kept decision_keeps (db_decisions db) (db_decisions db1)" "db_approvals db1 = db_approvals db"
      "db_actions db1 = db_actions db" "db_budgets db1 = db_budgets db" "db_ledger db1 = db_ledger db" "db_next_id db \<le> db_next_id db1"
    and db': "db' = append_decision_ledger_entry sha now d' (Some a') (write_approval a' db1)" "enf_inv db'"
  shows "sys_inv db' \<and> history db db'"
proof -
  have "approval_moves a a'" using new_row_moves [OF a(2) sys_invD(4) [OF sys a(1)] a'(2-5)] .
  then have kept: "rows_kept approval_moves (db_approvals db) (db_approvals (write_approval a' db1))"
    by (rule write_approval_kept [OF sys_invD(1) [OF sys] a(1) _ frame(2)])
  have "approval_ok x" if "x \<in> set (db_approvals (write_approval a' db1))" for x
    using in_write_approval [OF that] a'(1) frame(2) sys_invD(4) [OF sys] by auto
  with kept frame db'(1) show ?thesis
    by (intro sys_step [OF sys db'(2) budgets_frame [OF sys_invD(3) [OF sys]]]) auto
qed

lemma approve_sys:
  assumes sys: "sys_inv db"
    and run: "approve_request identity vd sha jwt st db tenant_id approval_id reviewer notes now = (out, db')"
  shows "sys_inv db' \<and> history db db'"
  using run
proof (cases rule: approve_cases)
  case (expired a d d' db1 extra)
  note l = load_facts [OF expired(1)] and inv = sys_invD(1) [OF sys]
  note rel = release_frame [OF inv l(4) expired(4)]
  show ?thesis
    by (rule reviewed_sys [OF sys l(1) expired(2) _ _ _ _ _ rel(1-5) _ expired(6) approve_inv [OF inv run]])
      (use sys_invD(4) [OF sys l(1)] expired(2) rel(6) in \<open>simp_all add: approval_ok_def\<close>)
next
  case (approved a d p db1 trace a1 token until payload)
  note l = load_facts [OF approved(1)] and inv = sys_invD(1) [OF sys] and frame = get_or_create_policy_frame [OF approved(4)]
  from approved(5) obtain rule where a1: "a1 = a\<lparr>ar_routing_rule_id := rule, ar_routing_trace := trace\<rparr>"
    by (rule authority_keeps)
  let ?d = "d\<lparr>ed_approval_token_issued := True, ed_token_expires_at := Some until, ed_response_payload := payload\<rparr>"
  have "decision_keeps d ?d" by (simp add: decision_keeps_def owner_key_def gate_key_def)
  note kept = write_decision_kept [OF inv l(4) this frame(3)]
  show ?thesis
    by (rule reviewed_sys [OF sys l(1) approved(2) _ _ _ _ _ kept _ _ _ _ _ approved(9) approve_inv [OF inv run]])
      (use frame in \<open>simp_all add: a1 approved_request_def approval_ok_def\<close>)
qed (use sys_same [OF sys] in simp_all)

lemma deny_sys:
  assumes sys: "sys_inv db"
    and run: "deny_request identity vd sha db tenant_id approval_id reviewer notes now = (out, db')"
  shows "sys_inv db' \<and> history db db'"
  using run
proof (cases rule: deny_cases)
  case (denied a d p db1 trace a1 d' db2 extra)
  note l = load_facts [OF denied(1)] and inv = sys_invD(1) [OF sys] and frame = get_or_create_policy_frame [OF denied(3)]
  from denied(4) obtain rule where a1: "a1 = a\<lparr>ar_routing_rule_id := rule, ar_routing_trace := trace\<rparr>"
    by (rule authority_keeps)
  have d: "d \<in> set (db_decisions db1)" using l(4) frame(3) by simp
  note rel = release_frame [OF policy_inv [OF inv denied(3)] d denied(5)]
  show ?thesis
    by (rule reviewed_sys [OF sys l(1) denied(2) _ _ _ _ _ _ _ _ _ _ _ denied(7) deny_inv [OF inv run]])
      (use frame rel sys_invD(4) [OF sys l(1)] denied(2) in \<open>simp_all add: a1 denied_request_def approval_ok_def\<close>)
qed (use sys_same [OF sys] in simp_all)

lemma consume_sys:
  assumes sys: "sys_inv db"
    and run: "consume_approval_token sha jwt st db tenant_id token actor_id expected now = (out, db')"
  shows "sys_inv db' \<and> history db db'"
  using run
proof (cases rule: consume_cases)
  case (consumed a d payload)
  note rows = check_token_rows [OF consumed(1)] and inv = sys_invD(1) [OF sys]
  let ?f = "\<lambda>r. r\<lparr>ar_approval_token_consumed_at := Some now, ar_updated_at := now\<rparr>"
  let ?as = "update_where (unconsumed (ar_id a) tenant_id) ?f (db_approvals db)"
  have only: "r = a" if "r \<in> set (db_approvals db)" "ar_id r = ar_id a" for r
    using that rows(1) enf_invD(4) [OF inv] by (auto simp: distinct_map inj_on_def)
  have "decision_keeps d (d\<lparr>ed_response_payload := payload\<rparr>)" by (simp add: decision_keeps_def)
  then have kept: "rows_kept decision_keeps (db_decisions db) (db_decisions db')"
    unfolding consumed(4) by (rule write_decision_kept [OF inv rows(4)]) simp
  have "rows_kept approval_moves (db_approvals db) ?as"
    by (rule rows_kept_update) (auto simp: approval_moves_def unconsumed_def)
  moreover have "approval_ok x" if "x \<in> set ?as" for x
    using that sys_invD(4) [OF sys] rows(3)
    by (auto simp: approval_ok_def unconsumed_def elim!: in_update_whereE split: if_splits dest: only)
  ultimately show ?thesis
    using kept consumed(4)
    by (intro sys_step [OF sys consume_inv [OF inv run] budgets_frame [OF sys_invD(3) [OF sys]]]) auto
qed (use sys_same [OF sys] in simp_all)

subsection \<open>Reconciliation\<close>

lemma reconcile_sys:
  assumes sys: "sys_inv db"
    and run: "reconcile_reservation sha db tenant_id decision_id actor_id x notes key now = (out, db')"
  shows "sys_inv db' \<and> history db db'"
proof (cases "\<exists>d. find_decision db tenant_id decision_id = Some d \<and> ed_reservation_active d \<and> 0 \<le> quantize 4 x")
  case False
  with run have "db' = db"
    by (auto simp: reconcile_reservation_def Let_def split: option.splits if_splits)
  with sys_same [OF sys] show ?thesis by simp
next
  case True
  then obtain d where d: "find_decision db tenant_id decision_id = Some d" "ed_reservation_active d" "0 \<le> quantize 4 x" by blast
  note inv = sys_invD(1) [OF sys] and row = find_decision_SomeD [OF d(1)]
  obtain settlement db1 d' where s:
    "settle_credit_reservations_for_decision db tenant_id d (consumed_credit d (quantize 4 x)) now = Inr (settlement, db1)"
    "d' = reconciled_decision d actor_id (quantize 4 x) (normalized_text notes) (normalized_text key) settlement now"
    "snd (reconcile_reservation sha db tenant_id decision_id actor_id x notes key now) =
       append_decision_ledger_entry sha now d' (get_approval_by_decision db (ed_id d)) (write_decision d' db1)"
    using reconcile_active [OF inv d, of now actor_id "notes" key sha] by (metis snd_conv)
  have db': "db' = append_decision_ledger_entry sha now d' (get_approval_by_decision db (ed_id d)) (write_decision d' db1)"
    using run s(3) by simp
  have c: "cleared d d'" unfolding s(2) by (rule reconciled_cleared)
  have rows: "d \<in> set (db_decisions db)" "ed_tenant_id d = tenant_id" using row by simp_all
  note frame = settle_frame [OF s(1)]
  have "decision_keeps d d'" using c by (simp add: cleared_def)
  note kept = write_decision_kept [OF inv rows(1) this frame(1)]
  show ?thesis unfolding db'
    by (rule sys_step [OF sys append_ledger_inv [OF settled_write(1) [OF inv rows s(1) c]]
          budgets_frame [OF sys_invD(3) [OF sys]]])
      (use frame kept sys_invD(4) [OF sys] in \<open>auto simp: approvals_same\<close>)
qed

lemma overdue_sys:
  assumes sys: "sys_inv db"
    and run: "reconcile_overdue_reservations sha db locked tenant_id actor_id age limit now = (out, db')"
  shows "sys_inv db' \<and> history db db'"
proof -
  note inv = sys_invD(1) [OF sys]
  let ?ds = "overdue_decisions db locked tenant_id (now - seconds (clamp 60 604800 age)) (clamp 1 1000 limit)"
  have rel: "releases_all tenant_id ?ds db db'" and inv': "enf_inv db'"
    using overdue_sweep [OF inv, of sha locked tenant_id actor_id age limit now] run by auto
  have mem: "d \<in> set (db_decisions db)" if "d \<in> set ?ds" for d
    using overdue_releasable [OF inv] that by (simp add: releasable_def)
  have "rows_kept decision_keeps (db_decisions db) (db_decisions db')"
    unfolding rows_kept_def
  proof
    fix x assume x: "x \<in> set (db_decisions db)"
    show "\<exists>y \<in> set (db_decisions db'). decision_keeps x y"
    proof (cases "ed_id x \<in> ed_id ` set ?ds")
      case True
      then obtain d where d: "d \<in> set ?ds" "ed_id x = ed_id d" by auto
      then have "x = d" using owner_unique [OF inv mem [OF d(1)] x] by simp
      with d(1) rel show ?thesis by (auto simp: releases_all_def cleared_def)
    next
      case False
      with x rel show ?thesis by (auto simp: releases_all_def intro: decision_keeps_refl)
    qed
  qed
  with rel sys_invD(4) [OF sys] show ?thesis
    by (intro sys_step [OF sys inv' budgets_frame [OF sys_invD(3) [OF sys]]]) (auto simp: releases_all_def approvals_same)
qed

subsection \<open>Policies, budgets and credit grants\<close>

lemma update_policy_sys:
  assumes sys: "sys_inv db" and run: "update_policy vd sha db tenant_id q = (out, db')"
  shows "sys_inv db' \<and> history db db'"
proof (cases out)
  case (Inl e)
  with run have "db' = db" by (auto simp: update_policy_def Let_def split: sum.splits prod.splits)
  with sys_same [OF sys] show ?thesis by simp
next
  case (Inr p)
  with run obtain p0 db1 where u: "get_or_create_policy vd sha db tenant_id = (Inr p0, db1)" "db' = write_policy p db1"
    by (auto simp: update_policy_def Let_def split: sum.splits prod.splits)
  note frame = get_or_create_policy_frame [OF u(1)]
  have same: "db_grants db' = db_grants db" "db_allocations db' = db_allocations db" "db_decisions db' = db_decisions db"
    "db_approvals db' = db_approvals db" "db_next_id db \<le> db_next_id db'" "db_ledger db' = db_ledger db"
    "db_budgets db' = db_budgets db" "db_actions db' = db_actions db"
    using frame by (simp_all add: u(2) write_policy_def)
  show ?thesis
    by (rule sys_step [OF sys enf_inv_frame [OF sys_invD(1) [OF sys] same(1-5)] budgets_frame [OF sys_invD(3) [OF sys] same(7)] same(8,5)])
      (use same sys_invD(4) [OF sys] in \<open>simp_all add: decisions_same approvals_same\<close>)
qed

lemma upsert_budget_sys:
  assumes sys: "sys_inv db" and run: "upsert_budget db tenant_id actor_id scope_key limit active = (out, db')"
  shows "sys_inv db' \<and> history db db'"
proof (cases out)
  case (Inl e)
  with run have "db' = db" by (auto simp: upsert_budget_def Let_def split: if_splits option.splits)
  with sys_same [OF sys] show ?thesis by simp
next
  case (Inr b)
  have same: "db_grants db' = db_grants db" "db_allocations db' = db_allocations db" "db_decisions db' = db_decisions db"
    "db_approvals db' = db_approvals db" "db_next_id db \<le> db_next_id db'" "db_ledger db' = db_ledger db" "db_actions db' = db_actions db"
    using run by (auto simp: upsert_budget_def Let_def split: if_splits option.splits)
  have "money (quantize 4 limit)" if "\<not> limit < 0" using that by (simp add: money_def)
  then have "budgets_ok db'"
    using run Inr sys_invD(3) [OF sys]
    by (auto simp: upsert_budget_def Let_def budgets_ok_def set_update_where split: if_splits option.splits dest: first_row_SomeD)
  then show ?thesis
    by (rule sys_step [OF sys enf_inv_frame [OF sys_invD(1) [OF sys] same(1-5)] _ same(7,5)])
      (use same sys_invD(4) [OF sys] in \<open>simp_all add: decisions_same approvals_same\<close>)
qed

lemma grant_inv:
  assumes inv: "enf_inv db" and wf: "credit_wf db'"
    and same: "db_allocations db' = db_allocations db" "db_decisions db' = db_decisions db" "db_approvals db' = db_approvals db"
      "db_next_id db \<le> db_next_id db'"
  shows "enf_inv db'"
proof -
  have "decision_ok db' d" if "decision_ok db d" for d
    using that same(4) covered_cong [OF same(1)] by (auto simp: decision_ok_def)
  moreover have "allocation_owned db' = allocation_owned db" using same(2) by (auto simp: fun_eq_iff allocation_owned_def)
  moreover have "approval_owned db' a" if "approval_owned db a" for a
    using that same(2,4) by (auto simp: approval_owned_def)
  ultimately show ?thesis using inv wf same by (simp add: enf_inv_def)
qed

lemma create_grant_sys:
  assumes sys: "sys_inv db" and run: "create_credit_grant db tenant_id actor_id pool scope amount expires reason now = (out, db')"
  shows "sys_inv db' \<and> history db db'"
proof -
  have same: "db_allocations db' = db_allocations db" "db_decisions db' = db_decisions db" "db_approvals db' = db_approvals db"
    "db_next_id db \<le> db_next_id db'" "db_ledger db' = db_ledger db" "db_actions db' = db_actions db" "db_budgets db' = db_budgets db"
    using run by (auto simp: create_credit_grant_def Let_def split: if_splits)
  have "credit_wf db'"
    using create_credit_grant_wf [OF enf_invD(1) [OF sys_invD(1) [OF sys]], of tenant_id actor_id pool scope amount expires reason now] run by simp
  note inv' = grant_inv [OF sys_invD(1) [OF sys] this same(1-4)]
  show ?thesis
    by (rule sys_step [OF sys inv' budgets_frame [OF sys_invD(3) [OF sys] same(7)] same(6,4)])
      (use same sys_invD(4) [OF sys] in \<open>simp_all add: decisions_same approvals_same\<close>)
qed

subsection \<open>Actions\<close>

lemma actions_sys:
  assumes sys: "sys_inv db" and steps: "actions_steps db db'"
    and gated: "\<And>x. x \<in> set (db_actions db') \<Longrightarrow> ax_id x \<notin> ax_id ` set (db_actions db) \<Longrightarrow> action_gated db x"
  shows "sys_inv db' \<and> history db db'"
proof -
  note frame = actions_steps_frame [OF steps]
  have h: "history db db'"
    using frame actions_steps_row [OF steps] by (auto simp: history_def decisions_same approvals_same rows_kept_def [of "action_step\<^sup>*\<^sup>*"])
  have inv': "act_inv db'" by (rule table.run_inv [OF steps sys_invD(2) [OF sys]])
  have "action_gated db' x" if x: "x \<in> set (db_actions db')" for x
  proof (cases "ax_id x \<in> ax_id ` set (db_actions db)")
    case False
    with gated x action_gated_history [OF h] show ?thesis by blast
  next
    case True
    then obtain y where y: "y \<in> set (db_actions db)" "ax_id y = ax_id x" by auto
    obtain z where z: "z \<in> set (db_actions db')" "same_action y z"
      using actions_steps_row [OF steps y(1)] action_steps_same by blast
    have "z = x" using z(1) x same_action_simps(1) [OF z(2)] y(2) inv' by (auto simp: act_inv_def distinct_map inj_on_def)
    with same_action_simps(6,7) [OF z(2)] action_gated_history [OF h sys_invD(5) [OF sys y(1)]] show ?thesis
      by (simp add: action_gated_def)
  qed
  moreover have "enf_inv db'" by (rule enf_inv_frame [OF sys_invD(1) [OF sys] frame(3,4,1,2,8)])
  moreover have "budgets_ok db'" by (rule budgets_frame [OF sys_invD(3) [OF sys] frame(7)])
  ultimately show ?thesis using inv' h sys_invD(4) [OF sys] frame(2) by (simp add: sys_inv_def)
qed

lemma same_ids_sys:
  assumes "sys_inv db" "actions_steps db db'" "map ax_id (db_actions db') = map ax_id (db_actions db)"
  shows "sys_inv db' \<and> history db db'"
  by (rule actions_sys [OF assms(1,2)]) (use arg_cong [OF assms(3), of set] in auto)

lemma write_action_ids: "map ax_id (db_actions (write_action a db)) = map ax_id (db_actions db)"
  by (simp add: write_action_def update_where_def)

lemma finish_sys:
  assumes sys: "sys_inv db" and step: "db' = db \<or> actions_step db db'" and "db' = db \<or> (\<exists>a. db' = write_action a db)"
  shows "sys_inv db' \<and> history db db'"
  using assms(3) step sys_same [OF sys] same_ids_sys [OF sys, of db'] write_action_ids by auto

lemma complete_sys:
  assumes sys: "sys_inv db" and run: "complete_action sha db tenant_id action_id worker_id payload now = (out, db')"
  shows "sys_inv db' \<and> history db db'"
  by (rule finish_sys [OF sys complete_step [OF sys_invD(2) [OF sys] run]])
    (use run in \<open>auto simp: complete_action_def Let_def split: sum.splits\<close>)

lemma fail_sys:
  assumes sys: "sys_inv db" and run: "fail_action sha db tenant_id action_id worker_id code message retryable payload now = (out, db')"
  shows "sys_inv db' \<and> history db db'"
  by (rule finish_sys [OF sys fail_step [OF sys_invD(2) [OF sys] run]])
    (use run in \<open>auto simp: fail_action_def Let_def split: sum.splits\<close>)

lemma cancel_sys:
  assumes sys: "sys_inv db" and run: "cancel_action sha db tenant_id action_id actor_id reason now = (out, db')"
  shows "sys_inv db' \<and> history db db'"
  by (rule finish_sys [OF sys cancel_step [OF sys_invD(2) [OF sys] run]])
    (use run in \<open>auto simp: cancel_action_def Let_def split: sum.splits if_splits\<close>)

lemma lease_ids:
  "map ax_id (db_actions (snd (lease_loop n (\<lambda>_ db. db) db tenant_id w action_type as_of))) = map ax_id (db_actions db)"
  by (induction n) (auto simp: Let_def update_where_def leased_by_def split: option.splits)

lemma lease_sys:
  assumes sys: "sys_inv db" and run: "lease_next_action (\<lambda>_ db. db) db tenant_id w action_type now = (out, db')"
  shows "sys_inv db' \<and> history db db'"
proof -
  have run: "lease_loop 5 (\<lambda>_ db. db) db tenant_id w action_type now = (out, db')" using run by (simp add: lease_next_action_def)
  have "actions_steps db db'" using lease_loop_facts [OF no_others_ok sys_invD(2) [OF sys] run] by blast
  then show ?thesis
    using same_ids_sys [OF sys] lease_ids [of 5 db tenant_id w action_type now] run by simp
qed

lemma create_action_sys:
  assumes sys: "sys_inv db" and run: "create_action_request vd sha db tenant_id actor_id decision_id q now = (out, db')"
  shows "sys_inv db' \<and> history db db'"
  using run
proof (cases rule: create_action_cases)
  case (allowed d approval approval_id controls action)
  note gate = allowed_gate [OF allowed(2,3)]
  have keys: "ax_decision_id action = decision_id" "ax_tenant_id action = tenant_id"
    using gate(2) by (simp_all add: allowed(5) new_action_def owner_key_def split: prod.split)
  then have gated: "action_gated db action" using gate by (auto simp: action_gated_def)
  have rows: "db_actions db' = db_actions db \<or> db_actions db' = db_actions db @ [action]"
    using allowed(6) by (auto simp: commit_action_def split: option.splits)
  have "actions_steps db db'" using create_action_step [OF run] by auto
  then show ?thesis by (rule actions_sys [OF sys]) (use rows gated in auto)
qed (use sys_same [OF sys] in simp)

subsection \<open>The transition system\<close>

inductive enf_step :: "enf_db \<Rightarrow> enf_db \<Rightarrow> bool" where
  gate: "0 \<le> gi_estimated_monthly_delta_usd gi \<Longrightarrow> evaluate_gate vd sha env db tenant_id actor_id source gi = (gate_out, db')
    \<Longrightarrow> enf_step db db'"
| fail_safe: "resolve_fail_safe_gate vd sha env db tenant_id actor_id source gi code metadata = (gate_out, db') \<Longrightarrow> enf_step db db'"
| request_approval: "create_or_get_approval_request vd sha db tenant_id actor_id decision_id notes now = (approval_out, db') \<Longrightarrow> enf_step db db'"
| approve: "approve_request identity vd sha jwt st db tenant_id approval_id reviewer notes now = (approve_out, db') \<Longrightarrow> enf_step db db'"
| deny: "deny_request identity vd sha db tenant_id approval_id reviewer notes now = (deny_out, db') \<Longrightarrow> enf_step db db'"
| consume: "consume_approval_token sha jwt st db tenant_id token user expected now = (deny_out, db') \<Longrightarrow> enf_step db db'"
| reconcile: "reconcile_reservation sha db tenant_id decision_id actor_id x notes key now = (reconcile_out, db') \<Longrightarrow> enf_step db db'"
| sweep: "reconcile_overdue_reservations sha db locked tenant_id actor_id age limit now = (sweep_out, db') \<Longrightarrow> enf_step db db'"
| policy: "update_policy vd sha db tenant_id q = (policy_out, db') \<Longrightarrow> enf_step db db'"
| budget: "upsert_budget db tenant_id actor_id scope_key monthly_limit active = (budget_out, db') \<Longrightarrow> enf_step db db'"
| grant: "create_credit_grant db tenant_id actor_id pool scope_key amount expires reason now = (grant_out, db') \<Longrightarrow> enf_step db db'"
| create_action: "create_action_request vd sha db tenant_id actor_id decision_id aq now = (action_out, db') \<Longrightarrow> enf_step db db'"
| lease_action: "lease_next_action (\<lambda>_ db. db) db tenant_id worker_id action_type now = (lease_out, db') \<Longrightarrow> enf_step db db'"
| complete_action: "complete_action sha db tenant_id action_id worker_id payload now = (action_out, db') \<Longrightarrow> enf_step db db'"
| fail_action: "fail_action sha db tenant_id action_id worker_id code message retryable payload now = (action_out, db') \<Longrightarrow> enf_step db db'"
| cancel_action: "cancel_action sha db tenant_id action_id actor_id reason now = (action_out, db') \<Longrightarrow> enf_step db db'"

lemmas sys_steps = gate_sys fail_safe_sys create_sys approve_sys deny_sys consume_sys reconcile_sys overdue_sys
  update_policy_sys upsert_budget_sys create_grant_sys create_action_sys lease_sys complete_sys fail_sys cancel_sys

lemma enf_step_sys: "enf_step db db' \<Longrightarrow> sys_inv db \<Longrightarrow> sys_inv db' \<and> history db db'"
  by (induction rule: enf_step.induct) (rule sys_steps; assumption)+

interpretation plane: monotone_machine enf_step sys_inv history
  using enf_step_sys history_refl history_trans by unfold_locales blast+

lemma empty_db_sys: "sys_inv empty_db"
  using empty_db_inv by (simp add: sys_inv_def act_inv_def budgets_ok_def) (simp add: empty_db_def)

subsection \<open>A sample state\<close>

lemma sample_review_sys: "sys_inv sample_review_db"
  using sample_review_inv
  by (simp add: sys_inv_def act_inv_def budgets_ok_def) (simp add: sample_review_db_def empty_db_def approval_ok_def sample_approval_def)

end
