(* ===== verification/Enf_Export_Theorems.thy ===== *)
theory Enf_Export_Theorems
  imports Enf_Export Enf_System
begin

text \<open>
  What an export promises: its lineage counts every exported decision once, its CSV texts hold exactly
  the rows and no cell that a spreadsheet would run, its parity flag detects decisions that entered the
  window while it was built, and its manifest signs all of it.
\<close>

subsection \<open>Lineage\<close>

lemma lineage_counts_snoc: "lineage_counts (keys @ [k]) = count_key k (lineage_counts keys)"
  by (simp add: lineage_counts_def)

lemma map_of_lineage_counts:
  "map_of (lineage_counts keys) k = (if k \<in> set keys then Some (count_list keys k) else None)"
  by (induction keys rule: rev_induct)
    (auto simp: lineage_counts_snoc count_key_def update_conv' lineage_counts_def [of "[]"] count_list_0_iff)

lemma lineage_counts_keys: "distinct (map fst (lineage_counts keys))" "set (map fst (lineage_counts keys)) = set keys"
proof -
  show "distinct (map fst (lineage_counts keys))"
    by (induction keys rule: rev_induct)
      (simp_all add: lineage_counts_snoc count_key_def distinct_update lineage_counts_def [of "[]"])
  show "set (map fst (lineage_counts keys)) = set keys"
    using map_of_lineage_counts [of keys] by (auto simp: dom_map_of_conv_image_fst [symmetric] split: if_splits)
qed

lemma lineage_rows_exact:
  "lineage_rows keys = map (\<lambda>k. (k, count_list keys k)) (sorted_list_of_set (set keys))"
proof -
  have "sort (map fst (lineage_counts keys)) = sorted_list_of_set (set keys)"
    using lineage_counts_keys [of keys] by (metis sorted_list_of_set_sort_remdups distinct_remdups_id)
  then show ?thesis
    by (auto simp: lineage_rows_def Let_def map_of_lineage_counts intro!: map_cong)
qed

lemma lineage_rows_total: "sum_list (map snd (lineage_rows keys)) = length keys"
proof -
  have "sum_list (map snd (lineage_rows keys)) = sum_list (map (count_list keys) (sorted_list_of_set (set keys)))"
    by (simp add: lineage_rows_exact comp_def)
  also have "\<dots> = sum (count_list keys) (set keys)" by (simp add: sum_list_distinct_conv_sum_set)
  also have "\<dots> = length keys" by (simp add: sum_count_set)
  finally show ?thesis .
qed

subsection \<open>CSV\<close>

definition safe_cell :: "string \<Rightarrow> bool" where
  "safe_cell s \<longleftrightarrow> (\<forall>c \<in> set s. \<not> newline c)
     \<and> (s = [] \<or> hd s \<notin> {CHR ''='', CHR ''+'', CHR ''-'', CHR ''@''})"

lemma safe_sanitized: "safe_cell (sanitize_csv_cell v)"
  by (auto simp: safe_cell_def sanitize_csv_cell_def sanitize_csv_text_def newline_to_space_def newline_def Let_def)

lemma safe_decision_cells: "list_all safe_cell (decision_cells d) \<and> length (decision_cells d) = 36"
  by (simp add: decision_cells_def Let_def safe_sanitized)

lemma safe_approval_cells: "list_all safe_cell (approval_cells a) \<and> length (approval_cells a) = 17"
  by (simp add: approval_cells_def Let_def safe_sanitized)

lemma render_decisions_read: "csv_read (render_decisions_csv ds) = decisions_headers # map decision_cells ds"
  unfolding render_decisions_csv_def
  by (rule csv_roundtrip) (simp add: decisions_headers_def decision_cells_def Let_def)

lemma render_approvals_read: "csv_read (render_approvals_csv as) = approvals_headers # map approval_cells as"
  unfolding render_approvals_csv_def
  by (rule csv_roundtrip) (simp add: approvals_headers_def approval_cells_def Let_def)

subsection \<open>Parity\<close>

lemma window_ids_grow:
  assumes "history db db'"
  shows "ed_id ` set (filter (in_window t s e) (db_decisions db)) \<subseteq> ed_id ` set (filter (in_window t s e) (db_decisions db'))"
proof
  fix i assume "i \<in> ed_id ` set (filter (in_window t s e) (db_decisions db))"
  then obtain d where d: "d \<in> set (db_decisions db)" "in_window t s e d" "i = ed_id d" by auto
  from assms d(1) obtain d' where "d' \<in> set (db_decisions db')" "decision_keeps d d'"
    by (auto simp: history_def rows_kept_def)
  then have "d' \<in> set (filter (in_window t s e) (db_decisions db'))" "i = ed_id d'"
    using d(2,3) by (auto simp: decision_keeps_def owner_key_def in_window_def)
  then show "i \<in> ed_id ` set (filter (in_window t s e) (db_decisions db'))" by blast
qed

lemma window_ids_card:
  assumes "enf_inv db"
  shows "card (ed_id ` set (filter p (db_decisions db))) = length (filter p (db_decisions db))"
  using distinct_map_filter [OF enf_invD(2) [OF assms]] by (metis distinct_card length_map set_map)

lemma counted_once:
  assumes "distinct (map ed_id ds)"
  shows "length (filter (\<lambda>d. ed_id d = i \<and> p d) ds) = (if i \<in> ed_id ` set (filter p ds) then 1 else 0)"
  using assms by (induction ds) (auto simp: filter_empty_conv)

lemma count_if_filter: "sum_list (map (\<lambda>a. if p a then 1 else 0) (filter q xs)) = length (filter (\<lambda>a. q a \<and> p a) xs)"
  by (induction xs) simp_all

lemma exported_length: "length (exported_decisions db t s e) = length (filter (in_window t s e) (db_decisions db))"
  by (simp add: exported_decisions_def)

lemma counted_approvals_exact:
  assumes "enf_inv db"
  shows "counted_approvals db t s e = length (exported_approvals db t (exported_decisions db t s e))"
proof -
  let ?ids = "ed_id ` set (filter (in_window t s e) (db_decisions db))"
  have "counted_approvals db t s e
      = sum_list (map (\<lambda>a. if ar_decision_id a \<in> ?ids then 1 else 0) (filter (\<lambda>a. ar_tenant_id a = t) (db_approvals db)))"
    using counted_once [OF enf_invD(2) [OF assms], where p = "in_window t s e"]
    by (simp add: counted_approvals_def length_concat comp_def del: set_filter)
  also have "\<dots> = length (filter (\<lambda>a. ar_tenant_id a = t \<and> ar_decision_id a \<in> ?ids) (db_approvals db))"
    by (rule count_if_filter)
  also have "\<dots> = length (exported_approvals db t (exported_decisions db t s e))"
  proof (cases "exported_decisions db t s e = []")
    case True
    then have "filter (in_window t s e) (db_decisions db) = []" using exported_length [of db t s e] by simp
    with True show ?thesis by (simp add: exported_approvals_def)
  next
    case False
    then show ?thesis by (simp add: exported_approvals_def) (simp add: exported_decisions_def)
  qed
  finally show ?thesis .
qed

lemma build_export_bundleE:
  assumes "build_export_bundle sha db1 db2 db3 db4 t start finish max_rows now = Inr b"
  obtains "eb_decision_count_db b = length (filter (in_window t start finish) (db_decisions db1))"
    "eb_decision_count_exported b = length (exported_decisions db2 t start finish)"
    "eb_approval_count_db b = counted_approvals db3 t start finish"
    "eb_approval_count_exported b = length (exported_approvals db4 t (exported_decisions db2 t start finish))"
    "eb_decisions_csv b = render_decisions_csv (exported_decisions db2 t start finish)"
    "eb_approvals_csv b = render_approvals_csv (exported_approvals db4 t (exported_decisions db2 t start finish))"
    "eb_policy_lineage b = policy_lineage (exported_decisions db2 t start finish)"
    "eb_computed_context_lineage b = computed_context_lineage (exported_decisions db2 t start finish)"
    "eb_parity_ok b \<longleftrightarrow> eb_decision_count_db b = eb_decision_count_exported b \<and> eb_approval_count_db b = eb_approval_count_exported b"
    "int (eb_decision_count_db b) \<le> max_rows" "1 \<le> max_rows" "max_rows \<le> 50000" "start < finish"
  using assms by (auto simp: build_export_bundle_def Let_def count_where_def split: if_splits)

text \<open>
  The parity flag of an export is reliable while other operations run between its queries: it says
  that no decision entered the window between counting and reading, that as many approvals were
  exported as were counted and that the row limit holds for what was exported; and an export that
  nothing interferes with always has parity.
\<close>

theorem export_parity:
  assumes "sys_inv db1" and "enf_step\<^sup>*\<^sup>* db1 db2"
    and "build_export_bundle sha db1 db2 db3 db4 t start finish max_rows now = Inr b"
  shows "(eb_parity_ok b \<longleftrightarrow>
      {ed_id d |d. d \<in> set (db_decisions db2) \<and> in_window t start finish d}
        = {ed_id d |d. d \<in> set (db_decisions db1) \<and> in_window t start finish d}
      \<and> eb_approval_count_db b = eb_approval_count_exported b)
    \<and> (eb_parity_ok b \<longrightarrow> int (length (csv_read (eb_decisions_csv b))) \<le> max_rows + 1)
    \<and> (db2 = db1 \<and> db3 = db1 \<and> db4 = db1 \<longrightarrow> eb_parity_ok b)"
proof -
  let ?w = "\<lambda>db. filter (in_window t start finish) (db_decisions db)"
  note inv1 = sys_invD(1) [OF assms(1)]
  note inv2 = sys_invD(1) [OF plane.run_inv [OF assms(2,1)]]
  have ids: "{ed_id d |d. d \<in> set (db_decisions db) \<and> in_window t start finish d} = ed_id ` set (?w db)" for db by auto
  have grow: "ed_id ` set (?w db1) \<subseteq> ed_id ` set (?w db2)"
    by (rule window_ids_grow) (rule plane.run_below [OF assms(2,1)])
  have same: "length (?w db1) = length (?w db2) \<longleftrightarrow> ed_id ` set (?w db2) = ed_id ` set (?w db1)"
    using grow card_subset_eq [OF _ grow] window_ids_card [OF inv1] window_ids_card [OF inv2] by (metis List.finite_set finite_imageI)
  show ?thesis
    by (rule build_export_bundleE [OF assms(3)])
      (use same counted_approvals_exact [OF inv1] in \<open>auto simp: ids exported_length render_decisions_read simp del: set_filter\<close>)
qed

lemma sample_export:
  obtains b where "build_export_bundle id sample_review_db sample_review_db sample_review_db sample_review_db 7 0 1000 5 2000 = Inr b"
    "eb_decision_count_exported b = 1"
proof -
  have "in_window 7 0 1000 sample_review_decision"
    by (simp add: in_window_def sample_review_decision_def sample_decision_def)
  then have "filter (in_window 7 0 1000) (db_decisions sample_review_db) = [sample_review_decision]"
    by (simp add: sample_review_db_def)
  then show ?thesis
    using that by (simp add: build_export_bundle_def Let_def count_where_def exported_decisions_def)
qed

lemma export_parity_witness:
  "\<exists>b. build_export_bundle id sample_review_db sample_review_db sample_review_db sample_review_db 7 0 1000 5 2000 = Inr b
     \<and> eb_decision_count_exported b = 1 \<and> eb_parity_ok b"
proof -
  obtain b where b: "build_export_bundle id sample_review_db sample_review_db sample_review_db sample_review_db 7 0 1000 5 2000 = Inr b"
    "eb_decision_count_exported b = 1" by (rule sample_export)
  with export_parity [OF sample_review_sys rtranclp.rtrancl_refl b(1)] show ?thesis by blast
qed

text \<open>
  C31. The lineage of an export counts every exported decision exactly once: its rows are those of the
  distinct policy references (and of the distinct computed contexts) in ascending order, each with the
  number of decisions made under it, and the numbers add up to the number of exported decisions.
\<close>

theorem export_lineage_exact:
  assumes "build_export_bundle sha db1 db2 db3 db4 t start finish max_rows now = Inr b"
  shows "eb_policy_lineage b = map (\<lambda>k. policy_row (k, count_list (map policy_key (exported_decisions db2 t start finish)) k))
        (sorted_list_of_set (policy_key ` {d \<in> set (db_decisions db2). in_window t start finish d}))
    \<and> eb_computed_context_lineage b
      = map (\<lambda>k. context_row (k, count_list (map context_key_of (exported_decisions db2 t start finish)) k))
        (sorted_list_of_set (context_key_of ` {d \<in> set (db_decisions db2). in_window t start finish d}))
    \<and> sum_list (map snd (lineage_rows (map policy_key (exported_decisions db2 t start finish)))) = eb_decision_count_exported b
    \<and> sum_list (map snd (lineage_rows (map context_key_of (exported_decisions db2 t start finish)))) = eb_decision_count_exported b"
proof -
  have members: "set (exported_decisions db2 t start finish) = {d \<in> set (db_decisions db2). in_window t start finish d}"
    by (simp add: exported_decisions_def)
  show ?thesis
    by (rule build_export_bundleE [OF assms])
      (simp add: policy_lineage_def computed_context_lineage_def lineage_rows_total members [symmetric],
       simp add: lineage_rows_exact comp_def)
qed

lemma export_lineage_exact_witness:
  "\<exists>b. build_export_bundle id sample_review_db sample_review_db sample_review_db sample_review_db 7 0 1000 5 2000 = Inr b
     \<and> sum_list (map snd (lineage_rows (map policy_key (exported_decisions sample_review_db 7 0 1000)))) = 1"
  by (rule sample_export) (use export_lineage_exact in fastforce)

text \<open>
  The CSV texts of an export hold exactly its rows: read back they give the header and one row per
  decision in the order of creation (one per approval), with 36 (17) cells each, and no cell of a row
  contains a line break or begins with a character that makes a spreadsheet evaluate it.
\<close>

theorem export_csv_roundtrip:
  assumes "build_export_bundle sha db1 db2 db3 db4 t start finish max_rows now = Inr b"
  shows "csv_read (eb_decisions_csv b) = decisions_headers # map decision_cells (exported_decisions db2 t start finish)
    \<and> csv_read (eb_approvals_csv b)
      = approvals_headers # map approval_cells (exported_approvals db4 t (exported_decisions db2 t start finish))
    \<and> (\<forall>row \<in> set (tl (csv_read (eb_decisions_csv b))). length row = length decisions_headers \<and> list_all safe_cell row)
    \<and> (\<forall>row \<in> set (tl (csv_read (eb_approvals_csv b))). length row = length approvals_headers \<and> list_all safe_cell row)"
  by (rule build_export_bundleE [OF assms])
    (auto simp: render_decisions_read render_approvals_read safe_decision_cells safe_approval_cells,
     simp_all add: decisions_headers_def approvals_headers_def)

lemma export_csv_roundtrip_witness:
  "\<exists>b. build_export_bundle id sample_review_db sample_review_db sample_review_db sample_review_db 7 0 1000 5 2000 = Inr b
     \<and> csv_read (eb_decisions_csv b) = decisions_headers # map decision_cells (exported_decisions sample_review_db 7 0 1000)"
  by (rule sample_export) (use export_csv_roundtrip in blast)

subsection \<open>The manifest\<close>

lemma uuid_text_inject: "uuid_text i = uuid_text j \<Longrightarrow> i = j"
  by (metis parse_uuid_text option.inject)

lemma signing_secret_long:
  assumes "resolve_manifest_signing_secret configured fallback = Inr secret"
  shows "32 \<le> length secret \<and> secret \<in> {strip configured, strip fallback}"
  using assms by (auto simp: resolve_manifest_signing_secret_def Let_def split: if_splits)

lemma manifest_content_distinct: "distinct (map fst (manifest_content t b))"
  by (simp add: manifest_content_def)

lemma manifest_content_inject:
  assumes "canonical_json (manifest_content t b) = canonical_json (manifest_content u c)"
  shows "t = u \<and> isoformat (eb_window_start b) = isoformat (eb_window_start c)
    \<and> isoformat (eb_window_end b) = isoformat (eb_window_end c)
    \<and> eb_decision_count_db b = eb_decision_count_db c \<and> eb_decision_count_exported b = eb_decision_count_exported c
    \<and> eb_approval_count_db b = eb_approval_count_db c \<and> eb_approval_count_exported b = eb_approval_count_exported c
    \<and> eb_decisions_sha256 b = eb_decisions_sha256 c \<and> eb_approvals_sha256 b = eb_approvals_sha256 c
    \<and> eb_policy_lineage_sha256 b = eb_policy_lineage_sha256 c
    \<and> eb_computed_context_lineage_sha256 b = eb_computed_context_lineage_sha256 c
    \<and> canon_of (lineage_json (eb_policy_lineage b)) = canon_of (lineage_json (eb_policy_lineage c))
    \<and> canon_of (lineage_json (eb_computed_context_lineage b)) = canon_of (lineage_json (eb_computed_context_lineage c))
    \<and> eb_parity_ok b = eb_parity_ok c"
proof -
  have "canon_of (JObj (manifest_content t b)) = canon_of (JObj (manifest_content u c))"
    using assms by (intro json_dumps_inject) (simp only: canonical_json_def)
  then have member: "canon_of (dict_get (manifest_content t b) k) = canon_of (dict_get (manifest_content u c) k)" for k
    by (rule canon_member) (rule manifest_content_distinct)+
  show ?thesis
    using member [of "''tenant_id''"] member [of "''window_start''"] member [of "''window_end''"]
      member [of "''decision_count_db''"] member [of "''decision_count_exported''"] member [of "''approval_count_db''"]
      member [of "''approval_count_exported''"] member [of "''decisions_sha256''"] member [of "''approvals_sha256''"]
      member [of "''policy_lineage_sha256''"] member [of "''policy_lineage''"] member [of "''computed_context_lineage_sha256''"]
      member [of "''computed_context_lineage''"] member [of "''parity_ok''"]
    by (simp add: manifest_content_def uuid_text_inject lineage_json_def)
qed

lemma manifest_fields:
  assumes "build_signed_export_manifest sha hmac st t b = Inr m"
  shows "em_tenant_id m = t" "em_canonical_content_json m = canonical_json (manifest_content t b)"
    "em_window_start m = eb_window_start b" "em_window_end m = eb_window_end b"
    "em_decision_count_db m = eb_decision_count_db b" "em_decision_count_exported m = eb_decision_count_exported b"
    "em_approval_count_db m = eb_approval_count_db b" "em_approval_count_exported m = eb_approval_count_exported b"
    "em_decisions_sha256 m = eb_decisions_sha256 b" "em_approvals_sha256 m = eb_approvals_sha256 b"
    "em_policy_lineage_sha256 m = eb_policy_lineage_sha256 b" "em_policy_lineage m = eb_policy_lineage b"
    "em_computed_context_lineage_sha256 m = eb_computed_context_lineage_sha256 b"
    "em_computed_context_lineage m = eb_computed_context_lineage b" "em_parity_ok m = eb_parity_ok b"
  using assms by (auto simp: build_signed_export_manifest_def Let_def)

lemma manifest_inject:
  assumes "build_signed_export_manifest sha' hmac' st' u c = Inr m'" "build_signed_export_manifest sha hmac st t b = Inr m"
    and "em_canonical_content_json m' = em_canonical_content_json m"
  shows "em_tenant_id m' = em_tenant_id m
    \<and> isoformat (em_window_start m') = isoformat (em_window_start m) \<and> isoformat (em_window_end m') = isoformat (em_window_end m)
    \<and> em_decision_count_db m' = em_decision_count_db m \<and> em_decision_count_exported m' = em_decision_count_exported m
    \<and> em_approval_count_db m' = em_approval_count_db m \<and> em_approval_count_exported m' = em_approval_count_exported m
    \<and> em_decisions_sha256 m' = em_decisions_sha256 m \<and> em_approvals_sha256 m' = em_approvals_sha256 m
    \<and> em_policy_lineage_sha256 m' = em_policy_lineage_sha256 m
    \<and> em_computed_context_lineage_sha256 m' = em_computed_context_lineage_sha256 m
    \<and> canon_of (lineage_json (em_policy_lineage m')) = canon_of (lineage_json (em_policy_lineage m))
    \<and> canon_of (lineage_json (em_computed_context_lineage m')) = canon_of (lineage_json (em_computed_context_lineage m))
    \<and> em_parity_ok m' = em_parity_ok m"
  using manifest_content_inject [of u c t b] assms(3)
  unfolding manifest_fields [OF assms(1)] manifest_fields [OF assms(2)] by blast

text \<open>
  A manifest signs everything it states: its signature is the HMAC, under a configured secret of at
  least 32 characters, of a text that determines the tenant, the window, all counts, all hashes, both
  lineages and the parity flag, so two manifests that differ in one of them sign different texts; and
  without such a secret no manifest is made.
\<close>

theorem manifest_signs_content:
  assumes "build_signed_export_manifest sha hmac st t b = Inr m"
  shows "(\<exists>secret. 32 \<le> length secret \<and> secret \<in> {strip (es_export_signing_secret st), strip (es_supabase_jwt_secret st)}
        \<and> em_signature m = hmac secret (em_canonical_content_json m))
    \<and> em_content_sha256 m = sha (em_canonical_content_json m)
    \<and> (\<forall>sha' hmac' st' u c m'. build_signed_export_manifest sha' hmac' st' u c = Inr m'
        \<and> em_canonical_content_json m' = em_canonical_content_json m \<longrightarrow>
          em_tenant_id m' = em_tenant_id m
          \<and> isoformat (em_window_start m') = isoformat (em_window_start m) \<and> isoformat (em_window_end m') = isoformat (em_window_end m)
          \<and> em_decision_count_db m' = em_decision_count_db m \<and> em_decision_count_exported m' = em_decision_count_exported m
          \<and> em_approval_count_db m' = em_approval_count_db m \<and> em_approval_count_exported m' = em_approval_count_exported m
          \<and> em_decisions_sha256 m' = em_decisions_sha256 m \<and> em_approvals_sha256 m' = em_approvals_sha256 m
          \<and> em_policy_lineage_sha256 m' = em_policy_lineage_sha256 m
          \<and> em_computed_context_lineage_sha256 m' = em_computed_context_lineage_sha256 m
          \<and> canon_of (lineage_json (em_policy_lineage m')) = canon_of (lineage_json (em_policy_lineage m))
          \<and> canon_of (lineage_json (em_computed_context_lineage m')) = canon_of (lineage_json (em_computed_context_lineage m))
          \<and> em_parity_ok m' = em_parity_ok m)"
proof -
  from assms obtain secret where secret: "resolve_manifest_signing_secret (es_export_signing_secret st) (es_supabase_jwt_secret st) = Inr secret"
    and m: "em_signature m = hmac secret (canonical_json (manifest_content t b))"
      "em_canonical_content_json m = canonical_json (manifest_content t b)"
    by (auto simp: build_signed_export_manifest_def Let_def)
  have "\<exists>secret. 32 \<le> length secret \<and> secret \<in> {strip (es_export_signing_secret st), strip (es_supabase_jwt_secret st)}
        \<and> em_signature m = hmac secret (em_canonical_content_json m)"
    using signing_secret_long [OF secret] m by auto
  moreover have "em_content_sha256 m = sha (em_canonical_content_json m)"
    using assms by (auto simp: build_signed_export_manifest_def Let_def)
  ultimately show ?thesis using manifest_inject [OF _ assms] by blast
qed

lemma manifest_signs_content_witness:
  "\<exists>b m. build_signed_export_manifest id (@) \<lparr>es_export_signing_secret = replicate 40 CHR ''k'', es_supabase_jwt_secret = '''',
         es_export_signing_kid = '''', es_jwt_signing_kid = ''''\<rparr> 7 b = Inr m
       \<and> em_content_sha256 m = em_canonical_content_json m"
proof -
  let ?st = "\<lparr>es_export_signing_secret = replicate 40 CHR ''k'', es_supabase_jwt_secret = '''',
         es_export_signing_kid = '''', es_jwt_signing_kid = ''''\<rparr>"
  obtain b where "build_export_bundle id sample_review_db sample_review_db sample_review_db sample_review_db 7 0 1000 5 2000 = Inr b"
    by (rule sample_export)
  have "strip (replicate 40 CHR ''k'') = replicate 40 CHR ''k''" by (rule strip_no_space) (simp add: py_space_def)
  then obtain m where m: "build_signed_export_manifest id (@) ?st 7 b = Inr m"
    by (simp add: build_signed_export_manifest_def resolve_manifest_signing_secret_def Let_def)
  with manifest_signs_content [OF m] show ?thesis by auto
qed

end
