(* ===== verification/Enf_Worker.thy ===== *)
theory Enf_Worker
  imports Enf_System
begin

text \<open>
  The periodic worker of src/app/modules/enforcement/domain/reconciliation_worker.py: it reads its
  limits from the settings, runs the overdue sweep for a tenant, scans the reconciled decisions for
  drift and raises alerts. The notification dispatcher is the argument \<open>dispatch\<close>, which says what
  exception an alert ends in; an alert carries the values its message prints. What other transactions
  commit between the sweep and the scan is the argument \<open>others\<close>.
\<close>

subsection \<open>Settings\<close>

text \<open>\<open>int(value)\<close> and \<open>Decimal(str(value))\<close> of a setting, with the default where they raise.\<close>

definition as_int :: "json \<Rightarrow> int \<Rightarrow> int" where
  "as_int value dflt = (case claim_int value of None \<Rightarrow> dflt | Some n \<Rightarrow> n)"

definition as_decimal :: "json \<Rightarrow> rat \<Rightarrow> rat" where
  "as_decimal value dflt = (case parse_decimal (py_str value) of None \<Rightarrow> dflt | Some r \<Rightarrow> r)"

record worker_settings =
  ws_sla_seconds :: int
  ws_sweep_max_releases :: int
  ws_exception_scan_limit :: int
  ws_drift_alert_threshold_usd :: rat
  ws_drift_alert_exception_count :: int

definition worker_settings_of :: "dict \<Rightarrow> worker_settings" where
  "worker_settings_of raw =
     \<lparr>ws_sla_seconds = max 60 (min (as_int (dict_get_default raw
        ''ENFORCEMENT_RESERVATION_RECONCILIATION_SLA_SECONDS'' (JInt 86400)) 86400) 604800),
      ws_sweep_max_releases = max 1 (min (as_int (dict_get_default raw
        ''ENFORCEMENT_RECONCILIATION_SWEEP_MAX_RELEASES'' (JInt 500)) 500) 1000),
      ws_exception_scan_limit = max 1 (min (as_int (dict_get_default raw
        ''ENFORCEMENT_RECONCILIATION_EXCEPTION_SCAN_LIMIT'' (JInt 200)) 200) 1000),
      ws_drift_alert_threshold_usd = max 0 (as_decimal (dict_get_default raw
        ''ENFORCEMENT_RECONCILIATION_DRIFT_ALERT_THRESHOLD_USD'' (JDec 1 100)) 100),
      ws_drift_alert_exception_count = max 1 (as_int (dict_get_default raw
        ''ENFORCEMENT_RECONCILIATION_DRIFT_ALERT_EXCEPTION_COUNT'' (JInt 5)) 5)\<rparr>"

subsection \<open>Alerts\<close>

datatype severity = Warning | Error

datatype alert =
    SlaRelease uuid severity nat rat int
  | DriftException uuid severity nat rat rat int "(uuid \<times> rat) list"

fun alert_recoverable :: "err \<Rightarrow> bool" where
  "alert_recoverable (RuntimeError _) = True"
| "alert_recoverable (OSError _) = True"
| "alert_recoverable TimeoutError = True"
| "alert_recoverable (TypeError _) = True"
| "alert_recoverable (ValueError _) = True"
| "alert_recoverable (AttributeError _) = True"
| "alert_recoverable _ = False"

definition send_alert :: "(alert \<Rightarrow> err option) \<Rightarrow> alert \<Rightarrow> unit res" where
  "send_alert dispatch alert =
     (case dispatch alert of
        None \<Rightarrow> Inr ()
      | Some e \<Rightarrow> if alert_recoverable e then Inr () else Inl e)"

definition sla_release_alert :: "uuid \<Rightarrow> overdue_reconciliation_result \<Rightarrow> alert" where
  "sla_release_alert tenant_id summary =
     SlaRelease tenant_id Warning (ov_released_count summary) (ov_total_released_usd summary) (ov_older_than_seconds summary)"

definition drift_severity :: "reconciliation_exception list \<Rightarrow> rat \<Rightarrow> rat \<Rightarrow> int \<Rightarrow> severity" where
  "drift_severity exceptions total_abs_drift threshold_usd threshold_count =
     (if threshold_usd * 3 \<le> total_abs_drift \<or> threshold_count * 2 \<le> int (length exceptions) then Error else Warning)"

definition drift_exception_alert :: "uuid \<Rightarrow> reconciliation_exception list \<Rightarrow> rat \<Rightarrow> rat \<Rightarrow> int \<Rightarrow> alert" where
  "drift_exception_alert tenant_id exceptions total_abs_drift threshold_usd threshold_count =
     DriftException tenant_id (drift_severity exceptions total_abs_drift threshold_usd threshold_count)
       (length exceptions) total_abs_drift threshold_usd threshold_count
       (map (\<lambda>x. (ed_id (rx_decision x), rx_drift_usd x)) (take 5 exceptions))"

subsection \<open>A run\<close>

record sweep_result =
  sw_tenant_id :: uuid
  sw_released_count :: nat
  sw_total_released_usd :: rat
  sw_older_than_seconds :: int
  sw_exceptions_count :: nat
  sw_overage_count :: nat
  sw_savings_count :: nat
  sw_total_abs_drift_usd :: rat
  sw_alerts_sent :: "string list"

definition sweep_payload :: "sweep_result \<Rightarrow> dict" where
  "sweep_payload r =
     [(''status'', JStr ''completed''), (''tenant_id'', JStr (uuid_text (sw_tenant_id r))),
      (''released_count'', JInt (int (sw_released_count r))), (''total_released_usd'', JDec 4 (sw_total_released_usd r)),
      (''older_than_seconds'', JInt (sw_older_than_seconds r)), (''exceptions_count'', JInt (int (sw_exceptions_count r))),
      (''overage_count'', JInt (int (sw_overage_count r))), (''savings_count'', JInt (int (sw_savings_count r))),
      (''total_abs_drift_usd'', JDec 4 (sw_total_abs_drift_usd r)),
      (''alerts_sent'', JList (map JStr (sw_alerts_sent r)))]"

definition system_actor_id :: uuid where
  "system_actor_id = 0"

text \<open>The alerts of a run with the names it reports for them, in the order in which they are raised.\<close>

definition worker_alerts ::
  "worker_settings \<Rightarrow> uuid \<Rightarrow> overdue_reconciliation_result \<Rightarrow> reconciliation_exception list \<Rightarrow> rat \<Rightarrow> (string \<times> alert) list" where
  "worker_alerts st tenant_id summary exceptions total_abs_drift =
     (if 0 < ov_released_count summary then [(''sla_release'', sla_release_alert tenant_id summary)] else [])
     @ (if ws_drift_alert_threshold_usd st \<le> total_abs_drift
          \<or> ws_drift_alert_exception_count st \<le> int (length exceptions)
        then [(''drift_exception'', drift_exception_alert tenant_id exceptions total_abs_drift
          (ws_drift_alert_threshold_usd st) (ws_drift_alert_exception_count st))]
        else [])"

fun send_alerts :: "(alert \<Rightarrow> err option) \<Rightarrow> (string \<times> alert) list \<Rightarrow> string list res" where
  "send_alerts dispatch [] = Inr []"
| "send_alerts dispatch ((name, alert) # alerts) =
     bind_res (send_alert dispatch alert) (\<lambda>_. bind_res (send_alerts dispatch alerts) (\<lambda>names. Inr (name # names)))"

definition run_for_tenant ::
  "(string \<Rightarrow> string) \<Rightarrow> (alert \<Rightarrow> err option) \<Rightarrow> dict \<Rightarrow> (enf_db \<Rightarrow> enf_db) \<Rightarrow> enf_db \<Rightarrow> (uuid \<Rightarrow> bool) \<Rightarrow> uuid \<Rightarrow> instant
    \<Rightarrow> sweep_result outcome" where
  "run_for_tenant sha dispatch raw others db locked tenant_id now =
     (let st = worker_settings_of raw in
      case reconcile_overdue_reservations sha db locked tenant_id system_actor_id (ws_sla_seconds st) (ws_sweep_max_releases st) now of
        (Inl e, db1) \<Rightarrow> (Inl e, db1)
      | (Inr summary, db1) \<Rightarrow>
          (let db2 = others db1;
               exceptions = list_reconciliation_exceptions db2 tenant_id (ws_exception_scan_limit st);
               total_abs_drift = sum_list (map (\<lambda>x. \<bar>rx_drift_usd x\<bar>) exceptions) in
           (bind_res (send_alerts dispatch (worker_alerts st tenant_id summary exceptions total_abs_drift)) (\<lambda>alerts_sent.
              Inr \<lparr>sw_tenant_id = tenant_id, sw_released_count = ov_released_count summary,
                   sw_total_released_usd = ov_total_released_usd summary,
                   sw_older_than_seconds = ov_older_than_seconds summary,
                   sw_exceptions_count = length exceptions,
                   sw_overage_count = length (filter (\<lambda>x. 0 < rx_drift_usd x) exceptions),
                   sw_savings_count = length (filter (\<lambda>x. rx_drift_usd x < 0) exceptions),
                   sw_total_abs_drift_usd = total_abs_drift, sw_alerts_sent = alerts_sent\<rparr>), db2)))"

subsection \<open>The exceptions of a scan\<close>

lemma build_exceptions_take:
  assumes "length acc < n"
  shows "build_reconciliation_exceptions n ds acc = acc @ take (n - length acc) (List.map_filter reconciliation_exception_of ds)"
  using assms
proof (induction ds arbitrary: acc)
  case (Cons d ds)
  show ?case
  proof (cases "reconciliation_exception_of d")
    case None
    with Cons show ?thesis by (simp add: List.map_filter_def)
  next
    case (Some x)
    show ?thesis
    proof (cases "n \<le> length (acc @ [x])")
      case True
      then have "n - length acc = 1" using Cons.prems by simp
      with True Some show ?thesis by (simp add: List.map_filter_def Let_def)
    next
      case False
      then have "n - length acc = Suc (n - length (acc @ [x]))" by simp
      with False Some Cons.IH [of "acc @ [x]"] show ?thesis by (simp add: List.map_filter_def Let_def)
    qed
  qed
qed (simp add: List.map_filter_def)

lemma exception_drift: "reconciliation_exception_of d = Some x \<Longrightarrow> rx_drift_usd x \<noteq> 0 \<and> rx_decision x = d"
  by (auto simp: reconciliation_exception_of_def Let_def split: json.splits if_splits)

definition scanned_decisions :: "enf_db \<Rightarrow> uuid \<Rightarrow> int \<Rightarrow> enforcement_decision list" where
  "scanned_decisions db tenant_id limit =
     take (nat (clamp 100 5000 (clamp 1 1000 limit * 10))) (rev (sort_key ed_created_at
       (filter (\<lambda>d. ed_tenant_id d = tenant_id \<and> \<not> ed_reservation_active d) (db_decisions db))))"

lemma list_exceptions_exact:
  "list_reconciliation_exceptions db tenant_id limit
    = take (nat (clamp 1 1000 limit)) (List.map_filter reconciliation_exception_of (scanned_decisions db tenant_id limit))"
  by (simp add: list_reconciliation_exceptions_def scanned_decisions_def Let_def build_exceptions_take clamp_def)

lemma list_exceptions_drift:
  "x \<in> set (list_reconciliation_exceptions db tenant_id limit) \<Longrightarrow> rx_drift_usd x \<noteq> 0"
  using exception_drift by (fastforce simp: list_exceptions_exact List.map_filter_def dest!: in_set_takeD)

lemma list_exceptions_length: "int (length (list_reconciliation_exceptions db tenant_id limit)) \<le> clamp 1 1000 limit"
  by (simp add: list_exceptions_exact clamp_def)

subsection \<open>Runs\<close>

lemma send_alerts_ok:
  assumes "\<And>a e. dispatch a = Some e \<Longrightarrow> alert_recoverable e"
  shows "send_alerts dispatch alerts = Inr (map fst alerts)"
  using assms by (induction dispatch alerts rule: send_alerts.induct) (auto simp: send_alert_def split: option.splits)

lemma overage_savings:
  assumes "\<And>x. x \<in> set xs \<Longrightarrow> f x \<noteq> (0 :: rat)"
  shows "length (filter (\<lambda>x. 0 < f x) xs) + length (filter (\<lambda>x. f x < 0) xs) = length xs"
  using assms by (induction xs) (auto simp: neq_iff)

text \<open>The bounded settings pass the clamps of the operations they are handed to unchanged.\<close>

lemma worker_settings_clamped:
  "clamp 60 604800 (ws_sla_seconds (worker_settings_of raw)) = ws_sla_seconds (worker_settings_of raw)"
  "clamp 1 1000 (ws_sweep_max_releases (worker_settings_of raw)) = ws_sweep_max_releases (worker_settings_of raw)"
  "clamp 1 1000 (ws_exception_scan_limit (worker_settings_of raw)) = ws_exception_scan_limit (worker_settings_of raw)"
  by (simp_all add: worker_settings_of_def clamp_def)

text \<open>
  As long as failing notifications fail recoverably, a run of the reconciliation worker returns,
  whatever the settings hold and whatever other transactions commit after its sweep: it is a sequence
  of operations of the control plane, it reports exactly the overdue reservations and their sum, every
  exception is counted as overage or as saving, and it names the release alert exactly when something
  was released and the drift alert exactly when a threshold is reached.
\<close>

theorem worker_run_sound:
  assumes "sys_inv db" and "\<forall>a e. dispatch a = Some e \<longrightarrow> alert_recoverable e" and "\<forall>d. enf_step\<^sup>*\<^sup>* d (others d)"
  shows "\<exists>r db'. run_for_tenant sha dispatch raw others db locked tenant_id now = (Inr r, db')
    \<and> enf_step\<^sup>*\<^sup>* db db' \<and> sys_inv db'
    \<and> sw_released_count r = length (overdue_decisions db locked tenant_id
          (now - seconds (ws_sla_seconds (worker_settings_of raw))) (ws_sweep_max_releases (worker_settings_of raw)))
    \<and> sw_total_released_usd r = reserved_sum (overdue_decisions db locked tenant_id
          (now - seconds (ws_sla_seconds (worker_settings_of raw))) (ws_sweep_max_releases (worker_settings_of raw)))
    \<and> sw_overage_count r + sw_savings_count r = sw_exceptions_count r
    \<and> int (sw_exceptions_count r) \<le> ws_exception_scan_limit (worker_settings_of raw)
    \<and> sw_total_abs_drift_usd r = sum_list (map (\<lambda>x. \<bar>rx_drift_usd x\<bar>)
          (list_reconciliation_exceptions db' tenant_id (ws_exception_scan_limit (worker_settings_of raw))))
    \<and> (''sla_release'' \<in> set (sw_alerts_sent r) \<longleftrightarrow> 0 < sw_released_count r)
    \<and> (''drift_exception'' \<in> set (sw_alerts_sent r) \<longleftrightarrow>
          ws_drift_alert_threshold_usd (worker_settings_of raw) \<le> sw_total_abs_drift_usd r
          \<or> ws_drift_alert_exception_count (worker_settings_of raw) \<le> int (sw_exceptions_count r))"
proof -
  let ?st = "worker_settings_of raw"
  let ?ds = "overdue_decisions db locked tenant_id (now - seconds (ws_sla_seconds ?st)) (ws_sweep_max_releases ?st)"
  obtain s db1 where sweep: "reconcile_overdue_reservations sha db locked tenant_id system_actor_id (ws_sla_seconds ?st)
        (ws_sweep_max_releases ?st) now = (Inr s, db1)"
    and s: "ov_decision_ids s = map ed_id ?ds" "ov_total_released_usd s = reserved_sum ?ds" "ov_released_count s = length (ov_decision_ids s)"
    using overdue_sweep [OF sys_invD(1) [OF assms(1)], of sha locked tenant_id system_actor_id "ws_sla_seconds ?st" "ws_sweep_max_releases ?st" now]
    unfolding worker_settings_clamped by blast
  define xs where "xs = list_reconciliation_exceptions (others db1) tenant_id (ws_exception_scan_limit ?st)"
  have "enf_step db db1" by (rule enf_step.sweep [OF sweep])
  with assms(3) have run: "enf_step\<^sup>*\<^sup>* db (others db1)" by (meson converse_rtranclp_into_rtranclp)
  have sys: "sys_inv (others db1)" by (rule plane.run_inv [OF run assms(1)])
  have sent: "send_alerts dispatch alerts = Inr (map fst alerts)" for alerts using assms(2) by (intro send_alerts_ok) blast
  have split: "length (filter (\<lambda>x. 0 < rx_drift_usd x) xs) + length (filter (\<lambda>x. rx_drift_usd x < 0) xs) = length xs"
    by (rule overage_savings) (simp add: xs_def list_exceptions_drift)
  have "int (length xs) \<le> ws_exception_scan_limit ?st"
    using list_exceptions_length [of "others db1" tenant_id "ws_exception_scan_limit ?st"] unfolding worker_settings_clamped xs_def .
  with run sys split s show ?thesis
    by (auto simp: run_for_tenant_def Let_def sweep sent worker_alerts_def xs_def [symmetric])
qed

text \<open>
  A reservation of 8 USD, one day and a second old, is released and reported, and the alert is named
  although every notification times out.
\<close>

lemma worker_run_sound_witness:
  "\<exists>r db'. run_for_tenant id (\<lambda>_. Some TimeoutError) [] id sample_review_db (\<lambda>_. False) 7 (101 + seconds 86400) = (Inr r, db')
     \<and> sw_released_count r = 1 \<and> ''sla_release'' \<in> set (sw_alerts_sent r)"
proof -
  have st: "ws_sla_seconds (worker_settings_of []) = 86400" "ws_sweep_max_releases (worker_settings_of []) = 500"
    by (simp_all add: worker_settings_of_def dict_get_default_def as_int_def claim_int_def)
  have "overdue_decisions sample_review_db (\<lambda>_. False) 7 (101 + seconds 86400 - seconds 86400) 500 = [sample_review_decision]"
    by (simp add: overdue_decisions_def sample_review_db_def sample_review_decision_def sample_decision_def seconds_def)
  with worker_run_sound [OF sample_review_sys, of "\<lambda>_. Some TimeoutError" id id "[]" "\<lambda>_. False" 7 "101 + seconds 86400"]
  show ?thesis unfolding st by fastforce
qed

end
