(* ===== verification/Job_Queue.thy ===== *)
theory Job_Queue
  imports Enf_Canonical Enf_Credit
begin

text \<open>
  The durable job queue: src/app/models/background_job.py, src/app/modules/governance/domain/jobs/processor.py,
  the stuck-job detector of src/app/modules/governance/domain/scheduler/orchestrator.py and the purge of
  src/app/tasks/scheduler_background_job_retention_ops.py.

  The table is the record \<open>job_db\<close>, which the databases of the job handlers extend. A handler is a
  function of the job and the database; the savepoint it runs in belongs to it, so the database it
  returns is the one after a rollback where it raised. The handler registry is an argument. Failures of
  the database itself are not modelled.
\<close>

datatype job_status = JOB_PENDING | JOB_RUNNING | JOB_COMPLETED | JOB_FAILED | JOB_DEAD_LETTER

fun job_status_value :: "job_status \<Rightarrow> string" where
  "job_status_value JOB_PENDING = ''pending''"
| "job_status_value JOB_RUNNING = ''running''"
| "job_status_value JOB_COMPLETED = ''completed''"
| "job_status_value JOB_FAILED = ''failed''"
| "job_status_value JOB_DEAD_LETTER = ''dead_letter''"

record background_job =
  bj_id :: uuid
  bj_job_type :: string
  bj_tenant_id :: "uuid option"
  bj_deduplication_key :: "string option"
  bj_status :: job_status
  bj_payload :: "dict option"
  bj_result :: json
  bj_attempts :: int
  bj_max_attempts :: int
  bj_priority :: int
  bj_scheduled_for :: instant
  bj_started_at :: "instant option"
  bj_completed_at :: "instant option"
  bj_error_message :: "string option"
  bj_created_at :: instant
  bj_is_deleted :: bool

record job_db =
  jq_jobs :: "background_job list"
  jq_next_id :: uuid

definition max_jobs_per_batch :: int where
  "max_jobs_per_batch = 10"

definition backoff_base_seconds :: int where
  "backoff_base_seconds = 60"

definition job_timeout_seconds :: int where
  "job_timeout_seconds = 300"

definition max_job_result_bytes :: nat where
  "max_job_result_bytes = 256 * 1024"

definition max_job_result_preview_chars :: nat where
  "max_job_result_preview_chars = 4096"

fun job_recoverable :: "err \<Rightarrow> bool" where
  "job_recoverable (HTTPException _ _) = False"
| "job_recoverable (HTTPError _) = False"
| "job_recoverable (OtherError _) = False"
| "job_recoverable _ = True"

subsection \<open>Results\<close>

text \<open>\<open>json.dumps(result, default=str, separators=(",", ":"))\<close>, with the keys in insertion order.\<close>

fun json_compact :: "json \<Rightarrow> string" where
  "json_compact JNull = ''null''"
| "json_compact (JBool b) = (if b then ''true'' else ''false'')"
| "json_compact (JInt n) = int_text n"
| "json_compact (JStr s) = json_text s"
| "json_compact (JDec n r) = json_text (fixed_text n r)"
| "json_compact (JTime t) = json_text (isoformat t)"
| "json_compact (JList xs) = ''['' @ join_text '','' (map json_compact xs) @ '']''"
| "json_compact (JObj d) =
     ''{'' @ join_text '','' (map (\<lambda>kv. json_text (fst kv) @ '':'' @ json_compact (snd kv)) d) @ ''}''"

fun python_type_name :: "json \<Rightarrow> string" where
  "python_type_name JNull = ''NoneType''"
| "python_type_name (JBool _) = ''bool''"
| "python_type_name (JInt _) = ''int''"
| "python_type_name (JStr _) = ''str''"
| "python_type_name (JDec _ _) = ''str''"
| "python_type_name (JTime _) = ''str''"
| "python_type_name (JList _) = ''list''"
| "python_type_name (JObj _) = ''dict''"

definition prepare_result_for_storage :: "json \<Rightarrow> json" where
  "prepare_result_for_storage result =
     (let serialized = json_compact result; preview = take max_job_result_preview_chars serialized in
      if result = JNull then JNull
      else if length serialized \<le> max_job_result_bytes then result
      else JObj ([(''_truncated'', JBool True), (''_reason'', JStr ''result_too_large''),
        (''_actual_bytes'', JInt (int (length serialized))), (''_max_bytes'', JInt (int max_job_result_bytes)),
        (''_original_type'', JStr (python_type_name result)), (''_preview_json'', JStr preview),
        (''_preview_truncated'', JBool (length preview < length serialized))]
        @ (case result of JObj d \<Rightarrow> [(''_original_keys'', JList (map (\<lambda>kv. JStr (fst kv)) (take 50 d)))] | _ \<Rightarrow> [])))"

subsection \<open>Enqueueing\<close>

text \<open>
  What a caller puts in a payload. A JSON column serialises with \<open>json.dumps\<close>, which has no encoding for
  a \<open>UUID\<close>; the statement then fails with a \<open>StatementError\<close>.
\<close>

datatype payload_value = Json json | Uuid uuid

type_synonym payload = "(string \<times> payload_value) list"

fun json_of_payload :: "payload_value \<Rightarrow> json res" where
  "json_of_payload (Json v) = Inr v"
| "json_of_payload (Uuid i) = Inl (SQLAlchemyError ''Object of type UUID is not JSON serializable'')"

fun json_column :: "payload \<Rightarrow> dict res" where
  "json_column [] = Inr []"
| "json_column ((k, v) # kvs) =
     bind_res (json_of_payload v) (\<lambda>j. bind_res (json_column kvs) (\<lambda>d. Inr ((k, j) # d)))"

definition find_by_key :: "'a job_db_scheme \<Rightarrow> string \<Rightarrow> background_job option" where
  "find_by_key db key = first_row (\<lambda>j. bj_deduplication_key j = Some key) (jq_jobs db)"

definition new_job ::
  "uuid \<Rightarrow> string \<Rightarrow> uuid option \<Rightarrow> dict option \<Rightarrow> instant \<Rightarrow> int \<Rightarrow> string option \<Rightarrow> instant \<Rightarrow> background_job" where
  "new_job i job_type tenant_id payload scheduled_for max_attempts key now =
     \<lparr>bj_id = i, bj_job_type = job_type, bj_tenant_id = tenant_id, bj_deduplication_key = key,
      bj_status = JOB_PENDING, bj_payload = payload, bj_result = JNull, bj_attempts = 0,
      bj_max_attempts = max_attempts, bj_priority = 0, bj_scheduled_for = scheduled_for,
      bj_started_at = None, bj_completed_at = None, bj_error_message = None, bj_created_at = now,
      bj_is_deleted = False\<rparr>"

definition insert_job ::
  "'a job_db_scheme \<Rightarrow> string \<Rightarrow> uuid option \<Rightarrow> dict option \<Rightarrow> instant option \<Rightarrow> int \<Rightarrow> string option \<Rightarrow> instant
    \<Rightarrow> (background_job \<times> bool) res \<times> 'a job_db_scheme" where
  "insert_job db job_type tenant_id payload scheduled_for max_attempts key now =
     (let job = new_job (jq_next_id db) job_type tenant_id payload
            (case scheduled_for of None \<Rightarrow> now | Some t \<Rightarrow> t) max_attempts key now;
          created = (Inr (job, True), db\<lparr>jq_jobs := jq_jobs db @ [job], jq_next_id := jq_next_id db + 1\<rparr>) in
      case key of
        None \<Rightarrow> created
      | Some k \<Rightarrow>
          (case find_by_key db k of
             None \<Rightarrow> created
           | Some existing \<Rightarrow> (if k = '''' then Inl IntegrityError else Inr (existing, False), db)))"

definition enqueue_job ::
  "'a job_db_scheme \<Rightarrow> string \<Rightarrow> uuid option \<Rightarrow> payload option \<Rightarrow> instant option \<Rightarrow> int \<Rightarrow> string option \<Rightarrow> instant
    \<Rightarrow> (background_job \<times> bool) res \<times> 'a job_db_scheme" where
  "enqueue_job db job_type tenant_id payload scheduled_for max_attempts key now =
     (case payload of
        None \<Rightarrow> insert_job db job_type tenant_id None scheduled_for max_attempts key now
      | Some p \<Rightarrow>
          (case json_column p of
             Inl e \<Rightarrow> (Inl e, db)
           | Inr d \<Rightarrow> insert_job db job_type tenant_id (Some d) scheduled_for max_attempts key now))"

subsection \<open>Fetching a batch\<close>

definition job_due :: "(uuid \<Rightarrow> bool) \<Rightarrow> uuid option \<Rightarrow> string option \<Rightarrow> instant \<Rightarrow> background_job \<Rightarrow> bool" where
  "job_due locked tenant_id job_type now j \<longleftrightarrow>
     bj_status j = JOB_PENDING \<and> bj_scheduled_for j \<le> now \<and> bj_attempts j < bj_max_attempts j \<and> \<not> bj_is_deleted j
     \<and> (tenant_id \<noteq> None \<longrightarrow> bj_tenant_id j = tenant_id) \<and> (\<forall>t. job_type = Some t \<longrightarrow> bj_job_type j = t)
     \<and> \<not> locked (bj_id j)"

definition due_batch ::
  "'a job_db_scheme \<Rightarrow> (uuid \<Rightarrow> bool) \<Rightarrow> int \<Rightarrow> uuid option \<Rightarrow> string option \<Rightarrow> instant \<Rightarrow> background_job list" where
  "due_batch db locked limit tenant_id job_type now =
     take (nat limit) (sort_key (\<lambda>j. (- bj_priority j, bj_scheduled_for j))
       (filter (job_due locked tenant_id job_type now) (jq_jobs db)))"

text \<open>
  A fresh result gets the name of the worker; writing into a dictionary that is already stored is not
  seen by the ORM, whose JSON columns do not track changes inside a value.
\<close>

definition leased_job :: "string \<Rightarrow> instant \<Rightarrow> background_job \<Rightarrow> background_job" where
  "leased_job worker_id now j = j\<lparr>bj_status := JOB_RUNNING, bj_started_at := Some now,
     bj_result := (if bj_result j = JNull then JObj [(''last_worker'', JStr worker_id)] else bj_result j)\<rparr>"

definition fetch_and_lock_batch ::
  "'a job_db_scheme \<Rightarrow> (uuid \<Rightarrow> bool) \<Rightarrow> string \<Rightarrow> int \<Rightarrow> uuid option \<Rightarrow> string option \<Rightarrow> instant
    \<Rightarrow> uuid list \<times> 'a job_db_scheme" where
  "fetch_and_lock_batch db locked worker_id limit tenant_id job_type now =
     (let ids = map bj_id (due_batch db locked limit tenant_id job_type now) in
      (ids, db\<lparr>jq_jobs := update_where (\<lambda>j. bj_id j \<in> set ids) (leased_job worker_id now) (jq_jobs db)\<rparr>))"

subsection \<open>Processing one job\<close>

datatype handler_outcome = Returned json | Raised err | Cancelled

type_synonym 'a handler = "background_job \<Rightarrow> 'a job_db_scheme \<Rightarrow> handler_outcome \<times> 'a job_db_scheme"

definition find_job :: "'a job_db_scheme \<Rightarrow> uuid \<Rightarrow> background_job option" where
  "find_job db i = first_row (\<lambda>j. bj_id j = i) (jq_jobs db)"

definition write_job :: "uuid \<Rightarrow> (background_job \<Rightarrow> background_job) \<Rightarrow> 'a job_db_scheme \<Rightarrow> 'a job_db_scheme" where
  "write_job i f db = db\<lparr>jq_jobs := update_where (\<lambda>j. bj_id j = i) f (jq_jobs db)\<rparr>"

definition begun_job :: "instant \<Rightarrow> background_job \<Rightarrow> background_job" where
  "begun_job now j = j\<lparr>bj_status := JOB_RUNNING, bj_started_at := Some now, bj_attempts := bj_attempts j + 1\<rparr>"

definition backoff_seconds :: "int \<Rightarrow> int" where
  "backoff_seconds attempts = backoff_base_seconds * 2 ^ nat (attempts - 1)"

definition retry_or_bury :: "string \<Rightarrow> instant \<Rightarrow> background_job \<Rightarrow> background_job" where
  "retry_or_bury message now j =
     (if bj_max_attempts j \<le> bj_attempts j
      then j\<lparr>bj_error_message := Some message, bj_status := JOB_DEAD_LETTER, bj_completed_at := Some now\<rparr>
      else j\<lparr>bj_error_message := Some message, bj_status := JOB_PENDING,
             bj_scheduled_for := now + seconds (backoff_seconds (bj_attempts j))\<rparr>)"

definition completed_job :: "json \<Rightarrow> instant \<Rightarrow> background_job \<Rightarrow> background_job" where
  "completed_job result now j = j\<lparr>bj_status := JOB_COMPLETED, bj_completed_at := Some now,
     bj_result := prepare_result_for_storage result, bj_error_message := None\<rparr>"

definition cancelled_job :: "instant \<Rightarrow> background_job \<Rightarrow> background_job" where
  "cancelled_job now j = j\<lparr>bj_error_message := Some ''Job was cancelled'', bj_status := JOB_PENDING,
     bj_scheduled_for := now + seconds 60\<rparr>"

definition settle_job :: "handler_outcome \<Rightarrow> instant \<Rightarrow> (background_job \<Rightarrow> background_job) res" where
  "settle_job outcome now =
     (case outcome of
        Returned result \<Rightarrow> Inr (completed_job result now)
      | Cancelled \<Rightarrow> Inr (cancelled_job now)
      | Raised e \<Rightarrow>
          if e = TimeoutError then Inr (retry_or_bury (''Job timed out after '' @ int_text job_timeout_seconds @ ''s'') now)
          else if job_recoverable e then Inr (retry_or_bury (err_message e) now)
          else Inl e)"

definition run_handler :: "(string \<Rightarrow> 'a handler option) \<Rightarrow> background_job \<Rightarrow> 'a job_db_scheme \<Rightarrow> handler_outcome \<times> 'a job_db_scheme" where
  "run_handler registry job db =
     (case registry (bj_job_type job) of
        None \<Rightarrow> (Raised (ValueError (''No handler registered for job type: '' @ bj_job_type job)), db)
      | Some handler \<Rightarrow> handler job db)"

definition process_single_job ::
  "(string \<Rightarrow> 'a handler option) \<Rightarrow> uuid \<Rightarrow> instant \<Rightarrow> instant \<Rightarrow> 'a job_db_scheme \<Rightarrow> unit res \<times> 'a job_db_scheme" where
  "process_single_job registry i started finished db =
     (let db1 = write_job i (begun_job started) db in
      case find_job db1 i of
        None \<Rightarrow> (Inr (), db1)
      | Some job \<Rightarrow>
          (case run_handler registry job db1 of
             (outcome, db2) \<Rightarrow>
               (case settle_job outcome finished of
                  Inl e \<Rightarrow> (Inl e, db2)
                | Inr f \<Rightarrow> (Inr (), write_job i f db2))))"

subsection \<open>Processing a batch\<close>

record batch_results =
  br_processed :: nat
  br_succeeded :: nat
  br_failed :: nat
  br_errors :: "dict list"

definition batch_start :: batch_results where
  "batch_start = \<lparr>br_processed = 0, br_succeeded = 0, br_failed = 0, br_errors = []\<rparr>"

definition count_job :: "background_job option \<Rightarrow> batch_results \<Rightarrow> batch_results" where
  "count_job job r =
     (case job of
        Some j \<Rightarrow>
          if bj_status j = JOB_COMPLETED then r\<lparr>br_processed := br_processed r + 1, br_succeeded := br_succeeded r + 1\<rparr>
          else r\<lparr>br_processed := br_processed r + 1, br_failed := br_failed r + 1,
            br_errors := br_errors r @ (case bj_error_message j of
                Some m \<Rightarrow> if m = '''' then [] else [[(''job_id'', JStr (uuid_text (bj_id j))), (''error'', JStr m), (''type'', JStr ''execution'')]]
              | None \<Rightarrow> [])\<rparr>
      | None \<Rightarrow> r\<lparr>br_processed := br_processed r + 1, br_failed := br_failed r + 1\<rparr>)"

fun process_jobs ::
  "(string \<Rightarrow> 'a handler option) \<Rightarrow> (uuid \<Rightarrow> instant \<times> instant) \<Rightarrow> uuid list \<Rightarrow> batch_results \<Rightarrow> 'a job_db_scheme
    \<Rightarrow> batch_results res \<times> 'a job_db_scheme" where
  "process_jobs registry clock [] r db = (Inr r, db)"
| "process_jobs registry clock (i # ids) r db =
     (case process_single_job registry i (fst (clock i)) (snd (clock i)) db of
        (Inl e, db1) \<Rightarrow> (Inl e, db1)
      | (Inr _, db1) \<Rightarrow> process_jobs registry clock ids (count_job (find_job db1 i) r) db1)"

definition process_pending_jobs ::
  "(string \<Rightarrow> 'a handler option) \<Rightarrow> (uuid \<Rightarrow> instant \<times> instant) \<Rightarrow> (uuid \<Rightarrow> bool) \<Rightarrow> string \<Rightarrow> int option \<Rightarrow> uuid option
    \<Rightarrow> string option \<Rightarrow> instant \<Rightarrow> 'a job_db_scheme \<Rightarrow> batch_results res \<times> 'a job_db_scheme" where
  "process_pending_jobs registry clock locked worker_id limit tenant_id job_type now db =
     (let batch_limit = (case limit of None \<Rightarrow> max_jobs_per_batch | Some n \<Rightarrow> if n = 0 then max_jobs_per_batch else n);
          (ids, db1) = fetch_and_lock_batch db locked worker_id batch_limit tenant_id job_type now in
      process_jobs registry clock ids batch_start db1)"

subsection \<open>Maintenance\<close>

definition job_stuck :: "instant \<Rightarrow> background_job \<Rightarrow> bool" where
  "job_stuck now j \<longleftrightarrow> bj_status j = JOB_PENDING \<and> bj_created_at j < now - seconds 3600 \<and> \<not> bj_is_deleted j"

definition stuck_job :: "background_job \<Rightarrow> background_job" where
  "stuck_job j = j\<lparr>bj_status := JOB_FAILED,
     bj_error_message := Some ''Stuck in PENDING for > 1 hour. Terminated by StuckJobDetector.''\<rparr>"

definition detect_stuck_jobs :: "instant \<Rightarrow> 'a job_db_scheme \<Rightarrow> 'a job_db_scheme" where
  "detect_stuck_jobs now db = db\<lparr>jq_jobs := update_where (job_stuck now) stuck_job (jq_jobs db)\<rparr>"

definition coerce_positive_int :: "int option \<Rightarrow> int \<Rightarrow> int \<Rightarrow> int" where
  "coerce_positive_int value dflt minimum =
     (case value of None \<Rightarrow> dflt | Some n \<Rightarrow> if minimum \<le> n then n else dflt)"

definition purge_candidates :: "job_status \<Rightarrow> instant \<Rightarrow> nat \<Rightarrow> 'a job_db_scheme \<Rightarrow> uuid list" where
  "purge_candidates status cutoff batch_size db =
     map bj_id (take batch_size (sort_key bj_created_at
       (filter (\<lambda>j. bj_status j = status \<and> bj_created_at j < cutoff) (jq_jobs db))))"

text \<open>The delete statements of one status, at most \<open>max_batches\<close> of them, with the number of deleted rows.\<close>

fun purge_batches :: "nat \<Rightarrow> job_status \<Rightarrow> instant \<Rightarrow> nat \<Rightarrow> 'a job_db_scheme \<Rightarrow> nat \<times> 'a job_db_scheme" where
  "purge_batches 0 status cutoff batch_size db = (0, db)"
| "purge_batches (Suc n) status cutoff batch_size db =
     (let ids = purge_candidates status cutoff batch_size db;
          deleted = count_where (\<lambda>j. bj_id j \<in> set ids) (jq_jobs db);
          db1 = db\<lparr>jq_jobs := filter (\<lambda>j. bj_id j \<notin> set ids) (jq_jobs db)\<rparr> in
      if deleted = 0 then (0, db1)
      else (case purge_batches n status cutoff batch_size db1 of (m, db2) \<Rightarrow> (deleted + m, db2)))"

record retention_settings =
  rs_completed_days :: "int option"
  rs_dead_letter_days :: "int option"
  rs_batch_size :: "int option"
  rs_max_batches :: "int option"

record purge_summary =
  ps_completed_deleted :: nat
  ps_dead_letter_deleted :: nat
  ps_total_deleted :: nat
  ps_completed_retention_days :: int
  ps_dead_letter_retention_days :: int

definition purge_terminal_background_jobs ::
  "retention_settings \<Rightarrow> instant \<Rightarrow> 'a job_db_scheme \<Rightarrow> purge_summary \<times> 'a job_db_scheme" where
  "purge_terminal_background_jobs st now db =
     (let completed_days = coerce_positive_int (rs_completed_days st) 7 1;
          dead_letter_days = coerce_positive_int (rs_dead_letter_days st) 30 1;
          batch_size = nat (coerce_positive_int (rs_batch_size st) 1000 50);
          max_batches = nat (coerce_positive_int (rs_max_batches st) 20 1);
          (c, db1) = purge_batches max_batches JOB_COMPLETED (now - seconds (86400 * completed_days)) batch_size db;
          (d, db2) = purge_batches max_batches JOB_DEAD_LETTER (now - seconds (86400 * dead_letter_days)) batch_size db1 in
      (\<lparr>ps_completed_deleted = c, ps_dead_letter_deleted = d, ps_total_deleted = c + d,
        ps_completed_retention_days = completed_days, ps_dead_letter_retention_days = dead_letter_days\<rparr>, db2))"

end
