(* ===== verification/Job_Machine.thy ===== *)
theory Job_Machine
  imports Job_Queue Base_Machine
begin

text \<open>
  The job queue as a transition system whose steps are its commits. Workers fetch batches, begin and
  settle jobs, die or give up in between; jobs are enqueued, given up as stuck and purged meanwhile. A
  state is the database and the list of holdings: who holds which job, and whether it has begun. The
  invariant says that every held job is running, is held once and is within its attempts; a single job
  moves down in rank, which bounds its life.
\<close>

type_synonym holding = "string \<times> uuid \<times> bool"

abbreviation held_id :: "holding \<Rightarrow> uuid" where
  "held_id x \<equiv> fst (snd x)"

inductive queue_step :: "'a job_db_scheme \<times> holding list \<Rightarrow> 'a job_db_scheme \<times> holding list \<Rightarrow> bool" where
  enqueue: "insert_job db job_type tenant_id payload scheduled_for max_attempts key now = (out, db') \<Longrightarrow> queue_step (db, h) (db', h)"
| fetch: "fetch_and_lock_batch db locked w limit tenant_id job_type now = (ids, db')
    \<Longrightarrow> queue_step (db, h) (db', h @ map (\<lambda>i. (w, i, False)) ids)"
| begin_job: "queue_step (db, pre @ (w, i, False) # post) (write_job i (begun_job now) db, pre @ (w, i, True) # post)"
| settle: "settle_job outcome now = Inr f \<Longrightarrow> queue_step (db, pre @ (w, i, True) # post) (write_job i f db, pre @ post)"
| drop: "queue_step (db, pre @ (w, i, b) # post) (db, pre @ post)"
| stuck: "queue_step (db, h) (detect_stuck_jobs now db, h)"
| purge: "purge_terminal_background_jobs st now db = (summary, db') \<Longrightarrow> queue_step (db, h) (db', h)"
| effect: "jq_jobs db' = jq_jobs db \<Longrightarrow> jq_next_id db' = jq_next_id db \<Longrightarrow> queue_step (db, h) (db', h)"

subsection \<open>The table\<close>

definition within_attempts :: "background_job \<Rightarrow> bool" where
  "within_attempts j \<longleftrightarrow> 0 \<le> bj_attempts j \<and> bj_attempts j \<le> max 0 (bj_max_attempts j)"

definition jobs_ok :: "background_job list \<Rightarrow> uuid \<Rightarrow> bool" where
  "jobs_ok js n \<longleftrightarrow> distinct (map bj_id js)
     \<and> (\<forall>j \<in> set js. bj_id j < n \<and> within_attempts j)
     \<and> (\<forall>j \<in> set js. \<forall>k \<in> set js. bj_deduplication_key j \<noteq> None \<and> bj_deduplication_key j = bj_deduplication_key k \<longrightarrow> j = k)"

lemma jobs_ok_update:
  assumes "jobs_ok js n"
    and "\<And>j. j \<in> set js \<Longrightarrow> p j \<Longrightarrow> bj_id (f j) = bj_id j \<and> bj_deduplication_key (f j) = bj_deduplication_key j \<and> within_attempts (f j)"
  shows "jobs_ok (update_where p f js) n"
proof -
  let ?g = "\<lambda>j. if p j then f j else j"
  have g: "bj_id (?g j) = bj_id j \<and> bj_deduplication_key (?g j) = bj_deduplication_key j \<and> within_attempts (?g j)" if "j \<in> set js" for j
    using assms that by (auto simp: jobs_ok_def)
  then have ids: "map bj_id (update_where p f js) = map bj_id js" by (simp add: update_where_def)
  have "?g a = ?g b" if "a \<in> set js" "b \<in> set js" "bj_deduplication_key (?g a) \<noteq> None"
      "bj_deduplication_key (?g a) = bj_deduplication_key (?g b)" for a b
  proof -
    have "bj_deduplication_key a \<noteq> None \<and> bj_deduplication_key a = bj_deduplication_key b" using that g by metis
    with assms(1) that(1,2) have "a = b" unfolding jobs_ok_def by blast
    then show ?thesis by simp
  qed
  moreover have "bj_id (?g j) < n \<and> within_attempts (?g j)" if "j \<in> set js" for j
    using g [OF that] that assms(1) by (simp add: jobs_ok_def)
  ultimately show ?thesis
    using assms(1) unfolding jobs_ok_def ids set_update_where by blast
qed

lemma jobs_ok_within: "jobs_ok js n \<Longrightarrow> j \<in> set js \<Longrightarrow> within_attempts j"
  by (simp add: jobs_ok_def)

lemma leased_job_fields [simp]:
  "bj_id (leased_job w t j) = bj_id j" "bj_deduplication_key (leased_job w t j) = bj_deduplication_key j"
  "bj_attempts (leased_job w t j) = bj_attempts j" "bj_max_attempts (leased_job w t j) = bj_max_attempts j"
  "bj_status (leased_job w t j) = JOB_RUNNING"
  by (simp_all add: leased_job_def)

lemma begun_job_fields [simp]:
  "bj_id (begun_job t j) = bj_id j" "bj_deduplication_key (begun_job t j) = bj_deduplication_key j"
  "bj_attempts (begun_job t j) = bj_attempts j + 1" "bj_max_attempts (begun_job t j) = bj_max_attempts j"
  "bj_status (begun_job t j) = JOB_RUNNING"
  by (simp_all add: begun_job_def)

lemma settle_job_fields:
  assumes "settle_job outcome t = Inr f"
  shows "bj_id (f j) = bj_id j" "bj_deduplication_key (f j) = bj_deduplication_key j" "bj_attempts (f j) = bj_attempts j"
    "bj_max_attempts (f j) = bj_max_attempts j" "bj_status (f j) \<in> {JOB_PENDING, JOB_COMPLETED, JOB_DEAD_LETTER}"
    "bj_created_at (f j) = bj_created_at j" "bj_is_deleted (f j) = bj_is_deleted j" "bj_tenant_id (f j) = bj_tenant_id j"
  using assms by (auto simp: settle_job_def completed_job_def cancelled_job_def retry_or_bury_def
      split: handler_outcome.splits if_splits)

lemma stuck_job_fields [simp]:
  "bj_id (stuck_job j) = bj_id j" "bj_deduplication_key (stuck_job j) = bj_deduplication_key j"
  "bj_attempts (stuck_job j) = bj_attempts j" "bj_max_attempts (stuck_job j) = bj_max_attempts j"
  "bj_status (stuck_job j) = JOB_FAILED"
  by (simp_all add: stuck_job_def)

lemma jobs_ok_filter: "jobs_ok js n \<Longrightarrow> jobs_ok (filter p js) n"
  by (auto simp: jobs_ok_def distinct_map_filter)

lemma jobs_ok_unique: "jobs_ok js n \<Longrightarrow> j \<in> set js \<Longrightarrow> k \<in> set js \<Longrightarrow> bj_id j = bj_id k \<Longrightarrow> j = k"
  by (auto simp: jobs_ok_def distinct_map inj_on_def)

lemma jobs_ok_append:
  assumes "jobs_ok js n" "bj_id j = n" "within_attempts j"
    and "\<And>k. k \<in> set js \<Longrightarrow> bj_deduplication_key j \<noteq> None \<Longrightarrow> bj_deduplication_key k \<noteq> bj_deduplication_key j"
  shows "jobs_ok (js @ [j]) (n + 1)"
  using assms by (fastforce simp: jobs_ok_def)

subsection \<open>Holdings\<close>

definition held_well :: "background_job list \<Rightarrow> holding \<Rightarrow> bool" where
  "held_well js x \<longleftrightarrow> (\<exists>j \<in> set js. bj_id j = held_id x \<and> bj_status j = JOB_RUNNING
     \<and> (if snd (snd x) then 1 \<le> bj_attempts j \<and> bj_attempts j \<le> bj_max_attempts j else bj_attempts j < bj_max_attempts j))"

definition queue_inv :: "'a job_db_scheme \<times> holding list \<Rightarrow> bool" where
  "queue_inv s \<longleftrightarrow> jobs_ok (jq_jobs (fst s)) (jq_next_id (fst s)) \<and> distinct (map held_id (snd s))
     \<and> (\<forall>x \<in> set (snd s). held_well (jq_jobs (fst s)) x)"

lemma in_update_where_hit: "r \<in> set rows \<Longrightarrow> p r \<Longrightarrow> f r \<in> set (update_where p f rows)"
  unfolding set_update_where by (rule image_eqI [of _ _ r]) simp_all

lemma held_well_mono: "held_well js x \<Longrightarrow> set js \<subseteq> set ks \<Longrightarrow> held_well ks x"
  by (auto simp: held_well_def)

lemma held_well_other:
  assumes "held_well js x" "\<And>j. j \<in> set js \<Longrightarrow> bj_id j = held_id x \<Longrightarrow> bj_status j = JOB_RUNNING \<Longrightarrow> \<not> p j"
  shows "held_well (update_where p f js) x"
proof -
  from assms(1) obtain j where j: "j \<in> set js" "bj_id j = held_id x" "bj_status j = JOB_RUNNING"
    "if snd (snd x) then 1 \<le> bj_attempts j \<and> bj_attempts j \<le> bj_max_attempts j else bj_attempts j < bj_max_attempts j"
    by (auto simp: held_well_def)
  with assms(2) have "j \<in> set (update_where p f js)" by (auto simp: set_update_where intro: image_eqI [of _ _ j])
  with j show ?thesis by (auto simp: held_well_def)
qed

subsection \<open>Preservation\<close>

lemma insert_job_cases:
  assumes "insert_job db job_type tenant_id payload scheduled_for max_attempts key now = (out, db')"
  obtains "db' = db" | j where "jq_jobs db' = jq_jobs db @ [j]" "jq_next_id db' = jq_next_id db + 1" "bj_id j = jq_next_id db"
    "bj_attempts j = 0" "bj_status j = JOB_PENDING" "bj_deduplication_key j = key" "bj_max_attempts j = max_attempts"
    "\<And>k. k \<in> set (jq_jobs db) \<Longrightarrow> bj_deduplication_key j \<noteq> None \<Longrightarrow> bj_deduplication_key k \<noteq> bj_deduplication_key j"
    "out = Inr (j, True)"
proof -
  let ?j = "new_job (jq_next_id db) job_type tenant_id payload (case scheduled_for of None \<Rightarrow> now | Some t \<Rightarrow> t) max_attempts key now"
  consider "db' = db" | "db' = db\<lparr>jq_jobs := jq_jobs db @ [?j], jq_next_id := jq_next_id db + 1\<rparr>" "out = Inr (?j, True)"
      "\<And>k. key = Some k \<Longrightarrow> find_by_key db k = None"
    using assms by (auto simp: insert_job_def Let_def split: option.splits)
  then show thesis
  proof cases
    case 2
    show thesis
    proof (rule that(2) [of ?j])
      fix k assume "k \<in> set (jq_jobs db)" "bj_deduplication_key ?j \<noteq> None"
      then show "bj_deduplication_key k \<noteq> bj_deduplication_key ?j"
        using 2(3) by (auto simp: new_job_def find_by_key_def first_row_None)
    qed (simp_all add: 2, simp_all add: new_job_def)
  qed (rule that(1))
qed

lemma purge_batches_frame:
  assumes "purge_batches n status cutoff batch db = (m, db')" "distinct (map bj_id (jq_jobs db))"
  shows "jq_next_id db' = jq_next_id db \<and> (\<exists>p. jq_jobs db' = filter p (jq_jobs db)
    \<and> (\<forall>j \<in> set (jq_jobs db). \<not> p j \<longrightarrow> bj_status j = status \<and> bj_created_at j < cutoff))
    \<and> m = length (jq_jobs db) - length (jq_jobs db')"
  using assms
proof (induction n arbitrary: db m db')
  case 0
  then show ?case by (auto intro: exI [of _ "\<lambda>_. True"])
next
  case (Suc n)
  let ?ids = "set (purge_candidates status cutoff batch db)"
  let ?db1 = "db\<lparr>jq_jobs := filter (\<lambda>j. bj_id j \<notin> ?ids) (jq_jobs db)\<rparr>"
  have gone: "bj_status j = status \<and> bj_created_at j < cutoff" if "j \<in> set (jq_jobs db)" "bj_id j \<in> ?ids" for j
  proof -
    from that(2) obtain k where k: "k \<in> set (jq_jobs db)" "bj_status k = status" "bj_created_at k < cutoff" "bj_id j = bj_id k"
      unfolding purge_candidates_def by (auto dest!: in_set_takeD)
    with that(1) Suc.prems(2) have "j = k" by (simp add: distinct_map inj_on_def)
    with k show ?thesis by simp
  qed
  have count: "count_where (\<lambda>j. bj_id j \<in> ?ids) (jq_jobs db) = length (jq_jobs db) - length (jq_jobs ?db1)"
    using sum_length_filter_compl [of "\<lambda>j. bj_id j \<in> ?ids" "jq_jobs db"] by (simp add: count_where_def)
  show ?case
  proof (cases "count_where (\<lambda>j. bj_id j \<in> ?ids) (jq_jobs db) = 0")
    case True
    with Suc.prems(1) have "db' = ?db1" "m = 0" by (simp_all add: Let_def)
    with gone count True show ?thesis by (auto intro!: exI [of _ "\<lambda>j. bj_id j \<notin> ?ids"])
  next
    case False
    with Suc.prems(1) obtain m' where rest: "purge_batches n status cutoff batch ?db1 = (m', db')"
      and m: "m = count_where (\<lambda>j. bj_id j \<in> ?ids) (jq_jobs db) + m'"
      by (auto simp: Let_def split: prod.splits)
    from Suc.IH [OF rest] Suc.prems(2) obtain p where p: "jq_jobs db' = filter p (jq_jobs ?db1)"
      "\<forall>j \<in> set (jq_jobs ?db1). \<not> p j \<longrightarrow> bj_status j = status \<and> bj_created_at j < cutoff"
      "jq_next_id db' = jq_next_id db" "m' = length (jq_jobs ?db1) - length (jq_jobs db')"
      by (auto simp: distinct_map_filter)
    have "length (jq_jobs db') \<le> length (jq_jobs ?db1)" unfolding p(1) by (rule length_filter_le)
    moreover have "length (jq_jobs ?db1) \<le> length (jq_jobs db)" by (simp add: length_filter_le)
    ultimately have "m = length (jq_jobs db) - length (jq_jobs db')" using m count p(4) by linarith
    with p gone show ?thesis by (intro conjI exI [of _ "\<lambda>j. bj_id j \<notin> ?ids \<and> p j"]) auto
  qed
qed


lemma purge_frame:
  assumes "purge_terminal_background_jobs st now db = (summary, db')" "distinct (map bj_id (jq_jobs db))"
  shows "jq_next_id db' = jq_next_id db \<and> (\<exists>p. jq_jobs db' = filter p (jq_jobs db)
    \<and> (\<forall>j \<in> set (jq_jobs db). \<not> p j \<longrightarrow>
        bj_status j = JOB_COMPLETED \<and> bj_created_at j < now - seconds (86400 * ps_completed_retention_days summary)
        \<or> bj_status j = JOB_DEAD_LETTER \<and> bj_created_at j < now - seconds (86400 * ps_dead_letter_retention_days summary)))
    \<and> ps_total_deleted summary = length (jq_jobs db) - length (jq_jobs db')"
proof -
  let ?c = "now - seconds (86400 * ps_completed_retention_days summary)"
  let ?d = "now - seconds (86400 * ps_dead_letter_retention_days summary)"
  from assms(1) obtain b n c d db1 where purges: "purge_batches n JOB_COMPLETED ?c b db = (c, db1)"
    "purge_batches n JOB_DEAD_LETTER ?d b db1 = (d, db')" "ps_total_deleted summary = c + d"
    by (auto simp: purge_terminal_background_jobs_def Let_def split: prod.splits)
  from purge_batches_frame [OF purges(1) assms(2)] obtain p where p: "jq_jobs db1 = filter p (jq_jobs db)"
    "\<forall>j \<in> set (jq_jobs db). \<not> p j \<longrightarrow> bj_status j = JOB_COMPLETED \<and> bj_created_at j < ?c"
    "jq_next_id db1 = jq_next_id db" "c = length (jq_jobs db) - length (jq_jobs db1)" by blast
  have "distinct (map bj_id (jq_jobs db1))" unfolding p(1) by (rule distinct_map_filter [OF assms(2)])
  from purge_batches_frame [OF purges(2) this] obtain q where q: "jq_jobs db' = filter q (jq_jobs db1)"
    "\<forall>j \<in> set (jq_jobs db1). \<not> q j \<longrightarrow> bj_status j = JOB_DEAD_LETTER \<and> bj_created_at j < ?d"
    "jq_next_id db' = jq_next_id db1" "d = length (jq_jobs db1) - length (jq_jobs db')" by blast
  have "length (jq_jobs db') \<le> length (jq_jobs db1)" "length (jq_jobs db1) \<le> length (jq_jobs db)"
    unfolding q(1) p(1) by (rule length_filter_le)+
  then have "ps_total_deleted summary = length (jq_jobs db) - length (jq_jobs db')" using purges(3) p(4) q(4) by linarith
  with p q show ?thesis by (intro conjI exI [of _ "\<lambda>j. p j \<and> q j"]) auto
qed

lemma due_batch_due:
  assumes "jobs_ok (jq_jobs db) n" "j \<in> set (jq_jobs db)" "bj_id j \<in> set (map bj_id (due_batch db locked limit t ty now))"
  shows "job_due locked t ty now j"
proof -
  from assms(3) obtain k where "k \<in> set (jq_jobs db)" "job_due locked t ty now k" "bj_id j = bj_id k"
    by (auto simp: due_batch_def dest!: in_set_takeD)
  with jobs_ok_unique [OF assms(1,2)] show ?thesis by metis
qed

lemma due_batch_distinct: "jobs_ok (jq_jobs db) n \<Longrightarrow> distinct (map bj_id (due_batch db locked limit t ty now))"
proof -
  assume "jobs_ok (jq_jobs db) n"
  then have "inj_on bj_id (set (jq_jobs db))" "distinct (jq_jobs db)" by (simp_all add: jobs_ok_def distinct_map)
  then have "distinct (map bj_id (sort_key (\<lambda>j. (- bj_priority j, bj_scheduled_for j)) (filter (job_due locked t ty now) (jq_jobs db))))"
    by (auto simp: distinct_map inj_on_def)
  then show ?thesis unfolding due_batch_def take_map [symmetric] by (rule distinct_take)
qed

lemma due_batch_sub: "j \<in> set (due_batch db locked limit t ty now) \<Longrightarrow> j \<in> set (jq_jobs db) \<and> job_due locked t ty now j"
  by (auto simp: due_batch_def dest!: in_set_takeD)

lemma fetch_inv:
  assumes inv: "queue_inv (db, h)" and f: "fetch_and_lock_batch db locked w limit t ty now = (ids, db')"
  shows "queue_inv (db', h @ map (\<lambda>i. (w, i, False)) ids)"
proof -
  let ?b = "due_batch db locked limit t ty now"
  have ok: "jobs_ok (jq_jobs db) (jq_next_id db)" using inv by (simp add: queue_inv_def)
  have ids: "ids = map bj_id ?b" and db': "db' = db\<lparr>jq_jobs := update_where (\<lambda>j. bj_id j \<in> set ids) (leased_job w now) (jq_jobs db)\<rparr>"
    using f by (auto simp: fetch_and_lock_batch_def Let_def)
  have due: "job_due locked t ty now j" if "j \<in> set (jq_jobs db)" "bj_id j \<in> set ids" for j
    using due_batch_due [OF ok that(1)] that(2) by (simp add: ids)
  have "jobs_ok (jq_jobs db') (jq_next_id db')"
    using jobs_ok_update [OF ok, of _ "leased_job w now"] jobs_ok_within [OF ok] by (simp add: db' within_attempts_def)
  moreover have fresh: "held_id x \<notin> set ids" if "x \<in> set h" for x
  proof
    assume x: "held_id x \<in> set ids"
    from inv that obtain j where "j \<in> set (jq_jobs db)" "bj_id j = held_id x" "bj_status j = JOB_RUNNING"
      by (auto simp: queue_inv_def held_well_def)
    with due [of j] x show False by (simp add: job_due_def)
  qed
  then have "distinct (map held_id (h @ map (\<lambda>i. (w, i, False)) ids))"
    using inv due_batch_distinct [OF ok, of locked limit t ty now] by (auto simp: queue_inv_def comp_def ids [symmetric])
  moreover have "held_well (jq_jobs db') x" if "x \<in> set h" for x
    using inv that due by (auto simp: db' queue_inv_def job_due_def intro!: held_well_other)
  moreover have "held_well (jq_jobs db') (w, i, False)" if "i \<in> set ids" for i
  proof -
    from that obtain j where j: "j \<in> set (jq_jobs db)" "bj_id j = i" by (auto simp: ids dest: due_batch_sub)
    with due [of j] that have "leased_job w now j \<in> set (jq_jobs db')" "bj_attempts j < bj_max_attempts j"
      by (auto simp: db' set_update_where job_due_def intro: image_eqI [of _ _ j])
    with j(2) show ?thesis by (auto simp: held_well_def leased_job_def intro!: bexI [of _ "leased_job w now j"])
  qed
  ultimately show ?thesis by (auto simp: queue_inv_def)
qed

lemma begin_inv:
  assumes inv: "queue_inv (db, pre @ (w, i, False) # post)"
  shows "queue_inv (write_job i (begun_job now) db, pre @ (w, i, True) # post)"
proof -
  have ok: "jobs_ok (jq_jobs db) (jq_next_id db)" using inv by (simp add: queue_inv_def)
  from inv obtain j where j: "j \<in> set (jq_jobs db)" "bj_id j = i" "bj_attempts j < bj_max_attempts j"
    by (auto simp: queue_inv_def held_well_def)
  have only: "k = j" if "k \<in> set (jq_jobs db)" "bj_id k = i" for k using jobs_ok_unique [OF ok that(1) j(1)] that(2) j(2) by simp
  have "within_attempts (begun_job now j)" using jobs_ok_within [OF ok j(1)] j(3) by (simp add: within_attempts_def)
  then have "jobs_ok (jq_jobs (write_job i (begun_job now) db)) (jq_next_id (write_job i (begun_job now) db))"
    using only by (auto simp: write_job_def intro!: jobs_ok_update [OF ok])
  moreover have "held_well (jq_jobs (write_job i (begun_job now) db)) x" if "x \<in> set pre \<union> set post" for x
    using inv that by (auto simp: queue_inv_def write_job_def intro!: held_well_other)
  moreover have "begun_job now j \<in> set (jq_jobs (write_job i (begun_job now) db))"
    using j by (auto simp: write_job_def set_update_where intro: image_eqI [of _ _ j])
  then have "held_well (jq_jobs (write_job i (begun_job now) db)) (w, i, True)"
    using j jobs_ok_within [OF ok j(1)] by (auto simp: held_well_def within_attempts_def intro!: bexI [of _ "begun_job now j"])
  ultimately show ?thesis using inv by (auto simp: queue_inv_def)
qed

lemma settle_inv:
  assumes inv: "queue_inv (db, pre @ (w, i, True) # post)" and f: "settle_job outcome now = Inr f"
  shows "queue_inv (write_job i f db, pre @ post)"
proof -
  have ok: "jobs_ok (jq_jobs db) (jq_next_id db)" using inv by (simp add: queue_inv_def)
  have "jobs_ok (jq_jobs (write_job i f db)) (jq_next_id (write_job i f db))"
    using jobs_ok_within [OF ok] by (auto simp: write_job_def settle_job_fields [OF f] within_attempts_def intro!: jobs_ok_update [OF ok])
  moreover have "held_well (jq_jobs (write_job i f db)) x" if "x \<in> set pre \<union> set post" for x
    using inv that by (auto simp: queue_inv_def write_job_def intro!: held_well_other)
  ultimately show ?thesis using inv by (auto simp: queue_inv_def)
qed

theorem queue_step_inv: "queue_step s t \<Longrightarrow> queue_inv s \<Longrightarrow> queue_inv t"
proof (induction rule: queue_step.induct)
  case (enqueue db job_type tenant_id payload scheduled_for max_attempts key now out db' h)
  from enqueue(1) show ?case
  proof (rule insert_job_cases)
    fix j assume j: "jq_jobs db' = jq_jobs db @ [j]" "jq_next_id db' = jq_next_id db + 1" "bj_id j = jq_next_id db"
      "bj_attempts j = 0" "bj_status j = JOB_PENDING" "bj_deduplication_key j = key" "bj_max_attempts j = max_attempts"
      "\<And>k. k \<in> set (jq_jobs db) \<Longrightarrow> bj_deduplication_key j \<noteq> None \<Longrightarrow> bj_deduplication_key k \<noteq> bj_deduplication_key j"
    then have "jobs_ok (jq_jobs db') (jq_next_id db')"
      using enqueue(2) jobs_ok_append [of "jq_jobs db" "jq_next_id db" j] by (simp add: queue_inv_def within_attempts_def)
    with enqueue(2) j(1) show ?thesis by (auto simp: queue_inv_def intro: held_well_mono)
  qed (use enqueue in simp)
next
  case (fetch db locked w limit tenant_id job_type now ids db' h)
  then show ?case by (blast intro: fetch_inv)
next
  case (begin_job db pre w i post now)
  then show ?case by (rule begin_inv)
next
  case (settle outcome now f db pre w i post)
  then show ?case by (blast intro: settle_inv)
next
  case (drop db pre w i b post)
  then show ?case by (auto simp: queue_inv_def)
next
  case (stuck db h now)
  then have ok: "jobs_ok (jq_jobs db) (jq_next_id db)" by (simp add: queue_inv_def)
  then have "jobs_ok (jq_jobs (detect_stuck_jobs now db)) (jq_next_id (detect_stuck_jobs now db))"
    using jobs_ok_within [OF ok] by (auto simp: detect_stuck_jobs_def within_attempts_def intro!: jobs_ok_update)
  moreover have "held_well (jq_jobs (detect_stuck_jobs now db)) x" if "x \<in> set h" for x
    using stuck that by (auto simp: queue_inv_def detect_stuck_jobs_def job_stuck_def intro!: held_well_other)
  ultimately show ?case using stuck by (simp add: queue_inv_def)
next
  case (purge st now db summary db' h)
  then have ok: "jobs_ok (jq_jobs db) (jq_next_id db)" by (simp add: queue_inv_def)
  then have "distinct (map bj_id (jq_jobs db))" by (simp add: jobs_ok_def)
  from purge_frame [OF purge(1) this] obtain p where p: "jq_next_id db' = jq_next_id db" "jq_jobs db' = filter p (jq_jobs db)"
    "\<forall>j \<in> set (jq_jobs db). \<not> p j \<longrightarrow> bj_status j = JOB_COMPLETED \<or> bj_status j = JOB_DEAD_LETTER" by blast
  have "held_well (jq_jobs db') x" if x: "x \<in> set h" for x
  proof -
    from purge(2) x have "held_well (jq_jobs db) x" by (simp add: queue_inv_def)
    then obtain j where j: "j \<in> set (jq_jobs db)" "bj_id j = held_id x" "bj_status j = JOB_RUNNING"
      "if snd (snd x) then 1 \<le> bj_attempts j \<and> bj_attempts j \<le> bj_max_attempts j else bj_attempts j < bj_max_attempts j"
      by (auto simp: held_well_def)
    with p(3) have "j \<in> set (jq_jobs db')" by (auto simp: p(2))
    with j show ?thesis by (auto simp: held_well_def)
  qed
  with purge(2) p jobs_ok_filter [OF ok] show ?case by (simp add: queue_inv_def)
next
  case (effect db' db h)
  then show ?case by (simp add: queue_inv_def)
qed

interpretation queue: machine "queue_step :: 'a job_db_scheme \<times> holding list \<Rightarrow> 'a job_db_scheme \<times> holding list \<Rightarrow> bool" queue_inv
  by unfold_locales (rule queue_step_inv)

end
