(* ===== verification/Job_Life.thy ===== *)
theory Job_Life
  imports Job_Machine
begin

text \<open>
  The life of a single job. A job and the phase it is in (free, leased by a worker, executing) form a
  small state machine; every step of the queue moves every job along it or leaves it alone, and only
  finished jobs disappear. Since each round trip uses up an attempt, a life has a bounded number of
  transitions.
\<close>

datatype phase = Free | Leased | Executing

definition phase_of :: "holding list \<Rightarrow> uuid \<Rightarrow> phase" where
  "phase_of h i = (case find (\<lambda>x. held_id x = i) h of None \<Rightarrow> Free | Some x \<Rightarrow> if snd (snd x) then Executing else Leased)"

inductive life_step :: "background_job \<times> phase \<Rightarrow> background_job \<times> phase \<Rightarrow> bool" where
  lease: "job_due locked t ty now j \<Longrightarrow> life_step (j, Free) (leased_job w now j, Leased)"
| start: "life_step (j, Leased) (begun_job now j, Executing)"
| finish: "settle_job outcome now = Inr f \<Longrightarrow> life_step (j, Executing) (f j, Free)"
| give_up: "p \<noteq> Free \<Longrightarrow> life_step (j, p) (j, Free)"
| stuck: "job_stuck now j \<Longrightarrow> life_step (j, Free) (stuck_job j, Free)"

inductive_cases life_stepE: "life_step (j, p) t"

definition life_inv :: "background_job \<times> phase \<Rightarrow> bool" where
  "life_inv s \<longleftrightarrow> within_attempts (fst s) \<and> (snd s \<noteq> Free \<longrightarrow> bj_status (fst s) = JOB_RUNNING)
     \<and> (snd s = Leased \<longrightarrow> bj_attempts (fst s) < bj_max_attempts (fst s))
     \<and> (snd s = Executing \<longrightarrow> bj_attempts (fst s) \<le> bj_max_attempts (fst s))"

definition life_rank :: "background_job \<times> phase \<Rightarrow> nat" where
  "life_rank s = (let left = nat (bj_max_attempts (fst s) - bj_attempts (fst s)) in
     case snd s of
       Free \<Rightarrow> if bj_status (fst s) = JOB_PENDING then 3 * left + 1 else 0
     | Leased \<Rightarrow> 3 * left
     | Executing \<Rightarrow> 3 * left + 2)"

lemma life_step_inv: "life_step s t \<Longrightarrow> life_inv s \<Longrightarrow> life_inv t"
  by (induction rule: life_step.induct) (auto simp: life_inv_def within_attempts_def job_due_def settle_job_fields)

lemma life_step_rank: "life_step s t \<Longrightarrow> life_inv s \<Longrightarrow> life_rank t < life_rank s"
proof (induction rule: life_step.induct)
  case (give_up p j)
  then show ?case by (cases p) (auto simp: life_inv_def life_rank_def Let_def)
next
  case (finish outcome now f j)
  then show ?case by (auto simp: life_rank_def Let_def settle_job_fields)
qed (auto simp: life_inv_def life_rank_def Let_def job_due_def job_stuck_def)

interpretation life: ranked_machine life_step life_inv life_rank
  by unfold_locales (auto intro: life_step_inv life_step_rank)

subsection \<open>Phases of holdings\<close>

lemma find_append: "find p (xs @ ys) = (case find p xs of None \<Rightarrow> find p ys | Some x \<Rightarrow> Some x)"
  by (induction xs) auto

lemma find_none_iff: "find (\<lambda>x. held_id x = i) h = None \<longleftrightarrow> i \<notin> set (map held_id h)"
  by (force simp: find_None_iff)

lemma phase_of_here:
  assumes "distinct (map held_id (pre @ (w, i, b) # post))"
  shows "phase_of (pre @ (w, i, b) # post) i = (if b then Executing else Leased)" "phase_of (pre @ post) i = Free"
proof -
  have "find (\<lambda>x. held_id x = i) pre = None" "find (\<lambda>x. held_id x = i) post = None"
    using assms by (auto simp: find_none_iff)
  then show "phase_of (pre @ (w, i, b) # post) i = (if b then Executing else Leased)" "phase_of (pre @ post) i = Free"
    by (simp_all add: phase_of_def find_append)
qed

lemma phase_of_other:
  assumes "k \<noteq> i"
  shows "phase_of (pre @ (w, i, b) # post) k = phase_of (pre @ post) k"
  using assms by (cases "find (\<lambda>x. held_id x = k) pre") (simp_all add: phase_of_def find_append)

lemma phase_of_free: "i \<notin> set (map held_id h) \<Longrightarrow> phase_of h i = Free"
  by (simp only: phase_of_def find_none_iff [symmetric] option.case)

lemma phase_free_unheld: "phase_of h i = Free \<Longrightarrow> i \<notin> set (map held_id h)"
  by (auto simp: phase_of_def find_none_iff simp del: set_map split: option.splits if_splits)

lemma phase_of_fetch:
  assumes "distinct (map held_id (h @ map (\<lambda>i. (w, i, False)) ids))"
  shows "phase_of (h @ map (\<lambda>i. (w, i, False)) ids) k = (if k \<in> set ids then Leased else phase_of h k)"
proof (cases "k \<in> set ids")
  case True
  then have "k \<notin> set (map held_id h)" using assms by auto
  then have "find (\<lambda>x. held_id x = k) h = None" by (simp add: find_none_iff)
  moreover have "find (\<lambda>x. held_id x = k) (map (\<lambda>i. (w, i, False)) ids) = Some (w, k, False)"
    using True by (induction ids) auto
  ultimately show ?thesis using True by (simp add: phase_of_def find_append)
next
  case False
  then have "find (\<lambda>x. held_id x = k) (map (\<lambda>i. (w, i, False)) ids) = None" by (auto simp: find_None_iff)
  with False show ?thesis by (simp add: phase_of_def find_append split: option.splits)
qed

lemma held_phase:
  assumes "queue_inv (db, h)" "j \<in> set (jq_jobs db)"
  shows "life_inv (j, phase_of h (bj_id j))"
proof (cases "find (\<lambda>x. held_id x = bj_id j) h")
  case None
  with assms show ?thesis by (auto simp: life_inv_def phase_of_def queue_inv_def dest: jobs_ok_within)
next
  case (Some x)
  then have x: "x \<in> set h" "held_id x = bj_id j" by (auto simp: find_Some_iff)
  have ok: "jobs_ok (jq_jobs db) (jq_next_id db)" using assms(1) by (simp add: queue_inv_def)
  from assms(1) x(1) obtain k where k: "k \<in> set (jq_jobs db)" "bj_id k = held_id x" "bj_status k = JOB_RUNNING"
    "if snd (snd x) then 1 \<le> bj_attempts k \<and> bj_attempts k \<le> bj_max_attempts k else bj_attempts k < bj_max_attempts k"
    by (auto simp: queue_inv_def held_well_def)
  with jobs_ok_unique [OF ok k(1) assms(2)] x(2) have "k = j" by simp
  with k Some jobs_ok_within [OF ok assms(2)] show ?thesis by (auto simp: life_inv_def phase_of_def split: if_splits)
qed

subsection \<open>The queue moves jobs along their lives\<close>

definition lives_on :: "'a job_db_scheme \<times> holding list \<Rightarrow> 'a job_db_scheme \<times> holding list \<Rightarrow> background_job \<Rightarrow> bool" where
  "lives_on s t j \<longleftrightarrow> (\<exists>j' \<in> set (jq_jobs (fst t)). bj_id j' = bj_id j
      \<and> life_step\<^sup>=\<^sup>= (j, phase_of (snd s) (bj_id j)) (j', phase_of (snd t) (bj_id j')))
     \<or> bj_status j \<in> {JOB_COMPLETED, JOB_DEAD_LETTER}"

lemma lives_on_write:
  assumes "j \<in> set (jq_jobs db)" "bj_id j = i \<Longrightarrow> bj_id (f j) = i"
    and "bj_id j = i \<Longrightarrow> life_step (j, phase_of h i) (f j, phase_of h' i)"
    and "bj_id j \<noteq> i \<Longrightarrow> phase_of h' (bj_id j) = phase_of h (bj_id j)"
  shows "lives_on (db, h) (write_job i f db, h') j"
proof (cases "bj_id j = i")
  case True
  then have row: "f j \<in> set (jq_jobs (write_job i f db))"
    using in_update_where_hit [OF assms(1), of "\<lambda>j. bj_id j = i" f] by (simp add: write_job_def)
  show ?thesis
    unfolding lives_on_def fst_conv snd_conv
    by (intro disjI1 bexI [OF _ row]) (use True assms(2,3) in simp)
next
  case False
  then have row: "j \<in> set (jq_jobs (write_job i f db))"
    using in_update_where_other [OF assms(1), of "\<lambda>j. bj_id j = i" f] by (simp add: write_job_def)
  show ?thesis
    unfolding lives_on_def fst_conv snd_conv
    by (intro disjI1 bexI [OF _ row]) (use False assms(4) in simp)
qed

lemma lives_on_same: "j \<in> set (jq_jobs db') \<Longrightarrow> phase_of h' (bj_id j) = phase_of h (bj_id j) \<Longrightarrow> lives_on (db, h) (db', h') j"
  unfolding lives_on_def fst_conv snd_conv by (rule disjI1, rule bexI [of _ j]) simp_all

theorem queue_step_lives:
  "queue_step s t \<Longrightarrow> queue_inv s \<Longrightarrow> j \<in> set (jq_jobs (fst s)) \<Longrightarrow> lives_on s t j"
proof (induction rule: queue_step.induct)
  case (enqueue db job_type tenant_id payload scheduled_for max_attempts key now out db' h)
  from enqueue(1) have "set (jq_jobs db) \<subseteq> set (jq_jobs db')" by (rule insert_job_cases) auto
  with enqueue(3) show ?case by (auto intro: lives_on_same)
next
  case (fetch db locked w limit tenant_id job_type now ids db' h)
  let ?h = "h @ map (\<lambda>i. (w, i, False)) ids"
  have ok: "jobs_ok (jq_jobs db) (jq_next_id db)" using fetch(2) by (simp add: queue_inv_def)
  have "queue_inv (db', ?h)" using fetch by (blast intro: fetch_inv)
  then have d: "distinct (map held_id ?h)" by (simp add: queue_inv_def)
  have ids: "ids = map bj_id (due_batch db locked limit tenant_id job_type now)"
    and db': "db' = db\<lparr>jq_jobs := update_where (\<lambda>j. bj_id j \<in> set ids) (leased_job w now) (jq_jobs db)\<rparr>"
    using fetch(1) by (auto simp: fetch_and_lock_batch_def Let_def)
  show ?case
  proof (cases "bj_id j \<in> set ids")
    case True
    with due_batch_due [OF ok] fetch(3) have due: "job_due locked tenant_id job_type now j" by (simp add: ids)
    have "leased_job w now j \<in> set (jq_jobs db')"
      using True fetch(3) by (auto simp: db' set_update_where intro: image_eqI [of _ _ j])
    moreover have "phase_of h (bj_id j) = Free" using d True by (intro phase_of_free) auto
    ultimately show ?thesis
      using True life_step.lease [OF due, of w] phase_of_fetch [OF d, of "bj_id j"]
      unfolding lives_on_def fst_conv snd_conv by (intro disjI1 bexI [of _ "leased_job w now j"]) simp_all
  next
    case False
    then have "j \<in> set (jq_jobs db')" using fetch(3) by (auto simp: db' set_update_where intro: image_eqI [of _ _ j])
    with False phase_of_fetch [OF d] show ?thesis by (intro lives_on_same) simp_all
  qed
next
  case (begin_job db pre w i post now)
  have d: "distinct (map held_id (pre @ (w, i, False) # post))" "distinct (map held_id (pre @ (w, i, True) # post))"
    using begin_job(1) by (simp_all add: queue_inv_def)
  show ?case
    by (rule lives_on_write)
      (use begin_job(2) phase_of_here [OF d(1)] phase_of_here [OF d(2)] in \<open>auto simp: phase_of_other intro: life_step.start\<close>)
next
  case (settle outcome now f db pre w i post)
  have d: "distinct (map held_id (pre @ (w, i, True) # post))" using settle(2) by (simp add: queue_inv_def)
  show ?case
    by (rule lives_on_write)
      (use settle(1,3) phase_of_here [OF d] in \<open>auto simp: phase_of_other settle_job_fields [OF settle(1)] intro: life_step.finish\<close>)
next
  case (drop db pre w i b post)
  have d: "distinct (map held_id (pre @ (w, i, b) # post))" using drop(1) by (simp add: queue_inv_def)
  show ?case
  proof (cases "bj_id j = i")
    case True
    with drop(2) phase_of_here [OF d] show ?thesis
      by (auto simp: lives_on_def intro!: bexI [of _ j] life_step.give_up split: if_splits)
  next
    case False
    with drop(2) show ?thesis by (auto simp: phase_of_other intro: lives_on_same)
  qed
next
  case (stuck db h now)
  show ?case
  proof (cases "job_stuck now j")
    case True
    then have row: "stuck_job j \<in> set (jq_jobs (detect_stuck_jobs now db))"
      using stuck(2) by (auto simp: detect_stuck_jobs_def set_update_where intro: image_eqI [of _ _ j])
    have "phase_of h (bj_id j) = Free"
      using held_phase [OF stuck(1), of j] stuck(2) True by (simp add: life_inv_def job_stuck_def)
    with row life_step.stuck [OF True] show ?thesis by (auto simp: lives_on_def intro!: bexI [of _ "stuck_job j"])
  next
    case False
    then have "j \<in> set (jq_jobs (detect_stuck_jobs now db))"
      using stuck(2) by (auto simp: detect_stuck_jobs_def set_update_where intro: image_eqI [of _ _ j])
    then show ?thesis by (auto intro: lives_on_same)
  qed
next
  case (purge st now db summary db' h)
  then have "distinct (map bj_id (jq_jobs db))" by (simp add: queue_inv_def jobs_ok_def)
  from purge_frame [OF purge(1) this] obtain p where p: "jq_jobs db' = filter p (jq_jobs db)"
    "\<forall>j \<in> set (jq_jobs db). \<not> p j \<longrightarrow> bj_status j = JOB_COMPLETED \<or> bj_status j = JOB_DEAD_LETTER" by blast
  with purge(3) show ?case by (cases "p j") (auto simp: lives_on_def)
next
  case (effect db' db h)
  then show ?case by (auto intro: lives_on_same)
qed

end
