(* ===== verification/Job_Workers.thy ===== *)
theory Job_Workers
  imports Job_Life
begin

text \<open>
  Workers and handlers. The interface between the queue and the handlers it runs is the locale
  \<open>job_handlers\<close>: whatever a handler does to the database is a run of the queue that leaves the
  holdings of the workers alone and keeps the tables of the handlers well formed. For such handlers the
  processing of a batch is itself a run of the queue and keeps the tables well formed.
\<close>

locale job_handlers =
  fixes registry :: "string \<Rightarrow> 'a handler option"
    and tables_ok :: "'a job_db_scheme \<Rightarrow> bool"
  assumes handler_run: "registry ty = Some handler \<Longrightarrow> tables_ok db \<Longrightarrow> handler job db = (outcome, db') \<Longrightarrow> queue_step\<^sup>*\<^sup>* (db, h) (db', h)"
    and handler_ok: "registry ty = Some handler \<Longrightarrow> tables_ok db \<Longrightarrow> handler job db = (outcome, db') \<Longrightarrow> tables_ok db'"
    and tables_frame: "tables_ok (db\<lparr>jq_jobs := js\<rparr>) = tables_ok db"
begin

lemma write_ok [simp]: "tables_ok (write_job i f db) = tables_ok db"
  by (simp add: write_job_def tables_frame)

lemma run_handler_run:
  "run_handler registry job db = (outcome, db') \<Longrightarrow> tables_ok db \<Longrightarrow> queue_step\<^sup>*\<^sup>* (db, h) (db', h) \<and> tables_ok db'"
  using handler_run [of "bj_job_type job" _ db job outcome db' h] handler_ok [of "bj_job_type job" _ db job outcome db']
  by (cases "registry (bj_job_type job)") (auto simp: run_handler_def)

lemma process_single_run:
  assumes "process_single_job registry i started finished db = (out, db')" "tables_ok db"
  shows "queue_step\<^sup>*\<^sup>* (db, pre @ (w, i, False) # post) (db', pre @ post) \<and> tables_ok db'"
proof -
  let ?db1 = "write_job i (begun_job started) db"
  have start: "queue_step (db, pre @ (w, i, False) # post) (?db1, pre @ (w, i, True) # post)" by (rule queue_step.begin_job)
  show ?thesis
  proof (cases "find_job ?db1 i")
    case None
    with assms have db': "db' = ?db1" by (simp add: process_single_job_def Let_def)
    with start queue_step.drop have "queue_step\<^sup>*\<^sup>* (db, pre @ (w, i, False) # post) (db', pre @ post)"
      by (metis converse_rtranclp_into_rtranclp r_into_rtranclp)
    with db' assms(2) show ?thesis by simp
  next
    case (Some job)
    obtain outcome db2 where run: "run_handler registry job ?db1 = (outcome, db2)" by fastforce
    have effects: "queue_step\<^sup>*\<^sup>* (?db1, pre @ (w, i, True) # post) (db2, pre @ (w, i, True) # post)" "tables_ok db2"
      using run_handler_run [OF run] assms(2) by simp_all
    have "queue_step (db2, pre @ (w, i, True) # post) (db', pre @ post)" "tables_ok db'"
      using assms Some run effects(2)
      by (auto simp: process_single_job_def Let_def split: sum.splits intro: queue_step.drop queue_step.settle)
    with start effects show ?thesis by (meson converse_rtranclp_into_rtranclp rtranclp.rtrancl_into_rtrancl)
  qed
qed

lemma drop_all: "queue_step\<^sup>*\<^sup>* (db, h @ xs) (db, h)"
proof (induction xs)
  case (Cons x xs)
  obtain w i b where "x = (w, i, b)" by (cases x)
  then have "queue_step (db, h @ x # xs) (db, h @ xs)" using queue_step.drop by metis
  with Cons show ?case by (metis converse_rtranclp_into_rtranclp)
qed simp

lemma process_jobs_run:
  "process_jobs registry clock ids r db = (out, db') \<Longrightarrow> tables_ok db
    \<Longrightarrow> queue_step\<^sup>*\<^sup>* (db, h @ map (\<lambda>i. (w, i, False)) ids) (db', h) \<and> tables_ok db'"
proof (induction ids arbitrary: r db)
  case (Cons i ids)
  obtain res db1 where single: "process_single_job registry i (fst (clock i)) (snd (clock i)) db = (res, db1)" by fastforce
  have first: "queue_step\<^sup>*\<^sup>* (db, h @ (w, i, False) # map (\<lambda>i. (w, i, False)) ids) (db1, h @ map (\<lambda>i. (w, i, False)) ids)" "tables_ok db1"
    using process_single_run [OF single Cons.prems(2)] by blast+
  have "queue_step\<^sup>*\<^sup>* (db1, h @ map (\<lambda>i. (w, i, False)) ids) (db', h) \<and> tables_ok db'"
  proof (cases res)
    case (Inl e)
    with Cons.prems single have "db' = db1" by simp
    with drop_all first(2) show ?thesis by blast
  next
    case (Inr u)
    with Cons.prems single have "process_jobs registry clock ids (count_job (find_job db1 i) r) db1 = (out, db')" by simp
    then show ?thesis using first(2) by (rule Cons.IH)
  qed
  with first show ?case by (auto intro: rtranclp_trans)
qed simp

lemma process_pending_run:
  assumes "process_pending_jobs registry clock locked w limit t ty now db = (out, db')" "tables_ok db"
  shows "queue_step\<^sup>*\<^sup>* (db, h) (db', h) \<and> tables_ok db'"
proof -
  let ?limit = "case limit of None \<Rightarrow> max_jobs_per_batch | Some n \<Rightarrow> if n = 0 then max_jobs_per_batch else n"
  obtain ids db1 where fetch: "fetch_and_lock_batch db locked w ?limit t ty now = (ids, db1)" by fastforce
  have "queue_step (db, h) (db1, h @ map (\<lambda>i. (w, i, False)) ids)" by (rule queue_step.fetch [OF fetch])
  moreover have "process_jobs registry clock ids batch_start db1 = (out, db')"
    using assms(1) fetch by (simp add: process_pending_jobs_def)
  moreover have "tables_ok db1" using fetch assms(2) by (auto simp: fetch_and_lock_batch_def Let_def tables_frame)
  ultimately show ?thesis using process_jobs_run by (meson converse_rtranclp_into_rtranclp)
qed

end

subsection \<open>Accounting of a batch\<close>

lemma count_job_processed: "br_processed (count_job j r) = br_processed r + 1"
  "br_succeeded (count_job j r) + br_failed (count_job j r) = br_succeeded r + br_failed r + 1"
  by (auto simp: count_job_def split: option.splits)

lemma process_jobs_count:
  assumes "process_jobs registry clock ids r db = (Inr r', db')"
  shows "br_processed r' = br_processed r + length ids \<and> br_succeeded r' + br_failed r' = br_succeeded r + br_failed r + length ids"
  using assms
proof (induction ids arbitrary: r db)
  case (Cons i ids)
  obtain db1 where "process_jobs registry clock ids (count_job (find_job db1 i) r) db1 = (Inr r', db')"
    using Cons.prems by (auto split: prod.splits sum.splits)
  from Cons.IH [OF this] count_job_processed [of "find_job db1 i" r] show ?case by simp
qed simp

subsection \<open>Jobs nobody will touch again\<close>

lemma stranded_step:
  assumes "queue_step s t" "queue_inv s" "j \<in> set (jq_jobs (fst s))" "bj_status j = JOB_RUNNING \<or> bj_status j = JOB_FAILED"
    "phase_of (snd s) (bj_id j) = Free"
  shows "j \<in> set (jq_jobs (fst t)) \<and> phase_of (snd t) (bj_id j) = Free"
proof -
  have "\<not> life_step (j, Free) v" for v using assms(4) by (auto elim!: life_stepE simp: job_due_def job_stuck_def)
  with queue_step_lives [OF assms(1-3)] assms(4,5) show ?thesis by (auto simp: lives_on_def)
qed

lemma stranded_forever:
  assumes "queue_step\<^sup>*\<^sup>* s t" "queue_inv s" "j \<in> set (jq_jobs (fst s))" "bj_status j = JOB_RUNNING \<or> bj_status j = JOB_FAILED"
    "phase_of (snd s) (bj_id j) = Free"
  shows "j \<in> set (jq_jobs (fst t)) \<and> phase_of (snd t) (bj_id j) = Free"
  using assms(1)
proof (induction rule: rtranclp_induct)
  case base
  with assms(3,5) show ?case by simp
next
  case (step t u)
  with stranded_step [OF step(2)] queue.run_inv [OF step(1) assms(2)] assms(4) show ?case by blast
qed

subsection \<open>Where rows come from\<close>

definition comes_from :: "'a job_db_scheme \<Rightarrow> background_job \<Rightarrow> bool" where
  "comes_from db r \<longleftrightarrow> jq_next_id db \<le> bj_id r
     \<or> (\<exists>j \<in> set (jq_jobs db). bj_id j = bj_id r \<and> bj_deduplication_key j = bj_deduplication_key r)"

lemma comes_from_self: "r \<in> set (jq_jobs db) \<Longrightarrow> comes_from db r"
  by (auto simp: comes_from_def)

lemma comes_from_update:
  assumes "r \<in> set (update_where p f (jq_jobs db))"
    and "\<And>j. bj_id (f j) = bj_id j \<and> bj_deduplication_key (f j) = bj_deduplication_key j"
  shows "comes_from db r"
  using assms by (auto simp: comes_from_def set_update_where split: if_splits)

lemma queue_step_origin:
  "queue_step s t \<Longrightarrow> queue_inv s \<Longrightarrow> jq_next_id (fst s) \<le> jq_next_id (fst t)
    \<and> (\<forall>r \<in> set (jq_jobs (fst t)). comes_from (fst s) r)"
proof (induction rule: queue_step.induct)
  case (enqueue db job_type tenant_id payload scheduled_for max_attempts key now out db' h)
  from enqueue(1) show ?case by (rule insert_job_cases) (auto simp: comes_from_def)
next
  case (fetch db locked w limit tenant_id job_type now ids db' h)
  then show ?case by (auto simp: fetch_and_lock_batch_def Let_def intro: comes_from_update)
next
  case (begin_job db pre w i post now)
  then show ?case by (auto simp: write_job_def intro: comes_from_update)
next
  case (settle outcome now f db pre w i post)
  then show ?case by (auto simp: write_job_def settle_job_fields intro: comes_from_update)
next
  case (stuck db h now)
  then show ?case by (auto simp: detect_stuck_jobs_def intro: comes_from_update)
next
  case (purge st now db summary db' h)
  then have "distinct (map bj_id (jq_jobs db))" by (simp add: queue_inv_def jobs_ok_def)
  from purge_frame [OF purge(1) this] show ?case by (auto intro: comes_from_self)
qed (auto intro: comes_from_self)

lemma queue_run_origin:
  assumes "queue_step\<^sup>*\<^sup>* s t" "queue_inv s"
  shows "jq_next_id (fst s) \<le> jq_next_id (fst t) \<and> (\<forall>r \<in> set (jq_jobs (fst t)). comes_from (fst s) r)"
  using assms(1)
proof (induction rule: rtranclp_induct)
  case (step t u)
  have up: "jq_next_id (fst t) \<le> jq_next_id (fst u)" "\<forall>r \<in> set (jq_jobs (fst u)). comes_from (fst t) r"
    using queue_step_origin [OF step(2) queue.run_inv [OF step(1) assms(2)]] by blast+
  have "comes_from (fst s) r" if r: "r \<in> set (jq_jobs (fst u))" for r
  proof (cases "jq_next_id (fst t) \<le> bj_id r")
    case True
    with step.IH show ?thesis by (auto simp: comes_from_def)
  next
    case False
    with up(2) r obtain j where j: "j \<in> set (jq_jobs (fst t))" "bj_id j = bj_id r" "bj_deduplication_key j = bj_deduplication_key r"
      by (auto simp: comes_from_def)
    with step.IH have "comes_from (fst s) j" by blast
    with j(2,3) show ?thesis by (simp add: comes_from_def)
  qed
  with up(1) step.IH show ?case by (auto intro: order_trans)
qed (auto intro: comes_from_self)

subsection \<open>Deduplication keys\<close>

lemma key_kept:
  assumes "queue_inv (db, h)" and "key \<noteq> ''''"
    and ins: "insert_job db job_type tenant_id payload scheduled_for max_attempts (Some key) now = (Inr (j, created), db1)"
    and run: "queue_step\<^sup>*\<^sup>* (db1, h) (db2, h2)" and kept: "bj_id j \<in> set (map bj_id (jq_jobs db2))"
  shows "\<exists>row. bj_id row = bj_id j \<and> find_by_key db2 key = Some row"
proof -
  have inv1: "queue_inv (db1, h)" by (rule queue_step_inv [OF queue_step.enqueue [OF ins] assms(1)])
  have j: "j \<in> set (jq_jobs db1)" "bj_deduplication_key j = Some key"
    using ins assms(2) by (auto simp: insert_job_def Let_def find_by_key_def new_job_def dest: first_row_SomeD split: option.splits)
  from kept obtain r where r: "r \<in> set (jq_jobs db2)" "bj_id r = bj_id j" by auto
  have ok1: "jobs_ok (jq_jobs db1) (jq_next_id db1)" using inv1 by (simp add: queue_inv_def)
  with j(1) have "bj_id j < jq_next_id db1" by (auto simp: jobs_ok_def)
  moreover have "comes_from db1 r" using queue_run_origin [OF run inv1] r(1) by simp
  ultimately obtain k where k: "k \<in> set (jq_jobs db1)" "bj_id k = bj_id j" "bj_deduplication_key k = bj_deduplication_key r"
    using r(2) by (auto simp: comes_from_def)
  then have key: "bj_deduplication_key r = Some key" using jobs_ok_unique [OF ok1 k(1) j(1)] j(2) by simp
  then obtain row where found: "find_by_key db2 key = Some row"
    using r(1) by (cases "find_by_key db2 key") (auto simp: find_by_key_def first_row_None)
  then have "row \<in> set (jq_jobs db2)" "bj_deduplication_key row = Some key" by (auto simp: find_by_key_def dest: first_row_SomeD)
  with queue.run_inv [OF run inv1] key r(1) have "row = r" by (auto simp: queue_inv_def jobs_ok_def)
  with found r(2) show ?thesis by blast
qed

end
