(* ===== verification/Job_Theorems.thy ===== *)
theory Job_Theorems
  imports Job_Workers
begin

text \<open>
  The properties of the job queue: exclusive execution within the allowed attempts, the life of a job,
  retries, deduplication, what is lost when a batch is aborted or a job is taken for stuck, and the
  purge.
\<close>


definition sample_queue :: job_db where
  "sample_queue = \<lparr>jq_jobs = [], jq_next_id = 1\<rparr>"

definition sample_job :: background_job where
  "sample_job = new_job 1 ''dunning'' None None 50 3 None 10"

lemma sample_enqueued: "queue_step (sample_queue, []) (\<lparr>jq_jobs = [sample_job], jq_next_id = 2\<rparr>, h)" if "h = []"
  unfolding that by (rule queue_step.enqueue [where job_type = "''dunning''" and tenant_id = None and payload = None and key = None
      and scheduled_for = "Some 50" and max_attempts = 3 and now = 10 and out = "Inr (sample_job, True)"])
    (simp add: insert_job_def sample_queue_def sample_job_def Let_def numeral_2_eq_2)


text \<open>
  Every step of the queue moves every job along the state machine of a job's life or leaves it as
  it is, and only completed and dead-lettered jobs are ever deleted.
\<close>

theorem queue_refines_life:
  assumes "queue_inv s" and "queue_step s t" and "j \<in> set (jq_jobs (fst s))"
  shows "(\<exists>j' \<in> set (jq_jobs (fst t)). bj_id j' = bj_id j
      \<and> ((j', phase_of (snd t) (bj_id j)) = (j, phase_of (snd s) (bj_id j))
         \<or> life_step (j, phase_of (snd s) (bj_id j)) (j', phase_of (snd t) (bj_id j))))
    \<or> bj_status j \<in> {JOB_COMPLETED, JOB_DEAD_LETTER}"
  using queue_step_lives [OF assms(2,1,3)] unfolding lives_on_def by (metis sup2E)

lemma queue_refines_life_witness:
  "\<exists>j' \<in> set (jq_jobs (detect_stuck_jobs (20 + seconds 3600) \<lparr>jq_jobs = [sample_job], jq_next_id = 2\<rparr>)). bj_id j' = 1"
proof -
  let ?s = "(\<lparr>jq_jobs = [sample_job], jq_next_id = 2\<rparr>, [])"
  have "queue_inv ?s"
    by (rule queue_step_inv [OF sample_enqueued]) (simp_all add: queue_inv_def jobs_ok_def sample_queue_def)
  from queue_refines_life [OF this queue_step.stuck [of _ _ "20 + seconds 3600"], of sample_job]
  show ?thesis by (auto simp: sample_job_def new_job_def)
qed

text \<open>
  C30. The life of a job ends: from its creation a job takes at most three transitions per allowed
  attempt and one more, however often it fails, is cancelled or is dropped by a dying worker.
\<close>

theorem job_life_bounded:
  assumes "(life_step ^^ n) (new_job i job_type tenant_id payload scheduled_for max_attempts key now, Free) t"
  shows "int n \<le> 3 * max 0 max_attempts + 1"
proof -
  let ?s = "(new_job i job_type tenant_id payload scheduled_for max_attempts key now, Free)"
  have "life_inv ?s" by (simp add: life_inv_def new_job_def within_attempts_def)
  from life.steps_rank [OF assms this] have "n \<le> life_rank ?s" by simp
  then show ?thesis by (simp add: life_rank_def new_job_def)
qed

lemma job_life_bounded_witness: "\<exists>t n. (life_step ^^ n) (sample_job, Free) t \<and> n = 1 \<and> int n \<le> 3 * max 0 3 + 1"
proof -
  have "job_due (\<lambda>_. False) None None 60 sample_job" by (simp add: job_due_def sample_job_def new_job_def)
  then have "(life_step ^^ 1) (sample_job, Free) (leased_job ''w'' 60 sample_job, Leased)"
    unfolding relpowp_1 by (rule life_step.lease)
  with job_life_bounded [of 1 1 "''dunning''" None None 50 3 None 10] show ?thesis unfolding sample_job_def by blast
qed

text \<open>
  A handler that fails recoverably or times out costs one attempt: while attempts are left the job
  is pending again and due after sixty seconds, doubled with every further attempt; at the last attempt
  it is dead-lettered. The error is recorded and processing goes on.
\<close>

theorem retry_schedule:
  assumes "find_job (write_job i (begun_job started) db) i = Some (begun_job started j)"
    and "run_handler registry (begun_job started j) (write_job i (begun_job started) db) = (Raised e, db2)"
    and "find_job db2 i = Some (begun_job started j)" and "job_recoverable e" and "0 \<le> bj_attempts j"
  shows "\<exists>db' j'. process_single_job registry i started finished db = (Inr (), db') \<and> find_job db' i = Some j'
    \<and> bj_attempts j' = bj_attempts j + 1 \<and> bj_error_message j' \<noteq> None
    \<and> (if bj_attempts j + 1 < bj_max_attempts j
       then bj_status j' = JOB_PENDING \<and> bj_scheduled_for j' = finished + seconds (60 * 2 ^ nat (bj_attempts j))
       else bj_status j' = JOB_DEAD_LETTER \<and> bj_completed_at j' = Some finished)"
proof -
  obtain message where f: "settle_job (Raised e) finished = Inr (retry_or_bury message finished)"
    using assms(4) by (cases "e = TimeoutError") (auto simp: settle_job_def)
  let ?j = "retry_or_bury message finished (begun_job started j)"
  have "find_job (write_job i (retry_or_bury message finished) db2) i = Some ?j"
    using assms(3) first_row_update_where_key [of bj_id "retry_or_bury message finished" i "\<lambda>j. bj_id j = i" "jq_jobs db2"]
      settle_job_fields(1) [OF f] by (auto simp: find_job_def write_job_def dest: first_row_SomeD)
  moreover have "nat (1 + bj_attempts j - 1) = nat (bj_attempts j)" by simp
  ultimately show ?thesis
    using assms(1,2) f
    by (auto simp: process_single_job_def retry_or_bury_def backoff_seconds_def backoff_base_seconds_def)
qed

lemma retry_schedule_witness:
  "\<exists>db' j'. process_single_job (\<lambda>_. None) 1 60 70 \<lparr>jq_jobs = [sample_job], jq_next_id = 2\<rparr> = (Inr (), db')
     \<and> find_job db' 1 = Some j' \<and> bj_status j' = JOB_PENDING \<and> bj_scheduled_for j' = 70 + seconds 60"
proof -
  let ?db = "\<lparr>jq_jobs = [sample_job], jq_next_id = 2\<rparr>"
  let ?db1 = "write_job 1 (begun_job 60) ?db"
  have found: "find_job ?db1 1 = Some (begun_job 60 sample_job)"
    by (simp add: find_job_def write_job_def update_where_def first_row_def sample_job_def new_job_def begun_job_def)
  have run: "run_handler (\<lambda>_. None) (begun_job 60 sample_job) ?db1
      = (Raised (ValueError (''No handler registered for job type: '' @ bj_job_type (begun_job 60 sample_job))), ?db1)"
    by (simp add: run_handler_def)
  from retry_schedule [OF found run found, of 70] show ?thesis by (auto simp: sample_job_def new_job_def)
qed

text \<open>
  An unrecoverable error aborts the batch for good: the exception leaves the processor, and the
  failed job and every job fetched with it stay running, held by nobody, whatever happens to the queue
  afterwards. No worker fetches them, and the detector of stuck jobs does not see them.
\<close>

theorem aborted_batch_strands:
  assumes "queue_inv (db, h)" and "fetch_and_lock_batch db locked w limit t ty now = (i # ids, db1)"
    and "run_handler registry (begun_job (fst (clock i)) j) (write_job i (begun_job (fst (clock i))) db1)
      = (Raised e, write_job i (begun_job (fst (clock i))) db1)"
    and "find_job (write_job i (begun_job (fst (clock i))) db1) i = Some (begun_job (fst (clock i)) j)"
    and "\<not> job_recoverable e" and "k \<in> set (i # ids)"
  shows "\<exists>db2. process_jobs registry clock (i # ids) batch_start db1 = (Inl e, db2)
    \<and> (\<forall>db3 h3. queue_step\<^sup>*\<^sup>* (db2, h) (db3, h3) \<longrightarrow>
         (\<exists>row \<in> set (jq_jobs db3). bj_id row = k \<and> bj_status row = JOB_RUNNING \<and> k \<notin> set (map held_id h3)))"
proof -
  let ?db2 = "write_job i (begun_job (fst (clock i))) db1"
  let ?held = "map (\<lambda>i. (w, i, False)) (i # ids)" and ?rest = "(w, i, True) # map (\<lambda>i. (w, i, False)) ids"
  have aborted: "process_jobs registry clock (i # ids) batch_start db1 = (Inl e, ?db2)"
    using assms(3-5) by (cases e) (simp_all add: process_single_job_def settle_job_def)
  have fetched: "queue_inv (db1, h @ ?held)" by (rule fetch_inv [OF assms(1,2)])
  then have begun: "queue_inv (?db2, h @ ?rest)" using begin_inv [of db1 h w i] by simp
  then have inv: "queue_inv (?db2, h)" by (simp add: queue_inv_def)
  have "\<exists>x \<in> set (h @ ?rest). held_id x = k" using assms(6) by (cases "k = i") force+
  with begun obtain row where row: "row \<in> set (jq_jobs ?db2)" "bj_id row = k" "bj_status row = JOB_RUNNING"
    unfolding queue_inv_def held_well_def snd_conv fst_conv by metis
  have free: "phase_of h k = Free"
    using begun assms(6) by (intro phase_of_free) (auto simp: queue_inv_def)
  have stranded: "\<exists>row \<in> set (jq_jobs db3). bj_id row = k \<and> bj_status row = JOB_RUNNING \<and> k \<notin> set (map held_id h3)"
    if "queue_step\<^sup>*\<^sup>* (?db2, h) (db3, h3)" for db3 h3
  proof -
    from stranded_forever [OF that inv, of row] row free
    have "row \<in> set (jq_jobs db3)" "phase_of h3 k = Free" by simp_all
    with row phase_free_unheld show ?thesis by blast
  qed
  with aborted show ?thesis by blast
qed

definition refusing_handler :: "'a handler" where
  "refusing_handler job db = (Raised (OtherError ''No active subscription''), db)"

lemma aborted_batch_strands_witness:
  "\<exists>db1 db2. fetch_and_lock_batch \<lparr>jq_jobs = [sample_job], jq_next_id = 2\<rparr> (\<lambda>_. False) ''w'' 10 None None 60 = ([1], db1)
     \<and> process_jobs (\<lambda>_. Some refusing_handler) (\<lambda>_. (60, 70)) [1] batch_start db1 = (Inl (OtherError ''No active subscription''), db2)
     \<and> (\<exists>row \<in> set (jq_jobs (detect_stuck_jobs (20 + seconds 7200) db2)). bj_status row = JOB_RUNNING)"
proof -
  let ?db = "\<lparr>jq_jobs = [sample_job], jq_next_id = 2\<rparr>"
  let ?db1 = "\<lparr>jq_jobs = [leased_job ''w'' 60 sample_job], jq_next_id = 2\<rparr>"
  have inv: "queue_inv (?db, [])"
    by (rule queue_step_inv [OF sample_enqueued]) (simp_all add: queue_inv_def jobs_ok_def sample_queue_def)
  have "due_batch ?db (\<lambda>_. False) 10 None None 60 = [sample_job]"
    by (simp add: due_batch_def job_due_def sample_job_def new_job_def)
  then have fetched: "fetch_and_lock_batch ?db (\<lambda>_. False) ''w'' 10 None None 60 = ([1], ?db1)"
    by (simp add: fetch_and_lock_batch_def sample_job_def new_job_def update_where_def)
  have run: "run_handler (\<lambda>_. Some refusing_handler) (begun_job 60 (leased_job ''w'' 60 sample_job)) (write_job 1 (begun_job 60) ?db1)
      = (Raised (OtherError ''No active subscription''), write_job 1 (begun_job 60) ?db1)"
    by (simp add: run_handler_def refusing_handler_def)
  have found: "find_job (write_job 1 (begun_job 60) ?db1) 1 = Some (begun_job 60 (leased_job ''w'' 60 sample_job))"
    by (simp add: find_job_def write_job_def update_where_def first_row_def sample_job_def new_job_def)
  have "\<exists>db2. process_jobs (\<lambda>_. Some refusing_handler) (\<lambda>_. (60, 70)) [1] batch_start ?db1 = (Inl (OtherError ''No active subscription''), db2)
    \<and> (\<forall>db3 h3. queue_step\<^sup>*\<^sup>* (db2, []) (db3, h3) \<longrightarrow>
         (\<exists>row \<in> set (jq_jobs db3). bj_id row = 1 \<and> bj_status row = JOB_RUNNING \<and> 1 \<notin> set (map held_id h3)))"
    by (rule aborted_batch_strands [OF inv fetched, where clock = "\<lambda>_. (60, 70)" and registry = "\<lambda>_. Some refusing_handler"
          and j = "leased_job ''w'' 60 sample_job"])
      (simp_all only: fst_conv run found, simp_all)
  then obtain db2 where db2: "process_jobs (\<lambda>_. Some refusing_handler) (\<lambda>_. (60, 70)) [1] batch_start ?db1 = (Inl (OtherError ''No active subscription''), db2)"
    "\<forall>db3 h3. queue_step\<^sup>*\<^sup>* (db2, []) (db3, h3) \<longrightarrow>
         (\<exists>row \<in> set (jq_jobs db3). bj_id row = 1 \<and> bj_status row = JOB_RUNNING \<and> 1 \<notin> set (map held_id h3))"
    by blast
  with queue_step.stuck [of db2 "[]" "20 + seconds 7200"] fetched show ?thesis by (metis r_into_rtranclp)
qed

text \<open>
  The detector of stuck jobs ends every pending job that was created more than an hour ago, also
  one that is scheduled for later: it is failed, and no worker ever executes it.
\<close>

theorem stuck_kills_scheduled:
  assumes "queue_inv (db, h)" and "j \<in> set (jq_jobs db)" and "bj_status j = JOB_PENDING" and "\<not> bj_is_deleted j"
    and "bj_created_at j + seconds 3600 < now" and "queue_step\<^sup>*\<^sup>* (detect_stuck_jobs now db, h) (db2, h2)"
  shows "\<exists>row \<in> set (jq_jobs db2). bj_id row = bj_id j \<and> bj_status row = JOB_FAILED
    \<and> bj_scheduled_for row = bj_scheduled_for j \<and> bj_attempts row = bj_attempts j \<and> bj_id j \<notin> set (map held_id h2)"
proof -
  have "job_stuck now j" using assms(3-5) by (simp add: job_stuck_def)
  then have row: "stuck_job j \<in> set (jq_jobs (detect_stuck_jobs now db))"
    using in_update_where_hit [OF assms(2)] by (simp add: detect_stuck_jobs_def)
  have "phase_of h (bj_id j) = Free" using held_phase [OF assms(1,2)] assms(3) by (simp add: life_inv_def)
  then have "stuck_job j \<in> set (jq_jobs db2) \<and> phase_of h2 (bj_id j) = Free"
    using stranded_forever [OF assms(6) queue_step_inv [OF queue_step.stuck assms(1)], of "stuck_job j"] row by simp
  with phase_free_unheld show ?thesis by (intro bexI [of _ "stuck_job j"]) (auto simp: stuck_job_def)
qed

lemma stuck_kills_scheduled_witness:
  "\<exists>row \<in> set (jq_jobs (detect_stuck_jobs (20 + seconds 3600) \<lparr>jq_jobs = [new_job 1 ''dunning'' None None (10 + seconds 86400) 3 None 10], jq_next_id = 2\<rparr>)).
     bj_status row = JOB_FAILED \<and> bj_scheduled_for row = 10 + seconds 86400"
proof -
  let ?j = "new_job 1 ''dunning'' None None (10 + seconds 86400) 3 None 10"
  have "queue_inv (\<lparr>jq_jobs = [?j], jq_next_id = 2\<rparr>, [])"
    by (simp add: queue_inv_def jobs_ok_def within_attempts_def new_job_def)
  from stuck_kills_scheduled [OF this, of ?j "20 + seconds 3600", OF _ _ _ _ rtranclp.rtrancl_refl]
  show ?thesis by (auto simp: new_job_def)
qed

text \<open>
  Enqueueing under a deduplication key is idempotent over time: as long as the job of the first
  call has not been purged, whatever the queue did meanwhile, every further call with the same key
  returns that job, says that it created nothing, and changes nothing.
\<close>

theorem enqueue_deduplicates:
  assumes "queue_inv (db, h)" and "key \<noteq> ''''"
    and "enqueue_job db job_type tenant_id payload scheduled_for max_attempts (Some key) now = (Inr (j, created), db1)"
    and "queue_step\<^sup>*\<^sup>* (db1, h) (db2, h2)" and "bj_id j \<in> set (map bj_id (jq_jobs db2))"
  shows "\<exists>row. bj_id row = bj_id j \<and> enqueue_job db2 job_type2 tenant2 None scheduled2 max2 (Some key) now2 = (Inr (row, False), db2)
    \<and> (\<forall>p d. json_column p = Inr d \<longrightarrow>
         enqueue_job db2 job_type2 tenant2 (Some p) scheduled2 max2 (Some key) now2 = (Inr (row, False), db2))"
proof -
  from assms(3) obtain d where "insert_job db job_type tenant_id d scheduled_for max_attempts (Some key) now = (Inr (j, created), db1)"
    by (auto simp: enqueue_job_def split: option.splits sum.splits)
  from key_kept [OF assms(1,2) this assms(4,5)] assms(2) show ?thesis by (auto simp: enqueue_job_def insert_job_def)
qed

lemma enqueue_deduplicates_witness:
  "\<exists>j db1 row. enqueue_job sample_queue ''dunning'' None None None 3 (Some ''k'') 10 = (Inr (j, True), db1)
     \<and> bj_id row = bj_id j \<and> enqueue_job db1 ''dunning'' None None None 3 (Some ''k'') 20 = (Inr (row, False), db1)"
proof -
  obtain j db1 where first: "enqueue_job sample_queue ''dunning'' None None None 3 (Some ''k'') 10 = (Inr (j, True), db1)"
    "bj_id j \<in> set (map bj_id (jq_jobs db1))"
    by (simp add: enqueue_job_def insert_job_def sample_queue_def find_by_key_def first_row_def Let_def)
  have "queue_inv (sample_queue, [])" by (simp add: queue_inv_def jobs_ok_def sample_queue_def)
  from enqueue_deduplicates [OF this _ first(1) rtranclp.rtrancl_refl first(2)] first(1) show ?thesis by blast
qed

end
