(* ===== verification/Price_Tiers.thy ===== *)
theory Price_Tiers
  imports Enf_Utils
begin

text \<open>
  Subscription tiers: src/app/shared/core/pricing_types.py, pricing_catalog.py, pricing.py and
  pricing_cache.py. The catalogue is data: features, limits and prices of every tier; the display texts
  are left out. The tier of a tenant is looked up in the cache of the session, then in the cache of the
  process, then in the table of tenants.
\<close>

subsection \<open>Tiers and features\<close>

datatype pricing_tier = FREE | STARTER | GROWTH | PRO | ENTERPRISE

fun tier_value :: "pricing_tier \<Rightarrow> string" where
  "tier_value FREE = ''free''"
| "tier_value STARTER = ''starter''"
| "tier_value GROWTH = ''growth''"
| "tier_value PRO = ''pro''"
| "tier_value ENTERPRISE = ''enterprise''"

definition all_tiers :: "pricing_tier list" where
  "all_tiers = [FREE, STARTER, GROWTH, PRO, ENTERPRISE]"

text \<open>\<open>PricingTier(text)\<close>\<close>

definition tier_of_value :: "string \<Rightarrow> pricing_tier option" where
  "tier_of_value s = find (\<lambda>t. tier_value t = s) all_tiers"

datatype feature_flag =
    DASHBOARDS | COST_TRACKING | ALERTS | SLACK_INTEGRATION | ZOMBIE_SCAN | LLM_ANALYSIS
  | AI_INSIGHTS | MULTI_CLOUD | MULTI_REGION | GREENOPS | CARBON_TRACKING | AUTO_REMEDIATION
  | API_ACCESS | FORECASTING | SSO | SCIM | DEDICATED_SUPPORT | AUDIT_LOGS | HOURLY_SCANS
  | AI_ANALYSIS_DETAILED | DOMAIN_DISCOVERY | IDP_DEEP_SCAN | PRECISION_DISCOVERY
  | OWNER_ATTRIBUTION | GITOPS_REMEDIATION | UNIT_ECONOMICS | INGESTION_SLA | INGESTION_BACKFILL
  | ANOMALY_DETECTION | CHARGEBACK | RECONCILIATION | CLOSE_WORKFLOW | CARBON_ASSURANCE
  | CLOUD_PLUS_CONNECTORS | COMPLIANCE_EXPORTS | SAVINGS_PROOF | COMMITMENT_OPTIMIZATION
  | POLICY_PREVIEW | POLICY_CONFIGURATION | ESCALATION_WORKFLOW | INCIDENT_INTEGRATIONS

fun feature_value :: "feature_flag \<Rightarrow> string" where
  "feature_value DASHBOARDS = ''dashboards''"
| "feature_value COST_TRACKING = ''cost_tracking''"
| "feature_value ALERTS = ''alerts''"
| "feature_value SLACK_INTEGRATION = ''slack_integration''"
| "feature_value ZOMBIE_SCAN = ''zombie_scan''"
| "feature_value LLM_ANALYSIS = ''llm_analysis''"
| "feature_value AI_INSIGHTS = ''ai_insights''"
| "feature_value MULTI_CLOUD = ''multi_cloud''"
| "feature_value MULTI_REGION = ''multi_region''"
| "feature_value GREENOPS = ''greenops''"
| "feature_value CARBON_TRACKING = ''carbon_tracking''"
| "feature_value AUTO_REMEDIATION = ''auto_remediation''"
| "feature_value API_ACCESS = ''api_access''"
| "feature_value FORECASTING = ''forecasting''"
| "feature_value SSO = ''sso''"
| "feature_value SCIM = ''scim''"
| "feature_value DEDICATED_SUPPORT = ''dedicated_support''"
| "feature_value AUDIT_LOGS = ''audit_logs''"
| "feature_value HOURLY_SCANS = ''hourly_scans''"
| "feature_value AI_ANALYSIS_DETAILED = ''ai_analysis_detailed''"
| "feature_value DOMAIN_DISCOVERY = ''domain_discovery''"
| "feature_value IDP_DEEP_SCAN = ''idp_deep_scan''"
| "feature_value PRECISION_DISCOVERY = ''precision_discovery''"
| "feature_value OWNER_ATTRIBUTION = ''owner_attribution''"
| "feature_value GITOPS_REMEDIATION = ''gitops_remediation''"
| "feature_value UNIT_ECONOMICS = ''unit_economics''"
| "feature_value INGESTION_SLA = ''ingestion_sla''"
| "feature_value INGESTION_BACKFILL = ''ingestion_backfill''"
| "feature_value ANOMALY_DETECTION = ''anomaly_detection''"
| "feature_value CHARGEBACK = ''chargeback''"
| "feature_value RECONCILIATION = ''reconciliation''"
| "feature_value CLOSE_WORKFLOW = ''close_workflow''"
| "feature_value CARBON_ASSURANCE = ''carbon_assurance''"
| "feature_value CLOUD_PLUS_CONNECTORS = ''cloud_plus_connectors''"
| "feature_value COMPLIANCE_EXPORTS = ''compliance_exports''"
| "feature_value SAVINGS_PROOF = ''savings_proof''"
| "feature_value COMMITMENT_OPTIMIZATION = ''commitment_optimization''"
| "feature_value POLICY_PREVIEW = ''policy_preview''"
| "feature_value POLICY_CONFIGURATION = ''policy_configuration''"
| "feature_value ESCALATION_WORKFLOW = ''escalation_workflow''"
| "feature_value INCIDENT_INTEGRATIONS = ''incident_integrations''"

definition all_features :: "feature_flag list" where
  "all_features = [
     DASHBOARDS, COST_TRACKING, ALERTS, SLACK_INTEGRATION, ZOMBIE_SCAN, LLM_ANALYSIS, AI_INSIGHTS,
     MULTI_CLOUD, MULTI_REGION, GREENOPS, CARBON_TRACKING, AUTO_REMEDIATION, API_ACCESS,
     FORECASTING, SSO, SCIM, DEDICATED_SUPPORT, AUDIT_LOGS, HOURLY_SCANS, AI_ANALYSIS_DETAILED,
     DOMAIN_DISCOVERY, IDP_DEEP_SCAN, PRECISION_DISCOVERY, OWNER_ATTRIBUTION, GITOPS_REMEDIATION,
     UNIT_ECONOMICS, INGESTION_SLA, INGESTION_BACKFILL, ANOMALY_DETECTION, CHARGEBACK,
     RECONCILIATION, CLOSE_WORKFLOW, CARBON_ASSURANCE, CLOUD_PLUS_CONNECTORS, COMPLIANCE_EXPORTS,
     SAVINGS_PROOF, COMMITMENT_OPTIMIZATION, POLICY_PREVIEW, POLICY_CONFIGURATION,
     ESCALATION_WORKFLOW, INCIDENT_INTEGRATIONS]"

definition feature_of_value :: "string \<Rightarrow> feature_flag option" where
  "feature_of_value s = find (\<lambda>f. feature_value f = s) all_features"

datatype feature_maturity = GA | BETA | PREVIEW

fun maturity_value :: "feature_maturity \<Rightarrow> string" where
  "maturity_value GA = ''GA''"
| "maturity_value BETA = ''Beta''"
| "maturity_value PREVIEW = ''Preview''"

subsection \<open>The catalogue\<close>

datatype price = FlatPrice int | PriceByCycle int int | NoPrice

datatype limit_value = LimitInt int | LimitBool bool | NoLimit

record tier_config =
  tc_name :: string
  tc_price_usd :: price
  tc_features :: "feature_flag list"
  tc_limits :: "(string \<times> limit_value) list"

definition enterprise_features :: "feature_flag list" where
  "enterprise_features = [
     DASHBOARDS, COST_TRACKING, ALERTS, SLACK_INTEGRATION, ZOMBIE_SCAN, LLM_ANALYSIS, AI_INSIGHTS,
     MULTI_CLOUD, MULTI_REGION, GREENOPS, CARBON_TRACKING, AUTO_REMEDIATION, API_ACCESS,
     FORECASTING, SSO, SCIM, DEDICATED_SUPPORT, AUDIT_LOGS, HOURLY_SCANS, AI_ANALYSIS_DETAILED,
     DOMAIN_DISCOVERY, IDP_DEEP_SCAN, PRECISION_DISCOVERY, OWNER_ATTRIBUTION, GITOPS_REMEDIATION,
     UNIT_ECONOMICS, INGESTION_SLA, INGESTION_BACKFILL, ANOMALY_DETECTION, CHARGEBACK,
     RECONCILIATION, CLOSE_WORKFLOW, CARBON_ASSURANCE, CLOUD_PLUS_CONNECTORS, COMPLIANCE_EXPORTS,
     SAVINGS_PROOF, COMMITMENT_OPTIMIZATION, POLICY_PREVIEW, POLICY_CONFIGURATION,
     ESCALATION_WORKFLOW, INCIDENT_INTEGRATIONS]"

definition runtime_gated_features :: "feature_flag list" where
  "runtime_gated_features = [
     COST_TRACKING, SLACK_INTEGRATION, LLM_ANALYSIS, GREENOPS, AUTO_REMEDIATION, SSO, SCIM,
     AUDIT_LOGS, IDP_DEEP_SCAN, PRECISION_DISCOVERY, OWNER_ATTRIBUTION, GITOPS_REMEDIATION,
     UNIT_ECONOMICS, INGESTION_SLA, INGESTION_BACKFILL, ANOMALY_DETECTION, CHARGEBACK,
     RECONCILIATION, CLOSE_WORKFLOW, CARBON_ASSURANCE, CLOUD_PLUS_CONNECTORS, COMPLIANCE_EXPORTS,
     SAVINGS_PROOF, COMMITMENT_OPTIMIZATION, POLICY_PREVIEW, ESCALATION_WORKFLOW,
     INCIDENT_INTEGRATIONS]"

fun tier_config_of :: "pricing_tier \<Rightarrow> tier_config" where
  "tier_config_of FREE = \<lparr>tc_name = ''Free'', tc_price_usd = FlatPrice 0,
      tc_features = [
        DASHBOARDS, COST_TRACKING, ALERTS, ZOMBIE_SCAN, LLM_ANALYSIS, DOMAIN_DISCOVERY, GREENOPS,
        CARBON_TRACKING, UNIT_ECONOMICS],
      tc_limits = [
        (''max_aws_accounts'', LimitInt 1), (''max_azure_tenants'', LimitInt 0),
        (''max_gcp_projects'', LimitInt 0), (''max_saas_connections'', LimitInt 0),
        (''max_license_connections'', LimitInt 0), (''max_platform_connections'', LimitInt 0),
        (''max_hybrid_connections'', LimitInt 0), (''byok_enabled'', LimitBool True),
        (''ai_insights_per_month'', LimitInt 0), (''scan_frequency_hours'', LimitInt 168),
        (''zombie_scans_per_day'', LimitInt 1), (''llm_analyses_per_day'', LimitInt 1),
        (''llm_analyses_per_user_per_day'', LimitInt 1),
        (''llm_system_analyses_per_day'', LimitInt 1),
        (''llm_analysis_max_records'', LimitInt 128),
        (''llm_analysis_max_window_days'', LimitInt 31),
        (''llm_prompt_max_input_tokens'', LimitInt 2048),
        (''llm_output_max_tokens'', LimitInt 512), (''max_backfill_days'', LimitInt 0),
        (''retention_days'', LimitInt 30)]\<rparr>"
| "tier_config_of STARTER = \<lparr>tc_name = ''Starter'', tc_price_usd = PriceByCycle 49 490,
      tc_features = [
        DASHBOARDS, COST_TRACKING, ALERTS, ZOMBIE_SCAN, AI_INSIGHTS, LLM_ANALYSIS,
        DOMAIN_DISCOVERY, MULTI_REGION, CARBON_TRACKING, GREENOPS, UNIT_ECONOMICS, INGESTION_SLA],
      tc_limits = [
        (''max_aws_accounts'', LimitInt 5), (''max_azure_tenants'', LimitInt 0),
        (''max_gcp_projects'', LimitInt 0), (''max_saas_connections'', LimitInt 0),
        (''max_license_connections'', LimitInt 0), (''max_platform_connections'', LimitInt 0),
        (''max_hybrid_connections'', LimitInt 0), (''byok_enabled'', LimitBool True),
        (''ai_insights_per_month'', LimitInt 10), (''llm_analyses_per_day'', LimitInt 5),
        (''llm_analyses_per_user_per_day'', LimitInt 2),
        (''llm_system_analyses_per_day'', LimitInt 2),
        (''llm_analysis_max_records'', LimitInt 256),
        (''llm_analysis_max_window_days'', LimitInt 90),
        (''llm_prompt_max_input_tokens'', LimitInt 4096),
        (''llm_output_max_tokens'', LimitInt 1024), (''max_backfill_days'', LimitInt 0),
        (''scan_frequency_hours'', LimitInt 24), (''retention_days'', LimitInt 90)]\<rparr>"
| "tier_config_of GROWTH = \<lparr>tc_name = ''Growth'', tc_price_usd = PriceByCycle 149 1490,
      tc_features = [
        DASHBOARDS, COST_TRACKING, ALERTS, ZOMBIE_SCAN, AI_INSIGHTS, LLM_ANALYSIS,
        DOMAIN_DISCOVERY, MULTI_CLOUD, MULTI_REGION, CARBON_TRACKING, GREENOPS, AUTO_REMEDIATION,
        PRECISION_DISCOVERY, OWNER_ATTRIBUTION, CHARGEBACK, INGESTION_SLA, INGESTION_BACKFILL,
        ANOMALY_DETECTION, UNIT_ECONOMICS, POLICY_PREVIEW, ESCALATION_WORKFLOW,
        COMMITMENT_OPTIMIZATION],
      tc_limits = [
        (''max_aws_accounts'', LimitInt 20), (''max_azure_tenants'', LimitInt 10),
        (''max_gcp_projects'', LimitInt 15), (''max_saas_connections'', LimitInt 0),
        (''max_license_connections'', LimitInt 0), (''max_platform_connections'', LimitInt 0),
        (''max_hybrid_connections'', LimitInt 0), (''byok_enabled'', LimitBool True),
        (''llm_analyses_per_day'', LimitInt 20), (''llm_analyses_per_user_per_day'', LimitInt 8),
        (''llm_system_analyses_per_day'', LimitInt 5),
        (''llm_analysis_max_records'', LimitInt 1024),
        (''llm_analysis_max_window_days'', LimitInt 365),
        (''llm_prompt_max_input_tokens'', LimitInt 12288),
        (''llm_output_max_tokens'', LimitInt 2048), (''max_backfill_days'', LimitInt 180),
        (''retention_days'', LimitInt 365)]\<rparr>"
| "tier_config_of PRO = \<lparr>tc_name = ''Pro'', tc_price_usd = PriceByCycle 299 2990,
      tc_features = [
        DASHBOARDS, COST_TRACKING, ALERTS, ZOMBIE_SCAN, AI_INSIGHTS, LLM_ANALYSIS,
        DOMAIN_DISCOVERY, IDP_DEEP_SCAN, MULTI_CLOUD, MULTI_REGION, CARBON_TRACKING, GREENOPS,
        AUTO_REMEDIATION, SSO, API_ACCESS, DEDICATED_SUPPORT, HOURLY_SCANS, AI_ANALYSIS_DETAILED,
        SLACK_INTEGRATION, AUDIT_LOGS, GITOPS_REMEDIATION, PRECISION_DISCOVERY, OWNER_ATTRIBUTION,
        CHARGEBACK, INGESTION_SLA, INGESTION_BACKFILL, ANOMALY_DETECTION, UNIT_ECONOMICS,
        RECONCILIATION, CLOSE_WORKFLOW, CARBON_ASSURANCE, CLOUD_PLUS_CONNECTORS,
        COMPLIANCE_EXPORTS, SAVINGS_PROOF, COMMITMENT_OPTIMIZATION, POLICY_PREVIEW,
        POLICY_CONFIGURATION, ESCALATION_WORKFLOW, INCIDENT_INTEGRATIONS],
      tc_limits = [
        (''max_aws_accounts'', LimitInt 25), (''max_azure_tenants'', LimitInt 25),
        (''max_gcp_projects'', LimitInt 25), (''max_saas_connections'', LimitInt 10),
        (''max_license_connections'', LimitInt 10), (''max_platform_connections'', LimitInt 10),
        (''max_hybrid_connections'', LimitInt 10), (''byok_enabled'', LimitBool True),
        (''ai_insights_per_month'', LimitInt 100), (''llm_analyses_per_day'', LimitInt 100),
        (''llm_analyses_per_user_per_day'', LimitInt 25),
        (''llm_system_analyses_per_day'', LimitInt 30),
        (''llm_analysis_max_records'', LimitInt 5000),
        (''llm_analysis_max_window_days'', LimitInt 730),
        (''llm_prompt_max_input_tokens'', LimitInt 32768),
        (''llm_output_max_tokens'', LimitInt 4096), (''max_backfill_days'', LimitInt 730),
        (''scan_frequency_hours'', LimitInt 1), (''retention_days'', LimitInt 730)]\<rparr>"
| "tier_config_of ENTERPRISE = \<lparr>tc_name = ''Enterprise'', tc_price_usd = NoPrice,
      tc_features = enterprise_features,
      tc_limits = [
        (''max_aws_accounts'', LimitInt 999), (''max_azure_tenants'', LimitInt 999),
        (''max_gcp_projects'', LimitInt 999), (''max_saas_connections'', LimitInt 999),
        (''max_license_connections'', LimitInt 999), (''max_platform_connections'', LimitInt 999),
        (''max_hybrid_connections'', LimitInt 999), (''byok_enabled'', LimitBool True),
        (''ai_insights_per_month'', LimitInt 999), (''llm_analyses_per_day'', LimitInt 2000),
        (''llm_analyses_per_user_per_day'', LimitInt 500),
        (''llm_system_analyses_per_day'', LimitInt 400),
        (''llm_analysis_max_records'', LimitInt 20000),
        (''llm_analysis_max_window_days'', LimitInt 3650),
        (''llm_prompt_max_input_tokens'', LimitInt 65536),
        (''llm_output_max_tokens'', LimitInt 8192), (''scan_frequency_hours'', LimitInt 1),
        (''retention_days'', NoLimit)]\<rparr>"

subsection \<open>Lookups\<close>

text \<open>A tier as the callers give it: a member of the enumeration, a text, or something else.\<close>

datatype tier_arg = Tier pricing_tier | TierText string | NoTier

fun normalize_tier :: "tier_arg \<Rightarrow> pricing_tier" where
  "normalize_tier (Tier t) = t"
| "normalize_tier (TierText s) = (case tier_of_value (lower (strip s)) of None \<Rightarrow> FREE | Some t \<Rightarrow> t)"
| "normalize_tier NoTier = FREE"

definition get_tier_config :: "tier_arg \<Rightarrow> tier_config" where
  "get_tier_config t = tier_config_of (normalize_tier t)"

datatype feature_arg = Feature feature_flag | FeatureText string

fun feature_of_arg :: "feature_arg \<Rightarrow> feature_flag option" where
  "feature_of_arg (Feature f) = Some f"
| "feature_of_arg (FeatureText s) = feature_of_value s"

definition is_feature_enabled :: "tier_arg \<Rightarrow> feature_arg \<Rightarrow> bool" where
  "is_feature_enabled t feature =
     (case feature_of_arg feature of None \<Rightarrow> False | Some f \<Rightarrow> f \<in> set (tc_features (get_tier_config t)))"

definition get_tier_limit :: "tier_arg \<Rightarrow> string \<Rightarrow> int option" where
  "get_tier_limit t limit_name =
     (case map_of (tc_limits (get_tier_config t)) limit_name of
        None \<Rightarrow> Some 0
      | Some NoLimit \<Rightarrow> None
      | Some (LimitBool b) \<Rightarrow> Some (if b then 1 else 0)
      | Some (LimitInt n) \<Rightarrow> Some n)"

definition feature_maturity_of :: "feature_flag \<Rightarrow> feature_maturity" where
  "feature_maturity_of f = (if f \<in> set runtime_gated_features then GA else PREVIEW)"

definition get_feature_maturity :: "feature_arg \<Rightarrow> feature_maturity" where
  "get_feature_maturity feature =
     (case feature_of_arg feature of None \<Rightarrow> PREVIEW | Some f \<Rightarrow> feature_maturity_of f)"

definition get_tier_feature_maturity :: "tier_arg \<Rightarrow> (string \<times> string) list" where
  "get_tier_feature_maturity t =
     map (\<lambda>f. (feature_value f, maturity_value (feature_maturity_of f)))
       (sort_key feature_value (remdups (tc_features (get_tier_config t))))"

subsection \<open>Guards\<close>

text \<open>
  The user of a request, if it is authenticated, with the tier it carries. A guard lets the call through
  or raises.
\<close>

definition requires_tier :: "pricing_tier list \<Rightarrow> tier_arg option \<Rightarrow> unit res" where
  "requires_tier allowed user =
     (case user of
        None \<Rightarrow> Inl (HTTPException 401 ''Authentication required'')
      | Some t \<Rightarrow>
          if normalize_tier t \<in> set allowed then Inr ()
          else Inl (HTTPException 403 (''This feature requires '' @ join_text '' or '' (map tier_value allowed)
            @ '' tier. Please upgrade.'')))"

fun feature_name :: "feature_arg \<Rightarrow> string" where
  "feature_name (Feature f) = feature_value f"
| "feature_name (FeatureText s) = s"

definition requires_feature :: "feature_arg \<Rightarrow> tier_arg option \<Rightarrow> unit res" where
  "requires_feature feature user =
     (case user of
        None \<Rightarrow> Inl (HTTPException 401 ''Authentication required'')
      | Some t \<Rightarrow>
          if is_feature_enabled (Tier (normalize_tier t)) feature then Inr ()
          else Inl (HTTPException 403 (''Feature '' @ [CHR 0x27]
            @ feature_name feature @ [CHR 0x27] @ '' is not available on your current plan. Please upgrade.'')))"

definition guard_require :: "pricing_tier \<Rightarrow> feature_flag \<Rightarrow> unit res" where
  "guard_require tier feature =
     (if is_feature_enabled (Tier tier) (Feature feature) then Inr ()
      else Inl (HTTPException 403 (''Feature '' @ [CHR 0x27]
        @ feature_value feature @ [CHR 0x27] @ '' requires a plan upgrade.'')))"

subsection \<open>The cache of the process\<close>

text \<open>A dictionary in insertion order, from the tenant's identifier to the time of caching and the tier.\<close>

type_synonym tier_cache = "(string \<times> instant \<times> pricing_tier) list"

definition tier_cache_ttl :: int where
  "tier_cache_ttl = seconds 60"

definition tier_cache_max_entries :: nat where
  "tier_cache_max_entries = 4096"

definition runtime_cache_get :: "instant \<Rightarrow> string \<Rightarrow> tier_cache \<Rightarrow> pricing_tier option \<times> tier_cache" where
  "runtime_cache_get now key cache =
     (case map_of cache key of
        None \<Rightarrow> (None, cache)
      | Some (cached_at, tier) \<Rightarrow>
          if tier_cache_ttl < now - cached_at then (None, AList.delete key cache) else (Some tier, cache))"

definition runtime_cache_set :: "instant \<Rightarrow> string \<Rightarrow> pricing_tier \<Rightarrow> tier_cache \<Rightarrow> tier_cache" where
  "runtime_cache_set now key tier cache =
     (let cache1 = AList.update key (now, tier) cache in
      if length cache1 \<le> tier_cache_max_entries then cache1
      else (let cache2 = filter (\<lambda>(k, cached_at, _). now - tier_cache_ttl < cached_at) cache1 in
            drop (length cache2 - tier_cache_max_entries) cache2))"

definition clear_tenant_tier_cache :: "string option \<Rightarrow> tier_cache \<Rightarrow> tier_cache" where
  "clear_tenant_tier_cache tenant cache = (case tenant of None \<Rightarrow> [] | Some key \<Rightarrow> AList.delete key cache)"

subsection \<open>The tier of a tenant\<close>

fun tier_lookup_recoverable :: "err \<Rightarrow> bool" where
  "tier_lookup_recoverable (RuntimeError _) = True"
| "tier_lookup_recoverable (ValueError _) = True"
| "tier_lookup_recoverable (TypeError _) = True"
| "tier_lookup_recoverable (SQLAlchemyError _) = True"
| "tier_lookup_recoverable IntegrityError = True"
| "tier_lookup_recoverable _ = False"

text \<open>
  The argument \<open>plans\<close> is the outcome of the query: the plan of the tenant's row, if there is one, or the
  error of the database. The caches of the session and of the process are returned updated.
\<close>

definition get_tenant_tier ::
  "instant \<Rightarrow> string option res \<Rightarrow> string \<Rightarrow> (string \<times> pricing_tier) list \<Rightarrow> tier_cache
    \<Rightarrow> pricing_tier res \<times> (string \<times> pricing_tier) list \<times> tier_cache" where
  "get_tenant_tier now plan key session cache =
     (case map_of session key of
        Some tier \<Rightarrow> (Inr tier, session, cache)
      | None \<Rightarrow>
          (case runtime_cache_get now key cache of
             (Some tier, cache1) \<Rightarrow> (Inr tier, AList.update key tier session, cache1)
           | (None, cache1) \<Rightarrow>
               (case plan of
                  Inl e \<Rightarrow> if tier_lookup_recoverable e then (Inr FREE, AList.update key FREE session, cache1)
                    else (Inl e, session, cache1)
                | Inr row \<Rightarrow>
                    (let tier = (case row of None \<Rightarrow> FREE
                       | Some p \<Rightarrow> (case tier_of_value p of None \<Rightarrow> FREE | Some t \<Rightarrow> t)) in
                     (Inr tier, AList.update key tier session, runtime_cache_set now key tier cache1)))))"

end
