(* ===== verification/Price_Theorems.thy ===== *)
theory Price_Theorems
  imports Price_Tiers Enf_Context
begin

text \<open>
  Properties of the tiers: the catalogue is monotone in the tier, the cache of the process is bounded and
  never serves an entry older than a minute, and what the catalogue means for the ceilings of the
  enforcement gate.
\<close>

subsection \<open>The order of the tiers\<close>

fun tier_rank :: "pricing_tier \<Rightarrow> nat" where
  "tier_rank FREE = 0"
| "tier_rank STARTER = 1"
| "tier_rank GROWTH = 2"
| "tier_rank PRO = 3"
| "tier_rank ENTERPRISE = 4"

lemma tier_rank_inject [simp]: "tier_rank a = tier_rank b \<longleftrightarrow> a = b"
  by (cases a; cases b) simp_all

instantiation pricing_tier :: linorder
begin

definition less_eq_pricing_tier :: "pricing_tier \<Rightarrow> pricing_tier \<Rightarrow> bool" where
  "less_eq_pricing_tier a b \<longleftrightarrow> tier_rank a \<le> tier_rank b"

definition less_pricing_tier :: "pricing_tier \<Rightarrow> pricing_tier \<Rightarrow> bool" where
  "less_pricing_tier a b \<longleftrightarrow> tier_rank a < tier_rank b"

instance
  by standard (auto simp: less_eq_pricing_tier_def less_pricing_tier_def)

end

lemma tier_value_roundtrip [simp]: "tier_of_value (tier_value t) = Some t"
  by (cases t) (simp_all add: tier_of_value_def all_tiers_def)

lemma tier_le_cases:
  assumes "s \<le> t"
    and "\<And>t. P t t" and "\<And>a b c. P a b \<Longrightarrow> P b c \<Longrightarrow> P a c"
    and "P FREE STARTER" "P STARTER GROWTH" "P GROWTH PRO" "P PRO ENTERPRISE"
  shows "P s t"
  using assms(1)
  by (cases s; cases t; simp add: less_eq_pricing_tier_def)
    (use assms(2-) in blast)+

definition limit_le :: "int option \<Rightarrow> int option \<Rightarrow> bool" where
  "limit_le a b \<longleftrightarrow> (case b of None \<Rightarrow> True | Some n \<Rightarrow> (case a of None \<Rightarrow> False | Some m \<Rightarrow> m \<le> n))"

definition metered_limits :: "string list" where
  "metered_limits = [''max_aws_accounts'', ''max_azure_tenants'', ''max_gcp_projects'', ''max_saas_connections'',
     ''max_license_connections'', ''max_platform_connections'', ''max_hybrid_connections'', ''byok_enabled'',
     ''llm_analyses_per_day'', ''llm_analyses_per_user_per_day'', ''llm_system_analyses_per_day'',
     ''llm_analysis_max_records'', ''llm_analysis_max_window_days'', ''llm_prompt_max_input_tokens'',
     ''llm_output_max_tokens'', ''retention_days'']"

lemma limit_le_trans: "limit_le a b \<Longrightarrow> limit_le b c \<Longrightarrow> limit_le a c"
  by (auto simp: limit_le_def split: option.splits)

lemma limit_le_refl: "limit_le a a"
  by (auto simp: limit_le_def split: option.splits)

lemma features_grow:
  "list_all (\<lambda>f. f \<in> set (tc_features (tier_config_of STARTER))) (tc_features (tier_config_of FREE))"
  "list_all (\<lambda>f. f \<in> set (tc_features (tier_config_of GROWTH))) (tc_features (tier_config_of STARTER))"
  "list_all (\<lambda>f. f \<in> set (tc_features (tier_config_of PRO))) (tc_features (tier_config_of GROWTH))"
  "list_all (\<lambda>f. f \<in> set (tc_features (tier_config_of ENTERPRISE))) (tc_features (tier_config_of PRO))"
  by (simp_all add: enterprise_features_def)

lemma limits_grow:
  "list_all (\<lambda>n. limit_le (get_tier_limit (Tier FREE) n) (get_tier_limit (Tier STARTER) n)) metered_limits"
  "list_all (\<lambda>n. limit_le (get_tier_limit (Tier STARTER) n) (get_tier_limit (Tier GROWTH) n)) metered_limits"
  "list_all (\<lambda>n. limit_le (get_tier_limit (Tier GROWTH) n) (get_tier_limit (Tier PRO) n)) metered_limits"
  "list_all (\<lambda>n. limit_le (get_tier_limit (Tier PRO) n) (get_tier_limit (Tier ENTERPRISE) n)) metered_limits"
  by code_simp+

text \<open>
  An upgrade never takes anything away: what a tier may use, every higher tier may use, and none of
  the limits on connections, analyses, prompts, records and retention is lower in a higher tier.
\<close>

theorem upgrade_monotone:
  assumes "s \<le> t"
  shows "(is_feature_enabled (Tier s) feature \<longrightarrow> is_feature_enabled (Tier t) feature)
    \<and> (limit \<in> set metered_limits \<longrightarrow> limit_le (get_tier_limit (Tier s) limit) (get_tier_limit (Tier t) limit))"
proof (rule tier_le_cases [OF assms])
  fix a b c :: pricing_tier
  assume "(is_feature_enabled (Tier a) feature \<longrightarrow> is_feature_enabled (Tier b) feature)
      \<and> (limit \<in> set metered_limits \<longrightarrow> limit_le (get_tier_limit (Tier a) limit) (get_tier_limit (Tier b) limit))"
    "(is_feature_enabled (Tier b) feature \<longrightarrow> is_feature_enabled (Tier c) feature)
      \<and> (limit \<in> set metered_limits \<longrightarrow> limit_le (get_tier_limit (Tier b) limit) (get_tier_limit (Tier c) limit))"
  then show "(is_feature_enabled (Tier a) feature \<longrightarrow> is_feature_enabled (Tier c) feature)
      \<and> (limit \<in> set metered_limits \<longrightarrow> limit_le (get_tier_limit (Tier a) limit) (get_tier_limit (Tier c) limit))"
    by (blast intro: limit_le_trans)
next
  fix t
  show "(is_feature_enabled (Tier t) feature \<longrightarrow> is_feature_enabled (Tier t) feature)
      \<and> (limit \<in> set metered_limits \<longrightarrow> limit_le (get_tier_limit (Tier t) limit) (get_tier_limit (Tier t) limit))"
    by (blast intro: limit_le_refl)
qed (use features_grow limits_grow in \<open>force simp: is_feature_enabled_def get_tier_config_def list_all_iff
      simp del: tier_config_of.simps split: option.splits\<close>)+

lemma upgrade_monotone_witness:
  "is_feature_enabled (Tier GROWTH) (Feature CHARGEBACK) \<and> is_feature_enabled (Tier PRO) (Feature CHARGEBACK)"
proof -
  have "GROWTH \<le> PRO" by (simp add: less_eq_pricing_tier_def)
  moreover have "is_feature_enabled (Tier GROWTH) (Feature CHARGEBACK)" by (simp add: is_feature_enabled_def get_tier_config_def)
  ultimately show ?thesis using upgrade_monotone [of GROWTH PRO "Feature CHARGEBACK"] by blast
qed

subsection \<open>The cache of the process\<close>

definition cache_ok :: "tier_cache \<Rightarrow> bool" where
  "cache_ok cache \<longleftrightarrow> distinct (map fst cache) \<and> length cache \<le> tier_cache_max_entries"

lemma cache_get_ok: "cache_ok cache \<Longrightarrow> cache_ok (snd (runtime_cache_get now key cache))"
  by (auto simp: cache_ok_def runtime_cache_get_def distinct_delete intro: order_trans [OF length_delete_le] split: option.splits)

lemma distinct_map_drop: "distinct (map f xs) \<Longrightarrow> distinct (map f (drop n xs))"
  unfolding drop_map [symmetric] by (rule distinct_drop)

lemma cache_set_ok: "cache_ok cache \<Longrightarrow> cache_ok (runtime_cache_set now key tier cache)"
  by (auto simp: cache_ok_def runtime_cache_set_def Let_def intro!: distinct_map_drop distinct_map_filter distinct_update)

lemma update_new: "k \<notin> set (map fst xs) \<Longrightarrow> AList.update k v xs = xs @ [(k, v)]"
  by (induction xs) auto

lemma length_update_in: "k \<in> set (map fst xs) \<Longrightarrow> length (AList.update k v xs) = length xs"
  by (induction xs) auto

lemma cache_set_last:
  assumes "cache_ok cache"
  shows "map_of (runtime_cache_set now key tier cache) key = Some (now, tier)"
proof (cases "length (AList.update key (now, tier) cache) \<le> tier_cache_max_entries")
  case True
  then show ?thesis by (simp add: runtime_cache_set_def update_conv')
next
  case False
  have "key \<notin> set (map fst cache)"
  proof
    assume "key \<in> set (map fst cache)"
    then have "length (AList.update key (now, tier) cache) = length cache" by (rule length_update_in)
    with False assms show False by (simp add: cache_ok_def)
  qed
  then have new: "AList.update key (now, tier) cache = cache @ [(key, now, tier)]" by (rule update_new)
  let ?kept = "filter (\<lambda>(k, cached_at, _). now - tier_cache_ttl < cached_at) cache"
  have "runtime_cache_set now key tier cache = drop (length (?kept @ [(key, now, tier)]) - tier_cache_max_entries) (?kept @ [(key, now, tier)])"
    using False new by (simp add: runtime_cache_set_def Let_def tier_cache_ttl_def seconds_def)
  also have "\<dots> = drop (length (?kept @ [(key, now, tier)]) - tier_cache_max_entries) ?kept @ [(key, now, tier)]"
    by (simp add: tier_cache_max_entries_def)
  finally have eq: "runtime_cache_set now key tier cache = drop (length (?kept @ [(key, now, tier)]) - tier_cache_max_entries) ?kept @ [(key, now, tier)]" .
  have "key \<notin> fst ` set (drop n ?kept)" for n
    using \<open>key \<notin> set (map fst cache)\<close> by (force dest: in_set_dropD)
  then have "map_of (drop n ?kept) key = None" for n by (simp add: map_of_eq_None_iff)
  then show ?thesis unfolding eq by (simp add: map_add_def)
qed

lemma delete_none [simp]: "map_of (AList.delete k xs) k = None"
  by (simp add: delete_conv')

text \<open>
  The tier a tenant is served is the one cached for the session, or one that was cached in the process
  at most a minute ago, or the one its row names, with the free tier for an unknown plan, a missing row
  or a failing database; the process cache stays within its size and afterwards holds the tier.
\<close>

theorem tenant_tier_sources:
  assumes "cache_ok cache" and "get_tenant_tier now plan key session cache = (Inr tier, session', cache')"
  shows "cache_ok cache' \<and> map_of session' key = Some tier
    \<and> (map_of session key = Some tier
       \<or> (\<exists>t. map_of cache key = Some (t, tier) \<and> now - t \<le> seconds 60)
       \<or> (\<exists>e. plan = Inl e \<and> tier = FREE)
       \<or> (\<exists>row. plan = Inr row \<and> map_of cache' key = Some (now, tier)
            \<and> tier = (case row of None \<Rightarrow> FREE | Some p \<Rightarrow> (case tier_of_value p of None \<Rightarrow> FREE | Some t \<Rightarrow> t))))"
proof (cases "map_of session key")
  case None
  obtain found cache1 where get: "runtime_cache_get now key cache = (found, cache1)" by fastforce
  then have ok: "cache_ok cache1" using cache_get_ok [OF assms(1), of now key] by simp
  show ?thesis
  proof (cases found)
    case (Some t)
    then have "\<exists>u. map_of cache key = Some (u, t) \<and> now - u \<le> seconds 60"
      using get by (auto simp: runtime_cache_get_def tier_cache_ttl_def split: option.splits if_splits)
    with assms(2) None get Some ok show ?thesis by (auto simp: get_tenant_tier_def update_conv')
  next
    case (None)
    with assms(2) \<open>map_of session key = None\<close> get ok cache_set_ok cache_set_last show ?thesis
      by (auto simp: get_tenant_tier_def update_conv' Let_def split: sum.splits if_splits)
  qed
qed (use assms in \<open>auto simp: get_tenant_tier_def\<close>)

lemma tenant_tier_sources_witness:
  "\<exists>session' cache'. get_tenant_tier 5 (Inr (Some ''pro'')) ''7'' [] [] = (Inr PRO, session', cache') \<and> cache_ok cache'"
proof -
  have pro: "tier_of_value ''pro'' = Some PRO" by (simp add: tier_of_value_def all_tiers_def)
  obtain session' cache' where run: "get_tenant_tier 5 (Inr (Some ''pro'')) ''7'' [] [] = (Inr PRO, session', cache')"
    by (simp add: get_tenant_tier_def runtime_cache_get_def pro Let_def)
  have "cache_ok []" by (simp add: cache_ok_def)
  from tenant_tier_sources [OF this run] run show ?thesis by blast
qed

lemma tier_after_clear:
  assumes "get_tenant_tier now (Inr row) key [] (clear_tenant_tier_cache (Some key) cache) = (Inr tier, session', cache')"
  shows "tier = (case row of None \<Rightarrow> FREE | Some p \<Rightarrow> (case tier_of_value p of None \<Rightarrow> FREE | Some t \<Rightarrow> t))"
  using assms by (auto simp: get_tenant_tier_def clear_tenant_tier_cache_def runtime_cache_get_def Let_def)

subsection \<open>Ceilings of the gate\<close>

definition tier_limit_json :: "pricing_tier \<Rightarrow> string \<Rightarrow> json" where
  "tier_limit_json t n = (case get_tier_limit (Tier t) n of None \<Rightarrow> JNull | Some k \<Rightarrow> JInt k)"

text \<open>
  No tier has a ceiling of its own: the limits the gate asks for are in no tier's configuration, so
  that without a ceiling in the policy neither the plan nor the enterprise ceiling exists.
\<close>

theorem no_tier_ceiling:
  assumes "ep_plan_monthly_ceiling_usd p = None" and "ep_enterprise_monthly_ceiling_usd p = None"
  shows "resolve_plan_monthly_ceiling_usd p (tier_limit_json t) = None
    \<and> resolve_enterprise_monthly_ceiling_usd p (tier_limit_json t) = None"
proof -
  have "tier_limit_json t ''enforcement_plan_monthly_ceiling_usd'' = JInt 0"
    "tier_limit_json t ''enforcement_enterprise_monthly_ceiling_usd'' = JInt 0"
    by (cases t; simp add: tier_limit_json_def get_tier_limit_def get_tier_config_def)+
  with assms show ?thesis
    by (simp add: resolve_plan_monthly_ceiling_usd_def resolve_enterprise_monthly_ceiling_usd_def resolve_ceiling_def)
qed

lemma no_tier_ceiling_witness:
  "\<forall>p. resolve_plan_monthly_ceiling_usd (p\<lparr>ep_plan_monthly_ceiling_usd := None, ep_enterprise_monthly_ceiling_usd := None\<rparr>) (tier_limit_json PRO) = None"
  using no_tier_ceiling [where t = PRO] by simp

end
