(* ===== verification/Fx_Rates.thy ===== *)
theory Fx_Rates
  imports Base_Json
begin

text \<open>
  Exchange rates: src/app/shared/core/currency.py, currency_ops.py and the rate administration of
  src/app/modules/billing/api/v1/billing_ops.py.

  A rate is looked up in three stores, the cache of the process, Redis and the table, each with its own
  age limit, before the central bank's service is asked. \<open>fx_state\<close> holds the stores; what the
  environment does during a call (clock, HTTP response, failures of Redis and of the table) is the record
  \<open>fx_env\<close>. Floats carry decimals of at most fifteen significant digits, which survive the
  conversions between \<open>float\<close>, \<open>str\<close> and \<open>Decimal\<close> unchanged, so that a rate is its rational
  value throughout.
\<close>

subsection \<open>Text and rounding\<close>

definition upper_char :: "char \<Rightarrow> char" where
  "upper_char c = (let n = (of_char c :: nat) in if 97 \<le> n \<and> n \<le> 122 then char_of (n - 32) else c)"

definition upper :: "string \<Rightarrow> string" where
  "upper s = map upper_char s"

fun split_char :: "char \<Rightarrow> string \<Rightarrow> string list" where
  "split_char c [] = [[]]"
| "split_char c (x # xs) =
     (if x = c then [] # split_char c xs
      else (case split_char c xs of [] \<Rightarrow> [[x]] | w # ws \<Rightarrow> (x # w) # ws))"

definition round_half_up :: "rat \<Rightarrow> int" where
  "round_half_up x = (if 0 \<le> x then \<lfloor>x + 1 / 2\<rfloor> else - \<lfloor>- x + 1 / 2\<rfloor>)"

text \<open>A column \<open>Numeric(p, n)\<close> rounds what is stored in it to \<open>n\<close> places.\<close>

definition numeric :: "nat \<Rightarrow> rat \<Rightarrow> rat" where
  "numeric n x = of_int (round_half_up (x * 10 ^ n)) / 10 ^ n"

subsection \<open>Conversions\<close>

definition normalize_currency :: "string option \<Rightarrow> string" where
  "normalize_currency value = upper (strip (case value of None \<Rightarrow> ''USD'' | Some s \<Rightarrow> if s = '''' then ''USD'' else s))"

definition convert_usd_to_ngn_subunits :: "rat \<Rightarrow> rat \<Rightarrow> int" where
  "convert_usd_to_ngn_subunits usd_amount rate = round_half_up (usd_amount * rate * 100)"

definition convert_to_usd_amount :: "rat \<Rightarrow> rat \<Rightarrow> rat" where
  "convert_to_usd_amount amount rate = (if rate \<le> 0 then amount else amount / rate)"

subsection \<open>Errors\<close>

text \<open>\<open>decimal.InvalidOperation\<close> is an \<open>ArithmeticError\<close>.\<close>

definition invalid_operation :: err where
  "invalid_operation = OtherError ''InvalidOperation''"

fun rate_db_recoverable :: "err \<Rightarrow> bool" where
  "rate_db_recoverable (SQLAlchemyError _) = True"
| "rate_db_recoverable IntegrityError = True"
| "rate_db_recoverable (RuntimeError _) = True"
| "rate_db_recoverable (OSError _) = True"
| "rate_db_recoverable TimeoutError = True"
| "rate_db_recoverable (TypeError _) = True"
| "rate_db_recoverable (ValueError _) = True"
| "rate_db_recoverable _ = False"

fun live_provider_recoverable :: "err \<Rightarrow> bool" where
  "live_provider_recoverable (HTTPError _) = True"
| "live_provider_recoverable (RuntimeError _) = True"
| "live_provider_recoverable (OSError _) = True"
| "live_provider_recoverable TimeoutError = True"
| "live_provider_recoverable (TypeError _) = True"
| "live_provider_recoverable (ValueError _) = True"
| "live_provider_recoverable (OtherError s) = (s = ''InvalidOperation'')"
| "live_provider_recoverable _ = False"

subsection \<open>The stores\<close>

record l1_entry =
  l1_rate :: rat
  l1_updated :: instant
  l1_provider :: "string option"

record redis_entry =
  re_payload :: json
  re_expires :: instant

record exchange_rate =
  xr_from_currency :: string
  xr_to_currency :: string
  xr_rate :: rat
  xr_provider :: string
  xr_last_updated :: instant

record fx_state =
  fx_l1 :: "(string \<times> l1_entry) list"
  fx_redis :: "(string \<times> redis_entry) list"
  fx_rows :: "exchange_rate list"

record fx_env =
  fe_now :: instant
  fe_ttl_hours :: int
  fe_redis_up :: bool
  fe_http :: "json res"
  fe_read_error :: "err option"
  fe_write_error :: "err option"
  fe_own_session :: bool

definition l1_ttl_seconds :: int where
  "l1_ttl_seconds = 300"

definition cache_ttl_hours :: "fx_env \<Rightarrow> int" where
  "cache_ttl_hours env = max 1 (fe_ttl_hours env)"

definition write_l1_rate :: "fx_env \<Rightarrow> string \<Rightarrow> rat \<Rightarrow> string option \<Rightarrow> fx_state \<Rightarrow> fx_state" where
  "write_l1_rate env currency rate provider s =
     s\<lparr>fx_l1 := AList.update currency \<lparr>l1_rate = rate, l1_updated = fe_now env, l1_provider = provider\<rparr> (fx_l1 s)\<rparr>"

definition redis_key :: "string \<Rightarrow> string" where
  "redis_key currency = ''currency_rate:'' @ currency"

definition unix_time :: "instant \<Rightarrow> rat" where
  "unix_time t = of_int t / 1000000"

definition write_redis_rate :: "fx_env \<Rightarrow> string \<Rightarrow> rat \<Rightarrow> string option \<Rightarrow> fx_state \<Rightarrow> fx_state" where
  "write_redis_rate env currency rate provider s =
     (if fe_redis_up env
      then s\<lparr>fx_redis := AList.update (redis_key currency)
        \<lparr>re_payload = JObj [(''rate'', JDec 6 rate), (''updated_at'', JDec 6 (unix_time (fe_now env))),
            (''provider'', case provider of None \<Rightarrow> JNull | Some p \<Rightarrow> JStr p)],
          re_expires = fe_now env + seconds (3600 * cache_ttl_hours env)\<rparr> (fx_redis s)\<rparr>
      else s)"

text \<open>\<open>Decimal(str(value))\<close> of a JSON value\<close>

definition decimal_of :: "json \<Rightarrow> rat option" where
  "decimal_of v = (case v of JInt n \<Rightarrow> Some (of_int n) | JDec n r \<Rightarrow> Some r | JStr s \<Rightarrow> parse_decimal s | _ \<Rightarrow> None)"

text \<open>\<open>float(value)\<close> of a number or a text; \<open>True\<close> and \<open>False\<close> are numbers in Python.\<close>

definition float_of :: "json \<Rightarrow> rat option" where
  "float_of v = (case v of JBool b \<Rightarrow> Some (if b then 1 else 0) | _ \<Rightarrow> decimal_of v)"

definition read_redis_rate :: "fx_env \<Rightarrow> string \<Rightarrow> fx_state \<Rightarrow> (rat \<times> rat option \<times> string option) option" where
  "read_redis_rate env currency s =
     (if \<not> fe_redis_up env then None
      else case map_of (fx_redis s) (redis_key currency) of
        None \<Rightarrow> None
      | Some e \<Rightarrow>
          if re_expires e \<le> fe_now env then None
          else (case re_payload e of
             JObj d \<Rightarrow>
               (case decimal_of (dict_get d ''rate'') of
                  None \<Rightarrow> None
                | Some rate \<Rightarrow> Some (rate, float_of (dict_get d ''updated_at''),
                    case dict_get d ''provider'' of JStr p \<Rightarrow> Some p | _ \<Rightarrow> None))
           | _ \<Rightarrow> None))"

definition rate_row :: "string \<Rightarrow> fx_state \<Rightarrow> exchange_rate option" where
  "rate_row to_currency s =
     first_row (\<lambda>r. xr_from_currency r = ''USD'' \<and> xr_to_currency r = to_currency) (fx_rows s)"

definition read_db_rate :: "fx_env \<Rightarrow> string \<Rightarrow> fx_state \<Rightarrow> exchange_rate option res" where
  "read_db_rate env to_currency s =
     (case fe_read_error env of
        Some e \<Rightarrow> if rate_db_recoverable e then Inr None else Inl e
      | None \<Rightarrow> Inr (rate_row to_currency s))"

definition apply_db_rate_upsert :: "instant \<Rightarrow> string \<Rightarrow> rat \<Rightarrow> string \<Rightarrow> fx_state \<Rightarrow> fx_state" where
  "apply_db_rate_upsert now to_currency rate provider s =
     (case rate_row to_currency s of
        Some _ \<Rightarrow> s\<lparr>fx_rows := update_where (\<lambda>r. xr_from_currency r = ''USD'' \<and> xr_to_currency r = to_currency)
          (\<lambda>r. r\<lparr>xr_rate := numeric 4 rate, xr_provider := provider, xr_last_updated := now\<rparr>) (fx_rows s)\<rparr>
      | None \<Rightarrow> s\<lparr>fx_rows := fx_rows s @ [\<lparr>xr_from_currency = ''USD'', xr_to_currency = to_currency,
          xr_rate = numeric 4 rate, xr_provider = provider, xr_last_updated = now\<rparr>]\<rparr>)"

text \<open>With a session of its own a failing write is swallowed, with the caller's session it is raised.\<close>

definition upsert_db_rate :: "fx_env \<Rightarrow> string \<Rightarrow> rat \<Rightarrow> string \<Rightarrow> fx_state \<Rightarrow> unit res \<times> fx_state" where
  "upsert_db_rate env to_currency rate provider s =
     (case fe_write_error env of
        None \<Rightarrow> (Inr (), apply_db_rate_upsert (fe_now env) to_currency rate provider s)
      | Some e \<Rightarrow> (if rate_db_recoverable e \<and> fe_own_session env then Inr () else Inl e, s))"

definition is_fresh :: "fx_env \<Rightarrow> instant \<Rightarrow> bool" where
  "is_fresh env updated_at \<longleftrightarrow> fe_now env - seconds (3600 * cache_ttl_hours env) \<le> updated_at"

subsection \<open>The central bank\<close>

definition month_names :: "string list" where
  "month_names = [''january'', ''february'', ''march'', ''april'', ''may'', ''june'', ''july'', ''august'',
     ''september'', ''october'', ''november'', ''december'']"

text \<open>The directives \<open>%B\<close>, \<open>%m\<close>, \<open>%d\<close> and \<open>%Y\<close> of \<open>strptime\<close>\<close>

definition month_of_name :: "string \<Rightarrow> int option" where
  "month_of_name s = (case find (\<lambda>(n, i). n = lower s) (zip month_names [1..12]) of None \<Rightarrow> None | Some (n, i) \<Rightarrow> Some i)"

definition small_number :: "int \<Rightarrow> string \<Rightarrow> int option" where
  "small_number hi s =
     (if s \<noteq> [] \<and> length s \<le> 2 \<and> list_all is_digit s \<and> 1 \<le> digits_value 0 s \<and> int (digits_value 0 s) \<le> hi
      then Some (int (digits_value 0 s)) else None)"

definition day_number :: "string \<Rightarrow> int option" where
  "day_number s = small_number 31 (if length s = 2 \<and> hd s = CHR '' '' then tl s else s)"

definition year_number :: "string \<Rightarrow> int option" where
  "year_number s = (if length s = 4 \<and> list_all is_digit s then Some (int (digits_value 0 s)) else None)"

definition valid_date :: "int option \<Rightarrow> int option \<Rightarrow> int option \<Rightarrow> int option" where
  "valid_date y m d =
     (case (y, m, d) of
        (Some y, Some m, Some d) \<Rightarrow>
          if 1 \<le> y \<and> d \<le> month_length y m then Some (toordinal \<lparr>d_year = y, d_month = m, d_day = d\<rparr>) else None
      | _ \<Rightarrow> None)"

text \<open>The ordinal of the date; the times of the parsed dates are all midnight.\<close>

definition parse_cbn_date :: "json \<Rightarrow> int option" where
  "parse_cbn_date value =
     (case value of
        JStr text \<Rightarrow>
          (case split_char (CHR ''-'') (strip text) of
             [a, b, c] \<Rightarrow>
               (case valid_date (year_number c) (month_of_name a) (day_number b) of
                  Some n \<Rightarrow> Some n
                | None \<Rightarrow> valid_date (year_number a) (small_number 12 b) (day_number c))
           | _ \<Rightarrow> None)
      | _ \<Rightarrow> None)"

fun latest_row :: "(int \<times> dict) option \<Rightarrow> json list \<Rightarrow> (int \<times> dict) option" where
  "latest_row best [] = best"
| "latest_row best (JObj d # rows) =
     (case parse_cbn_date (dict_get d ''ratedate'') of
        None \<Rightarrow> latest_row best rows
      | Some n \<Rightarrow>
          (case best of
             None \<Rightarrow> latest_row (Some (n, d)) rows
           | Some (m, e) \<Rightarrow> latest_row (if m < n then Some (n, d) else best) rows))"
| "latest_row best (_ # rows) = latest_row best rows"

text \<open>The truth value of a decoded JSON value, where a number with a fraction is a float.\<close>

definition json_truthy :: "json \<Rightarrow> bool" where
  "json_truthy v = (case v of JDec n r \<Rightarrow> r \<noteq> 0 | _ \<Rightarrow> py_truthy v)"

definition fetch_ngn_from_cbn :: "fx_env \<Rightarrow> rat res" where
  "fetch_ngn_from_cbn env =
     bind_res (fe_http env) (\<lambda>payload.
       case payload of
         JList (row # rows) \<Rightarrow>
           (case latest_row None (row # rows) of
              None \<Rightarrow> Inl (ValueError ''CBN NFEM payload has no parseable rate rows'')
            | Some (n, d) \<Rightarrow>
                (let avg = dict_get d ''weightedAvgRate'';
                     raw_rate = (if json_truthy avg then avg else dict_get d ''closingrate'') in
                 if raw_rate = JNull \<or> raw_rate = JStr ''''
                 then Inl (ValueError ''CBN NFEM row missing weightedAvgRate/closingrate'')
                 else (case decimal_of raw_rate of
                     None \<Rightarrow> Inl invalid_operation
                   | Some rate \<Rightarrow> if rate \<le> 0 then Inl (ValueError ''CBN NFEM returned non-positive rate'') else Inr rate)))
       | _ \<Rightarrow> Inl (ValueError ''CBN NFEM payload is empty or invalid''))"

definition fetch_live_rate :: "fx_env \<Rightarrow> string \<Rightarrow> (rat \<times> string) res" where
  "fetch_live_rate env to_currency =
     (if to_currency = ''NGN''
      then (case fetch_ngn_from_cbn env of
          Inr rate \<Rightarrow> Inr (rate, ''cbn_nfem'')
        | Inl e \<Rightarrow> if live_provider_recoverable e then Inl (ValueError (''cbn_nfem:'' @ err_message e)) else Inl e)
      else Inl (ValueError (''no live provider configured for '' @ to_currency)))"

subsection \<open>Looking a rate up\<close>

text \<open>A strict caller only accepts the official rate of the naira.\<close>

definition acceptable :: "bool \<Rightarrow> string \<Rightarrow> string option \<Rightarrow> bool" where
  "acceptable strict currency provider \<longleftrightarrow> \<not> (strict \<and> currency = ''NGN'' \<and> provider \<noteq> Some ''cbn_nfem'')"

definition l1_hit :: "fx_env \<Rightarrow> bool \<Rightarrow> string \<Rightarrow> fx_state \<Rightarrow> rat option" where
  "l1_hit env strict currency s =
     (case map_of (fx_l1 s) currency of
        None \<Rightarrow> None
      | Some e \<Rightarrow> if l1_rate e \<noteq> 0 \<and> fe_now env - l1_updated e \<le> seconds l1_ttl_seconds
          \<and> acceptable strict currency (l1_provider e) then Some (l1_rate e) else None)"

definition redis_hit :: "fx_env \<Rightarrow> bool \<Rightarrow> string \<Rightarrow> fx_state \<Rightarrow> (rat \<times> string option) option" where
  "redis_hit env strict currency s =
     (case read_redis_rate env currency s of
        Some (rate, Some updated, provider) \<Rightarrow>
          if rate \<noteq> 0 \<and> updated \<noteq> 0 \<and> unix_time (fe_now env) - updated \<le> of_int (cache_ttl_hours env * 3600)
             \<and> acceptable strict currency provider then Some (rate, provider) else None
      | _ \<Rightarrow> None)"

definition db_hit :: "fx_env \<Rightarrow> bool \<Rightarrow> string \<Rightarrow> exchange_rate option \<Rightarrow> (rat \<times> string) option" where
  "db_hit env strict currency row =
     (case row of
        None \<Rightarrow> None
      | Some r \<Rightarrow> if xr_rate r \<noteq> 0 \<and> is_fresh env (xr_last_updated r) \<and> acceptable strict currency (Some (xr_provider r))
          then Some (xr_rate r, xr_provider r) else None)"

text \<open>
  The naira has only the official provider, so that the check of a strict caller for another one after the
  fetch never fails.
\<close>

definition live_rate :: "fx_env \<Rightarrow> bool \<Rightarrow> string \<Rightarrow> fx_state \<Rightarrow> rat res \<times> fx_state" where
  "live_rate env strict currency s =
     (case fetch_live_rate env currency of
        Inl e \<Rightarrow> (Inl e, s)
      | Inr (rate, provider) \<Rightarrow>
          (let s1 = write_redis_rate env currency rate (Some provider) (write_l1_rate env currency rate (Some provider) s) in
           if currency = ''NGN'' \<and> provider \<noteq> ''cbn_nfem'' then (Inr rate, s1)
           else (case upsert_db_rate env currency rate provider s1 of
               (Inl e, s2) \<Rightarrow> (Inl e, s2)
             | (Inr _, s2) \<Rightarrow> (Inr rate, s2))))"

definition degraded_rate :: "fx_env \<Rightarrow> bool \<Rightarrow> string \<Rightarrow> exchange_rate option \<Rightarrow> fx_state \<Rightarrow> rat res \<times> fx_state" where
  "degraded_rate env strict currency row s =
     (case row of
        Some r \<Rightarrow>
          if strict then (Inl (RuntimeError (currency @ '' rate is stale and live refresh failed'')), s)
          else (Inr (xr_rate r), write_l1_rate env currency (xr_rate r) (Some (xr_provider r)) s)
      | None \<Rightarrow>
          if strict then (Inl (RuntimeError (currency @ '' rate is unavailable'')), s) else (Inr 1, s))"

definition get_rate :: "fx_env \<Rightarrow> bool \<Rightarrow> string option \<Rightarrow> fx_state \<Rightarrow> rat res \<times> fx_state" where
  "get_rate env strict to_currency s =
     (let currency = normalize_currency to_currency in
      if currency = ''USD'' then (Inr 1, s)
      else case l1_hit env strict currency s of
        Some rate \<Rightarrow> (Inr rate, s)
      | None \<Rightarrow>
          (case redis_hit env strict currency s of
             Some (rate, provider) \<Rightarrow> (Inr rate, write_l1_rate env currency rate provider s)
           | None \<Rightarrow>
               (case read_db_rate env currency s of
                  Inl e \<Rightarrow> (Inl e, s)
                | Inr row \<Rightarrow>
                    (case db_hit env strict currency row of
                       Some (rate, provider) \<Rightarrow>
                         (Inr rate, write_redis_rate env currency rate (Some provider)
                            (write_l1_rate env currency rate (Some provider) s))
                     | None \<Rightarrow>
                         (case live_rate env strict currency s of
                            (Inr rate, s1) \<Rightarrow> (Inr rate, s1)
                          | (Inl e, s1) \<Rightarrow>
                              if live_provider_recoverable e then degraded_rate env strict currency row s1
                              else (Inl e, s1))))))"

definition get_ngn_rate :: "fx_env \<Rightarrow> fx_state \<Rightarrow> rat res \<times> fx_state" where
  "get_ngn_rate env s = get_rate env True (Some ''NGN'') s"

subsection \<open>Clients\<close>

definition list_cached_rates :: "fx_env \<Rightarrow> fx_state \<Rightarrow> (string \<times> rat) list res" where
  "list_cached_rates env s =
     (let base = [(''USD'', 1)];
          add_row = (\<lambda>r rates. let code = upper (strip (xr_to_currency r)) in
            if code = '''' then rates else AList.update code (xr_rate r) rates);
          rows = fold add_row (filter (\<lambda>r. xr_from_currency r = ''USD'') (fx_rows s)) base;
          with_l1 = (\<lambda>rates. fold (\<lambda>(code, e). AList.update (upper code) (l1_rate e)) (fx_l1 s) rates) in
      case fe_read_error env of
        None \<Rightarrow> Inr (with_l1 rows)
      | Some e \<Rightarrow> if rate_db_recoverable e then Inr (with_l1 base) else Inl e)"

definition convert_usd :: "fx_env \<Rightarrow> bool \<Rightarrow> rat \<Rightarrow> string \<Rightarrow> fx_state \<Rightarrow> rat res \<times> fx_state" where
  "convert_usd env strict amount_usd to_currency s =
     (let currency = normalize_currency (Some to_currency) in
      if currency = ''USD'' then (Inr amount_usd, s)
      else case get_rate env strict (Some currency) s of
        (Inl e, s1) \<Rightarrow> (Inl e, s1)
      | (Inr rate, s1) \<Rightarrow> (Inr (amount_usd * rate), s1))"

definition convert_to_usd :: "fx_env \<Rightarrow> bool \<Rightarrow> rat \<Rightarrow> string \<Rightarrow> fx_state \<Rightarrow> rat res \<times> fx_state" where
  "convert_to_usd env strict amount from_currency s =
     (let currency = normalize_currency (Some from_currency) in
      if currency = ''USD'' then (Inr amount, s)
      else case get_rate env strict (Some currency) s of
        (Inl e, s1) \<Rightarrow> (Inl e, s1)
      | (Inr rate, s1) \<Rightarrow> (Inr (convert_to_usd_amount amount rate), s1))"

subsection \<open>Administration\<close>

definition apply_exchange_rate_update :: "instant \<Rightarrow> rat \<Rightarrow> string \<Rightarrow> fx_state \<Rightarrow> fx_state" where
  "apply_exchange_rate_update now rate provider s = apply_db_rate_upsert now ''NGN'' rate provider s"

record rate_health =
  rh_rate :: "rat option"
  rh_provider :: string
  rh_last_updated :: "instant option"
  rh_age_hours :: "rat option"
  rh_is_stale :: "bool option"
  rh_is_official_provider :: "bool option"
  rh_billing_safe :: bool
  rh_warning :: "string option"

definition load_exchange_rate_health :: "instant \<Rightarrow> fx_state \<Rightarrow> rate_health" where
  "load_exchange_rate_health now s =
     (case rate_row ''NGN'' s of
        None \<Rightarrow> \<lparr>rh_rate = None, rh_provider = ''unavailable'', rh_last_updated = None, rh_age_hours = None,
          rh_is_stale = None, rh_is_official_provider = None, rh_billing_safe = False,
          rh_warning = Some ''No USD->NGN rate row available in cache''\<rparr>
      | Some r \<Rightarrow>
          (let age_hours = quantize 2 (of_int (now - xr_last_updated r) / 3600000000);
               is_stale = (24 < age_hours);
               official = (lower (strip (xr_provider r)) = ''cbn_nfem'') in
           \<lparr>rh_rate = Some (xr_rate r), rh_provider = xr_provider r, rh_last_updated = Some (xr_last_updated r),
            rh_age_hours = Some age_hours, rh_is_stale = Some is_stale, rh_is_official_provider = Some official,
            rh_billing_safe = (official \<and> \<not> is_stale),
            rh_warning =
              (if \<not> official then Some ''Provider is not official CBN NFEM; strict billing will reject this rate.''
               else if is_stale then Some ''CBN rate is older than 24h; strict billing will reject checkout.''
               else None)\<rparr>))"

end
