(* ===== verification/Gov_Audit.thy ===== *)
theory Gov_Audit
  imports Enf_Token
begin

text \<open>
  The audit log: src/app/modules/governance/domain/security/audit_log.py. An entry is built from the
  arguments of \<open>AuditLogger.log\<close>, with the values under sensitive keys masked at every depth, and
  appended to the table.
\<close>

record audit_entry =
  al_tenant_id :: uuid
  al_event_type :: string
  al_event_timestamp :: instant
  al_actor_id :: "uuid option"
  al_actor_email :: "string option"
  al_actor_ip :: "string option"
  al_correlation_id :: string
  al_request_method :: "string option"
  al_request_path :: "string option"
  al_resource_type :: "string option"
  al_resource_id :: "string option"
  al_details :: "json option"
  al_success :: bool
  al_error_message :: "string option"

definition sensitive_fields :: "string list" where
  "sensitive_fields = [''password'', ''token'', ''secret'', ''api_key'', ''access_key'', ''external_id'',
     ''session_token'', ''credit_card'']"

definition sensitive_key :: "string \<Rightarrow> bool" where
  "sensitive_key key \<longleftrightarrow> list_ex (\<lambda>s. contains s (lower key)) sensitive_fields"

definition redacted :: json where
  "redacted = JStr ''***REDACTED***''"

fun mask_sensitive :: "json \<Rightarrow> json" where
  "mask_sensitive (JList xs) = JList (map mask_sensitive xs)"
| "mask_sensitive (JObj d) = JObj (map (\<lambda>(k, v). (k, if sensitive_key k then redacted else mask_sensitive v)) d)"
| "mask_sensitive v = v"

text \<open>The identifier of the actor as the callers give it\<close>

datatype actor_arg = ActorId uuid | ActorText string | NoActor

fun parse_actor :: "actor_arg \<Rightarrow> uuid option" where
  "parse_actor (ActorId i) = Some i"
| "parse_actor (ActorText s) = parse_uuid s"
| "parse_actor NoActor = None"

record audit_request =
  aq_event_type :: string
  aq_actor_id :: actor_arg
  aq_actor_email :: "string option"
  aq_actor_ip :: "string option"
  aq_resource_type :: "string option"
  aq_resource_id :: "string option"
  aq_details :: dict
  aq_success :: bool
  aq_error_message :: "string option"
  aq_request_method :: "string option"
  aq_request_path :: "string option"

text \<open>\<open>correlation_id or str(uuid4())\<close>; the fresh identifier is an argument.\<close>

definition audit_log :: "uuid \<Rightarrow> string option \<Rightarrow> string \<Rightarrow> instant \<Rightarrow> audit_request \<Rightarrow> audit_entry" where
  "audit_log tenant_id correlation_id fresh now q =
     \<lparr>al_tenant_id = tenant_id, al_event_type = aq_event_type q, al_event_timestamp = now,
      al_actor_id = parse_actor (aq_actor_id q), al_actor_email = aq_actor_email q, al_actor_ip = aq_actor_ip q,
      al_correlation_id = (case correlation_id of None \<Rightarrow> fresh | Some c \<Rightarrow> if c = '''' then fresh else c),
      al_request_method = aq_request_method q, al_request_path = aq_request_path q,
      al_resource_type = aq_resource_type q, al_resource_id = aq_resource_id q,
      al_details = (if aq_details q = [] then None else Some (mask_sensitive (JObj (aq_details q)))),
      al_success = aq_success q, al_error_message = aq_error_message q\<rparr>"

subsection \<open>Masking\<close>

text \<open>The values a JSON value holds under a key, at any depth\<close>

inductive holds_at :: "json \<Rightarrow> string \<Rightarrow> json \<Rightarrow> bool" where
  here: "(k, v) \<in> set d \<Longrightarrow> holds_at (JObj d) k v"
| inside: "(k', w) \<in> set d \<Longrightarrow> holds_at w k v \<Longrightarrow> holds_at (JObj d) k v"
| element: "w \<in> set xs \<Longrightarrow> holds_at w k v \<Longrightarrow> holds_at (JList xs) k v"

inductive_cases holds_at_objE: "holds_at (JObj d) k v"
inductive_cases holds_at_listE: "holds_at (JList xs) k v"
inductive_cases holds_at_strE: "holds_at (JStr s) k v"

lemma holds_at_redacted [simp]: "\<not> holds_at redacted k v"
  by (auto simp: redacted_def elim: holds_at_strE)

lemma holds_at_atom: "holds_at j k v \<Longrightarrow> (\<exists>xs. j = JList xs) \<or> (\<exists>d. j = JObj d)"
  by (auto elim: holds_at.cases)

lemma masked_everywhere: "holds_at (mask_sensitive j) k v \<Longrightarrow> sensitive_key k \<Longrightarrow> v = redacted"
proof (induction j arbitrary: k v rule: mask_sensitive.induct)
  case (1 xs)
  from 1(2) obtain x where "x \<in> set xs" "holds_at (mask_sensitive x) k v" by (auto elim!: holds_at_listE)
  with 1(1,3) show ?case by blast
next
  case (2 d)
  from 2(2,3) consider "v = redacted" | a b where "(a, b) \<in> set d" "\<not> sensitive_key a" "holds_at (mask_sensitive b) k v"
    by (auto elim!: holds_at_objE split: if_splits)
  then show ?case
  proof cases
    case (2 a b)
    from "2.IH" [OF 2(1) refl 2(2,3)] "2.prems"(2) show ?thesis by simp
  qed
qed (auto dest: holds_at_atom)

text \<open>
  No secret reaches the audit log: in the details of an entry every value under a key that names a
  secret, at whatever depth of lists and dictionaries, is the redaction mark; what holds no such key is
  recorded as it was given.
\<close>

theorem audit_masks_secrets:
  assumes "al_details (audit_log tenant_id correlation_id fresh now q) = Some stored"
  shows "(\<forall>k v. holds_at stored k v \<and> sensitive_key k \<longrightarrow> v = JStr ''***REDACTED***'')
    \<and> ((\<forall>k v. holds_at (JObj (aq_details q)) k v \<longrightarrow> \<not> sensitive_key k) \<longrightarrow> stored = JObj (aq_details q))"
proof -
  have stored: "stored = mask_sensitive (JObj (aq_details q))" using assms by (auto simp: audit_log_def split: if_splits)
  have "mask_sensitive j = j" if "\<forall>k v. holds_at j k v \<longrightarrow> \<not> sensitive_key k" for j
    using that
  proof (induction j rule: mask_sensitive.induct)
    case (1 xs)
    have "mask_sensitive x = x" if "x \<in> set xs" for x
      by (rule 1(1) [OF that]) (use 1(2) that in \<open>auto intro: holds_at.element\<close>)
    then show ?case by (simp add: map_idI)
  next
    case (2 d)
    have "(\<lambda>(k, v). (k, if sensitive_key k then redacted else mask_sensitive v)) kv = kv" if "kv \<in> set d" for kv
    proof -
      obtain k v where kv: "kv = (k, v)" by (cases kv)
      with that 2(2) have "\<not> sensitive_key k" by (auto intro: holds_at.here)
      moreover from this have "mask_sensitive v = v"
        by (intro 2(1) [OF that kv [symmetric]]) (use 2(2) that kv in \<open>auto intro: holds_at.inside\<close>)
      ultimately show ?thesis by (simp add: kv)
    qed
    then show ?case by (simp add: map_idI)
  qed auto
  from this [of "JObj (aq_details q)"] masked_everywhere [of "JObj (aq_details q)"] show ?thesis
    unfolding stored redacted_def by blast
qed

definition sample_audit :: audit_request where
  "sample_audit = \<lparr>aq_event_type = ''billing.payment_received'', aq_actor_id = NoActor, aq_actor_email = None, aq_actor_ip = None,
     aq_resource_type = None, aq_resource_id = None,
     aq_details = [(''provider'', JStr ''paystack''), (''card'', JObj [(''Auth_Token'', JStr ''AUTH_x'')])],
     aq_success = True, aq_error_message = None, aq_request_method = None, aq_request_path = None\<rparr>"

lemma audit_masks_secrets_witness:
  "\<exists>stored. al_details (audit_log 7 None ''c'' 5 sample_audit) = Some stored \<and> holds_at stored ''Auth_Token'' (JStr ''***REDACTED***'')
     \<and> \<not> holds_at stored ''Auth_Token'' (JStr ''AUTH_x'')"
proof -
  have token: "sensitive_key ''Auth_Token''" "\<not> sensitive_key ''card''" "\<not> sensitive_key ''provider''" by code_simp+
  obtain stored where stored: "al_details (audit_log 7 None ''c'' 5 sample_audit) = Some stored" "stored = mask_sensitive (JObj (aq_details sample_audit))"
    by (simp add: audit_log_def sample_audit_def)
  have "holds_at stored ''Auth_Token'' (JStr ''***REDACTED***'')"
    unfolding stored(2)
    by (simp add: sample_audit_def token redacted_def)
      (rule holds_at.inside [of "''card''" "JObj [(''Auth_Token'', JStr ''***REDACTED***'')]"], simp, rule holds_at.here, simp)
  moreover have "\<forall>k v. holds_at stored k v \<and> sensitive_key k \<longrightarrow> v = JStr ''***REDACTED***''"
    using audit_masks_secrets [OF stored(1)] by (rule conjunct1)
  then have "\<not> holds_at stored ''Auth_Token'' (JStr ''AUTH_x'')" using token(1) by fastforce
  ultimately show ?thesis using stored(1) by blast
qed

end
