(* ===== verification/Bill_Models.thy ===== *)
theory Bill_Models
  imports Job_Queue Fx_Rates Price_Tiers Gov_Audit
begin

text \<open>
  The state and the shared helpers of billing: src/app/models/pricing.py, the columns of
  src/app/models/tenant.py that billing reads, paystack_shared.py, entitlement_policy.py,
  paystack_service_runtime_ops.py, paystack_client_impl.py and the string encryption of
  src/app/shared/core/security.py.

  The database \<open>bill_db\<close> extends the job queue. Fernet, the blind index, HMAC, SHA-256, the payment
  provider, mail and the JSON decoder are functions of the environment \<open>bill_env\<close>. What is written
  without a commit is undone by \<open>rolled_back\<close>; the caches of the process and mail that is sent are not.
\<close>

record tenant_subscription =
  ts_id :: uuid
  ts_tenant_id :: uuid
  ts_paystack_customer_code :: "string option"
  ts_paystack_subscription_code :: "string option"
  ts_paystack_email_token :: "string option"
  ts_paystack_auth_code :: "string option"
  ts_tier :: string
  ts_status :: string
  ts_next_payment_date :: "instant option"
  ts_billing_currency :: string
  ts_last_charge_amount_subunits :: "int option"
  ts_last_charge_fx_rate :: "rat option"
  ts_last_charge_fx_provider :: "string option"
  ts_last_charge_reference :: "string option"
  ts_last_charge_at :: "instant option"
  ts_canceled_at :: "instant option"
  ts_dunning_attempts :: int
  ts_last_dunning_at :: "instant option"
  ts_dunning_next_retry_at :: "instant option"

datatype subscription_status = SUB_ACTIVE | SUB_NON_RENEWING | SUB_ATTENTION | SUB_COMPLETED | SUB_CANCELLED

fun subscription_status_value :: "subscription_status \<Rightarrow> string" where
  "subscription_status_value SUB_ACTIVE = ''active''"
| "subscription_status_value SUB_NON_RENEWING = ''non-renewing''"
| "subscription_status_value SUB_ATTENTION = ''attention''"
| "subscription_status_value SUB_COMPLETED = ''completed''"
| "subscription_status_value SUB_CANCELLED = ''cancelled''"

record tenant =
  tn_id :: uuid
  tn_plan :: string

text \<open>The mail address of a user is encrypted by the type of its column, so that a loaded row has the plain text.\<close>

record app_user =
  us_id :: uuid
  us_tenant_id :: uuid
  us_email :: string
  us_email_bidx :: "string option"

datatype mail =
    PaymentFailed string int instant string
  | PaymentRecovered string
  | AccountDowngraded string

record bill_db = job_db +
  bd_next_id :: uuid
  bd_subscriptions :: "tenant_subscription list"
  bd_tenants :: "tenant list"
  bd_users :: "app_user list"
  bd_plans :: "(string \<times> rat) list"
  bd_audit :: "audit_entry list"
  bd_fx :: fx_state
  bd_tier_cache :: tier_cache
  bd_outbox :: "mail list"

record bill_env =
  be_now :: instant
  be_fx :: fx_env
  be_environment :: string
  be_testing :: bool
  be_secret_key :: string
  be_allowed_ips :: "string list"
  be_default_currency :: "string option"
  be_usd_checkout :: bool
  be_plan_code :: "pricing_tier \<Rightarrow> bool \<Rightarrow> string option"
  be_seal :: "string \<Rightarrow> string \<Rightarrow> string"
  be_unseal :: "string \<Rightarrow> string \<Rightarrow> string option"
  be_blind_index :: "string \<Rightarrow> string option"
  be_hmac_sha512 :: "string \<Rightarrow> string \<Rightarrow> string"
  be_sha256 :: "string \<Rightarrow> string"
  be_loads :: "string \<Rightarrow> json res"
  be_http :: "string \<Rightarrow> string \<Rightarrow> json option \<Rightarrow> json res"
  be_mail :: "mail \<Rightarrow> err option"
  be_audit_error :: "err option"
  be_fresh_text :: string

definition rolled_back :: "'a bill_db_scheme \<Rightarrow> 'a bill_db_scheme \<Rightarrow> 'a bill_db_scheme" where
  "rolled_back base db = base\<lparr>bd_fx := (bd_fx db)\<lparr>fx_rows := fx_rows (bd_fx base)\<rparr>, bd_tier_cache := bd_tier_cache db,
     bd_outbox := bd_outbox db\<rparr>"

text \<open>A session: the database at the last commit and as the session sees it\<close>

type_synonym 'a bill_session = "'a bill_db_scheme \<times> 'a bill_db_scheme"

definition commit :: "'a bill_session \<Rightarrow> 'a bill_session" where
  "commit ss = (snd ss, snd ss)"

definition rollback :: "'a bill_session \<Rightarrow> 'a bill_session" where
  "rollback ss = (rolled_back (fst ss) (snd ss), rolled_back (fst ss) (snd ss))"

definition on_session :: "('a bill_db_scheme \<Rightarrow> 'a bill_db_scheme) \<Rightarrow> 'a bill_session \<Rightarrow> 'a bill_session" where
  "on_session f ss = (fst ss, f (snd ss))"

text \<open>The database a session leaves behind: an exception that leaves it undoes what was not committed.\<close>

definition close_session :: "'b res \<times> 'a bill_session \<Rightarrow> 'b res \<times> 'a bill_db_scheme" where
  "close_session r = (fst r, if isl (fst r) then snd (rollback (snd r)) else snd (snd r))"

subsection \<open>Queries\<close>

text \<open>\<open>scalar_one_or_none\<close> raises when several rows match.\<close>

definition scalar_one_or_none :: "('a \<Rightarrow> bool) \<Rightarrow> 'a list \<Rightarrow> 'a option res" where
  "scalar_one_or_none p rows =
     (case filter p rows of
        [] \<Rightarrow> Inr None
      | [r] \<Rightarrow> Inr (Some r)
      | _ \<Rightarrow> Inl (SQLAlchemyError ''Multiple rows were found when one or none was required''))"

definition find_subscription :: "uuid \<Rightarrow> 'a bill_db_scheme \<Rightarrow> tenant_subscription option" where
  "find_subscription i db = first_row (\<lambda>s. ts_id s = i) (bd_subscriptions db)"

definition write_subscription :: "tenant_subscription \<Rightarrow> 'a bill_db_scheme \<Rightarrow> 'a bill_db_scheme" where
  "write_subscription s db = db\<lparr>bd_subscriptions := update_where (\<lambda>r. ts_id r = ts_id s) (\<lambda>_. s) (bd_subscriptions db)\<rparr>"

definition new_subscription :: "uuid \<Rightarrow> uuid \<Rightarrow> string \<Rightarrow> tenant_subscription" where
  "new_subscription i tenant_id tier =
     \<lparr>ts_id = i, ts_tenant_id = tenant_id, ts_paystack_customer_code = None, ts_paystack_subscription_code = None,
      ts_paystack_email_token = None, ts_paystack_auth_code = None, ts_tier = tier, ts_status = ''active'',
      ts_next_payment_date = None, ts_billing_currency = ''NGN'', ts_last_charge_amount_subunits = None,
      ts_last_charge_fx_rate = None, ts_last_charge_fx_provider = None, ts_last_charge_reference = None,
      ts_last_charge_at = None, ts_canceled_at = None, ts_dunning_attempts = 0, ts_last_dunning_at = None,
      ts_dunning_next_retry_at = None\<rparr>"

subsection \<open>Values from JSON\<close>

text \<open>\<open>value.get(key)\<close> where the value need not be a dictionary\<close>

definition attr_get :: "json \<Rightarrow> string \<Rightarrow> json res" where
  "attr_get v key =
     (case v of JObj d \<Rightarrow> Inr (dict_get d key)
      | _ \<Rightarrow> Inl (AttributeError (repr_str (python_type_name v) @ '' object has no attribute '' @ repr_str ''get'')))"

text \<open>A value bound to a text column: anything but a text or null is refused by the driver.\<close>

definition text_column :: "json \<Rightarrow> string option res" where
  "text_column v =
     (case v of JNull \<Rightarrow> Inr None | JStr s \<Rightarrow> Inr (Some s)
      | _ \<Rightarrow> Inl (SQLAlchemyError ''invalid input for query argument''))"

subsection \<open>Encryption of strings\<close>

definition encrypt_string :: "bill_env \<Rightarrow> string \<Rightarrow> string \<Rightarrow> string option" where
  "encrypt_string env context value = (if value = '''' then None else Some (be_seal env context value))"

definition decrypt_string :: "bill_env \<Rightarrow> string \<Rightarrow> string \<Rightarrow> string option res" where
  "decrypt_string env context value =
     (if value = '''' then Inr None
      else case be_unseal env context value of
        Some s \<Rightarrow> Inr (Some s)
      | None \<Rightarrow>
          if be_testing env then Inr None
          else if be_environment env = ''production'' \<or> be_environment env = ''staging''
          then Inl (OtherError ''Failed to decrypt value'') else Inr None)"

subsection \<open>Entitlements\<close>

definition normalize_pricing_tier_value :: "tier_arg \<Rightarrow> string res" where
  "normalize_pricing_tier_value tier =
     (case tier of
        Tier t \<Rightarrow> Inr (tier_value t)
      | TierText s \<Rightarrow>
          (case tier_of_value (lower (strip s)) of
             Some t \<Rightarrow> Inr (tier_value t)
           | None \<Rightarrow> Inl (ValueError (''Unsupported pricing tier value: '' @ repr_str s)))
      | NoTier \<Rightarrow> Inl (ValueError ''Unsupported pricing tier value: None''))"

definition sync_tenant_plan :: "uuid \<Rightarrow> tier_arg \<Rightarrow> 'a bill_db_scheme \<Rightarrow> 'a bill_db_scheme res" where
  "sync_tenant_plan tenant_id tier db =
     bind_res (normalize_pricing_tier_value tier) (\<lambda>plan.
       let updated = count_where (\<lambda>t. tn_id t = tenant_id) (bd_tenants db) in
       if updated \<noteq> 1
       then Inl (RuntimeError (''Tenant plan sync failed due to missing or duplicated tenant row (tenant_id=''
         @ uuid_text tenant_id @ '', updated_rows='' @ nat_text updated @ '')''))
       else Inr (db\<lparr>bd_tenants := update_where (\<lambda>t. tn_id t = tenant_id) (\<lambda>t. t\<lparr>tn_plan := plan\<rparr>) (bd_tenants db),
         bd_tier_cache := clear_tenant_tier_cache (Some (uuid_text tenant_id)) (bd_tier_cache db)\<rparr>))"

subsection \<open>The payment provider\<close>

definition paystack_request :: "bill_env \<Rightarrow> string \<Rightarrow> string \<Rightarrow> json option \<Rightarrow> dict res" where
  "paystack_request env verb endpoint data =
     bind_res (be_http env verb endpoint data) (\<lambda>payload.
       case payload of JObj d \<Rightarrow> Inr d | _ \<Rightarrow> Inl (ValueError ''Invalid Paystack response payload type''))"

definition initialize_transaction :: "bill_env \<Rightarrow> string \<Rightarrow> int \<Rightarrow> string option \<Rightarrow> string \<Rightarrow> dict \<Rightarrow> dict res" where
  "initialize_transaction env email amount_kobo plan_code callback_url metadata =
     paystack_request env ''POST'' ''transaction/initialize'' (Some (JObj
       ([(''email'', JStr email), (''amount'', JInt amount_kobo), (''callback_url'', JStr callback_url), (''metadata'', JObj metadata)]
        @ (case plan_code of Some p \<Rightarrow> if p = '''' then [] else [(''plan'', JStr p)] | None \<Rightarrow> []))))"

definition charge_authorization :: "bill_env \<Rightarrow> string \<Rightarrow> int \<Rightarrow> string \<Rightarrow> dict \<Rightarrow> dict res" where
  "charge_authorization env email amount_kobo authorization_code metadata =
     paystack_request env ''POST'' ''transaction/charge_authorization'' (Some (JObj
       [(''email'', JStr email), (''amount'', JInt amount_kobo), (''authorization_code'', JStr authorization_code),
        (''metadata'', JObj metadata)]))"

definition fetch_subscription :: "bill_env \<Rightarrow> string \<Rightarrow> dict res" where
  "fetch_subscription env code_or_token = paystack_request env ''GET'' (''subscription/'' @ code_or_token) None"

definition disable_subscription :: "bill_env \<Rightarrow> string \<Rightarrow> string \<Rightarrow> dict res" where
  "disable_subscription env code token =
     paystack_request env ''POST'' ''subscription/disable'' (Some (JObj [(''code'', JStr code), (''token'', JStr token)]))"

fun paystack_recoverable :: "err \<Rightarrow> bool" where
  "paystack_recoverable (SQLAlchemyError _) = True"
| "paystack_recoverable IntegrityError = True"
| "paystack_recoverable (HTTPError _) = True"
| "paystack_recoverable (RuntimeError _) = True"
| "paystack_recoverable (OSError _) = True"
| "paystack_recoverable TimeoutError = True"
| "paystack_recoverable (TypeError _) = True"
| "paystack_recoverable (ValueError _) = True"
| "paystack_recoverable (KeyError _) = True"
| "paystack_recoverable _ = False"

fun audit_recoverable :: "err \<Rightarrow> bool" where
  "audit_recoverable (SQLAlchemyError _) = True"
| "audit_recoverable IntegrityError = True"
| "audit_recoverable (RuntimeError _) = True"
| "audit_recoverable (OSError _) = True"
| "audit_recoverable TimeoutError = True"
| "audit_recoverable (AttributeError _) = True"
| "audit_recoverable (TypeError _) = True"
| "audit_recoverable (ValueError _) = True"
| "audit_recoverable _ = False"

text \<open>The webhook handlers do not expect an \<open>AttributeError\<close> from the audit log.\<close>

fun webhook_audit_recoverable :: "err \<Rightarrow> bool" where
  "webhook_audit_recoverable (AttributeError _) = False"
| "webhook_audit_recoverable e = audit_recoverable e"

definition billing_audit ::
  "(err \<Rightarrow> bool) \<Rightarrow> bill_env \<Rightarrow> uuid \<Rightarrow> string option \<Rightarrow> audit_request \<Rightarrow> 'a bill_db_scheme \<Rightarrow> 'a bill_db_scheme res" where
  "billing_audit recoverable env tenant_id correlation_id q db =
     (case be_audit_error env of
        None \<Rightarrow> Inr (db\<lparr>bd_audit := bd_audit db @ [audit_log tenant_id correlation_id (be_fresh_text env) (be_now env) q]\<rparr>)
      | Some e \<Rightarrow> if recoverable e then Inr db else Inl e)"

definition audit_event :: "string \<Rightarrow> string \<Rightarrow> dict \<Rightarrow> audit_request" where
  "audit_event event_type resource_id details =
     \<lparr>aq_event_type = event_type, aq_actor_id = NoActor, aq_actor_email = None, aq_actor_ip = None,
      aq_resource_type = Some ''tenant_subscription'', aq_resource_id = Some resource_id, aq_details = details,
      aq_success = True, aq_error_message = None, aq_request_method = None, aq_request_path = None\<rparr>"

subsection \<open>Amounts and dates\<close>

definition to_decimal_usd :: "json \<Rightarrow> rat res" where
  "to_decimal_usd value =
     (case decimal_of value of
        None \<Rightarrow> Inl (ValueError (''Invalid USD amount: '' @ py_str value))
      | Some amount \<Rightarrow> if amount < 0 then Inl (ValueError (''Invalid USD amount: '' @ py_str value)) else Inr (numeric 2 amount))"

definition usd_to_subunit_cents :: "rat \<Rightarrow> int" where
  "usd_to_subunit_cents amount_usd = round_half_up (amount_usd * 100)"

definition resolve_checkout_currency :: "string option \<Rightarrow> bool \<Rightarrow> string option \<Rightarrow> string \<Rightarrow> string res" where
  "resolve_checkout_currency configured usd_enabled requested_currency default_checkout_currency =
     (let raw = upper (strip (case configured of None \<Rightarrow> default_checkout_currency
            | Some c \<Rightarrow> if c = '''' then default_checkout_currency else c));
          default_currency = (if raw = ''NGN'' \<or> raw = ''USD'' then raw else default_checkout_currency);
          resolved = (case requested_currency of
              Some c \<Rightarrow> if strip c \<noteq> '''' then upper (strip c) else default_currency
            | None \<Rightarrow> default_currency) in
      if resolved = ''USD'' \<and> \<not> usd_enabled then Inl (ValueError ''USD checkout is not enabled'')
      else if resolved \<noteq> ''NGN'' \<and> resolved \<noteq> ''USD'' then Inl (ValueError (''Unsupported checkout currency: '' @ resolved))
      else Inr resolved)"

definition replace_z :: "string \<Rightarrow> string" where
  "replace_z s = concat (map (\<lambda>c. if c = CHR ''Z'' then ''+00:00'' else [c]) s)"

definition parse_paystack_datetime :: "json \<Rightarrow> instant option" where
  "parse_paystack_datetime value =
     (case value of JStr s \<Rightarrow> if strip s = '''' then None else fromisoformat (replace_z s) | _ \<Rightarrow> None)"

definition infer_interval_days :: "dict \<Rightarrow> int" where
  "infer_interval_days charge_data =
     (let from_plan = (case dict_get charge_data ''plan'' of JObj p \<Rightarrow> dict_get p ''interval'' | _ \<Rightarrow> JNull);
          interval_raw = (if from_plan = JNull
            then (case dict_get charge_data ''metadata'' of JObj m \<Rightarrow> dict_get m ''billing_cycle'' | _ \<Rightarrow> JNull) else from_plan);
          interval = (if json_truthy interval_raw then lower (strip (py_str interval_raw)) else '''') in
      if interval \<in> {''annual'', ''annually'', ''year'', ''yearly''} then 365 else 30)"

definition days :: "int \<Rightarrow> int" where
  "days n = seconds (86400 * n)"

definition compute_fallback_next_payment_date :: "instant \<Rightarrow> tenant_subscription \<Rightarrow> int \<Rightarrow> instant" where
  "compute_fallback_next_payment_date now s interval_days =
     (let anchor = (case ts_next_payment_date s of
            Some t \<Rightarrow> if t < now - days interval_days then now else t
          | None \<Rightarrow> now);
          candidate = anchor + days interval_days in
      if candidate \<le> now then now + days interval_days else candidate)"

definition fetch_provider_next_payment_date :: "bill_env \<Rightarrow> tenant_subscription \<Rightarrow> instant option res" where
  "fetch_provider_next_payment_date env s =
     (case ts_paystack_subscription_code s of
        None \<Rightarrow> Inr None
      | Some code \<Rightarrow>
          if strip code = '''' then Inr None
          else (case fetch_subscription env (strip code) of
             Inl e \<Rightarrow> if paystack_recoverable e then Inr None else Inl e
           | Inr payload \<Rightarrow>
               (case dict_get payload ''data'' of
                  JObj d \<Rightarrow>
                    Inr (case parse_paystack_datetime (dict_get d ''next_payment_date'') of
                        Some t \<Rightarrow> Some t
                      | None \<Rightarrow> (case parse_paystack_datetime (dict_get d ''next_payment'') of
                          Some t \<Rightarrow> Some t
                        | None \<Rightarrow> parse_paystack_datetime (dict_get d ''current_period_end'')))
                | _ \<Rightarrow> Inr None)))"

definition resolve_renewal_next_payment_date :: "bill_env \<Rightarrow> tenant_subscription \<Rightarrow> dict \<Rightarrow> instant res" where
  "resolve_renewal_next_payment_date env s charge_data =
     bind_res (fetch_provider_next_payment_date env s) (\<lambda>provider.
       case provider of
         Some t \<Rightarrow> Inr t
       | None \<Rightarrow>
           Inr (case parse_paystack_datetime (dict_get charge_data ''next_payment_date'') of
               Some t \<Rightarrow> t
             | None \<Rightarrow> compute_fallback_next_payment_date (be_now env) s (infer_interval_days charge_data)))"

end
