(* ===== verification/Bill_Service.thy ===== *)
theory Bill_Service
  imports Bill_Models
begin

text \<open>
  Checkout, renewal and cancellation: src/app/modules/billing/domain/billing/paystack_service_impl.py.

  Checkout and cancellation return their result or the exception they raise, and the database they
  leave; a renewal is part of the session of its caller, and one that is not carried out has at most
  refreshed the exchange rate.
\<close>

text \<open>The constructor of the provider's client\<close>

definition client_ready :: "bill_env \<Rightarrow> unit res" where
  "client_ready env = (if be_secret_key env = '''' then Inl (ValueError ''PAYSTACK_SECRET_KEY not configured'') else Inr ())"

definition resolve_plan_code :: "bill_env \<Rightarrow> pricing_tier \<Rightarrow> string \<Rightarrow> string option" where
  "resolve_plan_code env tier billing_cycle =
     (if tier = FREE then None
      else case be_plan_code env tier (lower billing_cycle = ''annual'') of
        None \<Rightarrow> None
      | Some v \<Rightarrow> if strip v = '''' then None else Some (strip v))"

text \<open>The amount in the smallest unit, the rate and the provider of the rate for a dollar price\<close>

definition price_in_ngn :: "bill_env \<Rightarrow> rat \<Rightarrow> 'a bill_db_scheme \<Rightarrow> (int \<times> rat \<times> string) res \<times> 'a bill_db_scheme" where
  "price_in_ngn env usd db =
     (case get_ngn_rate (be_fx env) (bd_fx db) of
        (Inl e, fx) \<Rightarrow> (Inl e, db\<lparr>bd_fx := fx\<rparr>)
      | (Inr rate, fx) \<Rightarrow> (Inr (convert_usd_to_ngn_subunits usd rate, rate, ''cbn_nfem''), db\<lparr>bd_fx := fx\<rparr>))"

definition price_in :: "bill_env \<Rightarrow> string \<Rightarrow> rat \<Rightarrow> 'a bill_db_scheme \<Rightarrow> (int \<times> rat \<times> string) res \<times> 'a bill_db_scheme" where
  "price_in env currency usd db =
     (if currency = ''USD'' then (Inr (usd_to_subunit_cents usd, 1, ''native_usd''), db) else price_in_ngn env usd db)"

subsection \<open>Checkout\<close>

definition subscript :: "json \<Rightarrow> string \<Rightarrow> json res" where
  "subscript v key =
     (case v of
        JObj d \<Rightarrow> (case map_of d key of Some w \<Rightarrow> Inr w | None \<Rightarrow> Inl (KeyError key))
      | _ \<Rightarrow> Inl (TypeError (repr_str (python_type_name v) @ '' object is not subscriptable'')))"

definition tier_price :: "pricing_tier \<Rightarrow> bool \<Rightarrow> json res" where
  "tier_price tier annual =
     (case tc_price_usd (tier_config_of tier) of
        PriceByCycle m a \<Rightarrow> Inr (JInt (if annual then a else m))
      | FlatPrice _ \<Rightarrow> Inl (TypeError (repr_str ''int'' @ '' object is not subscriptable''))
      | NoPrice \<Rightarrow> Inl (TypeError (repr_str ''NoneType'' @ '' object is not subscriptable'')))"

definition checkout_metadata ::
  "uuid \<Rightarrow> pricing_tier \<Rightarrow> string \<Rightarrow> rat \<Rightarrow> string \<Rightarrow> int \<Rightarrow> rat \<Rightarrow> string \<Rightarrow> string option \<Rightarrow> dict" where
  "checkout_metadata tenant_id tier billing_cycle usd currency amount rate provider plan_code =
     [(''tenant_id'', JStr (uuid_text tenant_id)), (''tier'', JStr (tier_value tier)), (''billing_cycle'', JStr billing_cycle),
      (''usd_price'', JDec 2 usd), (''currency'', JStr currency), (''amount_subunits'', JInt amount),
      (''exchange_rate'', JDec 6 rate), (''fx_provider'', JStr provider),
      (''plan_code'', case plan_code of None \<Rightarrow> JNull | Some p \<Rightarrow> JStr p),
      (''pricing_mode'', JStr (if plan_code \<noteq> None then ''fixed_plan_code'' else ''dynamic_amount''))]"

definition checkout_details ::
  "pricing_tier \<Rightarrow> rat \<Rightarrow> rat \<Rightarrow> int \<Rightarrow> string \<Rightarrow> string option \<Rightarrow> string \<Rightarrow> dict" where
  "checkout_details tier usd rate amount currency plan_code billing_cycle =
     [(''provider'', JStr ''paystack''), (''tier'', JStr (tier_value tier)), (''usd_price'', JDec 2 usd), (''exchange_rate'', JDec 6 rate),
      (''amount_subunits'', JInt amount), (''settlement_currency'', JStr currency),
      (''plan_code'', case plan_code of None \<Rightarrow> JNull | Some p \<Rightarrow> JStr p),
      (''pricing_mode'', JStr (if plan_code \<noteq> None then ''fixed_plan_code'' else ''dynamic_amount'')),
      (''billing_cycle'', JStr billing_cycle)]"

text \<open>
  The subscription of the checkout: the tenant's own or a new one, with the terms of the offered charge.
  The foreign key refuses a tenant that does not exist.
\<close>

definition note_checkout ::
  "bill_env \<Rightarrow> uuid \<Rightarrow> pricing_tier \<Rightarrow> string \<Rightarrow> int \<Rightarrow> rat \<Rightarrow> string \<Rightarrow> string option \<Rightarrow> 'a bill_db_scheme \<Rightarrow> 'a bill_db_scheme res" where
  "note_checkout env tenant_id tier currency amount rate provider reference db =
     (let terms = (\<lambda>s. s\<lparr>ts_billing_currency := currency, ts_last_charge_amount_subunits := Some amount,
            ts_last_charge_fx_rate := Some (numeric 6 rate), ts_last_charge_fx_provider := Some provider,
            ts_last_charge_reference := reference, ts_last_charge_at := Some (be_now env)\<rparr>) in
      case first_row (\<lambda>s. ts_tenant_id s = tenant_id) (bd_subscriptions db) of
        Some s \<Rightarrow> Inr (write_subscription (terms s) db)
      | None \<Rightarrow>
          if tenant_id \<notin> set (map tn_id (bd_tenants db)) then Inl IntegrityError
          else Inr (db\<lparr>bd_subscriptions := bd_subscriptions db @ [terms (new_subscription (bd_next_id db) tenant_id (tier_value tier))],
                 bd_next_id := bd_next_id db + 1\<rparr>))"

definition place_checkout ::
  "bill_env \<Rightarrow> uuid \<Rightarrow> pricing_tier \<Rightarrow> string \<Rightarrow> string \<Rightarrow> string \<Rightarrow> rat \<Rightarrow> string \<Rightarrow> int \<times> rat \<times> string
    \<Rightarrow> 'a bill_db_scheme \<Rightarrow> ((string \<times> json) list \<times> 'a bill_db_scheme) res" where
  "place_checkout env tenant_id tier email callback_url billing_cycle usd currency terms db =
     (let (amount, rate, provider) = terms;
          plan_code = (if currency = ''NGN'' then resolve_plan_code env tier billing_cycle else None) in
      bind_res (initialize_transaction env email amount plan_code callback_url
          (checkout_metadata tenant_id tier billing_cycle usd currency amount rate provider plan_code)) (\<lambda>response.
      bind_res (subscript (JObj response) ''data'') (\<lambda>data.
      bind_res (subscript data ''authorization_url'') (\<lambda>url.
      bind_res (subscript data ''reference'') (\<lambda>reference.
      bind_res (billing_audit audit_recoverable env tenant_id (case reference of JStr r \<Rightarrow> Some r | _ \<Rightarrow> None)
          (audit_event ''billing.payment_initiated'' (uuid_text tenant_id)
            (checkout_details tier usd rate amount currency plan_code billing_cycle)) db) (\<lambda>db1.
      bind_res (text_column reference) (\<lambda>ref.
      bind_res (note_checkout env tenant_id tier currency amount rate provider ref db1) (\<lambda>db2.
        Inr ([(''url'', url), (''reference'', reference)], db2)))))))))"

definition create_checkout_session ::
  "bill_env \<Rightarrow> uuid \<Rightarrow> pricing_tier \<Rightarrow> string \<Rightarrow> string \<Rightarrow> string \<Rightarrow> string option \<Rightarrow> 'a bill_db_scheme
    \<Rightarrow> dict res \<times> 'a bill_db_scheme" where
  "create_checkout_session env tenant_id tier email callback_url billing_cycle currency db =
     (case bind_res (client_ready env) (\<lambda>_.
         if tier = FREE then Inl (ValueError ''Cannot checkout free tier'')
         else bind_res (tier_price tier (lower billing_cycle = ''annual'')) (\<lambda>price.
           bind_res (to_decimal_usd price) (\<lambda>usd.
             bind_res (resolve_checkout_currency (be_default_currency env) (be_usd_checkout env) currency ''NGN'') (\<lambda>c. Inr (usd, c))))) of
        Inl e \<Rightarrow> (Inl e, db)
      | Inr (usd, c) \<Rightarrow>
          (case price_in env c usd db of
             (Inl e, db1) \<Rightarrow> (Inl e, rolled_back db db1)
           | (Inr terms, db1) \<Rightarrow>
               (case place_checkout env tenant_id tier email callback_url billing_cycle usd c terms db1 of
                  Inl e \<Rightarrow> (Inl e, rolled_back db db1)
                | Inr (answer, db2) \<Rightarrow> (Inr answer, db2))))"

subsection \<open>Renewal\<close>

text \<open>The dollar price of a renewal: \<open>None\<close> where the source returns without charging.\<close>

definition renewal_price :: "tenant_subscription \<Rightarrow> 'a bill_db_scheme \<Rightarrow> rat option res" where
  "renewal_price s db =
     (case map_of (bd_plans db) (ts_tier s) of
        Some price \<Rightarrow> bind_res (to_decimal_usd (JDec 2 price)) (\<lambda>usd. Inr (Some usd))
      | None \<Rightarrow>
          (case tier_of_value (ts_tier s) of
             None \<Rightarrow> Inr None
           | Some t \<Rightarrow>
               bind_res (to_decimal_usd (case tc_price_usd (tier_config_of t) of
                   PriceByCycle m a \<Rightarrow> JInt m | FlatPrice n \<Rightarrow> JInt n | NoPrice \<Rightarrow> JNull)) (\<lambda>usd. Inr (Some usd))))"

definition renewal_currency :: "tenant_subscription \<Rightarrow> string" where
  "renewal_currency s =
     (let c = upper (strip (ts_billing_currency s)) in if c = ''USD'' then ''USD'' else ''NGN'')"

definition primary_email :: "bill_env \<Rightarrow> uuid \<Rightarrow> 'a bill_db_scheme \<Rightarrow> string option res" where
  "primary_email env tenant_id db =
     (case first_row (\<lambda>u. us_tenant_id u = tenant_id) (bd_users db) of
        None \<Rightarrow> Inr None
      | Some u \<Rightarrow> decrypt_string env ''pii'' (us_email u))"

definition renewal_metadata :: "tenant_subscription \<Rightarrow> string \<Rightarrow> rat \<Rightarrow> string \<Rightarrow> dict" where
  "renewal_metadata s currency rate provider =
     [(''tenant_id'', JStr (uuid_text (ts_tenant_id s))), (''type'', JStr ''renewal''), (''plan'', JStr (ts_tier s)),
      (''currency'', JStr currency), (''exchange_rate'', JDec 6 rate), (''fx_provider'', JStr provider)]"

text \<open>\<open>response.get("status") and response["data"].get("status") == "success"\<close>\<close>

definition charge_accepted :: "dict \<Rightarrow> dict option res" where
  "charge_accepted response =
     (if \<not> json_truthy (dict_get response ''status'') then Inr None
      else bind_res (subscript (JObj response) ''data'') (\<lambda>data.
        bind_res (attr_get data ''status'') (\<lambda>status.
          Inr (if status = JStr ''success'' then (case data of JObj d \<Rightarrow> Some d | _ \<Rightarrow> None) else None))))"

definition renewed_subscription ::
  "bill_env \<Rightarrow> tenant_subscription \<Rightarrow> instant \<Rightarrow> string \<Rightarrow> int \<times> rat \<times> string \<Rightarrow> json \<Rightarrow> tenant_subscription" where
  "renewed_subscription env s next_payment currency terms reference =
     (let (amount, rate, provider) = terms in
      s\<lparr>ts_next_payment_date := Some next_payment, ts_billing_currency := currency,
        ts_last_charge_amount_subunits := Some amount, ts_last_charge_fx_rate := Some (numeric 6 rate),
        ts_last_charge_fx_provider := Some provider,
        ts_last_charge_reference := (if json_truthy reference then Some (py_str reference) else ts_last_charge_reference s),
        ts_last_charge_at := Some (be_now env)\<rparr>)"

definition renewal_details :: "rat \<Rightarrow> string \<Rightarrow> int \<times> rat \<times> string \<Rightarrow> json \<Rightarrow> dict" where
  "renewal_details usd currency terms reference =
     (let (amount, rate, provider) = terms in
      [(''provider'', JStr ''paystack''), (''event'', JStr ''charge_renewal''), (''usd_price'', JDec 2 usd), (''exchange_rate'', JDec 6 rate),
       (''amount_subunits'', JInt amount), (''settlement_currency'', JStr currency), (''reference'', reference), (''success'', JBool True)])"

text \<open>The charge itself: the renewed subscription and the reference of the charge, if it was accepted.\<close>

definition carry_out_charge ::
  "bill_env \<Rightarrow> tenant_subscription \<Rightarrow> string \<Rightarrow> string \<Rightarrow> string \<Rightarrow> int \<times> rat \<times> string \<Rightarrow> (tenant_subscription \<times> json) option res" where
  "carry_out_charge env s email auth_code currency terms =
     (let (amount, rate, provider) = terms in
      bind_res (charge_authorization env email amount auth_code (renewal_metadata s currency rate provider)) (\<lambda>response.
      bind_res (charge_accepted response) (\<lambda>charge.
        case charge of
          None \<Rightarrow> Inr None
        | Some charge_data \<Rightarrow>
            bind_res (resolve_renewal_next_payment_date env s charge_data) (\<lambda>next_payment.
              Inr (Some (renewed_subscription env s next_payment currency terms (dict_get charge_data ''reference''),
                dict_get charge_data ''reference''))))))"

text \<open>The audit entry of a charge that is already committed\<close>

definition record_renewal ::
  "bill_env \<Rightarrow> tenant_subscription \<Rightarrow> rat \<Rightarrow> int \<times> rat \<times> string \<Rightarrow> json \<Rightarrow> 'a bill_session \<Rightarrow> bool res \<times> 'a bill_session" where
  "record_renewal env s usd terms reference ss =
     (case billing_audit audit_recoverable env (ts_tenant_id s) (if json_truthy reference then Some (py_str reference) else None)
         (audit_event ''billing.payment_received'' (uuid_text (ts_id s))
           (renewal_details usd (ts_billing_currency s) terms reference)) (snd ss) of
        Inl e \<Rightarrow> (if paystack_recoverable e then Inr False else Inl e, ss)
      | Inr db \<Rightarrow> (Inr True, (fst ss, db)))"

definition charge_renewal :: "bill_env \<Rightarrow> tenant_subscription \<Rightarrow> 'a bill_session \<Rightarrow> bool res \<times> 'a bill_session" where
  "charge_renewal env s ss =
     (case ts_paystack_auth_code s of
        None \<Rightarrow> (Inr False, ss)
      | Some sealed \<Rightarrow>
          (case decrypt_string env ''api_key'' sealed of
             Inl e \<Rightarrow> (Inl e, ss)
           | Inr None \<Rightarrow> (Inr False, ss)
           | Inr (Some auth_code) \<Rightarrow>
               if auth_code = '''' then (Inr False, ss)
               else (case renewal_price s (snd ss) of
                 Inl e \<Rightarrow> (Inl e, ss)
               | Inr None \<Rightarrow> (Inr False, ss)
               | Inr (Some usd) \<Rightarrow>
                   (case price_in env (renewal_currency s) usd (snd ss) of
                      (Inl e, db1) \<Rightarrow> (Inl e, (fst ss, db1))
                    | (Inr terms, db1) \<Rightarrow>
                        (case primary_email env (ts_tenant_id s) db1 of
                           Inl e \<Rightarrow> (Inl e, (fst ss, db1))
                         | Inr None \<Rightarrow> (Inr False, (fst ss, db1))
                         | Inr (Some email) \<Rightarrow>
                             if email = '''' then (Inr False, (fst ss, db1))
                             else (case carry_out_charge env s email auth_code (renewal_currency s) terms of
                               Inl e \<Rightarrow> (if paystack_recoverable e then Inr False else Inl e, (fst ss, db1))
                             | Inr None \<Rightarrow> (Inr False, (fst ss, db1))
                             | Inr (Some (s', reference)) \<Rightarrow>
                                 record_renewal env s' usd terms reference (commit (fst ss, write_subscription s' db1))))))))"

subsection \<open>Cancellation\<close>

definition cancel_subscription :: "bill_env \<Rightarrow> uuid \<Rightarrow> 'a bill_db_scheme \<Rightarrow> unit res \<times> 'a bill_db_scheme" where
  "cancel_subscription env tenant_id db =
     (case bind_res (client_ready env) (\<lambda>_. scalar_one_or_none (\<lambda>s. ts_tenant_id s = tenant_id) (bd_subscriptions db)) of
        Inl e \<Rightarrow> (Inl e, db)
      | Inr None \<Rightarrow> (Inl (ValueError ''No active subscription to cancel''), db)
      | Inr (Some s) \<Rightarrow>
          (case (ts_paystack_subscription_code s, ts_paystack_email_token s) of
             (Some code, Some token) \<Rightarrow>
               if code = '''' \<or> token = '''' then (Inl (ValueError ''No active subscription to cancel''), db)
               else (case disable_subscription env code token of
                 Inl e \<Rightarrow> (Inl e, db)
               | Inr _ \<Rightarrow> (Inr (), write_subscription (s\<lparr>ts_status := ''cancelled'', ts_canceled_at := Some (be_now env)\<rparr>) db))
           | _ \<Rightarrow> (Inl (ValueError ''No active subscription to cancel''), db)))"

end
