(* ===== verification/Bill_Dunning.thy ===== *)
theory Bill_Dunning
  imports Bill_Service
begin

text \<open>
  Dunning: src/app/modules/billing/domain/billing/dunning_service.py. The operations are parts of a session:
  what they write before they raise is seen by what the caller does next, until a commit or a rollback.
\<close>

definition dunning_retry_schedule_days :: "int list" where
  "dunning_retry_schedule_days = [1, 3, 7]"

definition dunning_max_attempts :: int where
  "dunning_max_attempts = 3"

definition dunning_webhook_debounce_seconds :: int where
  "dunning_webhook_debounce_seconds = 300"

fun dunning_recoverable :: "err \<Rightarrow> bool" where
  "dunning_recoverable (SQLAlchemyError _) = True"
| "dunning_recoverable IntegrityError = True"
| "dunning_recoverable (HTTPError _) = True"
| "dunning_recoverable (RuntimeError _) = True"
| "dunning_recoverable (OSError _) = True"
| "dunning_recoverable TimeoutError = True"
| "dunning_recoverable (TypeError _) = True"
| "dunning_recoverable (ValueError _) = True"
| "dunning_recoverable _ = False"

fun dunning_email_recoverable :: "err \<Rightarrow> bool" where
  "dunning_email_recoverable (RuntimeError _) = True"
| "dunning_email_recoverable (OSError _) = True"
| "dunning_email_recoverable TimeoutError = True"
| "dunning_email_recoverable (AttributeError _) = True"
| "dunning_email_recoverable (TypeError _) = True"
| "dunning_email_recoverable (ValueError _) = True"
| "dunning_email_recoverable _ = False"

subsection \<open>Mail\<close>

text \<open>The address is looked up and the message is sent; recoverable failures of either are swallowed.\<close>

definition send_mail :: "bill_env \<Rightarrow> uuid \<Rightarrow> (string \<Rightarrow> mail) \<Rightarrow> 'a bill_session \<Rightarrow> unit res \<times> 'a bill_session" where
  "send_mail env tenant_id message ss =
     (case primary_email env tenant_id (snd ss) of
        Inl e \<Rightarrow> (if dunning_email_recoverable e then Inr () else Inl e, ss)
      | Inr None \<Rightarrow> (Inr (), ss)
      | Inr (Some address) \<Rightarrow>
          if address = '''' then (Inr (), ss)
          else (case be_mail env (message address) of
            None \<Rightarrow> (Inr (), on_session (\<lambda>db. db\<lparr>bd_outbox := bd_outbox db @ [message address]\<rparr>) ss)
          | Some e \<Rightarrow> (if dunning_email_recoverable e then Inr () else Inl e, ss)))"

definition then_return :: "'b \<Rightarrow> unit res \<times> 'a \<Rightarrow> 'b res \<times> 'a" where
  "then_return answer r = (map_sum id (\<lambda>_. answer) (fst r), snd r)"

subsection \<open>Failed payments\<close>

text \<open>\<open>xs[i]\<close> with Python's negative indices\<close>

definition py_index :: "'a list \<Rightarrow> int \<Rightarrow> 'a res" where
  "py_index xs i =
     (let k = (if i < 0 then int (length xs) + i else i) in
      if 0 \<le> k \<and> k < int (length xs) then Inr (xs ! nat k) else Inl (OtherError ''list index out of range''))"

definition handle_final_failure :: "bill_env \<Rightarrow> tenant_subscription \<Rightarrow> 'a bill_session \<Rightarrow> dict res \<times> 'a bill_session" where
  "handle_final_failure env s ss =
     (let s1 = s\<lparr>ts_status := ''cancelled'', ts_tier := tier_value FREE, ts_canceled_at := Some (be_now env), ts_dunning_next_retry_at := None\<rparr>;
          ss1 = on_session (write_subscription s1) ss in
      case sync_tenant_plan (ts_tenant_id s) (Tier FREE) (snd ss1) of
        Inl e \<Rightarrow> (Inl e, ss1)
      | Inr db \<Rightarrow>
          then_return [(''status'', JStr ''downgraded''), (''action'', JStr ''tier_changed_to_free''),
              (''reason'', JStr ''max_dunning_attempts_exhausted'')]
            (send_mail env (ts_tenant_id s) AccountDowngraded (commit (fst ss1, db))))"

definition dunning_payload :: "tenant_subscription \<Rightarrow> int \<Rightarrow> payload" where
  "dunning_payload s attempt = [(''subscription_id'', Uuid (ts_id s)), (''attempt'', Json (JInt (attempt + 1)))]"

text \<open>A job that cannot be stored undoes the attempt, with everything the session has not committed.\<close>

definition schedule_retry ::
  "bill_env \<Rightarrow> tenant_subscription \<Rightarrow> int \<Rightarrow> instant \<Rightarrow> 'a bill_session \<Rightarrow> dict res \<times> 'a bill_session" where
  "schedule_retry env s attempt next_retry ss =
     (let notice = (\<lambda>address. PaymentFailed address attempt next_retry (ts_tier s));
          ss1 = on_session (write_subscription (s\<lparr>ts_dunning_next_retry_at := Some next_retry\<rparr>)) ss in
      case enqueue_job (snd ss1) ''dunning'' (Some (ts_tenant_id s)) (Some (dunning_payload s attempt)) (Some next_retry) 3 None (be_now env) of
        (Inl e, _) \<Rightarrow>
          if dunning_recoverable e
          then then_return [(''status'', JStr ''enqueue_failed''), (''attempt'', JInt attempt), (''next_retry_at'', JTime next_retry),
              (''state_reverted'', JBool True)] (send_mail env (ts_tenant_id s) notice (rollback ss1))
          else (Inl e, ss1)
      | (Inr _, db) \<Rightarrow>
          then_return [(''status'', JStr ''scheduled_retry''), (''attempt'', JInt attempt), (''next_retry_at'', JTime next_retry)]
            (send_mail env (ts_tenant_id s) notice (commit (fst ss1, db))))"

definition webhook_debounced :: "instant \<Rightarrow> bool \<Rightarrow> tenant_subscription \<Rightarrow> bool" where
  "webhook_debounced now is_webhook s \<longleftrightarrow>
     is_webhook \<and> (case ts_last_dunning_at s of None \<Rightarrow> False | Some t \<Rightarrow> now - t < seconds dunning_webhook_debounce_seconds)"

definition process_failed_payment ::
  "bill_env \<Rightarrow> uuid \<Rightarrow> bool \<Rightarrow> 'a bill_session \<Rightarrow> dict res \<times> 'a bill_session" where
  "process_failed_payment env subscription_id is_webhook ss =
     (case find_subscription subscription_id (snd ss) of
        None \<Rightarrow> (Inr [(''status'', JStr ''error''), (''reason'', JStr ''subscription_not_found'')], ss)
      | Some s \<Rightarrow>
          if webhook_debounced (be_now env) is_webhook s
          then (Inr [(''status'', JStr ''duplicate_ignored''), (''attempt'', JInt (ts_dunning_attempts s)), (''reason'', JStr ''webhook_debounce'')], ss)
          else (let attempt = ts_dunning_attempts s + 1;
                    s1 = s\<lparr>ts_dunning_attempts := attempt, ts_last_dunning_at := Some (be_now env), ts_status := ''attention''\<rparr> in
            if dunning_max_attempts \<le> attempt then handle_final_failure env s1 ss
            else (case py_index dunning_retry_schedule_days (min (attempt - 1) (int (length dunning_retry_schedule_days) - 1)) of
                Inl e \<Rightarrow> (Inl e, on_session (write_subscription s1) ss)
              | Inr delay \<Rightarrow> schedule_retry env s1 attempt (be_now env + days delay) ss)))"

subsection \<open>Retries\<close>

definition handle_retry_success :: "bill_env \<Rightarrow> tenant_subscription \<Rightarrow> 'a bill_session \<Rightarrow> dict res \<times> 'a bill_session" where
  "handle_retry_success env s ss =
     (let s1 = s\<lparr>ts_status := ''active'', ts_dunning_attempts := 0, ts_last_dunning_at := None, ts_dunning_next_retry_at := None\<rparr>;
          ss1 = on_session (write_subscription s1) ss in
      case sync_tenant_plan (ts_tenant_id s) (TierText (ts_tier s)) (snd ss1) of
        Inl e \<Rightarrow> (Inl e, ss1)
      | Inr db \<Rightarrow>
          then_return [(''status'', JStr ''success''), (''action'', JStr ''subscription_reactivated'')]
            (send_mail env (ts_tenant_id s) PaymentRecovered (commit (fst ss1, db))))"

text \<open>
  The charge and what follows it are inside one \<open>try\<close>, so that a recoverable error of the
  reactivation, and even of the processing of a failed payment, is processed as a failed payment.
\<close>

definition charged_or_failed :: "bill_env \<Rightarrow> tenant_subscription \<Rightarrow> 'a bill_session \<Rightarrow> dict res \<times> 'a bill_session" where
  "charged_or_failed env s ss =
     (case charge_renewal env s ss of
        (Inl e, ss1) \<Rightarrow> (Inl e, ss1)
      | (Inr False, ss1) \<Rightarrow> process_failed_payment env (ts_id s) False ss1
      | (Inr True, ss1) \<Rightarrow>
          handle_retry_success env (case find_subscription (ts_id s) (snd ss1) of Some s' \<Rightarrow> s' | None \<Rightarrow> s) ss1)"

definition retry_payment :: "bill_env \<Rightarrow> uuid \<Rightarrow> 'a bill_session \<Rightarrow> dict res \<times> 'a bill_session" where
  "retry_payment env subscription_id ss =
     (case find_subscription subscription_id (snd ss) of
        None \<Rightarrow> (Inr [(''status'', JStr ''error''), (''reason'', JStr ''subscription_not_found'')], ss)
      | Some s \<Rightarrow>
          (case client_ready env of
             Inl e \<Rightarrow> (Inl e, ss)
           | Inr _ \<Rightarrow>
               (case charged_or_failed env s ss of
                  (Inl e, ss1) \<Rightarrow>
                    if dunning_recoverable e then process_failed_payment env (ts_id s) False ss1 else (Inl e, ss1)
                | (Inr answer, ss1) \<Rightarrow> (Inr answer, ss1))))"

end
