(* ===== verification/Bill_Webhook.thy ===== *)
theory Bill_Webhook
  imports Bill_Dunning
begin

text \<open>
  Webhooks of the payment provider: src/app/modules/billing/domain/billing/paystack_webhook_impl.py,
  webhook_retry.py and the endpoint in src/app/modules/billing/api/v1/billing_ops.py.

  A request is stored as a job under a key that identifies the event, and the job verifies the stored
  signature again before it acts. The body of a request is the list of its bytes, and a text is its UTF-8
  encoding. A \<open>ValueError\<close> of the JSON decoder is a \<open>JSONDecodeError\<close>. An operation that
  raises has written nothing; that a failing audit log may leave the cached tier of the tenant dropped is
  not recorded. The widths of columns are not modelled.
\<close>

subsection \<open>Signatures\<close>

text \<open>\<open>hmac.compare_digest\<close> refuses texts with other than ASCII characters.\<close>

definition verify_signature :: "bill_env \<Rightarrow> string \<Rightarrow> string \<Rightarrow> bool res" where
  "verify_signature env payload signature =
     (if signature = '''' \<or> be_secret_key env = '''' then Inr False
      else if list_ex (\<lambda>c. 128 \<le> (of_char c :: nat)) signature
      then Inl (TypeError ''comparing strings with non-ASCII characters is not supported'')
      else Inr (be_hmac_sha512 env (be_secret_key env) payload = signature))"

subsection \<open>Numbers of an event\<close>

datatype special_number = NaN | Infinite

text \<open>The texts that \<open>Decimal\<close> reads as something else than a finite number: a sign and the number\<close>

definition special_decimal :: "json \<Rightarrow> (bool \<times> special_number) option" where
  "special_decimal v =
     (case v of
        JStr raw \<Rightarrow>
          (let s = lower (strip raw); neg = (take 1 s = ''-''); body = (if neg \<or> take 1 s = ''+'' then tl s else s) in
           if body = ''inf'' \<or> body = ''infinity'' then Some (neg, Infinite)
           else if take 3 body = ''nan'' \<and> list_all is_digit (drop 3 body) \<or> take 4 body = ''snan'' \<and> list_all is_digit (drop 4 body)
           then Some (neg, NaN) else None)
      | _ \<Rightarrow> None)"

text \<open>A rounded value with more than 28 digits is an \<open>InvalidOperation\<close>.\<close>

definition parse_subunit_amount :: "json \<Rightarrow> int option res" where
  "parse_subunit_amount value =
     (case special_decimal value of
        Some (neg, k) \<Rightarrow> if neg \<and> k = Infinite then Inr None else Inl invalid_operation
      | None \<Rightarrow>
          (case decimal_of value of
             None \<Rightarrow> Inr None
           | Some x \<Rightarrow>
               if x < 0 then Inr None
               else if 10 ^ 28 \<le> round_half_up x then Inl invalid_operation
               else Inr (Some (round_half_up x))))"

definition parse_fx_rate :: "json \<Rightarrow> rat option res" where
  "parse_fx_rate value =
     (case special_decimal value of
        Some (neg, k) \<Rightarrow> if neg \<and> k = Infinite then Inr None else Inl invalid_operation
      | None \<Rightarrow>
          (case decimal_of value of
             None \<Rightarrow> Inr None
           | Some x \<Rightarrow>
               if x \<le> 0 then Inr None
               else if 10 ^ 28 \<le> round_half_up (x * 10 ^ 6) then Inl invalid_operation
               else Inr (Some (numeric 6 x))))"

text \<open>\<open>value.get(key, {})\<close>\<close>

definition attr_get_obj :: "json \<Rightarrow> string \<Rightarrow> json res" where
  "attr_get_obj v key =
     (case v of JObj d \<Rightarrow> Inr (dict_get_default d key (JObj []))
      | _ \<Rightarrow> Inl (AttributeError (repr_str (python_type_name v) @ '' object has no attribute '' @ repr_str ''get'')))"

definition first_truthy :: "json list \<Rightarrow> string" where
  "first_truthy vs = (case filter json_truthy vs of [] \<Rightarrow> '''' | v # _ \<Rightarrow> py_str v)"

subsection \<open>Subscription events\<close>

definition created_subscription :: "tenant_subscription \<Rightarrow> json \<Rightarrow> json \<Rightarrow> json \<Rightarrow> tenant_subscription res" where
  "created_subscription s subscription_code email_token next_payment_date =
     bind_res (if json_truthy subscription_code then text_column subscription_code else Inr (ts_paystack_subscription_code s)) (\<lambda>code.
     bind_res (if json_truthy email_token then text_column email_token else Inr (ts_paystack_email_token s)) (\<lambda>token.
     bind_res (if \<not> json_truthy next_payment_date then Inr (ts_next_payment_date s)
         else (case next_payment_date of
             JStr t \<Rightarrow> Inr (case fromisoformat (replace_z t) of None \<Rightarrow> ts_next_payment_date s | Some i \<Rightarrow> Some i)
           | _ \<Rightarrow> Inl (AttributeError (repr_str (python_type_name next_payment_date) @ '' object has no attribute '' @ repr_str ''replace'')))) (\<lambda>next.
       Inr (s\<lparr>ts_paystack_subscription_code := code, ts_paystack_email_token := token, ts_next_payment_date := next,
              ts_status := ''active''\<rparr>))))"

definition handle_subscription_create :: "bill_env \<Rightarrow> json \<Rightarrow> 'a bill_db_scheme \<Rightarrow> 'a bill_db_scheme res" where
  "handle_subscription_create env data db =
     bind_res (attr_get_obj data ''customer'') (\<lambda>customer.
     bind_res (attr_get customer ''customer_code'') (\<lambda>customer_code.
       let subscription_code = dict_get (as_dict data) ''subscription_code'';
           next_payment_date = dict_get (as_dict data) ''next_payment_date'' in
       if \<not> json_truthy customer_code then Inr db
       else bind_res (text_column customer_code) (\<lambda>code.
         bind_res (scalar_one_or_none (\<lambda>s. ts_paystack_customer_code s = code) (bd_subscriptions db)) (\<lambda>found.
           case found of
             None \<Rightarrow> Inr db
           | Some s \<Rightarrow>
               bind_res (created_subscription s subscription_code (dict_get (as_dict data) ''email_token'') next_payment_date) (\<lambda>s1.
                 billing_audit webhook_audit_recoverable env (ts_tenant_id s) (Some (first_truthy [subscription_code, customer_code]))
                   (audit_event ''billing.subscription_created'' (uuid_text (ts_id s))
                     [(''provider'', JStr ''paystack''), (''event'', JStr ''subscription.create''), (''subscription_code'', subscription_code),
                      (''customer_code'', customer_code), (''next_payment_date'', next_payment_date)])
                   (write_subscription s1 db))))))"

definition handle_subscription_disable :: "bill_env \<Rightarrow> json \<Rightarrow> 'a bill_db_scheme \<Rightarrow> 'a bill_db_scheme res" where
  "handle_subscription_disable env data db =
     bind_res (attr_get data ''subscription_code'') (\<lambda>code.
       if \<not> json_truthy code then Inr db
       else bind_res (text_column code) (\<lambda>c.
         bind_res (scalar_one_or_none (\<lambda>s. ts_paystack_subscription_code s = c) (bd_subscriptions db)) (\<lambda>found.
           Inr (case found of
               None \<Rightarrow> db
             | Some s \<Rightarrow> write_subscription (s\<lparr>ts_status := ''cancelled'', ts_canceled_at := Some (be_now env)\<rparr>) db))))"

subsection \<open>Successful charges\<close>

definition json_decode_error :: "err \<Rightarrow> bool" where
  "json_decode_error e \<longleftrightarrow> (case e of ValueError _ \<Rightarrow> True | TypeError _ \<Rightarrow> True | _ \<Rightarrow> False)"

definition charge_metadata :: "bill_env \<Rightarrow> json \<Rightarrow> json res" where
  "charge_metadata env data =
     bind_res (attr_get_obj data ''metadata'') (\<lambda>metadata.
       case metadata of
         JStr s \<Rightarrow> (case be_loads env s of Inr v \<Rightarrow> Inr v | Inl e \<Rightarrow> if json_decode_error e then Inr (JObj []) else Inl e)
       | _ \<Rightarrow> Inr metadata)"

text \<open>A blind index that is \<open>None\<close> is compared with \<open>IS NULL\<close>.\<close>

definition charge_tenant :: "bill_env \<Rightarrow> json \<Rightarrow> json \<Rightarrow> 'a bill_db_scheme \<Rightarrow> uuid option res" where
  "charge_tenant env tenant_id_str customer_email db =
     bind_res (if \<not> json_truthy tenant_id_str then Inr None
         else (case tenant_id_str of
             JStr s \<Rightarrow> Inr (parse_uuid s)
           | _ \<Rightarrow> Inl (AttributeError (repr_str (python_type_name tenant_id_str) @ '' object has no attribute '' @ repr_str ''replace'')))) (\<lambda>tenant_id.
       if tenant_id = None \<and> json_truthy customer_email
       then (case customer_email of
           JStr email \<Rightarrow>
             bind_res (scalar_one_or_none (\<lambda>u. us_email_bidx u = be_blind_index env email) (bd_users db)) (\<lambda>user.
               Inr (map_option us_tenant_id user))
         | _ \<Rightarrow> Inl (AttributeError (repr_str (python_type_name customer_email) @ '' object has no attribute '' @ repr_str ''strip'')))
       else Inr tenant_id)"

definition charge_tier :: "json \<Rightarrow> pricing_tier option" where
  "charge_tier tier = (if json_truthy tier then tier_of_value (lower (strip (py_str tier))) else None)"

definition charge_currency :: "json \<Rightarrow> string" where
  "charge_currency currency = upper (if json_truthy currency then py_str currency else ''NGN'')"

definition captured_auth_code :: "bill_env \<Rightarrow> json \<Rightarrow> tenant_subscription \<Rightarrow> string option res" where
  "captured_auth_code env data s =
     bind_res (attr_get_obj data ''authorization'') (\<lambda>authorization.
     bind_res (attr_get authorization ''authorization_code'') (\<lambda>auth_code.
       if \<not> json_truthy auth_code then Inr (ts_paystack_auth_code s)
       else (case auth_code of
           JStr code \<Rightarrow> Inr (encrypt_string env ''api_key'' code)
         | _ \<Rightarrow> Inl (AttributeError (repr_str (python_type_name auth_code) @ '' object has no attribute '' @ repr_str ''encode'')))))"

definition charged_fx_provider :: "json \<Rightarrow> string \<Rightarrow> tenant_subscription \<Rightarrow> string option" where
  "charged_fx_provider fx_provider currency s =
     (case fx_provider of
        JStr p \<Rightarrow> if strip p \<noteq> '''' then Some (lower (strip p))
          else if currency = ''NGN'' then Some ''cbn_nfem'' else ts_last_charge_fx_provider s
      | _ \<Rightarrow> if currency = ''NGN'' then Some ''cbn_nfem'' else ts_last_charge_fx_provider s)"

definition charged_subscription ::
  "bill_env \<Rightarrow> json \<Rightarrow> dict \<Rightarrow> json \<Rightarrow> tenant_subscription \<Rightarrow> (tenant_subscription \<times> int option \<times> rat option) res" where
  "charged_subscription env data metadata customer_code s =
     (let currency = charge_currency (dict_get (as_dict data) ''currency''); reference = dict_get (as_dict data) ''reference'' in
      bind_res (captured_auth_code env data s) (\<lambda>auth_code.
      bind_res (parse_subunit_amount (dict_get (as_dict data) ''amount'')) (\<lambda>amount.
      bind_res (parse_fx_rate (dict_get metadata ''exchange_rate'')) (\<lambda>fx_rate.
      bind_res (text_column customer_code) (\<lambda>code.
        Inr (s\<lparr>ts_paystack_customer_code := code, ts_paystack_auth_code := auth_code,
               ts_tier := (case charge_tier (dict_get metadata ''tier'') of Some t \<Rightarrow> tier_value t | None \<Rightarrow> ts_tier s),
               ts_status := ''active'', ts_billing_currency := currency,
               ts_last_charge_amount_subunits := (case amount of None \<Rightarrow> ts_last_charge_amount_subunits s | Some n \<Rightarrow> Some n),
               ts_last_charge_fx_rate := (case fx_rate of None \<Rightarrow> ts_last_charge_fx_rate s | Some r \<Rightarrow> Some r),
               ts_last_charge_fx_provider := charged_fx_provider (dict_get metadata ''fx_provider'') currency s,
               ts_last_charge_reference := (if json_truthy reference then Some (py_str reference) else ts_last_charge_reference s),
               ts_last_charge_at := Some (be_now env)\<rparr>, amount, fx_rate))))))"

definition charge_details :: "json \<Rightarrow> dict \<Rightarrow> json \<Rightarrow> tenant_subscription \<Rightarrow> int option \<Rightarrow> rat option \<Rightarrow> dict" where
  "charge_details data metadata customer_code s amount fx_rate =
     [(''provider'', JStr ''paystack''), (''event'', JStr ''charge.success''), (''reference'', dict_get (as_dict data) ''reference''),
      (''tier'', JStr (ts_tier s)), (''customer_code'', customer_code), (''currency'', JStr (ts_billing_currency s)),
      (''amount_subunits'', case amount of None \<Rightarrow> JNull | Some n \<Rightarrow> JInt n),
      (''fx_rate'', case fx_rate of None \<Rightarrow> JNull | Some r \<Rightarrow> JStr (fixed_text 6 r)),
      (''fx_provider'', if json_truthy (dict_get metadata ''fx_provider'') then dict_get metadata ''fx_provider''
         else (case ts_last_charge_fx_provider s of None \<Rightarrow> JNull | Some p \<Rightarrow> JStr p))]"

text \<open>
  The row of the tenant is updated or inserted. The foreign key refuses the row of a tenant that does not
  exist: in the statement that syncs the plan, or in the audit log, which leaves the commit to fail.
\<close>

definition store_charged ::
  "bill_env \<Rightarrow> bool \<Rightarrow> tenant_subscription option \<Rightarrow> tenant_subscription \<Rightarrow> 'a bill_db_scheme \<Rightarrow> 'a bill_db_scheme res" where
  "store_charged env with_tier old s db =
     (case old of
        Some _ \<Rightarrow> Inr (write_subscription s db)
      | None \<Rightarrow>
          if ts_tenant_id s \<notin> set (map tn_id (bd_tenants db))
          then Inl (if with_tier \<or> be_audit_error env \<noteq> None then IntegrityError
            else SQLAlchemyError ''This Session has been rolled back due to a previous exception during flush.'')
          else Inr (db\<lparr>bd_subscriptions := bd_subscriptions db @ [s], bd_next_id := bd_next_id db + 1\<rparr>))"

definition activate_tenant :: "bill_env \<Rightarrow> json \<Rightarrow> dict \<Rightarrow> json \<Rightarrow> uuid \<Rightarrow> 'a bill_db_scheme \<Rightarrow> 'a bill_db_scheme res" where
  "activate_tenant env data metadata customer_code tenant_id db =
     (let tier = charge_tier (dict_get metadata ''tier''); reference = dict_get (as_dict data) ''reference'' in
      bind_res (scalar_one_or_none (\<lambda>s. ts_tenant_id s = tenant_id) (bd_subscriptions db)) (\<lambda>old.
      bind_res (charged_subscription env data metadata customer_code
          (case old of Some s \<Rightarrow> s | None \<Rightarrow> new_subscription (bd_next_id db) tenant_id ''free'')) (\<lambda>(s, amount, fx_rate).
      bind_res (store_charged env (tier \<noteq> None) old s db) (\<lambda>db1.
      bind_res (case tier of None \<Rightarrow> Inr db1 | Some t \<Rightarrow> sync_tenant_plan tenant_id (Tier t) db1) (\<lambda>db2.
        billing_audit webhook_audit_recoverable env tenant_id (if json_truthy reference then Some (py_str reference) else None)
          (audit_event ''billing.payment_received'' (uuid_text (ts_id s)) (charge_details data metadata customer_code s amount fx_rate)) db2)))))"

definition handle_charge_success :: "bill_env \<Rightarrow> json \<Rightarrow> 'a bill_db_scheme \<Rightarrow> 'a bill_db_scheme res" where
  "handle_charge_success env data db =
     bind_res (charge_metadata env data) (\<lambda>metadata.
     bind_res (attr_get metadata ''tenant_id'') (\<lambda>tenant_id_str.
     bind_res (attr_get_obj data ''customer'') (\<lambda>customer.
     bind_res (attr_get customer ''customer_code'') (\<lambda>customer_code.
     bind_res (charge_tenant env tenant_id_str (dict_get (as_dict customer) ''email'') db) (\<lambda>tenant_id.
       case tenant_id of
         None \<Rightarrow> Inr db
       | Some t \<Rightarrow> activate_tenant env data (as_dict metadata) customer_code t db)))))"

subsection \<open>Failed invoices\<close>

definition from_result :: "'a \<Rightarrow> 'a res \<Rightarrow> unit res \<times> 'a" where
  "from_result db r = (case r of Inl e \<Rightarrow> (Inl e, db) | Inr db' \<Rightarrow> (Inr (), db'))"

definition invoice_audit :: "bill_env \<Rightarrow> tenant_subscription \<Rightarrow> json \<Rightarrow> json \<Rightarrow> json \<Rightarrow> 'a bill_db_scheme \<Rightarrow> 'a bill_db_scheme res" where
  "invoice_audit env s invoice_code subscription_code customer_code db =
     billing_audit webhook_audit_recoverable env (ts_tenant_id s) (Some (first_truthy [invoice_code, subscription_code]))
       ((audit_event ''billing.payment_failed'' (uuid_text (ts_id s))
          [(''provider'', JStr ''paystack''), (''event'', JStr ''invoice.payment_failed''), (''invoice_code'', invoice_code),
           (''subscription_code'', subscription_code), (''customer_code'', customer_code)])
        \<lparr>aq_success := False, aq_error_message := Some ''invoice.payment_failed''\<rparr>) db"

definition handle_invoice_failed :: "bill_env \<Rightarrow> json \<Rightarrow> 'a bill_db_scheme \<Rightarrow> unit res \<times> 'a bill_db_scheme" where
  "handle_invoice_failed env data db =
     (case bind_res (attr_get_obj data ''customer'') (\<lambda>customer.
         bind_res (attr_get customer ''customer_code'') (\<lambda>customer_code.
           let subscription_code = dict_get (as_dict data) ''subscription_code'' in
           if \<not> json_truthy subscription_code then Inr (customer_code, None)
           else bind_res (text_column subscription_code) (\<lambda>code.
             bind_res (scalar_one_or_none (\<lambda>s. ts_paystack_subscription_code s = code) (bd_subscriptions db)) (\<lambda>found.
               Inr (customer_code, found))))) of
        Inl e \<Rightarrow> (Inl e, db)
      | Inr (customer_code, None) \<Rightarrow> (Inr (), db)
      | Inr (customer_code, Some s) \<Rightarrow>
          (case close_session (process_failed_payment env (ts_id s) True (db, db)) of
             (Inl e, db1) \<Rightarrow> (Inl e, db1)
           | (Inr _, db1) \<Rightarrow>
               from_result db1 (invoice_audit env s (dict_get (as_dict data) ''invoice_code'')
                 (dict_get (as_dict data) ''subscription_code'') customer_code db1)))"

subsection \<open>Dispatch\<close>

definition known_events :: "string list" where
  "known_events = [''subscription.create'', ''subscription.disable'', ''charge.success'', ''invoice.payment_failed'']"

definition webhook_event :: "bill_env \<Rightarrow> string \<Rightarrow> json \<Rightarrow> 'a bill_db_scheme \<Rightarrow> unit res \<times> 'a bill_db_scheme" where
  "webhook_event env event data db =
     (if event = ''subscription.create'' then from_result db (handle_subscription_create env data db)
      else if event = ''charge.success'' then from_result db (handle_charge_success env data db)
      else if event = ''subscription.disable'' then from_result db (handle_subscription_disable env data db)
      else if event = ''invoice.payment_failed'' then handle_invoice_failed env data db
      else (Inr (), db))"

text \<open>The handler of a request that is processed at once\<close>

definition handle :: "bill_env \<Rightarrow> string \<Rightarrow> string \<Rightarrow> string \<Rightarrow> 'a bill_db_scheme \<Rightarrow> dict res \<times> 'a bill_db_scheme" where
  "handle env content_type payload signature db =
     (if \<not> contains ''application/json'' (lower content_type)
      then (Inl (HTTPException 400 ''Unsupported media type: expected application/json''), db)
      else case verify_signature env payload signature of
        Inl e \<Rightarrow> (Inl e, db)
      | Inr False \<Rightarrow> (Inl (HTTPException 401 ''Invalid signature''), db)
      | Inr True \<Rightarrow>
          (case be_loads env payload of
             Inl (ValueError _) \<Rightarrow> (Inl (HTTPException 400 ''Invalid JSON payload''), db)
           | Inl e \<Rightarrow> (Inl e, db)
           | Inr event \<Rightarrow>
               (case bind_res (attr_get event ''event'') (\<lambda>event_type.
                   case event_type of
                     JObj _ \<Rightarrow> Inl (TypeError (''unhashable type: '' @ repr_str ''dict''))
                   | JList _ \<Rightarrow> Inl (TypeError (''unhashable type: '' @ repr_str ''list''))
                   | _ \<Rightarrow> Inr event_type) of
                  Inl e \<Rightarrow> (Inl e, db)
                | Inr event_type \<Rightarrow>
                    (case webhook_event env (case event_type of JStr t \<Rightarrow> t | _ \<Rightarrow> '''')
                        (dict_get_default (as_dict event) ''data'' (JObj [])) db of
                       (Inl e, db1) \<Rightarrow> (Inl e, db1)
                     | (Inr _, db1) \<Rightarrow> (Inr [(''status'', JStr ''success'')], db1)))))"

subsection \<open>Durable storage\<close>

definition webhook_max_attempts :: int where
  "webhook_max_attempts = 5"

definition generate_idempotency_key :: "bill_env \<Rightarrow> string \<Rightarrow> string \<Rightarrow> string \<Rightarrow> string" where
  "generate_idempotency_key env provider event_type reference =
     take 32 (be_sha256 env (provider @ '':'' @ event_type @ '':'' @ reference))"

definition usable_identifiers :: "json list \<Rightarrow> string list" where
  "usable_identifiers vs = filter (\<lambda>s. s \<noteq> '''') (map (\<lambda>v. strip (py_str v)) (filter (\<lambda>v. v \<noteq> JNull) vs))"

definition resolve_reference :: "bill_env \<Rightarrow> dict \<Rightarrow> json \<Rightarrow> string" where
  "resolve_reference env payload reference =
     (let explicit_ref = (if json_truthy reference then strip (py_str reference) else '''');
          native = (case dict_get_default payload ''data'' (JObj []) of
              JObj d \<Rightarrow> [dict_get d ''reference'', dict_get d ''id''] | _ \<Rightarrow> [])
            @ [dict_get payload ''id'', dict_get payload ''event_id''] in
      if explicit_ref \<noteq> '''' then explicit_ref
      else (case usable_identifiers native of
          r # _ \<Rightarrow> r
        | [] \<Rightarrow> ''payload_sha256:'' @ take 24 (be_sha256 env (json_dumps (JObj payload)))))"

definition json_of_text :: "string option \<Rightarrow> json" where
  "json_of_text s = (case s of None \<Rightarrow> JNull | Some t \<Rightarrow> JStr t)"

definition webhook_key :: "string \<Rightarrow> string \<Rightarrow> string" where
  "webhook_key provider idempotency_key = ''webhook:'' @ provider @ '':'' @ idempotency_key"

definition store_webhook ::
  "bill_env \<Rightarrow> string \<Rightarrow> json \<Rightarrow> dict \<Rightarrow> json \<Rightarrow> string option \<Rightarrow> string option \<Rightarrow> 'a bill_db_scheme
    \<Rightarrow> background_job option res \<times> 'a bill_db_scheme" where
  "store_webhook env provider event_type payload reference signature raw_payload db =
     (let ref = resolve_reference env payload reference;
          key = generate_idempotency_key env provider (py_str event_type) ref;
          job_payload = [(''provider'', Json (JStr provider)), (''event_type'', Json event_type), (''payload'', Json (JObj payload)),
            (''idempotency_key'', Json (JStr key)), (''reference'', Json (JStr ref)), (''signature'', Json (json_of_text signature)),
            (''raw_payload'', Json (json_of_text raw_payload))] in
      case enqueue_job db ''webhook_retry'' None (Some job_payload) None webhook_max_attempts (Some (webhook_key provider key)) (be_now env) of
        (Inl e, db1) \<Rightarrow> (Inl e, db1)
      | (Inr (job, created), db1) \<Rightarrow> (Inr (if created then Some job else None), db1))"

text \<open>\<open>payload["name"].as_string()\<close> of a stored payload\<close>

definition payload_text :: "background_job \<Rightarrow> string \<Rightarrow> string option" where
  "payload_text j key =
     (case bj_payload j of None \<Rightarrow> None
      | Some d \<Rightarrow> (case dict_get d key of JNull \<Rightarrow> None | v \<Rightarrow> Some (py_str v)))"

definition is_duplicate :: "string \<Rightarrow> 'a bill_db_scheme \<Rightarrow> bool res" where
  "is_duplicate idempotency_key db =
     bind_res (scalar_one_or_none (\<lambda>j. bj_job_type j = ''webhook_retry'' \<and> payload_text j ''idempotency_key'' = Some idempotency_key
         \<and> bj_status j = JOB_COMPLETED) (jq_jobs db)) (\<lambda>found. Inr (found \<noteq> None))"

definition inline_processed :: "dict \<Rightarrow> instant \<Rightarrow> background_job \<Rightarrow> background_job" where
  "inline_processed result now j = j\<lparr>bj_status := JOB_COMPLETED, bj_completed_at := Some now, bj_error_message := None,
     bj_result := JObj (if result = [] then [(''status'', JStr ''success''), (''mode'', JStr ''inline'')] else result),
     bj_attempts := bj_attempts j + 1\<rparr>"

definition mark_inline_processed :: "bill_env \<Rightarrow> uuid \<Rightarrow> dict \<Rightarrow> 'a bill_db_scheme \<Rightarrow> 'a bill_db_scheme" where
  "mark_inline_processed env job_id result db = write_job job_id (inline_processed result (be_now env)) db"

definition get_pending_webhooks :: "string option \<Rightarrow> 'a bill_db_scheme \<Rightarrow> background_job list" where
  "get_pending_webhooks provider db =
     sort_key bj_scheduled_for (filter (\<lambda>j. bj_job_type j = ''webhook_retry'' \<and> bj_status j = JOB_PENDING
       \<and> (case provider of None \<Rightarrow> True | Some p \<Rightarrow> p = '''' \<or> payload_text j ''provider'' = Some p)) (jq_jobs db))"

subsection \<open>Processing a stored webhook\<close>

fun stored_payload_recoverable :: "err \<Rightarrow> bool" where
  "stored_payload_recoverable (ValueError _) = True"
| "stored_payload_recoverable (TypeError _) = True"
| "stored_payload_recoverable (AttributeError _) = True"
| "stored_payload_recoverable _ = False"

definition webhook_error :: "string \<Rightarrow> dict" where
  "webhook_error reason = [(''status'', JStr ''error''), (''reason'', JStr reason)]"

text \<open>The event and its data, or the answer with which the job ends without acting\<close>

definition stored_event :: "bill_env \<Rightarrow> dict \<Rightarrow> (dict + json \<times> json) res" where
  "stored_event env payload =
     (let raw = dict_get payload ''raw_payload''; signature = dict_get payload ''signature'' in
      if \<not> json_truthy raw \<or> \<not> json_truthy signature then Inr (Inl (webhook_error ''missing_signature_material''))
      else case (raw, signature) of
        (JStr raw_payload, JStr sig) \<Rightarrow>
          (case verify_signature env raw_payload sig of
             Inl e \<Rightarrow> if stored_payload_recoverable e then Inr (Inl (webhook_error ''invalid_raw_payload'')) else Inl e
           | Inr False \<Rightarrow> Inr (Inl (webhook_error ''invalid_stored_signature''))
           | Inr True \<Rightarrow>
               (case be_loads env raw_payload of
                  Inl e \<Rightarrow> if stored_payload_recoverable e then Inr (Inl (webhook_error ''invalid_raw_payload'')) else Inl e
                | Inr (JObj parsed) \<Rightarrow>
                    Inr (Inr (dict_get_default parsed ''event'' (dict_get payload ''event_type''),
                      dict_get_default parsed ''data'' (JObj [])))
                | Inr _ \<Rightarrow> Inr (Inl (webhook_error ''invalid_raw_payload''))))
      | (JStr _, _) \<Rightarrow>
          Inr (Inl (webhook_error (if be_secret_key env = '''' then ''invalid_stored_signature'' else ''invalid_raw_payload'')))
      | _ \<Rightarrow> Inr (Inl (webhook_error ''invalid_raw_payload'')))"

definition process_paystack_webhook :: "bill_env \<Rightarrow> background_job \<Rightarrow> 'a bill_db_scheme \<Rightarrow> dict res \<times> 'a bill_db_scheme" where
  "process_paystack_webhook env job db =
     (case bj_payload job of
        None \<Rightarrow> (Inr (webhook_error ''Missing payload''), db)
      | Some payload \<Rightarrow>
          if payload = [] then (Inr (webhook_error ''Missing payload''), db)
          else (case stored_event env payload of
            Inl e \<Rightarrow> (Inl e, db)
          | Inr (Inl answer) \<Rightarrow> (Inr answer, db)
          | Inr (Inr (event, data)) \<Rightarrow>
              (case event of
                 JStr t \<Rightarrow>
                   if t \<in> set known_events
                   then (case webhook_event env t data db of
                       (Inl e, db1) \<Rightarrow> (Inl e, db1)
                     | (Inr _, db1) \<Rightarrow> (Inr [(''status'', JStr ''processed''), (''event'', event)], db1))
                   else (Inr [(''status'', JStr ''ignored''), (''event'', event), (''reason'', JStr (''Unknown event type: '' @ t))], db)
               | _ \<Rightarrow> (Inr [(''status'', JStr ''ignored''), (''event'', event), (''reason'', JStr (''Unknown event type: '' @ py_str event))], db))))"

subsection \<open>The endpoint\<close>

record webhook_request =
  wr_client_ip :: string
  wr_content_type :: string
  wr_signature :: string
  wr_body :: string

text \<open>The byte sequences that are UTF-8\<close>

definition cont_byte :: "nat \<Rightarrow> nat \<Rightarrow> nat \<Rightarrow> bool" where
  "cont_byte lo hi b \<longleftrightarrow> lo \<le> b \<and> b \<le> hi"

fun utf8_bytes :: "nat list \<Rightarrow> bool" where
  "utf8_bytes [] = True"
| "utf8_bytes (a # bs) =
     (if a < 128 then utf8_bytes bs
      else case bs of
        [] \<Rightarrow> False
      | b # cs \<Rightarrow>
          if 194 \<le> a \<and> a \<le> 223 then cont_byte 128 191 b \<and> utf8_bytes cs
          else (case cs of
            [] \<Rightarrow> False
          | c # ds \<Rightarrow>
              if 224 \<le> a \<and> a \<le> 239
              then cont_byte (if a = 224 then 160 else 128) (if a = 237 then 159 else 191) b \<and> cont_byte 128 191 c \<and> utf8_bytes ds
              else (case ds of
                [] \<Rightarrow> False
              | d # es \<Rightarrow>
                  240 \<le> a \<and> a \<le> 244 \<and> cont_byte (if a = 240 then 144 else 128) (if a = 244 then 143 else 191) b
                  \<and> cont_byte 128 191 c \<and> cont_byte 128 191 d \<and> utf8_bytes es)))"

definition allowed_ips :: "bill_env \<Rightarrow> string list" where
  "allowed_ips env = filter (\<lambda>s. s \<noteq> '''') (map strip (be_allowed_ips env))"

definition webhook_guard :: "bill_env \<Rightarrow> webhook_request \<Rightarrow> unit res" where
  "webhook_guard env q =
     (if (be_environment env = ''production'' \<or> be_environment env = ''staging'') \<and> wr_client_ip q \<notin> set (allowed_ips env)
      then Inl (HTTPException 403 ''Unauthorized origin IP'')
      else if \<not> contains ''application/json'' (wr_content_type q)
      then Inl (HTTPException 415 ''Unsupported Media Type: expected application/json'')
      else if wr_signature q = '''' then Inl (HTTPException 401 ''Missing signature'')
      else bind_res (verify_signature env (wr_body q) (wr_signature q)) (\<lambda>valid.
        if valid then Inr () else Inl (HTTPException 401 ''Invalid signature'')))"

definition webhook_parts :: "bill_env \<Rightarrow> webhook_request \<Rightarrow> (dict \<times> json \<times> json) res" where
  "webhook_parts env q =
     bind_res (be_loads env (wr_body q)) (\<lambda>data.
     bind_res (attr_get data ''event'') (\<lambda>_.
     bind_res (attr_get_obj data ''data'') (\<lambda>inner.
     bind_res (attr_get inner ''reference'') (\<lambda>_.
       if \<not> utf8_bytes (map of_char (wr_body q)) then Inl (HTTPException 400 ''Invalid webhook payload encoding'')
       else Inr (as_dict data, dict_get_default (as_dict data) ''event'' (JStr ''unknown''),
         dict_get_default (as_dict inner) ''reference'' (JStr ''''))))))"

definition receive_webhook :: "bill_env \<Rightarrow> webhook_request \<Rightarrow> 'a bill_db_scheme \<Rightarrow> dict res \<times> 'a bill_db_scheme" where
  "receive_webhook env q db =
     (case bind_res (webhook_guard env q) (\<lambda>_. webhook_parts env q) of
        Inl e \<Rightarrow> (Inl e, db)
      | Inr (data, event_type, reference) \<Rightarrow>
          (case store_webhook env ''paystack'' event_type data reference (Some (wr_signature q)) (Some (wr_body q)) db of
             (Inl e, db1) \<Rightarrow> (Inl e, db1)
           | (Inr None, db1) \<Rightarrow> (Inr [(''status'', JStr ''duplicate''), (''message'', JStr ''Already queued or processed'')], db1)
           | (Inr (Some job), db1) \<Rightarrow>
               (Inr [(''status'', JStr ''accepted''), (''job_id'', JStr (uuid_text (bj_id job))), (''event_type'', event_type),
                 (''delivery_mode'', JStr ''async_durable'')], db1)))"

end
