(* ===== verification/Bill_Handlers.thy ===== *)
theory Bill_Handlers
  imports Bill_Webhook Job_Workers
begin

text \<open>
  Billing in the job queue: the sweep that enqueues renewals (src/app/tasks/scheduler_sweep_ops.py) and the
  handlers of renewals, dunning retries and webhooks (handlers/billing.py, dunning.py and notifications.py
  under src/app/modules/governance/domain/jobs/). A handler runs on a session of its own. The delivery of a
  webhook of another provider, which leaves the database alone, is an argument; the registry has the
  three job types of billing.
\<close>

subsection \<open>The renewal sweep\<close>

definition renewal_due :: "instant \<Rightarrow> (uuid \<Rightarrow> bool) \<Rightarrow> tenant_subscription \<Rightarrow> bool" where
  "renewal_due now locked s \<longleftrightarrow>
     ts_status s = ''active'' \<and> (case ts_next_payment_date s of None \<Rightarrow> False | Some t \<Rightarrow> t \<le> now)
     \<and> ts_paystack_auth_code s \<noteq> None \<and> \<not> locked (ts_id s)"

definition renewal_key :: "instant \<Rightarrow> tenant_subscription \<Rightarrow> string" where
  "renewal_key now s = uuid_text (ts_tenant_id s) @ '':recurring_billing:'' @ take 10 (isoformat now)"

definition enqueue_renewal :: "instant \<Rightarrow> tenant_subscription \<Rightarrow> nat \<times> 'a bill_db_scheme \<Rightarrow> nat \<times> 'a bill_db_scheme" where
  "enqueue_renewal now s acc =
     (case insert_job (snd acc) ''recurring_billing'' (Some (ts_tenant_id s)) (Some [(''subscription_id'', JStr (uuid_text (ts_id s)))])
         (Some now) 3 (Some (renewal_key now s)) now of
        (Inr (_, True), db) \<Rightarrow> (fst acc + 1, db)
      | (_, db) \<Rightarrow> (fst acc, db))"

definition billing_sweep :: "instant \<Rightarrow> (uuid \<Rightarrow> bool) \<Rightarrow> 'a bill_db_scheme \<Rightarrow> nat \<times> 'a bill_db_scheme" where
  "billing_sweep now locked db = fold (enqueue_renewal now) (filter (renewal_due now locked) (bd_subscriptions db)) (0, db)"

subsection \<open>Handlers\<close>

definition to_outcome :: "dict res \<times> 'a \<Rightarrow> handler_outcome \<times> 'a" where
  "to_outcome r = (case fst r of Inl e \<Rightarrow> Raised e | Inr d \<Rightarrow> Returned (JObj d), snd r)"

definition payload_of :: "background_job \<Rightarrow> dict" where
  "payload_of job = (case bj_payload job of None \<Rightarrow> [] | Some d \<Rightarrow> d)"

definition uuid_argument :: "json \<Rightarrow> uuid res" where
  "uuid_argument v =
     (case v of
        JStr s \<Rightarrow> (case parse_uuid s of Some i \<Rightarrow> Inr i | None \<Rightarrow> Inl (ValueError ''badly formed hexadecimal UUID string''))
      | _ \<Rightarrow> Inl (AttributeError (repr_str (python_type_name v) @ '' object has no attribute '' @ repr_str ''replace'')))"

definition charge_failed :: err where
  "charge_failed = OtherError ''Paystack charge failed or authorization missing''"

definition renewal_answer :: "bill_env \<Rightarrow> tenant_subscription \<Rightarrow> 'a bill_session \<Rightarrow> dict res \<times> 'a bill_session" where
  "renewal_answer env s ss =
     (case charge_renewal env s ss of
        (Inl e, ss1) \<Rightarrow> (Inl e, ss1)
      | (Inr False, ss1) \<Rightarrow> (Inl charge_failed, ss1)
      | (Inr True, ss1) \<Rightarrow>
          (Inr [(''status'', JStr ''completed''), (''amount_billed_usd'', JDec 2 (case map_of (bd_plans (snd ss1)) (ts_tier s) of
             Some price \<Rightarrow> price | None \<Rightarrow> 0))], ss1))"

definition recurring_billing :: "bill_env \<Rightarrow> background_job \<Rightarrow> 'a bill_db_scheme \<Rightarrow> dict res \<times> 'a bill_db_scheme" where
  "recurring_billing env job db =
     (let sub_id = dict_get (payload_of job) ''subscription_id'' in
      if \<not> json_truthy sub_id then (Inl (ValueError ''subscription_id required for recurring_billing''), db)
      else case uuid_argument sub_id of
        Inl e \<Rightarrow> (Inl e, db)
      | Inr i \<Rightarrow>
          (case first_row (\<lambda>s. ts_id s = i \<and> Some (ts_tenant_id s) = bj_tenant_id job) (bd_subscriptions db) of
             None \<Rightarrow> (Inr [(''status'', JStr ''failed''), (''reason'', JStr ''subscription_not_found'')], db)
           | Some s \<Rightarrow>
               if ts_status s \<noteq> ''active''
               then (Inr [(''status'', JStr ''skipped''), (''reason'', JStr (''subscription_status_is_'' @ ts_status s))], db)
               else (case client_ready env of
                   Inl e \<Rightarrow> (Inl e, db)
                 | Inr _ \<Rightarrow> close_session (renewal_answer env s (db, db)))))"

definition dunning_retry :: "bill_env \<Rightarrow> background_job \<Rightarrow> 'a bill_db_scheme \<Rightarrow> dict res \<times> 'a bill_db_scheme" where
  "dunning_retry env job db =
     (let payload = payload_of job; sub_id = dict_get payload ''subscription_id'' in
      if \<not> json_truthy sub_id then (Inl (ValueError ''subscription_id required for dunning''), db)
      else case uuid_argument sub_id of
        Inl e \<Rightarrow> (Inl e, db)
      | Inr i \<Rightarrow>
          (case close_session (retry_payment env i (db, db)) of
             (Inl e, db1) \<Rightarrow> (Inl e, db1)
           | (Inr result, db1) \<Rightarrow>
               (Inr (dict_merge [(''status'', dict_get result ''status''), (''attempt'', dict_get_default payload ''attempt'' (JInt 1))] result), db1)))"

definition webhook_retry :: "bill_env \<Rightarrow> (dict \<Rightarrow> dict res) \<Rightarrow> background_job \<Rightarrow> 'a bill_db_scheme \<Rightarrow> dict res \<times> 'a bill_db_scheme" where
  "webhook_retry env deliver job db =
     (if dict_get_default (payload_of job) ''provider'' (JStr ''generic'') = JStr ''paystack''
      then process_paystack_webhook env job db
      else (deliver (payload_of job), db))"

definition handler_registry ::
  "bill_env \<Rightarrow> (dict \<Rightarrow> dict res) \<Rightarrow> string
    \<Rightarrow> (background_job \<Rightarrow> 'a bill_db_scheme \<Rightarrow> handler_outcome \<times> 'a bill_db_scheme) option" where
  "handler_registry env deliver job_type =
     (if job_type = ''recurring_billing'' then Some (\<lambda>job db. to_outcome (recurring_billing env job db))
      else if job_type = ''dunning'' then Some (\<lambda>job db. to_outcome (dunning_retry env job db))
      else if job_type = ''webhook_retry'' then Some (\<lambda>job db. to_outcome (webhook_retry env deliver job db))
      else None)"

end
