(* ===== verification/Bill_Machine.thy ===== *)
theory Bill_Machine
  imports Bill_Handlers Base_Machine
begin

text \<open>
  What billing writes on behalf of a tenant, as a transition system: its subscription, its plan, its
  audit entries and the caches. The steps keep the tables well formed and leave the rows of other
  tenants and the job queue alone, and every handler is a run of such steps.
\<close>

definition subscription_ok :: "tenant_subscription \<Rightarrow> bool" where
  "subscription_ok s \<longleftrightarrow>
     ts_status s \<in> subscription_status_value ` {SUB_ACTIVE, SUB_NON_RENEWING, SUB_ATTENTION, SUB_COMPLETED, SUB_CANCELLED}
     \<and> tier_of_value (ts_tier s) \<noteq> None"

definition bill_inv :: "'a bill_db_scheme \<Rightarrow> bool" where
  "bill_inv db \<longleftrightarrow>
     distinct (map ts_id (bd_subscriptions db)) \<and> distinct (map ts_tenant_id (bd_subscriptions db))
     \<and> (\<forall>s \<in> set (bd_subscriptions db). ts_id s < bd_next_id db \<and> ts_tenant_id s \<in> set (map tn_id (bd_tenants db)) \<and> subscription_ok s)
     \<and> distinct (map tn_id (bd_tenants db))"

definition same_rows :: "'a bill_db_scheme \<Rightarrow> 'a bill_db_scheme \<Rightarrow> bool" where
  "same_rows db db' \<longleftrightarrow>
     bd_subscriptions db' = bd_subscriptions db \<and> bd_tenants db' = bd_tenants db \<and> bd_users db' = bd_users db
     \<and> bd_plans db' = bd_plans db \<and> bd_audit db' = bd_audit db \<and> bd_next_id db' = bd_next_id db
     \<and> jq_jobs db' = jq_jobs db \<and> jq_next_id db' = jq_next_id db"

inductive bill_step :: "uuid \<Rightarrow> 'a bill_db_scheme \<Rightarrow> 'a bill_db_scheme \<Rightarrow> bool" for t where
  subscription: "r \<in> set (bd_subscriptions db) \<Longrightarrow> ts_id s = ts_id r \<Longrightarrow> ts_tenant_id r = t \<Longrightarrow> ts_tenant_id s = t
    \<Longrightarrow> (subscription_ok r \<Longrightarrow> subscription_ok s) \<Longrightarrow> bill_step t db (write_subscription s db)"
| first_subscription: "\<forall>r \<in> set (bd_subscriptions db). ts_tenant_id r \<noteq> t \<Longrightarrow> ts_id s = bd_next_id db \<Longrightarrow> ts_tenant_id s = t
    \<Longrightarrow> t \<in> set (map tn_id (bd_tenants db)) \<Longrightarrow> subscription_ok s
    \<Longrightarrow> bill_step t db (db\<lparr>bd_subscriptions := bd_subscriptions db @ [s], bd_next_id := bd_next_id db + 1\<rparr>)"
| plan: "sync_tenant_plan t tier db = Inr db' \<Longrightarrow> bill_step t db db'"
| audit: "al_tenant_id e = t \<Longrightarrow> bill_step t db (db\<lparr>bd_audit := bd_audit db @ [e]\<rparr>)"
| caches: "same_rows db db' \<Longrightarrow> bill_step t db db'"

text \<open>Nothing but the rows of a tenant has changed.\<close>

definition only_tenant :: "uuid \<Rightarrow> 'a bill_db_scheme \<Rightarrow> 'a bill_db_scheme \<Rightarrow> bool" where
  "only_tenant t db db' \<longleftrightarrow>
     filter (\<lambda>s. ts_tenant_id s \<noteq> t) (bd_subscriptions db') = filter (\<lambda>s. ts_tenant_id s \<noteq> t) (bd_subscriptions db)
     \<and> filter (\<lambda>n. tn_id n \<noteq> t) (bd_tenants db') = filter (\<lambda>n. tn_id n \<noteq> t) (bd_tenants db)
     \<and> map tn_id (bd_tenants db') = map tn_id (bd_tenants db)
     \<and> prefix (map (\<lambda>s. (ts_id s, ts_tenant_id s)) (bd_subscriptions db)) (map (\<lambda>s. (ts_id s, ts_tenant_id s)) (bd_subscriptions db'))
     \<and> (\<exists>es. bd_audit db' = bd_audit db @ es \<and> (\<forall>e \<in> set es. al_tenant_id e = t))
     \<and> bd_users db' = bd_users db \<and> bd_plans db' = bd_plans db \<and> jq_jobs db' = jq_jobs db \<and> jq_next_id db' = jq_next_id db"

lemma write_subscription_fields [simp]:
  "bd_tenants (write_subscription s db) = bd_tenants db" "bd_users (write_subscription s db) = bd_users db"
  "bd_plans (write_subscription s db) = bd_plans db" "bd_audit (write_subscription s db) = bd_audit db"
  "bd_next_id (write_subscription s db) = bd_next_id db" "jq_jobs (write_subscription s db) = jq_jobs db"
  "jq_next_id (write_subscription s db) = jq_next_id db" "bd_fx (write_subscription s db) = bd_fx db"
  "bd_outbox (write_subscription s db) = bd_outbox db" "bd_tier_cache (write_subscription s db) = bd_tier_cache db"
  "bd_subscriptions (write_subscription s db) = update_where (\<lambda>r. ts_id r = ts_id s) (\<lambda>_. s) (bd_subscriptions db)"
  by (simp_all add: write_subscription_def)

lemma sync_tenant_plan_Inr:
  assumes "sync_tenant_plan t tier db = Inr db'"
  obtains plan where "normalize_pricing_tier_value tier = Inr plan" "count_where (\<lambda>n. tn_id n = t) (bd_tenants db) = 1"
    "db' = db\<lparr>bd_tenants := update_where (\<lambda>n. tn_id n = t) (\<lambda>n. n\<lparr>tn_plan := plan\<rparr>) (bd_tenants db),
       bd_tier_cache := clear_tenant_tier_cache (Some (uuid_text t)) (bd_tier_cache db)\<rparr>"
  using assms by (auto simp: sync_tenant_plan_def Let_def split: if_splits)

lemma unique_row: "distinct (map k rows) \<Longrightarrow> r \<in> set rows \<Longrightarrow> q \<in> set rows \<Longrightarrow> k r = k q \<Longrightarrow> r = q"
  by (metis inj_on_def distinct_map)

lemma filter_update_other:
  "(\<And>r. r \<in> set rows \<Longrightarrow> p r \<Longrightarrow> \<not> q r \<and> \<not> q (f r)) \<Longrightarrow> filter q (update_where p f rows) = filter q rows"
  by (induction rows) (auto simp: update_where_def)

lemma map_update_same:
  "(\<And>r. r \<in> set rows \<Longrightarrow> p r \<Longrightarrow> g (f r) = g r) \<Longrightarrow> map g (update_where p f rows) = map g rows"
  by (auto simp: update_where_def)

lemma bill_step_inv: "bill_step t db db' \<Longrightarrow> bill_inv db \<Longrightarrow> bill_inv db'"
proof (induction rule: bill_step.induct)
  case (subscription r db s)
  have same: "q = r" if "q \<in> set (bd_subscriptions db)" "ts_id q = ts_id r" for q
    using unique_row [of ts_id "bd_subscriptions db" q r] that subscription by (simp add: bill_inv_def)
  have "map ts_id (update_where (\<lambda>r. ts_id r = ts_id s) (\<lambda>_. s) (bd_subscriptions db)) = map ts_id (bd_subscriptions db)"
    by (rule map_update_same) simp
  moreover have "map ts_tenant_id (update_where (\<lambda>r. ts_id r = ts_id s) (\<lambda>_. s) (bd_subscriptions db)) = map ts_tenant_id (bd_subscriptions db)"
    using subscription same by (intro map_update_same) auto
  ultimately show ?case using subscription same by (auto simp: bill_inv_def set_update_where)
next
  case (first_subscription db s)
  then show ?case by (auto simp: bill_inv_def less_Suc_eq)
next
  case (plan tier db db')
  from plan(1) obtain p where "db' = db\<lparr>bd_tenants := update_where (\<lambda>n. tn_id n = t) (\<lambda>n. n\<lparr>tn_plan := p\<rparr>) (bd_tenants db),
      bd_tier_cache := clear_tenant_tier_cache (Some (uuid_text t)) (bd_tier_cache db)\<rparr>" by (rule sync_tenant_plan_Inr)
  moreover have "map tn_id (update_where (\<lambda>n. tn_id n = t) (\<lambda>n. n\<lparr>tn_plan := p\<rparr>) (bd_tenants db)) = map tn_id (bd_tenants db)"
    by (rule map_update_where) simp
  ultimately show ?case using plan(2) unfolding bill_inv_def by simp
qed (auto simp: bill_inv_def same_rows_def)

lemma bill_step_only: "bill_step t db db' \<Longrightarrow> bill_inv db \<Longrightarrow> only_tenant t db db'"
proof (induction rule: bill_step.induct)
  case (subscription r db s)
  have same: "q = r" if "q \<in> set (bd_subscriptions db)" "ts_id q = ts_id r" for q
    using unique_row [of ts_id "bd_subscriptions db" q r] that subscription by (simp add: bill_inv_def)
  have "filter (\<lambda>s. ts_tenant_id s \<noteq> t) (update_where (\<lambda>r. ts_id r = ts_id s) (\<lambda>_. s) (bd_subscriptions db))
      = filter (\<lambda>s. ts_tenant_id s \<noteq> t) (bd_subscriptions db)"
    using subscription same by (intro filter_update_other) auto
  moreover have "map (\<lambda>s. (ts_id s, ts_tenant_id s)) (update_where (\<lambda>r. ts_id r = ts_id s) (\<lambda>_. s) (bd_subscriptions db))
      = map (\<lambda>s. (ts_id s, ts_tenant_id s)) (bd_subscriptions db)"
    using subscription same by (intro map_update_same) auto
  ultimately show ?case by (simp add: only_tenant_def)
next
  case (plan tier db db')
  from plan(1) obtain p where "db' = db\<lparr>bd_tenants := update_where (\<lambda>n. tn_id n = t) (\<lambda>n. n\<lparr>tn_plan := p\<rparr>) (bd_tenants db),
      bd_tier_cache := clear_tenant_tier_cache (Some (uuid_text t)) (bd_tier_cache db)\<rparr>" by (rule sync_tenant_plan_Inr)
  then show ?case by (auto simp: only_tenant_def map_update_where filter_update_other)
qed (auto simp: only_tenant_def same_rows_def)

interpretation billing: monotone_machine "bill_step t" bill_inv "only_tenant t" for t
proof unfold_locales
  fix db db' db'' :: "'a bill_db_scheme"
  show "only_tenant t db db" by (simp add: only_tenant_def)
  show "only_tenant t db db''" if "only_tenant t db db'" "only_tenant t db' db''"
    using that by (auto simp: only_tenant_def intro: prefix_order.trans)
qed (auto intro: bill_step_inv bill_step_only)

subsection \<open>Sessions\<close>

definition session_run :: "uuid \<Rightarrow> 'a bill_db_scheme \<Rightarrow> 'a bill_session \<Rightarrow> bool" where
  "session_run t db ss \<longleftrightarrow> (bill_step t)\<^sup>*\<^sup>* db (fst ss) \<and> (bill_step t)\<^sup>*\<^sup>* db (snd ss)"

named_theorems session_intros

lemma session_start [session_intros]: "session_run t db (db, db)"
  by (simp add: session_run_def)

lemma session_step: "session_run t db ss \<Longrightarrow> bill_step t (snd ss) d \<Longrightarrow> session_run t db (fst ss, d)"
  by (auto simp: session_run_def)

lemma session_caches: "session_run t db ss \<Longrightarrow> same_rows (snd ss) d \<Longrightarrow> session_run t db (fst ss, d)"
  by (rule session_step) (auto intro: bill_step.caches)

lemma session_commit [session_intros]: "session_run t db ss \<Longrightarrow> session_run t db (commit ss)"
  by (simp add: session_run_def commit_def)

lemma rolled_back_rows: "same_rows base (rolled_back base db)"
  by (simp add: same_rows_def rolled_back_def)

lemma session_rollback [session_intros]: "session_run t db ss \<Longrightarrow> session_run t db (rollback ss)"
  using bill_step.caches [OF rolled_back_rows] by (auto simp: session_run_def rollback_def intro: rtranclp.rtrancl_into_rtrancl)

lemma session_close: "session_run t db (snd r) \<Longrightarrow> close_session r = (out, db') \<Longrightarrow> (bill_step t)\<^sup>*\<^sup>* db db'"
  using session_rollback [of t db "snd r"] by (auto simp: close_session_def session_run_def split: if_splits)

lemma find_subscription_SomeD: "find_subscription i db = Some s \<Longrightarrow> s \<in> set (bd_subscriptions db) \<and> ts_id s = i"
  by (auto simp: find_subscription_def dest: first_row_SomeD)

lemma session_write:
  assumes "session_run t db ss" "r \<in> set (bd_subscriptions (snd ss))" "ts_id s = ts_id r" "ts_tenant_id r = t" "ts_tenant_id s = t"
    "subscription_ok r \<Longrightarrow> subscription_ok s"
  shows "session_run t db (on_session (write_subscription s) ss)"
  using session_step [OF assms(1) bill_step.subscription [OF assms(2-6)]] by (simp add: on_session_def)

abbreviation subscription_keys :: "'a bill_db_scheme \<Rightarrow> (uuid \<times> uuid) set" where
  "subscription_keys db \<equiv> (\<lambda>s. (ts_id s, ts_tenant_id s)) ` set (bd_subscriptions db)"

lemma session_keys: "session_run t db ss \<Longrightarrow> bill_inv db \<Longrightarrow> subscription_keys db \<subseteq> subscription_keys (snd ss)"
proof -
  assume "session_run t db ss" "bill_inv db"
  then have "only_tenant t db (snd ss)" using billing.run_below [of t db "snd ss"] by (simp add: session_run_def)
  then show ?thesis unfolding only_tenant_def using set_mono_prefix by fastforce
qed

lemma session_finds:
  assumes "session_run t db ss" "bill_inv db" "find_subscription i db = Some s"
  shows "\<exists>s'. find_subscription i (snd ss) = Some s'"
proof -
  have "(i, ts_tenant_id s) \<in> subscription_keys (snd ss)"
    using session_keys [OF assms(1,2)] find_subscription_SomeD [OF assms(3)] by blast
  then have "find_subscription i (snd ss) \<noteq> None" by (auto simp: find_subscription_def first_row_None)
  then show ?thesis by simp
qed

lemma session_tenant:
  assumes "session_run t db ss" "bill_inv db" "find_subscription i db = Some s" "ts_tenant_id s = t"
    "find_subscription i (snd ss) = Some s'"
  shows "ts_tenant_id s' = t"
proof -
  have run: "(bill_step t)\<^sup>*\<^sup>* db (snd ss)" using assms(1) by (simp add: session_run_def)
  have inv: "bill_inv (snd ss)" by (rule billing.run_inv [OF run assms(2)])
  have "(i, t) \<in> subscription_keys (snd ss)"
    using session_keys [OF assms(1,2)] find_subscription_SomeD [OF assms(3)] assms(4) by blast
  then obtain q where q: "q \<in> set (bd_subscriptions (snd ss))" "ts_id q = i" "ts_tenant_id q = t" by auto
  have "q = s'"
    using unique_row [of ts_id "bd_subscriptions (snd ss)" q s'] q find_subscription_SomeD [OF assms(5)] inv by (simp add: bill_inv_def)
  with q show ?thesis by simp
qed

subsection \<open>Renewals and dunning\<close>

lemma price_in_fx: "price_in env c usd db = (out, db') \<Longrightarrow> \<exists>fx. db' = db\<lparr>bd_fx := fx\<rparr>"
proof -
  have "\<exists>fx. db = db\<lparr>bd_fx := fx\<rparr>" by (rule exI [of _ "bd_fx db"]) simp
  then show "price_in env c usd db = (out, db') \<Longrightarrow> \<exists>fx. db' = db\<lparr>bd_fx := fx\<rparr>"
    by (auto simp: price_in_def price_in_ngn_def split: if_splits prod.splits sum.splits)
qed

lemma price_in_rows: "price_in env c usd db = (out, db') \<Longrightarrow> same_rows db db'"
  by (auto dest!: price_in_fx simp: same_rows_def)

lemma billing_audit_step: "billing_audit p env t c q db = Inr db' \<Longrightarrow> (bill_step t)\<^sup>=\<^sup>= db db'"
  by (auto simp: billing_audit_def audit_log_def split: option.splits if_splits intro: bill_step.audit)

lemma session_audit: "session_run t db ss \<Longrightarrow> billing_audit p env t c q (snd ss) = Inr d \<Longrightarrow> session_run t db (fst ss, d)"
  by (auto dest!: billing_audit_step intro: session_step)

lemma carry_out_charge_same:
  "carry_out_charge env s email code currency terms = Inr (Some (s', reference)) \<Longrightarrow>
    ts_id s' = ts_id s \<and> ts_tenant_id s' = ts_tenant_id s \<and> ts_status s' = ts_status s \<and> ts_tier s' = ts_tier s"
  by (auto simp: carry_out_charge_def renewed_subscription_def split: option.splits prod.splits)

lemma session_record_renewal:
  "session_run t db ss \<Longrightarrow> ts_tenant_id s = t \<Longrightarrow> record_renewal env s usd terms reference ss = (out, ss') \<Longrightarrow> session_run t db ss'"
  by (auto simp: record_renewal_def split: sum.splits intro: session_audit)

lemma session_charge_renewal:
  assumes run: "session_run t db ss" and row: "s \<in> set (bd_subscriptions (snd ss))" "ts_tenant_id s = t"
    and charge: "charge_renewal env s ss = (out, ss')"
  shows "session_run t db ss'"
proof -
  have fx: "session_run t db (fst ss, d)" if "price_in env c usd (snd ss) = (o1, d)" for c usd o1 d
    by (rule session_caches [OF run price_in_rows [OF that]])
  have charged: "session_run t db ss'" if priced: "price_in env c usd (snd ss) = (o1, d)"
    and charged: "carry_out_charge env s email code c terms = Inr (Some (s', reference))"
    and recorded: "record_renewal env s' usd' terms' reference (commit (fst ss, write_subscription s' d)) = (out, ss')"
    for c usd o1 d email code terms s' reference usd' terms'
  proof -
    note s' = carry_out_charge_same [OF charged]
    have "s \<in> set (bd_subscriptions d)" using price_in_rows [OF priced] row by (simp add: same_rows_def)
    then have "session_run t db (on_session (write_subscription s') (fst ss, d))"
      using s' row by (intro session_write [OF fx [OF priced]]) (auto simp: subscription_ok_def)
    then have "session_run t db (commit (fst ss, write_subscription s' d))" by (auto simp: on_session_def intro: session_commit)
    with recorded s' row(2) show ?thesis by (auto intro: session_record_renewal)
  qed
  show ?thesis
    using charge run fx charged unfolding charge_renewal_def
    by (auto split: option.splits sum.splits prod.splits if_splits)
qed

lemma session_send_mail: "session_run t db ss \<Longrightarrow> send_mail env t' m ss = (out, ss') \<Longrightarrow> session_run t db ss'"
  by (auto simp: send_mail_def on_session_def same_rows_def split: sum.splits option.splits if_splits intro: session_caches)

lemma then_return_session: "then_return a r = (out, ss') \<Longrightarrow> snd r = ss'"
  by (auto simp: then_return_def)

lemma session_mailed:
  "session_run t db ss \<Longrightarrow> then_return a (send_mail env t' m ss) = (out, ss') \<Longrightarrow> session_run t db ss'"
  by (metis prod.collapse session_send_mail then_return_session)

lemma tier_of_free: "tier_of_value ''free'' = Some FREE"
  by (simp add: tier_of_value_def all_tiers_def)

lemma enqueue_dunning:
  "enqueue_job db ty tenant (Some (dunning_payload s n)) when m key now = (Inl (SQLAlchemyError ''Object of type UUID is not JSON serializable''), db)"
  by (simp add: enqueue_job_def dunning_payload_def)

lemma session_sync:
  "session_run t db ss \<Longrightarrow> sync_tenant_plan t tier (snd ss) = Inr d \<Longrightarrow> session_run t db (fst ss, d)"
  by (auto intro: session_step bill_step.plan)

lemma session_final_failure:
  assumes "session_run t db ss" "r \<in> set (bd_subscriptions (snd ss))" "ts_id s = ts_id r" "ts_tenant_id r = t" "ts_tenant_id s = t"
    "handle_final_failure env s ss = (out, ss')"
  shows "session_run t db ss'"
proof -
  let ?s1 = "s\<lparr>ts_status := ''cancelled'', ts_tier := tier_value FREE, ts_canceled_at := Some (be_now env), ts_dunning_next_retry_at := None\<rparr>"
  have "session_run t db (on_session (write_subscription ?s1) ss)"
    using assms(3-5) by (intro session_write [OF assms(1,2)]) (auto simp: subscription_ok_def tier_of_free)
  with assms(5,6) show ?thesis
    by (auto simp: handle_final_failure_def Let_def split: sum.splits intro: session_mailed session_commit session_sync)
qed

lemma session_schedule_retry:
  assumes "session_run t db ss" "r \<in> set (bd_subscriptions (snd ss))" "ts_id s = ts_id r" "ts_tenant_id r = t" "ts_tenant_id s = t"
    "subscription_ok r \<Longrightarrow> subscription_ok s" "schedule_retry env s n next ss = (out, ss')"
  shows "session_run t db ss'"
proof -
  let ?s1 = "s\<lparr>ts_dunning_next_retry_at := Some next\<rparr>"
  have "session_run t db (on_session (write_subscription ?s1) ss)"
    using assms(3-6) by (intro session_write [OF assms(1,2)]) (auto simp: subscription_ok_def)
  with assms(7) show ?thesis
    by (auto simp: schedule_retry_def Let_def enqueue_dunning intro: session_mailed session_rollback)
qed

lemma session_failed_payment:
  assumes "session_run t db ss" "\<And>s. find_subscription i (snd ss) = Some s \<Longrightarrow> ts_tenant_id s = t"
    "process_failed_payment env i w ss = (out, ss')"
  shows "session_run t db ss'"
proof (cases "find_subscription i (snd ss)")
  case (Some s)
  let ?s1 = "s\<lparr>ts_dunning_attempts := ts_dunning_attempts s + 1, ts_last_dunning_at := Some (be_now env), ts_status := ''attention''\<rparr>"
  note s = find_subscription_SomeD [OF Some] assms(2) [OF Some]
  have ok: "subscription_ok s \<Longrightarrow> subscription_ok ?s1" by (auto simp: subscription_ok_def)
  have written: "session_run t db (on_session (write_subscription ?s1) ss)" using s ok by (intro session_write [OF assms(1), of s]) auto
  have final: "session_run t db ss'" if "handle_final_failure env ?s1 ss = (out, ss')"
    using session_final_failure [OF assms(1) _ _ _ _ that] s by auto
  have retry: "session_run t db ss'" if "schedule_retry env ?s1 n due ss = (out, ss')" for n due
    using session_schedule_retry [OF assms(1) _ _ _ _ _ that] s ok by auto
  show ?thesis
    using assms(1,3) Some written final retry unfolding process_failed_payment_def
    by (auto simp: Let_def split: if_splits sum.splits)
qed (use assms in \<open>simp add: process_failed_payment_def\<close>)

lemma session_retry_success:
  assumes "session_run t db ss" "r \<in> set (bd_subscriptions (snd ss))" "ts_id s = ts_id r" "ts_tenant_id r = t" "ts_tenant_id s = t"
    "subscription_ok r \<Longrightarrow> subscription_ok s" "handle_retry_success env s ss = (out, ss')"
  shows "session_run t db ss'"
proof -
  let ?s1 = "s\<lparr>ts_status := ''active'', ts_dunning_attempts := 0, ts_last_dunning_at := None, ts_dunning_next_retry_at := None\<rparr>"
  have "session_run t db (on_session (write_subscription ?s1) ss)"
    using assms(3-6) by (intro session_write [OF assms(1,2)]) (auto simp: subscription_ok_def)
  with assms(5,7) show ?thesis
    by (auto simp: handle_retry_success_def Let_def split: sum.splits intro: session_mailed session_commit session_sync)
qed

end
