(* ===== verification/Bill_Runs.thy ===== *)
theory Bill_Runs
  imports Bill_Machine Price_Theorems
begin

text \<open>
  Every handler of billing, and every webhook, is a run of the machine of one tenant, and leaves the job
  queue to the processor.
\<close>

subsection \<open>Retries\<close>

lemma session_charged_or_failed:
  assumes run: "session_run t db ss" and inv: "bill_inv db" "bill_inv (snd ss)" and row: "find_subscription i db = Some s0" "ts_tenant_id s0 = t"
    and s: "find_subscription i (snd ss) = Some s" and charge: "charged_or_failed env s ss = (out, ss')"
  shows "session_run t db ss'"
proof -
  obtain r ss1 where charged: "charge_renewal env s ss = (r, ss1)" by (rule prod.exhaust)
  have tenant: "ts_tenant_id s = t" by (rule session_tenant [OF run inv(1) row s])
  have run1: "session_run t db ss1"
    using session_charge_renewal [OF run _ tenant charged] find_subscription_SomeD [OF s] by simp
  have found: "ts_tenant_id s' = t" if "find_subscription i (snd ss1) = Some s'" for s' by (rule session_tenant [OF run1 inv(1) row that])
  have i: "ts_id s = i" using find_subscription_SomeD [OF s] by simp
  have failed: "session_run t db ss'" if "process_failed_payment env i w ss1 = (out, ss')" for w
    using session_failed_payment [OF run1 found that] .
  have same: "\<exists>s'. find_subscription i (snd ss1) = Some s'" by (rule session_finds [OF run1 inv(1) row(1)])
  have reactivated: "session_run t db ss'" if s': "find_subscription i (snd ss1) = Some s'" and "handle_retry_success env s' ss1 = (out, ss')" for s'
    using session_retry_success [OF run1 _ _ _ _ _ that(2)] find_subscription_SomeD [OF s'] found [OF s'] by auto
  consider e where "r = Inl e" | "r = Inr False" | "r = Inr True" by (cases r) auto
  then show ?thesis
  proof cases
    case 1
    with charge charged run1 show ?thesis by (simp add: charged_or_failed_def)
  next
    case 2
    with charge charged i have "process_failed_payment env i False ss1 = (out, ss')" by (simp add: charged_or_failed_def)
    then show ?thesis by (rule failed)
  next
    case 3
    from same obtain s' where s': "find_subscription i (snd ss1) = Some s'" by blast
    with 3 charge charged i have "handle_retry_success env s' ss1 = (out, ss')" by (simp add: charged_or_failed_def)
    with s' show ?thesis by (rule reactivated)
  qed
qed

lemma session_retry_payment:
  assumes inv: "bill_inv db" and row: "find_subscription i db = Some s" and retry: "retry_payment env i (db, db) = (out, ss')"
  shows "session_run (ts_tenant_id s) db ss'"
proof -
  obtain r ss1 where charged: "charged_or_failed env s (db, db) = (r, ss1)" by (rule prod.exhaust)
  have run1: "session_run (ts_tenant_id s) db ss1"
    by (rule session_charged_or_failed [OF session_start inv _ row refl _ charged]) (simp_all add: inv row)
  have found: "ts_tenant_id s' = ts_tenant_id s" if "find_subscription i (snd ss1) = Some s'" for s'
    by (rule session_tenant [OF run1 inv row refl that])
  have failed: "session_run (ts_tenant_id s) db ss'" if "process_failed_payment env i w ss1 = (out, ss')" for w
    by (rule session_failed_payment [OF run1 found that])
  show ?thesis
  proof (cases "client_ready env")
    case (Inl e)
    with retry row session_start show ?thesis by (auto simp: retry_payment_def)
  next
    case Inr
    with retry row charged find_subscription_SomeD [OF row] have "ss' = ss1 \<or> process_failed_payment env i False ss1 = (out, ss')"
      by (simp add: retry_payment_def split: sum.splits if_splits)
    with run1 failed show ?thesis by blast
  qed
qed

subsection \<open>Handlers\<close>

lemma recurring_billing_run:
  assumes "recurring_billing env job db = (out, db')" "bj_tenant_id job = Some t"
  shows "(bill_step t)\<^sup>*\<^sup>* db db'"
proof -
  have charged: "(bill_step t)\<^sup>*\<^sup>* db db'"
    if row: "first_row (\<lambda>s. ts_id s = i \<and> Some (ts_tenant_id s) = bj_tenant_id job) (bd_subscriptions db) = Some s"
      and closed: "close_session (renewal_answer env s (db, db)) = (out, db')" for i s
  proof -
    obtain r ss1 where charge: "charge_renewal env s (db, db) = (r, ss1)" by (rule prod.exhaust)
    have "session_run t db ss1"
      using session_charge_renewal [OF session_start _ _ charge] first_row_SomeD [OF row] assms(2) by simp
    moreover have "snd (renewal_answer env s (db, db)) = ss1"
      using charge by (auto simp: renewal_answer_def split: sum.splits bool.splits)
    ultimately show ?thesis using session_close [OF _ closed] by simp
  qed
  show ?thesis
    using assms(1) charged unfolding recurring_billing_def
    by (auto simp: Let_def split: if_splits sum.splits option.splits)
qed

lemma dunning_retry_run:
  assumes "dunning_retry env job db = (out, db')" "bill_inv db"
  shows "\<exists>t. (bill_step t)\<^sup>*\<^sup>* db db'"
proof -
  have retried: "\<exists>t. (bill_step t)\<^sup>*\<^sup>* db db'" if closed: "close_session (retry_payment env i (db, db)) = (r, db')" for i r
  proof -
    obtain r1 ss1 where retry: "retry_payment env i (db, db) = (r1, ss1)" by (rule prod.exhaust)
    have "\<exists>t. session_run t db ss1"
    proof (cases "find_subscription i db")
      case None
      with retry show ?thesis by (auto simp: retry_payment_def intro: session_start)
    next
      case (Some s)
      from session_retry_payment [OF assms(2) this retry] show ?thesis by blast
    qed
    then show ?thesis using session_close [OF _ closed] retry by auto
  qed
  show ?thesis
    using assms(1) retried unfolding dunning_retry_def
    by (auto simp: Let_def split: if_splits sum.splits prod.splits)
qed

subsection \<open>Webhooks\<close>

lemma scalar_one_SomeD: "scalar_one_or_none p rows = Inr (Some r) \<Longrightarrow> r \<in> set rows \<and> p r"
proof -
  assume "scalar_one_or_none p rows = Inr (Some r)"
  then have "filter p rows = [r]" by (auto simp: scalar_one_or_none_def split: list.splits)
  then have "r \<in> set (filter p rows)" by simp
  then show ?thesis by simp
qed

lemma scalar_one_NoneD: "scalar_one_or_none p rows = Inr None \<Longrightarrow> \<forall>r \<in> set rows. \<not> p r"
  by (auto simp: scalar_one_or_none_def filter_empty_conv split: list.splits)

lemma audit_after: "(bill_step t)\<^sup>*\<^sup>* db d \<Longrightarrow> billing_audit p env t c q d = Inr d' \<Longrightarrow> (bill_step t)\<^sup>*\<^sup>* db d'"
  by (auto dest!: billing_audit_step)

lemma created_subscription_same:
  "created_subscription s code token date = Inr s' \<Longrightarrow>
    ts_id s' = ts_id s \<and> ts_tenant_id s' = ts_tenant_id s \<and> (subscription_ok s \<longrightarrow> subscription_ok s')"
  by (auto simp: created_subscription_def subscription_ok_def)

lemma create_run: "handle_subscription_create env data db = Inr db' \<Longrightarrow> \<exists>t. (bill_step t)\<^sup>*\<^sup>* db db'"
proof -
  assume "handle_subscription_create env data db = Inr db'"
  then consider "db' = db" | p s code token date s1 q corr rc where "scalar_one_or_none p (bd_subscriptions db) = Inr (Some s)"
      "created_subscription s code token date = Inr s1" "billing_audit rc env (ts_tenant_id s) corr q (write_subscription s1 db) = Inr db'"
    unfolding handle_subscription_create_def by (fastforce simp: Let_def split: if_splits option.splits)
  then show ?thesis
  proof cases
    case 2
    have "bill_step (ts_tenant_id s) db (write_subscription s1 db)"
      using scalar_one_SomeD [OF 2(1)] created_subscription_same [OF 2(2)] by (auto intro: bill_step.subscription [of s])
    then have "(bill_step (ts_tenant_id s))\<^sup>*\<^sup>* db (write_subscription s1 db)" by simp
    from audit_after [OF this 2(3)] show ?thesis by blast
  qed blast
qed

lemma disable_run: "handle_subscription_disable env data db = Inr db' \<Longrightarrow> \<exists>t. (bill_step t)\<^sup>*\<^sup>* db db'"
proof -
  assume "handle_subscription_disable env data db = Inr db'"
  then consider "db' = db" | p s where "scalar_one_or_none p (bd_subscriptions db) = Inr (Some s)"
      "db' = write_subscription (s\<lparr>ts_status := ''cancelled'', ts_canceled_at := Some (be_now env)\<rparr>) db"
    unfolding handle_subscription_disable_def by (fastforce simp: Let_def split: if_splits option.splits)
  then show ?thesis
  proof cases
    case 2
    then have "bill_step (ts_tenant_id s) db db'"
      using scalar_one_SomeD [OF 2(1)] by (auto simp: subscription_ok_def intro!: bill_step.subscription [of s])
    then show ?thesis by blast
  qed blast
qed

lemma charged_subscription_same:
  "charged_subscription env data metadata code s = Inr (s', amount, rate) \<Longrightarrow>
    ts_id s' = ts_id s \<and> ts_tenant_id s' = ts_tenant_id s \<and> (tier_of_value (ts_tier s) \<noteq> None \<longrightarrow> subscription_ok s')"
  by (cases "charge_tier (dict_get metadata ''tier'')") (auto simp: charged_subscription_def subscription_ok_def Let_def)

lemma charge_tenant_steps:
  assumes "activate_tenant env data metadata code t db = Inr db'" "bill_inv db"
  shows "(bill_step t)\<^sup>*\<^sup>* db db'"
proof -
  let ?tier = "charge_tier (dict_get metadata ''tier'')"
  from assms(1) obtain old s amount rate db1 db2 rc corr q where steps:
    "scalar_one_or_none (\<lambda>s. ts_tenant_id s = t) (bd_subscriptions db) = Inr old"
    "charged_subscription env data metadata code (case old of Some s \<Rightarrow> s | None \<Rightarrow> new_subscription (bd_next_id db) t ''free'') = Inr (s, amount, rate)"
    "store_charged env (?tier \<noteq> None) old s db = Inr db1"
    "(case ?tier of None \<Rightarrow> Inr db1 | Some t' \<Rightarrow> sync_tenant_plan t (Tier t') db1) = Inr db2"
    "billing_audit rc env t corr q db2 = Inr db'"
    unfolding activate_tenant_def Let_def by (auto simp del: not_None_eq)
  note same = charged_subscription_same [OF steps(2)]
  have "bill_step t db db1"
  proof (cases old)
    case None
    then have "ts_id s = bd_next_id db" "ts_tenant_id s = t" "subscription_ok s"
      using same by (simp_all add: new_subscription_def tier_of_free)
    moreover from steps(3) None this have "t \<in> set (map tn_id (bd_tenants db))"
      and "db1 = db\<lparr>bd_subscriptions := bd_subscriptions db @ [s], bd_next_id := bd_next_id db + 1\<rparr>"
      by (auto simp: store_charged_def split: if_splits)
    moreover have "\<forall>r \<in> set (bd_subscriptions db). ts_tenant_id r \<noteq> t" using steps(1) None by (blast dest: scalar_one_NoneD)
    ultimately show ?thesis using bill_step.first_subscription by metis
  next
    case (Some r)
    with steps(1) have "r \<in> set (bd_subscriptions db)" "ts_tenant_id r = t" by (auto dest: scalar_one_SomeD)
    with same steps(3) Some show ?thesis
      by (auto simp: store_charged_def subscription_ok_def intro!: bill_step.subscription [of r])
  qed
  moreover have "(bill_step t)\<^sup>=\<^sup>= db1 db2" using steps(4) by (auto split: option.splits intro: bill_step.plan)
  ultimately have "(bill_step t)\<^sup>*\<^sup>* db db2" by auto
  then show ?thesis using steps(5) by (rule audit_after)
qed

lemma charge_run: "handle_charge_success env data db = Inr db' \<Longrightarrow> bill_inv db \<Longrightarrow> \<exists>t. (bill_step t)\<^sup>*\<^sup>* db db'"
  unfolding handle_charge_success_def by (auto split: option.splits dest: charge_tenant_steps)

lemma invoice_run:
  assumes "handle_invoice_failed env data db = (out, db')" "bill_inv db"
  shows "\<exists>t. (bill_step t)\<^sup>*\<^sup>* db db'"
proof -
  have failed: "\<exists>t. (bill_step t)\<^sup>*\<^sup>* db db'" if row: "scalar_one_or_none p (bd_subscriptions db) = Inr (Some s)"
    and closed: "close_session (process_failed_payment env (ts_id s) True (db, db)) = (r, db1)"
    and rest: "db' = db1 \<or> invoice_audit env s inv sub cust db1 = Inr db'" for p s r db1 inv sub cust
  proof -
    obtain r1 ss1 where failed: "process_failed_payment env (ts_id s) True (db, db) = (r1, ss1)" by (rule prod.exhaust)
    have "ts_tenant_id s' = ts_tenant_id s" if "find_subscription (ts_id s) db = Some s'" for s'
      using unique_row [of ts_id "bd_subscriptions db" s' s] find_subscription_SomeD [OF that] scalar_one_SomeD [OF row] assms(2)
      by (simp add: bill_inv_def)
    then have "session_run (ts_tenant_id s) db ss1" using session_failed_payment [OF session_start _ failed] by simp
    then have "(bill_step (ts_tenant_id s))\<^sup>*\<^sup>* db db1" using session_close [OF _ closed] failed by simp
    with rest audit_after show ?thesis unfolding invoice_audit_def by blast
  qed
  from assms(1) consider "db' = db" | p s r db1 inv sub cust where "scalar_one_or_none p (bd_subscriptions db) = Inr (Some s)"
      "close_session (process_failed_payment env (ts_id s) True (db, db)) = (r, db1)" "db' = db1 \<or> invoice_audit env s inv sub cust db1 = Inr db'"
    unfolding handle_invoice_failed_def Let_def from_result_def
    by (fastforce split: sum.splits option.splits prod.splits if_splits)
  then show ?thesis using failed by cases blast+
qed

lemma webhook_event_run:
  assumes "webhook_event env event data db = (out, db')" "bill_inv db"
  shows "\<exists>t. (bill_step t)\<^sup>*\<^sup>* db db'"
proof -
  from assms(1) consider "db' = db" | "handle_subscription_create env data db = Inr db'" | "handle_charge_success env data db = Inr db'"
    | "handle_subscription_disable env data db = Inr db'" | "handle_invoice_failed env data db = (out, db')"
    by (auto simp: webhook_event_def from_result_def split: if_splits sum.splits)
  then show ?thesis
    using create_run [of env data db db'] charge_run [of env data db db'] disable_run [of env data db db']
      invoice_run [of env data db out db'] assms(2) by cases blast+
qed

lemma paystack_webhook_run:
  assumes "process_paystack_webhook env job db = (out, db')" "bill_inv db"
  shows "\<exists>t. (bill_step t)\<^sup>*\<^sup>* db db'"
proof -
  from assms(1) have "db' = db \<or> (\<exists>event data r. webhook_event env event data db = (r, db'))"
    unfolding process_paystack_webhook_def by (auto split: option.splits if_splits sum.splits prod.splits json.splits)
  then show ?thesis using webhook_event_run [OF _ assms(2)] by blast
qed

subsection \<open>The registry\<close>

lemma recurring_billing_idle:
  assumes "bj_tenant_id job = None"
  shows "snd (recurring_billing env job db) = db"
proof -
  have "first_row (\<lambda>s. ts_id s = i \<and> Some (ts_tenant_id s) = bj_tenant_id job) (bd_subscriptions db) = None" for i
    by (simp add: assms first_row_None)
  then show ?thesis by (simp add: recurring_billing_def Let_def split: sum.splits)
qed

lemma handler_runs:
  assumes "handler_registry env deliver ty = Some handler" "handler job db = (out, db')" "bill_inv db"
  shows "\<exists>t. (bill_step t)\<^sup>*\<^sup>* db db'"
proof -
  have "handler job db \<in> to_outcome ` {recurring_billing env job db, dunning_retry env job db, webhook_retry env deliver job db}"
    using assms(1) unfolding handler_registry_def by (cases "ty = ''recurring_billing''"; cases "ty = ''dunning''"; cases "ty = ''webhook_retry''") auto
  then have "db' \<in> snd ` {recurring_billing env job db, dunning_retry env job db, webhook_retry env deliver job db}"
    unfolding assms(2) to_outcome_def image_iff by (metis snd_conv)
  then consider "snd (recurring_billing env job db) = db'" | "snd (dunning_retry env job db) = db'"
    | "snd (process_paystack_webhook env job db) = db'" | "db' = db"
    unfolding webhook_retry_def image_insert image_empty insert_iff empty_iff by (auto split: if_splits)
  then show ?thesis
  proof cases
    case 1
    then show ?thesis
      using recurring_billing_run [of env job db _ db'] recurring_billing_idle [of job env db]
      by (cases "bj_tenant_id job") (auto, metis prod.collapse)
  next
    case 2
    with dunning_retry_run assms(3) show ?thesis by (metis prod.collapse)
  next
    case 3
    with paystack_webhook_run assms(3) show ?thesis by (metis prod.collapse)
  qed blast
qed

interpretation billing_jobs: job_handlers "handler_registry env deliver" bill_inv for env deliver
proof unfold_locales
  fix ty handler and job :: background_job and db db' :: "'a bill_db_scheme" and outcome h
  assume handler: "handler_registry env deliver ty = Some handler" "bill_inv db" "handler job db = (outcome, db')"
  obtain t where run: "(bill_step t)\<^sup>*\<^sup>* db db'" using handler_runs [OF handler(1,3,2)] by blast
  show "bill_inv db'" by (rule billing.run_inv [OF run handler(2)])
  have "only_tenant t db db'" by (rule billing.run_below [OF run handler(2)])
  then have "queue_step (db, h) (db', h)" by (intro queue_step.effect) (simp_all add: only_tenant_def)
  then show "queue_step\<^sup>*\<^sup>* (db, h) (db', h)" by blast
qed (simp add: bill_inv_def)

lemma count_where_one: "distinct (map k rows) \<Longrightarrow> i \<in> k ` set rows \<Longrightarrow> count_where (\<lambda>r. k r = i) rows = 1"
  by (induction rows) (auto simp: count_where_def filter_empty_conv image_iff)

end
