(* ===== verification/Fx_Theorems.thy ===== *)
theory Fx_Theorems
  imports Fx_Rates Base_Machine
begin

text \<open>
  Properties of the exchange rates. The three stores are abstracted to the set of naira rates they hold
  under the name of the official provider; every call enlarges that set at most by what the central bank
  quotes, so that a strict caller only ever sees official rates. How old such a rate can be follows from
  an invariant on the time stamps, as long as nobody asks for the naira without being strict.
\<close>

subsection \<open>The stores after a write\<close>

lemma write_l1_simps [simp]:
  "map_of (fx_l1 (write_l1_rate env c r p s)) k =
     (if k = c then Some \<lparr>l1_rate = r, l1_updated = fe_now env, l1_provider = p\<rparr> else map_of (fx_l1 s) k)"
  "fx_redis (write_l1_rate env c r p s) = fx_redis s" "fx_rows (write_l1_rate env c r p s) = fx_rows s"
  by (simp_all add: write_l1_rate_def update_conv')

lemma redis_key_inject [simp]: "redis_key a = redis_key b \<longleftrightarrow> a = b"
  by (simp add: redis_key_def)

lemma write_redis_simps [simp]:
  "fx_l1 (write_redis_rate env c r p s) = fx_l1 s" "fx_rows (write_redis_rate env c r p s) = fx_rows s"
  by (simp_all add: write_redis_rate_def)

lemma rate_row_cong: "fx_rows s = fx_rows t \<Longrightarrow> rate_row c s = rate_row c t"
  by (simp add: rate_row_def)

lemma rate_row_write [simp]:
  "rate_row k (write_l1_rate env c r p s) = rate_row k s" "rate_row k (write_redis_rate env c r p s) = rate_row k s"
  by (simp_all add: rate_row_def)

lemma first_row_append: "first_row p (xs @ ys) = (case first_row p xs of None \<Rightarrow> first_row p ys | Some x \<Rightarrow> Some x)"
  by (induction xs) (auto simp: first_row_def)

lemma first_row_single: "first_row p [x] = (if p x then Some x else None)"
  by (simp add: first_row_def)

lemma first_row_update_same:
  "(\<And>r. p r \<Longrightarrow> p (f r)) \<Longrightarrow> first_row p (update_where p f rows) = map_option f (first_row p rows)"
  by (induction rows) (auto simp: first_row_def update_where_def)

lemma first_row_update_other:
  "(\<And>r. p r \<Longrightarrow> \<not> q r \<and> \<not> q (f r)) \<Longrightarrow> first_row q (update_where p f rows) = first_row q rows"
  by (induction rows) (auto simp: first_row_def update_where_def)

lemma upsert_stores [simp]:
  "fx_l1 (apply_db_rate_upsert now c r p s) = fx_l1 s" "fx_redis (apply_db_rate_upsert now c r p s) = fx_redis s"
  by (simp_all add: apply_db_rate_upsert_def split: option.splits)

lemma rate_row_upsert_same:
  "\<exists>row. rate_row c (apply_db_rate_upsert now c r p s) = Some row
     \<and> xr_rate row = numeric 4 r \<and> xr_provider row = p \<and> xr_last_updated row = now"
  by (cases "rate_row c s")
    (auto simp: apply_db_rate_upsert_def rate_row_def first_row_append first_row_update_same first_row_single)

lemma rate_row_upsert_other:
  assumes "k \<noteq> c"
  shows "rate_row k (apply_db_rate_upsert now c r p s) = rate_row k s"
proof (cases "rate_row c s")
  case None
  with assms show ?thesis
    by (auto simp: apply_db_rate_upsert_def rate_row_def first_row_append first_row_single split: option.splits)
next
  case (Some row)
  have "first_row (\<lambda>x. xr_from_currency x = ''USD'' \<and> xr_to_currency x = k)
      (update_where (\<lambda>x. xr_from_currency x = ''USD'' \<and> xr_to_currency x = c)
        (\<lambda>x. x\<lparr>xr_rate := numeric 4 r, xr_provider := p, xr_last_updated := now\<rparr>) (fx_rows s))
    = first_row (\<lambda>x. xr_from_currency x = ''USD'' \<and> xr_to_currency x = k) (fx_rows s)"
    by (rule first_row_update_other) (use assms in auto)
  with Some show ?thesis by (simp add: apply_db_rate_upsert_def rate_row_def)
qed

subsection \<open>Official rates\<close>

text \<open>The naira rates that some store holds under the official provider's name.\<close>

definition redis_quote :: "fx_state \<Rightarrow> (rat \<times> rat option \<times> string option) option" where
  "redis_quote s =
     (case map_of (fx_redis s) (redis_key ''NGN'') of
        Some e \<Rightarrow>
          (case re_payload e of
             JObj d \<Rightarrow>
               (case decimal_of (dict_get d ''rate'') of
                  None \<Rightarrow> None
                | Some rate \<Rightarrow> Some (rate, float_of (dict_get d ''updated_at''),
                    case dict_get d ''provider'' of JStr p \<Rightarrow> Some p | _ \<Rightarrow> None))
           | _ \<Rightarrow> None)
      | None \<Rightarrow> None)"

lemma read_redis_quote: "read_redis_rate env ''NGN'' s = Some q \<Longrightarrow> redis_quote s = Some q"
  by (auto simp: read_redis_rate_def redis_quote_def split: option.splits if_splits)

lemma redis_quote_write:
  "redis_quote (write_redis_rate env c r p s) =
     (if fe_redis_up env \<and> c = ''NGN'' then Some (r, Some (unix_time (fe_now env)), p) else redis_quote s)"
  by (auto simp: redis_quote_def write_redis_rate_def update_conv' decimal_of_def float_of_def split: option.splits)

lemma redis_quote_same [simp]:
  "redis_quote (write_l1_rate env c r p s) = redis_quote s" "redis_quote (apply_db_rate_upsert now c r q s) = redis_quote s"
  by (simp_all add: redis_quote_def)

definition labelled :: "fx_state \<Rightarrow> rat \<Rightarrow> bool" where
  "labelled s r \<longleftrightarrow> (\<exists>e. map_of (fx_l1 s) ''NGN'' = Some e \<and> l1_rate e = r \<and> l1_provider e = Some ''cbn_nfem'')
     \<or> (\<exists>u. redis_quote s = Some (r, u, Some ''cbn_nfem''))
     \<or> (\<exists>row. rate_row ''NGN'' s = Some row \<and> xr_rate row = r \<and> xr_provider row = ''cbn_nfem'')"

text \<open>What the central bank quotes during a call\<close>

definition quotes :: "fx_env \<Rightarrow> (instant \<times> rat) list" where
  "quotes env = (case fetch_ngn_from_cbn env of Inr c \<Rightarrow> [(fe_now env, c)] | Inl e \<Rightarrow> [])"

definition quoted :: "(instant \<times> rat) list \<Rightarrow> rat \<Rightarrow> bool" where
  "quoted hist r \<longleftrightarrow> (\<exists>(u, c) \<in> set hist. r = c \<or> r = numeric 4 c)"

lemma quoted_mono: "quoted hist r \<Longrightarrow> set hist \<subseteq> set hist' \<Longrightarrow> quoted hist' r"
  by (auto simp: quoted_def)

lemma quoted_quotes: "fetch_ngn_from_cbn env = Inr c \<Longrightarrow> quoted (quotes env) c \<and> quoted (quotes env) (numeric 4 c)"
  by (auto simp: quoted_def quotes_def)

lemma fetch_live_rateD:
  "fetch_live_rate env c = Inr (r, p) \<Longrightarrow> c = ''NGN'' \<and> p = ''cbn_nfem'' \<and> fetch_ngn_from_cbn env = Inr r"
  by (auto simp: fetch_live_rate_def split: if_splits sum.splits)

abbreviation noted :: "fx_env \<Rightarrow> rat \<Rightarrow> fx_state \<Rightarrow> fx_state" where
  "noted env r s \<equiv> write_redis_rate env ''NGN'' r (Some ''cbn_nfem'') (write_l1_rate env ''NGN'' r (Some ''cbn_nfem'') s)"

lemma live_rate_cases:
  assumes "live_rate env strict c s = (out, t)"
  obtains e where "out = Inl e" "t = s"
  | r e where "c = ''NGN''" "fetch_ngn_from_cbn env = Inr r" "out = Inl e" "t = noted env r s"
  | r where "c = ''NGN''" "fetch_ngn_from_cbn env = Inr r" "out = Inr r" "t = noted env r s"
  | r where "c = ''NGN''" "fetch_ngn_from_cbn env = Inr r" "out = Inr r"
      "t = apply_db_rate_upsert (fe_now env) ''NGN'' r ''cbn_nfem'' (noted env r s)"
proof (cases "fetch_live_rate env c")
  case (Inl e)
  with assms that(1) [of e] show thesis by (auto simp: live_rate_def)
next
  case (Inr q)
  obtain r p where q: "q = (r, p)" by (cases q)
  note live = fetch_live_rateD [OF Inr [unfolded q]]
  with assms Inr q that(2-4) show thesis
    by (auto simp: live_rate_def upsert_db_rate_def Let_def split: option.splits if_splits)
qed

definition look_further :: "fx_env \<Rightarrow> bool \<Rightarrow> string \<Rightarrow> exchange_rate option \<Rightarrow> fx_state \<Rightarrow> rat res \<times> fx_state" where
  "look_further env strict c row s =
     (case db_hit env strict c row of
        Some (rate, provider) \<Rightarrow> (Inr rate, write_redis_rate env c rate (Some provider) (write_l1_rate env c rate (Some provider) s))
      | None \<Rightarrow>
          (case live_rate env strict c s of
             (Inr rate, s1) \<Rightarrow> (Inr rate, s1)
           | (Inl e, s1) \<Rightarrow> if live_provider_recoverable e then degraded_rate env strict c row s1 else (Inl e, s1)))"

lemma get_rate_cases:
  assumes "get_rate env strict cur s = (out, t)" and "normalize_currency cur = c"
  obtains (usd) "c = ''USD''" "out = Inr 1" "t = s"
  | (l1) r where "l1_hit env strict c s = Some r" "out = Inr r" "t = s"
  | (redis) r p where "redis_hit env strict c s = Some (r, p)" "out = Inr r" "t = write_l1_rate env c r p s"
  | (fault) e where "out = Inl e" "t = s"
  | (db) row where "rate_row c s = Some row" "db_hit env strict c (Some row) = Some (xr_rate row, xr_provider row)" "out = Inr (xr_rate row)"
      "t = write_redis_rate env c (xr_rate row) (Some (xr_provider row)) (write_l1_rate env c (xr_rate row) (Some (xr_provider row)) s)"
  | (live) out1 where "live_rate env strict c s = (out1, t)" "out = out1" "c \<noteq> ''USD''"
  | (degraded) e row s1 where "live_rate env strict c s = (Inl e, s1)" "row = None \<or> row = rate_row c s" "degraded_rate env strict c row s1 = (out, t)"
      "c \<noteq> ''USD''"
proof -
  have get: "get_rate env strict cur s =
    (if c = ''USD'' then (Inr 1, s)
     else case l1_hit env strict c s of
       Some rate \<Rightarrow> (Inr rate, s)
     | None \<Rightarrow> (case redis_hit env strict c s of Some (rate, provider) \<Rightarrow> (Inr rate, write_l1_rate env c rate provider s)
         | None \<Rightarrow> (case read_db_rate env c s of Inl e \<Rightarrow> (Inl e, s) | Inr row \<Rightarrow> look_further env strict c row s)))"
    unfolding get_rate_def look_further_def assms(2) Let_def by (rule refl)
  consider "c = ''USD''" "out = Inr 1" "t = s" | r where "l1_hit env strict c s = Some r" "out = Inr r" "t = s"
    | r p where "redis_hit env strict c s = Some (r, p)" "out = Inr r" "t = write_l1_rate env c r p s"
    | e where "out = Inl e" "t = s"
    | row where "read_db_rate env c s = Inr row" "look_further env strict c row s = (out, t)" "c \<noteq> ''USD''"
  proof (cases "c = ''USD'' \<or> l1_hit env strict c s \<noteq> None")
    case False
    with get assms(1) that show thesis
      by (cases "redis_hit env strict c s"; cases "read_db_rate env c s") auto
  qed (use get assms(1) that(1,2) in \<open>auto split: if_splits\<close>)
  then show thesis
  proof cases
    case (5 row)
    have row: "row = None \<or> row = rate_row c s"
      using 5(1) by (auto simp: read_db_rate_def split: option.splits if_splits)
    show thesis
    proof (cases "db_hit env strict c row")
      case (Some q)
      then obtain r where r: "row = Some r" by (auto simp: db_hit_def split: option.splits)
      with row have "rate_row c s = Some r" by simp
      moreover have "q = (xr_rate r, xr_provider r)" using Some r by (auto simp: db_hit_def split: if_splits)
      ultimately show thesis using Some 5 r that(5) [of r] by (simp add: look_further_def)
    next
      case None
      obtain o1 s1 where live: "live_rate env strict c s = (o1, s1)" by fastforce
      show thesis
      proof (cases "\<exists>e. o1 = Inl e \<and> live_provider_recoverable e")
        case True
        then obtain e where e: "o1 = Inl e" "live_provider_recoverable e" by blast
        with live have "live_rate env strict c s = (Inl e, s1)" by simp
        moreover have "degraded_rate env strict c row s1 = (out, t)" using 5(2) None live e by (simp add: look_further_def)
        ultimately show thesis by (rule that(7) [OF _ row _ 5(3)])
      next
        case False
        then have "look_further env strict c row s = (o1, s1)" using None live by (cases o1) (auto simp: look_further_def)
        with 5(2) live have "live_rate env strict c s = (o1, t)" "out = o1" by simp_all
        then show thesis by (rule that(6) [OF _ _ 5(3)])
      qed
    qed
  qed (rule that; assumption)+
qed

lemma hit_labelled:
  "l1_hit env True ''NGN'' s = Some r \<Longrightarrow> labelled s r \<and> r \<noteq> 0"
  "redis_hit env True ''NGN'' s = Some (r, p) \<Longrightarrow> labelled s r \<and> r \<noteq> 0 \<and> p = Some ''cbn_nfem''"
  "rate_row ''NGN'' s = Some row \<Longrightarrow> db_hit env True ''NGN'' (Some row) = Some q \<Longrightarrow> labelled s (xr_rate row) \<and> xr_rate row \<noteq> 0"
  by (auto simp: l1_hit_def redis_hit_def db_hit_def acceptable_def labelled_def split: option.splits if_splits dest!: read_redis_quote)

lemma fetch_positive:
  assumes "fetch_ngn_from_cbn env = Inr r"
  shows "0 < r"
proof -
  from assms obtain row rows n d where "latest_row None (row # rows) = Some (n, d)" and
    "(let avg = dict_get d ''weightedAvgRate''; raw_rate = (if json_truthy avg then avg else dict_get d ''closingrate'') in
       if raw_rate = JNull \<or> raw_rate = JStr '''' then Inl (ValueError ''CBN NFEM row missing weightedAvgRate/closingrate'')
       else (case decimal_of raw_rate of None \<Rightarrow> Inl invalid_operation
         | Some rate \<Rightarrow> if rate \<le> 0 then Inl (ValueError ''CBN NFEM returned non-positive rate'') else Inr rate)) = Inr r"
    by (cases "fe_http env") (auto simp: fetch_ngn_from_cbn_def split: json.splits list.splits option.splits)
  from this(2) show ?thesis unfolding Let_def by (simp split: if_split_asm option.splits)
qed

lemma redis_hit_quote:
  "redis_hit env strict ''NGN'' s = Some (r, p) \<Longrightarrow> \<exists>u. redis_quote s = Some (r, Some u, p)
     \<and> unix_time (fe_now env) - u \<le> of_int (cache_ttl_hours env * 3600)"
  by (auto simp: redis_hit_def split: option.splits if_splits dest!: read_redis_quote)

lemma strict_sources:
  assumes "get_ngn_rate env s = (Inr r, t)"
  shows "r \<noteq> 0 \<and> (labelled s r \<or> fetch_ngn_from_cbn env = Inr r)"
proof -
  have ngn: "normalize_currency (Some ''NGN'') = ''NGN''" by code_simp
  from assms [unfolded get_ngn_rate_def] ngn show ?thesis
  proof (cases rule: get_rate_cases)
    case (live out1)
    from live(1) live(2) [symmetric] show ?thesis
      by (cases rule: live_rate_cases) (auto dest: fetch_positive)
  next
    case (degraded e row s1)
    from degraded(3) show ?thesis by (simp add: degraded_rate_def split: option.splits)
  qed (auto dest: hit_labelled)
qed

lemma labelled_write_l1:
  "labelled (write_l1_rate env c r p s) x \<Longrightarrow> labelled s x \<or> c = ''NGN'' \<and> x = r \<and> p = Some ''cbn_nfem''"
  by (auto simp: labelled_def split: if_splits)

lemma labelled_write_redis:
  "labelled (write_redis_rate env c r p s) x \<Longrightarrow> labelled s x \<or> c = ''NGN'' \<and> x = r \<and> p = Some ''cbn_nfem''"
  by (auto simp: labelled_def redis_quote_write split: if_splits)

lemma labelled_upsert:
  "labelled (apply_db_rate_upsert now c r p s) x \<Longrightarrow> labelled s x \<or> c = ''NGN'' \<and> x = numeric 4 r \<and> p = ''cbn_nfem''"
  using rate_row_upsert_same [of c now r p s] rate_row_upsert_other [of "''NGN''" c now r p s]
  by (cases "c = ''NGN''") (auto simp: labelled_def)

lemmas labelled_writes = labelled_write_l1 labelled_write_redis labelled_upsert

lemma live_labelled:
  assumes "live_rate env strict c s = (out, t)" "labelled t x"
  shows "labelled s x \<or> quoted (quotes env) x"
  using assms by (cases rule: live_rate_cases) (auto dest!: labelled_writes dest: quoted_quotes)

lemma get_rate_labelled:
  assumes "get_rate env strict cur s = (out, t)" "labelled t x"
  shows "labelled s x \<or> quoted (quotes env) x"
  using assms(1) refl
proof (cases rule: get_rate_cases)
  case (redis r p)
  from labelled_write_l1 [OF assms(2) [unfolded redis(3)]] redis(1) redis_hit_quote [of env strict s r p] show ?thesis
    by (auto simp: labelled_def)
next
  case (db row)
  with assms(2) show ?thesis by (auto simp: labelled_def redis_quote_write split: if_splits)
next
  case (live out1)
  with assms(2) show ?thesis by (auto dest: live_labelled)
next
  case (degraded e row s1)
  have "t = s1 \<or> (\<exists>r. row = Some r \<and> t = write_l1_rate env (normalize_currency cur) (xr_rate r) (Some (xr_provider r)) s1)"
    using degraded(3) by (auto simp: degraded_rate_def split: option.splits if_splits)
  then consider "labelled s1 x" | r where "row = Some r" "normalize_currency cur = ''NGN''" "x = xr_rate r" "xr_provider r = ''cbn_nfem''"
    using assms(2) by (auto dest!: labelled_write_l1)
  then have "labelled s1 x \<or> labelled s x"
  proof cases
    case (2 r)
    with degraded(2) have "rate_row ''NGN'' s = Some r" by simp
    with 2 show ?thesis by (auto simp: labelled_def)
  qed simp
  with live_labelled [OF degraded(1)] show ?thesis by blast
qed (use assms(2) in auto)

subsection \<open>Runs\<close>

text \<open>
  Calls of any kind, manual updates that do not claim to be official, and restarts of the process; the
  second component collects what the central bank quoted.
\<close>

inductive fx_step :: "fx_state \<times> (instant \<times> rat) list \<Rightarrow> fx_state \<times> (instant \<times> rat) list \<Rightarrow> bool" where
  call: "get_rate env strict cur s = (out, t) \<Longrightarrow> fx_step (s, hist) (t, hist @ quotes env)"
| manual: "provider \<noteq> ''cbn_nfem'' \<Longrightarrow> fx_step (s, hist) (apply_exchange_rate_update now rate provider s, hist)"
| restart: "fx_step (s, hist) (s\<lparr>fx_l1 := [(''USD'', usd)]\<rparr>, hist)"

definition fx_official :: "fx_state \<times> (instant \<times> rat) list \<Rightarrow> bool" where
  "fx_official c \<longleftrightarrow> (\<forall>r. labelled (fst c) r \<longrightarrow> quoted (snd c) r)"

lemma fx_step_official: "fx_step c d \<Longrightarrow> fx_official c \<Longrightarrow> fx_official d"
proof (induction rule: fx_step.induct)
  case (call env strict cur s out t hist)
  have "quoted (hist @ quotes env) r" if "labelled t r" for r
    using get_rate_labelled [OF call(1) that] call(2) by (auto simp: fx_official_def intro: quoted_mono)
  then show ?case by (simp add: fx_official_def)
next
  case (manual provider s hist now rate)
  then show ?case by (auto simp: fx_official_def apply_exchange_rate_update_def dest!: labelled_upsert)
next
  case (restart s hist usd)
  then show ?case by (auto simp: fx_official_def labelled_def redis_quote_def rate_row_def)
qed

interpretation rates: machine fx_step fx_official
  by unfold_locales (rule fx_step_official)

definition empty_fx :: fx_state where
  "empty_fx = \<lparr>fx_l1 = [], fx_redis = [], fx_rows = []\<rparr>"

text \<open>
  A charge in naira is only ever computed with an official rate: whatever calls, manual updates under
  other names and restarts came before, a rate that the strict lookup returns is not zero and was quoted
  by the central bank, now or before, up to the four places the table keeps.
\<close>

theorem strict_rate_official:
  assumes "fx_step\<^sup>*\<^sup>* (empty_fx, []) (s, hist)" and "get_ngn_rate env s = (Inr r, t)"
  shows "r \<noteq> 0 \<and> (\<exists>(u, c) \<in> set (hist @ quotes env). r = c \<or> r = numeric 4 c)"
proof -
  have "fx_official (empty_fx, [])" by (simp add: fx_official_def labelled_def empty_fx_def redis_quote_def rate_row_def first_row_def)
  then have "fx_official (s, hist)" by (rule rates.run_inv [OF assms(1)])
  with strict_sources [OF assms(2)] have "r \<noteq> 0" "quoted (hist @ quotes env) r"
    by (auto simp: fx_official_def intro: quoted_mono dest: quoted_quotes)
  then show ?thesis unfolding quoted_def by blast
qed

definition sample_fx_env :: "instant \<Rightarrow> fx_env" where
  "sample_fx_env now = \<lparr>fe_now = now, fe_ttl_hours = 24, fe_redis_up = False,
     fe_http = Inr (JList [JObj [(''ratedate'', JStr ''March-05-2026''), (''weightedAvgRate'', JInt 1500)]]),
     fe_read_error = None, fe_write_error = None, fe_own_session = True\<rparr>"

lemma sample_fetch: "fetch_ngn_from_cbn (sample_fx_env now) = Inr 1500"
proof -
  have "parse_cbn_date (JStr ''March-05-2026'') = Some 739680" by code_simp
  then show ?thesis by (simp add: fetch_ngn_from_cbn_def sample_fx_env_def json_truthy_def decimal_of_def)
qed

lemma sample_ngn: "\<exists>t. get_ngn_rate (sample_fx_env now) empty_fx = (Inr 1500, t)"
proof -
  have ngn: "normalize_currency (Some ''NGN'') = ''NGN''" by code_simp
  have "live_rate (sample_fx_env now) True ''NGN'' empty_fx
      = (Inr 1500, apply_db_rate_upsert now ''NGN'' 1500 ''cbn_nfem'' (noted (sample_fx_env now) 1500 empty_fx))"
    by (simp add: live_rate_def fetch_live_rate_def sample_fetch upsert_db_rate_def Let_def) (simp add: sample_fx_env_def)
  moreover have "l1_hit (sample_fx_env now) True ''NGN'' empty_fx = None" "redis_hit (sample_fx_env now) True ''NGN'' empty_fx = None"
    "read_db_rate (sample_fx_env now) ''NGN'' empty_fx = Inr None"
    by (simp_all add: l1_hit_def redis_hit_def read_redis_rate_def read_db_rate_def empty_fx_def rate_row_def first_row_def sample_fx_env_def)
  ultimately show ?thesis by (simp add: get_ngn_rate_def get_rate_def ngn db_hit_def Let_def)
qed

lemma strict_rate_official_witness:
  "\<exists>t. get_ngn_rate (sample_fx_env 5) empty_fx = (Inr 1500, t) \<and> (\<exists>(u, c) \<in> set (quotes (sample_fx_env 5)). (1500::rat) = c \<or> 1500 = numeric 4 c)"
proof -
  obtain t where run: "get_ngn_rate (sample_fx_env 5) empty_fx = (Inr 1500, t)" using sample_ngn by blast
  from strict_rate_official [OF rtranclp.rtrancl_refl run] run show ?thesis by auto
qed

subsection \<open>The age of a rate\<close>

definition since :: "(instant \<times> rat) list \<Rightarrow> rat \<Rightarrow> instant \<Rightarrow> bool" where
  "since hist r t \<longleftrightarrow> (\<exists>(u, c) \<in> set hist. (r = c \<or> r = numeric 4 c) \<and> t \<le> u)"

lemma since_mono: "since hist r t \<Longrightarrow> set hist \<subseteq> set hist' \<Longrightarrow> t' \<le> t \<Longrightarrow> since hist' r t'"
  unfolding since_def by (auto intro!: bexI [rotated] elim: order_trans)

lemma since_quotes:
  "fetch_ngn_from_cbn env = Inr c \<Longrightarrow> since (hist @ quotes env) c (fe_now env) \<and> since (hist @ quotes env) (numeric 4 c) (fe_now env)"
  by (auto simp: since_def quotes_def)

definition horizon :: "int \<Rightarrow> int" where
  "horizon ttl = seconds (3600 * max 1 ttl)"

lemma horizon_pos: "0 < horizon ttl"
  by (simp add: horizon_def)

definition fx_aged :: "int \<Rightarrow> fx_state \<times> (instant \<times> rat) list \<Rightarrow> bool" where
  "fx_aged ttl c \<longleftrightarrow>
     (\<forall>e. map_of (fx_l1 (fst c)) ''NGN'' = Some e \<and> l1_provider e = Some ''cbn_nfem''
        \<longrightarrow> since (snd c) (l1_rate e) (l1_updated e - 2 * horizon ttl))
     \<and> (\<forall>r u. redis_quote (fst c) = Some (r, u, Some ''cbn_nfem'')
        \<longrightarrow> (\<exists>t. u = Some (unix_time t) \<and> since (snd c) r (t - horizon ttl)))
     \<and> (\<forall>row. rate_row ''NGN'' (fst c) = Some row \<and> xr_provider row = ''cbn_nfem''
        \<longrightarrow> since (snd c) (xr_rate row) (xr_last_updated row))"

lemma fx_aged_mono: "fx_aged ttl (s, hist) \<Longrightarrow> set hist \<subseteq> set hist' \<Longrightarrow> fx_aged ttl (s, hist')"
  unfolding fx_aged_def fst_conv snd_conv by (meson order_refl since_mono)

lemma fx_aged_l1:
  assumes "fx_aged ttl (s, hist)" "c = ''NGN'' \<Longrightarrow> p = Some ''cbn_nfem'' \<Longrightarrow> since hist r (fe_now env - 2 * horizon ttl)"
  shows "fx_aged ttl (write_l1_rate env c r p s, hist)"
  using assms by (auto simp: fx_aged_def)

lemma fx_aged_redis:
  assumes "fx_aged ttl (s, hist)" "c = ''NGN'' \<Longrightarrow> p = Some ''cbn_nfem'' \<Longrightarrow> since hist r (fe_now env - horizon ttl)"
  shows "fx_aged ttl (write_redis_rate env c r p s, hist)"
  using assms by (auto simp: fx_aged_def redis_quote_write)

lemma fx_aged_upsert:
  assumes "fx_aged ttl (s, hist)" "c = ''NGN'' \<Longrightarrow> p = ''cbn_nfem'' \<Longrightarrow> since hist (numeric 4 r) now"
  shows "fx_aged ttl (apply_db_rate_upsert now c r p s, hist)"
  using assms rate_row_upsert_same [of c now r p s] rate_row_upsert_other [of "''NGN''" c now r p s]
  by (cases "c = ''NGN''") (auto simp: fx_aged_def)

lemma live_aged:
  assumes "live_rate env strict c s = (out, t)" "fx_aged ttl (s, hist)"
  shows "fx_aged ttl (t, hist @ quotes env)"
proof -
  have base: "fx_aged ttl (s, hist @ quotes env)" by (rule fx_aged_mono [OF assms(2)]) simp
  have "fx_aged ttl (noted env r s, hist @ quotes env)" if "fetch_ngn_from_cbn env = Inr r" for r
    using since_quotes [OF that, of hist] horizon_pos [of ttl] base
    by (auto intro!: fx_aged_redis fx_aged_l1 elim!: since_mono)
  with assms(1) base show ?thesis
    by (cases rule: live_rate_cases) (auto intro: fx_aged_upsert dest: since_quotes)
qed

lemma redis_hit_since:
  assumes "fx_aged ttl (s, hist)" "redis_hit env strict ''NGN'' s = Some (r, Some ''cbn_nfem'')" "fe_ttl_hours env = ttl"
  shows "since hist r (fe_now env - 2 * horizon ttl)"
proof -
  from redis_hit_quote [OF assms(2)] obtain u where u: "redis_quote s = Some (r, Some u, Some ''cbn_nfem'')"
    "unix_time (fe_now env) - u \<le> of_int (cache_ttl_hours env * 3600)" by blast
  with assms(1) obtain t where t: "u = unix_time t" "since hist r (t - horizon ttl)" by (auto simp: fx_aged_def)
  have "(of_int (fe_now env) - of_int t) / 1000000 \<le> (of_int (max 1 ttl * 3600) :: rat)"
    using u(2) t(1) assms(3) by (simp add: unix_time_def cache_ttl_hours_def diff_divide_distrib)
  then have "(of_int (fe_now env - t) :: rat) \<le> of_int (max 1 ttl * 3600 * 1000000)" by simp
  then have "fe_now env - t \<le> max 1 ttl * 3600 * 1000000" by (simp only: of_int_le_iff)
  then have "fe_now env - 2 * horizon ttl \<le> t - horizon ttl" by (simp add: horizon_def seconds_def)
  with t(2) show ?thesis by (auto elim: since_mono)
qed

lemma get_rate_aged:
  assumes "get_rate env strict cur s = (out, t)" "fx_aged ttl (s, hist)" "fe_ttl_hours env = ttl"
    "normalize_currency cur = ''NGN'' \<Longrightarrow> strict"
  shows "fx_aged ttl (t, hist @ quotes env)"
  using assms(1) refl
proof (cases rule: get_rate_cases)
  case (redis r p)
  have "fx_aged ttl (write_l1_rate env (normalize_currency cur) r p s, hist)"
    by (rule fx_aged_l1 [OF assms(2)]) (use redis(1) redis_hit_since [OF assms(2) _ assms(3), of strict r] in simp)
  with redis(3) show ?thesis by (auto intro: fx_aged_mono)
next
  case (db row)
  have old: "since hist (xr_rate row) (fe_now env - horizon ttl)" if "normalize_currency cur = ''NGN''" "xr_provider row = ''cbn_nfem''"
  proof -
    have "since hist (xr_rate row) (xr_last_updated row)" using assms(2) db(1) that by (simp add: fx_aged_def)
    moreover have "is_fresh env (xr_last_updated row)" using db(2) by (auto simp: db_hit_def split: if_splits)
    then have "fe_now env - horizon ttl \<le> xr_last_updated row" using assms(3) by (simp add: is_fresh_def cache_ttl_hours_def horizon_def)
    ultimately show ?thesis by (auto elim: since_mono)
  qed
  have "fx_aged ttl (t, hist)"
    unfolding db(4) by (intro fx_aged_redis fx_aged_l1) (use assms(2) old horizon_pos [of ttl] in \<open>auto elim!: since_mono\<close>)
  then show ?thesis by (auto intro: fx_aged_mono)
next
  case (live out1)
  show ?thesis by (rule live_aged [OF live(1) assms(2)])
next
  case (degraded e row s1)
  have "t = s1 \<or> normalize_currency cur \<noteq> ''NGN'' \<and> (\<exists>r p. t = write_l1_rate env (normalize_currency cur) r p s1)"
    using degraded(3) assms(4) by (auto simp: degraded_rate_def split: option.splits if_splits)
  with live_aged [OF degraded(1) assms(2)] show ?thesis by (auto intro: fx_aged_l1)
qed (use assms(2) in \<open>auto intro: fx_aged_mono\<close>)

text \<open>Runs in which nobody asks for the naira without being strict, with one configured age limit.\<close>

inductive strict_step :: "int \<Rightarrow> fx_state \<times> (instant \<times> rat) list \<Rightarrow> fx_state \<times> (instant \<times> rat) list \<Rightarrow> bool" for ttl where
  call: "get_rate env strict cur s = (out, t) \<Longrightarrow> fe_ttl_hours env = ttl \<Longrightarrow> (normalize_currency cur = ''NGN'' \<longrightarrow> strict)
    \<Longrightarrow> strict_step ttl (s, hist) (t, hist @ quotes env)"
| manual: "provider \<noteq> ''cbn_nfem'' \<Longrightarrow> strict_step ttl (s, hist) (apply_exchange_rate_update now rate provider s, hist)"
| restart: "strict_step ttl (s, hist) (s\<lparr>fx_l1 := [(''USD'', usd)]\<rparr>, hist)"

lemma strict_step_aged: "strict_step ttl c d \<Longrightarrow> fx_aged ttl c \<Longrightarrow> fx_aged ttl d"
proof (induction rule: strict_step.induct)
  case (call env strict cur s out t hist)
  then show ?case by (auto intro: get_rate_aged)
next
  case (manual provider s hist now rate)
  then show ?case by (auto simp: apply_exchange_rate_update_def intro: fx_aged_upsert)
next
  case (restart s hist usd)
  then show ?case by (auto simp: fx_aged_def redis_quote_def rate_row_def)
qed

interpretation strict_rates: machine "strict_step ttl" "fx_aged ttl"
  by unfold_locales (rule strict_step_aged)

text \<open>
  As long as nobody asks for the naira without being strict, a strict rate was quoted by the central
  bank at most twice the configured age limit and five minutes ago: once the limit in the table, once in
  Redis, and the five minutes of the process cache.
\<close>

theorem strict_rate_fresh:
  assumes "(strict_step ttl)\<^sup>*\<^sup>* (empty_fx, []) (s, hist)" and "get_ngn_rate env s = (Inr r, t)" and "fe_ttl_hours env = ttl"
  shows "\<exists>(u, c) \<in> set (hist @ quotes env). (r = c \<or> r = numeric 4 c)
    \<and> fe_now env - (2 * seconds (3600 * max 1 ttl) + seconds 300) \<le> u"
proof -
  have "fx_aged ttl (empty_fx, [])" by (simp add: fx_aged_def empty_fx_def redis_quote_def rate_row_def first_row_def)
  then have aged: "fx_aged ttl (s, hist)" by (rule strict_rates.run_inv [OF assms(1)])
  have ngn: "normalize_currency (Some ''NGN'') = ''NGN''" by code_simp
  from assms(2) [unfolded get_ngn_rate_def] ngn have "since (hist @ quotes env) r (fe_now env - (2 * horizon ttl + seconds 300))"
  proof (cases rule: get_rate_cases)
    case (l1 r')
    then obtain e where e: "map_of (fx_l1 s) ''NGN'' = Some e" "l1_provider e = Some ''cbn_nfem''" "l1_rate e = r"
      "fe_now env - l1_updated e \<le> seconds 300"
      by (auto simp: l1_hit_def acceptable_def l1_ttl_seconds_def split: option.splits if_splits)
    with aged have "since hist r (l1_updated e - 2 * horizon ttl)" by (auto simp: fx_aged_def)
    then show ?thesis by (rule since_mono) (use e(4) in auto)
  next
    case (redis r' p)
    then have "p = Some ''cbn_nfem''" by (auto dest: hit_labelled)
    with redis redis_hit_since [OF aged _ assms(3)] have "since hist r (fe_now env - 2 * horizon ttl)" by auto
    then show ?thesis by (rule since_mono) (simp_all add: seconds_def)
  next
    case (db row)
    then have "xr_provider row = ''cbn_nfem''" "is_fresh env (xr_last_updated row)"
      by (auto simp: db_hit_def acceptable_def split: if_splits)
    then have "since hist r (xr_last_updated row)" "fe_now env - horizon ttl \<le> xr_last_updated row"
      using aged db assms(3) by (auto simp: fx_aged_def is_fresh_def cache_ttl_hours_def horizon_def)
    then show ?thesis using horizon_pos [of ttl] by (auto simp: seconds_def elim!: since_mono)
  next
    case (live out1)
    from live(1) live(2) [symmetric] have "fetch_ngn_from_cbn env = Inr r" by (cases rule: live_rate_cases) auto
    from since_quotes [OF this, of hist] horizon_pos [of ttl] show ?thesis by (auto simp: seconds_def elim!: since_mono)
  next
    case (degraded e row s1)
    from degraded(3) show ?thesis by (simp add: degraded_rate_def split: option.splits)
  qed simp_all
  then show ?thesis unfolding since_def horizon_def by blast
qed

lemma strict_rate_fresh_witness:
  "\<exists>t. get_ngn_rate (sample_fx_env 5) empty_fx = (Inr 1500, t)
     \<and> (\<exists>(u, c) \<in> set (quotes (sample_fx_env 5)). ((1500::rat) = c \<or> 1500 = numeric 4 c) \<and> 5 - (2 * seconds (3600 * 24) + seconds 300) \<le> u)"
proof -
  obtain t where run: "get_ngn_rate (sample_fx_env 5) empty_fx = (Inr 1500, t)" using sample_ngn by blast
  have "fe_ttl_hours (sample_fx_env 5) = 24" "fe_now (sample_fx_env 5) = 5" by (simp_all add: sample_fx_env_def)
  with strict_rate_fresh [OF rtranclp.rtrancl_refl run] run show ?thesis by auto
qed

text \<open>
  C28. A caller that is not strict launders a stale rate: when the table's official rate is too old and the
  central bank cannot be reached, the strict lookup refuses; but after one lookup that is not strict the
  old rate is in the process cache with a new time stamp, and for the next five minutes the strict lookup
  returns it, whatever its age.
\<close>

theorem stale_rate_laundered:
  assumes "rate_row ''NGN'' s = Some row" and "xr_provider row = ''cbn_nfem''" and "xr_rate row \<noteq> 0"
    and "\<not> is_fresh env (xr_last_updated row)" and "map_of (fx_l1 s) ''NGN'' = None" and "redis_quote s = None"
    and "fe_read_error env = None" and "fe_http env = Inl e" and "live_provider_recoverable e"
    and "fe_now env2 \<le> fe_now env + seconds 300"
  shows "fst (get_ngn_rate env s) = Inl (RuntimeError ''NGN rate is stale and live refresh failed'')
    \<and> (\<exists>t. get_rate env False (Some ''NGN'') s = (Inr (xr_rate row), t) \<and> get_ngn_rate env2 t = (Inr (xr_rate row), t))"
proof -
  have ngn: "normalize_currency (Some ''NGN'') = ''NGN''" by code_simp
  have "read_redis_rate env ''NGN'' s = None" using assms(6) read_redis_quote [of env s] by (cases "read_redis_rate env ''NGN'' s") auto
  then have miss: "l1_hit env b ''NGN'' s = None" "redis_hit env b ''NGN'' s = None" "db_hit env b ''NGN'' (Some row) = None" for b
    using assms(4,5) by (simp_all add: l1_hit_def redis_hit_def db_hit_def)
  have live: "live_rate env b ''NGN'' s = (Inl (ValueError (''cbn_nfem:'' @ err_message e)), s)" for b
    using assms(8,9) by (simp add: live_rate_def fetch_live_rate_def fetch_ngn_from_cbn_def)
  have read: "read_db_rate env ''NGN'' s = Inr (Some row)" using assms(1,7) by (simp add: read_db_rate_def)
  have refused: "fst (get_ngn_rate env s) = Inl (RuntimeError ''NGN rate is stale and live refresh failed'')"
    by (simp add: get_ngn_rate_def get_rate_def ngn miss live read degraded_rate_def Let_def)
  let ?t = "write_l1_rate env ''NGN'' (xr_rate row) (Some ''cbn_nfem'') s"
  have "get_rate env False (Some ''NGN'') s = (Inr (xr_rate row), ?t)"
    using assms(2) by (simp add: get_rate_def ngn miss live read degraded_rate_def Let_def)
  moreover have "l1_hit env2 True ''NGN'' ?t = Some (xr_rate row)"
    using assms(3,10) by (simp add: l1_hit_def acceptable_def l1_ttl_seconds_def)
  then have "get_ngn_rate env2 ?t = (Inr (xr_rate row), ?t)" by (simp add: get_ngn_rate_def get_rate_def ngn Let_def)
  ultimately show ?thesis using refused by blast
qed

definition down_fx_env :: "instant \<Rightarrow> fx_env" where
  "down_fx_env now = (sample_fx_env now)\<lparr>fe_http := Inl (HTTPError ''timeout'')\<rparr>"

definition stale_fx :: fx_state where
  "stale_fx = \<lparr>fx_l1 = [], fx_redis = [], fx_rows = [\<lparr>xr_from_currency = ''USD'', xr_to_currency = ''NGN'', xr_rate = 900,
     xr_provider = ''cbn_nfem'', xr_last_updated = 0\<rparr>]\<rparr>"

lemma stale_rate_laundered_witness:
  "fst (get_ngn_rate (down_fx_env (seconds 864000)) stale_fx) = Inl (RuntimeError ''NGN rate is stale and live refresh failed'')
   \<and> (\<exists>t. get_rate (down_fx_env (seconds 864000)) False (Some ''NGN'') stale_fx = (Inr 900, t)
      \<and> get_ngn_rate (down_fx_env (seconds 864100)) t = (Inr 900, t))"
proof -
  have "rate_row ''NGN'' stale_fx = Some (hd (fx_rows stale_fx))" "\<not> is_fresh (down_fx_env (seconds 864000)) 0"
    by (simp_all add: rate_row_def first_row_def stale_fx_def is_fresh_def down_fx_env_def sample_fx_env_def cache_ttl_hours_def seconds_def)
  from stale_rate_laundered [OF this(1), of "down_fx_env (seconds 864000)" "HTTPError ''timeout''" "down_fx_env (seconds 864100)"] this(2)
  show ?thesis by (simp add: stale_fx_def redis_quote_def) (simp add: down_fx_env_def sample_fx_env_def seconds_def)
qed

subsection \<open>Conversion\<close>

lemma round_half_up_error: "\<bar>of_int (round_half_up x) - x\<bar> \<le> 1 / 2"
proof -
  have "of_int \<lfloor>z\<rfloor> \<le> z" "z < of_int \<lfloor>z\<rfloor> + 1" for z :: rat by linarith+
  from this [of "x + 1 / 2"] this [of "- x + 1 / 2"] show ?thesis
    unfolding round_half_up_def abs_le_iff by (cases "0 \<le> x") (simp_all only: if_True if_False of_int_minus, linarith+)
qed

lemma round_half_up_mono: "x \<le> y \<Longrightarrow> round_half_up x \<le> round_half_up y"
proof -
  assume le: "x \<le> y"
  show ?thesis
  proof (cases "x < 0 \<and> 0 \<le> y")
    case True
    then have "0 \<le> \<lfloor>- x + 1 / 2\<rfloor>" "0 \<le> \<lfloor>y + 1 / 2\<rfloor>" unfolding zero_le_floor by linarith+
    with True show ?thesis unfolding round_half_up_def by (simp only: not_less [symmetric] if_True if_False not_True_eq_False not_False_eq_True)
  next
    case False
    with le show ?thesis by (auto simp: round_half_up_def intro: floor_mono)
  qed
qed

text \<open>
  The amount charged in kobo is the dollar price at the rate, to the nearest kobo, and never less for
  a higher price or a higher rate.
\<close>

theorem ngn_conversion_exact:
  "\<bar>of_int (convert_usd_to_ngn_subunits usd rate) - usd * rate * 100\<bar> \<le> 1 / 2
   \<and> (0 \<le> rate \<and> usd \<le> usd' \<longrightarrow> convert_usd_to_ngn_subunits usd rate \<le> convert_usd_to_ngn_subunits usd' rate)
   \<and> (0 \<le> usd \<and> rate \<le> rate' \<longrightarrow> convert_usd_to_ngn_subunits usd rate \<le> convert_usd_to_ngn_subunits usd rate')"
  unfolding convert_usd_to_ngn_subunits_def
  by (intro conjI impI round_half_up_error round_half_up_mono) (simp_all add: mult_right_mono mult_left_mono)

lemma ngn_conversion_exact_witness: "convert_usd_to_ngn_subunits 29 1500 \<le> convert_usd_to_ngn_subunits 49 1500"
  using ngn_conversion_exact [of 29 1500 49 1500] by simp

end
