(* ===== verification/Bill_Samples.thy ===== *)
theory Bill_Samples
  imports Bill_Runs Fx_Theorems Enf_Export_Theorems
begin

text \<open>A small deployment, on which the properties of billing are applied.\<close>

definition sample_event :: json where
  "sample_event = JObj [(''event'', JStr ''charge.success''), (''data'', JObj [(''reference'', JStr ''r1'')])]"

definition sample_bill_env :: bill_env where
  "sample_bill_env = \<lparr>be_now = 100, be_fx = sample_fx_env 100, be_environment = ''development'', be_testing = False,
     be_secret_key = ''sk'', be_allowed_ips = [''1.2.3.4''], be_default_currency = None, be_usd_checkout = True,
     be_plan_code = (\<lambda>_ _. None), be_seal = (\<lambda>_ s. CHR ''*'' # s),
     be_unseal = (\<lambda>_ s. if s \<noteq> [] \<and> hd s = CHR ''*'' then Some (tl s) else None), be_blind_index = Some,
     be_hmac_sha512 = (\<lambda>k b. k @ b), be_sha256 = (\<lambda>s. s), be_loads = (\<lambda>_. Inr sample_event),
     be_http = (\<lambda>_ _ _. Inr (JObj [(''status'', JBool True), (''data'', JObj [(''status'', JStr ''success''), (''reference'', JStr ''r2'')])])),
     be_mail = (\<lambda>_. None), be_audit_error = None, be_fresh_text = ''fresh''\<rparr>"

definition sample_subscription :: tenant_subscription where
  "sample_subscription = (new_subscription 5 7 ''pro'')\<lparr>ts_paystack_auth_code := Some ''*AUTH'', ts_billing_currency := ''USD'',
     ts_next_payment_date := Some 50\<rparr>"

definition sample_bill_db :: bill_db where
  "sample_bill_db = \<lparr>jq_jobs = [], jq_next_id = 1, bd_next_id = 6, bd_subscriptions = [sample_subscription],
     bd_tenants = [\<lparr>tn_id = 7, tn_plan = ''pro''\<rparr>, \<lparr>tn_id = 8, tn_plan = ''free''\<rparr>],
     bd_users = [\<lparr>us_id = 3, us_tenant_id = 7, us_email = ''*owner'', us_email_bidx = None\<rparr>],
     bd_plans = [(''pro'', 49)], bd_audit = [], bd_fx = empty_fx, bd_tier_cache = [], bd_outbox = []\<rparr>"

lemma sample_subscription_fields [simp]:
  "ts_id sample_subscription = 5" "ts_tenant_id sample_subscription = 7" "ts_tier sample_subscription = ''pro''"
  "ts_status sample_subscription = ''active''" "ts_paystack_auth_code sample_subscription = Some ''*AUTH''"
  "ts_billing_currency sample_subscription = ''USD''" "ts_next_payment_date sample_subscription = Some 50"
  "ts_dunning_attempts sample_subscription = 0" "ts_last_dunning_at sample_subscription = None"
  "ts_paystack_subscription_code sample_subscription = None"
  by (simp_all add: sample_subscription_def new_subscription_def)

lemma sample_bill_fields [simp]:
  "jq_jobs sample_bill_db = []" "bd_subscriptions sample_bill_db = [sample_subscription]"
  "bd_users sample_bill_db = [\<lparr>us_id = 3, us_tenant_id = 7, us_email = ''*owner'', us_email_bidx = None\<rparr>]"
  "bd_tenants sample_bill_db = [\<lparr>tn_id = 7, tn_plan = ''pro''\<rparr>, \<lparr>tn_id = 8, tn_plan = ''free''\<rparr>]"
  "bd_plans sample_bill_db = [(''pro'', 49)]" "jq_next_id sample_bill_db = 1"
  by (simp_all add: sample_bill_db_def)

lemma tier_of_pro: "tier_of_value ''pro'' = Some PRO"
  by (simp add: tier_of_value_def all_tiers_def)

lemma sample_bill_inv: "bill_inv sample_bill_db"
  by (simp add: bill_inv_def sample_bill_db_def subscription_ok_def tier_of_pro)

lemma sample_bill_queue: "queue_inv (sample_bill_db, [])"
  by (simp add: queue_inv_def jobs_ok_def)

lemma sample_found: "find_subscription 5 sample_bill_db = Some sample_subscription"
  by (simp add: find_subscription_def first_row_def)

definition sample_request :: webhook_request where
  "sample_request = \<lparr>wr_client_ip = ''1.2.3.4'', wr_content_type = ''application/json'', wr_signature = ''sk{}'', wr_body = ''{}''\<rparr>"

lemma sample_guard: "webhook_guard sample_bill_env sample_request = Inr ()"
proof -
  have "contains ''application/json'' ''application/json''" by code_simp
  then show ?thesis by (simp add: webhook_guard_def sample_bill_env_def sample_request_def verify_signature_def)
qed

lemma sample_parts: "webhook_parts sample_bill_env sample_request = Inr
  ([(''event'', JStr ''charge.success''), (''data'', JObj [(''reference'', JStr ''r1'')])], JStr ''charge.success'', JStr ''r1'')"
  by (simp add: webhook_parts_def sample_bill_env_def sample_request_def sample_event_def attr_get_def attr_get_obj_def dict_get_default_def)

lemma sample_accepted: "\<exists>answer j db'. receive_webhook sample_bill_env sample_request sample_bill_db = (Inr answer, db') \<and> jq_jobs db' = [j]"
proof -
  have "webhook_key p k \<noteq> ''''" for p k by (simp add: webhook_key_def)
  then show ?thesis
    by (simp add: receive_webhook_def sample_guard sample_parts store_webhook_def enqueue_job_def insert_job_def Let_def
      find_by_key_def first_row_def)
qed

end
