(* ===== verification/Bill_Theorems.thy ===== *)
theory Bill_Theorems
  imports Bill_Samples
begin

text \<open>
  Billing as a whole: its jobs keep the queue and its own tables well formed and touch one tenant each,
  webhooks act only on what the provider has signed and once per event, and the renewal sweep enqueues
  exactly what is due.
\<close>

text \<open>
  C26. A worker that processes a batch of billing jobs keeps the invariant of the queue and of the billing
  tables: identifiers and tenants of subscriptions are unique, every subscription belongs to a tenant
  and has a known status and tier.
\<close>

theorem billing_batch_invariant:
  assumes "queue_inv (db, h)" and "bill_inv db"
    and "process_pending_jobs (handler_registry env deliver) clock locked w limit t ty now db = (out, db')"
  shows "queue_inv (db', h) \<and> bill_inv db'"
proof -
  have "queue_step\<^sup>*\<^sup>* (db, h) (db', h) \<and> bill_inv db'" by (rule billing_jobs.process_pending_run [OF assms(3,2)])
  then show ?thesis using queue.run_inv [OF _ assms(1)] by blast
qed

lemma billing_batch_invariant_witness:
  "\<exists>out db'. process_pending_jobs (handler_registry sample_bill_env (\<lambda>_. Inr [])) (\<lambda>_. (100, 100)) (\<lambda>_. False) ''w'' None None None 100
      sample_bill_db = (out, db') \<and> queue_inv (db', []) \<and> bill_inv db'"
  using billing_batch_invariant [OF sample_bill_queue sample_bill_inv] by (metis surj_pair)

text \<open>
  A billing job changes the rows of one tenant only: the subscriptions and plans of all others, the
  users, the plans and the job table stay as they are, and what is written to the audit log is about that
  tenant. A renewal touches nobody but the tenant of its job.
\<close>

theorem billing_job_isolated:
  assumes "bill_inv db" and "handler_registry env deliver ty = Some handler" and "handler job db = (out, db')"
  shows "\<exists>t. only_tenant t db db' \<and> (ty = ''recurring_billing'' \<and> db' \<noteq> db \<longrightarrow> bj_tenant_id job = Some t)"
proof (cases "ty = ''recurring_billing''")
  case True
  with assms(2,3) have db': "db' = snd (recurring_billing env job db)" by (auto simp: handler_registry_def to_outcome_def)
  show ?thesis
  proof (cases "bj_tenant_id job")
    case None
    with db' have "db' = db" by (simp add: recurring_billing_idle)
    with billing.below_refl show ?thesis by blast
  next
    case (Some t)
    have "recurring_billing env job db = (fst (recurring_billing env job db), db')" by (simp add: db')
    from recurring_billing_run [OF this Some] have "only_tenant t db db'" by (rule billing.run_below [OF _ assms(1)])
    with Some show ?thesis by blast
  qed
next
  case False
  from handler_runs [OF assms(2,3,1)] obtain t where "(bill_step t)\<^sup>*\<^sup>* db db'" by blast
  with billing.run_below assms(1) False show ?thesis by blast
qed

lemma billing_job_isolated_witness:
  "\<exists>handler out db' t. handler_registry sample_bill_env (\<lambda>_. Inr []) ''dunning'' = Some handler
     \<and> handler (new_job 1 ''dunning'' (Some 7) None 0 3 None 0) sample_bill_db = (out, db') \<and> only_tenant t sample_bill_db db'"
proof -
  obtain handler :: "background_job \<Rightarrow> bill_db \<Rightarrow> handler_outcome \<times> bill_db"
    where h: "handler_registry sample_bill_env (\<lambda>_. Inr []) ''dunning'' = Some handler" by (simp add: handler_registry_def)
  obtain out db' where r: "handler (new_job 1 ''dunning'' (Some 7) None 0 3 None 0) sample_bill_db = (out, db')" by (rule prod.exhaust)
  from billing_job_isolated [OF sample_bill_inv h r] h r show ?thesis by blast
qed

subsection \<open>Webhooks\<close>

definition genuine :: "bill_env \<Rightarrow> string \<Rightarrow> string \<Rightarrow> bool" where
  "genuine env body signature \<longleftrightarrow> be_secret_key env \<noteq> '''' \<and> signature = be_hmac_sha512 env (be_secret_key env) body"

lemma verify_signature_genuine: "verify_signature env body signature = Inr True \<Longrightarrow> genuine env body signature"
  by (auto simp: verify_signature_def genuine_def split: if_splits)

lemma stored_event_genuine:
  "stored_event env payload = Inr (Inr (event, data)) \<Longrightarrow>
    \<exists>raw signature. dict_get payload ''raw_payload'' = JStr raw \<and> dict_get payload ''signature'' = JStr signature \<and> genuine env raw signature"
  by (auto simp: stored_event_def Let_def split: if_splits json.splits sum.splits bool.splits intro: verify_signature_genuine)

lemma webhook_guard_Inr:
  "webhook_guard env q = Inr u \<Longrightarrow> genuine env (wr_body q) (wr_signature q)
    \<and> (be_environment env = ''production'' \<or> be_environment env = ''staging'' \<longrightarrow> wr_client_ip q \<in> set (allowed_ips env))"
  by (auto simp: webhook_guard_def split: if_splits intro: verify_signature_genuine)

lemma store_webhook_cases:
  assumes "store_webhook env p ev data ref sig raw db = (r, db')"
  shows "(\<exists>j. r = Inr (Some j) \<and> jq_jobs db' = jq_jobs db @ [j]) \<or> db' = db"
proof -
  from assms obtain pl key where "(case insert_job db ''webhook_retry'' None pl None webhook_max_attempts key (be_now env) of
      (Inl e, db1) \<Rightarrow> (Inl e, db1) | (Inr (job, created), db1) \<Rightarrow> (Inr (if created then Some job else None), db1)) = (r, db')"
    by (auto simp: store_webhook_def enqueue_job_def Let_def)
  then show ?thesis by (auto simp: insert_job_def Let_def split: option.splits if_splits)
qed

lemma request_authentic:
  assumes "receive_webhook env q db = (r, db')" "db' \<noteq> db"
  shows "genuine env (wr_body q) (wr_signature q) \<and> (\<exists>j. jq_jobs db' = jq_jobs db @ [j])
    \<and> (be_environment env = ''production'' \<or> be_environment env = ''staging'' \<longrightarrow> wr_client_ip q \<in> set (allowed_ips env))"
proof -
  from assms obtain u data ev ref where guard: "webhook_guard env q = Inr u" and store: "webhook_parts env q = Inr (data, ev, ref)"
    by (auto simp: receive_webhook_def split: sum.splits)
  obtain r1 db1 where stored: "store_webhook env ''paystack'' ev data ref (Some (wr_signature q)) (Some (wr_body q)) db = (r1, db1)" by fastforce
  with assms(1) guard store have "db' = db1" by (auto simp: receive_webhook_def split: sum.splits option.splits)
  with store_webhook_cases [OF stored] assms(2) webhook_guard_Inr [OF guard] show ?thesis by blast
qed

lemma stored_authentic:
  assumes "dict_get (payload_of job) ''provider'' = JStr ''paystack''" and "snd (webhook_retry env deliver job db) \<noteq> db"
  shows "\<exists>raw signature. dict_get (payload_of job) ''raw_payload'' = JStr raw \<and> dict_get (payload_of job) ''signature'' = JStr signature
    \<and> genuine env raw signature"
proof -
  have "snd (process_paystack_webhook env job db) \<noteq> db"
    using assms by (simp add: webhook_retry_def dict_get_default_def dict_get_def split: option.splits)
  then obtain event data where "stored_event env (payload_of job) = Inr (Inr (event, data))"
    by (auto simp: process_paystack_webhook_def payload_of_def split: option.splits sum.splits if_splits)
  then show ?thesis by (rule stored_event_genuine)
qed

text \<open>
  C23. Nothing that the provider has not signed has an effect. A request changes the database only by
  storing one job, and only if it carries the HMAC of its body under the configured secret and, in
  production and staging, comes from an allowed address; and the job of a webhook of the provider changes
  the database only if the signature stored with it is the HMAC of the body stored with it.
\<close>

theorem webhook_authentic:
  "(\<forall>r db'. receive_webhook env q db = (r, db') \<and> db' \<noteq> db \<longrightarrow>
      genuine env (wr_body q) (wr_signature q) \<and> (\<exists>j. jq_jobs db' = jq_jobs db @ [j])
      \<and> (be_environment env = ''production'' \<or> be_environment env = ''staging'' \<longrightarrow> wr_client_ip q \<in> set (allowed_ips env)))
   \<and> (dict_get (payload_of job) ''provider'' = JStr ''paystack'' \<and> snd (webhook_retry env deliver job db) \<noteq> db \<longrightarrow>
      (\<exists>raw signature. dict_get (payload_of job) ''raw_payload'' = JStr raw \<and> dict_get (payload_of job) ''signature'' = JStr signature
        \<and> genuine env raw signature))"
  using request_authentic [of env q db] stored_authentic [of job env deliver db] by blast

lemma webhook_authentic_witness:
  "\<exists>r db'. receive_webhook sample_bill_env sample_request sample_bill_db = (r, db') \<and> db' \<noteq> sample_bill_db
     \<and> genuine sample_bill_env ''{}'' ''sk{}''"
proof -
  obtain answer j db' where r: "receive_webhook sample_bill_env sample_request sample_bill_db = (Inr answer, db')" "jq_jobs db' = [j]"
    using sample_accepted by blast
  then have "db' \<noteq> sample_bill_db" by auto
  with webhook_authentic [of sample_bill_env sample_request sample_bill_db] r(1) show ?thesis by (auto simp: sample_request_def)
qed

text \<open>
  A webhook is stored once: as long as the job of a request has not been purged, a later genuine
  request for the same event type and reference is answered as a duplicate and changes nothing, whatever
  the queue has done with the job meanwhile.
\<close>

theorem webhook_stored_once:
  assumes "queue_inv (db, h)"
    and "webhook_guard env q = Inr ()" "webhook_parts env q = Inr (data, ev, ref)"
    and "receive_webhook env q db = (Inr answer, db1)"
    and "queue_step\<^sup>*\<^sup>* (db1, h) (db2, h2)" and "set (map bj_id (jq_jobs db1)) \<subseteq> set (map bj_id (jq_jobs db2))"
    and "webhook_guard env' q' = Inr ()" "webhook_parts env' q' = Inr (data', ev', ref')"
    and "be_sha256 env' = be_sha256 env" "py_str ev' = py_str ev"
    and "resolve_reference env' data' ref' = resolve_reference env data ref"
  shows "receive_webhook env' q' db2 = (Inr [(''status'', JStr ''duplicate''), (''message'', JStr ''Already queued or processed'')], db2)"
proof -
  let ?key = "webhook_key ''paystack'' (generate_idempotency_key env ''paystack'' (py_str ev) (resolve_reference env data ref))"
  have key: "?key = webhook_key ''paystack'' (generate_idempotency_key env' ''paystack'' (py_str ev') (resolve_reference env' data' ref'))"
    using assms(9-11) by (simp add: generate_idempotency_key_def)
  obtain pl r1 where ins: "insert_job db ''webhook_retry'' None pl None webhook_max_attempts (Some ?key) (be_now env) = (r1, db1)"
    using assms(2-4) by (auto simp: receive_webhook_def store_webhook_def enqueue_job_def Let_def split: sum.splits option.splits prod.splits if_splits)
  have k: "?key \<noteq> ''''" by (simp add: webhook_key_def)
  then obtain j created where j: "r1 = Inr (j, created)" "j \<in> set (jq_jobs db1)"
    using ins by (auto simp: insert_job_def Let_def find_by_key_def dest: first_row_SomeD split: option.splits)
  have "bj_id j \<in> set (map bj_id (jq_jobs db2))" using assms(6) j(2) by auto
  from key_kept [OF assms(1) k ins [unfolded j(1)] assms(5) this]
  obtain row where row: "find_by_key db2 ?key = Some row" by blast
  have "store_webhook env' ''paystack'' ev' data' ref' (Some (wr_signature q')) (Some (wr_body q')) db2 = (Inr None, db2)"
    using row k unfolding key by (simp add: store_webhook_def enqueue_job_def insert_job_def Let_def)
  then show ?thesis using assms(7,8) by (simp add: receive_webhook_def)
qed

lemma webhook_stored_once_witness:
  "\<exists>answer db'. receive_webhook sample_bill_env sample_request sample_bill_db = (Inr answer, db') \<and> db' \<noteq> sample_bill_db
     \<and> receive_webhook sample_bill_env sample_request db'
       = (Inr [(''status'', JStr ''duplicate''), (''message'', JStr ''Already queued or processed'')], db')"
proof -
  obtain answer j db' where r: "receive_webhook sample_bill_env sample_request sample_bill_db = (Inr answer, db')" "jq_jobs db' = [j]"
    using sample_accepted by blast
  from webhook_stored_once [OF sample_bill_queue sample_guard sample_parts r(1) rtranclp.rtrancl_refl _ sample_guard sample_parts] r
  show ?thesis by auto
qed

subsection \<open>The renewal sweep\<close>

definition renewal_job :: "instant \<Rightarrow> tenant_subscription \<Rightarrow> background_job \<Rightarrow> bool" where
  "renewal_job now s j \<longleftrightarrow> bj_job_type j = ''recurring_billing'' \<and> bj_tenant_id j = Some (ts_tenant_id s)
     \<and> bj_payload j = Some [(''subscription_id'', JStr (uuid_text (ts_id s)))] \<and> bj_status j = JOB_PENDING
     \<and> bj_scheduled_for j = now \<and> bj_deduplication_key j = Some (renewal_key now s)"

lemma renewal_key_inject: "renewal_key now s = renewal_key now r \<longleftrightarrow> ts_tenant_id s = ts_tenant_id r"
  by (auto simp: renewal_key_def dest: uuid_text_inject)

lemma enqueue_renewal_cases:
  assumes "enqueue_renewal now s (n, db) = (n', db')"
  shows "if find_by_key db (renewal_key now s) = None
    then n' = n + 1 \<and> (\<exists>j. renewal_job now s j \<and> db' = db\<lparr>jq_jobs := jq_jobs db @ [j], jq_next_id := jq_next_id db + 1\<rparr>)
    else n' = n \<and> db' = db"
proof -
  let ?j = "new_job (jq_next_id db) ''recurring_billing'' (Some (ts_tenant_id s))
    (Some [(''subscription_id'', JStr (uuid_text (ts_id s)))]) now 3 (Some (renewal_key now s)) now"
  have "renewal_key now s \<noteq> ''''" by (simp add: renewal_key_def)
  moreover have "renewal_job now s ?j" by (simp add: renewal_job_def new_job_def)
  ultimately show ?thesis
    using assms by (auto simp: enqueue_renewal_def insert_job_def Let_def split: option.splits if_splits)
qed

lemma sweep_fold:
  assumes "distinct (map ts_tenant_id ss)" "fold (enqueue_renewal now) ss (n, db) = (n', db')"
  shows "let fresh = filter (\<lambda>s. find_by_key db (renewal_key now s) = None) ss in
    n' = n + length fresh
    \<and> (\<exists>js. list_all2 (renewal_job now) fresh js \<and> db' = db\<lparr>jq_jobs := jq_jobs db @ js, jq_next_id := jq_next_id db + length fresh\<rparr>)"
  using assms
proof (induction ss arbitrary: n db)
  case (Cons s ss)
  obtain n1 db1 where first: "enqueue_renewal now s (n, db) = (n1, db1)" by fastforce
  with Cons.prems have rest: "fold (enqueue_renewal now) ss (n1, db1) = (n', db')" "distinct (map ts_tenant_id ss)" by simp_all
  note IH = Cons.IH [OF rest(2,1)]
  have other: "find_by_key db1 (renewal_key now r) = find_by_key db (renewal_key now r)" if "r \<in> set ss" for r
  proof -
    have "ts_tenant_id r \<noteq> ts_tenant_id s" using Cons.prems(1) that by (auto simp: image_iff dest: sym)
    then have "renewal_key now s \<noteq> renewal_key now r" by (simp add: renewal_key_inject)
    with enqueue_renewal_cases [OF first] show ?thesis
      by (auto simp: find_by_key_def renewal_job_def first_row_append first_row_single split: if_splits option.splits)
  qed
  then have fresh: "filter (\<lambda>s. find_by_key db1 (renewal_key now s) = None) ss = filter (\<lambda>s. find_by_key db (renewal_key now s) = None) ss"
    by (intro filter_cong) auto
  from IH obtain js where js: "list_all2 (renewal_job now) (filter (\<lambda>s. find_by_key db (renewal_key now s) = None) ss) js"
      "n' = n1 + length (filter (\<lambda>s. find_by_key db (renewal_key now s) = None) ss)"
      "db' = db1\<lparr>jq_jobs := jq_jobs db1 @ js, jq_next_id := jq_next_id db1 + length (filter (\<lambda>s. find_by_key db (renewal_key now s) = None) ss)\<rparr>"
    unfolding fresh Let_def by blast
  show ?case
  proof (cases "find_by_key db (renewal_key now s) = None")
    case True
    with enqueue_renewal_cases [OF first] obtain j where j: "n1 = n + 1" "renewal_job now s j"
      "db1 = db\<lparr>jq_jobs := jq_jobs db @ [j], jq_next_id := jq_next_id db + 1\<rparr>" by auto
    with True js show ?thesis by (auto simp: Let_def intro!: exI [of _ "j # js"])
  next
    case False
    with enqueue_renewal_cases [OF first] js show ?thesis by (auto simp: Let_def)
  qed
qed simp

text \<open>
  The renewal sweep enqueues exactly one job for every due subscription whose tenant has none of that
  day yet, and nothing else; it reports their number, and sweeping again on the same day with the same
  subscriptions enqueues nothing.
\<close>

theorem billing_sweep_exact:
  assumes "bill_inv db" and "billing_sweep now locked db = (n, db')"
    and "take 10 (isoformat now') = take 10 (isoformat now)" and "\<And>s. renewal_due now' locked' s \<Longrightarrow> renewal_due now locked s"
  shows "(\<exists>js. list_all2 (renewal_job now)
        (filter (\<lambda>s. renewal_due now locked s \<and> find_by_key db (renewal_key now s) = None) (bd_subscriptions db)) js
      \<and> jq_jobs db' = jq_jobs db @ js \<and> n = length js)
    \<and> bd_subscriptions db' = bd_subscriptions db \<and> bill_inv db' \<and> billing_sweep now' locked' db' = (0, db')"
proof -
  let ?due = "filter (renewal_due now locked) (bd_subscriptions db)"
  have dist: "distinct (map ts_tenant_id (filter p (bd_subscriptions db)))" for p
    using assms(1) by (simp add: bill_inv_def distinct_map_filter)
  let ?fresh = "filter (\<lambda>s. find_by_key db (renewal_key now s) = None) ?due"
  from sweep_fold [OF dist assms(2) [unfolded billing_sweep_def]]
  obtain js where js: "list_all2 (renewal_job now) ?fresh js" "n = length ?fresh"
      "db' = db\<lparr>jq_jobs := jq_jobs db @ js, jq_next_id := jq_next_id db + length ?fresh\<rparr>" by (auto simp: Let_def)
  have len: "n = length js" using js(1,2) by (simp add: list_all2_lengthD)
  have subs: "bd_subscriptions db' = bd_subscriptions db" and inv: "bill_inv db'"
    using js(3) assms(1) by (simp_all add: bill_inv_def)
  have found: "find_by_key db' (renewal_key now s) \<noteq> None" if "s \<in> set ?due" for s
  proof (cases "find_by_key db (renewal_key now s)")
    case None
    with that have "s \<in> set ?fresh" by simp
    then obtain i where i: "i < length ?fresh" "?fresh ! i = s" unfolding in_set_conv_nth by blast
    with js(1) have "renewal_job now s (js ! i)" "js ! i \<in> set js" by (auto simp: list_all2_conv_all_nth)
    then show ?thesis unfolding find_by_key_def first_row_None js(3) by (auto simp: renewal_job_def)
  qed (use js(3) in \<open>simp add: find_by_key_def first_row_append\<close>)
  have same: "renewal_key now' s = renewal_key now s" for s by (simp add: renewal_key_def assms(3))
  obtain n2 db2 where again: "billing_sweep now' locked' db' = (n2, db2)" by fastforce
  have none: "filter (\<lambda>s. find_by_key db' (renewal_key now' s) = None) (filter (renewal_due now' locked') (bd_subscriptions db')) = []"
    using found assms(4) unfolding same subs by (auto simp: filter_empty_conv)
  have "distinct (map ts_tenant_id (filter (renewal_due now' locked') (bd_subscriptions db')))" unfolding subs by (rule dist)
  from sweep_fold [OF this again [unfolded billing_sweep_def]] have "n2 = 0 \<and> db2 = db'" unfolding none by (auto simp: Let_def)
  with again js len subs inv show ?thesis by (auto simp: conj_commute)
qed

lemma billing_sweep_exact_witness:
  "\<exists>db'. billing_sweep 100 (\<lambda>_. False) sample_bill_db = (1, db') \<and> length (jq_jobs db') = 1 \<and> billing_sweep 100 (\<lambda>_. False) db' = (0, db')"
proof -
  obtain n db' where r: "billing_sweep 100 (\<lambda>_. False) sample_bill_db = (n, db')" by (rule prod.exhaust)
  have "renewal_due 100 (\<lambda>_. False) sample_subscription" by (simp add: renewal_due_def)
  with billing_sweep_exact [OF sample_bill_inv r refl] r show ?thesis
    by (fastforce simp: find_by_key_def first_row_def list_all2_Cons1)
qed

end
