(* ===== verification/Bill_Charges.thy ===== *)
theory Bill_Charges
  imports Bill_Theorems
begin

text \<open>
  Charges and what becomes of them: the amount and the date of a renewal, the activation of a tenant by a
  successful charge, and dunning after failed ones.
\<close>

subsection \<open>Dates\<close>

text \<open>
  When the provider names no date, the next payment is one interval after the date that was due, if
  that lies less than an interval back, and one interval from now otherwise; it is never in the past.
\<close>

theorem fallback_date_exact:
  "compute_fallback_next_payment_date now s (infer_interval_days c)
      = (case ts_next_payment_date s of
           Some t \<Rightarrow> (if now - days (infer_interval_days c) < t then t else now) + days (infer_interval_days c)
         | None \<Rightarrow> now + days (infer_interval_days c))
    \<and> now < compute_fallback_next_payment_date now s (infer_interval_days c)"
proof -
  have "0 < days (infer_interval_days c)" by (simp add: infer_interval_days_def days_def seconds_def Let_def)
  then show ?thesis by (auto simp: compute_fallback_next_payment_date_def Let_def split: option.splits)
qed

subsection \<open>Dunning\<close>

lemma send_mail_rows: "send_mail env t m ss = (out, ss') \<Longrightarrow> fst ss' = fst ss \<and> same_rows (snd ss) (snd ss')"
  by (auto simp: send_mail_def on_session_def same_rows_def split: sum.splits option.splits if_splits)

lemma same_rows_refl [simp]: "same_rows db db"
  by (simp add: same_rows_def)

lemma same_rows_trans: "same_rows a b \<Longrightarrow> same_rows b c \<Longrightarrow> same_rows a c"
  by (simp add: same_rows_def)

lemma schedule_retry_reverts:
  assumes "schedule_retry env s n due (db, d) = (r, ss')"
  shows "same_rows db (snd ss') \<and> same_rows db (fst ss') \<and> (\<forall>answer. r = Inr answer \<longrightarrow> dict_get answer ''status'' = JStr ''enqueue_failed'')"
proof -
  let ?ss1 = "rollback (on_session (write_subscription (s\<lparr>ts_dunning_next_retry_at := Some due\<rparr>)) (db, d))"
  obtain r1 ss1 where mail: "send_mail env (ts_tenant_id s) (\<lambda>a. PaymentFailed a n due (ts_tier s)) ?ss1 = (r1, ss1)" by (rule prod.exhaust)
  have "same_rows db (snd ?ss1)" "same_rows db (fst ?ss1)"
    by (simp_all add: rollback_def on_session_def rolled_back_rows)
  with send_mail_rows [OF mail] have rows: "same_rows db (snd ss1)" "same_rows db (fst ss1)" using same_rows_trans by auto
  have "ss' = ss1 \<and> (\<forall>answer. r = Inr answer \<longrightarrow> dict_get answer ''status'' = JStr ''enqueue_failed'')"
    using assms mail by (cases r1) (auto simp: schedule_retry_def Let_def enqueue_dunning then_return_def)
  with rows show ?thesis by simp
qed

text \<open>
  C27. Dunning never gets past its first step. The payload of the retry job has the identifier of the
  subscription as a \<open>UUID\<close>, which the JSON column refuses; the attempt is rolled back, so that a failed payment
  with fewer than two recorded attempts leaves the subscription, its counter and the job table as they
  were, and the answer is \<open>enqueue_failed\<close>, however often payments fail.
\<close>

theorem dunning_stalls:
  assumes "find_subscription i db = Some s" and "0 \<le> ts_dunning_attempts s" "ts_dunning_attempts s < 2"
    and "\<not> webhook_debounced (be_now env) w s" and "process_failed_payment env i w (db, db) = (r, ss')"
  shows "same_rows db (snd ss') \<and> same_rows db (fst ss') \<and> find_subscription i (snd ss') = Some s
    \<and> (\<forall>answer. r = Inr answer \<longrightarrow> dict_get answer ''status'' = JStr ''enqueue_failed'')"
proof -
  let ?n = "ts_dunning_attempts s + 1"
  let ?s1 = "s\<lparr>ts_dunning_attempts := ?n, ts_last_dunning_at := Some (be_now env), ts_status := ''attention''\<rparr>"
  have "ts_dunning_attempts s = 0 \<or> ts_dunning_attempts s = 1" using assms(2,3) by linarith
  then obtain delay where "py_index dunning_retry_schedule_days (min (?n - 1) (int (length dunning_retry_schedule_days) - 1)) = Inr delay"
    by (auto simp: py_index_def dunning_retry_schedule_days_def)
  with assms have "schedule_retry env ?s1 ?n (be_now env + days delay) (db, db) = (r, ss')"
    by (simp add: process_failed_payment_def dunning_max_attempts_def Let_def)
  from schedule_retry_reverts [OF this] assms(1) show ?thesis by (simp add: find_subscription_def same_rows_def)
qed

lemma dunning_stalls_witness:
  "\<exists>r ss'. process_failed_payment sample_bill_env 5 True (sample_bill_db, sample_bill_db) = (r, ss')
     \<and> find_subscription 5 (snd ss') = Some sample_subscription \<and> jq_jobs (snd ss') = []"
proof -
  obtain r ss' where r: "process_failed_payment sample_bill_env 5 True (sample_bill_db, sample_bill_db) = (r, ss')" by (rule prod.exhaust)
  have "\<not> webhook_debounced (be_now sample_bill_env) True sample_subscription" by (simp add: webhook_debounced_def)
  from dunning_stalls [OF sample_found _ _ this r] r show ?thesis by (auto simp: same_rows_def)
qed

text \<open>
  The last attempt ends the subscription: with two or more recorded attempts a failed payment cancels
  it, puts it and the tenant's plan on the free tier and commits that before the notice is sent, so that the
  tenant is served the free tier from then on.
\<close>

theorem dunning_exhausted:
  assumes "bill_inv db" and "find_subscription i db = Some s" and "2 \<le> ts_dunning_attempts s"
    and "\<not> webhook_debounced (be_now env) w s" and "process_failed_payment env i w (db, db) = (r, ss')"
  shows "(\<exists>s'. find_subscription i (fst ss') = Some s' \<and> ts_status s' = ''cancelled'' \<and> ts_tier s' = ''free''
      \<and> ts_dunning_next_retry_at s' = None \<and> ts_canceled_at s' = Some (be_now env))
    \<and> (\<exists>n. first_row (\<lambda>n. tn_id n = ts_tenant_id s) (bd_tenants (fst ss')) = Some n \<and> tn_plan n = ''free'')
    \<and> same_rows (fst ss') (snd ss') \<and> only_tenant (ts_tenant_id s) db (fst ss')"
proof -
  let ?s1 = "s\<lparr>ts_dunning_attempts := ts_dunning_attempts s + 1, ts_last_dunning_at := Some (be_now env), ts_status := ''attention''\<rparr>"
  let ?s2 = "?s1\<lparr>ts_status := ''cancelled'', ts_tier := ''free'', ts_canceled_at := Some (be_now env), ts_dunning_next_retry_at := None\<rparr>"
  let ?db1 = "write_subscription ?s2 db"
  have final: "handle_final_failure env ?s1 (db, db) = (r, ss')"
    using assms(2-5) by (simp add: process_failed_payment_def dunning_max_attempts_def Let_def)
  note s = find_subscription_SomeD [OF assms(2)]
  have tenant: "ts_tenant_id s \<in> tn_id ` set (bd_tenants db)" and dist: "distinct (map tn_id (bd_tenants db))"
    using assms(1) s by (auto simp: bill_inv_def)
  have one: "count_where (\<lambda>n. tn_id n = ts_tenant_id s) (bd_tenants db) = 1"
    using count_where_one [OF dist tenant] .
  then obtain db2 where sync: "sync_tenant_plan (ts_tenant_id s) (Tier FREE) ?db1 = Inr db2"
    and db2: "db2 = ?db1\<lparr>bd_tenants := update_where (\<lambda>n. tn_id n = ts_tenant_id s) (\<lambda>n. n\<lparr>tn_plan := ''free''\<rparr>) (bd_tenants db),
      bd_tier_cache := clear_tenant_tier_cache (Some (uuid_text (ts_tenant_id s))) (bd_tier_cache db)\<rparr>"
    by (simp add: sync_tenant_plan_def normalize_pricing_tier_value_def)
  obtain r1 ss1 where mail: "send_mail env (ts_tenant_id s) AccountDowngraded (db2, db2) = (r1, ss1)" by (rule prod.exhaust)
  have ss': "ss' = ss1"
    using final sync mail by (auto simp: handle_final_failure_def Let_def on_session_def commit_def then_return_def)
  have rows: "fst ss' = db2" "same_rows (fst ss') (snd ss')" using send_mail_rows [OF mail] ss' by simp_all
  have "find_subscription i db2 = Some ?s2"
    using first_row_overwrite [of ts_id ?s2 "bd_subscriptions db" s] assms(2) s
    by (simp add: find_subscription_def db2)
  moreover have "first_row (\<lambda>n. tn_id n = ts_tenant_id s) (bd_tenants db) \<noteq> None" using tenant by (auto simp: first_row_None)
  then obtain n where "first_row (\<lambda>n. tn_id n = ts_tenant_id s) (bd_tenants db) = Some n" by blast
  then have "first_row (\<lambda>n. tn_id n = ts_tenant_id s) (bd_tenants db2) = Some (n\<lparr>tn_plan := ''free''\<rparr>)"
    using first_row_update_where_key [of tn_id "\<lambda>n. n\<lparr>tn_plan := ''free''\<rparr>" "ts_tenant_id s" "\<lambda>n. tn_id n = ts_tenant_id s" "bd_tenants db"]
    by (auto simp: db2 dest: first_row_SomeD)
  moreover have "session_run (ts_tenant_id s) db ss'"
    using assms(2) by (intro session_failed_payment [OF session_start _ assms(5)]) auto
  then have "only_tenant (ts_tenant_id s) db (fst ss')" using billing.run_below [OF _ assms(1)] by (simp add: session_run_def)
  ultimately show ?thesis using rows by auto
qed

lemma dunning_exhausted_witness:
  "\<exists>(db :: bill_db) r ss'. process_failed_payment sample_bill_env 5 False (db, db) = (r, ss') \<and> bill_inv db
     \<and> (\<exists>n. first_row (\<lambda>n. tn_id n = 7) (bd_tenants (fst ss')) = Some n \<and> tn_plan n = ''free'')"
proof -
  let ?s = "sample_subscription\<lparr>ts_dunning_attempts := 2\<rparr>"
  let ?db = "sample_bill_db\<lparr>bd_subscriptions := [?s]\<rparr>"
  have inv: "bill_inv ?db" using sample_bill_inv by (simp add: bill_inv_def subscription_ok_def)
  have s: "find_subscription 5 ?db = Some ?s" by (simp add: find_subscription_def first_row_def)
  obtain r ss' where r: "process_failed_payment sample_bill_env 5 False (?db, ?db) = (r, ss')" by (rule prod.exhaust)
  have "\<not> webhook_debounced (be_now sample_bill_env) False ?s" by (simp add: webhook_debounced_def)
  from dunning_exhausted [OF inv s _ this r]
  have "\<exists>n. first_row (\<lambda>n. tn_id n = 7) (bd_tenants (fst ss')) = Some n \<and> tn_plan n = ''free''" by simp
  with inv r show ?thesis by blast
qed

subsection \<open>Renewals\<close>

lemma charge_renewal_Inr_True:
  assumes "charge_renewal env s ss = (Inr True, ss')"
  obtains sealed code usd terms db1 email s' reference where "ts_paystack_auth_code s = Some sealed"
    "decrypt_string env ''api_key'' sealed = Inr (Some code)" "renewal_price s (snd ss) = Inr (Some usd)"
    "price_in env (renewal_currency s) usd (snd ss) = (Inr terms, db1)" "primary_email env (ts_tenant_id s) db1 = Inr (Some email)"
    "carry_out_charge env s email code (renewal_currency s) terms = Inr (Some (s', reference))"
    "record_renewal env s' usd terms reference (commit (fst ss, write_subscription s' db1)) = (Inr True, ss')"
  using assms unfolding charge_renewal_def
  by (auto split: option.splits sum.splits prod.splits if_splits intro: that)

lemma record_renewal_base: "record_renewal env s usd terms reference ss = (r, ss') \<Longrightarrow> fst ss' = fst ss"
  by (auto simp: record_renewal_def split: sum.splits)

lemma price_in_exact:
  "price_in env c usd db = (Inr (amount, rate, provider), db') \<Longrightarrow> \<bar>of_int amount - usd * rate * 100\<bar> \<le> 1 / 2"
  using round_half_up_error [of "usd * 100"] round_half_up_error [of "usd * rate * 100"]
  by (auto simp: price_in_def price_in_ngn_def usd_to_subunit_cents_def convert_usd_to_ngn_subunits_def
    split: if_splits prod.splits sum.splits)

text \<open>
  C25. A renewal that reports success has charged the stored authorisation: the provider has accepted a
  charge of the plan's dollar price at the rate of the renewal's currency, to the nearest smallest unit,
  and the committed subscription records exactly the amount, the rate and the provider of the rate that
  were sent.
\<close>

theorem renewal_charge_recorded:
  assumes "charge_renewal env s ss = (Inr True, ss')" and "find_subscription (ts_id s) (snd ss) = Some s"
  shows "\<exists>sealed code email usd amount rate provider db1 response charge s'.
    ts_paystack_auth_code s = Some sealed \<and> decrypt_string env ''api_key'' sealed = Inr (Some code)
    \<and> renewal_price s (snd ss) = Inr (Some usd) \<and> price_in env (renewal_currency s) usd (snd ss) = (Inr (amount, rate, provider), db1)
    \<and> \<bar>of_int amount - usd * rate * 100\<bar> \<le> 1 / 2
    \<and> charge_authorization env email amount code (renewal_metadata s (renewal_currency s) rate provider) = Inr response
    \<and> charge_accepted response = Inr (Some charge)
    \<and> find_subscription (ts_id s) (fst ss') = Some s' \<and> ts_last_charge_amount_subunits s' = Some amount
    \<and> ts_last_charge_fx_rate s' = Some (numeric 6 rate) \<and> ts_last_charge_fx_provider s' = Some provider
    \<and> ts_last_charge_at s' = Some (be_now env) \<and> ts_tier s' = ts_tier s \<and> ts_status s' = ts_status s"
proof -
  from assms(1) obtain sealed code usd terms db1 email s' reference where c: "ts_paystack_auth_code s = Some sealed"
    "decrypt_string env ''api_key'' sealed = Inr (Some code)" "renewal_price s (snd ss) = Inr (Some usd)"
    "price_in env (renewal_currency s) usd (snd ss) = (Inr terms, db1)"
    "carry_out_charge env s email code (renewal_currency s) terms = Inr (Some (s', reference))"
    "record_renewal env s' usd terms reference (commit (fst ss, write_subscription s' db1)) = (Inr True, ss')"
    by (rule charge_renewal_Inr_True)
  obtain amount rate provider where terms: "terms = (amount, rate, provider)" by (cases terms)
  obtain response charge where charged: "charge_authorization env email amount code (renewal_metadata s (renewal_currency s) rate provider) = Inr response"
      "charge_accepted response = Inr (Some charge)"
    and s': "ts_last_charge_amount_subunits s' = Some amount" "ts_last_charge_fx_rate s' = Some (numeric 6 rate)"
      "ts_last_charge_fx_provider s' = Some provider" "ts_last_charge_at s' = Some (be_now env)"
    using c(5) by (auto simp: carry_out_charge_def terms renewed_subscription_def split: option.splits)
  note same = carry_out_charge_same [OF c(5)]
  have "bd_subscriptions db1 = bd_subscriptions (snd ss)" using price_in_rows [OF c(4)] by (simp add: same_rows_def)
  then have "find_subscription (ts_id s) (fst ss') = Some s'"
    using first_row_overwrite [of ts_id s' "bd_subscriptions db1" s] record_renewal_base [OF c(6)] assms(2) same
    by (simp add: find_subscription_def commit_def)
  with c charged s' same price_in_exact [OF c(4) [unfolded terms]] show ?thesis unfolding terms by blast
qed

lemma renewal_charge_recorded_witness:
  "\<exists>ss'. charge_renewal sample_bill_env sample_subscription (sample_bill_db, sample_bill_db) = (Inr True, ss')
     \<and> (\<exists>s'. find_subscription 5 (fst ss') = Some s' \<and> ts_last_charge_fx_provider s' = Some ''native_usd'')"
proof -
  have usd: "renewal_currency sample_subscription = ''USD''" unfolding renewal_currency_def sample_subscription_fields by code_simp
  obtain ss' where r: "charge_renewal sample_bill_env sample_subscription (sample_bill_db, sample_bill_db) = (Inr True, ss')"
    by (simp add: charge_renewal_def usd decrypt_string_def sample_bill_env_def renewal_price_def to_decimal_usd_def decimal_of_def
      price_in_def primary_email_def first_row_def carry_out_charge_def charge_authorization_def paystack_request_def charge_accepted_def
      json_truthy_def subscript_def attr_get_def resolve_renewal_next_payment_date_def fetch_provider_next_payment_date_def
      record_renewal_def billing_audit_def)
  have found: "find_subscription (ts_id sample_subscription) (snd (sample_bill_db, sample_bill_db)) = Some sample_subscription"
    by (simp add: sample_found)
  from renewal_charge_recorded [OF r found] r show ?thesis by (auto simp: usd price_in_def)
qed

lemma primary_email_rows: "same_rows db db' \<Longrightarrow> primary_email env t db' = primary_email env t db"
  by (simp add: primary_email_def same_rows_def)

text \<open>
  In production and staging no renewal is ever charged. The address of a user is decrypted by the type
  of its column, and the renewal decrypts it once more; when a plain address is not a ciphertext, that
  raises, so that the renewal neither succeeds nor changes a row.
\<close>

theorem renewal_blocked:
  assumes "be_environment env = ''production'' \<or> be_environment env = ''staging''" and "\<not> be_testing env"
    and "first_row (\<lambda>u. us_tenant_id u = ts_tenant_id s) (bd_users (snd ss)) = Some u" and "us_email u \<noteq> ''''"
    and "be_unseal env ''pii'' (us_email u) = None" and "charge_renewal env s ss = (r, ss')"
  shows "r \<noteq> Inr True \<and> fst ss' = fst ss \<and> same_rows (snd ss) (snd ss')"
proof -
  have email: "\<exists>e. primary_email env (ts_tenant_id s) db1 = Inl e" if "price_in env c usd (snd ss) = (x, db1)" for c usd x db1
    using assms(1-5) primary_email_rows [OF price_in_rows [OF that]] by (auto simp: primary_email_def decrypt_string_def)
  show ?thesis
    using assms(6) email price_in_rows unfolding charge_renewal_def
    by (fastforce split: option.splits sum.splits prod.splits if_splits)
qed

lemma renewal_blocked_witness:
  "\<exists>r ss'. charge_renewal (sample_bill_env\<lparr>be_environment := ''production''\<rparr>) sample_subscription
      (sample_bill_db\<lparr>bd_users := [\<lparr>us_id = 3, us_tenant_id = 7, us_email = ''owner'', us_email_bidx = None\<rparr>]\<rparr>, sample_bill_db\<lparr>bd_users := [\<lparr>us_id = 3, us_tenant_id = 7, us_email = ''owner'', us_email_bidx = None\<rparr>]\<rparr>) = (r, ss')
    \<and> r \<noteq> Inr True"
proof -
  let ?env = "sample_bill_env\<lparr>be_environment := ''production''\<rparr>"
  let ?u = "\<lparr>us_id = 3, us_tenant_id = 7, us_email = ''owner'', us_email_bidx = None\<rparr>"
  let ?db = "sample_bill_db\<lparr>bd_users := [?u]\<rparr>"
  obtain r ss' where r: "charge_renewal ?env sample_subscription (?db, ?db) = (r, ss')" by (rule prod.exhaust)
  have "first_row (\<lambda>u. us_tenant_id u = ts_tenant_id sample_subscription) (bd_users (snd (?db, ?db))) = Some ?u" by (simp add: first_row_def)
  from renewal_blocked [OF _ _ this _ _ r] r show ?thesis by (simp add: sample_bill_env_def)
qed

subsection \<open>Activation\<close>

lemma scalar_unique:
  assumes "distinct (map k rows)"
  shows "scalar_one_or_none (\<lambda>r. k r = i) rows = Inr (first_row (\<lambda>r. k r = i) rows)"
proof (cases "i \<in> k ` set rows")
  case True
  then have "length (filter (\<lambda>r. k r = i) rows) = 1" using count_where_one [OF assms] by (simp add: count_where_def)
  then obtain r where r: "filter (\<lambda>r. k r = i) rows = [r]" by (auto simp: length_Suc_conv)
  then have "find (\<lambda>r. k r = i) rows = Some r" by (induction rows) (auto split: if_splits)
  with r show ?thesis by (simp add: scalar_one_or_none_def first_row_def)
next
  case False
  then have "filter (\<lambda>r. k r = i) rows = []" by (auto simp: filter_empty_conv)
  moreover have "first_row (\<lambda>r. k r = i) rows = None" using False by (auto simp: first_row_None)
  ultimately show ?thesis by (simp add: scalar_one_or_none_def)
qed

lemma parse_subunit_amount_int: "0 \<le> n \<Longrightarrow> n < 10 ^ 28 \<Longrightarrow> parse_subunit_amount (JInt n) = Inr (Some n)"
proof -
  have "\<lfloor>1 / 2 :: rat\<rfloor> = 0" by (simp add: floor_eq_iff)
  then show "0 \<le> n \<Longrightarrow> n < 10 ^ 28 \<Longrightarrow> parse_subunit_amount (JInt n) = Inr (Some n)"
    by (simp add: parse_subunit_amount_def special_decimal_def decimal_of_def round_half_up_def)
qed

lemma parse_fx_rate_dec: "0 < r \<Longrightarrow> round_half_up (r * 10 ^ 6) < 10 ^ 28 \<Longrightarrow> parse_fx_rate (JDec 6 r) = Inr (Some (numeric 6 r))"
  by (simp add: parse_fx_rate_def special_decimal_def decimal_of_def)

lemma charge_currency_known: "c = ''NGN'' \<or> c = ''USD'' \<Longrightarrow> charge_currency (JStr c) = c"
  by (elim disjE; simp; code_simp)

lemma charge_tier_value: "charge_tier (JStr (tier_value t)) = Some t"
  by (cases t; hypsubst; code_simp)

lemma charge_tenant_known: "charge_tenant env (JStr (uuid_text t)) email db = Inr (Some t)"
proof -
  have "uuid_text t \<noteq> ''''" using parse_uuid_text [of t] by (auto simp: parse_uuid_def split: if_splits)
  then show ?thesis by (simp add: charge_tenant_def json_truthy_def)
qed

lemma audit_passes:
  "(case be_audit_error env of None \<Rightarrow> True | Some e \<Rightarrow> p e) \<Longrightarrow> \<exists>es. billing_audit p env t c q db = Inr (db\<lparr>bd_audit := bd_audit db @ es\<rparr>)"
proof -
  have "\<exists>es. db = db\<lparr>bd_audit := bd_audit db @ es\<rparr>" by (rule exI [of _ "[]"]) simp
  then show "(case be_audit_error env of None \<Rightarrow> True | Some e \<Rightarrow> p e) \<Longrightarrow> ?thesis"
    unfolding billing_audit_def by (cases "be_audit_error env") auto
qed

lemma activate_computes:
  assumes inv: "bill_inv db" and tenant: "t \<in> set (map tn_id (bd_tenants db))"
    and tier: "charge_tier (dict_get metadata ''tier'') = Some tier"
    and charged: "\<And>s. charged_subscription env data metadata code s = Inr (f s, amount, rate) \<and> ts_id (f s) = ts_id s \<and> ts_tenant_id (f s) = ts_tenant_id s"
    and audit: "case be_audit_error env of None \<Rightarrow> True | Some e \<Rightarrow> webhook_audit_recoverable e"
  shows "\<exists>db' s0. activate_tenant env data metadata code t db = Inr db'
    \<and> first_row (\<lambda>s. ts_tenant_id s = t) (bd_subscriptions db') = Some (f s0) \<and> ts_tenant_id s0 = t
    \<and> bd_tenants db' = update_where (\<lambda>n. tn_id n = t) (\<lambda>n. n\<lparr>tn_plan := tier_value tier\<rparr>) (bd_tenants db)
    \<and> bd_tier_cache db' = clear_tenant_tier_cache (Some (uuid_text t)) (bd_tier_cache db)"
proof -
  have dist: "distinct (map ts_tenant_id (bd_subscriptions db))" "distinct (map tn_id (bd_tenants db))" "distinct (map ts_id (bd_subscriptions db))"
    using inv by (simp_all add: bill_inv_def)
  let ?old = "first_row (\<lambda>s. ts_tenant_id s = t) (bd_subscriptions db)"
  let ?s0 = "case ?old of Some s \<Rightarrow> s | None \<Rightarrow> new_subscription (bd_next_id db) t ''free''"
  have s0: "ts_tenant_id ?s0 = t" by (auto simp: new_subscription_def split: option.splits dest: first_row_SomeD)
  obtain db1 where db1: "store_charged env True ?old (f ?s0) db = Inr db1" "bd_tenants db1 = bd_tenants db" "bd_tier_cache db1 = bd_tier_cache db"
    "first_row (\<lambda>s. ts_tenant_id s = t) (bd_subscriptions db1) = Some (f ?s0)"
  proof (cases ?old)
    case None
    with that tenant s0 charged show thesis
      by (simp add: store_charged_def first_row_append_None first_row_single)
  next
    case (Some r)
    have row: "r \<in> set (bd_subscriptions db)" "ts_tenant_id r = t" using first_row_SomeD [OF Some] by simp_all
    have same: "(ts_id q = ts_id r) = (ts_tenant_id q = t)" if "q \<in> set (bd_subscriptions db)" for q
      using unique_row [OF dist(1) that row(1)] unique_row [OF dist(3) that row(1)] row(2) by auto
    have "bd_subscriptions (write_subscription (f r) db) = update_where (\<lambda>q. ts_tenant_id q = ts_tenant_id (f r)) (\<lambda>_. f r) (bd_subscriptions db)"
      using same row(2) charged [of r] by (auto simp: update_where_def)
    moreover have "first_row (\<lambda>q. ts_tenant_id q = ts_tenant_id (f r)) (bd_subscriptions db) = Some r" using Some row(2) charged [of r] by simp
    ultimately have "first_row (\<lambda>s. ts_tenant_id s = t) (bd_subscriptions (write_subscription (f r) db)) = Some (f r)"
      using first_row_overwrite [of ts_tenant_id "f r" "bd_subscriptions db" r] row(2) charged [of r] by simp
    with that Some show thesis by (simp add: store_charged_def)
  qed
  let ?db2 = "db1\<lparr>bd_tenants := update_where (\<lambda>n. tn_id n = t) (\<lambda>n. n\<lparr>tn_plan := tier_value tier\<rparr>) (bd_tenants db1),
    bd_tier_cache := clear_tenant_tier_cache (Some (uuid_text t)) (bd_tier_cache db1)\<rparr>"
  have "count_where (\<lambda>n. tn_id n = t) (bd_tenants db1) = 1" using count_where_one [OF dist(2)] tenant db1(2) by simp
  then have sync: "sync_tenant_plan t (Tier tier) db1 = Inr ?db2"
    by (simp add: sync_tenant_plan_def normalize_pricing_tier_value_def)
  let ?r = "dict_get (as_dict data) ''reference''"
  let ?s = "f ?s0"
  obtain es where audit': "billing_audit webhook_audit_recoverable env t (if json_truthy ?r then Some (py_str ?r) else None)
      (audit_event ''billing.payment_received'' (uuid_text (ts_id ?s)) (charge_details data metadata code ?s amount rate)) ?db2
      = Inr (?db2\<lparr>bd_audit := bd_audit ?db2 @ es\<rparr>)"
    using audit_passes [OF audit] by blast
  have tiered: "(Some tier \<noteq> None) = True" by simp
  have "activate_tenant env data metadata code t db = Inr (?db2\<lparr>bd_audit := bd_audit ?db2 @ es\<rparr>)"
    unfolding activate_tenant_def Let_def scalar_unique [OF dist(1)] tier charged [THEN conjunct1] bind_res_simps prod.case
      tiered db1(1) option.case sync by (rule audit')
  with db1 s0 show ?thesis by auto
qed

lemma charged_computes:
  assumes "dict_get_default d ''authorization'' (JObj []) = JObj auth" "dict_get auth ''authorization_code'' = JStr code" "code \<noteq> ''''"
    and "dict_get d ''amount'' = JInt amount" "0 \<le> amount" "amount < 10 ^ 28"
    and "dict_get metadata ''exchange_rate'' = JDec 6 rate" "0 < rate" "round_half_up (rate * 10 ^ 6) < 10 ^ 28"
    and "dict_get d ''currency'' = JStr currency" "currency = ''NGN'' \<or> currency = ''USD''"
    and "charge_tier (dict_get metadata ''tier'') = Some tier" and "dict_get metadata ''fx_provider'' = JStr provider" "strip provider \<noteq> ''''"
  shows "\<exists>f. \<forall>s. charged_subscription env (JObj d) metadata (JStr customer) s = Inr (f s, Some amount, Some (numeric 6 rate))
    \<and> ts_id (f s) = ts_id s \<and> ts_tenant_id (f s) = ts_tenant_id s \<and> ts_status (f s) = ''active'' \<and> ts_tier (f s) = tier_value tier
    \<and> ts_paystack_customer_code (f s) = Some customer \<and> ts_paystack_auth_code (f s) = Some (be_seal env ''api_key'' code)
    \<and> ts_billing_currency (f s) = currency \<and> ts_last_charge_amount_subunits (f s) = Some amount
    \<and> ts_last_charge_fx_rate (f s) = Some (numeric 6 rate) \<and> ts_last_charge_fx_provider (f s) = Some (lower (strip provider))
    \<and> ts_last_charge_at (f s) = Some (be_now env)"
proof -
  have captured: "captured_auth_code env (JObj d) s = Inr (Some (be_seal env ''api_key'' code))" for s
    using assms(1-3) by (simp add: captured_auth_code_def attr_get_obj_def attr_get_def json_truthy_def encrypt_string_def)
  have provider: "charged_fx_provider (JStr provider) currency s = Some (lower (strip provider))" for s
    using assms(14) by (simp add: charged_fx_provider_def)
  let ?r = "dict_get d ''reference''"
  let ?f = "\<lambda>s. s\<lparr>ts_paystack_customer_code := Some customer, ts_paystack_auth_code := Some (be_seal env ''api_key'' code),
    ts_tier := tier_value tier, ts_status := ''active'', ts_billing_currency := currency, ts_last_charge_amount_subunits := Some amount,
    ts_last_charge_fx_rate := Some (numeric 6 rate), ts_last_charge_fx_provider := Some (lower (strip provider)),
    ts_last_charge_reference := (if json_truthy ?r then Some (py_str ?r) else ts_last_charge_reference s), ts_last_charge_at := Some (be_now env)\<rparr>"
  have "charged_subscription env (JObj d) metadata (JStr customer) s = Inr (?f s, Some amount, Some (numeric 6 rate))" for s
    by (simp add: charged_subscription_def Let_def captured assms(4,7,10,12,13) charge_currency_known [OF assms(11)] provider
      parse_subunit_amount_int [OF assms(5,6)] parse_fx_rate_dec [OF assms(8,9)] text_column_def)
  then show ?thesis by (intro exI [of _ ?f]) simp
qed

text \<open>
  C24. A charge that the provider reports with the metadata of a checkout does what the checkout offered:
  the subscription of the tenant is active on the tier of the checkout with the amount, the currency, the
  rate and its provider recorded and the authorisation sealed, such that a renewal unseals it; the plan
  of the tenant is that tier, nobody else's rows change, and a fresh session is served that tier at once.
\<close>

theorem charge_activates:
  assumes "bill_inv db" and "t \<in> set (map tn_id (bd_tenants db))"
    and "dict_get_default d ''metadata'' (JObj []) = JObj (checkout_metadata t tier cycle usd currency amount rate provider plan_code)"
    and "dict_get_default d ''customer'' (JObj []) = JObj customer" "dict_get customer ''customer_code'' = JStr customer_code"
    and "dict_get_default d ''authorization'' (JObj []) = JObj auth" "dict_get auth ''authorization_code'' = JStr code" "code \<noteq> ''''"
    and "dict_get d ''amount'' = JInt amount" "0 \<le> amount" "amount < 10 ^ 28"
    and "0 < rate" "round_half_up (rate * 10 ^ 6) < 10 ^ 28" and "strip provider \<noteq> ''''"
    and "dict_get d ''currency'' = JStr currency" "currency = ''NGN'' \<or> currency = ''USD''"
    and "case be_audit_error env of None \<Rightarrow> True | Some e \<Rightarrow> webhook_audit_recoverable e"
    and "\<And>c x. be_unseal env c (be_seal env c x) = Some x" "\<And>c x. be_seal env c x \<noteq> ''''"
  shows "\<exists>db' s sealed. handle_charge_success env (JObj d) db = Inr db' \<and> bill_inv db' \<and> only_tenant t db db'
    \<and> first_row (\<lambda>s. ts_tenant_id s = t) (bd_subscriptions db') = Some s \<and> ts_status s = ''active'' \<and> ts_tier s = tier_value tier
    \<and> ts_billing_currency s = currency \<and> ts_last_charge_amount_subunits s = Some amount
    \<and> ts_last_charge_fx_rate s = Some (numeric 6 rate) \<and> ts_last_charge_fx_provider s = Some (lower (strip provider))
    \<and> ts_paystack_auth_code s = Some sealed \<and> decrypt_string env ''api_key'' sealed = Inr (Some code)
    \<and> (\<exists>n. first_row (\<lambda>n. tn_id n = t) (bd_tenants db') = Some n \<and> tn_plan n = tier_value tier)
    \<and> fst (get_tenant_tier now (Inr (map_option tn_plan (first_row (\<lambda>n. tn_id n = t) (bd_tenants db')))) (uuid_text t) [] (bd_tier_cache db')) = Inr tier"
proof -
  let ?m = "checkout_metadata t tier cycle usd currency amount rate provider plan_code"
  have meta: "dict_get ?m ''tenant_id'' = JStr (uuid_text t)" "charge_tier (dict_get ?m ''tier'') = Some tier"
    "dict_get ?m ''exchange_rate'' = JDec 6 rate" "dict_get ?m ''fx_provider'' = JStr provider"
    by (simp_all add: checkout_metadata_def charge_tier_value)
  obtain f where f: "\<And>s. charged_subscription env (JObj d) ?m (JStr customer_code) s = Inr (f s, Some amount, Some (numeric 6 rate))"
    "\<And>s. ts_id (f s) = ts_id s \<and> ts_tenant_id (f s) = ts_tenant_id s"
    "\<And>s. ts_status (f s) = ''active'' \<and> ts_tier (f s) = tier_value tier \<and> ts_paystack_auth_code (f s) = Some (be_seal env ''api_key'' code)
      \<and> ts_billing_currency (f s) = currency \<and> ts_last_charge_amount_subunits (f s) = Some amount
      \<and> ts_last_charge_fx_rate (f s) = Some (numeric 6 rate) \<and> ts_last_charge_fx_provider (f s) = Some (lower (strip provider))"
    using charged_computes [OF assms(6-11) meta(3) assms(12,13,15,16) meta(2,4) assms(14), of env customer_code] by blast
  have charged: "charged_subscription env (JObj d) ?m (JStr customer_code) s = Inr (f s, Some amount, Some (numeric 6 rate))
      \<and> ts_id (f s) = ts_id s \<and> ts_tenant_id (f s) = ts_tenant_id s" for s using f(1,2) by blast
  obtain db' s0 where act: "activate_tenant env (JObj d) ?m (JStr customer_code) t db = Inr db'"
    "first_row (\<lambda>s. ts_tenant_id s = t) (bd_subscriptions db') = Some (f s0)"
    "bd_tenants db' = update_where (\<lambda>n. tn_id n = t) (\<lambda>n. n\<lparr>tn_plan := tier_value tier\<rparr>) (bd_tenants db)"
    "bd_tier_cache db' = clear_tenant_tier_cache (Some (uuid_text t)) (bd_tier_cache db)"
    using activate_computes [OF assms(1,2) meta(2) charged assms(17)] by blast
  have handled: "handle_charge_success env (JObj d) db = Inr db'"
    using assms(3-5) act(1) meta(1)
    by (simp add: handle_charge_success_def charge_metadata_def attr_get_obj_def attr_get_def charge_tenant_known)
  have run: "(bill_step t)\<^sup>*\<^sup>* db db'" by (rule charge_tenant_steps [OF act(1) assms(1)])
  have inv: "bill_inv db'" "only_tenant t db db'" using billing.run_inv [OF run assms(1)] billing.run_below [OF run assms(1)] .
  have "first_row (\<lambda>n. tn_id n = t) (bd_tenants db) \<noteq> None" using assms(2) by (auto simp: first_row_None)
  then obtain n where "first_row (\<lambda>n. tn_id n = t) (bd_tenants db) = Some n" by blast
  then have plan: "first_row (\<lambda>n. tn_id n = t) (bd_tenants db') = Some (n\<lparr>tn_plan := tier_value tier\<rparr>)"
    using first_row_update_where_key [of tn_id "\<lambda>n. n\<lparr>tn_plan := tier_value tier\<rparr>" t "\<lambda>n. tn_id n = t" "bd_tenants db"] act(3)
    by (auto dest: first_row_SomeD)
  have served: "fst (get_tenant_tier now (Inr (Some (tier_value tier))) (uuid_text t) [] (bd_tier_cache db')) = Inr tier"
    by (simp add: act(4) get_tenant_tier_def clear_tenant_tier_cache_def runtime_cache_get_def Let_def)
  have "decrypt_string env ''api_key'' (be_seal env ''api_key'' code) = Inr (Some code)"
    using assms(18,19) by (simp add: decrypt_string_def)
  with handled inv act(2) f(3) [of s0] plan served show ?thesis by auto
qed

lemma charge_activates_witness:
  "\<exists>d db' n. handle_charge_success sample_bill_env (JObj d) sample_bill_db = Inr db'
     \<and> first_row (\<lambda>n. tn_id n = 8) (bd_tenants db') = Some n \<and> tn_plan n = ''growth''"
proof -
  let ?m = "checkout_metadata 8 GROWTH ''monthly'' 49 ''NGN'' 7350000 1500 ''cbn_nfem'' None"
  let ?c = "[(''customer_code'', JStr ''CUS'')]"
  let ?a = "[(''authorization_code'', JStr ''AUTH'')]"
  let ?d = "[(''metadata'', JObj ?m), (''customer'', JObj ?c), (''authorization'', JObj ?a), (''amount'', JInt 7350000), (''currency'', JStr ''NGN'')]"
  have p: "strip ''cbn_nfem'' \<noteq> ''''" by code_simp
  have rate: "round_half_up (1500 * 10 ^ 6) < 10 ^ 28" by code_simp
  have audit: "case be_audit_error sample_bill_env of None \<Rightarrow> True | Some e \<Rightarrow> webhook_audit_recoverable e" by (simp add: sample_bill_env_def)
  have seal: "be_unseal sample_bill_env c (be_seal sample_bill_env c x) = Some x" "be_seal sample_bill_env c x \<noteq> ''''" for c x
    by (simp_all add: sample_bill_env_def)
  have t: "8 \<in> set (map tn_id (bd_tenants sample_bill_db))" by simp
  have d: "dict_get_default ?d ''metadata'' (JObj []) = JObj ?m" "dict_get_default ?d ''customer'' (JObj []) = JObj ?c"
    "dict_get ?c ''customer_code'' = JStr ''CUS''" "dict_get_default ?d ''authorization'' (JObj []) = JObj ?a"
    "dict_get ?a ''authorization_code'' = JStr ''AUTH''" "dict_get ?d ''amount'' = JInt 7350000" "dict_get ?d ''currency'' = JStr ''NGN''"
    by (simp_all add: dict_get_default_def)
  have v: "''AUTH'' \<noteq> ''''" "0 \<le> (7350000 :: int)" "(7350000 :: int) < 10 ^ 28" "0 < (1500 :: rat)" "''NGN'' = ''NGN'' \<or> ''NGN'' = ''USD''"
    by simp_all
  from charge_activates [OF sample_bill_inv t d(1-5) v(1) d(6) v(2-4) rate p d(7) v(5) audit seal]
  obtain db' n where "handle_charge_success sample_bill_env (JObj ?d) sample_bill_db = Inr db'"
    "first_row (\<lambda>n. tn_id n = 8) (bd_tenants db') = Some n" "tn_plan n = tier_value GROWTH" by blast
  then show ?thesis by auto
qed

end
