(* ===== verification/Gov_HardCap.thy ===== *)
theory Gov_HardCap
  imports Gov_Audit Base_Machine
begin

text \<open>
  The budget hard cap: src/app/shared/remediation/hard_cap_service.py and its endpoint in
  src/app/modules/governance/api/v1/settings/activeops.py. Enforcement suspends every cloud connection of a
  tenant and keeps what they were in the audit log; the reversal reads it back from there.

  There is a table of connections per provider. Those of AWS have a status, the others a flag; the record
  has both columns, and \<open>has_status\<close> says which of them the table has.
\<close>

subsection \<open>Connections\<close>

record connection =
  cn_id :: uuid
  cn_tenant_id :: uuid
  cn_status :: string
  cn_is_active :: bool

type_synonym connections = "string \<Rightarrow> connection list"

record cap_db =
  cd_connections :: connections
  cd_audit :: "audit_entry list"

definition connection_providers :: "string list" where
  "connection_providers = [''aws'', ''azure'', ''gcp'', ''saas'', ''license'', ''platform'', ''hybrid'']"

definition has_status :: "string \<Rightarrow> bool" where
  "has_status provider \<longleftrightarrow> provider = ''aws''"

definition snapshot_key :: "string \<Rightarrow> string" where
  "snapshot_key provider = provider @ ''_connections''"

subsection \<open>Coercions\<close>

definition coerce_uuid :: "json \<Rightarrow> uuid option" where
  "coerce_uuid v = parse_uuid (py_str v)"

text \<open>A \<open>JDec\<close> is a number with a fraction here.\<close>

definition coerce_bool :: "json \<Rightarrow> bool \<Rightarrow> bool" where
  "coerce_bool v dflt =
     (case v of JBool b \<Rightarrow> b | JNull \<Rightarrow> dflt | JInt n \<Rightarrow> n \<noteq> 0 | JDec n r \<Rightarrow> r \<noteq> 0
      | _ \<Rightarrow> (let s = lower (strip (py_str v)) in
          if s \<in> {''1'', ''true'', ''yes'', ''on''} then True
          else if s \<in> {''0'', ''false'', ''no'', ''off''} then False else dflt))"

text \<open>\<open>for row in value\<close>: a text yields its characters, a dictionary its keys\<close>

fun json_iter :: "json \<Rightarrow> json list res" where
  "json_iter (JList xs) = Inr xs"
| "json_iter (JObj d) = Inr (map (JStr \<circ> fst) d)"
| "json_iter (JStr s) = Inr (map (\<lambda>c. JStr [c]) s)"
| "json_iter (JTime t) = Inr (map (\<lambda>c. JStr [c]) (isoformat t))"
| "json_iter _ = Inl (TypeError ''object is not iterable'')"

subsection \<open>Snapshots\<close>

definition empty_snapshot :: dict where
  "empty_snapshot = map (\<lambda>provider. (snapshot_key provider, JList [])) connection_providers"

definition captured_status :: "connection \<Rightarrow> string" where
  "captured_status c = (if cn_status c = '''' then ''pending'' else cn_status c)"

definition capture_row :: "string \<Rightarrow> connection \<Rightarrow> json" where
  "capture_row provider c =
     JObj [(''id'', JStr (uuid_text (cn_id c))),
       if has_status provider then (''status'', JStr (captured_status c)) else (''is_active'', JBool (cn_is_active c))]"

definition capture_snapshot :: "connections \<Rightarrow> uuid \<Rightarrow> dict" where
  "capture_snapshot conns tenant_id =
     fold (\<lambda>provider. AList.update (snapshot_key provider)
         (JList (map (capture_row provider) (filter (\<lambda>c. cn_tenant_id c = tenant_id) (conns provider)))))
       connection_providers empty_snapshot"

definition suspend :: "string \<Rightarrow> uuid \<Rightarrow> connection list \<Rightarrow> connection list" where
  "suspend provider tenant_id rows =
     (if has_status provider
      then update_where (\<lambda>c. cn_tenant_id c = tenant_id \<and> cn_status c \<noteq> ''suspended'') (cn_status_update (\<lambda>_. ''suspended'')) rows
      else update_where (\<lambda>c. cn_tenant_id c = tenant_id \<and> cn_is_active c) (cn_is_active_update (\<lambda>_. False)) rows)"

definition apply_enforcement :: "uuid \<Rightarrow> connections \<Rightarrow> connections" where
  "apply_enforcement tenant_id conns =
     fold (\<lambda>provider f. f(provider := suspend provider tenant_id (f provider))) connection_providers conns"

definition restore_row :: "string \<Rightarrow> uuid \<Rightarrow> json \<Rightarrow> connection list \<times> nat \<Rightarrow> connection list \<times> nat" where
  "restore_row provider tenant_id entry acc =
     (case entry of
        JObj row \<Rightarrow>
          (case coerce_uuid (dict_get row ''id'') of
             None \<Rightarrow> acc
           | Some i \<Rightarrow>
               (update_where (\<lambda>c. cn_tenant_id c = tenant_id \<and> cn_id c = i)
                  (if has_status provider
                   then cn_status_update (\<lambda>_. let s = dict_get row ''status'' in if py_truthy s then py_str s else ''pending'')
                   else cn_is_active_update (\<lambda>_. coerce_bool (dict_get row ''is_active'') False))
                  (fst acc), snd acc + 1))
      | _ \<Rightarrow> acc)"

fun restore_tables :: "uuid \<Rightarrow> dict \<Rightarrow> string list \<Rightarrow> connections \<times> nat \<Rightarrow> (connections \<times> nat) res" where
  "restore_tables tenant_id snapshot [] acc = Inr acc"
| "restore_tables tenant_id snapshot (provider # providers) acc =
     bind_res (json_iter (dict_get_default snapshot (snapshot_key provider) (JList []))) (\<lambda>entries.
       let (rows, n) = fold (restore_row provider tenant_id) entries (fst acc provider, snd acc)
       in restore_tables tenant_id snapshot providers ((fst acc)(provider := rows), n))"

definition restore_from_snapshot :: "uuid \<Rightarrow> dict \<Rightarrow> connections \<Rightarrow> (connections \<times> nat) res" where
  "restore_from_snapshot tenant_id snapshot conns = restore_tables tenant_id snapshot connection_providers (conns, 0)"

definition load_latest_snapshot :: "audit_entry list \<Rightarrow> uuid \<Rightarrow> dict option" where
  "load_latest_snapshot audit tenant_id =
     (case sort_key (\<lambda>e. - al_event_timestamp e)
        (filter (\<lambda>e. al_tenant_id e = tenant_id \<and> al_event_type e = ''budget.hard_cap_enforced'') audit) of
        [] \<Rightarrow> None
      | e # _ \<Rightarrow> (case al_details e of
          Some (JObj details) \<Rightarrow> (case dict_get details ''snapshot'' of JObj s \<Rightarrow> Some s | _ \<Rightarrow> None)
        | _ \<Rightarrow> None))"

subsection \<open>The service\<close>

text \<open>
  Each operation is one transaction at the instant \<open>now\<close>; \<open>fresh\<close> is the correlation identifier the
  logger makes up.
\<close>

definition write_audit ::
  "string \<Rightarrow> instant \<Rightarrow> uuid \<Rightarrow> string \<Rightarrow> actor_arg \<Rightarrow> dict \<Rightarrow> bool \<Rightarrow> string option \<Rightarrow> cap_db \<Rightarrow> cap_db" where
  "write_audit fresh now tenant_id event_type actor_id details success error_message db =
     db\<lparr>cd_audit := cd_audit db @ [audit_log tenant_id None fresh now
        \<lparr>aq_event_type = event_type, aq_actor_id = actor_id, aq_actor_email = None, aq_actor_ip = None,
         aq_resource_type = Some ''tenant'', aq_resource_id = Some (uuid_text tenant_id), aq_details = details,
         aq_success = success, aq_error_message = error_message, aq_request_method = None, aq_request_path = None\<rparr>]\<rparr>"

definition reason_or :: "string option \<Rightarrow> string \<Rightarrow> json" where
  "reason_or reason dflt = JStr (case reason of None \<Rightarrow> dflt | Some r \<Rightarrow> if r = '''' then dflt else r)"

definition enforce_hard_cap ::
  "cap_db \<Rightarrow> uuid \<Rightarrow> bool \<Rightarrow> actor_arg \<Rightarrow> string option \<Rightarrow> string \<Rightarrow> instant \<Rightarrow> dict res \<times> cap_db" where
  "enforce_hard_cap db tenant_id approved actor_id reason fresh now =
     (if \<not> approved then
        (Inl (OtherError ''Hard-cap enforcement requires explicit approval.''),
         write_audit fresh now tenant_id ''budget.hard_cap_enforcement_blocked'' actor_id
           [(''reason'', reason_or reason ''approval_missing'')] False
           (Some ''Hard-cap enforcement requires explicit approval.'') db)
      else
        let snapshot = capture_snapshot (cd_connections db) tenant_id in
        (Inr snapshot,
         write_audit fresh now tenant_id ''budget.hard_cap_enforced'' actor_id
           [(''reason'', reason_or reason ''budget_hard_cap_reached''), (''snapshot'', JObj snapshot)] True None
           (db\<lparr>cd_connections := apply_enforcement tenant_id (cd_connections db)\<rparr>)))"

definition reverse_hard_cap ::
  "cap_db \<Rightarrow> uuid \<Rightarrow> actor_arg \<Rightarrow> string option \<Rightarrow> dict option \<Rightarrow> string \<Rightarrow> instant \<Rightarrow> nat res \<times> cap_db" where
  "reverse_hard_cap db tenant_id actor_id reason snapshot fresh now =
     (case (case snapshot of None \<Rightarrow> load_latest_snapshot (cd_audit db) tenant_id
        | Some s \<Rightarrow> if s = [] then load_latest_snapshot (cd_audit db) tenant_id else Some s) of
        None \<Rightarrow> (Inl (ValueError ''No hard-cap snapshot available for tenant; cannot reverse.''), db)
      | Some s \<Rightarrow>
          (case restore_from_snapshot tenant_id s (cd_connections db) of
             Inl e \<Rightarrow> (Inl e, db)
           | Inr (conns, restored) \<Rightarrow>
               (Inr restored,
                write_audit fresh now tenant_id ''budget.hard_cap_reversed'' actor_id
                  [(''reason'', reason_or reason ''operator_reactivation''), (''restored_connections'', JInt (int restored))]
                  True None (db\<lparr>cd_connections := conns\<rparr>))))"

text \<open>The endpoint; only administrators reach it.\<close>

definition reactivate_hard_cap ::
  "cap_db \<Rightarrow> uuid option \<Rightarrow> uuid \<Rightarrow> string option \<Rightarrow> string \<Rightarrow> instant \<Rightarrow> nat res \<times> cap_db" where
  "reactivate_hard_cap db tenant_id user_id reason fresh now =
     (case tenant_id of
        None \<Rightarrow> (Inl (HTTPException 403 ''Tenant context required''), db)
      | Some t \<Rightarrow>
          (case reverse_hard_cap db t (ActorId user_id) reason None fresh now of
             (Inl (ValueError s), db') \<Rightarrow> (Inl (HTTPException 404 s), db')
           | outcome \<Rightarrow> outcome))"

subsection \<open>What the operations do to the tables\<close>

lemma fold_tables:
  "distinct ps \<Longrightarrow> fold (\<lambda>p f. f(p := g p (f p))) ps f = (\<lambda>q. if q \<in> set ps then g q (f q) else f q)"
  by (induction ps arbitrary: f) auto

lemma distinct_providers [simp]: "distinct connection_providers"
  by (simp add: connection_providers_def)

lemma snapshot_key_inj [simp]: "snapshot_key p = snapshot_key q \<longleftrightarrow> p = q"
  by (simp add: snapshot_key_def)

lemma apply_enforcement_at:
  "apply_enforcement t conns p = (if p \<in> set connection_providers then suspend p t (conns p) else conns p)"
  by (simp add: apply_enforcement_def fold_tables [where g = "\<lambda>p. suspend p t"])

lemma map_of_fold_update:
  "distinct ps \<Longrightarrow> map_of (fold (\<lambda>p. AList.update (snapshot_key p) (g p)) ps d) (snapshot_key p) =
     (if p \<in> set ps then Some (g p) else map_of d (snapshot_key p))"
  by (induction ps arbitrary: d) (auto simp: update_conv')

lemma capture_snapshot_at:
  "p \<in> set connection_providers \<Longrightarrow> dict_get_default (capture_snapshot conns t) (snapshot_key p) v0 =
     JList (map (capture_row p) (filter (\<lambda>c. cn_tenant_id c = t) (conns p)))"
  by (simp add: capture_snapshot_def dict_get_default_def map_of_fold_update [where g = "\<lambda>p. JList (map (capture_row p) (filter (\<lambda>c. cn_tenant_id c = t) (conns p)))"])

text \<open>The column of a connection that is captured, copied from another row\<close>

definition copy_state :: "string \<Rightarrow> connection \<Rightarrow> connection \<Rightarrow> connection" where
  "copy_state p x c = (if has_status p then c\<lparr>cn_status := captured_status x\<rparr> else c\<lparr>cn_is_active := cn_is_active x\<rparr>)"

definition reinstate :: "string \<Rightarrow> uuid \<Rightarrow> connection list \<Rightarrow> connection \<Rightarrow> connection" where
  "reinstate p t xs c = (if cn_tenant_id c = t then
     (case first_row (\<lambda>x. cn_id x = cn_id c) xs of None \<Rightarrow> c | Some x \<Rightarrow> copy_state p x c) else c)"

lemma copy_state_keys [simp]: "cn_id (copy_state p x c) = cn_id c" "cn_tenant_id (copy_state p x c) = cn_tenant_id c"
  by (simp_all add: copy_state_def)

lemma restore_row_captured:
  "restore_row p t (capture_row p x) (rows, n) =
     (update_where (\<lambda>c. cn_tenant_id c = t \<and> cn_id c = cn_id x) (copy_state p x) rows, n + 1)"
  by (auto simp: restore_row_def capture_row_def coerce_uuid_def dict_get_def py_str_def coerce_bool_def captured_status_def
      copy_state_def update_where_def Let_def)

lemma restore_rows_captured:
  assumes "distinct (map cn_id xs)"
  shows "fold (restore_row p t) (map (capture_row p) xs) (rows, n) = (map (reinstate p t xs) rows, n + length xs)"
  using assms
proof (induction xs arbitrary: rows n)
  case Nil
  show ?case by (simp add: reinstate_def first_row_def map_idI)
next
  case (Cons x xs)
  have "reinstate p t xs (if cn_tenant_id c = t \<and> cn_id c = cn_id x then copy_state p x c else c) = reinstate p t (x # xs) c" for c
  proof (cases "cn_tenant_id c = t \<and> cn_id c = cn_id x")
    case True
    have "first_row (\<lambda>y. cn_id y = cn_id x) xs = None" using Cons.prems by (auto simp: first_row_None image_iff)
    with True show ?thesis by (simp add: reinstate_def) (simp add: first_row_def)
  next
    case False
    then show ?thesis by (auto simp: reinstate_def first_row_def)
  qed
  with Cons show ?case by (simp add: restore_row_captured update_where_def)
qed

text \<open>The rows of a table, as the snapshot of earlier rows leaves them\<close>

definition reinstated :: "uuid \<Rightarrow> connections \<Rightarrow> connections \<Rightarrow> connections" where
  "reinstated t conns0 conns = (\<lambda>p. if p \<in> set connection_providers
     then map (reinstate p t (filter (\<lambda>c. cn_tenant_id c = t) (conns0 p))) (conns p) else conns p)"

definition connection_count :: "uuid \<Rightarrow> connections \<Rightarrow> nat" where
  "connection_count t conns = (\<Sum>p \<leftarrow> connection_providers. count_where (\<lambda>c. cn_tenant_id c = t) (conns p))"

definition keys_ok :: "connections \<Rightarrow> bool" where
  "keys_ok conns \<longleftrightarrow> (\<forall>p \<in> set connection_providers. distinct (map cn_id (conns p)))"

lemma keys_okD: "keys_ok conns \<Longrightarrow> p \<in> set connection_providers \<Longrightarrow> distinct (map cn_id (filter q (conns p)))"
  by (simp add: keys_ok_def distinct_map_filter)

lemma restore_tables_captured:
  assumes "keys_ok conns0" "distinct ps" "set ps \<subseteq> set connection_providers"
  shows "restore_tables t (capture_snapshot conns0 t) ps (conns, n) =
    Inr (\<lambda>p. if p \<in> set ps then map (reinstate p t (filter (\<lambda>c. cn_tenant_id c = t) (conns0 p))) (conns p) else conns p,
      n + (\<Sum>p \<leftarrow> ps. count_where (\<lambda>c. cn_tenant_id c = t) (conns0 p)))"
  using assms(2,3)
proof (induction ps arbitrary: conns n)
  case Nil
  show ?case by simp
next
  case (Cons p ps)
  then have "distinct ps" "p \<notin> set ps" "set ps \<subseteq> set connection_providers" "p \<in> set connection_providers" by auto
  then show ?case
    using Cons.IH by (simp add: capture_snapshot_at restore_rows_captured keys_okD [OF assms(1)] count_where_def add.assoc)
      (auto simp: fun_eq_iff)
qed

lemma restore_captured:
  assumes "keys_ok conns0"
  shows "restore_from_snapshot t (capture_snapshot conns0 t) conns = Inr (reinstated t conns0 conns, connection_count t conns0)"
  unfolding restore_from_snapshot_def reinstated_def connection_count_def
  using restore_tables_captured [OF assms distinct_providers order_refl, of t conns 0] by simp

subsection \<open>The snapshot in the audit log\<close>

lemma capture_snapshot_map:
  "capture_snapshot conns t = map (\<lambda>p. (snapshot_key p, JList (map (capture_row p) (filter (\<lambda>c. cn_tenant_id c = t) (conns p))))) connection_providers"
  by (simp add: capture_snapshot_def empty_snapshot_def connection_providers_def snapshot_key_def)

lemma plain_keys:
  "\<not> sensitive_key ''reason''" "\<not> sensitive_key ''snapshot''" "\<not> sensitive_key ''id''" "\<not> sensitive_key ''status''"
  "\<not> sensitive_key ''is_active''" "list_all (\<lambda>p. \<not> sensitive_key (snapshot_key p)) connection_providers"
  by code_simp+

lemma mask_snapshot: "mask_sensitive (JObj (capture_snapshot conns t)) = JObj (capture_snapshot conns t)"
proof -
  have "mask_sensitive (capture_row p c) = capture_row p c" for p c by (simp add: capture_row_def plain_keys)
  then show ?thesis using plain_keys(6) by (auto simp: capture_snapshot_map list_all_iff o_def)
qed

abbreviation cap_entry :: "uuid \<Rightarrow> audit_entry \<Rightarrow> bool" where
  "cap_entry t e \<equiv> al_tenant_id e = t \<and> al_event_type e = ''budget.hard_cap_enforced''"

lemma sort_key_newest:
  fixes f :: "'a \<Rightarrow> int"
  assumes "\<And>y. y \<in> set ys \<Longrightarrow> f x < f y"
  shows "sort_key f (ys @ [x]) = x # sort_key f ys"
  using assms
proof (induction ys)
  case (Cons y ys)
  then have "sort_key f (ys @ [x]) = x # sort_key f ys" "f x < f y" by auto
  then show ?case by simp
qed simp

lemma latest_snapshot:
  assumes "\<forall>e \<in> set audit. cap_entry t e \<longrightarrow> al_event_timestamp e < al_event_timestamp x"
    and "cap_entry t x" "\<forall>e \<in> set later_entries. \<not> cap_entry t e"
    and "al_details x = Some (JObj [(''reason'', r), (''snapshot'', JObj s)])"
  shows "load_latest_snapshot (audit @ [x] @ later_entries) t = Some s"
proof -
  have "filter (cap_entry t) (audit @ [x] @ later_entries) = filter (cap_entry t) audit @ [x]" using assms(2,3) by simp
  moreover have "sort_key (\<lambda>e. - al_event_timestamp e) (filter (cap_entry t) audit @ [x])
      = x # sort_key (\<lambda>e. - al_event_timestamp e) (filter (cap_entry t) audit)"
    by (rule sort_key_newest) (use assms(1) in auto)
  ultimately show ?thesis unfolding load_latest_snapshot_def using assms(4) by (simp add: dict_get_def)
qed

text \<open>What an enforcement leaves\<close>

lemma enforcedE:
  assumes "enforce_hard_cap db t True actor reason fresh now = (Inr snapshot, db')"
  obtains x r where "snapshot = capture_snapshot (cd_connections db) t"
    "cd_connections db' = apply_enforcement t (cd_connections db)" "cd_audit db' = cd_audit db @ [x]"
    "cap_entry t x" "al_event_timestamp x = now"
    "al_details x = Some (JObj [(''reason'', r), (''snapshot'', JObj snapshot)])"
proof (rule that)
  let ?x = "audit_log t None fresh now \<lparr>aq_event_type = ''budget.hard_cap_enforced'', aq_actor_id = actor, aq_actor_email = None,
    aq_actor_ip = None, aq_resource_type = Some ''tenant'', aq_resource_id = Some (uuid_text t),
    aq_details = [(''reason'', reason_or reason ''budget_hard_cap_reached''), (''snapshot'', JObj snapshot)],
    aq_success = True, aq_error_message = None, aq_request_method = None, aq_request_path = None\<rparr>"
  show s: "snapshot = capture_snapshot (cd_connections db) t"
    and "cd_connections db' = apply_enforcement t (cd_connections db)" "cd_audit db' = cd_audit db @ [?x]"
    using assms by (auto simp: enforce_hard_cap_def write_audit_def Let_def)
  show "cap_entry t ?x" "al_event_timestamp ?x = now" by (simp_all add: audit_log_def)
  have mask: "mask_sensitive (JObj snapshot) = JObj snapshot" unfolding s by (rule mask_snapshot)
  show "al_details ?x = Some (JObj [(''reason'', reason_or reason ''budget_hard_cap_reached''), (''snapshot'', JObj snapshot)])"
    using mask by (simp add: audit_log_def plain_keys reason_or_def del: mask_sensitive.simps(2)) (simp add: plain_keys)
qed

lemma reversed:
  assumes "keys_ok conns0" "load_latest_snapshot (cd_audit db) t = Some (capture_snapshot conns0 t)"
  obtains db' where "reverse_hard_cap db t actor reason None fresh now = (Inr (connection_count t conns0), db')"
    "cd_connections db' = reinstated t conns0 (cd_connections db)"
  using assms by (simp add: reverse_hard_cap_def restore_captured write_audit_def)

subsection \<open>Suspending and reinstating\<close>

lemma suspend_map: "suspend p t rows = map (\<lambda>c. if cn_tenant_id c = t
    then (if has_status p then c\<lparr>cn_status := ''suspended''\<rparr> else c\<lparr>cn_is_active := False\<rparr>) else c) rows"
  by (auto simp: suspend_def update_where_def)

lemma enforced_keys [simp]: "map cn_id (apply_enforcement t conns p) = map cn_id (conns p)"
  by (auto simp: apply_enforcement_at suspend_map)

lemma enforced_keys_ok [simp]: "keys_ok (apply_enforcement t conns) \<longleftrightarrow> keys_ok conns"
  by (simp add: keys_ok_def)

lemma reinstated_self:
  assumes "keys_ok conns" "\<forall>c \<in> set (conns ''aws''). cn_status c \<noteq> ''''"
  shows "reinstated t conns (apply_enforcement t conns) = conns"
proof
  fix p
  have "reinstate p t (filter (\<lambda>c. cn_tenant_id c = t) (conns p))
      (if cn_tenant_id c = t then (if has_status p then c\<lparr>cn_status := ''suspended''\<rparr> else c\<lparr>cn_is_active := False\<rparr>) else c) = c"
    if "c \<in> set (conns p)" "p \<in> set connection_providers" for c
  proof (cases "cn_tenant_id c = t")
    case True
    have "first_row (\<lambda>x. cn_id x = cn_id c) (filter (\<lambda>c. cn_tenant_id c = t) (conns p)) = Some c"
      by (rule first_row_unique) (use that True keys_okD [OF assms(1)] in auto)
    with True that assms(2) show ?thesis by (auto simp: reinstate_def copy_state_def captured_status_def has_status_def)
  next
    case False
    then show ?thesis by (simp add: reinstate_def)
  qed
  then show "reinstated t conns (apply_enforcement t conns) p = conns p"
    by (simp add: reinstated_def apply_enforcement_at suspend_map map_idI)
qed

lemma suspend_idem: "suspend p t (suspend p t rows) = suspend p t rows"
  by (induction rows) (simp_all add: suspend_map)

lemma enforcement_idem: "apply_enforcement t (apply_enforcement t conns) = apply_enforcement t conns"
  by (rule ext) (simp add: apply_enforcement_at suspend_idem)

definition all_suspended :: "uuid \<Rightarrow> connections \<Rightarrow> bool" where
  "all_suspended t conns \<longleftrightarrow> (\<forall>p \<in> set connection_providers. \<forall>c \<in> set (conns p). cn_tenant_id c = t \<longrightarrow>
     (if has_status p then cn_status c = ''suspended'' else \<not> cn_is_active c))"

lemma suspend_row: "c \<in> set (suspend p t rows) \<Longrightarrow> cn_tenant_id c = t \<Longrightarrow>
    if has_status p then cn_status c = ''suspended'' else \<not> cn_is_active c"
proof -
  assume "c \<in> set (suspend p t rows)" "cn_tenant_id c = t"
  then obtain r where r: "c = (if cn_tenant_id r = t
    then (if has_status p then r\<lparr>cn_status := ''suspended''\<rparr> else r\<lparr>cn_is_active := False\<rparr>) else r)"
    by (auto simp only: suspend_map set_map image_iff)
  have "cn_tenant_id r = t" using \<open>cn_tenant_id c = t\<close> unfolding r by (cases "cn_tenant_id r = t") simp_all
  then show ?thesis unfolding r by simp
qed

lemma enforced_suspended: "all_suspended t (apply_enforcement t conns)"
  unfolding all_suspended_def by (intro ballI impI) (rule suspend_row, simp_all add: apply_enforcement_at)

text \<open>
  C21. A hard cap can be undone: enforcing it with approval suspends every connection of the tenant, and a
  reversal, whatever the audit log has recorded in between other than another enforcement for this
  tenant, finds the snapshot in the log, unmasked, and gives every connection of the tenant the state it
  had, leaving all tables as they were before and reporting how many connections it restored.
\<close>

theorem hard_cap_roundtrip:
  assumes "keys_ok (cd_connections db)" and "\<forall>c \<in> set (cd_connections db ''aws''). cn_status c \<noteq> ''''"
    and "\<forall>e \<in> set (cd_audit db). cap_entry t e \<longrightarrow> al_event_timestamp e < now"
    and "enforce_hard_cap db t True actor reason fresh now = (Inr snapshot, db1)"
    and "\<forall>e \<in> set later_entries. \<not> cap_entry t e"
  shows "all_suspended t (cd_connections db1)
    \<and> (\<exists>db2. reverse_hard_cap (db1\<lparr>cd_audit := cd_audit db1 @ later_entries\<rparr>) t actor2 reason2 None fresh2 later
          = (Inr (connection_count t (cd_connections db)), db2)
        \<and> cd_connections db2 = cd_connections db)"
proof -
  from assms(4) obtain x r where x: "snapshot = capture_snapshot (cd_connections db) t"
    "cd_connections db1 = apply_enforcement t (cd_connections db)" "cd_audit db1 = cd_audit db @ [x]"
    "cap_entry t x" "al_event_timestamp x = now"
    "al_details x = Some (JObj [(''reason'', r), (''snapshot'', JObj snapshot)])" by (rule enforcedE)
  let ?db = "db1\<lparr>cd_audit := cd_audit db1 @ later_entries\<rparr>"
  have "load_latest_snapshot (cd_audit ?db) t = Some (capture_snapshot (cd_connections db) t)"
    using latest_snapshot [of "cd_audit db" t x later_entries r snapshot] assms(3,5) x by simp
  from reversed [OF assms(1) this, of actor2 reason2 fresh2 later] obtain db2 where
    "reverse_hard_cap ?db t actor2 reason2 None fresh2 later = (Inr (connection_count t (cd_connections db)), db2)"
    "cd_connections db2 = reinstated t (cd_connections db) (cd_connections ?db)" by blast
  with x(2) reinstated_self [OF assms(1,2)] enforced_suspended show ?thesis by auto
qed

text \<open>
  C22. A hard cap enforced twice is not undone by a reversal: the second enforcement records the
  connections as the first one left them, and the reversal restores exactly that, so that all connections
  of the tenant stay suspended although the reversal reports that it restored them.
\<close>

theorem hard_cap_twice_lost:
  assumes "keys_ok (cd_connections db)"
    and "enforce_hard_cap db t True actor reason fresh now = (Inr snapshot, db1)"
    and "\<forall>e \<in> set (cd_audit db1). cap_entry t e \<longrightarrow> al_event_timestamp e < now2"
    and "enforce_hard_cap db1 t True actor2 reason2 fresh2 now2 = (Inr snapshot2, db2)"
  shows "\<exists>db3. reverse_hard_cap db2 t actor3 reason3 None fresh3 later = (Inr (connection_count t (cd_connections db)), db3)
    \<and> all_suspended t (cd_connections db3)"
proof -
  let ?c = "apply_enforcement t (cd_connections db)"
  from assms(2) have c1: "cd_connections db1 = ?c" by (rule enforcedE)
  from assms(4) obtain x r where x: "snapshot2 = capture_snapshot ?c t"
    "cd_connections db2 = ?c" "cd_audit db2 = cd_audit db1 @ [x]"
    "cap_entry t x" "al_event_timestamp x = now2"
    "al_details x = Some (JObj [(''reason'', r), (''snapshot'', JObj snapshot2)])"
    by (rule enforcedE) (simp add: c1 enforcement_idem)
  have "load_latest_snapshot (cd_audit db2) t = Some (capture_snapshot ?c t)"
    using latest_snapshot [of "cd_audit db1" t x "[]" r snapshot2] assms(3) x by simp
  moreover have "keys_ok ?c" using assms(1) by simp
  ultimately obtain db3 where db3: "reverse_hard_cap db2 t actor3 reason3 None fresh3 later = (Inr (connection_count t ?c), db3)"
    "cd_connections db3 = reinstated t ?c ?c" using x(2) by (metis reversed)
  have "connection_count t ?c = connection_count t (cd_connections db)"
    unfolding connection_count_def count_where_def
    by (intro arg_cong [where f = sum_list] map_cong refl)
      (auto simp: apply_enforcement_at suspend_map filter_map o_def if_distrib cong: if_cong)
  moreover have "all_suspended t (reinstated t ?c ?c)"
  proof -
    have "reinstate p t (filter (\<lambda>c. cn_tenant_id c = t) (?c p)) c = c" if "p \<in> set connection_providers" "c \<in> set (?c p)" for p c
      using that enforced_suspended [of t "cd_connections db"]
      by (auto simp: reinstate_def copy_state_def all_suspended_def captured_status_def split: option.split dest!: first_row_SomeD
          intro!: connection.equality)
    then show ?thesis using enforced_suspended [of t "cd_connections db"] by (simp add: all_suspended_def reinstated_def)
  qed
  ultimately show ?thesis using db3 by simp
qed

subsection \<open>Other tenants\<close>

abbreviation rows_of_others :: "uuid \<Rightarrow> connection list \<Rightarrow> connection list" where
  "rows_of_others t \<equiv> filter (\<lambda>c. cn_tenant_id c \<noteq> t)"

lemma others_update:
  "(\<And>c. cn_tenant_id (f c) = cn_tenant_id c) \<Longrightarrow>
    rows_of_others t (update_where (\<lambda>c. cn_tenant_id c = t \<and> q c) f rows) = rows_of_others t rows"
  by (rule filter_update_where) auto

lemma restore_row_others: "rows_of_others t (fst (restore_row p t e acc)) = rows_of_others t (fst acc)"
  by (auto simp: restore_row_def others_update split: json.split option.split)

lemma restore_rows_others: "rows_of_others t (fst (fold (restore_row p t) es acc)) = rows_of_others t (fst acc)"
  by (induction es arbitrary: acc) (simp_all add: restore_row_others)

lemma restore_tables_others:
  "restore_tables t s ps acc = Inr res \<Longrightarrow> rows_of_others t (fst res q) = rows_of_others t (fst acc q)"
proof (induction ps arbitrary: acc)
  case (Cons p ps)
  then obtain es where es: "json_iter (dict_get_default s (snapshot_key p) (JList [])) = Inr es" by auto
  obtain rows n where rows: "fold (restore_row p t) es (fst acc p, snd acc) = (rows, n)" by fastforce
  have "rows_of_others t rows = rows_of_others t (fst acc p)"
    using restore_rows_others [of t p es "(fst acc p, snd acc)"] by (simp add: rows)
  with Cons.IH [of "((fst acc)(p := rows), n)"] Cons.prems show ?case by (simp add: es rows split: if_splits)
qed simp

lemma suspend_others: "rows_of_others t (suspend p t rows) = rows_of_others t rows"
  by (simp add: suspend_def others_update)

text \<open>Enforcements and reversals for one tenant, with any arguments and outcome\<close>

inductive cap_step :: "uuid \<Rightarrow> cap_db \<Rightarrow> cap_db \<Rightarrow> bool" for t where
  enforce: "enforce_hard_cap db t approved actor reason fresh now = (r, db') \<Longrightarrow> cap_step t db db'"
| reverse: "reverse_hard_cap db t actor reason snapshot fresh now = (n, db') \<Longrightarrow> cap_step t db db'"

definition cap_below :: "uuid \<Rightarrow> cap_db \<Rightarrow> cap_db \<Rightarrow> bool" where
  "cap_below t db db' \<longleftrightarrow> (\<forall>p. rows_of_others t (cd_connections db' p) = rows_of_others t (cd_connections db p))
     \<and> (\<exists>entries. cd_audit db' = cd_audit db @ entries \<and> (\<forall>e \<in> set entries. al_tenant_id e = t))"

lemma write_audit_below:
  "(\<And>p. rows_of_others t (cd_connections db' p) = rows_of_others t (cd_connections db p)) \<Longrightarrow> cd_audit db' = cd_audit db \<Longrightarrow>
    cap_below t db (write_audit fresh now t event actor details ok message db')"
  by (simp add: cap_below_def write_audit_def audit_log_def)

lemma cap_step_below: "cap_step t db db' \<Longrightarrow> cap_below t db db'"
proof (induction rule: cap_step.induct)
  case (enforce db approved actor reason fresh now r db')
  then show ?case
    by (auto simp: enforce_hard_cap_def Let_def apply_enforcement_at suspend_others split: if_splits intro!: write_audit_below)
next
  case (reverse db actor reason snapshot fresh now n db')
  have id: "cap_below t d d" for d by (simp add: cap_below_def)
  from reverse show ?case
    by (auto simp: reverse_hard_cap_def id restore_from_snapshot_def intro!: write_audit_below
        dest: restore_tables_others split: option.splits sum.splits if_splits)
qed

interpretation cap: monotone_machine "cap_step t" "\<lambda>_. True" "cap_below t"
proof
  show "cap_below t db db" for db by (simp add: cap_below_def)
  show "cap_below t db db2" if "cap_below t db db1" "cap_below t db1 db2" for db db1 db2
    using that by (fastforce simp: cap_below_def)
qed (simp_all add: cap_step_below)

text \<open>
  The hard cap is guarded and stays within the tenant. Any sequence of enforcements and reversals for a
  tenant, with any snapshots, leaves the connections of all other tenants as they are and only appends
  entries of the tenant to the audit log; and without approval an enforcement raises, changes no
  connection and records a failed attempt.
\<close>

theorem hard_cap_scoped:
  assumes "(cap_step t)\<^sup>*\<^sup>* db db1"
  shows "rows_of_others t (cd_connections db1 p) = rows_of_others t (cd_connections db p)
    \<and> (\<exists>entries. cd_audit db1 = cd_audit db @ entries \<and> (\<forall>e \<in> set entries. al_tenant_id e = t))
    \<and> (\<exists>e. enforce_hard_cap db1 t False actor reason fresh now =
          (Inl (OtherError ''Hard-cap enforcement requires explicit approval.''), db1\<lparr>cd_audit := cd_audit db1 @ [e]\<rparr>)
        \<and> al_event_type e = ''budget.hard_cap_enforcement_blocked'' \<and> \<not> al_success e)"
proof -
  have "cap_below t db db1" using cap.run_below [OF assms] by simp
  moreover have "\<exists>e. enforce_hard_cap db1 t False actor reason fresh now =
          (Inl (OtherError ''Hard-cap enforcement requires explicit approval.''), db1\<lparr>cd_audit := cd_audit db1 @ [e]\<rparr>)
        \<and> al_event_type e = ''budget.hard_cap_enforcement_blocked'' \<and> \<not> al_success e"
    unfolding enforce_hard_cap_def write_audit_def
    by (simp only: not_False_eq_True if_True, rule exI, rule conjI, rule refl) (simp add: audit_log_def)
  ultimately show ?thesis by (simp add: cap_below_def)
qed

subsection \<open>A tenant with two connections\<close>

definition sample_cap_db :: cap_db where
  "sample_cap_db = \<lparr>cd_connections = (\<lambda>p.
       if p = ''aws'' then [\<lparr>cn_id = 1, cn_tenant_id = 7, cn_status = ''active'', cn_is_active = True\<rparr>,
           \<lparr>cn_id = 2, cn_tenant_id = 8, cn_status = ''error'', cn_is_active = True\<rparr>]
       else if p = ''gcp'' then [\<lparr>cn_id = 3, cn_tenant_id = 7, cn_status = '''', cn_is_active = True\<rparr>] else []),
     cd_audit = []\<rparr>"

lemma sample_cap_keys: "keys_ok (cd_connections sample_cap_db)" "\<forall>c \<in> set (cd_connections sample_cap_db ''aws''). cn_status c \<noteq> ''''"
  by (simp_all add: keys_ok_def sample_cap_db_def connection_providers_def)

lemma sample_cap_count: "connection_count 7 (cd_connections sample_cap_db) = 2"
  by (simp add: connection_count_def connection_providers_def sample_cap_db_def count_where_def)

lemma sample_enforced:
  obtains s db1 where "enforce_hard_cap sample_cap_db 7 True NoActor None ''c'' 100 = (Inr s, db1)"
    "\<forall>e \<in> set (cd_audit db1). al_event_timestamp e < 200"
  by (auto simp: enforce_hard_cap_def write_audit_def audit_log_def Let_def sample_cap_db_def)

lemma hard_cap_roundtrip_witness:
  "\<exists>s db1 db2. enforce_hard_cap sample_cap_db 7 True NoActor None ''c'' 100 = (Inr s, db1)
     \<and> reverse_hard_cap (db1\<lparr>cd_audit := cd_audit db1 @ []\<rparr>) 7 NoActor None None ''d'' 200 = (Inr 2, db2)
     \<and> cd_connections db2 = cd_connections sample_cap_db"
proof -
  obtain s db1 where run: "enforce_hard_cap sample_cap_db 7 True NoActor None ''c'' 100 = (Inr s, db1)" by (rule sample_enforced)
  have "\<forall>e \<in> set (cd_audit sample_cap_db). cap_entry 7 e \<longrightarrow> al_event_timestamp e < 100" by (simp add: sample_cap_db_def)
  from hard_cap_roundtrip [OF sample_cap_keys this run, of "[]" NoActor None "''d''" 200] run sample_cap_count show ?thesis by fastforce
qed

lemma hard_cap_twice_lost_witness:
  "\<exists>db2 db3. reverse_hard_cap db2 7 NoActor None None ''e'' 300 = (Inr 2, db3) \<and> all_suspended 7 (cd_connections db3)"
proof -
  obtain s db1 where run: "enforce_hard_cap sample_cap_db 7 True NoActor None ''c'' 100 = (Inr s, db1)"
    "\<forall>e \<in> set (cd_audit db1). al_event_timestamp e < 200" by (rule sample_enforced)
  obtain s2 db2 where run2: "enforce_hard_cap db1 7 True NoActor None ''d'' 200 = (Inr s2, db2)"
    by (simp add: enforce_hard_cap_def Let_def)
  have "\<forall>e \<in> set (cd_audit db1). cap_entry 7 e \<longrightarrow> al_event_timestamp e < 200" using run(2) by simp
  from hard_cap_twice_lost [OF sample_cap_keys(1) run(1) this run2] sample_cap_count show ?thesis by fastforce
qed

lemma hard_cap_scoped_witness:
  "\<exists>db1. (cap_step 7)\<^sup>*\<^sup>* sample_cap_db db1 \<and> cd_audit db1 \<noteq> []
     \<and> rows_of_others 7 (cd_connections db1 ''aws'') = rows_of_others 7 (cd_connections sample_cap_db ''aws'')"
proof -
  obtain s db1 where run: "enforce_hard_cap sample_cap_db 7 True NoActor None ''c'' 100 = (Inr s, db1)" by (rule sample_enforced)
  then have step: "(cap_step 7)\<^sup>*\<^sup>* sample_cap_db db1" by (auto intro: cap_step.enforce)
  moreover have "cd_audit db1 \<noteq> []" using run by (auto simp: enforce_hard_cap_def write_audit_def Let_def)
  ultimately show ?thesis using hard_cap_scoped [OF step] by blast
qed

end
