(* ===== verification/Opt_Policy.thy ===== *)
theory Opt_Policy
  imports Gov_Audit Price_Tiers
begin

text \<open>
  Remediation requests and the policy they are checked against: src/app/models/remediation.py,
  src/app/modules/governance/domain/security/remediation_policy.py,
  src/app/shared/core/connection_state.py, src/app/shared/core/provider.py and the policy context of
  src/app/modules/optimization/domain/remediation_context.py.

  The columns of a connection that only some providers have are read with \<open>getattr\<close>; they are the
  dictionary \<open>pv_columns\<close>.
\<close>

subsection \<open>Requests\<close>

datatype remediation_status =
    RS_PENDING | RS_PENDING_APPROVAL | RS_APPROVED | RS_EXECUTING | RS_SCHEDULED
  | RS_COMPLETED | RS_FAILED | RS_REJECTED | RS_CANCELLED

fun remediation_status_value :: "remediation_status \<Rightarrow> string" where
  "remediation_status_value RS_PENDING = ''pending''"
| "remediation_status_value RS_PENDING_APPROVAL = ''pending_approval''"
| "remediation_status_value RS_APPROVED = ''approved''"
| "remediation_status_value RS_EXECUTING = ''executing''"
| "remediation_status_value RS_SCHEDULED = ''scheduled''"
| "remediation_status_value RS_COMPLETED = ''completed''"
| "remediation_status_value RS_FAILED = ''failed''"
| "remediation_status_value RS_REJECTED = ''rejected''"
| "remediation_status_value RS_CANCELLED = ''cancelled''"

datatype remediation_action =
    DELETE_VOLUME | DELETE_SNAPSHOT | RELEASE_ELASTIC_IP | STOP_INSTANCE | TERMINATE_INSTANCE
  | DELETE_S3_BUCKET | DELETE_ECR_IMAGE | DELETE_SAGEMAKER_ENDPOINT | DELETE_REDSHIFT_CLUSTER | DELETE_LOAD_BALANCER
  | STOP_RDS_INSTANCE | DELETE_RDS_INSTANCE | DELETE_NAT_GATEWAY | RESIZE_INSTANCE | DEALLOCATE_AZURE_VM
  | RESIZE_AZURE_VM | STOP_GCP_INSTANCE | RESIZE_GCP_INSTANCE | REVOKE_GITHUB_SEAT | RECLAIM_LICENSE_SEAT
  | MANUAL_REVIEW

fun remediation_action_value :: "remediation_action \<Rightarrow> string" where
  "remediation_action_value DELETE_VOLUME = ''delete_volume''"
| "remediation_action_value DELETE_SNAPSHOT = ''delete_snapshot''"
| "remediation_action_value RELEASE_ELASTIC_IP = ''release_elastic_ip''"
| "remediation_action_value STOP_INSTANCE = ''stop_instance''"
| "remediation_action_value TERMINATE_INSTANCE = ''terminate_instance''"
| "remediation_action_value DELETE_S3_BUCKET = ''delete_s3_bucket''"
| "remediation_action_value DELETE_ECR_IMAGE = ''delete_ecr_image''"
| "remediation_action_value DELETE_SAGEMAKER_ENDPOINT = ''delete_sagemaker_endpoint''"
| "remediation_action_value DELETE_REDSHIFT_CLUSTER = ''delete_redshift_cluster''"
| "remediation_action_value DELETE_LOAD_BALANCER = ''delete_load_balancer''"
| "remediation_action_value STOP_RDS_INSTANCE = ''stop_rds_instance''"
| "remediation_action_value DELETE_RDS_INSTANCE = ''delete_rds_instance''"
| "remediation_action_value DELETE_NAT_GATEWAY = ''delete_nat_gateway''"
| "remediation_action_value RESIZE_INSTANCE = ''resize_instance''"
| "remediation_action_value DEALLOCATE_AZURE_VM = ''deallocate_azure_vm''"
| "remediation_action_value RESIZE_AZURE_VM = ''resize_azure_vm''"
| "remediation_action_value STOP_GCP_INSTANCE = ''stop_gcp_instance''"
| "remediation_action_value RESIZE_GCP_INSTANCE = ''resize_gcp_instance''"
| "remediation_action_value REVOKE_GITHUB_SEAT = ''revoke_github_seat''"
| "remediation_action_value RECLAIM_LICENSE_SEAT = ''reclaim_license_seat''"
| "remediation_action_value MANUAL_REVIEW = ''manual_review''"

record remediation_request =
  rr_id :: uuid
  rr_tenant_id :: uuid
  rr_resource_id :: string
  rr_resource_type :: string
  rr_provider :: string
  rr_connection_id :: "uuid option"
  rr_region :: string
  rr_action :: remediation_action
  rr_status :: remediation_status
  rr_estimated_monthly_savings :: "rat option"
  rr_confidence_score :: "rat option"
  rr_explainability_notes :: "string option"
  rr_create_backup :: bool
  rr_backup_retention_days :: int
  rr_backup_resource_id :: "string option"
  rr_backup_cost_estimate :: "rat option"
  rr_requested_by_user_id :: uuid
  rr_reviewed_by_user_id :: "uuid option"
  rr_review_notes :: "string option"
  rr_execution_error :: "string option"
  rr_scheduled_execution_at :: "instant option"
  rr_escalation_required :: bool
  rr_escalation_reason :: "string option"
  rr_escalated_at :: "instant option"
  rr_executed_at :: "instant option"
  rr_action_parameters :: "dict option"
  rr_created_at :: instant

definition supported_providers :: "string list" where
  "supported_providers = [''aws'', ''azure'', ''gcp'', ''saas'', ''license'', ''platform'', ''hybrid'']"

definition normalize_provider :: "string \<Rightarrow> string" where
  "normalize_provider value = (let p = lower (strip value) in if p \<in> set supported_providers then p else '''')"

subsection \<open>The profile of a connection\<close>

record provider_connection =
  pv_id :: uuid
  pv_tenant_id :: uuid
  pv_columns :: dict
  pv_connector_config :: "dict option"

definition coerce_flag :: "json \<Rightarrow> bool option" where
  "coerce_flag v =
     (case v of
        JBool b \<Rightarrow> Some b
      | JInt n \<Rightarrow> if n = 1 then Some True else if n = 0 then Some False else None
      | JDec n r \<Rightarrow> if r = 1 then Some True else if r = 0 then Some False else None
      | JStr s \<Rightarrow> (let t = lower (strip s) in
          if t \<in> {''1'', ''true'', ''yes'', ''y'', ''on''} then Some True
          else if t \<in> {''0'', ''false'', ''no'', ''n'', ''off''} then Some False else None)
      | _ \<Rightarrow> None)"

definition coerce_text :: "json \<Rightarrow> string option" where
  "coerce_text v = (case v of JStr s \<Rightarrow> if strip s = '''' then None else Some (strip s) | _ \<Rightarrow> None)"

definition criticality_values :: "string list" where
  "criticality_values = [''low'', ''medium'', ''high'', ''critical'']"

definition coerce_criticality :: "json \<Rightarrow> string option" where
  "coerce_criticality v =
     (case coerce_text v of None \<Rightarrow> None | Some t \<Rightarrow> if lower t \<in> set criticality_values then Some (lower t) else None)"

definition extract_profile_value :: "provider_connection \<Rightarrow> string \<Rightarrow> json" where
  "extract_profile_value c key =
     (if dict_get (pv_columns c) key \<noteq> JNull then dict_get (pv_columns c) key
      else case pv_connector_config c of None \<Rightarrow> JNull | Some d \<Rightarrow> dict_get d key)"

definition production_markers :: "string list" where
  "production_markers = [''prod'', ''production'', ''critical'', ''pci'', ''hipaa'']"

definition non_production_markers :: "string list" where
  "non_production_markers = [''dev'', ''development'', ''staging'', ''stage'', ''sandbox'', ''test'', ''qa'']"

definition infer_is_production_from_name :: "json \<Rightarrow> bool option" where
  "infer_is_production_from_name name =
     (let text = lower (text_or_empty name) in
      if text = '''' then None
      else if list_ex (\<lambda>m. contains m text) non_production_markers then Some False
      else if list_ex (\<lambda>m. contains m text) production_markers then Some True
      else None)"

definition env_is_production :: "string option \<Rightarrow> bool option" where
  "env_is_production environment =
     (case map_option lower environment of
        None \<Rightarrow> None
      | Some e \<Rightarrow> if e \<in> {''prod'', ''production'', ''live''} then Some True
          else if e \<in> set non_production_markers then Some False else None)"

text \<open>Whether the connection is production, its criticality, and where the first was found\<close>

definition resolve_connection_profile :: "provider_connection \<Rightarrow> bool option \<times> string option \<times> string" where
  "resolve_connection_profile c =
     (let explicit = coerce_flag (extract_profile_value c ''is_production'');
          environment = env_is_production (coerce_text (extract_profile_value c ''environment''));
          inferred = infer_is_production_from_name (dict_get (pv_columns c) ''name'');
          criticality = coerce_criticality (extract_profile_value c ''criticality'') in
      if explicit \<noteq> None then (explicit, criticality, ''explicit_is_production'')
      else if environment \<noteq> None then (environment, criticality, ''explicit_environment'')
      else if inferred \<noteq> None then (inferred, criticality, ''name_inference'')
      else (None, criticality, ''unknown''))"

subsection \<open>The policy context\<close>

record cloud_account =
  ca_id :: uuid
  ca_tenant_id :: uuid
  ca_provider :: string
  ca_is_production :: bool
  ca_criticality :: "string option"

definition opt_text :: "string option \<Rightarrow> json" where
  "opt_text v = (case v of None \<Rightarrow> JNull | Some s \<Rightarrow> JStr s)"

definition opt_flag :: "bool option \<Rightarrow> json" where
  "opt_flag v = (case v of None \<Rightarrow> JNull | Some b \<Rightarrow> JBool b)"

definition account_context :: "uuid \<Rightarrow> cloud_account \<Rightarrow> dict" where
  "account_context connection_id a = [(''source'', JStr ''cloud_account''), (''connection_id'', JStr (uuid_text connection_id)),
     (''is_production'', JBool (ca_is_production a)), (''criticality'', opt_text (ca_criticality a))]"

definition connection_context :: "uuid \<Rightarrow> provider_connection \<Rightarrow> dict" where
  "connection_context connection_id c =
     (case resolve_connection_profile c of (is_production, criticality, source) \<Rightarrow>
        [(''source'', JStr source), (''connection_id'', JStr (uuid_text connection_id)),
         (''is_production'', opt_flag is_production), (''criticality'', opt_text criticality)])"

text \<open>The account wins if it is marked at all, then the connection, then an unmarked account.\<close>

definition build_system_policy_context ::
  "cloud_account list \<Rightarrow> (string \<Rightarrow> provider_connection list) \<Rightarrow> uuid \<Rightarrow> string \<Rightarrow> uuid option \<Rightarrow> dict" where
  "build_system_policy_context accounts connections tenant_id provider connection_id =
     (let p = normalize_provider provider in
      case connection_id of
        None \<Rightarrow> []
      | Some i \<Rightarrow>
          if p = '''' then []
          else let account = first_row (\<lambda>a. ca_tenant_id a = tenant_id \<and> ca_id a = i \<and> ca_provider a = p) accounts;
                   connection = first_row (\<lambda>c. pv_tenant_id c = tenant_id \<and> pv_id c = i) (connections p) in
            case (account, connection) of
              (Some a, _) \<Rightarrow>
                if ca_is_production a \<or> (ca_criticality a \<noteq> None \<and> ca_criticality a \<noteq> Some '''') then account_context i a
                else (case connection of Some c \<Rightarrow> connection_context i c | None \<Rightarrow> account_context i a)
            | (None, Some c) \<Rightarrow> connection_context i c
            | (None, None) \<Rightarrow> [])"

definition system_policy_context_key :: string where
  "system_policy_context_key = ''_system_policy_context''"

definition dict_pop :: "string \<Rightarrow> dict \<Rightarrow> dict" where
  "dict_pop key d = filter (\<lambda>kv. fst kv \<noteq> key) d"

definition sanitize_action_parameters :: "dict option \<Rightarrow> dict \<Rightarrow> dict option" where
  "sanitize_action_parameters parameters context =
     (let safe = dict_pop system_policy_context_key (case parameters of None \<Rightarrow> [] | Some d \<Rightarrow> d);
          out = (if context = [] then safe else safe @ [(system_policy_context_key, JObj context)]) in
      if out = [] then None else Some out)"

definition strip_system_policy_context :: "dict option \<Rightarrow> dict" where
  "strip_system_policy_context parameters =
     dict_pop system_policy_context_key (case parameters of None \<Rightarrow> [] | Some d \<Rightarrow> d)"

subsection \<open>The policy engine\<close>

datatype policy_decision = POLICY_ALLOW | POLICY_WARN | POLICY_BLOCK | POLICY_ESCALATE

fun policy_decision_value :: "policy_decision \<Rightarrow> string" where
  "policy_decision_value POLICY_ALLOW = ''allow''"
| "policy_decision_value POLICY_WARN = ''warn''"
| "policy_decision_value POLICY_BLOCK = ''block''"
| "policy_decision_value POLICY_ESCALATE = ''escalate''"

record policy_rule_hit =
  ph_rule_id :: string
  ph_decision :: policy_decision
  ph_message :: string
  ph_evidence :: dict

record policy_evaluation =
  pe_decision :: policy_decision
  pe_rule_hits :: "policy_rule_hit list"

definition policy_summary :: "policy_evaluation \<Rightarrow> string" where
  "policy_summary e = (case pe_rule_hits e of [] \<Rightarrow> ''No policy rules triggered.'' | h # _ \<Rightarrow> ph_message h)"

definition policy_to_dict :: "policy_evaluation \<Rightarrow> dict" where
  "policy_to_dict e = [(''decision'', JStr (policy_decision_value (pe_decision e))), (''summary'', JStr (policy_summary e)),
     (''rule_hits'', JList (map (\<lambda>h. JObj [(''rule_id'', JStr (ph_rule_id h)), (''decision'', JStr (policy_decision_value (ph_decision h))),
        (''message'', JStr (ph_message h)), (''evidence'', JObj (ph_evidence h))]) (pe_rule_hits e)))]"

record guard_config =
  gc_enabled :: bool
  gc_block_production_destructive :: bool
  gc_require_gpu_override :: bool
  gc_low_confidence_warn_threshold :: rat

definition default_guard_config :: guard_config where
  "default_guard_config = \<lparr>gc_enabled = True, gc_block_production_destructive = True, gc_require_gpu_override = True,
     gc_low_confidence_warn_threshold = 90 / 100\<rparr>"

definition destructive_actions :: "remediation_action list" where
  "destructive_actions = [DELETE_VOLUME, DELETE_SNAPSHOT, DELETE_S3_BUCKET, DELETE_ECR_IMAGE, DELETE_SAGEMAKER_ENDPOINT,
     DELETE_REDSHIFT_CLUSTER, DELETE_RDS_INSTANCE, DELETE_NAT_GATEWAY, DELETE_LOAD_BALANCER, TERMINATE_INSTANCE]"

definition gpu_approval_actions :: "remediation_action list" where
  "gpu_approval_actions = [STOP_INSTANCE, TERMINATE_INSTANCE, RESIZE_INSTANCE, DELETE_SAGEMAKER_ENDPOINT]"

definition gpu_override_markers :: "string list" where
  "gpu_override_markers = [''gpu-approved'', ''gpu_override'', ''approved_gpu'']"

definition is_destructive :: "remediation_request \<Rightarrow> bool" where
  "is_destructive r \<longleftrightarrow> rr_action r \<in> set destructive_actions"

text \<open>The text the markers are looked for in\<close>

definition request_text :: "remediation_request \<Rightarrow> string" where
  "request_text r = lower (rr_resource_id r @ '' '' @ rr_resource_type r @ '' '' @
     (case rr_explainability_notes r of None \<Rightarrow> '''' | Some s \<Rightarrow> s))"

definition trusted_policy_context :: "remediation_request \<Rightarrow> dict" where
  "trusted_policy_context r =
     (case rr_action_parameters r of None \<Rightarrow> []
      | Some d \<Rightarrow> (case dict_get d system_policy_context_key of JObj context \<Rightarrow> context | _ \<Rightarrow> []))"

definition production_signal_from_context :: "remediation_request \<Rightarrow> bool option" where
  "production_signal_from_context r =
     (let context = trusted_policy_context r in
      if context = [] then None
      else case coerce_flag (dict_get context ''is_production'') of
        Some b \<Rightarrow> Some b
      | None \<Rightarrow> (case dict_get context ''environment'' of
          JStr s \<Rightarrow> (let e = lower (strip s) in
            if e \<in> {''prod'', ''production'', ''live''} then Some True
            else if e \<in> {''dev'', ''development'', ''staging'', ''stage'', ''test''} then Some False
            else None)
        | _ \<Rightarrow> None))"

definition looks_like_production :: "remediation_request \<Rightarrow> bool \<Rightarrow> bool" where
  "looks_like_production r is_production \<longleftrightarrow>
     (if is_production then True
      else case production_signal_from_context r of
        Some b \<Rightarrow> b
      | None \<Rightarrow> list_ex (\<lambda>m. contains m (request_text r)) production_markers)"

text \<open>The pattern \<open>\bword\b\<close> on ASCII text; the flag says whether a word character comes before.\<close>

definition word_char :: "char \<Rightarrow> bool" where
  "word_char c = (let n = (of_char c :: nat) in (48 \<le> n \<and> n \<le> 57) \<or> (65 \<le> n \<and> n \<le> 90) \<or> n = 95 \<or> (97 \<le> n \<and> n \<le> 122))"

fun has_word :: "string \<Rightarrow> bool \<Rightarrow> string \<Rightarrow> bool" where
  "has_word w before [] = False"
| "has_word w before (c # cs) =
     ((\<not> before \<and> prefix w (c # cs) \<and> (case drop (length w) (c # cs) of [] \<Rightarrow> True | d # _ \<Rightarrow> \<not> word_char d))
      \<or> has_word w (word_char c) cs)"

definition is_gpu_sensitive :: "remediation_request \<Rightarrow> bool" where
  "is_gpu_sensitive r \<longleftrightarrow> rr_action r \<in> set gpu_approval_actions \<and> has_word ''gpu'' False (request_text r)"

definition has_gpu_override :: "remediation_request \<Rightarrow> bool" where
  "has_gpu_override r \<longleftrightarrow>
     list_ex (\<lambda>m. contains m (lower (case rr_review_notes r of None \<Rightarrow> '''' | Some s \<Rightarrow> s))) gpu_override_markers"

definition base_evidence :: "remediation_request \<Rightarrow> dict" where
  "base_evidence r =
     [(''request_id'', JStr (uuid_text (rr_id r))), (''tenant_id'', JStr (uuid_text (rr_tenant_id r))),
      (''resource_id'', JStr (rr_resource_id r)), (''resource_type'', JStr (rr_resource_type r)),
      (''action'', JStr (remediation_action_value (rr_action r))),
      (''requested_by_user_id'', JStr (uuid_text (rr_requested_by_user_id r))),
      (''reviewed_by_user_id'', JStr (case rr_reviewed_by_user_id r of None \<Rightarrow> ''None'' | Some i \<Rightarrow> uuid_text i))]
     @ (let context = trusted_policy_context r in
        if context = [] then []
        else [(''policy_context'', JObj [(''source'', dict_get context ''source''), (''is_production'', dict_get context ''is_production''),
          (''criticality'', dict_get context ''criticality''), (''environment'', dict_get context ''environment'')])])"

definition evaluate_block_rules :: "remediation_request \<Rightarrow> guard_config \<Rightarrow> bool \<Rightarrow> policy_rule_hit list" where
  "evaluate_block_rules r config is_production =
     (if gc_block_production_destructive config \<and> is_destructive r \<and> looks_like_production r is_production
      then [\<lparr>ph_rule_id = ''protect-production-destructive'', ph_decision = POLICY_BLOCK,
          ph_message = ''Destructive remediation blocked for production-like resource identifiers.'', ph_evidence = base_evidence r\<rparr>]
      else [])"

definition evaluate_escalation_rules :: "remediation_request \<Rightarrow> guard_config \<Rightarrow> policy_rule_hit list" where
  "evaluate_escalation_rules r config =
     (if gc_require_gpu_override config \<and> is_gpu_sensitive r \<and> \<not> has_gpu_override r
      then [\<lparr>ph_rule_id = ''gpu-change-requires-explicit-override'', ph_decision = POLICY_ESCALATE,
          ph_message = ''GPU-related remediation requires explicit GPU approval override.'', ph_evidence = base_evidence r\<rparr>]
      else [])"

text \<open>The score is a column of decimals, so that it is always valid.\<close>

definition evaluate_warning_rules :: "remediation_request \<Rightarrow> guard_config \<Rightarrow> policy_rule_hit list" where
  "evaluate_warning_rules r config =
     (case rr_confidence_score r of
        None \<Rightarrow> []
      | Some confidence \<Rightarrow>
          if confidence < gc_low_confidence_warn_threshold config
          then [\<lparr>ph_rule_id = ''low-confidence-remediation'', ph_decision = POLICY_WARN,
              ph_message = ''Low-confidence remediation execution; review recommended.'',
              ph_evidence = base_evidence r @ [(''confidence_score'', JDec 2 confidence),
                (''threshold'', JDec 2 (gc_low_confidence_warn_threshold config))]\<rparr>]
          else [])"

definition evaluate_policy :: "remediation_request \<Rightarrow> guard_config \<Rightarrow> bool \<Rightarrow> policy_evaluation" where
  "evaluate_policy r config is_production =
     (let block = evaluate_block_rules r config is_production; escalate = evaluate_escalation_rules r config;
          warn = evaluate_warning_rules r config in
      if \<not> gc_enabled config then \<lparr>pe_decision = POLICY_ALLOW, pe_rule_hits = []\<rparr>
      else if block \<noteq> [] then \<lparr>pe_decision = POLICY_BLOCK, pe_rule_hits = block\<rparr>
      else if escalate \<noteq> [] then \<lparr>pe_decision = POLICY_ESCALATE, pe_rule_hits = escalate\<rparr>
      else if warn \<noteq> [] then \<lparr>pe_decision = POLICY_WARN, pe_rule_hits = warn\<rparr>
      else \<lparr>pe_decision = POLICY_ALLOW, pe_rule_hits = []\<rparr>)"

definition is_production_destructive_remediation :: "remediation_request \<Rightarrow> bool" where
  "is_production_destructive_remediation r \<longleftrightarrow> is_destructive r \<and> looks_like_production r False"

definition is_production_remediation_target :: "remediation_request \<Rightarrow> bool" where
  "is_production_remediation_target r \<longleftrightarrow> looks_like_production r False"

end
