(* ===== verification/Opt_Workflow.thy ===== *)
theory Opt_Workflow
  imports Opt_Policy Job_Queue Fx_Rates
begin

text \<open>
  The life of a remediation request up to its execution: the tables, creation, listing, approval and
  rejection of src/app/modules/optimization/domain/remediation_workflow.py, with the settings and region
  hints of remediation_context.py.

  The database extends the job queue. \<open>rd_cloud\<close> is what has been carried out in the cloud: every action
  the program has called a provider for, in order. The configuration, the clock and the provider's answers
  are the record \<open>rem_env\<close>.
\<close>

subsection \<open>Errors\<close>

datatype rem_error = Kill_switch string | External_api string | Not_found string | Base_error err

type_synonym 'a rem_res = "rem_error + 'a"

text \<open>\<open>str(exception)\<close>; the program's own exceptions name their code and status\<close>

fun rem_error_text :: "rem_error \<Rightarrow> string" where
  "rem_error_text (Kill_switch s) = ''[kill_switch_triggered] '' @ s @ '' (Status: 403)''"
| "rem_error_text (External_api s) = ''[external_api_error] '' @ s @ '' (Status: 502)''"
| "rem_error_text (Not_found s) = ''[not_found] '' @ s @ '' (Status: 404)''"
| "rem_error_text (Base_error e) = err_message e"

fun common_recoverable :: "err \<Rightarrow> bool" where
  "common_recoverable (HTTPException _ _) = False"
| "common_recoverable (HTTPError _) = False"
| "common_recoverable (OtherError _) = False"
| "common_recoverable _ = True"

fun execution_recoverable :: "rem_error \<Rightarrow> bool" where
  "execution_recoverable (Kill_switch _) = True"
| "execution_recoverable (External_api _) = True"
| "execution_recoverable (Not_found _) = False"
| "execution_recoverable (Base_error e) = common_recoverable e"

subsection \<open>State\<close>

record remediation_settings =
  ms_tenant_id :: uuid
  ms_hard_cap_enabled :: bool
  ms_monthly_hard_cap_usd :: rat
  ms_policy_enabled :: bool
  ms_policy_block_production_destructive :: bool
  ms_policy_require_gpu_override :: bool
  ms_policy_low_confidence_warn_threshold :: rat
  ms_policy_escalation_required_role :: string
  ms_license_reclaim_grace_period_days :: int

record cost_row =
  co_tenant_id :: uuid
  co_recorded_at :: int
  co_cost_usd :: rat

record cloud_call =
  cc_request_id :: uuid
  cc_provider :: string
  cc_action :: remediation_action
  cc_resource_id :: string
  cc_at :: instant

record rem_db = job_db +
  rd_requests :: "remediation_request list"
  rd_settings :: "remediation_settings list"
  rd_accounts :: "cloud_account list"
  rd_connections :: "string \<Rightarrow> provider_connection list"
  rd_costs :: "cost_row list"
  rd_audit :: "audit_entry list"
  rd_cloud :: "cloud_call list"
  rd_next_id :: uuid

datatype execution_status = EXEC_SUCCESS | EXEC_FAILED | EXEC_SKIPPED

fun execution_status_value :: "execution_status \<Rightarrow> string" where
  "execution_status_value EXEC_SUCCESS = ''success''"
| "execution_status_value EXEC_FAILED = ''failed''"
| "execution_status_value EXEC_SKIPPED = ''skipped''"

record execution_result =
  er_status :: execution_status
  er_error_message :: "string option"
  er_backup_id :: "string option"

record remediation_context =
  rc_tenant_id :: uuid
  rc_tier :: string
  rc_region :: string
  rc_credentials :: dict
  rc_create_backup :: bool
  rc_backup_retention_days :: int
  rc_parameters :: dict

text \<open>What the provider answers to the calls of a strategy, retries included\<close>

record cloud_action =
  ax_validate :: "string \<Rightarrow> remediation_context \<Rightarrow> bool rem_res"
  ax_create_backup :: "string \<Rightarrow> remediation_context \<Rightarrow> string option rem_res"
  ax_perform :: "string \<Rightarrow> remediation_context \<Rightarrow> execution_result rem_res"

record rem_env =
  rx_now :: instant
  rx_fresh :: string
  rx_region :: string
  rx_tier :: "pricing_tier res"
  rx_aws_default_region :: string
  rx_kill_switch_scope :: string
  rx_kill_switch_threshold :: string
  rx_credentials :: "remediation_request \<Rightarrow> dict rem_res"
  rx_actions :: "string \<Rightarrow> remediation_action \<Rightarrow> cloud_action"

definition system_user_id :: uuid where
  "system_user_id = 0"

definition find_request :: "rem_db \<Rightarrow> uuid \<Rightarrow> uuid \<Rightarrow> remediation_request option" where
  "find_request db request_id tenant_id =
     first_row (\<lambda>r. rr_id r = request_id \<and> rr_tenant_id r = tenant_id) (rd_requests db)"

definition write_request :: "uuid \<Rightarrow> (remediation_request \<Rightarrow> remediation_request) \<Rightarrow> rem_db \<Rightarrow> rem_db" where
  "write_request i f db = db\<lparr>rd_requests := update_where (\<lambda>r. rr_id r = i) f (rd_requests db)\<rparr>"

definition request_missing :: "uuid \<Rightarrow> rem_error" where
  "request_missing i = Not_found (''Request '' @ uuid_text i @ '' not found'')"

subsection \<open>Settings and regions\<close>

definition get_remediation_settings :: "rem_db \<Rightarrow> uuid \<Rightarrow> remediation_settings option" where
  "get_remediation_settings db tenant_id = first_row (\<lambda>s. ms_tenant_id s = tenant_id) (rd_settings db)"

definition build_policy_config :: "rem_db \<Rightarrow> uuid \<Rightarrow> guard_config" where
  "build_policy_config db tenant_id =
     (case get_remediation_settings db tenant_id of
        None \<Rightarrow> default_guard_config
      | Some s \<Rightarrow> \<lparr>gc_enabled = ms_policy_enabled s,
          gc_block_production_destructive = ms_policy_block_production_destructive s,
          gc_require_gpu_override = ms_policy_require_gpu_override s,
          gc_low_confidence_warn_threshold = ms_policy_low_confidence_warn_threshold s\<rparr>)"

definition default_aws_region :: "rem_env \<Rightarrow> string" where
  "default_aws_region env = (let r = strip (rx_aws_default_region env) in if r = '''' then ''us-east-1'' else r)"

text \<open>\<open>resolve_connection_region\<close> of a connection of AWS\<close>

definition aws_connection_region :: "rem_env \<Rightarrow> provider_connection \<Rightarrow> string" where
  "aws_connection_region env c =
     (let raw = (case dict_get (pv_columns c) ''region'' of JStr s \<Rightarrow> strip s | _ \<Rightarrow> '''') in
      if raw = '''' \<or> raw = ''global'' then default_aws_region env else raw)"

definition find_connection :: "rem_db \<Rightarrow> string \<Rightarrow> uuid \<Rightarrow> uuid \<Rightarrow> provider_connection option" where
  "find_connection db provider connection_id tenant_id =
     first_row (\<lambda>c. pv_tenant_id c = tenant_id \<and> pv_id c = connection_id) (rd_connections db provider)"

definition resolve_aws_region_hint ::
  "rem_env \<Rightarrow> rem_db \<Rightarrow> uuid \<Rightarrow> uuid option \<Rightarrow> provider_connection option \<Rightarrow> string" where
  "resolve_aws_region_hint env db tenant_id connection_id connection =
     (let hint = lower (strip (rx_region env));
          of_connection = (\<lambda>c. case c of None \<Rightarrow> ''global'' | Some x \<Rightarrow> aws_connection_region env x);
          scoped = (case connection_id of None \<Rightarrow> None | Some i \<Rightarrow> find_connection db ''aws'' i tenant_id) in
      if hint \<noteq> '''' \<and> hint \<noteq> ''global'' then hint
      else if of_connection connection \<noteq> ''global'' then of_connection connection
      else if of_connection scoped \<noteq> ''global'' then of_connection scoped
      else default_aws_region env)"

subsection \<open>Creation and listing\<close>

record request_args =
  ra_user_id :: uuid
  ra_resource_id :: string
  ra_resource_type :: string
  ra_action :: remediation_action
  ra_estimated_savings :: rat
  ra_provider :: string
  ra_create_backup :: bool
  ra_backup_retention_days :: int
  ra_backup_cost_estimate :: rat
  ra_confidence_score :: "rat option"
  ra_explainability_notes :: "string option"
  ra_connection_id :: "uuid option"
  ra_parameters :: "dict option"

definition new_request :: "rem_env \<Rightarrow> rem_db \<Rightarrow> uuid \<Rightarrow> request_args \<Rightarrow> string \<Rightarrow> string \<Rightarrow> remediation_request" where
  "new_request env db tenant_id a provider region =
     \<lparr>rr_id = rd_next_id db, rr_tenant_id = tenant_id, rr_resource_id = ra_resource_id a, rr_resource_type = ra_resource_type a,
      rr_provider = provider, rr_connection_id = ra_connection_id a, rr_region = region, rr_action = ra_action a,
      rr_status = RS_PENDING, rr_estimated_monthly_savings = Some (numeric 2 (ra_estimated_savings a)),
      rr_confidence_score = map_option (numeric 2) (ra_confidence_score a),
      rr_explainability_notes = ra_explainability_notes a, rr_create_backup = ra_create_backup a,
      rr_backup_retention_days = ra_backup_retention_days a, rr_backup_resource_id = None,
      rr_backup_cost_estimate = (if ra_backup_cost_estimate a = 0 then None else Some (numeric 4 (ra_backup_cost_estimate a))),
      rr_requested_by_user_id = ra_user_id a, rr_reviewed_by_user_id = None, rr_review_notes = None,
      rr_execution_error = None, rr_scheduled_execution_at = None, rr_escalation_required = False,
      rr_escalation_reason = None, rr_escalated_at = None, rr_executed_at = None,
      rr_action_parameters = sanitize_action_parameters (ra_parameters a)
        (build_system_policy_context (rd_accounts db) (rd_connections db) tenant_id provider (ra_connection_id a)),
      rr_created_at = rx_now env\<rparr>"

definition create_remediation_request ::
  "rem_env \<Rightarrow> rem_db \<Rightarrow> uuid \<Rightarrow> request_args \<Rightarrow> remediation_request rem_res \<times> rem_db" where
  "create_remediation_request env db tenant_id a =
     (let provider = normalize_provider (ra_provider a);
          scoped = (case ra_connection_id a of None \<Rightarrow> None | Some i \<Rightarrow> find_connection db provider i tenant_id) in
      if provider = '''' then (Inl (Base_error (ValueError (''Invalid provider: '' @ ra_provider a))), db)
      else if ra_connection_id a \<noteq> None \<and> scoped = None
      then (Inl (Base_error (ValueError ''Unauthorized: Connection does not belong to tenant'')), db)
      else
        let region = (if provider = ''aws'' then resolve_aws_region_hint env db tenant_id (ra_connection_id a) scoped else ''global'');
            r = new_request env db tenant_id a provider region in
        (Inr r, db\<lparr>rd_requests := rd_requests db @ [r], rd_next_id := rd_next_id db + 1\<rparr>))"

definition open_statuses :: "remediation_status list" where
  "open_statuses = [RS_PENDING, RS_PENDING_APPROVAL, RS_APPROVED, RS_SCHEDULED, RS_EXECUTING]"

definition list_pending_requests :: "rem_db \<Rightarrow> uuid \<Rightarrow> nat \<Rightarrow> nat \<Rightarrow> remediation_request list" where
  "list_pending_requests db tenant_id limit offset =
     take (min limit 200) (drop offset (sort_key (\<lambda>r. - rr_created_at r)
       (filter (\<lambda>r. rr_tenant_id r = tenant_id \<and> rr_status r \<in> set open_statuses) (rd_requests db))))"

subsection \<open>Review\<close>

definition not_pending :: "remediation_request \<Rightarrow> rem_error" where
  "not_pending r = Base_error (ValueError
     (''Request is '' @ remediation_status_value (rr_status r) @ '', not pending approval''))"

text \<open>The role that may approve an escalated request\<close>

definition escalation_role :: "remediation_settings option \<Rightarrow> string" where
  "escalation_role settings =
     (let role = (case settings of None \<Rightarrow> ''owner''
            | Some s \<Rightarrow> if ms_policy_escalation_required_role s = '''' then ''owner'' else ms_policy_escalation_required_role s);
          normalized = lower (strip role) in
      if normalized \<in> {''owner'', ''admin''} then normalized else ''owner'')"

definition gpu_marker :: string where
  "gpu_marker = ''gpu-approved''"

definition escalation_notes :: "string option \<Rightarrow> string" where
  "escalation_notes notes =
     (case notes of
        None \<Rightarrow> ''Owner escalation approval ['' @ gpu_marker @ '']''
      | Some n \<Rightarrow>
          if n = '''' then ''Owner escalation approval ['' @ gpu_marker @ '']''
          else if contains gpu_marker (lower n) then n
          else n @ [CHR 0x0A] @ ''['' @ gpu_marker @ '']'')"

definition reviewed :: "remediation_status \<Rightarrow> uuid \<Rightarrow> string option \<Rightarrow> remediation_request \<Rightarrow> remediation_request" where
  "reviewed status reviewer notes r = r\<lparr>rr_status := status, rr_reviewed_by_user_id := Some reviewer, rr_review_notes := notes,
     rr_escalation_required := False, rr_escalation_reason := None\<rparr>"

definition reviewable :: "remediation_request \<Rightarrow> bool" where
  "reviewable r \<longleftrightarrow> rr_status r \<in> {RS_PENDING, RS_PENDING_APPROVAL}"

definition approve_remediation_request ::
  "rem_db \<Rightarrow> uuid \<Rightarrow> uuid \<Rightarrow> uuid \<Rightarrow> string option \<Rightarrow> string option \<Rightarrow> remediation_request rem_res \<times> rem_db" where
  "approve_remediation_request db request_id tenant_id reviewer_id notes reviewer_role =
     (case find_request db request_id tenant_id of
        None \<Rightarrow> (Inl (request_missing request_id), db)
      | Some r \<Rightarrow>
          if \<not> reviewable r then (Inl (not_pending r), db)
          else
            let role = lower (strip (case reviewer_role of None \<Rightarrow> '''' | Some s \<Rightarrow> s));
                required = escalation_role (get_remediation_settings db tenant_id) in
            if rr_escalation_required r \<and> role \<noteq> ''owner'' \<and> role \<noteq> required
            then (Inl (Base_error (ValueError (''Escalated remediation requests require '' @ required @ '' approval.''))), db)
            else
              let n = (if rr_escalation_required r then Some (escalation_notes notes) else notes) in
              (Inr (reviewed RS_APPROVED reviewer_id n r), write_request request_id (reviewed RS_APPROVED reviewer_id n) db))"

definition reject_request ::
  "rem_db \<Rightarrow> uuid \<Rightarrow> uuid \<Rightarrow> uuid \<Rightarrow> string option \<Rightarrow> remediation_request rem_res \<times> rem_db" where
  "reject_request db request_id tenant_id reviewer_id notes =
     (case find_request db request_id tenant_id of
        None \<Rightarrow> (Inl (request_missing request_id), db)
      | Some r \<Rightarrow>
          if \<not> reviewable r then (Inl (not_pending r), db)
          else (Inr (reviewed RS_REJECTED reviewer_id notes r), write_request request_id (reviewed RS_REJECTED reviewer_id notes) db))"

end
