(* ===== verification/Opt_Execution.thy ===== *)
theory Opt_Execution
  imports Opt_Workflow Enf_Permissions
begin

text \<open>
  The execution of remediation requests: the guards of src/app/shared/core/safety_service.py, and
  remediation_execute.py, remediation_execute_helpers.py and the template and the registry of actions/
  (base.py, factory.py) under src/app/modules/optimization/domain.

  An execution gives up its row lock when it commits the status \<open>executing\<close> and then calls the provider,
  so it is two operations: \<open>start_execution\<close> up to that commit, and \<open>finish_execution\<close> after it. What the
  second needs of the first is the ticket. Notifications and metrics are left out.
\<close>

subsection \<open>Guards\<close>

definition kill_switch_scope :: "rem_env \<Rightarrow> string" where
  "kill_switch_scope env =
     (let s = lower (strip (if rx_kill_switch_scope env = '''' then ''tenant'' else rx_kill_switch_scope env)) in
      if s \<in> {''tenant'', ''global''} then s else ''tenant'')"

text \<open>The savings of the requests completed on the day of \<open>now\<close>\<close>

definition completed_impact :: "rem_db \<Rightarrow> (uuid \<Rightarrow> bool) \<Rightarrow> instant \<Rightarrow> rat" where
  "completed_impact db tenants now =
     sum_list (map (\<lambda>r. case rr_estimated_monthly_savings r of None \<Rightarrow> 0 | Some s \<Rightarrow> s)
       (filter (\<lambda>r. rr_status r = RS_COMPLETED \<and> tenants (rr_tenant_id r)
          \<and> map_option ordinal_of_instant (rr_executed_at r) = Some (ordinal_of_instant now)) (rd_requests db)))"

definition kill_switch_tenants :: "rem_env \<Rightarrow> uuid \<Rightarrow> uuid \<Rightarrow> bool" where
  "kill_switch_tenants env tenant_id t \<longleftrightarrow> kill_switch_scope env = ''tenant'' \<longrightarrow> t = tenant_id"

definition check_global_kill_switch :: "rem_env \<Rightarrow> rem_db \<Rightarrow> uuid \<Rightarrow> rat \<Rightarrow> unit rem_res" where
  "check_global_kill_switch env db tenant_id estimated_impact =
     (case parse_decimal (rx_kill_switch_threshold env) of
        None \<Rightarrow> Inl (Base_error invalid_operation)
      | Some threshold \<Rightarrow>
          if threshold \<le> completed_impact db (kill_switch_tenants env tenant_id) (rx_now env) + estimated_impact
          then Inl (Kill_switch (''Safety kill-switch triggered. Daily cost impact limit ($'' @ rx_kill_switch_threshold env @ '') reached.''))
          else Inr ())"

text \<open>\<open>str(float(amount))\<close> of an amount with two places\<close>

definition amount_text :: "rat \<Rightarrow> string" where
  "amount_text a = (if on_grid 1 a then fixed_text 1 a else fixed_text 2 a)"

definition month_spend :: "rem_db \<Rightarrow> uuid \<Rightarrow> instant \<Rightarrow> rat" where
  "month_spend db tenant_id now =
     (let today = ordinal_of_instant now; first = toordinal (date_of_instant now\<lparr>d_day := 1\<rparr>) in
      sum_list (map co_cost_usd (filter (\<lambda>c. co_tenant_id c = tenant_id \<and> first \<le> co_recorded_at c \<and> co_recorded_at c \<le> today)
        (rd_costs db))))"

definition check_monthly_hard_cap :: "rem_env \<Rightarrow> rem_db \<Rightarrow> uuid \<Rightarrow> unit rem_res" where
  "check_monthly_hard_cap env db tenant_id =
     (case get_remediation_settings db tenant_id of
        None \<Rightarrow> Inr ()
      | Some s \<Rightarrow>
          if \<not> ms_hard_cap_enabled s then Inr ()
          else if ms_monthly_hard_cap_usd s < month_spend db tenant_id (rx_now env)
          then Inl (Kill_switch (''Monthly budget hard-cap reached ($'' @ amount_text (ms_monthly_hard_cap_usd s) @ ''). Remediation disabled.''))
          else Inr ())"

definition failures_today :: "rem_db \<Rightarrow> uuid \<Rightarrow> instant \<Rightarrow> nat" where
  "failures_today db tenant_id now =
     count_where (\<lambda>r. rr_tenant_id r = tenant_id \<and> rr_status r = RS_FAILED
        \<and> (case rr_executed_at r of None \<Rightarrow> False | Some t \<Rightarrow> instant_of_ordinal (ordinal_of_instant now) \<le> t)) (rd_requests db)"

definition check_circuit_breaker :: "rem_env \<Rightarrow> rem_db \<Rightarrow> uuid \<Rightarrow> unit rem_res" where
  "check_circuit_breaker env db tenant_id =
     (let n = failures_today db tenant_id (rx_now env) in
      if 5 \<le> n
      then Inl (Kill_switch (''Remediation circuit breaker open due to '' @ nat_text n @ '' recent failures. Reset required.''))
      else Inr ())"

definition check_all_guards :: "rem_env \<Rightarrow> rem_db \<Rightarrow> uuid \<Rightarrow> rat \<Rightarrow> unit rem_res" where
  "check_all_guards env db tenant_id estimated_impact =
     (case check_global_kill_switch env db tenant_id estimated_impact of
        Inl e \<Rightarrow> Inl e
      | Inr _ \<Rightarrow>
          (case check_monthly_hard_cap env db tenant_id of
             Inl e \<Rightarrow> Inl e
           | Inr _ \<Rightarrow> check_circuit_breaker env db tenant_id))"

subsection \<open>Starting an execution\<close>

record execution_ticket =
  tk_request :: remediation_request
  tk_tier :: string
  tk_provider :: string
  tk_actor :: string
  tk_bypassed :: bool

datatype execution_start = Settled remediation_request | Started execution_ticket

definition rem_log ::
  "rem_env \<Rightarrow> string \<Rightarrow> string \<Rightarrow> remediation_request \<Rightarrow> bool \<Rightarrow> string option \<Rightarrow> dict \<Rightarrow> rem_db \<Rightarrow> rem_db" where
  "rem_log env event_type actor r success error_message details db =
     db\<lparr>rd_audit := rd_audit db @ [audit_log (rr_tenant_id r) None (rx_fresh env) (rx_now env)
        \<lparr>aq_event_type = event_type, aq_actor_id = ActorText actor, aq_actor_email = None, aq_actor_ip = None,
         aq_resource_type = Some (if rr_resource_type r = '''' then ''unknown'' else rr_resource_type r),
         aq_resource_id = Some (rr_resource_id r), aq_details = details,
         aq_success = success, aq_error_message = error_message, aq_request_method = None, aq_request_path = None\<rparr>]\<rparr>"

definition execution_actor :: "remediation_request \<Rightarrow> string" where
  "execution_actor r = uuid_text (case rr_reviewed_by_user_id r of None \<Rightarrow> system_user_id | Some i \<Rightarrow> i)"

definition fail_row :: "string \<Rightarrow> remediation_request \<Rightarrow> remediation_request" where
  "fail_row message r = r\<lparr>rr_status := RS_FAILED, rr_execution_error := Some message\<rparr>"

definition request_details :: "remediation_request \<Rightarrow> dict" where
  "request_details r = [(''request_id'', JStr (uuid_text (rr_id r))), (''action'', JStr (remediation_action_value (rr_action r)))]"

text \<open>The handler of the recoverable exceptions; the others roll the session back and are raised again\<close>

definition fail_execution :: "rem_env \<Rightarrow> rem_error \<Rightarrow> remediation_request \<Rightarrow> rem_db \<Rightarrow> remediation_request \<times> rem_db" where
  "fail_execution env e r db =
     (fail_row (take 500 (rem_error_text e)) r,
      rem_log env ''remediation.failed'' (execution_actor r) r False (Some (rem_error_text e)) (request_details r)
        (write_request (rr_id r) (fail_row (take 500 (rem_error_text e))) db))"

definition start_failed :: "rem_env \<Rightarrow> rem_error \<Rightarrow> remediation_request \<Rightarrow> rem_db \<Rightarrow> execution_start rem_res \<times> rem_db" where
  "start_failed env e r db =
     (if execution_recoverable e then (case fail_execution env e r db of (r', db') \<Rightarrow> (Inr (Settled r'), db'))
      else (Inl e, db))"

definition execution_tier :: "rem_env \<Rightarrow> pricing_tier rem_res" where
  "execution_tier env =
     (case rx_tier env of Inr t \<Rightarrow> Inr t
      | Inl e \<Rightarrow> if common_recoverable e then Inr FREE else Inl (Base_error e))"

text \<open>
  What the status says about an execution: it may go on, with the flag that a grace period was bypassed,
  it is too early, or the request is in no state to be executed.
\<close>

datatype readiness = Ready bool | Deferred | Unready rem_error

definition execution_readiness :: "remediation_request \<Rightarrow> bool \<Rightarrow> instant \<Rightarrow> readiness" where
  "execution_readiness r bypass_grace_period now =
     (if rr_status r = RS_APPROVED then Ready False
      else if rr_status r = RS_SCHEDULED then
        (case rr_scheduled_execution_at r of
           None \<Rightarrow> Ready False
         | Some t \<Rightarrow> if now < t then (if bypass_grace_period then Ready True else Deferred) else Ready False)
      else Unready (Base_error (ValueError
        (''Request must be approved or scheduled (current: '' @ remediation_status_value (rr_status r) @ '')''))))"

definition with_policy_context :: "rem_db \<Rightarrow> string \<Rightarrow> remediation_request \<Rightarrow> remediation_request" where
  "with_policy_context db provider r =
     r\<lparr>rr_action_parameters := sanitize_action_parameters (rr_action_parameters r)
        (build_system_policy_context (rd_accounts db) (rd_connections db) (rr_tenant_id r) provider (rr_connection_id r))\<rparr>"

definition policy_details :: "rem_db \<Rightarrow> pricing_tier \<Rightarrow> remediation_request \<Rightarrow> policy_evaluation \<Rightarrow> dict" where
  "policy_details db tier r e =
     [(''request_id'', JStr (uuid_text (rr_id r))), (''action'', JStr (remediation_action_value (rr_action r))),
      (''stage'', JStr ''pre_execution''), (''tier'', JStr (tier_value tier)), (''policy'', JObj (policy_to_dict e)),
      (''policy_context_source'', dict_get (trusted_policy_context r) ''source'')]"

definition block_row :: "policy_evaluation \<Rightarrow> remediation_request \<Rightarrow> remediation_request" where
  "block_row e r = fail_row (''POLICY_BLOCK: '' @ policy_summary e) r"

definition escalate_row :: "policy_evaluation \<Rightarrow> instant \<Rightarrow> remediation_request \<Rightarrow> remediation_request" where
  "escalate_row e now r = r\<lparr>rr_status := RS_PENDING_APPROVAL, rr_escalation_required := True,
     rr_escalation_reason := Some (policy_summary e), rr_escalated_at := Some now, rr_execution_error := None\<rparr>"

text \<open>\<open>getattr(settings, "license_reclaim_grace_period_days", 1) or 1\<close>\<close>

definition grace_hours :: "remediation_settings option \<Rightarrow> remediation_action \<Rightarrow> int" where
  "grace_hours settings action =
     (if action = RECLAIM_LICENSE_SEAT then
        (case settings of None \<Rightarrow> 1
         | Some s \<Rightarrow> if ms_license_reclaim_grace_period_days s = 0 then 1 else ms_license_reclaim_grace_period_days s) * 24
      else 24)"

definition schedule_row :: "instant \<Rightarrow> remediation_request \<Rightarrow> remediation_request" where
  "schedule_row t r = r\<lparr>rr_status := RS_SCHEDULED, rr_scheduled_execution_at := Some t\<rparr>"

text \<open>The job that executes a scheduled request has no key of its own, so that enqueueing cannot fail.\<close>

definition schedule_grace_period :: "rem_env \<Rightarrow> remediation_request \<Rightarrow> rem_db \<Rightarrow> remediation_request \<times> rem_db" where
  "schedule_grace_period env r db =
     (let hours = grace_hours (get_remediation_settings db (rr_tenant_id r)) (rr_action r);
          scheduled_at = rx_now env + seconds (3600 * hours);
          db1 = rem_log env ''remediation.execution_started'' (execution_actor r) r True None
            (request_details r @ [(''scheduled_execution_at'', JStr (isoformat scheduled_at)),
              (''note'', JStr (''Resource scheduled for execution after '' @ int_text hours @ ''h grace period.''))])
            (write_request (rr_id r) (schedule_row scheduled_at) db) in
      (schedule_row scheduled_at r,
       snd (enqueue_job db1 ''remediation'' (Some (rr_tenant_id r))
         (Some [(''request_id'', Json (JStr (uuid_text (rr_id r))))]) (Some scheduled_at) 3 None (rx_now env))))"

text \<open>From the evaluation of the policy to the commit of the new status\<close>

definition decide_execution ::
  "rem_env \<Rightarrow> pricing_tier \<Rightarrow> string \<Rightarrow> bool \<Rightarrow> bool \<Rightarrow> remediation_request \<Rightarrow> rem_db \<Rightarrow> execution_start \<times> rem_db" where
  "decide_execution env tier provider bypass_grace_period bypassed r0 db0 =
     (let r = with_policy_context db0 provider r0;
          db = write_request (rr_id r0) (with_policy_context db0 provider) db0;
          e = evaluate_policy r (build_policy_config db (rr_tenant_id r)) False;
          details = policy_details db tier r e; actor = execution_actor r;
          db1 = rem_log env ''policy.evaluated'' actor r True None details db;
          db2 = (if pe_decision e = POLICY_WARN then rem_log env ''policy.warned'' actor r True None details db1 else db1) in
      if pe_decision e = POLICY_BLOCK then
        (Settled (block_row e r), rem_log env ''policy.blocked'' actor r False (Some (''POLICY_BLOCK: '' @ policy_summary e)) details
           (write_request (rr_id r) (block_row e) db1))
      else if pe_decision e = POLICY_ESCALATE then
        (Settled (escalate_row e (rx_now env) r), rem_log env ''policy.escalated'' actor r False (Some (policy_summary e))
           (details @ [(''escalation_workflow_feature_enabled'', JBool (is_feature_enabled (Tier tier) (Feature ESCALATION_WORKFLOW)))])
           (write_request (rr_id r) (escalate_row e (rx_now env)) db1))
      else if rr_status r = RS_APPROVED \<and> \<not> bypass_grace_period then
        (case schedule_grace_period env r db2 of (r', db3) \<Rightarrow> (Settled r', db3))
      else
        (Started \<lparr>tk_request = r\<lparr>rr_status := RS_EXECUTING\<rparr>, tk_tier = tier_value tier, tk_provider = provider,
            tk_actor = actor, tk_bypassed = bypassed\<rparr>,
         write_request (rr_id r) (rr_status_update (\<lambda>_. RS_EXECUTING)) db2))"

definition start_execution ::
  "rem_env \<Rightarrow> rem_db \<Rightarrow> uuid \<Rightarrow> uuid \<Rightarrow> bool \<Rightarrow> execution_start rem_res \<times> rem_db" where
  "start_execution env db request_id tenant_id bypass_grace_period =
     (case find_request db request_id tenant_id of
        None \<Rightarrow> (Inl (request_missing request_id), db)
      | Some r \<Rightarrow>
          (case execution_tier env of
             Inl e \<Rightarrow> (Inl e, db)
           | Inr tier \<Rightarrow>
               let provider = normalize_provider (rr_provider r);
                   savings = (case rr_estimated_monthly_savings r of None \<Rightarrow> 0 | Some s \<Rightarrow> s) in
               if provider = '''' then (Inl (Base_error (ValueError ''Invalid or missing provider on remediation request'')), db)
               else (case check_all_guards env db tenant_id savings of
                  Inl e \<Rightarrow> start_failed env e r db
                | Inr _ \<Rightarrow>
                    (case execution_readiness r bypass_grace_period (rx_now env) of
                       Unready e \<Rightarrow> start_failed env e r db
                     | Deferred \<Rightarrow> (Inr (Settled r), db)
                     | Ready bypassed \<Rightarrow>
                         (case decide_execution env tier provider bypass_grace_period bypassed r db of (s, db') \<Rightarrow> (Inr s, db'))))))"

subsection \<open>The strategies\<close>

text \<open>The pairs that the strategy modules register, and the feature each provider's strategies need\<close>

definition registered_strategies :: "(string \<times> remediation_action) list" where
  "registered_strategies =
     map (Pair ''aws'') [DELETE_S3_BUCKET, DELETE_ECR_IMAGE, DELETE_VOLUME, STOP_INSTANCE, TERMINATE_INSTANCE, RESIZE_INSTANCE,
       DELETE_SNAPSHOT, RELEASE_ELASTIC_IP, DELETE_NAT_GATEWAY, DELETE_REDSHIFT_CLUSTER, DELETE_SAGEMAKER_ENDPOINT,
       DELETE_LOAD_BALANCER, STOP_RDS_INSTANCE, DELETE_RDS_INSTANCE]
     @ map (Pair ''azure'') [DEALLOCATE_AZURE_VM, RESIZE_AZURE_VM]
     @ map (Pair ''gcp'') [STOP_GCP_INSTANCE, RESIZE_GCP_INSTANCE]
     @ map (Pair ''saas'') [MANUAL_REVIEW, REVOKE_GITHUB_SEAT]
     @ [(''license'', RECLAIM_LICENSE_SEAT), (''platform'', MANUAL_REVIEW), (''hybrid'', MANUAL_REVIEW)]"

definition required_feature :: "string \<Rightarrow> feature_flag" where
  "required_feature provider =
     (if provider = ''aws'' then AUTO_REMEDIATION
      else if provider \<in> {''azure'', ''gcp''} then MULTI_CLOUD else CLOUD_PLUS_CONNECTORS)"

definition unregistered_strategy :: "string \<Rightarrow> remediation_action \<Rightarrow> rem_error" where
  "unregistered_strategy provider action =
     (let available = sort (map (\<lambda>(p, a). p @ ''/'' @ remediation_action_value a) (filter (\<lambda>(p, a). p = provider) registered_strategies)) in
      Base_error (ValueError (''No remediation strategy registered for '' @ provider @ ''/'' @ remediation_action_value action @ ''.''
        @ (if available = [] then '' No actions registered for this provider.''
           else '' Available for provider '' @ [CHR 0x27] @ provider @ [CHR 0x27] @ '': '' @ join_text '', '' available))))"

text \<open>The exceptions that the template turns into a failed result; \<open>ClientError\<close> is botocore's.\<close>

fun action_recoverable :: "rem_error \<Rightarrow> bool" where
  "action_recoverable (Base_error (OSError _)) = True"
| "action_recoverable (Base_error TimeoutError) = True"
| "action_recoverable (Base_error (RuntimeError _)) = True"
| "action_recoverable (Base_error (TypeError _)) = True"
| "action_recoverable (Base_error (ValueError _)) = True"
| "action_recoverable (Base_error (KeyError _)) = True"
| "action_recoverable (Base_error (OtherError s)) = prefix ''ClientError'' s"
| "action_recoverable _ = False"

definition action_failed :: "rem_error \<Rightarrow> execution_result rem_res" where
  "action_failed e =
     (if action_recoverable e
      then Inr \<lparr>er_status = EXEC_FAILED, er_error_message = Some (rem_error_text e), er_backup_id = None\<rparr> else Inl e)"

text \<open>The template, and whether it got as far as carrying out the action\<close>

definition run_action :: "cloud_action \<Rightarrow> feature_flag \<Rightarrow> string \<Rightarrow> remediation_context \<Rightarrow> execution_result rem_res \<times> bool" where
  "run_action a feature resource_id context =
     (let skipped = (\<lambda>m. (Inr \<lparr>er_status = EXEC_SKIPPED, er_error_message = Some m, er_backup_id = None\<rparr>, False)) in
      if \<not> is_feature_enabled (TierText (rc_tier context)) (Feature feature) then
        skipped (''Feature '' @ [CHR 0x27] @ feature_value feature @ [CHR 0x27] @ '' not enabled for tier '' @ [CHR 0x27] @ rc_tier context @ [CHR 0x27])
      else (case ax_validate a resource_id context of
          Inl e \<Rightarrow> (action_failed e, False)
        | Inr False \<Rightarrow> skipped ''Validation failed''
        | Inr True \<Rightarrow>
            (case (if rc_create_backup context then ax_create_backup a resource_id context else Inr None) of
               Inl e \<Rightarrow> (action_failed e, False)
             | Inr backup \<Rightarrow>
                 (case ax_perform a resource_id context of
                    Inl e \<Rightarrow> (action_failed e, True)
                  | Inr res \<Rightarrow> (Inr (res\<lparr>er_backup_id := backup\<rparr>), True)))))"

subsection \<open>Finishing an execution\<close>

definition execution_region :: "rem_env \<Rightarrow> rem_db \<Rightarrow> execution_ticket \<Rightarrow> dict \<Rightarrow> string" where
  "execution_region env db t credentials =
     (let r = tk_request t;
          vague = (\<lambda>s. lower (strip s) \<in> {'''', ''global''});
          region = (if rr_region r = '''' then rx_region env else rr_region r);
          from_credentials = text_or_empty (dict_get credentials ''region'');
          region1 = (if vague region \<and> from_credentials \<noteq> '''' \<and> lower from_credentials \<noteq> ''global'' then from_credentials else region) in
      if tk_provider t = ''aws'' \<and> vague region1
      then resolve_aws_region_hint env db (rr_tenant_id r) (rr_connection_id r) None else region1)"

definition build_remediation_context :: "execution_ticket \<Rightarrow> string \<Rightarrow> dict \<Rightarrow> remediation_context" where
  "build_remediation_context t region credentials =
     (let r = tk_request t in
      \<lparr>rc_tenant_id = rr_tenant_id r, rc_tier = tk_tier t, rc_region = region, rc_credentials = credentials,
       rc_create_backup = rr_create_backup r,
       rc_backup_retention_days = (if rr_backup_retention_days r = 0 then 30 else rr_backup_retention_days r),
       rc_parameters = strip_system_policy_context (rr_action_parameters r)\<rparr>)"

definition error_or :: "string option \<Rightarrow> string \<Rightarrow> string" where
  "error_or m dflt = (case m of None \<Rightarrow> dflt | Some s \<Rightarrow> if s = '''' then dflt else s)"

definition apply_execution_result :: "execution_result \<Rightarrow> instant \<Rightarrow> remediation_request \<Rightarrow> remediation_request" where
  "apply_execution_result res now r =
     (case er_status res of
        EXEC_SUCCESS \<Rightarrow> r\<lparr>rr_status := RS_COMPLETED, rr_executed_at := Some now, rr_backup_resource_id := er_backup_id res,
          rr_execution_error := None\<rparr>
      | EXEC_SKIPPED \<Rightarrow> fail_row (error_or (er_error_message res) ''Action skipped by validation or tier policy.'') r
      | EXEC_FAILED \<Rightarrow> fail_row (error_or (er_error_message res) ''Action failed.'') r)"

definition finish_failed :: "rem_env \<Rightarrow> rem_error \<Rightarrow> remediation_request \<Rightarrow> rem_db \<Rightarrow> rem_db \<Rightarrow> remediation_request rem_res \<times> rem_db" where
  "finish_failed env e r db rolled_back =
     (if execution_recoverable e then (case fail_execution env e r db of (r', db') \<Rightarrow> (Inr r', db')) else (Inl e, rolled_back))"

definition record_call :: "rem_env \<Rightarrow> execution_ticket \<Rightarrow> bool \<Rightarrow> rem_db \<Rightarrow> rem_db" where
  "record_call env t attempted db =
     (if attempted
      then db\<lparr>rd_cloud := rd_cloud db @ [\<lparr>cc_request_id = rr_id (tk_request t), cc_provider = tk_provider t,
          cc_action = rr_action (tk_request t), cc_resource_id = rr_resource_id (tk_request t), cc_at = rx_now env\<rparr>]\<rparr>
      else db)"

definition finish_execution :: "rem_env \<Rightarrow> execution_ticket \<Rightarrow> rem_db \<Rightarrow> remediation_request rem_res \<times> rem_db" where
  "finish_execution env t db0 =
     (let r = tk_request t; action = rr_action r;
          db = rem_log env ''remediation.execution_started'' (tk_actor t) r True None
            (request_details r @ [(''triggered_by'', JStr ''background_worker''), (''grace_period_bypassed'', JBool (tk_bypassed t))]) db0 in
      case rx_credentials env r of
        Inl e \<Rightarrow> finish_failed env e r db db0
      | Inr credentials \<Rightarrow>
          if (tk_provider t, action) \<notin> set registered_strategies
          then finish_failed env (unregistered_strategy (tk_provider t) action) r db db0
          else
            (case run_action (rx_actions env (tk_provider t) action) (required_feature (tk_provider t)) (rr_resource_id r)
                (build_remediation_context t (execution_region env db t credentials) credentials) of
               (Inl e, attempted) \<Rightarrow> finish_failed env e r (record_call env t attempted db) (record_call env t attempted db0)
             | (Inr res, attempted) \<Rightarrow>
                 let r' = apply_execution_result res (rx_now env) r in
                 (Inr r', rem_log env ''remediation.executed'' (tk_actor t) r (rr_status r' = RS_COMPLETED) (rr_execution_error r')
                    (request_details r @ [(''execution_status'', JStr (execution_status_value (er_status res))),
                      (''backup_id'', opt_text (rr_backup_resource_id r')),
                      (''savings'', JDec 2 (case rr_estimated_monthly_savings r of None \<Rightarrow> 0 | Some s \<Rightarrow> s))])
                    (write_request (rr_id r) (apply_execution_result res (rx_now env)) (record_call env t attempted db)))))"

definition execute_remediation_request ::
  "rem_env \<Rightarrow> rem_env \<Rightarrow> rem_db \<Rightarrow> uuid \<Rightarrow> uuid \<Rightarrow> bool \<Rightarrow> remediation_request rem_res \<times> rem_db" where
  "execute_remediation_request env env' db request_id tenant_id bypass_grace_period =
     (case start_execution env db request_id tenant_id bypass_grace_period of
        (Inl e, db') \<Rightarrow> (Inl e, db')
      | (Inr (Settled r), db') \<Rightarrow> (Inr r, db')
      | (Inr (Started t), db') \<Rightarrow> finish_execution env' t db')"

end
