(* ===== verification/Opt_Entry.thy ===== *)
theory Opt_Entry
  imports Opt_Execution
begin

text \<open>
  Who starts executions: the endpoints that review and execute in
  src/app/modules/optimization/api/v1/zombies.py and zombies_route_helpers.py, the job handler of
  src/app/modules/governance/domain/jobs/handlers/remediation.py with
  src/app/shared/core/remediation_results.py, the enforcement of the hard limit in
  src/app/modules/optimization/domain/remediation_hard_limit.py, and the candidates of
  src/app/shared/remediation/autonomous.py.

  An execution reads the clock twice, before it starts and after the provider has been called; the two
  environments of an operation are those of its two halves.
\<close>

subsection \<open>Failures as their text\<close>

text \<open>The pattern \<open>[code] message (Status: number)\<close> of the program's own exceptions\<close>

definition parse_status_suffix :: "string \<Rightarrow> (string \<times> int) option" where
  "parse_status_suffix s =
     (let r = rev s; ds = takeWhile is_digit (tl r); r2 = dropWhile py_space (dropWhile is_digit (tl r)); mark = rev ''(Status:'';
          r3 = drop (length mark) r2 in
      if r \<noteq> [] \<and> hd r = CHR '')'' \<and> ds \<noteq> [] \<and> prefix mark r2 \<and> r3 \<noteq> [] \<and> py_space (hd r3)
      then Some (rev (tl r3), int (digits_value 0 (rev ds))) else None)"

definition parse_own_error :: "string \<Rightarrow> (string \<times> string \<times> int) option" where
  "parse_own_error s =
     (let code = takeWhile (\<lambda>c. c \<noteq> CHR '']'') (tl s); rest = drop (Suc (length code)) s in
      if s = '''' \<or> hd s \<noteq> CHR ''['' \<or> code = '''' \<or> rest = '''' then None
      else case parse_status_suffix (tl rest) of
        None \<Rightarrow> None
      | Some (body, status) \<Rightarrow>
          let m = dropWhile py_space body; message = takeWhile (\<lambda>c. c \<noteq> CHR 0x0A) m in
          if list_all py_space (drop (length message) m) then Some (code, message, status) else None)"

record remediation_failure =
  rf_reason :: string
  rf_message :: string
  rf_status_code :: "int option"

definition parse_remediation_execution_error :: "string option \<Rightarrow> remediation_failure" where
  "parse_remediation_execution_error execution_error =
     (let raw = strip (case execution_error of None \<Rightarrow> '''' | Some s \<Rightarrow> s) in
      if raw = '''' then \<lparr>rf_reason = ''remediation_execution_failed'', rf_message = ''Remediation execution failed.'', rf_status_code = None\<rparr>
      else case parse_own_error raw of
        Some (code, message, status) \<Rightarrow> \<lparr>rf_reason = code, rf_message = message, rf_status_code = Some status\<rparr>
      | None \<Rightarrow> \<lparr>rf_reason = ''remediation_execution_failed'', rf_message = raw, rf_status_code = None\<rparr>)"

subsection \<open>The job handler\<close>

definition normalize_execution_result :: "remediation_request \<Rightarrow> dict" where
  "normalize_execution_result r =
     (let status = remediation_status_value (rr_status r);
          base = [(''status'', JStr status), (''mode'', JStr ''targeted''), (''request_id'', JStr (uuid_text (rr_id r))),
            (''remediation_status'', JStr status)];
          f = parse_remediation_execution_error (rr_execution_error r) in
      if rr_status r = RS_FAILED
      then base @ [(''reason'', JStr (rf_reason f)), (''error'', JStr (rf_message f))]
        @ (case rf_status_code f of None \<Rightarrow> [] | Some n \<Rightarrow> [(''status_code'', JInt n)])
      else base)"

definition too_early :: "remediation_request \<Rightarrow> instant \<Rightarrow> bool" where
  "too_early r now \<longleftrightarrow> rr_status r = RS_SCHEDULED \<and> (case rr_scheduled_execution_at r of None \<Rightarrow> False | Some t \<Rightarrow> now < t)"

text \<open>
  A job with a request in its payload; without one the handler scans for candidates instead. The region
  of the service is that of the request.
\<close>

definition run_targeted_remediation ::
  "rem_env \<Rightarrow> rem_env \<Rightarrow> background_job \<Rightarrow> string \<Rightarrow> rem_db \<Rightarrow> dict rem_res \<times> rem_db" where
  "run_targeted_remediation env env' job request_ref db =
     (case bj_tenant_id job of
        None \<Rightarrow> (Inl (Base_error (ValueError ''tenant_id required for remediation'')), db)
      | Some tenant_id \<Rightarrow>
          (case parse_uuid request_ref of
             None \<Rightarrow> (Inl (Base_error (ValueError ''badly formed hexadecimal UUID string'')), db)
           | Some i \<Rightarrow>
               (case find_request db i tenant_id of
                  None \<Rightarrow> (Inl (Not_found (''Remediation request '' @ request_ref @ '' not found'')), db)
                | Some r \<Rightarrow>
                    let region = (if strip (rr_region r) = '''' then ''global'' else strip (rr_region r)) in
                    if too_early r (rx_now env)
                    then (Inr [(''status'', JStr ''skipped''), (''mode'', JStr ''targeted''), (''request_id'', JStr (uuid_text i)),
                        (''remediation_status'', JStr (remediation_status_value (rr_status r))), (''reason'', JStr ''grace_period_not_elapsed''),
                        (''scheduled_execution_at'', JStr (case rr_scheduled_execution_at r of None \<Rightarrow> '''' | Some t \<Rightarrow> isoformat t))], db)
                    else (case execute_remediation_request (env\<lparr>rx_region := region\<rparr>) (env'\<lparr>rx_region := region\<rparr>) db i tenant_id False of
                        (Inl e, db') \<Rightarrow> (Inl e, db')
                      | (Inr r', db') \<Rightarrow> (Inr (normalize_execution_result r'), db')))))"

subsection \<open>The endpoints\<close>

definition load_for_authorization :: "rem_db \<Rightarrow> uuid \<Rightarrow> uuid \<Rightarrow> remediation_request rem_res" where
  "load_for_authorization db request_id tenant_id =
     (case find_request db request_id tenant_id of
        None \<Rightarrow> Inl (Not_found (''Remediation request '' @ uuid_text request_id @ '' not found''))
      | Some r \<Rightarrow> Inr r)"

definition required_approval_permission :: "remediation_request \<Rightarrow> string" where
  "required_approval_permission r =
     (if is_production_destructive_remediation r then permission_approve_prod else permission_approve_nonprod)"

definition enforce_growth_nonprod :: "pricing_tier \<Rightarrow> remediation_request \<Rightarrow> unit rem_res" where
  "enforce_growth_nonprod tier r =
     (if tier = GROWTH \<and> is_production_remediation_target r
      then Inl (Base_error (HTTPException 403 (''Growth tier allows auto-remediation for non-production resources only. ''
        @ ''Upgrade to Pro for production remediation.'')))
      else Inr ())"

definition authorize_remediation ::
  "identity_db res \<Rightarrow> current_user \<Rightarrow> pricing_tier \<Rightarrow> rem_db \<Rightarrow> uuid \<Rightarrow> uuid \<Rightarrow> remediation_request rem_res" where
  "authorize_remediation identity user tier db request_id tenant_id =
     (case load_for_authorization db request_id tenant_id of
        Inl e \<Rightarrow> Inl e
      | Inr r \<Rightarrow>
          (case enforce_growth_nonprod tier r of
             Inl e \<Rightarrow> Inl e
           | Inr _ \<Rightarrow>
               let permission = required_approval_permission r in
               if user_has_approval_permission identity user permission then Inr r
               else Inl (Base_error (HTTPException 403
                 (''Insufficient permissions. Required approval permission: '' @ permission)))))"

definition approve_remediation ::
  "identity_db res \<Rightarrow> current_user \<Rightarrow> pricing_tier \<Rightarrow> rem_db \<Rightarrow> uuid \<Rightarrow> uuid \<Rightarrow> string option
    \<Rightarrow> remediation_request rem_res \<times> rem_db" where
  "approve_remediation identity user tier db request_id tenant_id notes =
     (case authorize_remediation identity user tier db request_id tenant_id of
        Inl e \<Rightarrow> (Inl e, db)
      | Inr _ \<Rightarrow>
          (case approve_remediation_request db request_id tenant_id (cu_id user) notes (Some (cu_role user)) of
             (Inl (Base_error (ValueError s)), db') \<Rightarrow> (Inl (Not_found s), db')
           | outcome \<Rightarrow> outcome))"

text \<open>The endpoint raises the failure that the request records, and turns the other exceptions into its own.\<close>

datatype execute_response =
    Executed remediation_status uuid
  | Failed_execution remediation_failure
  | Bad_request string
  | Server_error string
  | Raised_error rem_error

fun endpoint_recoverable :: "err \<Rightarrow> bool" where
  "endpoint_recoverable (SQLAlchemyError _) = True"
| "endpoint_recoverable IntegrityError = True"
| "endpoint_recoverable (RuntimeError _) = True"
| "endpoint_recoverable (OSError _) = True"
| "endpoint_recoverable TimeoutError = True"
| "endpoint_recoverable (TypeError _) = True"
| "endpoint_recoverable _ = False"

definition execute_response_of :: "remediation_request rem_res \<Rightarrow> execute_response" where
  "execute_response_of outcome =
     (case outcome of
        Inr r \<Rightarrow> if rr_status r = RS_FAILED then Failed_execution (parse_remediation_execution_error (rr_execution_error r))
          else Executed (rr_status r) (rr_id r)
      | Inl (Base_error (ValueError s)) \<Rightarrow> Bad_request s
      | Inl (Base_error e) \<Rightarrow>
          if endpoint_recoverable e
          then Server_error ''Failed to execute remediation request.'' else Raised_error (Base_error e)
      | Inl e \<Rightarrow> Raised_error e)"

definition execute_remediation ::
  "identity_db res \<Rightarrow> current_user \<Rightarrow> pricing_tier \<Rightarrow> rem_env \<Rightarrow> rem_env \<Rightarrow> rem_db \<Rightarrow> uuid \<Rightarrow> uuid \<Rightarrow> bool
    \<Rightarrow> execute_response \<times> rem_db" where
  "execute_remediation identity user tier env env' db request_id tenant_id bypass_grace_period =
     (case authorize_remediation identity user tier db request_id tenant_id of
        Inl e \<Rightarrow> (Raised_error e, db)
      | Inr _ \<Rightarrow>
          (case execute_remediation_request env env' db request_id tenant_id bypass_grace_period of
             (outcome, db') \<Rightarrow> (execute_response_of outcome, db')))"

subsection \<open>The hard limit\<close>

definition hard_limit_safe_actions :: "remediation_action list" where
  "hard_limit_safe_actions = [STOP_INSTANCE, RESIZE_INSTANCE, STOP_RDS_INSTANCE]"

definition hard_limit_candidates :: "rem_db \<Rightarrow> uuid \<Rightarrow> uuid list" where
  "hard_limit_candidates db tenant_id =
     map rr_id (sort_key (\<lambda>r. case rr_estimated_monthly_savings r of None \<Rightarrow> (0 :: nat, 0) | Some s \<Rightarrow> (1, - s))
       (filter (\<lambda>r. rr_tenant_id r = tenant_id \<and> rr_status r = RS_PENDING
           \<and> (case rr_confidence_score r of None \<Rightarrow> False | Some c \<Rightarrow> 90 / 100 \<le> c)
           \<and> rr_action r \<in> set hard_limit_safe_actions) (rd_requests db)))"

definition auto_approved :: "remediation_request \<Rightarrow> remediation_request" where
  "auto_approved r = r\<lparr>rr_status := RS_APPROVED, rr_reviewed_by_user_id := Some system_user_id,
     rr_review_notes := Some ''AUTO_APPROVED: Budget Hard Limit Exceeded''\<rparr>"

fun auto_execute ::
  "(uuid \<Rightarrow> rem_env \<times> rem_env) \<Rightarrow> uuid \<Rightarrow> bool \<Rightarrow> uuid list \<Rightarrow> uuid list \<Rightarrow> rem_db \<Rightarrow> uuid list rem_res \<times> rem_db" where
  "auto_execute envs tenant_id bypass done [] db = (Inr done, db)"
| "auto_execute envs tenant_id bypass done (i # ids) db =
     (case execute_remediation_request (fst (envs i)) (snd (envs i)) (write_request i auto_approved db) i tenant_id bypass of
        (Inr _, db') \<Rightarrow> auto_execute envs tenant_id bypass (done @ [i]) ids db'
      | (Inl (Base_error e), db') \<Rightarrow>
          if common_recoverable e then auto_execute envs tenant_id bypass done ids db' else (Inl (Base_error e), db')
      | (Inl e, db') \<Rightarrow> (Inl e, db'))"

text \<open>\<open>over_limit\<close> says that the tenant's budget is at its hard limit.\<close>

definition enforce_hard_limit_for_tenant ::
  "(uuid \<Rightarrow> rem_env \<times> rem_env) \<Rightarrow> bool \<Rightarrow> bool \<Rightarrow> rem_db \<Rightarrow> uuid \<Rightarrow> uuid list rem_res \<times> rem_db" where
  "enforce_hard_limit_for_tenant envs over_limit bypass db tenant_id =
     (if \<not> over_limit then (Inr [], db)
      else auto_execute envs tenant_id bypass [] (hard_limit_candidates db tenant_id) db)"

subsection \<open>Autonomous candidates\<close>

definition open_requests :: "rem_db \<Rightarrow> uuid \<Rightarrow> string \<Rightarrow> string \<Rightarrow> remediation_action \<Rightarrow> remediation_request list" where
  "open_requests db tenant_id resource_id provider action =
     filter (\<lambda>r. rr_tenant_id r = tenant_id \<and> rr_resource_id r = resource_id \<and> rr_provider r = provider
       \<and> rr_action r = action \<and> rr_status r \<in> set open_statuses) (rd_requests db)"

definition has_open_request :: "rem_db \<Rightarrow> uuid \<Rightarrow> string \<Rightarrow> string \<Rightarrow> remediation_action \<Rightarrow> bool rem_res" where
  "has_open_request db tenant_id resource_id provider action =
     (case open_requests db tenant_id resource_id provider action of
        [] \<Rightarrow> Inr False
      | [_] \<Rightarrow> Inr True
      | _ \<Rightarrow> Inl (Base_error (SQLAlchemyError ''Multiple rows were found when one or none was required'')))"

text \<open>\<open>args\<close> is the request that the candidate asks for, of the system user.\<close>

definition process_candidate ::
  "rem_env \<Rightarrow> rem_env \<Rightarrow> bool \<Rightarrow> uuid \<Rightarrow> request_args \<Rightarrow> rat \<Rightarrow> rem_db \<Rightarrow> bool rem_res \<times> rem_db" where
  "process_candidate env env' auto_pilot_enabled tenant_id args confidence db =
     (case has_open_request db tenant_id (ra_resource_id args) (ra_provider args) (ra_action args) of
        Inl e \<Rightarrow> (Inl e, db)
      | Inr True \<Rightarrow> (Inr False, db)
      | Inr False \<Rightarrow>
          (case create_remediation_request env db tenant_id (args\<lparr>ra_user_id := system_user_id\<rparr>) of
             (Inl e, db1) \<Rightarrow> (Inl e, db1)
           | (Inr r, db1) \<Rightarrow>
               if \<not> (auto_pilot_enabled \<and> 95 / 100 \<le> confidence) then (Inr False, db1)
               else (case approve_remediation_request db1 (rr_id r) tenant_id system_user_id (Some ''Auto-Pilot execution'') None of
                  (Inl e, db2) \<Rightarrow> (Inl e, db2)
                | (Inr _, db2) \<Rightarrow>
                    (case execute_remediation_request env env' db2 (rr_id r) tenant_id False of
                       (Inl e, db3) \<Rightarrow> (Inl e, db3)
                     | (Inr _, db3) \<Rightarrow> (Inr True, db3)))))"

end
