(* ===== verification/Opt_Machine.thy ===== *)
theory Opt_Machine
  imports Opt_Entry Base_Machine
begin

text \<open>
  Remediation as a transition system. A state is the database and the executions that have started and
  not yet finished; between the two halves of an execution anything may happen. A worker may be lost
  before it calls the provider or after it. The invariant says that a request is carried out at most
  once, never while it may still be started, and never without a reviewer.
\<close>

type_synonym rem_state = "rem_db \<times> execution_ticket list"

inductive rem_step :: "rem_state \<Rightarrow> rem_state \<Rightarrow> bool" where
  create: "create_remediation_request env db tenant_id a = (r, db') \<Longrightarrow> rem_step (db, ts) (db', ts)"
| approve: "approve_remediation_request db i tenant_id reviewer notes role = (r, db') \<Longrightarrow> rem_step (db, ts) (db', ts)"
| reject: "reject_request db i tenant_id reviewer notes = (r, db') \<Longrightarrow> rem_step (db, ts) (db', ts)"
| auto_approve: "find_request db i tenant_id = Some r \<Longrightarrow> rr_status r = RS_PENDING \<Longrightarrow> rem_step (db, ts) (write_request i auto_approved db, ts)"
| settle: "start_execution env db i tenant_id bypass = (Inr (Settled r), db') \<Longrightarrow> rem_step (db, ts) (db', ts)"
| refuse: "start_execution env db i tenant_id bypass = (Inl e, db') \<Longrightarrow> rem_step (db, ts) (db', ts)"
| start: "start_execution env db i tenant_id bypass = (Inr (Started t), db') \<Longrightarrow> rem_step (db, ts) (db', t # ts)"
| finish: "t \<in> set ts \<Longrightarrow> finish_execution env t db = (r, db') \<Longrightarrow> rem_step (db, ts) (db', remove1 t ts)"
| lose: "t \<in> set ts \<Longrightarrow> rem_step (db, ts) (record_call env t attempted db, remove1 t ts)"
| other: "rd_requests db' = rd_requests db \<Longrightarrow> rd_cloud db' = rd_cloud db \<Longrightarrow> rd_next_id db' = rd_next_id db \<Longrightarrow> rem_step (db, ts) (db', ts)"

subsection \<open>What the operations write\<close>

definition same_target :: "remediation_request \<Rightarrow> remediation_request \<Rightarrow> bool" where
  "same_target r r' \<longleftrightarrow> rr_id r' = rr_id r \<and> rr_tenant_id r' = rr_tenant_id r \<and> rr_resource_id r' = rr_resource_id r
     \<and> rr_action r' = rr_action r \<and> rr_provider r' = rr_provider r"

lemma same_target_refl [simp]: "same_target r r"
  by (simp add: same_target_def)

lemma same_target_trans: "same_target r r' \<Longrightarrow> same_target r' r'' \<Longrightarrow> same_target r r''"
  by (simp add: same_target_def)

definition tables :: "rem_db \<Rightarrow> remediation_request list \<times> cloud_call list \<times> uuid" where
  "tables db = (rd_requests db, rd_cloud db, rd_next_id db)"

lemma tables_write [simp]:
  "tables (write_request i f db) = (update_where (\<lambda>r. rr_id r = i) f (rd_requests db), rd_cloud db, rd_next_id db)"
  by (simp add: tables_def write_request_def)

lemma rem_log_keeps [simp]:
  "rd_requests (rem_log env event actor r ok m d db) = rd_requests db" "rd_cloud (rem_log env event actor r ok m d db) = rd_cloud db"
  "rd_next_id (rem_log env event actor r ok m d db) = rd_next_id db" "tables (rem_log env event actor r ok m d db) = tables db"
  "rd_settings (rem_log env event actor r ok m d db) = rd_settings db" "jq_jobs (rem_log env event actor r ok m d db) = jq_jobs db"
  "rd_accounts (rem_log env event actor r ok m d db) = rd_accounts db" "rd_connections (rem_log env event actor r ok m d db) = rd_connections db"
  "jq_next_id (rem_log env event actor r ok m d db) = jq_next_id db" "rd_costs (rem_log env event actor r ok m d db) = rd_costs db"
  by (simp_all add: rem_log_def tables_def)

lemma write_request_keeps [simp]:
  "rd_settings (write_request i f db) = rd_settings db" "jq_jobs (write_request i f db) = jq_jobs db"
  "rd_requests (write_request i f db) = update_where (\<lambda>r. rr_id r = i) f (rd_requests db)" "rd_cloud (write_request i f db) = rd_cloud db"
  "rd_accounts (write_request i f db) = rd_accounts db" "rd_connections (write_request i f db) = rd_connections db"
  "jq_next_id (write_request i f db) = jq_next_id db" "rd_next_id (write_request i f db) = rd_next_id db" "rd_costs (write_request i f db) = rd_costs db"
  by (simp_all add: write_request_def)

lemma update_twice:
  "(\<And>r. k (f r) = k r) \<Longrightarrow> update_where (\<lambda>r. k r = i) g (update_where (\<lambda>r. k r = i) f rows) = update_where (\<lambda>r. k r = i) (g \<circ> f) rows"
  by (induction rows) (auto simp: update_where_def)

lemma with_policy_context_keeps [simp]:
  "rr_id (with_policy_context db p r) = rr_id r" "rr_status (with_policy_context db p r) = rr_status r"
  "rr_tenant_id (with_policy_context db p r) = rr_tenant_id r" "rr_action (with_policy_context db p r) = rr_action r"
  "rr_reviewed_by_user_id (with_policy_context db p r) = rr_reviewed_by_user_id r" "rr_resource_id (with_policy_context db p r) = rr_resource_id r"
  "rr_provider (with_policy_context db p r) = rr_provider r" "rr_scheduled_execution_at (with_policy_context db p r) = rr_scheduled_execution_at r"
  "rr_executed_at (with_policy_context db p r) = rr_executed_at r" "rr_review_notes (with_policy_context db p r) = rr_review_notes r"
  by (simp_all add: with_policy_context_def)

lemma same_target_writes [simp]:
  "same_target r (with_policy_context db p r)" "same_target r (fail_row m r)" "same_target r (block_row e r)"
  "same_target r (escalate_row e now r)" "same_target r (schedule_row t r)" "same_target r (reviewed s u n r)"
  "same_target r (auto_approved r)" "same_target r (r\<lparr>rr_status := s\<rparr>)" "same_target r (apply_execution_result res now r)"
  by (auto simp: same_target_def fail_row_def block_row_def escalate_row_def schedule_row_def reviewed_def auto_approved_def
      apply_execution_result_def split: execution_status.splits)

lemma row_writes [simp]:
  "rr_status (fail_row m r) = RS_FAILED" "rr_status (block_row e r) = RS_FAILED" "rr_status (escalate_row e now r) = RS_PENDING_APPROVAL"
  "rr_status (schedule_row t r) = RS_SCHEDULED" "rr_scheduled_execution_at (schedule_row t r) = Some t"
  "rr_reviewed_by_user_id (fail_row m r) = rr_reviewed_by_user_id r" "rr_reviewed_by_user_id (block_row e r) = rr_reviewed_by_user_id r"
  "rr_reviewed_by_user_id (escalate_row e now r) = rr_reviewed_by_user_id r" "rr_reviewed_by_user_id (schedule_row t r) = rr_reviewed_by_user_id r"
  "rr_executed_at (fail_row m r) = rr_executed_at r" "rr_executed_at (block_row e r) = rr_executed_at r"
  "rr_executed_at (escalate_row e now r) = rr_executed_at r" "rr_executed_at (schedule_row t r) = rr_executed_at r"
  "rr_status (reviewed s u n r) = s" "rr_reviewed_by_user_id (reviewed s u n r) = Some u" "rr_executed_at (reviewed s u n r) = rr_executed_at r"
  "rr_status (auto_approved r) = RS_APPROVED" "rr_reviewed_by_user_id (auto_approved r) = Some system_user_id"
  "rr_executed_at (auto_approved r) = rr_executed_at r"
  by (simp_all add: fail_row_def block_row_def escalate_row_def schedule_row_def reviewed_def auto_approved_def)

lemma same_target_id: "same_target r r' \<Longrightarrow> rr_id r' = rr_id r"
  by (simp add: same_target_def)

lemma find_requestD:
  "find_request db i t = Some r \<Longrightarrow> r \<in> set (rd_requests db) \<and> rr_id r = i \<and> rr_tenant_id r = t"
  by (auto simp: find_request_def dest: first_row_SomeD)

text \<open>A state of tables that differs in the row of one request at most\<close>

definition writes_row :: "rem_db \<Rightarrow> uuid \<Rightarrow> (remediation_request \<Rightarrow> remediation_request) \<Rightarrow> rem_db \<Rightarrow> bool" where
  "writes_row db i f db' \<longleftrightarrow> tables db' = (update_where (\<lambda>r. rr_id r = i) f (rd_requests db), rd_cloud db, rd_next_id db)"

lemma enqueue_tables: "tables (snd (enqueue_job db job_type tenant payload due n None now)) = tables db"
  by (auto simp: enqueue_job_def insert_job_def tables_def Let_def split: option.splits sum.splits)

lemma schedule_effect:
  assumes "schedule_grace_period env r db = (r', db')"
  obtains t where "t = rx_now env + seconds (3600 * grace_hours (get_remediation_settings db (rr_tenant_id r)) (rr_action r))"
    "writes_row db (rr_id r) (schedule_row t) db'" "r' = schedule_row t r"
  using assms by (auto simp: schedule_grace_period_def Let_def writes_row_def enqueue_tables)

lemma fail_effect:
  assumes "fail_execution env e r db = (r', db')"
  shows "writes_row db (rr_id r) (fail_row (take 500 (rem_error_text e))) db'" "r' = fail_row (take 500 (rem_error_text e)) r"
  using assms by (auto simp: fail_execution_def writes_row_def)

lemma tables_eqI: "rd_requests db = rd_requests db' \<Longrightarrow> rd_cloud db = rd_cloud db' \<Longrightarrow> rd_next_id db = rd_next_id db' \<Longrightarrow> tables db = tables db'"
  by (simp add: tables_def)

lemma tablesD: "tables db' = (rs, cs, n) \<Longrightarrow> rd_requests db' = rs \<and> rd_cloud db' = cs \<and> rd_next_id db' = n"
  by (simp add: tables_def)

text \<open>The decision leaves the request failed, escalated, scheduled or executing.\<close>

lemma decide_effect:
  assumes "decide_execution env tier provider bypass bypassed r0 db = (s, db')"
  obtains g where "writes_row db (rr_id r0) (g \<circ> with_policy_context db provider) db'"
    "\<And>r. same_target r (g r)" "\<And>r. rr_reviewed_by_user_id (g r) = rr_reviewed_by_user_id r" "\<And>r. rr_executed_at (g r) = rr_executed_at r"
    "(\<exists>r. s = Settled r \<and> (\<forall>r. rr_status (g r) \<in> {RS_FAILED, RS_PENDING_APPROVAL}))
     \<or> (\<exists>r t. s = Settled r \<and> g = schedule_row t)
     \<or> (\<exists>t. s = Started t \<and> g = rr_status_update (\<lambda>_. RS_EXECUTING) \<and> tk_request t = g (with_policy_context db provider r0)
          \<and> tk_provider t = provider \<and> tk_bypassed t = bypassed)"
proof -
  let ?w = "with_policy_context db provider"
  let ?db = "write_request (rr_id r0) ?w db"
  let ?e = "evaluate_policy (?w r0) (build_policy_config ?db (rr_tenant_id r0)) False"
  have twice: "update_where (\<lambda>r. rr_id r = rr_id r0) g (update_where (\<lambda>r. rr_id r = rr_id r0) ?w rows)
      = update_where (\<lambda>r. rr_id r = rr_id r0) (g \<circ> ?w) rows" for g rows by (rule update_twice) simp
  have wrote: "writes_row db (rr_id r0) (g \<circ> ?w) db'"
    if "tables db' = tables (write_request (rr_id r0) g d)" "tables d = tables ?db" for g d db'
    using that by (simp add: writes_row_def twice tables_def)
  consider "pe_decision ?e = POLICY_BLOCK" | "pe_decision ?e = POLICY_ESCALATE"
    | "pe_decision ?e \<noteq> POLICY_BLOCK" "pe_decision ?e \<noteq> POLICY_ESCALATE" "rr_status r0 = RS_APPROVED \<and> \<not> bypass"
    | "pe_decision ?e \<noteq> POLICY_BLOCK" "pe_decision ?e \<noteq> POLICY_ESCALATE" "\<not> (rr_status r0 = RS_APPROVED \<and> \<not> bypass)" by blast
  then show thesis
  proof cases
    case 1
    show thesis
    proof (rule that [of "block_row ?e"])
      show "writes_row db (rr_id r0) (block_row ?e \<circ> ?w) db'"
        using assms 1 by (intro wrote [of db' _ "rem_log env ''policy.evaluated'' (execution_actor (?w r0)) (?w r0) True None
            (policy_details ?db tier (?w r0) ?e) ?db"]) (auto simp: decide_execution_def Let_def)
    qed (use assms 1 in \<open>auto simp: decide_execution_def Let_def\<close>)
  next
    case 2
    show thesis
    proof (rule that [of "escalate_row ?e (rx_now env)"])
      show "writes_row db (rr_id r0) (escalate_row ?e (rx_now env) \<circ> ?w) db'"
        using assms 2 by (intro wrote [of db' _ "rem_log env ''policy.evaluated'' (execution_actor (?w r0)) (?w r0) True None
            (policy_details ?db tier (?w r0) ?e) ?db"]) (auto simp: decide_execution_def Let_def)
    qed (use assms 2 in \<open>auto simp: decide_execution_def Let_def\<close>)
  next
    case 3
    then obtain d r' where sch: "schedule_grace_period env (?w r0) d = (r', db')" "tables d = tables ?db" "s = Settled r'"
      using assms by (auto simp: decide_execution_def Let_def split: prod.splits if_splits)
    from sch(1) obtain t where t: "writes_row d (rr_id (?w r0)) (schedule_row t) db'" by (rule schedule_effect)
    show thesis
    proof (rule that [of "schedule_row t"])
      show "writes_row db (rr_id r0) (schedule_row t \<circ> ?w) db'"
        using t sch(2) by (intro wrote [of db' _ d]) (simp_all add: writes_row_def)
    qed (use sch in auto)
  next
    case 4
    let ?t = "\<lparr>tk_request = ?w r0\<lparr>rr_status := RS_EXECUTING\<rparr>, tk_tier = tier_value tier, tk_provider = provider,
      tk_actor = execution_actor (?w r0), tk_bypassed = bypassed\<rparr>"
    from assms 4 obtain d where d: "db' = write_request (rr_id r0) (rr_status_update (\<lambda>_. RS_EXECUTING)) d" "tables d = tables ?db" "s = Started ?t"
      by (auto simp: decide_execution_def Let_def split: if_splits)
    show thesis
    proof (rule that [of "rr_status_update (\<lambda>_. RS_EXECUTING)"])
      show "writes_row db (rr_id r0) (rr_status_update (\<lambda>_. RS_EXECUTING) \<circ> ?w) db'"
        using d by (intro wrote [of db' _ d]) simp_all
    qed (use d in auto)
  qed
qed

text \<open>What a start does to the row of its request\<close>

definition keeps_identity :: "(remediation_request \<Rightarrow> remediation_request) \<Rightarrow> bool" where
  "keeps_identity f \<longleftrightarrow> (\<forall>r. same_target r (f r) \<and> rr_reviewed_by_user_id (f r) = rr_reviewed_by_user_id r)"

definition settles :: "(remediation_request \<Rightarrow> remediation_request) \<Rightarrow> remediation_status set \<Rightarrow> bool" where
  "settles f ss \<longleftrightarrow> (\<forall>r. rr_status (f r) \<in> ss \<and> (rr_status (f r) = RS_SCHEDULED \<longrightarrow> rr_scheduled_execution_at (f r) \<noteq> None))"

definition keeps_time :: "(remediation_request \<Rightarrow> remediation_request) \<Rightarrow> bool" where
  "keeps_time f \<longleftrightarrow> (\<forall>r. rr_executed_at (f r) = rr_executed_at r)"

definition ready_statuses :: "remediation_status set" where
  "ready_statuses = {RS_APPROVED, RS_SCHEDULED}"

lemma update_where_id [simp]: "update_where p id rows = rows"
  by (simp add: update_where_def map_idI)

lemma writes_row_id: "tables db' = tables db \<Longrightarrow> writes_row db i id db'"
  by (simp add: writes_row_def tables_def)

lemma start_failed_effect:
  assumes "start_failed env e r db = (res, db')"
  obtains f where "writes_row db (rr_id r) f db'" "f = id \<or> settles f {RS_FAILED}" "keeps_identity f" "keeps_time f" "\<And>t. res \<noteq> Inr (Started t)"
proof (cases "execution_recoverable e")
  case True
  then obtain r' where "fail_execution env e r db = (r', db')" "res = Inr (Settled r')"
    using assms by (auto simp: start_failed_def split: prod.splits)
  with fail_effect(1) [of env e r db r' db'] show thesis
    by (intro that [of "fail_row (take 500 (rem_error_text e))"]) (auto simp: settles_def keeps_identity_def keeps_time_def)
next
  case False
  then have "tables db' = tables db" "\<And>t. res \<noteq> Inr (Started t)" using assms by (auto simp: start_failed_def)
  with writes_row_id [of db' db "rr_id r"] show thesis by (intro that [of id]) (auto simp: keeps_identity_def keeps_time_def)
qed

lemma readyD: "execution_readiness r bypass now = Ready b \<Longrightarrow> rr_status r \<in> ready_statuses"
  by (auto simp: execution_readiness_def ready_statuses_def split: if_splits)

lemma start_effect:
  assumes "start_execution env db i tenant_id bypass = (res, db')"
  obtains (still) "tables db' = tables db" "\<And>t. res \<noteq> Inr (Started t)"
    | (failed) f where "writes_row db i f db'" "f = id \<or> settles f {RS_FAILED}" "keeps_identity f" "keeps_time f" "\<And>t. res \<noteq> Inr (Started t)"
    | (decided) r f where "find_request db i tenant_id = Some r" "rr_status r \<in> ready_statuses" "writes_row db i f db'"
        "keeps_identity f" "keeps_time f" "settles f {RS_FAILED, RS_PENDING_APPROVAL, RS_SCHEDULED}" "\<And>t. res \<noteq> Inr (Started t)"
    | (started) r f t where "find_request db i tenant_id = Some r" "rr_status r \<in> ready_statuses" "writes_row db i f db'"
        "keeps_identity f" "keeps_time f" "settles f {RS_EXECUTING}" "res = Inr (Started t)" "tk_request t = f r"
        "tk_provider t = normalize_provider (rr_provider r)"
proof (cases "find_request db i tenant_id")
  case None
  with assms still show thesis by (auto simp: start_execution_def)
next
  case (Some r)
  note idr = find_requestD [OF Some]
  let ?p = "normalize_provider (rr_provider r)"
  let ?g = "check_all_guards env db tenant_id (case rr_estimated_monthly_savings r of None \<Rightarrow> 0 | Some s \<Rightarrow> s)"
  consider e where "res = Inl e" "db' = db" | e where "start_failed env e r db = (res, db')" | "res = Inr (Settled r)" "db' = db"
    | tier byp s where "rr_status r \<in> ready_statuses" "decide_execution env tier ?p bypass byp r db = (s, db')" "res = Inr s"
  proof (cases "execution_tier env")
    case (Inl e)
    with assms Some show ?thesis by (intro that(1) [of e]) (auto simp: start_execution_def)
  next
    case (Inr tier)
    note run = assms [unfolded start_execution_def Some option.case Inr sum.case Let_def]
    show ?thesis
    proof (cases "?p = ''''")
      case True
      with run show ?thesis by (intro that(1)) auto
    next
      case provider: False
      show ?thesis
      proof (cases ?g)
        case (Inl e)
        with run provider that(2) show ?thesis by simp
      next
        case (Inr u)
        with run provider that readyD [of r bypass "rx_now env"] show ?thesis
          by (cases "execution_readiness r bypass (rx_now env)") (auto split: prod.splits)
      qed
    qed
  qed
  then show thesis
  proof cases
    case 2
    from 2 show thesis by (rule start_failed_effect) (use failed idr in auto)
  next
    case (4 tier byp s)
    from 4(2) obtain g where g: "writes_row db (rr_id r) (g \<circ> with_policy_context db ?p) db'"
      "\<And>r. same_target r (g r)" "\<And>r. rr_reviewed_by_user_id (g r) = rr_reviewed_by_user_id r" "\<And>r. rr_executed_at (g r) = rr_executed_at r"
      "(\<exists>r. s = Settled r \<and> (\<forall>r. rr_status (g r) \<in> {RS_FAILED, RS_PENDING_APPROVAL}))
       \<or> (\<exists>r t. s = Settled r \<and> g = schedule_row t)
       \<or> (\<exists>t. s = Started t \<and> g = rr_status_update (\<lambda>_. RS_EXECUTING) \<and> tk_request t = g (with_policy_context db ?p r)
            \<and> tk_provider t = ?p \<and> tk_bypassed t = byp)" by (rule decide_effect) blast
    let ?f = "g \<circ> with_policy_context db ?p"
    have f: "writes_row db i ?f db'" "keeps_identity ?f" "keeps_time ?f"
      using g(1-4) idr by (auto simp: keeps_identity_def keeps_time_def intro: same_target_trans [OF same_target_writes(1)])
    have plain: "settles ?f {RS_FAILED, RS_PENDING_APPROVAL, RS_SCHEDULED}" if st: "\<forall>r. rr_status (g r) \<in> {RS_FAILED, RS_PENDING_APPROVAL}"
      unfolding settles_def
    proof
      fix x
      have "rr_status (?f x) \<in> {RS_FAILED, RS_PENDING_APPROVAL}" using st by simp
      then show "rr_status (?f x) \<in> {RS_FAILED, RS_PENDING_APPROVAL, RS_SCHEDULED}
        \<and> (rr_status (?f x) = RS_SCHEDULED \<longrightarrow> rr_scheduled_execution_at (?f x) \<noteq> None)" by auto
    qed
    from g(5) consider r' where "s = Settled r'" "settles ?f {RS_FAILED, RS_PENDING_APPROVAL, RS_SCHEDULED}"
      | t where "s = Started t" "settles ?f {RS_EXECUTING}" "tk_request t = ?f r" "tk_provider t = ?p"
    proof (elim disjE exE conjE)
      fix r' assume "s = Settled r'" "\<forall>r. rr_status (g r) \<in> {RS_FAILED, RS_PENDING_APPROVAL}"
      with plain that(1) show thesis by blast
    next
      fix r' t assume "s = Settled r'" "g = schedule_row t"
      then show thesis by (intro that(1)) (auto simp: settles_def)
    next
      fix t assume "s = Started t" "g = rr_status_update (\<lambda>_. RS_EXECUTING)" "tk_request t = g (with_policy_context db ?p r)" "tk_provider t = ?p"
      then show thesis by (intro that(2)) (auto simp: settles_def)
    qed
    then show thesis
    proof cases
      case 1
      with decided [OF Some 4(1) f] 4(3) show thesis by auto
    next
      case 2
      with started [OF Some 4(1) f] 4(3) show thesis by auto
    qed
  qed (use still in \<open>auto simp: tables_def\<close>)
qed

text \<open>What a finish does\<close>

definition call_of :: "execution_ticket \<Rightarrow> instant \<Rightarrow> cloud_call" where
  "call_of t now = \<lparr>cc_request_id = rr_id (tk_request t), cc_provider = tk_provider t,
     cc_action = rr_action (tk_request t), cc_resource_id = rr_resource_id (tk_request t), cc_at = now\<rparr>"

lemma record_call_tables: "tables (record_call env t attempted db) =
    (rd_requests db, rd_cloud db @ (if attempted then [call_of t (rx_now env)] else []), rd_next_id db)"
  by (simp add: record_call_def call_of_def tables_def)

definition finished_row :: "(remediation_request \<Rightarrow> remediation_request) \<Rightarrow> bool" where
  "finished_row f \<longleftrightarrow> f = id \<or> settles f {RS_FAILED} \<and> keeps_time f \<or> settles f {RS_COMPLETED}"

lemma finish_failed_effect:
  assumes "finish_failed env e r db rolled_back = (res, db')" "rd_requests rolled_back = rd_requests db" "rd_cloud rolled_back = rd_cloud db"
    "rd_next_id rolled_back = rd_next_id db"
  obtains f where "tables db' = (update_where (\<lambda>x. rr_id x = rr_id r) f (rd_requests db), rd_cloud db, rd_next_id db)"
    "finished_row f" "keeps_identity f"
proof (cases "execution_recoverable e")
  case True
  then obtain r' where "fail_execution env e r db = (r', db')" using assms(1) by (auto simp: finish_failed_def split: prod.splits)
  with fail_effect(1) show thesis
    by (intro that [of "fail_row (take 500 (rem_error_text e))"]) (auto simp: writes_row_def finished_row_def settles_def keeps_identity_def keeps_time_def)
next
  case False
  with assms show thesis
    by (intro that [of id]) (auto simp: finish_failed_def finished_row_def keeps_identity_def tables_def)
qed

lemma applied_row: "finished_row (apply_execution_result res now)" "keeps_identity (apply_execution_result res now)"
proof -
  show "finished_row (apply_execution_result res now)"
    by (cases "er_status res") (auto simp: finished_row_def apply_execution_result_def settles_def keeps_time_def)
  have "rr_reviewed_by_user_id (apply_execution_result res now r) = rr_reviewed_by_user_id r" for r
    by (simp add: apply_execution_result_def split: execution_status.splits)
  then show "keeps_identity (apply_execution_result res now)" by (simp add: keeps_identity_def)
qed

lemma finish_effect:
  assumes "finish_execution env t db = (res, db')"
  obtains f attempted where "tables db' = (update_where (\<lambda>x. rr_id x = rr_id (tk_request t)) f (rd_requests db),
      rd_cloud db @ (if attempted then [call_of t (rx_now env)] else []), rd_next_id db)" "finished_row f" "keeps_identity f"
proof -
  have cloud: "rd_requests (record_call env t a d) = rd_requests d" "rd_cloud (record_call env t a d) = rd_cloud d @ (if a then [call_of t (rx_now env)] else [])"
    "rd_next_id (record_call env t a d) = rd_next_id d" for a d
    using record_call_tables [of env t a d] by (simp_all add: tables_def)
  consider e d where "finish_failed env e (tk_request t) d db = (res, db')" "tables d = tables db"
    | e attempted d where "finish_failed env e (tk_request t) (record_call env t attempted d) (record_call env t attempted db) = (res, db')" "tables d = tables db"
    | ans attempted d where "tables db' = tables (write_request (rr_id (tk_request t)) (apply_execution_result ans (rx_now env)) (record_call env t attempted d))"
        "tables d = tables db"
    using assms by (fastforce simp: finish_execution_def Let_def split: sum.splits if_splits prod.splits)
  then show thesis
  proof cases
    case (1 e d)
    from 1(1) obtain f where "tables db' = (update_where (\<lambda>x. rr_id x = rr_id (tk_request t)) f (rd_requests d), rd_cloud d, rd_next_id d)"
      "finished_row f" "keeps_identity f" by (rule finish_failed_effect) (use 1(2) in \<open>simp_all add: tables_def\<close>)
    with 1(2) that [of f False] show thesis by (simp add: tables_def)
  next
    case (2 e attempted d)
    from 2(1) obtain f where "tables db' = (update_where (\<lambda>x. rr_id x = rr_id (tk_request t)) f (rd_requests (record_call env t attempted d)),
        rd_cloud (record_call env t attempted d), rd_next_id (record_call env t attempted d))"
      "finished_row f" "keeps_identity f" by (rule finish_failed_effect) (use 2(2) in \<open>simp_all add: tables_def cloud\<close>)
    with 2(2) that [of f attempted] show thesis by (simp add: tables_def cloud)
  next
    case (3 ans attempted d)
    with that [of "apply_execution_result ans (rx_now env)" attempted] applied_row show thesis by (simp add: tables_def cloud)
  qed
qed

subsection \<open>The invariant\<close>

text \<open>How often a request has been carried out or is about to be\<close>

definition uses :: "rem_db \<Rightarrow> execution_ticket list \<Rightarrow> uuid \<Rightarrow> nat" where
  "uses db ts i = count_where (\<lambda>c. cc_request_id c = i) (rd_cloud db) + count_where (\<lambda>t. rr_id (tk_request t) = i) ts"

definition spent_statuses :: "remediation_status set" where
  "spent_statuses = {RS_EXECUTING, RS_COMPLETED, RS_FAILED}"

definition reviewed_statuses :: "remediation_status set" where
  "reviewed_statuses = {RS_APPROVED, RS_SCHEDULED, RS_EXECUTING, RS_COMPLETED}"

definition row_ok :: "nat \<Rightarrow> remediation_request \<Rightarrow> bool" where
  "row_ok n r \<longleftrightarrow> n \<le> 1 \<and> (0 < n \<longrightarrow> rr_status r \<in> spent_statuses)
     \<and> (0 < n \<or> rr_status r \<in> reviewed_statuses \<longrightarrow> rr_reviewed_by_user_id r \<noteq> None)
     \<and> (rr_status r = RS_SCHEDULED \<longrightarrow> rr_scheduled_execution_at r \<noteq> None)"

definition ticket_for :: "execution_ticket \<Rightarrow> remediation_request \<Rightarrow> bool" where
  "ticket_for t r \<longleftrightarrow> same_target (tk_request t) r \<and> tk_provider t = normalize_provider (rr_provider r)"

definition call_for :: "cloud_call \<Rightarrow> remediation_request \<Rightarrow> bool" where
  "call_for c r \<longleftrightarrow> cc_request_id c = rr_id r \<and> cc_provider c = normalize_provider (rr_provider r) \<and> cc_action c = rr_action r
     \<and> cc_resource_id c = rr_resource_id r"

definition rem_inv :: "rem_state \<Rightarrow> bool" where
  "rem_inv s \<longleftrightarrow> (case s of (db, ts) \<Rightarrow>
     distinct (map rr_id (rd_requests db)) \<and> (\<forall>r \<in> set (rd_requests db). rr_id r < rd_next_id db)
     \<and> (\<forall>r \<in> set (rd_requests db). row_ok (uses db ts (rr_id r)) r)
     \<and> (\<forall>t \<in> set ts. \<exists>r \<in> set (rd_requests db). ticket_for t r)
     \<and> (\<forall>c \<in> set (rd_cloud db). \<exists>r \<in> set (rd_requests db). call_for c r))"

lemma ticket_forD: "ticket_for t r \<Longrightarrow> rr_id r = rr_id (tk_request t)"
  by (simp add: ticket_for_def same_target_def)

lemma call_of_for: "ticket_for t r \<Longrightarrow> call_for (call_of t now) r"
  by (auto simp: ticket_for_def call_for_def call_of_def same_target_def)

lemma kept_for:
  assumes "keeps_identity f"
  shows "ticket_for t r \<Longrightarrow> ticket_for t (f r)" "call_for c r \<Longrightarrow> call_for c (f r)"
  using assms by (auto simp: keeps_identity_def ticket_for_def call_for_def same_target_def)

text \<open>One lemma for all steps that write at most one row and may move a ticket or a call\<close>

lemma inv_write:
  assumes inv: "rem_inv (db, ts)"
    and tab: "tables db' = (update_where (\<lambda>r. rr_id r = i) f (rd_requests db), cs, rd_next_id db)"
    and f: "\<And>r. same_target r (f r)"
    and row: "\<And>r. r \<in> set (rd_requests db) \<Longrightarrow> rr_id r = i \<Longrightarrow> row_ok (uses db ts i) r \<Longrightarrow> row_ok (uses db' ts' i) (f r)"
    and uses: "\<And>j. j \<noteq> i \<Longrightarrow> uses db' ts' j = uses db ts j"
    and ts: "\<And>t. t \<in> set ts' \<Longrightarrow> t \<in> set ts \<or> (\<exists>r \<in> set (rd_requests db). ticket_for t r)"
    and cs: "\<And>c. c \<in> set cs \<Longrightarrow> c \<in> set (rd_cloud db) \<or> (\<exists>t \<in> set ts. \<exists>now. c = call_of t now)"
  shows "rem_inv (db', ts')"
proof -
  have r: "rd_requests db' = update_where (\<lambda>r. rr_id r = i) f (rd_requests db)" "rd_cloud db' = cs" "rd_next_id db' = rd_next_id db"
    using tablesD [OF tab] by auto
  have id: "rr_id (f r) = rr_id r" for r using f [of r] by (simp add: same_target_def)
  have image: "(\<exists>r \<in> set (rd_requests db'). P r) \<longleftrightarrow> (\<exists>r \<in> set (rd_requests db). P (if rr_id r = i then f r else r))" for P
    by (auto simp: r set_update_where)
  have tf: "ticket_for t (if rr_id r = i then f r else r) \<longleftrightarrow> ticket_for t r"
    and cf: "call_for c (if rr_id r = i then f r else r) \<longleftrightarrow> call_for c r" for t c r
    using f [of r] by (auto simp: ticket_for_def call_for_def same_target_def)
  have "map rr_id (rd_requests db') = map rr_id (rd_requests db)" unfolding r by (rule map_update_where) (rule id)
  moreover have "row_ok (uses db' ts' (rr_id x)) x" if "x \<in> set (rd_requests db')" for x
  proof -
    from that obtain y where y: "y \<in> set (rd_requests db)" "x = (if rr_id y = i then f y else y)" unfolding r by (rule in_update_whereE)
    with inv have "row_ok (uses db ts (rr_id y)) y" by (simp add: rem_inv_def)
    with row [OF y(1)] uses y(2) id show ?thesis by (cases "rr_id y = i") auto
  qed
  moreover have "\<exists>r \<in> set (rd_requests db'). ticket_for t r" if "t \<in> set ts'" for t
    using ts [OF that] inv unfolding image by (auto simp: rem_inv_def tf)
  moreover have "\<exists>r \<in> set (rd_requests db'). call_for c r" if "c \<in> set (rd_cloud db')" for c
    using cs [of c] that inv unfolding image by (simp add: rem_inv_def cf r(2)) (metis call_of_for)
  moreover have "\<forall>x \<in> set (rd_requests db'). rr_id x < rd_next_id db'"
    using inv by (auto simp: rem_inv_def r set_update_where id)
  ultimately show ?thesis using inv by (simp add: rem_inv_def)
qed

lemma uses_tables: "rd_cloud db' = rd_cloud db \<Longrightarrow> uses db' ts = uses db ts"
  by (simp add: uses_def fun_eq_iff)

text \<open>Steps that touch neither tickets nor calls\<close>

lemma inv_row:
  assumes "rem_inv (db, ts)" "writes_row db i f db'" "\<And>r. same_target r (f r)"
    and "\<And>r. r \<in> set (rd_requests db) \<Longrightarrow> rr_id r = i \<Longrightarrow> row_ok (uses db ts i) r \<Longrightarrow> row_ok (uses db ts i) (f r)"
  shows "rem_inv (db', ts)"
proof -
  have "uses db' ts = uses db ts" using assms(2) by (intro uses_tables) (simp add: writes_row_def tables_def)
  then show ?thesis
    using assms by (intro inv_write [of db ts db' i f "rd_cloud db" ts]) (auto simp: writes_row_def)
qed

lemma remove1_uses:
  "t \<in> set ts \<Longrightarrow> count_where p ts = count_where p (remove1 t ts) + (if p t then 1 else 0)"
  by (induction ts) (auto simp: count_where_def)

lemma inv_new_row:
  assumes "rem_inv (db, ts)" "rr_id r = rd_next_id db" "rr_status r = RS_PENDING"
  shows "rem_inv (db\<lparr>rd_requests := rd_requests db @ [r], rd_next_id := rd_next_id db + 1\<rparr>, ts)"
proof -
  let ?db = "db\<lparr>rd_requests := rd_requests db @ [r], rd_next_id := rd_next_id db + 1\<rparr>"
  have "uses ?db ts = uses db ts" by (rule uses_tables) simp
  moreover have "uses db ts (rd_next_id db) = 0"
  proof -
    have "cc_request_id c \<noteq> rd_next_id db" if "c \<in> set (rd_cloud db)" for c
    proof -
      from assms(1) that obtain x where "x \<in> set (rd_requests db)" "call_for c x" by (auto simp: rem_inv_def)
      with assms(1) show ?thesis by (auto simp: rem_inv_def call_for_def)
    qed
    moreover have "rr_id (tk_request t) \<noteq> rd_next_id db" if "t \<in> set ts" for t
    proof -
      from assms(1) that obtain x where "x \<in> set (rd_requests db)" "ticket_for t x" by (auto simp: rem_inv_def)
      then have "rr_id (tk_request t) = rr_id x" "rr_id x < rd_next_id db" using assms(1) by (auto simp: rem_inv_def dest: ticket_forD)
      then show ?thesis by simp
    qed
    ultimately show ?thesis by (auto simp: uses_def count_where_def filter_empty_conv)
  qed
  ultimately show ?thesis
    using assms by (auto simp: rem_inv_def row_ok_def reviewed_statuses_def)
qed

lemma row_ok_ready: "row_ok n r \<Longrightarrow> rr_status r \<in> ready_statuses \<Longrightarrow> n = 0 \<and> rr_reviewed_by_user_id r \<noteq> None"
  by (auto simp: row_ok_def ready_statuses_def spent_statuses_def reviewed_statuses_def)

lemma row_ok_failed: "settles f {RS_FAILED} \<Longrightarrow> keeps_identity f \<Longrightarrow> row_ok n r \<Longrightarrow> row_ok n (f r)"
  by (simp add: settles_def keeps_identity_def row_ok_def spent_statuses_def reviewed_statuses_def)

lemma row_ok_settled:
  assumes "settles f ss" "keeps_identity f" "rr_reviewed_by_user_id r \<noteq> None" "n \<le> 1" "0 < n \<Longrightarrow> ss \<subseteq> spent_statuses"
  shows "row_ok n (f r)"
proof -
  have "rr_status (f r) \<in> ss" "rr_status (f r) = RS_SCHEDULED \<longrightarrow> rr_scheduled_execution_at (f r) \<noteq> None"
    using assms(1) unfolding settles_def by blast+
  with assms(2-) show ?thesis unfolding row_ok_def keeps_identity_def by auto
qed

lemma found_row:
  "rem_inv (db, ts) \<Longrightarrow> find_request db i tenant_id = Some r \<Longrightarrow> x \<in> set (rd_requests db) \<Longrightarrow> rr_id x = i \<Longrightarrow> x = r"
  by (auto simp: rem_inv_def distinct_map inj_on_def dest!: find_requestD)

lemma start_step_inv:
  assumes inv: "rem_inv (db, ts)" and run: "start_execution env db i tenant_id bypass = (res, db')"
  shows "case res of Inr (Started t) \<Rightarrow> rem_inv (db', t # ts) | _ \<Rightarrow> rem_inv (db', ts)"
proof -
  have quiet: ?thesis if "rem_inv (db', ts)" "\<And>t. res \<noteq> Inr (Started t)" using that by (auto split: sum.splits execution_start.splits)
  from run show ?thesis
  proof (cases rule: start_effect)
    case still
    have "rem_inv (db', ts)"
      by (rule inv_row [OF inv writes_row_id [OF still(1)]]) (use still in \<open>auto\<close>)
    with still(2) quiet show ?thesis by blast
  next
    case (failed f)
    have "rem_inv (db', ts)"
      by (rule inv_row [OF inv failed(1)])
        (use failed(2,3) in \<open>auto simp: keeps_identity_def intro: row_ok_failed\<close>)
    with failed(5) quiet show ?thesis by blast
  next
    case (decided r f)
    have "rem_inv (db', ts)"
    proof (rule inv_row [OF inv decided(3)])
      fix x assume "x \<in> set (rd_requests db)" "rr_id x = i" "row_ok (uses db ts i) x"
      moreover from this have "x = r" using found_row [OF inv decided(1)] by blast
      ultimately show "row_ok (uses db ts i) (f x)"
        using decided(2) row_ok_ready row_ok_settled [OF decided(6,4), of r 0] by (metis zero_le less_numeral_extra(3))
    qed (use decided(4) in \<open>auto simp: keeps_identity_def\<close>)
    with decided(7) quiet show ?thesis by blast
  next
    case (started r f t)
    have r: "r \<in> set (rd_requests db)" "rr_id r = i" using find_requestD [OF started(1)] by auto
    have idt: "rr_id (tk_request t) = i" using started(4,8) r(2) by (simp add: keeps_identity_def same_target_def)
    have cloud: "rd_cloud db' = rd_cloud db" using started(3) by (simp add: writes_row_def tables_def)
    have "rem_inv (db', t # ts)"
    proof (rule inv_write [OF inv, of db' i f "rd_cloud db"])
      fix x assume x: "x \<in> set (rd_requests db)" "rr_id x = i" "row_ok (uses db ts i) x"
      then have "x = r" using found_row [OF inv started(1)] by blast
      with x(3) started(2) have "uses db ts i = 0" "rr_reviewed_by_user_id x \<noteq> None" using row_ok_ready by blast+
      moreover have "uses db' (t # ts) i = Suc (uses db ts i)" using idt by (simp add: uses_def count_where_def cloud)
      ultimately show "row_ok (uses db' (t # ts) i) (f x)"
        using row_ok_settled [OF started(6,4)] by (simp add: spent_statuses_def)
    next
      fix t' assume "t' \<in> set (t # ts)"
      then show "t' \<in> set ts \<or> (\<exists>r \<in> set (rd_requests db). ticket_for t' r)"
        using r started(4,8,9) by (auto simp: ticket_for_def keeps_identity_def same_target_def)
    qed (use started(3,4) idt in \<open>auto simp: writes_row_def keeps_identity_def uses_def count_where_def cloud\<close>)
    with started(7) show ?thesis by simp
  qed
qed

lemma used_row:
  assumes "rem_inv (db, ts)" "t \<in> set ts" "r \<in> set (rd_requests db)" "rr_id r = rr_id (tk_request t)"
  shows "rr_status r \<in> spent_statuses" "rr_reviewed_by_user_id r \<noteq> None" "uses db ts (rr_id r) = 1"
proof -
  have "0 < uses db ts (rr_id r)" using assms(2,4) remove1_uses [OF assms(2), of "\<lambda>t. rr_id (tk_request t) = rr_id r"] by (simp add: uses_def)
  moreover have "row_ok (uses db ts (rr_id r)) r" using assms(1,3) by (simp add: rem_inv_def)
  ultimately show "rr_status r \<in> spent_statuses" "rr_reviewed_by_user_id r \<noteq> None" "uses db ts (rr_id r) = 1"
    by (auto simp: row_ok_def)
qed

lemma finish_step_inv:
  assumes inv: "rem_inv (db, ts)" and t: "t \<in> set ts"
    and tab: "tables db' = (update_where (\<lambda>x. rr_id x = rr_id (tk_request t)) f (rd_requests db),
      rd_cloud db @ (if attempted then [call_of t now] else []), rd_next_id db)"
    and f: "finished_row f" "keeps_identity f"
  shows "rem_inv (db', remove1 t ts)"
proof (rule inv_write [OF inv tab])
  let ?i = "rr_id (tk_request t)"
  have cloud: "rd_cloud db' = rd_cloud db @ (if attempted then [call_of t now] else [])" using tab by (simp add: tables_def)
  have le: "uses db' (remove1 t ts) ?i \<le> uses db ts ?i"
    using remove1_uses [OF t, of "\<lambda>x. rr_id (tk_request x) = ?i"] by (simp add: uses_def cloud count_where_def call_of_def)
  show "row_ok (uses db' (remove1 t ts) ?i) (f r)" if "r \<in> set (rd_requests db)" "rr_id r = ?i" "row_ok (uses db ts ?i) r" for r
  proof -
    let ?n = "uses db' (remove1 t ts) ?i"
    note used = used_row [OF inv t that(1,2)]
    have n: "?n \<le> 1" using le used(3) that(2) by simp
    from f(1) consider "f = id" | "settles f {RS_FAILED}" | "settles f {RS_COMPLETED}" by (auto simp: finished_row_def)
    then show ?thesis
    proof cases
      case 1
      with that(3) used n show ?thesis by (auto simp: row_ok_def)
    next
      case 2
      with row_ok_settled [OF 2 f(2) used(2) n] show ?thesis by (simp add: spent_statuses_def)
    next
      case 3
      with row_ok_settled [OF 3 f(2) used(2) n] show ?thesis by (simp add: spent_statuses_def)
    qed
  qed
  show "uses db' (remove1 t ts) j = uses db ts j" if "j \<noteq> ?i" for j
    using that remove1_uses [OF t, of "\<lambda>x. rr_id (tk_request x) = j"] by (simp add: uses_def cloud count_where_def call_of_def)
  show "same_target r (f r)" for r using f(2) by (simp add: keeps_identity_def)
  show "x \<in> set ts \<or> (\<exists>r \<in> set (rd_requests db). ticket_for x r)" if "x \<in> set (remove1 t ts)" for x
    using notin_set_remove1 that by metis
  show "c \<in> set (rd_cloud db) \<or> (\<exists>t \<in> set ts. \<exists>now. c = call_of t now)"
    if "c \<in> set (rd_cloud db @ (if attempted then [call_of t now] else []))" for c using that t by (auto split: if_splits)
qed

lemma approve_effect:
  assumes "approve_remediation_request db i tenant_id reviewer notes role = (res, db')"
  obtains (still) "db' = db"
    | (written) r n where "find_request db i tenant_id = Some r" "reviewable r" "db' = write_request i (reviewed RS_APPROVED reviewer n) db"
        "rr_escalation_required r \<Longrightarrow> lower (strip (case role of None \<Rightarrow> '''' | Some s \<Rightarrow> s)) \<in> {''owner'', escalation_role (get_remediation_settings db tenant_id)}"
        "res = Inr (reviewed RS_APPROVED reviewer n r)" "n = (if rr_escalation_required r then Some (escalation_notes notes) else notes)"
proof (cases "find_request db i tenant_id")
  case None
  with assms still show thesis by (auto simp: approve_remediation_request_def)
next
  case (Some r)
  let ?bad = "rr_escalation_required r \<and> lower (strip (case role of None \<Rightarrow> '''' | Some s \<Rightarrow> s)) \<noteq> ''owner''
    \<and> lower (strip (case role of None \<Rightarrow> '''' | Some s \<Rightarrow> s)) \<noteq> escalation_role (get_remediation_settings db tenant_id)"
  consider "\<not> reviewable r \<or> ?bad" | "reviewable r" "\<not> ?bad" by blast
  then show thesis
  proof cases
    case 1
    with assms Some show thesis by (intro still) (auto simp: approve_remediation_request_def Let_def split: if_splits)
  next
    case 2
    with assms Some show thesis by (intro written [OF Some 2(1)]) (auto simp: approve_remediation_request_def Let_def)
  qed
qed

lemma reject_effect:
  assumes "reject_request db i tenant_id reviewer notes = (res, db')"
  obtains (still) "db' = db"
    | (written) r where "find_request db i tenant_id = Some r" "reviewable r" "db' = write_request i (reviewed RS_REJECTED reviewer notes) db"
  using assms by (auto simp: reject_request_def split: option.splits if_splits)

lemma create_effect:
  assumes "create_remediation_request env db tenant_id a = (res, db')"
  obtains (still) "db' = db"
    | (created) r where "rr_id r = rd_next_id db" "rr_status r = RS_PENDING" "rr_executed_at r = None"
        "db' = db\<lparr>rd_requests := rd_requests db @ [r], rd_next_id := rd_next_id db + 1\<rparr>"
proof -
  have "rr_id (new_request env db tenant_id a p region) = rd_next_id db" "rr_status (new_request env db tenant_id a p region) = RS_PENDING"
    "rr_executed_at (new_request env db tenant_id a p region) = None" for p region
    by (simp_all add: new_request_def)
  note new = this
  from assms consider "db' = db"
    | p region where "db' = db\<lparr>rd_requests := rd_requests db @ [new_request env db tenant_id a p region], rd_next_id := rd_next_id db + 1\<rparr>"
    unfolding create_remediation_request_def Let_def by (metis prod.inject)
  then show thesis
  proof cases
    case 1
    then show thesis by (rule still)
  next
    case (2 p region)
    with new show thesis by (rule created)
  qed
qed

lemma inv_review:
  assumes "rem_inv (db, ts)" "find_request db i tenant_id = Some r" "reviewable r" "status \<in> {RS_APPROVED, RS_REJECTED}"
  shows "rem_inv (write_request i (reviewed status reviewer notes) db, ts)"
proof (rule inv_row [OF assms(1)])
  fix x assume x: "x \<in> set (rd_requests db)" "rr_id x = i" "row_ok (uses db ts i) x"
  then have "x = r" using found_row [OF assms(1,2)] by blast
  with assms(3) x(3) have "uses db ts i = 0" by (auto simp: reviewable_def row_ok_def spent_statuses_def)
  with assms(4) show "row_ok (uses db ts i) (reviewed status reviewer notes x)" by (auto simp: row_ok_def)
qed (simp_all add: writes_row_def)

lemma rem_step_inv: "rem_step s s' \<Longrightarrow> rem_inv s \<Longrightarrow> rem_inv s'"
proof (induction rule: rem_step.induct)
  case (create env db tenant_id a r db' ts)
  from create(1) show ?case by (cases rule: create_effect) (use create(2) inv_new_row in \<open>blast+\<close>)
next
  case (approve db i tenant_id reviewer n role r db' ts)
  from approve(1) show ?case by (cases rule: approve_effect) (use approve(2) in \<open>auto intro: inv_review\<close>)
next
  case (reject db i tenant_id reviewer n r db' ts)
  from reject(1) show ?case by (cases rule: reject_effect) (use reject(2) in \<open>auto intro: inv_review\<close>)
next
  case (auto_approve db i tenant_id r ts)
  show ?case
  proof (rule inv_row [OF auto_approve(3)])
    fix x assume x: "x \<in> set (rd_requests db)" "rr_id x = i" "row_ok (uses db ts i) x"
    then have "x = r" using found_row [OF auto_approve(3,1)] by blast
    with auto_approve(2) x(3) have "uses db ts i = 0" by (auto simp: row_ok_def spent_statuses_def)
    then show "row_ok (uses db ts i) (auto_approved x)" by (simp add: row_ok_def)
  qed (simp_all add: writes_row_def)
next
  case (settle env db i tenant_id bypass r db' ts)
  from start_step_inv [OF settle(2,1)] show ?case by simp
next
  case (refuse env db i tenant_id bypass e db' ts)
  from start_step_inv [OF refuse(2,1)] show ?case by simp
next
  case (start env db i tenant_id bypass t db' ts)
  from start_step_inv [OF start(2,1)] show ?case by simp
next
  case (finish t ts env db r db')
  from finish(2) obtain f attempted where "tables db' = (update_where (\<lambda>x. rr_id x = rr_id (tk_request t)) f (rd_requests db),
      rd_cloud db @ (if attempted then [call_of t (rx_now env)] else []), rd_next_id db)" "finished_row f" "keeps_identity f"
    by (rule finish_effect)
  with finish_step_inv [OF finish(3,1)] show ?case by blast
next
  case (lose t ts db env attempted)
  show ?case
    by (rule finish_step_inv [OF lose(2,1), where f = id and attempted = attempted and now = "rx_now env"])
      (simp_all add: record_call_tables finished_row_def keeps_identity_def)
next
  case (other db' db ts)
  have "uses db' ts = uses db ts" by (rule uses_tables) (rule other(2))
  with other show ?case by (simp add: rem_inv_def)
qed

interpretation remediation: machine rem_step rem_inv
  by unfold_locales (rule rem_step_inv)

end
