(* ===== verification/Opt_Samples.thy ===== *)
theory Opt_Samples
  imports Opt_Machine
begin

text \<open>
  Concrete requests, tables and environments at which the properties of remediation are applied, and when
  a start carries out or schedules.
\<close>

definition sample_request :: "uuid \<Rightarrow> remediation_status \<Rightarrow> remediation_request" where
  "sample_request i s =
     \<lparr>rr_id = i, rr_tenant_id = 7, rr_resource_id = ''i-1'', rr_resource_type = ''ec2'', rr_provider = ''aws'',
      rr_connection_id = None, rr_region = ''us-east-1'', rr_action = STOP_INSTANCE, rr_status = s,
      rr_estimated_monthly_savings = Some 10, rr_confidence_score = Some (99 / 100), rr_explainability_notes = None,
      rr_create_backup = False, rr_backup_retention_days = 30, rr_backup_resource_id = None, rr_backup_cost_estimate = None,
      rr_requested_by_user_id = 3, rr_reviewed_by_user_id = Some 4, rr_review_notes = None, rr_execution_error = None,
      rr_scheduled_execution_at = None, rr_escalation_required = False, rr_escalation_reason = None, rr_escalated_at = None,
      rr_executed_at = None, rr_action_parameters = None, rr_created_at = 0\<rparr>"

definition sample_rows :: "uuid \<Rightarrow> remediation_request list \<Rightarrow> rem_db" where
  "sample_rows n rows =
     \<lparr>jq_jobs = [], jq_next_id = 0, rd_requests = rows, rd_settings = [], rd_accounts = [], rd_connections = (\<lambda>_. []),
      rd_costs = [], rd_audit = [], rd_cloud = [], rd_next_id = n\<rparr>"

definition sample_action :: cloud_action where
  "sample_action = \<lparr>ax_validate = (\<lambda>_ _. Inr True), ax_create_backup = (\<lambda>_ _. Inr None),
     ax_perform = (\<lambda>_ _. Inr \<lparr>er_status = EXEC_SUCCESS, er_error_message = None, er_backup_id = None\<rparr>)\<rparr>"

definition sample_env :: "instant \<Rightarrow> rem_env" where
  "sample_env now =
     \<lparr>rx_now = now, rx_fresh = ''c'', rx_region = ''us-east-1'', rx_tier = Inr PRO, rx_aws_default_region = ''us-east-1'',
      rx_kill_switch_scope = ''tenant'', rx_kill_switch_threshold = ''500.0'', rx_credentials = (\<lambda>_. Inr []),
      rx_actions = (\<lambda>_ _. sample_action)\<rparr>"

subsection \<open>When a start goes through\<close>

lemma start_decides:
  assumes "find_request db i tenant_id = Some r" "execution_tier env = Inr tier" "normalize_provider (rr_provider r) \<noteq> ''''"
    and "check_all_guards env db tenant_id (case rr_estimated_monthly_savings r of None \<Rightarrow> 0 | Some s \<Rightarrow> s) = Inr ()"
    and "execution_readiness r bypass (rx_now env) = Ready byp"
  shows "start_execution env db i tenant_id bypass =
    (case decide_execution env tier (normalize_provider (rr_provider r)) bypass byp r db of (s, db') \<Rightarrow> (Inr s, db'))"
  by (simp add: start_execution_def assms Let_def)

lemma decide_allowed:
  assumes "pe_decision (evaluate_policy (with_policy_context db provider r)
      (build_policy_config (write_request (rr_id r) (with_policy_context db provider) db) (rr_tenant_id r)) False) = POLICY_ALLOW"
  shows "rr_status r = RS_APPROVED \<and> \<not> bypass \<Longrightarrow>
      \<exists>r' db'. decide_execution env tier provider bypass byp r db = (Settled r', db') \<and> rr_status r' = RS_SCHEDULED"
    "\<not> (rr_status r = RS_APPROVED \<and> \<not> bypass) \<Longrightarrow> \<exists>t db'. decide_execution env tier provider bypass byp r db = (Started t, db')"
proof -
  have sch: "rr_status (fst (schedule_grace_period env x d)) = RS_SCHEDULED" for x d by (simp add: schedule_grace_period_def Let_def)
  show "\<exists>r' db'. decide_execution env tier provider bypass byp r db = (Settled r', db') \<and> rr_status r' = RS_SCHEDULED"
    if "rr_status r = RS_APPROVED \<and> \<not> bypass"
    using that assms sch by (simp add: decide_execution_def Let_def split_beta)
  show "\<exists>t db'. decide_execution env tier provider bypass byp r db = (Started t, db')" if "\<not> (rr_status r = RS_APPROVED \<and> \<not> bypass)"
    using that assms by (auto simp: decide_execution_def Let_def)
qed

lemma sample_threshold: "parse_decimal ''500.0'' = Some 500"
proof -
  have "strip ''500.0'' = ''500.0''" "takeWhile is_digit ''500.0'' = ''500''" "dropWhile is_digit ''500.0'' = ''.0''"
    "takeWhile is_digit ''0'' = ''0''" "dropWhile is_digit ''0'' = ''''" "digits_value 0 ''5000'' = 5000" by code_simp+
  then show ?thesis by (simp add: parse_decimal_def parse_unsigned_def Let_def)
qed

lemma sample_start:
  assumes "s = RS_APPROVED \<or> s = RS_SCHEDULED"
  shows "s = RS_APPROVED \<and> \<not> bypass \<Longrightarrow>
      \<exists>r' db'. start_execution (sample_env now) (sample_rows n [sample_request i s]) i 7 bypass = (Inr (Settled r'), db') \<and> rr_status r' = RS_SCHEDULED"
    "\<not> (s = RS_APPROVED \<and> \<not> bypass) \<Longrightarrow>
      \<exists>t db'. start_execution (sample_env now) (sample_rows n [sample_request i s]) i 7 bypass = (Inr (Started t), db')"
proof -
  let ?r = "sample_request i s" and ?env = "sample_env now"
  let ?db = "sample_rows n [?r]"
  have found: "find_request ?db i 7 = Some ?r" by (simp add: find_request_def sample_rows_def sample_request_def first_row_def)
  have provider: "normalize_provider (rr_provider ?r) = ''aws''" unfolding sample_request_def by (simp, code_simp)
  have guards: "check_all_guards ?env ?db 7 (case rr_estimated_monthly_savings ?r of None \<Rightarrow> 0 | Some s \<Rightarrow> s) = Inr ()"
  proof -
    have open_row: "rr_status ?r \<noteq> RS_COMPLETED" "rr_status ?r \<noteq> RS_FAILED" using assms by (auto simp: sample_request_def)
    have rows: "rd_requests ?db = [?r]" "rd_settings ?db = []" by (simp_all add: sample_rows_def)
    have "completed_impact ?db tenants t = 0" "failures_today ?db 7 t = 0" for tenants t
      by (simp_all add: completed_impact_def failures_today_def count_where_def rows open_row)
    moreover have "rr_estimated_monthly_savings ?r = Some 10" by (simp add: sample_request_def)
    moreover have "rx_kill_switch_threshold ?env = ''500.0''" by (simp add: sample_env_def)
    moreover have "check_monthly_hard_cap ?env ?db 7 = Inr ()"
      by (simp add: check_monthly_hard_cap_def get_remediation_settings_def first_row_def rows)
    ultimately show ?thesis
      by (simp add: check_all_guards_def check_global_kill_switch_def sample_threshold check_circuit_breaker_def)
  qed
  have ready: "execution_readiness ?r bypass (rx_now ?env) = Ready False"
    using assms by (auto simp: execution_readiness_def sample_request_def)
  have ctx: "with_policy_context ?db ''aws'' ?r = ?r"
    by (simp add: with_policy_context_def build_system_policy_context_def sample_request_def sanitize_action_parameters_def dict_pop_def Let_def)
  have "evaluate_escalation_rules (sample_request 1 RS_PENDING) default_guard_config = []" by code_simp
  moreover have "is_gpu_sensitive ?r = is_gpu_sensitive (sample_request 1 RS_PENDING)" "has_gpu_override ?r = has_gpu_override (sample_request 1 RS_PENDING)"
    by (simp_all add: is_gpu_sensitive_def request_text_def has_gpu_override_def sample_request_def)
  ultimately have "evaluate_escalation_rules ?r default_guard_config = []" by (simp add: evaluate_escalation_rules_def split: if_splits)
  then have "pe_decision (evaluate_policy ?r default_guard_config False) = POLICY_ALLOW"
    by (auto simp: evaluate_policy_def Let_def evaluate_block_rules_def is_destructive_def destructive_actions_def evaluate_warning_rules_def
        default_guard_config_def sample_request_def)
  moreover have "build_policy_config (write_request (rr_id ?r) (with_policy_context ?db ''aws'') ?db) (rr_tenant_id ?r) = default_guard_config"
    by (simp add: build_policy_config_def get_remediation_settings_def sample_rows_def first_row_def)
  ultimately have allow: "pe_decision (evaluate_policy (with_policy_context ?db ''aws'' ?r)
      (build_policy_config (write_request (rr_id ?r) (with_policy_context ?db ''aws'') ?db) (rr_tenant_id ?r)) False) = POLICY_ALLOW"
    by (simp only: ctx)
  have tier: "execution_tier ?env = Inr PRO" by (simp add: execution_tier_def sample_env_def)
  have start: "start_execution ?env ?db i 7 bypass =
      (case decide_execution ?env PRO ''aws'' bypass False ?r ?db of (s, db') \<Rightarrow> (Inr s, db'))"
    using start_decides [OF found tier _ guards ready, unfolded provider] by simp
  have status: "rr_status ?r = s" by (simp add: sample_request_def)
  show "\<exists>r' db'. start_execution ?env ?db i 7 bypass = (Inr (Settled r'), db') \<and> rr_status r' = RS_SCHEDULED"
    if "s = RS_APPROVED \<and> \<not> bypass"
  proof -
    have "rr_status ?r = RS_APPROVED \<and> \<not> bypass" unfolding status by (rule that)
    from decide_allowed(1) [OF allow this, of ?env PRO False] obtain r' db' where
      "decide_execution ?env PRO ''aws'' bypass False ?r ?db = (Settled r', db')" "rr_status r' = RS_SCHEDULED" by blast
    then show ?thesis by (intro exI conjI) (simp_all only: start prod.case)
  qed
  show "\<exists>t db'. start_execution ?env ?db i 7 bypass = (Inr (Started t), db')" if "\<not> (s = RS_APPROVED \<and> \<not> bypass)"
  proof -
    have "\<not> (rr_status ?r = RS_APPROVED \<and> \<not> bypass)" unfolding status by (rule that)
    from decide_allowed(2) [OF allow this, of ?env PRO False] obtain t db' where
      "decide_execution ?env PRO ''aws'' bypass False ?r ?db = (Started t, db')" by blast
    then show ?thesis by (intro exI) (simp only: start prod.case)
  qed
qed

lemma sample_inv:
  assumes "distinct (map fst rows)" "\<forall>x \<in> set rows. fst x < n \<and> snd x \<noteq> RS_SCHEDULED"
  shows "rem_inv (sample_rows n (map (\<lambda>x. sample_request (fst x) (snd x)) rows), [])"
proof -
  have row: "rr_id (sample_request i s) = i" "rr_status (sample_request i s) = s" "rr_reviewed_by_user_id (sample_request i s) = Some 4" for i s
    by (simp_all add: sample_request_def)
  show ?thesis
    using assms by (auto simp: rem_inv_def sample_rows_def row row_ok_def uses_def count_where_def comp_def)
qed

subsection \<open>A run that carries an action out\<close>

definition sample_args :: request_args where
  "sample_args = \<lparr>ra_user_id = 3, ra_resource_id = ''i-1'', ra_resource_type = ''ec2'', ra_action = STOP_INSTANCE,
     ra_estimated_savings = 10, ra_provider = ''aws'', ra_create_backup = False, ra_backup_retention_days = 30,
     ra_backup_cost_estimate = 0, ra_confidence_score = Some (99 / 100), ra_explainability_notes = None,
     ra_connection_id = None, ra_parameters = None\<rparr>"

lemma sample_create:
  "\<exists>r. create_remediation_request (sample_env 0) (sample_rows 9 []) 7 sample_args = (Inr r, sample_rows 10 [r])
    \<and> reviewed RS_APPROVED 4 None r = sample_request 9 RS_APPROVED \<and> rr_id r = 9 \<and> rr_tenant_id r = 7 \<and> rr_status r = RS_PENDING
    \<and> \<not> rr_escalation_required r"
proof -
  have provider: "normalize_provider ''aws'' = ''aws''" by code_simp
  have "lower (strip ''us-east-1'') = ''us-east-1''" by code_simp
  then have region: "resolve_aws_region_hint (sample_env 0) (sample_rows 9 []) 7 None c = ''us-east-1''" for c
    by (simp add: resolve_aws_region_hint_def sample_env_def Let_def)
  have num: "numeric 2 10 = 10" "numeric 2 (99 / 100) = 99 / 100" by (simp_all add: numeric_def round_half_up_def floor_eq_iff)
  show ?thesis
    by (simp add: create_remediation_request_def sample_args_def provider region Let_def)
      (simp add: new_request_def sample_rows_def sample_request_def sample_env_def reviewed_def num sanitize_action_parameters_def dict_pop_def
        build_system_policy_context_def provider)
qed

lemma sample_run:
  "\<exists>db. rem_step\<^sup>*\<^sup>* (sample_rows 9 [], []) (db, []) \<and> (\<exists>t. rd_cloud db = [call_of t 0])"
proof -
  obtain r where r: "create_remediation_request (sample_env 0) (sample_rows 9 []) 7 sample_args = (Inr r, sample_rows 10 [r])"
    "reviewed RS_APPROVED 4 None r = sample_request 9 RS_APPROVED" "rr_id r = 9" "rr_tenant_id r = 7" "rr_status r = RS_PENDING"
    "\<not> rr_escalation_required r" using sample_create by blast
  have "approve_remediation_request (sample_rows 10 [r]) 9 7 4 None None = (Inr (sample_request 9 RS_APPROVED), sample_rows 10 [sample_request 9 RS_APPROVED])"
    using r(2-) by (simp add: approve_remediation_request_def find_request_def sample_rows_def first_row_def reviewable_def Let_def write_request_def update_where_def)
  then have a: "rem_step (sample_rows 10 [r], []) (sample_rows 10 [sample_request 9 RS_APPROVED], [])" by (rule rem_step.approve)
  from sample_start(2) [of RS_APPROVED True 0 10 9] obtain t db where
    t: "start_execution (sample_env 0) (sample_rows 10 [sample_request 9 RS_APPROVED]) 9 7 True = (Inr (Started t), db)" by auto
  from t have "rd_cloud db = rd_cloud (sample_rows 10 [sample_request 9 RS_APPROVED])"
    by (cases rule: start_effect) (auto simp: writes_row_def tables_def)
  then have "rd_cloud (record_call (sample_env 0) t True db) = [call_of t 0]"
    by (simp add: record_call_def call_of_def sample_rows_def sample_env_def)
  moreover have "rem_step (db, [t]) (record_call (sample_env 0) t True db, [])"
    using rem_step.lose [of t "[t]" db "sample_env 0" True] by simp
  moreover from rem_step.create [OF r(1)] a rem_step.start [OF t]
  have "rem_step\<^sup>*\<^sup>* (sample_rows 9 [], []) (db, [t])" by (blast intro: rtranclp.intros)
  ultimately show ?thesis by (metis rtranclp.rtrancl_into_rtrancl)
qed

end
