(* ===== verification/Opt_Theorems.thy ===== *)
theory Opt_Theorems
  imports Opt_Samples
begin

text \<open>
  The properties of remediation: what has to hold before an action is carried out, that it is carried out
  once, the grace period, and what the guards and the queue do not do.
\<close>

subsection \<open>Entry points are runs\<close>

lemma execute_run:
  assumes "execute_remediation_request env env' db i tenant_id bypass = (r, db')"
  shows "rem_step\<^sup>*\<^sup>* (db, ts) (db', ts)"
proof (cases "start_execution env db i tenant_id bypass")
  case (Pair s db1)
  consider e where "s = Inl e" | x where "s = Inr (Settled x)" | t where "s = Inr (Started t)"
    by (metis execution_start.exhaust sum.exhaust)
  then show ?thesis
  proof cases
    case 1
    with Pair assms show ?thesis by (auto simp: execute_remediation_request_def intro: rem_step.refuse)
  next
    case 2
    with Pair assms show ?thesis by (auto simp: execute_remediation_request_def intro: rem_step.settle)
  next
    case (3 t)
    from Pair 3 have "rem_step (db, ts) (db1, t # ts)" by (auto intro: rem_step.start)
    moreover from Pair 3 assms have "finish_execution env' t db1 = (r, db')" by (simp add: execute_remediation_request_def)
    then have "rem_step (db1, t # ts) (db', remove1 t (t # ts))" by (intro rem_step.finish) simp_all
    ultimately show ?thesis by (simp add: rtranclp.rtrancl_into_rtrancl)
  qed
qed

lemma execute_other_rows:
  assumes "execute_remediation_request env env' db i tenant_id bypass = (r, db')" "j \<noteq> i"
  shows "find_request db' j t = find_request db j t"
proof -
  have wrote: "find_request d' j t = find_request d j t"
    if "rd_requests d' = update_where (\<lambda>r. rr_id r = i) f (rd_requests d)" "\<And>r. same_target r (f r)" for d d' f
  proof -
    have "first_row (\<lambda>r. rr_id r = j \<and> rr_tenant_id r = t) (update_where (\<lambda>r. rr_id r = i) f rows) =
        first_row (\<lambda>r. rr_id r = j \<and> rr_tenant_id r = t) rows" for rows
      using assms(2) that(2) by (induction rows) (auto simp: first_row_def update_where_def same_target_def)
    with that(1) show ?thesis by (simp add: find_request_def)
  qed
  obtain s db1 where s: "start_execution env db i tenant_id bypass = (s, db1)" by fastforce
  have start: "find_request db1 j t = find_request db j t"
    using s
  proof (cases rule: start_effect)
    case still
    then show ?thesis by (simp add: find_request_def tables_def)
  qed (auto intro!: wrote simp: writes_row_def tables_def keeps_identity_def)
  show ?thesis
  proof (cases "\<exists>x. s = Inr (Started x)")
    case True
    then obtain x where x: "s = Inr (Started x)" by blast
    have id: "rr_id (tk_request x) = i"
      using s x by (cases rule: start_effect) (auto simp: keeps_identity_def same_target_def dest: find_requestD)
    from assms(1) s x have "finish_execution env' x db1 = (r, db')" by (simp add: execute_remediation_request_def)
    then obtain f a where "tables db' = (update_where (\<lambda>y. rr_id y = rr_id (tk_request x)) f (rd_requests db1),
        rd_cloud db1 @ (if a then [call_of x (rx_now env')] else []), rd_next_id db1)" "keeps_identity f" by (rule finish_effect)
    with id wrote [of db' f db1] start show ?thesis by (simp add: tables_def keeps_identity_def)
  next
    case False
    with assms(1) s start show ?thesis
      by (auto simp: execute_remediation_request_def split: sum.splits execution_start.splits)
  qed
qed

lemma auto_execute_run:
  assumes "auto_execute envs tenant_id bypass done ids db = (r, db')" "distinct ids"
    and "\<forall>i \<in> set ids. \<exists>x. find_request db i tenant_id = Some x \<and> rr_status x = RS_PENDING"
  shows "rem_step\<^sup>*\<^sup>* (db, ts) (db', ts)"
  using assms
proof (induction envs tenant_id bypass "done" ids db rule: auto_execute.induct)
  case (2 envs tenant_id bypass "done" i ids db)
  let ?db = "write_request i auto_approved db"
  obtain s db1 where s: "execute_remediation_request (fst (envs i)) (snd (envs i)) ?db i tenant_id bypass = (s, db1)" by fastforce
  have "rem_step (db, ts) (?db, ts)" using 2(5) by (auto intro: rem_step.auto_approve)
  with execute_run [OF s, of ts] have first: "rem_step\<^sup>*\<^sup>* (db, ts) (db1, ts)" by (simp add: converse_rtranclp_into_rtranclp)
  have others: "find_request db1 j tenant_id = find_request db j tenant_id" if "j \<noteq> i" for j
  proof -
    have "first_row (\<lambda>r. rr_id r = j \<and> rr_tenant_id r = tenant_id) (update_where (\<lambda>r. rr_id r = i) auto_approved rows) =
        first_row (\<lambda>r. rr_id r = j \<and> rr_tenant_id r = tenant_id) rows" for rows
      using that by (induction rows) (auto simp: first_row_def update_where_def auto_approved_def)
    with execute_other_rows [OF s that] show ?thesis by (simp add: find_request_def)
  qed
  then have pending: "\<forall>j \<in> set ids. \<exists>x. find_request db1 j tenant_id = Some x \<and> rr_status x = RS_PENDING"
    using 2(4,5) by (metis distinct.simps(2) list.set_intros(2))
  show ?case
  proof (cases s)
    case (Inr x)
    with 2(3) s have "auto_execute envs tenant_id bypass (done @ [i]) ids db1 = (r, db')" by simp
    from 2(2) [OF s [symmetric] Inr this] 2(4) pending first show ?thesis by (simp add: rtranclp_trans)
  next
    case (Inl e)
    show ?thesis
    proof (cases "\<exists>b. e = Base_error b \<and> common_recoverable b")
      case True
      then obtain b where b: "e = Base_error b" "common_recoverable b" by blast
      with 2(3) s Inl have "auto_execute envs tenant_id bypass done ids db1 = (r, db')" by simp
      from 2(1) [OF s [symmetric] Inl b this] 2(4) pending first show ?thesis by (simp add: rtranclp_trans)
    next
      case False
      with 2(3) s Inl have "db' = db1" by (auto split: rem_error.splits if_splits)
      with first show ?thesis by simp
    qed
  qed
qed simp

lemma hard_limit_run:
  assumes "rem_inv (db, ts)" "enforce_hard_limit_for_tenant envs over bypass db tenant_id = (r, db')"
  shows "rem_step\<^sup>*\<^sup>* (db, ts) (db', ts)"
proof (cases over)
  case True
  let ?P = "\<lambda>r. rr_tenant_id r = tenant_id \<and> rr_status r = RS_PENDING
    \<and> (case rr_confidence_score r of None \<Rightarrow> False | Some c \<Rightarrow> 90 / 100 \<le> c) \<and> rr_action r \<in> set hard_limit_safe_actions"
  have ids: "distinct (map rr_id (rd_requests db))" using assms(1) by (simp add: rem_inv_def)
  have "mset (hard_limit_candidates db tenant_id) = mset (map rr_id (filter ?P (rd_requests db)))"
    by (simp add: hard_limit_candidates_def)
  from mset_eq_imp_distinct_iff [OF this] distinct_map_filter [OF ids, of ?P]
  have "distinct (hard_limit_candidates db tenant_id)" by simp
  moreover have "\<exists>x. find_request db i tenant_id = Some x \<and> rr_status x = RS_PENDING" if "i \<in> set (hard_limit_candidates db tenant_id)" for i
  proof -
    from that obtain x where x: "x \<in> set (rd_requests db)" "?P x" "i = rr_id x" by (auto simp: hard_limit_candidates_def)
    have "find_request db i tenant_id = Some x" unfolding find_request_def
      by (rule first_row_the) (use x ids in \<open>auto simp: distinct_map inj_on_def\<close>)
    with x show ?thesis by blast
  qed
  ultimately show ?thesis using assms(2) True by (intro auto_execute_run) (auto simp: enforce_hard_limit_for_tenant_def)
qed (use assms in \<open>simp add: enforce_hard_limit_for_tenant_def\<close>)

lemma candidate_run:
  assumes "process_candidate env env' auto_pilot tenant_id args confidence db = (r, db')"
  shows "rem_step\<^sup>*\<^sup>* (db, ts) (db', ts)"
proof -
  obtain c db1 where c: "create_remediation_request env db tenant_id (args\<lparr>ra_user_id := system_user_id\<rparr>) = (c, db1)" by fastforce
  then have s1: "rem_step\<^sup>*\<^sup>* (db, ts) (db1, ts)" by (auto intro: rem_step.create)
  show ?thesis
  proof (cases "has_open_request db tenant_id (ra_resource_id args) (ra_provider args) (ra_action args) = Inr False")
    case False
    then have "db' = db" using assms by (auto simp: process_candidate_def split: sum.splits bool.splits)
    then show ?thesis by simp
  next
    case True
    note run = assms [unfolded process_candidate_def True sum.case bool.case c prod.case]
    show ?thesis
    proof (cases "\<exists>x. c = Inr x \<and> auto_pilot \<and> 95 / 100 \<le> confidence")
      case False
      with run have "db' = db1" by (cases c) (auto split: if_splits)
      with s1 show ?thesis by simp
    next
      case True
      then obtain x where x: "c = Inr x" "auto_pilot \<and> 95 / 100 \<le> confidence" by blast
      obtain a db2 where a: "approve_remediation_request db1 (rr_id x) tenant_id system_user_id (Some ''Auto-Pilot execution'') None = (a, db2)" by fastforce
      then have s2: "rem_step\<^sup>*\<^sup>* (db1, ts) (db2, ts)" by (auto intro: rem_step.approve)
      obtain b db3 where b: "execute_remediation_request env env' db2 (rr_id x) tenant_id False = (b, db3)" by fastforce
      from execute_run [OF b] have s3: "rem_step\<^sup>*\<^sup>* (db2, ts) (db3, ts)" .
      from run x a b have "db' = db2 \<or> db' = db3" by (auto split: sum.splits)
      with s1 s2 s3 show ?thesis by (metis rtranclp_trans)
    qed
  qed
qed

lemma job_run:
  assumes "run_targeted_remediation env env' job ref db = (r, db')"
  shows "rem_step\<^sup>*\<^sup>* (db, ts) (db', ts)"
proof -
  have "db' = db \<or> (\<exists>e e' i t x. execute_remediation_request e e' db i t False = (x, db'))"
    using assms by (auto simp: run_targeted_remediation_def Let_def split: option.splits if_splits prod.splits sum.splits)
  then show ?thesis using execute_run by blast
qed

lemma endpoint_runs:
  "approve_remediation identity user tier db i tenant_id notes = (r, db') \<Longrightarrow> rem_step\<^sup>*\<^sup>* (db, ts) (db', ts)"
  "execute_remediation identity user tier env env' db i tenant_id bypass = (x, db') \<Longrightarrow> rem_step\<^sup>*\<^sup>* (db, ts) (db', ts)"
proof -
  assume run: "approve_remediation identity user tier db i tenant_id notes = (r, db')"
  obtain a db1 where a: "approve_remediation_request db i tenant_id (cu_id user) notes (Some (cu_role user)) = (a, db1)" by fastforce
  have "db' = db \<or> db' = db1" using run a by (auto simp: approve_remediation_def split: sum.splits rem_error.splits err.splits)
  with a show "rem_step\<^sup>*\<^sup>* (db, ts) (db', ts)" by (auto intro: rem_step.approve)
next
  assume "execute_remediation identity user tier env env' db i tenant_id bypass = (x, db')"
  then have "db' = db \<or> (\<exists>r. execute_remediation_request env env' db i tenant_id bypass = (r, db'))"
    by (auto simp: execute_remediation_def split: sum.splits prod.splits)
  with execute_run show "rem_step\<^sup>*\<^sup>* (db, ts) (db', ts)" by blast
qed

text \<open>The operations through which the program reviews and executes\<close>

inductive entry_step :: "rem_db \<Rightarrow> rem_db \<Rightarrow> bool" where
  job: "run_targeted_remediation env env' job ref db = (r, db') \<Longrightarrow> entry_step db db'"
| approve: "approve_remediation identity user tier db i tenant_id notes = (r, db') \<Longrightarrow> entry_step db db'"
| execute: "execute_remediation identity user tier env env' db i tenant_id bypass = (x, db') \<Longrightarrow> entry_step db db'"
| hard_limit: "enforce_hard_limit_for_tenant envs over bypass db tenant_id = (ids, db') \<Longrightarrow> entry_step db db'"
| candidate: "process_candidate env env' auto_pilot tenant_id args confidence db = (done, db') \<Longrightarrow> entry_step db db'"



subsection \<open>At most once\<close>

lemma count_le_distinct: "(\<And>i. count_where (\<lambda>c. k c = i) xs \<le> 1) \<Longrightarrow> distinct (map k xs)"
proof (induction xs)
  case (Cons x xs)
  have "count_where (\<lambda>c. k c = i) xs \<le> 1" for i using Cons.prems [of i] by (auto simp: count_where_def split: if_splits)
  then have "distinct (map k xs)" by (rule Cons.IH)
  moreover have "k y \<noteq> k x" if "y \<in> set xs" for y
    using Cons.prems [of "k x"] that by (auto simp: count_where_def filter_empty_conv)
  then have "k x \<notin> k ` set xs" by force
  ultimately show ?case by simp
qed simp

lemma empty_inv: "rd_requests db = [] \<Longrightarrow> rd_cloud db = [] \<Longrightarrow> rem_inv (db, [])"
  by (simp add: rem_inv_def)



subsection \<open>What must hold before an execution starts\<close>

lemma decide_started:
  assumes "decide_execution env tier provider bypass byp r db = (Started t, db')"
  shows "rr_status r = RS_APPROVED \<longrightarrow> bypass"
    and "pe_decision (evaluate_policy (with_policy_context db provider r) (build_policy_config db (rr_tenant_id r)) False) \<in> {POLICY_ALLOW, POLICY_WARN}"
proof -
  have conf: "build_policy_config (write_request i f db) j = build_policy_config db j" for i f j
    by (simp add: build_policy_config_def get_remediation_settings_def)
  show "rr_status r = RS_APPROVED \<longrightarrow> bypass"
    and "pe_decision (evaluate_policy (with_policy_context db provider r) (build_policy_config db (rr_tenant_id r)) False) \<in> {POLICY_ALLOW, POLICY_WARN}"
    using assms by (auto simp: decide_execution_def Let_def conf split: if_splits prod.splits
        intro: policy_decision.exhaust [of "pe_decision (evaluate_policy (with_policy_context db provider r) (build_policy_config db (rr_tenant_id r)) False)"])
qed

lemma start_startedD:
  assumes "start_execution env db i tenant_id bypass = (Inr (Started t), db')"
  obtains r tier byp where "find_request db i tenant_id = Some r" "normalize_provider (rr_provider r) \<noteq> ''''"
    "check_all_guards env db tenant_id (case rr_estimated_monthly_savings r of None \<Rightarrow> 0 | Some s \<Rightarrow> s) = Inr ()"
    "execution_readiness r bypass (rx_now env) = Ready byp"
    "decide_execution env tier (normalize_provider (rr_provider r)) bypass byp r db = (Started t, db')"
proof -
  from assms obtain r where r: "find_request db i tenant_id = Some r" by (auto simp: start_execution_def split: option.splits)
  from assms r obtain tier where tier: "execution_tier env = Inr tier" by (auto simp: start_execution_def split: sum.splits)
  note run = assms [unfolded start_execution_def r option.case tier sum.case Let_def]
  from run have p: "normalize_provider (rr_provider r) \<noteq> ''''" by auto
  have fails: "start_failed env e r db \<noteq> (Inr (Started t), db')" for e
    using start_failed_effect [of env e r db "Inr (Started t)" db'] by blast
  from run p fails have g: "check_all_guards env db tenant_id (case rr_estimated_monthly_savings r of None \<Rightarrow> 0 | Some s \<Rightarrow> s) = Inr ()"
    by (cases "check_all_guards env db tenant_id (case rr_estimated_monthly_savings r of None \<Rightarrow> 0 | Some s \<Rightarrow> s)") auto
  from run p g fails that [OF r p g] show thesis
    by (cases "execution_readiness r bypass (rx_now env)") (auto split: prod.splits)
qed

lemma evaluate_allows:
  "pe_decision (evaluate_policy r c False) \<in> {POLICY_ALLOW, POLICY_WARN} \<Longrightarrow> gc_enabled c \<Longrightarrow>
     (gc_block_production_destructive c \<longrightarrow> \<not> (is_destructive r \<and> looks_like_production r False))
     \<and> (gc_require_gpu_override c \<longrightarrow> is_gpu_sensitive r \<longrightarrow> has_gpu_override r)"
  by (auto simp: evaluate_policy_def Let_def evaluate_block_rules_def evaluate_escalation_rules_def split: if_splits)

lemma guardsD:
  assumes "check_all_guards env db tenant_id s = Inr ()"
  shows "\<exists>threshold. parse_decimal (rx_kill_switch_threshold env) = Some threshold
      \<and> completed_impact db (kill_switch_tenants env tenant_id) (rx_now env) + s < threshold"
    "\<forall>x. get_remediation_settings db tenant_id = Some x \<and> ms_hard_cap_enabled x \<longrightarrow> month_spend db tenant_id (rx_now env) \<le> ms_monthly_hard_cap_usd x"
    "failures_today db tenant_id (rx_now env) < 5"
  using assms by (auto simp: check_all_guards_def check_global_kill_switch_def check_monthly_hard_cap_def check_circuit_breaker_def Let_def
      split: option.splits if_splits sum.splits)

text \<open>
  C16. An execution starts only if everything that guards it holds at that moment: the request is approved
  and the grace period is bypassed, or it is scheduled and due or bypassed; the day's savings with its own
  stay below the threshold of the kill switch, the month's spend is within an enabled hard cap, and fewer
  than five failures are counted; and where the tenant's policy is enabled, a destructive action does not
  aim at what the current policy context or the names show to be production, and an action on GPU
  resources carries an override in its review notes.
\<close>

theorem execution_gated:
  assumes "start_execution env db i tenant_id bypass = (Inr (Started t), db')"
  shows "\<exists>r. find_request db i tenant_id = Some r
    \<and> (rr_status r = RS_APPROVED \<and> bypass
       \<or> rr_status r = RS_SCHEDULED \<and> (bypass \<or> (case rr_scheduled_execution_at r of None \<Rightarrow> True | Some due \<Rightarrow> due \<le> rx_now env)))
    \<and> (\<exists>threshold. parse_decimal (rx_kill_switch_threshold env) = Some threshold
        \<and> completed_impact db (kill_switch_tenants env tenant_id) (rx_now env)
          + (case rr_estimated_monthly_savings r of None \<Rightarrow> 0 | Some s \<Rightarrow> s) < threshold)
    \<and> (\<forall>x. get_remediation_settings db tenant_id = Some x \<and> ms_hard_cap_enabled x
        \<longrightarrow> month_spend db tenant_id (rx_now env) \<le> ms_monthly_hard_cap_usd x)
    \<and> failures_today db tenant_id (rx_now env) < 5
    \<and> (let c = build_policy_config db tenant_id; r' = with_policy_context db (normalize_provider (rr_provider r)) r in
        gc_enabled c \<longrightarrow>
          (gc_block_production_destructive c \<longrightarrow> \<not> (is_destructive r' \<and> looks_like_production r' False))
          \<and> (gc_require_gpu_override c \<longrightarrow> is_gpu_sensitive r' \<longrightarrow> has_gpu_override r'))"
proof -
  from assms obtain r tier byp where r: "find_request db i tenant_id = Some r"
    "check_all_guards env db tenant_id (case rr_estimated_monthly_savings r of None \<Rightarrow> 0 | Some s \<Rightarrow> s) = Inr ()"
    "execution_readiness r bypass (rx_now env) = Ready byp"
    "decide_execution env tier (normalize_provider (rr_provider r)) bypass byp r db = (Started t, db')" by (rule start_startedD)
  have tenant: "rr_tenant_id r = tenant_id" using find_requestD [OF r(1)] by simp
  have "rr_status r = RS_APPROVED \<and> bypass
      \<or> rr_status r = RS_SCHEDULED \<and> (bypass \<or> (case rr_scheduled_execution_at r of None \<Rightarrow> True | Some due \<Rightarrow> due \<le> rx_now env))"
    using r(3) decide_started(1) [OF r(4)] by (auto simp: execution_readiness_def split: if_splits option.splits)
  with r(1) guardsD [OF r(2)] evaluate_allows [OF decide_started(2) [OF r(4)]] show ?thesis
    by (intro exI [of _ r]) (simp add: tenant Let_def)
qed

theorem execution_gated_witness:
  "\<exists>t db'. start_execution (sample_env 0) (sample_rows 9 [sample_request 1 RS_SCHEDULED]) 1 7 False = (Inr (Started t), db')
    \<and> failures_today (sample_rows 9 [sample_request 1 RS_SCHEDULED]) 7 0 < 5"
proof -
  from sample_start(2) [of RS_SCHEDULED False 0 9 1] obtain t db' where
    t: "start_execution (sample_env 0) (sample_rows 9 [sample_request 1 RS_SCHEDULED]) 1 7 False = (Inr (Started t), db')" by auto
  moreover have "rx_now (sample_env 0) = 0" by (simp add: sample_env_def)
  ultimately show ?thesis using execution_gated [OF t] by auto
qed

subsection \<open>The grace period\<close>

lemma schedule_job:
  assumes "schedule_grace_period env r db = (r', db')"
  defines "due \<equiv> rx_now env + seconds (3600 * grace_hours (get_remediation_settings db (rr_tenant_id r)) (rr_action r))"
  shows "jq_jobs db' = jq_jobs db @ [new_job (jq_next_id db) ''remediation'' (Some (rr_tenant_id r))
      (Some [(''request_id'', JStr (uuid_text (rr_id r)))]) due 3 None (rx_now env)]" "r' = schedule_row due r"
  using assms(1) by (auto simp: schedule_grace_period_def Let_def due_def enqueue_job_def insert_job_def get_remediation_settings_def)

lemma start_scheduledD:
  assumes "start_execution env db i tenant_id bypass = (Inr (Settled r'), db')" "find_request db i tenant_id = Some r"
    and "rr_status r = RS_APPROVED" "rr_status r' = RS_SCHEDULED"
  obtains d where "schedule_grace_period env (with_policy_context db (normalize_provider (rr_provider r)) r) d = (r', db')"
    "rd_settings d = rd_settings db" "jq_jobs d = jq_jobs db" "jq_next_id d = jq_next_id db"
    "rd_requests d = update_where (\<lambda>x. rr_id x = i) (with_policy_context db (normalize_provider (rr_provider r))) (rd_requests db)"
proof -
  have id: "rr_id r = i" using find_requestD [OF assms(2)] by simp
  have tier: "\<exists>tier. execution_tier env = Inr tier" using assms(1,2) by (auto simp: start_execution_def split: sum.splits)
  then obtain tier where tier: "execution_tier env = Inr tier" by blast
  note run = assms(1) [unfolded start_execution_def assms(2) option.case tier sum.case Let_def]
  have fails: "start_failed env e r db \<noteq> (Inr (Settled r'), db')" for e
    using assms(4) by (auto simp: start_failed_def fail_execution_def split: if_splits)
  have p: "normalize_provider (rr_provider r) \<noteq> ''''" using run by auto
  obtain byp where dec: "decide_execution env tier (normalize_provider (rr_provider r)) bypass byp r db = (Settled r', db')"
    using run p fails assms(3,4)
    by (cases "check_all_guards env db tenant_id (case rr_estimated_monthly_savings r of None \<Rightarrow> 0 | Some s \<Rightarrow> s)";
        cases "execution_readiness r bypass (rx_now env)") (auto simp: execution_readiness_def split: prod.splits)
  let ?w = "with_policy_context db (normalize_provider (rr_provider r))"
  define db0 where "db0 = write_request (rr_id r) ?w db"
  define e where "e = evaluate_policy (?w r) (build_policy_config db0 (rr_tenant_id r)) False"
  define details where "details = policy_details db0 tier (?w r) e"
  define db1 where "db1 = rem_log env ''policy.evaluated'' (execution_actor (?w r)) (?w r) True None details db0"
  define db2 where "db2 = (if pe_decision e = POLICY_WARN then rem_log env ''policy.warned'' (execution_actor (?w r)) (?w r) True None details db1 else db1)"
  have tenant: "rr_tenant_id (?w r) = rr_tenant_id r" "rr_id (?w r) = rr_id r" by (simp_all add: with_policy_context_def)
  note dec' = dec [unfolded decide_execution_def Let_def tenant, folded db0_def, folded e_def, folded details_def, folded db1_def, folded db2_def]
  show thesis
  proof (rule that [of db2])
    show "schedule_grace_period env (?w r) db2 = (r', db')"
      using dec' assms(4) by (auto simp: block_row_def fail_row_def escalate_row_def split: if_splits prod.splits)
  qed (simp_all add: db2_def db1_def db0_def rem_log_def write_request_def id)
qed

lemma find_after_write:
  assumes "find_request db i t = Some r" "\<And>r. same_target r (f r)"
    and "rd_requests db' = update_where (\<lambda>x. rr_id x = i) f (rd_requests db)"
  shows "find_request db' i t = Some (f r)"
proof -
  have "first_row (\<lambda>r. rr_id r = i \<and> rr_tenant_id r = t) (update_where (\<lambda>r. rr_id r = i) f rows) =
      map_option f (first_row (\<lambda>r. rr_id r = i \<and> rr_tenant_id r = t) rows)" for rows
    using assms(2) by (induction rows) (auto simp: first_row_def update_where_def same_target_def)
  with assms(1,3) show ?thesis by (simp add: find_request_def)
qed

lemma seconds_hours: "seconds (3600 * h) = 3600000000 * h"
  by (simp add: seconds_def)



text \<open>
  C19. The job of a scheduled request does not survive the grace period: the detector of stuck jobs takes a
  job for stuck that has been pending for an hour, whatever time it is scheduled for, so that any pass of
  it between an hour after the scheduling and the end of the grace period marks the job as failed, and no
  worker fetches it from then on.
\<close>

theorem grace_job_terminated:
  assumes "find_request db i tenant_id = Some r" and "rr_status r = RS_APPROVED"
    and "start_execution env db i tenant_id False = (Inr (Settled r'), db1)" and "rr_status r' = RS_SCHEDULED"
    and "\<forall>j \<in> set (jq_jobs db). bj_id j < jq_next_id db"
    and "rx_now env + seconds 3600 < pass"
  shows "(\<exists>j \<in> set (jq_jobs (detect_stuck_jobs pass db1)). bj_id j = jq_next_id db
      \<and> bj_payload j = Some [(''request_id'', JStr (uuid_text i))] \<and> bj_status j = JOB_FAILED)
    \<and> jq_next_id db \<notin> set (fst (fetch_and_lock_batch (detect_stuck_jobs pass db1) locked worker limit tenant job_type now))"
proof -
  have id: "rr_id r = i" "rr_tenant_id r = tenant_id" using find_requestD [OF assms(1)] by auto
  let ?w = "with_policy_context db (normalize_provider (rr_provider r))"
  from start_scheduledD [OF assms(3,1,2,4)] obtain d where d: "schedule_grace_period env (?w r) d = (r', db1)"
    "jq_jobs d = jq_jobs db" "jq_next_id d = jq_next_id db" by blast
  from schedule_job(1) [OF d(1)] obtain due where "jq_jobs db1 = jq_jobs db @ [new_job (jq_next_id db) ''remediation'' (Some tenant_id)
      (Some [(''request_id'', JStr (uuid_text i))]) due 3 None (rx_now env)]" by (simp add: d id)
  then have jobs: "jq_jobs (detect_stuck_jobs pass db1) = update_where (job_stuck pass) stuck_job (jq_jobs db)
      @ [stuck_job (new_job (jq_next_id db) ''remediation'' (Some tenant_id) (Some [(''request_id'', JStr (uuid_text i))]) due 3 None (rx_now env))]"
    using assms(6) by (simp add: detect_stuck_jobs_def update_where_def job_stuck_def new_job_def)
  have "bj_status j = JOB_FAILED" if "j \<in> set (jq_jobs (detect_stuck_jobs pass db1))" "bj_id j = jq_next_id db" for j
    using that assms(5) by (auto simp: jobs set_update_where stuck_job_def split: if_splits)
  then have "jq_next_id db \<notin> set (fst (fetch_and_lock_batch (detect_stuck_jobs pass db1) locked worker limit tenant job_type now))"
    by (auto simp: fetch_and_lock_batch_def due_batch_def job_due_def Let_def dest!: in_set_takeD)
  with jobs show ?thesis by (auto simp: stuck_job_def new_job_def)
qed

theorem grace_job_terminated_witness:
  "\<exists>r' db1. start_execution (sample_env 5) (sample_rows 9 [sample_request 1 RS_APPROVED]) 1 7 False = (Inr (Settled r'), db1)
    \<and> (\<exists>j \<in> set (jq_jobs (detect_stuck_jobs (6 + seconds 3600) db1)). bj_status j = JOB_FAILED)"
proof -
  from sample_start(1) [of RS_APPROVED False 5 9 1] obtain r' db1 where
    s: "start_execution (sample_env 5) (sample_rows 9 [sample_request 1 RS_APPROVED]) 1 7 False = (Inr (Settled r'), db1)"
    "rr_status r' = RS_SCHEDULED" by auto
  have r: "find_request (sample_rows 9 [sample_request 1 RS_APPROVED]) 1 7 = Some (sample_request 1 RS_APPROVED)"
    "rr_status (sample_request 1 RS_APPROVED) = RS_APPROVED" "\<forall>j \<in> set (jq_jobs (sample_rows 9 [sample_request 1 RS_APPROVED])). bj_id j < jq_next_id (sample_rows 9 [sample_request 1 RS_APPROVED])"
    by (simp_all add: find_request_def sample_rows_def sample_request_def first_row_def)
  have "rx_now (sample_env 5) + seconds 3600 < 6 + seconds 3600" by (simp add: sample_env_def)
  from grace_job_terminated [OF r(1,2) s r(3) this] s(1) show ?thesis by blast
qed

subsection \<open>Executing a finished request\<close>

lemma start_unready:
  assumes "find_request db i tenant_id = Some r" and "execution_tier env = Inr tier" and "normalize_provider (rr_provider r) \<noteq> ''''"
    and "parse_decimal (rx_kill_switch_threshold env) = Some threshold"
    and "rr_status r \<notin> ready_statuses"
  shows "\<exists>e. start_execution env db i tenant_id bypass = (case fail_execution env e r db of (r', db') \<Rightarrow> (Inr (Settled r'), db'))"
proof -
  let ?g = "check_all_guards env db tenant_id (case rr_estimated_monthly_savings r of None \<Rightarrow> 0 | Some s \<Rightarrow> s)"
  have guard: "execution_recoverable e" if "?g = Inl e" for e
    using that assms(4) by (auto simp: check_all_guards_def check_global_kill_switch_def check_monthly_hard_cap_def check_circuit_breaker_def Let_def
      split: option.splits if_splits sum.splits)
  obtain e where e: "execution_readiness r bypass (rx_now env) = Unready (Base_error (ValueError e))"
    using assms(5) by (simp add: execution_readiness_def ready_statuses_def)
  have "\<exists>e. start_execution env db i tenant_id bypass = start_failed env e r db \<and> execution_recoverable e"
  proof (cases ?g)
    case (Inl e')
    with guard [OF Inl] show ?thesis by (intro exI [of _ e']) (simp add: start_execution_def assms(1-3) Let_def)
  next
    case (Inr u)
    then show ?thesis by (intro exI [of _ "Base_error (ValueError e)"]) (simp add: start_execution_def assms(1-3) Let_def e)
  qed
  then show ?thesis by (auto simp: start_failed_def)
qed

lemma impact_without:
  assumes "distinct (map rr_id rows)" "r \<in> set rows" "rr_id r = i" "P r" "\<not> P (f r)"
  shows "sum_list (map s (filter P (update_where (\<lambda>x. rr_id x = i) f rows))) = sum_list (map s (filter P rows)) - (s r :: rat)"
  using assms
proof (induction rows)
  case (Cons x rows)
  show ?case
  proof (cases "rr_id x = i")
    case True
    with Cons.prems have "x = r" by (auto simp: rev_image_eqI)
    moreover from Cons.prems True have "update_where (\<lambda>x. rr_id x = i) f rows = rows"
      by (auto simp: update_where_def rev_image_eqI intro!: map_idI)
    ultimately show ?thesis using Cons.prems True by (simp add: update_where_def)
  next
    case False
    with Cons show ?thesis by (auto simp: update_where_def)
  qed
qed simp

text \<open>
  Executing a request that is already completed does not refuse: it settles with the request marked as
  failed, although its action has been carried out, keeps the time of its execution, and takes its savings
  off the day's impact that the kill switch compares with its threshold.
\<close>

theorem completed_rerun_fails:
  assumes "rem_inv (db, ts)" and "find_request db i tenant_id = Some r" and "rr_status r = RS_COMPLETED"
    and "execution_tier env = Inr tier" and "normalize_provider (rr_provider r) \<noteq> ''''"
    and "parse_decimal (rx_kill_switch_threshold env) = Some threshold"
  shows "\<exists>r' db'. start_execution env db i tenant_id bypass = (Inr (Settled r'), db')
    \<and> find_request db' i tenant_id = Some r' \<and> rr_status r' = RS_FAILED \<and> rr_executed_at r' = rr_executed_at r
    \<and> rd_cloud db' = rd_cloud db
    \<and> (\<forall>tenants now. tenants tenant_id \<and> map_option ordinal_of_instant (rr_executed_at r) = Some (ordinal_of_instant now)
        \<longrightarrow> completed_impact db' tenants now
          = completed_impact db tenants now - (case rr_estimated_monthly_savings r of None \<Rightarrow> 0 | Some s \<Rightarrow> s))"
proof -
  have r: "r \<in> set (rd_requests db)" "rr_id r = i" "rr_tenant_id r = tenant_id" using find_requestD [OF assms(2)] by auto
  have "rr_status r \<notin> ready_statuses" using assms(3) by (simp add: ready_statuses_def)
  from start_unready [OF assms(2,4,5,6) this, of bypass] obtain e where
    e: "start_execution env db i tenant_id bypass = (case fail_execution env e r db of (r', db') \<Rightarrow> (Inr (Settled r'), db'))" by blast
  obtain r' db' where f: "fail_execution env e r db = (r', db')" by fastforce
  let ?f = "fail_row (take 500 (rem_error_text e))"
  from fail_effect [OF f] r have w: "rd_requests db' = update_where (\<lambda>x. rr_id x = i) ?f (rd_requests db)" "rd_cloud db' = rd_cloud db"
    "r' = ?f r" by (auto simp: writes_row_def tables_def)
  have found: "find_request db' i tenant_id = Some r'" using find_after_write [OF assms(2) _ w(1)] w(3) by simp
  have "completed_impact db' tenants now = completed_impact db tenants now - (case rr_estimated_monthly_savings r of None \<Rightarrow> 0 | Some s \<Rightarrow> s)"
    if "tenants tenant_id" "map_option ordinal_of_instant (rr_executed_at r) = Some (ordinal_of_instant now)" for tenants now
    unfolding completed_impact_def w(1)
    by (rule impact_without) (use assms(1,3) r that in \<open>auto simp: rem_inv_def fail_row_def\<close>)
  with e f w found show ?thesis by (intro exI [of _ r'] exI [of _ db']) simp
qed

theorem completed_rerun_fails_witness:
  "\<exists>r' db'. start_execution (sample_env 5) (sample_rows 9 [sample_request 1 RS_COMPLETED]) 1 7 True = (Inr (Settled r'), db')
    \<and> rr_status r' = RS_FAILED"
proof -
  have "rem_inv (sample_rows 9 (map (\<lambda>x. sample_request (fst x) (snd x)) [(1, RS_COMPLETED)]), [])" by (rule sample_inv) simp_all
  then have inv: "rem_inv (sample_rows 9 [sample_request 1 RS_COMPLETED], [])" by simp
  have r: "find_request (sample_rows 9 [sample_request 1 RS_COMPLETED]) 1 7 = Some (sample_request 1 RS_COMPLETED)"
    "rr_status (sample_request 1 RS_COMPLETED) = RS_COMPLETED" "execution_tier (sample_env 5) = Inr PRO"
    by (simp_all add: find_request_def sample_rows_def sample_request_def first_row_def execution_tier_def sample_env_def)
  have p: "normalize_provider (rr_provider (sample_request 1 RS_COMPLETED)) \<noteq> ''''" unfolding sample_request_def by (simp, code_simp)
  have t: "parse_decimal (rx_kill_switch_threshold (sample_env 5)) = Some 500" by (simp add: sample_env_def sample_threshold)
  from completed_rerun_fails [OF inv r p t, of True] show ?thesis by blast
qed

subsection \<open>The count of failures\<close>

definition unexecuted_failures :: "rem_db \<Rightarrow> bool" where
  "unexecuted_failures db \<longleftrightarrow> (\<forall>r \<in> set (rd_requests db). rr_executed_at r \<noteq> None \<longrightarrow> rr_status r = RS_COMPLETED)"

text \<open>Steps that leave completed requests alone\<close>

definition once_step :: "rem_state \<Rightarrow> rem_state \<Rightarrow> bool" where
  "once_step s s' \<longleftrightarrow> rem_step s s' \<and> (\<forall>r \<in> set (rd_requests (fst s)). rr_status r = RS_COMPLETED \<longrightarrow> r \<in> set (rd_requests (fst s')))"

lemma unexecuted_write:
  assumes "unexecuted_failures db" "distinct (map rr_id (rd_requests db'))"
    and "rd_requests db' = update_where (\<lambda>r. rr_id r = i) f (rd_requests db)"
    and "\<And>r. rr_id (f r) = rr_id r" "\<And>r. rr_executed_at (f r) = rr_executed_at r \<or> rr_status (f r) = RS_COMPLETED"
    and "\<forall>r \<in> set (rd_requests db). rr_status r = RS_COMPLETED \<longrightarrow> r \<in> set (rd_requests db')"
  shows "unexecuted_failures db'"
  unfolding unexecuted_failures_def
proof (intro ballI impI)
  fix x assume x: "x \<in> set (rd_requests db')" "rr_executed_at x \<noteq> None"
  then obtain r where r: "r \<in> set (rd_requests db)" "x = (if rr_id r = i then f r else r)"
    unfolding assms(3) set_update_where by auto
  show "rr_status x = RS_COMPLETED"
  proof (cases "rr_executed_at r = None")
    case True
    with r x(2) assms(5) [of r] show ?thesis by (auto split: if_splits)
  next
    case False
    with r(1) assms(1) have c: "rr_status r = RS_COMPLETED" by (auto simp: unexecuted_failures_def)
    with r(1) assms(6) have "r \<in> set (rd_requests db')" by blast
    moreover have "rr_id x = rr_id r" using r(2) assms(4) by simp
    ultimately have "x = r" using x(1) assms(2) by (auto simp: distinct_map inj_on_def)
    with c show ?thesis by simp
  qed
qed

lemma rem_inv_ids: "rem_inv (db, ts) \<Longrightarrow> distinct (map rr_id (rd_requests db))"
  by (simp add: rem_inv_def)

lemma keeps_identity_id: "keeps_identity f \<Longrightarrow> rr_id (f r) = rr_id r"
  by (simp add: keeps_identity_def same_target_def)

text \<open>A step rewrites at most one row, adds a row without an execution, or leaves the rows alone.\<close>

lemma step_rows:
  assumes "rem_step s s'"
  obtains i f where "rd_requests (fst s') = update_where (\<lambda>r. rr_id r = i) f (rd_requests (fst s))"
      "\<And>r. rr_id (f r) = rr_id r" "\<And>r. rr_executed_at (f r) = rr_executed_at r \<or> rr_status (f r) = RS_COMPLETED"
    | r where "rd_requests (fst s') = rd_requests (fst s) @ [r]" "rr_executed_at r = None"
  using assms
proof (cases rule: rem_step.cases)
  case (create env db tenant_id a r db' ts)
  from create(3) show thesis by (cases rule: create_effect) (use that(1) [of 0 id] that(2) create(1,2) in \<open>auto\<close>)
next
  case (approve db i tenant_id reviewer n role r db' ts)
  from approve(3) show thesis
  proof (cases rule: approve_effect)
    case still
    then show thesis using that(1) [of 0 id] approve(1,2) by simp
  next
    case (written r n')
    then show thesis using that(1) [of i "reviewed RS_APPROVED reviewer n'"] approve(1,2) by (simp add: reviewed_def)
  qed
next
  case (reject db i tenant_id reviewer n r db' ts)
  from reject(3) show thesis
  proof (cases rule: reject_effect)
    case still
    then show thesis using that(1) [of 0 id] reject(1,2) by simp
  next
    case (written r)
    then show thesis using that(1) [of i "reviewed RS_REJECTED reviewer n"] reject(1,2) by (simp add: reviewed_def)
  qed
next
  case (auto_approve db i tenant_id r ts)
  then show thesis using that(1) [of i auto_approved] by (simp add: auto_approved_def)
next
  case (finish t ts env db r db')
  from finish(4) obtain f a where "tables db' = (update_where (\<lambda>x. rr_id x = rr_id (tk_request t)) f (rd_requests db),
      rd_cloud db @ (if a then [call_of t (rx_now env)] else []), rd_next_id db)" "finished_row f" "keeps_identity f" by (rule finish_effect)
  then show thesis using that(1) [of "rr_id (tk_request t)" f] finish(1,2)
    by (auto simp: tables_def finished_row_def settles_def keeps_time_def keeps_identity_id)
next
  case (lose t ts db env attempted)
  then show thesis using that(1) [of 0 id] record_call_tables [of env t attempted db] by (simp add: tables_def)
next
  case (other db' db ts)
  then show thesis using that(1) [of 0 id] by simp
next
  case (settle env db i tenant_id bypass r db' ts)
  from settle(3) show thesis
    by (cases rule: start_effect) (use that(1) [of 0 id] that(1) [of i] settle(1,2) in
      \<open>auto simp: tables_def writes_row_def keeps_time_def keeps_identity_id\<close>)
next
  case (refuse env db i tenant_id bypass e db' ts)
  from refuse(3) show thesis
    by (cases rule: start_effect) (use that(1) [of 0 id] that(1) [of i] refuse(1,2) in
      \<open>auto simp: tables_def writes_row_def keeps_time_def keeps_identity_id\<close>)
next
  case (start env db i tenant_id bypass t db' ts)
  from start(3) show thesis
    by (cases rule: start_effect) (use that(1) [of 0 id] that(1) [of i] start(1,2) in
      \<open>auto simp: tables_def writes_row_def keeps_time_def keeps_identity_id\<close>)
qed

lemma once_step_inv: "rem_inv s \<and> unexecuted_failures (fst s) \<Longrightarrow> once_step s s' \<Longrightarrow> rem_inv s' \<and> unexecuted_failures (fst s')"
proof
  assume inv: "rem_inv s \<and> unexecuted_failures (fst s)" and step: "once_step s s'"
  then show "rem_inv s'" by (auto simp: once_step_def intro: rem_step_inv)
  then have ids: "distinct (map rr_id (rd_requests (fst s')))" by (metis prod.collapse rem_inv_ids)
  from step have "rem_step s s'" by (simp add: once_step_def)
  then show "unexecuted_failures (fst s')"
  proof (cases rule: step_rows)
    case (1 i f)
    with inv ids step show ?thesis by (intro unexecuted_write [of "fst s" "fst s'" i f]) (auto simp: once_step_def)
  next
    case (2 r)
    with inv show ?thesis by (auto simp: unexecuted_failures_def)
  qed
qed

interpretation once: machine once_step "\<lambda>s. rem_inv s \<and> unexecuted_failures (fst s)"
  by unfold_locales (rule once_step_inv)

text \<open>
  C20. The circuit breaker of the guards never opens: it counts failed requests by the time of their
  execution, which only a success records, so that along every run that does not execute a completed
  request again, however many requests have failed, it counts none and lets every execution pass.
\<close>

theorem failure_guard_blind:
  assumes "once_step\<^sup>*\<^sup>* (db0, ts0) (db, ts)" and "rem_inv (db0, ts0)" and "unexecuted_failures db0"
  shows "failures_today db tenant_id now = 0 \<and> check_circuit_breaker env db tenant_id = Inr ()"
proof -
  have "unexecuted_failures db" using once.run_inv [OF assms(1)] assms(2,3) by simp
  then have "failures_today db t now' = 0" for t now'
    by (auto simp: failures_today_def count_where_def unexecuted_failures_def filter_empty_conv split: option.splits)
  then show ?thesis by (simp add: check_circuit_breaker_def)
qed

theorem failure_guard_blind_witness:
  "let db = sample_rows 9 (map (\<lambda>i. sample_request i RS_FAILED) [1, 2, 3, 4, 5]) in
     length (filter (\<lambda>r. rr_status r = RS_FAILED) (rd_requests db)) = 5 \<and> check_circuit_breaker (sample_env 5) db 7 = Inr ()"
proof -
  let ?db = "sample_rows 9 (map (\<lambda>i. sample_request i RS_FAILED) [1, 2, 3, 4, 5])"
  have "rem_inv (sample_rows 9 (map (\<lambda>x. sample_request (fst x) (snd x)) (map (\<lambda>i. (i, RS_FAILED)) [1, 2, 3, 4, 5])), [])"
    by (rule sample_inv) simp_all
  then have inv: "rem_inv (?db, [])" by simp
  have "unexecuted_failures ?db" by (simp add: unexecuted_failures_def sample_rows_def sample_request_def)
  with failure_guard_blind [OF rtranclp.rtrancl_refl inv, of 7 5 "sample_env 5"] show ?thesis
    by (simp add: Let_def sample_rows_def sample_request_def)
qed

subsection \<open>Reviews and their effect\<close>

text \<open>
  The enforcement of the hard limit overrides a rejection: once a request has been listed as a
  candidate, rejecting it before its turn changes nothing, neither what is executed nor the outcome, as
  the approval of the system is written over whatever status the request has by then.
\<close>

theorem hard_limit_ignores_rejection:
  assumes "rem_inv (db, ts)" and "i \<in> set (hard_limit_candidates db tenant_id)"
    and "find_request db i tenant_id = Some r" and "\<not> rr_escalation_required r" and "rr_escalation_reason r = None"
    and "reject_request db i tenant_id reviewer notes = (Inr rejected, db')"
  shows "rr_status rejected = RS_REJECTED \<and> i \<notin> set (hard_limit_candidates db' tenant_id)
    \<and> auto_execute envs tenant_id bypass done (i # ids) db' = auto_execute envs tenant_id bypass done (i # ids) db"
proof -
  let ?f = "reviewed RS_REJECTED reviewer notes"
  from assms(6) have w: "db' = write_request i ?f db" "rejected = ?f r"
    by (auto simp: reject_request_def assms(3) split: if_splits)
  have same: "auto_approved (?f x) = auto_approved x" if "x \<in> set (rd_requests db)" "rr_id x = i" for x
    using found_row [OF assms(1,3) that] assms(4,5) by (simp add: auto_approved_def reviewed_def)
  have "update_where (\<lambda>r. rr_id r = i) (auto_approved \<circ> ?f) (rd_requests db) = update_where (\<lambda>r. rr_id r = i) auto_approved (rd_requests db)"
    unfolding update_where_def by (rule map_cong [OF refl]) (simp add: same)
  then have "write_request i auto_approved db' = write_request i auto_approved db"
    using update_twice [of rr_id ?f i auto_approved "rd_requests db"] same_target_id [OF same_target_writes(6)] by (simp add: w(1) write_request_def)
  moreover have "rr_status x = RS_REJECTED" if x: "x \<in> set (rd_requests db')" "rr_id x = i" for x
  proof -
    from x(1) have "\<exists>y. x = (if rr_id y = i then ?f y else y)" by (auto simp: w(1) update_where_def)
    then obtain y where y: "x = (if rr_id y = i then ?f y else y)" by blast
    with x(2) show ?thesis by (cases "rr_id y = i") simp_all
  qed
  then have "i \<notin> set (hard_limit_candidates db' tenant_id)" by (auto simp: hard_limit_candidates_def)
  moreover have "rr_status rejected = RS_REJECTED" by (simp add: w(2))
  ultimately show ?thesis by (auto simp only: auto_execute.simps)
qed

theorem hard_limit_ignores_rejection_witness:
  "\<exists>rejected db'. reject_request (sample_rows 9 [sample_request 1 RS_PENDING]) 1 7 5 (Some ''no'') = (Inr rejected, db')
    \<and> rr_status rejected = RS_REJECTED
    \<and> auto_execute (\<lambda>_. (sample_env 0, sample_env 1)) 7 True [] [1] db'
      = auto_execute (\<lambda>_. (sample_env 0, sample_env 1)) 7 True [] [1] (sample_rows 9 [sample_request 1 RS_PENDING])"
proof -
  let ?db = "sample_rows 9 [sample_request 1 RS_PENDING]"
  have "rem_inv (sample_rows 9 (map (\<lambda>x. sample_request (fst x) (snd x)) [(1, RS_PENDING)]), [])" by (rule sample_inv) simp_all
  then have inv: "rem_inv (?db, [])" by simp
  have r: "1 \<in> set (hard_limit_candidates ?db 7)" "find_request ?db 1 7 = Some (sample_request 1 RS_PENDING)"
    "\<not> rr_escalation_required (sample_request 1 RS_PENDING)" "rr_escalation_reason (sample_request 1 RS_PENDING) = None"
    by (simp_all add: hard_limit_candidates_def hard_limit_safe_actions_def find_request_def sample_rows_def sample_request_def first_row_def)
  have "reviewable (sample_request 1 RS_PENDING)" by (simp add: reviewable_def sample_request_def)
  then obtain x db' where rej: "reject_request ?db 1 7 5 (Some ''no'') = (Inr x, db')" using r(2) by (simp add: reject_request_def)
  from hard_limit_ignores_rejection [OF inv r rej, of "\<lambda>_. (sample_env 0, sample_env 1)" True "[]" "[]"] rej show ?thesis by blast
qed

lemma contains_append: "contains w s \<Longrightarrow> contains w (a @ s @ b)"
  unfolding contains_iff_sublist by (metis sublist_appendI sublist_order.order_trans)

lemma escalation_notes_marked: "contains gpu_marker (lower (escalation_notes n))"
proof -
  have "lower gpu_marker = gpu_marker" by code_simp
  moreover have "contains gpu_marker gpu_marker" by code_simp
  moreover have "lower (a @ b) = lower a @ lower b" for a b by (simp add: lower_def)
  ultimately show ?thesis
    using contains_append [of gpu_marker gpu_marker] by (auto simp: escalation_notes_def simp flip: append_assoc append_Cons split: option.splits)
qed

text \<open>
  Who may clear the policy's escalation of work on GPU resources: an escalated request is approved
  only by an owner or the role configured for escalations, and then carries the override; but a request
  that is not escalated yet is approved by any reviewer, and carries the override from the start if the
  review notes contain its marker, so that the policy never escalates it.
\<close>

theorem gpu_override_by_review:
  assumes "approve_remediation_request db i tenant_id reviewer notes role = (Inr r', db')" and "find_request db i tenant_id = Some r"
  shows "(rr_escalation_required r \<longrightarrow> has_gpu_override r'
        \<and> lower (strip (case role of None \<Rightarrow> '''' | Some s \<Rightarrow> s)) \<in> {''owner'', escalation_role (get_remediation_settings db tenant_id)})
    \<and> (\<not> rr_escalation_required r \<longrightarrow> has_gpu_override r' = has_gpu_override (r\<lparr>rr_review_notes := notes\<rparr>))
    \<and> (has_gpu_override r' \<longrightarrow> pe_decision (evaluate_policy (with_policy_context d provider r') config False) \<noteq> POLICY_ESCALATE)"
proof -
  obtain n where "r' = reviewed RS_APPROVED reviewer n r" "n = (if rr_escalation_required r then Some (escalation_notes notes) else notes)"
    "rr_escalation_required r \<Longrightarrow> lower (strip (case role of None \<Rightarrow> '''' | Some s \<Rightarrow> s)) \<in> {''owner'', escalation_role (get_remediation_settings db tenant_id)}"
    using assms(1) by (auto simp: approve_remediation_request_def assms(2) Let_def split: if_splits)
  note approved = this
  have "has_gpu_override r'" if "rr_escalation_required r"
    using that escalation_notes_marked [of "notes"] by (simp add: approved has_gpu_override_def reviewed_def gpu_override_markers_def gpu_marker_def)
  moreover have "has_gpu_override r' = has_gpu_override (r\<lparr>rr_review_notes := notes\<rparr>)" if "\<not> rr_escalation_required r"
    using that by (simp add: approved has_gpu_override_def reviewed_def)
  moreover have "pe_decision (evaluate_policy (with_policy_context d provider r') config False) \<noteq> POLICY_ESCALATE" if "has_gpu_override r'"
  proof -
    have "has_gpu_override (with_policy_context d provider r')" using that by (simp add: has_gpu_override_def)
    then show ?thesis by (simp add: evaluate_policy_def Let_def evaluate_escalation_rules_def)
  qed
  ultimately show ?thesis using approved(3) by blast
qed

theorem gpu_override_by_review_witness:
  "\<exists>r' db'. approve_remediation_request (sample_rows 9 [sample_request 1 RS_PENDING]) 1 7 5 (Some ''gpu-approved'') (Some ''member'') = (Inr r', db')
    \<and> has_gpu_override r'"
proof -
  let ?r = "sample_request 1 RS_PENDING"
  have r: "find_request (sample_rows 9 [?r]) 1 7 = Some ?r" by (simp add: find_request_def sample_rows_def sample_request_def first_row_def)
  have q: "reviewable ?r" "\<not> rr_escalation_required ?r" by (simp_all add: reviewable_def sample_request_def)
  then obtain r' db' where a: "approve_remediation_request (sample_rows 9 [?r]) 1 7 5 (Some ''gpu-approved'') (Some ''member'') = (Inr r', db')"
    using r by (simp add: approve_remediation_request_def Let_def)
  have "contains ''gpu-approved'' (lower ''gpu-approved'')" by code_simp
  then have "has_gpu_override (?r\<lparr>rr_review_notes := Some ''gpu-approved''\<rparr>)" by (simp add: has_gpu_override_def gpu_override_markers_def)
  with gpu_override_by_review [OF a r] q(2) a show ?thesis by blast
qed

end
