(* ===== verification/Rep_Attribution.thy ===== *)
theory Rep_Attribution
  imports Gov_Audit Fx_Rates Base_Machine
begin

text \<open>
  Cost attribution: src/app/models/attribution.py, the engine in
  src/app/modules/reporting/domain/attribution_engine*.py, its endpoints in
  src/app/modules/reporting/api/v1/attribution.py and the report of aggregator_governance_ops.py.

  A rule of a tenant matches cost records by their properties and allocates their cost to buckets; the
  first matching rule in the order of priority decides. Amounts are decimals of any length until a row is
  stored; the texts of a decimal NaN or infinity are outside the model. The request models of the
  endpoints have checked the types of their arguments. Reports are the exact numbers, before they are
  rendered as floats.
\<close>

subsection \<open>Tables\<close>

record attributed_cost =
  xc_id :: uuid
  xc_tenant_id :: uuid
  xc_account_id :: uuid
  xc_service :: string
  xc_region :: "string option"
  xc_cost_usd :: rat
  xc_recorded_at :: int
  xc_tags :: json
  xc_ingestion_metadata :: json
  xc_allocated_to :: "string option"

record attribution_rule =
  ru_id :: uuid
  ru_tenant_id :: uuid
  ru_name :: string
  ru_priority :: int
  ru_rule_type :: string
  ru_conditions :: dict
  ru_allocation :: json
  ru_is_active :: bool

record cost_allocation =
  lo_cost_record_id :: uuid
  lo_recorded_at :: int
  lo_rule_id :: "uuid option"
  lo_allocated_to :: json
  lo_amount :: rat
  lo_percentage :: "rat option"
  lo_timestamp :: instant

record attr_db =
  ab_costs :: "attributed_cost list"
  ab_rules :: "attribution_rule list"
  ab_allocations :: "cost_allocation list"
  ab_audit :: "audit_entry list"
  ab_next_id :: uuid

subsection \<open>Equality of Python values\<close>

fun json_number :: "json \<Rightarrow> rat option" where
  "json_number (JBool b) = Some (of_bool b)"
| "json_number (JInt n) = Some (of_int n)"
| "json_number (JDec n r) = Some r"
| "json_number _ = None"

fun py_eq :: "json \<Rightarrow> json \<Rightarrow> bool" where
  "py_eq (JList xs) (JList ys) = list_all2 py_eq xs ys"
| "py_eq (JObj d) (JObj e) =
     (list_all (\<lambda>kv. case map_of e (fst kv) of None \<Rightarrow> False | Some w \<Rightarrow> py_eq (snd kv) w) d
      \<and> list_all (\<lambda>kv. dict_has d (fst kv)) e)"
| "py_eq v w = (if json_number v \<noteq> None \<or> json_number w \<noteq> None then json_number v = json_number w else v = w)"

text \<open>An identifier equals identifiers only, and JSON has none.\<close>

definition uuid_eq_json :: "uuid \<Rightarrow> json \<Rightarrow> bool" where
  "uuid_eq_json i v = False"

definition nullable_text :: "string option \<Rightarrow> json" where
  "nullable_text v = (case v of None \<Rightarrow> JNull | Some s \<Rightarrow> JStr s)"

subsection \<open>Rules\<close>

definition normalize_rule_type :: "string \<Rightarrow> string" where
  "normalize_rule_type rule_type = upper (strip rule_type)"

fun dict_of_entry :: "json \<Rightarrow> dict list" where
  "dict_of_entry (JObj d) = [d]"
| "dict_of_entry _ = []"

fun allocation_entries :: "json \<Rightarrow> dict list" where
  "allocation_entries (JList xs) = concat (map dict_of_entry xs)"
| "allocation_entries v = dict_of_entry v"

definition bucket_errors :: "string \<Rightarrow> dict \<Rightarrow> string list" where
  "bucket_errors rule_type split =
     (if py_truthy (dict_get split ''bucket'') then []
      else [''Each '' @ rule_type @ '' split requires a non-empty '' @ repr_str ''bucket'' @ ''.''])"

fun percentage_errors :: "dict list \<Rightarrow> string list \<times> rat" where
  "percentage_errors [] = ([], 0)"
| "percentage_errors (split # splits) =
     (case percentage_errors splits of (errors, tot) \<Rightarrow>
        (case parse_decimal (py_str (dict_get split ''percentage'')) of
           None \<Rightarrow> (bucket_errors ''PERCENTAGE'' split
             @ [''Each PERCENTAGE split requires numeric '' @ repr_str ''percentage'' @ ''.''] @ errors, tot)
         | Some p \<Rightarrow> (bucket_errors ''PERCENTAGE'' split
             @ (if p < 0 then [''PERCENTAGE split cannot be negative.''] else []) @ errors, p + tot)))"

fun fixed_errors :: "dict list \<Rightarrow> string list" where
  "fixed_errors [] = []"
| "fixed_errors (split # splits) = bucket_errors ''FIXED'' split
     @ (case parse_decimal (py_str (dict_get split ''amount'')) of
          None \<Rightarrow> [''Each FIXED split requires numeric '' @ repr_str ''amount'' @ ''.'']
        | Some a \<Rightarrow> (if a < 0 then [''FIXED split amount cannot be negative.''] else []))
     @ fixed_errors splits"

definition validate_rule_payload :: "string \<Rightarrow> json \<Rightarrow> string list" where
  "validate_rule_payload rule_type allocation =
     (let t = normalize_rule_type rule_type; entries = allocation_entries allocation in
      if t \<notin> {''DIRECT'', ''PERCENTAGE'', ''FIXED''} then
        [''rule_type must be one of '' @ py_repr (JList (map JStr [''DIRECT'', ''FIXED'', ''PERCENTAGE'']))]
      else if t = ''DIRECT'' then
        (if length entries \<noteq> 1 then [''DIRECT allocation must define exactly one bucket.'']
         else if \<not> py_truthy (dict_get (hd entries) ''bucket'')
         then [''DIRECT allocation requires a non-empty '' @ repr_str ''bucket'' @ ''.''] else [])
      else if t = ''PERCENTAGE'' then
        (case percentage_errors entries of (errors, tot) \<Rightarrow>
           (if entries = [] then [''PERCENTAGE allocation requires at least one split entry.''] else []) @ errors
           @ (if entries \<noteq> [] \<and> tot \<noteq> 100 then [''PERCENTAGE split percentages must sum to 100.''] else []))
      else (if entries = [] then [''FIXED allocation requires at least one split entry.''] else []) @ fixed_errors entries)"

definition get_rule :: "attr_db \<Rightarrow> uuid \<Rightarrow> uuid \<Rightarrow> attribution_rule option" where
  "get_rule db tenant_id rule_id = first_row (\<lambda>r. ru_tenant_id r = tenant_id \<and> ru_id r = rule_id) (ab_rules db)"

definition list_rules :: "attr_db \<Rightarrow> uuid \<Rightarrow> bool \<Rightarrow> attribution_rule list" where
  "list_rules db tenant_id include_inactive =
     sort_key (\<lambda>r. (ru_priority r, ru_name r))
       (filter (\<lambda>r. ru_tenant_id r = tenant_id \<and> (include_inactive \<or> ru_is_active r)) (ab_rules db))"

definition get_active_rules :: "attr_db \<Rightarrow> uuid \<Rightarrow> attribution_rule list" where
  "get_active_rules db tenant_id =
     sort_key ru_priority (filter (\<lambda>r. ru_tenant_id r = tenant_id \<and> ru_is_active r) (ab_rules db))"

definition create_rule :: "attr_db \<Rightarrow> uuid \<Rightarrow> string \<Rightarrow> int \<Rightarrow> string \<Rightarrow> dict \<Rightarrow> json \<Rightarrow> bool \<Rightarrow> attribution_rule \<times> attr_db" where
  "create_rule db tenant_id name priority rule_type conditions allocation is_active =
     (let r = \<lparr>ru_id = ab_next_id db, ru_tenant_id = tenant_id, ru_name = name, ru_priority = priority,
            ru_rule_type = normalize_rule_type rule_type, ru_conditions = conditions, ru_allocation = allocation,
            ru_is_active = is_active\<rparr> in
      (r, db\<lparr>ab_rules := ab_rules db @ [r], ab_next_id := ab_next_id db + 1\<rparr>))"

text \<open>A field is written if the update has it and it is not null.\<close>

definition apply_updates :: "dict \<Rightarrow> attribution_rule \<Rightarrow> attribution_rule" where
  "apply_updates updates r =
     r\<lparr>ru_name := (case dict_get updates ''name'' of JStr s \<Rightarrow> s | _ \<Rightarrow> ru_name r),
       ru_priority := (case dict_get updates ''priority'' of JInt n \<Rightarrow> n | _ \<Rightarrow> ru_priority r),
       ru_rule_type := (case dict_get updates ''rule_type'' of JStr s \<Rightarrow> normalize_rule_type s | _ \<Rightarrow> ru_rule_type r),
       ru_conditions := (case dict_get updates ''conditions'' of JObj d \<Rightarrow> d | _ \<Rightarrow> ru_conditions r),
       ru_allocation := (if dict_get updates ''allocation'' = JNull then ru_allocation r else dict_get updates ''allocation''),
       ru_is_active := (case dict_get updates ''is_active'' of JBool b \<Rightarrow> b | _ \<Rightarrow> ru_is_active r)\<rparr>"

definition update_rule :: "attr_db \<Rightarrow> uuid \<Rightarrow> uuid \<Rightarrow> dict \<Rightarrow> attribution_rule option \<times> attr_db" where
  "update_rule db tenant_id rule_id updates =
     (case get_rule db tenant_id rule_id of
        None \<Rightarrow> (None, db)
      | Some r \<Rightarrow> (Some (apply_updates updates r),
          db\<lparr>ab_rules := update_where (\<lambda>x. ru_id x = rule_id) (apply_updates updates) (ab_rules db)\<rparr>))"

text \<open>Deleting a rule clears the references of its allocations.\<close>

definition delete_rule :: "attr_db \<Rightarrow> uuid \<Rightarrow> uuid \<Rightarrow> bool \<times> attr_db" where
  "delete_rule db tenant_id rule_id =
     (case get_rule db tenant_id rule_id of
        None \<Rightarrow> (False, db)
      | Some r \<Rightarrow> (True, db\<lparr>ab_rules := filter (\<lambda>x. ru_id x \<noteq> rule_id) (ab_rules db),
          ab_allocations := update_where (\<lambda>a. lo_rule_id a = Some rule_id) (\<lambda>a. a\<lparr>lo_rule_id := None\<rparr>) (ab_allocations db)\<rparr>))"

subsection \<open>Matching\<close>

definition dict_or_empty :: "json \<Rightarrow> dict" where
  "dict_or_empty v = (case v of JObj d \<Rightarrow> d | _ \<Rightarrow> [])"

definition cost_tags :: "attributed_cost \<Rightarrow> dict" where
  "cost_tags c =
     (case xc_tags c of JObj d \<Rightarrow> d
      | _ \<Rightarrow> dict_or_empty (dict_get_default (dict_or_empty (xc_ingestion_metadata c)) ''tags'' (JObj [])))"

definition match_conditions :: "attributed_cost \<Rightarrow> dict \<Rightarrow> bool" where
  "match_conditions c conditions \<longleftrightarrow>
     (dict_has conditions ''service'' \<longrightarrow> py_eq (JStr (xc_service c)) (dict_get conditions ''service''))
     \<and> (dict_has conditions ''region'' \<longrightarrow> py_eq (nullable_text (xc_region c)) (dict_get conditions ''region''))
     \<and> (dict_has conditions ''account_id'' \<longrightarrow> uuid_eq_json (xc_account_id c) (dict_get conditions ''account_id''))
     \<and> (dict_has conditions ''tags'' \<longrightarrow>
          list_all (\<lambda>(k, v). py_eq (dict_get (cost_tags c) k) v) (dict_or_empty (dict_get conditions ''tags'')))"

subsection \<open>Allocation\<close>

definition unallocated :: json where
  "unallocated = JStr ''Unallocated''"

definition bucket_of :: "dict \<Rightarrow> json" where
  "bucket_of split = dict_get_default split ''bucket'' unallocated"

definition direct_bucket :: "json \<Rightarrow> json" where
  "direct_bucket allocation =
     (case allocation of
        JList (JObj d # _) \<Rightarrow> bucket_of d
      | JObj d \<Rightarrow> bucket_of d
      | _ \<Rightarrow> unallocated)"

definition allocation_row ::
  "instant \<Rightarrow> attributed_cost \<Rightarrow> uuid option \<Rightarrow> json \<Rightarrow> rat \<Rightarrow> rat option \<Rightarrow> cost_allocation" where
  "allocation_row now c rule_id bucket amount percentage =
     \<lparr>lo_cost_record_id = xc_id c, lo_recorded_at = xc_recorded_at c, lo_rule_id = rule_id, lo_allocated_to = bucket,
      lo_amount = amount, lo_percentage = percentage, lo_timestamp = now\<rparr>"

definition decimal_arg :: "json \<Rightarrow> rat res" where
  "decimal_arg v = (case parse_decimal (py_str v) of None \<Rightarrow> Inl invalid_operation | Some x \<Rightarrow> Inr x)"

fun percentage_rows :: "instant \<Rightarrow> attributed_cost \<Rightarrow> uuid \<Rightarrow> dict list \<Rightarrow> cost_allocation list res" where
  "percentage_rows now c i [] = Inr []"
| "percentage_rows now c i (split # splits) =
     bind_res (decimal_arg (dict_get_default split ''percentage'' (JInt 0))) (\<lambda>p.
     bind_res (percentage_rows now c i splits) (\<lambda>rows.
       Inr (allocation_row now c (Some i) (bucket_of split) (xc_cost_usd c * p / 100) (Some p) # rows)))"

fun fixed_rows :: "instant \<Rightarrow> attributed_cost \<Rightarrow> uuid \<Rightarrow> dict list \<Rightarrow> cost_allocation list res" where
  "fixed_rows now c i [] = Inr []"
| "fixed_rows now c i (split # splits) =
     bind_res (decimal_arg (dict_get_default split ''amount'' (JInt 0))) (\<lambda>a.
     bind_res (fixed_rows now c i splits) (\<lambda>rows.
       Inr (allocation_row now c (Some i) (bucket_of split) a None # rows)))"

definition remainder_rows :: "instant \<Rightarrow> attributed_cost \<Rightarrow> uuid \<Rightarrow> cost_allocation list \<Rightarrow> cost_allocation list" where
  "remainder_rows now c i rows =
     (let remaining = xc_cost_usd c - sum_list (map lo_amount rows) in
      if 0 < remaining then [allocation_row now c (Some i) unallocated remaining None] else [])"

definition allocate_rule :: "instant \<Rightarrow> attributed_cost \<Rightarrow> attribution_rule \<Rightarrow> cost_allocation list res" where
  "allocate_rule now c r =
     (if ru_rule_type r = ''DIRECT'' then
        Inr [allocation_row now c (Some (ru_id r)) (direct_bucket (ru_allocation r)) (xc_cost_usd c) (Some 100)]
      else if ru_rule_type r = ''PERCENTAGE'' then
        percentage_rows now c (ru_id r) (allocation_entries (ru_allocation r))
      else if ru_rule_type r = ''FIXED'' then
        bind_res (fixed_rows now c (ru_id r) (allocation_entries (ru_allocation r))) (\<lambda>rows.
          Inr (rows @ remainder_rows now c (ru_id r) rows))
      else Inr [])"

definition apply_rules :: "instant \<Rightarrow> attributed_cost \<Rightarrow> attribution_rule list \<Rightarrow> cost_allocation list res" where
  "apply_rules now c rules =
     bind_res (case first_row (\<lambda>r. match_conditions c (ru_conditions r)) rules of
         None \<Rightarrow> Inr [] | Some r \<Rightarrow> allocate_rule now c r) (\<lambda>rows.
       Inr (if rows = [] then [allocation_row now c None unallocated (xc_cost_usd c) (Some 100)] else rows))"

text \<open>The columns round what they store.\<close>

definition stored_allocation :: "cost_allocation \<Rightarrow> cost_allocation" where
  "stored_allocation a = a\<lparr>lo_amount := numeric 8 (lo_amount a), lo_percentage := map_option (numeric 2) (lo_percentage a)\<rparr>"

definition process_cost_record :: "attr_db \<Rightarrow> attributed_cost \<Rightarrow> uuid \<Rightarrow> instant \<Rightarrow> cost_allocation list res \<times> attr_db" where
  "process_cost_record db c tenant_id now =
     (case apply_rules now c (get_active_rules db tenant_id) of
        Inl e \<Rightarrow> (Inl e, db)
      | Inr rows \<Rightarrow> (Inr rows, db\<lparr>ab_allocations := ab_allocations db @ map stored_allocation rows\<rparr>))"

definition window_costs :: "attr_db \<Rightarrow> uuid \<Rightarrow> int option \<Rightarrow> int option \<Rightarrow> attributed_cost list" where
  "window_costs db tenant_id start_date end_date =
     filter (\<lambda>c. xc_tenant_id c = tenant_id
       \<and> (case start_date of None \<Rightarrow> True | Some d \<Rightarrow> d \<le> xc_recorded_at c)
       \<and> (case end_date of None \<Rightarrow> True | Some d \<Rightarrow> xc_recorded_at c \<le> d)) (ab_costs db)"

text \<open>The deletion goes in chunks of a thousand identifiers.\<close>

fun delete_chunks :: "uuid list \<Rightarrow> cost_allocation list \<Rightarrow> cost_allocation list" where
  "delete_chunks [] rows = rows"
| "delete_chunks (i # ids) rows =
     delete_chunks (drop 999 ids) (filter (\<lambda>a. lo_cost_record_id a \<notin> set (i # take 999 ids)) rows)"

fun apply_to_records :: "instant \<Rightarrow> attribution_rule list \<Rightarrow> attributed_cost list \<Rightarrow> cost_allocation list res" where
  "apply_to_records now rules [] = Inr []"
| "apply_to_records now rules (c # cs) =
     bind_res (apply_rules now c rules) (\<lambda>rows. bind_res (apply_to_records now rules cs) (\<lambda>more. Inr (rows @ more)))"

record attribution_stats =
  as_records_processed :: nat
  as_allocations_created :: nat

definition apply_rules_to_tenant :: "attr_db \<Rightarrow> uuid \<Rightarrow> int \<Rightarrow> int \<Rightarrow> instant \<Rightarrow> attribution_stats res \<times> attr_db" where
  "apply_rules_to_tenant db tenant_id start_date end_date now =
     (let records = window_costs db tenant_id (Some start_date) (Some end_date) in
      if records = [] then (Inr \<lparr>as_records_processed = 0, as_allocations_created = 0\<rparr>, db)
      else (case apply_to_records now (get_active_rules db tenant_id) records of
          Inl e \<Rightarrow> (Inl e, db)
        | Inr rows \<Rightarrow>
            (Inr \<lparr>as_records_processed = length records, as_allocations_created = length rows\<rparr>,
             db\<lparr>ab_allocations := delete_chunks (map xc_id records) (ab_allocations db) @ map stored_allocation rows\<rparr>)))"

subsection \<open>Reports\<close>

text \<open>The join of allocations with their cost records\<close>

definition joined_allocations :: "attr_db \<Rightarrow> attributed_cost list \<Rightarrow> cost_allocation list" where
  "joined_allocations db costs =
     concat (map (\<lambda>a. map (\<lambda>_. a) (filter (\<lambda>c. xc_id c = lo_cost_record_id a \<and> xc_recorded_at c = lo_recorded_at a) costs))
       (ab_allocations db))"

definition get_allocation_summary ::
  "attr_db \<Rightarrow> uuid \<Rightarrow> instant option \<Rightarrow> instant option \<Rightarrow> json option \<Rightarrow> nat \<Rightarrow> nat \<Rightarrow> (json \<times> rat \<times> nat) list \<times> rat" where
  "get_allocation_summary db tenant_id start_time end_time bucket limit offset =
     (let rows = filter (\<lambda>a. (case start_time of None \<Rightarrow> True | Some t \<Rightarrow> t \<le> lo_timestamp a)
            \<and> (case end_time of None \<Rightarrow> True | Some t \<Rightarrow> lo_timestamp a \<le> t)
            \<and> (case bucket of None \<Rightarrow> True | Some b \<Rightarrow> lo_allocated_to a = b)) (joined_allocations db (window_costs db tenant_id None None));
          groups = map (\<lambda>b. let g = filter (\<lambda>a. lo_allocated_to a = b) rows in (b, sum_list (map lo_amount g), length g))
            (remdups (map lo_allocated_to rows));
          page = take limit (drop offset (sort_key (\<lambda>(b, tot, n). - tot) groups)) in
      (page, sum_list (map (\<lambda>(b, tot, n). tot) page)))"

record coverage_report =
  cov_target_percentage :: rat
  cov_coverage_percentage :: rat
  cov_meets_target :: bool
  cov_status :: string
  cov_total_cost :: rat
  cov_allocated_cost :: rat
  cov_unallocated_cost :: rat
  cov_over_allocated_cost :: rat
  cov_total_records :: nat
  cov_allocated_records :: nat
  cov_allocation_rows :: nat

definition get_allocation_coverage :: "attr_db \<Rightarrow> uuid \<Rightarrow> int option \<Rightarrow> int option \<Rightarrow> rat \<Rightarrow> coverage_report" where
  "get_allocation_coverage db tenant_id start_date end_date target_percentage =
     (let costs = window_costs db tenant_id start_date end_date; tot = sum_list (map xc_cost_usd costs);
          rows = joined_allocations db costs; raw = sum_list (map lo_amount rows);
          allocated = (if 0 < tot then min raw tot else 0);
          coverage = (if 0 < tot then allocated / tot * 100 else 0) in
      \<lparr>cov_target_percentage = target_percentage, cov_coverage_percentage = coverage,
       cov_meets_target = (if 0 < tot then target_percentage \<le> coverage else False),
       cov_status = (if tot \<le> 0 then ''no_data'' else if target_percentage \<le> coverage then ''ok'' else ''warning''),
       cov_total_cost = tot, cov_allocated_cost = allocated, cov_unallocated_cost = max (tot - allocated) 0,
       cov_over_allocated_cost = max (raw - tot) 0, cov_total_records = length costs,
       cov_allocated_records = length (remdups (map lo_cost_record_id rows)), cov_allocation_rows = length rows\<rparr>)"

definition record_unallocated :: "attributed_cost \<Rightarrow> bool" where
  "record_unallocated c \<longleftrightarrow> xc_allocated_to c = None \<or> xc_allocated_to c = Some ''Unallocated''"

definition get_unallocated_analysis :: "attr_db \<Rightarrow> uuid \<Rightarrow> int \<Rightarrow> int \<Rightarrow> (string \<times> rat \<times> nat \<times> string) list" where
  "get_unallocated_analysis db tenant_id start_date end_date =
     (let rows = filter record_unallocated (window_costs db tenant_id (Some start_date) (Some end_date));
          groups = map (\<lambda>s. let g = filter (\<lambda>c. xc_service c = s) rows in (s, sum_list (map xc_cost_usd g), length g,
              ''Create a DIRECT rule for service '' @ [CHR 0x27] @ s @ [CHR 0x27] @ '' to a specific team bucket.''))
            (remdups (map xc_service rows)) in
      take 5 (sort_key (\<lambda>(s, tot, n, text). - tot) groups))"

record governance_report =
  go_total_cost :: rat
  go_unallocated_cost :: rat
  go_unallocated_percentage :: rat
  go_resource_count :: nat
  go_insights :: "(string \<times> rat \<times> nat \<times> string) list"
  go_status :: string

definition get_governance_report :: "attr_db \<Rightarrow> uuid \<Rightarrow> int \<Rightarrow> int \<Rightarrow> governance_report" where
  "get_governance_report db tenant_id start_date end_date =
     (let costs = window_costs db tenant_id (Some start_date) (Some end_date);
          rows = filter record_unallocated costs; spend = sum_list (map xc_cost_usd costs);
          tot = (if spend = 0 then 1 / 100 else spend); untagged = sum_list (map xc_cost_usd rows);
          percent = untagged / tot * 100 in
      \<lparr>go_total_cost = tot, go_unallocated_cost = untagged, go_unallocated_percentage = percent,
       go_resource_count = length rows, go_insights = get_unallocated_analysis db tenant_id start_date end_date,
       go_status = (if 10 < percent then ''warning'' else ''healthy'')\<rparr>)"

record simulation_report =
  si_sampled_records :: nat
  si_matched_records :: nat
  si_matched_cost :: rat
  si_projected_allocations :: "(json \<times> rat) list"

definition add_projection :: "cost_allocation \<Rightarrow> (json \<times> rat) list \<Rightarrow> (json \<times> rat) list" where
  "add_projection a projected =
     AList.update (lo_allocated_to a) ((case map_of projected (lo_allocated_to a) of None \<Rightarrow> 0 | Some x \<Rightarrow> x) + lo_amount a) projected"

definition simulate_rule ::
  "attr_db \<Rightarrow> uuid \<Rightarrow> string \<Rightarrow> dict \<Rightarrow> json \<Rightarrow> int \<Rightarrow> int \<Rightarrow> nat \<Rightarrow> instant \<Rightarrow> simulation_report res" where
  "simulate_rule db tenant_id rule_type conditions allocation start_date end_date sample_limit now =
     (let records = take sample_limit (sort_key (\<lambda>c. - xc_recorded_at c) (window_costs db tenant_id (Some start_date) (Some end_date)));
          rule = \<lparr>ru_id = 0, ru_tenant_id = tenant_id, ru_name = ''simulation'', ru_priority = 1,
            ru_rule_type = normalize_rule_type rule_type, ru_conditions = conditions, ru_allocation = allocation, ru_is_active = True\<rparr>;
          matched = filter (\<lambda>c. match_conditions c conditions) records in
      bind_res (apply_to_records now [rule] matched) (\<lambda>rows.
        Inr \<lparr>si_sampled_records = length records, si_matched_records = length matched,
          si_matched_cost = sum_list (map xc_cost_usd matched),
          si_projected_allocations = rev (sort_key snd (rev (fold add_projection rows [])))\<rparr>))"

subsection \<open>The endpoints\<close>

record rule_caller =
  ur_tenant_id :: "uuid option"
  ur_user_id :: uuid
  ur_email :: string
  ur_method :: string
  ur_path :: string
  ur_fresh :: string
  ur_now :: instant

definition tenant_id_or_403 :: "rule_caller \<Rightarrow> uuid res" where
  "tenant_id_or_403 u = (case ur_tenant_id u of None \<Rightarrow> Inl (HTTPException 403 ''Tenant context is required'') | Some t \<Rightarrow> Inr t)"

definition audit_rules :: "rule_caller \<Rightarrow> uuid \<Rightarrow> string \<Rightarrow> string \<Rightarrow> string option \<Rightarrow> dict \<Rightarrow> attr_db \<Rightarrow> attr_db" where
  "audit_rules u tenant_id event_type resource_type resource_id details db =
     db\<lparr>ab_audit := ab_audit db @ [audit_log tenant_id None (ur_fresh u) (ur_now u)
        \<lparr>aq_event_type = event_type, aq_actor_id = ActorId (ur_user_id u), aq_actor_email = Some (ur_email u), aq_actor_ip = None,
         aq_resource_type = Some resource_type, aq_resource_id = resource_id, aq_details = details, aq_success = True,
         aq_error_message = None, aq_request_method = Some (ur_method u), aq_request_path = Some (ur_path u)\<rparr>]\<rparr>"

definition payload_refused :: "string list \<Rightarrow> err" where
  "payload_refused errors = HTTPException 422 (join_text ''; '' errors)"

definition rule_missing :: err where
  "rule_missing = HTTPException 404 ''Attribution rule not found''"

definition create_rule_route ::
  "rule_caller \<Rightarrow> string \<Rightarrow> int \<Rightarrow> string \<Rightarrow> dict \<Rightarrow> json \<Rightarrow> bool \<Rightarrow> attr_db \<Rightarrow> attribution_rule res \<times> attr_db" where
  "create_rule_route u name priority rule_type conditions allocation is_active db =
     (case tenant_id_or_403 u of
        Inl e \<Rightarrow> (Inl e, db)
      | Inr t \<Rightarrow>
          (let errors = validate_rule_payload rule_type allocation in
           if errors \<noteq> [] then (Inl (payload_refused errors), db)
           else case create_rule db t name priority rule_type conditions allocation is_active of (r, db') \<Rightarrow>
             (Inr r, audit_rules u t ''attribution.rule_created'' ''attribution_rule'' (Some (uuid_text (ru_id r)))
               [(''name'', JStr name), (''priority'', JInt priority), (''rule_type'', JStr rule_type), (''is_active'', JBool is_active)] db')))"

definition update_errors :: "dict \<Rightarrow> attribution_rule \<Rightarrow> string list" where
  "update_errors updates r =
     (if dict_has updates ''rule_type'' \<or> dict_has updates ''allocation''
      then validate_rule_payload (py_str (dict_get_default updates ''rule_type'' (JStr (ru_rule_type r))))
        (dict_get_default updates ''allocation'' (ru_allocation r))
      else [])"

definition update_rule_route :: "rule_caller \<Rightarrow> uuid \<Rightarrow> dict \<Rightarrow> attr_db \<Rightarrow> attribution_rule res \<times> attr_db" where
  "update_rule_route u rule_id updates db =
     (case tenant_id_or_403 u of
        Inl e \<Rightarrow> (Inl e, db)
      | Inr t \<Rightarrow>
          (case get_rule db t rule_id of
             None \<Rightarrow> (Inl rule_missing, db)
           | Some r \<Rightarrow>
               if update_errors updates r \<noteq> [] then (Inl (payload_refused (update_errors updates r)), db)
               else (case update_rule db t rule_id updates of
                   (None, db') \<Rightarrow> (Inl rule_missing, db')
                 | (Some r', db') \<Rightarrow> (Inr r', audit_rules u t ''attribution.rule_updated'' ''attribution_rule''
                     (Some (uuid_text rule_id)) [(''updates'', JObj updates)] db'))))"

definition delete_rule_route :: "rule_caller \<Rightarrow> uuid \<Rightarrow> attr_db \<Rightarrow> unit res \<times> attr_db" where
  "delete_rule_route u rule_id db =
     (case tenant_id_or_403 u of
        Inl e \<Rightarrow> (Inl e, db)
      | Inr t \<Rightarrow>
          (case delete_rule db t rule_id of
             (False, db') \<Rightarrow> (Inl rule_missing, db')
           | (True, db') \<Rightarrow> (Inr (), audit_rules u t ''attribution.rule_deleted'' ''attribution_rule'' (Some (uuid_text rule_id)) [] db')))"

definition simulate_rule_route ::
  "rule_caller \<Rightarrow> string \<Rightarrow> dict \<Rightarrow> json \<Rightarrow> int option \<Rightarrow> int option \<Rightarrow> nat \<Rightarrow> attr_db \<Rightarrow> simulation_report res \<times> attr_db" where
  "simulate_rule_route u rule_type conditions allocation start_date end_date sample_limit db =
     (case tenant_id_or_403 u of
        Inl e \<Rightarrow> (Inl e, db)
      | Inr t \<Rightarrow>
          (let errors = validate_rule_payload rule_type allocation;
               end_day = (case end_date of None \<Rightarrow> ordinal_of_instant (ur_now u) | Some d \<Rightarrow> d);
               start = (case start_date of None \<Rightarrow> end_day - 30 | Some d \<Rightarrow> d) in
           if errors \<noteq> [] then (Inl (payload_refused errors), db)
           else if end_day < start then (Inl (HTTPException 400 ''start_date must be <= end_date''), db)
           else (case simulate_rule db t rule_type conditions allocation start end_day sample_limit (ur_now u) of
               Inl e \<Rightarrow> (Inl e, db)
             | Inr report \<Rightarrow> (Inr report, audit_rules u t ''attribution.rule_simulated'' ''attribution_rule'' None
                 [(''rule_type'', JStr rule_type), (''start_date'', JStr (date_isoformat (fromordinal start))), (''end_date'', JStr (date_isoformat (fromordinal end_day))),
                  (''matched_records'', JInt (int (si_matched_records report)))] db))))"

definition apply_rules_route :: "rule_caller \<Rightarrow> int \<Rightarrow> int \<Rightarrow> attr_db \<Rightarrow> attribution_stats res \<times> attr_db" where
  "apply_rules_route u start_date end_date db =
     (case tenant_id_or_403 u of
        Inl e \<Rightarrow> (Inl e, db)
      | Inr t \<Rightarrow>
          if end_date < start_date then (Inl (HTTPException 400 ''start_date must be <= end_date''), db)
          else (case apply_rules_to_tenant db t start_date end_date (ur_now u) of
              (Inl e, db') \<Rightarrow> (Inl e, db')
            | (Inr stats, db') \<Rightarrow> (Inr stats, audit_rules u t ''attribution.rules_applied'' ''attribution_rules'' None
                [(''start_date'', JStr (date_isoformat (fromordinal start_date))), (''end_date'', JStr (date_isoformat (fromordinal end_date))),
                 (''records_processed'', JInt (int (as_records_processed stats))),
                 (''allocations_created'', JInt (int (as_allocations_created stats)))] db')))"

end
