(* ===== verification/Rep_Theorems.thy ===== *)
theory Rep_Theorems
  imports Rep_Attribution Fx_Theorems
begin

text \<open>
  The properties of cost attribution: what a rule set that the endpoints have accepted does with a cost, a
  recalculation as a whole, and what the conditions and reports do not do.
\<close>

subsection \<open>Accepted rules\<close>

lemma upper_char_idem [simp]: "upper_char (upper_char c) = upper_char c"
  by (auto simp: upper_char_def Let_def)

lemma upper_idem [simp]: "upper (upper s) = upper s"
  by (simp add: upper_def)

lemma py_space_upper [simp]: "py_space (upper_char c) = py_space c"
  by (auto simp: upper_char_def py_space_def Let_def)

lemma dropWhile_map_upper: "dropWhile py_space (map upper_char s) = map upper_char (dropWhile py_space s)"
  by (induction s) auto

lemma strip_upper: "strip (upper s) = upper (strip s)"
  by (simp add: strip_def upper_def dropWhile_map_upper rev_map)

lemma normalize_rule_type_idem [simp]: "normalize_rule_type (normalize_rule_type s) = normalize_rule_type s"
  by (simp add: normalize_rule_type_def strip_upper)

text \<open>What the endpoints keep of every stored rule\<close>

definition rule_ok :: "attribution_rule \<Rightarrow> bool" where
  "rule_ok r \<longleftrightarrow> validate_rule_payload (ru_rule_type r) (ru_allocation r) = [] \<and> normalize_rule_type (ru_rule_type r) = ru_rule_type r"

definition attr_inv :: "attr_db \<Rightarrow> bool" where
  "attr_inv db \<longleftrightarrow> (\<forall>r \<in> set (ab_rules db). rule_ok r \<and> ru_id r < ab_next_id db) \<and> distinct (map ru_id (ab_rules db))"

lemma validate_normalized: "validate_rule_payload (normalize_rule_type s) v = validate_rule_payload s v"
  by (simp add: validate_rule_payload_def)

lemma new_rule_inv:
  assumes "attr_inv db" "create_rule db t name priority rule_type conditions allocation active = (r, db')"
    and "validate_rule_payload rule_type allocation = []"
  shows "attr_inv db'"
  using assms by (fastforce simp: create_rule_def Let_def attr_inv_def rule_ok_def validate_normalized)

text \<open>The request model has checked the type of the field.\<close>

definition typed_updates :: "dict \<Rightarrow> bool" where
  "typed_updates updates \<longleftrightarrow> (case dict_get updates ''rule_type'' of JNull \<Rightarrow> True | JStr _ \<Rightarrow> True | _ \<Rightarrow> False)"

lemma updates_keep:
  assumes "rule_ok r" "update_errors updates r = []" "typed_updates updates"
  shows "rule_ok (apply_updates updates r)" "ru_id (apply_updates updates r) = ru_id r"
proof -
  let ?v = "dict_get updates ''allocation''" and ?t = "dict_get updates ''rule_type''"
  have none: "validate_rule_payload t JNull \<noteq> []" for t
    by (simp add: validate_rule_payload_def Let_def)
  have absent: "dict_get updates k = JNull" if "\<not> dict_has updates k" for k
    using that by (simp add: dict_has_def dict_get_def flip: map_of_eq_None_iff)
  have given: "dict_get_default updates k v0 = dict_get updates k" if "dict_has updates k" for k v0
    using that by (auto simp: dict_has_def dict_get_def dict_get_default_def map_of_eq_None_iff split: option.splits)
  have lacking: "dict_get_default updates k v0 = v0" if "\<not> dict_has updates k" for k v0
    using that by (simp add: dict_has_def dict_get_default_def flip: map_of_eq_None_iff)
  show "ru_id (apply_updates updates r) = ru_id r" by (simp add: apply_updates_def)
  show "rule_ok (apply_updates updates r)"
  proof (cases "dict_has updates ''rule_type'' \<or> dict_has updates ''allocation''")
    case False
    with absent assms(1) show ?thesis by (simp add: rule_ok_def apply_updates_def)
  next
    case True
    with assms(2) have valid: "validate_rule_payload (py_str (dict_get_default updates ''rule_type'' (JStr (ru_rule_type r))))
        (dict_get_default updates ''allocation'' (ru_allocation r)) = []" by (simp add: update_errors_def)
    have v: "ru_allocation (apply_updates updates r) = dict_get_default updates ''allocation'' (ru_allocation r)"
      using valid none given lacking absent by (cases "dict_has updates ''allocation''") (auto simp: apply_updates_def)
    show ?thesis
    proof (cases "\<exists>s. ?t = JStr s")
      case True
      then obtain s where s: "?t = JStr s" by blast
      have "dict_has updates ''rule_type''"
      proof (rule ccontr)
        assume "\<not> dict_has updates ''rule_type''"
        with absent s show False by simp
      qed
      with given s have "dict_get_default updates ''rule_type'' (JStr (ru_rule_type r)) = JStr s" by simp
      with valid have "validate_rule_payload s (dict_get_default updates ''allocation'' (ru_allocation r)) = []" by (simp add: py_str_def)
      moreover have "ru_rule_type (apply_updates updates r) = normalize_rule_type s" using s by (simp add: apply_updates_def)
      ultimately show ?thesis using v by (simp add: rule_ok_def validate_normalized)
    next
      case other: False
      have kept: "ru_rule_type (apply_updates updates r) = ru_rule_type r" using other by (auto simp: apply_updates_def split: json.splits)
      show ?thesis
      proof (cases "dict_has updates ''rule_type''")
        case False
        with lacking valid v kept assms(1) show ?thesis by (simp add: rule_ok_def py_str_def)
      next
        case True
        have "?t = JNull" using other assms(3) by (auto simp: typed_updates_def split: json.splits)
        moreover have "normalize_rule_type (py_str JNull) \<notin> {''DIRECT'', ''PERCENTAGE'', ''FIXED''}" by code_simp
        moreover have "normalize_rule_type (py_str ?t) \<in> {''DIRECT'', ''PERCENTAGE'', ''FIXED''}"
          using valid given [OF True] by (auto simp: validate_rule_payload_def Let_def split: if_splits)
        ultimately show ?thesis by simp
      qed
    qed
  qed
qed

subsection \<open>Attribution as a transition system\<close>

inductive attr_step :: "attr_db \<Rightarrow> attr_db \<Rightarrow> bool" where
  create: "create_rule_route u name priority rule_type conditions allocation active db = (r, db') \<Longrightarrow> attr_step db db'"
| update: "typed_updates updates \<Longrightarrow> update_rule_route u rule_id updates db = (r, db') \<Longrightarrow> attr_step db db'"
| delete: "delete_rule_route u rule_id db = (x, db') \<Longrightarrow> attr_step db db'"
| simulate: "simulate_rule_route u rule_type conditions allocation s e limit db = (report, db') \<Longrightarrow> attr_step db db'"
| apply_route: "apply_rules_route u s e db = (stats, db') \<Longrightarrow> attr_step db db'"
| ingested: "apply_rules_to_tenant db t s e now = (stats, db') \<Longrightarrow> attr_step db db'"
| process: "process_cost_record db c t now = (rows, db') \<Longrightarrow> attr_step db db'"
| other: "ab_rules db' = ab_rules db \<Longrightarrow> ab_next_id db' = ab_next_id db \<Longrightarrow> attr_step db db'"

lemma get_ruleD: "get_rule db t i = Some r \<Longrightarrow> r \<in> set (ab_rules db) \<and> ru_id r = i \<and> ru_tenant_id r = t"
  by (auto simp: get_rule_def dest: first_row_SomeD)

lemma audit_rules_keeps [simp]:
  "ab_rules (audit_rules u t event kind i d db) = ab_rules db" "ab_next_id (audit_rules u t event kind i d db) = ab_next_id db"
  by (simp_all add: audit_rules_def)

lemma attr_inv_cong: "ab_rules db' = ab_rules db \<Longrightarrow> ab_next_id db' = ab_next_id db \<Longrightarrow> attr_inv db \<Longrightarrow> attr_inv db'"
  by (simp add: attr_inv_def)

lemma updated_rule_inv:
  assumes "attr_inv db" "get_rule db t i = Some r" "update_errors updates r = []" "typed_updates updates"
  shows "attr_inv (db\<lparr>ab_rules := update_where (\<lambda>x. ru_id x = i) (apply_updates updates) (ab_rules db)\<rparr>)"
proof -
  have ids: "ru_id (apply_updates updates x) = ru_id x" for x by (simp add: apply_updates_def)
  have "x = r" if "x \<in> set (ab_rules db)" "ru_id x = i" for x
    using that assms(1) get_ruleD [OF assms(2)] by (auto simp: attr_inv_def distinct_map inj_on_def)
  then have "rule_ok (apply_updates updates x)" if "x \<in> set (ab_rules db)" "ru_id x = i" for x
    using that updates_keep(1) [OF _ assms(3,4)] assms(1) by (auto simp: attr_inv_def)
  with assms(1) ids show ?thesis by (auto simp: attr_inv_def set_update_where map_update_where)
qed

lemma applied_keeps:
  "apply_rules_to_tenant db t s e now = (stats, db') \<Longrightarrow> ab_rules db' = ab_rules db \<and> ab_next_id db' = ab_next_id db \<and> ab_costs db' = ab_costs db"
  by (auto simp: apply_rules_to_tenant_def Let_def split: if_splits sum.splits)

lemma attr_step_inv: "attr_inv db \<Longrightarrow> attr_step db db' \<Longrightarrow> attr_inv db'"
proof (rotate_tac 1, induction rule: attr_step.induct)
  case (create u name priority rule_type conditions allocation active db r db')
  show ?case
  proof (cases "tenant_id_or_403 u")
    case (Inr t)
    obtain x d where d: "create_rule db t name priority rule_type conditions allocation active = (x, d)" by fastforce
    show ?thesis
    proof (cases "validate_rule_payload rule_type allocation")
      case Nil
      with create(1) Inr d have "ab_rules db' = ab_rules d" "ab_next_id db' = ab_next_id d" by (auto simp: create_rule_route_def)
      with new_rule_inv [OF create(2) d Nil] attr_inv_cong show ?thesis by metis
    qed (use create Inr in \<open>auto simp: create_rule_route_def\<close>)
  qed (use create in \<open>auto simp: create_rule_route_def\<close>)
next
  case (update updates u rule_id db r db')
  then have "db' = db \<or> (\<exists>t x. get_rule db t rule_id = Some x \<and> update_errors updates x = []
      \<and> ab_rules db' = update_where (\<lambda>x. ru_id x = rule_id) (apply_updates updates) (ab_rules db) \<and> ab_next_id db' = ab_next_id db)"
    by (auto simp: update_rule_route_def update_rule_def split: sum.splits option.splits if_splits)
  then show ?case
  proof (elim disjE exE conjE)
    fix t x assume "get_rule db t rule_id = Some x" "update_errors updates x = []"
      "ab_rules db' = update_where (\<lambda>x. ru_id x = rule_id) (apply_updates updates) (ab_rules db)" "ab_next_id db' = ab_next_id db"
    with updated_rule_inv [OF update(3), of t rule_id x updates] update(1) show ?case by (simp add: attr_inv_def)
  qed (use update(3) in simp)
next
  case (delete u rule_id db x db')
  then have "ab_next_id db' = ab_next_id db \<and> (ab_rules db' = ab_rules db \<or> ab_rules db' = filter (\<lambda>x. ru_id x \<noteq> rule_id) (ab_rules db))"
    by (auto simp: delete_rule_route_def delete_rule_def split: sum.splits option.splits)
  with delete(2) show ?case by (auto simp: attr_inv_def distinct_map_filter)
next
  case (simulate u rule_type conditions allocation s e limit db report db')
  then have "ab_rules db' = ab_rules db \<and> ab_next_id db' = ab_next_id db"
    by (auto simp: simulate_rule_route_def Let_def split: sum.splits if_splits option.splits)
  with simulate(2) show ?case by (simp add: attr_inv_def)
next
  case (apply_route u s e db stats db')
  then have "ab_rules db' = ab_rules db \<and> ab_next_id db' = ab_next_id db"
    by (auto simp: apply_rules_route_def dest!: applied_keeps split: sum.splits if_splits prod.splits)
  with apply_route(2) show ?case by (simp add: attr_inv_def)
next
  case (ingested db t s e now stats db')
  with applied_keeps show ?case by (metis attr_inv_cong)
next
  case (process db c t now rows db')
  then have "ab_rules db' = ab_rules db \<and> ab_next_id db' = ab_next_id db" by (auto simp: process_cost_record_def split: sum.splits)
  with process(2) show ?case by (simp add: attr_inv_def)
next
  case (other db' db)
  then show ?case by (metis attr_inv_cong)
qed

interpretation attribution: machine attr_step attr_inv
  by unfold_locales (rule attr_step_inv)

subsection \<open>What an accepted rule allocates\<close>

definition row_of :: "attributed_cost \<Rightarrow> cost_allocation \<Rightarrow> bool" where
  "row_of c a \<longleftrightarrow> lo_cost_record_id a = xc_id c \<and> lo_recorded_at a = xc_recorded_at c"

lemma allocation_row_simps [simp]:
  "row_of c (allocation_row now c i b x p)" "lo_amount (allocation_row now c i b x p) = x" "lo_rule_id (allocation_row now c i b x p) = i"
  "lo_allocated_to (allocation_row now c i b x p) = b"
  by (simp_all add: allocation_row_def row_of_def)

lemma none_not_decimal: "parse_decimal (py_str JNull) = None"
  by code_simp

lemma decimal_arg_given: "parse_decimal (py_str (dict_get d k)) = Some p \<Longrightarrow> decimal_arg (dict_get_default d k v0) = Inr p"
  using none_not_decimal by (auto simp: decimal_arg_def dict_get_def dict_get_default_def split: option.splits)

lemma percentage_rows_sum:
  "percentage_errors splits = ([], tot) \<Longrightarrow> \<exists>rows. percentage_rows now c i splits = Inr rows
     \<and> sum_list (map lo_amount rows) = xc_cost_usd c * tot / 100 \<and> length rows = length splits
     \<and> (\<forall>a \<in> set rows. row_of c a \<and> lo_rule_id a = Some i \<and> (0 \<le> xc_cost_usd c \<longrightarrow> 0 \<le> lo_amount a))"
proof (induction splits arbitrary: tot)
  case (Cons split splits)
  obtain errors t where rest: "percentage_errors splits = (errors, t)" by fastforce
  with Cons.prems obtain p where p: "parse_decimal (py_str (dict_get split ''percentage'')) = Some p" "0 \<le> p" "errors = []" "tot = p + t"
    by (auto split: option.splits if_splits)
  from Cons.IH [of t] rest p(3) obtain rows where "percentage_rows now c i splits = Inr rows"
    "sum_list (map lo_amount rows) = xc_cost_usd c * t / 100" "length rows = length splits"
    "\<forall>a \<in> set rows. row_of c a \<and> lo_rule_id a = Some i \<and> (0 \<le> xc_cost_usd c \<longrightarrow> 0 \<le> lo_amount a)" by auto
  with decimal_arg_given [OF p(1)] p(2,4) show ?case by (simp add: field_simps)
qed auto

text \<open>The sum of the amounts of a fixed rule\<close>

definition fixed_total :: "json \<Rightarrow> rat" where
  "fixed_total allocation =
     sum_list (map (\<lambda>d. case parse_decimal (py_str (dict_get d ''amount'')) of None \<Rightarrow> 0 | Some a \<Rightarrow> a) (allocation_entries allocation))"

lemma fixed_rows_sum:
  "fixed_errors splits = [] \<Longrightarrow> \<exists>rows. fixed_rows now c i splits = Inr rows \<and> length rows = length splits
     \<and> sum_list (map lo_amount rows) = sum_list (map (\<lambda>d. case parse_decimal (py_str (dict_get d ''amount'')) of None \<Rightarrow> 0 | Some a \<Rightarrow> a) splits)
     \<and> (\<forall>a \<in> set rows. row_of c a \<and> lo_rule_id a = Some i \<and> 0 \<le> lo_amount a)"
proof (induction splits)
  case (Cons split splits)
  then obtain a where a: "parse_decimal (py_str (dict_get split ''amount'')) = Some a" "0 \<le> a" "fixed_errors splits = []"
    by (auto split: option.splits if_splits)
  with Cons.IH decimal_arg_given [OF a(1)] show ?case by auto
qed auto

lemma allocate_rule_sum:
  assumes "rule_ok r"
  obtains rows where "allocate_rule now c r = Inr rows" "rows \<noteq> []"
    "\<forall>a \<in> set rows. row_of c a \<and> lo_rule_id a = Some (ru_id r) \<and> (0 \<le> xc_cost_usd c \<longrightarrow> 0 \<le> lo_amount a)"
    "sum_list (map lo_amount rows) = (if ru_rule_type r = ''FIXED'' then max (xc_cost_usd c) (fixed_total (ru_allocation r)) else xc_cost_usd c)"
proof -
  let ?e = "allocation_entries (ru_allocation r)"
  have valid: "validate_rule_payload (ru_rule_type r) (ru_allocation r) = []" and t: "normalize_rule_type (ru_rule_type r) = ru_rule_type r"
    using assms by (auto simp: rule_ok_def)
  from valid t consider "ru_rule_type r = ''DIRECT''" | "ru_rule_type r = ''PERCENTAGE''" "percentage_errors ?e = ([], 100)" "?e \<noteq> []"
    | "ru_rule_type r = ''FIXED''" "fixed_errors ?e = []" "?e \<noteq> []"
    by (auto simp: validate_rule_payload_def Let_def split: if_splits prod.splits)
  then show thesis
  proof cases
    case 1
    then show thesis by (intro that [of "[allocation_row now c (Some (ru_id r)) (direct_bucket (ru_allocation r)) (xc_cost_usd c) (Some 100)]"])
      (auto simp: allocate_rule_def)
  next
    case 2
    from percentage_rows_sum [OF 2(2), of now c "ru_id r"] obtain rows where "percentage_rows now c (ru_id r) ?e = Inr rows"
      "sum_list (map lo_amount rows) = xc_cost_usd c" "length rows = length ?e"
      "\<forall>a \<in> set rows. row_of c a \<and> lo_rule_id a = Some (ru_id r) \<and> (0 \<le> xc_cost_usd c \<longrightarrow> 0 \<le> lo_amount a)" by auto
    with 2(1,3) show thesis by (intro that [of rows]) (auto simp: allocate_rule_def)
  next
    case 3
    from fixed_rows_sum [OF 3(2), of now c "ru_id r"] obtain rows where "fixed_rows now c (ru_id r) ?e = Inr rows" "length rows = length ?e"
      "sum_list (map lo_amount rows) = fixed_total (ru_allocation r)"
      "\<forall>a \<in> set rows. row_of c a \<and> lo_rule_id a = Some (ru_id r) \<and> 0 \<le> lo_amount a" by (auto simp: fixed_total_def)
    with 3(1,3) show thesis
      by (intro that [of "rows @ remainder_rows now c (ru_id r) rows"]) (auto simp: allocate_rule_def remainder_rows_def Let_def)
  qed
qed

lemma numeric_error: "\<bar>numeric n x - x\<bar> \<le> 1 / (2 * 10 ^ n)"
proof -
  have "numeric n x - x = (of_int (round_half_up (x * 10 ^ n)) - x * 10 ^ n) / 10 ^ n" by (simp add: numeric_def diff_divide_distrib)
  then have "\<bar>numeric n x - x\<bar> = \<bar>of_int (round_half_up (x * 10 ^ n)) - x * 10 ^ n\<bar> / 10 ^ n" by simp
  also have "\<dots> \<le> (1 / 2) / 10 ^ n" by (intro divide_right_mono round_half_up_error) simp
  finally show ?thesis by simp
qed

lemma stored_sum_error:
  "\<bar>sum_list (map lo_amount (map stored_allocation rows)) - sum_list (map lo_amount rows)\<bar> \<le> of_nat (length rows) / (2 * 10 ^ 8)"
proof (induction rows)
  case (Cons a rows)
  let ?s = "sum_list (map lo_amount (map stored_allocation rows)) - sum_list (map lo_amount rows)"
  have "lo_amount (stored_allocation a) = numeric 8 (lo_amount a)" by (simp add: stored_allocation_def)
  then have "sum_list (map lo_amount (map stored_allocation (a # rows))) - sum_list (map lo_amount (a # rows)) = (numeric 8 (lo_amount a) - lo_amount a) + ?s" by simp
  then have "\<bar>sum_list (map lo_amount (map stored_allocation (a # rows))) - sum_list (map lo_amount (a # rows))\<bar> \<le> \<bar>numeric 8 (lo_amount a) - lo_amount a\<bar> + \<bar>?s\<bar>"
    by (metis abs_triangle_ineq)
  also have "\<dots> \<le> 1 / (2 * 10 ^ 8) + of_nat (length rows) / (2 * 10 ^ 8)" using Cons.IH numeric_error [of 8 "lo_amount a"] by (rule add_mono [rotated])
  finally show ?case by (simp add: field_simps)
qed simp

lemma attribution_total:
  assumes "attr_inv db"
  shows "\<exists>rows. apply_rules now c (get_active_rules db t) = Inr rows"
proof (cases "first_row (\<lambda>r. match_conditions c (ru_conditions r)) (get_active_rules db t)")
  case (Some r)
  with assms have "rule_ok r" by (auto simp: get_active_rules_def attr_inv_def dest!: first_row_SomeD)
  then obtain rows where "allocate_rule now c r = Inr rows" by (rule allocate_rule_sum)
  with Some show ?thesis by (simp add: apply_rules_def)
qed (simp add: apply_rules_def)

text \<open>
  C32. Attribution neither loses nor invents cost: whatever rules have been created, updated and deleted
  through the endpoints, applying the active rules of a tenant to any cost record succeeds; every row is
  for that record and of the first matching rule, and the amounts sum up to the cost of the record, except
  that the amounts of a fixed rule are kept in full where they exceed it; and storing them changes the sum
  by half a unit of the eighth place per row at most.
\<close>

theorem attribution_conserves:
  fixes db0 db :: attr_db and t :: uuid and c :: attributed_cost and now :: instant
  assumes "attr_step\<^sup>*\<^sup>* db0 db" and "attr_inv db0"
  defines "rules \<equiv> get_active_rules db t"
  defines "first \<equiv> first_row (\<lambda>r. match_conditions c (ru_conditions r)) rules"
  shows "\<exists>rows. apply_rules now c rules = Inr rows
    \<and> (\<forall>a \<in> set rows. lo_cost_record_id a = xc_id c \<and> lo_rule_id a = map_option ru_id first \<and> (0 \<le> xc_cost_usd c \<longrightarrow> 0 \<le> lo_amount a))
    \<and> sum_list (map lo_amount rows) = (case first of
        Some r \<Rightarrow> if ru_rule_type r = ''FIXED'' then max (xc_cost_usd c) (fixed_total (ru_allocation r)) else xc_cost_usd c
      | None \<Rightarrow> xc_cost_usd c)
    \<and> \<bar>sum_list (map lo_amount (map stored_allocation rows)) - sum_list (map lo_amount rows)\<bar> \<le> of_nat (length rows) / (2 * 10 ^ 8)"
proof (cases "first")
  case None
  then have "apply_rules now c rules = Inr [allocation_row now c None unallocated (xc_cost_usd c) (Some 100)]"
    by (simp add: apply_rules_def first_def)
  with None stored_sum_error show ?thesis by (intro exI conjI) (auto simp: allocation_row_def)
next
  case (Some r)
  have "attr_inv db" by (rule attribution.run_inv [OF assms(1,2)])
  moreover have "r \<in> set rules" using Some by (auto simp: first_def dest: first_row_SomeD)
  ultimately have "rule_ok r" by (auto simp: rules_def get_active_rules_def attr_inv_def)
  then obtain rows where rows: "allocate_rule now c r = Inr rows" "rows \<noteq> []"
    "\<forall>a \<in> set rows. row_of c a \<and> lo_rule_id a = Some (ru_id r) \<and> (0 \<le> xc_cost_usd c \<longrightarrow> 0 \<le> lo_amount a)"
    "sum_list (map lo_amount rows) = (if ru_rule_type r = ''FIXED'' then max (xc_cost_usd c) (fixed_total (ru_allocation r)) else xc_cost_usd c)"
    by (rule allocate_rule_sum)
  then have "apply_rules now c rules = Inr rows" using Some by (simp add: apply_rules_def first_def)
  with rows Some show ?thesis by (intro exI [of _ rows] conjI stored_sum_error) (auto simp: row_of_def)
qed

subsection \<open>Recalculation\<close>

lemma delete_chunks_filter: "delete_chunks ids rows = filter (\<lambda>a. lo_cost_record_id a \<notin> set ids) rows"
proof (induction ids rows rule: delete_chunks.induct)
  case (2 i ids rows)
  have "set ids = set (take 999 ids) \<union> set (drop 999 ids)" by (metis append_take_drop_id set_append)
  then show ?case using 2 by (auto intro: filter_cong)
qed simp

lemma apply_to_records_each:
  assumes "\<And>c. c \<in> set cs \<Longrightarrow> apply_rules now c rules = Inr (f c)"
  shows "apply_to_records now rules cs = Inr (concat (map f cs))"
  using assms by (induction cs) auto

lemma apply_rules_ids: "apply_rules now c rules = Inr rows \<Longrightarrow> (\<And>r. r \<in> set rules \<Longrightarrow> rule_ok r) \<Longrightarrow> a \<in> set rows \<Longrightarrow> row_of c a"
proof (cases "first_row (\<lambda>r. match_conditions c (ru_conditions r)) rules")
  case (Some r)
  assume run: "apply_rules now c rules = Inr rows" and ok: "\<And>r. r \<in> set rules \<Longrightarrow> rule_ok r" and a: "a \<in> set rows"
  from Some ok have "rule_ok r" by (auto dest: first_row_SomeD)
  then obtain rows' where "allocate_rule now c r = Inr rows'" "rows' \<noteq> []" "\<forall>a \<in> set rows'. row_of c a" by (rule allocate_rule_sum) blast
  with run Some a show ?thesis by (auto simp: apply_rules_def)
qed (auto simp: apply_rules_def)

lemma active_ok: "attr_inv db \<Longrightarrow> r \<in> set (get_active_rules db t) \<Longrightarrow> rule_ok r"
  by (auto simp: attr_inv_def get_active_rules_def)

lemma rows_per_record:
  assumes "distinct (map xc_id cs)" "c \<in> set cs" "\<And>c a. c \<in> set cs \<Longrightarrow> a \<in> set (f c) \<Longrightarrow> lo_cost_record_id a = xc_id c"
  shows "filter (\<lambda>a. lo_cost_record_id a = xc_id c) (concat (map f cs)) = f c"
  using assms
proof (induction cs)
  case (Cons x cs)
  have none: "filter (\<lambda>a. lo_cost_record_id a = i) (concat (map f ys)) = []"
    if "\<And>y a. y \<in> set ys \<Longrightarrow> a \<in> set (f y) \<Longrightarrow> lo_cost_record_id a \<noteq> i" for ys i
    using that by (auto simp: filter_empty_conv)
  show ?case
  proof (cases "c = x")
    case True
    have "filter (\<lambda>a. lo_cost_record_id a = xc_id x) (f x) = f x" using Cons.prems(3) by (intro filter_True) simp
    moreover have "filter (\<lambda>a. lo_cost_record_id a = xc_id x) (concat (map f cs)) = []"
    proof (rule none)
      fix y a assume y: "y \<in> set cs" "a \<in> set (f y)"
      with Cons.prems(3) [of y a] have "lo_cost_record_id a = xc_id y" by simp
      moreover have "xc_id y \<noteq> xc_id x" using Cons.prems(1) y(1) by (auto simp: rev_image_eqI)
      ultimately show "lo_cost_record_id a \<noteq> xc_id x" by simp
    qed
    ultimately show ?thesis using True by simp
  next
    case False
    then have c: "c \<in> set cs" using Cons.prems(2) by simp
    then have "xc_id c \<noteq> xc_id x" using Cons.prems(1) by (auto simp: rev_image_eqI)
    then have "filter (\<lambda>a. lo_cost_record_id a = xc_id c) (f x) = []" using Cons.prems(3) [of x] by (auto simp: filter_empty_conv)
    with Cons.IH [OF _ c] Cons.prems show ?thesis by simp
  qed
qed simp

definition applied_rows :: "instant \<Rightarrow> attribution_rule list \<Rightarrow> attributed_cost \<Rightarrow> cost_allocation list" where
  "applied_rows now rules c = (case apply_rules now c rules of Inr rows \<Rightarrow> rows | Inl _ \<Rightarrow> [])"

lemma applied_rows:
  assumes "attr_inv db"
  shows "apply_rules now c (get_active_rules db t) = Inr (applied_rows now (get_active_rules db t) c)"
proof -
  from attribution_total [OF assms] obtain rows where "apply_rules now c (get_active_rules db t) = Inr rows" by blast
  then show ?thesis by (simp add: applied_rows_def)
qed


subsection \<open>What conditions and reports miss\<close>

text \<open>
  A rule with a condition on the account matches nothing: the identifier of the account is compared
  with a value of the JSON column, which is never an identifier, so that the rule is skipped for every
  cost record, whatever account is given.
\<close>

theorem account_condition_dead:
  assumes "dict_has (ru_conditions r) ''account_id''"
  shows "\<not> match_conditions c (ru_conditions r) \<and> apply_rules now c (r # rules) = apply_rules now c rules"
  using assms by (simp add: match_conditions_def uuid_eq_json_def apply_rules_def first_row_def)

lemma distinct_mapD: "distinct (map k xs) \<Longrightarrow> distinct xs"
  by (simp add: distinct_map)

lemma joined_new:
  assumes "distinct (map xc_id cs)" "\<And>a. a \<in> set old \<Longrightarrow> lo_cost_record_id a \<notin> xc_id ` set cs"
    and "ab_allocations db = old @ map g cs" "\<And>c. row_of c (g c)"
  shows "joined_allocations db cs = map g cs"
proof -
  let ?j = "\<lambda>a. filter (\<lambda>c. xc_id c = lo_cost_record_id a \<and> xc_recorded_at c = lo_recorded_at a) cs"
  have "?j a = []" if "a \<in> set old" for a
    using assms(2) [OF that] by (simp add: filter_empty_conv) (metis image_eqI)
  moreover have "?j (g c) = [c]" if "c \<in> set cs" for c
  proof -
    have "?j (g c) = filter (\<lambda>x. x = c) cs" using that assms(1,4) by (intro filter_cong) (auto simp: row_of_def distinct_map inj_on_def)
    also have "\<dots> = [c]" using that distinct_mapD [OF assms(1)] by (induction cs) (auto simp: filter_empty_conv)
    finally show ?thesis .
  qed
  ultimately have "concat (map (\<lambda>a. map (\<lambda>_. a) (?j a)) old) = []" "concat (map (\<lambda>a. map (\<lambda>_. a) (?j a)) (map g ys)) = map g ys"
    if "set ys \<subseteq> set cs" for ys
    using that by (auto simp: concat_eq_Nil_conv) (induction ys, auto)
  from this [of cs] show ?thesis by (simp add: joined_allocations_def assms(3))
qed

text \<open>
  The reports on attribution contradict each other, and neither tells what is attributed. After a
  recalculation for a tenant without an active rule, where every row goes to the bucket for unallocated
  cost, the coverage report says that all of the cost is allocated and meets any target, as it counts the
  rows of that bucket; the governance report says that all of it is unallocated, and says so whatever the
  rules allocate, as it looks at a column of the records that attribution does not write.
\<close>

theorem coverage_counts_unallocated:
  assumes "distinct (map xc_id (ab_costs db))" and "get_active_rules db t = []"
    and "\<forall>c \<in> set (window_costs db t (Some s) (Some e)). numeric 8 (xc_cost_usd c) = xc_cost_usd c \<and> xc_allocated_to c = None"
    and "0 < sum_list (map xc_cost_usd (window_costs db t (Some s) (Some e)))"
    and "apply_rules_to_tenant db t s e now = (outcome, db')"
    and "target \<le> 100"
  shows "(\<forall>a \<in> set (joined_allocations db' (window_costs db' t (Some s) (Some e))). lo_allocated_to a = unallocated)
    \<and> cov_coverage_percentage (get_allocation_coverage db' t (Some s) (Some e) target) = 100
    \<and> cov_status (get_allocation_coverage db' t (Some s) (Some e) target) = ''ok''
    \<and> go_unallocated_percentage (get_governance_report db' t s e) = 100
    \<and> go_status (get_governance_report db' t s e) = ''warning''"
proof -
  let ?cs = "window_costs db t (Some s) (Some e)"
  let ?g = "\<lambda>c. stored_allocation (allocation_row now c None unallocated (xc_cost_usd c) (Some 100))"
  have "apply_rules now c [] = Inr [allocation_row now c None unallocated (xc_cost_usd c) (Some 100)]" for c
    by (simp add: apply_rules_def first_row_def)
  then have each: "apply_to_records now [] ?cs = Inr (concat (map (\<lambda>c. [allocation_row now c None unallocated (xc_cost_usd c) (Some 100)]) ?cs))"
    by (rule apply_to_records_each)
  have one: "map stored_allocation (concat (map (\<lambda>c. [allocation_row now c None unallocated (xc_cost_usd c) (Some 100)]) cs)) = map ?g cs" for cs
    by (induction cs) simp_all
  have ne: "?cs \<noteq> []" using assms(4) by auto
  have rows: "ab_allocations db' = filter (\<lambda>a. lo_cost_record_id a \<notin> xc_id ` set ?cs) (ab_allocations db) @ map ?g ?cs"
    and costs: "ab_costs db' = ab_costs db"
    using assms(5) each ne by (auto simp: apply_rules_to_tenant_def Let_def assms(2) delete_chunks_filter one)
  have window: "window_costs db' t (Some s) (Some e) = ?cs" by (simp add: window_costs_def costs)
  have joined: "joined_allocations db' ?cs = map ?g ?cs"
    by (rule joined_new [OF _ _ rows]) (use assms(1) in \<open>auto simp: window_costs_def distinct_map_filter row_of_def stored_allocation_def allocation_row_def\<close>)
  have "map (lo_amount \<circ> ?g) ?cs = map xc_cost_usd ?cs" using assms(3) by (auto simp: stored_allocation_def)
  then have raw: "sum_list (map lo_amount (joined_allocations db' ?cs)) = sum_list (map xc_cost_usd ?cs)" by (simp only: joined map_map)
  have "lo_allocated_to (?g c) = unallocated" for c by (simp add: stored_allocation_def)
  then have buckets: "\<forall>a \<in> set (joined_allocations db' ?cs). lo_allocated_to a = unallocated" by (auto simp: joined)
  have "filter record_unallocated ?cs = ?cs" using assms(3) by (auto simp: record_unallocated_def filter_id_conv)
  then have go: "go_unallocated_percentage (get_governance_report db' t s e) = 100" "go_status (get_governance_report db' t s e) = ''warning''"
    using assms(4) by (simp_all add: get_governance_report_def Let_def window)
  from assms(4,6) buckets go show ?thesis by (simp add: get_allocation_coverage_def Let_def window raw)
qed

subsection \<open>Applications\<close>

definition sample_cost :: attributed_cost where
  "sample_cost = \<lparr>xc_id = 1, xc_tenant_id = 7, xc_account_id = 3, xc_service = ''AmazonS3'', xc_region = None, xc_cost_usd = 8,
     xc_recorded_at = 5, xc_tags = JNull, xc_ingestion_metadata = JNull, xc_allocated_to = None\<rparr>"

definition sample_attr_db :: "attribution_rule list \<Rightarrow> attr_db" where
  "sample_attr_db rules = \<lparr>ab_costs = [sample_cost], ab_rules = rules, ab_allocations = [], ab_audit = [], ab_next_id = 20\<rparr>"

definition sample_rule :: "dict \<Rightarrow> attribution_rule" where
  "sample_rule conditions = \<lparr>ru_id = 10, ru_tenant_id = 7, ru_name = ''r'', ru_priority = 1, ru_rule_type = ''DIRECT'',
     ru_conditions = conditions, ru_allocation = JObj [(''bucket'', JStr ''web'')], ru_is_active = True\<rparr>"

lemma sample_attr_inv: "attr_inv (sample_attr_db [sample_rule []])"
proof -
  have "rule_ok (sample_rule [])" by code_simp
  then show ?thesis by (simp add: attr_inv_def sample_attr_db_def) (simp add: sample_rule_def)
qed

lemma attribution_conserves_witness:
  "\<exists>rows. apply_rules 9 sample_cost (get_active_rules (sample_attr_db [sample_rule []]) 7) = Inr rows
     \<and> sum_list (map lo_amount rows) = 8"
proof -
  have "first_row (\<lambda>r. match_conditions sample_cost (ru_conditions r)) (get_active_rules (sample_attr_db [sample_rule []]) 7) = Some (sample_rule [])"
    by (simp add: get_active_rules_def sample_attr_db_def sample_rule_def first_row_def match_conditions_def dict_has_def)
  moreover have "ru_rule_type (sample_rule []) = ''DIRECT''" "xc_cost_usd sample_cost = 8" by (simp_all add: sample_rule_def sample_cost_def)
  ultimately show ?thesis
    using attribution_conserves [OF rtranclp.rtrancl_refl sample_attr_inv, of 9 sample_cost 7] by auto
qed


lemma account_condition_dead_witness:
  "\<not> match_conditions sample_cost (ru_conditions (sample_rule [(''account_id'', JStr (uuid_text (xc_account_id sample_cost)))]))"
proof -
  have "dict_has (ru_conditions (sample_rule [(''account_id'', JStr (uuid_text (xc_account_id sample_cost)))])) ''account_id''"
    by (simp add: dict_has_def sample_rule_def)
  with account_condition_dead show ?thesis by blast
qed

lemma coverage_counts_unallocated_witness:
  "\<exists>db'. apply_rules_to_tenant (sample_attr_db []) 7 1 9 9 = (Inr \<lparr>as_records_processed = 1, as_allocations_created = 1\<rparr>, db')
     \<and> cov_status (get_allocation_coverage db' 7 (Some 1) (Some 9) 90) = ''ok''
     \<and> go_status (get_governance_report db' 7 1 9) = ''warning''"
proof -
  have window: "window_costs (sample_attr_db []) 7 (Some 1) (Some 9) = [sample_cost]"
    by (simp add: window_costs_def sample_attr_db_def sample_cost_def)
  have none: "get_active_rules (sample_attr_db []) 7 = []" by (simp add: get_active_rules_def sample_attr_db_def)
  obtain db' where run: "apply_rules_to_tenant (sample_attr_db []) 7 1 9 9 = (Inr \<lparr>as_records_processed = 1, as_allocations_created = 1\<rparr>, db')"
    by (simp add: apply_rules_to_tenant_def window none Let_def apply_rules_def first_row_def)
  have "distinct (map xc_id (ab_costs (sample_attr_db [])))" by (simp add: sample_attr_db_def)
  moreover have "numeric 8 8 = 8" by (simp add: numeric_def round_half_up_def floor_eq_iff)
  then have "\<forall>c \<in> set (window_costs (sample_attr_db []) 7 (Some 1) (Some 9)). numeric 8 (xc_cost_usd c) = xc_cost_usd c \<and> xc_allocated_to c = None"
    by (simp add: window sample_cost_def)
  moreover have "0 < sum_list (map xc_cost_usd (window_costs (sample_attr_db []) 7 (Some 1) (Some 9)))" by (simp add: window sample_cost_def)
  ultimately show ?thesis using coverage_counts_unallocated [OF _ none _ _ run, of 90] run by auto
qed

end
