(* ===== verification/Llm_Models.thy ===== *)
theory Llm_Models
  imports Price_Tiers Enf_Credit
begin

text \<open>
  Paying for language models: the rows of src/app/models/llm.py, the prices of
  src/app/shared/llm/pricing_data.py, the estimate and the statuses of budget_manager.py and the coercions of
  budget_execution_helpers.py.

  Generated primary keys and the provider keys of a budget in clear text are not modelled: a budget keeps
  the encrypted columns, and decryption is a function in the environment. The columns of amounts are
  typed, so that the coercion of an amount is the amount itself.
\<close>

subsection \<open>Rows\<close>

record llm_usage =
  lu_tenant_id :: uuid
  lu_user_id :: "uuid option"
  lu_provider :: string
  lu_model :: string
  lu_input_tokens :: int
  lu_output_tokens :: int
  lu_total_tokens :: int
  lu_cost_usd :: rat
  lu_request_type :: string
  lu_operation_id :: "string option"
  lu_is_byok :: bool
  lu_created_at :: instant

record llm_budget =
  lb_tenant_id :: uuid
  lb_monthly_limit_usd :: rat
  lb_alert_threshold_percent :: int
  lb_hard_limit :: bool
  lb_preferred_provider :: string
  lb_preferred_model :: string
  lb_monthly_spend_usd :: rat
  lb_pending_reservations_usd :: rat
  lb_budget_reset_at :: instant
  lb_openai_api_key :: "string option"
  lb_claude_api_key :: "string option"
  lb_google_api_key :: "string option"
  lb_groq_api_key :: "string option"
  lb_alert_sent_at :: "instant option"

record llm_db =
  ld_budgets :: "llm_budget list"
  ld_usage :: "llm_usage list"

text \<open>
  A session: the tenant its connection is set to (\<open>None\<close> for a session of the system), the rows as it sees
  them, the committed ones, and the alerts it has raised, each with its tenant, its time and whether it is
  critical. The policies of the tables (src/migrations/versions/p14_sec_hardening.py) show a connection the
  rows of its tenant only; this matters for the one query over all tenants.
\<close>

record llm_session =
  lx_scope :: "uuid option"
  lx_rows :: llm_db
  lx_committed :: llm_db
  lx_alerts :: "(uuid \<times> instant \<times> bool) list"

definition llm_commit :: "llm_session \<Rightarrow> llm_session" where
  "llm_commit s = s\<lparr>lx_committed := lx_rows s\<rparr>"

definition llm_rollback :: "llm_session \<Rightarrow> llm_session" where
  "llm_rollback s = s\<lparr>lx_rows := lx_committed s\<rparr>"

definition visible_usage :: "llm_session \<Rightarrow> llm_usage list" where
  "visible_usage s = (case lx_scope s of
     None \<Rightarrow> ld_usage (lx_rows s)
   | Some t \<Rightarrow> filter (\<lambda>u. lu_tenant_id u = t) (ld_usage (lx_rows s)))"

definition budget_row :: "llm_session \<Rightarrow> uuid \<Rightarrow> llm_budget option" where
  "budget_row s tenant = first_row (\<lambda>b. lb_tenant_id b = tenant) (ld_budgets (lx_rows s))"

definition write_budget :: "llm_budget \<Rightarrow> llm_session \<Rightarrow> llm_session" where
  "write_budget b s = s\<lparr>lx_rows := (lx_rows s)\<lparr>ld_budgets :=
     update_where (\<lambda>r. lb_tenant_id r = lb_tenant_id b) (\<lambda>_. b) (ld_budgets (lx_rows s))\<rparr>\<rparr>"

definition add_budget :: "llm_budget \<Rightarrow> llm_session \<Rightarrow> llm_session" where
  "add_budget b s = s\<lparr>lx_rows := (lx_rows s)\<lparr>ld_budgets := ld_budgets (lx_rows s) @ [b]\<rparr>\<rparr>"

definition add_usage :: "llm_usage \<Rightarrow> llm_session \<Rightarrow> llm_session" where
  "add_usage u s = s\<lparr>lx_rows := (lx_rows s)\<lparr>ld_usage := ld_usage (lx_rows s) @ [u]\<rparr>\<rparr>"

subsection \<open>Errors and statuses\<close>

text \<open>
  The message of an error without the numbers in it, and the numbers of its details. The error of the
  fair-use guards is a subclass of the error of the budget, so that a handler of the latter catches both.
\<close>

datatype llm_error =
    BudgetExceededError string "(string \<times> rat) list"
  | LLMFairUseExceededError string "(string \<times> rat) list"
  | AIAnalysisError string
  | PyError err

type_synonym 'a llm_res = "llm_error + 'a"

fun is_budget_exceeded :: "llm_error \<Rightarrow> bool" where
  "is_budget_exceeded (BudgetExceededError _ _) = True"
| "is_budget_exceeded (LLMFairUseExceededError _ _) = True"
| "is_budget_exceeded _ = False"

datatype budget_status = BUDGET_OK | SOFT_LIMIT | HARD_LIMIT

fun budget_execution_recoverable :: "err \<Rightarrow> bool" where
  "budget_execution_recoverable (SQLAlchemyError _) = True"
| "budget_execution_recoverable IntegrityError = True"
| "budget_execution_recoverable (RuntimeError _) = True"
| "budget_execution_recoverable (OSError _) = True"
| "budget_execution_recoverable TimeoutError = True"
| "budget_execution_recoverable (TypeError _) = True"
| "budget_execution_recoverable (ValueError _) = True"
| "budget_execution_recoverable (AttributeError _) = True"
| "budget_execution_recoverable (KeyError _) = True"
| "budget_execution_recoverable _ = False"

fun budget_cache_recoverable :: "err \<Rightarrow> bool" where
  "budget_cache_recoverable (RuntimeError _) = True"
| "budget_cache_recoverable (OSError _) = True"
| "budget_cache_recoverable TimeoutError = True"
| "budget_cache_recoverable (TypeError _) = True"
| "budget_cache_recoverable (ValueError _) = True"
| "budget_cache_recoverable (AttributeError _) = True"
| "budget_cache_recoverable (KeyError _) = True"
| "budget_cache_recoverable _ = False"

fun budget_alert_recoverable :: "err \<Rightarrow> bool" where
  "budget_alert_recoverable (RuntimeError _) = True"
| "budget_alert_recoverable (OSError _) = True"
| "budget_alert_recoverable TimeoutError = True"
| "budget_alert_recoverable (AttributeError _) = True"
| "budget_alert_recoverable (TypeError _) = True"
| "budget_alert_recoverable (ValueError _) = True"
| "budget_alert_recoverable _ = False"

fun fair_use_cache_recoverable :: "err \<Rightarrow> bool" where
  "fair_use_cache_recoverable (RuntimeError _) = True"
| "fair_use_cache_recoverable (OSError _) = True"
| "fair_use_cache_recoverable TimeoutError = True"
| "fair_use_cache_recoverable (TypeError _) = True"
| "fair_use_cache_recoverable (ValueError _) = True"
| "fair_use_cache_recoverable (AttributeError _) = True"
| "fair_use_cache_recoverable _ = False"

subsection \<open>Prices\<close>

record provider_cost =
  pc_input :: rat
  pc_output :: rat
  pc_free_tier_tokens :: int

type_synonym llm_pricing = "(string \<times> (string \<times> provider_cost) list) list"

definition cost_of :: "rat \<Rightarrow> rat \<Rightarrow> int \<Rightarrow> provider_cost" where
  "cost_of i out free = \<lparr>pc_input = i, pc_output = out, pc_free_tier_tokens = free\<rparr>"

definition static_llm_pricing :: llm_pricing where
  "static_llm_pricing = [
     (''groq'', [
       (''llama-3.3-70b-versatile'', cost_of (59 / 100) (79 / 100) 14000),
       (''mixtral-8x7b-32768'', cost_of (27 / 100) (27 / 100) 14000),
       (''default'', cost_of (59 / 100) (79 / 100) 14000)]),
     (''google'', [
       (''gemini-2.0-flash'', cost_of (25 / 100) (5 / 10) 0),
       (''gemini-1.5-pro'', cost_of (125 / 100) (375 / 100) 0),
       (''default'', cost_of (25 / 100) (5 / 10) 0)]),
     (''openai'', [
       (''gpt-4o'', cost_of (25 / 10) 10 0),
       (''gpt-4o-mini'', cost_of (15 / 100) (6 / 10) 0),
       (''default'', cost_of (15 / 100) (6 / 10) 0)]),
     (''anthropic'', [
       (''claude-3-7-sonnet'', cost_of 3 15 0),
       (''claude-3-5-sonnet'', cost_of 3 15 0),
       (''claude-3-opus'', cost_of 15 75 0),
       (''default'', cost_of 3 15 0)])]"

definition lookup_pricing :: "llm_pricing \<Rightarrow> string \<Rightarrow> string \<Rightarrow> provider_cost" where
  "lookup_pricing table provider model =
     (let provider_data = (case map_of table provider of None \<Rightarrow> [] | Some d \<Rightarrow> d) in
      case map_of provider_data model of
        Some p \<Rightarrow> p
      | None \<Rightarrow> (case map_of provider_data ''default'' of Some p \<Rightarrow> p | None \<Rightarrow> cost_of 10 10 0))"

definition llm_estimate_cost :: "llm_pricing \<Rightarrow> int \<Rightarrow> int \<Rightarrow> string \<Rightarrow> string \<Rightarrow> rat" where
  "llm_estimate_cost table prompt_tokens completion_tokens model provider =
     (let p = lookup_pricing table provider model;
          input_cost = of_int prompt_tokens * pc_input p / 1000000;
          output_cost = of_int completion_tokens * pc_output p / 1000000
      in quantize 4 (input_cost + output_cost))"

text \<open>A row of the table of prices; an amount is missing where the column holds no finite number.\<close>

record provider_pricing =
  pp_provider :: "string option"
  pp_model :: "string option"
  pp_input_cost_per_million :: "rat option"
  pp_output_cost_per_million :: "rat option"
  pp_free_tier_tokens :: "int option"
  pp_is_active :: bool

definition normalize_key :: "string option \<Rightarrow> string option" where
  "normalize_key v = (case v of None \<Rightarrow> None
     | Some s \<Rightarrow> (let cleaned = lower (strip s) in if cleaned = [] then None else Some cleaned))"

definition merge_pricing :: "llm_pricing \<Rightarrow> provider_pricing \<Rightarrow> llm_pricing" where
  "merge_pricing table r =
     (case (normalize_key (pp_provider r), normalize_key (pp_model r),
            pp_input_cost_per_million r, pp_output_cost_per_million r) of
        (Some provider, Some model, Some i, Some out) \<Rightarrow>
          if i < 0 \<or> out < 0 then table
          else (let free = max 0 (case pp_free_tier_tokens r of None \<Rightarrow> 0 | Some n \<Rightarrow> n);
                    cost = cost_of i out free;
                    models = (case map_of table provider of None \<Rightarrow> [] | Some d \<Rightarrow> d);
                    models1 = AList.update model cost models;
                    models2 = (if model = ''default'' \<or> map_of models1 ''default'' = None
                               then AList.update ''default'' cost models1 else models1)
                in AList.update provider models2 table)
      | _ \<Rightarrow> table)"

fun pricing_refresh_recoverable :: "err \<Rightarrow> bool" where
  "pricing_refresh_recoverable (SQLAlchemyError _) = True"
| "pricing_refresh_recoverable IntegrityError = True"
| "pricing_refresh_recoverable (RuntimeError _) = True"
| "pricing_refresh_recoverable (TypeError _) = True"
| "pricing_refresh_recoverable (ValueError _) = True"
| "pricing_refresh_recoverable (AttributeError _) = True"
| "pricing_refresh_recoverable (OSError _) = True"
| "pricing_refresh_recoverable TimeoutError = True"
| "pricing_refresh_recoverable _ = False"

text \<open>\<open>rows\<close> is the outcome of the query on the table of prices.\<close>

definition refresh_llm_pricing :: "provider_pricing list res \<Rightarrow> llm_pricing \<Rightarrow> llm_pricing res" where
  "refresh_llm_pricing rows table =
     (case rows of
        Inl e \<Rightarrow> if pricing_refresh_recoverable e then Inr table else Inl e
      | Inr rs \<Rightarrow> Inr (foldl merge_pricing table (filter pp_is_active rs)))"

subsection \<open>Coercions\<close>

definition coerce_threshold_percent :: "int \<Rightarrow> rat" where
  "coerce_threshold_percent v = (if v < 0 then 0 else if 100 < v then 100 else of_int v)"

definition normalize_actor_type :: "string \<Rightarrow> string" where
  "normalize_actor_type v =
     (let n = lower (strip v) in if n = ''user'' \<or> n = ''system'' then n else ''system'')"

definition compose_request_type :: "string \<Rightarrow> string \<Rightarrow> string" where
  "compose_request_type actor request_type =
     (let raw0 = strip (if request_type = [] then ''unknown'' else request_type);
          raw = (if raw0 = [] then ''unknown'' else raw0)
      in if prefix ''user:'' raw \<or> prefix ''system:'' raw then raw
         else normalize_actor_type actor @ '':'' @ raw)"

text \<open>The actor type of a request: a request with a user is the user's.\<close>

definition effective_actor :: "string \<Rightarrow> uuid option \<Rightarrow> string" where
  "effective_actor actor user =
     (let n = normalize_actor_type actor in if user \<noteq> None \<and> n = ''system'' then ''user'' else n)"

subsection \<open>Facts\<close>

lemma budget_row_write [simp]:
  "budget_row s (lb_tenant_id b) \<noteq> None \<Longrightarrow> budget_row (write_budget b s) (lb_tenant_id b) = Some b"
  unfolding budget_row_def write_budget_def
  using first_row_overwrite [of lb_tenant_id b "ld_budgets (lx_rows s)"] by auto

lemma budget_row_tenant: "budget_row s t = Some b \<Longrightarrow> lb_tenant_id b = t"
  unfolding budget_row_def by (auto dest: first_row_SomeD)

lemma budget_row_write_other:
  assumes "lb_tenant_id b \<noteq> t"
  shows "budget_row (write_budget b s) t = budget_row s t"
proof -
  have "first_row (\<lambda>r. lb_tenant_id r = t) (update_where (\<lambda>r. lb_tenant_id r = lb_tenant_id b) (\<lambda>_. b) rows)
      = first_row (\<lambda>r. lb_tenant_id r = t) rows" for rows
    using assms by (induction rows) (auto simp: first_row_def update_where_def)
  then show ?thesis by (simp add: budget_row_def write_budget_def)
qed

lemma llm_estimate_on_grid [simp]: "on_grid 4 (llm_estimate_cost table p c model provider)"
  by (simp add: llm_estimate_cost_def Let_def)

end
