(* ===== verification/Llm_FairUse.thy ===== *)
theory Llm_FairUse
  imports Llm_Models
begin

text \<open>
  The guards before a call of a language model: src/app/shared/llm/budget_fair_use.py with its parts
  budget_fair_use_limits.py (daily quotas, caps per day and minute, slots for calls in flight) and
  budget_fair_use_abuse.py (the guard against bursts over all tenants). Metrics and log entries, among them
  the classification of client addresses that only feeds them, are not modelled.

  Redis is not part of the repository: its commands are functions in the environment on a store of their own
  type, each of which may raise. The settings are typed, so that their coercions are the settings themselves.
\<close>

subsection \<open>The environment and the state of the process\<close>

record llm_settings =
  st_fair_use_guards_enabled :: bool
  st_pro_daily_soft_cap :: int
  st_enterprise_daily_soft_cap :: int
  st_per_minute_cap :: int
  st_per_tenant_concurrency_cap :: int
  st_concurrency_lease_ttl_seconds :: int
  st_global_abuse_guards_enabled :: bool
  st_global_abuse_kill_switch :: bool
  st_global_abuse_per_minute_cap :: int
  st_global_abuse_unique_tenants_threshold :: int
  st_global_abuse_block_seconds :: int
  st_llm_provider :: string

record 'r redis_client =
  rd_incr :: "instant \<Rightarrow> string \<Rightarrow> 'r \<Rightarrow> int res \<times> 'r"
  rd_decr :: "instant \<Rightarrow> string \<Rightarrow> 'r \<Rightarrow> int res \<times> 'r"
  rd_expire :: "instant \<Rightarrow> string \<Rightarrow> int \<Rightarrow> 'r \<Rightarrow> unit res \<times> 'r"
  rd_set :: "instant \<Rightarrow> string \<Rightarrow> string \<Rightarrow> int \<Rightarrow> 'r \<Rightarrow> unit res \<times> 'r"
  rd_get :: "instant \<Rightarrow> string \<Rightarrow> 'r \<Rightarrow> string option res \<times> 'r"

text \<open>
  \<open>le_redis\<close> is the client if the cache is enabled, \<open>le_tier\<close> the outcome of \<open>get_tenant_tier\<close>, which a
  session remembers.
\<close>

record 'r llm_env =
  le_settings :: llm_settings
  le_redis :: "'r redis_client option"
  le_pricing :: llm_pricing
  le_tier :: "uuid \<Rightarrow> pricing_tier res"
  le_decrypt :: "string \<Rightarrow> string option res"
  le_now :: instant

text \<open>What the process keeps between requests, beside the store of the cache.\<close>

record 'r llm_runtime =
  lr_store :: 'r
  lr_local_inflight_counts :: "string \<Rightarrow> int option"
  lr_local_global_abuse_block_until :: "instant option"

subsection \<open>Keys and caps\<close>

definition fair_use_inflight_key :: "uuid \<Rightarrow> string" where
  "fair_use_inflight_key tenant = ''llm:fair_use:inflight:'' @ uuid_text tenant"

definition fair_use_global_abuse_block_key :: string where
  "fair_use_global_abuse_block_key = ''llm:fair_use:global_abuse_block''"

definition fair_use_tier_allowed :: "pricing_tier \<Rightarrow> bool" where
  "fair_use_tier_allowed tier \<longleftrightarrow> tier \<in> {PRO, ENTERPRISE}"

definition fair_use_daily_soft_cap :: "llm_settings \<Rightarrow> pricing_tier \<Rightarrow> int option" where
  "fair_use_daily_soft_cap st tier =
     (let cap = (case tier of PRO \<Rightarrow> Some (st_pro_daily_soft_cap st)
                 | ENTERPRISE \<Rightarrow> Some (st_enterprise_daily_soft_cap st) | _ \<Rightarrow> None)
      in case cap of None \<Rightarrow> None | Some n \<Rightarrow> if 0 < n then Some n else None)"

definition counted_request ::
  "uuid \<Rightarrow> instant \<Rightarrow> instant option \<Rightarrow> uuid option \<Rightarrow> string option \<Rightarrow> llm_usage \<Rightarrow> bool" where
  "counted_request tenant start until user actor u \<longleftrightarrow>
     lu_tenant_id u = tenant \<and> start \<le> lu_created_at u
     \<and> (case actor of None \<Rightarrow> True
        | Some a \<Rightarrow> (let n = lower (strip a) in
            n \<in> {''user'', ''system''} \<longrightarrow> prefix (n @ '':'') (lu_request_type u)))
     \<and> (user \<noteq> None \<longrightarrow> lu_user_id u = user)
     \<and> (case until of None \<Rightarrow> True | Some e \<Rightarrow> lu_created_at u < e)"

definition count_requests_in_window ::
  "llm_session \<Rightarrow> uuid \<Rightarrow> instant \<Rightarrow> instant option \<Rightarrow> uuid option \<Rightarrow> string option \<Rightarrow> int" where
  "count_requests_in_window s tenant start until user actor =
     int (count_where (counted_request tenant start until user actor) (visible_usage s))"

definition day_start :: "instant \<Rightarrow> instant" where
  "day_start now = instant_of_ordinal (ordinal_of_instant now)"

definition day_end :: "instant \<Rightarrow> instant" where
  "day_end now = day_start now + microseconds_per_day"

subsection \<open>Daily quotas\<close>

definition quota_actor :: "string \<Rightarrow> uuid option \<Rightarrow> string" where
  "quota_actor actor user =
     (let n0 = lower (strip actor);
          n1 = (if n0 \<in> {''user'', ''system''} then n0 else if user \<noteq> None then ''user'' else ''system'')
      in if user \<noteq> None \<and> n1 = ''system'' then ''user'' else n1)"

definition system_quota :: "llm_session \<Rightarrow> instant \<Rightarrow> uuid \<Rightarrow> pricing_tier \<Rightarrow> unit llm_res" where
  "system_quota s now tenant tier =
     (case get_tier_limit (Tier tier) ''llm_system_analyses_per_day'' of
        None \<Rightarrow> Inr ()
      | Some limit \<Rightarrow>
          if limit \<le> 0 then
            Inl (BudgetExceededError ''System LLM analysis is not available on your current plan.''
              [(''daily_system_limit'', of_int limit), (''system_requests_today'', 0)])
          else (let n = count_requests_in_window s tenant (day_start now) (Some (day_end now)) None (Some ''system'') in
            if limit \<le> n then
              Inl (BudgetExceededError ''Daily system LLM analysis limit reached for your current plan.''
                [(''daily_system_limit'', of_int limit), (''system_requests_today'', of_int n)])
            else Inr ()))"

definition user_quota :: "llm_session \<Rightarrow> instant \<Rightarrow> uuid \<Rightarrow> uuid option \<Rightarrow> pricing_tier \<Rightarrow> unit llm_res" where
  "user_quota s now tenant user tier =
     (case get_tier_limit (Tier tier) ''llm_analyses_per_user_per_day'' of
        None \<Rightarrow> Inr ()
      | Some limit \<Rightarrow>
          if limit \<le> 0 then
            Inl (BudgetExceededError ''Daily per-user LLM analysis limit reached for your current plan.''
              [(''daily_user_limit'', of_int limit), (''user_requests_today'', 0)])
          else (let n = count_requests_in_window s tenant (day_start now) (Some (day_end now)) user (Some ''user'') in
            if limit \<le> n then
              Inl (BudgetExceededError ''Daily per-user LLM analysis limit reached for your current plan.''
                [(''daily_user_limit'', of_int limit), (''user_requests_today'', of_int n)])
            else Inr ()))"

definition enforce_daily_analysis_limit ::
  "'r llm_env \<Rightarrow> llm_session \<Rightarrow> uuid \<Rightarrow> uuid option \<Rightarrow> string \<Rightarrow> unit llm_res" where
  "enforce_daily_analysis_limit env s tenant user actor =
     (let a = quota_actor actor user; now = le_now env in
      if a = ''user'' \<and> user = None then
        Inl (BudgetExceededError ''User-scoped LLM request missing actor identity.'' [])
      else (case le_tier env tenant of
        Inl e \<Rightarrow> Inl (PyError e)
      | Inr tier \<Rightarrow>
          (case get_tier_limit (Tier tier) ''llm_analyses_per_day'' of
             None \<Rightarrow> Inr ()
           | Some limit \<Rightarrow>
               if limit \<le> 0 then
                 Inl (BudgetExceededError ''LLM analysis is not available on your current plan.''
                   [(''daily_limit'', of_int limit), (''requests_today'', 0)])
               else (let n = count_requests_in_window s tenant (day_start now) (Some (day_end now)) None None in
                 if limit \<le> n then
                   Inl (BudgetExceededError ''Daily LLM analysis limit reached for your current plan.''
                     [(''daily_limit'', of_int limit), (''requests_today'', of_int n)])
                 else if a = ''system'' then system_quota s now tenant tier
                 else user_quota s now tenant user tier))))"

subsection \<open>Slots for calls in flight\<close>

definition local_count :: "'r llm_runtime \<Rightarrow> string \<Rightarrow> int" where
  "local_count rt key = (case lr_local_inflight_counts rt key of None \<Rightarrow> 0 | Some n \<Rightarrow> n)"

definition set_local_count :: "string \<Rightarrow> int option \<Rightarrow> 'r llm_runtime \<Rightarrow> 'r llm_runtime" where
  "set_local_count key v rt =
     rt\<lparr>lr_local_inflight_counts := (lr_local_inflight_counts rt)(key := v)\<rparr>"

definition acquire_local :: "string \<Rightarrow> int \<Rightarrow> 'r llm_runtime \<Rightarrow> (bool \<times> int) \<times> 'r llm_runtime" where
  "acquire_local key max_inflight rt =
     (let current = local_count rt key + 1 in
      if max_inflight < current then
        (let n = current - 1 in
         ((False, max n 0), set_local_count key (if n \<le> 0 then None else Some n) rt))
      else ((True, current), set_local_count key (Some current) rt))"

definition acquire_redis ::
  "'r redis_client \<Rightarrow> instant \<Rightarrow> string \<Rightarrow> int \<Rightarrow> int \<Rightarrow> 'r \<Rightarrow> (bool \<times> int) res \<times> 'r" where
  "acquire_redis c now key max_inflight ttl s0 =
     (case rd_incr c now key s0 of
        (Inl e, s1) \<Rightarrow> (Inl e, s1)
      | (Inr current, s1) \<Rightarrow>
          (case rd_expire c now key ttl s1 of
             (Inl e, s2) \<Rightarrow> (Inl e, s2)
           | (Inr _, s2) \<Rightarrow>
               if max_inflight < current then
                 (case rd_decr c now key s2 of
                    (Inl e, s3) \<Rightarrow> (Inl e, s3)
                  | (Inr _, s3) \<Rightarrow> (Inr (False, max (current - 1) 0), s3))
               else (Inr (True, current), s2)))"

definition acquire_fair_use_inflight_slot ::
  "'r llm_env \<Rightarrow> uuid \<Rightarrow> int \<Rightarrow> int \<Rightarrow> 'r llm_runtime \<Rightarrow> (bool \<times> int) llm_res \<times> 'r llm_runtime" where
  "acquire_fair_use_inflight_slot env tenant max_inflight ttl rt =
     (let key = fair_use_inflight_key tenant;
          locally = (\<lambda>rt. case acquire_local key max_inflight rt of (r, rt') \<Rightarrow> (Inr r, rt')) in
      case le_redis env of
        None \<Rightarrow> locally rt
      | Some c \<Rightarrow>
          (case acquire_redis c (le_now env) key max_inflight ttl (lr_store rt) of
             (Inr r, s) \<Rightarrow> (Inr r, rt\<lparr>lr_store := s\<rparr>)
           | (Inl e, s) \<Rightarrow>
               if fair_use_cache_recoverable e then locally (rt\<lparr>lr_store := s\<rparr>)
               else (Inl (PyError e), rt\<lparr>lr_store := s\<rparr>)))"

definition release_local :: "string \<Rightarrow> 'r llm_runtime \<Rightarrow> 'r llm_runtime" where
  "release_local key rt =
     (let current = local_count rt key in
      set_local_count key (if current \<le> 1 then None else Some (current - 1)) rt)"

definition release_redis :: "'r redis_client \<Rightarrow> instant \<Rightarrow> string \<Rightarrow> 'r \<Rightarrow> unit res \<times> 'r" where
  "release_redis c now key s0 =
     (case rd_decr c now key s0 of
        (Inl e, s1) \<Rightarrow> (Inl e, s1)
      | (Inr current, s1) \<Rightarrow> if current < 0 then rd_set c now key ''0'' 60 s1 else (Inr (), s1))"

definition release_fair_use_inflight_slot ::
  "'r llm_env \<Rightarrow> uuid \<Rightarrow> 'r llm_runtime \<Rightarrow> unit llm_res \<times> 'r llm_runtime" where
  "release_fair_use_inflight_slot env tenant rt =
     (let key = fair_use_inflight_key tenant in
      if \<not> st_fair_use_guards_enabled (le_settings env) then (Inr (), set_local_count key None rt)
      else (case le_redis env of
        None \<Rightarrow> (Inr (), release_local key rt)
      | Some c \<Rightarrow>
          (case release_redis c (le_now env) key (lr_store rt) of
             (Inr _, s) \<Rightarrow> (Inr (), rt\<lparr>lr_store := s\<rparr>)
           | (Inl e, s) \<Rightarrow>
               if fair_use_cache_recoverable e then (Inr (), release_local key (rt\<lparr>lr_store := s\<rparr>))
               else (Inl (PyError e), rt\<lparr>lr_store := s\<rparr>))))"

subsection \<open>The guards of a tenant\<close>

definition soft_daily_gate :: "'r llm_env \<Rightarrow> llm_session \<Rightarrow> uuid \<Rightarrow> pricing_tier \<Rightarrow> unit llm_res" where
  "soft_daily_gate env s tenant tier =
     (case fair_use_daily_soft_cap (le_settings env) tier of
        None \<Rightarrow> Inr ()
      | Some cap \<Rightarrow>
          (let now = le_now env;
               n = count_requests_in_window s tenant (day_start now) (Some (day_end now)) None None in
           if cap \<le> n then
             Inl (LLMFairUseExceededError
               ''Daily fair-use limit reached. Retry tomorrow or contact support to increase limits.''
               [(''limit'', of_int cap), (''observed'', of_int n)])
           else Inr ()))"

definition per_minute_gate :: "'r llm_env \<Rightarrow> llm_session \<Rightarrow> uuid \<Rightarrow> unit llm_res" where
  "per_minute_gate env s tenant =
     (let cap = st_per_minute_cap (le_settings env) in
      if 0 < cap then
        (let n = count_requests_in_window s tenant (le_now env - seconds 60) None None None in
         if cap \<le> n then
           Inl (LLMFairUseExceededError
             ''Rate limit reached for this tenant. Retry in about 60 seconds or contact support for higher throughput.''
             [(''limit'', of_int cap), (''observed'', of_int n), (''retry_after_seconds'', 60)])
         else Inr ())
      else Inr ())"

definition concurrency_gate ::
  "'r llm_env \<Rightarrow> uuid \<Rightarrow> 'r llm_runtime \<Rightarrow> bool llm_res \<times> 'r llm_runtime" where
  "concurrency_gate env tenant rt =
     (let cap = st_per_tenant_concurrency_cap (le_settings env);
          ttl = st_concurrency_lease_ttl_seconds (le_settings env) in
      if cap \<le> 0 then (Inr False, rt)
      else (case acquire_fair_use_inflight_slot env tenant cap (max 30 ttl) rt of
        (Inl e, rt1) \<Rightarrow> (Inl e, rt1)
      | (Inr (acquired, current), rt1) \<Rightarrow>
          if \<not> acquired then
            (Inl (LLMFairUseExceededError
              ''Too many in-flight LLM requests for this tenant. Retry shortly or contact support for higher throughput.''
              [(''limit'', of_int cap), (''observed'', of_int current),
               (''retry_after_seconds'', of_int (max 5 (min ttl 60)))]), rt1)
          else (Inr True, rt1)))"

definition enforce_fair_use_guards ::
  "'r llm_env \<Rightarrow> llm_session \<Rightarrow> uuid \<Rightarrow> pricing_tier \<Rightarrow> 'r llm_runtime \<Rightarrow> bool llm_res \<times> 'r llm_runtime" where
  "enforce_fair_use_guards env s tenant tier rt =
     (if \<not> st_fair_use_guards_enabled (le_settings env) then (Inr False, rt)
      else if \<not> fair_use_tier_allowed tier then (Inr False, rt)
      else (case soft_daily_gate env s tenant tier of
        Inl e \<Rightarrow> (Inl e, rt)
      | Inr _ \<Rightarrow>
          (case per_minute_gate env s tenant of
             Inl e \<Rightarrow> (Inl e, rt)
           | Inr _ \<Rightarrow> concurrency_gate env tenant rt)))"

subsection \<open>The guard over all tenants\<close>

definition recent_usage :: "'r llm_env \<Rightarrow> llm_session \<Rightarrow> llm_usage list" where
  "recent_usage env s = filter (\<lambda>u. le_now env - seconds 60 \<le> lu_created_at u) (visible_usage s)"

definition abuse_triggered :: "'r llm_env \<Rightarrow> llm_session \<Rightarrow> bool" where
  "abuse_triggered env s \<longleftrightarrow>
     max 1 (st_global_abuse_per_minute_cap (le_settings env)) \<le> int (length (recent_usage env s))
     \<and> max 1 (st_global_abuse_unique_tenants_threshold (le_settings env))
         \<le> int (length (remdups (map lu_tenant_id (recent_usage env s))))"

definition abuse_block_seconds :: "'r llm_env \<Rightarrow> int" where
  "abuse_block_seconds env = max 30 (st_global_abuse_block_seconds (le_settings env))"

text \<open>The block as other processes see it; errors of the cache that count as recoverable mean no block.\<close>

definition shared_block :: "'r llm_env \<Rightarrow> 'r llm_runtime \<Rightarrow> bool res \<times> 'r llm_runtime" where
  "shared_block env rt =
     (case le_redis env of
        None \<Rightarrow> (Inr False, rt)
      | Some c \<Rightarrow>
          (case rd_get c (le_now env) fair_use_global_abuse_block_key (lr_store rt) of
             (Inr v, s) \<Rightarrow> (Inr (v \<noteq> None \<and> v \<noteq> Some []), rt\<lparr>lr_store := s\<rparr>)
           | (Inl e, s) \<Rightarrow> (if fair_use_cache_recoverable e then Inr False else Inl e, rt\<lparr>lr_store := s\<rparr>)))"

definition share_block :: "'r llm_env \<Rightarrow> 'r llm_runtime \<Rightarrow> unit res \<times> 'r llm_runtime" where
  "share_block env rt =
     (case le_redis env of
        None \<Rightarrow> (Inr (), rt)
      | Some c \<Rightarrow>
          (case rd_set c (le_now env) fair_use_global_abuse_block_key ''1'' (abuse_block_seconds env) (lr_store rt) of
             (Inr _, s) \<Rightarrow> (Inr (), rt\<lparr>lr_store := s\<rparr>)
           | (Inl e, s) \<Rightarrow> (if fair_use_cache_recoverable e then Inr () else Inl e, rt\<lparr>lr_store := s\<rparr>)))"

definition abuse_burst ::
  "'r llm_env \<Rightarrow> llm_session \<Rightarrow> 'r llm_runtime \<Rightarrow> unit llm_res \<times> 'r llm_runtime" where
  "abuse_burst env s rt =
     (case shared_block env rt of
        (Inl e, rt1) \<Rightarrow> (Inl (PyError e), rt1)
      | (Inr True, rt1) \<Rightarrow>
          (Inl (LLMFairUseExceededError ''Global abuse protections are active. Retry shortly.''
            [(''retry_after_seconds'', of_int (abuse_block_seconds env))]), rt1)
      | (Inr False, rt1) \<Rightarrow>
          if abuse_triggered env s then
            (case share_block env (rt1\<lparr>lr_local_global_abuse_block_until :=
                Some (le_now env + seconds (abuse_block_seconds env))\<rparr>) of
               (Inl e, rt2) \<Rightarrow> (Inl (PyError e), rt2)
             | (Inr _, rt2) \<Rightarrow>
                 (Inl (LLMFairUseExceededError ''Global anti-abuse throttle is active. Retry shortly.''
                   [(''global_requests_last_minute'', of_nat (length (recent_usage env s))),
                    (''active_tenants_last_minute'', of_nat (length (remdups (map lu_tenant_id (recent_usage env s))))),
                    (''retry_after_seconds'', of_int (abuse_block_seconds env))]), rt2))
          else (Inr (), rt1))"

definition enforce_global_abuse_guard ::
  "'r llm_env \<Rightarrow> llm_session \<Rightarrow> 'r llm_runtime \<Rightarrow> unit llm_res \<times> 'r llm_runtime" where
  "enforce_global_abuse_guard env s rt =
     (let st = le_settings env; now = le_now env in
      if \<not> st_global_abuse_guards_enabled st then (Inr (), rt)
      else if st_global_abuse_kill_switch st then
        (Inl (LLMFairUseExceededError
          ''Global abuse protections are active. LLM analysis is temporarily unavailable.'' []), rt)
      else (case lr_local_global_abuse_block_until rt of
        Some until \<Rightarrow>
          if now < until then
            (Inl (LLMFairUseExceededError ''Global abuse protections are active. Retry shortly.''
              [(''retry_after_seconds'', of_int ((until - now) div 1000000))]), rt)
          else abuse_burst env s rt
      | None \<Rightarrow> abuse_burst env s rt))"

end
