(* ===== verification/Llm_Budget.thy ===== *)
theory Llm_Budget
  imports Llm_FairUse
begin

text \<open>
  The budget of a tenant: src/app/shared/llm/budget_execution_runtime_ops.py behind budget_execution.py and
  budget_manager.py. A call of a model is authorised by \<open>check_and_reserve\<close>, which adds its estimated cost to
  the pending reservations, and accounted for by \<open>record_usage\<close>, which takes an estimate off again and adds the
  actual cost to the spend of the month.

  Both work in the transaction of the caller: the reservation is flushed, the recording commits. What the
  statements on the rows and the dispatch of an alert may raise are arguments.
\<close>

subsection \<open>Reservation\<close>

definition same_month :: "instant \<Rightarrow> instant \<Rightarrow> bool" where
  "same_month a b \<longleftrightarrow>
     d_year (date_of_instant a) = d_year (date_of_instant b)
     \<and> d_month (date_of_instant a) = d_month (date_of_instant b)"

definition default_monthly_limit :: "pricing_tier \<Rightarrow> rat" where
  "default_monthly_limit tier =
     (if tier \<in> {STARTER, GROWTH} then 10 else if tier \<in> {PRO, ENTERPRISE} then 50 else 1)"

definition bootstrap_budget :: "uuid \<Rightarrow> pricing_tier \<Rightarrow> instant \<Rightarrow> llm_budget" where
  "bootstrap_budget tenant tier now = \<lparr>
     lb_tenant_id = tenant, lb_monthly_limit_usd = default_monthly_limit tier,
     lb_alert_threshold_percent = 80, lb_hard_limit = True, lb_preferred_provider = ''groq'',
     lb_preferred_model = ''llama-3.3-70b-versatile'', lb_monthly_spend_usd = 0,
     lb_pending_reservations_usd = 0, lb_budget_reset_at = now, lb_openai_api_key = None,
     lb_claude_api_key = None, lb_google_api_key = None, lb_groq_api_key = None,
     lb_alert_sent_at = None\<rparr>"

definition open_budget ::
  "'r llm_env \<Rightarrow> llm_session \<Rightarrow> uuid \<Rightarrow> (llm_budget \<times> llm_session) llm_res" where
  "open_budget env s tenant =
     (case budget_row s tenant of
        Some b \<Rightarrow> Inr (b, s)
      | None \<Rightarrow>
          (case le_tier env tenant of
             Inl e \<Rightarrow> Inl (PyError e)
           | Inr tier \<Rightarrow> (let b = bootstrap_budget tenant tier (le_now env) in Inr (b, add_budget b s))))"

definition reset_month :: "instant \<Rightarrow> llm_budget \<Rightarrow> llm_budget" where
  "reset_month now b =
     (if same_month (lb_budget_reset_at b) now then b
      else b\<lparr>lb_monthly_spend_usd := 0, lb_pending_reservations_usd := 0, lb_budget_reset_at := now\<rparr>)"

definition committed_total :: "llm_budget \<Rightarrow> rat" where
  "committed_total b = lb_monthly_spend_usd b + lb_pending_reservations_usd b"

definition reserve_row ::
  "'r llm_env \<Rightarrow> llm_session \<Rightarrow> uuid \<Rightarrow> rat \<Rightarrow> rat llm_res \<times> llm_session" where
  "reserve_row env s tenant estimated =
     (case open_budget env s tenant of
        Inl e \<Rightarrow> (Inl e, s)
      | Inr (b0, s1) \<Rightarrow>
          (let b = reset_month (le_now env) b0;
               remaining = lb_monthly_limit_usd b - committed_total b in
           if remaining < estimated then
             (Inl (BudgetExceededError ''LLM budget exceeded.''
               [(''monthly_limit'', lb_monthly_limit_usd b), (''current_total_committed'', committed_total b),
                (''estimated_cost'', estimated), (''remaining_budget'', remaining)]), write_budget b s1)
           else (Inr estimated,
             write_budget (b\<lparr>lb_pending_reservations_usd := lb_pending_reservations_usd b + estimated\<rparr>) s1)))"

text \<open>A slot taken before the budget was looked at is given back when the error is one that is handled.\<close>

definition give_back ::
  "'r llm_env \<Rightarrow> uuid \<Rightarrow> bool \<Rightarrow> llm_error \<Rightarrow> 'r llm_runtime \<Rightarrow> 'a llm_res \<times> 'r llm_runtime" where
  "give_back env tenant acquired e rt =
     (if acquired \<and> (case e of PyError f \<Rightarrow> budget_execution_recoverable f | _ \<Rightarrow> is_budget_exceeded e) then
        (case release_fair_use_inflight_slot env tenant rt of
           (Inl e2, rt1) \<Rightarrow> (Inl e2, rt1)
         | (Inr _, rt1) \<Rightarrow> (Inl e, rt1))
      else (Inl e, rt))"

definition reserve_guarded ::
  "'r llm_env \<Rightarrow> llm_session \<Rightarrow> uuid \<Rightarrow> rat \<Rightarrow> err option \<Rightarrow> bool \<Rightarrow> 'r llm_runtime
    \<Rightarrow> rat llm_res \<times> llm_session \<times> 'r llm_runtime" where
  "reserve_guarded env s tenant estimated row_error acquired rt =
     (case (case row_error of Some e \<Rightarrow> (Inl (PyError e), s) | None \<Rightarrow> reserve_row env s tenant estimated) of
        (Inr r, s1) \<Rightarrow> (Inr r, s1, rt)
      | (Inl e, s1) \<Rightarrow> (case give_back env tenant acquired e rt of (r, rt1) \<Rightarrow> (r, s1, rt1)))"

definition pre_authorize ::
  "'r llm_env \<Rightarrow> llm_session \<Rightarrow> uuid \<Rightarrow> uuid option \<Rightarrow> string \<Rightarrow> 'r llm_runtime
    \<Rightarrow> bool llm_res \<times> 'r llm_runtime" where
  "pre_authorize env s tenant user actor rt =
     (case enforce_daily_analysis_limit env s tenant user actor of
        Inl e \<Rightarrow> (Inl e, rt)
      | Inr _ \<Rightarrow>
          (case le_tier env tenant of
             Inl e \<Rightarrow> (Inl (PyError e), rt)
           | Inr tier \<Rightarrow>
               (case enforce_global_abuse_guard env s rt of
                  (Inl e, rt1) \<Rightarrow> (Inl e, rt1)
                | (Inr _, rt1) \<Rightarrow>
                    if st_fair_use_guards_enabled (le_settings env) then enforce_fair_use_guards env s tenant tier rt1
                    else (Inr False, rt1))))"

definition check_and_reserve ::
  "'r llm_env \<Rightarrow> llm_session \<Rightarrow> uuid \<Rightarrow> string \<Rightarrow> string \<Rightarrow> int \<Rightarrow> int \<Rightarrow> uuid option \<Rightarrow> string \<Rightarrow> err option
    \<Rightarrow> 'r llm_runtime \<Rightarrow> rat llm_res \<times> llm_session \<times> 'r llm_runtime" where
  "check_and_reserve env s tenant provider model prompt_tokens completion_tokens user actor row_error rt =
     (let estimated = llm_estimate_cost (le_pricing env) prompt_tokens completion_tokens model provider in
      case pre_authorize env s tenant user (effective_actor actor user) rt of
        (Inl e, rt1) \<Rightarrow> (Inl e, s, rt1)
      | (Inr acquired, rt1) \<Rightarrow> reserve_guarded env s tenant estimated row_error acquired rt1)"

subsection \<open>Alerts\<close>

definition month_usage :: "llm_session \<Rightarrow> uuid \<Rightarrow> instant \<Rightarrow> rat" where
  "month_usage s tenant now =
     sum_list (map lu_cost_usd
       (filter (\<lambda>u. lu_tenant_id u = tenant \<and> fst (month_bounds now) \<le> lu_created_at u) (visible_usage s)))"

definition usage_percent :: "rat \<Rightarrow> rat \<Rightarrow> rat" where
  "usage_percent usage limit = (if 0 < limit then usage / limit * 100 else 0)"

definition alert_due :: "llm_budget \<Rightarrow> instant \<Rightarrow> rat \<Rightarrow> bool" where
  "alert_due b now usage \<longleftrightarrow>
     coerce_threshold_percent (lb_alert_threshold_percent b) \<le> usage_percent usage (lb_monthly_limit_usd b)
     \<and> \<not> (case lb_alert_sent_at b of None \<Rightarrow> False | Some t \<Rightarrow> same_month t now)"

text \<open>\<open>slack\<close> is what looking up the tenant's channel and sending to it raises, if it raises.\<close>

definition check_budget_and_alert ::
  "'r llm_env \<Rightarrow> uuid \<Rightarrow> err option \<Rightarrow> llm_session \<Rightarrow> unit res \<times> llm_session" where
  "check_budget_and_alert env tenant slack s =
     (case budget_row s tenant of
        None \<Rightarrow> (Inr (), s)
      | Some b \<Rightarrow>
          (let now = le_now env; usage = month_usage s tenant now in
           if alert_due b now usage then
             (let s1 = s\<lparr>lx_alerts := lx_alerts s
                    @ [(tenant, now, 100 \<le> usage_percent usage (lb_monthly_limit_usd b))]\<rparr> in
              case slack of
                Some e \<Rightarrow> if budget_alert_recoverable e
                  then (Inr (), llm_commit (write_budget (b\<lparr>lb_alert_sent_at := Some now\<rparr>) s1)) else (Inl e, s1)
              | None \<Rightarrow> (Inr (), llm_commit (write_budget (b\<lparr>lb_alert_sent_at := Some now\<rparr>) s1)))
           else (Inr (), s)))"

subsection \<open>Recording\<close>

record usage_report =
  ur_provider :: string
  ur_model :: string
  ur_prompt_tokens :: int
  ur_completion_tokens :: int
  ur_actual_cost_usd :: "rat option"
  ur_is_byok :: bool
  ur_operation_id :: "string option"
  ur_request_type :: string

definition report_estimate :: "'r llm_env \<Rightarrow> usage_report \<Rightarrow> rat" where
  "report_estimate env r =
     llm_estimate_cost (le_pricing env) (ur_prompt_tokens r) (ur_completion_tokens r) (ur_model r) (ur_provider r)"

definition actual_cost :: "'r llm_env \<Rightarrow> usage_report \<Rightarrow> rat" where
  "actual_cost env r =
     (if ur_is_byok r then 0
      else case ur_actual_cost_usd r of Some c \<Rightarrow> c | None \<Rightarrow> report_estimate env r)"

definition settle_budget :: "rat \<Rightarrow> rat \<Rightarrow> llm_budget \<Rightarrow> llm_budget" where
  "settle_budget released cost b =
     b\<lparr>lb_pending_reservations_usd := max 0 (lb_pending_reservations_usd b - released),
       lb_monthly_spend_usd := lb_monthly_spend_usd b + cost\<rparr>"

definition usage_row :: "'r llm_env \<Rightarrow> uuid \<Rightarrow> uuid option \<Rightarrow> string \<Rightarrow> usage_report \<Rightarrow> llm_usage" where
  "usage_row env tenant user actor r = \<lparr>
     lu_tenant_id = tenant, lu_user_id = user, lu_provider = ur_provider r, lu_model = ur_model r,
     lu_input_tokens = ur_prompt_tokens r, lu_output_tokens = ur_completion_tokens r,
     lu_total_tokens = ur_prompt_tokens r + ur_completion_tokens r, lu_cost_usd = actual_cost env r,
     lu_request_type = compose_request_type actor (ur_request_type r),
     lu_operation_id = ur_operation_id r, lu_is_byok = ur_is_byok r, lu_created_at = le_now env\<rparr>"

definition write_usage ::
  "'r llm_env \<Rightarrow> uuid \<Rightarrow> uuid option \<Rightarrow> string \<Rightarrow> usage_report \<Rightarrow> llm_session \<Rightarrow> llm_session" where
  "write_usage env tenant user actor r s =
     (let s1 = (case budget_row s tenant of
            None \<Rightarrow> s
          | Some b \<Rightarrow> write_budget (settle_budget (report_estimate env r) (actual_cost env r) b) s)
      in add_usage (usage_row env tenant user (effective_actor actor user) r) s1)"

text \<open>
  \<open>row_error\<close> is raised by the statements before the commit, \<open>slack\<close> by the alert after it. The slot is
  released in every case.
\<close>

definition record_usage ::
  "'r llm_env \<Rightarrow> llm_session \<Rightarrow> uuid \<Rightarrow> uuid option \<Rightarrow> string \<Rightarrow> usage_report \<Rightarrow> err option \<Rightarrow> err option
    \<Rightarrow> 'r llm_runtime \<Rightarrow> unit llm_res \<times> llm_session \<times> 'r llm_runtime" where
  "record_usage env s tenant user actor r row_error slack rt =
     (case (case row_error of
              Some e \<Rightarrow> (Inl e, write_usage env tenant user actor r s)
            | None \<Rightarrow> check_budget_and_alert env tenant slack (llm_commit (write_usage env tenant user actor r s))) of
        (outcome, s1) \<Rightarrow>
          (let (result, s2) = (case outcome of
                  Inr _ \<Rightarrow> (Inr (), s1)
                | Inl e \<Rightarrow> if budget_execution_recoverable e then (Inr (), llm_rollback s1) else (Inl (PyError e), s1))
           in case release_fair_use_inflight_slot env tenant rt of
                (Inl e, rt1) \<Rightarrow> (Inl e, s2, rt1)
              | (Inr _, rt1) \<Rightarrow> (result, s2, rt1)))"

subsection \<open>The state of a budget\<close>

definition budget_blocked_key :: "uuid \<Rightarrow> string" where
  "budget_blocked_key tenant = ''budget_blocked:'' @ uuid_text tenant"

definition budget_soft_key :: "uuid \<Rightarrow> string" where
  "budget_soft_key tenant = ''budget_soft:'' @ uuid_text tenant"

definition truthy_text :: "string option \<Rightarrow> bool" where
  "truthy_text v \<longleftrightarrow> v \<noteq> None \<and> v \<noteq> Some []"

definition cached_status ::
  "'r redis_client \<Rightarrow> instant \<Rightarrow> uuid \<Rightarrow> 'r \<Rightarrow> budget_status option res \<times> 'r" where
  "cached_status c now tenant s0 =
     (case rd_get c now (budget_blocked_key tenant) s0 of
        (Inl e, s1) \<Rightarrow> (Inl e, s1)
      | (Inr v, s1) \<Rightarrow>
          if truthy_text v then (Inr (Some HARD_LIMIT), s1)
          else (case rd_get c now (budget_soft_key tenant) s1 of
            (Inl e, s2) \<Rightarrow> (Inl e, s2)
          | (Inr w, s2) \<Rightarrow> (Inr (if truthy_text w then Some SOFT_LIMIT else None), s2)))"

definition remember_status ::
  "'r llm_env \<Rightarrow> string \<Rightarrow> int \<Rightarrow> 'r llm_runtime \<Rightarrow> unit res \<times> 'r llm_runtime" where
  "remember_status env key ttl rt =
     (case le_redis env of
        None \<Rightarrow> (Inr (), rt)
      | Some c \<Rightarrow> (case rd_set c (le_now env) key ''1'' ttl (lr_store rt) of (r, s) \<Rightarrow> (r, rt\<lparr>lr_store := s\<rparr>)))"

definition fresh_status ::
  "'r llm_env \<Rightarrow> llm_session \<Rightarrow> uuid \<Rightarrow> 'r llm_runtime \<Rightarrow> budget_status llm_res \<times> 'r llm_runtime" where
  "fresh_status env s tenant rt =
     (case budget_row s tenant of
        None \<Rightarrow> (Inr BUDGET_OK, rt)
      | Some b \<Rightarrow>
          (let limit = lb_monthly_limit_usd b; usage = committed_total b;
               threshold = coerce_threshold_percent (lb_alert_threshold_percent b) / 100 in
           if limit \<le> usage then
             (if lb_hard_limit b then
                (case remember_status env (budget_blocked_key tenant) 600 rt of
                   (Inl e, rt1) \<Rightarrow> (Inl (PyError e), rt1)
                 | (Inr _, rt1) \<Rightarrow> (Inl (BudgetExceededError ''LLM budget exceeded.''
                     [(''usage'', usage), (''limit'', limit)]), rt1))
              else (Inr SOFT_LIMIT, rt))
           else if limit * threshold \<le> usage then
             (case remember_status env (budget_soft_key tenant) 300 rt of
                (Inl e, rt1) \<Rightarrow> (Inl (PyError e), rt1)
              | (Inr _, rt1) \<Rightarrow> (Inr SOFT_LIMIT, rt1))
           else (Inr BUDGET_OK, rt)))"

definition check_budget_state ::
  "'r llm_env \<Rightarrow> llm_session \<Rightarrow> uuid \<Rightarrow> 'r llm_runtime \<Rightarrow> budget_status llm_res \<times> 'r llm_runtime" where
  "check_budget_state env s tenant rt =
     (case le_redis env of
        None \<Rightarrow> fresh_status env s tenant rt
      | Some c \<Rightarrow>
          (case cached_status c (le_now env) tenant (lr_store rt) of
             (Inl e, st) \<Rightarrow>
               (if budget_cache_recoverable e
                then Inl (BudgetExceededError ''Fail-Closed: LLM Budget check failed due to system error.'' [])
                else Inl (PyError e), rt\<lparr>lr_store := st\<rparr>)
           | (Inr (Some status), st) \<Rightarrow> (Inr status, rt\<lparr>lr_store := st\<rparr>)
           | (Inr None, st) \<Rightarrow> fresh_status env s tenant (rt\<lparr>lr_store := st\<rparr>)))"

end
