(* ===== verification/Llm_Client.thy ===== *)
theory Llm_Client
  imports Llm_Budget
begin

text \<open>
  Who calls the models: src/app/shared/llm/llm_client.py (which provider, model and key, retries and
  fallbacks), analyzer_limits.py and the budgeted course of an analysis in analyzer.py and
  zombie_analyzer.py, and the loop of the analysis job over the connections of a tenant,
  src/app/modules/governance/domain/jobs/handlers/finops.py.

  Prompts, the sanitising of data and what is done with an answer are not modelled; what building the prompt
  raises, what the classes of the providers raise and what the providers answer are arguments. The budget matters only for
  analyses with a tenant and a session.
\<close>

subsection \<open>Provider, model and key\<close>

definition llm_valid_models :: "(string \<times> string list) list" where
  "llm_valid_models = [
     (''openai'', [''gpt-4'', ''gpt-4-turbo'', ''gpt-4o'', ''gpt-4o-mini'', ''gpt-3.5-turbo'']),
     (''anthropic'', [''claude-3-opus'', ''claude-3-sonnet'', ''claude-3-5-sonnet'', ''claude-3-5-haiku'']),
     (''google'', [''gemini-pro'', ''gemini-1.5-pro'', ''gemini-1.5-flash'']),
     (''groq'', [''llama-3.3-70b-versatile'', ''llama3-70b-8192'', ''mixtral-8x7b-32768'', ''llama-3.1-8b-instant'']),
     (''azure'', [''gpt-4'', ''gpt-35-turbo''])]"

text \<open>\<open>x or y\<close> on an optional text\<close>

definition text_or :: "string option \<Rightarrow> string \<Rightarrow> string" where
  "text_or v d = (case v of None \<Rightarrow> d | Some s \<Rightarrow> if s = [] then d else s)"

definition stored_key :: "'r llm_env \<Rightarrow> string option \<Rightarrow> string option res" where
  "stored_key env column =
     (case column of None \<Rightarrow> Inr None | Some c \<Rightarrow> if c = [] then Inr None else le_decrypt env c)"

definition byok_keys :: "'r llm_env \<Rightarrow> llm_budget \<Rightarrow> (string \<times> string option) list res" where
  "byok_keys env b =
     bind_res (stored_key env (lb_openai_api_key b)) (\<lambda>k1.
     bind_res (stored_key env (lb_claude_api_key b)) (\<lambda>k2.
     bind_res (stored_key env (lb_google_api_key b)) (\<lambda>k3.
     bind_res (stored_key env (lb_groq_api_key b)) (\<lambda>k4.
       Inr [(''openai'', k1), (''anthropic'', k2), (''google'', k3), (''groq'', k4), (''azure'', None)]))))"

definition byok_key_for :: "'r llm_env \<Rightarrow> llm_budget \<Rightarrow> string option \<Rightarrow> string option res" where
  "byok_key_for env b provider =
     bind_res (byok_keys env b) (\<lambda>keys.
       Inr (case map_of keys (text_or (map_option lower provider) (lower (lb_preferred_provider b))) of
              None \<Rightarrow> None | Some k \<Rightarrow> k))"

text \<open>\<open>^[a-zA-Z0-9\.\-\:\/]+$\<close>: the end also matches before a last newline\<close>

definition model_char :: "char \<Rightarrow> bool" where
  "model_char c \<longleftrightarrow>
     (let n = (of_char c :: nat) in
      (97 \<le> n \<and> n \<le> 122) \<or> (65 \<le> n \<and> n \<le> 90) \<or> (48 \<le> n \<and> n \<le> 57)) \<or> c \<in> set ''.-:/''"

definition model_name_safe :: "string \<Rightarrow> bool" where
  "model_name_safe m =
     (let body = (if m \<noteq> [] \<and> last m = CHR 0x0A then butlast m else m) in body \<noteq> [] \<and> list_all model_char body)"

definition degraded_model :: "string \<Rightarrow> string \<Rightarrow> string" where
  "degraded_model provider model =
     (if provider = ''groq'' then ''llama-3.1-8b-instant''
      else if provider = ''openai'' then ''gpt-4o-mini''
      else if provider = ''google'' then ''gemini-1.5-flash''
      else if provider = ''anthropic'' then ''claude-3-5-haiku'' else model)"

definition admit_model ::
  "string \<Rightarrow> string \<Rightarrow> string \<Rightarrow> string option \<Rightarrow> string \<times> string \<times> string option" where
  "admit_model fallback_provider provider0 model0 key =
     (let (provider, model) = (if map_of llm_valid_models provider0 = None
            then (fallback_provider, ''llama-3.3-70b-versatile'') else (provider0, model0));
          allowed = (case map_of llm_valid_models provider of None \<Rightarrow> [] | Some ms \<Rightarrow> ms);
          model1 = (if model \<in> set allowed \<or> (truthy_text key \<and> model_name_safe model) then model
                    else if allowed \<noteq> [] then hd allowed else ''llama-3.3-70b-versatile'')
      in (provider, model1, key))"

definition choose_model ::
  "'r llm_env \<Rightarrow> budget_status \<Rightarrow> llm_budget option \<Rightarrow> string option \<Rightarrow> string option \<Rightarrow> string option
    \<Rightarrow> string \<times> string \<times> string option" where
  "choose_model env status budget provider model key =
     (let preferred = text_or provider (case budget of Some b \<Rightarrow> lb_preferred_provider b
            | None \<Rightarrow> st_llm_provider (le_settings env));
          p = (if lower preferred = [] then ''groq'' else lower preferred);
          m = text_or model (case budget of Some b \<Rightarrow> lb_preferred_model b | None \<Rightarrow> ''llama-3.3-70b-versatile'');
          m1 = (if status = SOFT_LIMIT then degraded_model p m else m)
      in admit_model (st_llm_provider (le_settings env)) p m1 key)"

definition setup_client_and_usage ::
  "'r llm_env \<Rightarrow> llm_session \<Rightarrow> uuid \<Rightarrow> string option \<Rightarrow> string option \<Rightarrow> 'r llm_runtime
    \<Rightarrow> (string \<times> string \<times> string option) llm_res \<times> 'r llm_runtime" where
  "setup_client_and_usage env s tenant provider model rt =
     (case check_budget_state env s tenant rt of
        (Inl e, rt1) \<Rightarrow> (Inl e, rt1)
      | (Inr status, rt1) \<Rightarrow>
          if status = HARD_LIMIT then
            (Inl (BudgetExceededError ''Monthly LLM budget exceeded (Hard Limit).'' []), rt1)
          else (case budget_row s tenant of
            None \<Rightarrow> (Inr (choose_model env status None provider model None), rt1)
          | Some b \<Rightarrow>
              (case byok_key_for env b provider of
                 Inl e \<Rightarrow> (Inl (PyError e), rt1)
               | Inr key \<Rightarrow> (Inr (choose_model env status (Some b) provider model key), rt1))))"

subsection \<open>Calling a model\<close>

text \<open>The token counts of an answer, where it reports them.\<close>

type_synonym token_usage = "int option \<times> int option"

fun is_primary_error :: "llm_error \<Rightarrow> bool" where
  "is_primary_error (AIAnalysisError _) = True"
| "is_primary_error (PyError (RuntimeError _)) = True"
| "is_primary_error (PyError (ValueError _)) = True"
| "is_primary_error (PyError (TypeError _)) = True"
| "is_primary_error (PyError (OSError _)) = True"
| "is_primary_error (PyError TimeoutError) = True"
| "is_primary_error _ = False"

definition fallback_candidates :: "bool \<Rightarrow> pricing_tier \<Rightarrow> (string \<times> string) list" where
  "fallback_candidates byok tier =
     (let low = [(''groq'', ''llama-3.1-8b-instant''), (''google'', ''gemini-1.5-flash'')];
          extended = low @ [(''openai'', ''gpt-4o-mini'')] in
      if byok then []
      else if tier = PRO then extended
      else if tier = ENTERPRISE then extended @ [(''anthropic'', ''claude-3-5-haiku'')]
      else low)"

text \<open>
  \<open>ask provider model n\<close> is the answer to the \<open>n\<close>th attempt, or what the attempt, and for a fallback making its client,
  raises.
\<close>

type_synonym llm_oracle = "string \<Rightarrow> string \<Rightarrow> nat \<Rightarrow> token_usage llm_res"

definition ask_three_times :: "llm_oracle \<Rightarrow> string \<Rightarrow> string \<Rightarrow> token_usage llm_res" where
  "ask_three_times ask provider model =
     (case ask provider model 0 of Inr u \<Rightarrow> Inr u
      | Inl _ \<Rightarrow> (case ask provider model 1 of Inr u \<Rightarrow> Inr u | Inl _ \<Rightarrow> ask provider model 2))"

fun ask_fallbacks :: "llm_oracle \<Rightarrow> string \<Rightarrow> (string \<times> string) list \<Rightarrow> token_usage llm_res" where
  "ask_fallbacks ask provider [] = Inl (AIAnalysisError ''All LLM providers failed.'')"
| "ask_fallbacks ask provider ((p, m) # rest) =
     (if p = provider then ask_fallbacks ask provider rest
      else case ask p m 0 of
        Inr u \<Rightarrow> Inr u
      | Inl e \<Rightarrow> if is_primary_error e then ask_fallbacks ask provider rest else Inl e)"

definition invoke_llm ::
  "llm_oracle \<Rightarrow> string \<Rightarrow> string \<Rightarrow> string option \<Rightarrow> pricing_tier \<Rightarrow> token_usage llm_res" where
  "invoke_llm ask provider model key tier =
     (case ask_three_times ask provider model of
        Inr u \<Rightarrow> Inr u
      | Inl e \<Rightarrow> if is_primary_error e
          then ask_fallbacks ask provider (fallback_candidates (truthy_text key) tier) else Inl e)"

subsection \<open>Making a client\<close>

definition factory_providers :: "string list" where
  "factory_providers = [''openai'', ''anthropic'', ''claude'', ''google'', ''groq'']"

text \<open>\<open>create_error\<close> is what the class of a supported provider raises when it makes a client.\<close>

definition factory_create :: "(string \<Rightarrow> err option) \<Rightarrow> string \<Rightarrow> err option" where
  "factory_create create_error provider =
     (if lower provider \<notin> set factory_providers then Some (ValueError ''Unsupported provider'')
      else create_error (lower provider))"

text \<open>
  The error of making the first client of an analysis: the analyser's own client serves the configured provider,
  with its output bounded if it \<open>binds\<close>; every other client comes from the factory. No fallback follows.
\<close>

definition make_client ::
  "'r llm_env \<Rightarrow> bool \<Rightarrow> (string \<Rightarrow> err option) \<Rightarrow> string \<Rightarrow> string option \<Rightarrow> int option \<Rightarrow> err option" where
  "make_client env binds create_error provider key max_output =
     (let own = (provider = st_llm_provider (le_settings env) \<and> \<not> truthy_text key);
          bounded = (case max_output of None \<Rightarrow> False | Some n \<Rightarrow> 0 < n) in
      if own \<and> (\<not> bounded \<or> binds) then None else factory_create create_error provider)"

subsection \<open>The size of an analysis\<close>

definition resolve_output_token_ceiling :: "int option \<Rightarrow> int option" where
  "resolve_output_token_ceiling raw =
     (case raw of None \<Rightarrow> None | Some n \<Rightarrow> if n \<le> 0 then None else Some (max 128 (min n 32768)))"

definition resolve_positive_limit :: "int \<Rightarrow> int \<Rightarrow> int option \<Rightarrow> int option" where
  "resolve_positive_limit minimum maximum raw =
     (case raw of None \<Rightarrow> None | Some n \<Rightarrow> if n < minimum then None else Some (min n maximum))"

text \<open>The day of a record is the ordinal of its date; the earliest date has ordinal 1.\<close>

definition window_records :: "int option \<Rightarrow> ('a \<Rightarrow> int option) \<Rightarrow> 'a list \<Rightarrow> 'a list" where
  "window_records max_window day records =
     (case max_window of
        None \<Rightarrow> records
      | Some w \<Rightarrow>
          (let days = List.map_filter day records in
           if days = [] then records
           else (let cutoff = Max (set days) - (w - 1) in
             filter (\<lambda>r. case day r of None \<Rightarrow> True | Some d \<Rightarrow> cutoff \<le> d) records)))"

definition record_cap :: "int option \<Rightarrow> int option \<Rightarrow> int option" where
  "record_cap max_records prompt_max_tokens =
     (case prompt_max_tokens of
        None \<Rightarrow> max_records
      | Some p \<Rightarrow> (let c = max 1 (p div 20) in
          Some (case max_records of None \<Rightarrow> c | Some m \<Rightarrow> min m c)))"

definition newest_records :: "int option \<Rightarrow> ('a \<Rightarrow> int option) \<Rightarrow> 'a list \<Rightarrow> 'a list" where
  "newest_records cap day records =
     (case cap of
        None \<Rightarrow> records
      | Some n \<Rightarrow>
          if n < int (length records) then
            drop (length records - nat n) (sort_key (\<lambda>r. case day r of None \<Rightarrow> 1 | Some d \<Rightarrow> d) records)
          else records)"

definition tier_prompt_limit :: "pricing_tier \<Rightarrow> int option" where
  "tier_prompt_limit tier =
     resolve_positive_limit 256 131072 (get_tier_limit (Tier tier) ''llm_prompt_max_input_tokens'')"

definition apply_tier_analysis_shape_limits ::
  "pricing_tier \<Rightarrow> ('a \<Rightarrow> int option) \<Rightarrow> 'a list \<Rightarrow> 'a list" where
  "apply_tier_analysis_shape_limits tier day records =
     newest_records
       (record_cap (resolve_positive_limit 1 50000 (get_tier_limit (Tier tier) ''llm_analysis_max_records''))
         (tier_prompt_limit tier)) day
       (window_records (resolve_positive_limit 1 3650 (get_tier_limit (Tier tier) ''llm_analysis_max_window_days''))
         day records)"

definition capped_prompt :: "int option \<Rightarrow> int \<Rightarrow> int" where
  "capped_prompt cap n = (case cap of None \<Rightarrow> n | Some c \<Rightarrow> min n c)"

subsection \<open>An analysis of costs\<close>

text \<open>
  What an analysis is asked for, with the days of the cost records, and what happens in its course: what the statements on the budget, the
  preparation of the data, the clients, the recording and the alert raise, and what the models answer.
\<close>

record analysis_request =
  an_provider :: "string option"
  an_model :: "string option"
  an_user :: "uuid option"
  an_operation_id :: string
  an_records :: "int option list"

record analysis_course =
  ac_row_error :: "err option"
  ac_prepare :: "llm_error option"
  ac_binds :: bool
  ac_create :: "string \<Rightarrow> err option"
  ac_ask :: llm_oracle
  ac_record_error :: "err option"
  ac_slack :: "err option"

definition request_actor :: "uuid option \<Rightarrow> string" where
  "request_actor user = (if user \<noteq> None then ''user'' else ''system'')"

fun verification_error :: "llm_error \<Rightarrow> llm_error" where
  "verification_error (PyError (SQLAlchemyError _)) = AIAnalysisError ''Budget verification failed''"
| "verification_error (PyError IntegrityError) = AIAnalysisError ''Budget verification failed''"
| "verification_error (PyError (RuntimeError _)) = AIAnalysisError ''Budget verification failed''"
| "verification_error (PyError (ValueError _)) = AIAnalysisError ''Budget verification failed''"
| "verification_error (PyError (TypeError _)) = AIAnalysisError ''Budget verification failed''"
| "verification_error (PyError (OSError _)) = AIAnalysisError ''Budget verification failed''"
| "verification_error (PyError TimeoutError) = AIAnalysisError ''Budget verification failed''"
| "verification_error e = e"

fun preparation_error :: "llm_error \<Rightarrow> llm_error" where
  "preparation_error (AIAnalysisError _) = AIAnalysisError ''Failed to prepare data''"
| "preparation_error (PyError (ValueError _)) = AIAnalysisError ''Failed to prepare data''"
| "preparation_error (PyError (TypeError _)) = AIAnalysisError ''Failed to prepare data''"
| "preparation_error (PyError (RuntimeError _)) = AIAnalysisError ''Failed to prepare data''"
| "preparation_error e = e"

fun recording_swallowed :: "llm_error \<Rightarrow> bool" where
  "recording_swallowed (PyError (SQLAlchemyError _)) = True"
| "recording_swallowed (PyError IntegrityError) = True"
| "recording_swallowed (PyError (RuntimeError _)) = True"
| "recording_swallowed (PyError (ValueError _)) = True"
| "recording_swallowed (PyError (TypeError _)) = True"
| "recording_swallowed _ = False"

definition answer_tokens :: "int \<Rightarrow> int option \<Rightarrow> int" where
  "answer_tokens dflt v = (case v of None \<Rightarrow> dflt | Some n \<Rightarrow> n)"

definition tier_output_limit :: "pricing_tier \<Rightarrow> int option" where
  "tier_output_limit tier =
     resolve_output_token_ceiling (get_tier_limit (Tier tier) ''llm_output_max_tokens'')"

definition analysis_tokens :: "pricing_tier \<Rightarrow> nat \<Rightarrow> int \<times> int" where
  "analysis_tokens tier n_records =
     (capped_prompt (tier_prompt_limit tier) (max 500 (int n_records * 20)),
      case tier_output_limit tier of None \<Rightarrow> 500 | Some m \<Rightarrow> m)"

definition analysis_report :: "string \<Rightarrow> string \<Rightarrow> string option \<Rightarrow> string \<Rightarrow> token_usage \<Rightarrow> usage_report" where
  "analysis_report provider model key op u = \<lparr>
     ur_provider = provider, ur_model = model, ur_prompt_tokens = answer_tokens 500 (fst u),
     ur_completion_tokens = answer_tokens 500 (snd u), ur_actual_cost_usd = None,
     ur_is_byok = truthy_text key, ur_operation_id = Some op, ur_request_type = ''unknown''\<rparr>"

text \<open>After the reservation: preparation, choice of the model, call and, unless nothing was reserved, the recording.\<close>

definition run_analysis ::
  "'r llm_env \<Rightarrow> uuid \<Rightarrow> pricing_tier \<Rightarrow> string \<Rightarrow> analysis_request \<Rightarrow> analysis_course \<Rightarrow> rat
    \<Rightarrow> llm_session \<Rightarrow> 'r llm_runtime \<Rightarrow> (string \<times> string) llm_res \<times> llm_session \<times> 'r llm_runtime" where
  "run_analysis env tenant tier llm_model rq co reserved s rt =
     (case ac_prepare co of
        Some e \<Rightarrow> (Inl (preparation_error e), s, rt)
      | None \<Rightarrow>
          (case setup_client_and_usage env s tenant (an_provider rq) (Some (text_or (an_model rq) llm_model)) rt of
             (Inl e, rt1) \<Rightarrow> (Inl e, s, rt1)
           | (Inr (provider, model, key), rt1) \<Rightarrow>
               (case make_client env (ac_binds co) (ac_create co) provider key (tier_output_limit tier) of
                  Some e \<Rightarrow> (Inl (PyError e), s, rt1)
                | None \<Rightarrow>
                    (case invoke_llm (ac_ask co) provider model key tier of
                       Inl e \<Rightarrow> (Inl e, s, rt1)
                     | Inr u \<Rightarrow>
                         if reserved = 0 then (Inr (provider, model), s, rt1)
                         else (case record_usage env s tenant (an_user rq) (request_actor (an_user rq))
                             (analysis_report provider model key (an_operation_id rq) u)
                             (ac_record_error co) (ac_slack co) rt1 of
                           (Inl e, s2, rt2) \<Rightarrow>
                             (if recording_swallowed e then Inr (provider, model) else Inl e, s2, rt2)
                         | (Inr _, s2, rt2) \<Rightarrow> (Inr (provider, model), s2, rt2))))))"

text \<open>\<open>llm_model\<close> is the model of the client the analyser was made with. The reservation is for the default provider.\<close>

definition analyze_costs ::
  "'r llm_env \<Rightarrow> uuid \<Rightarrow> string \<Rightarrow> analysis_request \<Rightarrow> analysis_course \<Rightarrow> llm_session \<Rightarrow> 'r llm_runtime
    \<Rightarrow> (string \<times> string) llm_res \<times> llm_session \<times> 'r llm_runtime" where
  "analyze_costs env tenant llm_model rq co s rt =
     (case le_tier env tenant of
        Inl e \<Rightarrow> (Inl (PyError e), s, rt)
      | Inr tier \<Rightarrow>
          (let records = apply_tier_analysis_shape_limits tier (\<lambda>day. day) (an_records rq);
               (prompt_tokens, completion_tokens) = analysis_tokens tier (length records) in
           case check_and_reserve env s tenant ''openai'' (text_or (an_model rq) llm_model) prompt_tokens
               completion_tokens (an_user rq) (request_actor (an_user rq)) (ac_row_error co) rt of
             (Inl e, s1, rt1) \<Rightarrow> (Inl (verification_error e), s1, rt1)
           | (Inr reserved, s1, rt1) \<Rightarrow> run_analysis env tenant tier llm_model rq co reserved s1 rt1))"

subsection \<open>The analysis job\<close>

fun finops_recoverable :: "llm_error \<Rightarrow> bool" where
  "finops_recoverable (PyError (RuntimeError _)) = True"
| "finops_recoverable (PyError (ValueError _)) = True"
| "finops_recoverable (PyError (TypeError _)) = True"
| "finops_recoverable (PyError (OSError _)) = True"
| "finops_recoverable (PyError TimeoutError) = True"
| "finops_recoverable _ = False"

text \<open>
  One analysis per connection with costs; the provider handed on is the one of the connection. The result is
  the number of analyses that succeeded.
\<close>

fun finops_analysis ::
  "'r llm_env \<Rightarrow> uuid \<Rightarrow> string \<Rightarrow> (analysis_request \<times> analysis_course) list \<Rightarrow> llm_session \<Rightarrow> 'r llm_runtime
    \<Rightarrow> nat llm_res \<times> llm_session \<times> 'r llm_runtime" where
  "finops_analysis env tenant llm_model [] s rt = (Inr 0, s, rt)"
| "finops_analysis env tenant llm_model ((rq, co) # rest) s rt =
     (case analyze_costs env tenant llm_model rq co s rt of
        (Inl e, s1, rt1) \<Rightarrow>
          if finops_recoverable e then finops_analysis env tenant llm_model rest s1 rt1 else (Inl e, s1, rt1)
      | (Inr _, s1, rt1) \<Rightarrow>
          (case finops_analysis env tenant llm_model rest s1 rt1 of
             (Inl e, s2, rt2) \<Rightarrow> (Inl e, s2, rt2)
           | (Inr n, s2, rt2) \<Rightarrow> (Inr (n + 1), s2, rt2)))"

subsection \<open>An analysis of unused resources\<close>

definition zombie_llm_config ::
  "'r llm_env \<Rightarrow> llm_session \<Rightarrow> uuid \<Rightarrow> string option \<Rightarrow> string option \<Rightarrow> (string \<times> string \<times> string option) res" where
  "zombie_llm_config env s tenant provider model =
     (let default_provider = st_llm_provider (le_settings env) in
      case budget_row s tenant of
        None \<Rightarrow> Inr (text_or provider default_provider, text_or model ''llama-3.3-70b-versatile'', None)
      | Some b \<Rightarrow>
          (let p = text_or (Some (text_or provider (lb_preferred_provider b))) default_provider;
               m = text_or (Some (text_or model (lb_preferred_model b))) ''llama-3.3-70b-versatile'';
               key = (if p = ''openai'' then stored_key env (lb_openai_api_key b)
                      else if p \<in> {''claude'', ''anthropic''} then stored_key env (lb_claude_api_key b)
                      else if p = ''google'' then stored_key env (lb_google_api_key b)
                      else if p = ''groq'' then stored_key env (lb_groq_api_key b) else Inr None)
           in bind_res key (\<lambda>k. Inr (p, m, k))))"

fun zombie_tracking_swallowed :: "llm_error \<Rightarrow> bool" where
  "zombie_tracking_swallowed (PyError (AttributeError _)) = True"
| "zombie_tracking_swallowed (PyError (KeyError _)) = True"
| "zombie_tracking_swallowed e = recording_swallowed e"

definition zombie_report :: "string \<Rightarrow> string \<Rightarrow> string option \<Rightarrow> token_usage \<Rightarrow> usage_report" where
  "zombie_report provider model key u = \<lparr>
     ur_provider = provider, ur_model = model, ur_prompt_tokens = answer_tokens 0 (fst u),
     ur_completion_tokens = answer_tokens 0 (snd u), ur_actual_cost_usd = None,
     ur_is_byok = key \<noteq> None, ur_operation_id = None, ur_request_type = ''zombie_analysis''\<rparr>"

text \<open>\<open>text_length\<close> is the length of the formatted data; there are no retries.\<close>

definition analyze_zombies ::
  "'r llm_env \<Rightarrow> uuid \<Rightarrow> string option \<Rightarrow> string option \<Rightarrow> uuid option \<Rightarrow> nat \<Rightarrow> analysis_course \<Rightarrow> llm_session
    \<Rightarrow> 'r llm_runtime \<Rightarrow> (string \<times> string) llm_res \<times> llm_session \<times> 'r llm_runtime" where
  "analyze_zombies env tenant provider model user text_length co s rt =
     (case bind_res (le_tier env tenant) (\<lambda>tier.
             bind_res (zombie_llm_config env s tenant provider model) (\<lambda>c. Inr (tier, c))) of
        Inl e \<Rightarrow> (Inl (PyError e), s, rt)
      | Inr (tier, p, m, key) \<Rightarrow>
          (case (case (if p \<noteq> st_llm_provider (le_settings env) \<or> truthy_text key
                       then factory_create (ac_create co) p else None) of
                   Some e \<Rightarrow> Some (PyError e) | None \<Rightarrow> ac_prepare co) of
             Some e \<Rightarrow> (Inl e, s, rt)
           | None \<Rightarrow>
               (case check_and_reserve env s tenant p m
                   (capped_prompt (tier_prompt_limit tier) (max 500 (int (text_length div 4))))
                   (case tier_output_limit tier of None \<Rightarrow> 1200 | Some n \<Rightarrow> n)
                   user (request_actor user) (ac_row_error co) rt of
                  (Inl e, s1, rt1) \<Rightarrow> (Inl e, s1, rt1)
                | (Inr _, s1, rt1) \<Rightarrow>
                    (case ac_ask co p m 0 of
                       Inl e \<Rightarrow> (Inl e, s1, rt1)
                     | Inr u \<Rightarrow>
                         (case record_usage env s1 tenant user (request_actor user) (zombie_report p m key u)
                             (ac_record_error co) (ac_slack co) rt1 of
                            (Inl e, s2, rt2) \<Rightarrow>
                              (if zombie_tracking_swallowed e then Inr (p, m) else Inl e, s2, rt2)
                          | (Inr _, s2, rt2) \<Rightarrow> (Inr (p, m), s2, rt2))))))"

end
