(* ===== verification/Llm_Facts.thy ===== *)
theory Llm_Facts
  imports Llm_Client
begin

text \<open>
  What the operations on the budget of a tenant do to its row, to the usage rows and to the slots: the facts
  the properties of the language-model budget rest on.
\<close>

named_theorems llm_views "how the writes of a session are seen by its reads"

subsection \<open>Reads after writes\<close>

lemma rows_after_write [llm_views]:
  "visible_usage (write_budget b s) = visible_usage s"
  "visible_usage (add_budget b s) = visible_usage s"
  "visible_usage (llm_commit s) = visible_usage s"
  "ld_usage (lx_rows (write_budget b s)) = ld_usage (lx_rows s)"
  "ld_usage (lx_rows (add_budget b s)) = ld_usage (lx_rows s)"
  "ld_usage (lx_rows (add_usage u s)) = ld_usage (lx_rows s) @ [u]"
  "lx_rows (llm_commit s) = lx_rows s"
  "lx_scope (write_budget b s) = lx_scope s"
  "lx_scope (add_budget b s) = lx_scope s"
  "lx_scope (add_usage u s) = lx_scope s"
  "lx_scope (llm_commit s) = lx_scope s"
  "lx_scope (llm_rollback s) = lx_scope s"
  "lx_committed (write_budget b s) = lx_committed s"
  "lx_committed (add_budget b s) = lx_committed s"
  "lx_committed (add_usage u s) = lx_committed s"
  by (simp_all add: visible_usage_def write_budget_def add_budget_def add_usage_def llm_commit_def
      llm_rollback_def split: option.splits)

lemma budget_row_after [llm_views]:
  "budget_row (add_usage u s) t = budget_row s t"
  "budget_row (llm_commit s) t = budget_row s t"
  "budget_row (s\<lparr>lx_alerts := al\<rparr>) t = budget_row s t"
  by (simp_all add: budget_row_def add_usage_def llm_commit_def)

lemma budget_row_add:
  assumes "budget_row s (lb_tenant_id b) = None"
  shows "budget_row (add_budget b s) (lb_tenant_id b) = Some b"
  using assms unfolding budget_row_def add_budget_def
  by (simp add: first_row_append_None) (simp add: first_row_def)

lemma write_add_budget [simp]:
  "lb_tenant_id b' = lb_tenant_id b \<Longrightarrow> budget_row s (lb_tenant_id b) = None
    \<Longrightarrow> budget_row (write_budget b' (add_budget b s)) (lb_tenant_id b) = Some b'"
  using budget_row_write [of "add_budget b s" b'] by (simp add: budget_row_add)

lemma budget_row_write_same:
  assumes "budget_row s t = Some b0" "lb_tenant_id b = t"
  shows "budget_row (write_budget b s) t = Some b"
  using assms budget_row_write [of s b] by auto

lemma reset_month_keeps [simp]:
  "lb_tenant_id (reset_month now b) = lb_tenant_id b"
  "lb_monthly_limit_usd (reset_month now b) = lb_monthly_limit_usd b"
  "lb_hard_limit (reset_month now b) = lb_hard_limit b"
  "lb_alert_sent_at (reset_month now b) = lb_alert_sent_at b"
  "lb_alert_threshold_percent (reset_month now b) = lb_alert_threshold_percent b"
  by (simp_all add: reset_month_def)

lemma settle_budget_keeps [simp]:
  "lb_tenant_id (settle_budget a c b) = lb_tenant_id b"
  "lb_monthly_limit_usd (settle_budget a c b) = lb_monthly_limit_usd b"
  "lb_budget_reset_at (settle_budget a c b) = lb_budget_reset_at b"
  "lb_alert_sent_at (settle_budget a c b) = lb_alert_sent_at b"
  "lb_hard_limit (settle_budget a c b) = lb_hard_limit b"
  by (simp_all add: settle_budget_def)

lemma reset_month_same [simp]: "same_month (lb_budget_reset_at b) now \<Longrightarrow> reset_month now b = b"
  by (simp add: reset_month_def)

lemma same_month_refl [simp]: "same_month t t"
  by (simp add: same_month_def)

lemma reset_month_month [simp]: "same_month (lb_budget_reset_at (reset_month now b)) now"
  by (simp add: reset_month_def)

subsection \<open>Reserving\<close>

text \<open>The row a reservation works on: the one of the tenant, or a fresh one.\<close>

definition opened :: "'r llm_env \<Rightarrow> llm_session \<Rightarrow> uuid \<Rightarrow> llm_budget option" where
  "opened env s tenant =
     (case budget_row s tenant of
        Some b \<Rightarrow> Some b
      | None \<Rightarrow> (case le_tier env tenant of Inl _ \<Rightarrow> None
          | Inr tier \<Rightarrow> Some (bootstrap_budget tenant tier (le_now env))))"

lemma opened_tenant: "opened env s t = Some b \<Longrightarrow> lb_tenant_id b = t"
  by (auto simp: opened_def bootstrap_budget_def dest: budget_row_tenant split: option.splits sum.splits)

lemma reserve_row_cases:
  assumes "reserve_row env s tenant e = (r, s')"
  obtains (tier) err where "r = Inl (PyError err)" "s' = s" "le_tier env tenant = Inl err"
  | (denied) b0 b where "opened env s tenant = Some b0" "b = reset_month (le_now env) b0"
      "lb_monthly_limit_usd b < committed_total b + e" "budget_row s' tenant = Some b"
      "r = Inl (BudgetExceededError ''LLM budget exceeded.''
         [(''monthly_limit'', lb_monthly_limit_usd b), (''current_total_committed'', committed_total b),
          (''estimated_cost'', e), (''remaining_budget'', lb_monthly_limit_usd b - committed_total b)])"
      "ld_usage (lx_rows s') = ld_usage (lx_rows s)" "lx_scope s' = lx_scope s"
  | (reserved) b0 b where "opened env s tenant = Some b0" "b = reset_month (le_now env) b0"
      "committed_total b + e \<le> lb_monthly_limit_usd b" "r = Inr e"
      "budget_row s' tenant = Some (b\<lparr>lb_pending_reservations_usd := lb_pending_reservations_usd b + e\<rparr>)"
      "ld_usage (lx_rows s') = ld_usage (lx_rows s)" "lx_scope s' = lx_scope s"
proof (cases "budget_row s tenant")
  case (Some b0)
  then have id: "lb_tenant_id b0 = tenant" and op: "opened env s tenant = Some b0"
    by (auto simp: opened_def dest: budget_row_tenant)
  from assms Some op show ?thesis
    by (auto simp: reserve_row_def open_budget_def Let_def llm_views budget_row_write_same [OF Some] id
        split: if_splits intro: denied [OF op refl] reserved [OF op refl])
next
  case None
  show ?thesis
  proof (cases "le_tier env tenant")
    case (Inl err)
    with assms None show ?thesis by (auto simp: reserve_row_def open_budget_def intro: tier)
  next
    case (Inr t)
    define b0 where "b0 = bootstrap_budget tenant t (le_now env)"
    have op: "opened env s tenant = Some b0" and id: "lb_tenant_id b0 = tenant"
      using None Inr by (simp_all add: opened_def b0_def bootstrap_budget_def)
    have fresh: "budget_row s (lb_tenant_id b0) = None" using None id by simp
    note row = write_add_budget [OF _ fresh, unfolded id]
    from assms None Inr show ?thesis
      by (auto simp: reserve_row_def open_budget_def Let_def llm_views row id simp flip: b0_def
          split: if_splits intro: denied [OF op refl] reserved [OF op refl])
  qed
qed

lemma check_and_reserve_Inr:
  assumes "check_and_reserve env s tenant provider model p c user actor row_error rt = (Inr e, s', rt')"
  obtains acquired where
    "pre_authorize env s tenant user (effective_actor actor user) rt = (Inr acquired, rt')"
    "e = llm_estimate_cost (le_pricing env) p c model provider" "row_error = None"
    "reserve_row env s tenant e = (Inr e, s')"
proof -
  define est where "est = llm_estimate_cost (le_pricing env) p c model provider"
  from assms obtain acquired rt1 where pre: "pre_authorize env s tenant user (effective_actor actor user) rt = (Inr acquired, rt1)"
    and g: "reserve_guarded env s tenant est row_error acquired rt1 = (Inr e, s', rt')"
    by (auto simp: check_and_reserve_def Let_def est_def split: prod.splits sum.splits)
  from g have "row_error = None" "reserve_row env s tenant est = (Inr e, s')" "rt' = rt1"
    by (auto simp: reserve_guarded_def give_back_def split: prod.splits sum.splits option.splits if_splits)
  moreover from this(2) have "e = est" by (auto elim: reserve_row_cases)
  ultimately show thesis using pre that by (simp add: est_def)
qed

lemma pre_authorize_quota:
  "pre_authorize env s tenant user actor rt = (Inr acquired, rt')
    \<Longrightarrow> enforce_daily_analysis_limit env s tenant user actor = Inr ()"
  by (auto simp: pre_authorize_def split: sum.splits)

subsection \<open>Recording\<close>

lemma write_usage_row:
  assumes "budget_row s tenant = Some b"
  shows "budget_row (write_usage env tenant user actor r s) tenant =
      Some (settle_budget (report_estimate env r) (actual_cost env r) b)"
    and "ld_usage (lx_rows (write_usage env tenant user actor r s)) =
      ld_usage (lx_rows s) @ [usage_row env tenant user (effective_actor actor user) r]"
  using assms by (simp_all add: write_usage_def Let_def llm_views budget_row_write_same budget_row_tenant)

lemma alert_row:
  assumes "check_budget_and_alert env tenant slack s = (r, s')" "budget_row s tenant = Some b"
  shows "\<exists>sent. budget_row s' tenant = Some (b\<lparr>lb_alert_sent_at := sent\<rparr>)"
    and "ld_usage (lx_rows s') = ld_usage (lx_rows s)" and "lx_scope s' = lx_scope s"
proof -
  from assms have "budget_row s' tenant = Some b
      \<or> budget_row s' tenant = Some (b\<lparr>lb_alert_sent_at := Some (le_now env)\<rparr>)"
    by (auto simp: check_budget_and_alert_def Let_def llm_views budget_row_write_same
        budget_row_tenant split: if_splits option.splits)
  moreover have "b = b\<lparr>lb_alert_sent_at := lb_alert_sent_at b\<rparr>" by simp
  ultimately show "\<exists>sent. budget_row s' tenant = Some (b\<lparr>lb_alert_sent_at := sent\<rparr>)" by metis
  from assms show "ld_usage (lx_rows s') = ld_usage (lx_rows s)" "lx_scope s' = lx_scope s"
    by (auto simp: check_budget_and_alert_def Let_def llm_views split: if_splits option.splits)
qed

lemma alert_committed:
  assumes "check_budget_and_alert env tenant slack (llm_commit s) = (Inr (), s')"
  shows "lx_committed s' = lx_rows s'"
  using assms by (auto simp: check_budget_and_alert_def Let_def llm_commit_def split: if_splits option.splits)

text \<open>A recording without errors: the row is settled, the usage is appended, both are committed.\<close>

lemma record_usage_clean:
  assumes "record_usage env s tenant user actor r None None rt = (res, s', rt')"
    and "budget_row s tenant = Some b"
  obtains sent where
    "budget_row s' tenant =
       Some ((settle_budget (report_estimate env r) (actual_cost env r) b)\<lparr>lb_alert_sent_at := sent\<rparr>)"
    "ld_usage (lx_rows s') = ld_usage (lx_rows s) @ [usage_row env tenant user (effective_actor actor user) r]"
    "lx_committed s' = lx_rows s'" "lx_scope s' = lx_scope s"
    "release_fair_use_inflight_slot env tenant rt = (res, rt')"
proof -
  define s1 where "s1 = llm_commit (write_usage env tenant user actor r s)"
  obtain o1 s2 where al: "check_budget_and_alert env tenant None s1 = (o1, s2)" by fastforce
  have ok: "o1 = Inr ()"
    using al by (auto simp: check_budget_and_alert_def Let_def split: option.splits if_splits)
  note rows = write_usage_row [OF assms(2), of env user actor r]
  have row1: "budget_row s1 tenant = Some (settle_budget (report_estimate env r) (actual_cost env r) b)"
    and use1: "ld_usage (lx_rows s1) = ld_usage (lx_rows s) @ [usage_row env tenant user (effective_actor actor user) r]"
    using rows by (simp_all add: s1_def llm_views)
  have sc: "lx_scope s1 = lx_scope s"
    by (simp add: s1_def write_usage_def Let_def llm_views split: option.splits)
  from assms(1) al ok have fin: "s' = s2" "release_fair_use_inflight_slot env tenant rt = (res, rt')"
    by (auto simp: record_usage_def s1_def split: prod.splits sum.splits)
  from alert_row [OF al row1] fin(1) use1 sc
    alert_committed [OF al [unfolded ok, unfolded s1_def]] that fin(2)
  show thesis by auto
qed

end
