(* ===== verification/Llm_Slots.thy ===== *)
theory Llm_Slots
  imports Llm_Facts Base_Machine Enf_Token
begin

text \<open>
  The slots for calls in flight, without a cache: the count of a tenant as a state machine in which calls
  start, finish with the recording of their usage, or fail in between. Nothing gives back the slot of a call
  that fails after its reservation.
\<close>

subsection \<open>Counting\<close>

lemma inflight_key_inject [simp]: "fair_use_inflight_key a = fair_use_inflight_key b \<longleftrightarrow> a = b"
  unfolding fair_use_inflight_key_def using parse_uuid_text by (metis option.inject same_append_eq)

definition tenant_count :: "uuid \<Rightarrow> 'r llm_runtime \<Rightarrow> int" where
  "tenant_count t rt = local_count rt (fair_use_inflight_key t)"

lemma tenant_count_set [simp]:
  "tenant_count t (set_local_count (fair_use_inflight_key u) v rt) =
    (if t = u then (case v of None \<Rightarrow> 0 | Some n \<Rightarrow> n) else tenant_count t rt)"
  "tenant_count t (rt\<lparr>lr_store := st\<rparr>) = tenant_count t rt"
  "tenant_count t (rt\<lparr>lr_local_global_abuse_block_until := u'\<rparr>) = tenant_count t rt"
  by (simp_all add: tenant_count_def local_count_def set_local_count_def)

lemma share_block_count: "share_block env rt = (r, rt') \<Longrightarrow> tenant_count t rt' = tenant_count t rt"
  by (auto simp: share_block_def split: option.splits prod.splits sum.splits if_splits)

lemma shared_block_count: "shared_block env rt = (r, rt') \<Longrightarrow> tenant_count t rt' = tenant_count t rt"
  by (auto simp: shared_block_def split: option.splits prod.splits sum.splits if_splits)

lemma abuse_burst_count: "abuse_burst env s rt = (r, rt') \<Longrightarrow> tenant_count t rt' = tenant_count t rt"
  by (auto simp: abuse_burst_def split: prod.splits sum.splits bool.splits if_splits
      dest!: shared_block_count [where t = t] share_block_count [where t = t])

lemma abuse_guard_count:
  "enforce_global_abuse_guard env s rt = (r, rt') \<Longrightarrow> tenant_count t rt' = tenant_count t rt"
  by (auto simp: enforce_global_abuse_guard_def Let_def split: option.splits if_splits dest: abuse_burst_count)

lemma acquire_count:
  assumes "acquire_fair_use_inflight_slot env u cap ttl rt = (r, rt')" "le_redis env = None" "0 \<le> tenant_count u rt"
  shows "r = Inr (True, tenant_count u rt + 1) \<and> tenant_count u rt + 1 \<le> cap \<and> tenant_count u rt' = tenant_count u rt + 1
      \<or> r = Inr (False, tenant_count u rt) \<and> cap \<le> tenant_count u rt \<and> tenant_count u rt' = tenant_count u rt"
    and "t \<noteq> u \<Longrightarrow> tenant_count t rt' = tenant_count t rt"
  using assms by (auto simp: acquire_fair_use_inflight_slot_def acquire_local_def Let_def
      tenant_count_def [symmetric] split: if_splits)

lemma guards_count:
  assumes "enforce_fair_use_guards env s u tier rt = (r, rt')" "le_redis env = None" "0 \<le> tenant_count u rt"
  shows "tenant_count u rt' = tenant_count u rt + (if r = Inr True then 1 else 0)"
    and "r = Inr True \<Longrightarrow> tenant_count u rt' \<le> st_per_tenant_concurrency_cap (le_settings env)"
    and "t \<noteq> u \<Longrightarrow> tenant_count t rt' = tenant_count t rt"
    and "r = Inr False \<Longrightarrow> st_fair_use_guards_enabled (le_settings env) \<Longrightarrow> fair_use_tier_allowed tier
      \<Longrightarrow> st_per_tenant_concurrency_cap (le_settings env) \<le> 0"
  using assms
  by (auto simp: enforce_fair_use_guards_def concurrency_gate_def Let_def split: if_splits sum.splits prod.splits
      dest: acquire_count)

lemma pre_authorize_count:
  assumes "pre_authorize env s u user actor rt = (r, rt')" "le_redis env = None" "0 \<le> tenant_count u rt"
  shows "tenant_count u rt' = tenant_count u rt + (if r = Inr True then 1 else 0)"
    and "r = Inr True \<Longrightarrow> tenant_count u rt' \<le> st_per_tenant_concurrency_cap (le_settings env)"
    and "t \<noteq> u \<Longrightarrow> tenant_count t rt' = tenant_count t rt"
    and "r = Inr False \<Longrightarrow> st_fair_use_guards_enabled (le_settings env) \<Longrightarrow> le_tier env u = Inr tier
      \<Longrightarrow> fair_use_tier_allowed tier \<Longrightarrow> st_per_tenant_concurrency_cap (le_settings env) \<le> 0"
proof -
  have "(r \<noteq> Inr True \<and> rt' = rt \<or> (\<exists>q. enforce_global_abuse_guard env s rt = (q, rt') \<and> r \<noteq> Inr True))
      \<and> (r = Inr False \<longrightarrow> \<not> st_fair_use_guards_enabled (le_settings env))
    \<or> (\<exists>q rt1 tier. enforce_global_abuse_guard env s rt = (q, rt1) \<and> le_tier env u = Inr tier
        \<and> enforce_fair_use_guards env s u tier rt1 = (r, rt'))"
    using assms(1) by (auto simp: pre_authorize_def split: sum.splits prod.splits if_splits)
  then consider (early) q where "r \<noteq> Inr True" "rt' = rt \<or> enforce_global_abuse_guard env s rt = (q, rt')"
      "r = Inr False \<longrightarrow> \<not> st_fair_use_guards_enabled (le_settings env)"
    | (guards) q rt1 tier where "enforce_global_abuse_guard env s rt = (q, rt1)" "le_tier env u = Inr tier"
      "enforce_fair_use_guards env s u tier rt1 = (r, rt')"
    by blast
  then have split: "(r \<noteq> Inr True \<and> (\<forall>v. tenant_count v rt' = tenant_count v rt)
      \<and> (r = Inr False \<longrightarrow> \<not> st_fair_use_guards_enabled (le_settings env)))
    \<or> (\<exists>rt1 tier. (\<forall>v. tenant_count v rt1 = tenant_count v rt) \<and> le_tier env u = Inr tier
      \<and> enforce_fair_use_guards env s u tier rt1 = (r, rt'))"
  proof cases
    case (early q)
    then show ?thesis by (metis abuse_guard_count)
  next
    case (guards q rt1 tier)
    then show ?thesis by (metis abuse_guard_count)
  qed
  consider (early) "r \<noteq> Inr True" "\<And>v. tenant_count v rt' = tenant_count v rt"
      "r = Inr False \<Longrightarrow> \<not> st_fair_use_guards_enabled (le_settings env)"
    | (guards) rt1 tier where "\<And>v. tenant_count v rt1 = tenant_count v rt" "le_tier env u = Inr tier"
      "enforce_fair_use_guards env s u tier rt1 = (r, rt')"
    using split by blast
  note split = this
  show "tenant_count u rt' = tenant_count u rt + (if r = Inr True then 1 else 0)"
    using split by cases (use assms(2,3) in \<open>auto dest: guards_count(1)\<close>)
  show "r = Inr True \<Longrightarrow> tenant_count u rt' \<le> st_per_tenant_concurrency_cap (le_settings env)"
    using split by cases (use assms(2,3) in \<open>auto dest: guards_count(2)\<close>)
  show "t \<noteq> u \<Longrightarrow> tenant_count t rt' = tenant_count t rt"
    using split by cases (use assms(2,3) in \<open>auto dest: guards_count(3)\<close>)
  show "r = Inr False \<Longrightarrow> st_fair_use_guards_enabled (le_settings env) \<Longrightarrow> le_tier env u = Inr tier
      \<Longrightarrow> fair_use_tier_allowed tier \<Longrightarrow> st_per_tenant_concurrency_cap (le_settings env) \<le> 0"
    using split by cases (use assms(2,3) in \<open>auto dest: guards_count(4)\<close>)
qed

lemma release_count:
  assumes "release_fair_use_inflight_slot env u rt = (r, rt')" "le_redis env = None"
  shows "r = Inr ()"
    and "st_fair_use_guards_enabled (le_settings env) \<Longrightarrow> 0 \<le> tenant_count u rt
      \<Longrightarrow> tenant_count u rt' = max 0 (tenant_count u rt - 1)"
    and "0 \<le> tenant_count u rt'" and "t \<noteq> u \<Longrightarrow> tenant_count t rt' = tenant_count t rt"
  using assms
  by (auto simp: release_fair_use_inflight_slot_def release_local_def Let_def tenant_count_def [symmetric] split: if_splits)

definition row_error_handled :: "err option \<Rightarrow> bool" where
  "row_error_handled row_error \<longleftrightarrow> (case row_error of None \<Rightarrow> True | Some e \<Rightarrow> budget_execution_recoverable e)"

text \<open>A reservation that fails after its slot was taken gives it back.\<close>

lemma reserve_guarded_count:
  assumes "reserve_guarded env s u e row_error acquired rt = (r, s', rt')" "le_redis env = None"
    and "acquired \<Longrightarrow> 1 \<le> tenant_count u rt" "0 \<le> tenant_count u rt"
  shows "0 \<le> tenant_count u rt'" and "t \<noteq> u \<Longrightarrow> tenant_count t rt' = tenant_count t rt"
    and "r = Inr v \<Longrightarrow> rt' = rt"
    and "r = Inl err \<Longrightarrow> row_error_handled row_error \<Longrightarrow> st_fair_use_guards_enabled (le_settings env)
      \<Longrightarrow> le_tier env u = Inr tier \<Longrightarrow> tenant_count u rt' = tenant_count u rt - (if acquired then 1 else 0)"
proof -
  obtain q s1 where q: "(case row_error of Some e \<Rightarrow> (Inl (PyError e), s) | None \<Rightarrow> reserve_row env s u e) = (q, s1)"
    by fastforce
  show "r = Inr v \<Longrightarrow> rt' = rt"
    using assms(1) q by (auto simp: reserve_guarded_def give_back_def split: sum.splits prod.splits if_splits)
  have gb: "rt' = rt \<or> acquired \<and> (\<exists>x. release_fair_use_inflight_slot env u rt = (x, rt'))"
    using assms(1) q by (auto simp: reserve_guarded_def give_back_def split: sum.splits prod.splits if_splits)
  then show "0 \<le> tenant_count u rt'" "t \<noteq> u \<Longrightarrow> tenant_count t rt' = tenant_count t rt"
    using assms(2,4) by (auto dest: release_count(3,4))
  assume fail: "r = Inl err" "row_error_handled row_error" "st_fair_use_guards_enabled (le_settings env)"
    "le_tier env u = Inr tier"
  have "acquired \<longrightarrow> (\<exists>x. release_fair_use_inflight_slot env u rt = (x, rt'))" "\<not> acquired \<longrightarrow> rt' = rt"
    using assms(1) q fail(1,2,4)
    by (auto simp: reserve_guarded_def give_back_def row_error_handled_def
        split: sum.splits prod.splits if_splits option.splits llm_error.splits elim: reserve_row_cases)
  then show "tenant_count u rt' = tenant_count u rt - (if acquired then 1 else 0)"
    using assms(2-4) fail(3) by (auto dest: release_count(2))
qed

lemma check_and_reserve_count:
  assumes "check_and_reserve env s u provider model p c user actor row_error rt = (r, s', rt')"
    and "le_redis env = None" "0 \<le> tenant_count u rt"
  shows "0 \<le> tenant_count u rt'" and "t \<noteq> u \<Longrightarrow> tenant_count t rt' = tenant_count t rt"
    and "r = Inr e \<Longrightarrow> st_fair_use_guards_enabled (le_settings env) \<Longrightarrow> le_tier env u = Inr tier
      \<Longrightarrow> fair_use_tier_allowed tier \<Longrightarrow> 0 < st_per_tenant_concurrency_cap (le_settings env)
      \<Longrightarrow> tenant_count u rt' = tenant_count u rt + 1 \<and> tenant_count u rt' \<le> st_per_tenant_concurrency_cap (le_settings env)"
    and "r = Inl err \<Longrightarrow> row_error_handled row_error \<Longrightarrow> st_fair_use_guards_enabled (le_settings env)
      \<Longrightarrow> le_tier env u = Inr tier \<Longrightarrow> tenant_count u rt' = tenant_count u rt"
proof -
  obtain q rt1 where pre: "pre_authorize env s u user (effective_actor actor user) rt = (q, rt1)" by fastforce
  note cnt = pre_authorize_count [OF pre assms(2,3)]
  have nn: "0 \<le> tenant_count u rt1" using cnt(1) assms(3) by simp
  consider (early) e0 where "q = Inl e0" "r = Inl e0" "rt' = rt1"
    | (late) acquired where "q = Inr acquired"
        "reserve_guarded env s u (llm_estimate_cost (le_pricing env) p c model provider) row_error acquired rt1 = (r, s', rt')"
    using assms(1) pre by (auto simp: check_and_reserve_def Let_def split: sum.splits)
  note split = this
  note g = reserve_guarded_count [OF _ assms(2) _ nn]
  have acq: "q = Inr True \<Longrightarrow> 1 \<le> tenant_count u rt1" using cnt(1) assms(3) by simp
  show "0 \<le> tenant_count u rt'" using split
  proof cases
    case early
    then show ?thesis using nn by simp
  next
    case (late acquired)
    then show ?thesis using g(1) [OF late(2)] acq by simp
  qed
  show "tenant_count t rt' = tenant_count t rt" if "t \<noteq> u" using split
  proof cases
    case early
    then show ?thesis using cnt(3) that by simp
  next
    case (late acquired)
    then show ?thesis using g(2) [OF late(2) _ that] acq cnt(3) [OF that] by simp
  qed
  show "tenant_count u rt' = tenant_count u rt + 1 \<and> tenant_count u rt' \<le> st_per_tenant_concurrency_cap (le_settings env)"
    if "r = Inr e" "st_fair_use_guards_enabled (le_settings env)" "le_tier env u = Inr tier"
      "fair_use_tier_allowed tier" "0 < st_per_tenant_concurrency_cap (le_settings env)"
    using split
  proof cases
    case early
    with that show ?thesis by simp
  next
    case (late acquired)
    then have "acquired" using cnt(4) [OF _ that(2-4)] that(5) by (cases acquired) auto
    with late acq have "rt' = rt1" using g(3) [OF late(2) _ that(1)] by simp
    with \<open>acquired\<close> late cnt(1,2) show ?thesis by simp
  qed
  show "tenant_count u rt' = tenant_count u rt"
    if "r = Inl err" "row_error_handled row_error" "st_fair_use_guards_enabled (le_settings env)" "le_tier env u = Inr tier"
    using split
  proof cases
    case early
    then show ?thesis using cnt(1) by simp
  next
    case (late acquired)
    then show ?thesis using g(4) [OF late(2) _ that] acq cnt(1) by (cases acquired) auto
  qed
qed

lemma record_usage_count:
  assumes "record_usage env s u user actor r row_error slack rt = (res, s', rt')" "le_redis env = None"
  shows "0 \<le> tenant_count u rt'" and "t \<noteq> u \<Longrightarrow> tenant_count t rt' = tenant_count t rt"
    and "st_fair_use_guards_enabled (le_settings env) \<Longrightarrow> 0 \<le> tenant_count u rt
      \<Longrightarrow> tenant_count u rt' = max 0 (tenant_count u rt - 1)"
proof -
  have "\<exists>x. release_fair_use_inflight_slot env u rt = (x, rt')"
    using assms(1) by (auto simp: record_usage_def Let_def split: prod.splits sum.splits)
  then show "0 \<le> tenant_count u rt'" "t \<noteq> u \<Longrightarrow> tenant_count t rt' = tenant_count t rt"
    "st_fair_use_guards_enabled (le_settings env) \<Longrightarrow> 0 \<le> tenant_count u rt
      \<Longrightarrow> tenant_count u rt' = max 0 (tenant_count u rt - 1)"
    using assms(2) by (auto dest: release_count)
qed

subsection \<open>The machine\<close>

text \<open>
  The environments of a process without a cache whose guards are on, in which the tenant \<open>t\<close> is of a tier with
  slots.
\<close>

definition slot_env :: "llm_settings \<Rightarrow> uuid \<Rightarrow> 'r llm_env \<Rightarrow> bool" where
  "slot_env cfg t env \<longleftrightarrow> le_settings env = cfg \<and> le_redis env = None
     \<and> (\<exists>tier. le_tier env t = Inr tier \<and> fair_use_tier_allowed tier)"

text \<open>
  The state is the runtime with two counts: the calls of the tenant that hold a slot and those that have failed with
  one. Calls of other tenants come in between.
\<close>

inductive slot_step ::
  "llm_settings \<Rightarrow> uuid \<Rightarrow> 'r llm_runtime \<times> nat \<times> nat \<Rightarrow> 'r llm_runtime \<times> nat \<times> nat \<Rightarrow> bool"
  for cfg :: llm_settings and t :: uuid
where
  start: "slot_step cfg t (rt, f, l) (rt', Suc f, l)"
    if "check_and_reserve env s t provider model p c user actor row_error rt = (Inr e, s', rt')" "slot_env cfg t env"
| refuse: "slot_step cfg t (rt, f, l) (rt', f, l)"
    if "check_and_reserve env s t provider model p c user actor row_error rt = (Inl err, s', rt')" "slot_env cfg t env"
      "row_error_handled row_error"
| finish: "slot_step cfg t (rt, Suc f, l) (rt', f, l)"
    if "record_usage env s t user actor r row_error slack rt = (res, s', rt')" "slot_env cfg t env"
| fail: "slot_step cfg t (rt, Suc f, l) (rt, f, Suc l)"
| other_reserve: "slot_step cfg t (rt, f, l) (rt', f, l)"
    if "check_and_reserve env s u provider model p c user actor row_error rt = (res, s', rt')" "u \<noteq> t" "le_redis env = None"
| other_record: "slot_step cfg t (rt, f, l) (rt', f, l)"
    if "record_usage env s u user actor r row_error slack rt = (res, s', rt')" "u \<noteq> t" "le_redis env = None"

definition guarded_settings :: "llm_settings \<Rightarrow> bool" where
  "guarded_settings cfg \<longleftrightarrow> st_fair_use_guards_enabled cfg \<and> 0 < st_per_tenant_concurrency_cap cfg"

fun slot_inv :: "llm_settings \<Rightarrow> uuid \<Rightarrow> 'r llm_runtime \<times> nat \<times> nat \<Rightarrow> bool" where
  "slot_inv cfg t (rt, f, l) \<longleftrightarrow> guarded_settings cfg \<and> (\<forall>u. 0 \<le> tenant_count u rt)
     \<and> tenant_count t rt = int (f + l) \<and> int (f + l) \<le> st_per_tenant_concurrency_cap cfg"

lemma slot_step_inv:
  assumes "slot_step cfg t x y" "slot_inv cfg t x"
  shows "slot_inv cfg t y"
  using assms
proof (cases rule: slot_step.cases)
  case (start env s provider model p c user actor row_error rt e s' rt' f l)
  from start(4) obtain tier where env: "le_settings env = cfg" "le_redis env = None" "le_tier env t = Inr tier"
    "fair_use_tier_allowed tier" by (auto simp: slot_env_def)
  have nn: "0 \<le> tenant_count t rt" using assms(2) start(1) by simp
  note c = check_and_reserve_count [OF start(3) env(2) nn]
  have "0 \<le> tenant_count u rt'" for u using c(1) c(2) [of u] assms(2) start(1) by (cases "u = t") auto
  with c(3) [OF refl] env assms(2) start(1,2) show ?thesis by (auto simp: guarded_settings_def)
next
  case (refuse env s provider model p c user actor row_error rt err s' rt' f l)
  from refuse(4) obtain tier where env: "le_settings env = cfg" "le_redis env = None" "le_tier env t = Inr tier"
    "fair_use_tier_allowed tier" by (auto simp: slot_env_def)
  have nn: "0 \<le> tenant_count t rt" using assms(2) refuse(1) by simp
  note c = check_and_reserve_count [OF refuse(3) env(2) nn]
  have "0 \<le> tenant_count u rt'" for u using c(1) c(2) [of u] assms(2) refuse(1) by (cases "u = t") auto
  with c(4) [OF refl refuse(5)] env assms(2) refuse(1,2) show ?thesis by (auto simp: guarded_settings_def)
next
  case (finish env s user actor r row_error slack rt res s' rt' f l)
  from finish(4) have env: "le_settings env = cfg" "le_redis env = None" by (auto simp: slot_env_def)
  note c = record_usage_count [OF finish(3) env(2)]
  have "0 \<le> tenant_count u rt'" for u using c(1) c(2) [of u] assms(2) finish(1) by (cases "u = t") auto
  with c(3) env assms(2) finish(1,2) show ?thesis by (auto simp: guarded_settings_def)
next
  case (other_reserve env s u provider model p c user actor row_error rt res s' rt' f l)
  have nn: "0 \<le> tenant_count u rt" using assms(2) other_reserve(1) by simp
  note c = check_and_reserve_count [OF other_reserve(3,5) nn]
  have "0 \<le> tenant_count v rt'" for v using c(1) c(2) [of v] assms(2) other_reserve(1) by (cases "v = u") auto
  with c(2) [of t] assms(2) other_reserve(1,2,4) show ?thesis by auto
next
  case (other_record env s u user actor r row_error slack rt res s' rt' f l)
  note c = record_usage_count [OF other_record(3,5)]
  have "0 \<le> tenant_count v rt'" for v using c(1) c(2) [of v] assms(2) other_record(1) by (cases "v = u") auto
  with c(2) [of t] assms(2) other_record(1,2,4) show ?thesis by auto
qed auto

text \<open>Slots of failed calls are never counted down.\<close>

definition lost_below :: "'r llm_runtime \<times> nat \<times> nat \<Rightarrow> 'r llm_runtime \<times> nat \<times> nat \<Rightarrow> bool" where
  "lost_below x y \<longleftrightarrow> snd (snd x) \<le> snd (snd y)"

lemma slot_step_lost: "slot_step cfg t x y \<Longrightarrow> lost_below x y"
  by (erule slot_step.cases) (simp_all add: lost_below_def)

interpretation slots: monotone_machine "slot_step cfg t" "slot_inv cfg t" lost_below for cfg :: llm_settings and t :: uuid
proof unfold_locales
  show "lost_below x x" "lost_below x y \<Longrightarrow> lost_below y z \<Longrightarrow> lost_below x z" for x y z :: "'r llm_runtime \<times> nat \<times> nat"
    by (simp_all add: lost_below_def)
qed (rule slot_step_inv slot_step_lost; assumption)+

subsection \<open>An analysis as a run of the machine\<close>

lemma fresh_status_runtime: "fresh_status env s t rt = (r, rt') \<Longrightarrow> le_redis env = None \<Longrightarrow> rt' = rt"
  by (simp add: fresh_status_def remember_status_def Let_def split: option.splits if_splits)

lemma budget_state_runtime: "check_budget_state env s t rt = (r, rt') \<Longrightarrow> le_redis env = None \<Longrightarrow> rt' = rt"
  by (simp add: check_budget_state_def fresh_status_runtime)

lemma setup_client_runtime:
  assumes "setup_client_and_usage env s t provider model rt = (r, rt')" "le_redis env = None"
  shows "rt' = rt"
proof -
  obtain q rt1 where q: "check_budget_state env s t rt = (q, rt1)" by fastforce
  with assms(2) have "rt1 = rt" by (rule budget_state_runtime [rotated])
  with assms(1) q show ?thesis
    by (simp add: setup_client_and_usage_def split: sum.splits option.splits if_splits)
qed

lemma run_analysis_slots:
  assumes "run_analysis env t tier llm_model rq co reserved s rt = (res, s', rt')" "slot_env cfg t env"
  shows "rt' = rt \<and> (reserved = 0 \<or> (\<exists>e. res = Inl e))
    \<or> (\<exists>user actor r row_error slack out s1. record_usage env s1 t user actor r row_error slack rt = (out, s', rt'))"
proof -
  have "le_redis env = None" using assms(2) by (simp add: slot_env_def)
  with assms(1) show ?thesis
    by (auto simp: run_analysis_def split: option.splits sum.splits prod.splits if_splits
        dest!: setup_client_runtime)
qed

text \<open>An analysis of the tenant loses at most the one slot it took.\<close>

lemma analysis_slot_run:
  assumes "analyze_costs env t llm_model rq co s rt = (res, s', rt')" "slot_env cfg t env"
    and "row_error_handled (ac_row_error co)"
  shows "\<exists>l'. l \<le> l' \<and> l' \<le> Suc l \<and> (slot_step cfg t)\<^sup>*\<^sup>* (rt, f, l) (rt', f, l')"
proof -
  obtain tier where tier: "le_tier env t = Inr tier" using assms(2) by (auto simp: slot_env_def)
  obtain p c where toks: "analysis_tokens tier (length (apply_tier_analysis_shape_limits tier (\<lambda>day. day) (an_records rq))) = (p, c)"
    by fastforce
  obtain r1 s1 rt1 where car: "check_and_reserve env s t ''openai'' (text_or (an_model rq) llm_model) p c (an_user rq)
      (request_actor (an_user rq)) (ac_row_error co) rt = (r1, s1, rt1)" by (metis prod_cases3)
  show ?thesis
  proof (cases r1)
    case (Inl e)
    with assms(1) tier toks car have "rt' = rt1" by (simp add: analyze_costs_def)
    with slot_step.refuse [OF car [unfolded Inl] assms(2,3)] have "(slot_step cfg t)\<^sup>*\<^sup>* (rt, f, l) (rt', f, l)" by blast
    then show ?thesis by (intro exI [of _ l]) simp
  next
    case (Inr v)
    note go = slot_step.start [OF car [unfolded Inr] assms(2), of f l]
    from assms(1) tier toks car Inr have "run_analysis env t tier llm_model rq co v s1 rt1 = (res, s', rt')"
      by (simp add: analyze_costs_def)
    from run_analysis_slots [OF this assms(2)] show ?thesis
    proof (elim disjE exE)
      assume "rt' = rt1 \<and> (v = 0 \<or> (\<exists>e. res = Inl e))"
      with go slot_step.fail [of cfg t rt1 f l] have "(slot_step cfg t)\<^sup>*\<^sup>* (rt, f, l) (rt', f, Suc l)" by auto
      then show ?thesis by (intro exI [of _ "Suc l"]) simp
    next
      fix user actor r row_error slack out s2
      assume "record_usage env s2 t user actor r row_error slack rt1 = (out, s', rt')"
      from go slot_step.finish [OF this assms(2), of f l] have "(slot_step cfg t)\<^sup>*\<^sup>* (rt, f, l) (rt', f, l)" by auto
      then show ?thesis by (intro exI [of _ l]) simp
    qed
  qed
qed

end
