(* ===== verification/Llm_Samples.thy ===== *)
theory Llm_Samples
  imports Llm_Client
begin

text \<open>
  A tenant of the tier PRO without a cache, its budget, an analysis that asks for nothing in particular and one for a connection
  to Azure: the inputs at which the properties of the language-model budget are shown to apply.
\<close>

definition sample_llm_settings :: "bool \<Rightarrow> llm_settings" where
  "sample_llm_settings guards = \<lparr>
     st_fair_use_guards_enabled = guards, st_pro_daily_soft_cap = 1200, st_enterprise_daily_soft_cap = 4000,
     st_per_minute_cap = 30, st_per_tenant_concurrency_cap = 1, st_concurrency_lease_ttl_seconds = 180,
     st_global_abuse_guards_enabled = False, st_global_abuse_kill_switch = False,
     st_global_abuse_per_minute_cap = 600, st_global_abuse_unique_tenants_threshold = 30,
     st_global_abuse_block_seconds = 120, st_llm_provider = ''groq''\<rparr>"

definition sample_llm_env :: "bool \<Rightarrow> unit llm_env" where
  "sample_llm_env guards = \<lparr>
     le_settings = sample_llm_settings guards, le_redis = None, le_pricing = static_llm_pricing,
     le_tier = (\<lambda>_. Inr PRO), le_decrypt = (\<lambda>k. Inr (Some k)), le_now = 0\<rparr>"

definition sample_llm_budget :: "rat \<Rightarrow> llm_budget" where
  "sample_llm_budget limit = (bootstrap_budget 7 PRO 0)\<lparr>lb_monthly_limit_usd := limit\<rparr>"

definition sample_llm_session :: "rat \<Rightarrow> llm_session" where
  "sample_llm_session limit = (let db = \<lparr>ld_budgets = [sample_llm_budget limit], ld_usage = []\<rparr> in
     \<lparr>lx_scope = Some 7, lx_rows = db, lx_committed = db, lx_alerts = []\<rparr>)"

definition sample_llm_runtime :: "unit llm_runtime" where
  "sample_llm_runtime = \<lparr>lr_store = (), lr_local_inflight_counts = (\<lambda>_. None), lr_local_global_abuse_block_until = None\<rparr>"

definition sample_llm_model :: string where
  "sample_llm_model = ''llama-3.3-70b-versatile''"

definition sample_llm_request :: "string option \<Rightarrow> analysis_request" where
  "sample_llm_request provider = \<lparr>an_provider = provider, an_model = None, an_user = None,
     an_operation_id = ''op'', an_records = []\<rparr>"

definition sample_llm_course :: analysis_course where
  "sample_llm_course = \<lparr>ac_row_error = None, ac_prepare = None, ac_binds = True, ac_create = (\<lambda>_. None),
     ac_ask = (\<lambda>_ _ _. Inr (Some 500, Some 500)), ac_record_error = None, ac_slack = None\<rparr>"

lemma sample_llm_tokens: "analysis_tokens PRO 0 = (500, 4096)"
  by code_simp

lemma sample_llm_shape: "apply_tier_analysis_shape_limits PRO (\<lambda>day. day) ([] :: int option list) = []"
  by (simp add: apply_tier_analysis_shape_limits_def window_records_def newest_records_def split: option.split)

lemma sample_llm_reserved: "llm_estimate_cost static_llm_pricing 500 4096 sample_llm_model ''openai'' = 25 / 10000"
  by code_simp

lemma sample_llm_answer: "llm_estimate_cost static_llm_pricing 500 500 sample_llm_model ''groq'' = 7 / 10000"
  by code_simp

lemma sample_llm_quota:
  "get_tier_limit (Tier PRO) ''llm_analyses_per_day'' = Some 100"
  "get_tier_limit (Tier PRO) ''llm_system_analyses_per_day'' = Some 30"
  by code_simp+

lemma sample_llm_actor: "effective_actor (request_actor None) None = ''system''" "quota_actor ''system'' None = ''system''"
  by code_simp+

lemma sample_llm_env_simps [simp]:
  "le_settings (sample_llm_env g) = sample_llm_settings g" "le_redis (sample_llm_env g) = None"
  "le_pricing (sample_llm_env g) = static_llm_pricing" "le_tier (sample_llm_env g) t = Inr PRO"
  "le_now (sample_llm_env g) = 0" "st_llm_provider (sample_llm_settings g) = ''groq''"
  "st_fair_use_guards_enabled (sample_llm_settings g) = g" "st_per_tenant_concurrency_cap (sample_llm_settings g) = 1"
  by (simp_all add: sample_llm_env_def sample_llm_settings_def)

lemma sample_llm_session_simps [simp]:
  "budget_row (sample_llm_session limit) 7 = Some (sample_llm_budget limit)"
  "visible_usage (sample_llm_session limit) = []" "lx_scope (sample_llm_session limit) = Some 7"
  "ld_usage (lx_rows (sample_llm_session limit)) = []" "ld_usage (lx_committed (sample_llm_session limit)) = []"
  by (simp_all add: sample_llm_session_def budget_row_def first_row_def sample_llm_budget_def bootstrap_budget_def
      visible_usage_def Let_def)

lemma sample_llm_budget_simps [simp]:
  "lb_tenant_id (sample_llm_budget limit) = 7" "lb_monthly_limit_usd (sample_llm_budget limit) = limit"
  "lb_budget_reset_at (sample_llm_budget limit) = 0" "lb_hard_limit (sample_llm_budget limit)"
  "lb_monthly_spend_usd (sample_llm_budget limit) = 0" "lb_pending_reservations_usd (sample_llm_budget limit) = 0"
  "committed_total (sample_llm_budget limit) = 0"
  by (simp_all add: sample_llm_budget_def bootstrap_budget_def committed_total_def)

lemma sample_llm_request_simps [simp]:
  "an_provider (sample_llm_request p) = p" "an_model (sample_llm_request p) = None" "an_user (sample_llm_request p) = None"
  "an_records (sample_llm_request p) = []" "an_operation_id (sample_llm_request p) = ''op''"
  "ac_row_error sample_llm_course = None" "ac_prepare sample_llm_course = None" "ac_binds sample_llm_course"
  "ac_ask sample_llm_course pr m n = Inr (Some 500, Some 500)" "ac_record_error sample_llm_course = None"
  "ac_slack sample_llm_course = None"
  by (simp_all add: sample_llm_request_def sample_llm_course_def)

lemma sample_llm_daily:
  "enforce_daily_analysis_limit (sample_llm_env g) (sample_llm_session limit) 7 None ''system'' = Inr ()"
  by (simp add: enforce_daily_analysis_limit_def sample_llm_quota sample_llm_actor system_quota_def
      count_requests_in_window_def count_where_def Let_def)

lemma sample_llm_abuse: "enforce_global_abuse_guard (sample_llm_env g) s rt = (Inr (), rt)"
  by (simp add: enforce_global_abuse_guard_def Let_def) (simp add: sample_llm_settings_def)

lemma sample_llm_authorized:
  "pre_authorize (sample_llm_env False) (sample_llm_session limit) 7 None ''system'' rt = (Inr False, rt)"
  by (simp add: pre_authorize_def sample_llm_daily sample_llm_abuse)

lemma sample_llm_guards:
  "enforce_fair_use_guards (sample_llm_env True) (sample_llm_session limit) 7 PRO sample_llm_runtime =
    (Inr True, set_local_count (fair_use_inflight_key 7) (Some 1) sample_llm_runtime)"
  by (simp add: enforce_fair_use_guards_def fair_use_tier_allowed_def soft_daily_gate_def per_minute_gate_def
      concurrency_gate_def acquire_fair_use_inflight_slot_def acquire_local_def local_count_def sample_llm_runtime_def
      fair_use_daily_soft_cap_def count_requests_in_window_def count_where_def Let_def sample_llm_settings_def)

lemma sample_llm_admitted:
  "pre_authorize (sample_llm_env True) (sample_llm_session limit) 7 None ''system'' sample_llm_runtime =
    (Inr True, set_local_count (fair_use_inflight_key 7) (Some 1) sample_llm_runtime)"
  by (simp add: pre_authorize_def sample_llm_daily sample_llm_abuse sample_llm_guards)

lemma sample_llm_choice:
  "admit_model ''groq'' ''groq'' sample_llm_model None = (''groq'', sample_llm_model, None)"
  "lower ''groq'' = ''groq''" "text_or None sample_llm_model = sample_llm_model"
  "text_or (Some sample_llm_model) x = sample_llm_model"
  by (code_simp, code_simp, simp add: text_or_def, simp add: text_or_def sample_llm_model_def)

lemma sample_llm_keys [simp]:
  "lb_openai_api_key (sample_llm_budget limit) = None" "lb_claude_api_key (sample_llm_budget limit) = None"
  "lb_google_api_key (sample_llm_budget limit) = None" "lb_groq_api_key (sample_llm_budget limit) = None"
  "lb_preferred_provider (sample_llm_budget limit) = ''groq''" "lb_alert_threshold_percent (sample_llm_budget limit) = 80"
  by (simp_all add: sample_llm_budget_def bootstrap_budget_def)

end
