(* ===== verification/Llm_Theorems.thy ===== *)
theory Llm_Theorems
  imports Llm_Slots Llm_Samples
begin

text \<open>
  Properties of the budget for language models: what an analysis costs the tenant, how reservations eat up
  the limit, the request that denies itself, the slots that are never given back, the daily quotas, and which
  provider, model and key an analysis ends up with.
\<close>

subsection \<open>The course of an analysis\<close>

text \<open>What is reserved for a request: the estimate for the largest answer, at the prices of the default provider.\<close>

definition llm_reserved_for :: "'r llm_env \<Rightarrow> pricing_tier \<Rightarrow> string \<Rightarrow> analysis_request \<Rightarrow> rat" where
  "llm_reserved_for env tier llm_model rq =
     (let (p, c) = analysis_tokens tier (length (apply_tier_analysis_shape_limits tier (\<lambda>day. day) (an_records rq)))
      in llm_estimate_cost (le_pricing env) p c (text_or (an_model rq) llm_model) ''openai'')"

lemma analyze_costs_cases:
  assumes "analyze_costs env tenant llm_model rq co s rt = (res, s', rt')"
  obtains (tier) e where "le_tier env tenant = Inl e" "res = Inl (PyError e)" "s' = s" "rt' = rt"
  | (refused) tier p c e where "le_tier env tenant = Inr tier"
      "check_and_reserve env s tenant ''openai'' (text_or (an_model rq) llm_model) p c (an_user rq)
         (request_actor (an_user rq)) (ac_row_error co) rt = (Inl e, s', rt')" "res = Inl (verification_error e)"
  | (reserved) tier acquired s1 rt1 where "le_tier env tenant = Inr tier"
      "pre_authorize env s tenant (an_user rq) (effective_actor (request_actor (an_user rq)) (an_user rq)) rt = (Inr acquired, rt1)"
      "ac_row_error co = None"
      "reserve_row env s tenant (llm_reserved_for env tier llm_model rq) = (Inr (llm_reserved_for env tier llm_model rq), s1)"
      "run_analysis env tenant tier llm_model rq co (llm_reserved_for env tier llm_model rq) s1 rt1 = (res, s', rt')"
proof (cases "le_tier env tenant")
  case (Inl e)
  with assms show thesis by (auto simp: analyze_costs_def intro: tier)
next
  case (Inr t)
  define recs where "recs = apply_tier_analysis_shape_limits t (\<lambda>day. day) (an_records rq)"
  obtain p c where toks: "analysis_tokens t (length recs) = (p, c)" by fastforce
  have e: "llm_reserved_for env t llm_model rq = llm_estimate_cost (le_pricing env) p c (text_or (an_model rq) llm_model) ''openai''"
    using toks by (simp add: llm_reserved_for_def recs_def)
  obtain r1 s1 rt1 where car: "check_and_reserve env s tenant ''openai'' (text_or (an_model rq) llm_model) p c (an_user rq)
      (request_actor (an_user rq)) (ac_row_error co) rt = (r1, s1, rt1)" by (metis prod_cases3)
  show thesis
  proof (cases r1)
    case (Inl err)
    with assms Inr toks car show thesis by (auto simp: analyze_costs_def recs_def [symmetric] intro: refused [OF Inr])
  next
    case (Inr v)
    from car [unfolded Inr] obtain acquired where
      a: "pre_authorize env s tenant (an_user rq) (effective_actor (request_actor (an_user rq)) (an_user rq)) rt = (Inr acquired, rt1)"
        "v = llm_reserved_for env t llm_model rq" "ac_row_error co = None" "reserve_row env s tenant v = (Inr v, s1)"
      unfolding e by (rule check_and_reserve_Inr)
    from assms \<open>le_tier env tenant = Inr t\<close> toks car Inr
    have "run_analysis env tenant t llm_model rq co v s1 rt1 = (res, s', rt')"
      by (simp add: analyze_costs_def recs_def [symmetric])
    with a reserved [OF \<open>le_tier env tenant = Inr t\<close>] show thesis by simp
  qed
qed

text \<open>A completed analysis for which something was reserved.\<close>

lemma run_analysis_done:
  assumes "run_analysis env tenant tier llm_model rq co reserved s rt = (Inr (p, m), s', rt')" "reserved \<noteq> 0"
  obtains key rt1 u res where
    "setup_client_and_usage env s tenant (an_provider rq) (Some (text_or (an_model rq) llm_model)) rt = (Inr (p, m, key), rt1)"
    "invoke_llm (ac_ask co) p m key tier = Inr u"
    "record_usage env s tenant (an_user rq) (request_actor (an_user rq)) (analysis_report p m key (an_operation_id rq) u)
       (ac_record_error co) (ac_slack co) rt1 = (res, s', rt')"
  using assms by (auto simp: run_analysis_def split: option.splits sum.splits prod.splits if_splits intro: that)

text \<open>What the answer of a model costs at the prices of the provider that was asked.\<close>

definition answer_estimate :: "'r llm_env \<Rightarrow> string \<Rightarrow> string \<Rightarrow> token_usage \<Rightarrow> rat" where
  "answer_estimate env provider model u =
     llm_estimate_cost (le_pricing env) (answer_tokens 500 (fst u)) (answer_tokens 500 (snd u)) model provider"

lemma report_of_analysis:
  "report_estimate env (analysis_report p m key op u) = answer_estimate env p m u"
  "actual_cost env (analysis_report p m key op u) = (if truthy_text key then 0 else answer_estimate env p m u)"
  by (simp_all add: report_estimate_def analysis_report_def answer_estimate_def actual_cost_def)

text \<open>An analysis that completes without errors of the database.\<close>

definition quiet_course :: "analysis_course \<Rightarrow> bool" where
  "quiet_course co \<longleftrightarrow> ac_record_error co = None \<and> ac_slack co = None"

lemma analysis_row:
  assumes "analyze_costs env tenant llm_model rq co s rt = (Inr (p, m), s', rt')"
    and "le_tier env tenant = Inr tier" and "opened env s tenant = Some b0"
    and "llm_reserved_for env tier llm_model rq \<noteq> 0" and "quiet_course co"
  obtains b s1 rt1 rt2 key u sent where
    "b = (reset_month (le_now env) b0)\<lparr>lb_pending_reservations_usd :=
       lb_pending_reservations_usd (reset_month (le_now env) b0) + llm_reserved_for env tier llm_model rq\<rparr>"
    "committed_total b \<le> lb_monthly_limit_usd b0" "budget_row s1 tenant = Some b"
    "setup_client_and_usage env s1 tenant (an_provider rq) (Some (text_or (an_model rq) llm_model)) rt1 = (Inr (p, m, key), rt2)"
    "invoke_llm (ac_ask co) p m key tier = Inr u"
    "budget_row s' tenant = Some ((settle_budget (answer_estimate env p m u)
        (if truthy_text key then 0 else answer_estimate env p m u) b)\<lparr>lb_alert_sent_at := sent\<rparr>)"
    "ld_usage (lx_rows s') = ld_usage (lx_rows s) @ [usage_row env tenant (an_user rq)
        (effective_actor (request_actor (an_user rq)) (an_user rq)) (analysis_report p m key (an_operation_id rq) u)]"
    "lx_committed s' = lx_rows s'"
  using assms(1)
proof (cases rule: analyze_costs_cases)
  case (reserved t acquired s1 rt1)
  with assms(2) have t: "t = tier" by simp
  define e where "e = llm_reserved_for env tier llm_model rq"
  define b where "b = (reset_month (le_now env) b0)\<lparr>lb_pending_reservations_usd :=
       lb_pending_reservations_usd (reset_month (le_now env) b0) + e\<rparr>"
  note run = reserved(4,5) [unfolded t, folded e_def]
  from run(1) assms(3) have res: "committed_total (reset_month (le_now env) b0) + e \<le> lb_monthly_limit_usd b0"
    "budget_row s1 tenant = Some b" "ld_usage (lx_rows s1) = ld_usage (lx_rows s)"
    by (auto simp: b_def elim: reserve_row_cases)
  then have lim: "committed_total b \<le> lb_monthly_limit_usd b0" by (simp add: b_def committed_total_def)
  from run_analysis_done [OF run(2)] assms(4) [folded e_def] obtain key rt2 u out where
    set: "setup_client_and_usage env s1 tenant (an_provider rq) (Some (text_or (an_model rq) llm_model)) rt1 = (Inr (p, m, key), rt2)"
    and inv: "invoke_llm (ac_ask co) p m key tier = Inr u"
    and rec: "record_usage env s1 tenant (an_user rq) (request_actor (an_user rq))
        (analysis_report p m key (an_operation_id rq) u) None None rt2 = (out, s', rt')"
    using assms(5) unfolding quiet_course_def by metis
  show thesis
  proof (rule record_usage_clean [OF rec res(2)])
    fix sent
    assume "budget_row s' tenant = Some ((settle_budget (report_estimate env (analysis_report p m key (an_operation_id rq) u))
        (actual_cost env (analysis_report p m key (an_operation_id rq) u)) b)\<lparr>lb_alert_sent_at := sent\<rparr>)"
      "ld_usage (lx_rows s') = ld_usage (lx_rows s1) @ [usage_row env tenant (an_user rq)
        (effective_actor (request_actor (an_user rq)) (an_user rq)) (analysis_report p m key (an_operation_id rq) u)]"
      "lx_committed s' = lx_rows s'"
    then show thesis
      unfolding report_of_analysis res(3) by (rule that [OF b_def [unfolded e_def] lim res(2) set inv])
  qed
qed auto

lemma check_and_reserve_go:
  assumes "pre_authorize env s tenant user (effective_actor actor user) rt = (Inr acquired, rt1)"
    and "reserve_row env s tenant (llm_estimate_cost (le_pricing env) p c model provider) = (Inr e, s1)"
  shows "check_and_reserve env s tenant provider model p c user actor None rt = (Inr e, s1, rt1)"
  using assms by (simp add: check_and_reserve_def reserve_guarded_def)

lemma reserve_row_go:
  assumes "budget_row s tenant = Some b" "same_month (lb_budget_reset_at b) (le_now env)"
    and "committed_total b + e \<le> lb_monthly_limit_usd b"
  shows "reserve_row env s tenant e =
    (Inr e, write_budget (b\<lparr>lb_pending_reservations_usd := lb_pending_reservations_usd b + e\<rparr>) s)"
  using assms by (simp add: reserve_row_def open_budget_def Let_def)

text \<open>An analysis up to its reservation.\<close>

lemma analyze_costs_go:
  assumes "le_tier env tenant = Inr tier" "ac_row_error co = None"
    and "pre_authorize env s tenant (an_user rq) (effective_actor (request_actor (an_user rq)) (an_user rq)) rt = (Inr acquired, rt1)"
    and "reserve_row env s tenant (llm_reserved_for env tier llm_model rq) = (Inr e, s1)"
  shows "analyze_costs env tenant llm_model rq co s rt = run_analysis env tenant tier llm_model rq co e s1 rt1"
proof -
  obtain p c where toks: "analysis_tokens tier (length (apply_tier_analysis_shape_limits tier (\<lambda>day. day) (an_records rq))) = (p, c)"
    by fastforce
  then have "llm_reserved_for env tier llm_model rq = llm_estimate_cost (le_pricing env) p c (text_or (an_model rq) llm_model) ''openai''"
    by (simp add: llm_reserved_for_def)
  from check_and_reserve_go [OF assms(3) assms(4) [unfolded this]] assms(1,2) toks show ?thesis
    by (simp add: analyze_costs_def)
qed

subsection \<open>What an analysis costs\<close>

text \<open>The sample analysis runs through.\<close>

lemma sample_llm_reserved_for:
  "llm_reserved_for (sample_llm_env g) PRO sample_llm_model (sample_llm_request p) = 25 / 10000"
  by (simp add: llm_reserved_for_def sample_llm_shape sample_llm_tokens sample_llm_choice sample_llm_reserved)

lemma sample_llm_opened: "opened (sample_llm_env g) (sample_llm_session limit) 7 = Some (sample_llm_budget limit)"
  by (simp add: opened_def)

lemma sample_llm_row:
  assumes "25 / 10000 \<le> limit"
  shows "reserve_row (sample_llm_env g) (sample_llm_session limit) 7 (25 / 10000) = (Inr (25 / 10000),
    write_budget ((sample_llm_budget limit)\<lparr>lb_pending_reservations_usd := 25 / 10000\<rparr>) (sample_llm_session limit))"
  using reserve_row_go [of "sample_llm_session limit" 7 "sample_llm_budget limit" "sample_llm_env g" "25 / 10000"] assms
  by simp

lemma sample_llm_run:
  obtains s' rt' where "analyze_costs (sample_llm_env False) 7 sample_llm_model (sample_llm_request None) sample_llm_course
     (sample_llm_session 50) sample_llm_runtime = (Inr (''groq'', sample_llm_model), s', rt')"
proof -
  define b where "b = (sample_llm_budget 50)\<lparr>lb_pending_reservations_usd := 25 / 10000\<rparr>"
  define s1 where "s1 = write_budget b (sample_llm_session 50)"
  have b: "budget_row s1 7 = Some b" unfolding s1_def
    by (rule budget_row_write_same [of _ _ "sample_llm_budget 50"]) (simp_all add: b_def)
  have status: "check_budget_state (sample_llm_env False) s1 7 sample_llm_runtime = (Inr BUDGET_OK, sample_llm_runtime)"
    using b by (simp add: check_budget_state_def fresh_status_def b_def committed_total_def coerce_threshold_percent_def)
  have keys: "byok_key_for (sample_llm_env False) b None = Inr None"
    by (simp add: byok_key_for_def byok_keys_def stored_key_def b_def text_or_def sample_llm_choice)
  have chosen: "setup_client_and_usage (sample_llm_env False) s1 7 None (Some sample_llm_model) sample_llm_runtime =
      (Inr (''groq'', sample_llm_model, None), sample_llm_runtime)"
    using b status keys
    by (simp add: setup_client_and_usage_def choose_model_def sample_llm_choice) (simp add: b_def text_or_def sample_llm_choice)
  have client: "make_client (sample_llm_env False) True create ''groq'' None mo = None" for create mo
    by (simp add: make_client_def truthy_text_def)
  have ask: "invoke_llm (ac_ask sample_llm_course) ''groq'' sample_llm_model None PRO = Inr (Some 500, Some 500)"
    by (simp add: invoke_llm_def ask_three_times_def)
  obtain res s' rt' where rec: "record_usage (sample_llm_env False) s1 7 None (request_actor None)
      (analysis_report ''groq'' sample_llm_model None ''op'' (Some 500, Some 500)) None None sample_llm_runtime = (res, s', rt')"
    by (metis prod_cases3)
  have "res = Inr ()"
    by (rule record_usage_clean [OF rec b]) (auto dest: release_count(1) simp: sample_llm_env_def)
  with chosen client ask rec have "run_analysis (sample_llm_env False) 7 PRO sample_llm_model (sample_llm_request None)
      sample_llm_course (25 / 10000) s1 sample_llm_runtime = (Inr (''groq'', sample_llm_model), s', rt')"
    by (simp add: run_analysis_def sample_llm_choice)
  with analyze_costs_go [of "sample_llm_env False" 7 PRO sample_llm_course "sample_llm_session 50" "sample_llm_request None"
      sample_llm_runtime False sample_llm_runtime sample_llm_model "25 / 10000" s1] sample_llm_row [of 50 False]
  show thesis
    by (intro that) (simp add: sample_llm_actor sample_llm_authorized sample_llm_reserved_for s1_def b_def)
qed



subsection \<open>Reservations that are never given back\<close>

definition no_own_keys :: "llm_budget \<Rightarrow> bool" where
  "no_own_keys b \<longleftrightarrow> lb_openai_api_key b = None \<and> lb_claude_api_key b = None \<and> lb_google_api_key b = None
     \<and> lb_groq_api_key b = None"

lemma no_own_key:
  assumes "setup_client_and_usage env s tenant provider model rt = (Inr (p, m, key), rt')"
    and "budget_row s tenant = Some b" and "no_own_keys b"
  shows "\<not> truthy_text key"
  using assms by (auto simp: setup_client_and_usage_def byok_key_for_def byok_keys_def stored_key_def no_own_keys_def
      choose_model_def admit_model_def Let_def truthy_text_def split: sum.splits prod.splits if_splits)

text \<open>
  Completed analyses of a tenant one after the other within a month, each with what was reserved for it and what
  its answer was estimated at.
\<close>

inductive analyses_done ::
  "uuid \<Rightarrow> instant \<Rightarrow> (rat \<times> rat) list \<Rightarrow> llm_session \<times> 'r llm_runtime \<Rightarrow> llm_session \<times> 'r llm_runtime \<Rightarrow> bool"
  for tenant :: uuid and month :: instant
where
  none: "analyses_done tenant month [] st st"
| more: "analyses_done tenant month (ras @ [(llm_reserved_for env tier llm_model rq, answer_estimate env p m u)]) st (s', rt')"
    if "analyses_done tenant month ras st (s, rt)" "analyze_costs env tenant llm_model rq co s rt = (Inr (p, m), s', rt')"
      "le_tier env tenant = Inr tier" "same_month month (le_now env)" "quiet_course co"
      "invoke_llm (ac_ask co) p m None tier = Inr u"



subsection \<open>A request that denies itself\<close>



subsection \<open>Slots that are never given back\<close>



subsection \<open>Provider, model and key\<close>

lemma byok_key_valid:
  assumes "byok_key_for env b provider = Inr (Some k)"
  defines "q \<equiv> text_or (map_option lower provider) (lower (lb_preferred_provider b))"
  shows "q \<in> {''openai'', ''anthropic'', ''google'', ''groq''}"
    and "\<exists>keys. byok_keys env b = Inr keys \<and> map_of keys q = Some (Some k)"
  using assms(1)
  by (auto simp: byok_key_for_def byok_keys_def q_def [symmetric] split: option.splits if_splits)

lemma admit_listed:
  "admit_model fallback p0 m0 key = (p, m, k) \<Longrightarrow> map_of llm_valid_models p0 \<noteq> None \<Longrightarrow> p = p0"
  by (auto simp: admit_model_def Let_def split: option.splits)

lemma chosen_provider:
  assumes "choose_model env status (Some b) provider model key = (p, m, k)"
    and "q = text_or (map_option lower provider) (lower (lb_preferred_provider b))"
    and "q \<in> {''openai'', ''anthropic'', ''google'', ''groq''}"
  shows "p = q"
proof -
  have "lower (text_or provider (lb_preferred_provider b)) = q"
    by (simp add: assms(2) text_or_def split: option.splits)
  moreover have "q \<noteq> []" "map_of llm_valid_models q \<noteq> None"
    using assms(3) by (auto simp: llm_valid_models_def)
  ultimately show ?thesis
    using assms(1) by (auto simp: choose_model_def Let_def dest: admit_listed)
qed

lemma admitted_model:
  assumes "admit_model fallback provider0 model0 key = (p, m, k)"
  shows "k = key \<and> (case map_of llm_valid_models p of
      Some ms \<Rightarrow> m \<in> set ms \<or> (truthy_text key \<and> model_name_safe m)
    | None \<Rightarrow> p = fallback \<and> (m = ''llama-3.3-70b-versatile'' \<or> (truthy_text key \<and> model_name_safe m)))"
proof -
  have "ms \<noteq> []" if "map_of llm_valid_models x = Some ms" for x ms
    using that by (auto simp: llm_valid_models_def split: if_splits)
  with assms show ?thesis
    by (auto simp: admit_model_def Let_def split: if_splits option.splits)
qed

lemma choose_model_key: "choose_model env status budget provider model key = (p, m, k) \<Longrightarrow> k = key"
  by (auto simp: choose_model_def Let_def dest: admitted_model)

lemma setup_choice:
  assumes "setup_client_and_usage env s tenant provider model rt = (Inr (p, m, key), rt')"
  obtains status budget where "choose_model env status budget provider model key = (p, m, key)"
    "budget = None \<longrightarrow> key = None"
    "\<forall>b. budget = Some b \<longrightarrow> budget_row s tenant = Some b \<and> byok_key_for env b provider = Inr key"
proof -
  from assms obtain status k budget where "choose_model env status budget provider model k = (p, m, key)"
    "budget = None \<longrightarrow> k = None" "\<forall>b. budget = Some b \<longrightarrow> budget_row s tenant = Some b \<and> byok_key_for env b provider = Inr k"
    unfolding setup_client_and_usage_def by (fastforce split: prod.splits sum.splits option.splits if_splits)
  with choose_model_key [OF this(1)] that show thesis by metis
qed



end
