(* ===== verification/Llm_Runs.thy ===== *)
theory Llm_Runs
  imports Llm_Theorems
begin

text \<open>
  Runs of the analysis job: the daily quota of a tenant along its loop, what becomes of connections whose provider is taken for a
  provider of models, and the guard over all tenants in the session of one.
\<close>

subsection \<open>The daily quota\<close>

definition usage_on_day :: "uuid \<Rightarrow> instant \<Rightarrow> llm_db \<Rightarrow> nat" where
  "usage_on_day t now db = count_where (counted_request t (day_start now) (Some (day_end now)) None None) (ld_usage db)"

definition sees_tenant :: "llm_session \<Rightarrow> uuid \<Rightarrow> bool" where
  "sees_tenant s t \<longleftrightarrow> lx_scope s = None \<or> lx_scope s = Some t"

lemma count_visible:
  assumes "sees_tenant s t"
  shows "count_requests_in_window s t (day_start now) (Some (day_end now)) None None = int (usage_on_day t now (lx_rows s))"
proof -
  have "count_where (counted_request t (day_start now) (Some (day_end now)) None None) (filter (\<lambda>u. lu_tenant_id u = t) us)
      = count_where (counted_request t (day_start now) (Some (day_end now)) None None) us" for us
    unfolding count_where_def by (induction us) (auto simp: counted_request_def)
  then show ?thesis
    using assms by (auto simp: count_requests_in_window_def usage_on_day_def visible_usage_def sees_tenant_def)
qed

lemma usage_on_day_append:
  "ld_usage db' = ld_usage db @ [u] \<Longrightarrow> usage_on_day t now db' \<le> Suc (usage_on_day t now db)"
  by (simp add: usage_on_day_def count_where_def)

lemma usage_on_day_same: "ld_usage db' = ld_usage db \<Longrightarrow> usage_on_day t now db' = usage_on_day t now db"
  by (simp add: usage_on_day_def)

text \<open>The counts of the day, of what the session sees and of what is committed, stay within a bound.\<close>

definition quota_ok :: "uuid \<Rightarrow> instant \<Rightarrow> nat \<Rightarrow> llm_session \<Rightarrow> bool" where
  "quota_ok t now n s \<longleftrightarrow> sees_tenant s t
     \<and> usage_on_day t now (lx_rows s) \<le> n \<and> usage_on_day t now (lx_committed s) \<le> n"

lemma reserve_row_usage:
  assumes "reserve_row env s t e = (r, s')"
  shows "ld_usage (lx_rows s') = ld_usage (lx_rows s)" "lx_committed s' = lx_committed s" "lx_scope s' = lx_scope s"
  using assms
  by (auto simp: reserve_row_def open_budget_def Let_def llm_views split: option.splits sum.splits prod.splits if_splits)

lemma reserve_row_quota: "reserve_row env s t e = (r, s') \<Longrightarrow> quota_ok t now n s' = quota_ok t now n s"
  by (auto simp: quota_ok_def sees_tenant_def reserve_row_usage usage_on_day_same [OF reserve_row_usage(1)])

lemma check_and_reserve_quota:
  assumes "check_and_reserve env s t provider model p c user actor row_error rt = (r, s', rt')"
  shows "quota_ok t now n s' = quota_ok t now n s"
proof (cases "row_error")
  case None
  with assms show ?thesis
    by (auto simp: check_and_reserve_def reserve_guarded_def Let_def dest: reserve_row_quota split: prod.splits sum.splits)
next
  case (Some e)
  with assms show ?thesis
    by (auto simp: check_and_reserve_def reserve_guarded_def Let_def split: prod.splits sum.splits)
qed

lemma write_usage_quota:
  shows "ld_usage (lx_rows (write_usage env t user actor r s)) = ld_usage (lx_rows s) @ [usage_row env t user (effective_actor actor user) r]"
    and "lx_committed (write_usage env t user actor r s) = lx_committed s"
    and "lx_scope (write_usage env t user actor r s) = lx_scope s"
  by (simp_all add: write_usage_def Let_def llm_views split: option.splits)

lemma alert_quota:
  assumes "check_budget_and_alert env t slack s = (r, s')" "lx_committed s = lx_rows s" "quota_ok t now n s"
  shows "quota_ok t now n s'"
  using assms
  by (auto simp: check_budget_and_alert_def Let_def quota_ok_def sees_tenant_def llm_views llm_commit_def
      usage_on_day_def split: option.splits if_splits)

lemma record_usage_quota:
  assumes "record_usage env s t user actor r row_error slack rt = (res, s', rt')"
    and "quota_ok t now n s" "usage_on_day t now (lx_rows s) < n"
  shows "quota_ok t now n s'"
proof -
  define w where "w = write_usage env t user actor r s"
  have "usage_on_day t now (lx_rows w) \<le> n"
    using usage_on_day_append [OF write_usage_quota(1), of t now env t user actor r s] assms(3) by (simp add: w_def)
  then have w: "quota_ok t now n w" "quota_ok t now n (llm_commit w)"
    using assms(2) by (auto simp: quota_ok_def sees_tenant_def w_def write_usage_quota llm_commit_def)
  have roll: "quota_ok t now n (llm_rollback x)" if "quota_ok t now n x" for x
    using that by (simp add: quota_ok_def sees_tenant_def llm_rollback_def)
  have "quota_ok t now n x" if "(case row_error of Some e \<Rightarrow> (Inl e, w)
      | None \<Rightarrow> check_budget_and_alert env t slack (llm_commit w)) = (out, x)" for out x
    using that w by (auto split: option.splits intro: alert_quota simp: llm_commit_def)
  then show ?thesis
    using assms(1) roll unfolding record_usage_def w_def [symmetric]
    by (auto simp: Let_def split: prod.splits sum.splits if_splits)
qed

lemma analyze_costs_quota:
  assumes "analyze_costs env t llm_model rq co s rt = (res, s', rt')" "le_tier env t = Inr tier"
    and "get_tier_limit (Tier tier) ''llm_analyses_per_day'' = Some d" "nat d \<le> n" "quota_ok t (le_now env) n s"
  shows "quota_ok t (le_now env) n s'"
  using assms(1)
proof (cases rule: analyze_costs_cases)
  case (tier e)
  with assms(2) show ?thesis by simp
next
  case (refused t1 p c e)
  from check_and_reserve_quota [OF refused(2)] assms(5) show ?thesis by simp
next
  case (reserved t1 acquired s1 rt1)
  from pre_authorize_quota [OF reserved(2)] assms(2,3) count_visible [of s t "le_now env"] assms(5)
  have "int (usage_on_day t (le_now env) (lx_rows s)) < d"
    by (auto simp: enforce_daily_analysis_limit_def Let_def quota_ok_def split: if_splits)
  then have less: "usage_on_day t (le_now env) (lx_rows s1) < n"
    using assms(4) usage_on_day_same [OF reserve_row_usage(1) [OF reserved(4)], of t "le_now env"] by simp
  have ok: "quota_ok t (le_now env) n s1" using reserve_row_quota [OF reserved(4)] assms(5) by simp
  from reserved(5) show ?thesis
    using ok record_usage_quota [OF _ ok less]
    by (auto simp: run_analysis_def split: option.splits sum.splits prod.splits if_splits)
qed

text \<open>What every analysis keeps of the session, the loop keeps.\<close>

lemma finops_keeps:
  assumes step: "\<And>rq co s rt res s' rt'. analyze_costs env t llm_model rq co s rt = (res, s', rt') \<Longrightarrow> P s \<Longrightarrow> P s'"
  shows "finops_analysis env t llm_model requests s rt = (res, s', rt') \<Longrightarrow> P s \<Longrightarrow> P s'"
proof (induction requests arbitrary: s rt res s' rt')
  case (Cons r rest)
  obtain rq co where r: "r = (rq, co)" by fastforce
  obtain q s1 rt1 where one: "analyze_costs env t llm_model rq co s rt = (q, s1, rt1)" by (metis prod_cases3)
  note P1 = step [OF one Cons.prems(2)]
  have "s' = s1 \<or> (\<exists>res1 rt2. finops_analysis env t llm_model rest s1 rt1 = (res1, s', rt2))"
    using Cons.prems(1) one by (auto simp: r split: sum.splits prod.splits if_splits)
  with P1 Cons.IH show ?case by auto
qed simp

text \<open>
  C39. Along the loop of the analysis job, whatever of its analyses fail and whatever is rolled back, the requests of
  the tenant counted for the day do not go beyond the quota of its tier, or stay at what they were if they already had.
\<close>

theorem daily_quota_kept:
  assumes "finops_analysis env t llm_model requests s rt = (res, s', rt')" and "le_tier env t = Inr tier"
    and "get_tier_limit (Tier tier) ''llm_analyses_per_day'' = Some d" and "sees_tenant s t"
    and "n = max (nat d) (max (usage_on_day t (le_now env) (lx_rows s)) (usage_on_day t (le_now env) (lx_committed s)))"
  shows "usage_on_day t (le_now env) (lx_rows s') \<le> n \<and> usage_on_day t (le_now env) (lx_committed s') \<le> n"
proof -
  have n: "nat d \<le> n" and start: "quota_ok t (le_now env) n s"
    using assms(4,5) by (auto simp: quota_ok_def)
  have "quota_ok t (le_now env) n s'"
    by (rule finops_keeps [where P = "quota_ok t (le_now env) n", OF _ assms(1) start])
      (rule analyze_costs_quota [OF _ assms(2,3) n])
  then show ?thesis by (simp add: quota_ok_def)
qed

lemma daily_quota_kept_witness:
  "\<exists>res s' rt'. finops_analysis (sample_llm_env False) 7 sample_llm_model [(sample_llm_request None, sample_llm_course)]
      (sample_llm_session 50) sample_llm_runtime = (res, s', rt') \<and> usage_on_day 7 0 (lx_rows s') \<le> 100"
proof -
  obtain res s' rt' where run: "finops_analysis (sample_llm_env False) 7 sample_llm_model
      [(sample_llm_request None, sample_llm_course)] (sample_llm_session 50) sample_llm_runtime = (res, s', rt')"
    by (metis prod_cases3)
  have "usage_on_day 7 0 (lx_rows (sample_llm_session 50)) = 0" "usage_on_day 7 0 (lx_committed (sample_llm_session 50)) = 0"
    by (simp_all add: usage_on_day_def count_where_def)
  with daily_quota_kept [OF run _ sample_llm_quota(1) _ refl] run show ?thesis
    by (simp add: sees_tenant_def)
qed

subsection \<open>Connections taken for providers of models\<close>

text \<open>A provider that is not one of models is replaced by the configured one, without a key of the tenant.\<close>

lemma cloud_provider_replaced:
  assumes "setup_client_and_usage env s t (Some cp) model rt = (Inr (p, m, key), rt')"
    and "cp \<noteq> []" "map_of llm_valid_models (lower cp) = None"
  shows "p = st_llm_provider (le_settings env) \<and> key = None"
  using assms(1)
proof (rule setup_choice)
  fix status budget
  assume ch: "choose_model env status budget (Some cp) model key = (p, m, key)"
    and none: "budget = None \<longrightarrow> key = None"
    and some: "\<forall>b. budget = Some b \<longrightarrow> budget_row s t = Some b \<and> byok_key_for env b (Some cp) = Inr key"
  have "lower cp \<notin> {''openai'', ''anthropic'', ''google'', ''groq''}"
    using assms(3) by (auto simp: llm_valid_models_def)
  then have "key = None"
    using none some byok_key_valid(1) [of env _ "Some cp"] assms(2) by (cases budget; cases key) (auto simp: text_or_def)
  with ch assms(2,3) show ?thesis
    by (auto simp: choose_model_def admit_model_def Let_def text_or_def split: option.splits)
qed

lemma listed_provider_kept:
  assumes "setup_client_and_usage env s t (Some cp) model rt = (Inr (p, m, key), rt')"
    and "cp \<noteq> []" "map_of llm_valid_models (lower cp) \<noteq> None"
  shows "p = lower cp"
  using assms(1)
proof (rule setup_choice)
  fix status budget
  assume "choose_model env status budget (Some cp) model key = (p, m, key)"
  with assms(2,3) show ?thesis
    by (auto simp: choose_model_def Let_def text_or_def dest: admit_listed)
qed

text \<open>
  An analysis for a connection to Azure never succeeds, because the factory has no clients for the provider of
  that name: where everything before that succeeds, it ends in an error after which the job goes on with the next connection,
  with the reservation still pending in the session and the slot still taken.
\<close>

theorem azure_analysis_fails:
  assumes "an_provider rq = Some ''azure''" and "st_llm_provider (le_settings env) \<noteq> ''azure''"
  shows "(\<exists>e. fst (analyze_costs env t llm_model rq co s rt) = Inl e)
    \<and> (\<forall>tier b rt1 acquired. le_tier env t = Inr tier \<and> le_redis env = None \<and> budget_row s t = Some b \<and> no_own_keys b
        \<and> same_month (lb_budget_reset_at b) (le_now env) \<and> ac_row_error co = None \<and> ac_prepare co = None
        \<and> committed_total b + llm_reserved_for env tier llm_model rq < lb_monthly_limit_usd b
        \<and> pre_authorize env s t (an_user rq) (effective_actor (request_actor (an_user rq)) (an_user rq)) rt = (Inr acquired, rt1) \<longrightarrow>
        (\<exists>s'. analyze_costs env t llm_model rq co s rt = (Inl (PyError (ValueError ''Unsupported provider'')), s', rt1)
          \<and> finops_recoverable (PyError (ValueError ''Unsupported provider''))
          \<and> budget_row s' t = Some (b\<lparr>lb_pending_reservations_usd :=
              lb_pending_reservations_usd b + llm_reserved_for env tier llm_model rq\<rparr>)))"
proof -
  have az: "''azure'' \<noteq> []" "map_of llm_valid_models (lower ''azure'') \<noteq> None" "lower ''azure'' = ''azure''"
    by (simp_all add: llm_valid_models_def lower_def lower_char_def)
  have made: "make_client env binds create ''azure'' key mo = Some (ValueError ''Unsupported provider'')" for binds create key mo
    using assms(2) by (auto simp: make_client_def factory_create_def factory_providers_def az(3))
  have set: "p = ''azure''" if "setup_client_and_usage env s1 t (an_provider rq) model rt1 = (Inr (p, m, key), rt2)"
    for s1 model rt1 p m key rt2
    using listed_provider_kept [OF that [unfolded assms(1)] az(1,2)] az(3) by simp
  have run: "\<exists>e. fst (run_analysis env t tier llm_model rq co e0 s1 rt1) = Inl e" for tier e0 s1 rt1
    by (auto simp: run_analysis_def made dest!: set split: option.splits sum.splits prod.splits)
  have "\<exists>e. fst (analyze_costs env t llm_model rq co s rt) = Inl e"
    using run by (auto simp: analyze_costs_def split: sum.splits prod.splits)
  moreover have "\<exists>s'. analyze_costs env t llm_model rq co s rt = (Inl (PyError (ValueError ''Unsupported provider'')), s', rt1)
      \<and> budget_row s' t = Some (b\<lparr>lb_pending_reservations_usd :=
          lb_pending_reservations_usd b + llm_reserved_for env tier llm_model rq\<rparr>)"
    if h: "le_tier env t = Inr tier" "le_redis env = None" "budget_row s t = Some b" "no_own_keys b"
      "same_month (lb_budget_reset_at b) (le_now env)" "ac_row_error co = None" "ac_prepare co = None"
      "committed_total b + llm_reserved_for env tier llm_model rq < lb_monthly_limit_usd b"
      "pre_authorize env s t (an_user rq) (effective_actor (request_actor (an_user rq)) (an_user rq)) rt = (Inr acquired, rt1)"
    for tier b rt1 acquired
  proof -
    define e where "e = llm_reserved_for env tier llm_model rq"
    define b1 where "b1 = b\<lparr>lb_pending_reservations_usd := lb_pending_reservations_usd b + e\<rparr>"
    have row: "reserve_row env s t e = (Inr e, write_budget b1 s)"
      unfolding b1_def by (rule reserve_row_go [OF h(3,5)]) (use h(8) in \<open>simp add: e_def\<close>)
    have b1: "budget_row (write_budget b1 s) t = Some b1"
      using budget_row_write_same [OF h(3)] budget_row_tenant [OF h(3)] by (simp add: b1_def)
    have room: "\<not> lb_monthly_limit_usd b1 \<le> committed_total b1" "no_own_keys b1"
      using h(4,8) by (simp_all add: b1_def committed_total_def e_def no_own_keys_def)
    have "\<exists>status. check_budget_state env (write_budget b1 s) t rt1 = (Inr status, rt1) \<and> status \<noteq> HARD_LIMIT"
      using h(2) b1 room(1) by (simp add: check_budget_state_def fresh_status_def remember_status_def Let_def)
    moreover have "byok_key_for env b1 (an_provider rq) = Inr None"
      using room(2) by (simp add: byok_key_for_def byok_keys_def stored_key_def no_own_keys_def assms(1) text_or_def az(3))
    ultimately obtain p m k where "setup_client_and_usage env (write_budget b1 s) t (an_provider rq)
        (Some (text_or (an_model rq) llm_model)) rt1 = (Inr (p, m, k), rt1)"
      using b1 by (auto simp: setup_client_and_usage_def) (metis prod_cases3)
    with set [OF this] h(7) have "run_analysis env t tier llm_model rq co e (write_budget b1 s) rt1 =
        (Inl (PyError (ValueError ''Unsupported provider'')), write_budget b1 s, rt1)"
      by (simp add: run_analysis_def made)
    with analyze_costs_go [OF h(1,6,9) row [unfolded e_def]] b1 show ?thesis
      by (simp add: e_def b1_def)
  qed
  ultimately show ?thesis by simp
qed

lemma azure_analysis_fails_witness:
  "\<exists>s'. analyze_costs (sample_llm_env False) 7 sample_llm_model (sample_llm_request (Some ''azure'')) sample_llm_course
      (sample_llm_session 50) sample_llm_runtime = (Inl (PyError (ValueError ''Unsupported provider'')), s', sample_llm_runtime)
    \<and> budget_row s' 7 = Some ((sample_llm_budget 50)\<lparr>lb_pending_reservations_usd := 25 / 10000\<rparr>)"
proof -
  have "an_provider (sample_llm_request (Some ''azure'')) = Some ''azure''"
    "st_llm_provider (le_settings (sample_llm_env False)) \<noteq> ''azure''" by simp_all
  from azure_analysis_fails [OF this, THEN conjunct2, rule_format, of 7 PRO "sample_llm_session 50" "sample_llm_budget 50"
      sample_llm_course sample_llm_model sample_llm_runtime False sample_llm_runtime]
  show ?thesis
    by (simp add: no_own_keys_def sample_llm_reserved_for sample_llm_actor sample_llm_authorized)
qed

subsection \<open>The guard over all tenants\<close>

text \<open>
  In the session of one tenant the guard sees no other tenant, so that it never detects a burst over several.
\<close>

lemma abuse_guard_blind:
  assumes "lx_scope s = Some t" "1 < st_global_abuse_unique_tenants_threshold (le_settings env)"
  shows "\<not> abuse_triggered env s"
proof -
  have "set (map lu_tenant_id (recent_usage env s)) \<subseteq> {t}"
    using assms(1) by (auto simp: recent_usage_def visible_usage_def)
  then have "length (remdups (map lu_tenant_id (recent_usage env s))) \<le> 1"
    by (metis card_mono card.empty card_insert_disjoint empty_iff finite.emptyI finite_insert length_remdups_card_conv One_nat_def)
  with assms(2) show ?thesis by (simp add: abuse_triggered_def)
qed

end
