(* ===== verification/Spec2Isabelle.thy ===== *)
theory Spec2Isabelle
  imports Enf_Export_Theorems Enf_Worker Enf_Permissions Job_Theorems Price_Theorems Bill_Charges Gov_HardCap Opt_Theorems Rep_Theorems Llm_Runs
begin

text \<open>
  A verification library of Valdrics: the enforcement control plane (src/app/modules/enforcement) and the
  parts of the program it stands on or that stand beside it, the job queue, billing, exchange rates,
  subscription tiers, the audit log, the budget hard cap, the remediation of cloud resources, the
  attribution of costs, and the budget for analyses by language models.

  \<^bold>\<open>The program.\<close> Before a tenant's change to its cloud estate is carried out, the gate decides on
  its estimated monthly cost. The decision follows the tenant's policy (mode per source and
  environment, thresholds, approval routing) and a waterfall over plan ceiling, budget, reserved
  credit, emergency credit and enterprise ceiling. A decision that is let through reserves its
  amount; one that needs approval waits for a reviewer, whose approval issues a signed token that
  may be used once; the action behind a decision is queued and leased to workers; reservations are
  later reconciled with the actual cost or released when overdue. Everything is recorded in a
  ledger. Long work runs as jobs of a durable queue, which workers fetch in batches and retry. Billing
  is such work: a daily sweep enqueues the renewals that are due, a renewal converts the price of the
  plan at the official exchange rate and charges the stored card, the payment provider reports back by
  signed webhooks, and a failed charge starts dunning, which ends in recovery or a downgrade. The tier a
  tenant pays for decides its features and the ceilings of the gate; the audit log records who did what. Wasteful resources are remediated on
  request: a request is reviewed, waits for a grace period as a job of the queue, and is carried out by a
  strategy of its provider if guards and the tenant's policy let it; a budget at its hard limit and an
  autonomous engine review and execute without a person. The hard cap of a budget suspends every cloud
  connection of a tenant until an administrator reactivates them from the audit log. Costs that have been
  ingested are attributed to buckets by the rules of the tenant. An analysis by a language model passes quotas and
  guards, takes a slot for a call in flight, reserves its estimated cost in the budget of the tenant, calls a
  model of the tenant's choice, and records what it cost.

  \<^bold>\<open>State.\<close> The database is the record \<open>enf_db\<close> of Enf_Models: one list of rows per table, and the
  next identifier. An operation is a function from a database and its arguments to a result or the
  exception it raises, and the database after its transaction (\<open>outcome\<close>); one that raises before it
  commits returns the database unchanged, as the session is rolled back. Money is \<open>rat\<close> and
  \<open>quantize n\<close> is the decimal quantisation with its rounding, instants are microseconds since the
  epoch, JSON values are the datatype \<open>json\<close>. The clock, SHA-256 (\<open>sha\<close>), the pydantic validation of
  a policy document (\<open>vd\<close>), PyJWT (\<open>jwt_module\<close>), the tier limits, the cost records and the SCIM data
  are arguments. What other transactions do at the points where the code defends itself against them
  (the row lock of the gate, the conditional updates of token consumption, reconciliation and
  leasing, the unique keys) is an argument or a second database.

  The job queue is the record \<open>job_db\<close>, and billing extends it to \<open>bill_db\<close>. A handler of the queue and a
  webhook work on a session (\<open>bill_session\<close>): the rows as the session sees them beside the committed
  ones, with commit and rollback where the code has them. The exchange rates are in three stores
  (\<open>fx_state\<close>). Fernet, HMAC, the blind index, the JSON decoder, the payment provider, the central bank
  and mail are functions in the environment (\<open>bill_env\<close>) or arguments; the properties that need a law of
  one of them (such as decryption after encryption) name it as a hypothesis. The database of remediation, \<open>rem_db\<close>, extends the job queue too and has
  the list of the actions carried out in the cloud; an execution is two operations on it, before and
  after its status is committed, and the answers of a provider are functions in \<open>rem_env\<close>. The budget for language models has its own
  rows (\<open>llm_db\<close>) in a session with the committed rows (\<open>llm_session\<close>), beside the counters of the process and the
  store of Redis (\<open>llm_runtime\<close>); the commands of Redis, which may raise, are functions in \<open>llm_env\<close>, and what the
  steps of one analysis raise or answer is its \<open>analysis_course\<close>.

  \<^bold>\<open>Theories.\<close>
  \<^item> Base_Prelude, Base_Decimal, Base_Calendar, Base_Json, Base_IsoTime: results, text, tables as lists
    of rows, decimals on a grid, the Gregorian calendar, JSON values, ISO times and their round trip.
  \<^item> Base_Draw: the locale \<open>draw\<close> of drawing an amount from a sequence of bounded sources, interpreted
    by the waterfall's pools and by the credit grants. Base_Machine: the locales \<open>machine\<close>,
    \<open>monotone_machine\<close> and \<open>ranked_machine\<close> of step relations, interpreted by the action state
    machine, the action table, the whole control plane, the job queue, the life of a job, billing, the hard cap, remediation, attribution
    and the slots for calls of language models.
  \<^item> Enf_Models, Enf_Utils: the rows of src/app/models/enforcement_*.py and service_utils.py.
  \<^item> Enf_Waterfall (waterfall_ops.py): the staged waterfall, and that it refines a declarative
    specification, stays within every headroom, funds exactly and in priority order.
  \<^item> Enf_Credit, Enf_Settlement (budget_credit_ops.py, credit_ops.py): reservation and settlement of
    credit, exact to the last unit, and that settling without consumption undoes reserving.
  \<^item> Enf_Policy, Enf_Permissions, Enf_Routing, Enf_Context (policy_document.py, policy_contract_ops.py,
    src/app/shared/core/approval_permissions.py, approval_routing_ops.py, computed_context_ops.py):
    policies as normalised contracts, who may review, risk and forecast.
  \<^item> Enf_Ledger, Enf_Gate (runtime_query_ops.py, service_runtime_*_ops.py, gate_evaluation_*_ops.py):
    the gate; Enf_Gate_Facts, Enf_Gate_Correct and Enf_Gate_Theorems: its invariant, limits,
    idempotency, races and totality.
  \<^item> Enf_Token, Enf_Release, Enf_Approval (approval_token_ops.py, approval_flow_ops.py) with
    Enf_Approval_Facts, Enf_Approval_Samples and Enf_Approval_Theorems: requests, reviews, tokens.
  \<^item> Enf_Reconcile (reconciliation_flow_ops.py, reconciliation_ops.py) with Enf_Reconcile_Facts and
    Enf_Reconcile_Theorems: exact and single settlement, the overdue sweep.
  \<^item> Enf_Actions (actions.py, actions_terminal_ops.py) with Enf_Action_Machine and
    Enf_Action_Theorems: the orchestrator refines a state machine that ends.
  \<^item> Enf_Canonical, Base_Csv: the canonical JSON text determines its value, the written CSV its rows.
    Enf_Export (export_bundle_ops.py, export_bundle_csv.py) with Enf_Export_Theorems: parity, lineage,
    CSV and the signed manifest. Enf_Worker (reconciliation_worker.py): the periodic worker.
  \<^item> Enf_System: all operations as one transition system, with the invariant \<open>sys_inv\<close> and the
    relation \<open>history\<close>; the properties of whole runs are below.
  \<^item> Job_Queue (src/app/models/background_job.py, src/app/modules/governance/domain/jobs/processor.py, the
    stuck-job detector and the purge): enqueueing, batches, retries. Job_Machine and Job_Life: the queue
    and a single job as state machines. Job_Workers: the locale \<open>job_handlers\<close> between the queue and the
    handlers it runs. Job_Theorems: exclusive execution, bounded lives, what is lost in a failed batch.
  \<^item> Fx_Rates, Fx_Theorems (src/app/shared/core/currency.py, currency_ops.py): the stores of exchange
    rates; strict callers only see official rates, how old those can be, and how a stale rate is renewed.
  \<^item> Price_Tiers, Price_Theorems (src/app/shared/core/pricing*.py): catalogue, tier lookup and caches.
  \<^item> Gov_Audit (src/app/modules/governance/domain/security/audit_log.py): masked audit entries.
    Gov_HardCap (src/app/shared/remediation/hard_cap_service.py and its endpoint): enforcement and
    reversal, the round trip through the audit log, and how a second enforcement loses it.
  \<^item> Bill_Models, Bill_Service, Bill_Dunning, Bill_Webhook, Bill_Handlers
    (src/app/modules/billing/domain/billing, the billing handlers of the queue and the sweep): checkout,
    renewal, cancellation, dunning, webhooks. Bill_Machine and Bill_Runs: what billing writes for a
    tenant as a transition system, and the interpretation of \<open>job_handlers\<close> by the handlers of billing.
    Bill_Samples, Bill_Theorems, Bill_Charges: isolation of tenants, authenticity of webhooks, exact
    renewal charges and dates, and the course of dunning.
  \<^item> Opt_Policy (the policy engine, src/app/modules/governance/domain/security/remediation_policy.py, with
    the profile of a connection), Opt_Workflow (remediation_workflow.py and remediation_context.py under
    src/app/modules/optimization/domain), Opt_Execution (remediation_execute.py with its helpers, the
    guards of src/app/shared/core/safety_service.py, the template of actions/base.py), Opt_Entry (the job
    handler, the endpoints of zombies.py, remediation_hard_limit.py,
    src/app/shared/remediation/autonomous.py). Opt_Machine: the two halves of executions as a transition
    system with the invariant \<open>rem_inv\<close>. Opt_Samples, Opt_Theorems: every entry point is a run of the
    machine, nothing is carried out twice or ungated, the grace period, and what the guards, the
    stuck-job detector and the hard limit do to requests.
  \<^item> Rep_Attribution (the attribution engine under src/app/modules/reporting/domain, its endpoints and the
    reports on coverage and governance), Rep_Theorems: accepted rules as an invariant, conservation of
    cost, recalculation, and what conditions and reports miss.
  \<^item> Llm_Models, Llm_FairUse, Llm_Budget, Llm_Client (src/app/shared/llm with src/app/models/llm.py and the
    analysis job, src/app/modules/governance/domain/jobs/handlers/finops.py): prices, quotas and guards,
    reservation and recording, the choice of provider, model and key, and the course of an analysis.
    Llm_Facts: what the operations do to the budget row, the usage rows and the counters. Llm_Slots: the
    calls in flight of all tenants as a transition system. Llm_Samples, Llm_Theorems, Llm_Runs: the accounting
    of an analysis, what reservations leave behind, the request that denies itself, slots that are
    lost, the models that may be called, and the daily quota along the analysis job.

  \<^bold>\<open>Bounds.\<close> Loops are structural recursion over the rows they visit; the lease loop makes five
  attempts as in the code, and without interference the first one succeeds. Every numeric clamp of
  the code is \<open>clamp\<close>. Integers are unbounded as in Python.

  \<^bold>\<open>Not modelled.\<close> Metrics and logging; the order of rows with equal sort keys, which the code leaves
  to the database and the model fixes by insertion order; the classes that only pass arguments on
  (service.py, service_*_ops.py) and the HTTP layer; the wording of notifications; column widths and
  failures of the database; of billing, the listings of plans and usage and the webhooks of other
  providers; of governance, the endpoints of SCIM and settings; of optimisation, the scans for candidates and the
  heuristics over what they find, the preview of the policy, the resolution of credentials, the
  infrastructure-as-code plans, the calls inside the strategies (arguments here), the cache of settings
  within a service object, and the checks of role, feature and rate that the web framework makes before an
  endpoint runs; of language models, the texts of prompts, the masking and parsing of texts, the cache of results, the
  clients of the providers and the metrics of client addresses; and the rest of reporting and notifications, which are
  mostly orchestration of external services. The list of actions carried out has no backups. A commit
  inside a handler ends the savepoint of the batch; that the database layer may then refuse further
  statements of the batch is not modelled. \<open>fromisoformat\<close> is modelled on the extended ISO format, the
  only one the program stores.
\<close>

section \<open>Properties of the whole control plane\<close>

text \<open>
  C1. Starting from empty tables, no sequence of operations of any tenants, in any order and with any
  arguments and outcomes, leaves the invariant of the control plane: unique keys, grant books that
  balance, active reservations covered by open allocations, budgets on the money grid, attempts of
  actions within bounds, tokens only on approved requests, and no action for a decision that was
  denied or that still lacks its required approval.
\<close>

theorem control_plane_invariant:
  assumes "enf_step\<^sup>*\<^sup>* empty_db db"
  shows "sys_inv db"
  using assms empty_db_sys by (rule plane.run_inv)

lemma control_plane_invariant_witness:
  "\<exists>db. enf_step\<^sup>*\<^sup>* empty_db db \<and> db_budgets db \<noteq> [] \<and> sys_inv db"
proof -
  obtain b db where run: "upsert_budget empty_db 7 1 ''web'' 12 True = (Inr b, db)" "db_budgets db \<noteq> []"
    by (simp add: upsert_budget_def empty_db_def first_row_def Let_def)
  then have "enf_step\<^sup>*\<^sup>* empty_db db" by (auto intro: enf_step.budget)
  with control_plane_invariant run(2) show ?thesis by blast
qed

text \<open>
  C3. Nothing recorded is taken back: along every sequence of operations the ledger only grows, every
  decision keeps its keys, outcome, fingerprint and amount and is never reserved again once released,
  every reviewed request keeps its verdict, reviewer and token hash, a consumed token stays consumed
  at its time, and every action only moves along its state machine.
\<close>

theorem control_plane_history:
  assumes "sys_inv db" and "enf_step\<^sup>*\<^sup>* db db'"
  shows "(\<exists>entries. db_ledger db' = db_ledger db @ entries)
    \<and> (\<forall>d \<in> set (db_decisions db). \<exists>d' \<in> set (db_decisions db'). decision_keeps d d')
    \<and> (\<forall>a \<in> set (db_approvals db). \<exists>a' \<in> set (db_approvals db'). approval_moves a a')
    \<and> (\<forall>x \<in> set (db_actions db). \<exists>x' \<in> set (db_actions db'). action_step\<^sup>*\<^sup>* x x')"
  using plane.run_below [OF assms(2,1)] by (simp add: history_def rows_kept_def)

lemma control_plane_history_witness:
  "\<exists>db'. enf_step\<^sup>*\<^sup>* sample_review_db db'
     \<and> (\<exists>a' \<in> set (db_approvals db'). approval_moves (sample_approval 20 9 3) a')"
proof -
  obtain a' d' db' where "deny_request (Inr sample_identity) sample_validate sample_sha sample_review_db 7 20 sample_owner None 200
      = (Inr (a', d'), db')" by (rule sample_denied)
  then have run: "enf_step\<^sup>*\<^sup>* sample_review_db db'" by (auto intro: enf_step.deny)
  have "sample_approval 20 9 3 \<in> set (db_approvals sample_review_db)" by (simp add: sample_review_db_def)
  with control_plane_history [OF sample_review_sys run] run show ?thesis by blast
qed

text \<open>
  C2. An approval token is used at most once: after a consumption has succeeded, no later consumption
  succeeds for the same request, whatever operations happen in between and whatever token is shown,
  and one that had already passed all its checks before the first one committed is turned away as a
  replay without a change.
\<close>

theorem token_single_use:
  assumes "sys_inv db"
    and "consume_approval_token sha jwt st db tenant_id token actor_id expected now = (Inr (a, d), db1)"
    and "enf_step\<^sup>*\<^sup>* db1 db2"
  shows "(\<forall>token2 user2 expected2 a2 d2 db3.
       consume_approval_token sha2 jwt2 st2 db2 tenant2 token2 user2 expected2 later = (Inr (a2, d2), db3) \<longrightarrow> ar_id a2 \<noteq> ar_id a)
    \<and> (\<forall>a2 d2. ar_id a2 = ar_id a \<longrightarrow>
         mark_consumed db2 tenant_id a2 d2 user later = (Inl (HTTPException 409 ''Approval token replay detected''), db2))"
proof -
  have sys1: "sys_inv db1" using enf_step_sys [OF enf_step.consume [OF assms(2)] assms(1)] by blast
  have sys2: "sys_inv db2" by (rule plane.run_inv [OF assms(3) sys1])
  note inv2 = sys_invD(1) [OF sys2]
  from assms(2) sys_invD(1) [OF assms(1)] have a: "a \<in> set (db_approvals db1)" "ar_approval_token_consumed_at a = Some now"
    by (auto elim!: consumed_once)
  from plane.run_below [OF assms(3) sys1] a(1) obtain b where b: "b \<in> set (db_approvals db2)" "approval_moves a b"
    by (auto simp: history_def rows_kept_def)
  have used: "ar_approval_token_consumed_at b \<noteq> None" "ar_id b = ar_id a" using b(2) a(2) by (auto simp: approval_moves_def)
  have only: "r = b" if "r \<in> set (db_approvals db2)" "ar_id r = ar_id a" for r
    using that b(1) used(2) enf_invD(4) [OF inv2] by (auto simp: distinct_map inj_on_def)
  have "ar_id a2 \<noteq> ar_id a"
    if run: "consume_approval_token sha2 jwt2 st2 db2 tenant2 token2 user2 expected2 later = (Inr (a2, d2), db3)"
    for token2 user2 expected2 a2 d2 db3
  proof
    assume same: "ar_id a2 = ar_id a"
    from run inv2 obtain a3 d3 where c: "check_token sha2 jwt2 st2 db2 tenant2 token2 expected2 later = Inr (a3, d3)"
      "ar_id a2 = ar_id a3" "ar_approval_token_consumed_at a3 = None" by (auto elim!: consumed_once)
    with only [OF check_token_rows(1) [OF c(1)]] same used(1) show False by simp
  qed
  moreover have "mark_consumed db2 tenant_id a2 d2 user later = (Inl (HTTPException 409 ''Approval token replay detected''), db2)"
    if "ar_id a2 = ar_id a" for a2 d2
  proof -
    have "count_where (unconsumed (ar_id a2) tenant_id) (db_approvals db2) = 0"
      using that used(1) by (auto simp: count_where_def unconsumed_def filter_empty_conv dest: only)
    then show ?thesis by (simp add: mark_consumed_def reject_def)
  qed
  ultimately show ?thesis by blast
qed

lemma token_single_use_witness:
  "\<exists>db' a d db1. consume_approval_token sample_sha (sample_jwt sample_claims) sample_settings db' 7 sample_token None
      no_expectations 300 = (Inr (a, d), db1)
    \<and> mark_consumed db1 7 a d None 400 = (Inl (HTTPException 409 ''Approval token replay detected''), db1)"
proof -
  obtain a' d' db' a d db1 where run: "sample_approve 200 = (Inr (a', d', sample_token, sample_until), db')"
    "consume_approval_token sample_sha (sample_jwt sample_claims) sample_settings db' 7 sample_token None no_expectations 300
      = (Inr (a, d), db1)" by (rule sample_consumed)
  have "sys_inv db'" using approve_sys [OF sample_review_sys run(1)] by blast
  from token_single_use [OF this run(2) rtranclp.rtrancl_refl] run(2) show ?thesis by blast
qed

end
